(* ===== verification/Prelude.thy ===== *)
theory Prelude
  imports Main
begin

text \<open>
  Shared vocabulary of the development: JSON values as the Python code sees them after
  \<^verbatim>\<open>json.loads\<close>, the Python dictionary and truth-value conventions, results of code
  that can raise, and runs of operations over a state.

  Strings are HOL's \<^typ>\<open>string\<close>: the bytes of the UTF-8 text. Equality and the
  substring test on bytes agree with those on Python strings. A Python \<^verbatim>\<open>int\<close> is
  \<^typ>\<open>int\<close>; floating-point numbers do not occur in the payloads modelled here.
\<close>

named_theorems result_simps \<open>facts on computations that can raise\<close>

section \<open>JSON values and Python conventions\<close>

datatype json =
    JNull
  | JBool bool
  | JInt int
  | JStr string
  | JList "json list"
  | JObj "(string \<times> json) list"

type_synonym dict = "(string \<times> json) list"

text \<open>Truth value of a Python object.\<close>

fun truthy :: "json \<Rightarrow> bool" where
  "truthy JNull = False"
| "truthy (JBool b) = b"
| "truthy (JInt i) = (i \<noteq> 0)"
| "truthy (JStr s) = (s \<noteq> [])"
| "truthy (JList xs) = (xs \<noteq> [])"
| "truthy (JObj d) = (d \<noteq> [])"

text \<open>Lists and dictionaries are unhashable: using one as a key or testing its
  membership in a set raises \<^verbatim>\<open>TypeError\<close>.\<close>

fun hashable :: "json \<Rightarrow> bool" where
  "hashable (JList xs) = False"
| "hashable (JObj d) = False"
| "hashable _ = True"

text \<open>\<^verbatim>\<open>d.get(k)\<close> and \<^verbatim>\<open>d.get(k, v)\<close>.\<close>

definition dget :: "dict \<Rightarrow> string \<Rightarrow> json" where
  "dget d k = (case map_of d k of None \<Rightarrow> JNull | Some v \<Rightarrow> v)"

definition dget_or :: "dict \<Rightarrow> string \<Rightarrow> json \<Rightarrow> json" where
  "dget_or d k v = (case map_of d k of None \<Rightarrow> v | Some w \<Rightarrow> w)"

text \<open>\<^verbatim>\<open>d[k] = v\<close>: an existing key keeps its place, a new one goes to the end.\<close>

fun dset :: "('k \<times> 'v) list \<Rightarrow> 'k \<Rightarrow> 'v \<Rightarrow> ('k \<times> 'v) list" where
  "dset [] k v = [(k, v)]"
| "dset ((k', w) # d) k v = (if k' = k then (k', v) # d else (k', w) # dset d k v)"

text \<open>\<^verbatim>\<open>d | e\<close> and \<^verbatim>\<open>d.update(e)\<close>: the entries of the second dictionary win.\<close>

definition dmerge :: "('k \<times> 'v) list \<Rightarrow> ('k \<times> 'v) list \<Rightarrow> ('k \<times> 'v) list" where
  "dmerge d e = foldl (\<lambda>acc (k, v). dset acc k v) d e"

text \<open>\<^verbatim>\<open>d.setdefault(k, v)\<close>, as the dictionary it leaves.\<close>

definition dsetdefault :: "('k \<times> 'v) list \<Rightarrow> 'k \<Rightarrow> 'v \<Rightarrow> ('k \<times> 'v) list" where
  "dsetdefault d k v = (case map_of d k of None \<Rightarrow> d @ [(k, v)] | Some _ \<Rightarrow> d)"

lemma map_of_dset [simp]: "map_of (dset d k v) = (map_of d)(k \<mapsto> v)"
  by (induction d k v rule: dset.induct) auto

lemma keys_dset [simp]: "fst ` set (dset d k v) = insert k (fst ` set d)"
  by (induction d k v rule: dset.induct) auto

lemma dset_new: "k \<notin> fst ` set d \<Longrightarrow> dset d k v = d @ [(k, v)]"
  by (induction d k v rule: dset.induct) auto

lemma distinct_dset: "distinct (map fst d) \<Longrightarrow> distinct (map fst (dset d k v))"
proof (induction d k v rule: dset.induct)
  case (2 k' w d k v)
  then show ?case
    using keys_dset [of d k v] by auto
qed simp

lemma map_of_dsetdefault [simp]:
  "map_of (dsetdefault d k v) =
     (case map_of d k of None \<Rightarrow> (map_of d)(k \<mapsto> v) | Some _ \<Rightarrow> map_of d)"
  by (auto simp: dsetdefault_def map_add_def fun_eq_iff split: option.splits)

lemma map_of_dmerge_other: "k \<notin> fst ` set e \<Longrightarrow> map_of (dmerge d e) k = map_of d k"
proof (induction e arbitrary: d)
  case (Cons kv e)
  then show ?case by (cases kv) (auto simp: dmerge_def)
qed (simp add: dmerge_def)

lemma map_of_dmerge:
  "distinct (map fst e) \<Longrightarrow>
   map_of (dmerge d e) k = (case map_of e k of None \<Rightarrow> map_of d k | Some v \<Rightarrow> Some v)"
proof (induction e arbitrary: d)
  case (Cons kv e)
  obtain j v where kv: "kv = (j, v)" by fastforce
  have "map_of e j = None" using Cons.prems by (simp add: kv map_of_eq_None_iff)
  then show ?case using Cons by (auto simp: kv dmerge_def split: option.splits)
qed (simp add: dmerge_def)

lemma dget_dset [simp]: "dget (dset d k v) j = (if j = k then v else dget d j)"
  by (simp add: dget_def)

subsection \<open>\<^verbatim>\<open>str(x)\<close>\<close>

text \<open>Decimal notation of an integer.\<close>

definition digit_char :: "nat \<Rightarrow> char" where
  "digit_char n = char_of (48 + n :: nat)"

fun nat_str :: "nat \<Rightarrow> string" where
  "nat_str n = (if n < 10 then [digit_char n] else nat_str (n div 10) @ [digit_char (n mod 10)])"

declare nat_str.simps [simp del]

definition int_str :: "int \<Rightarrow> string" where
  "int_str i = (if i < 0 then CHR ''-'' # nat_str (nat (- i)) else nat_str (nat i))"

text \<open>\<^verbatim>\<open>repr\<close> of a string picks single quotes unless the text holds a single quote
  and no double quote; control characters are escaped.\<close>

definition hex_digit :: "nat \<Rightarrow> char" where
  "hex_digit n = (if n < 10 then digit_char n else char_of (87 + n :: nat))"

definition repr_char :: "char \<Rightarrow> char \<Rightarrow> string" where
  "repr_char q c =
     (if c = q \<or> c = CHR 0x5C then [CHR 0x5C, c]
      else if c = CHR 0x0A then [CHR 0x5C, CHR ''n'']
      else if c = CHR 0x0D then [CHR 0x5C, CHR ''r'']
      else if c = CHR 0x09 then [CHR 0x5C, CHR ''t'']
      else if (of_char c :: nat) < 32 \<or> of_char c = (127 :: nat)
        then [CHR 0x5C, CHR ''x'', hex_digit (of_char c div 16), hex_digit (of_char c mod 16)]
      else [c])"

definition repr_str :: "string \<Rightarrow> string" where
  "repr_str s =
     (let q = (if CHR 0x27 \<in> set s \<and> CHR 0x22 \<notin> set s then CHR 0x22 else CHR 0x27)
      in q # concat (map (repr_char q) s) @ [q])"

fun join_sep :: "string \<Rightarrow> string list \<Rightarrow> string" where
  "join_sep sep [] = []"
| "join_sep sep [x] = x"
| "join_sep sep (x # y # xs) = x @ sep @ join_sep sep (y # xs)"

fun py_repr :: "json \<Rightarrow> string" where
  "py_repr JNull = ''None''"
| "py_repr (JBool b) = (if b then ''True'' else ''False'')"
| "py_repr (JInt i) = int_str i"
| "py_repr (JStr s) = repr_str s"
| "py_repr (JList xs) = ''['' @ join_sep '', '' (map py_repr xs) @ '']''"
| "py_repr (JObj d) =
     ''{'' @ join_sep '', '' (map (\<lambda>(k, v). repr_str k @ '': '' @ py_repr v) d) @ ''}''"

fun py_str :: "json \<Rightarrow> string" where
  "py_str (JStr s) = s"
| "py_str v = py_repr v"

text \<open>The value a key stands for in a dictionary: Python identifies \<^verbatim>\<open>True\<close> with 1 and
  \<^verbatim>\<open>False\<close> with 0.\<close>

definition dict_key :: "json \<Rightarrow> json" where
  "dict_key v = (case v of JBool b \<Rightarrow> JInt (if b then 1 else 0) | _ \<Rightarrow> v)"

lemma dict_key_JStr [simp]: "dict_key (JStr s) = JStr s"
  by (simp add: dict_key_def)

text \<open>\<^verbatim>\<open>int(x)\<close> where the caller catches \<^verbatim>\<open>TypeError\<close> and \<^verbatim>\<open>ValueError\<close>: decimal text may
  carry blanks around it, a sign, and single underscores between digits. Digits are those of ASCII.\<close>

definition is_digit :: "char \<Rightarrow> bool" where
  "is_digit c \<longleftrightarrow> (48 :: nat) \<le> of_char c \<and> of_char c \<le> (57 :: nat)"

definition digit_val :: "char \<Rightarrow> int" where
  "digit_val c = of_char c - 48"

text \<open>The characters of a text: a byte that does not continue one starts one. White space is
  that of \<^verbatim>\<open>str.strip()\<close>, the ideographic blank of Chinese text included.\<close>

definition continues :: "char \<Rightarrow> bool" where
  "continues c \<longleftrightarrow> (128 :: nat) \<le> of_char c \<and> of_char c < (192 :: nat)"

function utf8_chars :: "string \<Rightarrow> string list" where
  "utf8_chars [] = []"
| "utf8_chars (c # cs) = (c # takeWhile continues cs) # utf8_chars (dropWhile continues cs)"
  by pat_completeness auto

termination utf8_chars
  by (relation "measure length") (simp_all add: length_dropWhile_le le_imp_less_Suc)

lemma concat_utf8_chars [simp]: "concat (utf8_chars s) = s"
  by (induction s rule: utf8_chars.induct) simp_all

definition is_blank :: "string \<Rightarrow> bool" where
  "is_blank c \<longleftrightarrow> map of_char c \<in> set
     ([[9], [10], [11], [12], [13], [28], [29], [30], [31], [32], [194, 133], [194, 160],
       [225, 154, 128], [226, 128, 168], [226, 128, 169], [226, 128, 175], [226, 129, 159],
       [227, 128, 128 :: nat]] @ map (\<lambda>i. [226, 128, 128 + i]) [0..<11])"

definition strip_blanks :: "string \<Rightarrow> string" where
  "strip_blanks s = concat (rev (dropWhile is_blank (rev (dropWhile is_blank (utf8_chars s)))))"

fun parse_digits :: "int \<Rightarrow> string \<Rightarrow> int option" where
  "parse_digits acc [] = Some acc"
| "parse_digits acc (c # cs) =
     (if is_digit c then parse_digits (10 * acc + digit_val c) cs
      else if c = CHR ''_'' then
        (case cs of d # _ \<Rightarrow> if is_digit d then parse_digits acc cs else None | [] \<Rightarrow> None)
      else None)"

definition parse_int :: "string \<Rightarrow> int option" where
  "parse_int s =
     (case strip_blanks s of
        c # cs \<Rightarrow>
          if c = CHR ''-'' \<or> c = CHR ''+'' then
            (case cs of d # _ \<Rightarrow> if is_digit d
               then map_option (\<lambda>i. if c = CHR ''-'' then - i else i) (parse_digits 0 cs) else None
             | [] \<Rightarrow> None)
          else if is_digit c then parse_digits 0 (c # cs) else None
      | [] \<Rightarrow> None)"

fun py_int :: "json \<Rightarrow> int option" where
  "py_int (JInt i) = Some i"
| "py_int (JBool b) = Some (if b then 1 else 0)"
| "py_int (JStr s) = parse_int s"
| "py_int _ = None"

text \<open>\<^verbatim>\<open>a or b\<close> on values.\<close>

definition py_or :: "json \<Rightarrow> json \<Rightarrow> json" where
  "py_or a b = (if truthy a then a else b)"

section \<open>Code that can raise\<close>

datatype py_error = KeyError string | TypeError | AttributeError | StopIteration | ValueError | OverflowError

definition bindE :: "'e + 'a \<Rightarrow> ('a \<Rightarrow> 'e + 'b) \<Rightarrow> 'e + 'b" where
  "bindE m f = (case m of Inl e \<Rightarrow> Inl e | Inr x \<Rightarrow> f x)"

definition guardE :: "bool \<Rightarrow> 'e \<Rightarrow> 'e + unit" where
  "guardE b e = (if b then Inr () else Inl e)"

text \<open>An exception of one layer passed on as an exception of the next.\<close>

definition raiseE :: "('d \<Rightarrow> 'e) \<Rightarrow> 'd + 'a \<Rightarrow> 'e + 'a" where
  "raiseE h m = (case m of Inl e \<Rightarrow> Inl (h e) | Inr x \<Rightarrow> Inr x)"

text \<open>\<^verbatim>\<open>for x in v\<close>: a list gives its elements, a string its characters, a dictionary its
  keys; anything else is not iterable.\<close>

definition py_iter :: "json \<Rightarrow> py_error + json list" where
  "py_iter v =
     (case v of
        JList xs \<Rightarrow> Inr xs
      | JStr s \<Rightarrow> Inr (map (\<lambda>c. JStr [c]) s)
      | JObj d \<Rightarrow> Inr (map (\<lambda>(k, _). JStr k) d)
      | _ \<Rightarrow> Inl TypeError)"

text \<open>A \<^verbatim>\<open>for\<close> loop whose body updates a state and may raise.\<close>

fun forE :: "('s \<Rightarrow> 'a \<Rightarrow> 'e + 's) \<Rightarrow> 's \<Rightarrow> 'a list \<Rightarrow> 'e + 's" where
  "forE f s [] = Inr s"
| "forE f s (x # xs) = bindE (f s x) (\<lambda>s'. forE f s' xs)"

lemma bindE_simps [simp]:
  "bindE (Inl e) f = Inl e"
  "bindE (Inr x) f = f x"
  by (simp_all add: bindE_def)

lemma bindE_cong [fundef_cong]:
  "m = n \<Longrightarrow> (\<And>x. n = Inr x \<Longrightarrow> f x = g x) \<Longrightarrow> bindE m f = bindE n g"
  by (cases n) auto

lemma bindE_Inr_iff [result_simps]: "bindE m f = Inr y \<longleftrightarrow> (\<exists>x. m = Inr x \<and> f x = Inr y)"
  by (cases m) auto

lemma bindE_Inl_iff [result_simps]:
  "bindE m f = Inl e \<longleftrightarrow> m = Inl e \<or> (\<exists>x. m = Inr x \<and> f x = Inl e)"
  by (cases m) auto

lemma guardE_Inr_iff [simp]: "guardE b e = Inr u \<longleftrightarrow> b"
  by (simp add: guardE_def)

lemma guardE_Inl_iff [simp]: "guardE b e = Inl e' \<longleftrightarrow> \<not> b \<and> e' = e"
  by (auto simp: guardE_def)

lemma guardE_simps [simp]: "guardE True e = Inr ()" "guardE False e = Inl e"
  by (simp_all add: guardE_def)

lemma raiseE_simps [simp]: "raiseE h (Inl d) = Inl (h d)" "raiseE h (Inr x) = Inr x"
  by (simp_all add: raiseE_def)

lemma raiseE_Inr_iff [result_simps]: "raiseE h m = Inr x \<longleftrightarrow> m = Inr x"
  by (cases m) auto

lemma raiseE_Inl_iff [result_simps]: "raiseE h m = Inl e \<longleftrightarrow> (\<exists>d. m = Inl d \<and> e = h d)"
  by (cases m) auto

lemma if_Inl_iff [result_simps]:
  "(if b then Inl e else m) = Inr x \<longleftrightarrow> \<not> b \<and> m = Inr x"
  "(if b then m else Inl e) = Inr x \<longleftrightarrow> b \<and> m = Inr x"
  by auto

lemma forE_append [simp]: "forE f s (xs @ ys) = bindE (forE f s xs) (\<lambda>t. forE f t ys)"
  by (induction xs arbitrary: s) (auto simp: bindE_def split: sum.splits)

text \<open>The loop rule: what every successful iteration keeps holds at the end.\<close>

lemma forE_invariant:
  assumes "forE f s xs = Inr t" and "I s"
    and "\<And>s x s'. x \<in> set xs \<Longrightarrow> I s \<Longrightarrow> f s x = Inr s' \<Longrightarrow> I s'"
  shows "I t"
  using assms
proof (induction xs arbitrary: s)
  case (Cons x xs)
  then obtain s' where "f s x = Inr s'" "forE f s' xs = Inr t"
    by (auto simp: bindE_Inr_iff)
  with Cons show ?case by (metis list.set_intros(1) list.set_intros(2))
qed simp

text \<open>What one iteration establishes and the others keep holds at the end.\<close>

lemma forE_establishes:
  assumes "forE f s xs = Inr t" and "x \<in> set xs"
    and "\<And>s s'. f s x = Inr s' \<Longrightarrow> P s'"
    and "\<And>s y s'. P s \<Longrightarrow> f s y = Inr s' \<Longrightarrow> P s'"
  shows "P t"
  using assms(1,2)
proof (induction xs arbitrary: s)
  case (Cons y ys)
  then obtain s' where s': "f s y = Inr s'" "forE f s' ys = Inr t"
    by (auto simp: bindE_Inr_iff)
  show ?case
  proof (cases "x = y")
    case True
    then have "P s'" using s'(1) assms(3) by simp
    with s'(2) show ?thesis
      by (rule forE_invariant) (use assms(4) in blast)
  next
    case False
    then show ?thesis using Cons s'(2) by auto
  qed
qed simp

lemma forE_total:
  assumes "\<And>s x. x \<in> set xs \<Longrightarrow> \<exists>t. f s x = Inr t"
  shows "\<exists>t. forE f s xs = Inr t"
  using assms
proof (induction xs arbitrary: s)
  case (Cons x xs)
  then obtain t where "f s x = Inr t" by fastforce
  then show ?case using Cons by fastforce
qed simp

lemma forE_error: "forE f s xs = Inl e \<Longrightarrow> \<exists>t x. x \<in> set xs \<and> f t x = Inl e"
  by (induction xs arbitrary: s) (auto simp: bindE_Inl_iff, blast+)

text \<open>\<^verbatim>\<open>d[k]\<close> and \<^verbatim>\<open>x in {"a", ...}\<close>.\<close>

definition dict_item :: "dict \<Rightarrow> string \<Rightarrow> py_error + json" where
  "dict_item d k = (case map_of d k of None \<Rightarrow> Inl (KeyError k) | Some v \<Rightarrow> Inr v)"

definition str_in :: "json \<Rightarrow> string list \<Rightarrow> py_error + bool" where
  "str_in v xs =
     (if hashable v then Inr (case v of JStr s \<Rightarrow> s \<in> set xs | _ \<Rightarrow> False) else Inl TypeError)"

lemma str_in_Inr_iff [result_simps]:
  "str_in v xs = Inr b \<longleftrightarrow> hashable v \<and> b = (\<exists>s. v = JStr s \<and> s \<in> set xs)"
  by (auto simp: str_in_def split: json.splits)

lemma dict_item_Inr_iff [result_simps]: "dict_item d k = Inr v \<longleftrightarrow> map_of d k = Some v"
  by (simp add: dict_item_def split: option.splits)

text \<open>\<^verbatim>\<open>sub in s\<close> on strings, \<^verbatim>\<open>k in v\<close> and \<^verbatim>\<open>v[k]\<close> for a string \<open>k\<close> on any value.\<close>

fun contains :: "string \<Rightarrow> string \<Rightarrow> bool" where
  "contains sub [] = (sub = [])"
| "contains sub (c # cs) = (take (length sub) (c # cs) = sub \<or> contains sub cs)"

definition json_has :: "json \<Rightarrow> string \<Rightarrow> py_error + bool" where
  "json_has v k =
     (case v of
        JObj d \<Rightarrow> Inr (map_of d k \<noteq> None)
      | JList xs \<Rightarrow> Inr (JStr k \<in> set xs)
      | JStr s \<Rightarrow> Inr (contains k s)
      | _ \<Rightarrow> Inl TypeError)"

definition json_item :: "json \<Rightarrow> string \<Rightarrow> py_error + json" where
  "json_item v k = (case v of JObj d \<Rightarrow> dict_item d k | _ \<Rightarrow> Inl TypeError)"

definition json_get :: "json \<Rightarrow> string \<Rightarrow> py_error + json" where
  "json_get v k = (case v of JObj d \<Rightarrow> Inr (dget d k) | _ \<Rightarrow> Inl AttributeError)"

text \<open>\<^verbatim>\<open>d[k][k2] = v\<close>.\<close>

definition set_in :: "string \<Rightarrow> string \<Rightarrow> json \<Rightarrow> dict \<Rightarrow> py_error + dict" where
  "set_in k k2 v d =
     bindE (dict_item d k) (\<lambda>inner. case inner of JObj e \<Rightarrow> Inr (dset d k (JObj (dset e k2 v))) | _ \<Rightarrow> Inl TypeError)"

lemma json_access [simp]:
  "json_has (JObj d) k = Inr (map_of d k \<noteq> None)"
  "json_item (JObj d) k = dict_item d k"
  "json_get (JObj d) k = Inr (dget d k)"
  by (simp_all add: json_has_def json_item_def json_get_def)

section \<open>Counting what a search has not visited\<close>

definition unvisited :: "'a list \<Rightarrow> 'a list \<Rightarrow> nat" where
  "unvisited keys visited = length (filter (\<lambda>k. k \<notin> set visited) keys)"

lemma unvisited_less:
  "cur \<notin> set visited \<Longrightarrow> cur \<in> set keys \<Longrightarrow> unvisited keys (cur # visited) < unvisited keys visited"
proof (induction keys)
  case (Cons k keys)
  have "unvisited keys (cur # visited) \<le> unvisited keys visited"
    by (induction keys) (auto simp: unvisited_def)
  then show ?case using Cons by (auto simp: unvisited_def)
qed simp

lemma unvisited_same: "cur \<notin> set keys \<Longrightarrow> unvisited keys (cur # visited) = unvisited keys visited"
  unfolding unvisited_def by (intro arg_cong [where f = length] filter_cong) auto

section \<open>Runs of operations\<close>

text \<open>
  A component that raises leaves the stored state as it was: the session is closed
  without a commit. A run applies operations in order, skipping over those that raise.
\<close>

definition settle :: "('s \<Rightarrow> 'op \<Rightarrow> 'e + 's) \<Rightarrow> 's \<Rightarrow> 'op \<Rightarrow> 's" where
  "settle step s op = (case step s op of Inl e \<Rightarrow> s | Inr s' \<Rightarrow> s')"

definition run_ops :: "('s \<Rightarrow> 'op \<Rightarrow> 'e + 's) \<Rightarrow> 's \<Rightarrow> 'op list \<Rightarrow> 's" where
  "run_ops step s ops = foldl (settle step) s ops"

lemma run_ops_simps [simp]:
  "run_ops step s [] = s"
  "run_ops step s (op # ops) = run_ops step (settle step s op) ops"
  by (simp_all add: run_ops_def)

lemma run_ops_invariant:
  assumes "I s" and "\<And>s op s'. I s \<Longrightarrow> step s op = Inr s' \<Longrightarrow> I s'"
  shows "I (run_ops step s ops)"
  using assms(1)
proof (induction ops arbitrary: s)
  case (Cons op ops)
  have "I (settle step s op)"
    using assms(2) Cons.prems by (auto simp: settle_def split: sum.splits)
  then show ?case using Cons.IH by simp
qed simp

lemma run_ops_append: "run_ops step s (xs @ ys) = run_ops step (run_ops step s xs) ys"
  by (simp add: run_ops_def)

text \<open>The operation of a run that made a property true.\<close>

lemma run_ops_change:
  "\<not> P s \<Longrightarrow> P (run_ops step s ops) \<Longrightarrow>
   \<exists>pre op post. ops = pre @ op # post \<and> \<not> P (run_ops step s pre) \<and> P (settle step (run_ops step s pre) op)"
proof (induction ops arbitrary: s)
  case (Cons op ops)
  show ?case
  proof (cases "P (settle step s op)")
    case True
    then show ?thesis using Cons.prems(1) by (intro exI [of _ "[]"]) simp
  next
    case False
    from Cons.IH [OF this] Cons.prems(2) obtain pre op' post where
      "ops = pre @ op' # post" "\<not> P (run_ops step (settle step s op) pre)"
      "P (settle step (run_ops step (settle step s op) pre) op')"
      by auto
    then show ?thesis by (intro exI [of _ "op # pre"]) simp
  qed
qed simp

end
