(* ===== verification/Tables.thy ===== *)
theory Tables
  imports Prelude
begin

text \<open>
  Database tables as lists of rows in insertion order, with the few queries the
  repositories use, and the contract the three template engines share (approval flows,
  forms, recommendation rules): a template is born a draft, moves between draft and
  preview, becomes live from preview, and a live template never changes status again.
\<close>

section \<open>Rows, primary keys and version numbers\<close>

text \<open>\<^verbatim>\<open>session.get(Record, id)\<close>.\<close>

definition row_by :: "('r \<Rightarrow> 'k) \<Rightarrow> 'k \<Rightarrow> 'r list \<Rightarrow> 'r option" where
  "row_by idf i rows = find (\<lambda>r. idf r = i) rows"

text \<open>The flush of a changed row object.\<close>

definition put_row :: "('r \<Rightarrow> 'k) \<Rightarrow> 'r \<Rightarrow> 'r list \<Rightarrow> 'r list" where
  "put_row idf r rows = map (\<lambda>x. if idf x = idf r then r else x) rows"

text \<open>\<^verbatim>\<open>select(func.max(version)).where(...)\<close> and then \<^verbatim>\<open>.scalar() or 0\<close>.\<close>

definition max_version :: "('r \<Rightarrow> int) \<Rightarrow> ('r \<Rightarrow> bool) \<Rightarrow> 'r list \<Rightarrow> int" where
  "max_version ver match rows =
     (case map ver (filter match rows) of [] \<Rightarrow> 0 | v # vs \<Rightarrow> fold max vs v)"

text \<open>No two rows agree on a key.\<close>

definition unique_on :: "('r \<Rightarrow> 'k) \<Rightarrow> 'r list \<Rightarrow> bool" where
  "unique_on keyf rows = distinct (map keyf rows)"

lemma row_by_Some_iff:
  "unique_on idf rows \<Longrightarrow> row_by idf i rows = Some r \<longleftrightarrow> r \<in> set rows \<and> idf r = i"
  by (induction rows) (auto simp: row_by_def unique_on_def image_iff)

lemma row_by_SomeD: "row_by idf i rows = Some r \<Longrightarrow> r \<in> set rows \<and> idf r = i"
  by (auto simp: row_by_def find_Some_iff)

lemma row_by_None_iff: "row_by idf i rows = None \<longleftrightarrow> i \<notin> idf ` set rows"
  by (auto simp: row_by_def find_None_iff)

lemma map_put_row_id [simp]: "map idf (put_row idf r rows) = map idf rows"
  by (auto simp: put_row_def)

lemma length_put_row [simp]: "length (put_row idf r rows) = length rows"
  by (simp add: put_row_def)

lemma set_put_row:
  "set (put_row idf r rows) \<subseteq> insert r {x \<in> set rows. idf x \<noteq> idf r}"
  by (auto simp: put_row_def)

lemma in_put_row: "x \<in> set (put_row idf r rows) \<Longrightarrow> x = r \<or> x \<in> set rows \<and> idf x \<noteq> idf r"
  by (auto simp: put_row_def split: if_splits)

lemma row_by_put_row_other: "idf r \<noteq> j \<Longrightarrow> row_by idf j (put_row idf r rows) = row_by idf j rows"
  by (induction rows) (auto simp: row_by_def put_row_def)

lemma row_by_put_row_same:
  "x \<in> set rows \<Longrightarrow> idf x = idf r \<Longrightarrow> row_by idf (idf r) (put_row idf r rows) = Some r"
  by (induction rows) (auto simp: row_by_def put_row_def)

lemma row_by_put_row:
  "x \<in> set rows \<Longrightarrow> idf x = idf r \<Longrightarrow>
   row_by idf j (put_row idf r rows) = (if j = idf r then Some r else row_by idf j rows)"
  using row_by_put_row_same row_by_put_row_other by (metis (no_types))

lemma row_by_append:
  "row_by idf i (xs @ ys) =
     (case row_by idf i xs of None \<Rightarrow> row_by idf i ys | Some r \<Rightarrow> Some r)"
  by (induction xs) (auto simp: row_by_def)

lemma row_by_Cons: "row_by idf i (x # xs) = (if idf x = i then Some x else row_by idf i xs)"
  by (simp add: row_by_def)

lemma row_by_Nil [simp]: "row_by idf i [] = None"
  by (simp add: row_by_def)

lemma fold_max_ge: "(v :: int) \<le> fold max vs v"
  by (induction vs arbitrary: v) (auto, metis max.bounded_iff)

lemma fold_max_upper: "x \<in> set vs \<Longrightarrow> (x :: int) \<le> fold max vs v"
proof (induction vs arbitrary: v)
  case (Cons w vs)
  then show ?case
    using fold_max_ge [of "max w v" vs] by (auto simp: max.bounded_iff)
qed simp

lemma max_version_upper: "r \<in> set rows \<Longrightarrow> match r \<Longrightarrow> ver r \<le> max_version ver match rows"
proof -
  assume "r \<in> set rows" "match r"
  then have mem: "ver r \<in> set (map ver (filter match rows))" by auto
  then show ?thesis
    using fold_max_upper fold_max_ge
    by (cases "map ver (filter match rows)") (auto simp: max_version_def)
qed

lemma max_version_ge0: "(\<And>r. r \<in> set rows \<Longrightarrow> 0 \<le> ver r) \<Longrightarrow> 0 \<le> max_version ver match rows"
proof -
  assume nonneg: "\<And>r. r \<in> set rows \<Longrightarrow> 0 \<le> ver r"
  show ?thesis
  proof (cases "filter match rows")
    case (Cons r rs)
    then have "r \<in> set (filter match rows)" by simp
    then have "r \<in> set rows \<and> match r" by simp
    then show ?thesis using max_version_upper [of r rows match ver] nonneg [of r] by linarith
  qed (simp add: max_version_def)
qed

text \<open>Where two keys are unique, a row may be written back by either.\<close>

lemma unique_on_eq: "unique_on f rows \<Longrightarrow> x \<in> set rows \<Longrightarrow> y \<in> set rows \<Longrightarrow> f x = f y \<longleftrightarrow> x = y"
  by (auto simp: unique_on_def distinct_map dest: inj_onD)

lemma put_row_same_key:
  assumes "unique_on f rows" "unique_on g rows" "x \<in> set rows" "f x = f r" "g x = g r"
  shows "put_row f r rows = put_row g r rows"
  unfolding put_row_def
proof (rule map_cong [OF refl])
  fix y assume "y \<in> set rows"
  then have "f y = f x \<longleftrightarrow> g y = g x" using unique_on_eq assms(1-3) by (metis (no_types))
  then show "(if f y = f r then r else y) = (if g y = g r then r else y)" using assms(4,5) by simp
qed

text \<open>Changing one row to a key no other row has keeps keys unique.\<close>

lemma unique_on_put_row:
  assumes "unique_on idf rows" and "unique_on keyf rows"
    and "\<And>x. x \<in> set rows \<Longrightarrow> idf x \<noteq> idf r \<Longrightarrow> keyf x \<noteq> keyf r"
  shows "unique_on keyf (put_row idf r rows)"
  using assms
proof (induction rows)
  case (Cons x rows)
  have tail: "unique_on keyf (put_row idf r rows)"
    using Cons by (auto simp: unique_on_def)
  have "keyf (if idf x = idf r then r else x) \<notin> keyf ` set (put_row idf r rows)"
  proof (cases "idf x = idf r")
    case True
    then have "put_row idf r rows = rows"
      using Cons.prems(1) by (auto simp: unique_on_def put_row_def image_iff intro!: map_idI)
    moreover have "keyf y \<noteq> keyf r" if "y \<in> set rows" for y
    proof -
      have "idf y \<noteq> idf r" using that True Cons.prems(1)
        by (metis distinct.simps(2) imageI list.set_map list.simps(9) unique_on_def)
      then show ?thesis using that Cons.prems(3) [of y] by simp
    qed
    ultimately show ?thesis using True by force
  next
    case False
    then show ?thesis
      using Cons.prems(2,3) by (auto simp: unique_on_def dest!: in_put_row)
  qed
  then show ?case
    using tail by (auto simp: unique_on_def put_row_def)
qed (simp add: unique_on_def put_row_def)

section \<open>Queries for at most one row\<close>

text \<open>\<^verbatim>\<open>scalar_one_or_none()\<close> raises when the query finds two rows.\<close>

datatype case_error = MultipleResultsFound | CasePy py_error

definition one_or_none :: "'a list \<Rightarrow> case_error + 'a option" where
  "one_or_none xs = (case xs of [] \<Rightarrow> Inr None | [x] \<Rightarrow> Inr (Some x) | _ \<Rightarrow> Inl MultipleResultsFound)"

lemma filter_key_row_by:
  "unique_on keyf rows \<Longrightarrow>
   filter (\<lambda>r. keyf r = k) rows = (case row_by keyf k rows of None \<Rightarrow> [] | Some r \<Rightarrow> [r])"
proof (induction rows)
  case (Cons x rows)
  have "keyf y \<noteq> keyf x" if "y \<in> set rows" for y
    using Cons.prems that by (metis distinct.simps(2) imageI list.set_map list.simps(9) unique_on_def)
  then have "filter (\<lambda>r. keyf r = k) rows = []" if "keyf x = k"
    using that by (simp add: filter_empty_conv)
  then show ?case using Cons by (simp add: row_by_Cons unique_on_def)
qed simp

lemma one_or_none_unique:
  "unique_on keyf rows \<Longrightarrow> one_or_none (filter (\<lambda>r. keyf r = k) rows) = Inr (row_by keyf k rows)"
  by (simp add: filter_key_row_by one_or_none_def split: option.splits)

section \<open>Adding or changing a row\<close>

text \<open>An existing row is changed, a new one added.\<close>

definition save_row :: "('r \<Rightarrow> 'k) \<Rightarrow> 'r option \<Rightarrow> 'r \<Rightarrow> 'r list \<Rightarrow> 'r list" where
  "save_row keyf found r rows = (case found of None \<Rightarrow> rows @ [r] | Some _ \<Rightarrow> put_row keyf r rows)"

lemma save_row_unique:
  "unique_on keyf rows \<Longrightarrow> keyf r = k \<Longrightarrow> unique_on keyf (save_row keyf (row_by keyf k rows) r rows)"
  by (auto simp: save_row_def unique_on_def row_by_None_iff split: option.splits)

lemma row_by_save_row:
  assumes "keyf r = k"
  shows "row_by keyf j (save_row keyf (row_by keyf k rows) r rows) =
     (if j = k then Some r else row_by keyf j rows)"
proof (cases "row_by keyf k rows")
  case None
  then show ?thesis
    using assms by (auto simp: save_row_def row_by_append row_by_Cons split: option.splits)
next
  case (Some x)
  then show ?thesis
    using row_by_put_row [of x rows keyf r j] row_by_SomeD [OF Some] assms by (simp add: save_row_def)
qed

lemma in_save_row: "x \<in> set (save_row keyf found r rows) \<Longrightarrow> x = r \<or> x \<in> set rows"
  by (auto simp: save_row_def dest: in_put_row split: option.splits)

section \<open>The draft, preview, live contract\<close>

text \<open>The status moves the three repositories allow.\<close>

definition template_move :: "string \<Rightarrow> string \<Rightarrow> bool" where
  "template_move a b \<longleftrightarrow>
     (a, b) \<in> {(''draft'', ''preview''), (''preview'', ''draft''), (''preview'', ''live'')}"

lemma template_move_live [simp]: "\<not> template_move ''live'' b"
  by (simp add: template_move_def)

text \<open>
  A component whose rows move only along the pairs of a table. Everything that follows from
  that alone is proved here once: a run stays inside the closure of the table, and a status
  without a way out is final.
\<close>

locale guarded_machine =
  fixes step :: "'st \<Rightarrow> 'op \<Rightarrow> 'err + 'st"
    and status_of :: "'st \<Rightarrow> 'key \<Rightarrow> string option"
    and inv :: "'st \<Rightarrow> bool"
    and allowed :: "(string \<times> string) set"
  assumes inv_step: "inv s \<Longrightarrow> step s op = Inr s' \<Longrightarrow> inv s'"
    and status_moves: "inv s \<Longrightarrow> step s op = Inr s' \<Longrightarrow> status_of s i = Some a \<Longrightarrow>
      \<exists>b. status_of s' i = Some b \<and> (a = b \<or> (a, b) \<in> allowed)"
begin

lemma inv_run: "inv s \<Longrightarrow> inv (run_ops step s ops)"
  by (rule run_ops_invariant) (auto intro: inv_step)

lemma inv_settle: "inv s \<Longrightarrow> inv (settle step s op)"
  by (auto simp: settle_def intro: inv_step split: sum.splits)

lemma settle_moves:
  "inv s \<Longrightarrow> status_of s i = Some a \<Longrightarrow>
   \<exists>b. status_of (settle step s op) i = Some b \<and> (a = b \<or> (a, b) \<in> allowed)"
  by (auto simp: settle_def dest: status_moves split: sum.splits)

lemma run_moves:
  "inv s \<Longrightarrow> status_of s i = Some a \<Longrightarrow>
   \<exists>b. status_of (run_ops step s ops) i = Some b \<and> (a, b) \<in> allowed\<^sup>*"
proof (induction ops arbitrary: s a)
  case (Cons op ops)
  obtain c where c: "status_of (settle step s op) i = Some c" "a = c \<or> (a, c) \<in> allowed"
    using settle_moves [OF Cons.prems] by blast
  then obtain b where "status_of (run_ops step (settle step s op) ops) i = Some b" "(c, b) \<in> allowed\<^sup>*"
    using Cons.IH inv_settle [OF Cons.prems(1)] by blast
  then show ?case using c(2) by (auto intro: converse_rtrancl_into_rtrancl)
qed simp

lemma final_status:
  assumes "\<And>b. (a, b) \<notin> allowed" and "inv s" and "status_of s i = Some a"
  shows "status_of (run_ops step s ops) i = Some a"
proof -
  obtain b where "status_of (run_ops step s ops) i = Some b" "(a, b) \<in> allowed\<^sup>*"
    using run_moves [OF assms(2,3)] by blast
  then show ?thesis using assms(1) by (auto elim: converse_rtranclE)
qed

end

locale template_store = guarded_machine step status_of inv "{(a, b). template_move a b}"
  for step :: "'st \<Rightarrow> 'op \<Rightarrow> 'err + 'st"
    and status_of :: "'st \<Rightarrow> string \<Rightarrow> string option"
    and inv :: "'st \<Rightarrow> bool" +
  assumes status_births: "inv s \<Longrightarrow> step s op = Inr s' \<Longrightarrow> status_of s i = None \<Longrightarrow>
      status_of s' i = Some b \<Longrightarrow> b = ''draft''"
begin

lemma settle_births:
  "inv s \<Longrightarrow> status_of s i = None \<Longrightarrow> status_of (settle step s op) i = Some b \<Longrightarrow> b = ''draft''"
  by (auto simp: settle_def dest: status_births split: sum.splits)

lemma live_is_final:
  "inv s \<Longrightarrow> status_of s i = Some ''live'' \<Longrightarrow> status_of (run_ops step s ops) i = Some ''live''"
  by (rule final_status) simp_all

text \<open>A template that was not live and is live at the end of a run was in preview at some
  earlier point of that run.\<close>

lemma live_through_preview:
  "inv s \<Longrightarrow> status_of s i \<noteq> Some ''live'' \<Longrightarrow>
   status_of (run_ops step s ops) i = Some ''live'' \<Longrightarrow>
   \<exists>n \<le> length ops. status_of (run_ops step s (take n ops)) i = Some ''preview''"
proof (induction ops arbitrary: s)
  case (Cons op ops)
  let ?t = "settle step s op"
  show ?case
  proof (cases "status_of ?t i = Some ''live''")
    case True
    have "status_of s i = Some ''preview''"
    proof (cases "status_of s i")
      case None
      then show ?thesis using settle_births [OF Cons.prems(1) None True] by simp
    next
      case (Some a)
      then show ?thesis
        using settle_moves [OF Cons.prems(1) Some, of op] True Cons.prems(2)
        by (auto simp: template_move_def)
    qed
    then show ?thesis by (intro exI [of _ 0]) simp
  next
    case False
    with Cons obtain n where "n \<le> length ops"
      "status_of (run_ops step ?t (take n ops)) i = Some ''preview''"
      using inv_settle by force
    then show ?thesis by (intro exI [of _ "Suc n"]) simp
  qed
qed simp

end

section \<open>Records that are never lost\<close>

text \<open>
  A component with a set of records that no operation removes: the trail of an objection, the
  audited steps of an approval, the entries of a ledger.
\<close>

locale append_only =
  fixes step :: "'st \<Rightarrow> 'op \<Rightarrow> 'err + 'st"
    and inv :: "'st \<Rightarrow> bool"
    and log :: "'st \<Rightarrow> 'entry set"
  assumes keeps_inv: "inv s \<Longrightarrow> step s op = Inr s' \<Longrightarrow> inv s'"
    and log_grows: "inv s \<Longrightarrow> step s op = Inr s' \<Longrightarrow> log s \<subseteq> log s'"
begin

lemma log_settle: "inv s \<Longrightarrow> inv (settle step s op) \<and> log s \<subseteq> log (settle step s op)"
  using keeps_inv log_grows by (auto simp: settle_def split: sum.splits)

lemma log_run: "inv s \<Longrightarrow> inv (run_ops step s ops) \<and> log s \<subseteq> log (run_ops step s ops)"
proof (induction ops arbitrary: s)
  case (Cons op ops)
  then show ?case using log_settle [OF Cons.prems, of op] by fastforce
qed simp

lemma log_kept: "inv s \<Longrightarrow> x \<in> log s \<Longrightarrow> x \<in> log (run_ops step s ops)"
  using log_run by blast

end

end
