(* ===== verification/FlowSchema.thy ===== *)
theory FlowSchema
  imports Tables
begin

text \<open>
  Approval-flow templates (\<^verbatim>\<open>domain/approval_flow_schema.py\<close>): the structural
  validation of a template payload, the reachability search run before a template goes
  live, and the repository with its draft, preview, live operations.

  Each \<^verbatim>\<open>raise\<close> of the source is a constructor of \<open>flow_error\<close>. The repository state
  is the four tables the code writes; \<open>fdb_next\<close> counts the identifiers drawn from the
  database default \<^verbatim>\<open>uuid4\<close>, whose values are the parameter \<open>uuid\<close>. An operation that
  raises leaves no trace, since the session is closed without a commit.
\<close>

section \<open>Vocabulary\<close>

definition valid_flow_statuses :: "string list" where
  "valid_flow_statuses = [''draft'', ''preview'', ''live'']"

definition valid_node_types :: "string list" where
  "valid_node_types = [''start'', ''approval'', ''notify'', ''end'']"

definition valid_selection_rule_kinds :: "string list" where
  "valid_selection_rule_kinds =
     [''fixed_user'', ''role'', ''org_unit'', ''org_unit_leader'', ''dynamic_expression'']"

definition valid_condition_kinds :: "string list" where
  "valid_condition_kinds = [''always'', ''expression'', ''on_decision'']"

lemmas flow_vocabulary =
  valid_flow_statuses_def valid_node_types_def valid_selection_rule_kinds_def
  valid_condition_kinds_def

datatype flow_error =
    PayloadNotDict
  | PayloadKeyMissing string
  | PayloadKeyNotList string
  | NodesEmpty
  | NodeNotDict
  | NodeCodeRequired
  | NodeTypeInvalid json
  | NodeCodeDuplicate string
  | StartEndCount nat nat
  | BranchNotDict
  | BranchFromUnknown json
  | BranchToUnknown json
  | ConditionKindInvalid json
  | RuleNotDict
  | RuleKindInvalid json
  | EndUnreachable string string
  | FlowNotFound string
  | FlowStatusInvalid string
  | FlowTransition string string
  | FlowIntegrity
  | FlowPy py_error

section \<open>Validation of a payload\<close>

text \<open>The first loop of \<^verbatim>\<open>_validate_payload\<close>: a key must be there and hold a list.\<close>

definition payload_list :: "dict \<Rightarrow> string \<Rightarrow> flow_error + json list" where
  "payload_list d k =
     (case map_of d k of
        None \<Rightarrow> Inl (PayloadKeyMissing k)
      | Some (JList xs) \<Rightarrow> Inr xs
      | Some _ \<Rightarrow> Inl (PayloadKeyNotList k))"

text \<open>The node loop; its state is \<^verbatim>\<open>node_codes\<close>, \<^verbatim>\<open>start_count\<close>, \<^verbatim>\<open>end_count\<close>.\<close>

definition check_node ::
    "string list \<times> nat \<times> nat \<Rightarrow> json \<Rightarrow> flow_error + (string list \<times> nat \<times> nat)" where
  "check_node st n =
     (case st of (codes, starts, ends) \<Rightarrow>
      (case n of
         JObj d \<Rightarrow>
           (case dget d ''node_code'' of
              JStr code \<Rightarrow>
                if code = [] then Inl NodeCodeRequired
                else bindE (raiseE FlowPy (str_in (dget d ''node_type'') valid_node_types)) (\<lambda>ok.
                  if \<not> ok then Inl (NodeTypeInvalid (dget d ''node_type''))
                  else if code \<in> set codes then Inl (NodeCodeDuplicate code)
                  else Inr (codes @ [code],
                            (if dget d ''node_type'' = JStr ''start'' then Suc starts else starts),
                            (if dget d ''node_type'' = JStr ''end'' then Suc ends else ends)))
            | _ \<Rightarrow> Inl NodeCodeRequired)
       | _ \<Rightarrow> Inl NodeNotDict))"

definition check_branch :: "string list \<Rightarrow> unit \<Rightarrow> json \<Rightarrow> flow_error + unit" where
  "check_branch codes u b =
     (case b of
        JObj d \<Rightarrow>
          bindE (raiseE FlowPy (str_in (dget d ''from_node_code'') codes)) (\<lambda>ok_from.
            if \<not> ok_from then Inl (BranchFromUnknown (dget d ''from_node_code''))
            else bindE (raiseE FlowPy (str_in (dget d ''to_node_code'') codes)) (\<lambda>ok_to.
              if \<not> ok_to then Inl (BranchToUnknown (dget d ''to_node_code''))
              else bindE (raiseE FlowPy
                     (str_in (dget_or d ''condition_kind'' (JStr ''always'')) valid_condition_kinds))
                   (\<lambda>ok_kind.
                     if \<not> ok_kind
                     then Inl (ConditionKindInvalid (dget_or d ''condition_kind'' (JStr ''always'')))
                     else Inr ())))
      | _ \<Rightarrow> Inl BranchNotDict)"

definition check_selection_rule :: "unit \<Rightarrow> json \<Rightarrow> flow_error + unit" where
  "check_selection_rule u r =
     (case r of
        JObj d \<Rightarrow>
          bindE (raiseE FlowPy (str_in (dget d ''rule_kind'') valid_selection_rule_kinds)) (\<lambda>ok.
            if \<not> ok then Inl (RuleKindInvalid (dget d ''rule_kind'')) else Inr ())
      | _ \<Rightarrow> Inl RuleNotDict)"

definition validate_flow_payload :: "json \<Rightarrow> flow_error + unit" where
  "validate_flow_payload p =
     (case p of
        JObj d \<Rightarrow>
          bindE (payload_list d ''nodes'') (\<lambda>nodes.
          bindE (payload_list d ''selection_rules'') (\<lambda>rules.
          bindE (payload_list d ''branches'') (\<lambda>branches.
          bindE (guardE (nodes \<noteq> []) NodesEmpty) (\<lambda>_.
          bindE (forE check_node ([], 0, 0) nodes) (\<lambda>(codes, starts, ends).
          bindE (guardE (starts = 1 \<and> ends = 1) (StartEndCount starts ends)) (\<lambda>_.
          bindE (forE (check_branch codes) () branches) (\<lambda>_.
          forE check_selection_rule () rules)))))))
      | _ \<Rightarrow> Inl PayloadNotDict)"

subsection \<open>The declarative counterpart\<close>

text \<open>What a well-formed payload is, with no order of checks.\<close>

definition node_code_of :: "json \<Rightarrow> string" where
  "node_code_of n = (case n of JObj d \<Rightarrow> (case dget d ''node_code'' of JStr c \<Rightarrow> c | _ \<Rightarrow> []) | _ \<Rightarrow> [])"

definition node_type_of :: "json \<Rightarrow> string" where
  "node_type_of n = (case n of JObj d \<Rightarrow> (case dget d ''node_type'' of JStr c \<Rightarrow> c | _ \<Rightarrow> []) | _ \<Rightarrow> [])"

definition wf_node :: "json \<Rightarrow> bool" where
  "wf_node n \<longleftrightarrow> (\<exists>d c t. n = JObj d \<and> dget d ''node_code'' = JStr c \<and> c \<noteq> [] \<and>
     dget d ''node_type'' = JStr t \<and> t \<in> set valid_node_types)"

definition wf_branch :: "string set \<Rightarrow> json \<Rightarrow> bool" where
  "wf_branch codes b \<longleftrightarrow> (\<exists>d f t k. b = JObj d \<and>
     dget d ''from_node_code'' = JStr f \<and> f \<in> codes \<and>
     dget d ''to_node_code'' = JStr t \<and> t \<in> codes \<and>
     dget_or d ''condition_kind'' (JStr ''always'') = JStr k \<and> k \<in> set valid_condition_kinds)"

definition wf_selection_rule :: "json \<Rightarrow> bool" where
  "wf_selection_rule r \<longleftrightarrow> (\<exists>d k. r = JObj d \<and> dget d ''rule_kind'' = JStr k \<and>
     k \<in> set valid_selection_rule_kinds)"

definition wf_nodes :: "json list \<Rightarrow> bool" where
  "wf_nodes nodes \<longleftrightarrow> list_all wf_node nodes \<and> distinct (map node_code_of nodes) \<and>
     length (filter (\<lambda>n. node_type_of n = ''start'') nodes) = 1 \<and>
     length (filter (\<lambda>n. node_type_of n = ''end'') nodes) = 1"

definition wf_flow_payload :: "json \<Rightarrow> bool" where
  "wf_flow_payload p \<longleftrightarrow> (\<exists>d nodes rules branches. p = JObj d \<and>
     map_of d ''nodes'' = Some (JList nodes) \<and>
     map_of d ''selection_rules'' = Some (JList rules) \<and>
     map_of d ''branches'' = Some (JList branches) \<and>
     wf_nodes nodes \<and>
     list_all (wf_branch (set (map node_code_of nodes))) branches \<and>
     list_all wf_selection_rule rules)"

lemma payload_list_Inr [result_simps]:
  "payload_list d k = Inr xs \<longleftrightarrow> map_of d k = Some (JList xs)"
  by (auto simp: payload_list_def split: option.splits json.splits)

lemma check_node_Inr:
  "check_node (codes, starts, ends) n = Inr st \<longleftrightarrow>
     wf_node n \<and> node_code_of n \<notin> set codes \<and>
     st = (codes @ [node_code_of n],
           (if node_type_of n = ''start'' then Suc starts else starts),
           (if node_type_of n = ''end'' then Suc ends else ends))"
  by (auto simp: check_node_def wf_node_def node_code_of_def node_type_of_def str_in_Inr_iff
      bindE_Inr_iff raiseE_Inr_iff split: json.splits if_splits)

lemma check_nodes_Inr:
  "forE check_node (codes, starts, ends) nodes = Inr st \<longleftrightarrow>
     list_all wf_node nodes \<and> distinct (map node_code_of nodes) \<and>
     set codes \<inter> set (map node_code_of nodes) = {} \<and>
     st = (codes @ map node_code_of nodes,
           starts + length (filter (\<lambda>n. node_type_of n = ''start'') nodes),
           ends + length (filter (\<lambda>n. node_type_of n = ''end'') nodes))"
proof (induction nodes arbitrary: codes starts ends)
  case (Cons n nodes)
  show ?case
    by (auto simp: bindE_Inr_iff check_node_Inr Cons.IH)
qed auto

lemma check_branch_Inr:
  "check_branch codes u b = Inr v \<longleftrightarrow> wf_branch (set codes) b"
  by (auto simp: check_branch_def wf_branch_def str_in_Inr_iff bindE_Inr_iff raiseE_Inr_iff
      split: json.splits if_splits)

lemma check_selection_rule_Inr: "check_selection_rule u r = Inr v \<longleftrightarrow> wf_selection_rule r"
  by (auto simp: check_selection_rule_def wf_selection_rule_def str_in_Inr_iff bindE_Inr_iff
      raiseE_Inr_iff split: json.splits if_splits)

lemma forE_unit_Inr:
  assumes "\<And>x. f () x = Inr () \<longleftrightarrow> P x"
  shows "forE f () xs = Inr () \<longleftrightarrow> list_all P xs"
  using assms by (induction xs) (auto simp: bindE_Inr_iff)

lemma validate_flow_payload_wf: "validate_flow_payload p = Inr () \<longleftrightarrow> wf_flow_payload p"
proof (cases p)
  case (JObj d)
  have "validate_flow_payload p = Inr () \<longleftrightarrow>
    (\<exists>nodes rules branches.
       map_of d ''nodes'' = Some (JList nodes) \<and>
       map_of d ''selection_rules'' = Some (JList rules) \<and>
       map_of d ''branches'' = Some (JList branches) \<and> nodes \<noteq> [] \<and> wf_nodes nodes \<and>
       list_all (wf_branch (set (map node_code_of nodes))) branches \<and>
       list_all wf_selection_rule rules)"
    by (auto simp: validate_flow_payload_def JObj bindE_Inr_iff payload_list_Inr check_nodes_Inr
        wf_nodes_def forE_unit_Inr [OF check_branch_Inr] forE_unit_Inr [OF check_selection_rule_Inr])
  moreover have "wf_nodes nodes \<Longrightarrow> nodes \<noteq> []" for nodes
    by (auto simp: wf_nodes_def)
  ultimately show ?thesis
    by (auto simp: wf_flow_payload_def JObj)
qed (auto simp: validate_flow_payload_def wf_flow_payload_def)

text \<open>\<^verbatim>\<open>_validate_payload\<close> accepts a payload exactly when it is well formed: the three
  lists are there, nodes have distinct non-empty codes and known types with exactly one
  start and one end, branches join declared nodes with a known condition kind, and
  selection rules have a known kind.\<close>

lemma validate_flow_payload_iff: "validate_flow_payload p = Inr () \<longleftrightarrow> wf_flow_payload p"
  by (rule validate_flow_payload_wf)

end
