(* ===== verification/FlowReach.thy ===== *)
theory FlowReach
  imports FlowSchema
begin

text \<open>
  \<^verbatim>\<open>_assert_reachable\<close> of \<^verbatim>\<open>domain/approval_flow_schema.py\<close>: the depth-first search
  with an explicit stack that \<^verbatim>\<open>commit_to_live\<close> runs after validation. The stack is kept
  with its top first, so \<^verbatim>\<open>stack.extend(ts)\<close> pushes \<open>rev ts\<close>. Node codes that are not
  strings do not occur after validation; indexing with one is a \<^verbatim>\<open>TypeError\<close> here.
\<close>

section \<open>The search\<close>

definition succs :: "(string \<times> string list) list \<Rightarrow> string \<Rightarrow> string list" where
  "succs adj c = (case map_of adj c of None \<Rightarrow> [] | Some ts \<Rightarrow> ts)"

function search_end ::
    "(string \<times> string list) list \<Rightarrow> string \<Rightarrow> string list \<Rightarrow> string list \<Rightarrow> bool" where
  "search_end adj e visited [] = False"
| "search_end adj e visited (cur # stack) =
     (if cur = e then True
      else if cur \<in> set visited then search_end adj e visited stack
      else search_end adj e (cur # visited) (rev (succs adj cur) @ stack))"
  by pat_completeness auto

termination search_end
proof (relation "measures [\<lambda>(adj, e, visited, stack). unvisited (map fst adj) visited,
                           \<lambda>(adj, e, visited, stack). length stack]", goal_cases)
  case (3 adj e visited cur stack)
  show ?case
  proof (cases "cur \<in> set (map fst adj)")
    case True
    then show ?thesis using unvisited_less [OF 3(2) True] by simp
  next
    case False
    then have "succs adj cur = []"
      by (auto simp: succs_def map_of_eq_None_iff [symmetric] split: option.splits)
    then show ?thesis using unvisited_same [OF False, of visited] by simp
  qed
qed auto

text \<open>\<^verbatim>\<open>{node["node_code"]: node for node in payload["nodes"]}\<close>.\<close>

definition index_node :: "(string \<times> dict) list \<Rightarrow> json \<Rightarrow> py_error + (string \<times> dict) list" where
  "index_node acc n =
     (case n of
        JObj d \<Rightarrow> bindE (dict_item d ''node_code'') (\<lambda>c.
          (case c of JStr code \<Rightarrow> Inr (dset acc code d) | _ \<Rightarrow> Inl TypeError))
      | _ \<Rightarrow> Inl TypeError)"

text \<open>\<^verbatim>\<open>next(code for code, node in nodes.items() if node["node_type"] == ty)\<close>.\<close>

fun first_of_type :: "string \<Rightarrow> (string \<times> dict) list \<Rightarrow> py_error + string" where
  "first_of_type ty [] = Inl StopIteration"
| "first_of_type ty ((c, d) # nodes) = bindE (dict_item d ''node_type'') (\<lambda>t.
     if t = JStr ty then Inr c else first_of_type ty nodes)"

text \<open>\<^verbatim>\<open>adjacency[branch["from_node_code"]].append(branch["to_node_code"])\<close>.\<close>

definition add_edge ::
    "(string \<times> string list) list \<Rightarrow> json \<Rightarrow> py_error + (string \<times> string list) list" where
  "add_edge adj b =
     (case b of
        JObj d \<Rightarrow> bindE (dict_item d ''from_node_code'') (\<lambda>f.
          (case f of
             JStr from_code \<Rightarrow>
               (case map_of adj from_code of
                  None \<Rightarrow> Inl (KeyError from_code)
                | Some ts \<Rightarrow> bindE (dict_item d ''to_node_code'') (\<lambda>t.
                    (case t of JStr to_code \<Rightarrow> Inr (dset adj from_code (ts @ [to_code]))
                             | _ \<Rightarrow> Inl TypeError)))
           | _ \<Rightarrow> Inl TypeError))
      | _ \<Rightarrow> Inl TypeError)"

definition assert_reachable :: "dict \<Rightarrow> flow_error + unit" where
  "assert_reachable d =
     bindE (payload_list d ''nodes'') (\<lambda>node_list.
     bindE (raiseE FlowPy (forE index_node [] node_list)) (\<lambda>nodes.
     bindE (payload_list d ''branches'') (\<lambda>branches.
     bindE (raiseE FlowPy (first_of_type ''start'' nodes)) (\<lambda>start.
     bindE (raiseE FlowPy (first_of_type ''end'' nodes)) (\<lambda>end_code.
     bindE (raiseE FlowPy (forE add_edge (map (\<lambda>(c, _). (c, [])) nodes) branches)) (\<lambda>adj.
     if search_end adj end_code [] [start] then Inr () else Inl (EndUnreachable end_code start)))))))"

section \<open>The search decides reachability\<close>

definition adj_rel :: "(string \<times> string list) list \<Rightarrow> (string \<times> string) set" where
  "adj_rel adj = {(a, b). b \<in> set (succs adj a)}"

lemma succs_empty: "succs (map (\<lambda>(c, _). (c, [])) xs) a = []"
  by (induction xs) (auto simp: succs_def)

lemma search_end_sound:
  "search_end adj e visited stack \<Longrightarrow> \<exists>s \<in> set stack. (s, e) \<in> (adj_rel adj)\<^sup>*"
proof (induction adj e visited stack rule: search_end.induct)
  case (2 adj e visited cur stack)
  show ?case
  proof (cases "cur = e \<or> cur \<in> set visited")
    case True
    then show ?thesis using 2 by (auto split: if_splits)
  next
    case False
    then obtain s where s: "s \<in> set (succs adj cur) \<union> set stack" "(s, e) \<in> (adj_rel adj)\<^sup>*"
      using 2 by auto
    from s(1) show ?thesis
    proof (rule UnE)
      assume "s \<in> set (succs adj cur)"
      then have "(cur, s) \<in> adj_rel adj" by (simp add: adj_rel_def)
      then show ?thesis using s(2) by (auto intro: converse_rtrancl_into_rtrancl)
    qed (use s(2) in auto)
  qed
qed simp

lemma search_end_complete:
  assumes "\<not> search_end adj e visited stack" and "e \<notin> set visited"
    and "\<And>x. x \<in> set visited \<Longrightarrow> set (succs adj x) \<subseteq> set visited \<union> set stack"
    and "s \<in> set visited \<union> set stack"
  shows "(s, e) \<notin> (adj_rel adj)\<^sup>*"
  using assms
proof (induction adj e visited stack arbitrary: s rule: search_end.induct)
  case (1 adj e visited)
  have closed: "(a, b) \<in> (adj_rel adj)\<^sup>* \<Longrightarrow> a \<in> set visited \<Longrightarrow> b \<in> set visited" for a b
    by (induction rule: rtrancl_induct) (use 1(3) in \<open>auto simp: adj_rel_def\<close>)
  then show ?case using 1 by auto
next
  case (2 adj e visited cur stack)
  then have ne: "cur \<noteq> e" by auto
  show ?case
  proof (cases "cur \<in> set visited")
    case True
    show ?thesis
      by (rule "2.IH"(1) [OF ne True]) (use 2(3-6) ne True in auto)
  next
    case False
    show ?thesis
    proof (rule "2.IH"(2) [OF ne False])
      show "\<not> search_end adj e (cur # visited) (rev (succs adj cur) @ stack)"
        using 2(3) ne False by simp
      show "e \<notin> set (cur # visited)" using 2(4) ne by auto
      show "set (succs adj x) \<subseteq> set (cur # visited) \<union> set (rev (succs adj cur) @ stack)"
        if "x \<in> set (cur # visited)" for x
        using that 2(5) [of x] by auto
      show "s \<in> set (cur # visited) \<union> set (rev (succs adj cur) @ stack)" using 2(6) by auto
    qed
  qed
qed

lemma search_end_iff: "search_end adj e [] [s] \<longleftrightarrow> (s, e) \<in> (adj_rel adj)\<^sup>*"
proof
  assume "search_end adj e [] [s]"
  then show "(s, e) \<in> (adj_rel adj)\<^sup>*" using search_end_sound [of adj e "[]" "[s]"] by simp
next
  assume "(s, e) \<in> (adj_rel adj)\<^sup>*"
  then show "search_end adj e [] [s]"
    using search_end_complete [of adj e "[]" "[s]" s] by (simp del: search_end.simps) blast
qed

section \<open>Indexing a well-formed payload\<close>

definition branch_pair :: "json \<Rightarrow> string \<times> string" where
  "branch_pair b = (case b of JObj d \<Rightarrow>
     (case dget d ''from_node_code'' of JStr f \<Rightarrow>
       (case dget d ''to_node_code'' of JStr t \<Rightarrow> (f, t) | _ \<Rightarrow> ([], [])) | _ \<Rightarrow> ([], [])) | _ \<Rightarrow> ([], []))"

definition node_dict :: "json \<Rightarrow> dict" where
  "node_dict n = (case n of JObj d \<Rightarrow> d | _ \<Rightarrow> [])"

lemma dget_JStr_iff: "dget d k = JStr s \<longleftrightarrow> map_of d k = Some (JStr s)"
  by (auto simp: dget_def split: option.splits)

lemma wf_node_index:
  "wf_node n \<Longrightarrow> index_node acc n = Inr (dset acc (node_code_of n) (node_dict n))"
  by (auto simp: wf_node_def index_node_def node_code_of_def node_dict_def dget_def dict_item_def
      split: option.splits)

lemma index_nodes:
  "list_all wf_node nodes \<Longrightarrow> distinct (map fst acc @ map node_code_of nodes) \<Longrightarrow>
   forE index_node acc nodes = Inr (acc @ map (\<lambda>n. (node_code_of n, node_dict n)) nodes)"
proof (induction nodes arbitrary: acc)
  case (Cons n nodes)
  then show ?case by (simp add: wf_node_index dset_new image_iff)
qed simp

lemma first_of_type_Inr:
  "list_all wf_node nodes \<Longrightarrow>
   first_of_type ty (map (\<lambda>n. (node_code_of n, node_dict n)) nodes) =
     (case filter (\<lambda>n. node_type_of n = ty) nodes of [] \<Rightarrow> Inl StopIteration | n # _ \<Rightarrow> Inr (node_code_of n))"
proof (induction nodes)
  case (Cons n nodes)
  then obtain d t where "n = JObj d" "map_of d ''node_type'' = Some (JStr t)"
    by (auto simp: wf_node_def dget_JStr_iff)
  then show ?case
    using Cons by (auto simp: dict_item_def node_dict_def node_type_of_def dget_def)
qed simp

lemma wf_branch_edge:
  "wf_branch codes b \<Longrightarrow> fst (branch_pair b) \<in> codes \<and> snd (branch_pair b) \<in> codes"
  by (auto simp: wf_branch_def branch_pair_def)

lemma add_edge_wf:
  "wf_branch codes b \<Longrightarrow> fst ` set adj = codes \<Longrightarrow>
   \<exists>adj'. add_edge adj b = Inr adj' \<and> fst ` set adj' = codes \<and>
     adj_rel adj' = insert (branch_pair b) (adj_rel adj)"
proof -
  assume wf: "wf_branch codes b" and keys: "fst ` set adj = codes"
  obtain d f t where d: "b = JObj d" "map_of d ''from_node_code'' = Some (JStr f)" "f \<in> codes"
    "map_of d ''to_node_code'' = Some (JStr t)"
    using wf by (auto simp: wf_branch_def dget_JStr_iff)
  obtain ts where ts: "map_of adj f = Some ts"
    using d(3) keys by (metis weak_map_of_SomeI imageE prod.collapse not_None_eq)
  have "adj_rel (dset adj f (ts @ [t])) = insert (f, t) (adj_rel adj)"
    using ts by (auto simp: adj_rel_def succs_def split: if_splits)
  then show ?thesis
    using d ts keys by (auto simp: add_edge_def dict_item_def branch_pair_def dget_def)
qed

lemma add_edges_wf:
  "list_all (wf_branch codes) branches \<Longrightarrow> fst ` set adj = codes \<Longrightarrow>
   \<exists>adj'. forE add_edge adj branches = Inr adj' \<and>
     adj_rel adj' = adj_rel adj \<union> set (map branch_pair branches)"
proof (induction branches arbitrary: adj)
  case (Cons b branches)
  then obtain adj1 where a1: "add_edge adj b = Inr adj1" "fst ` set adj1 = codes"
    "adj_rel adj1 = insert (branch_pair b) (adj_rel adj)"
    using add_edge_wf [of codes b adj] by auto
  then show ?case using Cons.IH [of adj1] Cons.prems by auto
qed simp

text \<open>The start and end node of a payload, and its branches as a relation on node codes.\<close>

definition node_of_type :: "string \<Rightarrow> json list \<Rightarrow> string" where
  "node_of_type ty nodes = (case filter (\<lambda>n. node_type_of n = ty) nodes of [] \<Rightarrow> [] | n # _ \<Rightarrow> node_code_of n)"

definition json_list :: "json \<Rightarrow> json list" where
  "json_list v = (case v of JList xs \<Rightarrow> xs | _ \<Rightarrow> [])"

definition flow_start :: "dict \<Rightarrow> string" where
  "flow_start d = node_of_type ''start'' (json_list (dget d ''nodes''))"

definition flow_end :: "dict \<Rightarrow> string" where
  "flow_end d = node_of_type ''end'' (json_list (dget d ''nodes''))"

definition flow_edges :: "dict \<Rightarrow> (string \<times> string) set" where
  "flow_edges d = set (map branch_pair (json_list (dget d ''branches'')))"

lemma assert_reachable_cases:
  assumes "wf_flow_payload (JObj d)"
  shows "assert_reachable d =
     (if (flow_start d, flow_end d) \<in> (flow_edges d)\<^sup>* then Inr ()
      else Inl (EndUnreachable (flow_end d) (flow_start d)))"
proof -
  obtain nodes branches where lists:
      "map_of d ''nodes'' = Some (JList nodes)" "map_of d ''branches'' = Some (JList branches)"
    and wn: "wf_nodes nodes"
    and wb: "list_all (wf_branch (set (map node_code_of nodes))) branches"
    using assms by (auto simp: wf_flow_payload_def)
  let ?ix = "map (\<lambda>n. (node_code_of n, node_dict n)) nodes"
  have ix: "forE index_node [] nodes = Inr ?ix"
    using wn index_nodes [of nodes "[]"] by (auto simp: wf_nodes_def)
  have typed: "first_of_type ty ?ix = Inr (node_of_type ty nodes)" if "ty \<in> {''start'', ''end''}" for ty
    using that wn first_of_type_Inr [of nodes ty]
    by (auto simp: wf_nodes_def node_of_type_def split: list.splits)
  obtain adj where adj: "forE add_edge (map (\<lambda>(c, _). (c, [])) ?ix) branches = Inr adj"
      "adj_rel adj = set (map branch_pair branches)"
  proof -
    have "adj_rel (map (\<lambda>(c, _). (c, [])) ?ix) = {}"
      by (simp only: adj_rel_def succs_empty list.set empty_iff split_conv Collect_empty_eq split_paired_All simp_thms)
    moreover have "fst ` set (map (\<lambda>(c, _). (c, [])) ?ix) = set (map node_code_of nodes)"
      by (simp add: image_image)
    ultimately obtain adj where "forE add_edge (map (\<lambda>(c, _). (c, [])) ?ix) branches = Inr adj"
        "adj_rel adj = {} \<union> set (map branch_pair branches)"
      using add_edges_wf [OF wb, of "map (\<lambda>(c, _). (c, [])) ?ix"] by metis
    then show ?thesis using that by (simp only: Un_empty_left)
  qed
  have names: "flow_start d = node_of_type ''start'' nodes" "flow_end d = node_of_type ''end'' nodes"
    "flow_edges d = adj_rel adj"
    using lists adj(2) by (simp_all add: flow_start_def flow_end_def flow_edges_def json_list_def dget_def)
  have pl: "payload_list d ''nodes'' = Inr nodes" "payload_list d ''branches'' = Inr branches"
    using lists by (simp_all add: payload_list_def)
  have ends: "first_of_type ''start'' ?ix = Inr (flow_start d)" "first_of_type ''end'' ?ix = Inr (flow_end d)"
    using typed by (simp_all add: names)
  have "assert_reachable d =
      (if search_end adj (flow_end d) [] [flow_start d] then Inr ()
       else Inl (EndUnreachable (flow_end d) (flow_start d)))"
    unfolding assert_reachable_def pl bindE_simps ix raiseE_simps ends adj(1) by (rule refl)
  then show ?thesis
    unfolding search_end_iff names(3) .
qed

text \<open>on a validated payload \<^verbatim>\<open>_assert_reachable\<close> succeeds exactly when the end node can
  be reached from the start node along the branches, and otherwise raises the payload
  error that names both nodes; the search always terminates.\<close>

lemma assert_reachable_iff:
  assumes "wf_flow_payload (JObj d)"
  shows "assert_reachable d =
     (if (flow_start d, flow_end d) \<in> (flow_edges d)\<^sup>* then Inr ()
      else Inl (EndUnreachable (flow_end d) (flow_start d)))"
  by (rule assert_reachable_cases [OF assms])

text \<open>A payload with the single branch from its start to its end.\<close>

definition tiny_flow :: dict where
  "tiny_flow =
     [(''nodes'', JList [JObj [(''node_code'', JStr ''s''), (''node_type'', JStr ''start'')],
                         JObj [(''node_code'', JStr ''e''), (''node_type'', JStr ''end'')]]),
      (''selection_rules'', JList []),
      (''branches'', JList [JObj [(''from_node_code'', JStr ''s''), (''to_node_code'', JStr ''e'')]])]"

lemma tiny_flow_wf: "wf_flow_payload (JObj tiny_flow)"
  by (simp add: wf_flow_payload_def tiny_flow_def wf_nodes_def wf_node_def dget_def dget_or_def
      node_code_of_def node_type_of_def wf_branch_def flow_vocabulary)

end
