(* ===== verification/FlowRepo.thy ===== *)
theory FlowRepo
  imports FlowReach
begin

text \<open>
  \<^verbatim>\<open>ApprovalFlowSchemaRepo\<close> of \<^verbatim>\<open>domain/approval_flow_schema.py\<close>: the tables of approval
  flow templates and the operations that create, preview, revert, commit and look them up.
  The unique constraint on tenant, code and version is checked where the session is
  flushed and raises \<^term>\<open>FlowIntegrity\<close>. Times are numbers handed in by the caller.
\<close>

section \<open>Tables\<close>

record flow_row =
  fs_id :: string
  fs_tenant :: string
  fs_code :: string
  fs_title :: string
  fs_status :: string
  fs_version :: int
  fs_source_kind :: string
  fs_source_text :: "string option"
  fs_payload :: json
  fs_created_by :: string
  fs_created_at :: nat
  fs_updated_at :: nat
  fs_committed_at :: "nat option"

record flow_node_row =
  fn_id :: string
  fn_schema :: string
  fn_code :: json
  fn_name :: json
  fn_type :: json
  fn_order :: json
  fn_rule :: "string option"

record flow_rule_row =
  fr_id :: string
  fr_schema :: string
  fr_code :: json
  fr_kind :: json
  fr_payload :: json

record flow_branch_row =
  fb_id :: string
  fb_schema :: string
  fb_from :: json
  fb_to :: json
  fb_kind :: json
  fb_payload :: json

record flow_db =
  fdb_schemas :: "flow_row list"
  fdb_nodes :: "flow_node_row list"
  fdb_rules :: "flow_rule_row list"
  fdb_branches :: "flow_branch_row list"
  fdb_next :: nat

section \<open>Operations\<close>

text \<open>\<^verbatim>\<open>_project_payload\<close>: the rows written beside the payload. The keys of
  \<^verbatim>\<open>rule_codes_to_ids\<close> are whatever the payload holds.\<close>

definition project_rule ::
    "(nat \<Rightarrow> string) \<Rightarrow> string \<Rightarrow> flow_db \<times> (json \<times> string) list \<Rightarrow> json \<Rightarrow>
     py_error + (flow_db \<times> (json \<times> string) list)" where
  "project_rule uuid sid st r =
     (case st of (db, ids) \<Rightarrow>
      (case r of
         JObj d \<Rightarrow>
           bindE (dict_item d ''rule_code'') (\<lambda>code.
           bindE (dict_item d ''rule_kind'') (\<lambda>kind.
             let rid = uuid (fdb_next db);
                 row = \<lparr>fr_id = rid, fr_schema = sid, fr_code = code, fr_kind = kind,
                        fr_payload = dget_or d ''rule_payload_json'' (JObj [])\<rparr>
             in if hashable code
                then Inr (db\<lparr>fdb_rules := fdb_rules db @ [row], fdb_next := Suc (fdb_next db)\<rparr>,
                          dset ids (dict_key code) rid)
                else Inl TypeError))
       | _ \<Rightarrow> Inl TypeError))"

definition project_node ::
    "(nat \<Rightarrow> string) \<Rightarrow> string \<Rightarrow> (json \<times> string) list \<Rightarrow> flow_db \<times> nat \<Rightarrow> json \<Rightarrow>
     py_error + (flow_db \<times> nat)" where
  "project_node uuid sid ids st n =
     (case st of (db, index) \<Rightarrow>
      (case n of
         JObj d \<Rightarrow>
           bindE (dict_item d ''node_code'') (\<lambda>code.
           bindE (dict_item d ''node_type'') (\<lambda>ty.
             let rule_code = dget d ''selection_rule_code''
             in if truthy rule_code \<and> \<not> hashable rule_code then Inl TypeError
                else Inr
                  (db\<lparr>fdb_nodes := fdb_nodes db @
                       [\<lparr>fn_id = uuid (fdb_next db), fn_schema = sid, fn_code = code,
                         fn_name = dget_or d ''node_name'' code, fn_type = ty,
                         fn_order = dget_or d ''order_index'' (JInt (int index)),
                         fn_rule = (if truthy rule_code then map_of ids (dict_key rule_code)
                                    else None)\<rparr>],
                      fdb_next := Suc (fdb_next db)\<rparr>,
                   Suc index)))
       | _ \<Rightarrow> Inl AttributeError))"

definition project_branch ::
    "(nat \<Rightarrow> string) \<Rightarrow> string \<Rightarrow> flow_db \<Rightarrow> json \<Rightarrow> py_error + flow_db" where
  "project_branch uuid sid db b =
     (case b of
        JObj d \<Rightarrow>
          bindE (dict_item d ''from_node_code'') (\<lambda>f.
          bindE (dict_item d ''to_node_code'') (\<lambda>t.
            Inr (db\<lparr>fdb_branches := fdb_branches db @
                      [\<lparr>fb_id = uuid (fdb_next db), fb_schema = sid, fb_from = f, fb_to = t,
                        fb_kind = dget_or d ''condition_kind'' (JStr ''always''),
                        fb_payload = dget_or d ''condition_payload_json'' (JObj [])\<rparr>],
                    fdb_next := Suc (fdb_next db)\<rparr>)))
      | _ \<Rightarrow> Inl TypeError)"

text \<open>The three lists are there and are lists, since the payload was validated before.\<close>

definition project_payload ::
    "(nat \<Rightarrow> string) \<Rightarrow> string \<Rightarrow> dict \<Rightarrow> flow_db \<Rightarrow> py_error + flow_db" where
  "project_payload uuid sid d db =
     bindE (forE (project_rule uuid sid) (db, []) (json_list (dget d ''selection_rules''))) (\<lambda>(db1, ids).
     bindE (forE (project_node uuid sid ids) (db1, 0) (json_list (dget d ''nodes''))) (\<lambda>(db2, _).
     forE (project_branch uuid sid) db2 (json_list (dget d ''branches''))))"

definition same_code :: "string \<Rightarrow> string \<Rightarrow> flow_row \<Rightarrow> bool" where
  "same_code tenant code r \<longleftrightarrow> fs_tenant r = tenant \<and> fs_code r = code"

definition flow_key :: "flow_row \<Rightarrow> string \<times> string \<times> int" where
  "flow_key r = (fs_tenant r, fs_code r, fs_version r)"

text \<open>\<^verbatim>\<open>flush\<close> of a new or changed template row, with the table's two keys.\<close>

definition insert_flow :: "flow_row \<Rightarrow> flow_db \<Rightarrow> flow_error + flow_db" where
  "insert_flow r db =
     (if flow_key r \<in> flow_key ` set (fdb_schemas db) \<or> fs_id r \<in> fs_id ` set (fdb_schemas db)
      then Inl FlowIntegrity
      else Inr (db\<lparr>fdb_schemas := fdb_schemas db @ [r]\<rparr>))"

definition update_flow :: "flow_row \<Rightarrow> flow_db \<Rightarrow> flow_error + flow_db" where
  "update_flow r db =
     (if \<exists>x \<in> set (fdb_schemas db). fs_id x \<noteq> fs_id r \<and> flow_key x = flow_key r
      then Inl FlowIntegrity
      else Inr (db\<lparr>fdb_schemas := put_row fs_id r (fdb_schemas db)\<rparr>))"

record draft_args =
  da_tenant :: string
  da_code :: string
  da_title :: string
  da_payload :: json
  da_source_kind :: string
  da_source_text :: "string option"
  da_created_by :: string

definition create_draft ::
    "(nat \<Rightarrow> string) \<Rightarrow> nat \<Rightarrow> draft_args \<Rightarrow> flow_db \<Rightarrow> flow_error + (flow_row \<times> flow_db)" where
  "create_draft uuid now a db =
     bindE (validate_flow_payload (da_payload a)) (\<lambda>_.
     let existing_max = max_version fs_version (same_code (da_tenant a) (da_code a)) (fdb_schemas db);
         row = \<lparr>fs_id = uuid (fdb_next db), fs_tenant = da_tenant a, fs_code = da_code a,
                fs_title = da_title a, fs_status = ''draft'', fs_version = existing_max + 1,
                fs_source_kind = da_source_kind a, fs_source_text = da_source_text a,
                fs_payload = da_payload a, fs_created_by = da_created_by a,
                fs_created_at = now, fs_updated_at = now, fs_committed_at = None\<rparr>
     in bindE (insert_flow row (db\<lparr>fdb_next := Suc (fdb_next db)\<rparr>)) (\<lambda>db1.
        bindE (raiseE FlowPy (project_payload uuid (fs_id row)
                 (case da_payload a of JObj d \<Rightarrow> d | _ \<Rightarrow> []) db1)) (\<lambda>db2.
        Inr (row, db2))))"

text \<open>\<^verbatim>\<open>_require\<close>.\<close>

definition require_flow :: "flow_db \<Rightarrow> string \<Rightarrow> flow_error + flow_row" where
  "require_flow db i =
     (case row_by fs_id i (fdb_schemas db) of
        None \<Rightarrow> Inl (FlowNotFound i)
      | Some r \<Rightarrow>
          if fs_status r \<in> set valid_flow_statuses then Inr r
          else Inl (FlowStatusInvalid (fs_status r)))"

definition promote_to_preview :: "nat \<Rightarrow> string \<Rightarrow> flow_db \<Rightarrow> flow_error + (flow_row \<times> flow_db)" where
  "promote_to_preview now i db =
     bindE (require_flow db i) (\<lambda>r.
     bindE (guardE (fs_status r = ''draft'') (FlowTransition ''draft'' (fs_status r))) (\<lambda>_.
     bindE (validate_flow_payload (fs_payload r)) (\<lambda>_.
     let r' = r\<lparr>fs_status := ''preview'', fs_updated_at := now\<rparr>
     in bindE (update_flow r' db) (\<lambda>db'. Inr (r', db')))))"

definition revert_to_draft :: "nat \<Rightarrow> string \<Rightarrow> flow_db \<Rightarrow> flow_error + (flow_row \<times> flow_db)" where
  "revert_to_draft now i db =
     bindE (require_flow db i) (\<lambda>r.
     bindE (guardE (fs_status r = ''preview'') (FlowTransition ''preview'' (fs_status r))) (\<lambda>_.
     let r' = r\<lparr>fs_status := ''draft'', fs_updated_at := now\<rparr>
     in bindE (update_flow r' db) (\<lambda>db'. Inr (r', db'))))"

text \<open>\<^verbatim>\<open>max(existing_max + 1, (record.version or 1) + 1)\<close>.\<close>

definition live_version :: "flow_db \<Rightarrow> flow_row \<Rightarrow> int" where
  "live_version db r =
     max (max_version fs_version (same_code (fs_tenant r) (fs_code r)) (fdb_schemas db) + 1)
         ((if fs_version r = 0 then 1 else fs_version r) + 1)"

definition commit_to_live :: "nat \<Rightarrow> string \<Rightarrow> flow_db \<Rightarrow> flow_error + (flow_row \<times> flow_db)" where
  "commit_to_live now i db =
     bindE (require_flow db i) (\<lambda>r.
     bindE (guardE (fs_status r = ''preview'') (FlowTransition ''preview'' (fs_status r))) (\<lambda>_.
     bindE (validate_flow_payload (fs_payload r)) (\<lambda>_.
     bindE (assert_reachable (case fs_payload r of JObj d \<Rightarrow> d | _ \<Rightarrow> [])) (\<lambda>_.
     let r' = r\<lparr>fs_status := ''live'', fs_version := live_version db r,
                fs_committed_at := Some now, fs_updated_at := now\<rparr>
     in bindE (update_flow r' db) (\<lambda>db'. Inr (r', db'))))))"

definition list_by_tenant :: "flow_db \<Rightarrow> string \<Rightarrow> flow_row list" where
  "list_by_tenant db tenant =
     sort_key fs_created_at (filter (\<lambda>r. fs_tenant r = tenant) (fdb_schemas db))"

text \<open>\<^verbatim>\<open>find_live_for_scope\<close>: one pass over the live rows by falling version; its state
  is the pair \<^verbatim>\<open>exact\<close>, \<^verbatim>\<open>wildcard\<close>.\<close>

definition scope_of :: "flow_row \<Rightarrow> py_error + json" where
  "scope_of r =
     (if truthy (fs_payload r)
      then (case fs_payload r of JObj d \<Rightarrow> Inr (dget d ''scope'') | _ \<Rightarrow> Inl AttributeError)
      else Inr JNull)"

definition scope_step ::
    "string \<Rightarrow> string option \<Rightarrow> flow_row option \<times> flow_row option \<Rightarrow> flow_row \<Rightarrow>
     py_error + (flow_row option \<times> flow_row option)" where
  "scope_step st project acc r =
     (case acc of (exact, wildcard) \<Rightarrow>
      bindE (scope_of r) (\<lambda>scope.
        (case scope of
           JObj d \<Rightarrow>
             if py_str (dget d ''shared_type'') \<noteq> st then Inr (exact, wildcard)
             else if dget d ''project_code'' = JNull
               then Inr (exact, if wildcard = None then Some r else wildcard)
             else if project \<noteq> None \<and> dget d ''project_code'' = JStr (the project)
               then Inr (if exact = None then Some r else exact, wildcard)
             else Inr (exact, wildcard)
         | _ \<Rightarrow> Inr (exact, wildcard))))"

definition live_rows :: "flow_db \<Rightarrow> string \<Rightarrow> flow_row list" where
  "live_rows db tenant =
     sort_key (\<lambda>r. - fs_version r)
       (filter (\<lambda>r. fs_tenant r = tenant \<and> fs_status r = ''live'') (fdb_schemas db))"

definition find_live_for_scope ::
    "flow_db \<Rightarrow> string \<Rightarrow> json \<Rightarrow> string option \<Rightarrow> py_error + flow_row option" where
  "find_live_for_scope db tenant shared_type project =
     bindE (forE (scope_step (py_str shared_type) project) (None, None) (live_rows db tenant))
       (\<lambda>(exact, wildcard). Inr (if exact \<noteq> None then exact else wildcard))"

end
