(* ===== verification/FlowLife.thy ===== *)
theory FlowLife
  imports FlowRepo
begin

text \<open>
  The life of approval-flow templates: the repository's operations as one step function,
  its invariant, and the draft, preview, live contract of \<^verbatim>\<open>Tables\<close> discharged for it.
\<close>

section \<open>One step\<close>

datatype flow_op =
    FCreate nat draft_args
  | FPromote nat string
  | FRevert nat string
  | FCommit nat string

definition flow_step :: "(nat \<Rightarrow> string) \<Rightarrow> flow_db \<Rightarrow> flow_op \<Rightarrow> flow_error + flow_db" where
  "flow_step uuid db op =
     bindE (case op of
              FCreate now a \<Rightarrow> create_draft uuid now a db
            | FPromote now i \<Rightarrow> promote_to_preview now i db
            | FRevert now i \<Rightarrow> revert_to_draft now i db
            | FCommit now i \<Rightarrow> commit_to_live now i db) (\<lambda>(r, db'). Inr db')"

definition flow_status :: "flow_db \<Rightarrow> string \<Rightarrow> string option" where
  "flow_status db i = map_option fs_status (row_by fs_id i (fdb_schemas db))"

definition flow_row_ok :: "flow_row \<Rightarrow> bool" where
  "flow_row_ok r \<longleftrightarrow> fs_status r \<in> set valid_flow_statuses \<and> 1 \<le> fs_version r \<and>
     wf_flow_payload (fs_payload r) \<and>
     (fs_status r = ''live'' \<longleftrightarrow> fs_committed_at r \<noteq> None) \<and>
     (fs_status r = ''live'' \<longrightarrow>
        (flow_start (node_dict (fs_payload r)), flow_end (node_dict (fs_payload r)))
          \<in> (flow_edges (node_dict (fs_payload r)))\<^sup>*)"

definition flow_inv :: "(nat \<Rightarrow> string) \<Rightarrow> flow_db \<Rightarrow> bool" where
  "flow_inv uuid db \<longleftrightarrow> inj uuid \<and>
     unique_on fs_id (fdb_schemas db) \<and> unique_on flow_key (fdb_schemas db) \<and>
     (\<forall>r \<in> set (fdb_schemas db). flow_row_ok r \<and> (\<exists>n < fdb_next db. fs_id r = uuid n))"

section \<open>What a step does\<close>

lemma project_payload_frame:
  assumes "project_payload uuid sid d db = Inr db'"
  shows "fdb_schemas db' = fdb_schemas db \<and> fdb_next db \<le> fdb_next db'"
proof -
  let ?I = "\<lambda>x. fdb_schemas x = fdb_schemas db \<and> fdb_next db \<le> fdb_next x"
  obtain db1 ids db2 k where steps:
    "forE (project_rule uuid sid) (db, []) (json_list (dget d ''selection_rules'')) = Inr (db1, ids)"
    "forE (project_node uuid sid ids) (db1, 0) (json_list (dget d ''nodes'')) = Inr (db2, k)"
    "forE (project_branch uuid sid) db2 (json_list (dget d ''branches'')) = Inr db'"
    using assms by (auto simp: project_payload_def bindE_Inr_iff)
  have "?I (fst (db1, ids))"
    by (rule forE_invariant [OF steps(1), where I = "\<lambda>st. ?I (fst st)"])
      (auto simp: project_rule_def bindE_Inr_iff Let_def split: json.splits if_splits)
  then have "?I (fst (db2, k))"
    by (intro forE_invariant [OF steps(2), where I = "\<lambda>st. ?I (fst st)"])
      (auto simp: project_node_def bindE_Inr_iff Let_def split: json.splits if_splits)
  then have "?I db2" by simp
  then show ?thesis
    by (rule forE_invariant [OF steps(3), where I = ?I])
      (auto simp: project_branch_def bindE_Inr_iff split: json.splits)
qed

lemma create_draft_Inr:
  assumes "create_draft uuid now a db = Inr (r, db')"
  shows "wf_flow_payload (da_payload a) \<and> fdb_schemas db' = fdb_schemas db @ [r] \<and>
    fdb_next db < fdb_next db' \<and> fs_id r = uuid (fdb_next db) \<and> fs_status r = ''draft'' \<and>
    fs_version r = max_version fs_version (same_code (da_tenant a) (da_code a)) (fdb_schemas db) + 1 \<and>
    fs_tenant r = da_tenant a \<and> fs_code r = da_code a \<and> fs_payload r = da_payload a \<and>
    fs_committed_at r = None \<and> flow_key r \<notin> flow_key ` set (fdb_schemas db) \<and>
    fs_id r \<notin> fs_id ` set (fdb_schemas db)"
proof -
  obtain db1 where db1: "insert_flow r (db\<lparr>fdb_next := Suc (fdb_next db)\<rparr>) = Inr db1"
      "project_payload uuid (fs_id r) (case da_payload a of JObj d \<Rightarrow> d | _ \<Rightarrow> []) db1 = Inr db'"
    and rest: "validate_flow_payload (da_payload a) = Inr ()"
      "r = \<lparr>fs_id = uuid (fdb_next db), fs_tenant = da_tenant a, fs_code = da_code a,
                fs_title = da_title a, fs_status = ''draft'', fs_version =
                  max_version fs_version (same_code (da_tenant a) (da_code a)) (fdb_schemas db) + 1,
                fs_source_kind = da_source_kind a, fs_source_text = da_source_text a,
                fs_payload = da_payload a, fs_created_by = da_created_by a,
                fs_created_at = now, fs_updated_at = now, fs_committed_at = None\<rparr>"
    using assms by (auto simp: create_draft_def Let_def bindE_Inr_iff raiseE_Inr_iff)
  from db1(1) have "fdb_schemas db1 = fdb_schemas db @ [r]" "fdb_next db1 = Suc (fdb_next db)"
      "flow_key r \<notin> flow_key ` set (fdb_schemas db)" "fs_id r \<notin> fs_id ` set (fdb_schemas db)"
    by (auto simp: insert_flow_def split: if_splits)
  then show ?thesis
    using project_payload_frame [OF db1(2)] rest by (simp add: validate_flow_payload_wf)
qed

text \<open>A successful step either appends a fresh draft or moves one row along the contract.\<close>

definition flow_moved :: "flow_db \<Rightarrow> flow_row \<Rightarrow> flow_row \<Rightarrow> bool" where
  "flow_moved db r r' \<longleftrightarrow>
     fs_id r' = fs_id r \<and> fs_tenant r' = fs_tenant r \<and> fs_code r' = fs_code r \<and>
     fs_payload r' = fs_payload r \<and> template_move (fs_status r) (fs_status r') \<and>
     (if fs_status r' = ''live''
      then fs_version r' = live_version db r \<and> fs_committed_at r' \<noteq> None \<and>
        assert_reachable (case fs_payload r of JObj d \<Rightarrow> d | _ \<Rightarrow> []) = Inr ()
      else fs_version r' = fs_version r \<and> fs_committed_at r' = fs_committed_at r)"

lemma move_Inr:
  assumes "update_flow r' db = Inr db'" and "require_flow db i = Inr r" and "flow_moved db r r'"
  shows "\<exists>r r'. r \<in> set (fdb_schemas db) \<and> flow_moved db r r' \<and>
    fdb_next db' = fdb_next db \<and> fdb_schemas db' = put_row fs_id r' (fdb_schemas db)"
  using assms
  by (intro exI [of _ r] exI [of _ r'])
    (auto simp: update_flow_def require_flow_def split: if_splits option.splits dest: row_by_SomeD)

lemma flow_step_cases:
  assumes "flow_step uuid db op = Inr db'"
  obtains (birth) now a r where "op = FCreate now a" "create_draft uuid now a db = Inr (r, db')"
  | (move) r r' where "r \<in> set (fdb_schemas db)" "flow_moved db r r'"
      "fdb_next db' = fdb_next db" "fdb_schemas db' = put_row fs_id r' (fdb_schemas db)"
proof (cases op)
  case (FCreate now a)
  then show ?thesis using assms birth by (auto simp: flow_step_def bindE_Inr_iff)
next
  case (FPromote now i)
  then obtain r where "require_flow db i = Inr r" "fs_status r = ''draft''"
      "update_flow (r\<lparr>fs_status := ''preview'', fs_updated_at := now\<rparr>) db = Inr db'"
    using assms by (auto simp: flow_step_def promote_to_preview_def Let_def bindE_Inr_iff)
  then show ?thesis
    using move move_Inr [of "r\<lparr>fs_status := ''preview'', fs_updated_at := now\<rparr>" db db' i r]
    by (auto simp: flow_moved_def template_move_def)
next
  case (FRevert now i)
  then obtain r where "require_flow db i = Inr r" "fs_status r = ''preview''"
      "update_flow (r\<lparr>fs_status := ''draft'', fs_updated_at := now\<rparr>) db = Inr db'"
    using assms by (auto simp: flow_step_def revert_to_draft_def Let_def bindE_Inr_iff)
  then show ?thesis
    using move move_Inr [of "r\<lparr>fs_status := ''draft'', fs_updated_at := now\<rparr>" db db' i r]
    by (auto simp: flow_moved_def template_move_def)
next
  case (FCommit now i)
  then obtain r where "require_flow db i = Inr r" "fs_status r = ''preview''"
      "assert_reachable (case fs_payload r of JObj d \<Rightarrow> d | _ \<Rightarrow> []) = Inr ()"
      "update_flow (r\<lparr>fs_status := ''live'', fs_version := live_version db r,
                fs_committed_at := Some now, fs_updated_at := now\<rparr>) db = Inr db'"
    using assms by (auto simp: flow_step_def commit_to_live_def Let_def bindE_Inr_iff)
  then show ?thesis
    using move move_Inr [of "r\<lparr>fs_status := ''live'', fs_version := live_version db r,
                fs_committed_at := Some now, fs_updated_at := now\<rparr>" db db' i r]
    by (auto simp: flow_moved_def template_move_def)
qed

section \<open>The invariant\<close>

lemma live_version_gt:
  "x \<in> set (fdb_schemas db) \<Longrightarrow> fs_tenant x = fs_tenant r \<Longrightarrow> fs_code x = fs_code r \<Longrightarrow>
   fs_version x < live_version db r"
  using max_version_upper [of x "fdb_schemas db" "same_code (fs_tenant r) (fs_code r)" fs_version]
  by (auto simp: live_version_def same_code_def)

lemma flow_key_moved:
  assumes "unique_on flow_key (fdb_schemas db)" "unique_on fs_id (fdb_schemas db)"
    and "r \<in> set (fdb_schemas db)" "flow_moved db r r'" "x \<in> set (fdb_schemas db)" "fs_id x \<noteq> fs_id r'"
  shows "flow_key x \<noteq> flow_key r'"
proof
  assume eq: "flow_key x = flow_key r'"
  show False
  proof (cases "fs_status r' = ''live''")
    case True
    then have "fs_version x < fs_version r'"
      using live_version_gt [OF assms(5), of r] assms(4) eq by (auto simp: flow_moved_def flow_key_def)
    then show False using eq by (simp add: flow_key_def)
  next
    case False
    then have "flow_key r' = flow_key r" using assms(4) by (auto simp: flow_moved_def flow_key_def)
    then have "x = r"
      using eq assms(1,3,5) by (auto simp: unique_on_def distinct_map dest: inj_onD)
    then show False using assms(4,6) by (simp add: flow_moved_def)
  qed
qed

lemma flow_row_ok_moved: "flow_row_ok r \<Longrightarrow> flow_moved db r r' \<Longrightarrow> flow_row_ok r'"
proof -
  assume ok: "flow_row_ok r" and mv: "flow_moved db r r'"
  obtain d where d: "fs_payload r = JObj d" "wf_flow_payload (JObj d)"
    using ok by (auto simp: flow_row_ok_def wf_flow_payload_def)
  have "fs_status r' = ''live'' \<Longrightarrow> (flow_start d, flow_end d) \<in> (flow_edges d)\<^sup>*"
    using mv d assert_reachable_cases [OF d(2)] by (auto simp: flow_moved_def split: if_splits)
  moreover have "1 \<le> live_version db r"
    using ok by (auto simp: live_version_def flow_row_ok_def)
  ultimately show ?thesis
    using ok mv d by (auto simp: flow_row_ok_def flow_moved_def template_move_def
        flow_vocabulary node_dict_def split: if_splits)
qed

lemma flow_inv_step:
  assumes inv: "flow_inv uuid db" and step: "flow_step uuid db op = Inr db'"
  shows "flow_inv uuid db'"
  using step
proof (cases rule: flow_step_cases)
  case (birth now a r)
  note new = create_draft_Inr [OF birth(2)]
  have ver: "1 \<le> fs_version r"
    using inv new max_version_ge0 [of "fdb_schemas db" fs_version]
    by (force simp: flow_inv_def flow_row_ok_def)
  have "flow_row_ok r" using new ver by (simp add: flow_row_ok_def flow_vocabulary)
  moreover have "\<exists>n < fdb_next db'. fs_id x = uuid n" if x: "x \<in> set (fdb_schemas db')" for x
  proof (cases "x = r")
    case False
    then obtain n where "n < fdb_next db" "fs_id x = uuid n"
      using x new inv by (auto simp: flow_inv_def)
    then show ?thesis using new by (meson less_trans)
  qed (use new in auto)
  ultimately show ?thesis
    using inv new by (auto simp: flow_inv_def unique_on_def)
next
  case (move r r')
  have "unique_on flow_key (fdb_schemas db')"
    unfolding move(4) using inv flow_key_moved [OF _ _ move(1,2)]
    by (intro unique_on_put_row) (auto simp: flow_inv_def)
  moreover have "unique_on fs_id (fdb_schemas db')"
    using inv by (simp add: flow_inv_def unique_on_def move(4))
  moreover have "flow_row_ok x \<and> (\<exists>n < fdb_next db'. fs_id x = uuid n)" if "x \<in> set (fdb_schemas db')" for x
    using in_put_row [of x fs_id r' "fdb_schemas db"] that inv move flow_row_ok_moved [OF _ move(2)]
    by (auto simp: flow_inv_def flow_moved_def)
  ultimately show ?thesis using inv by (simp add: flow_inv_def)
qed

lemma flow_status_moves:
  assumes "flow_inv uuid db" and "flow_step uuid db op = Inr db'" and "flow_status db i = Some a"
  shows "\<exists>b. flow_status db' i = Some b \<and> (a = b \<or> template_move a b)"
  using assms(2)
proof (cases rule: flow_step_cases)
  case (birth now x r)
  then show ?thesis
    using create_draft_Inr [OF birth(2)] assms(3) by (auto simp: flow_status_def row_by_append)
next
  case (move r r')
  have "fs_id r = fs_id r'" using move(2) by (simp add: flow_moved_def)
  moreover from this have "row_by fs_id (fs_id r') (fdb_schemas db) = Some r"
    using assms(1) move(1) by (simp add: row_by_Some_iff flow_inv_def)
  ultimately show ?thesis
    using assms(3) move row_by_put_row [OF move(1), where r = r' and j = i]
    by (auto simp: flow_status_def flow_moved_def)
qed

lemma flow_status_births:
  assumes "flow_inv uuid db" and "flow_step uuid db op = Inr db'" and "flow_status db i = None"
    and "flow_status db' i = Some b"
  shows "b = ''draft''"
  using assms(2)
proof (cases rule: flow_step_cases)
  case (birth now x r)
  then show ?thesis
    using create_draft_Inr [OF birth(2)] assms(3,4)
    by (auto simp: flow_status_def row_by_append row_by_Cons split: if_splits)
next
  case (move r r')
  have "i \<notin> set (map fs_id (fdb_schemas db))"
    using assms(3) by (simp add: flow_status_def row_by_None_iff)
  then have "i \<notin> set (map fs_id (fdb_schemas db'))"
    unfolding move(4) map_put_row_id .
  then have "row_by fs_id i (fdb_schemas db') = None"
    by (simp add: row_by_None_iff)
  then show ?thesis using assms(4) by (simp add: flow_status_def)
qed

interpretation flow_store: template_store "flow_step uuid" flow_status "flow_inv uuid" for uuid
proof
  show "flow_inv uuid db'" if "flow_inv uuid db" "flow_step uuid db op = Inr db'" for db op db'
    using that by (rule flow_inv_step)
  show "\<exists>b. flow_status db' i = Some b \<and> (a = b \<or> (a, b) \<in> {(a, b). template_move a b})"
    if "flow_inv uuid db" "flow_step uuid db op = Inr db'" "flow_status db i = Some a" for db op db' i a
    using flow_status_moves [OF that] by simp
  show "b = ''draft''"
    if "flow_inv uuid db" "flow_step uuid db op = Inr db'" "flow_status db i = None"
      "flow_status db' i = Some b" for db op db' i b
    using that by (rule flow_status_births)
qed

section \<open>The unique constraint never fires\<close>

lemma validate_no_integrity: "validate_flow_payload p \<noteq> Inl FlowIntegrity"
proof
  assume bad: "validate_flow_payload p = Inl FlowIntegrity"
  have nodes: "check_node st n \<noteq> Inl FlowIntegrity" for st n
    by (auto simp: check_node_def bindE_Inl_iff raiseE_Inl_iff split: json.splits prod.splits if_splits)
  have branches: "check_branch codes u b \<noteq> Inl FlowIntegrity" for codes u b
    by (auto simp: check_branch_def bindE_Inl_iff raiseE_Inl_iff split: json.splits if_splits)
  have rules: "check_selection_rule u r \<noteq> Inl FlowIntegrity" for u r
    by (auto simp: check_selection_rule_def bindE_Inl_iff raiseE_Inl_iff split: json.splits if_splits)
  have lists: "payload_list d k \<noteq> Inl FlowIntegrity" for d k
    by (auto simp: payload_list_def split: option.splits json.splits)
  show False
    using bad
    by (auto simp: validate_flow_payload_def bindE_Inl_iff lists nodes branches rules
        split: json.splits dest!: forE_error)
qed

lemma reachable_no_integrity: "assert_reachable d \<noteq> Inl FlowIntegrity"
proof
  assume bad: "assert_reachable d = Inl FlowIntegrity"
  have lists: "payload_list d k \<noteq> Inl FlowIntegrity" for k
    by (auto simp: payload_list_def split: option.splits json.splits)
  show False
    using bad
    by (auto simp: assert_reachable_def bindE_Inl_iff raiseE_Inl_iff lists split: if_splits)
qed

lemma insert_flow_fresh:
  assumes "flow_inv uuid db" and "fs_id r = uuid (fdb_next db)"
    and "fs_version r = max_version fs_version (same_code (fs_tenant r) (fs_code r)) (fdb_schemas db) + 1"
  shows "insert_flow r (db\<lparr>fdb_next := n\<rparr>) = Inr (db\<lparr>fdb_next := n, fdb_schemas := fdb_schemas db @ [r]\<rparr>)"
proof -
  have "flow_key x \<noteq> flow_key r" if "x \<in> set (fdb_schemas db)" for x
    using max_version_upper [OF that, of "same_code (fs_tenant r) (fs_code r)" fs_version] assms(3)
    by (auto simp: flow_key_def same_code_def)
  moreover have "fs_id x \<noteq> fs_id r" if "x \<in> set (fdb_schemas db)" for x
    using assms(1,2) that by (force simp: flow_inv_def dest: injD)
  ultimately have "\<not> (flow_key r \<in> flow_key ` set (fdb_schemas db) \<or> fs_id r \<in> fs_id ` set (fdb_schemas db))"
    by (metis imageE)
  then show ?thesis by (simp add: insert_flow_def)
qed

lemma update_flow_moved:
  assumes "flow_inv uuid db" and "r \<in> set (fdb_schemas db)" and "flow_moved db r r'"
  shows "update_flow r' db = Inr (db\<lparr>fdb_schemas := put_row fs_id r' (fdb_schemas db)\<rparr>)"
  using flow_key_moved [OF _ _ assms(2,3)] assms(1) by (auto simp: update_flow_def flow_inv_def)

lemma require_flow_inv:
  assumes "flow_inv uuid db" and "row_by fs_id i (fdb_schemas db) = Some r"
  shows "require_flow db i = Inr r"
  using assms row_by_SomeD [OF assms(2)] by (auto simp: require_flow_def flow_inv_def flow_row_ok_def)

lemma commit_outcome:
  assumes inv: "flow_inv uuid db" and r: "row_by fs_id i (fdb_schemas db) = Some r"
    and d: "fs_payload r = JObj d"
  shows "commit_to_live now i db =
    (if fs_status r \<noteq> ''preview'' then Inl (FlowTransition ''preview'' (fs_status r))
     else if (flow_start d, flow_end d) \<notin> (flow_edges d)\<^sup>* then Inl (EndUnreachable (flow_end d) (flow_start d))
     else let r' = r\<lparr>fs_status := ''live'', fs_version := live_version db r,
                     fs_committed_at := Some now, fs_updated_at := now\<rparr>
          in Inr (r', db\<lparr>fdb_schemas := put_row fs_id r' (fdb_schemas db)\<rparr>))"
proof -
  let ?r = "r\<lparr>fs_status := ''live'', fs_version := live_version db r,
                     fs_committed_at := Some now, fs_updated_at := now\<rparr>"
  have mem: "r \<in> set (fdb_schemas db)" using row_by_SomeD [OF r] by simp
  have wf: "wf_flow_payload (JObj d)" using inv mem d by (auto simp: flow_inv_def flow_row_ok_def)
  have reach: "assert_reachable d = Inr () \<Longrightarrow> fs_status r = ''preview'' \<Longrightarrow>
      update_flow ?r db = Inr (db\<lparr>fdb_schemas := put_row fs_id ?r (fdb_schemas db)\<rparr>)"
    by (rule update_flow_moved [OF inv mem]) (simp add: flow_moved_def template_move_def d)
  show ?thesis
    using reach by (simp add: commit_to_live_def require_flow_inv [OF inv r] d assert_reachable_cases [OF wf]
        guardE_def Let_def validate_flow_payload_wf [THEN iffD2, OF wf])
qed

text \<open>C1: whatever the operations do, in any order, the template tables keep their shape:
  identifiers and (tenant, code, version) triples are unique, every payload is well formed,
  a template is live exactly when it has a commit time, and the end of every live template
  can be reached from its start.\<close>

theorem flow_repo_invariant: "flow_inv uuid db \<Longrightarrow> flow_inv uuid (run_ops (flow_step uuid) db ops)"
  by (rule flow_store.inv_run)

definition empty_flow_db :: flow_db where
  "empty_flow_db = \<lparr>fdb_schemas = [], fdb_nodes = [], fdb_rules = [], fdb_branches = [], fdb_next = 0\<rparr>"

definition unary_uuid :: "nat \<Rightarrow> string" where
  "unary_uuid n = replicate n CHR ''x''"

lemma inj_unary_uuid: "inj unary_uuid"
  by (rule injI) (simp add: unary_uuid_def)

lemma flow_inv_empty: "inj uuid \<Longrightarrow> flow_inv uuid empty_flow_db"
  by (simp add: flow_inv_def empty_flow_db_def unique_on_def)

theorem flow_repo_invariant_witness:
  "flow_inv unary_uuid (run_ops (flow_step unary_uuid) empty_flow_db
     [FCreate 1 \<lparr>da_tenant = ''t'', da_code = ''c'', da_title = [], da_payload = JObj tiny_flow,
                 da_source_kind = ''manual'', da_source_text = None, da_created_by = ''u''\<rparr>,
      FPromote 2 [], FCommit 3 []])"
  by (rule flow_repo_invariant) (simp add: flow_inv_empty inj_unary_uuid)

text \<open>no operation on a well-formed repository runs into the unique constraint on
  (tenant, code, version): the version numbers the code computes are always free.\<close>

lemma flow_no_integrity_error: "flow_inv uuid db \<Longrightarrow> flow_step uuid db op \<noteq> Inl FlowIntegrity"
proof
  assume inv: "flow_inv uuid db" and bad: "flow_step uuid db op = Inl FlowIntegrity"
  have req: "require_flow db i \<noteq> Inl FlowIntegrity" for i
    by (auto simp: require_flow_def split: option.splits)
  have mem: "require_flow db i = Inr r \<Longrightarrow> r \<in> set (fdb_schemas db)" for i r
    by (auto simp: require_flow_def split: option.splits if_splits dest: row_by_SomeD)
  have upd: "require_flow db i = Inr r \<Longrightarrow> flow_moved db r r' \<Longrightarrow> update_flow r' db \<noteq> Inl FlowIntegrity"
    for i r r'
    using update_flow_moved [OF inv mem] by simp
  note errs = flow_step_def bindE_Inl_iff validate_no_integrity reachable_no_integrity req Let_def
  show False
  proof (cases op)
    case (FCreate now a)
    then show False
      using bad by (simp add: errs create_draft_def raiseE_Inl_iff insert_flow_fresh [OF inv])
  next
    case (FPromote now i)
    then show False using bad upd
      by (auto simp: errs promote_to_preview_def flow_moved_def template_move_def)
  next
    case (FRevert now i)
    then show False using bad upd
      by (auto simp: errs revert_to_draft_def flow_moved_def template_move_def)
  next
    case (FCommit now i)
    then show False using bad upd
      by (auto simp: errs commit_to_live_def flow_moved_def template_move_def)
  qed
qed

definition preview_row :: flow_row where
  "preview_row = \<lparr>fs_id = [], fs_tenant = ''t'', fs_code = ''c'', fs_title = [], fs_status = ''preview'',
     fs_version = 1, fs_source_kind = ''manual'', fs_source_text = None, fs_payload = JObj tiny_flow,
     fs_created_by = ''u'', fs_created_at = 1, fs_updated_at = 1, fs_committed_at = None\<rparr>"

definition preview_db :: flow_db where
  "preview_db = empty_flow_db\<lparr>fdb_schemas := [preview_row], fdb_next := 1\<rparr>"

lemma preview_db_inv: "flow_inv unary_uuid preview_db"
  by (auto simp: flow_inv_def preview_db_def inj_unary_uuid unique_on_def flow_row_ok_def preview_row_def
      flow_vocabulary tiny_flow_wf unary_uuid_def)

definition live_db :: flow_db where
  "live_db = preview_db\<lparr>fdb_schemas :=
     [preview_row\<lparr>fs_status := ''live'', fs_committed_at := Some 1\<rparr>]\<rparr>"

lemma live_db_inv: "flow_inv unary_uuid live_db"
proof -
  have "(flow_start tiny_flow, flow_end tiny_flow) \<in> (flow_edges tiny_flow)\<^sup>*"
    by (rule r_into_rtrancl)
      (simp add: tiny_flow_def flow_start_def flow_end_def flow_edges_def dget_def json_list_def
        node_of_type_def node_code_of_def node_type_of_def branch_pair_def)
  then show ?thesis
    by (auto simp: flow_inv_def live_db_def preview_db_def inj_unary_uuid unique_on_def flow_row_ok_def
        preview_row_def flow_vocabulary tiny_flow_wf unary_uuid_def node_dict_def)
qed

text \<open>a template that has gone live stays live, and it went live only through preview.\<close>

lemma flow_live_lifecycle:
  assumes "flow_inv uuid db"
  shows "if flow_status db i = Some ''live''
     then flow_status (run_ops (flow_step uuid) db ops) i = Some ''live''
     else flow_status (run_ops (flow_step uuid) db ops) i \<noteq> Some ''live'' \<or>
       (\<exists>n \<le> length ops. flow_status (run_ops (flow_step uuid) db (take n ops)) i = Some ''preview'')"
  using flow_store.live_is_final [OF assms] flow_store.live_through_preview [OF assms] by auto

text \<open>\<^verbatim>\<open>commit_to_live\<close> on a stored template: it is refused unless the template is in
  preview, refused when the end node cannot be reached, and otherwise makes it live with a
  version above that of every template of the same tenant and code.\<close>

lemma commit_to_live_outcome:
  assumes "flow_inv uuid db" and "row_by fs_id i (fdb_schemas db) = Some r" and "fs_payload r = JObj d"
  shows "commit_to_live now i db =
    (if fs_status r \<noteq> ''preview'' then Inl (FlowTransition ''preview'' (fs_status r))
     else if (flow_start d, flow_end d) \<notin> (flow_edges d)\<^sup>* then Inl (EndUnreachable (flow_end d) (flow_start d))
     else let r' = r\<lparr>fs_status := ''live'', fs_version := live_version db r,
                     fs_committed_at := Some now, fs_updated_at := now\<rparr>
          in Inr (r', db\<lparr>fdb_schemas := put_row fs_id r' (fdb_schemas db)\<rparr>)) \<and>
    (\<forall>x \<in> set (fdb_schemas db). fs_tenant x = fs_tenant r \<and> fs_code x = fs_code r \<longrightarrow>
       fs_version x < live_version db r)"
  using commit_outcome [OF assms] live_version_gt by blast

end
