(* ===== verification/FlowScope.thy ===== *)
theory FlowScope
  imports FlowLife
begin

text \<open>
  What \<^verbatim>\<open>find_live_for_scope\<close> selects: a live template of the tenant whose scope names the
  shared type, one bound to the project before one for all projects, the highest version
  first.
\<close>

definition flow_scope :: "flow_row \<Rightarrow> json" where
  "flow_scope r = dget (node_dict (fs_payload r)) ''scope''"

definition scope_wild :: "string \<Rightarrow> flow_row \<Rightarrow> bool" where
  "scope_wild st r \<longleftrightarrow> (case flow_scope r of
     JObj d \<Rightarrow> py_str (dget d ''shared_type'') = st \<and> dget d ''project_code'' = JNull | _ \<Rightarrow> False)"

definition scope_exact :: "string \<Rightarrow> string option \<Rightarrow> flow_row \<Rightarrow> bool" where
  "scope_exact st project r \<longleftrightarrow> (case flow_scope r of
     JObj d \<Rightarrow> py_str (dget d ''shared_type'') = st \<and> project \<noteq> None \<and>
       dget d ''project_code'' = JStr (the project) | _ \<Rightarrow> False)"

lemma scope_step_eq:
  assumes "wf_flow_payload (fs_payload r)"
  shows "scope_step st project (exact, wildcard) r =
     Inr (if exact = None \<and> scope_exact st project r then Some r else exact,
          if wildcard = None \<and> scope_wild st r then Some r else wildcard)"
proof -
  obtain d nodes where d: "fs_payload r = JObj d" "map_of d ''nodes'' = Some nodes"
    using assms by (auto simp: wf_flow_payload_def)
  then have "d \<noteq> []" by auto
  with d have "scope_of r = Inr (flow_scope r)"
    by (simp add: scope_of_def flow_scope_def node_dict_def)
  then show ?thesis
    by (auto simp: scope_step_def scope_exact_def scope_wild_def split: json.splits)
qed

lemma scope_loop:
  assumes "\<And>r. r \<in> set rows \<Longrightarrow> wf_flow_payload (fs_payload r)"
  shows "forE (scope_step st project) (exact, wildcard) rows =
     Inr (case exact of None \<Rightarrow> find (scope_exact st project) rows | Some x \<Rightarrow> Some x,
          case wildcard of None \<Rightarrow> find (scope_wild st) rows | Some x \<Rightarrow> Some x)"
  using assms
proof (induction rows arbitrary: exact wildcard)
  case (Cons r rows)
  then show ?case by (auto simp: scope_step_eq split: option.splits)
qed (simp split: option.splits)

lemma find_sorted_min:
  assumes "find P (sort_key f xs) = Some r"
  shows "r \<in> set xs \<and> P r \<and> (\<forall>x \<in> set xs. P x \<longrightarrow> f r \<le> f x)"
proof -
  obtain i where i: "i < length (sort_key f xs)" "P (sort_key f xs ! i)" "r = sort_key f xs ! i"
      "\<forall>j < i. \<not> P (sort_key f xs ! j)"
    using assms by (auto simp: find_Some_iff)
  have "f r \<le> f x" if "x \<in> set xs" "P x" for x
  proof -
    have "x \<in> set (sort_key f xs)" using that(1) by simp
    then obtain k where k: "k < length (sort_key f xs)" "x = sort_key f xs ! k"
      by (metis in_set_conv_nth)
    then have "i \<le> k" using i(4) that(2) not_less by blast
    then have "map f (sort_key f xs) ! i \<le> map f (sort_key f xs) ! k"
      by (intro sorted_nth_mono) (use k in auto)
    then show ?thesis using i k by (simp add: le_less_trans)
  qed
  moreover have "r \<in> set xs" using i(1,3) by (metis nth_mem set_sort)
  ultimately show ?thesis using i(2,3) by blast
qed

definition live_of :: "flow_db \<Rightarrow> string \<Rightarrow> flow_row set" where
  "live_of db tenant = {r \<in> set (fdb_schemas db). fs_tenant r = tenant \<and> fs_status r = ''live''}"

lemma find_live_rows:
  "find P (live_rows db tenant) = Some r \<Longrightarrow>
     r \<in> live_of db tenant \<and> P r \<and> (\<forall>x \<in> live_of db tenant. P x \<longrightarrow> fs_version x \<le> fs_version r)"
  unfolding live_rows_def by (drule find_sorted_min) (auto simp: live_of_def)

lemma find_live_rows_None:
  "find P (live_rows db tenant) = None \<longleftrightarrow> (\<forall>x \<in> live_of db tenant. \<not> P x)"
  by (auto simp: find_None_iff live_rows_def live_of_def)

lemma find_live_eq:
  assumes "flow_inv uuid db"
  shows "find_live_for_scope db tenant sty project =
    Inr (case find (scope_exact (py_str sty) project) (live_rows db tenant) of
           None \<Rightarrow> find (scope_wild (py_str sty)) (live_rows db tenant) | Some r \<Rightarrow> Some r)"
proof -
  have "wf_flow_payload (fs_payload r)" if "r \<in> set (live_rows db tenant)" for r
    using that assms by (auto simp: live_rows_def flow_inv_def flow_row_ok_def)
  then show ?thesis
    by (simp add: find_live_for_scope_def scope_loop split: option.splits)
qed

text \<open>the lookup of a custom template never raises on a well-formed repository, misses
  only when no live template of the tenant is scoped to the shared type and the project, and
  otherwise picks one bound to this very project when there is one, else one for all
  projects, with the highest version among those.\<close>

lemma find_live_for_scope_spec:
  assumes "flow_inv uuid db"
  shows "\<exists>res. find_live_for_scope db tenant sty project = Inr res \<and>
    (case res of
       None \<Rightarrow> \<forall>x \<in> live_of db tenant. \<not> scope_exact (py_str sty) project x \<and> \<not> scope_wild (py_str sty) x
     | Some r \<Rightarrow> r \<in> live_of db tenant \<and>
         (if \<exists>x \<in> live_of db tenant. scope_exact (py_str sty) project x
          then scope_exact (py_str sty) project r \<and>
            (\<forall>x \<in> live_of db tenant. scope_exact (py_str sty) project x \<longrightarrow> fs_version x \<le> fs_version r)
          else scope_wild (py_str sty) r \<and>
            (\<forall>x \<in> live_of db tenant. scope_wild (py_str sty) x \<longrightarrow> fs_version x \<le> fs_version r)))"
proof (cases "find (scope_exact (py_str sty) project) (live_rows db tenant)")
  case None
  then show ?thesis
    unfolding find_live_eq [OF assms]
    by (auto simp: find_live_rows_None split: option.splits dest: find_live_rows)
next
  case (Some r)
  then show ?thesis
    unfolding find_live_eq [OF assms] using find_live_rows [OF Some] by auto
qed

definition scoped_flow :: "json \<Rightarrow> dict" where
  "scoped_flow project = tiny_flow @
     [(''scope'', JObj [(''shared_type'', JInt 2), (''project_code'', project)])]"

definition scoped_row :: "nat \<Rightarrow> int \<Rightarrow> json \<Rightarrow> flow_row" where
  "scoped_row n v project = preview_row\<lparr>fs_id := unary_uuid n, fs_status := ''live'', fs_version := v,
     fs_payload := JObj (scoped_flow project), fs_committed_at := Some 1\<rparr>"

definition scoped_db :: flow_db where
  "scoped_db = empty_flow_db\<lparr>fdb_schemas :=
     [scoped_row 0 5 JNull, scoped_row 1 3 (JStr ''p''), scoped_row 2 4 (JStr ''p'')], fdb_next := 3\<rparr>"

lemma scoped_flow_ok:
  "wf_flow_payload (JObj (scoped_flow p))"
  "(flow_start (scoped_flow p), flow_end (scoped_flow p)) \<in> (flow_edges (scoped_flow p))\<^sup>*"
proof -
  show "wf_flow_payload (JObj (scoped_flow p))"
    by (simp add: wf_flow_payload_def scoped_flow_def tiny_flow_def wf_nodes_def wf_node_def dget_def
        dget_or_def node_code_of_def node_type_of_def wf_branch_def flow_vocabulary)
  show "(flow_start (scoped_flow p), flow_end (scoped_flow p)) \<in> (flow_edges (scoped_flow p))\<^sup>*"
    by (rule r_into_rtrancl)
      (simp add: scoped_flow_def tiny_flow_def flow_start_def flow_end_def flow_edges_def dget_def
        json_list_def node_of_type_def node_code_of_def node_type_of_def branch_pair_def)
qed

lemma scoped_db_inv: "flow_inv unary_uuid scoped_db"
proof -
  have "flow_row_ok (scoped_row n v p)" if "1 \<le> v" for n v p
    using that scoped_flow_ok [of p]
    by (simp add: flow_row_ok_def scoped_row_def preview_row_def flow_vocabulary node_dict_def)
  moreover have "fs_id (scoped_row n v p) = unary_uuid n" "fs_version (scoped_row n v p) = v" for n v p
    by (simp_all add: scoped_row_def)
  ultimately show ?thesis
    by (auto simp: flow_inv_def scoped_db_def inj_unary_uuid unique_on_def flow_key_def
        inj_eq [OF inj_unary_uuid])
qed

end
