(* ===== verification/Labels.thy ===== *)
theory Labels
  imports Prelude
begin

text \<open>
  The Chinese texts the modelled code writes or tests for, as the bytes of their UTF-8 encoding.
  Each definition names the source text by its meaning.
\<close>

text \<open>The prefix of a generated step name (step).\<close>

definition lbl_step :: string where
  "lbl_step = [CHR 0xE6, CHR 0xAD, CHR 0xA5, CHR 0xE9, CHR 0xAA, CHR 0xA4]"

text \<open>Node name: start.\<close>

definition lbl_start :: string where
  "lbl_start = [CHR 0xE5, CHR 0xBC, CHR 0x80, CHR 0xE5, CHR 0xA7, CHR 0x8B]"

text \<open>Node name: end.\<close>

definition lbl_end :: string where
  "lbl_end = [CHR 0xE7, CHR 0xBB, CHR 0x93, CHR 0xE6, CHR 0x9D, CHR 0x9F]"

text \<open>Node name: review by the business operator.\<close>

definition lbl_biz_review :: string where
  "lbl_biz_review = [CHR 0xE4, CHR 0xB8, CHR 0x9A, CHR 0xE5, CHR 0x8A, CHR 0xA1, CHR 0xE7,
     CHR 0xAE, CHR 0xA1, CHR 0xE7, CHR 0x90, CHR 0x86, CHR 0xE5, CHR 0x91, CHR 0x98, CHR 0xE5,
     CHR 0xAE, CHR 0xA1, CHR 0xE6, CHR 0xA0, CHR 0xB8]"

text \<open>Node name: review by the data manager.\<close>

definition lbl_data_review :: string where
  "lbl_data_review = [CHR 0xE6, CHR 0x95, CHR 0xB0, CHR 0xE6, CHR 0x8D, CHR 0xAE, CHR 0xE7,
     CHR 0xAE, CHR 0xA1, CHR 0xE7, CHR 0x90, CHR 0x86, CHR 0xE5, CHR 0x91, CHR 0x98, CHR 0xE5,
     CHR 0xAE, CHR 0xA1, CHR 0xE6, CHR 0xA0, CHR 0xB8]"

text \<open>Node name: review by the applicant's department.\<close>

definition lbl_org_unit_review :: string where
  "lbl_org_unit_review = [CHR 0xE7, CHR 0x94, CHR 0xB3, CHR 0xE8, CHR 0xAF, CHR 0xB7, CHR 0xE5,
     CHR 0x8D, CHR 0x95, CHR 0xE4, CHR 0xBD, CHR 0x8D, CHR 0xE9, CHR 0x83, CHR 0xA8, CHR 0xE9,
     CHR 0x97, CHR 0xA8, CHR 0xE5, CHR 0xAE, CHR 0xA1]"

text \<open>Node name: final review by the department head.\<close>

definition lbl_leader_final :: string where
  "lbl_leader_final = [CHR 0xE9, CHR 0x83, CHR 0xA8, CHR 0xE9, CHR 0x97, CHR 0xA8, CHR 0xE8,
     CHR 0xB4, CHR 0x9F, CHR 0xE8, CHR 0xB4, CHR 0xA3, CHR 0xE4, CHR 0xBA, CHR 0xBA, CHR 0xE7,
     CHR 0xBB, CHR 0x88, CHR 0xE5, CHR 0xAE, CHR 0xA1]"

text \<open>Node name: fast review by the data manager.\<close>

definition lbl_fast_review :: string where
  "lbl_fast_review = [CHR 0xE6, CHR 0x95, CHR 0xB0, CHR 0xE6, CHR 0x8D, CHR 0xAE, CHR 0xE7,
     CHR 0xAE, CHR 0xA1, CHR 0xE7, CHR 0x90, CHR 0x86, CHR 0xE5, CHR 0x91, CHR 0x98, CHR 0xE5,
     CHR 0xBF, CHR 0xAB, CHR 0xE9, CHR 0x80, CHR 0x9F, CHR 0xE5, CHR 0xAE, CHR 0xA1, CHR 0xE6,
     CHR 0xA0, CHR 0xB8]"

text \<open>Title: baseline flow for conditional sharing.\<close>

definition lbl_conditional_title :: string where
  "lbl_conditional_title = [CHR 0xE6, CHR 0x9C, CHR 0x89, CHR 0xE6, CHR 0x9D, CHR 0xA1, CHR 0xE4,
     CHR 0xBB, CHR 0xB6, CHR 0xE5, CHR 0x85, CHR 0xB1, CHR 0xE4, CHR 0xBA, CHR 0xAB, CHR 0xE5,
     CHR 0x9F, CHR 0xBA, CHR 0xE7, CHR 0xBA, CHR 0xBF, CHR 0xE6, CHR 0xB5, CHR 0x81, CHR 0xE7,
     CHR 0xA8, CHR 0x8B]"

text \<open>Title: baseline flow for unconditional sharing.\<close>

definition lbl_unconditional_title :: string where
  "lbl_unconditional_title = [CHR 0xE6, CHR 0x97, CHR 0xA0, CHR 0xE6, CHR 0x9D, CHR 0xA1,
     CHR 0xE4, CHR 0xBB, CHR 0xB6, CHR 0xE5, CHR 0x85, CHR 0xB1, CHR 0xE4, CHR 0xBA, CHR 0xAB,
     CHR 0xE5, CHR 0x9F, CHR 0xBA, CHR 0xE7, CHR 0xBA, CHR 0xBF, CHR 0xE6, CHR 0xB5, CHR 0x81,
     CHR 0xE7, CHR 0xA8, CHR 0x8B]"

text \<open>Share type label: unconditional sharing.\<close>

definition lbl_share_open :: string where
  "lbl_share_open = [CHR 0xE6, CHR 0x97, CHR 0xA0, CHR 0xE6, CHR 0x9D, CHR 0xA1, CHR 0xE4,
     CHR 0xBB, CHR 0xB6, CHR 0xE5, CHR 0x85, CHR 0xB1, CHR 0xE4, CHR 0xBA, CHR 0xAB]"

text \<open>Share type label: conditional sharing.\<close>

definition lbl_share_conditional :: string where
  "lbl_share_conditional = [CHR 0xE6, CHR 0x9C, CHR 0x89, CHR 0xE6, CHR 0x9D, CHR 0xA1, CHR 0xE4,
     CHR 0xBB, CHR 0xB6, CHR 0xE5, CHR 0x85, CHR 0xB1, CHR 0xE4, CHR 0xBA, CHR 0xAB]"

text \<open>Share type label: no sharing.\<close>

definition lbl_share_closed :: string where
  "lbl_share_closed = [CHR 0xE4, CHR 0xB8, CHR 0x8D, CHR 0xE4, CHR 0xBA, CHR 0x88, CHR 0xE5,
     CHR 0x85, CHR 0xB1, CHR 0xE4, CHR 0xBA, CHR 0xAB]"

text \<open>Update cycle 1: real time.\<close>

definition lbl_cycle_1 :: string where
  "lbl_cycle_1 = [CHR 0xE5, CHR 0xAE, CHR 0x9E, CHR 0xE6, CHR 0x97, CHR 0xB6]"

text \<open>Update cycle 2: daily.\<close>

definition lbl_cycle_2 :: string where
  "lbl_cycle_2 = [CHR 0xE6, CHR 0xAF, CHR 0x8F, CHR 0xE6, CHR 0x97, CHR 0xA5]"

text \<open>Update cycle 3: weekly.\<close>

definition lbl_cycle_3 :: string where
  "lbl_cycle_3 = [CHR 0xE6, CHR 0xAF, CHR 0x8F, CHR 0xE5, CHR 0x91, CHR 0xA8]"

text \<open>Update cycle 4: monthly.\<close>

definition lbl_cycle_4 :: string where
  "lbl_cycle_4 = [CHR 0xE6, CHR 0xAF, CHR 0x8F, CHR 0xE6, CHR 0x9C, CHR 0x88]"

text \<open>Update cycle 5: quarterly.\<close>

definition lbl_cycle_5 :: string where
  "lbl_cycle_5 = [CHR 0xE6, CHR 0xAF, CHR 0x8F, CHR 0xE5, CHR 0xAD, CHR 0xA3, CHR 0xE5, CHR 0xBA,
     CHR 0xA6]"

text \<open>Update cycle 6: half-yearly.\<close>

definition lbl_cycle_6 :: string where
  "lbl_cycle_6 = [CHR 0xE6, CHR 0xAF, CHR 0x8F, CHR 0xE5, CHR 0x8D, CHR 0x8A, CHR 0xE5, CHR 0xB9,
     CHR 0xB4]"

text \<open>Update cycle 7: yearly.\<close>

definition lbl_cycle_7 :: string where
  "lbl_cycle_7 = [CHR 0xE6, CHR 0xAF, CHR 0x8F, CHR 0xE5, CHR 0xB9, CHR 0xB4]"

text \<open>Update cycle 8: irregular.\<close>

definition lbl_cycle_8 :: string where
  "lbl_cycle_8 = [CHR 0xE4, CHR 0xB8, CHR 0x8D, CHR 0xE5, CHR 0xAE, CHR 0x9A, CHR 0xE6, CHR 0x9C,
     CHR 0x9F]"

text \<open>Update cycle 9: not updated.\<close>

definition lbl_cycle_9 :: string where
  "lbl_cycle_9 = [CHR 0xE4, CHR 0xB8, CHR 0x8D, CHR 0xE6, CHR 0x9B, CHR 0xB4, CHR 0xE6, CHR 0x96,
     CHR 0xB0]"

text \<open>Form label: responsible unit.\<close>

definition lbl_f_organ :: string where
  "lbl_f_organ = [CHR 0xE8, CHR 0xB4, CHR 0xA3, CHR 0xE4, CHR 0xBB, CHR 0xBB, CHR 0xE5, CHR 0x8D,
     CHR 0x95, CHR 0xE4, CHR 0xBD, CHR 0x8D]"

text \<open>Form label: name of the responsible unit.\<close>

definition lbl_f_organ_name :: string where
  "lbl_f_organ_name = [CHR 0xE8, CHR 0xB4, CHR 0xA3, CHR 0xE4, CHR 0xBB, CHR 0xBB, CHR 0xE5,
     CHR 0x8D, CHR 0x95, CHR 0xE4, CHR 0xBD, CHR 0x8D, CHR 0xE5, CHR 0x90, CHR 0x8D, CHR 0xE7,
     CHR 0xA7, CHR 0xB0]"

text \<open>Form label: administrative region.\<close>

definition lbl_f_region :: string where
  "lbl_f_region = [CHR 0xE8, CHR 0xA1, CHR 0x8C, CHR 0xE6, CHR 0x94, CHR 0xBF, CHR 0xE5,
     CHR 0x8C, CHR 0xBA, CHR 0xE5, CHR 0x88, CHR 0x92]"

text \<open>Form label: name of the administrative region.\<close>

definition lbl_f_region_name :: string where
  "lbl_f_region_name = [CHR 0xE8, CHR 0xA1, CHR 0x8C, CHR 0xE6, CHR 0x94, CHR 0xBF, CHR 0xE5,
     CHR 0x8C, CHR 0xBA, CHR 0xE5, CHR 0x88, CHR 0x92, CHR 0xE5, CHR 0x90, CHR 0x8D, CHR 0xE7,
     CHR 0xA7, CHR 0xB0]"

text \<open>Form label: applicant unit.\<close>

definition lbl_f_applicant :: string where
  "lbl_f_applicant = [CHR 0xE7, CHR 0x94, CHR 0xB3, CHR 0xE8, CHR 0xAF, CHR 0xB7, CHR 0xE5,
     CHR 0x8D, CHR 0x95, CHR 0xE4, CHR 0xBD, CHR 0x8D]"

text \<open>Form label: purpose.\<close>

definition lbl_f_purpose :: string where
  "lbl_f_purpose = [CHR 0xE7, CHR 0x94, CHR 0xB3, CHR 0xE8, CHR 0xAF, CHR 0xB7, CHR 0xE7,
     CHR 0x94, CHR 0xA8, CHR 0xE9, CHR 0x80, CHR 0x94]"

text \<open>Form label: reason for use.\<close>

definition lbl_f_reason :: string where
  "lbl_f_reason = [CHR 0xE4, CHR 0xBD, CHR 0xBF, CHR 0xE7, CHR 0x94, CHR 0xA8, CHR 0xE7,
     CHR 0x90, CHR 0x86, CHR 0xE7, CHR 0x94, CHR 0xB1]"

text \<open>Form label: application domain.\<close>

definition lbl_f_domain :: string where
  "lbl_f_domain = [CHR 0xE7, CHR 0x94, CHR 0xB3, CHR 0xE8, CHR 0xAF, CHR 0xB7, CHR 0xE9,
     CHR 0xA2, CHR 0x86, CHR 0xE5, CHR 0x9F, CHR 0x9F]"

text \<open>Form label: scope of use.\<close>

definition lbl_f_scope :: string where
  "lbl_f_scope = [CHR 0xE4, CHR 0xBD, CHR 0xBF, CHR 0xE7, CHR 0x94, CHR 0xA8, CHR 0xE8, CHR 0x8C,
     CHR 0x83, CHR 0xE5, CHR 0x9B, CHR 0xB4]"

text \<open>Form label: delivery expectation.\<close>

definition lbl_f_delivery :: string where
  "lbl_f_delivery = [CHR 0xE4, CHR 0xBA, CHR 0xA4, CHR 0xE4, CHR 0xBB, CHR 0x98, CHR 0xE6,
     CHR 0x9C, CHR 0x9F, CHR 0xE6, CHR 0x9C, CHR 0x9B]"

text \<open>State: filled in.\<close>

definition lbl_st_human :: string where
  "lbl_st_human = [CHR 0xE5, CHR 0xB7, CHR 0xB2, CHR 0xE5, CHR 0xA1, CHR 0xAB, CHR 0xE5,
     CHR 0x86, CHR 0x99]"

text \<open>State: filled automatically.\<close>

definition lbl_st_derived :: string where
  "lbl_st_derived = [CHR 0xE8, CHR 0x87, CHR 0xAA, CHR 0xE5, CHR 0x8A, CHR 0xA8, CHR 0xE5,
     CHR 0xB8, CHR 0xA6, CHR 0xE5, CHR 0x87, CHR 0xBA]"

text \<open>State: suggested, to be confirmed.\<close>

definition lbl_st_ai :: string where
  "lbl_st_ai = [CHR 0x41, CHR 0x49, CHR 0xE5, CHR 0xBB, CHR 0xBA, CHR 0xE8, CHR 0xAE, CHR 0xAE,
     CHR 0xC2, CHR 0xB7, CHR 0xE5, CHR 0xBE, CHR 0x85, CHR 0xE7, CHR 0xA1, CHR 0xAE, CHR 0xE8,
     CHR 0xAE, CHR 0xA4]"

text \<open>State: to be filled in.\<close>

definition lbl_st_empty :: string where
  "lbl_st_empty = [CHR 0xE5, CHR 0xBE, CHR 0x85, CHR 0xE5, CHR 0xA1, CHR 0xAB, CHR 0xE5,
     CHR 0x86, CHR 0x99]"

text \<open>Role name: department operator.\<close>

definition lbl_r_operater :: string where
  "lbl_r_operater = [CHR 0xE9, CHR 0x83, CHR 0xA8, CHR 0xE9, CHR 0x97, CHR 0xA8, CHR 0xE6,
     CHR 0x93, CHR 0x8D, CHR 0xE4, CHR 0xBD, CHR 0x9C, CHR 0xE5, CHR 0x91, CHR 0x98]"

text \<open>Role name: department manager.\<close>

definition lbl_r_manager :: string where
  "lbl_r_manager = [CHR 0xE9, CHR 0x83, CHR 0xA8, CHR 0xE9, CHR 0x97, CHR 0xA8, CHR 0xE7,
     CHR 0xAE, CHR 0xA1, CHR 0xE7, CHR 0x90, CHR 0x86, CHR 0xE5, CHR 0x91, CHR 0x98]"

text \<open>Role name: business operator.\<close>

definition lbl_r_busiaudit :: string where
  "lbl_r_busiaudit = [CHR 0xE4, CHR 0xB8, CHR 0x9A, CHR 0xE5, CHR 0x8A, CHR 0xA1, CHR 0xE8,
     CHR 0xBF, CHR 0x90, CHR 0xE8, CHR 0x90, CHR 0xA5, CHR 0xE5, CHR 0x91, CHR 0x98]"

text \<open>Role name: security auditor.\<close>

definition lbl_r_security_audit :: string where
  "lbl_r_security_audit = [CHR 0xE5, CHR 0xAE, CHR 0x89, CHR 0xE5, CHR 0x85, CHR 0xA8, CHR 0xE5,
     CHR 0xAE, CHR 0xA1, CHR 0xE8, CHR 0xAE, CHR 0xA1, CHR 0xE5, CHR 0x91, CHR 0x98]"

text \<open>Role name: platform operator.\<close>

definition lbl_r_system :: string where
  "lbl_r_system = [CHR 0xE5, CHR 0xB9, CHR 0xB3, CHR 0xE5, CHR 0x8F, CHR 0xB0, CHR 0xE8,
     CHR 0xBF, CHR 0x90, CHR 0xE7, CHR 0xBB, CHR 0xB4, CHR 0xE5, CHR 0x91, CHR 0x98]"

text \<open>Role name: implementation engineer.\<close>

definition lbl_r_admin :: string where
  "lbl_r_admin = [CHR 0xE5, CHR 0xAE, CHR 0x9E, CHR 0xE6, CHR 0x96, CHR 0xBD, CHR 0xE5, CHR 0xB7,
     CHR 0xA5, CHR 0xE7, CHR 0xA8, CHR 0x8B, CHR 0xE5, CHR 0xB8, CHR 0x88]"

text \<open>Role name: system.\<close>

definition lbl_r_internal :: string where
  "lbl_r_internal = [CHR 0xE7, CHR 0xB3, CHR 0xBB, CHR 0xE7, CHR 0xBB, CHR 0x9F]"

text \<open>Node name: create the objection.\<close>

definition lbl_obj_create :: string where
  "lbl_obj_create = [CHR 0xE5, CHR 0x88, CHR 0x9B, CHR 0xE5, CHR 0xBB, CHR 0xBA, CHR 0xE5,
     CHR 0xBC, CHR 0x82, CHR 0xE8, CHR 0xAE, CHR 0xAE]"

text \<open>Node name: accept the objection.\<close>

definition lbl_obj_accept :: string where
  "lbl_obj_accept = [CHR 0xE5, CHR 0x8F, CHR 0x97, CHR 0xE7, CHR 0x90, CHR 0x86, CHR 0xE5,
     CHR 0xBC, CHR 0x82, CHR 0xE8, CHR 0xAE, CHR 0xAE]"

text \<open>Node name: assign the investigation.\<close>

definition lbl_obj_assign :: string where
  "lbl_obj_assign = [CHR 0xE5, CHR 0x88, CHR 0x86, CHR 0xE5, CHR 0x8F, CHR 0x91, CHR 0xE6,
     CHR 0xA0, CHR 0xB8, CHR 0xE6, CHR 0x9F, CHR 0xA5]"

text \<open>Node name: close the objection.\<close>

definition lbl_obj_close :: string where
  "lbl_obj_close = [CHR 0xE5, CHR 0x85, CHR 0xB3, CHR 0xE9, CHR 0x97, CHR 0xAD, CHR 0xE5,
     CHR 0xBC, CHR 0x82, CHR 0xE8, CHR 0xAE, CHR 0xAE]"

text \<open>Node name: escalate to supervision.\<close>

definition lbl_obj_escalate :: string where
  "lbl_obj_escalate = [CHR 0xE5, CHR 0x8D, CHR 0x87, CHR 0xE7, CHR 0xBA, CHR 0xA7, CHR 0xE7,
     CHR 0x9D, CHR 0xA3, CHR 0xE5, CHR 0x8A, CHR 0x9E]"

text \<open>Node name: reject the objection.\<close>

definition lbl_obj_reject :: string where
  "lbl_obj_reject = [CHR 0xE9, CHR 0xA9, CHR 0xB3, CHR 0xE5, CHR 0x9B, CHR 0x9E, CHR 0xE5,
     CHR 0xBC, CHR 0x82, CHR 0xE8, CHR 0xAE, CHR 0xAE]"

text \<open>Node name: review the objection.\<close>

definition lbl_obj_review :: string where
  "lbl_obj_review = [CHR 0xE5, CHR 0xA4, CHR 0x8D, CHR 0xE6, CHR 0xA0, CHR 0xB8, CHR 0xE5,
     CHR 0xBC, CHR 0x82, CHR 0xE8, CHR 0xAE, CHR 0xAE]"

text \<open>Node name: submit the objection.\<close>

definition lbl_obj_submit :: string where
  "lbl_obj_submit = [CHR 0xE6, CHR 0x8F, CHR 0x90, CHR 0xE4, CHR 0xBA, CHR 0xA4, CHR 0xE5,
     CHR 0xBC, CHR 0x82, CHR 0xE8, CHR 0xAE, CHR 0xAE]"

text \<open>Node name: evaluate the outcome.\<close>

definition lbl_obj_evaluate :: string where
  "lbl_obj_evaluate = [CHR 0xE8, CHR 0xAF, CHR 0x84, CHR 0xE4, CHR 0xBB, CHR 0xB7, CHR 0xE5,
     CHR 0xA4, CHR 0x84, CHR 0xE7, CHR 0x90, CHR 0x86, CHR 0xE7, CHR 0xBB, CHR 0x93, CHR 0xE6,
     CHR 0x9E, CHR 0x9C]"

text \<open>Node name: reply to the investigation.\<close>

definition lbl_obj_reply :: string where
  "lbl_obj_reply = [CHR 0xE6, CHR 0x8F, CHR 0x90, CHR 0xE4, CHR 0xBA, CHR 0xA4, CHR 0xE6,
     CHR 0xA0, CHR 0xB8, CHR 0xE6, CHR 0x9F, CHR 0xA5, CHR 0xE5, CHR 0x9B, CHR 0x9E, CHR 0xE5,
     CHR 0xA4, CHR 0x8D]"

text \<open>Expected result of a dispute: close the governance loop.\<close>

definition lbl_obj_expected :: string where
  "lbl_obj_expected = [CHR 0xE5, CHR 0xAE, CHR 0x8C, CHR 0xE6, CHR 0x88, CHR 0x90, CHR 0xE6,
     CHR 0xB2, CHR 0xBB, CHR 0xE7, CHR 0x90, CHR 0x86, CHR 0xE9, CHR 0x97, CHR 0xAD, CHR 0xE7,
     CHR 0x8E, CHR 0xAF]"

text \<open>Word: accept.\<close>

definition lbl_w_accept :: string where
  "lbl_w_accept = [CHR 0xE5, CHR 0x8F, CHR 0x97, CHR 0xE7, CHR 0x90, CHR 0x86]"

text \<open>Word: investigate.\<close>

definition lbl_w_investigate :: string where
  "lbl_w_investigate = [CHR 0xE8, CHR 0xB0, CHR 0x83, CHR 0xE6, CHR 0x9F, CHR 0xA5]"

text \<open>Word: verify.\<close>

definition lbl_w_check :: string where
  "lbl_w_check = [CHR 0xE6, CHR 0xA0, CHR 0xB8, CHR 0xE6, CHR 0x9F, CHR 0xA5]"

text \<open>Word: escalate.\<close>

definition lbl_w_escalate :: string where
  "lbl_w_escalate = [CHR 0xE5, CHR 0x8D, CHR 0x87, CHR 0xE7, CHR 0xBA, CHR 0xA7]"

text \<open>Word: correct.\<close>

definition lbl_w_fix :: string where
  "lbl_w_fix = [CHR 0xE4, CHR 0xBF, CHR 0xAE, CHR 0xE6, CHR 0xAD, CHR 0xA3]"

text \<open>Dispute label: acceptance.\<close>

definition lbl_dsp_accept :: string where
  "lbl_dsp_accept = [CHR 0xE5, CHR 0x8F, CHR 0x97, CHR 0xE7, CHR 0x90, CHR 0x86]"

text \<open>Dispute label: survey.\<close>

definition lbl_dsp_survey :: string where
  "lbl_dsp_survey = [CHR 0xE8, CHR 0xB0, CHR 0x83, CHR 0xE6, CHR 0x9F, CHR 0xA5]"

text \<open>Dispute label: check.\<close>

definition lbl_dsp_check :: string where
  "lbl_dsp_check = [CHR 0xE6, CHR 0xA0, CHR 0xB8, CHR 0xE6, CHR 0x9F, CHR 0xA5]"

text \<open>Dispute label: escalation.\<close>

definition lbl_dsp_escalate :: string where
  "lbl_dsp_escalate = [CHR 0xE5, CHR 0x8D, CHR 0x87, CHR 0xE7, CHR 0xBA, CHR 0xA7]"

text \<open>Dispute label: correction.\<close>

definition lbl_dsp_fix :: string where
  "lbl_dsp_fix = [CHR 0xE4, CHR 0xBF, CHR 0xAE, CHR 0xE6, CHR 0xAD, CHR 0xA3]"

text \<open>Dispute label: corrected.\<close>

definition lbl_dsp_fixed :: string where
  "lbl_dsp_fixed = [CHR 0xE5, CHR 0xB7, CHR 0xB2, CHR 0xE4, CHR 0xBF, CHR 0xAE, CHR 0xE6,
     CHR 0xAD, CHR 0xA3]"

text \<open>Step name: admission decision of the department manager.\<close>

definition lbl_step_review_manager :: string where
  "lbl_step_review_manager = [CHR 0xE9, CHR 0x83, CHR 0xA8, CHR 0xE9, CHR 0x97, CHR 0xA8,
     CHR 0xE7, CHR 0xAE, CHR 0xA1, CHR 0xE7, CHR 0x90, CHR 0x86, CHR 0xE5, CHR 0x91, CHR 0x98,
     CHR 0xE5, CHR 0x87, CHR 0x86, CHR 0xE5, CHR 0x85, CHR 0xA5, CHR 0xE5, CHR 0x86, CHR 0xB3,
     CHR 0xE7, CHR 0xAD, CHR 0x96]"

text \<open>API step: review.\<close>

definition lbl_api_review :: string where
  "lbl_api_review = [CHR 0x41, CHR 0x50, CHR 0x49, CHR 0x20, CHR 0xE6, CHR 0x9C, CHR 0x8D,
     CHR 0xE5, CHR 0x8A, CHR 0xA1, CHR 0xE8, CHR 0xB5, CHR 0x84, CHR 0xE6, CHR 0xBA, CHR 0x90,
     CHR 0xE5, CHR 0xAE, CHR 0xA1, CHR 0xE6, CHR 0xA0, CHR 0xB8]"

text \<open>API step: review passed.\<close>

definition lbl_api_approved :: string where
  "lbl_api_approved = [CHR 0x41, CHR 0x50, CHR 0x49, CHR 0x20, CHR 0xE6, CHR 0x9C, CHR 0x8D,
     CHR 0xE5, CHR 0x8A, CHR 0xA1, CHR 0xE8, CHR 0xB5, CHR 0x84, CHR 0xE6, CHR 0xBA, CHR 0x90,
     CHR 0xE5, CHR 0xAE, CHR 0xA1, CHR 0xE6, CHR 0xA0, CHR 0xB8, CHR 0xE9, CHR 0x80, CHR 0x9A,
     CHR 0xE8, CHR 0xBF, CHR 0x87]"

text \<open>API step: published.\<close>

definition lbl_api_publish :: string where
  "lbl_api_publish = [CHR 0x41, CHR 0x50, CHR 0x49, CHR 0x20, CHR 0xE6, CHR 0x9C, CHR 0x8D,
     CHR 0xE5, CHR 0x8A, CHR 0xA1, CHR 0xE8, CHR 0xB5, CHR 0x84, CHR 0xE6, CHR 0xBA, CHR 0x90,
     CHR 0xE5, CHR 0x8F, CHR 0x91, CHR 0xE5, CHR 0xB8, CHR 0x83]"

text \<open>API step: withdrawn.\<close>

definition lbl_api_retire :: string where
  "lbl_api_retire = [CHR 0x41, CHR 0x50, CHR 0x49, CHR 0x20, CHR 0xE6, CHR 0x9C, CHR 0x8D,
     CHR 0xE5, CHR 0x8A, CHR 0xA1, CHR 0xE8, CHR 0xB5, CHR 0x84, CHR 0xE6, CHR 0xBA, CHR 0x90,
     CHR 0xE6, CHR 0x92, CHR 0xA4, CHR 0xE5, CHR 0x9B, CHR 0x9E]"

text \<open>API step: authorization revoked.\<close>

definition lbl_api_revoke :: string where
  "lbl_api_revoke = [CHR 0x41, CHR 0x50, CHR 0x49, CHR 0x20, CHR 0xE6, CHR 0x9C, CHR 0x8D,
     CHR 0xE5, CHR 0x8A, CHR 0xA1, CHR 0xE8, CHR 0xB5, CHR 0x84, CHR 0xE6, CHR 0xBA, CHR 0x90,
     CHR 0xE6, CHR 0x92, CHR 0xA4, CHR 0xE9, CHR 0x94, CHR 0x80, CHR 0xE6, CHR 0x8E, CHR 0x88,
     CHR 0xE6, CHR 0x9D, CHR 0x83]"

text \<open>API step: connectivity test failed.\<close>

definition lbl_api_test_failed :: string where
  "lbl_api_test_failed = [CHR 0x41, CHR 0x50, CHR 0x49, CHR 0x20, CHR 0xE6, CHR 0x9C, CHR 0x8D,
     CHR 0xE5, CHR 0x8A, CHR 0xA1, CHR 0xE8, CHR 0xBF, CHR 0x9E, CHR 0xE9, CHR 0x80, CHR 0x9A,
     CHR 0xE6, CHR 0x80, CHR 0xA7, CHR 0xE6, CHR 0xB5, CHR 0x8B, CHR 0xE8, CHR 0xAF, CHR 0x95,
     CHR 0xE5, CHR 0xA4, CHR 0xB1, CHR 0xE8, CHR 0xB4, CHR 0xA5]"

text \<open>API step: draft.\<close>

definition lbl_api_draft :: string where
  "lbl_api_draft = [CHR 0x41, CHR 0x50, CHR 0x49, CHR 0x20, CHR 0xE6, CHR 0x9C, CHR 0x8D,
     CHR 0xE5, CHR 0x8A, CHR 0xA1, CHR 0xE8, CHR 0xB5, CHR 0x84, CHR 0xE6, CHR 0xBA, CHR 0x90,
     CHR 0xE8, CHR 0x8D, CHR 0x89, CHR 0xE7, CHR 0xA8, CHR 0xBF]"

text \<open>Catalog step: review.\<close>

definition lbl_cat_review :: string where
  "lbl_cat_review = [CHR 0xE7, CHR 0x9B, CHR 0xAE, CHR 0xE5, CHR 0xBD, CHR 0x95, CHR 0xE8,
     CHR 0xB5, CHR 0x84, CHR 0xE6, CHR 0xBA, CHR 0x90, CHR 0xE5, CHR 0xAE, CHR 0xA1, CHR 0xE6,
     CHR 0xA0, CHR 0xB8]"

text \<open>Catalog step: review passed.\<close>

definition lbl_cat_approved :: string where
  "lbl_cat_approved = [CHR 0xE7, CHR 0x9B, CHR 0xAE, CHR 0xE5, CHR 0xBD, CHR 0x95, CHR 0xE8,
     CHR 0xB5, CHR 0x84, CHR 0xE6, CHR 0xBA, CHR 0x90, CHR 0xE5, CHR 0xAE, CHR 0xA1, CHR 0xE6,
     CHR 0xA0, CHR 0xB8, CHR 0xE9, CHR 0x80, CHR 0x9A, CHR 0xE8, CHR 0xBF, CHR 0x87]"

text \<open>Catalog step: published.\<close>

definition lbl_cat_publish :: string where
  "lbl_cat_publish = [CHR 0xE7, CHR 0x9B, CHR 0xAE, CHR 0xE5, CHR 0xBD, CHR 0x95, CHR 0xE8,
     CHR 0xB5, CHR 0x84, CHR 0xE6, CHR 0xBA, CHR 0x90, CHR 0xE5, CHR 0x8F, CHR 0x91, CHR 0xE5,
     CHR 0xB8, CHR 0x83]"

text \<open>Catalog step: withdrawn.\<close>

definition lbl_cat_retire :: string where
  "lbl_cat_retire = [CHR 0xE7, CHR 0x9B, CHR 0xAE, CHR 0xE5, CHR 0xBD, CHR 0x95, CHR 0xE8,
     CHR 0xB5, CHR 0x84, CHR 0xE6, CHR 0xBA, CHR 0x90, CHR 0xE6, CHR 0x92, CHR 0xA4, CHR 0xE5,
     CHR 0x9B, CHR 0x9E]"

text \<open>Catalog step: rejected.\<close>

definition lbl_cat_reject :: string where
  "lbl_cat_reject = [CHR 0xE7, CHR 0x9B, CHR 0xAE, CHR 0xE5, CHR 0xBD, CHR 0x95, CHR 0xE8,
     CHR 0xB5, CHR 0x84, CHR 0xE6, CHR 0xBA, CHR 0x90, CHR 0xE9, CHR 0xA9, CHR 0xB3, CHR 0xE5,
     CHR 0x9B, CHR 0x9E]"

text \<open>Catalog step: draft.\<close>

definition lbl_cat_draft :: string where
  "lbl_cat_draft = [CHR 0xE7, CHR 0x9B, CHR 0xAE, CHR 0xE5, CHR 0xBD, CHR 0x95, CHR 0xE8,
     CHR 0xB5, CHR 0x84, CHR 0xE6, CHR 0xBA, CHR 0x90, CHR 0xE8, CHR 0x8D, CHR 0x89, CHR 0xE7,
     CHR 0xA8, CHR 0xBF]"

text \<open>Request step: admission review.\<close>

definition lbl_req_admission :: string where
  "lbl_req_admission = [CHR 0xE5, CHR 0x87, CHR 0x86, CHR 0xE5, CHR 0x85, CHR 0xA5, CHR 0xE5,
     CHR 0xAE, CHR 0xA1, CHR 0xE6, CHR 0x89, CHR 0xB9]"

text \<open>Request step: supplement by the base level.\<close>

definition lbl_req_supplement :: string where
  "lbl_req_supplement = [CHR 0xE5, CHR 0x9F, CHR 0xBA, CHR 0xE5, CHR 0xB1, CHR 0x82, CHR 0xE5,
     CHR 0xB7, CHR 0xAE, CHR 0xE5, CHR 0xBC, CHR 0x82, CHR 0xE8, CHR 0xA1, CHR 0xA5, CHR 0xE5,
     CHR 0xBD, CHR 0x95]"

text \<open>Request step: confirmation of the summary.\<close>

definition lbl_req_summary :: string where
  "lbl_req_summary = [CHR 0xE6, CHR 0xB1, CHR 0x87, CHR 0xE6, CHR 0x80, CHR 0xBB, CHR 0xE7,
     CHR 0xA1, CHR 0xAE, CHR 0xE8, CHR 0xAE, CHR 0xA4]"

text \<open>Request step: confirmation of the return.\<close>

definition lbl_req_return :: string where
  "lbl_req_return = [CHR 0xE5, CHR 0x9B, CHR 0x9E, CHR 0xE6, CHR 0xB5, CHR 0x81, CHR 0xE7,
     CHR 0xA1, CHR 0xAE, CHR 0xE8, CHR 0xAE, CHR 0xA4]"

text \<open>Suggestion: to be corrected.\<close>

definition lbl_fix :: string where
  "lbl_fix = [CHR 0xE8, CHR 0xA1, CHR 0xA5, CHR 0xE6, CHR 0xAD, CHR 0xA3]"

text \<open>Suggestion: to be rejected.\<close>

definition lbl_reject :: string where
  "lbl_reject = [CHR 0xE9, CHR 0xA9, CHR 0xB3, CHR 0xE5, CHR 0x9B, CHR 0x9E]"

text \<open>Step name: acceptance by the platform.\<close>

definition lbl_accept_step :: string where
  "lbl_accept_step = [CHR 0xE5, CHR 0x8F, CHR 0x97, CHR 0xE7, CHR 0x90, CHR 0x86]"

text \<open>Step name prefix: department review.\<close>

definition lbl_dept_prefix :: string where
  "lbl_dept_prefix = [CHR 0xE9, CHR 0x83, CHR 0xA8, CHR 0xE9, CHR 0x97, CHR 0xA8, CHR 0xE5,
     CHR 0xAE, CHR 0xA1, CHR 0x2D]"

text \<open>Step name: review by the department manager.\<close>

definition lbl_dept_step :: string where
  "lbl_dept_step = [CHR 0xE9, CHR 0x83, CHR 0xA8, CHR 0xE9, CHR 0x97, CHR 0xA8, CHR 0xE7,
     CHR 0xAE, CHR 0xA1, CHR 0xE7, CHR 0x90, CHR 0x86, CHR 0xE5, CHR 0x91, CHR 0x98, CHR 0xE5,
     CHR 0xAE, CHR 0xA1, CHR 0xE6, CHR 0xA0, CHR 0xB8]"

text \<open>Anomaly summary: on how many tenants.\<close>

definition lbl_tenants_pre :: string where
  "lbl_tenants_pre = [CHR 0x20, CHR 0xE5, CHR 0x9C, CHR 0xA8, CHR 0x20]"

text \<open>Anomaly summary: tenants with sensitive reads.\<close>

definition lbl_tenants_post :: string where
  "lbl_tenants_post = [CHR 0x20, CHR 0xE4, CHR 0xB8, CHR 0xAA, CHR 0xE7, CHR 0xA7, CHR 0x9F,
     CHR 0xE6, CHR 0x88, CHR 0xB7, CHR 0xE4, CHR 0xB8, CHR 0x8A, CHR 0xE6, CHR 0x9C, CHR 0x89,
     CHR 0x20, CHR 0x72, CHR 0x65, CHR 0x61, CHR 0x64, CHR 0x2D, CHR 0x73, CHR 0x65, CHR 0x6E,
     CHR 0x73, CHR 0x69, CHR 0x74, CHR 0x69, CHR 0x76, CHR 0x65, CHR 0x20, CHR 0xE4, CHR 0xBA,
     CHR 0x8B, CHR 0xE4, CHR 0xBB, CHR 0xB6]"

text \<open>Anomaly summary: failures in the window.\<close>

definition lbl_failed_pre :: string where
  "lbl_failed_pre = [CHR 0x20, CHR 0xE5, CHR 0x9C, CHR 0xA8, CHR 0xE7, CHR 0xAA, CHR 0x97,
     CHR 0xE5, CHR 0x8F, CHR 0xA3, CHR 0xE5, CHR 0x86, CHR 0x85, CHR 0xE5, CHR 0xA4, CHR 0xB1,
     CHR 0xE8, CHR 0xB4, CHR 0xA5, CHR 0x20]"

text \<open>Anomaly summary: times, with the threshold.\<close>

definition lbl_failed_mid :: string where
  "lbl_failed_mid = [CHR 0x20, CHR 0xE6, CHR 0xAC, CHR 0xA1, CHR 0xEF, CHR 0xBC, CHR 0x88,
     CHR 0xE9, CHR 0x98, CHR 0x88, CHR 0xE5, CHR 0x80, CHR 0xBC, CHR 0x20]"

text \<open>Closing parenthesis of Chinese text.\<close>

definition lbl_close_paren :: string where
  "lbl_close_paren = [CHR 0xEF, CHR 0xBC, CHR 0x89]"

text \<open>Anomaly summary: denied repeatedly.\<close>

definition lbl_denied_pre :: string where
  "lbl_denied_pre = [CHR 0x20, CHR 0xE5, CHR 0x8F, CHR 0x8D, CHR 0xE5, CHR 0xA4, CHR 0x8D,
     CHR 0x20, CHR 0x64, CHR 0x65, CHR 0x6E, CHR 0x69, CHR 0x65, CHR 0x64, CHR 0x20]"

text \<open>Anomaly summary: times.\<close>

definition lbl_times :: string where
  "lbl_times = [CHR 0x20, CHR 0xE6, CHR 0xAC, CHR 0xA1]"

text \<open>Shown for the lifecycle status draft.\<close>

definition lbl_lc_draft :: string where
  "lbl_lc_draft = [CHR 0xE8, CHR 0x8D, CHR 0x89, CHR 0xE7, CHR 0xA8, CHR 0xBF]"

text \<open>Shown for the lifecycle status pending_review.\<close>

definition lbl_lc_pending_review :: string where
  "lbl_lc_pending_review = [CHR 0xE5, CHR 0xAE, CHR 0xA1, CHR 0xE6, CHR 0xA0, CHR 0xB8, CHR 0xE4,
     CHR 0xB8, CHR 0xAD]"

text \<open>Shown for the lifecycle status pending_platform_review.\<close>

definition lbl_lc_platform_review :: string where
  "lbl_lc_platform_review = [CHR 0xE5, CHR 0xB9, CHR 0xB3, CHR 0xE5, CHR 0x8F, CHR 0xB0,
     CHR 0xE5, CHR 0xAE, CHR 0xA1, CHR 0xE6, CHR 0xA0, CHR 0xB8, CHR 0xE4, CHR 0xB8, CHR 0xAD]"

text \<open>Shown for the lifecycle status approved_pending_publish.\<close>

definition lbl_lc_approved :: string where
  "lbl_lc_approved = [CHR 0xE5, CHR 0xBE, CHR 0x85, CHR 0xE5, CHR 0x8F, CHR 0x91, CHR 0xE5,
     CHR 0xB8, CHR 0x83]"

text \<open>Shown for the lifecycle status active.\<close>

definition lbl_lc_active :: string where
  "lbl_lc_active = [CHR 0xE5, CHR 0xB7, CHR 0xB2, CHR 0xE5, CHR 0x8F, CHR 0x91, CHR 0xE5,
     CHR 0xB8, CHR 0x83]"

text \<open>Shown for the lifecycle status retired.\<close>

definition lbl_lc_retired :: string where
  "lbl_lc_retired = [CHR 0xE5, CHR 0xB7, CHR 0xB2, CHR 0xE9, CHR 0x80, CHR 0x80, CHR 0xE5,
     CHR 0xBD, CHR 0xB9]"

text \<open>Shown for the lifecycle status suspended.\<close>

definition lbl_lc_suspended :: string where
  "lbl_lc_suspended = [CHR 0xE5, CHR 0xB7, CHR 0xB2, CHR 0xE6, CHR 0x9A, CHR 0x82, CHR 0xE5,
     CHR 0x81, CHR 0x9C]"

text \<open>Shown for the lifecycle status expired.\<close>

definition lbl_lc_expired :: string where
  "lbl_lc_expired = [CHR 0xE5, CHR 0xB7, CHR 0xB2, CHR 0xE8, CHR 0xBF, CHR 0x87, CHR 0xE6,
     CHR 0x9C, CHR 0x9F]"

text \<open>Shown for the lifecycle status revoked.\<close>

definition lbl_lc_revoked :: string where
  "lbl_lc_revoked = [CHR 0xE5, CHR 0xB7, CHR 0xB2, CHR 0xE4, CHR 0xB8, CHR 0x8B, CHR 0xE7,
     CHR 0xBA, CHR 0xBF]"

text \<open>Shown for the lifecycle status rejected.\<close>

definition lbl_lc_rejected :: string where
  "lbl_lc_rejected = [CHR 0xE5, CHR 0xB7, CHR 0xB2, CHR 0xE9, CHR 0xA9, CHR 0xB3, CHR 0xE5,
     CHR 0x9B, CHR 0x9E]"

text \<open>Catalogue form: class of the data resource.\<close>

definition lbl_cf_type :: string where
  "lbl_cf_type = [CHR 0xE6, CHR 0x95, CHR 0xB0, CHR 0xE6, CHR 0x8D, CHR 0xAE, CHR 0xE8, CHR 0xB5,
     CHR 0x84, CHR 0xE6, CHR 0xBA, CHR 0x90, CHR 0xE5, CHR 0x88, CHR 0x86, CHR 0xE7, CHR 0xB1,
     CHR 0xBB]"

text \<open>Catalogue form: source system.\<close>

definition lbl_cf_source :: string where
  "lbl_cf_source = [CHR 0xE6, CHR 0x9D, CHR 0xA5, CHR 0xE6, CHR 0xBA, CHR 0x90, CHR 0xE7,
     CHR 0xB3, CHR 0xBB, CHR 0xE7, CHR 0xBB, CHR 0x9F]"

text \<open>Catalogue form: domain.\<close>

definition lbl_cf_domain :: string where
  "lbl_cf_domain = [CHR 0xE6, CHR 0x89, CHR 0x80, CHR 0xE5, CHR 0xB1, CHR 0x9E, CHR 0xE9,
     CHR 0xA2, CHR 0x86, CHR 0xE5, CHR 0x9F, CHR 0x9F]"

text \<open>Catalogue form: application scenario.\<close>

definition lbl_cf_scenario :: string where
  "lbl_cf_scenario = [CHR 0xE5, CHR 0xBA, CHR 0x94, CHR 0xE7, CHR 0x94, CHR 0xA8, CHR 0xE5,
     CHR 0x9C, CHR 0xBA, CHR 0xE6, CHR 0x99, CHR 0xAF]"

text \<open>Catalogue form: resource format.\<close>

definition lbl_cf_format :: string where
  "lbl_cf_format = [CHR 0xE4, CHR 0xBF, CHR 0xA1, CHR 0xE6, CHR 0x81, CHR 0xAF, CHR 0xE8,
     CHR 0xB5, CHR 0x84, CHR 0xE6, CHR 0xBA, CHR 0x90, CHR 0xE6, CHR 0xA0, CHR 0xBC, CHR 0xE5,
     CHR 0xBC, CHR 0x8F]"

text \<open>Catalogue form: business update cycle.\<close>

definition lbl_cf_business_cycle :: string where
  "lbl_cf_business_cycle = [CHR 0xE4, CHR 0xB8, CHR 0x9A, CHR 0xE5, CHR 0x8A, CHR 0xA1, CHR 0xE6,
     CHR 0x9B, CHR 0xB4, CHR 0xE6, CHR 0x96, CHR 0xB0, CHR 0xE5, CHR 0x91, CHR 0xA8, CHR 0xE6,
     CHR 0x9C, CHR 0x9F]"

text \<open>Catalogue form: data update cycle.\<close>

definition lbl_cf_data_cycle :: string where
  "lbl_cf_data_cycle = [CHR 0xE6, CHR 0x95, CHR 0xB0, CHR 0xE6, CHR 0x8D, CHR 0xAE, CHR 0xE6,
     CHR 0x9B, CHR 0xB4, CHR 0xE6, CHR 0x96, CHR 0xB0, CHR 0xE5, CHR 0x91, CHR 0xA8, CHR 0xE6,
     CHR 0x9C, CHR 0x9F]"

text \<open>Catalogue form: way of sharing.\<close>

definition lbl_cf_way :: string where
  "lbl_cf_way = [CHR 0xE5, CHR 0x85, CHR 0xB1, CHR 0xE4, CHR 0xBA, CHR 0xAB, CHR 0xE6, CHR 0x96,
     CHR 0xB9, CHR 0xE5, CHR 0xBC, CHR 0x8F]"

text \<open>Catalogue form: type of sharing.\<close>

definition lbl_cf_shared_type :: string where
  "lbl_cf_shared_type = [CHR 0xE5, CHR 0x85, CHR 0xB1, CHR 0xE4, CHR 0xBA, CHR 0xAB, CHR 0xE7,
     CHR 0xB1, CHR 0xBB, CHR 0xE5, CHR 0x9E, CHR 0x8B]"

text \<open>Catalogue form: type of opening.\<close>

definition lbl_cf_open_type :: string where
  "lbl_cf_open_type = [CHR 0xE5, CHR 0xBC, CHR 0x80, CHR 0xE6, CHR 0x94, CHR 0xBE, CHR 0xE7,
     CHR 0xB1, CHR 0xBB, CHR 0xE5, CHR 0x9E, CHR 0x8B]"

text \<open>Catalogue form: abstract of the resource.\<close>

definition lbl_cf_abstract :: string where
  "lbl_cf_abstract = [CHR 0xE6, CHR 0x95, CHR 0xB0, CHR 0xE6, CHR 0x8D, CHR 0xAE, CHR 0xE8,
     CHR 0xB5, CHR 0x84, CHR 0xE6, CHR 0xBA, CHR 0x90, CHR 0xE6, CHR 0x91, CHR 0x98, CHR 0xE8,
     CHR 0xA6, CHR 0x81]"

text \<open>Catalogue form: name of the catalogue entry.\<close>

definition lbl_cf_title :: string where
  "lbl_cf_title = [CHR 0xE6, CHR 0x95, CHR 0xB0, CHR 0xE6, CHR 0x8D, CHR 0xAE, CHR 0xE8,
     CHR 0xB5, CHR 0x84, CHR 0xE6, CHR 0xBA, CHR 0x90, CHR 0xE7, CHR 0x9B, CHR 0xAE, CHR 0xE5,
     CHR 0xBD, CHR 0x95, CHR 0xE5, CHR 0x90, CHR 0x8D, CHR 0xE7, CHR 0xA7, CHR 0xB0]"

text \<open>Catalogue form: condition of sharing.\<close>

definition lbl_cf_condition :: string where
  "lbl_cf_condition = [CHR 0xE5, CHR 0x85, CHR 0xB1, CHR 0xE4, CHR 0xBA, CHR 0xAB, CHR 0xE6,
     CHR 0x9D, CHR 0xA1, CHR 0xE4, CHR 0xBB, CHR 0xB6]"

text \<open>Submission refused: the basic information is incomplete.\<close>

definition lbl_cf_missing_pre :: string where
  "lbl_cf_missing_pre = [CHR 0xE5, CHR 0x9F, CHR 0xBA, CHR 0xE6, CHR 0x9C, CHR 0xAC, CHR 0xE4,
     CHR 0xBF, CHR 0xA1, CHR 0xE6, CHR 0x81, CHR 0xAF, CHR 0xE6, CHR 0x9C, CHR 0xAA, CHR 0xE5,
     CHR 0xA1, CHR 0xAB, CHR 0xE5, CHR 0x85, CHR 0xA8, CHR 0xEF, CHR 0xBC, CHR 0x8C, CHR 0xE6,
     CHR 0x9A, CHR 0x82, CHR 0xE4, CHR 0xB8, CHR 0x8D, CHR 0xE8, CHR 0x83, CHR 0xBD, CHR 0xE6,
     CHR 0x8F, CHR 0x90, CHR 0xE4, CHR 0xBA, CHR 0xA4, CHR 0xE5, CHR 0xAE, CHR 0xA1, CHR 0xE6,
     CHR 0xA0, CHR 0xB8, CHR 0xE3, CHR 0x80, CHR 0x82, CHR 0xE8, CHR 0xAF, CHR 0xB7, CHR 0xE8,
     CHR 0xA1, CHR 0xA5, CHR 0xE5, CHR 0x85, CHR 0xA8, CHR 0xE5, CHR 0xBF, CHR 0x85, CHR 0xE5,
     CHR 0xA1, CHR 0xAB, CHR 0xE9, CHR 0xA1, CHR 0xB9, CHR 0xEF, CHR 0xBC, CHR 0x9A]"

text \<open>Separator of an enumeration.\<close>

definition lbl_cf_separator :: string where
  "lbl_cf_separator = [CHR 0xE3, CHR 0x80, CHR 0x81]"

text \<open>Full stop.\<close>

definition lbl_cf_full_stop :: string where
  "lbl_cf_full_stop = [CHR 0xE3, CHR 0x80, CHR 0x82]"

text \<open>A return or rejection of a catalogue entry needs a reason.\<close>

definition lbl_cat_needs_reason :: string where
  "lbl_cat_needs_reason = [CHR 0xE7, CHR 0x9B, CHR 0xAE, CHR 0xE5, CHR 0xBD, CHR 0x95, CHR 0xE5,
     CHR 0xAE, CHR 0xA1, CHR 0xE6, CHR 0xA0, CHR 0xB8, CHR 0xE9, CHR 0x80, CHR 0x80, CHR 0xE5,
     CHR 0x9B, CHR 0x9E, CHR 0x2F, CHR 0xE9, CHR 0xA9, CHR 0xB3, CHR 0xE5, CHR 0x9B, CHR 0x9E,
     CHR 0xE9, CHR 0xA1, CHR 0xBB, CHR 0xE5, CHR 0xA1, CHR 0xAB, CHR 0xE5, CHR 0x86, CHR 0x99,
     CHR 0xE7, CHR 0x90, CHR 0x86, CHR 0xE7, CHR 0x94, CHR 0xB1, CHR 0xEF, CHR 0xBC, CHR 0x88,
     CHR 0xE9, CHR 0x80, CHR 0x80, CHR 0xE5, CHR 0x9B, CHR 0x9E, CHR 0xE6, CHR 0x8F, CHR 0x90,
     CHR 0xE4, CHR 0xBA, CHR 0xA4, CHR 0xE6, CHR 0x96, CHR 0xB9, CHR 0xE6, CHR 0x95, CHR 0xB4,
     CHR 0xE6, CHR 0x94, CHR 0xB9, CHR 0xE7, CHR 0x9A, CHR 0x84, CHR 0xE4, CHR 0xBE, CHR 0x9D,
     CHR 0xE6, CHR 0x8D, CHR 0xAE, CHR 0xEF, CHR 0xBC, CHR 0x89]"

text \<open>Suggested field name: mobile number.\<close>

definition lbl_rd_mobile :: string where
  "lbl_rd_mobile = [CHR 0xE6, CHR 0x89, CHR 0x8B, CHR 0xE6, CHR 0x9C, CHR 0xBA, CHR 0xE5,
     CHR 0x8F, CHR 0xB7]"

text \<open>Suggested field name: telephone.\<close>

definition lbl_rd_phone :: string where
  "lbl_rd_phone = [CHR 0xE8, CHR 0x81, CHR 0x94, CHR 0xE7, CHR 0xB3, CHR 0xBB, CHR 0xE7,
     CHR 0x94, CHR 0xB5, CHR 0xE8, CHR 0xAF, CHR 0x9D]"

text \<open>Suggested field name: identity card number.\<close>

definition lbl_rd_id_card :: string where
  "lbl_rd_id_card = [CHR 0xE8, CHR 0xBA, CHR 0xAB, CHR 0xE4, CHR 0xBB, CHR 0xBD, CHR 0xE8,
     CHR 0xAF, CHR 0x81, CHR 0xE5, CHR 0x8F, CHR 0xB7]"

text \<open>Suggested field name: certificate number.\<close>

definition lbl_rd_cert :: string where
  "lbl_rd_cert = [CHR 0xE8, CHR 0xAF, CHR 0x81, CHR 0xE4, CHR 0xBB, CHR 0xB6, CHR 0xE5, CHR 0x8F,
     CHR 0xB7]"

text \<open>Suggested field name: e-mail.\<close>

definition lbl_rd_email :: string where
  "lbl_rd_email = [CHR 0xE7, CHR 0x94, CHR 0xB5, CHR 0xE5, CHR 0xAD, CHR 0x90, CHR 0xE9,
     CHR 0x82, CHR 0xAE, CHR 0xE7, CHR 0xAE, CHR 0xB1]"

text \<open>Suggested field name: credential, masked.\<close>

definition lbl_rd_secret :: string where
  "lbl_rd_secret = [CHR 0xE5, CHR 0x87, CHR 0xAD, CHR 0xE6, CHR 0x8D, CHR 0xAE, CHR 0xEF,
     CHR 0xBC, CHR 0x88, CHR 0xE8, CHR 0x84, CHR 0xB1, CHR 0xE6, CHR 0x95, CHR 0x8F, CHR 0xEF,
     CHR 0xBC, CHR 0x89]"

text \<open>Suggested field name: contact address.\<close>

definition lbl_rd_contact :: string where
  "lbl_rd_contact = [CHR 0xE8, CHR 0x81, CHR 0x94, CHR 0xE7, CHR 0xB3, CHR 0xBB, CHR 0xE5,
     CHR 0x9C, CHR 0xB0, CHR 0xE5, CHR 0x9D, CHR 0x80]"

text \<open>Suggested field name: address.\<close>

definition lbl_rd_address :: string where
  "lbl_rd_address = [CHR 0xE5, CHR 0x9C, CHR 0xB0, CHR 0xE5, CHR 0x9D, CHR 0x80]"

text \<open>Suggested field name: bank account.\<close>

definition lbl_rd_bank :: string where
  "lbl_rd_bank = [CHR 0xE9, CHR 0x93, CHR 0xB6, CHR 0xE8, CHR 0xA1, CHR 0x8C, CHR 0xE8, CHR 0xB4,
     CHR 0xA6, CHR 0xE5, CHR 0x8F, CHR 0xB7]"

text \<open>Suggested field name: IP address.\<close>

definition lbl_rd_ip :: string where
  "lbl_rd_ip = [CHR 0x49, CHR 0x50, CHR 0x20, CHR 0xE5, CHR 0x9C, CHR 0xB0, CHR 0xE5, CHR 0x9D,
     CHR 0x80]"

text \<open>Suggested field name: name of a person.\<close>

definition lbl_rd_name :: string where
  "lbl_rd_name = [CHR 0xE5, CHR 0xA7, CHR 0x93, CHR 0xE5, CHR 0x90, CHR 0x8D]"

text \<open>Suggested field name: organisation.\<close>

definition lbl_rd_org :: string where
  "lbl_rd_org = [CHR 0xE7, CHR 0xBB, CHR 0x84, CHR 0xE7, CHR 0xBB, CHR 0x87, CHR 0xE4, CHR 0xBF,
     CHR 0xA1, CHR 0xE6, CHR 0x81, CHR 0xAF]"

text \<open>Suggested field name: region.\<close>

definition lbl_rd_region :: string where
  "lbl_rd_region = [CHR 0xE5, CHR 0x8C, CHR 0xBA, CHR 0xE5, CHR 0x88, CHR 0x92]"

text \<open>Suggested field name: time stamp.\<close>

definition lbl_rd_time :: string where
  "lbl_rd_time = [CHR 0xE6, CHR 0x97, CHR 0xB6, CHR 0xE9, CHR 0x97, CHR 0xB4, CHR 0xE6, CHR 0x88,
     CHR 0xB3]"

text \<open>Prefix of a placeholder field name.\<close>

definition lbl_rd_field :: string where
  "lbl_rd_field = [CHR 0xE5, CHR 0xAD, CHR 0x97, CHR 0xE6, CHR 0xAE, CHR 0xB5, CHR 0x5F]"

text \<open>Suggested title of a reverse-catalogued entry.\<close>

definition lbl_rd_new :: string where
  "lbl_rd_new = [CHR 0xE6, CHR 0x96, CHR 0xB0, CHR 0xE5, CHR 0xBB, CHR 0xBA, CHR 0xE5, CHR 0x8F,
     CHR 0x8D, CHR 0xE5, CHR 0x90, CHR 0x91, CHR 0xE7, CHR 0xBC, CHR 0x96, CHR 0xE7, CHR 0x9B,
     CHR 0xAE, CHR 0xE7, CHR 0x9B, CHR 0xAE, CHR 0xE5, CHR 0xBD, CHR 0x95]"

text \<open>The word for mobile phone in column names.\<close>

definition lbl_rd_mobile_word :: string where
  "lbl_rd_mobile_word = [CHR 0xE6, CHR 0x89, CHR 0x8B, CHR 0xE6, CHR 0x9C, CHR 0xBA]"

text \<open>Search word: legal person.\<close>

definition lbl_se_legal :: string where
  "lbl_se_legal = [CHR 0xE6, CHR 0xB3, CHR 0x95, CHR 0xE4, CHR 0xBA, CHR 0xBA]"

text \<open>Search word: company.\<close>

definition lbl_se_company :: string where
  "lbl_se_company = [CHR 0xE4, CHR 0xBC, CHR 0x81, CHR 0xE4, CHR 0xB8, CHR 0x9A]"

text \<open>Search word: template.\<close>

definition lbl_se_template :: string where
  "lbl_se_template = [CHR 0xE6, CHR 0xA8, CHR 0xA1, CHR 0xE6, CHR 0x9D, CHR 0xBF]"

text \<open>Search word: reuse.\<close>

definition lbl_se_reuse :: string where
  "lbl_se_reuse = [CHR 0xE5, CHR 0xA4, CHR 0x8D, CHR 0xE7, CHR 0x94, CHR 0xA8]"

text \<open>Review step of a national element: business department.\<close>

definition lbl_nat_business :: string where
  "lbl_nat_business = [CHR 0xE4, CHR 0xB8, CHR 0x9A, CHR 0xE5, CHR 0x8A, CHR 0xA1, CHR 0xE9,
     CHR 0x83, CHR 0xA8, CHR 0xE9, CHR 0x97, CHR 0xA8, CHR 0xE5, CHR 0xAE, CHR 0xA1, CHR 0xE6,
     CHR 0xA0, CHR 0xB8]"

text \<open>Review step of a national element: supervising department.\<close>

definition lbl_nat_supervisor :: string where
  "lbl_nat_supervisor = [CHR 0xE4, CHR 0xB8, CHR 0xBB, CHR 0xE7, CHR 0xAE, CHR 0xA1, CHR 0xE9,
     CHR 0x83, CHR 0xA8, CHR 0xE9, CHR 0x97, CHR 0xA8, CHR 0xE5, CHR 0xAE, CHR 0xA1, CHR 0xE6,
     CHR 0xA0, CHR 0xB8]"

text \<open>Default department of a demand.\<close>

definition lbl_applicant_dept :: string where
  "lbl_applicant_dept = [CHR 0xE7, CHR 0x94, CHR 0xB3, CHR 0xE8, CHR 0xAF, CHR 0xB7, CHR 0xE9,
     CHR 0x83, CHR 0xA8, CHR 0xE9, CHR 0x97, CHR 0xA8]"

text \<open>Pending reason: the national channel is not available.\<close>

definition lbl_nc_off :: string where
  "lbl_nc_off = [CHR 0xE5, CHR 0x9B, CHR 0xBD, CHR 0xE5, CHR 0xAE, CHR 0xB6, CHR 0xE9, CHR 0x80,
     CHR 0x9A, CHR 0xE9, CHR 0x81, CHR 0x93, CHR 0xE6, CHR 0x9A, CHR 0x82, CHR 0xE4, CHR 0xB8,
     CHR 0x8D, CHR 0xE5, CHR 0x8F, CHR 0xAF, CHR 0xE7, CHR 0x94, CHR 0xA8, CHR 0xEF, CHR 0xBC,
     CHR 0x8C, CHR 0xE8, CHR 0xAF, CHR 0xB7, CHR 0xE7, CHR 0xA8, CHR 0x8D, CHR 0xE5, CHR 0x90,
     CHR 0x8E]"

text \<open>Pending reason and notice: the channel awaits its access information.\<close>

definition lbl_nc_unprovisioned :: string where
  "lbl_nc_unprovisioned = [CHR 0xE5, CHR 0x9B, CHR 0xBD, CHR 0xE5, CHR 0xAE, CHR 0xB6, CHR 0xE9,
     CHR 0x80, CHR 0x9A, CHR 0xE9, CHR 0x81, CHR 0x93, CHR 0xE5, CHR 0xBE, CHR 0x85, CHR 0xE9,
     CHR 0x85, CHR 0x8D, CHR 0xE7, CHR 0xBD, CHR 0xAE, CHR 0xE6, CHR 0x8E, CHR 0xA5, CHR 0xE5,
     CHR 0x85, CHR 0xA5, CHR 0xE4, CHR 0xBF, CHR 0xA1, CHR 0xE6, CHR 0x81, CHR 0xAF]"

text \<open>Display: being escalated over the national channel.\<close>

definition lbl_nc_escalating :: string where
  "lbl_nc_escalating = [CHR 0xE5, CHR 0x9B, CHR 0xBD, CHR 0xE5, CHR 0xAE, CHR 0xB6, CHR 0xE9,
     CHR 0x80, CHR 0x9A, CHR 0xE9, CHR 0x81, CHR 0x93, CHR 0xE8, CHR 0xBD, CHR 0xAC, CHR 0xE6,
     CHR 0x8A, CHR 0xA5, CHR 0xE4, CHR 0xB8, CHR 0xAD]"

text \<open>Display: being revoked over the national channel.\<close>

definition lbl_nc_revoking :: string where
  "lbl_nc_revoking = [CHR 0xE5, CHR 0x9B, CHR 0xBD, CHR 0xE5, CHR 0xAE, CHR 0xB6, CHR 0xE9,
     CHR 0x80, CHR 0x9A, CHR 0xE9, CHR 0x81, CHR 0x93, CHR 0xE6, CHR 0x92, CHR 0xA4, CHR 0xE9,
     CHR 0x94, CHR 0x80, CHR 0xE4, CHR 0xB8, CHR 0xAD]"

text \<open>Reason: escalated, awaiting the receipt.\<close>

definition lbl_nc_submitted :: string where
  "lbl_nc_submitted = [CHR 0xE5, CHR 0xB7, CHR 0xB2, CHR 0xE8, CHR 0xBD, CHR 0xAC, CHR 0xE6,
     CHR 0x8A, CHR 0xA5, CHR 0xE5, CHR 0x9B, CHR 0xBD, CHR 0xE5, CHR 0xAE, CHR 0xB6, CHR 0xE5,
     CHR 0xB9, CHR 0xB3, CHR 0xE5, CHR 0x8F, CHR 0xB0, CHR 0xEF, CHR 0xBC, CHR 0x8C, CHR 0xE5,
     CHR 0xBE, CHR 0x85, CHR 0xE5, CHR 0x9B, CHR 0x9E, CHR 0xE6, CHR 0x89, CHR 0xA7]"

text \<open>Message: the response could not be parsed (prefix).\<close>

definition lbl_nc_unparsable :: string where
  "lbl_nc_unparsable = [CHR 0xE5, CHR 0x9B, CHR 0xBD, CHR 0xE5, CHR 0xAE, CHR 0xB6, CHR 0xE5,
     CHR 0xB9, CHR 0xB3, CHR 0xE5, CHR 0x8F, CHR 0xB0, CHR 0xE5, CHR 0x93, CHR 0x8D, CHR 0xE5,
     CHR 0xBA, CHR 0x94, CHR 0xE8, CHR 0xA7, CHR 0xA3, CHR 0xE6, CHR 0x9E, CHR 0x90, CHR 0xE5,
     CHR 0xA4, CHR 0xB1, CHR 0xE8, CHR 0xB4, CHR 0xA5, CHR 0xEF, CHR 0xBC, CHR 0x88, CHR 0x48,
     CHR 0x54, CHR 0x54, CHR 0x50, CHR 0x20]"

text \<open>A closing bracket of Chinese text.\<close>

definition lbl_nc_close :: string where
  "lbl_nc_close = [CHR 0xEF, CHR 0xBC, CHR 0x89]"

text \<open>Message: the response is no JSON object.\<close>

definition lbl_nc_no_object :: string where
  "lbl_nc_no_object = [CHR 0xE5, CHR 0x9B, CHR 0xBD, CHR 0xE5, CHR 0xAE, CHR 0xB6, CHR 0xE5,
     CHR 0xB9, CHR 0xB3, CHR 0xE5, CHR 0x8F, CHR 0xB0, CHR 0xE5, CHR 0x93, CHR 0x8D, CHR 0xE5,
     CHR 0xBA, CHR 0x94, CHR 0xE9, CHR 0x9D, CHR 0x9E, CHR 0xE6, CHR 0xB3, CHR 0x95, CHR 0xEF,
     CHR 0xBC, CHR 0x88, CHR 0xE9, CHR 0x9D, CHR 0x9E, CHR 0x20, CHR 0x4A, CHR 0x53, CHR 0x4F,
     CHR 0x4E, CHR 0x20, CHR 0xE5, CHR 0xAF, CHR 0xB9, CHR 0xE8, CHR 0xB1, CHR 0xA1, CHR 0xEF,
     CHR 0xBC, CHR 0x89]"

text \<open>Notice: the channel is ready for publication.\<close>

definition lbl_nc_ready :: string where
  "lbl_nc_ready = [CHR 0xE5, CHR 0x9B, CHR 0xBD, CHR 0xE5, CHR 0xAE, CHR 0xB6, CHR 0xE9,
     CHR 0x80, CHR 0x9A, CHR 0xE9, CHR 0x81, CHR 0x93, CHR 0xE5, CHR 0xB7, CHR 0xB2, CHR 0xE6,
     CHR 0xBB, CHR 0xA1, CHR 0xE8, CHR 0xB6, CHR 0xB3, CHR 0xE5, CHR 0x8F, CHR 0x91, CHR 0xE5,
     CHR 0xB8, CHR 0x83, CHR 0xE5, CHR 0x90, CHR 0x8C, CHR 0xE6, CHR 0xAD, CHR 0xA5, CHR 0xE6,
     CHR 0x9D, CHR 0xA1, CHR 0xE4, CHR 0xBB, CHR 0xB6]"

text \<open>Notice: the channel is switched off.\<close>

definition lbl_nc_switched_off :: string where
  "lbl_nc_switched_off = [CHR 0xE5, CHR 0x9B, CHR 0xBD, CHR 0xE5, CHR 0xAE, CHR 0xB6, CHR 0xE9,
     CHR 0x80, CHR 0x9A, CHR 0xE9, CHR 0x81, CHR 0x93, CHR 0xE6, CHR 0x9C, CHR 0xAA, CHR 0xE5,
     CHR 0xBC, CHR 0x80, CHR 0xE5, CHR 0x90, CHR 0xAF]"

text \<open>Notice: the material of the launch is to be confirmed.\<close>

definition lbl_nc_unconfirmed :: string where
  "lbl_nc_unconfirmed = [CHR 0xE5, CHR 0x9B, CHR 0xBD, CHR 0xE5, CHR 0xAE, CHR 0xB6, CHR 0xE9,
     CHR 0x80, CHR 0x9A, CHR 0xE9, CHR 0x81, CHR 0x93, CHR 0xE5, CHR 0xBE, CHR 0x85, CHR 0xE7,
     CHR 0xA1, CHR 0xAE, CHR 0xE8, CHR 0xAE, CHR 0xA4, CHR 0xE4, CHR 0xB8, CHR 0x8A, CHR 0xE7,
     CHR 0xBA, CHR 0xBF, CHR 0xE8, CHR 0xB5, CHR 0x84, CHR 0xE6, CHR 0x96, CHR 0x99]"

text \<open>Summary for operators: the material is to be confirmed.\<close>

definition lbl_nc_sum_unconfirmed :: string where
  "lbl_nc_sum_unconfirmed = [CHR 0xE6, CHR 0x8E, CHR 0xA5, CHR 0xE5, CHR 0x85, CHR 0xA5,
     CHR 0xE4, CHR 0xBF, CHR 0xA1, CHR 0xE6, CHR 0x81, CHR 0xAF, CHR 0xE5, CHR 0xB7, CHR 0xB2,
     CHR 0xE9, CHR 0x85, CHR 0x8D, CHR 0xE9, CHR 0xBD, CHR 0x90, CHR 0xEF, CHR 0xBC, CHR 0x8C,
     CHR 0xE5, CHR 0x8F, CHR 0x91, CHR 0xE5, CHR 0xB8, CHR 0x83, CHR 0xE5, CHR 0x90, CHR 0x8C,
     CHR 0xE6, CHR 0xAD, CHR 0xA5, CHR 0xE4, CHR 0xBB, CHR 0x8D, CHR 0xE9, CHR 0x9C, CHR 0x80,
     CHR 0xE7, CHR 0xA1, CHR 0xAE, CHR 0xE8, CHR 0xAE, CHR 0xA4, CHR 0xE4, CHR 0xB8, CHR 0x8A,
     CHR 0xE7, CHR 0xBA, CHR 0xBF, CHR 0xE8, CHR 0xB5, CHR 0x84, CHR 0xE6, CHR 0x96, CHR 0x99]"

text \<open>Summary for operators: the access information is missing.\<close>

definition lbl_nc_sum_unprovisioned :: string where
  "lbl_nc_sum_unprovisioned = [CHR 0xE8, CHR 0x8D, CHR 0x89, CHR 0xE6, CHR 0x8B, CHR 0x9F,
     CHR 0xE4, CHR 0xB8, CHR 0x8E, CHR 0xE5, CHR 0xAE, CHR 0xA1, CHR 0xE6, CHR 0xA0, CHR 0xB8,
     CHR 0xE5, CHR 0x8F, CHR 0xAF, CHR 0xE7, CHR 0x94, CHR 0xA8, CHR 0xEF, CHR 0xBC, CHR 0x8C,
     CHR 0xE5, CHR 0x8F, CHR 0x91, CHR 0xE5, CHR 0xB8, CHR 0x83, CHR 0xE5, CHR 0x90, CHR 0x8C,
     CHR 0xE6, CHR 0xAD, CHR 0xA5, CHR 0xE9, CHR 0x9C, CHR 0x80, CHR 0xE5, CHR 0xB9, CHR 0xB3,
     CHR 0xE5, CHR 0x8F, CHR 0xB0, CHR 0xE8, CHR 0xBF, CHR 0x90, CHR 0xE7, CHR 0xBB, CHR 0xB4,
     CHR 0xE5, CHR 0x91, CHR 0x98, CHR 0xE8, CHR 0xA1, CHR 0xA5, CHR 0xE9, CHR 0xBD, CHR 0x90,
     CHR 0xE6, CHR 0x8E, CHR 0xA5, CHR 0xE5, CHR 0x85, CHR 0xA5, CHR 0xE4, CHR 0xBF, CHR 0xA1,
     CHR 0xE6, CHR 0x81, CHR 0xAF]"

text \<open>Setting: the switch of the channel.\<close>

definition lbl_nc_c_enabled :: string where
  "lbl_nc_c_enabled = [CHR 0xE5, CHR 0x90, CHR 0xAF, CHR 0xE7, CHR 0x94, CHR 0xA8, CHR 0xE5,
     CHR 0x9B, CHR 0xBD, CHR 0xE5, CHR 0xAE, CHR 0xB6, CHR 0xE9, CHR 0x80, CHR 0x9A, CHR 0xE9,
     CHR 0x81, CHR 0x93]"

text \<open>Setting: the address of the platform.\<close>

definition lbl_nc_c_address :: string where
  "lbl_nc_c_address = [CHR 0xE5, CHR 0x9B, CHR 0xBD, CHR 0xE5, CHR 0xAE, CHR 0xB6, CHR 0xE5,
     CHR 0xB9, CHR 0xB3, CHR 0xE5, CHR 0x8F, CHR 0xB0, CHR 0xE8, CHR 0xAE, CHR 0xBF, CHR 0xE9,
     CHR 0x97, CHR 0xAE, CHR 0xE5, CHR 0x9C, CHR 0xB0, CHR 0xE5, CHR 0x9D, CHR 0x80]"

text \<open>Setting: the identity of the requester.\<close>

definition lbl_nc_c_identity :: string where
  "lbl_nc_c_identity = [CHR 0xE8, CHR 0xAF, CHR 0xB7, CHR 0xE6, CHR 0xB1, CHR 0x82, CHR 0xE6,
     CHR 0x96, CHR 0xB9, CHR 0xE8, CHR 0xBA, CHR 0xAB, CHR 0xE4, CHR 0xBB, CHR 0xBD, CHR 0xE6,
     CHR 0xA0, CHR 0x87, CHR 0xE8, CHR 0xAF, CHR 0x86]"

text \<open>Setting: the account.\<close>

definition lbl_nc_c_account :: string where
  "lbl_nc_c_account = [CHR 0xE6, CHR 0x8E, CHR 0xA5, CHR 0xE5, CHR 0x85, CHR 0xA5, CHR 0xE8,
     CHR 0xB4, CHR 0xA6, CHR 0xE5, CHR 0x8F, CHR 0xB7]"

text \<open>Setting: the secret.\<close>

definition lbl_nc_c_secret :: string where
  "lbl_nc_c_secret = [CHR 0xE6, CHR 0x8E, CHR 0xA5, CHR 0xE5, CHR 0x85, CHR 0xA5, CHR 0xE5,
     CHR 0xAF, CHR 0x86, CHR 0xE9, CHR 0x92, CHR 0xA5]"

text \<open>Setting: the identifiers of the interfaces.\<close>

definition lbl_nc_c_map :: string where
  "lbl_nc_c_map = [CHR 0xE6, CHR 0x8E, CHR 0xA5, CHR 0xE5, CHR 0x8F, CHR 0xA3, CHR 0xE6,
     CHR 0x9C, CHR 0x8D, CHR 0xE5, CHR 0x8A, CHR 0xA1, CHR 0xE6, CHR 0xA0, CHR 0x87, CHR 0xE8,
     CHR 0xAF, CHR 0x86, CHR 0xE6, CHR 0x98, CHR 0xA0, CHR 0xE5, CHR 0xB0, CHR 0x84]"

text \<open>Material: the basic catalogue and its templates.\<close>

definition lbl_nc_e_template :: string where
  "lbl_nc_e_template = [CHR 0xE5, CHR 0x9B, CHR 0xBD, CHR 0xE5, CHR 0xAE, CHR 0xB6, CHR 0xE4,
     CHR 0xB8, CHR 0x8B, CHR 0xE5, CHR 0x8F, CHR 0x91, CHR 0xE5, CHR 0x9F, CHR 0xBA, CHR 0xE6,
     CHR 0x9C, CHR 0xAC, CHR 0xE8, CHR 0xA6, CHR 0x81, CHR 0xE7, CHR 0xB4, CHR 0xA0, CHR 0xE7,
     CHR 0x9B, CHR 0xAE, CHR 0xE5, CHR 0xBD, CHR 0x95, CHR 0xE4, CHR 0xB8, CHR 0x8E, CHR 0xE6,
     CHR 0xA8, CHR 0xA1, CHR 0xE6, CHR 0x9D, CHR 0xBF, CHR 0xE6, CHR 0x95, CHR 0xB0, CHR 0xE6,
     CHR 0x8D, CHR 0xAE]"

text \<open>Material: receipts and reconciliation.\<close>

definition lbl_nc_e_receipt :: string where
  "lbl_nc_e_receipt = [CHR 0xE5, CHR 0x9B, CHR 0xBD, CHR 0xE5, CHR 0xAE, CHR 0xB6, CHR 0xE5,
     CHR 0xB9, CHR 0xB3, CHR 0xE5, CHR 0x8F, CHR 0xB0, CHR 0xE7, CHR 0x9C, CHR 0x9F, CHR 0xE5,
     CHR 0xAE, CHR 0x9E, CHR 0xE5, CHR 0x9B, CHR 0x9E, CHR 0xE6, CHR 0x89, CHR 0xA7, CHR 0xE4,
     CHR 0xB8, CHR 0x8E, CHR 0xE5, CHR 0xAF, CHR 0xB9, CHR 0xE8, CHR 0xB4, CHR 0xA6, CHR 0xE5,
     CHR 0x8F, CHR 0xA3, CHR 0xE5, CHR 0xBE, CHR 0x84]"

text \<open>Material: issue and revocation of credentials.\<close>

definition lbl_nc_e_lifecycle :: string where
  "lbl_nc_e_lifecycle = [CHR 0xE5, CHR 0x9B, CHR 0xBD, CHR 0xE5, CHR 0xAE, CHR 0xB6, CHR 0xE5,
     CHR 0xB9, CHR 0xB3, CHR 0xE5, CHR 0x8F, CHR 0xB0, CHR 0xE5, CHR 0x87, CHR 0xAD, CHR 0xE6,
     CHR 0x8D, CHR 0xAE, CHR 0xE7, CHR 0xAD, CHR 0xBE, CHR 0xE5, CHR 0x8F, CHR 0x91, CHR 0xE4,
     CHR 0xB8, CHR 0x8E, CHR 0xE6, CHR 0x92, CHR 0xA4, CHR 0xE9, CHR 0x94, CHR 0x80, CHR 0xE8,
     CHR 0xA7, CHR 0x84, CHR 0xE5, CHR 0x88, CHR 0x99]"

text \<open>Checklist: complete the access settings.\<close>

definition lbl_nc_k_env :: string where
  "lbl_nc_k_env = [CHR 0xE8, CHR 0xA1, CHR 0xA5, CHR 0xE9, CHR 0xBD, CHR 0x90, CHR 0xE6,
     CHR 0x8E, CHR 0xA5, CHR 0xE5, CHR 0x85, CHR 0xA5, CHR 0xE9, CHR 0x85, CHR 0x8D, CHR 0xE7,
     CHR 0xBD, CHR 0xAE]"

text \<open>Checklist: how the settings are completed.\<close>

definition lbl_nc_k_env_detail :: string where
  "lbl_nc_k_env_detail = [CHR 0xE7, CHR 0x94, CHR 0xB1, CHR 0xE5, CHR 0xB9, CHR 0xB3, CHR 0xE5,
     CHR 0x8F, CHR 0xB0, CHR 0xE8, CHR 0xBF, CHR 0x90, CHR 0xE7, CHR 0xBB, CHR 0xB4, CHR 0xE5,
     CHR 0x91, CHR 0x98, CHR 0xE5, CHR 0x9C, CHR 0xA8, CHR 0xE9, CHR 0x83, CHR 0xA8, CHR 0xE7,
     CHR 0xBD, CHR 0xB2, CHR 0xE7, CHR 0x8E, CHR 0xAF, CHR 0xE5, CHR 0xA2, CHR 0x83, CHR 0xE6,
     CHR 0xB3, CHR 0xA8, CHR 0xE5, CHR 0x85, CHR 0xA5, CHR 0xE5, CHR 0x9B, CHR 0xBD, CHR 0xE5,
     CHR 0xAE, CHR 0xB6, CHR 0xE5, CHR 0xB9, CHR 0xB3, CHR 0xE5, CHR 0x8F, CHR 0xB0, CHR 0xE5,
     CHR 0x9C, CHR 0xB0, CHR 0xE5, CHR 0x9D, CHR 0x80, CHR 0xE3, CHR 0x80, CHR 0x81, CHR 0xE8,
     CHR 0xAF, CHR 0xB7, CHR 0xE6, CHR 0xB1, CHR 0x82, CHR 0xE6, CHR 0x96, CHR 0xB9, CHR 0xE8,
     CHR 0xBA, CHR 0xAB, CHR 0xE4, CHR 0xBB, CHR 0xBD, CHR 0xE3, CHR 0x80, CHR 0x81, CHR 0xE6,
     CHR 0x8E, CHR 0xA5, CHR 0xE5, CHR 0x85, CHR 0xA5, CHR 0xE8, CHR 0xB4, CHR 0xA6, CHR 0xE5,
     CHR 0x8F, CHR 0xB7, CHR 0xE3, CHR 0x80, CHR 0x81, CHR 0xE6, CHR 0x8E, CHR 0xA5, CHR 0xE5,
     CHR 0x85, CHR 0xA5, CHR 0xE5, CHR 0xAF, CHR 0x86, CHR 0xE9, CHR 0x92, CHR 0xA5, CHR 0xE5,
     CHR 0x92, CHR 0x8C, CHR 0xE6, CHR 0x8E, CHR 0xA5, CHR 0xE5, CHR 0x8F, CHR 0xA3, CHR 0xE6,
     CHR 0x9C, CHR 0x8D, CHR 0xE5, CHR 0x8A, CHR 0xA1, CHR 0xE6, CHR 0xA0, CHR 0x87, CHR 0xE8,
     CHR 0xAF, CHR 0x86, CHR 0xE6, CHR 0x98, CHR 0xA0, CHR 0xE5, CHR 0xB0, CHR 0x84, CHR 0xE3,
     CHR 0x80, CHR 0x82]"

text \<open>Checklist: confirm the material.\<close>

definition lbl_nc_k_mat :: string where
  "lbl_nc_k_mat = [CHR 0xE7, CHR 0xA1, CHR 0xAE, CHR 0xE8, CHR 0xAE, CHR 0xA4, CHR 0xE4,
     CHR 0xB8, CHR 0x8A, CHR 0xE7, CHR 0xBA, CHR 0xBF, CHR 0xE8, CHR 0xB5, CHR 0x84, CHR 0xE6,
     CHR 0x96, CHR 0x99]"

text \<open>Checklist: what is to be confirmed.\<close>

definition lbl_nc_k_mat_detail :: string where
  "lbl_nc_k_mat_detail = [CHR 0xE6, CHR 0xA0, CHR 0xB8, CHR 0xE5, CHR 0xAF, CHR 0xB9, CHR 0xE5,
     CHR 0x9B, CHR 0xBD, CHR 0xE5, CHR 0xAE, CHR 0xB6, CHR 0xE4, CHR 0xB8, CHR 0x8B, CHR 0xE5,
     CHR 0x8F, CHR 0x91, CHR 0xE5, CHR 0x9F, CHR 0xBA, CHR 0xE6, CHR 0x9C, CHR 0xAC, CHR 0xE8,
     CHR 0xA6, CHR 0x81, CHR 0xE7, CHR 0xB4, CHR 0xA0, CHR 0xE7, CHR 0x9B, CHR 0xAE, CHR 0xE5,
     CHR 0xBD, CHR 0x95, CHR 0xE4, CHR 0xB8, CHR 0x8E, CHR 0xE6, CHR 0xA8, CHR 0xA1, CHR 0xE6,
     CHR 0x9D, CHR 0xBF, CHR 0xE3, CHR 0x80, CHR 0x81, CHR 0xE7, CHR 0x9C, CHR 0x9F, CHR 0xE5,
     CHR 0xAE, CHR 0x9E, CHR 0xE5, CHR 0x9B, CHR 0x9E, CHR 0xE6, CHR 0x89, CHR 0xA7, CHR 0xE5,
     CHR 0xAF, CHR 0xB9, CHR 0xE8, CHR 0xB4, CHR 0xA6, CHR 0xE5, CHR 0x8F, CHR 0xA3, CHR 0xE5,
     CHR 0xBE, CHR 0x84, CHR 0xE3, CHR 0x80, CHR 0x81, CHR 0xE5, CHR 0x87, CHR 0xAD, CHR 0xE6,
     CHR 0x8D, CHR 0xAE, CHR 0xE7, CHR 0xAD, CHR 0xBE, CHR 0xE5, CHR 0x8F, CHR 0x91, CHR 0xE4,
     CHR 0xB8, CHR 0x8E, CHR 0xE6, CHR 0x92, CHR 0xA4, CHR 0xE9, CHR 0x94, CHR 0x80, CHR 0xE8,
     CHR 0xA7, CHR 0x84, CHR 0xE5, CHR 0x88, CHR 0x99, CHR 0xE3, CHR 0x80, CHR 0x82]"

text \<open>Checklist: refresh and check.\<close>

definition lbl_nc_k_eff :: string where
  "lbl_nc_k_eff = [CHR 0xE5, CHR 0x88, CHR 0xB7, CHR 0xE6, CHR 0x96, CHR 0xB0, CHR 0xE6,
     CHR 0xA0, CHR 0xA1, CHR 0xE9, CHR 0xAA, CHR 0x8C, CHR 0xE7, CHR 0x94, CHR 0x9F, CHR 0xE6,
     CHR 0x95, CHR 0x88]"

text \<open>Checklist: publication is allowed only when everything is ready.\<close>

definition lbl_nc_k_eff_detail :: string where
  "lbl_nc_k_eff_detail = [CHR 0xE9, CHR 0x85, CHR 0x8D, CHR 0xE7, CHR 0xBD, CHR 0xAE, CHR 0xE5,
     CHR 0x8F, CHR 0x98, CHR 0xE6, CHR 0x9B, CHR 0xB4, CHR 0xE9, CHR 0x9A, CHR 0x8F, CHR 0xE9,
     CHR 0x83, CHR 0xA8, CHR 0xE7, CHR 0xBD, CHR 0xB2, CHR 0xE7, CHR 0x8E, CHR 0xAF, CHR 0xE5,
     CHR 0xA2, CHR 0x83, CHR 0xE7, CHR 0x94, CHR 0x9F, CHR 0xE6, CHR 0x95, CHR 0x88, CHR 0xE5,
     CHR 0x90, CHR 0x8E, CHR 0xEF, CHR 0xBC, CHR 0x8C, CHR 0xE5, CHR 0x9C, CHR 0xA8, CHR 0xE6,
     CHR 0x9C, CHR 0xAC, CHR 0xE9, CHR 0xA1, CHR 0xB5, CHR 0xE5, CHR 0x88, CHR 0xB7, CHR 0xE6,
     CHR 0x96, CHR 0xB0, CHR 0xE7, CHR 0x8A, CHR 0xB6, CHR 0xE6, CHR 0x80, CHR 0x81, CHR 0xEF,
     CHR 0xBC, CHR 0x9B, CHR 0xE5, CHR 0x85, CHR 0xA8, CHR 0xE9, CHR 0x83, CHR 0xA8, CHR 0xE5,
     CHR 0xB0, CHR 0xB1, CHR 0xE7, CHR 0xBB, CHR 0xAA, CHR 0xE5, CHR 0x90, CHR 0x8E, CHR 0xE6,
     CHR 0x89, CHR 0x8D, CHR 0xE5, CHR 0x85, CHR 0x81, CHR 0xE8, CHR 0xAE, CHR 0xB8, CHR 0xE5,
     CHR 0x8F, CHR 0x91, CHR 0xE5, CHR 0xB8, CHR 0x83, CHR 0xE5, CHR 0x90, CHR 0x8C, CHR 0xE6,
     CHR 0xAD, CHR 0xA5, CHR 0xE3, CHR 0x80, CHR 0x82]"

text \<open>Channel of a delivery: prefilled forms that flow back.\<close>

definition lbl_channel_prefill :: string where
  "lbl_channel_prefill = [CHR 0xE9, CHR 0xA2, CHR 0x84, CHR 0xE5, CHR 0xA1, CHR 0xAB, CHR 0xE4,
     CHR 0xB8, CHR 0x8B, CHR 0xE5, CHR 0x8F, CHR 0x91, CHR 0x20, CHR 0x2B, CHR 0x20, CHR 0xE6,
     CHR 0xB1, CHR 0x87, CHR 0xE6, CHR 0x80, CHR 0xBB, CHR 0xE5, CHR 0x9B, CHR 0x9E, CHR 0xE6,
     CHR 0xB5, CHR 0x81]"

text \<open>Channel of a delivery: blocked at admission.\<close>

definition lbl_channel_block :: string where
  "lbl_channel_block = [CHR 0xE5, CHR 0x87, CHR 0x86, CHR 0xE5, CHR 0x85, CHR 0xA5, CHR 0xE6,
     CHR 0x8B, CHR 0xA6, CHR 0xE6, CHR 0x88, CHR 0xAA]"

text \<open>Channel of a delivery: internal repair.\<close>

definition lbl_channel_repair :: string where
  "lbl_channel_repair = [CHR 0xE5, CHR 0x86, CHR 0x85, CHR 0xE9, CHR 0x83, CHR 0xA8, CHR 0xE4,
     CHR 0xBF, CHR 0xAE, CHR 0xE5, CHR 0xA4, CHR 0x8D]"

text \<open>Status of a backflow: confirmed.\<close>

definition lbl_backflow_confirmed :: string where
  "lbl_backflow_confirmed = [CHR 0xE5, CHR 0xB7, CHR 0xB2, CHR 0xE7, CHR 0xA1, CHR 0xAE,
     CHR 0xE8, CHR 0xAE, CHR 0xA4]"

text \<open>Delivery history: receipt taken.\<close>

definition lbl_receipt_taken :: string where
  "lbl_receipt_taken = [CHR 0xE5, CHR 0x9B, CHR 0x9E, CHR 0xE6, CHR 0x89, CHR 0xA7, CHR 0xE5,
     CHR 0xB7, CHR 0xB2, CHR 0xE6, CHR 0x8E, CHR 0xA5, CHR 0xE6, CHR 0x94, CHR 0xB6]"

text \<open>Delivery history: the status of the receipt, before it.\<close>

definition lbl_receipt_taken_pre :: string where
  "lbl_receipt_taken_pre = [CHR 0xE4, CHR 0xBA, CHR 0xA4, CHR 0xE4, CHR 0xBB, CHR 0x98, CHR 0xE5,
     CHR 0x9B, CHR 0x9E, CHR 0xE6, CHR 0x89, CHR 0xA7, CHR 0xE7, CHR 0x8A, CHR 0xB6, CHR 0xE6,
     CHR 0x80, CHR 0x81, CHR 0xEF, CHR 0xBC, CHR 0x9A]"

text \<open>The full stop.\<close>

definition lbl_full_stop :: string where
  "lbl_full_stop = [CHR 0xE3, CHR 0x80, CHR 0x82]"

text \<open>Delivery note: checked.\<close>

definition lbl_reconciled_note :: string where
  "lbl_reconciled_note = [CHR 0xE4, CHR 0xBA, CHR 0xA4, CHR 0xE6, CHR 0x8D, CHR 0xA2, CHR 0xE7,
     CHR 0xBB, CHR 0x93, CHR 0xE6, CHR 0x9E, CHR 0x9C, CHR 0xE5, CHR 0xB7, CHR 0xB2, CHR 0xE6,
     CHR 0xA0, CHR 0xB8, CHR 0xE5, CHR 0xAF, CHR 0xB9, CHR 0xE7, CHR 0xA1, CHR 0xAE, CHR 0xE8,
     CHR 0xAE, CHR 0xA4, CHR 0xEF, CHR 0xBC, CHR 0x8C, CHR 0xE5, CHR 0xBD, CHR 0x93, CHR 0xE5,
     CHR 0x89, CHR 0x8D, CHR 0xE5, CHR 0x8F, CHR 0xAF, CHR 0xE7, CHR 0xBB, CHR 0xA7, CHR 0xE7,
     CHR 0xBB, CHR 0xAD, CHR 0xE7, CHR 0xAD, CHR 0x89, CHR 0xE5, CHR 0xBE, CHR 0x85, CHR 0xE5,
     CHR 0x9B, CHR 0x9E, CHR 0xE6, CHR 0xB5, CHR 0x81, CHR 0xE6, CHR 0x88, CHR 0x96, CHR 0xE6,
     CHR 0xB2, CHR 0xBB, CHR 0xE7, CHR 0x90, CHR 0x86, CHR 0xE5, CHR 0x8A, CHR 0xA8, CHR 0xE4,
     CHR 0xBD, CHR 0x9C, CHR 0xE3, CHR 0x80, CHR 0x82]"

text \<open>Delivery history: checked.\<close>

definition lbl_reconciled :: string where
  "lbl_reconciled = [CHR 0xE4, CHR 0xBA, CHR 0xA4, CHR 0xE6, CHR 0x8D, CHR 0xA2, CHR 0xE7,
     CHR 0xBB, CHR 0x93, CHR 0xE6, CHR 0x9E, CHR 0x9C, CHR 0xE5, CHR 0xB7, CHR 0xB2, CHR 0xE6,
     CHR 0xA0, CHR 0xB8, CHR 0xE5, CHR 0xAF, CHR 0xB9]"

text \<open>Delivery history: what was checked.\<close>

definition lbl_reconciled_detail :: string where
  "lbl_reconciled_detail = [CHR 0xE5, CHR 0xB9, CHR 0xB3, CHR 0xE5, CHR 0x8F, CHR 0xB0, CHR 0xE5,
     CHR 0xB7, CHR 0xB2, CHR 0xE5, CHR 0xAE, CHR 0x8C, CHR 0xE6, CHR 0x88, CHR 0x90, CHR 0xE6,
     CHR 0x9C, CHR 0xAC, CHR 0xE6, CHR 0xAC, CHR 0xA1, CHR 0xE4, CHR 0xBA, CHR 0xA4, CHR 0xE6,
     CHR 0x8D, CHR 0xA2, CHR 0xE6, CHR 0x98, CHR 0x8E, CHR 0xE7, CHR 0xBB, CHR 0x86, CHR 0xE4,
     CHR 0xB8, CHR 0x8E, CHR 0xE7, CHR 0xBB, CHR 0x93, CHR 0xE6, CHR 0x9E, CHR 0x9C, CHR 0xE7,
     CHR 0x9A, CHR 0x84, CHR 0xE6, CHR 0xA0, CHR 0xB8, CHR 0xE5, CHR 0xAF, CHR 0xB9, CHR 0xE5,
     CHR 0xB9, CHR 0xB6, CHR 0xE4, CHR 0xBF, CHR 0x9D, CHR 0xE7, CHR 0x95, CHR 0x99, CHR 0xE5,
     CHR 0xAE, CHR 0xA1, CHR 0xE8, CHR 0xAE, CHR 0xA1, CHR 0xE7, CHR 0x95, CHR 0x99, CHR 0xE7,
     CHR 0x97, CHR 0x95, CHR 0xE3, CHR 0x80, CHR 0x82]"

text \<open>Delivery summary after the check.\<close>

definition lbl_reconciled_summary :: string where
  "lbl_reconciled_summary = [CHR 0xE6, CHR 0x9C, CHR 0xAC, CHR 0xE6, CHR 0xAC, CHR 0xA1,
     CHR 0xE4, CHR 0xBA, CHR 0xA4, CHR 0xE6, CHR 0x8D, CHR 0xA2, CHR 0xE7, CHR 0xBB, CHR 0x93,
     CHR 0xE6, CHR 0x9E, CHR 0x9C, CHR 0xE5, CHR 0xB7, CHR 0xB2, CHR 0xE5, CHR 0xAE, CHR 0x8C,
     CHR 0xE6, CHR 0x88, CHR 0x90, CHR 0xE6, CHR 0xA0, CHR 0xB8, CHR 0xE5, CHR 0xAF, CHR 0xB9,
     CHR 0xEF, CHR 0xBC, CHR 0x8C, CHR 0xE5, CHR 0xBD, CHR 0x93, CHR 0xE5, CHR 0x89, CHR 0x8D,
     CHR 0xE9, CHR 0x93, CHR 0xBE, CHR 0xE8, CHR 0xB7, CHR 0xAF, CHR 0xE4, CHR 0xBA, CHR 0x8B,
     CHR 0xE5, CHR 0xAE, CHR 0x9E, CHR 0xE4, CHR 0xB8, CHR 0x8E, CHR 0xE5, CHR 0xA4, CHR 0x96,
     CHR 0xE9, CHR 0x83, CHR 0xA8, CHR 0xE5, CHR 0x9B, CHR 0x9E, CHR 0xE6, CHR 0x89, CHR 0xA7,
     CHR 0xE4, CHR 0xBF, CHR 0x9D, CHR 0xE6, CHR 0x8C, CHR 0x81, CHR 0xE4, CHR 0xB8, CHR 0x80,
     CHR 0xE8, CHR 0x87, CHR 0xB4, CHR 0xE3, CHR 0x80, CHR 0x82]"

text \<open>Next action after the check.\<close>

definition lbl_reconciled_next :: string where
  "lbl_reconciled_next = [CHR 0xE5, CHR 0xA6, CHR 0x82, CHR 0xE5, CHR 0xB7, CHR 0xB2, CHR 0xE6,
     CHR 0xBB, CHR 0xA1, CHR 0xE8, CHR 0xB6, CHR 0xB3, CHR 0xE4, CHR 0xB8, CHR 0x9A, CHR 0xE5,
     CHR 0x8A, CHR 0xA1, CHR 0xE9, CHR 0x97, CHR 0xA8, CHR 0xE6, CHR 0xA7, CHR 0x9B, CHR 0xEF,
     CHR 0xBC, CHR 0x8C, CHR 0xE5, CHR 0x8F, CHR 0xAF, CHR 0xE7, CHR 0xBB, CHR 0xA7, CHR 0xE7,
     CHR 0xBB, CHR 0xAD, CHR 0xE6, CHR 0x89, CHR 0xA7, CHR 0xE8, CHR 0xA1, CHR 0x8C, CHR 0xE5,
     CHR 0x9B, CHR 0x9E, CHR 0xE6, CHR 0xB5, CHR 0x81, CHR 0xE7, CHR 0xA1, CHR 0xAE, CHR 0xE8,
     CHR 0xAE, CHR 0xA4, CHR 0xE6, CHR 0x88, CHR 0x96, CHR 0xE4, CHR 0xBE, CHR 0x9B, CHR 0xE7,
     CHR 0xBB, CHR 0x99, CHR 0xE4, CHR 0xBE, CHR 0xA7, CHR 0xE6, CHR 0xB2, CHR 0xBB, CHR 0xE7,
     CHR 0x90, CHR 0x86, CHR 0xE5, CHR 0x8A, CHR 0xA8, CHR 0xE4, CHR 0xBD, CHR 0x9C, CHR 0xE3,
     CHR 0x80, CHR 0x82]"

text \<open>Delivery history: subscription changed.\<close>

definition lbl_subscription_changed :: string where
  "lbl_subscription_changed = [CHR 0xE8, CHR 0xAE, CHR 0xA2, CHR 0xE9, CHR 0x98, CHR 0x85,
     CHR 0xE7, CHR 0xAD, CHR 0x96, CHR 0xE7, CHR 0x95, CHR 0xA5, CHR 0xE5, CHR 0xB7, CHR 0xB2,
     CHR 0xE6, CHR 0x9B, CHR 0xB4, CHR 0xE6, CHR 0x96, CHR 0xB0]"

text \<open>Delivery history: the status of the subscription, before it.\<close>

definition lbl_subscription_status :: string where
  "lbl_subscription_status = [CHR 0xE8, CHR 0xAE, CHR 0xA2, CHR 0xE9, CHR 0x98, CHR 0x85,
     CHR 0xE7, CHR 0x8A, CHR 0xB6, CHR 0xE6, CHR 0x80, CHR 0x81, CHR 0xEF, CHR 0xBC, CHR 0x9A]"

text \<open>Delivery note: recovery started.\<close>

definition lbl_recovery_note :: string where
  "lbl_recovery_note = [CHR 0xE5, CHR 0xB7, CHR 0xB2, CHR 0xE8, CHR 0xA7, CHR 0xA6, CHR 0xE5,
     CHR 0x8F, CHR 0x91, CHR 0xE6, CHR 0x81, CHR 0xA2, CHR 0xE5, CHR 0xA4, CHR 0x8D, CHR 0xE6,
     CHR 0xB5, CHR 0x81, CHR 0xE7, CHR 0xA8, CHR 0x8B, CHR 0xEF, CHR 0xBC, CHR 0x8C, CHR 0xE7,
     CHR 0xAD, CHR 0x89, CHR 0xE5, CHR 0xBE, CHR 0x85, CHR 0xE5, CHR 0xAE, CHR 0xA1, CHR 0xE8,
     CHR 0xAE, CHR 0xA1, CHR 0xE9, CHR 0x93, CHR 0xBE, CHR 0xE4, CHR 0xBF, CHR 0xAE, CHR 0xE5,
     CHR 0xA4, CHR 0x8D, CHR 0xE5, CHR 0x90, CHR 0x8E, CHR 0xE9, CHR 0x87, CHR 0x8D, CHR 0xE6,
     CHR 0x96, CHR 0xB0, CHR 0xE6, CHR 0xA0, CHR 0xB8, CHR 0xE5, CHR 0xAF, CHR 0xB9, CHR 0xE4,
     CHR 0xBA, CHR 0xA4, CHR 0xE6, CHR 0x8D, CHR 0xA2, CHR 0xE7, CHR 0xBB, CHR 0x93, CHR 0xE6,
     CHR 0x9E, CHR 0x9C, CHR 0xE3, CHR 0x80, CHR 0x82]"

text \<open>Delivery history: recovery started.\<close>

definition lbl_recovery :: string where
  "lbl_recovery = [CHR 0xE6, CHR 0x81, CHR 0xA2, CHR 0xE5, CHR 0xA4, CHR 0x8D, CHR 0xE5,
     CHR 0xB7, CHR 0xB2, CHR 0xE8, CHR 0xA7, CHR 0xA6, CHR 0xE5, CHR 0x8F, CHR 0x91]"

text \<open>Delivery history: what was started.\<close>

definition lbl_recovery_detail :: string where
  "lbl_recovery_detail = [CHR 0xE5, CHR 0xB9, CHR 0xB3, CHR 0xE5, CHR 0x8F, CHR 0xB0, CHR 0xE5,
     CHR 0xB7, CHR 0xB2, CHR 0xE6, CHR 0x98, CHR 0xBE, CHR 0xE5, CHR 0xBC, CHR 0x8F, CHR 0xE7,
     CHR 0x99, CHR 0xBB, CHR 0xE8, CHR 0xAE, CHR 0xB0, CHR 0xE6, CHR 0x81, CHR 0xA2, CHR 0xE5,
     CHR 0xA4, CHR 0x8D, CHR 0xE5, CHR 0x8A, CHR 0xA8, CHR 0xE4, CHR 0xBD, CHR 0x9C, CHR 0xEF,
     CHR 0xBC, CHR 0x8C, CHR 0xE7, CHR 0xAD, CHR 0x89, CHR 0xE5, CHR 0xBE, CHR 0x85, CHR 0xE5,
     CHR 0x90, CHR 0x8E, CHR 0xE7, CHR 0xBB, CHR 0xAD, CHR 0xE9, CHR 0x87, CHR 0x8D, CHR 0xE8,
     CHR 0xAF, CHR 0x95, CHR 0xE4, CHR 0xB8, CHR 0x8E, CHR 0xE5, CHR 0x9B, CHR 0x9E, CHR 0xE6,
     CHR 0x89, CHR 0xA7, CHR 0xE3, CHR 0x80, CHR 0x82]"

text \<open>Delivery summary after the start of a recovery.\<close>

definition lbl_recovery_summary :: string where
  "lbl_recovery_summary = [CHR 0xE6, CHR 0x81, CHR 0xA2, CHR 0xE5, CHR 0xA4, CHR 0x8D, CHR 0xE5,
     CHR 0x8A, CHR 0xA8, CHR 0xE4, CHR 0xBD, CHR 0x9C, CHR 0xE5, CHR 0xB7, CHR 0xB2, CHR 0xE8,
     CHR 0xA2, CHR 0xAB, CHR 0xE6, CHR 0x98, CHR 0xBE, CHR 0xE5, CHR 0xBC, CHR 0x8F, CHR 0xE8,
     CHR 0xA7, CHR 0xA6, CHR 0xE5, CHR 0x8F, CHR 0x91, CHR 0xEF, CHR 0xBC, CHR 0x8C, CHR 0xE5,
     CHR 0xBD, CHR 0x93, CHR 0xE5, CHR 0x89, CHR 0x8D, CHR 0xE4, CHR 0xBB, CHR 0xBB, CHR 0xE5,
     CHR 0x8A, CHR 0xA1, CHR 0xE4, CHR 0xBB, CHR 0x8E, CHR 0xE5, CHR 0xA4, CHR 0xB1, CHR 0xE8,
     CHR 0xB4, CHR 0xA5, CHR 0xE6, CHR 0x80, CHR 0x81, CHR 0xE5, CHR 0x9B, CHR 0x9E, CHR 0xE5,
     CHR 0x88, CHR 0xB0, CHR 0xE5, CHR 0x8F, CHR 0xAF, CHR 0xE8, CHR 0xBF, CHR 0xBD, CHR 0xE8,
     CHR 0xB8, CHR 0xAA, CHR 0xE5, CHR 0xA4, CHR 0x84, CHR 0xE7, CHR 0x90, CHR 0x86, CHR 0xE4,
     CHR 0xB8, CHR 0xAD, CHR 0xE9, CHR 0x97, CHR 0xB4, CHR 0xE6, CHR 0x80, CHR 0x81, CHR 0xE3,
     CHR 0x80, CHR 0x82]"

text \<open>Next action after the start of a recovery.\<close>

definition lbl_recovery_next :: string where
  "lbl_recovery_next = [CHR 0xE8, CHR 0xAF, CHR 0xB7, CHR 0xE5, CHR 0x85, CHR 0x88, CHR 0xE4,
     CHR 0xBF, CHR 0xAE, CHR 0xE5, CHR 0xA4, CHR 0x8D, CHR 0xE5, CHR 0xAE, CHR 0xA1, CHR 0xE8,
     CHR 0xAE, CHR 0xA1, CHR 0xE9, CHR 0x93, CHR 0xBE, CHR 0xE8, CHR 0xB7, CHR 0xAF, CHR 0xEF,
     CHR 0xBC, CHR 0x8C, CHR 0xE5, CHR 0x86, CHR 0x8D, CHR 0xE9, CHR 0x87, CHR 0x8D, CHR 0xE6,
     CHR 0x96, CHR 0xB0, CHR 0xE6, CHR 0x89, CHR 0xA7, CHR 0xE8, CHR 0xA1, CHR 0x8C, CHR 0xE8,
     CHR 0xA1, CHR 0xA5, CHR 0xE6, CHR 0x8A, CHR 0x95, CHR 0xE5, CHR 0x92, CHR 0x8C, CHR 0xE4,
     CHR 0xBA, CHR 0xA4, CHR 0xE6, CHR 0x8D, CHR 0xA2, CHR 0xE7, CHR 0xBB, CHR 0x93, CHR 0xE6,
     CHR 0x9E, CHR 0x9C, CHR 0xE6, CHR 0xA0, CHR 0xB8, CHR 0xE5, CHR 0xAF, CHR 0xB9, CHR 0xE3,
     CHR 0x80, CHR 0x82]"

text \<open>Delivery history: the state of an attempt, before it.\<close>

definition lbl_attempt_state :: string where
  "lbl_attempt_state = [CHR 0xE4, CHR 0xBA, CHR 0xA4, CHR 0xE6, CHR 0x8D, CHR 0xA2, CHR 0xE4,
     CHR 0xBA, CHR 0xA4, CHR 0xE4, CHR 0xBB, CHR 0x98]"

text \<open>Default reason of a refused grant.\<close>

definition lbl_grant_refused_default :: string where
  "lbl_grant_refused_default = [CHR 0xE6, CHR 0x8E, CHR 0x88, CHR 0xE6, CHR 0x9D, CHR 0x83,
     CHR 0xE7, CHR 0x94, CHR 0xB3, CHR 0xE8, CHR 0xAF, CHR 0xB7, CHR 0xE6, CHR 0x9C, CHR 0xAA,
     CHR 0xE9, CHR 0x80, CHR 0x9A, CHR 0xE8, CHR 0xBF, CHR 0x87, CHR 0xE3, CHR 0x80, CHR 0x82]"

text \<open>Delivery history: grant refused.\<close>

definition lbl_grant_refused :: string where
  "lbl_grant_refused = [CHR 0xE6, CHR 0x8E, CHR 0x88, CHR 0xE6, CHR 0x9D, CHR 0x83, CHR 0xE6,
     CHR 0x9C, CHR 0xAA, CHR 0xE9, CHR 0x80, CHR 0x9A, CHR 0xE8, CHR 0xBF, CHR 0x87]"

text \<open>Delivery history: grant renewed.\<close>

definition lbl_grant_renewed :: string where
  "lbl_grant_renewed = [CHR 0xE6, CHR 0x8E, CHR 0x88, CHR 0xE6, CHR 0x9D, CHR 0x83, CHR 0xE5,
     CHR 0xB7, CHR 0xB2, CHR 0xE7, CHR 0xBB, CHR 0xAD, CHR 0xE6, CHR 0x9C, CHR 0x9F]"

text \<open>Default reason of a renewal.\<close>

definition lbl_grant_renewed_default :: string where
  "lbl_grant_renewed_default = [CHR 0xE8, CHR 0xAE, CHR 0xBF, CHR 0xE9, CHR 0x97, CHR 0xAE,
     CHR 0xE6, CHR 0x8E, CHR 0x88, CHR 0xE6, CHR 0x9D, CHR 0x83, CHR 0xE7, CHR 0xBB, CHR 0xAD,
     CHR 0xE6, CHR 0x9C, CHR 0x9F, CHR 0xE5, CHR 0xAE, CHR 0x8C, CHR 0xE6, CHR 0x88, CHR 0x90,
     CHR 0xE3, CHR 0x80, CHR 0x82]"

text \<open>Timeline of a request: grant suspended.\<close>

definition lbl_grant_suspended :: string where
  "lbl_grant_suspended = [CHR 0xE6, CHR 0x8E, CHR 0x88, CHR 0xE6, CHR 0x9D, CHR 0x83, CHR 0xE5,
     CHR 0xB7, CHR 0xB2, CHR 0xE6, CHR 0x9A, CHR 0x82, CHR 0xE5, CHR 0x81, CHR 0x9C]"

text \<open>Default reason of a suspension.\<close>

definition lbl_grant_suspended_default :: string where
  "lbl_grant_suspended_default = [CHR 0xE4, CHR 0xB8, CHR 0x9A, CHR 0xE5, CHR 0x8A, CHR 0xA1,
     CHR 0xE8, CHR 0xBF, CHR 0x90, CHR 0xE8, CHR 0x90, CHR 0xA5, CHR 0xE5, CHR 0x91, CHR 0x98,
     CHR 0x20, CHR 0xE4, CHR 0xB8, CHR 0xB4, CHR 0xE6, CHR 0x97, CHR 0xB6, CHR 0xE6, CHR 0x9A,
     CHR 0x82, CHR 0xE5, CHR 0x81, CHR 0x9C, CHR 0xE4, CHR 0xBB, CHR 0xA5, CHR 0xE6, CHR 0xA0,
     CHR 0xB8, CHR 0xE5, CHR 0xAE, CHR 0x9E, CHR 0xE4, CHR 0xBD, CHR 0xBF, CHR 0xE7, CHR 0x94,
     CHR 0xA8, CHR 0xE8, CHR 0xBE, CHR 0xB9, CHR 0xE7, CHR 0x95, CHR 0x8C, CHR 0xE3, CHR 0x80,
     CHR 0x82]"

text \<open>Timeline of a request: grant revoked.\<close>

definition lbl_grant_revoked :: string where
  "lbl_grant_revoked = [CHR 0xE6, CHR 0x8E, CHR 0x88, CHR 0xE6, CHR 0x9D, CHR 0x83, CHR 0xE5,
     CHR 0xB7, CHR 0xB2, CHR 0xE6, CHR 0x94, CHR 0xB6, CHR 0xE5, CHR 0x9B, CHR 0x9E]"

text \<open>Default reason when the applicant gives the grant up.\<close>

definition lbl_revoked_by_applicant :: string where
  "lbl_revoked_by_applicant = [CHR 0xE7, CHR 0x94, CHR 0xB3, CHR 0xE8, CHR 0xAF, CHR 0xB7,
     CHR 0xE4, CHR 0xBA, CHR 0xBA, CHR 0xE4, CHR 0xB8, CHR 0xBB, CHR 0xE5, CHR 0x8A, CHR 0xA8,
     CHR 0xE6, CHR 0x94, CHR 0xBE, CHR 0xE5, CHR 0xBC, CHR 0x83, CHR 0xE6, CHR 0x8E, CHR 0x88,
     CHR 0xE6, CHR 0x9D, CHR 0x83, CHR 0xE3, CHR 0x80, CHR 0x82]"

text \<open>Default reason when the operator revokes the grant.\<close>

definition lbl_revoked_by_operator :: string where
  "lbl_revoked_by_operator = [CHR 0xE4, CHR 0xB8, CHR 0x9A, CHR 0xE5, CHR 0x8A, CHR 0xA1,
     CHR 0xE8, CHR 0xBF, CHR 0x90, CHR 0xE8, CHR 0x90, CHR 0xA5, CHR 0xE5, CHR 0x91, CHR 0x98,
     CHR 0x20, CHR 0xE5, CHR 0x90, CHR 0x88, CHR 0xE8, CHR 0xA7, CHR 0x84, CHR 0xE6, CHR 0x94,
     CHR 0xB6, CHR 0xE5, CHR 0x9B, CHR 0x9E, CHR 0xE6, CHR 0x8E, CHR 0x88, CHR 0xE6, CHR 0x9D,
     CHR 0x83, CHR 0xEF, CHR 0xBC, CHR 0x8C, CHR 0xE9, CHR 0x9C, CHR 0x80, CHR 0xE9, CHR 0x87,
     CHR 0x8D, CHR 0xE6, CHR 0x96, CHR 0xB0, CHR 0xE7, CHR 0x94, CHR 0xB3, CHR 0xE8, CHR 0xAF,
     CHR 0xB7, CHR 0xE3, CHR 0x80, CHR 0x82]"

text \<open>Delivery history: credential issued.\<close>

definition lbl_issued :: string where
  "lbl_issued = [CHR 0xE5, CHR 0x87, CHR 0xAD, CHR 0xE6, CHR 0x8D, CHR 0xAE, CHR 0xE5, CHR 0xB7,
     CHR 0xB2, CHR 0xE7, CHR 0xAD, CHR 0xBE, CHR 0xE5, CHR 0x8F, CHR 0x91]"

text \<open>Delivery history: credential issued again.\<close>

definition lbl_reissued :: string where
  "lbl_reissued = [CHR 0xE5, CHR 0x87, CHR 0xAD, CHR 0xE6, CHR 0x8D, CHR 0xAE, CHR 0xE5,
     CHR 0xB7, CHR 0xB2, CHR 0xE9, CHR 0x87, CHR 0x8D, CHR 0xE6, CHR 0x96, CHR 0xB0, CHR 0xE7,
     CHR 0xAD, CHR 0xBE, CHR 0xE5, CHR 0x8F, CHR 0x91, CHR 0xEF, CHR 0xBC, CHR 0x88, CHR 0xE6,
     CHR 0x97, CHR 0xA7, CHR 0x20, CHR 0x73, CHR 0x65, CHR 0x63, CHR 0x72, CHR 0x65, CHR 0x74,
     CHR 0x20, CHR 0xE7, CHR 0xAB, CHR 0x8B, CHR 0xE5, CHR 0x8D, CHR 0xB3, CHR 0xE5, CHR 0xA4,
     CHR 0xB1, CHR 0xE6, CHR 0x95, CHR 0x88, CHR 0xEF, CHR 0xBC, CHR 0x89]"

text \<open>Delivery history: where the credential can be seen.\<close>

definition lbl_issued_detail :: string where
  "lbl_issued_detail = [CHR 0xEF, CHR 0xBC, CHR 0x88, CHR 0xE5, CHR 0xB9, CHR 0xB3, CHR 0xE5,
     CHR 0x8F, CHR 0xB0, CHR 0xE8, CHR 0x87, CHR 0xAA, CHR 0xE7, CHR 0xAD, CHR 0xBE, CHR 0xE5,
     CHR 0x87, CHR 0xAD, CHR 0xE6, CHR 0x8D, CHR 0xAE, CHR 0xEF, CHR 0xBC, CHR 0x89, CHR 0xEF,
     CHR 0xBC, CHR 0x8C, CHR 0xE5, CHR 0x8F, CHR 0xAF, CHR 0xE5, CHR 0x9C, CHR 0xA8, CHR 0x20,
     CHR 0x50, CHR 0x34, CHR 0x20, CHR 0xE5, CHR 0x87, CHR 0xAD, CHR 0xE6, CHR 0x8D, CHR 0xAE,
     CHR 0xE9, CHR 0xA2, CHR 0x86, CHR 0xE5, CHR 0x8F, CHR 0x96, CHR 0xE9, CHR 0xA1, CHR 0xB5,
     CHR 0xE6, CHR 0x9F, CHR 0xA5, CHR 0xE7, CHR 0x9C, CHR 0x8B, CHR 0xE3, CHR 0x80, CHR 0x82]"

text \<open>Delivery note: access granted.\<close>

definition lbl_access_granted_note :: string where
  "lbl_access_granted_note = [CHR 0xE8, CHR 0xAE, CHR 0xBF, CHR 0xE9, CHR 0x97, CHR 0xAE,
     CHR 0xE6, CHR 0x8E, CHR 0x88, CHR 0xE6, CHR 0x9D, CHR 0x83, CHR 0xE5, CHR 0xB7, CHR 0xB2,
     CHR 0xE7, CHR 0x94, CHR 0x9F, CHR 0xE6, CHR 0x95, CHR 0x88, CHR 0xEF, CHR 0xBC, CHR 0x8C,
     CHR 0xE4, CHR 0xBA, CHR 0xA4, CHR 0xE4, CHR 0xBB, CHR 0x98, CHR 0xE4, CHR 0xBA, CHR 0x8B,
     CHR 0xE5, CHR 0xAE, CHR 0x9E, CHR 0xE5, CHR 0xB7, CHR 0xB2, CHR 0xE5, CHR 0x86, CHR 0x99,
     CHR 0xE5, CHR 0x85, CHR 0xA5, CHR 0xE5, CHR 0x8F, CHR 0xAF, CHR 0xE5, CHR 0x9B, CHR 0x9E,
     CHR 0xE6, CHR 0x94, CHR 0xBE, CHR 0xE4, CHR 0xBB, CHR 0xBB, CHR 0xE5, CHR 0x8A, CHR 0xA1,
     CHR 0xE9, CHR 0x93, CHR 0xBE, CHR 0xE3, CHR 0x80, CHR 0x82]"

text \<open>Delivery history: access granted.\<close>

definition lbl_access_granted :: string where
  "lbl_access_granted = [CHR 0xE6, CHR 0x8E, CHR 0x88, CHR 0xE6, CHR 0x9D, CHR 0x83, CHR 0xE5,
     CHR 0xB7, CHR 0xB2, CHR 0xE7, CHR 0x94, CHR 0x9F, CHR 0xE6, CHR 0x95, CHR 0x88]"

text \<open>Delivery history: what was granted.\<close>

definition lbl_access_granted_detail :: string where
  "lbl_access_granted_detail = [CHR 0xE6, CHR 0xA0, CHR 0xB8, CHR 0xE5, CHR 0xBF, CHR 0x83,
     CHR 0xE5, CHR 0xAE, CHR 0xA1, CHR 0xE6, CHR 0x89, CHR 0xB9, CHR 0xE5, CHR 0x90, CHR 0x8E,
     CHR 0xE7, CHR 0x9A, CHR 0x84, CHR 0xE6, CHR 0x8E, CHR 0x88, CHR 0xE6, CHR 0x9D, CHR 0x83,
     CHR 0xE4, CHR 0xBA, CHR 0xA4, CHR 0xE4, CHR 0xBB, CHR 0x98, CHR 0xE5, CHR 0xB7, CHR 0xB2,
     CHR 0xE5, CHR 0xAE, CHR 0x8C, CHR 0xE6, CHR 0x88, CHR 0x90, CHR 0xEF, CHR 0xBC, CHR 0x8C,
     CHR 0xE5, CHR 0xB9, CHR 0xB6, CHR 0xE4, CHR 0xBF, CHR 0x9D, CHR 0xE7, CHR 0x95, CHR 0x99,
     CHR 0xE5, CHR 0xAE, CHR 0xA1, CHR 0xE8, CHR 0xAE, CHR 0xA1, CHR 0xE9, CHR 0x94, CHR 0x9A,
     CHR 0xE5, CHR 0xAE, CHR 0x9A, CHR 0xE3, CHR 0x80, CHR 0x82]"

text \<open>Delivery summary after access was granted.\<close>

definition lbl_access_granted_summary :: string where
  "lbl_access_granted_summary = [CHR 0xE8, CHR 0xAE, CHR 0xBF, CHR 0xE9, CHR 0x97, CHR 0xAE,
     CHR 0xE6, CHR 0x8E, CHR 0x88, CHR 0xE6, CHR 0x9D, CHR 0x83, CHR 0xE5, CHR 0xB7, CHR 0xB2,
     CHR 0xE7, CHR 0x94, CHR 0x9F, CHR 0xE6, CHR 0x95, CHR 0x88, CHR 0xEF, CHR 0xBC, CHR 0x8C,
     CHR 0xE5, CHR 0xBD, CHR 0x93, CHR 0xE5, CHR 0x89, CHR 0x8D, CHR 0xE5, CHR 0x8F, CHR 0xAF,
     CHR 0xE8, CHR 0xBF, CHR 0x9B, CHR 0xE5, CHR 0x85, CHR 0xA5, CHR 0xE4, CHR 0xBD, CHR 0xBF,
     CHR 0xE7, CHR 0x94, CHR 0xA8, CHR 0xE7, CHR 0x9B, CHR 0x91, CHR 0xE6, CHR 0xB5, CHR 0x8B,
     CHR 0xE3, CHR 0x80, CHR 0x81, CHR 0xE4, CHR 0xBA, CHR 0xA4, CHR 0xE6, CHR 0x8D, CHR 0xA2,
     CHR 0xE7, CHR 0xBB, CHR 0x93, CHR 0xE6, CHR 0x9E, CHR 0x9C, CHR 0xE6, CHR 0xA0, CHR 0xB8,
     CHR 0xE5, CHR 0xAF, CHR 0xB9, CHR 0xE6, CHR 0x88, CHR 0x96, CHR 0xE6, CHR 0xA8, CHR 0xA1,
     CHR 0xE6, CHR 0x9D, CHR 0xBF, CHR 0xE5, CHR 0x9B, CHR 0x9E, CHR 0xE6, CHR 0xB5, CHR 0x81,
     CHR 0xE7, CHR 0xA1, CHR 0xAE, CHR 0xE8, CHR 0xAE, CHR 0xA4, CHR 0xE3, CHR 0x80, CHR 0x82]"

text \<open>Next action after access was granted.\<close>

definition lbl_access_granted_next :: string where
  "lbl_access_granted_next = [CHR 0xE7, CHR 0xBB, CHR 0xA7, CHR 0xE7, CHR 0xBB, CHR 0xAD,
     CHR 0xE7, CHR 0x9B, CHR 0x91, CHR 0xE6, CHR 0xB5, CHR 0x8B, CHR 0xE8, CHR 0xB0, CHR 0x83,
     CHR 0xE7, CHR 0x94, CHR 0xA8, CHR 0xE4, CHR 0xB8, CHR 0x8E, CHR 0xE5, CHR 0x9B, CHR 0x9E,
     CHR 0xE6, CHR 0x89, CHR 0xA7, CHR 0xEF, CHR 0xBC, CHR 0x8C, CHR 0xE5, CHR 0xA6, CHR 0x82,
     CHR 0xE5, CHR 0xAD, CHR 0x98, CHR 0xE5, CHR 0x9C, CHR 0xA8, CHR 0xE9, CHR 0xAB, CHR 0x98,
     CHR 0xE9, CHR 0xA2, CHR 0x91, CHR 0xE5, CHR 0xB7, CHR 0xAE, CHR 0xE5, CHR 0xBC, CHR 0x82,
     CHR 0xE5, CHR 0xAD, CHR 0x97, CHR 0xE6, CHR 0xAE, CHR 0xB5, CHR 0xE5, CHR 0x86, CHR 0x8D,
     CHR 0xE8, CHR 0xBF, CHR 0x9B, CHR 0xE5, CHR 0x85, CHR 0xA5, CHR 0xE4, CHR 0xBE, CHR 0x9B,
     CHR 0xE7, CHR 0xBB, CHR 0x99, CHR 0xE4, CHR 0xBE, CHR 0xA7, CHR 0xE6, CHR 0xB2, CHR 0xBB,
     CHR 0xE7, CHR 0x90, CHR 0x86, CHR 0xE3, CHR 0x80, CHR 0x82]"

text \<open>Delivery history of an import.\<close>

definition lbl_imported_detail :: string where
  "lbl_imported_detail = [CHR 0xE6, CHR 0x8E, CHR 0x88, CHR 0xE6, CHR 0x9D, CHR 0x83, CHR 0xE8,
     CHR 0xBE, CHR 0xB9, CHR 0xE7, CHR 0x95, CHR 0x8C, CHR 0xE5, CHR 0xB7, CHR 0xB2, CHR 0xE4,
     CHR 0xBB, CHR 0x8E, CHR 0x20, CHR 0x64, CHR 0x61, CHR 0x74, CHR 0x61, CHR 0x5F, CHR 0x61,
     CHR 0x70, CHR 0x70, CHR 0x6C, CHR 0x79, CHR 0x5F, CHR 0x61, CHR 0x75, CHR 0x74, CHR 0x68,
     CHR 0x72, CHR 0x69, CHR 0x7A, CHR 0x61, CHR 0x74, CHR 0x69, CHR 0x6F, CHR 0x6E, CHR 0x20,
     CHR 0xE5, CHR 0xAF, CHR 0xBC, CHR 0xE5, CHR 0x85, CHR 0xA5, CHR 0xE3, CHR 0x80, CHR 0x82]"

text \<open>Delivery note of an import.\<close>

definition lbl_imported_note :: string where
  "lbl_imported_note = [CHR 0xE7, CHR 0x9C, CHR 0x9F, CHR 0xE5, CHR 0xAE, CHR 0x9E, CHR 0xE6,
     CHR 0x97, CHR 0xA7, CHR 0xE5, CHR 0xB9, CHR 0xB3, CHR 0xE5, CHR 0x8F, CHR 0xB0, CHR 0xE6,
     CHR 0x8E, CHR 0x88, CHR 0xE6, CHR 0x9D, CHR 0x83, CHR 0xE5, CHR 0xAF, CHR 0xBC, CHR 0xE5,
     CHR 0x85, CHR 0xA5, CHR 0xE7, CHR 0x94, CHR 0x9F, CHR 0xE6, CHR 0x88, CHR 0x90, CHR 0xE7,
     CHR 0x9A, CHR 0x84, CHR 0xE4, CHR 0xBA, CHR 0xA4, CHR 0xE4, CHR 0xBB, CHR 0x98, CHR 0xE8,
     CHR 0xBE, CHR 0xB9, CHR 0xE7, CHR 0x95, CHR 0x8C, CHR 0xE3, CHR 0x80, CHR 0x82]"

text \<open>Delivery summary of an import.\<close>

definition lbl_imported_summary :: string where
  "lbl_imported_summary = [CHR 0xE5, CHR 0xB7, CHR 0xB2, CHR 0xE5, CHR 0xAF, CHR 0xBC, CHR 0xE5,
     CHR 0x85, CHR 0xA5, CHR 0xE7, CHR 0x9C, CHR 0x9F, CHR 0xE5, CHR 0xAE, CHR 0x9E, CHR 0xE6,
     CHR 0x97, CHR 0xA7, CHR 0xE5, CHR 0xB9, CHR 0xB3, CHR 0xE5, CHR 0x8F, CHR 0xB0, CHR 0xE6,
     CHR 0x8E, CHR 0x88, CHR 0xE6, CHR 0x9D, CHR 0x83, CHR 0xE8, CHR 0xBE, CHR 0xB9, CHR 0xE7,
     CHR 0x95, CHR 0x8C, CHR 0xEF, CHR 0xBC, CHR 0x8C, CHR 0xE4, CHR 0xBA, CHR 0xA4, CHR 0xE4,
     CHR 0xBB, CHR 0x98, CHR 0xE4, CHR 0xBE, CHR 0xA7, CHR 0xE6, CHR 0x8C, CHR 0x89, CHR 0xE5,
     CHR 0xAD, CHR 0x97, CHR 0xE6, CHR 0xAE, CHR 0xB5, CHR 0xE8, CHR 0x8C, CHR 0x83, CHR 0xE5,
     CHR 0x9B, CHR 0xB4, CHR 0xE3, CHR 0x80, CHR 0x81, CHR 0xE9, CHR 0xA2, CHR 0x91, CHR 0xE6,
     CHR 0xAC, CHR 0xA1, CHR 0xE5, CHR 0x92, CHR 0x8C, CHR 0xE6, CHR 0x8E, CHR 0x88, CHR 0xE6,
     CHR 0x9D, CHR 0x83, CHR 0xE6, CHR 0x9C, CHR 0x9F, CHR 0xE5, CHR 0x9B, CHR 0x9E, CHR 0xE6,
     CHR 0x94, CHR 0xBE, CHR 0xE3, CHR 0x80, CHR 0x82]"

text \<open>Next action of an import.\<close>

definition lbl_imported_next :: string where
  "lbl_imported_next = [CHR 0xE6, CHR 0xA0, CHR 0xB8, CHR 0xE5, CHR 0xAF, CHR 0xB9, CHR 0xE4,
     CHR 0xBA, CHR 0xA4, CHR 0xE4, CHR 0xBB, CHR 0x98, CHR 0xE8, CHR 0x8C, CHR 0x83, CHR 0xE5,
     CHR 0x9B, CHR 0xB4, CHR 0xE5, CHR 0x92, CHR 0x8C, CHR 0xE7, CHR 0xBB, CHR 0xAD, CHR 0xE6,
     CHR 0x9C, CHR 0x9F, CHR 0xE7, CHR 0xBC, CHR 0xBA, CHR 0xE5, CHR 0x8F, CHR 0xA3, CHR 0xEF,
     CHR 0xBC, CHR 0x8C, CHR 0xE4, CHR 0xB8, CHR 0x8D, CHR 0xE6, CHR 0x96, CHR 0xB0, CHR 0xE5,
     CHR 0xA2, CHR 0x9E, CHR 0xE8, CHR 0xB6, CHR 0x85, CHR 0xE5, CHR 0x87, CHR 0xBA, CHR 0xE5,
     CHR 0xAE, CHR 0xA1, CHR 0xE6, CHR 0x89, CHR 0xB9, CHR 0xE6, CHR 0x84, CHR 0x8F, CHR 0xE8,
     CHR 0xA7, CHR 0x81, CHR 0xE7, CHR 0x9A, CHR 0x84, CHR 0xE6, CHR 0x8E, CHR 0x88, CHR 0xE6,
     CHR 0x9D, CHR 0x83, CHR 0xE3, CHR 0x80, CHR 0x82]"

text \<open>Kind of a resource: table.\<close>

definition lbl_kind_table :: string where
  "lbl_kind_table = [CHR 0xE5, CHR 0xBA, CHR 0x93, CHR 0xE8, CHR 0xA1, CHR 0xA8]"

text \<open>Kind of a resource: file.\<close>

definition lbl_kind_file :: string where
  "lbl_kind_file = [CHR 0xE6, CHR 0x96, CHR 0x87, CHR 0xE4, CHR 0xBB, CHR 0xB6]"

text \<open>Kind of a resource: interface.\<close>

definition lbl_kind_api :: string where
  "lbl_kind_api = [CHR 0xE6, CHR 0x8E, CHR 0xA5, CHR 0xE5, CHR 0x8F, CHR 0xA3, CHR 0xE6,
     CHR 0x9C, CHR 0x8D, CHR 0xE5, CHR 0x8A, CHR 0xA1]"

text \<open>Name of a delivery task after its kind.\<close>

definition lbl_delivery_task :: string where
  "lbl_delivery_task = [CHR 0xE4, CHR 0xBA, CHR 0xA4, CHR 0xE4, CHR 0xBB, CHR 0x98, CHR 0xE4,
     CHR 0xBB, CHR 0xBB, CHR 0xE5, CHR 0x8A, CHR 0xA1]"

text \<open>Name of a delivery task without kind.\<close>

definition lbl_data_delivery_task :: string where
  "lbl_data_delivery_task = [CHR 0xE6, CHR 0x95, CHR 0xB0, CHR 0xE6, CHR 0x8D, CHR 0xAE,
     CHR 0xE4, CHR 0xBA, CHR 0xA4, CHR 0xE4, CHR 0xBB, CHR 0x98, CHR 0xE4, CHR 0xBB, CHR 0xBB,
     CHR 0xE5, CHR 0x8A, CHR 0xA1]"

text \<open>Between the organisation and the task.\<close>

definition lbl_middle_dot :: string where
  "lbl_middle_dot = [CHR 0x20, CHR 0xC2, CHR 0xB7, CHR 0x20]"

text \<open>The unit of a rating.\<close>

definition lbl_stars :: string where
  "lbl_stars = [CHR 0x20, CHR 0xE6, CHR 0x98, CHR 0x9F]"

text \<open>Delivery history: rating, before the score.\<close>

definition lbl_rating :: string where
  "lbl_rating = [CHR 0xE6, CHR 0x9C, CHR 0x8D, CHR 0xE5, CHR 0x8A, CHR 0xA1, CHR 0xE8, CHR 0xAF,
     CHR 0x84, CHR 0xE4, CHR 0xBB, CHR 0xB7, CHR 0xEF, CHR 0xBC, CHR 0x9A]"

text \<open>No comment.\<close>

definition lbl_dash :: string where
  "lbl_dash = [CHR 0xE2, CHR 0x80, CHR 0x94]"

text \<open>Reason of a review: reuse.\<close>

definition lbl_reason_reuse :: string where
  "lbl_reason_reuse = [CHR 0xE5, CHR 0x90, CHR 0x8C, CHR 0xE6, CHR 0x84, CHR 0x8F, CHR 0xE6,
     CHR 0x8C, CHR 0x89, CHR 0xE6, CHR 0x97, CHR 0xA2, CHR 0xE6, CHR 0x9C, CHR 0x89, CHR 0xE6,
     CHR 0x8E, CHR 0x88, CHR 0xE6, CHR 0x9D, CHR 0x83, CHR 0xE5, CHR 0xA4, CHR 0x8D, CHR 0xE7,
     CHR 0x94, CHR 0xA8, CHR 0xEF, CHR 0xBC, CHR 0x8C, CHR 0xE4, CHR 0xB8, CHR 0x8D, CHR 0xE6,
     CHR 0x89, CHR 0xA9, CHR 0xE5, CHR 0xA4, CHR 0xA7, CHR 0xE5, CHR 0xAD, CHR 0x97, CHR 0xE6,
     CHR 0xAE, CHR 0xB5, CHR 0xE8, CHR 0x8C, CHR 0x83, CHR 0xE5, CHR 0x9B, CHR 0xB4, CHR 0xE3,
     CHR 0x80, CHR 0x82]"

text \<open>Reason of a review: reuse with supplement.\<close>

definition lbl_reason_supplement :: string where
  "lbl_reason_supplement = [CHR 0xE5, CHR 0x90, CHR 0x8C, CHR 0xE6, CHR 0x84, CHR 0x8F, CHR 0xE5,
     CHR 0x85, CHR 0x88, CHR 0xE5, CHR 0xA4, CHR 0x8D, CHR 0xE7, CHR 0x94, CHR 0xA8, CHR 0xE6,
     CHR 0x97, CHR 0xA2, CHR 0xE6, CHR 0x9C, CHR 0x89, CHR 0xE5, CHR 0xAD, CHR 0x97, CHR 0xE6,
     CHR 0xAE, CHR 0xB5, CHR 0xEF, CHR 0xBC, CHR 0x8C, CHR 0xE5, CHR 0xB1, CHR 0x80, CHR 0xE9,
     CHR 0x83, CHR 0xA8, CHR 0xE7, CHR 0xBC, CHR 0xBA, CHR 0xE5, CHR 0x8F, CHR 0xA3, CHR 0xE8,
     CHR 0xA1, CHR 0xA5, CHR 0xE5, CHR 0xBD, CHR 0x95, CHR 0xE5, CHR 0x90, CHR 0x8E, CHR 0xE5,
     CHR 0x86, CHR 0x8D, CHR 0xE4, CHR 0xBA, CHR 0xA4, CHR 0xE4, CHR 0xBB, CHR 0x98, CHR 0xE3,
     CHR 0x80, CHR 0x82]"

text \<open>Reason of a review: returned.\<close>

definition lbl_reason_fix :: string where
  "lbl_reason_fix = [CHR 0xE9, CHR 0x80, CHR 0x80, CHR 0xE5, CHR 0x9B, CHR 0x9E, CHR 0xE7,
     CHR 0x94, CHR 0xB3, CHR 0xE8, CHR 0xAF, CHR 0xB7, CHR 0xE6, CHR 0x96, CHR 0xB9, CHR 0xE7,
     CHR 0xBC, CHR 0xA9, CHR 0xE5, CHR 0xB0, CHR 0x8F, CHR 0xE5, CHR 0xAD, CHR 0x97, CHR 0xE6,
     CHR 0xAE, CHR 0xB5, CHR 0xE6, CHR 0x88, CHR 0x96, CHR 0xE8, CHR 0x8C, CHR 0x83, CHR 0xE5,
     CHR 0x9B, CHR 0xB4, CHR 0xEF, CHR 0xBC, CHR 0x8C, CHR 0xE8, CHR 0xA1, CHR 0xA5, CHR 0xE9,
     CHR 0xBD, CHR 0x90, CHR 0xE6, CHR 0x9C, CHR 0x80, CHR 0xE5, CHR 0xB0, CHR 0x8F, CHR 0xE5,
     CHR 0xBF, CHR 0x85, CHR 0xE8, CHR 0xA6, CHR 0x81, CHR 0xE8, CHR 0xAF, CHR 0xB4, CHR 0xE6,
     CHR 0x98, CHR 0x8E, CHR 0xE3, CHR 0x80, CHR 0x82]"

text \<open>Reason of a review: rejected.\<close>

definition lbl_reason_duplicate :: string where
  "lbl_reason_duplicate = [CHR 0xE9, CHR 0xA9, CHR 0xB3, CHR 0xE5, CHR 0x9B, CHR 0x9E, CHR 0xE9,
     CHR 0x87, CHR 0x8D, CHR 0xE5, CHR 0xA4, CHR 0x8D, CHR 0xE9, CHR 0x9C, CHR 0x80, CHR 0xE6,
     CHR 0xB1, CHR 0x82, CHR 0xEF, CHR 0xBC, CHR 0x8C, CHR 0xE9, CHR 0x81, CHR 0xBF, CHR 0xE5,
     CHR 0x85, CHR 0x8D, CHR 0xE7, CHR 0xBB, CHR 0x95, CHR 0xE8, CHR 0xBF, CHR 0x87, CHR 0xE6,
     CHR 0x97, CHR 0xA2, CHR 0xE6, CHR 0x9C, CHR 0x89, CHR 0xE7, CHR 0x9B, CHR 0xAE, CHR 0xE5,
     CHR 0xBD, CHR 0x95, CHR 0xE9, CHR 0x87, CHR 0x8D, CHR 0xE5, CHR 0xA4, CHR 0x8D, CHR 0xE8,
     CHR 0xA6, CHR 0x81, CHR 0xE6, CHR 0x95, CHR 0xB0, CHR 0xE3, CHR 0x80, CHR 0x82]"

text \<open>Reason of a review: routed.\<close>

definition lbl_reason_route :: string where
  "lbl_reason_route = [CHR 0xE8, CHR 0xBD, CHR 0xAC, CHR 0x20, CHR 0xE6, CHR 0x95, CHR 0xB0,
     CHR 0xE6, CHR 0x8D, CHR 0xAE, CHR 0xE6, CHR 0x8F, CHR 0x90, CHR 0xE4, CHR 0xBE, CHR 0x9B,
     CHR 0xE6, CHR 0x96, CHR 0xB9, CHR 0x20, CHR 0x2F, CHR 0x20, CHR 0xE4, CHR 0xB8, CHR 0x9A,
     CHR 0xE5, CHR 0x8A, CHR 0xA1, CHR 0xE8, CHR 0xBF, CHR 0x90, CHR 0xE8, CHR 0x90, CHR 0xA5,
     CHR 0xE5, CHR 0x91, CHR 0x98, CHR 0x20, CHR 0xE7, CHR 0xA1, CHR 0xAE, CHR 0xE8, CHR 0xAE,
     CHR 0xA4, CHR 0xE7, CHR 0x9B, CHR 0xAE, CHR 0xE5, CHR 0xBD, CHR 0x95, CHR 0xE5, CHR 0x8F,
     CHR 0xA3, CHR 0xE5, CHR 0xBE, CHR 0x84, CHR 0xE6, CHR 0x88, CHR 0x96, CHR 0xE6, CHR 0x8E,
     CHR 0x88, CHR 0xE6, CHR 0x9D, CHR 0x83, CHR 0xE8, CHR 0xBE, CHR 0xB9, CHR 0xE7, CHR 0x95,
     CHR 0x8C, CHR 0xE5, CHR 0x90, CHR 0x8E, CHR 0xE5, CHR 0x86, CHR 0x8D, CHR 0xE5, CHR 0x88,
     CHR 0xA4, CHR 0xE5, CHR 0xAE, CHR 0x9A, CHR 0xE3, CHR 0x80, CHR 0x82]"

text \<open>Reason of a review: before the name of the request.\<close>

definition lbl_reason_request :: string where
  "lbl_reason_request = [CHR 0x20, CHR 0xE7, CHR 0x94, CHR 0xB3, CHR 0xE8, CHR 0xAF, CHR 0xB7,
     CHR 0xEF, CHR 0xBC, CHR 0x9A]"

text \<open>No renewal is made up.\<close>

definition lbl_no_renewal :: string where
  "lbl_no_renewal = [CHR 0xE7, CHR 0x9C, CHR 0x9F, CHR 0xE5, CHR 0xAE, CHR 0x9E, CHR 0x20,
     CHR 0x64, CHR 0x61, CHR 0x74, CHR 0x61, CHR 0x5F, CHR 0x61, CHR 0x70, CHR 0x70, CHR 0x6C,
     CHR 0x79, CHR 0x5F, CHR 0x72, CHR 0x65, CHR 0x6E, CHR 0x65, CHR 0x77, CHR 0x61, CHR 0x6C,
     CHR 0x20, CHR 0xE6, CHR 0x97, CHR 0xA0, CHR 0xE8, CHR 0xA1, CHR 0x8C, CHR 0xEF, CHR 0xBC,
     CHR 0x9B, CHR 0xE4, CHR 0xB8, CHR 0x8D, CHR 0xE4, CHR 0xBC, CHR 0xAA, CHR 0xE9, CHR 0x80,
     CHR 0xA0, CHR 0xE7, CHR 0xBB, CHR 0xAD, CHR 0xE6, CHR 0x9C, CHR 0x9F, CHR 0xE6, CHR 0x88,
     CHR 0x90, CHR 0xE5, CHR 0x8A, CHR 0x9F, CHR 0xE8, CHR 0xB7, CHR 0xAF, CHR 0xE5, CHR 0xBE,
     CHR 0x84, CHR 0xE3, CHR 0x80, CHR 0x82]"

text \<open>Timeline of an approved request.\<close>

definition lbl_approved_step :: string where
  "lbl_approved_step = [CHR 0xE5, CHR 0xAE, CHR 0xA1, CHR 0xE6, CHR 0x89, CHR 0xB9, CHR 0xE9,
     CHR 0x80, CHR 0x9A, CHR 0xE8, CHR 0xBF, CHR 0x87, CHR 0xE5, CHR 0xB9, CHR 0xB6, CHR 0xE4,
     CHR 0xB8, CHR 0x8B, CHR 0xE5, CHR 0x8F, CHR 0x91, CHR 0xE8, CHR 0xA1, CHR 0xA5, CHR 0xE5,
     CHR 0xBD, CHR 0x95]"

text \<open>Its note.\<close>

definition lbl_approved_step_note :: string where
  "lbl_approved_step_note = [CHR 0xE5, CHR 0xB7, CHR 0xB2, CHR 0xE8, CHR 0xBF, CHR 0x9B,
     CHR 0xE5, CHR 0x85, CHR 0xA5, CHR 0xE9, CHR 0x95, CHR 0x87, CHR 0xE8, CHR 0xA1, CHR 0x97,
     CHR 0x20, CHR 0x2F, CHR 0x20, CHR 0xE7, CHR 0xA4, CHR 0xBE, CHR 0xE5, CHR 0x8C, CHR 0xBA,
     CHR 0xE5, CHR 0xB7, CHR 0xAE, CHR 0xE5, CHR 0xBC, CHR 0x82, CHR 0xE8, CHR 0xA1, CHR 0xA5,
     CHR 0xE5, CHR 0xBD, CHR 0x95, CHR 0xE9, CHR 0x98, CHR 0xB6, CHR 0xE6, CHR 0xAE, CHR 0xB5,
     CHR 0xEF, CHR 0xBC, CHR 0x8C, CHR 0xE5, CHR 0x9F, CHR 0xBA, CHR 0xE5, CHR 0xB1, CHR 0x82,
     CHR 0xE5, CHR 0x8F, CHR 0xAA, CHR 0xE9, CHR 0x9C, CHR 0x80, CHR 0xE8, CHR 0xA1, CHR 0xA5,
     CHR 0xE7, CHR 0x8E, CHR 0xB0, CHR 0xE5, CHR 0x9C, CHR 0xBA, CHR 0xE5, CHR 0xB7, CHR 0xAE,
     CHR 0xE5, CHR 0xBC, CHR 0x82, CHR 0xE5, CHR 0xAD, CHR 0x97, CHR 0xE6, CHR 0xAE, CHR 0xB5,
     CHR 0xE3, CHR 0x80, CHR 0x82]"

text \<open>Summary of an approved request.\<close>

definition lbl_approved_summary :: string where
  "lbl_approved_summary = [CHR 0xE7, CHR 0x94, CHR 0xB3, CHR 0xE8, CHR 0xAF, CHR 0xB7, CHR 0xE5,
     CHR 0xB7, CHR 0xB2, CHR 0xE9, CHR 0x80, CHR 0x9A, CHR 0xE8, CHR 0xBF, CHR 0x87, CHR 0xE5,
     CHR 0x87, CHR 0x86, CHR 0xE5, CHR 0x85, CHR 0xA5, CHR 0xE5, CHR 0x88, CHR 0xA4, CHR 0xE5,
     CHR 0xAE, CHR 0x9A, CHR 0xEF, CHR 0xBC, CHR 0x8C, CHR 0xE7, CHR 0xB3, CHR 0xBB, CHR 0xE7,
     CHR 0xBB, CHR 0x9F, CHR 0xE6, CHR 0xAD, CHR 0xA3, CHR 0xE5, CHR 0x9C, CHR 0xA8, CHR 0xE6,
     CHR 0x8C, CHR 0x89, CHR 0xE6, CHR 0xA8, CHR 0xA1, CHR 0xE6, CHR 0x9D, CHR 0xBF, CHR 0xE9,
     CHR 0xA2, CHR 0x84, CHR 0xE5, CHR 0xA1, CHR 0xAB, CHR 0xE5, CHR 0xB9, CHR 0xB6, CHR 0xE7,
     CHR 0xAD, CHR 0x89, CHR 0xE5, CHR 0xBE, CHR 0x85, CHR 0xE5, CHR 0x9F, CHR 0xBA, CHR 0xE5,
     CHR 0xB1, CHR 0x82, CHR 0xE8, CHR 0xA1, CHR 0xA5, CHR 0xE5, CHR 0xBD, CHR 0x95, CHR 0xE5,
     CHR 0xB7, CHR 0xAE, CHR 0xE5, CHR 0xBC, CHR 0x82, CHR 0xE5, CHR 0xAD, CHR 0x97, CHR 0xE6,
     CHR 0xAE, CHR 0xB5, CHR 0xE3, CHR 0x80, CHR 0x82]"

text \<open>Next action of an approved request.\<close>

definition lbl_approved_next :: string where
  "lbl_approved_next = [CHR 0xE8, CHR 0xAF, CHR 0xB7, CHR 0x20, CHR 0xE9, CHR 0x95, CHR 0x87,
     CHR 0xE8, CHR 0xA1, CHR 0x97, CHR 0xE5, CHR 0xA1, CHR 0xAB, CHR 0xE6, CHR 0x8A, CHR 0xA5,
     CHR 0xE4, CHR 0xBA, CHR 0xBA, CHR 0x20, CHR 0x2F, CHR 0x20, CHR 0xE6, CHR 0x9D, CHR 0x91,
     CHR 0xE7, CHR 0xA4, CHR 0xBE, CHR 0xE5, CHR 0x8C, CHR 0xBA, CHR 0xE5, CHR 0xA1, CHR 0xAB,
     CHR 0xE6, CHR 0x8A, CHR 0xA5, CHR 0xE4, CHR 0xBA, CHR 0xBA, CHR 0x20, CHR 0xE6, CHR 0xA0,
     CHR 0xB8, CHR 0xE5, CHR 0xAF, CHR 0xB9, CHR 0xE9, CHR 0xA2, CHR 0x84, CHR 0xE5, CHR 0xA1,
     CHR 0xAB, CHR 0xE5, CHR 0xAD, CHR 0x97, CHR 0xE6, CHR 0xAE, CHR 0xB5, CHR 0xE5, CHR 0x90,
     CHR 0x8E, CHR 0xE6, CHR 0x8F, CHR 0x90, CHR 0xE4, CHR 0xBA, CHR 0xA4, CHR 0xE5, CHR 0xB7,
     CHR 0xAE, CHR 0xE5, CHR 0xBC, CHR 0x82, CHR 0xE8, CHR 0xA1, CHR 0xA5, CHR 0xE5, CHR 0xBD,
     CHR 0x95, CHR 0xE3, CHR 0x80, CHR 0x82]"

text \<open>Suggestion of an approval: pass.\<close>

definition lbl_suggest_pass :: string where
  "lbl_suggest_pass = [CHR 0xE5, CHR 0xBB, CHR 0xBA, CHR 0xE8, CHR 0xAE, CHR 0xAE, CHR 0xE9,
     CHR 0x80, CHR 0x9A, CHR 0xE8, CHR 0xBF, CHR 0x87]"

text \<open>Impact of an approval.\<close>

definition lbl_approved_impact :: string where
  "lbl_approved_impact = [CHR 0xE5, CHR 0xB7, CHR 0xB2, CHR 0xE5, CHR 0x88, CHR 0x9B, CHR 0xE5,
     CHR 0xBB, CHR 0xBA, CHR 0xE5, CHR 0x9F, CHR 0xBA, CHR 0xE5, CHR 0xB1, CHR 0x82, CHR 0xE9,
     CHR 0xA2, CHR 0x84, CHR 0xE5, CHR 0xA1, CHR 0xAB, CHR 0xE4, CHR 0xBB, CHR 0xBB, CHR 0xE5,
     CHR 0x8A, CHR 0xA1, CHR 0xEF, CHR 0xBC, CHR 0x8C, CHR 0xE5, CHR 0xBE, CHR 0x85, CHR 0xE8,
     CHR 0xA1, CHR 0xA5, CHR 0xE5, CHR 0xBD, CHR 0x95, CHR 0xE5, CHR 0xAE, CHR 0x8C, CHR 0xE6,
     CHR 0x88, CHR 0x90, CHR 0xE5, CHR 0x90, CHR 0x8E, CHR 0xE8, CHR 0xBF, CHR 0x9B, CHR 0xE5,
     CHR 0x85, CHR 0xA5, CHR 0xE8, CHR 0x87, CHR 0xAA, CHR 0xE5, CHR 0x8A, CHR 0xA8, CHR 0xE6,
     CHR 0xB1, CHR 0x87, CHR 0xE6, CHR 0x80, CHR 0xBB, CHR 0xE7, CHR 0xA1, CHR 0xAE, CHR 0xE8,
     CHR 0xAE, CHR 0xA4, CHR 0xE3, CHR 0x80, CHR 0x82]"

text \<open>Delivery of an approved request: note.\<close>

definition lbl_approved_task_note :: string where
  "lbl_approved_task_note = [CHR 0xE9, CHR 0xA2, CHR 0x84, CHR 0xE5, CHR 0xA1, CHR 0xAB,
     CHR 0xE4, CHR 0xBB, CHR 0xBB, CHR 0xE5, CHR 0x8A, CHR 0xA1, CHR 0xE5, CHR 0xB7, CHR 0xB2,
     CHR 0xE4, CHR 0xB8, CHR 0x8B, CHR 0xE5, CHR 0x8F, CHR 0x91, CHR 0xEF, CHR 0xBC, CHR 0x8C,
     CHR 0xE7, CHR 0xAD, CHR 0x89, CHR 0xE5, CHR 0xBE, CHR 0x85, CHR 0x20, CHR 0xE9, CHR 0x95,
     CHR 0x87, CHR 0xE8, CHR 0xA1, CHR 0x97, CHR 0xE5, CHR 0xA1, CHR 0xAB, CHR 0xE6, CHR 0x8A,
     CHR 0xA5, CHR 0xE4, CHR 0xBA, CHR 0xBA, CHR 0x20, CHR 0x2F, CHR 0x20, CHR 0xE6, CHR 0x9D,
     CHR 0x91, CHR 0xE7, CHR 0xA4, CHR 0xBE, CHR 0xE5, CHR 0x8C, CHR 0xBA, CHR 0xE5, CHR 0xA1,
     CHR 0xAB, CHR 0xE6, CHR 0x8A, CHR 0xA5, CHR 0xE4, CHR 0xBA, CHR 0xBA, CHR 0x20, CHR 0xE5,
     CHR 0xAE, CHR 0x8C, CHR 0xE6, CHR 0x88, CHR 0x90, CHR 0xE5, CHR 0xB7, CHR 0xAE, CHR 0xE5,
     CHR 0xBC, CHR 0x82, CHR 0xE8, CHR 0xA1, CHR 0xA5, CHR 0xE5, CHR 0xBD, CHR 0x95, CHR 0xE3,
     CHR 0x80, CHR 0x82]"

text \<open>Delivery of an approved request: state.\<close>

definition lbl_approved_task_state :: string where
  "lbl_approved_task_state = [CHR 0xE9, CHR 0xA2, CHR 0x84, CHR 0xE5, CHR 0xA1, CHR 0xAB,
     CHR 0xE4, CHR 0xBB, CHR 0xBB, CHR 0xE5, CHR 0x8A, CHR 0xA1, CHR 0xE5, CHR 0xB7, CHR 0xB2,
     CHR 0xE4, CHR 0xB8, CHR 0x8B, CHR 0xE5, CHR 0x8F, CHR 0x91]"

text \<open>Delivery of an approved request: detail.\<close>

definition lbl_approved_task_detail :: string where
  "lbl_approved_task_detail = [CHR 0xE7, CHR 0xB3, CHR 0xBB, CHR 0xE7, CHR 0xBB, CHR 0x9F,
     CHR 0xE5, CHR 0xB7, CHR 0xB2, CHR 0xE6, CHR 0x8A, CHR 0x8A, CHR 0xE5, CHR 0x85, CHR 0xB1,
     CHR 0xE4, CHR 0xBA, CHR 0xAB, CHR 0xE6, CHR 0xA8, CHR 0xA1, CHR 0xE6, CHR 0x9D, CHR 0xBF,
     CHR 0xE5, CHR 0xAD, CHR 0x97, CHR 0xE6, CHR 0xAE, CHR 0xB5, CHR 0xE4, CHR 0xB8, CHR 0x8B,
     CHR 0xE5, CHR 0x8F, CHR 0x91, CHR 0xE5, CHR 0x88, CHR 0xB0, CHR 0xE5, CHR 0x9F, CHR 0xBA,
     CHR 0xE5, CHR 0xB1, CHR 0x82, CHR 0xEF, CHR 0xBC, CHR 0x8C, CHR 0xE5, CHR 0x8F, CHR 0xAA,
     CHR 0xE4, CHR 0xBF, CHR 0x9D, CHR 0xE7, CHR 0x95, CHR 0x99, CHR 0xE5, CHR 0xB7, CHR 0xAE,
     CHR 0xE5, CHR 0xBC, CHR 0x82, CHR 0xE5, CHR 0xAD, CHR 0x97, CHR 0xE6, CHR 0xAE, CHR 0xB5,
     CHR 0xE5, CHR 0xBE, CHR 0x85, CHR 0xE8, CHR 0xA1, CHR 0xA5, CHR 0xE5, CHR 0xBD, CHR 0x95,
     CHR 0xE3, CHR 0x80, CHR 0x82]"

text \<open>Delivery of an approved request: summary.\<close>

definition lbl_approved_task_summary :: string where
  "lbl_approved_task_summary = [CHR 0xE4, CHR 0xBB, CHR 0xBB, CHR 0xE5, CHR 0x8A, CHR 0xA1,
     CHR 0xE5, CHR 0xB7, CHR 0xB2, CHR 0xE8, CHR 0xBF, CHR 0x9B, CHR 0xE5, CHR 0x85, CHR 0xA5,
     CHR 0xE2, CHR 0x80, CHR 0x9C, CHR 0xE9, CHR 0xA2, CHR 0x84, CHR 0xE5, CHR 0xA1, CHR 0xAB,
     CHR 0xE4, CHR 0xB8, CHR 0x8B, CHR 0xE5, CHR 0x8F, CHR 0x91, CHR 0x20, CHR 0xE2, CHR 0x86,
     CHR 0x92, CHR 0x20, CHR 0xE5, CHR 0xB7, CHR 0xAE, CHR 0xE5, CHR 0xBC, CHR 0x82, CHR 0xE8,
     CHR 0xA1, CHR 0xA5, CHR 0xE5, CHR 0xBD, CHR 0x95, CHR 0xE2, CHR 0x80, CHR 0x9D, CHR 0xE9,
     CHR 0x98, CHR 0xB6, CHR 0xE6, CHR 0xAE, CHR 0xB5, CHR 0xEF, CHR 0xBC, CHR 0x8C, CHR 0xE5,
     CHR 0xBD, CHR 0x93, CHR 0xE5, CHR 0x89, CHR 0x8D, CHR 0xE4, CHR 0xB8, CHR 0x8D, CHR 0xE9,
     CHR 0x9C, CHR 0x80, CHR 0xE8, CHR 0xA6, CHR 0x81, CHR 0xE4, CHR 0xBA, CHR 0xBA, CHR 0xE5,
     CHR 0xB7, CHR 0xA5, CHR 0xE6, CHR 0x8B, CHR 0xBC, CHR 0xE8, CHR 0xA1, CHR 0xA8, CHR 0xE3,
     CHR 0x80, CHR 0x82]"

text \<open>Delivery of an approved request: next action.\<close>

definition lbl_approved_task_next :: string where
  "lbl_approved_task_next = [CHR 0xE8, CHR 0xAF, CHR 0xB7, CHR 0xE5, CHR 0x9F, CHR 0xBA,
     CHR 0xE5, CHR 0xB1, CHR 0x82, CHR 0xE5, CHR 0xAE, CHR 0x8C, CHR 0xE6, CHR 0x88, CHR 0x90,
     CHR 0xE7, CHR 0xBB, CHR 0x8F, CHR 0xE8, CHR 0x90, CHR 0xA5, CHR 0xE7, CHR 0x8A, CHR 0xB6,
     CHR 0xE6, CHR 0x80, CHR 0x81, CHR 0xE3, CHR 0x80, CHR 0x81, CHR 0xE6, CHR 0x9C, CHR 0x80,
     CHR 0xE8, CHR 0xBF, CHR 0x91, CHR 0xE8, CHR 0xB5, CHR 0xB0, CHR 0xE8, CHR 0xAE, CHR 0xBF,
     CHR 0xE6, CHR 0x97, CHR 0xB6, CHR 0xE9, CHR 0x97, CHR 0xB4, CHR 0xE5, CHR 0x92, CHR 0x8C,
     CHR 0xE7, CHR 0x8E, CHR 0xB0, CHR 0xE5, CHR 0x9C, CHR 0xBA, CHR 0xE5, CHR 0xA4, CHR 0x87,
     CHR 0xE6, CHR 0xB3, CHR 0xA8, CHR 0xE8, CHR 0xA1, CHR 0xA5, CHR 0xE5, CHR 0xBD, CHR 0x95,
     CHR 0xE3, CHR 0x80, CHR 0x82]"

text \<open>Delivery of an approved request: cause.\<close>

definition lbl_approved_task_cause :: string where
  "lbl_approved_task_cause = [CHR 0xE5, CHR 0xAE, CHR 0xA1, CHR 0xE6, CHR 0x89, CHR 0xB9,
     CHR 0xE5, CHR 0xB7, CHR 0xB2, CHR 0xE9, CHR 0x80, CHR 0x9A, CHR 0xE8, CHR 0xBF, CHR 0x87,
     CHR 0xEF, CHR 0xBC, CHR 0x8C, CHR 0xE6, CHR 0xA8, CHR 0xA1, CHR 0xE6, CHR 0x9D, CHR 0xBF,
     CHR 0xE5, CHR 0xAD, CHR 0x97, CHR 0xE6, CHR 0xAE, CHR 0xB5, CHR 0xE5, CHR 0x8F, CHR 0xAF,
     CHR 0xE7, CHR 0x9B, CHR 0xB4, CHR 0xE6, CHR 0x8E, CHR 0xA5, CHR 0xE4, CHR 0xBD, CHR 0x9C,
     CHR 0xE4, CHR 0xB8, CHR 0xBA, CHR 0xE8, CHR 0xA1, CHR 0xA5, CHR 0xE5, CHR 0xBD, CHR 0x95,
     CHR 0xE5, CHR 0xBA, CHR 0x95, CHR 0xE5, CHR 0xBA, CHR 0xA7, CHR 0xE3, CHR 0x80, CHR 0x82]"

text \<open>Delivery of an approved request: impact.\<close>

definition lbl_approved_task_impact :: string where
  "lbl_approved_task_impact = [CHR 0xE8, CHR 0xA1, CHR 0xA5, CHR 0xE5, CHR 0xBD, CHR 0x95,
     CHR 0xE5, CHR 0xAE, CHR 0x8C, CHR 0xE6, CHR 0x88, CHR 0x90, CHR 0xE5, CHR 0x90, CHR 0x8E,
     CHR 0xE4, CHR 0xBC, CHR 0x9A, CHR 0xE8, CHR 0x87, CHR 0xAA, CHR 0xE5, CHR 0x8A, CHR 0xA8,
     CHR 0xE7, CHR 0x94, CHR 0x9F, CHR 0xE6, CHR 0x88, CHR 0x90, CHR 0xE6, CHR 0xB1, CHR 0x87,
     CHR 0xE6, CHR 0x80, CHR 0xBB, CHR 0xE7, CHR 0xBB, CHR 0x93, CHR 0xE6, CHR 0x9E, CHR 0x9C,
     CHR 0xE5, CHR 0xB9, CHR 0xB6, CHR 0xE6, CHR 0xB2, CHR 0x89, CHR 0xE6, CHR 0xB7, CHR 0x80,
     CHR 0xE5, CHR 0x9B, CHR 0x9E, CHR 0xE6, CHR 0xB5, CHR 0x81, CHR 0xE5, CHR 0x80, CHR 0x99,
     CHR 0xE9, CHR 0x80, CHR 0x89, CHR 0xE3, CHR 0x80, CHR 0x82]"

text \<open>Backflow: after the supplement.\<close>

definition lbl_backflow_after_supplement :: string where
  "lbl_backflow_after_supplement = [CHR 0xE5, CHR 0xBE, CHR 0x85, CHR 0xE8, CHR 0xA1, CHR 0xA5,
     CHR 0xE5, CHR 0xBD, CHR 0x95, CHR 0xE5, CHR 0xAE, CHR 0x8C, CHR 0xE6, CHR 0x88, CHR 0x90]"

text \<open>Its note.\<close>

definition lbl_backflow_after_supplement_note :: string where
  "lbl_backflow_after_supplement_note = [CHR 0xE5, CHR 0xBE, CHR 0x85, CHR 0xE5, CHR 0x9F,
     CHR 0xBA, CHR 0xE5, CHR 0xB1, CHR 0x82, CHR 0xE8, CHR 0xA1, CHR 0xA5, CHR 0xE5, CHR 0xBD,
     CHR 0x95, CHR 0xE5, CHR 0x92, CHR 0x8C, CHR 0xE5, CHR 0xAE, CHR 0xA1, CHR 0xE6, CHR 0xA0,
     CHR 0xB8, CHR 0xE6, CHR 0xB1, CHR 0x87, CHR 0xE6, CHR 0x80, CHR 0xBB, CHR 0xE5, CHR 0xAE,
     CHR 0x8C, CHR 0xE6, CHR 0x88, CHR 0x90, CHR 0xE5, CHR 0x90, CHR 0x8E, CHR 0xEF, CHR 0xBC,
     CHR 0x8C, CHR 0xE5, CHR 0x86, CHR 0x8D, CHR 0xE5, CHR 0x86, CHR 0xB3, CHR 0xE5, CHR 0xAE,
     CHR 0x9A, CHR 0xE6, CHR 0x98, CHR 0xAF, CHR 0xE5, CHR 0x90, CHR 0xA6, CHR 0xE7, CHR 0xBA,
     CHR 0xB3, CHR 0xE5, CHR 0x85, CHR 0xA5, CHR 0xE6, CHR 0xA8, CHR 0xA1, CHR 0xE6, CHR 0x9D,
     CHR 0xBF, CHR 0xE3, CHR 0x80, CHR 0x82]"

text \<open>Note of a return without reason.\<close>

definition lbl_returned_default :: string where
  "lbl_returned_default = [CHR 0xE8, CHR 0xAF, CHR 0xB7, CHR 0xE8, CHR 0xA1, CHR 0xA5, CHR 0xE9,
     CHR 0xBD, CHR 0x90, CHR 0xE8, CHR 0xAF, CHR 0xB4, CHR 0xE6, CHR 0x98, CHR 0x8E, CHR 0xE5,
     CHR 0x90, CHR 0x8E, CHR 0xE9, CHR 0x87, CHR 0x8D, CHR 0xE6, CHR 0x96, CHR 0xB0, CHR 0xE6,
     CHR 0x8F, CHR 0x90, CHR 0xE4, CHR 0xBA, CHR 0xA4, CHR 0xE3, CHR 0x80, CHR 0x82]"

text \<open>Timeline of a returned request.\<close>

definition lbl_returned_step :: string where
  "lbl_returned_step = [CHR 0xE5, CHR 0xB7, CHR 0xB2, CHR 0xE9, CHR 0x80, CHR 0x80, CHR 0xE5,
     CHR 0x9B, CHR 0x9E, CHR 0xE8, CHR 0xA1, CHR 0xA5, CHR 0xE6, CHR 0xAD, CHR 0xA3]"

text \<open>Summary of a returned request.\<close>

definition lbl_returned_summary :: string where
  "lbl_returned_summary = [CHR 0xE7, CHR 0x94, CHR 0xB3, CHR 0xE8, CHR 0xAF, CHR 0xB7, CHR 0xE5,
     CHR 0xB7, CHR 0xB2, CHR 0xE9, CHR 0x80, CHR 0x80, CHR 0xE5, CHR 0x9B, CHR 0x9E, CHR 0xE8,
     CHR 0xA1, CHR 0xA5, CHR 0xE6, CHR 0xAD, CHR 0xA3, CHR 0xEF, CHR 0xBC, CHR 0x8C, CHR 0xE5,
     CHR 0xBD, CHR 0x93, CHR 0xE5, CHR 0x89, CHR 0x8D, CHR 0xE4, CHR 0xB8, CHR 0x8D, CHR 0xE8,
     CHR 0xBF, CHR 0x9B, CHR 0xE5, CHR 0x85, CHR 0xA5, CHR 0xE4, CHR 0xB8, CHR 0x8B, CHR 0xE4,
     CHR 0xB8, CHR 0x80, CHR 0xE7, CHR 0x8A, CHR 0xB6, CHR 0xE6, CHR 0x80, CHR 0x81, CHR 0xE3,
     CHR 0x80, CHR 0x82]"

text \<open>Next action of a returned request.\<close>

definition lbl_returned_next :: string where
  "lbl_returned_next = [CHR 0xE8, CHR 0xAF, CHR 0xB7, CHR 0xE6, CHR 0x9F, CHR 0xA5, CHR 0xE7,
     CHR 0x9C, CHR 0x8B, CHR 0xE9, CHR 0x80, CHR 0x80, CHR 0xE5, CHR 0x9B, CHR 0x9E, CHR 0xE7,
     CHR 0x90, CHR 0x86, CHR 0xE7, CHR 0x94, CHR 0xB1, CHR 0xEF, CHR 0xBC, CHR 0x8C, CHR 0xE8,
     CHR 0xA1, CHR 0xA5, CHR 0xE9, CHR 0xBD, CHR 0x90, CHR 0xE5, CHR 0x90, CHR 0x8E, CHR 0xE9,
     CHR 0x87, CHR 0x8D, CHR 0xE6, CHR 0x96, CHR 0xB0, CHR 0xE6, CHR 0x8F, CHR 0x90, CHR 0xE4,
     CHR 0xBA, CHR 0xA4, CHR 0xE3, CHR 0x80, CHR 0x82]"

text \<open>Suggestion of an approval: fix.\<close>

definition lbl_suggest_fix :: string where
  "lbl_suggest_fix = [CHR 0xE5, CHR 0xBB, CHR 0xBA, CHR 0xE8, CHR 0xAE, CHR 0xAE, CHR 0xE8,
     CHR 0xA1, CHR 0xA5, CHR 0xE6, CHR 0xAD, CHR 0xA3]"

text \<open>Impact of a return.\<close>

definition lbl_returned_impact :: string where
  "lbl_returned_impact = [CHR 0xE9, CHR 0x80, CHR 0x80, CHR 0xE5, CHR 0x9B, CHR 0x9E, CHR 0xE8,
     CHR 0xA1, CHR 0xA5, CHR 0xE6, CHR 0xAD, CHR 0xA3, CHR 0xE5, CHR 0x90, CHR 0x8E, CHR 0xEF,
     CHR 0xBC, CHR 0x8C, CHR 0xE8, CHR 0xA1, CHR 0xA5, CHR 0xE5, CHR 0xBD, CHR 0x95, CHR 0xE4,
     CHR 0xB8, CHR 0x8E, CHR 0xE6, CHR 0xB1, CHR 0x87, CHR 0xE6, CHR 0x80, CHR 0xBB, CHR 0xE9,
     CHR 0x93, CHR 0xBE, CHR 0xE8, CHR 0xB7, CHR 0xAF, CHR 0xE6, CHR 0x9A, CHR 0x82, CHR 0xE5,
     CHR 0x81, CHR 0x9C, CHR 0xEF, CHR 0xBC, CHR 0x8C, CHR 0xE4, CHR 0xB8, CHR 0x8D, CHR 0xE7,
     CHR 0xBB, CHR 0xA7, CHR 0xE7, CHR 0xBB, CHR 0xAD, CHR 0xE5, CHR 0x90, CHR 0x91, CHR 0xE5,
     CHR 0x89, CHR 0x8D, CHR 0xE6, CHR 0x8E, CHR 0xA8, CHR 0xE8, CHR 0xBF, CHR 0x9B, CHR 0xE3,
     CHR 0x80, CHR 0x82]"

text \<open>Delivery of a returned request: note.\<close>

definition lbl_returned_task_note :: string where
  "lbl_returned_task_note = [CHR 0xE5, CHR 0xBD, CHR 0x93, CHR 0xE5, CHR 0x89, CHR 0x8D,
     CHR 0xE9, CHR 0x93, CHR 0xBE, CHR 0xE8, CHR 0xB7, CHR 0xAF, CHR 0xE5, CHR 0xB7, CHR 0xB2,
     CHR 0xE9, CHR 0x80, CHR 0x80, CHR 0xE5, CHR 0x9B, CHR 0x9E, CHR 0xE8, CHR 0xA1, CHR 0xA5,
     CHR 0xE6, CHR 0xAD, CHR 0xA3, CHR 0xEF, CHR 0xBC, CHR 0x8C, CHR 0xE6, CHR 0x9C, CHR 0xAA,
     CHR 0xE7, CHR 0xBB, CHR 0xA7, CHR 0xE7, CHR 0xBB, CHR 0xAD, CHR 0xE6, CHR 0x8E, CHR 0xA8,
     CHR 0xE8, CHR 0xBF, CHR 0x9B, CHR 0xE8, CHR 0xA1, CHR 0xA5, CHR 0xE5, CHR 0xBD, CHR 0x95,
     CHR 0xE6, CHR 0x88, CHR 0x96, CHR 0xE6, CHR 0xB1, CHR 0x87, CHR 0xE6, CHR 0x80, CHR 0xBB,
     CHR 0xE3, CHR 0x80, CHR 0x82]"

text \<open>Delivery of a returned request: state.\<close>

definition lbl_returned_task_state :: string where
  "lbl_returned_task_state = [CHR 0xE9, CHR 0x80, CHR 0x80, CHR 0xE5, CHR 0x9B, CHR 0x9E,
     CHR 0xE8, CHR 0xA1, CHR 0xA5, CHR 0xE6, CHR 0xAD, CHR 0xA3]"

text \<open>Delivery of a returned request: summary.\<close>

definition lbl_returned_task_summary :: string where
  "lbl_returned_task_summary = [CHR 0xE8, CHR 0xBF, CHR 0x99, CHR 0xE4, CHR 0xB8, CHR 0x8D,
     CHR 0xE6, CHR 0x98, CHR 0xAF, CHR 0xE6, CHR 0x89, CHR 0xA7, CHR 0xE8, CHR 0xA1, CHR 0x8C,
     CHR 0xE5, CHR 0xA4, CHR 0xB1, CHR 0xE8, CHR 0xB4, CHR 0xA5, CHR 0xEF, CHR 0xBC, CHR 0x8C,
     CHR 0xE8, CHR 0x80, CHR 0x8C, CHR 0xE6, CHR 0x98, CHR 0xAF, CHR 0xE4, CHR 0xBA, CHR 0xBA,
     CHR 0xE5, CHR 0xB7, CHR 0xA5, CHR 0xE5, CHR 0x86, CHR 0xB3, CHR 0xE5, CHR 0xAE, CHR 0x9A,
     CHR 0xE9, CHR 0x93, CHR 0xBE, CHR 0xE8, CHR 0xB7, CHR 0xAF, CHR 0xE5, CHR 0x9B, CHR 0x9E,
     CHR 0xE9, CHR 0x80, CHR 0x80, CHR 0xE8, CHR 0xA1, CHR 0xA5, CHR 0xE6, CHR 0xAD, CHR 0xA3,
     CHR 0xE3, CHR 0x80, CHR 0x82]"

text \<open>Delivery of a returned request: next action.\<close>

definition lbl_returned_task_next :: string where
  "lbl_returned_task_next = [CHR 0xE8, CHR 0xAF, CHR 0xB7, CHR 0xE7, CHR 0x94, CHR 0xB3,
     CHR 0xE8, CHR 0xAF, CHR 0xB7, CHR 0xE6, CHR 0x96, CHR 0xB9, CHR 0xE6, CHR 0x88, CHR 0x96,
     CHR 0xE5, CHR 0x9F, CHR 0xBA, CHR 0xE5, CHR 0xB1, CHR 0x82, CHR 0xE5, CHR 0x85, CHR 0x88,
     CHR 0xE8, CHR 0xA1, CHR 0xA5, CHR 0xE9, CHR 0xBD, CHR 0x90, CHR 0xE8, CHR 0xAF, CHR 0xB4,
     CHR 0xE6, CHR 0x98, CHR 0x8E, CHR 0xEF, CHR 0xBC, CHR 0x8C, CHR 0xE5, CHR 0x86, CHR 0x8D,
     CHR 0xE9, CHR 0x87, CHR 0x8D, CHR 0xE6, CHR 0x96, CHR 0xB0, CHR 0xE8, CHR 0xBF, CHR 0x9B,
     CHR 0xE5, CHR 0x85, CHR 0xA5, CHR 0xE4, CHR 0xB8, CHR 0x8B, CHR 0xE4, CHR 0xB8, CHR 0x80,
     CHR 0xE6, CHR 0xAD, CHR 0xA5, CHR 0xE3, CHR 0x80, CHR 0x82]"

text \<open>Backflow: not applicable.\<close>

definition lbl_backflow_none :: string where
  "lbl_backflow_none = [CHR 0xE4, CHR 0xB8, CHR 0x8D, CHR 0xE9, CHR 0x80, CHR 0x82, CHR 0xE7,
     CHR 0x94, CHR 0xA8]"

text \<open>Its note after a return.\<close>

definition lbl_backflow_none_note :: string where
  "lbl_backflow_none_note = [CHR 0xE5, CHR 0xBD, CHR 0x93, CHR 0xE5, CHR 0x89, CHR 0x8D,
     CHR 0xE6, CHR 0x9C, CHR 0xAA, CHR 0xE5, CHR 0xBD, CHR 0xA2, CHR 0xE6, CHR 0x88, CHR 0x90,
     CHR 0xE5, CHR 0x8F, CHR 0xAF, CHR 0xE7, CHR 0xA1, CHR 0xAE, CHR 0xE8, CHR 0xAE, CHR 0xA4,
     CHR 0xE7, CHR 0x9A, CHR 0x84, CHR 0xE5, CHR 0x9B, CHR 0x9E, CHR 0xE6, CHR 0xB5, CHR 0x81,
     CHR 0xE5, CHR 0x80, CHR 0x99, CHR 0xE9, CHR 0x80, CHR 0x89, CHR 0xE3, CHR 0x80, CHR 0x82]"

text \<open>Timeline of a rejected request.\<close>

definition lbl_rejected_step :: string where
  "lbl_rejected_step = [CHR 0xE5, CHR 0xB7, CHR 0xB2, CHR 0xE9, CHR 0xA9, CHR 0xB3, CHR 0xE5,
     CHR 0x9B, CHR 0x9E, CHR 0xE7, CHR 0x94, CHR 0xB3, CHR 0xE8, CHR 0xAF, CHR 0xB7]"

text \<open>Summary of a rejected request.\<close>

definition lbl_rejected_summary :: string where
  "lbl_rejected_summary = [CHR 0xE8, CHR 0xAF, CHR 0xA5, CHR 0xE7, CHR 0x94, CHR 0xB3, CHR 0xE8,
     CHR 0xAF, CHR 0xB7, CHR 0xE5, CHR 0xB7, CHR 0xB2, CHR 0xE8, CHR 0xA2, CHR 0xAB, CHR 0xE9,
     CHR 0xA9, CHR 0xB3, CHR 0xE5, CHR 0x9B, CHR 0x9E, CHR 0xEF, CHR 0xBC, CHR 0x8C, CHR 0xE4,
     CHR 0xB8, CHR 0x8D, CHR 0xE5, CHR 0x86, CHR 0x8D, CHR 0xE7, CHR 0xBB, CHR 0xA7, CHR 0xE7,
     CHR 0xBB, CHR 0xAD, CHR 0xE8, CHR 0xBF, CHR 0x9B, CHR 0xE5, CHR 0x85, CHR 0xA5, CHR 0xE8,
     CHR 0xA1, CHR 0xA5, CHR 0xE5, CHR 0xBD, CHR 0x95, CHR 0xE5, CHR 0x92, CHR 0x8C, CHR 0xE6,
     CHR 0xB1, CHR 0x87, CHR 0xE6, CHR 0x80, CHR 0xBB, CHR 0xE9, CHR 0x93, CHR 0xBE, CHR 0xE8,
     CHR 0xB7, CHR 0xAF, CHR 0xE3, CHR 0x80, CHR 0x82]"

text \<open>Next action of a rejected request.\<close>

definition lbl_rejected_next :: string where
  "lbl_rejected_next = [CHR 0xE8, CHR 0xAF, CHR 0xB7, CHR 0xE6, CHR 0x9F, CHR 0xA5, CHR 0xE7,
     CHR 0x9C, CHR 0x8B, CHR 0xE9, CHR 0xA9, CHR 0xB3, CHR 0xE5, CHR 0x9B, CHR 0x9E, CHR 0xE7,
     CHR 0x90, CHR 0x86, CHR 0xE7, CHR 0x94, CHR 0xB1, CHR 0xEF, CHR 0xBC, CHR 0x8C, CHR 0xE6,
     CHR 0x8C, CHR 0x89, CHR 0xE9, CHR 0x9C, CHR 0x80, CHR 0xE8, CHR 0xB0, CHR 0x83, CHR 0xE6,
     CHR 0x95, CHR 0xB4, CHR 0xE5, CHR 0x90, CHR 0x8E, CHR 0xE9, CHR 0x87, CHR 0x8D, CHR 0xE6,
     CHR 0x96, CHR 0xB0, CHR 0xE5, CHR 0x8F, CHR 0x91, CHR 0xE8, CHR 0xB5, CHR 0xB7, CHR 0xE7,
     CHR 0x94, CHR 0xB3, CHR 0xE8, CHR 0xAF, CHR 0xB7, CHR 0xE3, CHR 0x80, CHR 0x82]"

text \<open>Delivery of a rejected request: note.\<close>

definition lbl_rejected_task_note :: string where
  "lbl_rejected_task_note = [CHR 0xE7, CHR 0x94, CHR 0xB3, CHR 0xE8, CHR 0xAF, CHR 0xB7,
     CHR 0xE5, CHR 0xB7, CHR 0xB2, CHR 0xE9, CHR 0xA9, CHR 0xB3, CHR 0xE5, CHR 0x9B, CHR 0x9E,
     CHR 0xEF, CHR 0xBC, CHR 0x8C, CHR 0xE9, CHR 0x93, CHR 0xBE, CHR 0xE8, CHR 0xB7, CHR 0xAF,
     CHR 0xE7, CHR 0xBB, CHR 0x88, CHR 0xE6, CHR 0xAD, CHR 0xA2, CHR 0xE3, CHR 0x80, CHR 0x82]"

text \<open>Delivery of a rejected request: state.\<close>

definition lbl_rejected_task_state :: string where
  "lbl_rejected_task_state = [CHR 0xE7, CHR 0x94, CHR 0xB3, CHR 0xE8, CHR 0xAF, CHR 0xB7,
     CHR 0xE9, CHR 0xA9, CHR 0xB3, CHR 0xE5, CHR 0x9B, CHR 0x9E]"

text \<open>Delivery of a rejected request: summary.\<close>

definition lbl_rejected_task_summary :: string where
  "lbl_rejected_task_summary = [CHR 0xE8, CHR 0xBF, CHR 0x99, CHR 0xE6, CHR 0x98, CHR 0xAF,
     CHR 0xE4, CHR 0xB8, CHR 0x80, CHR 0xE6, CHR 0xAC, CHR 0xA1, CHR 0xE8, CHR 0xA2, CHR 0xAB,
     CHR 0xE6, CHR 0x98, CHR 0x8E, CHR 0xE7, CHR 0xA1, CHR 0xAE, CHR 0xE7, CHR 0xBB, CHR 0x88,
     CHR 0xE6, CHR 0xAD, CHR 0xA2, CHR 0xE7, CHR 0x9A, CHR 0x84, CHR 0xE9, CHR 0x93, CHR 0xBE,
     CHR 0xE8, CHR 0xB7, CHR 0xAF, CHR 0xEF, CHR 0xBC, CHR 0x8C, CHR 0xE4, CHR 0xB8, CHR 0x8D,
     CHR 0xE5, CHR 0xBA, CHR 0x94, CHR 0xE4, CHR 0xBC, CHR 0xAA, CHR 0xE8, CHR 0xA3, CHR 0x85,
     CHR 0xE6, CHR 0x88, CHR 0x90, CHR 0xE4, CHR 0xB8, CHR 0x9A, CHR 0xE5, CHR 0x8A, CHR 0xA1,
     CHR 0xE6, CHR 0x88, CHR 0x90, CHR 0xE5, CHR 0x8A, CHR 0x9F, CHR 0xE3, CHR 0x80, CHR 0x82]"

text \<open>Delivery of a rejected request: next action.\<close>

definition lbl_rejected_task_next :: string where
  "lbl_rejected_task_next = [CHR 0xE8, CHR 0xAF, CHR 0xB7, CHR 0xE6, CHR 0x9F, CHR 0xA5,
     CHR 0xE7, CHR 0x9C, CHR 0x8B, CHR 0xE9, CHR 0xA9, CHR 0xB3, CHR 0xE5, CHR 0x9B, CHR 0x9E,
     CHR 0xE7, CHR 0x90, CHR 0x86, CHR 0xE7, CHR 0x94, CHR 0xB1, CHR 0xE5, CHR 0x90, CHR 0x8E,
     CHR 0xE5, CHR 0x86, CHR 0x8D, CHR 0xE5, CHR 0x86, CHR 0xB3, CHR 0xE5, CHR 0xAE, CHR 0x9A,
     CHR 0xE6, CHR 0x98, CHR 0xAF, CHR 0xE5, CHR 0x90, CHR 0xA6, CHR 0xE9, CHR 0x87, CHR 0x8D,
     CHR 0xE6, CHR 0x96, CHR 0xB0, CHR 0xE5, CHR 0x8F, CHR 0x91, CHR 0xE8, CHR 0xB5, CHR 0xB7,
     CHR 0xE3, CHR 0x80, CHR 0x82]"

text \<open>Note of the backflow after a rejection.\<close>

definition lbl_backflow_rejected_note :: string where
  "lbl_backflow_rejected_note = [CHR 0xE9, CHR 0xA9, CHR 0xB3, CHR 0xE5, CHR 0x9B, CHR 0x9E,
     CHR 0xE5, CHR 0x90, CHR 0x8E, CHR 0xE4, CHR 0xB8, CHR 0x8D, CHR 0xE7, CHR 0x94, CHR 0x9F,
     CHR 0xE6, CHR 0x88, CHR 0x90, CHR 0xE5, CHR 0x9B, CHR 0x9E, CHR 0xE6, CHR 0xB5, CHR 0x81,
     CHR 0xE5, CHR 0x80, CHR 0x99, CHR 0xE9, CHR 0x80, CHR 0x89, CHR 0xE3, CHR 0x80, CHR 0x82]"

text \<open>Timeline of a routed request.\<close>

definition lbl_routed_step :: string where
  "lbl_routed_step = [CHR 0xE5, CHR 0xB7, CHR 0xB2, CHR 0xE8, CHR 0xBD, CHR 0xAC, CHR 0xE4,
     CHR 0xBE, CHR 0x9B, CHR 0xE7, CHR 0xBB, CHR 0x99, CHR 0xE4, CHR 0xBE, CHR 0xA7, CHR 0xE5,
     CHR 0x8F, CHR 0xA3, CHR 0xE5, CHR 0xBE, CHR 0x84, CHR 0xE7, CHR 0xA1, CHR 0xAE, CHR 0xE8,
     CHR 0xAE, CHR 0xA4]"

text \<open>Its note.\<close>

definition lbl_routed_step_note :: string where
  "lbl_routed_step_note = [CHR 0xE9, CHR 0x9C, CHR 0x80, CHR 0xE8, CHR 0xA6, CHR 0x81, CHR 0x20,
     CHR 0xE6, CHR 0x95, CHR 0xB0, CHR 0xE6, CHR 0x8D, CHR 0xAE, CHR 0xE6, CHR 0x8F, CHR 0x90,
     CHR 0xE4, CHR 0xBE, CHR 0x9B, CHR 0xE6, CHR 0x96, CHR 0xB9, CHR 0x20, CHR 0x2F, CHR 0x20,
     CHR 0xE4, CHR 0xB8, CHR 0x9A, CHR 0xE5, CHR 0x8A, CHR 0xA1, CHR 0xE8, CHR 0xBF, CHR 0x90,
     CHR 0xE8, CHR 0x90, CHR 0xA5, CHR 0xE5, CHR 0x91, CHR 0x98, CHR 0x20, CHR 0xE7, CHR 0xA1,
     CHR 0xAE, CHR 0xE8, CHR 0xAE, CHR 0xA4, CHR 0xE7, CHR 0x9B, CHR 0xAE, CHR 0xE5, CHR 0xBD,
     CHR 0x95, CHR 0xE5, CHR 0xAD, CHR 0x97, CHR 0xE6, CHR 0xAE, CHR 0xB5, CHR 0xE5, CHR 0x8F,
     CHR 0xA3, CHR 0xE5, CHR 0xBE, CHR 0x84, CHR 0xE6, CHR 0x88, CHR 0x96, CHR 0xE8, CHR 0xB5,
     CHR 0x84, CHR 0xE6, CHR 0xBA, CHR 0x90, CHR 0xE6, CHR 0x8E, CHR 0x88, CHR 0xE6, CHR 0x9D,
     CHR 0x83, CHR 0xE8, CHR 0xBE, CHR 0xB9, CHR 0xE7, CHR 0x95, CHR 0x8C, CHR 0xE5, CHR 0x90,
     CHR 0x8E, CHR 0xE5, CHR 0x86, CHR 0x8D, CHR 0xE7, CHR 0xBB, CHR 0xA7, CHR 0xE7, CHR 0xBB,
     CHR 0xAD, CHR 0xE5, CHR 0x87, CHR 0x86, CHR 0xE5, CHR 0x85, CHR 0xA5, CHR 0xE3, CHR 0x80,
     CHR 0x82]"

text \<open>Summary of a routed request.\<close>

definition lbl_routed_summary :: string where
  "lbl_routed_summary = [CHR 0xE7, CHR 0x94, CHR 0xB3, CHR 0xE8, CHR 0xAF, CHR 0xB7, CHR 0xE5,
     CHR 0xB7, CHR 0xB2, CHR 0xE8, CHR 0xBD, CHR 0xAC, CHR 0x20, CHR 0xE6, CHR 0x95, CHR 0xB0,
     CHR 0xE6, CHR 0x8D, CHR 0xAE, CHR 0xE6, CHR 0x8F, CHR 0x90, CHR 0xE4, CHR 0xBE, CHR 0x9B,
     CHR 0xE6, CHR 0x96, CHR 0xB9, CHR 0x20, CHR 0x2F, CHR 0x20, CHR 0xE4, CHR 0xB8, CHR 0x9A,
     CHR 0xE5, CHR 0x8A, CHR 0xA1, CHR 0xE8, CHR 0xBF, CHR 0x90, CHR 0xE8, CHR 0x90, CHR 0xA5,
     CHR 0xE5, CHR 0x91, CHR 0x98, CHR 0x20, CHR 0xE5, CHR 0x8F, CHR 0xA3, CHR 0xE5, CHR 0xBE,
     CHR 0x84, CHR 0xE7, CHR 0xA1, CHR 0xAE, CHR 0xE8, CHR 0xAE, CHR 0xA4, CHR 0xEF, CHR 0xBC,
     CHR 0x8C, CHR 0xE5, CHR 0xBD, CHR 0x93, CHR 0xE5, CHR 0x89, CHR 0x8D, CHR 0xE4, CHR 0xB8,
     CHR 0x8D, CHR 0xE7, CHR 0x94, CHR 0x9F, CHR 0xE6, CHR 0x88, CHR 0x90, CHR 0xE6, CHR 0x96,
     CHR 0xB0, CHR 0xE6, CHR 0x8E, CHR 0x88, CHR 0xE6, CHR 0x9D, CHR 0x83, CHR 0xE3, CHR 0x80,
     CHR 0x82]"

text \<open>Next action of a routed request.\<close>

definition lbl_routed_next :: string where
  "lbl_routed_next = [CHR 0xE8, CHR 0xAF, CHR 0xB7, CHR 0xE4, CHR 0xBE, CHR 0x9B, CHR 0xE7,
     CHR 0xBB, CHR 0x99, CHR 0xE4, CHR 0xBE, CHR 0xA7, CHR 0xE7, CHR 0xA1, CHR 0xAE, CHR 0xE8,
     CHR 0xAE, CHR 0xA4, CHR 0xE7, CHR 0x9B, CHR 0xAE, CHR 0xE5, CHR 0xBD, CHR 0x95, CHR 0xE5,
     CHR 0xAD, CHR 0x97, CHR 0xE6, CHR 0xAE, CHR 0xB5, CHR 0xE5, CHR 0x8F, CHR 0xA3, CHR 0xE5,
     CHR 0xBE, CHR 0x84, CHR 0xE3, CHR 0x80, CHR 0x81, CHR 0xE8, CHR 0xB5, CHR 0x84, CHR 0xE6,
     CHR 0xBA, CHR 0x90, CHR 0xE7, CHR 0x8A, CHR 0xB6, CHR 0xE6, CHR 0x80, CHR 0x81, CHR 0xE5,
     CHR 0x92, CHR 0x8C, CHR 0xE6, CHR 0x8E, CHR 0x88, CHR 0xE6, CHR 0x9D, CHR 0x83, CHR 0xE8,
     CHR 0xBE, CHR 0xB9, CHR 0xE7, CHR 0x95, CHR 0x8C, CHR 0xE3, CHR 0x80, CHR 0x82]"

text \<open>Suggestion of an approval: route.\<close>

definition lbl_suggest_route :: string where
  "lbl_suggest_route = [CHR 0xE5, CHR 0xBB, CHR 0xBA, CHR 0xE8, CHR 0xAE, CHR 0xAE, CHR 0xE8,
     CHR 0xBD, CHR 0xAC, CHR 0xE5, CHR 0x8F, CHR 0xA3, CHR 0xE5, CHR 0xBE, CHR 0x84, CHR 0xE7,
     CHR 0xA1, CHR 0xAE, CHR 0xE8, CHR 0xAE, CHR 0xA4]"

text \<open>Impact of a routing.\<close>

definition lbl_routed_impact :: string where
  "lbl_routed_impact = [CHR 0xE8, CHR 0xBD, CHR 0xAC, CHR 0xE5, CHR 0x8A, CHR 0x9E, CHR 0xE6,
     CHR 0x9C, CHR 0x9F, CHR 0xE9, CHR 0x97, CHR 0xB4, CHR 0xE6, CHR 0x9A, CHR 0x82, CHR 0xE5,
     CHR 0x81, CHR 0x9C, CHR 0xE8, CHR 0xA1, CHR 0xA5, CHR 0xE5, CHR 0xBD, CHR 0x95, CHR 0xE5,
     CHR 0x92, CHR 0x8C, CHR 0xE4, CHR 0xBA, CHR 0xA4, CHR 0xE4, CHR 0xBB, CHR 0x98, CHR 0xEF,
     CHR 0xBC, CHR 0x8C, CHR 0xE9, CHR 0x81, CHR 0xBF, CHR 0xE5, CHR 0x85, CHR 0x8D, CHR 0xE5,
     CHR 0x9C, CHR 0xA8, CHR 0xE5, CHR 0x8F, CHR 0xA3, CHR 0xE5, CHR 0xBE, CHR 0x84, CHR 0xE6,
     CHR 0x9C, CHR 0xAA, CHR 0xE7, CHR 0xA1, CHR 0xAE, CHR 0xE8, CHR 0xAE, CHR 0xA4, CHR 0xE6,
     CHR 0x97, CHR 0xB6, CHR 0xE6, CHR 0x89, CHR 0xA9, CHR 0xE5, CHR 0xA4, CHR 0xA7, CHR 0xE6,
     CHR 0x8E, CHR 0x88, CHR 0xE6, CHR 0x9D, CHR 0x83, CHR 0xE3, CHR 0x80, CHR 0x82]"

text \<open>Delivery of a routed request: note.\<close>

definition lbl_routed_task_note :: string where
  "lbl_routed_task_note = [CHR 0xE5, CHR 0xB7, CHR 0xB2, CHR 0xE8, CHR 0xBD, CHR 0xAC, CHR 0xE4,
     CHR 0xBE, CHR 0x9B, CHR 0xE7, CHR 0xBB, CHR 0x99, CHR 0xE4, CHR 0xBE, CHR 0xA7, CHR 0xE5,
     CHR 0x8F, CHR 0xA3, CHR 0xE5, CHR 0xBE, CHR 0x84, CHR 0xE7, CHR 0xA1, CHR 0xAE, CHR 0xE8,
     CHR 0xAE, CHR 0xA4, CHR 0xEF, CHR 0xBC, CHR 0x8C, CHR 0xE6, CHR 0x9C, CHR 0xAA, CHR 0xE7,
     CHR 0x94, CHR 0x9F, CHR 0xE6, CHR 0x88, CHR 0x90, CHR 0xE6, CHR 0x96, CHR 0xB0, CHR 0xE6,
     CHR 0x8E, CHR 0x88, CHR 0xE6, CHR 0x9D, CHR 0x83, CHR 0xE3, CHR 0x80, CHR 0x82]"

text \<open>Delivery of a routed request: state.\<close>

definition lbl_routed_task_state :: string where
  "lbl_routed_task_state = [CHR 0xE8, CHR 0xBD, CHR 0xAC, CHR 0xE5, CHR 0x8F, CHR 0xA3, CHR 0xE5,
     CHR 0xBE, CHR 0x84, CHR 0xE7, CHR 0xA1, CHR 0xAE, CHR 0xE8, CHR 0xAE, CHR 0xA4]"

text \<open>Delivery of a routed request: detail.\<close>

definition lbl_routed_task_detail :: string where
  "lbl_routed_task_detail = [CHR 0xE5, CHR 0xAE, CHR 0xA1, CHR 0xE6, CHR 0x89, CHR 0xB9,
     CHR 0xE4, CHR 0xBA, CHR 0xBA, CHR 0x20, CHR 0xE8, CHR 0xA6, CHR 0x81, CHR 0xE6, CHR 0xB1,
     CHR 0x82, CHR 0x20, CHR 0xE6, CHR 0x95, CHR 0xB0, CHR 0xE6, CHR 0x8D, CHR 0xAE, CHR 0xE6,
     CHR 0x8F, CHR 0x90, CHR 0xE4, CHR 0xBE, CHR 0x9B, CHR 0xE6, CHR 0x96, CHR 0xB9, CHR 0x20,
     CHR 0x2F, CHR 0x20, CHR 0xE4, CHR 0xB8, CHR 0x9A, CHR 0xE5, CHR 0x8A, CHR 0xA1, CHR 0xE8,
     CHR 0xBF, CHR 0x90, CHR 0xE8, CHR 0x90, CHR 0xA5, CHR 0xE5, CHR 0x91, CHR 0x98, CHR 0x20,
     CHR 0xE5, CHR 0x85, CHR 0x88, CHR 0xE7, CHR 0xA1, CHR 0xAE, CHR 0xE8, CHR 0xAE, CHR 0xA4,
     CHR 0xE7, CHR 0x9B, CHR 0xAE, CHR 0xE5, CHR 0xBD, CHR 0x95, CHR 0xE5, CHR 0xAD, CHR 0x97,
     CHR 0xE6, CHR 0xAE, CHR 0xB5, CHR 0xE5, CHR 0x8F, CHR 0xA3, CHR 0xE5, CHR 0xBE, CHR 0x84,
     CHR 0xE6, CHR 0x88, CHR 0x96, CHR 0xE6, CHR 0x8E, CHR 0x88, CHR 0xE6, CHR 0x9D, CHR 0x83,
     CHR 0xE8, CHR 0xBE, CHR 0xB9, CHR 0xE7, CHR 0x95, CHR 0x8C, CHR 0xE3, CHR 0x80, CHR 0x82]"

text \<open>Note of the backflow after a routing.\<close>

definition lbl_backflow_routed_note :: string where
  "lbl_backflow_routed_note = [CHR 0xE8, CHR 0xBD, CHR 0xAC, CHR 0xE5, CHR 0x8A, CHR 0x9E,
     CHR 0xE7, CHR 0xA1, CHR 0xAE, CHR 0xE8, CHR 0xAE, CHR 0xA4, CHR 0xE5, CHR 0x89, CHR 0x8D,
     CHR 0xE4, CHR 0xB8, CHR 0x8D, CHR 0xE5, CHR 0xBD, CHR 0xA2, CHR 0xE6, CHR 0x88, CHR 0x90,
     CHR 0xE5, CHR 0x9B, CHR 0x9E, CHR 0xE6, CHR 0xB5, CHR 0x81, CHR 0xE5, CHR 0x80, CHR 0x99,
     CHR 0xE9, CHR 0x80, CHR 0x89, CHR 0xE6, CHR 0x88, CHR 0x96, CHR 0xE6, CHR 0x8E, CHR 0x88,
     CHR 0xE6, CHR 0x9D, CHR 0x83, CHR 0xE5, CHR 0x8F, CHR 0x98, CHR 0xE6, CHR 0x9B, CHR 0xB4,
     CHR 0xE3, CHR 0x80, CHR 0x82]"

text \<open>Suggestion of an imported approval.\<close>

definition lbl_awaiting_review :: string where
  "lbl_awaiting_review = [CHR 0xE5, CHR 0xBE, CHR 0x85, CHR 0xE5, CHR 0xAE, CHR 0xA1]"

text \<open>Issue of a catalogue entry, before the actor.\<close>

definition lbl_mg_issue_by :: string where
  "lbl_mg_issue_by = [CHR 0xE5, CHR 0xB7, CHR 0xB2, CHR 0xE7, CHR 0x94, CHR 0xB1, CHR 0x20]"

text \<open>Issue of a published entry, after the actor.\<close>

definition lbl_mg_published :: string where
  "lbl_mg_published = [CHR 0x20, CHR 0xE5, CHR 0xAE, CHR 0x8C, CHR 0xE6, CHR 0x88, CHR 0x90,
     CHR 0xE7, CHR 0x9B, CHR 0xAE, CHR 0xE5, CHR 0xBD, CHR 0x95, CHR 0xE5, CHR 0x8F, CHR 0x91,
     CHR 0xE5, CHR 0xB8, CHR 0x83, CHR 0xE7, CHR 0xA1, CHR 0xAE, CHR 0xE8, CHR 0xAE, CHR 0xA4]"

text \<open>Issue of a revised entry, after the actor.\<close>

definition lbl_mg_revised :: string where
  "lbl_mg_revised = [CHR 0x20, CHR 0xE4, CHR 0xBF, CHR 0xAE, CHR 0xE6, CHR 0xAD, CHR 0xA3,
     CHR 0xE7, CHR 0x9B, CHR 0xAE, CHR 0xE5, CHR 0xBD, CHR 0x95, CHR 0xE8, CHR 0xAF, CHR 0xB4,
     CHR 0xE6, CHR 0x98, CHR 0x8E, CHR 0xE4, CHR 0xB8, CHR 0x8E, CHR 0xE9, CHR 0xBB, CHR 0x98,
     CHR 0xE8, CHR 0xAE, CHR 0xA4, CHR 0xE5, CHR 0xA4, CHR 0x8D, CHR 0xE7, CHR 0x94, CHR 0xA8,
     CHR 0xE5, CHR 0x85, CHR 0xA5, CHR 0xE5, CHR 0x8F, CHR 0xA3, CHR 0xE6, CHR 0x96, CHR 0x87,
     CHR 0xE6, CHR 0xA1, CHR 0x88]"

text \<open>Summary of the governance after a change of the catalogue.\<close>

definition lbl_mg_governance :: string where
  "lbl_mg_governance = [CHR 0xE7, CHR 0x9B, CHR 0xAE, CHR 0xE5, CHR 0xBD, CHR 0x95, CHR 0xE6,
     CHR 0xB2, CHR 0xBB, CHR 0xE7, CHR 0x90, CHR 0x86, CHR 0xE5, CHR 0x8A, CHR 0xA8, CHR 0xE4,
     CHR 0xBD, CHR 0x9C, CHR 0xE5, CHR 0xB7, CHR 0xB2, CHR 0xE8, CHR 0x90, CHR 0xBD, CHR 0xE8,
     CHR 0xB4, CHR 0xA6, CHR 0xEF, CHR 0xBC, CHR 0x8C, CHR 0xE5, CHR 0xBD, CHR 0x93, CHR 0xE5,
     CHR 0x89, CHR 0x8D, CHR 0xE5, CHR 0x8F, CHR 0xAF, CHR 0xE7, CHR 0xBB, CHR 0xA7, CHR 0xE7,
     CHR 0xBB, CHR 0xAD, CHR 0xE6, CHR 0x8E, CHR 0xA8, CHR 0xE8, CHR 0xBF, CHR 0x9B, CHR 0xE8,
     CHR 0xB5, CHR 0x84, CHR 0xE6, CHR 0xBA, CHR 0x90, CHR 0xE7, CHR 0x8A, CHR 0xB6, CHR 0xE6,
     CHR 0x80, CHR 0x81, CHR 0xE5, CHR 0x92, CHR 0x8C, CHR 0xE4, CHR 0xB8, CHR 0x93, CHR 0xE5,
     CHR 0x8C, CHR 0xBA, CHR 0xE6, CHR 0xAD, CHR 0xA3, CHR 0xE5, CHR 0xBC, CHR 0x8F, CHR 0xE6,
     CHR 0x8A, CHR 0x95, CHR 0xE5, CHR 0xBD, CHR 0xB1, CHR 0xE3, CHR 0x80, CHR 0x82]"

text \<open>A table resource that is not ready, before its code.\<close>

definition lbl_table_resource :: string where
  "lbl_table_resource = [CHR 0xE5, CHR 0xBA, CHR 0x93, CHR 0xE8, CHR 0xA1, CHR 0xA8, CHR 0xE8,
     CHR 0xB5, CHR 0x84, CHR 0xE6, CHR 0xBA, CHR 0x90, CHR 0x20]"

text \<open>A table resource that is not ready, after its code.\<close>

definition lbl_table_not_ready :: string where
  "lbl_table_not_ready = [CHR 0x20, CHR 0xE5, CHR 0xAD, CHR 0x97, CHR 0xE6, CHR 0xAE, CHR 0xB5,
     CHR 0xE7, CHR 0x99, CHR 0xBB, CHR 0xE8, CHR 0xAE, CHR 0xB0, CHR 0xE6, CHR 0x9C, CHR 0xAA,
     CHR 0xE5, CHR 0xB0, CHR 0xB1, CHR 0xE7, CHR 0xBB, CHR 0xAA, CHR 0xEF, CHR 0xBC, CHR 0x8C,
     CHR 0xE4, CHR 0xB8, CHR 0x8D, CHR 0xE8, CHR 0x83, CHR 0xBD, CHR 0xE6, CHR 0x8F, CHR 0x90,
     CHR 0xE4, CHR 0xBA, CHR 0xA4, CHR 0xE5, CHR 0xA4, CHR 0x8D, CHR 0xE6, CHR 0xA0, CHR 0xB8,
     CHR 0xEF, CHR 0xBC, CHR 0x88, CHR 0xE8, CHR 0xAF, CHR 0xB7, CHR 0xE5, CHR 0x85, CHR 0x88,
     CHR 0xE8, CHR 0xA1, CHR 0xA5, CHR 0xE5, CHR 0x85, CHR 0xA8, CHR 0xE5, CHR 0xAD, CHR 0x97,
     CHR 0xE6, CHR 0xAE, CHR 0xB5, CHR 0xE7, CHR 0x99, CHR 0xBB, CHR 0xE8, CHR 0xAE, CHR 0xB0,
     CHR 0xEF, CHR 0xBC, CHR 0x89]"

text \<open>A rejected asset needs a reason.\<close>

definition lbl_asset_needs_reason :: string where
  "lbl_asset_needs_reason = [CHR 0xE6, CHR 0x8C, CHR 0x82, CHR 0xE6, CHR 0x8E, CHR 0xA5,
     CHR 0xE9, CHR 0xA9, CHR 0xB3, CHR 0xE5, CHR 0x9B, CHR 0x9E, CHR 0xE9, CHR 0xA1, CHR 0xBB,
     CHR 0xE5, CHR 0xA1, CHR 0xAB, CHR 0xE5, CHR 0x86, CHR 0x99, CHR 0xE9, CHR 0xA9, CHR 0xB3,
     CHR 0xE5, CHR 0x9B, CHR 0x9E, CHR 0xE7, CHR 0x90, CHR 0x86, CHR 0xE7, CHR 0x94, CHR 0xB1,
     CHR 0xEF, CHR 0xBC, CHR 0x88, CHR 0xE9, CHR 0x80, CHR 0x80, CHR 0xE5, CHR 0x9B, CHR 0x9E,
     CHR 0xE6, CHR 0x8F, CHR 0x90, CHR 0xE4, CHR 0xBA, CHR 0xA4, CHR 0xE6, CHR 0x96, CHR 0xB9,
     CHR 0xE6, CHR 0x95, CHR 0xB4, CHR 0xE6, CHR 0x94, CHR 0xB9, CHR 0xE7, CHR 0x9A, CHR 0x84,
     CHR 0xE4, CHR 0xBE, CHR 0x9D, CHR 0xE6, CHR 0x8D, CHR 0xAE, CHR 0xEF, CHR 0xBC, CHR 0x89]"

text \<open>Delivery owner of an import.\<close>

definition lbl_imported_owner :: string where
  "lbl_imported_owner = [CHR 0xE5, CHR 0xAE, CHR 0xA1, CHR 0xE6, CHR 0x89, CHR 0xB9, CHR 0xE6,
     CHR 0x89, CHR 0xBF, CHR 0xE6, CHR 0x8E, CHR 0xA5, CHR 0x20, CHR 0xE2, CHR 0x86, CHR 0x92,
     CHR 0x20, CHR 0xE4, CHR 0xBA, CHR 0xA4, CHR 0xE4, CHR 0xBB, CHR 0x98, CHR 0xE6, CHR 0x89,
     CHR 0xA7, CHR 0xE8, CHR 0xA1, CHR 0x8C]"

text \<open>Delivery cause of an import.\<close>

definition lbl_imported_cause :: string where
  "lbl_imported_cause = [CHR 0xE6, CHR 0x8E, CHR 0x88, CHR 0xE6, CHR 0x9D, CHR 0x83, CHR 0xE6,
     CHR 0x9D, CHR 0xA5, CHR 0xE8, CHR 0x87, CHR 0xAA, CHR 0x20, CHR 0x64, CHR 0x61, CHR 0x74,
     CHR 0x61, CHR 0x5F, CHR 0x61, CHR 0x70, CHR 0x70, CHR 0x6C, CHR 0x79, CHR 0x5F, CHR 0x61,
     CHR 0x75, CHR 0x74, CHR 0x68, CHR 0x72, CHR 0x69, CHR 0x7A, CHR 0x61, CHR 0x74, CHR 0x69,
     CHR 0x6F, CHR 0x6E, CHR 0xEF, CHR 0xBC, CHR 0x8C, CHR 0xE5, CHR 0xB9, CHR 0xB6, CHR 0xE5,
     CHR 0x8F, CHR 0xAF, CHR 0xE5, CHR 0x9B, CHR 0x9E, CHR 0xE6, CHR 0x8C, CHR 0x87, CHR 0x20,
     CHR 0x6C, CHR 0x65, CHR 0x67, CHR 0x61, CHR 0x63, CHR 0x79, CHR 0x5F, CHR 0x6F, CHR 0x62,
     CHR 0x6A, CHR 0x65, CHR 0x63, CHR 0x74, CHR 0x5F, CHR 0x6D, CHR 0x61, CHR 0x70, CHR 0x70,
     CHR 0x69, CHR 0x6E, CHR 0x67, CHR 0xE3, CHR 0x80, CHR 0x82]"

text \<open>Delivery impact of an import.\<close>

definition lbl_imported_impact :: string where
  "lbl_imported_impact = [CHR 0xE9, CHR 0x80, CHR 0x9A, CHR 0xE8, CHR 0xBF, CHR 0x87, CHR 0xE3,
     CHR 0x80, CHR 0x81, CHR 0xE9, CHR 0x80, CHR 0x80, CHR 0xE5, CHR 0x9B, CHR 0x9E, CHR 0xE6,
     CHR 0x88, CHR 0x96, CHR 0xE9, CHR 0xA9, CHR 0xB3, CHR 0xE5, CHR 0x9B, CHR 0x9E, CHR 0xE9,
     CHR 0x83, CHR 0xBD, CHR 0xE8, CHR 0x83, CHR 0xBD, CHR 0xE5, CHR 0x9C, CHR 0xA8, CHR 0xE5,
     CHR 0xAE, CHR 0xA1, CHR 0xE8, CHR 0xAE, CHR 0xA1, CHR 0xE9, CHR 0x93, CHR 0xBE, CHR 0xE8,
     CHR 0xB7, CHR 0xAF, CHR 0xE4, CHR 0xB8, CHR 0xAD, CHR 0xE8, CHR 0xBF, CHR 0xBD, CHR 0xE6,
     CHR 0xBA, CHR 0xAF, CHR 0xE5, CHR 0x88, CHR 0xB0, CHR 0xE8, CHR 0xB4, CHR 0xA3, CHR 0xE4,
     CHR 0xBB, CHR 0xBB, CHR 0xE8, CHR 0x8A, CHR 0x82, CHR 0xE7, CHR 0x82, CHR 0xB9, CHR 0xE3,
     CHR 0x80, CHR 0x82]"

text \<open>Backflow note of an import.\<close>

definition lbl_imported_backflow :: string where
  "lbl_imported_backflow = [CHR 0xE6, CHR 0x9C, CHR 0xAC, CHR 0xE4, CHR 0xBB, CHR 0xBB, CHR 0xE5,
     CHR 0x8A, CHR 0xA1, CHR 0xE6, CHR 0x9D, CHR 0xA5, CHR 0xE8, CHR 0x87, CHR 0xAA, CHR 0xE6,
     CHR 0x97, CHR 0xA2, CHR 0xE6, CHR 0x9C, CHR 0x89, CHR 0xE6, CHR 0x8E, CHR 0x88, CHR 0xE6,
     CHR 0x9D, CHR 0x83, CHR 0xE5, CHR 0x9B, CHR 0x9E, CHR 0xE6, CHR 0x94, CHR 0xBE, CHR 0xEF,
     CHR 0xBC, CHR 0x9B, CHR 0xE4, CHR 0xB8, CHR 0x8D, CHR 0xE6, CHR 0x8A, CHR 0x8A, CHR 0xE6,
     CHR 0x97, CHR 0xA0, CHR 0xE7, CHR 0x9C, CHR 0x9F, CHR 0xE5, CHR 0xAE, CHR 0x9E, CHR 0xE7,
     CHR 0xBB, CHR 0xAD, CHR 0xE6, CHR 0x9C, CHR 0x9F, CHR 0xE8, CHR 0xA1, CHR 0x8C, CHR 0xE4,
     CHR 0xBC, CHR 0xAA, CHR 0xE9, CHR 0x80, CHR 0xA0, CHR 0xE6, CHR 0x88, CHR 0x90, CHR 0xE5,
     CHR 0x9B, CHR 0x9E, CHR 0xE6, CHR 0xB5, CHR 0x81, CHR 0xE6, CHR 0x88, CHR 0x96, CHR 0xE7,
     CHR 0xBB, CHR 0xAD, CHR 0xE6, CHR 0x9C, CHR 0x9F, CHR 0xE6, CHR 0x88, CHR 0x90, CHR 0xE5,
     CHR 0x8A, CHR 0x9F, CHR 0xE3, CHR 0x80, CHR 0x82]"

end
