(* ===== verification/CaseTables.thy ===== *)
theory CaseTables
  imports Tables Labels
begin

text \<open>
  The tables of running approvals (\<^verbatim>\<open>domain/models.py\<close>): cases, their steps and the
  decisions on steps. A case belongs to a tenant and an application code; the table has no
  unique constraint on the pair, so a query for one row can find several.
\<close>

record case_row =
  ac_id :: string
  ac_tenant :: string
  ac_application :: string
  ac_status :: string
  ac_step :: int
  ac_decision :: json
  ac_legacy :: "string option"
  ac_flow_code :: "string option"
  ac_flow_version :: "string option"

record step_row =
  as_id :: string
  as_case :: string
  as_no :: int
  as_name :: json
  as_mode :: string
  as_status :: string
  as_scope :: json
  as_started :: "nat option"
  as_completed :: "nat option"

record decision_row =
  ad_id :: string
  ad_step :: string
  ad_decision :: string
  ad_reason :: json
  ad_actor :: json
  ad_evidence :: json
  ad_created :: nat

record case_db =
  cdb_cases :: "case_row list"
  cdb_steps :: "step_row list"
  cdb_decisions :: "decision_row list"
  cdb_next :: nat

definition empty_case_db :: case_db where
  "empty_case_db = \<lparr>cdb_cases = [], cdb_steps = [], cdb_decisions = [], cdb_next = 0\<rparr>"

definition steps_of :: "case_db \<Rightarrow> string \<Rightarrow> step_row list" where
  "steps_of db cid = filter (\<lambda>s. as_case s = cid) (cdb_steps db)"

text \<open>Identifiers come from \<^verbatim>\<open>uuid4\<close>: distinct draws are distinct, and every identifier in
  the tables was drawn before.\<close>

definition case_ids_ok :: "(nat \<Rightarrow> string) \<Rightarrow> case_db \<Rightarrow> bool" where
  "case_ids_ok uuid db \<longleftrightarrow> inj uuid \<and>
     (\<forall>c \<in> set (cdb_cases db). \<exists>n < cdb_next db. ac_id c = uuid n) \<and>
     (\<forall>s \<in> set (cdb_steps db). (\<exists>n < cdb_next db. as_id s = uuid n) \<and>
        (\<exists>n < cdb_next db. as_case s = uuid n))"

lemma steps_of_fresh: "case_ids_ok uuid db \<Longrightarrow> cdb_next db \<le> n \<Longrightarrow> steps_of db (uuid n) = []"
  by (force simp: case_ids_ok_def steps_of_def filter_empty_conv dest: injD)

end
