(* ===== verification/FlowWalker.thy ===== *)
theory FlowWalker
  imports FlowRepo CaseTables
begin

text \<open>
  \<^verbatim>\<open>domain/approval_flow_walker.py\<close>: a live template is walked from its start node to an
  end node, one preferred edge at a time, and the approval nodes met on the way become the
  steps of a running approval. The walk visits a node at most once, which is why it ends.
\<close>

section \<open>Steps and edges\<close>

record step_spec =
  sp_no :: nat
  sp_name :: json
  sp_mode :: string
  sp_scope :: json

type_synonym json_index = "(json \<times> dict) list"

text \<open>The scope both writers give a step: the node, and its selection rule when the template
  has that rule.\<close>

definition approver_scope :: "dict \<Rightarrow> json_index \<Rightarrow> py_error + json" where
  "approver_scope node rules =
     (let base = [(''node_code'', dget node ''node_code''), (''node_name'', dget node ''node_name'')];
          rule_code = dget node ''selection_rule_code''
      in if \<not> truthy rule_code then Inr (JObj base)
         else if \<not> hashable rule_code then Inl TypeError
         else (case map_of rules (dict_key rule_code) of
                 None \<Rightarrow> Inr (JObj base)
               | Some rule \<Rightarrow> Inr (JObj (base @
                   [(''selection_rule'', JObj
                      [(''rule_code'', rule_code), (''rule_kind'', dget rule ''rule_kind''),
                       (''rule_payload_json'', dget_or rule ''rule_payload_json'' (JObj []))])]))))"

definition step_title :: "dict \<Rightarrow> nat \<Rightarrow> json" where
  "step_title node n = dget_or node ''node_name'' (JStr (lbl_step @ nat_str n))"

definition build_step_spec :: "nat \<Rightarrow> dict \<Rightarrow> json_index \<Rightarrow> py_error + step_spec" where
  "build_step_spec n node rules =
     bindE (approver_scope node rules) (\<lambda>scope.
       Inr \<lparr>sp_no = n, sp_name = step_title node n, sp_mode = ''single'', sp_scope = scope\<rparr>)"

text \<open>\<^verbatim>\<open>_EDGE_PRIORITY.get(b.get("condition_kind", "always"), 9)\<close>.\<close>

definition edge_priority :: "dict \<Rightarrow> nat" where
  "edge_priority b =
     (let kind = dget_or b ''condition_kind'' (JStr ''always'')
      in if kind = JStr ''always'' then 0
         else if kind = JStr ''on_decision'' then 1
         else if kind = JStr ''expression'' then 2 else 9)"

definition fail_closed_warning :: "json \<Rightarrow> dict \<Rightarrow> string" where
  "fail_closed_warning cur b =
     ''expression-edge-fail-closed:'' @ py_str cur @ ''->'' @ py_str (dget b ''to_node_code'')"

text \<open>\<^verbatim>\<open>_pick_next_edge\<close>: \<^verbatim>\<open>sorted\<close> is stable, so equal priorities keep their order.\<close>

definition pick_next_edge ::
    "dict list \<Rightarrow> string list \<Rightarrow> json \<Rightarrow> py_error + (json \<times> string list)" where
  "pick_next_edge edges warnings cur =
     (if \<not> list_all (\<lambda>b. hashable (dget_or b ''condition_kind'' (JStr ''always''))) edges
      then Inl TypeError
      else let chosen = hd (sort_key edge_priority edges);
               warnings' = (if dget chosen ''condition_kind'' = JStr ''expression''
                            then warnings @ [fail_closed_warning cur chosen] else warnings)
           in bindE (dict_item chosen ''to_node_code'') (\<lambda>t. Inr (JStr (py_str t), warnings')))"

section \<open>The walk\<close>

datatype walk_error =
    WalkNoStart
  | WalkCycle json
  | WalkUnknownNode json
  | WalkNoEdge json
  | WalkZeroSteps
  | WalkPy py_error

text \<open>\<^verbatim>\<open>{x[k]: x for x in xs if isinstance(x, dict) and x.get(k)}\<close>.\<close>

definition index_entry :: "string \<Rightarrow> json_index \<Rightarrow> json \<Rightarrow> py_error + json_index" where
  "index_entry k acc x =
     (case x of
        JObj d \<Rightarrow>
          if \<not> truthy (dget d k) then Inr acc
          else if \<not> hashable (dget d k) then Inl TypeError
          else Inr (dset acc (dict_key (dget d k)) d)
      | _ \<Rightarrow> Inr acc)"

definition out_edge ::
    "(json \<times> dict list) list \<Rightarrow> json \<Rightarrow> py_error + (json \<times> dict list) list" where
  "out_edge acc b =
     (case b of
        JObj d \<Rightarrow>
          (let f = dget d ''from_node_code''
           in if \<not> truthy f then Inr acc
              else if \<not> hashable f then Inl TypeError
              else Inr (dset acc (dict_key f)
                     ((case map_of acc (dict_key f) of None \<Rightarrow> [] | Some bs \<Rightarrow> bs) @ [d])))
      | _ \<Rightarrow> Inr acc)"

text \<open>The \<^verbatim>\<open>while True\<close> loop; \<open>n\<close> is \<^verbatim>\<open>step_no\<close>.\<close>

function walk ::
    "json_index \<Rightarrow> json_index \<Rightarrow> (json \<times> dict list) list \<Rightarrow>
     json list \<Rightarrow> nat \<Rightarrow> step_spec list \<Rightarrow> string list \<Rightarrow> json \<Rightarrow>
     walk_error + (step_spec list \<times> string list)" where
  "walk nodes rules edges visited n steps warnings cur =
     (if cur \<in> set visited then Inl (WalkCycle cur)
      else case map_of nodes cur of
        None \<Rightarrow> Inl (WalkUnknownNode cur)
      | Some node \<Rightarrow>
          if dget node ''node_type'' = JStr ''end'' then Inr (steps, warnings)
          else bindE (if dget node ''node_type'' = JStr ''approval''
                      then bindE (raiseE WalkPy (build_step_spec (Suc n) node rules))
                             (\<lambda>sp. Inr (Suc n, steps @ [sp]))
                      else Inr (n, steps)) (\<lambda>(n', steps').
               (case map_of edges cur of
                  None \<Rightarrow> Inl (WalkNoEdge cur)
                | Some bs \<Rightarrow>
                    if bs = [] then Inl (WalkNoEdge cur)
                    else bindE (raiseE WalkPy (pick_next_edge bs warnings cur)) (\<lambda>(next, warnings').
                      walk nodes rules edges (cur # visited) n' steps' warnings' next))))"
  by pat_completeness auto

termination walk
proof (relation "measure (\<lambda>(nodes, rules, edges, visited, n, steps, warnings, cur).
                            unvisited (map fst nodes) visited)", goal_cases)
  case (2 nodes rules edges visited n steps warnings cur node)
  then have "cur \<in> set (map fst nodes)" by (metis domI dom_map_of_conv_image_fst list.set_map)
  with 2(1) show ?case using unvisited_less [of cur visited "map fst nodes"] by simp
qed simp

declare walk.simps [simp del]

definition first_start :: "json_index \<Rightarrow> json option" where
  "first_start nodes = map_option fst (find (\<lambda>(c, d). dget d ''node_type'' = JStr ''start'') nodes)"

definition walk_tables ::
    "dict \<Rightarrow> py_error + (json_index \<times> json_index \<times> (json \<times> dict list) list)" where
  "walk_tables payload =
     bindE (py_iter (dget_or payload ''nodes'' (JList []))) (\<lambda>node_list.
     bindE (forE (index_entry ''node_code'') [] node_list) (\<lambda>nodes.
     bindE (py_iter (dget_or payload ''selection_rules'' (JList []))) (\<lambda>rule_list.
     bindE (forE (index_entry ''rule_code'') [] rule_list) (\<lambda>rules.
     bindE (py_iter (dget_or payload ''branches'' (JList []))) (\<lambda>branch_list.
     bindE (forE out_edge [] branch_list) (\<lambda>edges. Inr (nodes, rules, edges)))))))"

definition instantiate_steps_from_schema ::
    "dict \<Rightarrow> walk_error + (step_spec list \<times> string list)" where
  "instantiate_steps_from_schema payload =
     bindE (raiseE WalkPy (walk_tables payload)) (\<lambda>(nodes, rules, edges).
       (case first_start nodes of
          None \<Rightarrow> Inl WalkNoStart
        | Some start \<Rightarrow>
            bindE (walk nodes rules edges [] 0 [] [] start) (\<lambda>(steps, warnings).
              if steps = [] then Inl WalkZeroSteps else Inr (steps, warnings))))"

section \<open>Writing the case\<close>

definition baseline_suffix :: string where
  "baseline_suffix = ''#baseline''"

definition spec_row :: "(nat \<Rightarrow> string) \<Rightarrow> nat \<Rightarrow> nat \<Rightarrow> string \<Rightarrow> step_spec \<Rightarrow> step_row" where
  "spec_row uuid now n cid sp =
     \<lparr>as_id = uuid n, as_case = cid, as_no = int (sp_no sp), as_name = sp_name sp,
      as_mode = sp_mode sp, as_status = ''pending'', as_scope = sp_scope sp,
      as_started = (if sp_no sp = 1 then Some now else None), as_completed = None\<rparr>"

text \<open>The rows are flushed in order, so each draws the next identifier.\<close>

fun add_steps ::
    "(nat \<Rightarrow> string) \<Rightarrow> nat \<Rightarrow> string \<Rightarrow> step_spec list \<Rightarrow> case_db \<Rightarrow> case_db" where
  "add_steps uuid now cid [] db = db"
| "add_steps uuid now cid (sp # sps) db =
     add_steps uuid now cid sps
       (db\<lparr>cdb_steps := cdb_steps db @ [spec_row uuid now (cdb_next db) cid sp],
           cdb_next := Suc (cdb_next db)\<rparr>)"

definition add_case :: "(nat \<Rightarrow> string) \<Rightarrow> case_row \<Rightarrow> case_db \<Rightarrow> case_row \<times> case_db" where
  "add_case uuid c db =
     (let c' = c\<lparr>ac_id := uuid (cdb_next db)\<rparr>
      in (c', db\<lparr>cdb_cases := cdb_cases db @ [c'], cdb_next := Suc (cdb_next db)\<rparr>))"

definition start_approval_workflow_from_schema ::
    "(nat \<Rightarrow> string) \<Rightarrow> nat \<Rightarrow> string \<Rightarrow> string \<Rightarrow> flow_row \<Rightarrow> string \<Rightarrow> dict \<Rightarrow> case_db \<Rightarrow>
     walk_error + (case_row \<times> case_db)" where
  "start_approval_workflow_from_schema uuid now application_code tenant schema submitted_by context db =
     bindE (if truthy (fs_payload schema)
            then (case fs_payload schema of
                    JObj d \<Rightarrow> instantiate_steps_from_schema d
                  | _ \<Rightarrow> Inl (WalkPy AttributeError))
            else instantiate_steps_from_schema []) (\<lambda>(steps, warnings).
     let (c, db1) = add_case uuid
           \<lparr>ac_id = [], ac_tenant = tenant, ac_application = application_code @ baseline_suffix,
            ac_status = ''in_progress'', ac_step = 1,
            ac_decision = JObj
              [(''schema_code'', JStr (fs_code schema)), (''schema_version'', JInt (fs_version schema)),
               (''schema_id'', JStr (fs_id schema)), (''submitted_by'', JStr submitted_by),
               (''source'', JStr ''custom_schema''),
               (''shared_type'', dget context ''shared_type''),
               (''project_code'', dget context ''project_code''),
               (''walker_warnings'', JList (map JStr warnings))],
            ac_legacy = None, ac_flow_code = Some (fs_code schema),
            ac_flow_version = Some (int_str (fs_version schema))\<rparr> db
     in Inr (c, add_steps uuid now (ac_id c) steps db1))"

section \<open>The walk follows a simple path\<close>

text \<open>A path from \<open>cur\<close> to an end node along the preferred edges, avoiding the nodes visited
  before.\<close>

fun flow_path :: "json_index \<Rightarrow> (json \<times> dict list) list \<Rightarrow> json \<Rightarrow> json list \<Rightarrow> bool" where
  "flow_path nodes edges cur [] = False"
| "flow_path nodes edges cur [c] =
     (c = cur \<and> (\<exists>node. map_of nodes c = Some node \<and> dget node ''node_type'' = JStr ''end''))"
| "flow_path nodes edges cur (c # d # cs) =
     (c = cur \<and> (\<exists>node bs b t. map_of nodes c = Some node \<and> dget node ''node_type'' \<noteq> JStr ''end'' \<and>
        map_of edges c = Some bs \<and> b \<in> set bs \<and>
        (\<forall>b' \<in> set bs. edge_priority b \<le> edge_priority b') \<and>
        map_of b ''to_node_code'' = Some t \<and> d = JStr (py_str t)) \<and> flow_path nodes edges d (d # cs))"

definition approval_nodes :: "json_index \<Rightarrow> json list \<Rightarrow> dict list" where
  "approval_nodes nodes path =
     filter (\<lambda>d. dget d ''node_type'' = JStr ''approval'') (map (\<lambda>c. the (map_of nodes c)) path)"

lemma pick_next_edge_Inr:
  assumes "pick_next_edge bs w cur = Inr (next, w')" and "bs \<noteq> []"
  shows "\<exists>b t. b \<in> set bs \<and> (\<forall>b' \<in> set bs. edge_priority b \<le> edge_priority b') \<and>
    map_of b ''to_node_code'' = Some t \<and> next = JStr (py_str t)"
proof -
  obtain b rest where sorted: "sort_key edge_priority bs = b # rest"
    using assms(2) by (metis list.exhaust set_empty set_sort)
  have "set bs = insert b (set rest)" using sorted by (metis list.simps(15) set_sort)
  moreover have "\<forall>b' \<in> set rest. edge_priority b \<le> edge_priority b'"
    using sorted_sort_key [of edge_priority bs] sorted by simp
  moreover obtain t where "map_of b ''to_node_code'' = Some t" "next = JStr (py_str t)"
    using assms(1) sorted
    by (auto simp: pick_next_edge_def Let_def bindE_Inr_iff dict_item_Inr_iff split: if_splits)
  ultimately show ?thesis by auto
qed

lemma walk_Inr:
  assumes "walk nodes rules edges visited n steps warnings cur = Inr (steps', warnings')"
  shows "\<exists>path. flow_path nodes edges cur path \<and> distinct path \<and> set path \<inter> set visited = {} \<and>
    (\<exists>new. steps' = steps @ new \<and> map sp_no new = [Suc n ..< Suc n + length new] \<and>
       list_all2 (\<lambda>sp d. build_step_spec (sp_no sp) d rules = Inr sp) new (approval_nodes nodes path))"
  using assms
proof (induction nodes rules edges visited n steps warnings cur rule: walk.induct)
  case (1 nodes rules edges visited n steps warnings cur)
  have fresh: "cur \<notin> set visited"
    using 1(2) by (subst (asm) walk.simps) (auto split: if_splits)
  obtain node where node: "map_of nodes cur = Some node"
    using 1(2) fresh by (subst (asm) walk.simps) (auto split: option.splits)
  show ?case
  proof (cases "dget node ''node_type'' = JStr ''end''")
    case True
    then have "steps' = steps"
      using 1(2) fresh node by (subst (asm) walk.simps) simp
    then show ?thesis
      using True fresh node by (intro exI [of _ "[cur]"]) (simp add: approval_nodes_def)
  next
    case False
    let ?app = "dget node ''node_type'' = JStr ''approval''"
    let ?here = "if ?app then bindE (raiseE WalkPy (build_step_spec (Suc n) node rules))
                             (\<lambda>sp. Inr (Suc n, steps @ [sp]))
                 else Inr (n, steps)"
    obtain n1 steps1 bs nxt w1 where
        here: "?here = Inr (n1, steps1)" and bs: "map_of edges cur = Some bs" "bs \<noteq> []" and
        pick: "raiseE WalkPy (pick_next_edge bs warnings cur) = Inr (nxt, w1)" and
        rest: "walk nodes rules edges (cur # visited) n1 steps1 w1 nxt = Inr (steps', warnings')"
      using 1(2) fresh node False
      by (subst (asm) walk.simps)
        (auto simp: bindE_Inr_iff raiseE_Inr_iff split: option.splits if_splits)
    obtain path new where path: "flow_path nodes edges nxt path" "distinct path"
        "set path \<inter> set (cur # visited) = {}" and
      new: "steps' = steps1 @ new" "map sp_no new = [Suc n1 ..< Suc n1 + length new]"
        "list_all2 (\<lambda>sp d. build_step_spec (sp_no sp) d rules = Inr sp) new (approval_nodes nodes path)"
      using "1.IH" [OF fresh node False here refl bs(1) bs(2) pick refl rest] by auto
    obtain b t where "b \<in> set bs" "\<forall>b' \<in> set bs. edge_priority b \<le> edge_priority b'"
        "map_of b ''to_node_code'' = Some t" "nxt = JStr (py_str t)"
      using pick_next_edge_Inr [OF pick [unfolded raiseE_Inr_iff] bs(2)] by blast
    moreover obtain cs where "path = nxt # cs"
      using path(1) by (cases path rule: remdups_adj.cases) auto
    ultimately have "flow_path nodes edges cur (cur # path)"
      using path(1) node False bs by auto
    moreover have "distinct (cur # path)" "set (cur # path) \<inter> set visited = {}"
      using path fresh by auto
    moreover have "\<exists>new. steps' = steps @ new \<and> map sp_no new = [Suc n ..< Suc n + length new] \<and>
       list_all2 (\<lambda>sp d. build_step_spec (sp_no sp) d rules = Inr sp) new
         (approval_nodes nodes (cur # path))"
    proof (cases ?app)
      case True
      then obtain sp where sp: "build_step_spec (Suc n) node rules = Inr sp" "n1 = Suc n" "steps1 = steps @ [sp]"
        using here by (auto simp: bindE_Inr_iff raiseE_Inr_iff)
      then have "sp_no sp = Suc n" by (auto simp: build_step_spec_def bindE_Inr_iff)
      then show ?thesis
        using True new sp node
        by (intro exI [of _ "sp # new"]) (simp add: approval_nodes_def upt_rec)
    next
      case False
      then show ?thesis
        using here new node by (intro exI [of _ new]) (simp add: approval_nodes_def)
    qed
    ultimately show ?thesis by blast
  qed
qed

text \<open>C2: when a template is instantiated, the walk has followed a path from its start node
  to an end node that visits no node twice and takes an edge of least priority at each; the
  steps are exactly the approval nodes of that path, in order, numbered from 1, and there is
  at least one.\<close>

theorem instantiate_steps_sound:
  assumes "instantiate_steps_from_schema payload = Inr (steps, warnings)"
  shows "\<exists>nodes rules edges start path. walk_tables payload = Inr (nodes, rules, edges) \<and>
    first_start nodes = Some start \<and> flow_path nodes edges start path \<and> distinct path \<and>
    steps \<noteq> [] \<and> map sp_no steps = [1 ..< Suc (length steps)] \<and>
    list_all2 (\<lambda>sp d. build_step_spec (sp_no sp) d rules = Inr sp) steps (approval_nodes nodes path)"
proof -
  obtain nodes rules edges start where
      tables: "walk_tables payload = Inr (nodes, rules, edges)" "first_start nodes = Some start" and
      run: "walk nodes rules edges [] 0 [] [] start = Inr (steps, warnings)" "steps \<noteq> []"
    using assms
    by (auto simp: instantiate_steps_from_schema_def bindE_Inr_iff raiseE_Inr_iff
        split: option.splits if_splits)
  then show ?thesis
    using walk_Inr [OF run(1)] by auto
qed

text \<open>One approval between start and end, reached by two branches of different kinds.\<close>

definition one_step_flow :: dict where
  "one_step_flow =
     [(''nodes'', JList
        [JObj [(''node_code'', JStr ''s''), (''node_type'', JStr ''start'')],
         JObj [(''node_code'', JStr ''a''), (''node_type'', JStr ''approval'')],
         JObj [(''node_code'', JStr ''e''), (''node_type'', JStr ''end'')]]),
      (''branches'', JList
        [JObj [(''from_node_code'', JStr ''s''), (''to_node_code'', JStr ''e''),
               (''condition_kind'', JStr ''expression'')],
         JObj [(''from_node_code'', JStr ''s''), (''to_node_code'', JStr ''a'')],
         JObj [(''from_node_code'', JStr ''a''), (''to_node_code'', JStr ''e''),
               (''condition_kind'', JStr ''on_decision'')]])]"

theorem instantiate_steps_sound_witness:
  "\<exists>steps. instantiate_steps_from_schema one_step_flow = Inr (steps, []) \<and> map sp_no steps = [1]"
proof -
  obtain steps where steps: "instantiate_steps_from_schema one_step_flow = Inr (steps, [])" "length steps = 1"
    by (simp add: instantiate_steps_from_schema_def walk_tables_def one_step_flow_def py_iter_def
        dget_or_def dget_def index_entry_def out_edge_def first_start_def walk.simps build_step_spec_def
        approver_scope_def step_title_def pick_next_edge_def edge_priority_def dict_item_def Let_def)
  then have "map sp_no steps = [1 ..< Suc 1]"
    using instantiate_steps_sound [OF steps(1)] by auto
  then show ?thesis using steps(1) by simp
qed

end
