(* ===== verification/FlowBaseline.thy ===== *)
theory FlowBaseline
  imports FlowLife FlowWalker
begin

text \<open>
  \<^verbatim>\<open>domain/approval_flow_baseline.py\<close>: the two built-in approval flows, the seeder that
  puts them live once per tenant, and the writer that turns the live baseline of a shared
  type into a running case.
\<close>

section \<open>The built-in payloads\<close>

definition baseline_conditional_code :: string where
  "baseline_conditional_code = ''baseline_shared_conditional''"

definition baseline_unconditional_code :: string where
  "baseline_unconditional_code = ''baseline_shared_unconditional''"

definition shared_type_conditional :: int where
  "shared_type_conditional = 1"

definition shared_type_unconditional :: int where
  "shared_type_unconditional = 2"

text \<open>The dictionary displays of the payload literals.\<close>

definition edge_node :: "string \<Rightarrow> string \<Rightarrow> int \<Rightarrow> json" where
  "edge_node code name order = JObj
     [(''node_code'', JStr code), (''node_type'', JStr code), (''node_name'', JStr name),
      (''order_index'', JInt order)]"

definition review_node :: "string \<Rightarrow> string \<Rightarrow> string \<Rightarrow> int \<Rightarrow> json" where
  "review_node code name rule order = JObj
     [(''node_code'', JStr code), (''node_type'', JStr ''approval''), (''node_name'', JStr name),
      (''selection_rule_code'', JStr rule), (''order_index'', JInt order)]"

definition rule_entry :: "string \<Rightarrow> string \<Rightarrow> string \<Rightarrow> string \<Rightarrow> json" where
  "rule_entry code kind key val = JObj
     [(''rule_code'', JStr code), (''rule_kind'', JStr kind),
      (''rule_payload_json'', JObj [(key, JStr val)])]"

definition branch_entry :: "string \<Rightarrow> string \<Rightarrow> string \<Rightarrow> json" where
  "branch_entry f t kind = JObj
     [(''from_node_code'', JStr f), (''to_node_code'', JStr t), (''condition_kind'', JStr kind),
      (''condition_payload_json'', JObj [])]"

lemmas entry_defs = edge_node_def review_node_def rule_entry_def branch_entry_def

definition conditional_baseline_payload :: dict where
  "conditional_baseline_payload =
     [(''nodes'', JList
        [edge_node ''start'' lbl_start 0,
         review_node ''biz_review'' lbl_biz_review ''biz_operator_role'' 1,
         review_node ''data_review'' lbl_data_review ''data_manager_role'' 2,
         review_node ''org_unit_review'' lbl_org_unit_review ''applicant_org_unit'' 3,
         review_node ''leader_final'' lbl_leader_final ''org_unit_leader'' 4,
         edge_node ''end'' lbl_end 5]),
      (''selection_rules'', JList
        [rule_entry ''biz_operator_role'' ''role'' ''role_code'' ''ROLE_ORGAN_OPERATER'',
         rule_entry ''data_manager_role'' ''role'' ''role_code'' ''ROLE_ORGAN_MANAGER'',
         rule_entry ''applicant_org_unit'' ''org_unit'' ''scope'' ''applicant_org'',
         rule_entry ''org_unit_leader'' ''org_unit_leader'' ''scope'' ''applicant_org'']),
      (''branches'', JList
        [branch_entry ''start'' ''biz_review'' ''always'',
         branch_entry ''biz_review'' ''data_review'' ''on_decision'',
         branch_entry ''data_review'' ''org_unit_review'' ''on_decision'',
         branch_entry ''org_unit_review'' ''leader_final'' ''on_decision'',
         branch_entry ''leader_final'' ''end'' ''on_decision''])]"

definition unconditional_baseline_payload :: dict where
  "unconditional_baseline_payload =
     [(''nodes'', JList
        [edge_node ''start'' lbl_start 0,
         review_node ''fast_review'' lbl_fast_review ''data_manager_role'' 1,
         edge_node ''end'' lbl_end 2]),
      (''selection_rules'', JList
        [rule_entry ''data_manager_role'' ''role'' ''role_code'' ''ROLE_ORGAN_MANAGER'']),
      (''branches'', JList
        [branch_entry ''start'' ''fast_review'' ''always'',
         branch_entry ''fast_review'' ''end'' ''on_decision''])]"

text \<open>\<^verbatim>\<open>_BASELINE_BY_SHARED_TYPE\<close>; its entries also hold a title and a kind.\<close>

definition baseline_by_shared_type :: "(int \<times> string \<times> string \<times> string) list" where
  "baseline_by_shared_type =
     [(shared_type_conditional, baseline_conditional_code, lbl_conditional_title, ''conditional''),
      (shared_type_unconditional, baseline_unconditional_code, lbl_unconditional_title, ''unconditional'')]"

definition baseline_payload_for :: "string \<Rightarrow> dict" where
  "baseline_payload_for code =
     (if code = baseline_conditional_code then conditional_baseline_payload
      else unconditional_baseline_payload)"

section \<open>The seeder\<close>

definition find_live_code :: "flow_db \<Rightarrow> string \<Rightarrow> string \<Rightarrow> flow_row option" where
  "find_live_code db tenant code =
     (case sort_key (\<lambda>r. - fs_version r)
             (filter (\<lambda>r. fs_tenant r = tenant \<and> fs_code r = code \<and> fs_status r = ''live'')
               (fdb_schemas db)) of
        [] \<Rightarrow> None | r # _ \<Rightarrow> Some r)"

definition seeder_created_by :: string where
  "seeder_created_by = ''system:bootstrap:approval_flow_baseline''"

definition baseline_draft :: "string \<Rightarrow> string \<times> string \<times> string \<Rightarrow> draft_args" where
  "baseline_draft tenant entry =
     (case entry of (code, title, kind) \<Rightarrow>
      \<lparr>da_tenant = tenant, da_code = code, da_title = title,
       da_payload = JObj (baseline_payload_for code), da_source_kind = ''manual'',
       da_source_text = Some (''baseline '' @ kind), da_created_by = seeder_created_by\<rparr>)"

text \<open>The body of the loop; \<^verbatim>\<open>result\<close> is the dictionary being built.\<close>

definition seed_one ::
    "(nat \<Rightarrow> string) \<Rightarrow> nat \<Rightarrow> string \<Rightarrow> (string \<times> flow_row) list \<times> flow_db \<Rightarrow>
     string \<times> string \<times> string \<Rightarrow> flow_error + ((string \<times> flow_row) list \<times> flow_db)" where
  "seed_one uuid now tenant st entry =
     (case st of (res, db) \<Rightarrow>
      (case find_live_code db tenant (fst entry) of
         Some r \<Rightarrow> Inr (dset res (fst entry) r, db)
       | None \<Rightarrow>
           bindE (create_draft uuid now (baseline_draft tenant entry) db) (\<lambda>(r, db1).
           bindE (promote_to_preview now (fs_id r) db1) (\<lambda>(_, db2).
           bindE (commit_to_live now (fs_id r) db2) (\<lambda>(live, db3).
             Inr (dset res (fst entry) live, db3))))))"

definition seed_entries :: "(string \<times> string \<times> string) list" where
  "seed_entries =
     [(baseline_conditional_code, lbl_conditional_title, ''conditional''),
      (baseline_unconditional_code, lbl_unconditional_title, ''unconditional'')]"

definition seed_all ::
    "(nat \<Rightarrow> string) \<Rightarrow> nat \<Rightarrow> string \<Rightarrow> flow_db \<Rightarrow> flow_error + ((string \<times> flow_row) list \<times> flow_db)" where
  "seed_all uuid now tenant db = forE (seed_one uuid now tenant) ([], db) seed_entries"

definition get_baseline_for_shared_type :: "flow_db \<Rightarrow> string \<Rightarrow> json \<Rightarrow> flow_row option" where
  "get_baseline_for_shared_type db tenant shared_type =
     (case py_int shared_type of
        None \<Rightarrow> None
      | Some i \<Rightarrow>
          (case map_of baseline_by_shared_type i of
             None \<Rightarrow> None
           | Some (code, _, _) \<Rightarrow> find_live_code db tenant code))"

section \<open>Starting a case from a baseline\<close>

definition rule_by_code :: "json_index \<Rightarrow> json \<Rightarrow> py_error + json_index" where
  "rule_by_code acc r =
     (case r of
        JObj d \<Rightarrow> bindE (dict_item d ''rule_code'') (\<lambda>c.
          if hashable c then Inr (dset acc (dict_key c) d) else Inl TypeError)
      | _ \<Rightarrow> Inl TypeError)"

definition keep_approval :: "dict list \<Rightarrow> json \<Rightarrow> py_error + dict list" where
  "keep_approval acc n =
     (case n of
        JObj d \<Rightarrow> Inr (if dget d ''node_type'' = JStr ''approval'' then acc @ [d] else acc)
      | _ \<Rightarrow> Inl AttributeError)"

definition add_baseline_step :: "json_index \<Rightarrow> step_spec list \<Rightarrow> dict \<Rightarrow> py_error + step_spec list" where
  "add_baseline_step rules acc node =
     (let index = Suc (length acc)
      in bindE (approver_scope node rules) (\<lambda>scope.
           Inr (acc @ [\<lparr>sp_no = index, sp_name = step_title node index, sp_mode = ''single'',
                        sp_scope = scope\<rparr>])))"

definition baseline_steps :: "dict \<Rightarrow> py_error + step_spec list" where
  "baseline_steps payload =
     bindE (py_iter (dget_or payload ''selection_rules'' (JList []))) (\<lambda>rule_list.
     bindE (forE rule_by_code [] rule_list) (\<lambda>rules.
     bindE (py_iter (dget_or payload ''nodes'' (JList []))) (\<lambda>node_list.
     bindE (forE keep_approval [] node_list) (\<lambda>approvals.
     forE (add_baseline_step rules) [] approvals))))"

text \<open>\<^verbatim>\<open>baseline.payload_json or {}\<close>, on which \<^verbatim>\<open>get\<close> is called next.\<close>

definition payload_or_empty :: "flow_row \<Rightarrow> py_error + dict" where
  "payload_or_empty r =
     (if truthy (fs_payload r)
      then (case fs_payload r of JObj d \<Rightarrow> Inr d | _ \<Rightarrow> Inl AttributeError)
      else Inr [])"

lemma payload_or_empty_JObj: "fs_payload r = JObj d \<Longrightarrow> payload_or_empty r = Inr d"
  by (simp add: payload_or_empty_def)

text \<open>The case is flushed before its steps are built, and all of it is committed at the end,
  so a step that raises leaves no case behind.\<close>

definition start_approval_workflow_from_baseline ::
    "(nat \<Rightarrow> string) \<Rightarrow> nat \<Rightarrow> string \<Rightarrow> string \<Rightarrow> json \<Rightarrow> string \<Rightarrow> flow_db \<Rightarrow> case_db \<Rightarrow>
     py_error + (case_row option \<times> case_db)" where
  "start_approval_workflow_from_baseline uuid now application_code tenant shared_type submitted_by fdb db =
     (case get_baseline_for_shared_type fdb tenant shared_type of
        None \<Rightarrow> Inr (None, db)
      | Some baseline \<Rightarrow>
          bindE (payload_or_empty baseline) (\<lambda>payload.
          bindE (baseline_steps payload) (\<lambda>steps.
          let (c, db1) = add_case uuid
                \<lparr>ac_id = [], ac_tenant = tenant, ac_application = application_code @ baseline_suffix,
                 ac_status = ''in_progress'', ac_step = 1,
                 ac_decision = JObj
                   [(''baseline_code'', JStr (fs_code baseline)),
                    (''baseline_version'', JInt (fs_version baseline)),
                    (''schema_id'', JStr (fs_id baseline)), (''submitted_by'', JStr submitted_by),
                    (''shared_type'', (case py_int shared_type of Some i \<Rightarrow> JInt i | None \<Rightarrow> JNull))],
                 ac_legacy = None, ac_flow_code = None, ac_flow_version = None\<rparr> db
          in Inr (Some c, add_steps uuid now (ac_id c) steps db1))))"

lemmas baseline_codes = baseline_conditional_code_def baseline_unconditional_code_def

lemmas baseline_payloads =
  conditional_baseline_payload_def unconditional_baseline_payload_def entry_defs

end
