(* ===== verification/FlowSeed.thy ===== *)
theory FlowSeed
  imports FlowBaseline
begin

text \<open>
  Seeding the baselines: creation of a draft succeeds whenever the projection of its payload
  does, both built-in payloads pass every check, so the seeder always ends with a live
  baseline for each shared type, and running it again changes nothing.
\<close>

section \<open>When a draft can be created\<close>

definition projectable :: "dict \<Rightarrow> bool" where
  "projectable d \<longleftrightarrow>
     list_all (\<lambda>r. \<exists>c. map_of (node_dict r) ''rule_code'' = Some c \<and> hashable c)
       (json_list (dget d ''selection_rules'')) \<and>
     list_all (\<lambda>n. truthy (dget (node_dict n) ''selection_rule_code'') \<longrightarrow>
         hashable (dget (node_dict n) ''selection_rule_code''))
       (json_list (dget d ''nodes''))"

lemma project_payload_total:
  assumes "wf_flow_payload (JObj d)" and "projectable d"
  shows "\<exists>db'. project_payload uuid sid d db = Inr db'"
proof -
  obtain nodes rules branches where lists:
      "map_of d ''nodes'' = Some (JList nodes)" "map_of d ''selection_rules'' = Some (JList rules)"
      "map_of d ''branches'' = Some (JList branches)" and
      wf: "list_all wf_node nodes" "list_all (wf_branch (set (map node_code_of nodes))) branches"
        "list_all wf_selection_rule rules"
    using assms(1) by (auto simp: wf_flow_payload_def wf_nodes_def)
  have js: "json_list (dget d ''nodes'') = nodes" "json_list (dget d ''selection_rules'') = rules"
      "json_list (dget d ''branches'') = branches"
    using lists by (simp_all add: json_list_def dget_def)
  have "\<exists>t. project_rule uuid sid st r = Inr t" if "r \<in> set rules" for st r
  proof -
    have "wf_selection_rule r" "\<exists>c. map_of (node_dict r) ''rule_code'' = Some c \<and> hashable c"
      using that wf(3) assms(2) js by (auto simp: list_all_iff projectable_def)
    then show ?thesis
      by (cases st) (auto simp: project_rule_def wf_selection_rule_def dget_JStr_iff dict_item_def
          node_dict_def Let_def)
  qed
  then obtain db1 ids where 1: "forE (project_rule uuid sid) (db, []) rules = Inr (db1, ids)"
    using forE_total [of rules "project_rule uuid sid" "(db, [])"] by auto
  have "\<exists>t. project_node uuid sid ids st n = Inr t" if "n \<in> set nodes" for st n
  proof -
    have "wf_node n" "truthy (dget (node_dict n) ''selection_rule_code'') \<longrightarrow>
         hashable (dget (node_dict n) ''selection_rule_code'')"
      using that wf(1) assms(2) js by (auto simp: list_all_iff projectable_def)
    then show ?thesis
      by (cases st) (auto simp: project_node_def wf_node_def dget_JStr_iff dict_item_def
          node_dict_def Let_def)
  qed
  then obtain db2 k where 2: "forE (project_node uuid sid ids) (db1, 0) nodes = Inr (db2, k)"
    using forE_total [of nodes "project_node uuid sid ids" "(db1, 0)"] by auto
  have "\<exists>t. project_branch uuid sid st b = Inr t" if "b \<in> set branches" for st b
    using that wf(2) by (auto simp: list_all_iff project_branch_def wf_branch_def dget_JStr_iff dict_item_def)
  then obtain db3 where "forE (project_branch uuid sid) db2 branches = Inr db3"
    using forE_total [of branches "project_branch uuid sid" db2] by auto
  then show ?thesis
    using 1 2 by (simp add: project_payload_def js)
qed

lemma create_draft_total:
  assumes "flow_inv uuid db" and "da_payload a = JObj d" and "wf_flow_payload (JObj d)" and "projectable d"
  shows "\<exists>r db'. create_draft uuid now a db = Inr (r, db')"
proof (cases "create_draft uuid now a db")
  case (Inl e)
  have "project_payload uuid sid d db' \<noteq> Inl x" for sid db' x
    using project_payload_total [OF assms(3,4), of uuid sid db'] by auto
  then show ?thesis
    using Inl assms(2) validate_flow_payload_wf [THEN iffD2, OF assms(3)]
    by (simp add: create_draft_def Let_def insert_flow_fresh [OF assms(1)] bindE_Inl_iff raiseE_Inl_iff)
next
  case (Inr p)
  then show ?thesis by (cases p) auto
qed

lemma wf_conditional: "wf_flow_payload (JObj conditional_baseline_payload)"
  by (simp add: wf_flow_payload_def baseline_payloads wf_nodes_def wf_node_def dget_def dget_or_def
      node_code_of_def node_type_of_def wf_branch_def wf_selection_rule_def flow_vocabulary)

lemma wf_unconditional: "wf_flow_payload (JObj unconditional_baseline_payload)"
  by (simp add: wf_flow_payload_def baseline_payloads wf_nodes_def wf_node_def dget_def dget_or_def
      node_code_of_def node_type_of_def wf_branch_def wf_selection_rule_def flow_vocabulary)

lemma projectable_baselines:
  "projectable conditional_baseline_payload" "projectable unconditional_baseline_payload"
  by (simp_all add: projectable_def baseline_payloads dget_def json_list_def node_dict_def)

lemma baselines_reachable:
  "(flow_start conditional_baseline_payload, flow_end conditional_baseline_payload)
     \<in> (flow_edges conditional_baseline_payload)\<^sup>*"
  "(flow_start unconditional_baseline_payload, flow_end unconditional_baseline_payload)
     \<in> (flow_edges unconditional_baseline_payload)\<^sup>*"
proof -
  note run = assert_reachable_def payload_list_def baseline_payloads index_node_def dict_item_def
    add_edge_def dget_def succs_def
  have "assert_reachable conditional_baseline_payload = Inr ()" by (simp add: run)
  then show "(flow_start conditional_baseline_payload, flow_end conditional_baseline_payload)
     \<in> (flow_edges conditional_baseline_payload)\<^sup>*"
    using assert_reachable_cases [OF wf_conditional] by (auto split: if_splits)
  have "assert_reachable unconditional_baseline_payload = Inr ()" by (simp add: run)
  then show "(flow_start unconditional_baseline_payload, flow_end unconditional_baseline_payload)
     \<in> (flow_edges unconditional_baseline_payload)\<^sup>*"
    using assert_reachable_cases [OF wf_unconditional] by (auto split: if_splits)
qed

lemma baseline_payload_ok:
  "wf_flow_payload (JObj (baseline_payload_for code))" "projectable (baseline_payload_for code)"
  "(flow_start (baseline_payload_for code), flow_end (baseline_payload_for code))
     \<in> (flow_edges (baseline_payload_for code))\<^sup>*"
  using wf_conditional wf_unconditional projectable_baselines baselines_reachable
  by (simp_all add: baseline_payload_for_def)

text \<open>On both built-in payloads the schema walker and the baseline writer build the same
  steps, four for conditional and one for unconditional sharing, without a warning.\<close>

lemma walker_agrees_on_baselines:
  "\<exists>steps4 steps1.
     instantiate_steps_from_schema conditional_baseline_payload = Inr (steps4, []) \<and>
     baseline_steps conditional_baseline_payload = Inr steps4 \<and> length steps4 = 4 \<and>
     instantiate_steps_from_schema unconditional_baseline_payload = Inr (steps1, []) \<and>
     baseline_steps unconditional_baseline_payload = Inr steps1 \<and> length steps1 = 1"
  by (simp add: instantiate_steps_from_schema_def walk_tables_def baseline_payloads py_iter_def
      dget_or_def dget_def index_entry_def out_edge_def first_start_def walk.simps build_step_spec_def
      approver_scope_def step_title_def pick_next_edge_def edge_priority_def dict_item_def
      baseline_steps_def rule_by_code_def keep_approval_def add_baseline_step_def Let_def)

section \<open>Seeding\<close>

definition has_live :: "flow_db \<Rightarrow> string \<Rightarrow> string \<Rightarrow> bool" where
  "has_live db tenant code \<longleftrightarrow>
     (\<exists>r \<in> set (fdb_schemas db). fs_tenant r = tenant \<and> fs_code r = code \<and> fs_status r = ''live'')"

lemma find_live_code_has_live:
  "find_live_code db tenant code \<noteq> None \<longleftrightarrow> has_live db tenant code"
proof -
  let ?xs = "sort_key (\<lambda>r. - fs_version r)
      (filter (\<lambda>r. fs_tenant r = tenant \<and> fs_code r = code \<and> fs_status r = ''live'') (fdb_schemas db))"
  have "find_live_code db tenant code \<noteq> None \<longleftrightarrow> ?xs \<noteq> []"
    by (auto simp: find_live_code_def split: list.splits)
  also have "\<dots> \<longleftrightarrow> set ?xs \<noteq> {}" by (simp only: set_empty)
  finally show ?thesis by (auto simp: has_live_def)
qed

lemma promote_outcome:
  assumes inv: "flow_inv uuid db" and r: "row_by fs_id i (fdb_schemas db) = Some r" "fs_status r = ''draft''"
  shows "promote_to_preview now i db =
    Inr (r\<lparr>fs_status := ''preview'', fs_updated_at := now\<rparr>,
         db\<lparr>fdb_schemas := put_row fs_id (r\<lparr>fs_status := ''preview'', fs_updated_at := now\<rparr>) (fdb_schemas db)\<rparr>)"
proof -
  have mem: "r \<in> set (fdb_schemas db)" using row_by_SomeD [OF r(1)] by simp
  have "validate_flow_payload (fs_payload r) = Inr ()"
    using inv mem by (auto simp: flow_inv_def flow_row_ok_def validate_flow_payload_wf)
  then show ?thesis
    by (simp add: promote_to_preview_def require_flow_inv [OF inv r(1)] r(2) Let_def
        update_flow_moved [OF inv mem] flow_moved_def template_move_def)
qed

lemma row_by_put_same: "row_by idf (idf r) rows = Some x \<Longrightarrow> row_by idf (idf r) (put_row idf r rows) = Some r"
  using row_by_SomeD [of idf "idf r" rows x] row_by_put_row_same by metis

lemma has_live_put_row:
  assumes "has_live db tenant code" and "row_by fs_id (fs_id r') (fdb_schemas db) = Some r"
    and "fs_status r \<noteq> ''live''" and "unique_on fs_id (fdb_schemas db)"
  shows "has_live (db\<lparr>fdb_schemas := put_row fs_id r' (fdb_schemas db)\<rparr>) tenant code"
proof -
  obtain x where x: "x \<in> set (fdb_schemas db)" "fs_tenant x = tenant" "fs_code x = code" "fs_status x = ''live''"
    using assms(1) by (auto simp: has_live_def)
  have "fs_id x \<noteq> fs_id r'"
    using x assms(2-4) row_by_Some_iff [OF assms(4), of "fs_id r'" x] by auto
  then have "x \<in> set (put_row fs_id r' (fdb_schemas db))"
    using x(1) by (auto simp: put_row_def intro!: image_eqI [of _ _ x])
  then show ?thesis using x(2-) by (auto simp: has_live_def)
qed

lemma seed_one_total:
  assumes inv: "flow_inv uuid db"
  shows "\<exists>r db'. seed_one uuid now tenant (res, db) entry = Inr (dset res (fst entry) r, db') \<and>
    flow_inv uuid db' \<and> has_live db' tenant (fst entry) \<and>
    (\<forall>code. has_live db tenant code \<longrightarrow> has_live db' tenant code) \<and>
    (has_live db tenant (fst entry) \<longrightarrow> db' = db)"
proof (cases "find_live_code db tenant (fst entry)")
  case (Some r)
  then show ?thesis
    using inv find_live_code_has_live [of db tenant "fst entry"] by (auto simp: seed_one_def)
next
  case None
  obtain code title kind where entry: "entry = (code, title, kind)" by (cases entry)
  let ?a = "baseline_draft tenant entry"
  have a: "da_payload ?a = JObj (baseline_payload_for code)" "da_tenant ?a = tenant" "da_code ?a = code"
    by (simp_all add: baseline_draft_def entry)
  obtain r db1 where c: "create_draft uuid now ?a db = Inr (r, db1)"
    using create_draft_total [OF inv a(1) baseline_payload_ok(1,2)] by blast
  note new = create_draft_Inr [OF c]
  have inv1: "flow_inv uuid db1"
    using flow_inv_step [OF inv, of "FCreate now ?a" db1] c by (simp add: flow_step_def)
  have r1: "row_by fs_id (fs_id r) (fdb_schemas db1) = Some r"
    using inv1 new by (simp add: row_by_Some_iff flow_inv_def)
  let ?r2 = "r\<lparr>fs_status := ''preview'', fs_updated_at := now\<rparr>"
  let ?db2 = "db1\<lparr>fdb_schemas := put_row fs_id ?r2 (fdb_schemas db1)\<rparr>"
  have p: "promote_to_preview now (fs_id r) db1 = Inr (?r2, ?db2)"
    using promote_outcome [OF inv1 r1] new by simp
  have inv2: "flow_inv uuid ?db2"
    using flow_inv_step [OF inv1, of "FPromote now (fs_id r)" ?db2] p by (simp add: flow_step_def)
  have r2: "row_by fs_id (fs_id r) (fdb_schemas ?db2) = Some ?r2"
    using row_by_put_same [of fs_id ?r2 "fdb_schemas db1" r] r1 by simp
  let ?r3 = "?r2\<lparr>fs_status := ''live'', fs_version := live_version ?db2 ?r2,
                  fs_committed_at := Some now, fs_updated_at := now\<rparr>"
  let ?db3 = "?db2\<lparr>fdb_schemas := put_row fs_id ?r3 (fdb_schemas ?db2)\<rparr>"
  have l: "commit_to_live now (fs_id r) ?db2 = Inr (?r3, ?db3)"
    using commit_outcome [OF inv2 r2, of "baseline_payload_for code" now] baseline_payload_ok(3) new a(1)
    by (simp only: Let_def) simp
  have inv3: "flow_inv uuid ?db3"
    using flow_inv_step [OF inv2, of "FCommit now (fs_id r)" ?db3] l by (simp add: flow_step_def)
  have "seed_one uuid now tenant (res, db) entry = Inr (dset res (fst entry) ?r3, ?db3)"
    by (simp only: seed_one_def None c p l prod.case option.case bindE_simps)
  moreover have "has_live ?db3 tenant code"
  proof -
    have "row_by fs_id (fs_id r) (fdb_schemas ?db3) = Some ?r3"
      using row_by_put_same [of fs_id ?r3 "fdb_schemas ?db2" ?r2] r2 by simp
    then have "?r3 \<in> set (fdb_schemas ?db3)" using row_by_SomeD by fast
    moreover have "fs_tenant ?r3 = tenant" "fs_code ?r3 = code" "fs_status ?r3 = ''live''"
      using new a by simp_all
    ultimately show ?thesis unfolding has_live_def by blast
  qed
  moreover have "has_live ?db3 tenant code'" if "has_live db tenant code'" for code'
  proof -
    have "has_live db1 tenant code'" using that new by (auto simp: has_live_def)
    then have "has_live ?db2 tenant code'"
      using has_live_put_row [of db1 tenant code' ?r2 r] r1 new inv1 by (simp add: flow_inv_def)
    then show ?thesis
      using has_live_put_row [of ?db2 tenant code' ?r3 ?r2] r2 inv2 by (simp add: flow_inv_def)
  qed
  moreover have "\<not> has_live db tenant code"
    using None find_live_code_has_live [of db tenant code] by (simp add: entry)
  ultimately show ?thesis using inv3 by (auto simp: entry)
qed

text \<open>on a well-formed repository the seeder always succeeds, keeps it well formed and
  leaves a live baseline for both shared types; a second run changes no table.\<close>

lemma seed_all_idempotent:
  assumes "flow_inv uuid db"
  shows "\<exists>res db'. seed_all uuid now tenant db = Inr (res, db') \<and> flow_inv uuid db' \<and>
    get_baseline_for_shared_type db' tenant (JInt 1) \<noteq> None \<and>
    get_baseline_for_shared_type db' tenant (JInt 2) \<noteq> None \<and>
    (\<exists>res'. seed_all uuid later tenant db' = Inr (res', db'))"
proof -
  let ?e1 = "(baseline_conditional_code, lbl_conditional_title, ''conditional'')"
  let ?e2 = "(baseline_unconditional_code, lbl_unconditional_title, ''unconditional'')"
  obtain r1 db1 where 1: "seed_one uuid now tenant ([], db) ?e1 = Inr (dset [] (fst ?e1) r1, db1)"
      "flow_inv uuid db1" "has_live db1 tenant baseline_conditional_code"
    using seed_one_total [OF assms, of now tenant "[]" ?e1] by auto
  obtain r2 db2 where 2: "seed_one uuid now tenant (dset [] (fst ?e1) r1, db1) ?e2 =
        Inr (dset (dset [] (fst ?e1) r1) (fst ?e2) r2, db2)"
      "flow_inv uuid db2" "has_live db2 tenant baseline_unconditional_code"
      "has_live db2 tenant baseline_conditional_code"
    using seed_one_total [OF 1(2), of now tenant "dset [] (fst ?e1) r1" ?e2] 1(3) by auto
  have again: "\<exists>r. seed_one uuid later tenant (res, db2) e = Inr (dset res (fst e) r, db2)"
    if "e \<in> {?e1, ?e2}" for res e
    using seed_one_total [OF 2(2), of later tenant res e] that 2(3,4) by auto
  obtain r3 where r3: "seed_one uuid later tenant ([], db2) ?e1 = Inr (dset [] (fst ?e1) r3, db2)"
    using again [of ?e1 "[]"] by blast
  obtain r4 where r4: "seed_one uuid later tenant (dset [] (fst ?e1) r3, db2) ?e2 =
      Inr (dset (dset [] (fst ?e1) r3) (fst ?e2) r4, db2)"
    using again [of ?e2 "dset [] (fst ?e1) r3"] by blast
  have "\<exists>res'. forE (seed_one uuid later tenant) ([], db2) seed_entries = Inr (res', db2)"
    unfolding seed_entries_def forE.simps r3 bindE_simps r4 by blast
  moreover have "seed_all uuid now tenant db = Inr (dset (dset [] (fst ?e1) r1) (fst ?e2) r2, db2)"
    using 1(1) 2(1) by (simp add: seed_all_def seed_entries_def)
  moreover have "get_baseline_for_shared_type db2 tenant (JInt 1) \<noteq> None"
      "get_baseline_for_shared_type db2 tenant (JInt 2) \<noteq> None"
    using 2(3,4) find_live_code_has_live [of db2 tenant]
    by (auto simp: get_baseline_for_shared_type_def baseline_by_shared_type_def
        shared_type_conditional_def shared_type_unconditional_def)
  ultimately show ?thesis using 2(2) by (auto simp: seed_all_def)
qed

end
