(* ===== verification/ShareType.thy ===== *)
theory ShareType
  imports Labels
begin

text \<open>
  \<^verbatim>\<open>domain/resource_labels.py\<close>: the code space of share types for resources and catalogs,
  its labels and levels, and the reading of a share type out of a mapping; and the lookup of
  a resource's share type in \<^verbatim>\<open>domain/discovery_snapshot_projection.py\<close>. Blanks and case are
  those of ASCII text.
\<close>

definition share_type_unconditional :: int where "share_type_unconditional = 1"

definition share_type_conditional :: int where "share_type_conditional = 2"

definition share_type_closed :: int where "share_type_closed = 3"

lemmas share_type_codes =
  share_type_unconditional_def share_type_conditional_def share_type_closed_def

definition update_cycle_labels :: "(string \<times> string) list" where
  "update_cycle_labels =
     [(''1'', lbl_cycle_1), (''2'', lbl_cycle_2), (''3'', lbl_cycle_3), (''4'', lbl_cycle_4),
      (''5'', lbl_cycle_5), (''6'', lbl_cycle_6), (''7'', lbl_cycle_7), (''8'', lbl_cycle_8),
      (''9'', lbl_cycle_9)]"

definition share_type_labels :: "(string \<times> string) list" where
  "share_type_labels =
     [(''1'', lbl_share_open), (''2'', lbl_share_conditional), (''3'', lbl_share_closed),
      (''unconditional'', lbl_share_open), (''conditional'', lbl_share_conditional),
      (''closed'', lbl_share_closed)]"

definition share_type_levels :: "(string \<times> string) list" where
  "share_type_levels =
     [(lbl_share_open, ''open''), (lbl_share_conditional, ''conditional''),
      (lbl_share_closed, ''closed'')]"

definition lower_char :: "char \<Rightarrow> char" where
  "lower_char c = (if (65 :: nat) \<le> of_char c \<and> of_char c \<le> (90 :: nat)
                   then char_of ((of_char c :: nat) + 32) else c)"

definition lower :: "string \<Rightarrow> string" where
  "lower s = map lower_char s"

text \<open>\<^verbatim>\<open>value in (None, "")\<close>.\<close>

definition absent :: "json \<Rightarrow> bool" where
  "absent v \<longleftrightarrow> v = JNull \<or> v = JStr []"

definition summary_body :: "json \<Rightarrow> dict" where
  "summary_body summary =
     (case summary of
        JObj d \<Rightarrow> (case dget d ''summary'' of JObj nested \<Rightarrow> nested | _ \<Rightarrow> d)
      | _ \<Rightarrow> [])"

definition share_type_keys :: "string list" where
  "share_type_keys = [''shared_type'', ''share_type'', ''sharedType'', ''shareType'']"

fun first_present :: "dict \<Rightarrow> string list \<Rightarrow> json" where
  "first_present d [] = JNull"
| "first_present d (k # ks) = (if absent (dget d k) then first_present d ks else dget d k)"

definition share_type_from_mapping :: "json \<Rightarrow> json" where
  "share_type_from_mapping data =
     (case data of JObj d \<Rightarrow> first_present d share_type_keys | _ \<Rightarrow> JNull)"

definition share_type_int :: "json \<Rightarrow> int option" where
  "share_type_int raw =
     (if absent raw then None
      else case py_int raw of
        Some i \<Rightarrow> Some i
      | None \<Rightarrow>
          let key = lower (strip_blanks (py_str raw))
          in if key = ''unconditional'' then Some share_type_unconditional
             else if key = ''conditional'' then Some share_type_conditional
             else if key \<in> {''closed'', ''none'', ''no_share''} then Some share_type_closed
             else None)"

definition share_type_label :: "json \<Rightarrow> string" where
  "share_type_label raw =
     (if absent raw then []
      else case map_of share_type_labels (lower (strip_blanks (py_str raw))) of
        Some l \<Rightarrow> l | None \<Rightarrow> py_str raw)"

definition share_type_level :: "json \<Rightarrow> string" where
  "share_type_level label =
     (case map_of share_type_levels (py_str (py_or label (JStr []))) of Some l \<Rightarrow> l | None \<Rightarrow> [])"

section \<open>The share type of a stored resource\<close>

record asset_row =
  ra_id :: string
  ra_code :: "string option"
  ra_access :: json

definition add_asset_share :: "(string \<times> int) list \<Rightarrow> asset_row \<Rightarrow> (string \<times> int) list" where
  "add_asset_share out a =
     (case share_type_int (share_type_from_mapping (py_or (ra_access a) (JObj []))) of
        None \<Rightarrow> out
      | Some st \<Rightarrow>
          foldl (\<lambda>acc k. if k = [] then acc else dset acc k st) out
            [ra_id a, case ra_code a of Some c \<Rightarrow> c | None \<Rightarrow> []])"

definition share_type_by_resource :: "asset_row list \<Rightarrow> (string \<times> int) list" where
  "share_type_by_resource assets = foldl add_asset_share [] assets"

definition shared_type_for_resource :: "asset_row list \<Rightarrow> string \<Rightarrow> int option" where
  "shared_type_for_resource assets rid =
     (if rid = [] then None else map_of (share_type_by_resource assets) rid)"

definition catalog_share_policy :: "json \<Rightarrow> dict" where
  "catalog_share_policy summary_json =
     (let raw = share_type_from_mapping (JObj (summary_body (py_or summary_json (JObj []))));
          label = share_type_label raw
      in [(''shareType'', raw), (''shareTypeLabel'', JStr label),
          (''shareLevel'', JStr (share_type_level (JStr label)))])"

text \<open>\<^verbatim>\<open>_shared_type_for\<close> of an application card.\<close>

definition shared_type_for :: "dict \<Rightarrow> (string \<times> int) list \<Rightarrow> int option" where
  "shared_type_for payload by_resource =
     (let raw = py_or (dget payload ''shared_type'') (dget payload ''sharedType'')
      in if raw \<noteq> JNull then share_type_int raw
         else let rid = py_str (py_or (py_or (dget payload ''resourceId'') (dget payload ''resource_id'')) (JStr []))
              in if rid \<noteq> [] \<and> by_resource \<noteq> [] then map_of by_resource rid else None)"

end
