(* ===== verification/RequestFlow.thy ===== *)
theory RequestFlow
  imports FlowScope FlowSeed ShareType
begin

text \<open>
  The approval hook of the J1 request handlers (\<^verbatim>\<open>command/handlers/j1/request.py\<close>): how a
  submission finds its share type and its project, and which approval flow it starts.
\<close>

section \<open>Reading the options and the resource\<close>

definition extract_shared_type :: "json \<Rightarrow> json \<Rightarrow> json" where
  "extract_shared_type options resource =
     (let v = share_type_from_mapping options
      in if v \<noteq> JNull then v
         else case resource of
           JObj r \<Rightarrow>
             (case dget r ''repository'' of
                JObj repo \<Rightarrow> share_type_from_mapping (JObj repo)
              | _ \<Rightarrow> JNull)
         | _ \<Rightarrow> JNull)"

text \<open>The last source is the stored asset, tried under both identifiers of the resource.\<close>

fun shared_type_by_ids :: "asset_row list \<Rightarrow> json list \<Rightarrow> json" where
  "shared_type_by_ids assets [] = JNull"
| "shared_type_by_ids assets (rid # rids) =
     (if \<not> truthy rid then shared_type_by_ids assets rids
      else case shared_type_for_resource assets (py_str rid) of
        Some i \<Rightarrow> JInt i
      | None \<Rightarrow> shared_type_by_ids assets rids)"

definition resolved_shared_type :: "asset_row list \<Rightarrow> json \<Rightarrow> json \<Rightarrow> int option" where
  "resolved_shared_type assets options resource =
     (let raw1 = extract_shared_type options resource;
          raw2 = (case resource of
                    JObj r \<Rightarrow>
                      (case dget r ''accessPolicy'' of
                         JObj access \<Rightarrow>
                           if raw1 = JNull then share_type_from_mapping (JObj access) else raw1
                       | _ \<Rightarrow> raw1)
                  | _ \<Rightarrow> raw1);
          raw3 = (case resource of
                    JObj r \<Rightarrow>
                      if raw2 = JNull
                      then shared_type_by_ids assets [dget r ''focusedResourceCode'', dget r ''id'']
                      else raw2
                  | _ \<Rightarrow> raw2)
      in share_type_int raw3)"

text \<open>\<^verbatim>\<open>(resource.get("repository") or {}).get("ownerOrgId")\<close> raises on a truthy repository
  that is no dictionary.\<close>

definition owner_org_code_from_resource :: "json \<Rightarrow> py_error + string" where
  "owner_org_code_from_resource resource =
     (case resource of
        JObj r \<Rightarrow>
          (let repo = py_or (dget r ''repository'') (JObj [])
           in case repo of
                JObj d \<Rightarrow> Inr (py_str (py_or (py_or (py_or (dget d ''ownerOrgId'')
                              (dget r ''providerOrgId'')) (dget r ''ownerOrgId'')) (JStr [])))
              | _ \<Rightarrow> Inl AttributeError)
      | _ \<Rightarrow> Inr [])"

definition project_keys :: "string list" where
  "project_keys = [''project_code'', ''projectCode'', ''project_id'', ''projectId'']"

fun first_truthy :: "dict \<Rightarrow> string list \<Rightarrow> json option" where
  "first_truthy d [] = None"
| "first_truthy d (k # ks) = (if truthy (dget d k) then Some (dget d k) else first_truthy d ks)"

definition extract_project_code :: "dict \<Rightarrow> json \<Rightarrow> string option" where
  "extract_project_code options resource =
     (case first_truthy options project_keys of
        Some v \<Rightarrow> Some (py_str v)
      | None \<Rightarrow>
          (case resource of
             JObj r \<Rightarrow>
               (case dget r ''repository'' of
                  JObj repo \<Rightarrow> map_option py_str (first_truthy repo project_keys)
                | _ \<Rightarrow> None)
           | _ \<Rightarrow> None))"

section \<open>The hook\<close>

text \<open>\<^verbatim>\<open>_maybe_start_approval_workflow\<close>. A walk error falls back to the baseline; every
  other exception is logged and gives no case. Nothing is committed before the rows of the
  case are complete, so a failure leaves the tables as they were.\<close>

definition flow_from_baseline ::
    "(nat \<Rightarrow> string) \<Rightarrow> nat \<Rightarrow> string \<Rightarrow> string \<Rightarrow> json \<Rightarrow> string \<Rightarrow> flow_db \<Rightarrow> case_db \<Rightarrow>
     string option \<times> case_db" where
  "flow_from_baseline uuid now app tenant shared_type actor fdb db =
     (case start_approval_workflow_from_baseline uuid now app tenant shared_type actor fdb db of
        Inl e \<Rightarrow> (None, db)
      | Inr (c, db') \<Rightarrow> (map_option ac_id c, db'))"

definition maybe_start_approval_workflow ::
    "(nat \<Rightarrow> string) \<Rightarrow> nat \<Rightarrow> string \<Rightarrow> string \<Rightarrow> json \<Rightarrow> string option \<Rightarrow> string \<Rightarrow>
     flow_db \<Rightarrow> case_db \<Rightarrow> string option \<times> case_db" where
  "maybe_start_approval_workflow uuid now app tenant shared_type project actor fdb db =
     (if shared_type = JNull then (None, db)
      else case find_live_for_scope fdb tenant shared_type project of
        Inl e \<Rightarrow> (None, db)
      | Inr None \<Rightarrow> flow_from_baseline uuid now app tenant shared_type actor fdb db
      | Inr (Some custom) \<Rightarrow>
          (case start_approval_workflow_from_schema uuid now app tenant custom actor
                  [(''shared_type'', shared_type),
                   (''project_code'', case project of Some p \<Rightarrow> JStr p | None \<Rightarrow> JNull)] db of
             Inr (c, db') \<Rightarrow> (Some (ac_id c), db')
           | Inl (WalkPy e) \<Rightarrow> (None, db)
           | Inl _ \<Rightarrow> flow_from_baseline uuid now app tenant shared_type actor fdb db))"

section \<open>What the hook writes\<close>

lemma add_steps_spec:
  "cdb_cases (add_steps uuid now cid sps db) = cdb_cases db \<and>
   cdb_decisions (add_steps uuid now cid sps db) = cdb_decisions db \<and>
   cdb_next (add_steps uuid now cid sps db) = cdb_next db + length sps \<and>
   (\<exists>rows. cdb_steps (add_steps uuid now cid sps db) = cdb_steps db @ rows \<and>
      length rows = length sps \<and> list_all (\<lambda>r. as_case r = cid) rows \<and>
      map as_no rows = map (int \<circ> sp_no) sps)"
proof (induction sps arbitrary: db)
  case (Cons sp sps)
  let ?db = "db\<lparr>cdb_steps := cdb_steps db @ [spec_row uuid now (cdb_next db) cid sp],
               cdb_next := Suc (cdb_next db)\<rparr>"
  from Cons.IH [of ?db] obtain rows where
    "cdb_steps (add_steps uuid now cid sps ?db) = cdb_steps ?db @ rows" "length rows = length sps"
    "list_all (\<lambda>r. as_case r = cid) rows" "map as_no rows = map (int \<circ> sp_no) sps"
    by blast
  then show ?case
    using Cons.IH [of ?db]
    by (intro conjI exI [of _ "spec_row uuid now (cdb_next db) cid sp # rows"]) (simp_all add: spec_row_def)
qed simp

lemma add_steps_steps_of:
  "length (steps_of (add_steps uuid now cid sps db) cid) = length (steps_of db cid) + length sps"
proof -
  obtain rows where "cdb_steps (add_steps uuid now cid sps db) = cdb_steps db @ rows"
      "length rows = length sps" "list_all (\<lambda>r. as_case r = cid) rows"
    using add_steps_spec [of uuid now cid sps db] by blast
  moreover from this(3) have "filter (\<lambda>r. as_case r = cid) rows = rows"
    by (simp add: list_all_iff filter_id_conv)
  ultimately show ?thesis by (simp add: steps_of_def)
qed

text \<open>What \<^verbatim>\<open>_submit_request\<close> derives from the share type of the resource: the status that
  enters one of the two approval queues.\<close>

definition submit_target_status :: "int option \<Rightarrow> string" where
  "submit_target_status st = (if st = Some share_type_conditional then ''submitted'' else ''pending'')"

definition json_of_int :: "int option \<Rightarrow> json" where
  "json_of_int v = (case v of Some i \<Rightarrow> JInt i | None \<Rightarrow> JNull)"

lemma baseline_case_steps:
  assumes ids: "case_ids_ok uuid db" and live: "get_baseline_for_shared_type fdb tenant sty = Some b"
    and payload: "fs_payload b = JObj d" and steps: "baseline_steps d = Inr sps"
  shows "\<exists>c db'. start_approval_workflow_from_baseline uuid now app tenant sty actor fdb db = Inr (Some c, db') \<and>
    ac_id c = uuid (cdb_next db) \<and> length (steps_of db' (ac_id c)) = length sps"
proof -
  have fresh: "steps_of (db\<lparr>cdb_cases := cs, cdb_next := n\<rparr>) (uuid (cdb_next db)) = []" for cs n
    using steps_of_fresh [OF ids, of "cdb_next db"] by (simp add: steps_of_def)
  show ?thesis
    using fresh
    by (simp add: start_approval_workflow_from_baseline_def live steps add_case_def Let_def
        add_steps_steps_of payload_or_empty_JObj [OF payload])
qed

lemma baselines_step_counts:
  "\<exists>s. baseline_steps conditional_baseline_payload = Inr s \<and> length s = 4"
  "\<exists>s. baseline_steps unconditional_baseline_payload = Inr s \<and> length s = 1"
  by (simp_all add: baseline_payloads py_iter_def dget_or_def dget_def approver_scope_def step_title_def
      dict_item_def baseline_steps_def rule_by_code_def keep_approval_def add_baseline_step_def Let_def)

lemma hook_baseline:
  assumes "case_ids_ok uuid db" and "find_live_for_scope fdb tenant sty project = Inr None"
    and "sty \<noteq> JNull" and "get_baseline_for_shared_type fdb tenant sty = Some b"
    and "fs_payload b = JObj d" and "baseline_steps d = Inr sps"
  shows "\<exists>cid db'. maybe_start_approval_workflow uuid now app tenant sty project actor fdb db = (Some cid, db') \<and>
     length (steps_of db' cid) = length sps"
  using baseline_case_steps [OF assms(1,4,5,6), of now app actor] assms(2,3)
  by (auto simp: maybe_start_approval_workflow_def flow_from_baseline_def)

text \<open>C3: the hook mixes two code spaces. The status of the request follows the resource code
  2 for conditional sharing, but the hook hands the same number to the baseline lookup, where
  2 means unconditional: with both shipped baselines live and no custom template, a
  conditional resource enters the two-level queue and gets the one-step flow, while an
  unconditional resource gets the four-step flow.\<close>

theorem hook_swaps_baselines:
  assumes ids: "case_ids_ok uuid db"
    and scope: "\<And>k. find_live_for_scope fdb tenant (JInt k) project = Inr None"
    and cond: "find_live_code fdb tenant baseline_conditional_code = Some b1"
      "fs_payload b1 = JObj conditional_baseline_payload"
    and uncond: "find_live_code fdb tenant baseline_unconditional_code = Some b2"
      "fs_payload b2 = JObj unconditional_baseline_payload"
  shows "submit_target_status (Some share_type_conditional) = ''submitted'' \<and>
    (\<exists>cid db'. maybe_start_approval_workflow uuid now app tenant (JInt share_type_conditional)
        project actor fdb db = (Some cid, db') \<and> length (steps_of db' cid) = 1) \<and>
    submit_target_status (Some share_type_unconditional) = ''pending'' \<and>
    (\<exists>cid db'. maybe_start_approval_workflow uuid now app tenant (JInt share_type_unconditional)
        project actor fdb db = (Some cid, db') \<and> length (steps_of db' cid) = 4)"
proof -
  have two: "get_baseline_for_shared_type fdb tenant (JInt share_type_conditional) = Some b2"
    using uncond by (simp add: get_baseline_for_shared_type_def baseline_by_shared_type_def
        shared_type_conditional_def shared_type_unconditional_def share_type_codes)
  have one: "get_baseline_for_shared_type fdb tenant (JInt share_type_unconditional) = Some b1"
    using cond by (simp add: get_baseline_for_shared_type_def baseline_by_shared_type_def
        shared_type_conditional_def shared_type_unconditional_def share_type_codes)
  obtain s1 where s1: "baseline_steps unconditional_baseline_payload = Inr s1" "length s1 = 1"
    using baselines_step_counts(2) by blast
  obtain s4 where s4: "baseline_steps conditional_baseline_payload = Inr s4" "length s4 = 4"
    using baselines_step_counts(1) by blast
  show ?thesis
    using hook_baseline [OF ids scope _ two uncond(2) s1(1), of now app actor] s1(2)
      hook_baseline [OF ids scope _ one cond(2) s4(1), of now app actor] s4(2)
    by (simp add: submit_target_status_def share_type_codes)
qed

definition shipped_row :: "nat \<Rightarrow> string \<Rightarrow> flow_row" where
  "shipped_row n code = preview_row\<lparr>fs_id := unary_uuid n, fs_code := code, fs_status := ''live'',
     fs_payload := JObj (baseline_payload_for code), fs_committed_at := Some 1\<rparr>"

definition shipped_db :: flow_db where
  "shipped_db = empty_flow_db\<lparr>fdb_schemas :=
     [shipped_row 0 baseline_conditional_code, shipped_row 1 baseline_unconditional_code], fdb_next := 2\<rparr>"

theorem hook_swaps_baselines_witness:
  "\<exists>cid db'. maybe_start_approval_workflow unary_uuid 7 ''A1'' ''t'' (JInt 2) None ''u'' shipped_db empty_case_db
      = (Some cid, db') \<and> length (steps_of db' cid) = 1"
proof -
  have "case_ids_ok unary_uuid empty_case_db"
    by (simp add: case_ids_ok_def empty_case_db_def inj_unary_uuid)
  moreover have "find_live_for_scope shipped_db ''t'' (JInt k) None = Inr None" for k
    by (simp add: find_live_for_scope_def shipped_db_def live_rows_def shipped_row_def preview_row_def
        scope_step_def scope_of_def dget_def baseline_payload_for_def baseline_payloads baseline_codes)
  moreover have "find_live_code shipped_db ''t'' baseline_conditional_code
      = Some (shipped_row 0 baseline_conditional_code)"
    by (simp add: find_live_code_def shipped_db_def shipped_row_def preview_row_def baseline_codes)
  moreover have "find_live_code shipped_db ''t'' baseline_unconditional_code
      = Some (shipped_row 1 baseline_unconditional_code)"
    by (simp add: find_live_code_def shipped_db_def shipped_row_def preview_row_def baseline_codes)
  moreover have "fs_payload (shipped_row n baseline_conditional_code) = JObj conditional_baseline_payload"
    "fs_payload (shipped_row n baseline_unconditional_code) = JObj unconditional_baseline_payload" for n
    by (simp_all add: shipped_row_def baseline_payload_for_def baseline_codes)
  ultimately show ?thesis
    using hook_swaps_baselines [of unary_uuid empty_case_db shipped_db "''t''" None
        "shipped_row 0 baseline_conditional_code" "shipped_row 1 baseline_unconditional_code" 7 "''A1''" "''u''"]
    by (simp add: share_type_codes)
qed

end
