(* ===== verification/FieldDerivation.thy ===== *)
theory FieldDerivation
  imports Labels
begin

text \<open>
  \<^verbatim>\<open>domain/services/field_derivation.py\<close>: the rules that derive form fields from others,
  the bounded fixpoint iteration over them, human edits and the filling of a draft. The
  reference service is an argument of the code; here it is the pair of lookups the rules
  use, each returning the record found or the empty dictionary for a miss.
\<close>

section \<open>Sources and provenance\<close>

definition source_human :: string where "source_human = ''human''"
definition source_derived :: string where "source_derived = ''derived''"
definition source_ai :: string where "source_ai = ''ai_suggested''"
definition source_empty :: string where "source_empty = ''empty''"
definition state_ai_pending :: string where "state_ai_pending = ''ai_pending_confirm''"
definition max_passes :: nat where "max_passes = 5"

lemmas sources = source_human_def source_derived_def source_ai_def source_empty_def

type_synonym provenance = "(string \<times> dict) list"

record reference =
  ref_organ :: "string \<Rightarrow> dict"
  ref_region :: "string \<Rightarrow> dict"

definition provenance_for_derived :: "string \<Rightarrow> dict" where
  "provenance_for_derived trigger =
     [(''source'', JStr source_derived), (''locked'', JBool False), (''modified_by'', JNull),
      (''modified_at'', JNull), (''derived_from'', JStr trigger)]"

definition provenance_empty :: dict where
  "provenance_empty =
     [(''source'', JStr source_empty), (''locked'', JBool False), (''modified_by'', JNull),
      (''modified_at'', JNull)]"

definition provenance_for_human :: "string \<Rightarrow> string \<Rightarrow> dict" where
  "provenance_for_human now actor =
     [(''source'', JStr source_human), (''locked'', JBool True),
      (''modified_by'', if actor = [] then JNull else JStr actor), (''modified_at'', JStr now)]"

definition provenance_for_ai :: dict where
  "provenance_for_ai =
     [(''source'', JStr source_ai), (''locked'', JBool False), (''modified_by'', JNull),
      (''modified_at'', JNull), (''state'', JStr state_ai_pending)]"

definition ai_suggestable_fields :: "string list" where
  "ai_suggestable_fields =
     [''purpose'', ''use_reason'', ''use_item'', ''service_times'', ''service_times_unit'',
      ''use_region'', ''scope'']"

definition field_enum_dict_type :: "(string \<times> string) list" where
  "field_enum_dict_type =
     [(''sensitive_level'', ''data_sensity_level''), (''data_level'', ''data_level''),
      (''supply_way'', ''catalog_data_supply_way''), (''apply_domain'', ''data_apply_field''),
      (''organ_line'', ''organLine'')]"

text \<open>\<^verbatim>\<open>provenance.get(f, {}).get("source")\<close>.\<close>

definition prov_of :: "provenance \<Rightarrow> string \<Rightarrow> dict" where
  "prov_of p f = (case map_of p f of None \<Rightarrow> [] | Some d \<Rightarrow> d)"

definition prov_source :: "provenance \<Rightarrow> string \<Rightarrow> json" where
  "prov_source p f = dget (prov_of p f) ''source''"

definition empty_value :: "json \<Rightarrow> bool" where
  "empty_value v \<longleftrightarrow> v = JNull \<or> v = JStr []"

section \<open>Rules\<close>

definition resolve_organ :: "reference \<Rightarrow> string \<Rightarrow> dict" where
  "resolve_organ rf value =
     (let organ = ref_organ rf value
      in if organ = [] then []
         else [(''organ_name'', py_or (dget organ ''org_name'') (JStr [])),
               (''region_code'', py_or (dget organ ''region_code'') (JStr [])),
               (''region_name'', py_or (dget organ ''region_name'') (JStr []))])"

definition resolve_region :: "reference \<Rightarrow> string \<Rightarrow> dict" where
  "resolve_region rf value =
     (let region = ref_region rf value
      in if region = [] then []
         else [(''region_name'', py_or (dget region ''region_name'') (JStr []))])"

record derivation_rule =
  dr_trigger :: string
  dr_targets :: "string list"
  dr_resolve :: "reference \<Rightarrow> string \<Rightarrow> dict"

definition derivation_rules :: "derivation_rule list" where
  "derivation_rules =
     [\<lparr>dr_trigger = ''organ_code'', dr_targets = [''organ_name'', ''region_code'', ''region_name''],
       dr_resolve = resolve_organ\<rparr>,
      \<lparr>dr_trigger = ''region_code'', dr_targets = [''region_name''], dr_resolve = resolve_region\<rparr>]"

type_synonym fill_state = "dict \<times> provenance"

text \<open>The two inner loops; the flag is \<^verbatim>\<open>changed\<close>.\<close>

definition set_target :: "string \<Rightarrow> dict \<Rightarrow> fill_state \<times> bool \<Rightarrow> string \<Rightarrow> fill_state \<times> bool" where
  "set_target trigger result st tgt =
     (case st of ((values, prov), changed) \<Rightarrow>
      let new_val = dget_or result tgt (JStr [])
      in if dget values tgt \<noteq> new_val \<or> prov_source prov tgt \<noteq> JStr source_derived
         then ((dset values tgt new_val, dset prov tgt (provenance_for_derived trigger)), True)
         else ((values, prov), changed))"

definition clear_target :: "fill_state \<times> bool \<Rightarrow> string \<Rightarrow> fill_state \<times> bool" where
  "clear_target st tgt =
     (case st of ((values, prov), changed) \<Rightarrow>
      if prov_source prov tgt = JStr source_derived
      then ((dset values tgt (JStr []), dset prov tgt provenance_empty), True)
      else ((values, prov), changed))"

definition apply_rule :: "reference \<Rightarrow> fill_state \<times> bool \<Rightarrow> derivation_rule \<Rightarrow> fill_state \<times> bool" where
  "apply_rule rf st rule =
     (let trig = dget (fst (fst st)) (dr_trigger rule)
      in if \<not> empty_value trig
         then foldl (set_target (dr_trigger rule) (dr_resolve rule rf (py_str trig))) st (dr_targets rule)
         else foldl clear_target st (dr_targets rule))"

definition derive_pass :: "reference \<Rightarrow> fill_state \<Rightarrow> fill_state \<times> bool" where
  "derive_pass rf st = foldl (apply_rule rf) (st, False) derivation_rules"

fun derive_loop :: "nat \<Rightarrow> reference \<Rightarrow> fill_state \<Rightarrow> fill_state" where
  "derive_loop 0 rf st = st"
| "derive_loop (Suc n) rf st =
     (let (st', changed) = derive_pass rf st
      in if changed then derive_loop n rf st' else st')"

definition derive :: "reference \<Rightarrow> fill_state \<Rightarrow> fill_state" where
  "derive rf st = derive_loop max_passes rf st"

definition apply_human_edit ::
    "reference \<Rightarrow> string \<Rightarrow> string \<Rightarrow> string \<Rightarrow> json \<Rightarrow> fill_state \<Rightarrow> fill_state" where
  "apply_human_edit rf now actor field new_value st =
     derive rf (dset (fst st) field new_value,
                dset (snd st) field (provenance_for_human now actor))"

section \<open>Filling a draft\<close>

definition identity_fields :: "(string \<times> string) list" where
  "identity_fields =
     [(''applicant_org'', ''org_name''), (''applicant_dept'', ''org_name''),
      (''applicant_org_code'', ''org_code'')]"

definition fill_identity :: "dict \<Rightarrow> fill_state \<Rightarrow> string \<times> string \<Rightarrow> fill_state" where
  "fill_identity actor_org st fk =
     (let val = dget actor_org (snd fk)
      in if truthy val \<and> prov_source (snd st) (fst fk) \<noteq> JStr source_human
         then (dset (fst st) (fst fk) val,
               dset (snd st) (fst fk) (provenance_for_derived ''actor.identity''))
         else st)"

definition fill_suggestion :: "fill_state \<Rightarrow> string \<times> json \<Rightarrow> fill_state" where
  "fill_suggestion st fs =
     (case fs of (field, suggestion) \<Rightarrow>
      let cur = prov_of (snd st) field
      in if field \<notin> set ai_suggestable_fields then st
         else if truthy (dget cur ''locked'') \<or> dget cur ''source'' \<in> {JStr source_human, JStr source_derived}
           then st
         else if empty_value (dget (fst st) field) \<and> \<not> empty_value suggestion
           then (dset (fst st) field suggestion, dset (snd st) field provenance_for_ai)
         else st)"

definition mark_rest :: "fill_state \<Rightarrow> string \<Rightarrow> fill_state" where
  "mark_rest st field =
     (if map_of (snd st) field = None
      then (fst st, dset (snd st) field
              (if empty_value (dget (fst st) field) then provenance_empty
               else [(''source'', JStr source_human), (''locked'', JBool False),
                     (''modified_by'', JNull), (''modified_at'', JNull)]))
      else st)"

definition orchestrate_fill :: "reference \<Rightarrow> dict \<Rightarrow> dict \<Rightarrow> fill_state \<Rightarrow> fill_state" where
  "orchestrate_fill rf actor_org ai_suggestions st =
     (let st1 = (if actor_org = [] then st else foldl (fill_identity actor_org) st identity_fields);
          st2 = derive rf st1;
          st3 = foldl fill_suggestion st2 ai_suggestions
      in foldl mark_rest st3 (map fst (fst st3)))"

section \<open>One pass is the fixpoint\<close>

lemma dset_dset [simp]: "dset (dset d k v) k w = dset d k w"
  by (induction d k v rule: dset.induct) auto

lemma dset_same: "map_of d k = Some v \<Longrightarrow> dset d k v = d"
  by (induction d k v rule: dset.induct) (auto split: if_splits)

lemma map_of_dget: "dget d k = v \<Longrightarrow> v \<noteq> JNull \<Longrightarrow> map_of d k = Some v"
  by (auto simp: dget_def split: option.splits)

text \<open>The effect of the loops on the state alone.\<close>

definition tset :: "string \<Rightarrow> json \<Rightarrow> fill_state \<Rightarrow> string \<Rightarrow> fill_state" where
  "tset trigger x st g =
     (if dget (fst st) g \<noteq> x \<or> prov_source (snd st) g \<noteq> JStr source_derived
      then (dset (fst st) g x, dset (snd st) g (provenance_for_derived trigger)) else st)"

definition tclr :: "fill_state \<Rightarrow> string \<Rightarrow> fill_state" where
  "tclr st g =
     (if prov_source (snd st) g = JStr source_derived
      then (dset (fst st) g (JStr []), dset (snd st) g provenance_empty) else st)"

lemma fst_set_target: "fst (set_target t r st g) = tset t (dget_or r g (JStr [])) (fst st) g"
  by (auto simp: set_target_def tset_def Let_def split: prod.splits)

lemma fst_clear_target: "fst (clear_target st g) = tclr (fst st) g"
  by (auto simp: clear_target_def tclr_def split: prod.splits)

lemma prov_source_dset [simp]:
  "prov_source (dset p g d) h = (if h = g then dget d ''source'' else prov_source p h)"
  by (simp add: prov_source_def prov_of_def)

lemma derived_source [simp]:
  "dget (provenance_for_derived t) ''source'' = JStr source_derived"
  "dget provenance_empty ''source'' = JStr source_empty"
  "source_empty \<noteq> source_derived"
  by (simp_all add: provenance_for_derived_def provenance_empty_def dget_def sources)

lemma tset_facts [simp]:
  "dget (fst (tset t x st g)) h = (if h = g then x else dget (fst st) h)"
  "prov_source (snd (tset t x st g)) h = (if h = g then JStr source_derived else prov_source (snd st) h)"
  by (auto simp: tset_def)

lemma tclr_facts [simp]:
  "dget (fst (tclr st g)) h =
     (if h = g \<and> prov_source (snd st) g = JStr source_derived then JStr [] else dget (fst st) h)"
  "prov_source (snd (tclr st g)) h =
     (if h = g \<and> prov_source (snd st) g = JStr source_derived then JStr source_empty
      else prov_source (snd st) h)"
  by (auto simp: tclr_def)

lemma target_other:
  "h \<noteq> g \<Longrightarrow> map_of (fst (tset t x st g)) h = map_of (fst st) h"
  "h \<noteq> g \<Longrightarrow> map_of (snd (tset t x st g)) h = map_of (snd st) h"
  "h \<noteq> g \<Longrightarrow> map_of (fst (tclr st g)) h = map_of (fst st) h"
  "h \<noteq> g \<Longrightarrow> map_of (snd (tclr st g)) h = map_of (snd st) h"
  by (simp_all add: tset_def tclr_def)

lemma tset_id: "dget (fst st) g = x \<Longrightarrow> prov_source (snd st) g = JStr source_derived \<Longrightarrow> tset t x st g = st"
  by (simp add: tset_def)

lemma tclr_id: "prov_source (snd st) g \<noteq> JStr source_derived \<Longrightarrow> tclr st g = st"
  by (simp add: tclr_def)

lemma dget_map_of: "map_of d k = Some v \<Longrightarrow> dget d k = v"
  by (simp add: dget_def)

text \<open>What a target holds after it was written, and that writing it back restores the state.\<close>

lemma tset_holds:
  "dget (fst st) g \<noteq> x \<or> prov_source (snd st) g \<noteq> JStr source_derived \<Longrightarrow>
   map_of (fst (tset t x st g)) g = Some x \<and>
   map_of (snd (tset t x st g)) g = Some (provenance_for_derived t)"
  by (simp add: tset_def)

lemma prov_source_map_of: "map_of p g = Some d \<Longrightarrow> prov_source p g = dget d ''source''"
  by (simp add: prov_source_def prov_of_def)

lemma tset_back:
  assumes "map_of (fst st) g = Some x" and "map_of (snd st) g = Some (provenance_for_derived t)"
  shows "tset t x (tset u y st g) g = st" and "tset t x (tclr st g) g = st"
  using assms by (auto simp: tset_def tclr_def prov_source_map_of dset_same dget_map_of)

lemma tclr_back:
  assumes "map_of (fst st) g = Some (JStr [])" and "map_of (snd st) g = Some provenance_empty"
  shows "tclr (tset u y st g) g = st"
  using assms by (auto simp: tset_def tclr_def prov_source_map_of dset_same dget_map_of)

text \<open>The two rules.\<close>

definition organ_rule :: "reference \<Rightarrow> fill_state \<Rightarrow> fill_state" where
  "organ_rule rf st =
     (let trig = dget (fst st) ''organ_code'';
          r = (\<lambda>g. dget_or (resolve_organ rf (py_str trig)) g (JStr []))
      in if empty_value trig
         then tclr (tclr (tclr st ''organ_name'') ''region_code'') ''region_name''
         else tset ''organ_code'' (r ''region_name'')
                (tset ''organ_code'' (r ''region_code'')
                  (tset ''organ_code'' (r ''organ_name'') st ''organ_name'') ''region_code'') ''region_name'')"

definition region_rule :: "reference \<Rightarrow> fill_state \<Rightarrow> fill_state" where
  "region_rule rf st =
     (let trig = dget (fst st) ''region_code''
      in if empty_value trig then tclr st ''region_name''
         else tset ''region_code'' (dget_or (resolve_region rf (py_str trig)) ''region_name'' (JStr []))
                st ''region_name'')"

lemma derive_pass_rules: "fst (derive_pass rf st) = region_rule rf (organ_rule rf st)"
  by (simp add: derive_pass_def derivation_rules_def apply_rule_def fst_set_target fst_clear_target
      organ_rule_def region_rule_def Let_def)

lemma pass_with_organ:
  fixes rf :: reference
  assumes "\<not> empty_value (dget (fst st) ''organ_code'')"
  defines "out \<equiv> region_rule rf (organ_rule rf st)"
  shows "region_rule rf (organ_rule rf out) = out"
proof -
  let ?r = "\<lambda>g. dget_or (resolve_organ rf (py_str (dget (fst st) ''organ_code''))) g (JStr [])"
  let ?s = "organ_rule rf st"
  have s: "dget (fst ?s) ''organ_code'' = dget (fst st) ''organ_code''"
    "\<And>g. g \<in> {''organ_name'', ''region_code'', ''region_name''} \<Longrightarrow>
       dget (fst ?s) g = ?r g \<and> prov_source (snd ?s) g = JStr source_derived"
    using assms(1) by (auto simp: organ_rule_def Let_def)
  have again: "organ_rule rf out = tset ''organ_code'' (?r ''region_name'') out ''region_name''"
    using assms(1) s by (simp add: organ_rule_def out_def region_rule_def Let_def tset_id)
  have code: "dget (fst out) ''region_code'' = ?r ''region_code''"
    using s(2) by (simp add: out_def region_rule_def Let_def)
  show ?thesis
  proof (cases "empty_value (?r ''region_code'')")
    case True
    then have out: "out = tclr ?s ''region_name''"
      using s(2) by (simp add: out_def region_rule_def Let_def)
    then have "map_of (fst out) ''region_name'' = Some (JStr [])"
      "map_of (snd out) ''region_name'' = Some provenance_empty"
      using s(2) by (simp_all add: tclr_def)
    then have "tclr (organ_rule rf out) ''region_name'' = out"
      unfolding again by (rule tclr_back)
    then show ?thesis
      using True code by (simp add: region_rule_def again Let_def)
  next
    case False
    let ?q = "dget_or (resolve_region rf (py_str (?r ''region_code''))) ''region_name'' (JStr [])"
    have out: "out = tset ''region_code'' ?q ?s ''region_name''"
      using False s(2) by (simp add: out_def region_rule_def Let_def)
    have "tset ''region_code'' ?q (organ_rule rf out) ''region_name'' = out"
    proof (cases "?q = ?r ''region_name''")
      case True
      then show ?thesis unfolding again using out by (simp add: tset_id)
    next
      case False
      then have "map_of (fst out) ''region_name'' = Some ?q"
        "map_of (snd out) ''region_name'' = Some (provenance_for_derived ''region_code'')"
        using tset_holds [of ?s "''region_name''" ?q "''region_code''"] s(2) out by auto
      then show ?thesis unfolding again by (rule tset_back)
    qed
    then show ?thesis
      using False code by (simp add: region_rule_def again Let_def)
  qed
qed

lemma pass_without_organ:
  fixes rf :: reference
  assumes "empty_value (dget (fst st) ''organ_code'')"
  defines "out \<equiv> region_rule rf (organ_rule rf st)"
  shows "region_rule rf (organ_rule rf out) = out"
proof -
  let ?s = "organ_rule rf st"
  have s: "dget (fst ?s) ''organ_code'' = dget (fst st) ''organ_code''"
    "\<And>g. g \<in> {''organ_name'', ''region_code'', ''region_name''} \<Longrightarrow>
       prov_source (snd ?s) g \<noteq> JStr source_derived"
    using assms(1) by (auto simp: organ_rule_def Let_def)
  have again: "organ_rule rf out = tclr out ''region_name''"
    using assms(1) s by (simp add: organ_rule_def out_def region_rule_def Let_def tclr_id)
  have code: "dget (fst out) ''region_code'' = dget (fst ?s) ''region_code''"
    using s(2) by (simp add: out_def region_rule_def Let_def)
  show ?thesis
  proof (cases "empty_value (dget (fst ?s) ''region_code'')")
    case True
    then have out: "out = ?s" using s(2) by (simp add: out_def region_rule_def Let_def tclr_id)
    moreover have "organ_rule rf out = out" using again out s(2) by (simp add: tclr_id)
    ultimately show ?thesis by (simp add: out_def)
  next
    case False
    let ?q = "dget_or (resolve_region rf (py_str (dget (fst ?s) ''region_code''))) ''region_name'' (JStr [])"
    have out: "out = tset ''region_code'' ?q ?s ''region_name''"
      using False by (simp add: out_def region_rule_def Let_def)
    have "map_of (fst out) ''region_name'' = Some ?q"
      "map_of (snd out) ''region_name'' = Some (provenance_for_derived ''region_code'')"
      using tset_holds [of ?s "''region_name''" ?q "''region_code''"] s(2) out by auto
    then have "tset ''region_code'' ?q (organ_rule rf out) ''region_name'' = out"
      unfolding again by (rule tset_back)
    then show ?thesis
      using False code by (simp add: region_rule_def again Let_def)
  qed
qed

lemma derive_pass_idem: "fst (derive_pass rf (fst (derive_pass rf st))) = fst (derive_pass rf st)"
  using pass_with_organ [of st rf] pass_without_organ [of st rf] by (auto simp: derive_pass_rules)

lemma derive_loop_fix: "fst (derive_pass rf st) = st \<Longrightarrow> derive_loop n rf st = st"
  by (induction n) (auto split: prod.splits)

lemma derive_eq_pass: "derive rf st = region_rule rf (organ_rule rf st)"
proof -
  have "derive_loop (Suc n) rf st = fst (derive_pass rf st)" for n
    using derive_loop_fix [OF derive_pass_idem, of n rf st] by (auto split: prod.splits)
  then show ?thesis
    by (simp add: derive_def max_passes_def derive_pass_rules [symmetric] numeral_eq_Suc del: derive_loop.simps)
qed

section \<open>Properties\<close>

text \<open>C4: the five-pass bound of \<^verbatim>\<open>derive\<close> never decides its result: because the rules are
  declared in the order of their dependencies, the loop ends with what one pass of them
  gives, and deriving again changes neither a value nor a provenance entry.\<close>

theorem derive_fixpoint:
  "derive rf st = fst (derive_pass rf st) \<and> derive rf (derive rf st) = derive rf st"
  using derive_pass_idem [of rf st] by (simp add: derive_eq_pass derive_pass_rules)

definition derived_targets :: "string set" where
  "derived_targets = {''organ_name'', ''region_code'', ''region_name''}"

lemma derive_frame:
  "f \<notin> derived_targets \<Longrightarrow>
   map_of (fst (derive rf st)) f = map_of (fst st) f \<and> map_of (snd (derive rf st)) f = map_of (snd st) f"
  by (simp add: derive_eq_pass region_rule_def organ_rule_def Let_def derived_targets_def target_other)

lemma foldl_frame:
  assumes "\<And>st x. P st \<Longrightarrow> x \<in> set xs \<Longrightarrow> P (f st x)" and "P st"
  shows "P (foldl f st xs)"
  using assms
proof (induction xs arbitrary: st)
  case (Cons x xs)
  then show ?case using Cons.IH [of "f st x"] by simp
qed simp

lemma orchestrate_keeps_human:
  assumes "f \<notin> derived_targets" and "map_of (fst st) f = Some v" and "map_of (snd st) f = Some d"
    and "dget d ''source'' = JStr source_human"
  shows "map_of (fst (orchestrate_fill rf org sugg st)) f = Some v \<and>
    map_of (snd (orchestrate_fill rf org sugg st)) f = Some d"
proof -
  let ?P = "\<lambda>st :: fill_state. map_of (fst st) f = Some v \<and> map_of (snd st) f = Some d"
  have src: "?P st \<Longrightarrow> prov_source (snd st) f = JStr source_human" "?P st \<Longrightarrow> prov_of (snd st) f = d" for st
    using assms(4) by (simp_all add: prov_source_map_of prov_of_def)
  define st1 where "st1 = (if org = [] then st else foldl (fill_identity org) st identity_fields)"
  have "?P st1"
    unfolding st1_def using assms(2,3) src
    by (auto intro!: foldl_frame [where P = ?P] simp: fill_identity_def Let_def)
  then have derived: "?P (derive rf st1)" using derive_frame [OF assms(1), of rf st1] by simp
  have sugg_step: "?P (fill_suggestion st x)" if "?P st" for st x
    using that src(2) [OF that] assms(4)
    by (cases x) (auto simp: fill_suggestion_def Let_def)
  have filled: "?P (foldl fill_suggestion (derive rf st1) sugg)"
    by (rule foldl_frame [where P = ?P]) (use sugg_step derived in auto)
  have mark_step: "?P (mark_rest st x)" if "?P st" for st x
    using that by (auto simp: mark_rest_def)
  have "?P (foldl mark_rest (foldl fill_suggestion (derive rf st1) sugg)
      (map fst (fst (foldl fill_suggestion (derive rf st1) sugg))))"
    by (rule foldl_frame [where P = ?P]) (use mark_step filled in auto)
  then show ?thesis by (simp add: orchestrate_fill_def Let_def st1_def)
qed

text \<open>what a person typed into a field that is not derived stands, with its human
  provenance, after the edit and after any later automatic filling, whatever the identity,
  the reference data and the suggestions are.\<close>

lemma human_edit_survives:
  assumes "f \<notin> derived_targets"
  shows "map_of (fst (apply_human_edit rf now actor f v st)) f = Some v \<and>
    map_of (snd (apply_human_edit rf now actor f v st)) f = Some (provenance_for_human now actor) \<and>
    map_of (fst (orchestrate_fill rf' org sugg (apply_human_edit rf now actor f v st))) f = Some v \<and>
    map_of (snd (orchestrate_fill rf' org sugg (apply_human_edit rf now actor f v st))) f =
      Some (provenance_for_human now actor)"
proof -
  let ?st = "apply_human_edit rf now actor f v st"
  have st: "map_of (fst ?st) f = Some v" "map_of (snd ?st) f = Some (provenance_for_human now actor)"
    using derive_frame [OF assms, of rf "(dset (fst st) f v, dset (snd st) f (provenance_for_human now actor))"]
    by (simp_all add: apply_human_edit_def)
  have "dget (provenance_for_human now actor) ''source'' = JStr source_human"
    by (simp add: provenance_for_human_def dget_def)
  with st show ?thesis
    using orchestrate_keeps_human [OF assms st, of rf' org sugg] by simp
qed

end
