(* ===== verification/FormFill.thy ===== *)
theory FormFill
  imports FieldDerivation "HOL-Library.List_Lexorder" "HOL-Library.Char_ord"
begin

text \<open>
  \<^verbatim>\<open>domain/services/form_fill_service.py\<close>: the fields of the J1 application form, the
  filling of a new draft, the rows shown to the user and the provenance snapshot taken at
  submission.
\<close>

record field_spec =
  sf_key :: string
  sf_label :: string
  sf_kind :: string
  sf_ai :: bool

definition form_field_specs :: "field_spec list" where
  "form_field_specs =
     [\<lparr>sf_key = ''organ_code'', sf_label = lbl_f_organ, sf_kind = ''org'', sf_ai = False\<rparr>,
      \<lparr>sf_key = ''organ_name'', sf_label = lbl_f_organ_name, sf_kind = ''derived'', sf_ai = False\<rparr>,
      \<lparr>sf_key = ''region_code'', sf_label = lbl_f_region, sf_kind = ''region'', sf_ai = False\<rparr>,
      \<lparr>sf_key = ''region_name'', sf_label = lbl_f_region_name, sf_kind = ''derived'', sf_ai = False\<rparr>,
      \<lparr>sf_key = ''applicant_org'', sf_label = lbl_f_applicant, sf_kind = ''derived'', sf_ai = False\<rparr>,
      \<lparr>sf_key = ''purpose'', sf_label = lbl_f_purpose, sf_kind = ''text'', sf_ai = True\<rparr>,
      \<lparr>sf_key = ''use_reason'', sf_label = lbl_f_reason, sf_kind = ''text'', sf_ai = True\<rparr>,
      \<lparr>sf_key = ''apply_domain'', sf_label = lbl_f_domain, sf_kind = ''enum'', sf_ai = False\<rparr>,
      \<lparr>sf_key = ''scope'', sf_label = lbl_f_scope, sf_kind = ''text'', sf_ai = True\<rparr>,
      \<lparr>sf_key = ''delivery_expectation'', sf_label = lbl_f_delivery, sf_kind = ''text'', sf_ai = False\<rparr>]"

definition field_keys :: "string list" where
  "field_keys = map sf_key form_field_specs"

definition is_known_field :: "string \<Rightarrow> bool" where
  "is_known_field k \<longleftrightarrow> k \<in> set field_keys"

definition state_label :: "(string \<times> string) list" where
  "state_label =
     [(source_human, lbl_st_human), (source_derived, lbl_st_derived),
      (''ai_suggested'', lbl_st_ai), (source_empty, lbl_st_empty)]"

definition initial_field :: "dict \<Rightarrow> fill_state \<Rightarrow> string \<Rightarrow> fill_state" where
  "initial_field user_values st key =
     (let v = dget user_values key
      in (dset (fst st) key (if v \<noteq> JNull then v else JStr []),
          if empty_value v then snd st
          else dset (snd st) key
                 [(''source'', JStr source_human), (''locked'', JBool True), (''modified_by'', JNull),
                  (''modified_at'', JNull)]))"

definition build_initial :: "reference \<Rightarrow> dict \<Rightarrow> dict \<Rightarrow> dict \<Rightarrow> fill_state" where
  "build_initial rf user_values actor_org ai_suggestions =
     orchestrate_fill rf actor_org ai_suggestions (foldl (initial_field user_values) ([], []) field_keys)"

text \<open>\<^verbatim>\<open>_STATE_LABEL.get(source, source)\<close> for a source that is text.\<close>

definition label_of_source :: "json \<Rightarrow> json" where
  "label_of_source source =
     (case source of
        JStr s \<Rightarrow> (case map_of state_label s of Some l \<Rightarrow> JStr l | None \<Rightarrow> source)
      | _ \<Rightarrow> source)"

definition form_row :: "fill_state \<Rightarrow> field_spec \<Rightarrow> dict" where
  "form_row st spec =
     (let key = sf_key spec;
          prov = (if prov_of (snd st) key = []
                  then [(''source'', JStr source_empty), (''locked'', JBool False)]
                  else prov_of (snd st) key);
          source = dget_or prov ''source'' (JStr source_empty);
          kind = sf_kind spec;
          editable = (kind \<noteq> ''derived'' \<and> source \<noteq> JStr source_derived)
      in [(''key'', JStr key), (''label'', JStr (sf_label spec)), (''kind'', JStr kind),
          (''value'', dget_or (fst st) key (JStr [])), (''source'', source),
          (''locked'', JBool (truthy (dget prov ''locked''))),
          (''state'', py_or (dget prov ''state'') source),
          (''stateLabel'', label_of_source source), (''editable'', JBool editable),
          (''aiSuggestable'', JBool (sf_ai spec)),
          (''dictType'', if kind = ''enum''
             then (case map_of field_enum_dict_type key of Some t \<Rightarrow> JStr t | None \<Rightarrow> JNull) else JNull)])"

definition assemble_form_fields :: "fill_state \<Rightarrow> dict list" where
  "assemble_form_fields st = map (form_row st) form_field_specs"

definition fields_with_source :: "provenance \<Rightarrow> string \<Rightarrow> string list" where
  "fields_with_source p src = map fst (filter (\<lambda>(k, d). dget d ''source'' = JStr src) p)"

definition provenance_audit_snapshot :: "provenance \<Rightarrow> dict" where
  "provenance_audit_snapshot p =
     [(''ai_suggested_fields'', JList (map JStr (sort (fields_with_source p ''ai_suggested'')))),
      (''human_fields'', JList (map JStr (sort (fields_with_source p source_human)))),
      (''derived_fields'', JList (map JStr (sort (fields_with_source p source_derived)))),
      (''ai_unconfirmed_count'', JInt (int (length (fields_with_source p ''ai_suggested''))))]"

section \<open>Every filled field has a provenance\<close>

lemma mark_rest_keys:
  "set xs \<subseteq> dom (map_of (snd (foldl mark_rest st xs))) \<and>
   dom (map_of (snd st)) \<subseteq> dom (map_of (snd (foldl mark_rest st xs))) \<and>
   fst (foldl mark_rest st xs) = fst st"
proof (induction xs arbitrary: st)
  case (Cons x xs)
  have "x \<in> dom (map_of (snd (mark_rest st x)))" "dom (map_of (snd st)) \<subseteq> dom (map_of (snd (mark_rest st x)))"
    "fst (mark_rest st x) = fst st"
    by (auto simp: mark_rest_def)
  then show ?case
    using Cons.IH [of "mark_rest st x"] by (simp del: dom_def) (meson subsetD subset_trans)
qed simp

lemma initial_fields:
  assumes "k \<in> set keys" and "\<not> empty_value (dget user k)"
  shows "map_of (fst (foldl (initial_field user) st keys)) k = Some (dget user k) \<and>
    (\<exists>d. map_of (snd (foldl (initial_field user) st keys)) k = Some d \<and> dget d ''source'' = JStr source_human)"
  using assms(1)
proof (induction keys rule: rev_induct)
  case (snoc x keys)
  then show ?case
    using assms(2) by (auto simp: initial_field_def Let_def empty_value_def dget_def)
qed simp

text \<open>after a draft is filled every field with a value entry has a provenance entry, and
  a form field the user filled in keeps the user's value unless a rule derives that field.\<close>

lemma build_initial_complete:
  "fst ` set (fst (build_initial rf user org sugg)) \<subseteq> fst ` set (snd (build_initial rf user org sugg)) \<and>
   (k \<in> set field_keys \<and> k \<notin> derived_targets \<and> \<not> empty_value (dget user k) \<longrightarrow>
      map_of (fst (build_initial rf user org sugg)) k = Some (dget user k))"
proof -
  let ?st1 = "foldl (initial_field user) ([], []) field_keys"
  let ?st2 = "foldl fill_suggestion
      (derive rf (if org = [] then ?st1 else foldl (fill_identity org) ?st1 identity_fields)) sugg"
  have "build_initial rf user org sugg = foldl mark_rest ?st2 (map fst (fst ?st2))"
    by (simp add: build_initial_def orchestrate_fill_def Let_def)
  then have "fst ` set (fst (build_initial rf user org sugg)) \<subseteq> fst ` set (snd (build_initial rf user org sugg))"
    using mark_rest_keys [of "map fst (fst ?st2)" ?st2] by (simp add: dom_map_of_conv_image_fst)
  moreover have "map_of (fst (build_initial rf user org sugg)) k = Some (dget user k)"
    if k: "k \<in> set field_keys" "k \<notin> derived_targets" "\<not> empty_value (dget user k)"
    using initial_fields [OF k(1,3), of "([], [])"] orchestrate_keeps_human [OF k(2), of ?st1 "dget user k"]
    by (auto simp: build_initial_def)
  ultimately show ?thesis by blast
qed

end
