(* ===== verification/TemplateRepo.thy ===== *)
theory TemplateRepo
  imports FlowSchema FlowRepo
begin

text \<open>
  The template repository in the form the form and recommendation-rule engines copy it
  (\<^verbatim>\<open>FormSchemaRepo\<close>, \<^verbatim>\<open>RecommendationRuleRepo\<close>): the operations, with the payload
  validation and the projection to child tables as arguments. The three template tables have
  the same columns, so their rows share the record of \<^verbatim>\<open>FlowRepo\<close>.
\<close>

section \<open>Operations\<close>

datatype 'e template_error =
    TplPayload 'e
  | TplNotFound string
  | TplStatusInvalid string
  | TplTransition string string
  | TplIntegrity
  | TplPy py_error

record 'c template_db =
  tdb_rows :: "flow_row list"
  tdb_children :: 'c
  tdb_next :: nat

type_synonym 'c projection = "(nat \<Rightarrow> string) \<Rightarrow> string \<Rightarrow> dict \<Rightarrow> 'c \<times> nat \<Rightarrow> py_error + ('c \<times> nat)"

definition tpl_insert :: "flow_row \<Rightarrow> 'c template_db \<Rightarrow> 'e template_error + 'c template_db" where
  "tpl_insert r db =
     (if flow_key r \<in> flow_key ` set (tdb_rows db) \<or> fs_id r \<in> fs_id ` set (tdb_rows db)
      then Inl TplIntegrity
      else Inr (db\<lparr>tdb_rows := tdb_rows db @ [r]\<rparr>))"

definition tpl_update :: "flow_row \<Rightarrow> 'c template_db \<Rightarrow> 'e template_error + 'c template_db" where
  "tpl_update r db =
     (if \<exists>x \<in> set (tdb_rows db). fs_id x \<noteq> fs_id r \<and> flow_key x = flow_key r
      then Inl TplIntegrity
      else Inr (db\<lparr>tdb_rows := put_row fs_id r (tdb_rows db)\<rparr>))"

definition tpl_create ::
    "(json \<Rightarrow> 'e + unit) \<Rightarrow> 'c projection \<Rightarrow> (nat \<Rightarrow> string) \<Rightarrow> nat \<Rightarrow> draft_args \<Rightarrow> 'c template_db \<Rightarrow>
     'e template_error + (flow_row \<times> 'c template_db)" where
  "tpl_create validate project uuid now a db =
     bindE (raiseE TplPayload (validate (da_payload a))) (\<lambda>_.
     let existing_max = max_version fs_version (same_code (da_tenant a) (da_code a)) (tdb_rows db);
         row = \<lparr>fs_id = uuid (tdb_next db), fs_tenant = da_tenant a, fs_code = da_code a,
                fs_title = da_title a, fs_status = ''draft'', fs_version = existing_max + 1,
                fs_source_kind = da_source_kind a, fs_source_text = da_source_text a,
                fs_payload = da_payload a, fs_created_by = da_created_by a,
                fs_created_at = now, fs_updated_at = now, fs_committed_at = None\<rparr>
     in bindE (tpl_insert row (db\<lparr>tdb_next := Suc (tdb_next db)\<rparr>)) (\<lambda>db1.
        bindE (raiseE TplPy (project uuid (fs_id row) (case da_payload a of JObj d \<Rightarrow> d | _ \<Rightarrow> [])
                 (tdb_children db1, tdb_next db1))) (\<lambda>(cs, n).
        Inr (row, db1\<lparr>tdb_children := cs, tdb_next := max n (tdb_next db1)\<rparr>))))"

definition tpl_require :: "'c template_db \<Rightarrow> string \<Rightarrow> 'e template_error + flow_row" where
  "tpl_require db i =
     (case row_by fs_id i (tdb_rows db) of
        None \<Rightarrow> Inl (TplNotFound i)
      | Some r \<Rightarrow>
          if fs_status r \<in> set valid_flow_statuses then Inr r
          else Inl (TplStatusInvalid (fs_status r)))"

definition tpl_promote ::
    "(json \<Rightarrow> 'e + unit) \<Rightarrow> nat \<Rightarrow> string \<Rightarrow> 'c template_db \<Rightarrow>
     'e template_error + (flow_row \<times> 'c template_db)" where
  "tpl_promote validate now i db =
     bindE (tpl_require db i) (\<lambda>r.
     bindE (guardE (fs_status r = ''draft'') (TplTransition ''draft'' (fs_status r))) (\<lambda>_.
     bindE (raiseE TplPayload (validate (fs_payload r))) (\<lambda>_.
     let r' = r\<lparr>fs_status := ''preview'', fs_updated_at := now\<rparr>
     in bindE (tpl_update r' db) (\<lambda>db'. Inr (r', db')))))"

definition tpl_revert ::
    "nat \<Rightarrow> string \<Rightarrow> 'c template_db \<Rightarrow> 'e template_error + (flow_row \<times> 'c template_db)" where
  "tpl_revert now i db =
     bindE (tpl_require db i) (\<lambda>r.
     bindE (guardE (fs_status r = ''preview'') (TplTransition ''preview'' (fs_status r))) (\<lambda>_.
     let r' = r\<lparr>fs_status := ''draft'', fs_updated_at := now\<rparr>
     in bindE (tpl_update r' db) (\<lambda>db'. Inr (r', db'))))"

definition tpl_live_version :: "'c template_db \<Rightarrow> flow_row \<Rightarrow> int" where
  "tpl_live_version db r =
     max (max_version fs_version (same_code (fs_tenant r) (fs_code r)) (tdb_rows db) + 1)
         ((if fs_version r = 0 then 1 else fs_version r) + 1)"

definition tpl_commit ::
    "(json \<Rightarrow> 'e + unit) \<Rightarrow> nat \<Rightarrow> string \<Rightarrow> 'c template_db \<Rightarrow>
     'e template_error + (flow_row \<times> 'c template_db)" where
  "tpl_commit validate now i db =
     bindE (tpl_require db i) (\<lambda>r.
     bindE (guardE (fs_status r = ''preview'') (TplTransition ''preview'' (fs_status r))) (\<lambda>_.
     bindE (raiseE TplPayload (validate (fs_payload r))) (\<lambda>_.
     let r' = r\<lparr>fs_status := ''live'', fs_version := tpl_live_version db r,
                fs_committed_at := Some now, fs_updated_at := now\<rparr>
     in bindE (tpl_update r' db) (\<lambda>db'. Inr (r', db')))))"

definition tpl_list :: "'c template_db \<Rightarrow> string \<Rightarrow> flow_row list" where
  "tpl_list db tenant = sort_key fs_created_at (filter (\<lambda>r. fs_tenant r = tenant) (tdb_rows db))"

datatype template_op =
    TCreate nat draft_args
  | TPromote nat string
  | TRevert nat string
  | TCommit nat string

definition tpl_step ::
    "(json \<Rightarrow> 'e + unit) \<Rightarrow> 'c projection \<Rightarrow> (nat \<Rightarrow> string) \<Rightarrow> 'c template_db \<Rightarrow> template_op \<Rightarrow>
     'e template_error + 'c template_db" where
  "tpl_step validate project uuid db op =
     bindE (case op of
              TCreate now a \<Rightarrow> tpl_create validate project uuid now a db
            | TPromote now i \<Rightarrow> tpl_promote validate now i db
            | TRevert now i \<Rightarrow> tpl_revert now i db
            | TCommit now i \<Rightarrow> tpl_commit validate now i db) (\<lambda>(r, db'). Inr db')"

definition tpl_status :: "'c template_db \<Rightarrow> string \<Rightarrow> string option" where
  "tpl_status db i = map_option fs_status (row_by fs_id i (tdb_rows db))"

section \<open>The invariant\<close>

definition tpl_row_ok :: "(json \<Rightarrow> 'e + unit) \<Rightarrow> flow_row \<Rightarrow> bool" where
  "tpl_row_ok validate r \<longleftrightarrow> fs_status r \<in> set valid_flow_statuses \<and> 1 \<le> fs_version r \<and>
     validate (fs_payload r) = Inr () \<and> (fs_status r = ''live'' \<longleftrightarrow> fs_committed_at r \<noteq> None)"

definition tpl_inv :: "(json \<Rightarrow> 'e + unit) \<Rightarrow> (nat \<Rightarrow> string) \<Rightarrow> 'c template_db \<Rightarrow> bool" where
  "tpl_inv validate uuid db \<longleftrightarrow> inj uuid \<and>
     unique_on fs_id (tdb_rows db) \<and> unique_on flow_key (tdb_rows db) \<and>
     (\<forall>r \<in> set (tdb_rows db). tpl_row_ok validate r \<and> (\<exists>n < tdb_next db. fs_id r = uuid n))"

definition tpl_moved :: "'c template_db \<Rightarrow> flow_row \<Rightarrow> flow_row \<Rightarrow> bool" where
  "tpl_moved db r r' \<longleftrightarrow>
     fs_id r' = fs_id r \<and> fs_tenant r' = fs_tenant r \<and> fs_code r' = fs_code r \<and>
     fs_payload r' = fs_payload r \<and> template_move (fs_status r) (fs_status r') \<and>
     (if fs_status r' = ''live''
      then fs_version r' = tpl_live_version db r \<and> fs_committed_at r' \<noteq> None
      else fs_version r' = fs_version r \<and> fs_committed_at r' = fs_committed_at r)"

lemma tpl_create_Inr:
  assumes "tpl_create validate project uuid now a db = Inr (r, db')"
  shows "validate (da_payload a) = Inr () \<and> tdb_rows db' = tdb_rows db @ [r] \<and>
    tdb_next db < tdb_next db' \<and> fs_id r = uuid (tdb_next db) \<and> fs_status r = ''draft'' \<and>
    fs_version r = max_version fs_version (same_code (da_tenant a) (da_code a)) (tdb_rows db) + 1 \<and>
    fs_payload r = da_payload a \<and> fs_committed_at r = None \<and>
    flow_key r \<notin> flow_key ` set (tdb_rows db) \<and> fs_id r \<notin> fs_id ` set (tdb_rows db)"
  using assms
  by (auto simp: tpl_create_def tpl_insert_def Let_def bindE_Inr_iff raiseE_Inr_iff split: if_splits)

lemma tpl_move_Inr:
  assumes "tpl_update r' db = Inr db'" and "tpl_require db i = Inr r" and "tpl_moved db r r'"
  shows "\<exists>r r'. r \<in> set (tdb_rows db) \<and> tpl_moved db r r' \<and>
    tdb_next db' = tdb_next db \<and> tdb_rows db' = put_row fs_id r' (tdb_rows db)"
  using assms
  by (intro exI [of _ r] exI [of _ r'])
    (auto simp: tpl_update_def tpl_require_def split: if_splits option.splits dest: row_by_SomeD)

lemma tpl_step_cases:
  assumes "tpl_step validate project uuid db op = Inr db'"
  obtains (birth) now a r where "op = TCreate now a" "tpl_create validate project uuid now a db = Inr (r, db')"
  | (move) r r' where "r \<in> set (tdb_rows db)" "tpl_moved db r r'"
      "tdb_next db' = tdb_next db" "tdb_rows db' = put_row fs_id r' (tdb_rows db)"
proof (cases op)
  case (TCreate now a)
  then show ?thesis using assms birth by (auto simp: tpl_step_def bindE_Inr_iff)
next
  case (TPromote now i)
  then obtain r where "tpl_require db i = (Inr r :: 'a template_error + flow_row)" "fs_status r = ''draft''"
      "tpl_update (r\<lparr>fs_status := ''preview'', fs_updated_at := now\<rparr>) db = (Inr db' :: 'a template_error + _)"
    using assms by (auto simp: tpl_step_def tpl_promote_def Let_def bindE_Inr_iff)
  then show ?thesis
    using move tpl_move_Inr [of "r\<lparr>fs_status := ''preview'', fs_updated_at := now\<rparr>" db db' i r]
    by (auto simp: tpl_moved_def template_move_def)
next
  case (TRevert now i)
  then obtain r where "tpl_require db i = (Inr r :: 'a template_error + flow_row)" "fs_status r = ''preview''"
      "tpl_update (r\<lparr>fs_status := ''draft'', fs_updated_at := now\<rparr>) db = (Inr db' :: 'a template_error + _)"
    using assms by (auto simp: tpl_step_def tpl_revert_def Let_def bindE_Inr_iff)
  then show ?thesis
    using move tpl_move_Inr [of "r\<lparr>fs_status := ''draft'', fs_updated_at := now\<rparr>" db db' i r]
    by (auto simp: tpl_moved_def template_move_def)
next
  case (TCommit now i)
  then obtain r where "tpl_require db i = (Inr r :: 'a template_error + flow_row)" "fs_status r = ''preview''"
      "tpl_update (r\<lparr>fs_status := ''live'', fs_version := tpl_live_version db r,
                fs_committed_at := Some now, fs_updated_at := now\<rparr>) db = (Inr db' :: 'a template_error + _)"
    using assms by (auto simp: tpl_step_def tpl_commit_def Let_def bindE_Inr_iff)
  then show ?thesis
    using move tpl_move_Inr [of "r\<lparr>fs_status := ''live'', fs_version := tpl_live_version db r,
                fs_committed_at := Some now, fs_updated_at := now\<rparr>" db db' i r]
    by (auto simp: tpl_moved_def template_move_def)
qed

lemma tpl_live_version_gt:
  "x \<in> set (tdb_rows db) \<Longrightarrow> fs_tenant x = fs_tenant r \<Longrightarrow> fs_code x = fs_code r \<Longrightarrow>
   fs_version x < tpl_live_version db r"
  using max_version_upper [of x "tdb_rows db" "same_code (fs_tenant r) (fs_code r)" fs_version]
  by (auto simp: tpl_live_version_def same_code_def)

lemma tpl_key_moved:
  assumes "unique_on flow_key (tdb_rows db)" "r \<in> set (tdb_rows db)" "tpl_moved db r r'"
    and "x \<in> set (tdb_rows db)" "fs_id x \<noteq> fs_id r'"
  shows "flow_key x \<noteq> flow_key r'"
proof
  assume eq: "flow_key x = flow_key r'"
  show False
  proof (cases "fs_status r' = ''live''")
    case True
    then have "fs_version x < fs_version r'"
      using tpl_live_version_gt [OF assms(4), of r] assms(3) eq by (auto simp: tpl_moved_def flow_key_def)
    then show False using eq by (simp add: flow_key_def)
  next
    case False
    then have "flow_key r' = flow_key r" using assms(3) by (auto simp: tpl_moved_def flow_key_def)
    then have "x = r"
      using eq assms(1,2,4) by (auto simp: unique_on_def distinct_map dest: inj_onD)
    then show False using assms(3,5) by (simp add: tpl_moved_def)
  qed
qed

lemma tpl_row_ok_moved: "tpl_row_ok validate r \<Longrightarrow> tpl_moved db r r' \<Longrightarrow> tpl_row_ok validate r'"
proof -
  assume ok: "tpl_row_ok validate r" and mv: "tpl_moved db r r'"
  have "1 \<le> tpl_live_version db r"
    using ok by (auto simp: tpl_live_version_def tpl_row_ok_def)
  then show ?thesis
    using ok mv by (auto simp: tpl_row_ok_def tpl_moved_def template_move_def flow_vocabulary split: if_splits)
qed

lemma tpl_inv_step:
  assumes inv: "tpl_inv validate uuid db" and step: "tpl_step validate project uuid db op = Inr db'"
  shows "tpl_inv validate uuid db'"
  using step
proof (cases rule: tpl_step_cases)
  case (birth now a r)
  note new = tpl_create_Inr [OF birth(2)]
  have "0 \<le> max_version fs_version (same_code (da_tenant a) (da_code a)) (tdb_rows db)"
    using inv by (intro max_version_ge0) (auto simp: tpl_inv_def tpl_row_ok_def)
  then have "tpl_row_ok validate r" using new by (simp add: tpl_row_ok_def flow_vocabulary)
  moreover have "\<exists>n < tdb_next db'. fs_id x = uuid n" if x: "x \<in> set (tdb_rows db')" for x
  proof (cases "x = r")
    case False
    then obtain n where "n < tdb_next db" "fs_id x = uuid n"
      using x new inv by (auto simp: tpl_inv_def)
    then show ?thesis using new by (meson less_trans)
  qed (use new in auto)
  ultimately show ?thesis
    using inv new by (auto simp: tpl_inv_def unique_on_def)
next
  case (move r r')
  have "unique_on flow_key (tdb_rows db')"
    unfolding move(4) using inv tpl_key_moved [OF _ move(1,2)]
    by (intro unique_on_put_row) (auto simp: tpl_inv_def)
  moreover have "unique_on fs_id (tdb_rows db')"
    using inv by (simp add: tpl_inv_def unique_on_def move(4))
  moreover have "tpl_row_ok validate x \<and> (\<exists>n < tdb_next db'. fs_id x = uuid n)" if "x \<in> set (tdb_rows db')" for x
    using in_put_row [of x fs_id r' "tdb_rows db"] that inv move tpl_row_ok_moved [OF _ move(2)]
    by (auto simp: tpl_inv_def tpl_moved_def)
  ultimately show ?thesis using inv by (simp add: tpl_inv_def)
qed

lemma tpl_status_moves:
  assumes "tpl_inv validate uuid db" and "tpl_step validate project uuid db op = Inr db'"
    and "tpl_status db i = Some a"
  shows "\<exists>b. tpl_status db' i = Some b \<and> (a = b \<or> template_move a b)"
  using assms(2)
proof (cases rule: tpl_step_cases)
  case (birth now x r)
  then show ?thesis
    using tpl_create_Inr [OF birth(2)] assms(3) by (auto simp: tpl_status_def row_by_append)
next
  case (move r r')
  have "fs_id r = fs_id r'" using move(2) by (simp add: tpl_moved_def)
  moreover from this have "row_by fs_id (fs_id r') (tdb_rows db) = Some r"
    using assms(1) move(1) by (simp add: row_by_Some_iff tpl_inv_def)
  ultimately show ?thesis
    using assms(3) move row_by_put_row [OF move(1), where r = r' and j = i]
    by (auto simp: tpl_status_def tpl_moved_def)
qed

lemma tpl_status_births:
  assumes "tpl_step validate project uuid db op = Inr db'" and "tpl_status db i = None"
    and "tpl_status db' i = Some b"
  shows "b = ''draft''"
  using assms(1)
proof (cases rule: tpl_step_cases)
  case (birth now x r)
  then show ?thesis
    using tpl_create_Inr [OF birth(2)] assms(2,3)
    by (auto simp: tpl_status_def row_by_append row_by_Cons split: if_splits)
next
  case (move r r')
  have "i \<notin> set (map fs_id (tdb_rows db))"
    using assms(2) by (simp add: tpl_status_def row_by_None_iff)
  then have "i \<notin> set (map fs_id (tdb_rows db'))"
    unfolding move(4) map_put_row_id .
  then have "row_by fs_id i (tdb_rows db') = None"
    by (simp add: row_by_None_iff)
  then show ?thesis using assms(3) by (simp add: tpl_status_def)
qed

end
