(* ===== verification/FormSchema.thy ===== *)
theory FormSchema
  imports TemplateRepo
begin

text \<open>
  Form templates (\<^verbatim>\<open>domain/form_schema.py\<close>): validation of a payload, the projection to
  the section, field and validator tables, the projection to a JSON schema, and the
  repository as an instance of \<^verbatim>\<open>TemplateRepo\<close>.
\<close>

section \<open>Vocabulary\<close>

definition valid_field_types :: "string list" where
  "valid_field_types =
     [''text'', ''textarea'', ''number'', ''date'', ''datetime'', ''select'', ''multiselect'',
      ''checkbox'', ''file'', ''user_picker'', ''org_picker'']"

definition valid_validator_kinds :: "string list" where
  "valid_validator_kinds =
     [''regex'', ''range'', ''length'', ''enum'', ''file_size'', ''file_type'', ''custom_expression'']"

definition field_type_to_json_type :: "(string \<times> string) list" where
  "field_type_to_json_type =
     [(''text'', ''string''), (''textarea'', ''string''), (''number'', ''number''),
      (''date'', ''string''), (''datetime'', ''string''), (''select'', ''string''),
      (''multiselect'', ''array''), (''checkbox'', ''boolean''), (''file'', ''string''),
      (''user_picker'', ''string''), (''org_picker'', ''string'')]"

definition field_type_to_json_format :: "(string \<times> string) list" where
  "field_type_to_json_format = [(''date'', ''date''), (''datetime'', ''date-time'')]"

datatype form_error =
    FormNotDict
  | FormKeyMissing string
  | FormKeyNotList string
  | SectionsEmpty
  | FieldsEmpty
  | SectionNotDict
  | SectionCodeRequired
  | SectionCodeDuplicate string
  | FieldNotDict
  | FieldCodeRequired
  | FieldCodeDuplicate string
  | FieldSectionUnknown json
  | FieldTypeInvalid json
  | ValidatorNotDict
  | ValidatorCodeRequired
  | ValidatorCodeDuplicate string
  | ValidatorFieldUnknown json
  | ValidatorKindInvalid json
  | FormPy py_error

section \<open>Validation\<close>

definition form_list :: "dict \<Rightarrow> string \<Rightarrow> form_error + json list" where
  "form_list d k =
     (case map_of d k of
        None \<Rightarrow> Inl (FormKeyMissing k)
      | Some (JList xs) \<Rightarrow> Inr xs
      | Some _ \<Rightarrow> Inl (FormKeyNotList k))"

text \<open>\<^verbatim>\<open>isinstance(code, str) and code\<close>.\<close>

definition code_text :: "json \<Rightarrow> string option" where
  "code_text v = (case v of JStr s \<Rightarrow> if s = [] then None else Some s | _ \<Rightarrow> None)"

definition check_section :: "string list \<Rightarrow> json \<Rightarrow> form_error + string list" where
  "check_section codes s =
     (case s of
        JObj d \<Rightarrow>
          (case code_text (dget d ''section_code'') of
             None \<Rightarrow> Inl SectionCodeRequired
           | Some c \<Rightarrow> if c \<in> set codes then Inl (SectionCodeDuplicate c) else Inr (codes @ [c]))
      | _ \<Rightarrow> Inl SectionNotDict)"

definition check_field :: "string list \<Rightarrow> string list \<Rightarrow> json \<Rightarrow> form_error + string list" where
  "check_field sections codes f =
     (case f of
        JObj d \<Rightarrow>
          (case code_text (dget d ''field_code'') of
             None \<Rightarrow> Inl FieldCodeRequired
           | Some c \<Rightarrow>
               if c \<in> set codes then Inl (FieldCodeDuplicate c)
               else bindE (raiseE FormPy (str_in (dget d ''section_code'') sections)) (\<lambda>known.
                 if \<not> known then Inl (FieldSectionUnknown (dget d ''section_code''))
                 else bindE (raiseE FormPy (str_in (dget d ''field_type'') valid_field_types)) (\<lambda>ok.
                   if \<not> ok then Inl (FieldTypeInvalid (dget d ''field_type'')) else Inr (codes @ [c]))))
      | _ \<Rightarrow> Inl FieldNotDict)"

definition check_validator :: "string list \<Rightarrow> string list \<Rightarrow> json \<Rightarrow> form_error + string list" where
  "check_validator fcodes codes v =
     (case v of
        JObj d \<Rightarrow>
          (case code_text (dget d ''validator_code'') of
             None \<Rightarrow> Inl ValidatorCodeRequired
           | Some c \<Rightarrow>
               if c \<in> set codes then Inl (ValidatorCodeDuplicate c)
               else bindE (raiseE FormPy (str_in (dget d ''applies_to_field_code'') fcodes)) (\<lambda>known.
                 if \<not> known then Inl (ValidatorFieldUnknown (dget d ''applies_to_field_code''))
                 else bindE (raiseE FormPy (str_in (dget d ''validator_kind'') valid_validator_kinds)) (\<lambda>ok.
                   if \<not> ok then Inl (ValidatorKindInvalid (dget d ''validator_kind''))
                   else Inr (codes @ [c]))))
      | _ \<Rightarrow> Inl ValidatorNotDict)"

definition validate_form_payload :: "json \<Rightarrow> form_error + unit" where
  "validate_form_payload p =
     (case p of
        JObj d \<Rightarrow>
          bindE (form_list d ''sections'') (\<lambda>sections.
          bindE (form_list d ''fields'') (\<lambda>fields.
          bindE (form_list d ''validators'') (\<lambda>validators.
          bindE (guardE (sections \<noteq> []) SectionsEmpty) (\<lambda>_.
          bindE (guardE (fields \<noteq> []) FieldsEmpty) (\<lambda>_.
          bindE (forE check_section [] sections) (\<lambda>section_codes.
          bindE (forE (check_field section_codes) [] fields) (\<lambda>field_codes.
          bindE (forE (check_validator field_codes) [] validators) (\<lambda>_. Inr ()))))))))
      | _ \<Rightarrow> Inl FormNotDict)"

section \<open>Projection to the child tables\<close>

record section_row =
  sr_schema :: string
  sr_code :: json
  sr_title :: json
  sr_order :: json
  sr_collapsible :: bool

record field_row =
  fr_form :: string
  fr_section :: json
  fr_field :: json
  fr_name :: json
  fr_type :: json
  fr_index :: json
  fr_required :: bool
  fr_placeholder :: json
  fr_default :: json
  fr_hints :: json

record validator_row =
  vr_schema :: string
  vr_code :: json
  vr_field :: json
  vr_kind :: json
  vr_payload :: json
  vr_message :: json

record form_children =
  fc_sections :: "section_row list"
  fc_fields :: "field_row list"
  fc_validators :: "validator_row list"

definition add_section :: "string \<Rightarrow> form_children \<times> nat \<Rightarrow> json \<Rightarrow> py_error + (form_children \<times> nat)" where
  "add_section sid st s =
     (case st of (cs, index) \<Rightarrow>
      (case s of
         JObj d \<Rightarrow> bindE (dict_item d ''section_code'') (\<lambda>code.
           Inr (cs\<lparr>fc_sections := fc_sections cs @
             [\<lparr>sr_schema = sid, sr_code = code, sr_title = dget_or d ''title'' code,
               sr_order = dget_or d ''order_index'' (JInt (int index)),
               sr_collapsible = truthy (dget_or d ''collapsible'' (JBool False))\<rparr>]\<rparr>, Suc index))
       | _ \<Rightarrow> Inl TypeError))"

definition add_field :: "string \<Rightarrow> form_children \<times> nat \<Rightarrow> json \<Rightarrow> py_error + (form_children \<times> nat)" where
  "add_field sid st f =
     (case st of (cs, index) \<Rightarrow>
      (case f of
         JObj d \<Rightarrow>
           bindE (dict_item d ''section_code'') (\<lambda>section.
           bindE (dict_item d ''field_code'') (\<lambda>code.
           bindE (dict_item d ''field_type'') (\<lambda>ty.
             Inr (cs\<lparr>fc_fields := fc_fields cs @
               [\<lparr>fr_form = sid, fr_section = section, fr_field = code,
                 fr_name = dget_or d ''field_name'' code, fr_type = ty,
                 fr_index = dget_or d ''order_index'' (JInt (int index)),
                 fr_required = truthy (dget_or d ''required'' (JBool False)),
                 fr_placeholder = dget d ''placeholder'', fr_default = dget d ''default_value_json'',
                 fr_hints = dget_or d ''layout_hints_json'' (JObj [])\<rparr>]\<rparr>, Suc index))))
       | _ \<Rightarrow> Inl TypeError))"

definition add_validator :: "string \<Rightarrow> form_children \<Rightarrow> json \<Rightarrow> py_error + form_children" where
  "add_validator sid cs v =
     (case v of
        JObj d \<Rightarrow>
          bindE (dict_item d ''validator_code'') (\<lambda>code.
          bindE (dict_item d ''applies_to_field_code'') (\<lambda>field.
          bindE (dict_item d ''validator_kind'') (\<lambda>kind.
            Inr (cs\<lparr>fc_validators := fc_validators cs @
              [\<lparr>vr_schema = sid, vr_code = code, vr_field = field, vr_kind = kind,
                vr_payload = dget_or d ''validator_payload_json'' (JObj []),
                vr_message = dget d ''error_message_template''\<rparr>]\<rparr>))))
      | _ \<Rightarrow> Inl TypeError)"

text \<open>The child rows draw their identifiers after that of the template; none of them is read.\<close>

definition project_form :: "form_children projection" where
  "project_form uuid sid d st =
     (case st of (cs, n) \<Rightarrow>
      bindE (forE (add_section sid) (cs, 0) (json_list (dget d ''sections''))) (\<lambda>(cs1, _).
      bindE (forE (add_field sid) (cs1, 0) (json_list (dget d ''fields''))) (\<lambda>(cs2, _).
      bindE (forE (add_validator sid) cs2 (json_list (dget d ''validators''))) (\<lambda>cs3.
      Inr (cs3, n + length (json_list (dget d ''sections'')) + length (json_list (dget d ''fields''))
                  + length (json_list (dget d ''validators'')))))))"

section \<open>The repository\<close>

type_synonym form_db = "form_children template_db"

definition form_create_draft ::
    "(nat \<Rightarrow> string) \<Rightarrow> nat \<Rightarrow> draft_args \<Rightarrow> form_db \<Rightarrow> form_error template_error + (flow_row \<times> form_db)" where
  "form_create_draft = tpl_create validate_form_payload project_form"

definition form_promote_to_preview ::
    "nat \<Rightarrow> string \<Rightarrow> form_db \<Rightarrow> form_error template_error + (flow_row \<times> form_db)" where
  "form_promote_to_preview = tpl_promote validate_form_payload"

definition form_revert_to_draft ::
    "nat \<Rightarrow> string \<Rightarrow> form_db \<Rightarrow> form_error template_error + (flow_row \<times> form_db)" where
  "form_revert_to_draft = tpl_revert"

definition form_commit_to_live ::
    "nat \<Rightarrow> string \<Rightarrow> form_db \<Rightarrow> form_error template_error + (flow_row \<times> form_db)" where
  "form_commit_to_live = tpl_commit validate_form_payload"

definition form_list_by_tenant :: "form_db \<Rightarrow> string \<Rightarrow> flow_row list" where
  "form_list_by_tenant = tpl_list"

definition form_step ::
    "(nat \<Rightarrow> string) \<Rightarrow> form_db \<Rightarrow> template_op \<Rightarrow> form_error template_error + form_db" where
  "form_step = tpl_step validate_form_payload project_form"

interpretation form_store: template_store "form_step uuid" tpl_status "tpl_inv validate_form_payload uuid" for uuid
proof
  show "tpl_inv validate_form_payload uuid db'"
    if "tpl_inv validate_form_payload uuid db" "form_step uuid db op = Inr db'" for db op db'
    using that unfolding form_step_def by (rule tpl_inv_step)
  show "\<exists>b. tpl_status db' i = Some b \<and> (a = b \<or> (a, b) \<in> {(a, b). template_move a b})"
    if "tpl_inv validate_form_payload uuid db" "form_step uuid db op = Inr db'" "tpl_status db i = Some a"
    for db op db' i a
    using tpl_status_moves [OF that(1) that(2) [unfolded form_step_def] that(3)] by simp
  show "b = ''draft''"
    if "tpl_inv validate_form_payload uuid db" "form_step uuid db op = Inr db'" "tpl_status db i = None"
      "tpl_status db' i = Some b" for db op db' i b
    using that(2-4) unfolding form_step_def by (rule tpl_status_births)
qed

end
