(* ===== verification/FormJson.thy ===== *)
theory FormJson
  imports FormSchema FlowReach
begin

text \<open>
  What a valid form payload is, and the projection of a form template to a JSON schema
  (\<^verbatim>\<open>FormSchemaRepo.to_json_schema\<close>): it never raises on a valid payload and lists
  exactly the declared fields. A field code that is no string is refused here; validation has
  ruled it out.
\<close>

section \<open>Valid payloads\<close>

definition part_code :: "string \<Rightarrow> json \<Rightarrow> string" where
  "part_code k x = (case x of JObj d \<Rightarrow> (case dget d k of JStr c \<Rightarrow> c | _ \<Rightarrow> []) | _ \<Rightarrow> [])"

definition wf_coded :: "string \<Rightarrow> json \<Rightarrow> bool" where
  "wf_coded k x \<longleftrightarrow> (\<exists>d c. x = JObj d \<and> dget d k = JStr c \<and> c \<noteq> [])"

definition wf_choice :: "string \<Rightarrow> string set \<Rightarrow> json \<Rightarrow> bool" where
  "wf_choice k xs x \<longleftrightarrow> (\<exists>d s. x = JObj d \<and> dget d k = JStr s \<and> s \<in> xs)"

definition wf_coded_list :: "string \<Rightarrow> json list \<Rightarrow> bool" where
  "wf_coded_list k xs \<longleftrightarrow> list_all (wf_coded k) xs \<and> distinct (map (part_code k) xs)"

definition wf_form_payload :: "json \<Rightarrow> bool" where
  "wf_form_payload p \<longleftrightarrow> (\<exists>d sections flds validators. p = JObj d \<and>
     map_of d ''sections'' = Some (JList sections) \<and> map_of d ''fields'' = Some (JList flds) \<and>
     map_of d ''validators'' = Some (JList validators) \<and> sections \<noteq> [] \<and> flds \<noteq> [] \<and>
     wf_coded_list ''section_code'' sections \<and>
     wf_coded_list ''field_code'' flds \<and>
     list_all (wf_choice ''section_code'' (set (map (part_code ''section_code'') sections))) flds \<and>
     list_all (wf_choice ''field_type'' (set valid_field_types)) flds \<and>
     wf_coded_list ''validator_code'' validators \<and>
     list_all (wf_choice ''applies_to_field_code'' (set (map (part_code ''field_code'') flds))) validators \<and>
     list_all (wf_choice ''validator_kind'' (set valid_validator_kinds)) validators)"

lemma form_list_Inr: "form_list d k = Inr xs \<longleftrightarrow> map_of d k = Some (JList xs)"
  by (auto simp: form_list_def split: option.splits json.splits)

lemma check_section_Inr:
  "check_section codes s = Inr codes' \<longleftrightarrow>
     wf_coded ''section_code'' s \<and> part_code ''section_code'' s \<notin> set codes \<and>
     codes' = codes @ [part_code ''section_code'' s]"
  by (auto simp: check_section_def code_text_def wf_coded_def part_code_def split: json.splits if_splits)

lemma check_field_Inr:
  "check_field sections codes f = Inr codes' \<longleftrightarrow>
     (wf_coded ''field_code'' f \<and> wf_choice ''section_code'' (set sections) f \<and>
      wf_choice ''field_type'' (set valid_field_types) f) \<and> part_code ''field_code'' f \<notin> set codes \<and>
     codes' = codes @ [part_code ''field_code'' f]"
  by (auto simp: check_field_def code_text_def wf_coded_def wf_choice_def part_code_def str_in_Inr_iff
      bindE_Inr_iff raiseE_Inr_iff split: json.splits if_splits)

lemma check_validator_Inr:
  "check_validator fcodes codes v = Inr codes' \<longleftrightarrow>
     (wf_coded ''validator_code'' v \<and> wf_choice ''applies_to_field_code'' (set fcodes) v \<and>
      wf_choice ''validator_kind'' (set valid_validator_kinds) v) \<and> part_code ''validator_code'' v \<notin> set codes \<and>
     codes' = codes @ [part_code ''validator_code'' v]"
  by (auto simp: check_validator_def code_text_def wf_coded_def wf_choice_def part_code_def str_in_Inr_iff
      bindE_Inr_iff raiseE_Inr_iff split: json.splits if_splits)

text \<open>A loop that collects distinct codes.\<close>

lemma forE_codes:
  assumes "\<And>codes x codes'. f codes x = Inr codes' \<longleftrightarrow> P x \<and> code x \<notin> set codes \<and> codes' = codes @ [code x]"
  shows "forE f codes xs = Inr codes' \<longleftrightarrow>
    list_all P xs \<and> distinct (map code xs) \<and> set codes \<inter> set (map code xs) = {} \<and>
    codes' = codes @ map code xs"
  using assms by (induction xs arbitrary: codes) (auto simp: bindE_Inr_iff)

lemma validate_form_wf: "validate_form_payload p = Inr () \<longleftrightarrow> wf_form_payload p"
proof (cases p)
  case (JObj d)
  show ?thesis
    by (simp add: validate_form_payload_def JObj bindE_Inr_iff form_list_Inr
        forE_codes [OF check_section_Inr] forE_codes [OF check_field_Inr] forE_codes [OF check_validator_Inr]
        wf_form_payload_def wf_coded_list_def)
      (auto simp: list_all_iff)
qed (auto simp: validate_form_payload_def wf_form_payload_def)

section \<open>The JSON schema\<close>

definition copy_key :: "json \<Rightarrow> string \<Rightarrow> string \<Rightarrow> dict \<Rightarrow> py_error + dict" where
  "copy_key payload k target p =
     bindE (json_has payload k) (\<lambda>present.
       if present then bindE (json_item payload k) (\<lambda>v. Inr (dset p target v)) else Inr p)"

definition copy_if :: "(json \<Rightarrow> bool) \<Rightarrow> json \<Rightarrow> string \<Rightarrow> string \<Rightarrow> dict \<Rightarrow> py_error + dict" where
  "copy_if ok payload k target p =
     bindE (json_get payload k) (\<lambda>v. Inr (if ok v then dset p target v else p))"

definition is_list :: "json \<Rightarrow> bool" where
  "is_list v = (case v of JList _ \<Rightarrow> True | _ \<Rightarrow> False)"

definition apply_validator_to_prop :: "dict \<Rightarrow> dict \<Rightarrow> py_error + dict" where
  "apply_validator_to_prop p validator =
     bindE (dict_item validator ''validator_kind'') (\<lambda>kind.
     let payload = py_or (dget_or validator ''validator_payload_json'' (JObj [])) (JObj [])
     in if kind = JStr ''regex'' then copy_if truthy payload ''pattern'' ''pattern'' p
        else if kind = JStr ''range'' then
          bindE (copy_key payload ''minimum'' ''minimum'' p) (copy_key payload ''maximum'' ''maximum'')
        else if kind = JStr ''length'' then
          bindE (copy_key payload ''minLength'' ''minLength'' p) (copy_key payload ''maxLength'' ''maxLength'')
        else if kind = JStr ''enum'' then copy_if is_list payload ''values'' ''enum'' p
        else if kind = JStr ''file_size'' then copy_key payload ''maxBytes'' ''x-file-max-bytes'' p
        else if kind = JStr ''file_type'' then copy_if is_list payload ''acceptedTypes'' ''x-file-accepted-types'' p
        else if kind = JStr ''custom_expression'' then copy_if truthy payload ''expression'' ''x-custom-expression'' p
        else Inr p)"

definition group_validator ::
    "(json \<times> dict list) list \<Rightarrow> json \<Rightarrow> py_error + (json \<times> dict list) list" where
  "group_validator acc v =
     bindE (json_item v ''applies_to_field_code'') (\<lambda>f.
       if \<not> hashable f then Inl TypeError
       else case v of
         JObj d \<Rightarrow> Inr (dset acc (dict_key f)
                     ((case map_of acc (dict_key f) of None \<Rightarrow> [] | Some vs \<Rightarrow> vs) @ [d]))
       | _ \<Rightarrow> Inl TypeError)"

definition field_prop :: "dict \<Rightarrow> json \<Rightarrow> json \<Rightarrow> py_error + dict" where
  "field_prop d code ty =
     (case ty of
        JStr t \<Rightarrow>
          (case map_of field_type_to_json_type t of
             None \<Rightarrow> Inl (KeyError t)
           | Some json_type \<Rightarrow>
               let base = [(''type'', JStr json_type), (''title'', dget_or d ''field_name'' code)];
                   formatted = (case map_of field_type_to_json_format t of
                                  Some f \<Rightarrow> dset base ''format'' (JStr f) | None \<Rightarrow> base)
               in Inr (if t = ''multiselect''
                       then dset formatted ''items'' (JObj [(''type'', JStr ''string'')]) else formatted))
      | _ \<Rightarrow> Inl (if hashable ty then KeyError (py_str ty) else TypeError))"

definition add_property ::
    "(json \<times> dict list) list \<Rightarrow> dict \<times> json list \<Rightarrow> json \<Rightarrow> py_error + (dict \<times> json list)" where
  "add_property by_field st f =
     (case st of (props, required) \<Rightarrow>
      bindE (json_item f ''field_code'') (\<lambda>code.
      bindE (json_item f ''field_type'') (\<lambda>ty.
      (case f of
         JObj d \<Rightarrow>
           bindE (field_prop d code ty) (\<lambda>p.
           (case code of
              JStr c \<Rightarrow>
                bindE (forE apply_validator_to_prop p
                         (case map_of by_field code of None \<Rightarrow> [] | Some vs \<Rightarrow> vs)) (\<lambda>p'.
                  Inr (dset props c (JObj p'),
                       if truthy (dget d ''required'') then required @ [code] else required))
            | _ \<Rightarrow> Inl TypeError))
       | _ \<Rightarrow> Inl TypeError))))"

definition to_json_schema :: "flow_row \<Rightarrow> py_error + dict" where
  "to_json_schema r =
     bindE (if truthy (fs_payload r)
            then (case fs_payload r of JObj d \<Rightarrow> Inr d | _ \<Rightarrow> Inl AttributeError) else Inr []) (\<lambda>payload.
     bindE (py_iter (dget_or payload ''validators'' (JList []))) (\<lambda>validators.
     bindE (forE group_validator [] validators) (\<lambda>by_field.
     bindE (py_iter (dget_or payload ''fields'' (JList []))) (\<lambda>flds.
     bindE (forE (add_property by_field) ([], []) flds) (\<lambda>(props, required).
       Inr ([(''$schema'', JStr ''http://json-schema.org/draft-07/schema#''),
             (''title'', JStr (fs_title r)), (''type'', JStr ''object''), (''properties'', JObj props)] @
            (if required \<noteq> [] then [(''required'', JList required)] else [])))))))"

section \<open>The projection succeeds\<close>

definition plain_payload :: "dict \<Rightarrow> bool" where
  "plain_payload d \<longleftrightarrow> (\<exists>p. py_or (dget_or d ''validator_payload_json'' (JObj [])) (JObj []) = JObj p)"

definition validator_ok :: "dict \<Rightarrow> bool" where
  "validator_ok d \<longleftrightarrow> (\<exists>k. map_of d ''validator_kind'' = Some k) \<and> plain_payload d"

lemma copy_total:
  "\<exists>q. copy_key (JObj d) k t p = Inr q" "\<exists>q. copy_if ok (JObj d) k t p = Inr q"
  by (auto simp: copy_key_def copy_if_def dict_item_def)

lemma apply_validator_total: "validator_ok d \<Longrightarrow> \<exists>q. apply_validator_to_prop p d = Inr q"
proof -
  assume "validator_ok d"
  then obtain k pay where k: "map_of d ''validator_kind'' = Some k"
      "py_or (dget_or d ''validator_payload_json'' (JObj [])) (JObj []) = JObj pay"
    by (auto simp: validator_ok_def plain_payload_def)
  have two: "\<exists>q. bindE (copy_key (JObj pay) a b p) (copy_key (JObj pay) c e) = Inr q" for a b c e
    using copy_total(1) [of pay a b p] copy_total(1) by (metis bindE_simps(2))
  show ?thesis
    using copy_total(1) [of pay] copy_total(2) [where d = pay] two by (simp add: apply_validator_to_prop_def dict_item_def k Let_def)
qed

definition groups_ok :: "(json \<times> dict list) list \<Rightarrow> bool" where
  "groups_ok acc \<longleftrightarrow> (\<forall>vs \<in> ran (map_of acc). list_all validator_ok vs)"

lemma group_validators_total:
  assumes "\<forall>v \<in> set vs. \<exists>d f. v = JObj d \<and> map_of d ''applies_to_field_code'' = Some (JStr f) \<and> validator_ok d"
    and "groups_ok acc"
  shows "\<exists>acc'. forE group_validator acc vs = Inr acc' \<and> groups_ok acc'"
  using assms
proof (induction vs arbitrary: acc)
  case (Cons v vs)
  then obtain d f where d: "v = JObj d" "map_of d ''applies_to_field_code'' = Some (JStr f)" "validator_ok d"
    by auto
  let ?acc = "dset acc (JStr f) ((case map_of acc (JStr f) of None \<Rightarrow> [] | Some vs \<Rightarrow> vs) @ [d])"
  have "group_validator acc v = Inr ?acc"
    using d by (simp add: group_validator_def dict_item_def)
  moreover have "groups_ok ?acc"
    using Cons.prems(2) d(3)
    by (auto simp: groups_ok_def ran_def split: option.splits if_splits)
  ultimately show ?case using Cons.IH [of ?acc] Cons.prems(1) by auto
qed simp

lemma field_types_mapped: "t \<in> set valid_field_types \<Longrightarrow> \<exists>j. map_of field_type_to_json_type t = Some j"
  by (auto simp: valid_field_types_def field_type_to_json_type_def)

lemma add_property_total:
  assumes "wf_coded ''field_code'' f" and "wf_choice ''field_type'' (set valid_field_types) f" and "groups_ok by_field"
  shows "\<exists>p. add_property by_field (props, required) f =
    Inr (dset props (part_code ''field_code'' f) (JObj p),
         if truthy (dget (node_dict f) ''required'') then required @ [JStr (part_code ''field_code'' f)] else required)"
proof -
  obtain d c t where d: "f = JObj d" "map_of d ''field_code'' = Some (JStr c)"
      "map_of d ''field_type'' = Some (JStr t)" "t \<in> set valid_field_types"
    using assms(1,2) by (auto simp: wf_coded_def wf_choice_def dget_def split: option.splits)
  obtain p where p: "field_prop d (JStr c) (JStr t) = Inr p"
    using field_types_mapped [OF d(4)] by (auto simp: field_prop_def Let_def)
  let ?vs = "case map_of by_field (JStr c) of None \<Rightarrow> [] | Some vs \<Rightarrow> vs"
  have "\<forall>v \<in> set ?vs. validator_ok v"
    using assms(3) ranI [of "map_of by_field" "JStr c"]
    by (cases "map_of by_field (JStr c)") (auto simp: groups_ok_def list_all_iff)
  then obtain q where "forE apply_validator_to_prop p ?vs = Inr q"
    using forE_total [of ?vs apply_validator_to_prop p] apply_validator_total by blast
  then show ?thesis
    using d p by (intro exI [of _ q]) (simp add: add_property_def dict_item_def part_code_def node_dict_def dget_def)
qed

definition field_required :: "json \<Rightarrow> bool" where
  "field_required f = truthy (dget (node_dict f) ''required'')"

lemma add_properties_total:
  assumes "list_all (wf_coded ''field_code'') fs" and "list_all (wf_choice ''field_type'' (set valid_field_types)) fs"
    and "groups_ok by_field" and "distinct (map fst props @ map (part_code ''field_code'') fs)"
  shows "\<exists>new. forE (add_property by_field) (props, required) fs =
      Inr (props @ new, required @ map (\<lambda>f. JStr (part_code ''field_code'' f)) (filter field_required fs)) \<and>
    map fst new = map (part_code ''field_code'') fs"
  using assms
proof (induction fs arbitrary: props required)
  case (Cons f fs)
  let ?c = "part_code ''field_code'' f"
  let ?req = "if field_required f then required @ [JStr ?c] else required"
  obtain p where p: "add_property by_field (props, required) f = Inr (dset props ?c (JObj p), ?req)"
    using add_property_total [of f by_field props required] Cons.prems by (auto simp: field_required_def)
  have new: "dset props ?c (JObj p) = props @ [(?c, JObj p)]"
    using Cons.prems(4) by (intro dset_new) (auto simp: image_iff)
  obtain new' where rest: "forE (add_property by_field) (props @ [(?c, JObj p)], ?req) fs =
      Inr ((props @ [(?c, JObj p)]) @ new', ?req @ map (\<lambda>f. JStr (part_code ''field_code'' f)) (filter field_required fs))"
      "map fst new' = map (part_code ''field_code'') fs"
    using Cons.IH [of "props @ [(?c, JObj p)]" ?req] Cons.prems by auto
  show ?case
    using p new rest by (intro exI [of _ "(?c, JObj p) # new'"]) simp
qed simp

text \<open>\<^verbatim>\<open>_validate_payload\<close> of the form engine accepts exactly the well-formed payloads,
  and on such a payload, whose validators carry dictionaries, the JSON schema is always built:
  its properties are the declared field codes in order, and its required list the codes of the
  fields marked so.\<close>

lemma form_json_schema_total:
  assumes "validate_form_payload (fs_payload r) = Inr ()"
    and "\<forall>v \<in> set (json_list (dget (node_dict (fs_payload r)) ''validators'')). plain_payload (node_dict v)"
  shows "wf_form_payload (fs_payload r) \<and>
    (\<exists>props required. to_json_schema r =
       Inr ([(''$schema'', JStr ''http://json-schema.org/draft-07/schema#''), (''title'', JStr (fs_title r)),
             (''type'', JStr ''object''), (''properties'', JObj props)] @
            (if required \<noteq> [] then [(''required'', JList required)] else [])) \<and>
     map fst props = map (part_code ''field_code'') (json_list (dget (node_dict (fs_payload r)) ''fields'')) \<and>
     required = map (\<lambda>f. JStr (part_code ''field_code'' f))
       (filter field_required (json_list (dget (node_dict (fs_payload r)) ''fields''))))"
proof -
  have wf: "wf_form_payload (fs_payload r)" using assms(1) by (simp add: validate_form_wf)
  then obtain d flds validators where d: "fs_payload r = JObj d" "map_of d ''fields'' = Some (JList flds)"
      "map_of d ''validators'' = Some (JList validators)" and
      ok: "wf_coded_list ''field_code'' flds" "list_all (wf_choice ''field_type'' (set valid_field_types)) flds"
        "list_all (wf_choice ''applies_to_field_code'' (set (map (part_code ''field_code'') flds))) validators"
        "list_all (wf_choice ''validator_kind'' (set valid_validator_kinds)) validators"
    unfolding wf_form_payload_def by blast
  have nonempty: "d \<noteq> []" using d(2) by auto
  have lists: "json_list (dget d ''validators'') = validators" "json_list (dget d ''fields'') = flds"
    "dget_or d ''validators'' (JList []) = JList validators" "dget_or d ''fields'' (JList []) = JList flds"
    using d by (simp_all add: dget_def dget_or_def json_list_def)
  have "\<forall>v \<in> set validators. \<exists>d f. v = JObj d \<and> map_of d ''applies_to_field_code'' = Some (JStr f) \<and> validator_ok d"
  proof
    fix v assume v: "v \<in> set validators"
    then have "wf_choice ''applies_to_field_code'' (set (map (part_code ''field_code'') flds)) v"
      "wf_choice ''validator_kind'' (set valid_validator_kinds) v" "plain_payload (node_dict v)"
      using ok(3,4) assms(2) d(1) lists(1) by (auto simp: list_all_iff node_dict_def)
    then show "\<exists>d f. v = JObj d \<and> map_of d ''applies_to_field_code'' = Some (JStr f) \<and> validator_ok d"
      by (auto simp: wf_choice_def dget_JStr_iff validator_ok_def node_dict_def)
  qed
  then obtain groups where groups: "forE group_validator [] validators = Inr groups" "groups_ok groups"
    using group_validators_total [of validators "[]"] by (auto simp: groups_ok_def)
  obtain props where "forE (add_property groups) ([], []) flds =
      Inr (props, map (\<lambda>f. JStr (part_code ''field_code'' f)) (filter field_required flds))"
      "map fst props = map (part_code ''field_code'') flds"
    using add_properties_total [of flds groups "[]" "[]"] ok(1,2) groups(2) by (auto simp: wf_coded_list_def)
  then have "to_json_schema r =
       Inr ([(''$schema'', JStr ''http://json-schema.org/draft-07/schema#''), (''title'', JStr (fs_title r)),
             (''type'', JStr ''object''), (''properties'', JObj props)] @
            (if map (\<lambda>f. JStr (part_code ''field_code'' f)) (filter field_required flds) \<noteq> []
             then [(''required'', JList (map (\<lambda>f. JStr (part_code ''field_code'' f)) (filter field_required flds)))]
             else []))"
    using nonempty by (simp add: to_json_schema_def d(1) lists(3,4) py_iter_def groups(1))
  then show ?thesis
    using wf \<open>map fst props = map (part_code ''field_code'') flds\<close> by (auto simp: d(1) node_dict_def lists(2))
qed

definition tiny_form :: dict where
  "tiny_form =
     [(''sections'', JList [JObj [(''section_code'', JStr ''s'')]]),
      (''fields'', JList [JObj [(''field_code'', JStr ''f''), (''section_code'', JStr ''s''),
                                (''field_type'', JStr ''date''), (''required'', JBool True)]]),
      (''validators'', JList [JObj [(''validator_code'', JStr ''v''), (''applies_to_field_code'', JStr ''f''),
                                    (''validator_kind'', JStr ''regex'')]])]"

definition tiny_form_row :: flow_row where
  "tiny_form_row = \<lparr>fs_id = [], fs_tenant = ''t'', fs_code = ''c'', fs_title = ''T'', fs_status = ''draft'',
     fs_version = 1, fs_source_kind = ''manual'', fs_source_text = None, fs_payload = JObj tiny_form,
     fs_created_by = ''u'', fs_created_at = 1, fs_updated_at = 1, fs_committed_at = None\<rparr>"

text \<open>whatever the operations of the form repository do, its rows keep unique
  identifiers and versions and valid payloads, and a form that is live stays live.\<close>

lemma form_repo_safe:
  assumes "tpl_inv validate_form_payload uuid db"
  shows "tpl_inv validate_form_payload uuid (run_ops (form_step uuid) db ops) \<and>
    (tpl_status db i = Some ''live'' \<longrightarrow> tpl_status (run_ops (form_step uuid) db ops) i = Some ''live'')"
  using form_store.inv_run [OF assms] form_store.live_is_final [OF assms] by blast

definition empty_form_db :: form_db where
  "empty_form_db = \<lparr>tdb_rows = [], tdb_children = \<lparr>fc_sections = [], fc_fields = [], fc_validators = []\<rparr>,
     tdb_next = 0\<rparr>"

end
