(* ===== verification/SafeJson.thy ===== *)
theory SafeJson
  imports ShareType
begin

text \<open>
  \<^verbatim>\<open>shared/sanitization.py\<close>: dropping sensitive keys from JSON values before they are stored
  or logged, and the normal form of legacy mappings. Lower-casing is that of ASCII.
\<close>

definition ends_with :: "string \<Rightarrow> string \<Rightarrow> bool" where
  "ends_with suffix s \<longleftrightarrow> length suffix \<le> length s \<and> drop (length s - length suffix) s = suffix"

definition starts_with :: "string \<Rightarrow> string \<Rightarrow> bool" where
  "starts_with pre s \<longleftrightarrow> take (length pre) s = pre"

definition sensitive_json_keys :: "string list" where
  "sensitive_json_keys =
     [''secret'', ''password'', ''passwd'', ''token'', ''credential'', ''app_secret'',
      ''superior_app_secret'', ''api_key'', ''access_token'', ''refresh_token'', ''client_secret'',
      ''authorization'', ''cookie'', ''session'', ''session_id'', ''session_key'', ''secret_key'',
      ''certificate'', ''cert'', ''private_key'', ''permission_sql'', ''service_sql'',
      ''_trusted_session_context'']"

definition is_sensitive_json_key :: "string \<Rightarrow> bool" where
  "is_sensitive_json_key key =
     (let lowered = lower key
      in lowered \<in> set sensitive_json_keys \<or> ends_with ''_token'' lowered \<or> ends_with ''_secret'' lowered \<or>
         ends_with ''_key'' lowered \<or> contains ''password'' lowered \<or> contains ''credential'' lowered \<or>
         contains ''authorization'' lowered \<or> ends_with ''_sql'' lowered \<or>
         lowered \<in> {''session'', ''passwd''})"

fun safe_json :: "json \<Rightarrow> json" where
  "safe_json (JObj d) =
     JObj (map (\<lambda>(k, v). (k, safe_json v)) (filter (\<lambda>(k, v). \<not> is_sensitive_json_key k) d))"
| "safe_json (JList xs) = JList (map safe_json xs)"
| "safe_json v = v"

definition adapter_source_kind :: "json \<Rightarrow> string" where
  "adapter_source_kind source_ref =
     (let s = lower (py_str (py_or source_ref (JStr [])))
      in if contains ''audit'' s \<or> contains ''capability_call'' s then ''audit_event''
         else if contains ''gateway_log'' s \<or> contains ''gateway-log'' s \<or>
                 contains ''/openapi/report'' s \<or> contains ''gateway_report'' s then ''gateway_adapter''
         else if contains ''api_service_times'' s \<or> contains ''api_service_statistic'' s
           then ''legacy_stat_snapshot''
         else if starts_with ''dsp-dataservice:'' s then ''legacy_adapter''
         else ''runtime_projection'')"

definition summary_with_source_kind :: "json \<Rightarrow> json \<Rightarrow> dict" where
  "summary_with_source_kind v source_ref =
     (let summary = (case safe_json v of JObj d \<Rightarrow> d | _ \<Rightarrow> [])
      in dmerge summary [(''source_kind'', JStr (adapter_source_kind source_ref))])"

fun split_on :: "char \<Rightarrow> string \<Rightarrow> string list" where
  "split_on c [] = [[]]"
| "split_on c (x # xs) =
     (if x = c then [] # split_on c xs
      else case split_on c xs of [] \<Rightarrow> [[x]] | p # ps \<Rightarrow> (x # p) # ps)"

text \<open>\<^verbatim>\<open>str(a or b or ... )\<close> over the first truthy value, else the last.\<close>

fun first_of :: "json list \<Rightarrow> json" where
  "first_of [] = JNull"
| "first_of [v] = v"
| "first_of (v # w # vs) = (if truthy v then v else first_of (w # vs))"

definition legacy_mapping_payload :: "dict \<Rightarrow> string \<Rightarrow> py_error + dict" where
  "legacy_mapping_payload payload tenant =
     bindE (dict_item payload ''source_ref'') (\<lambda>ref.
     let source_ref = py_str ref;
         parts = split_on CHR '':'' source_ref;
         legacy_system = (if parts \<noteq> [] \<and> hd parts \<noteq> [] then hd parts
                          else py_str (dget_or payload ''legacy_system'' (JStr ''dsp-dataservice'')));
         object_type = py_str (first_of [dget payload ''legacy_object_type'',
                          JStr (if length parts > 1 then parts ! 1 else source_ref)]);
         object_ref = py_str (first_of [dget payload ''legacy_object_ref'', dget payload ''source_event_ref'',
                          JStr (if length parts > 2 then join_sep '':'' (drop 2 parts) else source_ref)])
     in bindE (dict_item payload ''canonical_type'') (\<lambda>ctype.
        bindE (dict_item payload ''canonical_ref'') (\<lambda>cref.
        Inr [(''tenant_id'', JStr tenant), (''legacy_system'', JStr legacy_system),
             (''legacy_object_type'', JStr object_type), (''legacy_object_ref'', JStr object_ref),
             (''canonical_type'', JStr (py_str ctype)), (''canonical_ref'', JStr (py_str cref)),
             (''source_ref'', JStr source_ref),
             (''mapping_status'', JStr (py_str (dget_or payload ''mapping_status'' (JStr ''mapped'')))),
             (''evidence_json'', safe_json (py_or (dget payload ''evidence_json'') (JObj [])))])))"

section \<open>No sensitive key is left\<close>

inductive clean :: "json \<Rightarrow> bool" where
  clean_atom: "(\<And>d. v \<noteq> JObj d) \<Longrightarrow> (\<And>xs. v \<noteq> JList xs) \<Longrightarrow> clean v"
| clean_list: "(\<And>x. x \<in> set xs \<Longrightarrow> clean x) \<Longrightarrow> clean (JList xs)"
| clean_obj: "(\<And>k v. (k, v) \<in> set d \<Longrightarrow> \<not> is_sensitive_json_key k \<and> clean v) \<Longrightarrow> clean (JObj d)"

inductive_cases clean_objE: "clean (JObj d)"
inductive_cases clean_listE: "clean (JList xs)"

lemma safe_json_clean: "clean (safe_json v)"
proof (induction v rule: safe_json.induct)
  case (1 d)
  show ?case
    unfolding safe_json.simps by (rule clean_obj) (use 1 in auto)
next
  case (2 xs)
  show ?case
    unfolding safe_json.simps by (rule clean_list) (use 2 in auto)
qed (auto intro: clean_atom)

lemma safe_json_id: "clean v \<Longrightarrow> safe_json v = v"
proof (induction rule: clean.induct)
  case (clean_atom v)
  then show ?case by (cases v) auto
next
  case (clean_list xs)
  then show ?case by (simp add: map_idI)
next
  case (clean_obj d)
  have "filter (\<lambda>(k, v). \<not> is_sensitive_json_key k) d = d"
    using clean_obj by (auto simp: filter_id_conv)
  then show ?case
    using clean_obj by (auto intro!: map_idI)
qed

section \<open>Nothing else changes\<close>

text \<open>The value under a path of keys and positions.\<close>

datatype json_step = Key string | Pos nat

fun at_path :: "json \<Rightarrow> json_step list \<Rightarrow> json option" where
  "at_path v [] = Some v"
| "at_path (JObj d) (Key k # p) = (case map_of d k of None \<Rightarrow> None | Some v \<Rightarrow> at_path v p)"
| "at_path (JList xs) (Pos i # p) = (if i < length xs then at_path (xs ! i) p else None)"
| "at_path v p = None"

definition sensitive_path :: "json_step list \<Rightarrow> bool" where
  "sensitive_path p = list_ex (\<lambda>s. case s of Key k \<Rightarrow> is_sensitive_json_key k | Pos i \<Rightarrow> False) p"

definition object_keys :: "json \<Rightarrow> string list" where
  "object_keys v = (case v of JObj d \<Rightarrow> map fst d | _ \<Rightarrow> [])"

lemma sensitive_path_simps [simp]:
  "\<not> sensitive_path []" "sensitive_path (Key k # p) \<longleftrightarrow> is_sensitive_json_key k \<or> sensitive_path p"
  "sensitive_path (Pos i # p) \<longleftrightarrow> sensitive_path p"
  by (simp_all add: sensitive_path_def)

lemma map_of_kept:
  "map_of (map (\<lambda>(k, v). (k, f v)) (filter (\<lambda>(k, v). \<not> P k) d)) j = (if P j then None else map_option f (map_of d j))"
  by (induction d) auto

lemma safe_json_at_path:
  "at_path (safe_json v) p = (if sensitive_path p then None else map_option safe_json (at_path v p))"
proof (induction v p rule: at_path.induct)
  case (2 d k p)
  then show ?case by (simp add: map_of_kept split: option.split)
qed auto

lemma safe_json_keys: "object_keys (safe_json v) = filter (\<lambda>k. \<not> is_sensitive_json_key k) (object_keys v)"
proof (cases v)
  case (JObj d)
  have "map fst (map (\<lambda>(k, v). (k, safe_json v)) (filter (\<lambda>(k, v). \<not> is_sensitive_json_key k) d)) =
      filter (\<lambda>k. \<not> is_sensitive_json_key k) (map fst d)"
    by (induction d) auto
  then show ?thesis using JObj by (simp add: object_keys_def)
qed (simp_all add: object_keys_def)

text \<open>C6: \<^verbatim>\<open>safe_json\<close> drops exactly the sensitive keys: no such key is left at any depth; under a path without
  one the value is still there, cleaned in the same way, and under a path with one there is none; an object keeps its
  other keys in their order; and a value is unchanged just when it had no sensitive key, so that cleaning twice is
  cleaning once.\<close>

theorem safe_json_sanitises:
  "clean (safe_json v) \<and>
   at_path (safe_json v) p = (if sensitive_path p then None else map_option safe_json (at_path v p)) \<and>
   object_keys (safe_json v) = filter (\<lambda>k. \<not> is_sensitive_json_key k) (object_keys v) \<and>
   (clean v \<longleftrightarrow> safe_json v = v) \<and> safe_json (safe_json v) = safe_json v"
  using safe_json_clean safe_json_id safe_json_at_path safe_json_keys by metis

end
