(* ===== verification/ObjectionState.thy ===== *)
theory ObjectionState
  imports Tables SafeJson
begin

text \<open>
  \<^verbatim>\<open>domain/objection_state.py\<close> and the transition check of
  \<^verbatim>\<open>domain/repositories/objection.py\<close>: the dimensions of an objection, how they are inferred
  from its evidence, and the statuses each allows next.
\<close>

section \<open>Rows\<close>

record objection_row =
  oc_id :: string
  oc_tenant :: string
  oc_kind :: string
  oc_target_type :: string
  oc_target :: json
  oc_application :: json
  oc_title :: json
  oc_complainant :: json
  oc_complainant_snapshot :: json
  oc_provider :: json
  oc_provider_snapshot :: json
  oc_basis :: json
  oc_expected :: json
  oc_status :: string
  oc_summary :: json
  oc_created :: nat
  oc_updated :: nat
  oc_closed :: "nat option"
  oc_version :: int

record objection_evidence_row =
  oe_objection :: string
  oe_type :: string
  oe_content :: json
  oe_by :: json
  oe_created :: nat

section \<open>Dimensions\<close>

definition catalog_dimension :: string where "catalog_dimension = ''catalog''"
definition content_dimension :: string where "content_dimension = ''content''"
definition use_dimension :: string where "use_dimension = ''use''"
definition resource_dimension :: string where "resource_dimension = ''resource''"
definition authz_dimension :: string where "authz_dimension = ''authz''"
definition generic_dimension :: string where "generic_dimension = ''generic''"

lemmas dimension_names =
  catalog_dimension_def content_dimension_def use_dimension_def resource_dimension_def
  authz_dimension_def generic_dimension_def

definition all_dimensions :: "string list" where
  "all_dimensions =
     [catalog_dimension, content_dimension, use_dimension, resource_dimension, authz_dimension]"

definition real_states_by_dimension :: "(string \<times> string list) list" where
  "real_states_by_dimension =
     [(catalog_dimension, [''draft'', ''submitted'', ''platform_investigating'',
         ''provider_investigating'', ''resolved'', ''rejected'']),
      (authz_dimension, [''draft'', ''platform_investigating'', ''provider_investigating'', ''resolved'']),
      (use_dimension, [''platform_investigating'']),
      (content_dimension, []),
      (resource_dimension, [])]"

definition shared_allowed_transitions :: "(string \<times> string list) list" where
  "shared_allowed_transitions =
     [(''draft'', [''submitted'']),
      (''submitted'', [''platform_investigating'', ''rejected'']),
      (''platform_investigating'', [''provider_investigating'', ''resolved'', ''rejected'']),
      (''provider_investigating'', [''platform_investigating'', ''resolved'', ''rejected'']),
      (''resolved'', [''closed'', ''provider_investigating'']),
      (''rejected'', []),
      (''closed'', [])]"

definition allowed_transitions_by_dimension :: "(string \<times> (string \<times> string list) list) list" where
  "allowed_transitions_by_dimension = map (\<lambda>d. (d, shared_allowed_transitions)) all_dimensions"

text \<open>\<^verbatim>\<open>ObjectionRepository.TRANSITIONS\<close>, for every other dimension.\<close>

definition generic_transitions :: "(string \<times> string list) list" where
  "generic_transitions =
     [(''draft'', [''submitted'', ''rejected'']),
      (''submitted'', [''accepted'', ''rejected'']),
      (''accepted'', [''platform_investigating'', ''provider_investigating'']),
      (''platform_investigating'', [''provider_investigating'', ''resolved'', ''rejected'', ''escalated'']),
      (''provider_investigating'', [''platform_investigating'', ''resolved'', ''rejected'', ''escalated'']),
      (''escalated'', [''platform_investigating'', ''provider_investigating'', ''resolved'', ''rejected'']),
      (''resolved'', [''closed'', ''provider_investigating'']),
      (''rejected'', []),
      (''closed'', [])]"

definition evidence_to_dimension :: "(string \<times> string) list" where
  "evidence_to_dimension =
     [(''catalog'', catalog_dimension), (''quality'', content_dimension), (''usage'', use_dimension),
      (''resource'', resource_dimension), (''authorization'', authz_dimension)]"

definition kind_to_dimension :: "(string \<times> string) list" where
  "kind_to_dimension =
     [(''catalog_quality'', catalog_dimension), (''resource_quality'', resource_dimension),
      (''authorization'', authz_dimension), (''usage'', use_dimension)]"

definition target_to_dimension :: "(string \<times> string) list" where
  "target_to_dimension =
     [(''catalog'', catalog_dimension), (''resource'', resource_dimension),
      (''authorization'', authz_dimension)]"

lemmas objection_tables =
  all_dimensions_def shared_allowed_transitions_def allowed_transitions_by_dimension_def
  generic_transitions_def evidence_to_dimension_def kind_to_dimension_def target_to_dimension_def

text \<open>The loop over the evidence; a catalog evidence ends it.\<close>

fun scan_evidence :: "string option \<Rightarrow> objection_evidence_row list \<Rightarrow> string option" where
  "scan_evidence first_known [] = first_known"
| "scan_evidence first_known (e # es) =
     (case map_of evidence_to_dimension (oe_type e) of
        None \<Rightarrow> scan_evidence first_known es
      | Some d \<Rightarrow>
          if d = catalog_dimension then Some catalog_dimension
          else scan_evidence (if first_known = None then Some d else first_known) es)"

definition dimension_of :: "objection_row \<Rightarrow> objection_evidence_row list \<Rightarrow> string" where
  "dimension_of c es =
     (case scan_evidence None es of
        Some d \<Rightarrow> d
      | None \<Rightarrow>
          (case map_of kind_to_dimension (oc_kind c) of
             Some d \<Rightarrow> d
           | None \<Rightarrow>
               (case map_of target_to_dimension (oc_target_type c) of
                  Some d \<Rightarrow> d
                | None \<Rightarrow> generic_dimension)))"

text \<open>\<^verbatim>\<open>_assert_transition\<close> as a predicate.\<close>

definition transition_table :: "string \<Rightarrow> (string \<times> string list) list" where
  "transition_table dim =
     (case map_of allowed_transitions_by_dimension dim of
        Some t \<Rightarrow> t | None \<Rightarrow> generic_transitions)"

definition next_statuses :: "string \<Rightarrow> string \<Rightarrow> string list" where
  "next_statuses dim current =
     (case map_of (transition_table dim) current of Some xs \<Rightarrow> xs | None \<Rightarrow> [])"

definition legal_transition :: "string \<Rightarrow> string \<Rightarrow> string \<Rightarrow> bool" where
  "legal_transition dim current nxt \<longleftrightarrow> nxt \<in> set (next_statuses dim current)"

section \<open>Facts on the tables\<close>

lemma transition_table_cases:
  "transition_table dim =
     (if dim \<in> set all_dimensions then shared_allowed_transitions else generic_transitions)"
  by (simp add: transition_table_def allowed_transitions_by_dimension_def all_dimensions_def)

definition objection_moves :: "(string \<times> string) set" where
  "objection_moves = {(a, b). \<exists>dim. legal_transition dim a b}"

lemma terminal_statuses: "(''closed'', b) \<notin> objection_moves" "(''rejected'', b) \<notin> objection_moves"
  by (auto simp: objection_moves_def legal_transition_def next_statuses_def transition_table_cases
      shared_allowed_transitions_def generic_transitions_def)

lemma accept_edges:
  "legal_transition dim ''submitted'' (if dim \<in> set all_dimensions then ''platform_investigating'' else ''accepted'')"
  by (simp add: legal_transition_def next_statuses_def transition_table_cases
      shared_allowed_transitions_def generic_transitions_def)

end
