(* ===== verification/ObjectionRepo.thy ===== *)
theory ObjectionRepo
  imports ObjectionState
begin

text \<open>
  \<^verbatim>\<open>domain/repositories/objection.py\<close> over its four tables, and the case-changing handlers
  of \<^verbatim>\<open>command/handlers/j1/objection.py\<close>. The clock is the argument \<open>now\<close>; new identifiers
  come from \<open>uuid\<close>. The handlers are the mutations they hand to the write pipeline, with the
  actor it resolves.
\<close>

section \<open>State\<close>

record objection_process_row =
  op_objection :: string
  op_node :: json
  op_org :: json
  op_snapshot :: json
  op_action :: string
  op_result :: string
  op_opinion :: json
  op_created :: nat

record objection_evaluation_row =
  ov_objection :: string
  ov_by :: json
  ov_solved :: bool
  ov_overall :: json
  ov_timeliness :: json
  ov_result :: json
  ov_comment :: json

record objection_db =
  odb_cases :: "objection_row list"
  odb_evidence :: "objection_evidence_row list"
  odb_process :: "objection_process_row list"
  odb_evals :: "objection_evaluation_row list"
  odb_next :: nat

datatype objection_error =
    ObjectionMissing string
  | ObjectionState string string string
  | ObjectionNotResolved
  | ObjectionIntegrity
  | ObjectionPy py_error

definition case_evidence :: "objection_db \<Rightarrow> string \<Rightarrow> objection_evidence_row list" where
  "case_evidence db i = filter (\<lambda>e. oe_objection e = i) (odb_evidence db)"

definition find_case :: "objection_db \<Rightarrow> string \<Rightarrow> objection_row option" where
  "find_case db i = row_by oc_id i (odb_cases db)"

section \<open>Reading\<close>

definition list_cases :: "objection_db \<Rightarrow> string \<Rightarrow> string option \<Rightarrow> objection_row list" where
  "list_cases db tenant status =
     sort_key oc_created
       (filter (\<lambda>c. oc_tenant c = tenant \<and>
                    (status = None \<or> status = Some [] \<or> status = Some (oc_status c))) (odb_cases db))"

definition escalate_action :: string where "escalate_action = ''escalate''"

definition is_supervised :: "objection_db \<Rightarrow> string \<Rightarrow> bool" where
  "is_supervised db i =
     list_ex (\<lambda>p. op_objection p = i \<and> op_action p = escalate_action) (odb_process db)"

definition list_supervised_cases :: "objection_db \<Rightarrow> string \<Rightarrow> objection_row list" where
  "list_supervised_cases db tenant =
     sort_key oc_created
       (filter (\<lambda>c. oc_tenant c = tenant \<and> is_supervised db (oc_id c) \<and>
                    oc_status c \<notin> {''closed'', ''rejected''}) (odb_cases db))"

definition get_case :: "objection_db \<Rightarrow> string \<Rightarrow> string \<Rightarrow> objection_row option" where
  "get_case db tenant i =
     (case find_case db i of Some c \<Rightarrow> if oc_tenant c = tenant then Some c else None | None \<Rightarrow> None)"

definition list_processes :: "objection_db \<Rightarrow> string \<Rightarrow> objection_process_row list" where
  "list_processes db i = sort_key op_created (filter (\<lambda>p. op_objection p = i) (odb_process db))"

definition list_evidence :: "objection_db \<Rightarrow> string \<Rightarrow> objection_evidence_row list" where
  "list_evidence db i = sort_key oe_created (case_evidence db i)"

definition get_evaluation :: "objection_db \<Rightarrow> string \<Rightarrow> objection_evaluation_row option" where
  "get_evaluation db i = row_by ov_objection i (odb_evals db)"

section \<open>Writing\<close>

definition add_process_row ::
    "nat \<Rightarrow> string \<Rightarrow> json \<Rightarrow> string \<Rightarrow> string \<Rightarrow> json \<Rightarrow> json \<Rightarrow> json \<Rightarrow> objection_db \<Rightarrow> objection_db" where
  "add_process_row now i node action result org snapshot opinion db =
     db\<lparr>odb_process := odb_process db @
          [\<lparr>op_objection = i, op_node = node, op_org = org,
            op_snapshot = safe_json (py_or snapshot (JObj [])), op_action = action,
            op_result = result, op_opinion = opinion, op_created = now\<rparr>]\<rparr>"

definition add_evidence_row ::
    "nat \<Rightarrow> string \<Rightarrow> json \<Rightarrow> objection_db \<Rightarrow> json \<Rightarrow> objection_error + objection_db" where
  "add_evidence_row now i submitted_by db evidence =
     (case evidence of
        JObj d \<Rightarrow> Inr (db\<lparr>odb_evidence := odb_evidence db @
          [\<lparr>oe_objection = i, oe_type = py_str (dget_or d ''evidence_type'' (JStr ''text'')),
            oe_content = safe_json (py_or (dget d ''content_json'') evidence),
            oe_by = safe_json (py_or (dget d ''submitted_by_json'') submitted_by),
            oe_created = now\<rparr>]\<rparr>)
      | _ \<Rightarrow> Inl (ObjectionPy AttributeError))"

text \<open>\<^verbatim>\<open>for item in evidence or []\<close>.\<close>

definition add_evidence_rows ::
    "nat \<Rightarrow> string \<Rightarrow> json \<Rightarrow> json \<Rightarrow> objection_db \<Rightarrow> objection_error + objection_db" where
  "add_evidence_rows now i submitted_by evidence db =
     bindE (raiseE ObjectionPy (py_iter (py_or evidence (JList [])))) (\<lambda>items.
       forE (add_evidence_row now i submitted_by) db items)"

definition create_case ::
    "(nat \<Rightarrow> string) \<Rightarrow> nat \<Rightarrow> string \<Rightarrow> dict \<Rightarrow> objection_db \<Rightarrow>
     objection_error + (objection_row \<times> objection_db)" where
  "create_case uuid now tenant payload db =
     bindE (raiseE ObjectionPy (dict_item payload ''target_type'')) (\<lambda>target_type.
     bindE (raiseE ObjectionPy (dict_item payload ''target_id'')) (\<lambda>target.
     bindE (raiseE ObjectionPy (dict_item payload ''title'')) (\<lambda>title.
     let i = uuid (odb_next db);
         actor = py_or (dget payload ''actor_snapshot_json'') (JObj []);
         row = \<lparr>oc_id = i, oc_tenant = tenant,
                oc_kind = py_str (dget_or payload ''objection_kind''
                                    (dget_or payload ''target_type'' (JStr ''usage''))),
                oc_target_type = py_str target_type, oc_target = JStr (py_str target),
                oc_application = dget payload ''related_application_id'',
                oc_title = JStr (py_str title),
                oc_complainant = JStr (py_str (dget_or payload ''complainant_org_id'' (JStr ''unknown''))),
                oc_complainant_snapshot =
                  safe_json (py_or (dget payload ''complainant_org_snapshot_json'') (JObj [])),
                oc_provider = JStr (py_str (dget_or payload ''provider_org_id'' (JStr ''unknown''))),
                oc_provider_snapshot =
                  safe_json (py_or (dget payload ''provider_org_snapshot_json'') (JObj [])),
                oc_basis = dget payload ''basis_text'', oc_expected = dget payload ''expected_result'',
                oc_status = py_str (dget_or payload ''status'' (JStr ''draft'')), oc_summary = JNull,
                oc_created = now, oc_updated = now, oc_closed = None, oc_version = 1\<rparr>;
         db1 = add_process_row now i (JStr lbl_obj_create) ''create'' (oc_status row) JNull actor
                 (dget payload ''basis_text'')
                 (db\<lparr>odb_cases := odb_cases db @ [row], odb_next := Suc (odb_next db)\<rparr>)
     in bindE (add_evidence_rows now i actor (dget payload ''evidence'') db1) (\<lambda>db2.
        Inr (row, db2)))))"

record process_args =
  pa_node :: string
  pa_action :: string
  pa_result :: string
  pa_org :: json
  pa_snapshot :: json
  pa_opinion :: json
  pa_evidence :: json

definition transition_case ::
    "nat \<Rightarrow> string \<Rightarrow> string \<Rightarrow> process_args \<Rightarrow> json \<Rightarrow> objection_db \<Rightarrow>
     objection_error + objection_db" where
  "transition_case now i next_status a resolved_summary db =
     (case find_case db i of
        None \<Rightarrow> Inl (ObjectionMissing i)
      | Some c \<Rightarrow>
          let dim = dimension_of c (case_evidence db i)
          in if \<not> legal_transition dim (oc_status c) next_status
             then Inl (ObjectionState dim (oc_status c) next_status)
             else
               let c' = c\<lparr>oc_status := next_status, oc_version := oc_version c + 1, oc_updated := now,
                          oc_summary := (if resolved_summary \<noteq> JNull then resolved_summary
                                         else oc_summary c),
                          oc_closed := (if next_status = ''closed'' then Some now else oc_closed c)\<rparr>;
                   db1 = add_process_row now i (JStr (pa_node a)) (pa_action a) (pa_result a)
                           (pa_org a) (pa_snapshot a) (pa_opinion a)
                           (db\<lparr>odb_cases := put_row oc_id c' (odb_cases db)\<rparr>)
               in add_evidence_rows now i (py_or (pa_snapshot a) (JObj [])) (pa_evidence a) db1)"

definition add_evidence ::
    "nat \<Rightarrow> string \<Rightarrow> json \<Rightarrow> json \<Rightarrow> objection_db \<Rightarrow> objection_error + objection_db" where
  "add_evidence now i evidence submitted_by db =
     (case find_case db i of
        None \<Rightarrow> Inl (ObjectionMissing i)
      | Some c \<Rightarrow> add_evidence_row now i (py_or submitted_by (JObj [])) db evidence)"

definition add_process ::
    "nat \<Rightarrow> string \<Rightarrow> process_args \<Rightarrow> objection_db \<Rightarrow> objection_error + objection_db" where
  "add_process now i a db =
     (case find_case db i of
        None \<Rightarrow> Inl (ObjectionMissing i)
      | Some c \<Rightarrow>
          add_evidence_rows now i (py_or (pa_snapshot a) (JObj [])) (pa_evidence a)
            (add_process_row now i (JStr (pa_node a)) (pa_action a) (pa_result a) (pa_org a)
               (pa_snapshot a) (pa_opinion a) db))"

definition evaluation_of :: "string \<Rightarrow> dict \<Rightarrow> objection_evaluation_row" where
  "evaluation_of i payload =
     \<lparr>ov_objection = i,
      ov_by = safe_json (py_or (dget payload ''evaluator_snapshot_json'') (JObj [])),
      ov_solved = truthy (dget_or payload ''solved_flag'' (JBool True)),
      ov_overall = dget payload ''overall_score'', ov_timeliness = dget payload ''timeliness_score'',
      ov_result = dget payload ''result_score'', ov_comment = dget payload ''comment''\<rparr>"

definition evaluate_case ::
    "nat \<Rightarrow> string \<Rightarrow> dict \<Rightarrow> objection_db \<Rightarrow> objection_error + objection_db" where
  "evaluate_case now i payload db =
     (case find_case db i of
        None \<Rightarrow> Inl (ObjectionMissing i)
      | Some c \<Rightarrow>
          if oc_status c \<noteq> ''resolved'' then Inl ObjectionNotResolved
          else
            let ev = evaluation_of i payload;
                db1 = db\<lparr>odb_evals := (if get_evaluation db i = None then odb_evals db @ [ev]
                                       else put_row ov_objection ev (odb_evals db))\<rparr>
            in Inr (add_process_row now i (JStr lbl_obj_evaluate) ''evaluate'' ''pass'' JNull
                      (py_or (dget payload ''evaluator_snapshot_json'') (JObj []))
                      (dget payload ''comment'') db1))"

section \<open>Mirroring a dispute\<close>

text \<open>The three mappings of \<^verbatim>\<open>upsert_from_dispute\<close>. A status is looked up in two
  dictionaries, which an unhashable value makes raise.\<close>

definition dispute_status_map :: "(string \<times> string) list" where
  "dispute_status_map =
     [(''open'', ''submitted''), (''escalated'', ''platform_investigating''), (''resolved'', ''resolved'')]"

definition map_dispute_status :: "json \<Rightarrow> py_error + string" where
  "map_dispute_status status =
     (if \<not> hashable status then Inl TypeError
      else case status of
        JStr s \<Rightarrow>
          (case map_of dispute_status_map s of
             Some t \<Rightarrow> Inr t
           | None \<Rightarrow> if map_of generic_transitions s \<noteq> None then Inr s else Inr ''submitted'')
      | _ \<Rightarrow> Inr ''submitted'')"

definition map_action_type :: "json \<Rightarrow> py_error + string" where
  "map_action_type label =
     bindE (json_has label lbl_dsp_accept) (\<lambda>accept.
     if accept then Inr ''accept''
     else bindE (json_has label lbl_dsp_survey) (\<lambda>survey.
       bindE (json_has label lbl_dsp_check) (\<lambda>check.
       if survey \<or> check then Inr ''investigate''
       else bindE (json_has label lbl_dsp_escalate) (\<lambda>escalate.
         if escalate then Inr ''transfer''
         else bindE (json_has label lbl_dsp_fix) (\<lambda>fix.
           bindE (json_has label lbl_dsp_fixed) (\<lambda>fixed.
             Inr (if fix \<or> fixed then ''resolve'' else ''investigate'')))))))"

definition map_action_result :: "json \<Rightarrow> string" where
  "map_action_result status = (if status = JStr ''resolved'' then ''closed'' else ''pass'')"

definition owner_snapshot :: "json \<Rightarrow> json" where
  "owner_snapshot owner = JObj [(''owner'', owner)]"

definition add_timeline_step ::
    "nat \<Rightarrow> string \<Rightarrow> json \<Rightarrow> json \<Rightarrow> objection_db \<Rightarrow> json \<Rightarrow> py_error + objection_db" where
  "add_timeline_step now i owner status db step =
     bindE (json_item step ''label'') (\<lambda>label.
     bindE (map_action_type label) (\<lambda>action.
     bindE (json_get step ''note'') (\<lambda>note.
     bindE (json_item step ''time'') (\<lambda>time.
       Inr (db\<lparr>odb_process := odb_process db @
                 [\<lparr>op_objection = i, op_node = label, op_org = owner, op_snapshot = owner_snapshot owner,
                   op_action = action, op_result = map_action_result status, op_opinion = note,
                   op_created = now\<rparr>],
              odb_evidence := odb_evidence db @
                 [\<lparr>oe_objection = i, oe_type = ''text'',
                   oe_content = JObj [(''time'', time), (''note'', note), (''label'', label)],
                   oe_by = owner_snapshot owner, oe_created = now\<rparr>]\<rparr>)))))"

definition dispute_summary :: "dict \<Rightarrow> json \<Rightarrow> json" where
  "dispute_summary dispute status =
     (if status = JStr ''resolved'' then dget dispute ''aiSummary'' else JNull)"

text \<open>A row object whose attributes are assigned is updated only when one of them changed, and
  then stamped. An identifier already used in another tenant breaks the primary key.\<close>

definition stamp_update :: "nat \<Rightarrow> objection_row \<Rightarrow> objection_row \<Rightarrow> objection_row" where
  "stamp_update now c c' = (if c' = c then c else c'\<lparr>oc_updated := now\<rparr>)"

definition dispute_case_new ::
    "nat \<Rightarrow> string \<Rightarrow> dict \<Rightarrow> string \<Rightarrow> json \<Rightarrow> json \<Rightarrow> json \<Rightarrow> string \<Rightarrow> objection_row" where
  "dispute_case_new now tenant dispute i title owner status mapped =
     \<lparr>oc_id = i, oc_tenant = tenant, oc_kind = ''usage'', oc_target_type = ''alert'',
      oc_target = JStr i, oc_application = JNull, oc_title = title,
      oc_complainant = owner, oc_complainant_snapshot = owner_snapshot owner,
      oc_provider = owner, oc_provider_snapshot = owner_snapshot owner,
      oc_basis = dget dispute ''aiSummary'', oc_expected = JStr lbl_obj_expected,
      oc_status = mapped, oc_summary = dispute_summary dispute status,
      oc_created = now, oc_updated = now, oc_closed = None, oc_version = 1\<rparr>"

definition dispute_case_again ::
    "nat \<Rightarrow> dict \<Rightarrow> objection_row \<Rightarrow> json \<Rightarrow> json \<Rightarrow> json \<Rightarrow> string \<Rightarrow> objection_row" where
  "dispute_case_again now dispute c title owner status mapped =
     stamp_update now c
       (c\<lparr>oc_title := title, oc_complainant := owner, oc_complainant_snapshot := owner_snapshot owner,
          oc_provider := owner, oc_provider_snapshot := owner_snapshot owner,
          oc_basis := dget dispute ''aiSummary'', oc_status := mapped,
          oc_summary := dispute_summary dispute status\<rparr>)"

definition clear_trail :: "string \<Rightarrow> objection_db \<Rightarrow> objection_db" where
  "clear_trail i db =
     db\<lparr>odb_process := filter (\<lambda>p. op_objection p \<noteq> i) (odb_process db),
        odb_evidence := filter (\<lambda>e. oe_objection e \<noteq> i) (odb_evidence db),
        odb_evals := filter (\<lambda>v. ov_objection v \<noteq> i) (odb_evals db)\<rparr>"

definition dispute_evaluation :: "string \<Rightarrow> dict \<Rightarrow> json \<Rightarrow> json \<Rightarrow> objection_evaluation_row" where
  "dispute_evaluation i dispute owner status =
     \<lparr>ov_objection = i, ov_by = owner_snapshot owner, ov_solved = (status = JStr ''resolved''),
      ov_overall = (if status = JStr ''resolved'' then JInt 100 else JNull),
      ov_timeliness = JNull, ov_result = JNull, ov_comment = dget dispute ''aiSummary''\<rparr>"

definition put_dispute_case ::
    "nat \<Rightarrow> string \<Rightarrow> dict \<Rightarrow> string \<Rightarrow> json \<Rightarrow> json \<Rightarrow> json \<Rightarrow> string \<Rightarrow> objection_db \<Rightarrow>
     objection_error + objection_db" where
  "put_dispute_case now tenant dispute i title owner status mapped db =
     (case get_case db tenant i of
        Some c \<Rightarrow>
          Inr (db\<lparr>odb_cases := put_row oc_id (dispute_case_again now dispute c title owner status mapped)
                               (odb_cases db)\<rparr>)
      | None \<Rightarrow>
          if find_case db i \<noteq> None then Inl ObjectionIntegrity
          else Inr (db\<lparr>odb_cases := odb_cases db @
                 [dispute_case_new now tenant dispute i title owner status mapped]\<rparr>))"

text \<open>The identifier of a dispute is text (it is the primary key).\<close>

definition upsert_from_dispute ::
    "nat \<Rightarrow> string \<Rightarrow> string \<Rightarrow> dict \<Rightarrow> objection_db \<Rightarrow> objection_error + objection_db" where
  "upsert_from_dispute now tenant i dispute db =
     bindE (raiseE ObjectionPy (dict_item dispute ''title'')) (\<lambda>title.
     bindE (raiseE ObjectionPy (dict_item dispute ''owner'')) (\<lambda>owner.
     bindE (raiseE ObjectionPy (dict_item dispute ''status'')) (\<lambda>status.
     bindE (raiseE ObjectionPy (map_dispute_status status)) (\<lambda>mapped.
     bindE (put_dispute_case now tenant dispute i title owner status mapped db) (\<lambda>db1.
     bindE (raiseE ObjectionPy (py_iter (dget_or dispute ''timeline'' (JList [])))) (\<lambda>timeline.
     bindE (raiseE ObjectionPy (forE (add_timeline_step now i owner status) (clear_trail i db1) timeline)) (\<lambda>db2.
       Inr (db2\<lparr>odb_evals := odb_evals db2 @ [dispute_evaluation i dispute owner status]\<rparr>))))))))"

end
