(* ===== verification/CallContext.thy ===== *)
theory CallContext
  imports SafeJson
begin

text \<open>
  What a skill reads from its payload about the session it is called in, when the payload came
  through the trusted path of \<^verbatim>\<open>shared/session_context.py\<close>.
\<close>

text \<open>\<^verbatim>\<open>caller_org_code\<close> of \<^verbatim>\<open>shared/session_context.py\<close>.\<close>

definition caller_org_code :: "dict \<Rightarrow> string" where
  "caller_org_code payload =
     (let snapshot = (case dget payload ''actor_snapshot'' of JObj d \<Rightarrow> d | _ \<Rightarrow> [])
      in py_str (first_of [dget payload ''org_code'', dget payload ''current_org_code'',
                  dget snapshot ''current_org_code'', dget snapshot ''org_code'', JStr []]))"

end
