(* ===== verification/ObjectionFlow.thy ===== *)
theory ObjectionFlow
  imports ObjectionRepo CallContext
begin

text \<open>
  The handlers of \<^verbatim>\<open>command/handlers/j1/objection.py\<close>. Each is the function it hands to
  the write pipeline, applied to the actor the pipeline resolves; what it appends to the audit
  feed is part of the state. The entities an objection may be about are an argument.
\<close>

section \<open>State and calls\<close>

record entity_row =
  en_tenant :: string
  en_id :: string
  en_code :: string

record mapping_row =
  mp_tenant :: string
  mp_type :: string
  mp_ref :: string
  mp_canonical :: string

record entity_tables =
  et_catalogs :: "entity_row list"
  et_resources :: "entity_row list"
  et_deliveries :: "entity_row list"
  et_mappings :: "mapping_row list"

record objection_sys =
  os_db :: objection_db
  os_feed :: "(string \<times> string \<times> string \<times> string) list"

record objection_call =
  cl_actor :: string
  cl_ctx_role :: string
  cl_now :: nat
  cl_payload :: dict

datatype handler_error =
    NotFound string
  | InvalidState objection_error
  | UnknownTargetType string
  | TargetMissing string string
  | HandlerPy py_error
  | HandlerDb

definition default_tenant :: string where "default_tenant = ''sd-default''"

section \<open>Creating a case\<close>

definition validated_target_types :: "string list" where
  "validated_target_types = [''catalog'', ''resource'', ''delivery'']"

definition known_target_types :: "string list" where
  "known_target_types = validated_target_types @ [''authorization'', ''alert'', ''content'', ''use'']"

definition entity_hit :: "entity_row list \<Rightarrow> string \<Rightarrow> string \<Rightarrow> bool" where
  "entity_hit rows target tenant =
     list_ex (\<lambda>r. en_tenant r = tenant \<and> (en_id r = target \<or> en_code r = target)) rows"

definition mapping_hit :: "mapping_row list \<Rightarrow> string \<Rightarrow> string \<Rightarrow> string \<Rightarrow> string \<Rightarrow> bool" where
  "mapping_hit rows legacy_type canonical target tenant =
     list_ex (\<lambda>r. mp_tenant r = tenant \<and> mp_type r = legacy_type \<and> mp_ref r = target \<and>
                  mp_canonical r = canonical) rows"

definition target_exists :: "entity_tables \<Rightarrow> string \<Rightarrow> string \<Rightarrow> string \<Rightarrow> bool" where
  "target_exists ents target_type target tenant =
     (if target_type \<notin> set validated_target_types then True
      else if target = [] then False
      else if target_type = ''catalog''
        then entity_hit (et_catalogs ents) target tenant \<or>
             mapping_hit (et_mappings ents) ''data_catalog'' ''catalog_entry'' target tenant
      else if target_type = ''resource''
        then entity_hit (et_resources ents) target tenant \<or>
             mapping_hit (et_mappings ents) ''data_resource'' ''resource_asset'' target tenant
      else entity_hit (et_deliveries ents) target tenant \<or>
           mapping_hit (et_mappings ents) ''data_apply'' ''delivery_task'' target tenant)"

definition call_role :: "objection_call \<Rightarrow> string" where
  "call_role c = py_str (dget_or (cl_payload c) ''role'' (JStr (cl_ctx_role c)))"

definition actor_fields :: "objection_call \<Rightarrow> dict" where
  "actor_fields c = [(''actor'', JStr (cl_actor c)), (''role'', JStr (call_role c))]"

definition feed_entry :: "string \<Rightarrow> string \<Rightarrow> objection_call \<Rightarrow> objection_sys \<Rightarrow> objection_sys" where
  "feed_entry event i c s = s\<lparr>os_feed := os_feed s @ [(event, i, ''ok'', cl_actor c)]\<rparr>"

text \<open>An error of the repository where the handler does not catch it.\<close>

definition uncaught :: "objection_error \<Rightarrow> handler_error" where
  "uncaught e =
     (case e of
        ObjectionMissing i \<Rightarrow> HandlerPy (KeyError i)
      | ObjectionPy p \<Rightarrow> HandlerPy p
      | ObjectionIntegrity \<Rightarrow> HandlerDb
      | _ \<Rightarrow> InvalidState e)"

text \<open>\<^verbatim>\<open>except KeyError\<close> and \<^verbatim>\<open>except ValueError\<close>.\<close>

definition caught :: "string \<Rightarrow> objection_error \<Rightarrow> handler_error" where
  "caught i e =
     (case e of
        ObjectionMissing _ \<Rightarrow> NotFound i
      | ObjectionPy (KeyError _) \<Rightarrow> NotFound i
      | _ \<Rightarrow> uncaught e)"

definition stripped :: "dict \<Rightarrow> string \<Rightarrow> string" where
  "stripped payload k = strip_blanks (py_str (py_or (dget payload k) (JStr [])))"

definition create_overrides :: "objection_call \<Rightarrow> dict" where
  "create_overrides c =
     [(''actor_snapshot_json'', JObj (actor_fields c)),
      (''status'', JStr (py_str (dget_or (cl_payload c) ''status'' (JStr ''draft'')))),
      (''complainant_org_id'',
        first_of [JStr (caller_org_code (cl_payload c)),
                  JStr (py_str (py_or (dget (cl_payload c) ''complainant_org_id'') (JStr []))),
                  JStr ''unknown''])]"

definition handle_create ::
    "(nat \<Rightarrow> string) \<Rightarrow> entity_tables \<Rightarrow> objection_call \<Rightarrow> objection_sys \<Rightarrow>
     handler_error + objection_sys" where
  "handle_create uuid ents c s =
     (let target_type = stripped (cl_payload c) ''target_type'';
          target = stripped (cl_payload c) ''target_id''
      in if target_type \<notin> set known_target_types then Inl (UnknownTargetType target_type)
         else if \<not> target_exists ents target_type target default_tenant
           then Inl (TargetMissing target_type target)
         else bindE (raiseE uncaught (create_case uuid (cl_now c) default_tenant
                       (dmerge (cl_payload c) (create_overrides c)) (os_db s))) (\<lambda>(row, db).
           Inr (feed_entry ''objection.case.create'' (oc_id row) c (s\<lparr>os_db := db\<rparr>))))"

section \<open>Moving a case\<close>

definition objection_id_of :: "objection_call \<Rightarrow> handler_error + string" where
  "objection_id_of c =
     bindE (raiseE HandlerPy (dict_item (cl_payload c) ''objection_id'')) (\<lambda>v. Inr (py_str v))"

text \<open>\<^verbatim>\<open>{"actor": actor, "role": role} | safe_json(payload.get(k) or {})\<close>.\<close>

definition client_snapshot :: "objection_call \<Rightarrow> string \<Rightarrow> py_error + dict" where
  "client_snapshot c k =
     (case safe_json (py_or (dget (cl_payload c) k) (JObj [])) of
        JObj d \<Rightarrow> Inr (dmerge (actor_fields c) d)
      | _ \<Rightarrow> Inl TypeError)"

definition transition_args :: "objection_call \<Rightarrow> string \<Rightarrow> string \<Rightarrow> dict \<Rightarrow> process_args" where
  "transition_args c action node snapshot =
     \<lparr>pa_node = node, pa_action = action,
      pa_result = py_str (dget_or (cl_payload c) ''action_result'' (JStr ''pass'')),
      pa_org = dget (cl_payload c) ''handler_org_id'', pa_snapshot = JObj snapshot,
      pa_opinion = first_of [dget (cl_payload c) ''opinion'', dget (cl_payload c) ''decision_reason'',
                             dget (cl_payload c) ''resolved_summary''],
      pa_evidence = py_or (dget (cl_payload c) ''evidence'') (JList [])\<rparr>"

definition handle_transition ::
    "string \<Rightarrow> string \<Rightarrow> string \<Rightarrow> string \<Rightarrow> objection_call \<Rightarrow> objection_sys \<Rightarrow>
     handler_error + objection_sys" where
  "handle_transition i next_status action node c s =
     bindE (raiseE HandlerPy (client_snapshot c ''handler_snapshot_json'')) (\<lambda>snapshot.
     bindE (raiseE (caught i) (transition_case (cl_now c) i next_status
              (transition_args c action node snapshot) (dget (cl_payload c) ''resolved_summary'')
              (os_db s))) (\<lambda>db.
       Inr (feed_entry (''objection.case.'' @ action) i c (s\<lparr>os_db := db\<rparr>))))"

definition accept_target :: "objection_db \<Rightarrow> string \<Rightarrow> string" where
  "accept_target db i =
     (case get_case db default_tenant i of
        None \<Rightarrow> ''accepted''
      | Some c \<Rightarrow>
          if map_of allowed_transitions_by_dimension (dimension_of c (list_evidence db i)) \<noteq> None
          then ''platform_investigating'' else ''accepted'')"

text \<open>The preferred targets in order, among those the table of the dimension allows.\<close>

definition legal_assign_target :: "objection_db \<Rightarrow> string \<Rightarrow> string" where
  "legal_assign_target db i =
     (case get_case db default_tenant i of
        None \<Rightarrow> ''provider_investigating''
      | Some c \<Rightarrow>
          let allowed = next_statuses (dimension_of c (list_evidence db i)) (oc_status c)
          in case find (\<lambda>p. p \<in> set allowed) [''provider_investigating'', ''platform_investigating''] of
               Some p \<Rightarrow> p | None \<Rightarrow> ''provider_investigating'')"

definition assign_target :: "objection_call \<Rightarrow> objection_db \<Rightarrow> string \<Rightarrow> string" where
  "assign_target c db i =
     (let explicit = dget (cl_payload c) ''target_status''
      in if truthy explicit then py_str explicit else legal_assign_target db i)"

definition handle_submit :: "objection_call \<Rightarrow> objection_sys \<Rightarrow> handler_error + objection_sys" where
  "handle_submit c s = bindE (objection_id_of c) (\<lambda>i.
     handle_transition i ''submitted'' ''submit'' lbl_obj_submit c s)"

definition handle_accept :: "objection_call \<Rightarrow> objection_sys \<Rightarrow> handler_error + objection_sys" where
  "handle_accept c s = bindE (objection_id_of c) (\<lambda>i.
     handle_transition i (accept_target (os_db s) i) ''accept'' lbl_obj_accept c s)"

definition handle_assign :: "objection_call \<Rightarrow> objection_sys \<Rightarrow> handler_error + objection_sys" where
  "handle_assign c s = bindE (objection_id_of c) (\<lambda>i.
     handle_transition i (assign_target c (os_db s) i) ''assign'' lbl_obj_assign c s)"

definition handle_close :: "objection_call \<Rightarrow> objection_sys \<Rightarrow> handler_error + objection_sys" where
  "handle_close c s = bindE (objection_id_of c) (\<lambda>i.
     handle_transition i ''closed'' ''close'' lbl_obj_close c s)"

definition handle_reject :: "objection_call \<Rightarrow> objection_sys \<Rightarrow> handler_error + objection_sys" where
  "handle_reject c s = bindE (objection_id_of c) (\<lambda>i.
     handle_transition i ''rejected'' ''reject'' lbl_obj_reject c s)"

definition handle_review :: "objection_call \<Rightarrow> objection_sys \<Rightarrow> handler_error + objection_sys" where
  "handle_review c s =
     bindE (raiseE HandlerPy (dict_item (cl_payload c) ''decision'')) (\<lambda>decision.
     bindE (objection_id_of c) (\<lambda>i.
       handle_transition i (if py_str decision = ''resolve'' then ''resolved'' else ''provider_investigating'')
         ''review'' lbl_obj_review c s))"

section \<open>Events that leave the status alone\<close>

definition event_args ::
    "objection_call \<Rightarrow> string \<Rightarrow> string \<Rightarrow> string \<Rightarrow> json \<Rightarrow> dict \<Rightarrow> process_args" where
  "event_args c action node result opinion snapshot =
     \<lparr>pa_node = py_str (dget_or (cl_payload c) ''node_name'' (JStr node)), pa_action = action,
      pa_result = py_str (dget_or (cl_payload c) ''action_result'' (JStr result)),
      pa_org = dget (cl_payload c) ''handler_org_id'', pa_snapshot = JObj snapshot,
      pa_opinion = opinion, pa_evidence = py_or (dget (cl_payload c) ''evidence'') (JList [])\<rparr>"

definition handle_event ::
    "string \<Rightarrow> string \<Rightarrow> string \<Rightarrow> json \<Rightarrow> string \<Rightarrow> objection_call \<Rightarrow> objection_sys \<Rightarrow>
     handler_error + objection_sys" where
  "handle_event action node result opinion i c s =
     bindE (raiseE HandlerPy (client_snapshot c ''handler_snapshot_json'')) (\<lambda>snapshot.
     bindE (raiseE (caught i) (add_process (cl_now c) i
              (event_args c action node result opinion snapshot) (os_db s))) (\<lambda>db.
       Inr (feed_entry (''objection.case.'' @ action) i c (s\<lparr>os_db := db\<rparr>))))"

definition handle_escalate :: "objection_call \<Rightarrow> objection_sys \<Rightarrow> handler_error + objection_sys" where
  "handle_escalate c s = bindE (objection_id_of c) (\<lambda>i.
     handle_event escalate_action lbl_obj_escalate ''escalated''
       (first_of [dget (cl_payload c) ''opinion'', dget (cl_payload c) ''escalate_reason'']) i c s)"

definition handle_reply :: "objection_call \<Rightarrow> objection_sys \<Rightarrow> handler_error + objection_sys" where
  "handle_reply c s = bindE (objection_id_of c) (\<lambda>i.
     handle_event ''reply'' lbl_obj_reply ''submitted'' (dget (cl_payload c) ''opinion'') i c s)"

definition handle_evaluate :: "objection_call \<Rightarrow> objection_sys \<Rightarrow> handler_error + objection_sys" where
  "handle_evaluate c s =
     bindE (objection_id_of c) (\<lambda>i.
     bindE (raiseE HandlerPy (client_snapshot c ''evaluator_snapshot_json'')) (\<lambda>snapshot.
     bindE (raiseE (caught i) (evaluate_case (cl_now c) i
              (dmerge (cl_payload c) [(''evaluator_snapshot_json'', JObj snapshot)]) (os_db s))) (\<lambda>db.
       Inr (feed_entry ''objection.case.evaluate'' i c (s\<lparr>os_db := db\<rparr>)))))"

section \<open>Queries\<close>

definition if_given :: "json \<Rightarrow> ('a \<Rightarrow> bool) \<Rightarrow> 'a list \<Rightarrow> 'a list" where
  "if_given v keep rows = (if v = JNull then rows else filter keep rows)"

definition if_truthy :: "json \<Rightarrow> ('a \<Rightarrow> bool) \<Rightarrow> 'a list \<Rightarrow> 'a list" where
  "if_truthy v keep rows = (if truthy v then filter keep rows else rows)"

definition query_cases :: "dict \<Rightarrow> objection_db \<Rightarrow> objection_row list" where
  "query_cases payload db =
     (let status = dget payload ''status''; target_type = dget payload ''target_type'';
          target_ref = dget payload ''target_ref''; org = dget payload ''target_org_id'';
          dimension = dget payload ''dimension''
      in if_given dimension (\<lambda>c. dimension_of c (list_evidence db (oc_id c)) = py_str dimension)
           (if_given org (\<lambda>c. py_str (py_or (oc_provider c) (JStr [])) = py_str org)
             (if_given target_ref (\<lambda>c. py_str (oc_target c) = py_str target_ref)
               (if_truthy target_type (\<lambda>c. oc_target_type c = py_str target_type)
                 (if_truthy status (\<lambda>c. oc_status c = py_str status)
                   (list_cases db default_tenant None))))))"

definition count_status :: "(string \<times> nat) list \<Rightarrow> objection_row \<Rightarrow> (string \<times> nat) list" where
  "count_status acc c =
     dset acc (oc_status c) ((case map_of acc (oc_status c) of None \<Rightarrow> 0 | Some n \<Rightarrow> n) + 1)"

record objection_metrics =
  om_total :: nat
  om_by_status :: "(string \<times> nat) list"
  om_resolved :: nat
  om_closed :: nat
  om_open :: int

definition query_metrics :: "objection_db \<Rightarrow> objection_metrics" where
  "query_metrics db =
     (let cases = list_cases db default_tenant None;
          by_status = foldl count_status [] cases;
          count = (\<lambda>k. case map_of by_status k of None \<Rightarrow> 0 | Some n \<Rightarrow> n);
          closed_count = count ''closed''
      in \<lparr>om_total = length cases, om_by_status = by_status,
          om_resolved = count ''resolved'' + closed_count, om_closed = closed_count,
          om_open = int (length cases) - int closed_count\<rparr>)"

definition query_process ::
    "string \<Rightarrow> objection_db \<Rightarrow> handler_error + objection_process_row list \<times> objection_evidence_row list" where
  "query_process i db =
     (if get_case db default_tenant i = None then Inl (NotFound i)
      else Inr (list_processes db i, list_evidence db i))"

section \<open>The skills as one step function\<close>

datatype objection_skill =
    ObjCreate | ObjSubmit | ObjAccept | ObjAssign | ObjClose | ObjEscalate | ObjReject
  | ObjReview | ObjEvaluate | ObjReply

fun objection_step ::
    "(nat \<Rightarrow> string) \<Rightarrow> entity_tables \<Rightarrow> objection_sys \<Rightarrow> objection_skill \<times> objection_call \<Rightarrow>
     handler_error + objection_sys" where
  "objection_step uuid ents s (ObjCreate, c) = handle_create uuid ents c s"
| "objection_step uuid ents s (ObjSubmit, c) = handle_submit c s"
| "objection_step uuid ents s (ObjAccept, c) = handle_accept c s"
| "objection_step uuid ents s (ObjAssign, c) = handle_assign c s"
| "objection_step uuid ents s (ObjClose, c) = handle_close c s"
| "objection_step uuid ents s (ObjEscalate, c) = handle_escalate c s"
| "objection_step uuid ents s (ObjReject, c) = handle_reject c s"
| "objection_step uuid ents s (ObjReview, c) = handle_review c s"
| "objection_step uuid ents s (ObjEvaluate, c) = handle_evaluate c s"
| "objection_step uuid ents s (ObjReply, c) = handle_reply c s"

end
