(* ===== verification/ObjectionSafe.thy ===== *)
theory ObjectionSafe
  imports ObjectionFlow
begin

text \<open>
  What the objection skills keep: every skill appends to the trail and changes at most one
  case, along an edge of the table of that case's dimension. From this: the lifecycle as an
  instance of \<^verbatim>\<open>guarded_machine\<close>, the targets of accept and assign, escalation as an event,
  and the two places where the code does not keep what it promises.
\<close>

section \<open>The effect of one skill\<close>

inductive case_change :: "(nat \<Rightarrow> string) \<Rightarrow> objection_db \<Rightarrow> objection_db \<Rightarrow> bool"
  for uuid :: "nat \<Rightarrow> string" and db :: objection_db and db' :: objection_db where
  unchanged: "odb_cases db' = odb_cases db \<Longrightarrow> odb_next db' = odb_next db \<Longrightarrow> case_change uuid db db'"
| moved: "find_case db (oc_id c') = Some c \<Longrightarrow>
    legal_transition (dimension_of c (case_evidence db (oc_id c'))) (oc_status c) (oc_status c') \<Longrightarrow>
    odb_cases db' = put_row oc_id c' (odb_cases db) \<Longrightarrow> odb_next db' = odb_next db \<Longrightarrow>
    case_change uuid db db'"
| created: "oc_id row = uuid (odb_next db) \<Longrightarrow> odb_cases db' = odb_cases db @ [row] \<Longrightarrow>
    odb_next db' = Suc (odb_next db) \<Longrightarrow> case_change uuid db db'"

definition trail_grows :: "objection_db \<Rightarrow> objection_db \<Rightarrow> bool" where
  "trail_grows db db' \<longleftrightarrow>
     (\<exists>p. odb_process db' = odb_process db @ [p]) \<and> (\<exists>es. odb_evidence db' = odb_evidence db @ es)"

lemma find_case_SomeD: "find_case db i = Some c \<Longrightarrow> c \<in> set (odb_cases db) \<and> oc_id c = i"
  unfolding find_case_def by (rule row_by_SomeD)

lemma add_evidence_row_effect:
  "add_evidence_row now i by db e = Inr db' \<Longrightarrow>
   \<exists>r. db' = db\<lparr>odb_evidence := odb_evidence db @ [r]\<rparr>"
  by (cases e) (auto simp: add_evidence_row_def)

lemma add_evidence_rows_effect:
  assumes "add_evidence_rows now i by evidence db = Inr db'"
  shows "\<exists>es. db' = db\<lparr>odb_evidence := odb_evidence db @ es\<rparr>"
proof -
  from assms obtain items where "forE (add_evidence_row now i by) db items = Inr db'"
    by (auto simp: add_evidence_rows_def bindE_Inr_iff)
  then show ?thesis
  proof (rule forE_invariant [where I = "\<lambda>t. \<exists>es. t = db\<lparr>odb_evidence := odb_evidence db @ es\<rparr>"])
    show "\<exists>es. db = db\<lparr>odb_evidence := odb_evidence db @ es\<rparr>"
      by (rule exI [of _ "[]"]) simp
  next
    fix t x t'
    assume "\<exists>es. t = db\<lparr>odb_evidence := odb_evidence db @ es\<rparr>" "add_evidence_row now i by t x = Inr t'"
    then show "\<exists>es. t' = db\<lparr>odb_evidence := odb_evidence db @ es\<rparr>"
      by (auto dest!: add_evidence_row_effect)
  qed
qed

definition process_of :: "nat \<Rightarrow> string \<Rightarrow> process_args \<Rightarrow> objection_process_row" where
  "process_of now i a =
     \<lparr>op_objection = i, op_node = JStr (pa_node a), op_org = pa_org a,
      op_snapshot = safe_json (py_or (pa_snapshot a) (JObj [])), op_action = pa_action a,
      op_result = pa_result a, op_opinion = pa_opinion a, op_created = now\<rparr>"

lemma transition_case_effect:
  assumes "transition_case now i nxt a summary db = Inr db'"
  shows "\<exists>c c' es. find_case db i = Some c \<and> oc_id c' = i \<and> oc_tenant c' = oc_tenant c \<and>
    oc_status c' = nxt \<and> legal_transition (dimension_of c (case_evidence db i)) (oc_status c) nxt \<and>
    odb_cases db' = put_row oc_id c' (odb_cases db) \<and>
    odb_process db' = odb_process db @ [process_of now i a] \<and>
    odb_evidence db' = odb_evidence db @ es \<and> odb_next db' = odb_next db"
proof -
  obtain c where c: "find_case db i = Some c"
    using assms by (auto simp: transition_case_def split: option.splits)
  let ?c' = "c\<lparr>oc_status := nxt, oc_version := oc_version c + 1, oc_updated := now,
      oc_summary := (if summary \<noteq> JNull then summary else oc_summary c),
      oc_closed := (if nxt = ''closed'' then Some now else oc_closed c)\<rparr>"
  let ?db1 = "add_process_row now i (JStr (pa_node a)) (pa_action a) (pa_result a) (pa_org a)
      (pa_snapshot a) (pa_opinion a) (db\<lparr>odb_cases := put_row oc_id ?c' (odb_cases db)\<rparr>)"
  have legal: "legal_transition (dimension_of c (case_evidence db i)) (oc_status c) nxt"
    and rows: "add_evidence_rows now i (py_or (pa_snapshot a) (JObj [])) (pa_evidence a) ?db1 = Inr db'"
    using assms c by (simp_all add: transition_case_def Let_def split: if_splits)
  obtain es where "db' = ?db1\<lparr>odb_evidence := odb_evidence ?db1 @ es\<rparr>"
    using add_evidence_rows_effect [OF rows] by blast
  then show ?thesis
    using c legal find_case_SomeD [OF c]
    by (intro exI [of _ c] exI [of _ ?c'] exI [of _ es])
      (simp add: add_process_row_def process_of_def)
qed

lemma add_process_effect:
  assumes "add_process now i a db = Inr db'"
  shows "\<exists>c es. find_case db i = Some c \<and> odb_cases db' = odb_cases db \<and> odb_evals db' = odb_evals db \<and>
    odb_process db' = odb_process db @ [process_of now i a] \<and>
    odb_evidence db' = odb_evidence db @ es \<and> odb_next db' = odb_next db"
proof -
  obtain c where c: "find_case db i = Some c"
    using assms by (auto simp: add_process_def split: option.splits)
  let ?db1 = "add_process_row now i (JStr (pa_node a)) (pa_action a) (pa_result a) (pa_org a)
      (pa_snapshot a) (pa_opinion a) db"
  have "add_evidence_rows now i (py_or (pa_snapshot a) (JObj [])) (pa_evidence a) ?db1 = Inr db'"
    using assms c by (simp add: add_process_def)
  then obtain es where "db' = ?db1\<lparr>odb_evidence := odb_evidence ?db1 @ es\<rparr>"
    using add_evidence_rows_effect by blast
  then show ?thesis
    using c by (auto simp: add_process_row_def process_of_def)
qed

lemma evaluate_case_effect:
  assumes "evaluate_case now i payload db = Inr db'"
  shows "odb_cases db' = odb_cases db" "odb_next db' = odb_next db" "trail_grows db db'"
  using assms
  by (auto simp: evaluate_case_def add_process_row_def trail_grows_def Let_def
      split: option.splits if_splits)

lemma create_case_effect:
  assumes "create_case uuid now tenant payload db = Inr (row, db')"
  shows "oc_id row = uuid (odb_next db)" "odb_cases db' = odb_cases db @ [row]"
    "odb_next db' = Suc (odb_next db)" "trail_grows db db'"
  using assms
  by (auto simp: create_case_def add_process_row_def trail_grows_def Let_def result_simps
      dest!: add_evidence_rows_effect)

lemma evaluate_case_change:
  "evaluate_case now i payload db = Inr db' \<Longrightarrow> case_change uuid db db' \<and> trail_grows db db'"
  by (blast intro: unchanged evaluate_case_effect)

lemma create_case_change:
  "create_case uuid now tenant payload db = Inr (row, db') \<Longrightarrow>
   case_change uuid db db' \<and> trail_grows db db'"
  by (blast intro: created create_case_effect)

lemma os_db_feed_entry [simp]: "os_db (feed_entry event i c s) = os_db s"
  by (simp add: feed_entry_def)

lemma handle_transition_effect:
  assumes "handle_transition i nxt action node c s = Inr s'"
  shows "case_change uuid (os_db s) (os_db s')" "trail_grows (os_db s) (os_db s')"
proof -
  from assms obtain sn db where sn: "transition_case (cl_now c) i nxt (transition_args c action node sn)
      (dget (cl_payload c) ''resolved_summary'') (os_db s) = Inr db" and db: "os_db s' = db"
    by (auto simp: handle_transition_def result_simps)
  show "case_change uuid (os_db s) (os_db s')" "trail_grows (os_db s) (os_db s')"
    using sn db by (auto dest!: transition_case_effect intro: moved simp: trail_grows_def)
qed

lemma handle_event_effect:
  assumes "handle_event action node result opinion i c s = Inr s'"
  shows "case_change uuid (os_db s) (os_db s')" "trail_grows (os_db s) (os_db s')"
proof -
  from assms obtain sn db where sn: "add_process (cl_now c) i (event_args c action node result opinion sn)
      (os_db s) = Inr db" and db: "os_db s' = db"
    by (auto simp: handle_event_def result_simps)
  show "case_change uuid (os_db s) (os_db s')" "trail_grows (os_db s) (os_db s')"
    using sn db by (auto dest!: add_process_effect intro: unchanged simp: trail_grows_def)
qed

lemmas transition_handlers =
  handle_submit_def handle_accept_def handle_assign_def handle_close_def handle_reject_def
  handle_review_def

lemma objection_step_effect:
  assumes "objection_step uuid ents s (skill, c) = Inr s'"
  shows "case_change uuid (os_db s) (os_db s') \<and> trail_grows (os_db s) (os_db s')"
proof (cases skill)
  case ObjCreate
  then show ?thesis
    using assms
    by (auto simp: handle_create_def Let_def result_simps split: if_splits
        dest!: create_case_change)
next
  case ObjEvaluate
  then show ?thesis
    using assms
    by (auto simp: handle_evaluate_def result_simps dest!: evaluate_case_change)
next
  case ObjEscalate
  then show ?thesis
    using assms by (auto simp: handle_escalate_def bindE_Inr_iff dest: handle_event_effect)
next
  case ObjReply
  then show ?thesis
    using assms by (auto simp: handle_reply_def bindE_Inr_iff dest: handle_event_effect)
qed (use assms in \<open>auto simp: transition_handlers bindE_Inr_iff dest: handle_transition_effect\<close>)

section \<open>The lifecycle\<close>

definition case_status :: "objection_sys \<Rightarrow> string \<Rightarrow> string option" where
  "case_status s i = map_option oc_status (find_case (os_db s) i)"

definition objection_inv :: "(nat \<Rightarrow> string) \<Rightarrow> objection_sys \<Rightarrow> bool" where
  "objection_inv uuid s \<longleftrightarrow>
     unique_on oc_id (odb_cases (os_db s)) \<and> inj uuid \<and>
     (\<forall>n. odb_next (os_db s) \<le> n \<longrightarrow> uuid n \<notin> oc_id ` set (odb_cases (os_db s)))"

lemma case_change_inv:
  assumes "objection_inv uuid s" and "case_change uuid (os_db s) (os_db s')"
  shows "objection_inv uuid s'"
  using assms(2)
proof cases
  case (created row)
  have fresh: "uuid n \<notin> oc_id ` set (odb_cases (os_db s))" if "odb_next (os_db s) \<le> n" for n
    using assms(1) that by (simp add: objection_inv_def)
  have "uuid n \<noteq> oc_id row" if "Suc (odb_next (os_db s)) \<le> n" for n
    using assms(1) that created(1) by (auto simp: objection_inv_def inj_eq)
  then show ?thesis
    using assms(1) created fresh by (auto simp: objection_inv_def unique_on_def)
next
  case (moved c' c)
  have "map oc_id (put_row oc_id c' (odb_cases (os_db s))) = map oc_id (odb_cases (os_db s))"
    by simp
  then have "oc_id ` set (put_row oc_id c' (odb_cases (os_db s))) = oc_id ` set (odb_cases (os_db s))"
    by (metis list.set_map)
  then show ?thesis
    using assms(1) moved by (simp add: objection_inv_def unique_on_def)
qed (use assms(1) in \<open>simp add: objection_inv_def\<close>)

lemma case_change_status:
  assumes "case_change uuid (os_db s) (os_db s')" and "case_status s i = Some a"
  shows "\<exists>b. case_status s' i = Some b \<and> (a = b \<or> (a, b) \<in> objection_moves)"
  using assms(1)
proof cases
  case unchanged
  then have "case_status s' i = case_status s i" by (simp add: case_status_def find_case_def)
  then show ?thesis using assms(2) by auto
next
  case (moved c' c)
  have "c \<in> set (odb_cases (os_db s)) \<and> oc_id c = oc_id c'"
    using moved(1) by (rule find_case_SomeD)
  then have "find_case (os_db s') j = (if j = oc_id c' then Some c' else find_case (os_db s) j)" for j
    using moved(3) row_by_put_row [of c _ oc_id c'] unfolding find_case_def by metis
  then show ?thesis
    using assms(2) moved(1,2) by (auto simp: case_status_def objection_moves_def)
next
  case (created row)
  then show ?thesis
    using assms(2) by (auto simp: case_status_def find_case_def row_by_append)
qed

interpretation objection_flow: guarded_machine "objection_step uuid ents" case_status
  "objection_inv uuid" objection_moves
proof
  fix s op s' and i a :: string
  assume "objection_inv uuid s" and step: "objection_step uuid ents s op = Inr s'"
  obtain skill c where "op = (skill, c)" by (cases op)
  then have change: "case_change uuid (os_db s) (os_db s')"
    using objection_step_effect step by blast
  then show "objection_inv uuid s'"
    using case_change_inv \<open>objection_inv uuid s\<close> by blast
  show "case_status s i = Some a \<Longrightarrow>
      \<exists>b. case_status s' i = Some b \<and> (a = b \<or> (a, b) \<in> objection_moves)"
    using case_change_status change by blast
qed

lemma objection_final:
  "objection_inv uuid s \<Longrightarrow> case_status s i = Some a \<Longrightarrow> a \<in> {''closed'', ''rejected''} \<Longrightarrow>
   case_status (run_ops (objection_step uuid ents) s ops) i = Some a"
  by (rule objection_flow.final_status) (use terminal_statuses in auto)

section \<open>A concrete system\<close>

definition sample_case :: "string \<Rightarrow> string \<Rightarrow> objection_row" where
  "sample_case kind status =
     \<lparr>oc_id = ''c'', oc_tenant = default_tenant, oc_kind = kind, oc_target_type = ''delivery'',
      oc_target = JStr ''d'', oc_application = JNull, oc_title = JStr ''t'',
      oc_complainant = JStr ''o'', oc_complainant_snapshot = JObj [], oc_provider = JStr ''p'',
      oc_provider_snapshot = JObj [], oc_basis = JNull, oc_expected = JNull, oc_status = status,
      oc_summary = JNull, oc_created = 0, oc_updated = 0, oc_closed = None, oc_version = 1\<rparr>"

definition sample_sys :: "string \<Rightarrow> string \<Rightarrow> objection_sys" where
  "sample_sys kind status =
     \<lparr>os_db = \<lparr>odb_cases = [sample_case kind status], odb_evidence = [], odb_process = [],
               odb_evals = [], odb_next = 0\<rparr>, os_feed = []\<rparr>"

definition sample_call :: "dict \<Rightarrow> objection_call" where
  "sample_call payload = \<lparr>cl_actor = ''u'', cl_ctx_role = ''r'', cl_now = 1,
     cl_payload = (''objection_id'', JStr ''c'') # payload\<rparr>"

lemma sample_uuid: "replicate n CHR ''x'' \<noteq> ''c''"
  by (cases n) simp_all

lemma sample_inv: "objection_inv (\<lambda>n. replicate n CHR ''x'') (sample_sys kind status)"
  by (auto simp: objection_inv_def sample_sys_def sample_case_def unique_on_def inj_def sample_uuid)

lemma sample_find: "find_case (os_db (sample_sys kind status)) ''c'' = Some (sample_case kind status)"
  by (simp add: find_case_def sample_sys_def sample_case_def row_by_Cons)

text \<open>The edges of the tables, written out: those of the five dimensions that the old data shows, and those of every
  other dimension.\<close>

definition shared_edges :: "(string \<times> string) set" where
  "shared_edges =
     {(''draft'', ''submitted''),
      (''submitted'', ''platform_investigating''), (''submitted'', ''rejected''),
      (''platform_investigating'', ''provider_investigating''), (''platform_investigating'', ''resolved''),
      (''platform_investigating'', ''rejected''),
      (''provider_investigating'', ''platform_investigating''), (''provider_investigating'', ''resolved''),
      (''provider_investigating'', ''rejected''),
      (''resolved'', ''closed''), (''resolved'', ''provider_investigating'')}"

definition generic_edges :: "(string \<times> string) set" where
  "generic_edges =
     {(''draft'', ''submitted''), (''draft'', ''rejected''),
      (''submitted'', ''accepted''), (''submitted'', ''rejected''),
      (''accepted'', ''platform_investigating''), (''accepted'', ''provider_investigating''),
      (''platform_investigating'', ''provider_investigating''), (''platform_investigating'', ''resolved''),
      (''platform_investigating'', ''rejected''), (''platform_investigating'', ''escalated''),
      (''provider_investigating'', ''platform_investigating''), (''provider_investigating'', ''resolved''),
      (''provider_investigating'', ''rejected''), (''provider_investigating'', ''escalated''),
      (''escalated'', ''platform_investigating''), (''escalated'', ''provider_investigating''),
      (''escalated'', ''resolved''), (''escalated'', ''rejected''),
      (''resolved'', ''closed''), (''resolved'', ''provider_investigating'')}"

definition edges_of :: "string \<Rightarrow> (string \<times> string) set" where
  "edges_of dim =
     (if dim \<in> {''catalog'', ''content'', ''use'', ''resource'', ''authz''} then shared_edges else generic_edges)"

text \<open>The statuses a skill may give to the case it names.\<close>

fun skill_gives :: "objection_skill \<Rightarrow> string set" where
  "skill_gives ObjSubmit = {''submitted''}"
| "skill_gives ObjAccept = {''platform_investigating'', ''accepted''}"
| "skill_gives ObjAssign = UNIV"
| "skill_gives ObjReview = {''resolved'', ''provider_investigating''}"
| "skill_gives ObjClose = {''closed''}"
| "skill_gives ObjReject = {''rejected''}"
| "skill_gives _ = {}"

lemma legal_edges: "legal_transition dim a b \<longleftrightarrow> (a, b) \<in> edges_of dim"
proof (cases "dim \<in> set all_dimensions")
  case True
  then have "edges_of dim = shared_edges" by (auto simp: edges_of_def all_dimensions_def dimension_names)
  then show ?thesis using True
    by (auto simp: legal_transition_def next_statuses_def transition_table_cases shared_allowed_transitions_def
        shared_edges_def)
next
  case False
  then have "edges_of dim = generic_edges" by (auto simp: edges_of_def all_dimensions_def dimension_names)
  then show ?thesis using False
    by (auto simp: legal_transition_def next_statuses_def transition_table_cases generic_transitions_def
        generic_edges_def)
qed

lemma transition_moves_case:
  assumes "handle_transition j nxt action node call s = Inr s'" and "find_case (os_db s) i = Some c"
  shows "\<exists>c'. find_case (os_db s') i = Some c' \<and>
    (c' = c \<or> i = j \<and> oc_status c' = nxt \<and> legal_transition (dimension_of c (case_evidence (os_db s) i)) (oc_status c) nxt)"
proof -
  from assms(1) obtain sn where "transition_case (cl_now call) j nxt (transition_args call action node sn)
      (dget (cl_payload call) ''resolved_summary'') (os_db s) = Inr (os_db s')"
    by (auto simp: handle_transition_def result_simps)
  from transition_case_effect [OF this] obtain c0 c' where c0: "find_case (os_db s) j = Some c0" "oc_id c' = j"
      "oc_status c' = nxt" "legal_transition (dimension_of c0 (case_evidence (os_db s) j)) (oc_status c0) nxt"
      "odb_cases (os_db s') = put_row oc_id c' (odb_cases (os_db s))"
    by blast
  have "c0 \<in> set (odb_cases (os_db s)) \<and> oc_id c0 = oc_id c'"
    using find_case_SomeD [OF c0(1)] c0(2) by simp
  then have "find_case (os_db s') k = (if k = j then Some c' else find_case (os_db s) k)" for k
    using c0(2,5) row_by_put_row [of c0 _ oc_id c'] unfolding find_case_def by metis
  then show ?thesis using c0 assms(2) by auto
qed

lemma unmoved_case: "odb_cases db' = odb_cases db \<Longrightarrow> find_case db' i = find_case db i"
  by (simp add: find_case_def)

lemma event_leaves_case:
  "handle_event action node result opinion j call s = Inr s' \<Longrightarrow> find_case (os_db s') i = find_case (os_db s) i"
  by (rule unmoved_case) (auto simp: handle_event_def result_simps dest!: add_process_effect)

lemma step_moves_case:
  assumes "objection_step uuid ents s (skill, call) = Inr s'" and "find_case (os_db s) i = Some c"
  shows "\<exists>c'. find_case (os_db s') i = Some c' \<and>
    (c' = c \<or> objection_id_of call = Inr i \<and> oc_status c' \<in> skill_gives skill \<and>
       legal_transition (dimension_of c (case_evidence (os_db s) i)) (oc_status c) (oc_status c'))"
proof (cases skill)
  case ObjCreate
  then show ?thesis
    using assms
    by (auto simp: handle_create_def Let_def result_simps find_case_def row_by_append split: if_splits
        dest!: create_case_effect(2))
next
  case ObjEvaluate
  then show ?thesis
    using assms
    by (auto simp: handle_evaluate_def result_simps find_case_def dest!: evaluate_case_effect(1))
next
  case ObjEscalate
  then show ?thesis using assms by (auto simp: handle_escalate_def bindE_Inr_iff dest!: event_leaves_case [of _ _ _ _ _ _ _ _ i])
next
  case ObjReply
  then show ?thesis using assms by (auto simp: handle_reply_def bindE_Inr_iff dest!: event_leaves_case [of _ _ _ _ _ _ _ _ i])
next
  case ObjAccept
  then show ?thesis
    using assms
    by (auto simp: handle_accept_def bindE_Inr_iff accept_target_def dest!: transition_moves_case [where i = i]
        split: option.splits if_splits)
qed (use assms in \<open>auto simp: transition_handlers bindE_Inr_iff dest!: transition_moves_case [where i = i] split: if_splits\<close>)

text \<open>C7: after any run of skills, each call leaves the status of a case as it is or, when the call names the case,
  takes it to a status that is its skill's to give, along an edge of the table of the dimension the case has at that
  moment; so the status of a case that is closed or rejected is final.\<close>

theorem objection_lifecycle:
  assumes "objection_inv uuid s" and "find_case (os_db s) i \<noteq> None"
  shows "\<exists>c c'. find_case (os_db (run_ops (objection_step uuid ents) s ops)) i = Some c \<and>
    find_case (os_db (run_ops (objection_step uuid ents) s (ops @ [(skill, call)]))) i = Some c' \<and>
    (oc_status c' = oc_status c \<or>
      objection_id_of call = Inr i \<and> oc_status c' \<in> skill_gives skill \<and>
      (oc_status c, oc_status c') \<in>
        edges_of (dimension_of c (case_evidence (os_db (run_ops (objection_step uuid ents) s ops)) i))) \<and>
    (oc_status c \<in> {''closed'', ''rejected''} \<longrightarrow> oc_status c' = oc_status c)"
proof -
  let ?step = "objection_step uuid ents"
  let ?t = "run_ops ?step s ops"
  obtain a where "case_status s i = Some a" using assms(2) by (auto simp: case_status_def)
  from objection_flow.run_moves [OF assms(1) this, of ents ops]
  obtain c where c: "find_case (os_db ?t) i = Some c" by (auto simp: case_status_def)
  have last: "run_ops ?step s (ops @ [(skill, call)]) = settle ?step ?t (skill, call)"
    by (simp add: run_ops_append)
  have "\<exists>c'. find_case (os_db (settle ?step ?t (skill, call))) i = Some c' \<and>
    (c' = c \<or> objection_id_of call = Inr i \<and> oc_status c' \<in> skill_gives skill \<and>
       legal_transition (dimension_of c (case_evidence (os_db ?t) i)) (oc_status c) (oc_status c'))"
    using c step_moves_case [OF _ c] by (auto simp: settle_def split: sum.split)
  then obtain c' where c': "find_case (os_db (settle ?step ?t (skill, call))) i = Some c'"
      "oc_status c' = oc_status c \<or> objection_id_of call = Inr i \<and> oc_status c' \<in> skill_gives skill \<and>
       (oc_status c, oc_status c') \<in> edges_of (dimension_of c (case_evidence (os_db ?t) i))"
    by (auto simp: legal_edges)
  have "oc_status c' = oc_status c" if "oc_status c \<in> {''closed'', ''rejected''}"
    using c'(2) that by (auto simp: edges_of_def shared_edges_def generic_edges_def split: if_splits)
  then show ?thesis using c c' unfolding last by auto
qed

text \<open>A submitted case cannot be closed at once.\<close>

theorem objection_lifecycle_witness:
  "\<exists>c c'. find_case (os_db (sample_sys ''usage'' ''submitted'')) ''c'' = Some c \<and>
    find_case (os_db (run_ops (objection_step (\<lambda>n. replicate n CHR ''x'')
       \<lparr>et_catalogs = [], et_resources = [], et_deliveries = [], et_mappings = []\<rparr>)
       (sample_sys ''usage'' ''submitted'') ([] @ [(ObjClose, sample_call [])]))) ''c'' = Some c' \<and>
    oc_status c' = ''submitted''"
proof -
  have out: "(''submitted'', ''closed'') \<notin> edges_of d" for d
    by (simp add: edges_of_def shared_edges_def generic_edges_def)
  have found: "find_case (os_db (sample_sys ''usage'' ''submitted'')) ''c'' \<noteq> None" by (simp add: sample_find)
  show ?thesis
    using objection_lifecycle [OF sample_inv found, of "\<lparr>et_catalogs = [], et_resources = [], et_deliveries = [], et_mappings = []\<rparr>"
      "[]" ObjClose "sample_call []"] out
    by (auto simp: sample_find sample_case_def)
qed

section \<open>Accept and assign pick a legal target\<close>

text \<open>A payload of the declared shape.\<close>

definition plain_call :: "objection_call \<Rightarrow> string \<Rightarrow> bool" where
  "plain_call c i \<longleftrightarrow>
     map_of (cl_payload c) ''objection_id'' = Some (JStr i) \<and>
     (case dget (cl_payload c) ''handler_snapshot_json'' of JNull \<Rightarrow> True | JObj d \<Rightarrow> True | _ \<Rightarrow> False) \<and>
     (case dget (cl_payload c) ''evidence'' of
        JNull \<Rightarrow> True | JList xs \<Rightarrow> list_all (\<lambda>x. case x of JObj d \<Rightarrow> True | _ \<Rightarrow> False) xs | _ \<Rightarrow> False)"

lemma plain_call_id: "plain_call c i \<Longrightarrow> objection_id_of c = Inr i"
  by (simp add: plain_call_def objection_id_of_def dict_item_def)

lemma plain_call_snapshot: "plain_call c i \<Longrightarrow> \<exists>d. client_snapshot c ''handler_snapshot_json'' = Inr d"
  by (auto simp: plain_call_def client_snapshot_def py_or_def split: json.splits if_splits)

lemma evidence_items:
  assumes "plain_call c i"
  shows "\<exists>xs. py_or (dget (cl_payload c) ''evidence'') (JList []) = JList xs \<and>
    list_all (\<lambda>x. case x of JObj d \<Rightarrow> True | _ \<Rightarrow> False) xs"
proof (cases "dget (cl_payload c) ''evidence''")
  case (JList ys)
  then show ?thesis
    using assms by (intro exI [of _ ys]) (auto simp: plain_call_def py_or_def)
qed (use assms in \<open>auto simp: plain_call_def py_or_def\<close>)

lemma add_evidence_rows_total:
  assumes "plain_call c i"
  shows "\<exists>db'. add_evidence_rows now j by (py_or (dget (cl_payload c) ''evidence'') (JList [])) db = Inr db'"
proof -
  obtain xs where xs: "py_or (dget (cl_payload c) ''evidence'') (JList []) = JList xs"
      "list_all (\<lambda>x. case x of JObj d \<Rightarrow> True | _ \<Rightarrow> False) xs"
    using evidence_items [OF assms] by blast
  have "\<exists>t. add_evidence_row now j by s x = Inr t" if "x \<in> set xs" for s x
    using that xs(2) by (auto simp: add_evidence_row_def list_all_iff split: json.splits)
  then have "\<exists>t. forE (add_evidence_row now j by) db xs = Inr t"
    by (rule forE_total)
  then show ?thesis
    unfolding add_evidence_rows_def xs(1) by (cases xs) (simp_all add: py_or_def py_iter_def)
qed

lemma transition_case_total:
  assumes "plain_call c i" and "find_case db i = Some r"
    and "legal_transition (dimension_of r (case_evidence db i)) (oc_status r) nxt"
  shows "\<exists>db'. transition_case now i nxt (transition_args c action node sn) summary db = Inr db'"
  using assms add_evidence_rows_total [OF assms(1)]
  by (simp add: transition_case_def Let_def transition_args_def)

lemma handle_transition_plain:
  assumes "plain_call c i" and "find_case (os_db s) i = Some r"
  shows "if legal_transition (dimension_of r (case_evidence (os_db s) i)) (oc_status r) nxt
         then \<exists>s'. handle_transition i nxt action node c s = Inr s' \<and> case_status s' i = Some nxt
         else handle_transition i nxt action node c s =
           Inl (InvalidState (ObjectionState (dimension_of r (case_evidence (os_db s) i)) (oc_status r) nxt))"
proof -
  obtain sn where sn: "client_snapshot c ''handler_snapshot_json'' = Inr sn"
    using plain_call_snapshot [OF assms(1)] by blast
  let ?tr = "transition_case (cl_now c) i nxt (transition_args c action node sn)
      (dget (cl_payload c) ''resolved_summary'') (os_db s)"
  show ?thesis
  proof (cases "legal_transition (dimension_of r (case_evidence (os_db s) i)) (oc_status r) nxt")
    case True
    obtain db' where db': "?tr = Inr db'"
      using transition_case_total [OF assms True] by blast
    obtain c' where c': "odb_cases db' = put_row oc_id c' (odb_cases (os_db s))" "oc_id c' = i"
        "oc_status c' = nxt"
      using transition_case_effect [OF db'] by blast
    have "row_by oc_id i (odb_cases db') = Some c'"
      using c' find_case_SomeD [OF assms(2)] row_by_put_row_same [of r _ oc_id c'] by simp
    then show ?thesis
      using True sn db' c'(3) by (simp add: handle_transition_def case_status_def find_case_def)
  next
    case False
    then show ?thesis
      using sn assms(2) by (simp add: handle_transition_def transition_case_def caught_def uncaught_def)
  qed
qed

lemma handle_transition_legal:
  "plain_call c i \<Longrightarrow> find_case (os_db s) i = Some r \<Longrightarrow>
   legal_transition (dimension_of r (case_evidence (os_db s) i)) (oc_status r) nxt \<Longrightarrow>
   \<exists>s'. handle_transition i nxt action node c s = Inr s'"
  using handle_transition_plain [of c i s r nxt action node] by auto

lemma sample_status: "oc_status (sample_case kind status) = status"
  by (simp add: sample_case_def)

text \<open>The handlers infer the dimension from the evidence in order of time, the repository from
  the evidence as stored. The dimensions may differ, the table does not.\<close>

lemma scan_evidence_known:
  "scan_evidence f es = None \<longleftrightarrow> f = None \<and> (\<forall>e \<in> set es. map_of evidence_to_dimension (oe_type e) = None)"
  by (induction f es rule: scan_evidence.induct) (auto split: option.splits)

lemma evidence_dimensions: "map_of evidence_to_dimension k = Some d \<Longrightarrow> d \<in> set all_dimensions"
  by (auto simp: evidence_to_dimension_def all_dimensions_def split: if_splits)

lemma scan_evidence_dimension:
  "scan_evidence f es = Some d \<Longrightarrow> (\<And>x. f = Some x \<Longrightarrow> x \<in> set all_dimensions) \<Longrightarrow>
   d \<in> set all_dimensions"
proof (induction f es rule: scan_evidence.induct)
  case (2 f e es)
  then show ?case
    by (auto split: option.splits if_splits dest: evidence_dimensions simp: all_dimensions_def)
qed simp

lemma same_table:
  assumes "set es = set es'"
  shows "transition_table (dimension_of c es) = transition_table (dimension_of c es')"
proof (cases "scan_evidence None es")
  case None
  then have "scan_evidence None es' = None"
    using assms by (simp add: scan_evidence_known)
  then show ?thesis using None by (simp add: dimension_of_def)
next
  case (Some d)
  then obtain d' where "scan_evidence None es' = Some d'"
    using assms scan_evidence_known by (metis option.exhaust)
  then show ?thesis
    using Some scan_evidence_dimension [of None] by (simp add: dimension_of_def transition_table_cases)
qed

lemma same_next:
  "next_statuses (dimension_of c (list_evidence db i)) st = next_statuses (dimension_of c (case_evidence db i)) st"
  using same_table [of "list_evidence db i" "case_evidence db i" c]
  by (simp add: next_statuses_def list_evidence_def)

lemma known_dimension:
  "dimension_of c (list_evidence db i) \<in> set all_dimensions \<longleftrightarrow>
   dimension_of c (case_evidence db i) \<in> set all_dimensions"
proof -
  have "shared_allowed_transitions \<noteq> generic_transitions"
    by (simp add: shared_allowed_transitions_def generic_transitions_def)
  then show ?thesis
    using same_table [of "list_evidence db i" "case_evidence db i" c]
    by (auto simp: transition_table_cases list_evidence_def split: if_splits)
qed

lemma get_case_find: "get_case db tenant i = Some c \<Longrightarrow> find_case db i = Some c"
  by (auto simp: get_case_def split: option.splits if_splits)

lemma allowed_tables: "map_of allowed_transitions_by_dimension dim \<noteq> None \<longleftrightarrow> dim \<in> set all_dimensions"
  by (simp add: allowed_transitions_by_dimension_def all_dimensions_def)

text \<open>accepting a submitted case always succeeds: it goes to the platform's investigation
  when its dimension has its own table, and to \<^verbatim>\<open>accepted\<close> otherwise.\<close>

lemma accept_submitted_case:
  assumes "plain_call c i" and "get_case (os_db s) default_tenant i = Some r"
    and "oc_status r = ''submitted''"
  shows "\<exists>s'. handle_accept c s = Inr s' \<and>
    case_status s' i = Some (if dimension_of r (case_evidence (os_db s) i) \<in> set all_dimensions
                             then ''platform_investigating'' else ''accepted'')"
proof -
  have "accept_target (os_db s) i =
      (if dimension_of r (case_evidence (os_db s) i) \<in> set all_dimensions
       then ''platform_investigating'' else ''accepted'')"
    unfolding accept_target_def assms(2) option.case allowed_tables known_dimension ..
  then show ?thesis
    using handle_transition_plain [OF assms(1) get_case_find [OF assms(2)]] accept_edges assms(3)
      plain_call_id [OF assms(1)]
    by (simp add: handle_accept_def)
qed

lemma sample_plain: "plain_call (sample_call []) ''c''"
  by (simp add: plain_call_def sample_call_def dget_def)

lemma sample_get: "get_case (os_db (sample_sys kind status)) default_tenant ''c'' = Some (sample_case kind status)"
  by (simp add: get_case_def sample_find) (simp add: sample_case_def)

text \<open>An assignment without an explicit target succeeds exactly when the table of the case
  has an edge from its status into one of the two investigations.\<close>

lemma assign_without_target:
  assumes "plain_call c i" and "get_case (os_db s) default_tenant i = Some r"
    and "\<not> truthy (dget (cl_payload c) ''target_status'')"
  shows "(\<exists>s'. handle_assign c s = Inr s') \<longleftrightarrow>
    (\<exists>nxt \<in> {''provider_investigating'', ''platform_investigating''}.
       legal_transition (dimension_of r (case_evidence (os_db s) i)) (oc_status r) nxt)"
proof -
  let ?legal = "legal_transition (dimension_of r (case_evidence (os_db s) i)) (oc_status r)"
  have target: "assign_target c (os_db s) i =
      (if ?legal ''provider_investigating'' then ''provider_investigating''
       else if ?legal ''platform_investigating'' then ''platform_investigating''
       else ''provider_investigating'')"
    using assms(2,3) by (simp add: assign_target_def legal_assign_target_def same_next legal_transition_def)
  have "(\<exists>s'. handle_transition i nxt action node c s = Inr s') \<longleftrightarrow> ?legal nxt" for nxt action node
    using handle_transition_plain [OF assms(1) get_case_find [OF assms(2)], of nxt action node]
    by (auto split: if_splits)
  then show ?thesis
    using plain_call_id [OF assms(1)] by (simp add: handle_assign_def target)
qed

section \<open>Escalation is an event\<close>

lemma handle_event_total:
  assumes "plain_call c i" and "find_case (os_db s) i = Some r"
  shows "\<exists>s' sn. handle_event action node result opinion i c s = Inr s' \<and>
    odb_cases (os_db s') = odb_cases (os_db s) \<and>
    odb_process (os_db s') = odb_process (os_db s) @
      [process_of (cl_now c) i (event_args c action node result opinion sn)]"
proof -
  obtain sn where sn: "client_snapshot c ''handler_snapshot_json'' = Inr sn"
    using plain_call_snapshot [OF assms(1)] by blast
  let ?args = "event_args c action node result opinion sn"
  have "\<exists>db'. add_process (cl_now c) i ?args (os_db s) = Inr db'"
    using assms(2) add_evidence_rows_total [OF assms(1)]
    by (simp add: add_process_def event_args_def)
  then obtain db' where db': "add_process (cl_now c) i ?args (os_db s) = Inr db'" by blast
  then show ?thesis
    using sn add_process_effect [OF db'] by (auto simp: handle_event_def)
qed

text \<open>escalating a case records an event and changes no case; a case that is not closed or
  rejected is in the supervised queue from then on.\<close>

lemma escalate_is_an_event:
  assumes "plain_call c i" and "get_case (os_db s) default_tenant i = Some r"
  shows "\<exists>s'. handle_escalate c s = Inr s' \<and> odb_cases (os_db s') = odb_cases (os_db s) \<and>
    is_supervised (os_db s') i \<and>
    (r \<in> set (list_supervised_cases (os_db s') default_tenant) \<longleftrightarrow>
     oc_status r \<notin> {''closed'', ''rejected''})"
proof -
  let ?opinion = "first_of [dget (cl_payload c) ''opinion'', dget (cl_payload c) ''escalate_reason'']"
  have found: "find_case (os_db s) i = Some r" and tenant: "oc_tenant r = default_tenant"
    using assms(2) by (auto simp: get_case_def split: option.splits if_splits)
  obtain s' sn where s': "handle_event escalate_action lbl_obj_escalate ''escalated'' ?opinion i c s = Inr s'"
      "odb_cases (os_db s') = odb_cases (os_db s)"
      "odb_process (os_db s') = odb_process (os_db s) @
         [process_of (cl_now c) i (event_args c escalate_action lbl_obj_escalate ''escalated'' ?opinion sn)]"
    using handle_event_total [OF assms(1) found] by blast
  have sup: "is_supervised (os_db s') i"
    using s'(3) by (simp add: is_supervised_def process_of_def event_args_def)
  have "r \<in> set (odb_cases (os_db s)) \<and> oc_id r = i"
    by (rule find_case_SomeD [OF found])
  then have "r \<in> set (list_supervised_cases (os_db s') default_tenant) \<longleftrightarrow>
      oc_status r \<notin> {''closed'', ''rejected''}"
    using sup tenant s'(2) by (auto simp: list_supervised_cases_def)
  then show ?thesis
    using s' sup plain_call_id [OF assms(1)] by (simp add: handle_escalate_def)
qed

section \<open>The trail\<close>

lemma settle_trail:
  "\<exists>ps es. odb_process (os_db (settle (objection_step uuid ents) s op)) = odb_process (os_db s) @ ps \<and>
           odb_evidence (os_db (settle (objection_step uuid ents) s op)) = odb_evidence (os_db s) @ es"
proof (cases "objection_step uuid ents s op")
  case (Inr s')
  moreover obtain skill c where "op = (skill, c)" by (cases op)
  ultimately have "trail_grows (os_db s) (os_db s')"
    using objection_step_effect by blast
  then show ?thesis using Inr by (auto simp: settle_def trail_grows_def)
qed (simp add: settle_def)

lemma run_trail:
  "\<exists>ps es. odb_process (os_db (run_ops (objection_step uuid ents) s ops)) = odb_process (os_db s) @ ps \<and>
           odb_evidence (os_db (run_ops (objection_step uuid ents) s ops)) = odb_evidence (os_db s) @ es"
proof (induction ops arbitrary: s)
  case (Cons op ops)
  obtain ps es where "odb_process (os_db (settle (objection_step uuid ents) s op)) = odb_process (os_db s) @ ps"
    "odb_evidence (os_db (settle (objection_step uuid ents) s op)) = odb_evidence (os_db s) @ es"
    using settle_trail by blast
  then show ?case
    using Cons.IH [of "settle (objection_step uuid ents) s op"] by auto
qed simp

text \<open>the processing trail and the evidence are append-only: no skill, whatever its payload,
  removes or rewrites an entry.\<close>

lemma objection_trail_append_only:
  "\<exists>ps es. odb_process (os_db (run_ops (objection_step uuid ents) s ops)) = odb_process (os_db s) @ ps \<and>
           odb_evidence (os_db (run_ops (objection_step uuid ents) s ops)) = odb_evidence (os_db s) @ es"
  by (rule run_trail)

text \<open>the snapshot a transition stores names whoever the client's own snapshot names, and not
  the actor the pipeline authenticated, who is in the audit feed only.\<close>

lemma client_names_the_actor:
  assumes "dget (cl_payload c) ''handler_snapshot_json'' = JObj [(''actor'', JStr x)]"
    and "handle_transition i nxt action node c s = Inr s'"
  shows "op_snapshot (last (odb_process (os_db s'))) = JObj [(''actor'', JStr x), (''role'', JStr (call_role c))] \<and>
         os_feed s' = os_feed s @ [(''objection.case.'' @ action, i, ''ok'', cl_actor c)]"
proof -
  have sn: "client_snapshot c ''handler_snapshot_json'' = Inr [(''actor'', JStr x), (''role'', JStr (call_role c))]"
    by (simp add: client_snapshot_def assms(1) py_or_def is_sensitive_json_key_def sensitive_json_keys_def
        lower_def lower_char_def ends_with_def dmerge_def actor_fields_def)
  then obtain db where tr: "transition_case (cl_now c) i nxt
      (transition_args c action node [(''actor'', JStr x), (''role'', JStr (call_role c))])
      (dget (cl_payload c) ''resolved_summary'') (os_db s) = Inr db"
    and s': "s' = feed_entry (''objection.case.'' @ action) i c (s\<lparr>os_db := db\<rparr>)"
    using assms(2) by (auto simp: handle_transition_def result_simps)
  show ?thesis
    using transition_case_effect [OF tr] s'
    by (auto simp: process_of_def transition_args_def feed_entry_def py_or_def is_sensitive_json_key_def
        sensitive_json_keys_def lower_def lower_char_def ends_with_def)
qed

section \<open>A reply can strand an accepted case\<close>

definition has_catalog_evidence :: "objection_db \<Rightarrow> string \<Rightarrow> bool" where
  "has_catalog_evidence db i \<longleftrightarrow> (\<exists>e \<in> set (case_evidence db i). oe_type e = ''catalog'')"

lemma scan_evidence_catalog: "e \<in> set es \<Longrightarrow> oe_type e = ''catalog'' \<Longrightarrow> scan_evidence f es = Some catalog_dimension"
  by (induction f es rule: scan_evidence.induct)
    (auto simp: evidence_to_dimension_def split: option.splits)

lemma catalog_evidence_dimension: "has_catalog_evidence db i \<Longrightarrow> dimension_of c (case_evidence db i) = catalog_dimension"
  by (auto simp: has_catalog_evidence_def dimension_of_def scan_evidence_catalog)

lemma accepted_stuck: "\<not> legal_transition catalog_dimension ''accepted'' nxt"
  by (simp add: legal_transition_def next_statuses_def transition_table_cases all_dimensions_def
      shared_allowed_transitions_def)

definition stranded :: "objection_sys \<Rightarrow> string \<Rightarrow> bool" where
  "stranded s i \<longleftrightarrow> case_status s i = Some ''accepted'' \<and> has_catalog_evidence (os_db s) i"

lemma stranded_step:
  assumes "stranded s i" and "objection_step uuid ents s op = Inr s'"
  shows "stranded s' i"
proof -
  obtain skill c where op: "op = (skill, c)" by (cases op)
  have change: "case_change uuid (os_db s) (os_db s')" and grows: "trail_grows (os_db s) (os_db s')"
    using objection_step_effect assms(2) op by blast+
  have "has_catalog_evidence (os_db s') i"
    using assms(1) grows by (auto simp: stranded_def has_catalog_evidence_def trail_grows_def case_evidence_def)
  moreover have "case_status s' i = Some ''accepted''"
    using change
  proof cases
    case unchanged
    then have "case_status s' i = case_status s i" by (simp add: case_status_def find_case_def)
    then show ?thesis using assms(1) by (simp add: stranded_def)
  next
    case (moved c' r)
    have "oc_id c' \<noteq> i"
    proof
      assume "oc_id c' = i"
      then have "oc_status r = ''accepted''" "has_catalog_evidence (os_db s) (oc_id c')"
        using assms(1) moved(1) by (auto simp: stranded_def case_status_def)
      then show False
        using moved(2) by (simp add: catalog_evidence_dimension accepted_stuck)
    qed
    then have "case_status s' i = case_status s i"
      using moved(3) by (simp add: case_status_def find_case_def row_by_put_row_other)
    then show ?thesis using assms(1) by (simp add: stranded_def)
  next
    case (created row)
    then show ?thesis
      using assms(1) by (auto simp: stranded_def case_status_def find_case_def row_by_append)
  qed
  ultimately show ?thesis by (simp add: stranded_def)
qed

lemma add_catalog_evidence:
  assumes "add_evidence_rows now i by (JList xs) db = Inr db'"
    and "JObj d \<in> set xs" and "dget d ''evidence_type'' = JStr ''catalog''"
  shows "has_catalog_evidence db' i"
proof -
  have "py_or (JList xs) (JList []) = JList xs"
    by (simp add: py_or_def)
  then have loop: "forE (add_evidence_row now i by) db xs = Inr db'"
    using assms(1) by (simp add: add_evidence_rows_def py_iter_def)
  have et: "dget_or d ''evidence_type'' (JStr ''text'') = JStr ''catalog''"
    using assms(3) by (auto simp: dget_def dget_or_def split: option.splits)
  show ?thesis
    using loop assms(2)
  proof (rule forE_establishes)
    show "\<And>s s'. add_evidence_row now i by s (JObj d) = Inr s' \<Longrightarrow> has_catalog_evidence s' i"
      by (auto simp: add_evidence_row_def has_catalog_evidence_def case_evidence_def et)
  next
    show "\<And>s y s'. has_catalog_evidence s i \<Longrightarrow> add_evidence_row now i by s y = Inr s' \<Longrightarrow>
        has_catalog_evidence s' i"
      by (auto simp: has_catalog_evidence_def case_evidence_def dest!: add_evidence_row_effect)
  qed
qed

lemma reply_strands:
  assumes "case_status s i = Some ''accepted''" and "objection_id_of c = Inr i"
    and "dget (cl_payload c) ''evidence'' = JList xs"
    and "JObj d \<in> set xs" and "dget d ''evidence_type'' = JStr ''catalog''"
    and "handle_reply c s = Inr s'"
  shows "stranded s' i"
proof -
  obtain sn db' where add: "add_process (cl_now c) i (event_args c ''reply'' lbl_obj_reply ''submitted''
      (dget (cl_payload c) ''opinion'') sn) (os_db s) = Inr db'" and s': "os_db s' = db'"
    using assms(2,6) by (auto simp: handle_reply_def handle_event_def result_simps)
  have "py_or (dget (cl_payload c) ''evidence'') (JList []) = JList xs"
    using assms(3,4) by (auto simp: py_or_def)
  then have "has_catalog_evidence db' i"
    using add assms(4,5)
    by (auto simp: add_process_def event_args_def split: option.splits intro: add_catalog_evidence)
  moreover have "case_status s' i = case_status s i"
    using add_process_effect [OF add] s' by (auto simp: case_status_def find_case_def)
  ultimately show ?thesis using assms(1) s' by (simp add: stranded_def)
qed

text \<open>C8: a reply that brings catalog evidence to a case that was accepted in the generic
  dimension strands it: the case changes to a dimension whose table does not know \<^verbatim>\<open>accepted\<close>,
  and no sequence of skills moves it ever again.\<close>

theorem catalog_reply_strands_accepted_case:
  assumes "case_status s i = Some ''accepted''" and "objection_id_of c = Inr i"
    and "dget (cl_payload c) ''evidence'' = JList xs"
    and "JObj d \<in> set xs" and "dget d ''evidence_type'' = JStr ''catalog''"
    and "handle_reply c s = Inr s'"
  shows "case_status (run_ops (objection_step uuid ents) s' ops) i = Some ''accepted''"
proof -
  have "stranded (run_ops (objection_step uuid ents) s' ops) i"
    by (rule run_ops_invariant [where I = "\<lambda>s. stranded s i"])
      (use reply_strands [OF assms] stranded_step in blast)+
  then show ?thesis by (simp add: stranded_def)
qed

theorem catalog_reply_strands_accepted_case_witness:
  "(\<exists>t. handle_assign (sample_call []) (sample_sys ''other'' ''accepted'') = Inr t) \<and>
   (\<exists>s'. handle_reply (sample_call [(''evidence'', JList [JObj [(''evidence_type'', JStr ''catalog'')]])])
           (sample_sys ''other'' ''accepted'') = Inr s' \<and>
         case_status (run_ops (objection_step (\<lambda>n. [])
            \<lparr>et_catalogs = [], et_resources = [], et_deliveries = [], et_mappings = []\<rparr>) s'
            [(ObjAssign, sample_call []), (ObjReject, sample_call [])]) ''c'' = Some ''accepted'')"
proof
  have plain: "plain_call (sample_call []) ''c''" by (simp add: plain_call_def sample_call_def dget_def)
  have "assign_target (sample_call []) (os_db (sample_sys ''other'' ''accepted'')) ''c'' = ''provider_investigating''"
    by (simp add: assign_target_def sample_call_def dget_def legal_assign_target_def sample_get)
      (simp add: sample_sys_def list_evidence_def case_evidence_def sample_case_def dimension_of_def
       objection_tables dimension_names next_statuses_def transition_table_def)
  moreover have "legal_transition (dimension_of (sample_case ''other'' ''accepted'')
      (case_evidence (os_db (sample_sys ''other'' ''accepted'')) ''c'')) (oc_status (sample_case ''other'' ''accepted'')) ''provider_investigating''"
    by (simp add: sample_case_def dimension_of_def case_evidence_def sample_sys_def objection_tables
      dimension_names legal_transition_def next_statuses_def transition_table_def)
  ultimately show "\<exists>t. handle_assign (sample_call []) (sample_sys ''other'' ''accepted'') = Inr t"
    using handle_transition_legal [OF plain sample_find] plain_call_id [OF plain]
    by (simp add: handle_assign_def)
next
  let ?c = "sample_call [(''evidence'', JList [JObj [(''evidence_type'', JStr ''catalog'')]])]"
  let ?s = "sample_sys ''other'' ''accepted''"
  have plain: "plain_call ?c ''c''" by (simp add: plain_call_def sample_call_def dget_def)
  obtain s' where s': "handle_reply ?c ?s = Inr s'"
    using handle_event_total [OF plain sample_find] plain_call_id [OF plain]
    by (fastforce simp: handle_reply_def)
  have st: "case_status ?s ''c'' = Some ''accepted''"
    by (simp add: case_status_def sample_find) (simp add: sample_case_def)
  have ev: "dget (cl_payload ?c) ''evidence'' = JList [JObj [(''evidence_type'', JStr ''catalog'')]]"
    by (simp add: sample_call_def dget_def)
  have stuck: "case_status (run_ops (objection_step u e) s' ops) ''c'' = Some ''accepted''" for u e ops
    by (rule catalog_reply_strands_accepted_case [OF st plain_call_id [OF plain] ev _ _ s'])
      (auto simp: dget_def)
  show "\<exists>s'. handle_reply ?c ?s = Inr s' \<and> case_status (run_ops (objection_step (\<lambda>n. [])
            \<lparr>et_catalogs = [], et_resources = [], et_deliveries = [], et_mappings = []\<rparr>) s'
            [(ObjAssign, sample_call []), (ObjReject, sample_call [])]) ''c'' = Some ''accepted''"
    by (rule exI [of _ s'], rule conjI [OF s' stuck])
qed

end
