(* ===== verification/CaseRepo.thy ===== *)
theory CaseRepo
  imports CaseTables "HOL-Library.List_Lexorder" "HOL-Library.Char_ord"
begin

text \<open>
  \<^verbatim>\<open>domain/repositories/approval.py\<close>: the writers of approval cases, their steps and
  decisions, and the queries on them. \<^verbatim>\<open>scalar_one_or_none\<close> raises when the query finds two
  rows. The clock is the argument \<open>now\<close>.
\<close>

definition cases_of :: "case_db \<Rightarrow> string \<Rightarrow> string \<Rightarrow> case_row list" where
  "cases_of db tenant code = filter (\<lambda>c. ac_tenant c = tenant \<and> ac_application c = code) (cdb_cases db)"

section \<open>Queries\<close>

definition list_case_rows :: "case_db \<Rightarrow> string \<Rightarrow> case_row list" where
  "list_case_rows db tenant =
     sort_key ac_application (filter (\<lambda>c. ac_tenant c = tenant) (cdb_cases db))"

definition get_case_row :: "case_db \<Rightarrow> string \<Rightarrow> string \<Rightarrow> case_error + case_row option" where
  "get_case_row db tenant code = one_or_none (cases_of db tenant code)"

text \<open>Steps and decisions are looked up by the code alone, over all tenants.\<close>

definition case_any_tenant :: "case_db \<Rightarrow> string \<Rightarrow> case_error + case_row option" where
  "case_any_tenant db code = one_or_none (filter (\<lambda>c. ac_application c = code) (cdb_cases db))"

definition list_steps :: "case_db \<Rightarrow> string \<Rightarrow> case_error + step_row list" where
  "list_steps db code =
     bindE (case_any_tenant db code) (\<lambda>r.
       Inr (case r of None \<Rightarrow> [] | Some c \<Rightarrow> sort_key as_no (steps_of db (ac_id c))))"

definition list_decisions :: "case_db \<Rightarrow> string \<Rightarrow> case_error + decision_row list" where
  "list_decisions db code =
     bindE (case_any_tenant db code) (\<lambda>r.
       Inr (case r of
              None \<Rightarrow> []
            | Some c \<Rightarrow>
                let ids = map as_id (steps_of db (ac_id c))
                in sort_key ad_created (filter (\<lambda>d. ad_step d \<in> set ids) (cdb_decisions db))))"

section \<open>Writing a step with its decision\<close>

text \<open>\<^verbatim>\<open>session.add(step); session.flush(); session.add(decision)\<close>.\<close>

definition add_step_decision ::
    "(nat \<Rightarrow> string) \<Rightarrow> step_row \<Rightarrow> (string \<Rightarrow> decision_row) \<Rightarrow> case_db \<Rightarrow> case_db" where
  "add_step_decision uuid step decision db =
     (let sid = uuid (cdb_next db)
      in db\<lparr>cdb_steps := cdb_steps db @ [step\<lparr>as_id := sid\<rparr>],
             cdb_decisions := cdb_decisions db @ [(decision sid)\<lparr>ad_id := uuid (Suc (cdb_next db)), ad_step := sid\<rparr>],
             cdb_next := Suc (Suc (cdb_next db))\<rparr>)"

definition new_case :: "string \<Rightarrow> string \<Rightarrow> string \<Rightarrow> string \<Rightarrow> int \<Rightarrow> json \<Rightarrow> case_row" where
  "new_case i tenant code status step decision =
     \<lparr>ac_id = i, ac_tenant = tenant, ac_application = code, ac_status = status, ac_step = step,
      ac_decision = decision, ac_legacy = None, ac_flow_code = None, ac_flow_version = None\<rparr>"

text \<open>The case row of a writer: inserted when there was none, changed otherwise.\<close>

definition put_case ::
    "(nat \<Rightarrow> string) \<Rightarrow> case_row option \<Rightarrow> (string \<Rightarrow> case_row) \<Rightarrow> (case_row \<Rightarrow> case_row) \<Rightarrow> case_db \<Rightarrow>
     case_row \<times> case_db" where
  "put_case uuid found fresh changed db =
     (case found of
        None \<Rightarrow>
          let c = fresh (uuid (cdb_next db))
          in (c, db\<lparr>cdb_cases := cdb_cases db @ [c], cdb_next := Suc (cdb_next db)\<rparr>)
      | Some c0 \<Rightarrow>
          let c = changed c0
          in (c, db\<lparr>cdb_cases := put_row ac_id c (cdb_cases db)\<rparr>))"

text \<open>The three audited writers: the case row, then a step of it and its decision.\<close>

definition write_case_step ::
    "(nat \<Rightarrow> string) \<Rightarrow> case_row option \<Rightarrow> (string \<Rightarrow> case_row) \<Rightarrow> (case_row \<Rightarrow> case_row) \<Rightarrow>
     (case_row \<Rightarrow> step_row) \<Rightarrow> (string \<Rightarrow> decision_row) \<Rightarrow> case_db \<Rightarrow> case_db" where
  "write_case_step uuid found fresh changed step decision db =
     (let (c, db1) = put_case uuid found fresh changed db
      in add_step_decision uuid (step c) decision db1)"

definition bare_step :: "string \<Rightarrow> int \<Rightarrow> json \<Rightarrow> string \<Rightarrow> string \<Rightarrow> json \<Rightarrow> step_row" where
  "bare_step cid no name mode status scope =
     \<lparr>as_id = [], as_case = cid, as_no = no, as_name = name, as_mode = mode, as_status = status,
      as_scope = scope, as_started = None, as_completed = None\<rparr>"

definition bare_decision :: "nat \<Rightarrow> string \<Rightarrow> json \<Rightarrow> json \<Rightarrow> json \<Rightarrow> string \<Rightarrow> decision_row" where
  "bare_decision now decision reason actor evidence sid =
     \<lparr>ad_id = [], ad_step = sid, ad_decision = decision, ad_reason = reason, ad_actor = actor,
      ad_evidence = evidence, ad_created = now\<rparr>"

section \<open>Status tables\<close>

definition api_step_no :: "string \<Rightarrow> int" where
  "api_step_no status =
     (if status \<in> {''draft'', ''pending_review''} then 1
      else if status = ''approved_pending_publish'' then 2
      else if status = ''active'' then 3
      else if status \<in> {''retired'', ''revoked''} then 4
      else if status = ''test_failed'' then 2
      else 1)"

definition api_step_name :: "string \<Rightarrow> string" where
  "api_step_name status =
     (if status = ''pending_review'' then lbl_api_review
      else if status = ''approved_pending_publish'' then lbl_api_approved
      else if status = ''active'' then lbl_api_publish
      else if status = ''retired'' then lbl_api_retire
      else if status = ''revoked'' then lbl_api_revoke
      else if status = ''test_failed'' then lbl_api_test_failed
      else lbl_api_draft)"

definition catalog_step_name :: "string \<Rightarrow> string" where
  "catalog_step_name status =
     (if status = ''pending_review'' then lbl_cat_review
      else if status = ''approved_pending_publish'' then lbl_cat_approved
      else if status = ''active'' then lbl_cat_publish
      else if status = ''retired'' then lbl_cat_retire
      else if status = ''rejected'' then lbl_cat_reject
      else lbl_cat_draft)"

definition api_step_status :: "string \<Rightarrow> string" where
  "api_step_status status =
     (if status = ''pending_review'' then ''in_progress''
      else if status \<in> {''approved_pending_publish'', ''active''} then ''approved''
      else if status \<in> {''retired'', ''revoked''} then ''closed''
      else if status = ''test_failed'' then ''returned''
      else ''pending'')"

definition api_approver_roles :: "string \<Rightarrow> string list" where
  "api_approver_roles status =
     (if status \<in> {''pending_review'', ''approved_pending_publish'', ''active'', ''retired'', ''revoked'',
                   ''test_failed''}
      then [''ROLE_BUSIAUDIT''] else [''ROLE_ORGAN_MANAGER'', ''ROLE_BUSIAUDIT''])"

definition api_decision_value :: "string \<Rightarrow> string" where
  "api_decision_value status =
     (if status \<in> {''approved_pending_publish'', ''active''} then ''approve''
      else if status \<in> {''retired'', ''revoked''} then ''close''
      else if status = ''test_failed'' then ''return''
      else if status = ''pending_review'' then ''submit''
      else ''draft'')"

definition current_step_no :: "string \<Rightarrow> int" where
  "current_step_no status =
     (if status \<in> {''pending'', ''need-fix'', ''rejected''} then 1
      else if status = ''supplementing'' then 2
      else if status = ''summary-pending'' then 3
      else if status = ''completed'' then 4
      else 1)"

definition request_step_name :: "string \<Rightarrow> string" where
  "request_step_name status =
     (if status \<in> {''pending'', ''need-fix'', ''rejected''} then lbl_req_admission
      else if status = ''supplementing'' then lbl_req_supplement
      else if status = ''summary-pending'' then lbl_req_summary
      else if status = ''completed'' then lbl_req_return
      else lbl_req_admission)"

definition request_step_status :: "string \<Rightarrow> string" where
  "request_step_status status =
     (if status \<in> {''pending'', ''supplementing'', ''summary-pending''} then ''in_progress''
      else if status = ''need-fix'' then ''returned''
      else if status = ''rejected'' then ''rejected''
      else if status = ''completed'' then ''approved''
      else ''pending'')"

definition approver_roles :: "string \<Rightarrow> string list" where
  "approver_roles status =
     (if status \<in> {''pending'', ''need-fix'', ''rejected''} then [''ROLE_ORGAN_MANAGER'']
      else if status = ''supplementing'' then [''ROLE_ORGAN_OPERATER'']
      else if status = ''summary-pending'' then [''ROLE_ORGAN_MANAGER'']
      else if status = ''completed'' then [''ROLE_ORGAN_MANAGER'', ''ROLE_BUSIAUDIT'']
      else [''ROLE_ORGAN_MANAGER''])"

definition decision_value :: "string \<Rightarrow> dict \<Rightarrow> string" where
  "decision_value status approval =
     (let suggestion = py_str (dget_or approval ''suggestion'' (JStr []))
      in if status = ''need-fix'' \<or> contains lbl_fix suggestion then ''return''
         else if status = ''rejected'' \<or> contains lbl_reject suggestion then ''reject''
         else ''approve'')"

definition jstrs :: "string list \<Rightarrow> json" where
  "jstrs xs = JList (map JStr xs)"

section \<open>Lifecycles of API resources and catalog entries\<close>

record lifecycle_args =
  la_status :: string
  la_actor :: string
  la_skill :: string
  la_audit :: string
  la_decision :: "string option"
  la_key :: string
  la_step_name :: string

definition lifecycle_payload :: "string \<Rightarrow> lifecycle_args \<Rightarrow> dict" where
  "lifecycle_payload code a =
     [(la_key a, JStr code), (''status'', JStr (la_status a)), (''skill_id'', JStr (la_skill a)),
      (''audit_id'', JStr (la_audit a))]"

definition lifecycle_step :: "string \<Rightarrow> lifecycle_args \<Rightarrow> case_row \<Rightarrow> step_row" where
  "lifecycle_step code a c =
     bare_step (ac_id c) (api_step_no (la_status a)) (JStr (la_step_name a)) ''single''
       (api_step_status (la_status a))
       (JObj [(''roles'', jstrs (api_approver_roles (la_status a))), (la_key a, JStr code)])"

definition lifecycle_decision :: "nat \<Rightarrow> string \<Rightarrow> lifecycle_args \<Rightarrow> string \<Rightarrow> decision_row" where
  "lifecycle_decision now code a =
     bare_decision now
       (case la_decision a of Some d \<Rightarrow> if d \<noteq> [] then d else api_decision_value (la_status a)
        | None \<Rightarrow> api_decision_value (la_status a))
       (JStr (la_skill a @ '' via '' @ la_audit a))
       (JObj [(''actor'', JStr (la_actor a)), (''roles'', jstrs (api_approver_roles (la_status a)))])
       (JObj (dmerge [] [(la_key a, JStr code), (''status'', JStr (la_status a)),
              (''audit_id'', JStr (la_audit a))]))"

definition decision_dict :: "case_row option \<Rightarrow> py_error + dict" where
  "decision_dict found =
     (case found of None \<Rightarrow> Inr [] | Some c \<Rightarrow>
        (case ac_decision c of JObj d \<Rightarrow> Inr d | _ \<Rightarrow> Inl AttributeError))"

definition upsert_lifecycle ::
    "(nat \<Rightarrow> string) \<Rightarrow> nat \<Rightarrow> string \<Rightarrow> string \<Rightarrow> lifecycle_args \<Rightarrow> case_db \<Rightarrow> case_error + case_db" where
  "upsert_lifecycle uuid now tenant code a db =
     bindE (get_case_row db tenant code) (\<lambda>found.
     bindE (raiseE CasePy (decision_dict found)) (\<lambda>old.
       if found \<noteq> None \<and> dget old ''audit_id'' = JStr (la_audit a) then Inr db
       else Inr (write_case_step uuid found
              (\<lambda>i. new_case i tenant code (la_status a) (api_step_no (la_status a))
                     (JObj (dmerge [] (lifecycle_payload code a))))
              (\<lambda>c. c\<lparr>ac_status := la_status a, ac_step := api_step_no (la_status a),
                       ac_decision := JObj (dmerge old (lifecycle_payload code a))\<rparr>)
              (lifecycle_step code a) (lifecycle_decision now code a) db)))"

definition api_lifecycle :: "string \<Rightarrow> string \<Rightarrow> string \<Rightarrow> string \<Rightarrow> string option \<Rightarrow> lifecycle_args" where
  "api_lifecycle status actor skill audit decision =
     \<lparr>la_status = status, la_actor = actor, la_skill = skill, la_audit = audit, la_decision = decision,
      la_key = ''resource_code'', la_step_name = api_step_name status\<rparr>"

definition catalog_lifecycle :: "string \<Rightarrow> string \<Rightarrow> string \<Rightarrow> string \<Rightarrow> string option \<Rightarrow> lifecycle_args" where
  "catalog_lifecycle status actor skill audit decision =
     \<lparr>la_status = status, la_actor = actor, la_skill = skill, la_audit = audit, la_decision = decision,
      la_key = ''catalog_code'', la_step_name = catalog_step_name status\<rparr>"

section \<open>Reviews and conditional approvals\<close>

record review_args =
  rv_decision :: string
  rv_reason :: string
  rv_evidence :: dict
  rv_actor :: string
  rv_skill :: string
  rv_audit :: string
  rv_status :: string

definition review_payload :: "review_args \<Rightarrow> json" where
  "review_payload a =
     JObj [(''decision'', JStr (rv_decision a)), (''reason'', JStr (rv_reason a)),
           (''evidence'', JObj (rv_evidence a)), (''actor'', JStr (rv_actor a)),
           (''skill_id'', JStr (rv_skill a)), (''audit_id'', JStr (rv_audit a))]"

definition dict_or_empty :: "json \<Rightarrow> py_error + dict" where
  "dict_or_empty v = (case py_or v (JObj []) of JObj d \<Rightarrow> Inr d | _ \<Rightarrow> Inl TypeError)"

definition review_step :: "nat \<Rightarrow> string \<Rightarrow> review_args \<Rightarrow> case_row \<Rightarrow> step_row" where
  "review_step now code a c =
     (bare_step (ac_id c) (ac_step c) (JStr lbl_step_review_manager) ''single'' ''completed''
        (JObj [(''roles'', jstrs [''ROLE_ORGAN_MANAGER'']), (''request_id'', JStr code),
               (''audit_id'', JStr (rv_audit a))]))\<lparr>as_started := Some now, as_completed := Some now\<rparr>"

definition review_decision :: "nat \<Rightarrow> review_args \<Rightarrow> string \<Rightarrow> decision_row" where
  "review_decision now a =
     bare_decision now (rv_decision a) (JStr (rv_reason a))
       (JObj [(''actor'', JStr (rv_actor a)), (''role_code'', JStr ''ROLE_ORGAN_MANAGER''),
              (''skill_id'', JStr (rv_skill a))])
       (JObj (dmerge (rv_evidence a) [(''audit_id'', JStr (rv_audit a)), (''skill_id'', JStr (rv_skill a))]))"

definition append_application_review_decision ::
    "(nat \<Rightarrow> string) \<Rightarrow> nat \<Rightarrow> string \<Rightarrow> string \<Rightarrow> review_args \<Rightarrow> case_db \<Rightarrow> case_error + case_db" where
  "append_application_review_decision uuid now tenant code a db =
     bindE (get_case_row db tenant code) (\<lambda>found.
     bindE (raiseE CasePy (case found of None \<Rightarrow> Inr [] | Some c \<Rightarrow> dict_or_empty (ac_decision c))) (\<lambda>old.
       Inr (write_case_step uuid found
              (\<lambda>i. new_case i tenant code (rv_status a) (1 + 1) (review_payload a))
              (\<lambda>c. c\<lparr>ac_status := rv_status a,
                       ac_step := max (if ac_step c = 0 then 1 else ac_step c) 1 + 1,
                       ac_decision := JObj (dset old ''latest_organ_manager_review'' (review_payload a))\<rparr>)
              (review_step now code a) (review_decision now a) db)))"

record conditional_args =
  cn_mode :: string
  cn_name :: string
  cn_step_status :: string
  cn_decision :: string
  cn_reason :: string
  cn_actor :: string
  cn_role :: string
  cn_scope :: dict
  cn_skill :: string
  cn_audit :: string
  cn_status :: string

definition direction_keys :: "string list" where
  "direction_keys = [''approve_org_code'', ''approve_org_name'', ''owner_org_code'']"

definition conditional_scope :: "string \<Rightarrow> conditional_args \<Rightarrow> dict" where
  "conditional_scope code a =
     dmerge (cn_scope a) [(''roles'', jstrs [cn_role a]), (''request_id'', JStr code),
                          (''audit_id'', JStr (cn_audit a))]"

definition conditional_step :: "nat \<Rightarrow> string \<Rightarrow> conditional_args \<Rightarrow> case_row \<Rightarrow> step_row" where
  "conditional_step now code a c =
     (bare_step (ac_id c) (ac_step c) (JStr (cn_name a)) (cn_mode a) (cn_step_status a)
        (JObj (conditional_scope code a)))
     \<lparr>as_started := Some now,
      as_completed := (if cn_step_status a = ''completed'' then Some now else None)\<rparr>"

definition conditional_decision :: "nat \<Rightarrow> conditional_args \<Rightarrow> string \<Rightarrow> decision_row" where
  "conditional_decision now a =
     bare_decision now (cn_decision a) (JStr (cn_reason a))
       (JObj (dmerge [(''actor'', JStr (cn_actor a)), (''role_code'', JStr (cn_role a)),
                      (''skill_id'', JStr (cn_skill a))]
               (filter (\<lambda>(k, v). k \<in> set direction_keys) (cn_scope a))))
       (JObj [(''audit_id'', JStr (cn_audit a)), (''skill_id'', JStr (cn_skill a)),
              (''decision_mode'', JStr (cn_mode a)), (''case_status'', JStr (cn_status a))])"

definition next_step_no :: "case_db \<Rightarrow> case_row option \<Rightarrow> int" where
  "next_step_no db found =
     int (length (case found of None \<Rightarrow> [] | Some c \<Rightarrow> steps_of db (ac_id c))) + 1"

definition append_conditional_step ::
    "(nat \<Rightarrow> string) \<Rightarrow> nat \<Rightarrow> string \<Rightarrow> string \<Rightarrow> conditional_args \<Rightarrow> case_db \<Rightarrow> case_error + case_db" where
  "append_conditional_step uuid now tenant code a db =
     bindE (get_case_row db tenant code) (\<lambda>found.
       Inr (write_case_step uuid found
              (\<lambda>i. new_case i tenant code (cn_status a) (next_step_no db found) (JObj []))
              (\<lambda>c. c\<lparr>ac_status := cn_status a, ac_step := next_step_no db found\<rparr>)
              (conditional_step now code a) (conditional_decision now a) db))"

section \<open>The projection of a request and its approval card\<close>

text \<open>A step written by an audited decision carries an \<^verbatim>\<open>audit_id\<close> in its scope.\<close>

definition audited_step :: "step_row \<Rightarrow> bool" where
  "audited_step s \<longleftrightarrow> (case as_scope s of JObj d \<Rightarrow> truthy (dget d ''audit_id'') | _ \<Rightarrow> False)"

definition clear_steps :: "string \<Rightarrow> case_db \<Rightarrow> case_db" where
  "clear_steps cid db =
     (let ids = map as_id (steps_of db cid)
      in db\<lparr>cdb_decisions := filter (\<lambda>d. ad_step d \<notin> set ids) (cdb_decisions db),
            cdb_steps := filter (\<lambda>s. as_case s \<noteq> cid) (cdb_steps db)\<rparr>)"

definition projected_step :: "string \<Rightarrow> string \<Rightarrow> string \<Rightarrow> step_row" where
  "projected_step cid code status =
     bare_step cid (current_step_no status) (JStr (request_step_name status)) ''single''
       (request_step_status status)
       (JObj [(''roles'', jstrs (approver_roles status)), (''request_id'', JStr code)])"

definition projected_decision :: "nat \<Rightarrow> string \<Rightarrow> dict \<Rightarrow> string \<Rightarrow> decision_row" where
  "projected_decision now status approval =
     bare_decision now (decision_value status approval)
       (py_or (dget approval ''draftNote'') (dget approval ''impact''))
       (JObj [(''roles'', jstrs (approver_roles status)), (''suggestion'', dget approval ''suggestion'')])
       (JObj [(''reason'', dget_or approval ''reason'' (JList [])),
              (''risk'', dget_or approval ''risk'' (JList [])),
              (''exceptionItems'', dget_or approval ''exceptionItems'' (JList []))])"

definition upsert_from_request_and_approval ::
    "(nat \<Rightarrow> string) \<Rightarrow> nat \<Rightarrow> string \<Rightarrow> string \<Rightarrow> string \<Rightarrow> dict \<Rightarrow> case_db \<Rightarrow> case_db" where
  "upsert_from_request_and_approval uuid now tenant code status approval db =
     (let found = (case cases_of db tenant code of [] \<Rightarrow> None | c # _ \<Rightarrow> Some c);
          rebuild = (\<lambda>(c, db1).
            let db2 = clear_steps (ac_id c) db1; step = projected_step (ac_id c) code status
            in if approval = []
               then db2\<lparr>cdb_steps := cdb_steps db2 @ [step\<lparr>as_id := uuid (cdb_next db2)\<rparr>],
                        cdb_next := Suc (cdb_next db2)\<rparr>
               else add_step_decision uuid step (projected_decision now status approval) db2)
      in case found of
           Some c0 \<Rightarrow>
             if list_ex audited_step (steps_of db (ac_id c0))
             then snd (put_case uuid found (\<lambda>i. c0)
                    (\<lambda>c. c\<lparr>ac_status := status, ac_decision := JObj approval\<rparr>) db)
             else rebuild (put_case uuid found (\<lambda>i. c0)
                    (\<lambda>c. c\<lparr>ac_status := status, ac_step := current_step_no status,
                             ac_decision := JObj approval\<rparr>) db)
         | None \<Rightarrow> rebuild (put_case uuid None
                    (\<lambda>i. new_case i tenant code status 1 (JObj approval)) (\<lambda>c. c) db))"

end
