(* ===== verification/LegacyMap.thy ===== *)
theory LegacyMap
  imports Tables SafeJson
begin

text \<open>
  \<^verbatim>\<open>domain/repositories/legacy_mapping.py\<close>: which record of the platform an object of the old
  platform became. Two different answers for one old object and one kind of record are a
  conflict, and a conflict is never resolved by a guess.
\<close>

record legacy_row =
  lm_tenant :: string
  lm_system :: string
  lm_type :: string
  lm_ref :: string
  lm_canonical_type :: string
  lm_canonical_ref :: string
  lm_source :: string
  lm_status :: string
  lm_evidence :: json
  lm_mapped :: nat

type_synonym legacy_scope = "string \<times> string \<times> string \<times> string \<times> string"

definition scope_key :: "legacy_row \<Rightarrow> legacy_scope" where
  "scope_key r = (lm_tenant r, lm_system r, lm_type r, lm_ref r, lm_canonical_type r)"

definition identity_key :: "legacy_row \<Rightarrow> legacy_scope \<times> string" where
  "identity_key r = (scope_key r, lm_canonical_ref r)"

definition in_scope :: "legacy_scope \<Rightarrow> legacy_row list \<Rightarrow> legacy_row list" where
  "in_scope k rows = filter (\<lambda>r. scope_key r = k) rows"

section \<open>Operations\<close>

text \<open>The row \<^verbatim>\<open>LegacyObjectMappingRecord(**mapping)\<close> of a mapping payload.\<close>

definition mapping_of :: "nat \<Rightarrow> dict \<Rightarrow> legacy_row" where
  "mapping_of now d =
     \<lparr>lm_tenant = py_str (dget d ''tenant_id''), lm_system = py_str (dget d ''legacy_system''),
      lm_type = py_str (dget d ''legacy_object_type''), lm_ref = py_str (dget d ''legacy_object_ref''),
      lm_canonical_type = py_str (dget d ''canonical_type''),
      lm_canonical_ref = py_str (dget d ''canonical_ref''), lm_source = py_str (dget d ''source_ref''),
      lm_status = py_str (dget d ''mapping_status''), lm_evidence = dget d ''evidence_json'', lm_mapped = now\<rparr>"

definition conflicted :: string where "conflicted = ''conflicted''"

definition mark_conflicted :: "nat \<Rightarrow> legacy_scope \<Rightarrow> legacy_row \<Rightarrow> legacy_row" where
  "mark_conflicted now k r =
     (if scope_key r = k then r\<lparr>lm_status := conflicted, lm_mapped := now\<rparr> else r)"

definition refresh_mapping :: "nat \<Rightarrow> nat \<Rightarrow> legacy_row \<Rightarrow> legacy_row \<Rightarrow> legacy_row" where
  "refresh_mapping now same m r =
     r\<lparr>lm_source := lm_source m, lm_status := (if same > 1 then conflicted else lm_status m),
       lm_evidence := safe_json (lm_evidence m), lm_mapped := now\<rparr>"

definition put_mapping :: "nat \<Rightarrow> legacy_row \<Rightarrow> legacy_row list \<Rightarrow> legacy_row list" where
  "put_mapping now m rows =
     (let same = in_scope (scope_key m) rows
      in case find (\<lambda>r. lm_canonical_ref r = lm_canonical_ref m) same of
           None \<Rightarrow> map (mark_conflicted now (scope_key m)) rows @
                   [m\<lparr>lm_status := (if same \<noteq> [] then conflicted else lm_status m)\<rparr>]
         | Some r \<Rightarrow> put_row identity_key (refresh_mapping now (length same) m r) rows)"

definition upsert_legacy_mapping ::
    "nat \<Rightarrow> string \<Rightarrow> dict \<Rightarrow> legacy_row list \<Rightarrow> py_error + legacy_row list" where
  "upsert_legacy_mapping now tenant payload rows =
     (if \<not> truthy (dget payload ''source_ref'') then Inr rows
      else bindE (legacy_mapping_payload payload tenant) (\<lambda>d. Inr (put_mapping now (mapping_of now d) rows)))"

definition canonical_refs :: "legacy_row list \<Rightarrow> string list" where
  "canonical_refs rs = remdups (map lm_canonical_ref rs)"

definition resolve_canonical_ref :: "legacy_scope \<Rightarrow> legacy_row list \<Rightarrow> string option" where
  "resolve_canonical_ref k rows =
     (let records = in_scope k rows;
          mapped = canonical_refs (filter (\<lambda>r. lm_status r = ''mapped'') records);
          refs = (if mapped \<noteq> [] then mapped else canonical_refs records)
      in case refs of [r] \<Rightarrow> Some r | _ \<Rightarrow> None)"

text \<open>\<^verbatim>\<open>LegacyObjectMappingRepository.upsert_mapping\<close>: the write, and the row it reads back.\<close>

definition upsert_mapping ::
    "nat \<Rightarrow> string \<Rightarrow> dict \<Rightarrow> legacy_row list \<Rightarrow> case_error + legacy_row option \<times> legacy_row list" where
  "upsert_mapping now tenant payload rows =
     (if \<not> truthy (dget payload ''source_ref'') then Inr (None, rows)
      else bindE (raiseE CasePy (upsert_legacy_mapping now tenant payload rows)) (\<lambda>rows'.
           bindE (raiseE CasePy (legacy_mapping_payload payload tenant)) (\<lambda>d.
           bindE (one_or_none (filter (\<lambda>r. identity_key r = identity_key (mapping_of now d)) rows')) (\<lambda>r.
             Inr (r, rows')))))"

text \<open>The filters of \<^verbatim>\<open>list_mappings\<close>: an absent or empty one does not filter, except the list of
  references, whose empty list finds nothing.\<close>

record mapping_query =
  mq_type :: string
  mq_ref :: string
  mq_refs :: "string list option"
  mq_legacy_types :: "string list"
  mq_limit :: "int option"

definition mapping_matches :: "string \<Rightarrow> mapping_query \<Rightarrow> legacy_row \<Rightarrow> bool" where
  "mapping_matches tenant q r \<longleftrightarrow> lm_tenant r = tenant \<and>
     (mq_type q = [] \<or> lm_canonical_type r = mq_type q) \<and>
     (mq_ref q = [] \<or> lm_canonical_ref r = mq_ref q) \<and>
     (case mq_refs q of None \<Rightarrow> True | Some refs \<Rightarrow> lm_canonical_ref r \<in> set refs) \<and>
     (mq_legacy_types q = [] \<or> lm_type r \<in> set (mq_legacy_types q))"

definition list_mappings :: "string \<Rightarrow> mapping_query \<Rightarrow> legacy_row list \<Rightarrow> legacy_row list" where
  "list_mappings tenant q rows =
     (if mq_refs q = Some [] then []
      else let found = sort_key lm_mapped (filter (mapping_matches tenant q) rows)
           in case mq_limit q of
                None \<Rightarrow> found
              | Some n \<Rightarrow> if n > 0 then take (nat n) found else found)"

section \<open>Invariant\<close>

definition legacy_inv :: "legacy_row list \<Rightarrow> bool" where
  "legacy_inv rows \<longleftrightarrow> unique_on identity_key rows \<and>
     (\<forall>k. 1 < length (in_scope k rows) \<longrightarrow> (\<forall>r \<in> set (in_scope k rows). lm_status r = conflicted))"

lemma legacy_invD:
  "legacy_inv rows \<Longrightarrow> 1 < length (in_scope k rows) \<Longrightarrow> \<forall>r \<in> set (in_scope k rows). lm_status r = conflicted"
  unfolding legacy_inv_def by blast

lemma in_scope_mark [simp]:
  "in_scope j (map (mark_conflicted now k) rows) =
     (if j = k then map (mark_conflicted now k) (in_scope j rows) else in_scope j rows)"
  by (induction rows) (auto simp: in_scope_def mark_conflicted_def scope_key_def)

lemma in_scope_append:
  "in_scope k (rows @ [r]) = in_scope k rows @ (if scope_key r = k then [r] else [])"
  by (simp add: in_scope_def)

lemma identity_mark [simp]: "identity_key (mark_conflicted now k r) = identity_key r"
  by (simp add: mark_conflicted_def identity_key_def scope_key_def)

lemma status_mark: "r \<in> set (in_scope k rows) \<Longrightarrow> lm_status (mark_conflicted now k r) = conflicted"
  by (simp add: in_scope_def mark_conflicted_def)

lemma scope_put_row:
  "scope_key m = k \<Longrightarrow> in_scope j (put_row identity_key m rows) =
     (if j = k then put_row identity_key m (in_scope j rows) else in_scope j rows)"
  by (induction rows) (auto simp: in_scope_def put_row_def identity_key_def)

lemma put_mapping_inv:
  assumes "legacy_inv rows"
  shows "legacy_inv (put_mapping now m rows)"
proof (cases "find (\<lambda>r. lm_canonical_ref r = lm_canonical_ref m) (in_scope (scope_key m) rows)")
  case None
  let ?new = "m\<lparr>lm_status := (if in_scope (scope_key m) rows \<noteq> [] then conflicted else lm_status m)\<rparr>"
  have eq: "put_mapping now m rows = map (mark_conflicted now (scope_key m)) rows @ [?new]"
    by (simp add: put_mapping_def None Let_def)
  have key: "identity_key ?new = identity_key m" "scope_key ?new = scope_key m"
    by (simp_all add: identity_key_def scope_key_def)
  have "identity_key m \<notin> identity_key ` set rows"
    using None by (auto simp: find_None_iff in_scope_def identity_key_def)
  then have "unique_on identity_key (put_mapping now m rows)"
    using assms by (simp add: legacy_inv_def unique_on_def eq key comp_def)
  moreover have "\<forall>r \<in> set (in_scope k (put_mapping now m rows)). lm_status r = conflicted"
    if "1 < length (in_scope k (put_mapping now m rows))" for k
  proof (cases "k = scope_key m")
    case True
    have split: "in_scope k (put_mapping now m rows) =
        map (mark_conflicted now k) (in_scope k rows) @ [?new]"
      by (simp add: eq True in_scope_append key)
    show ?thesis
      using that True unfolding split by (auto simp: status_mark)
  next
    case False
    then have "in_scope k (put_mapping now m rows) = in_scope k rows"
      using key by (simp add: eq in_scope_append)
    then show ?thesis using that legacy_invD [OF assms, of k] by simp
  qed
  ultimately show ?thesis by (simp add: legacy_inv_def)
next
  case (Some r)
  let ?new = "refresh_mapping now (length (in_scope (scope_key m) rows)) m r"
  have r: "r \<in> set rows" "scope_key r = scope_key m" "lm_canonical_ref r = lm_canonical_ref m"
    using Some by (auto simp: find_Some_iff in_scope_def dest!: nth_mem)
  have eq: "put_mapping now m rows = put_row identity_key ?new rows"
    by (simp add: put_mapping_def Some Let_def)
  have key: "scope_key ?new = scope_key m"
    using r(2) by (simp add: refresh_mapping_def scope_key_def)
  have "unique_on identity_key (put_mapping now m rows)"
    using assms by (simp add: eq legacy_inv_def unique_on_def)
  moreover have "\<forall>x \<in> set (in_scope k (put_mapping now m rows)). lm_status x = conflicted"
    if "1 < length (in_scope k (put_mapping now m rows))" for k
  proof (cases "k = scope_key m")
    case True
    have len: "1 < length (in_scope k rows)"
      using that by (simp add: eq scope_put_row [OF key] True)
    then have "\<forall>x \<in> set (in_scope k rows). lm_status x = conflicted"
      by (rule legacy_invD [OF assms])
    moreover have "lm_status ?new = conflicted"
      using len True by (simp add: refresh_mapping_def)
    ultimately show ?thesis
      by (auto simp: eq scope_put_row [OF key] True dest!: in_put_row)
  next
    case False
    then show ?thesis
      using that legacy_invD [OF assms, of k] by (simp add: eq scope_put_row [OF key])
  qed
  ultimately show ?thesis by (simp add: legacy_inv_def)
qed

lemma upsert_legacy_mapping_inv:
  "legacy_inv rows \<Longrightarrow> upsert_legacy_mapping now tenant payload rows = Inr rows' \<Longrightarrow> legacy_inv rows'"
  by (auto simp: upsert_legacy_mapping_def bindE_Inr_iff put_mapping_inv split: if_splits)

lemma same_scope_refs:
  "legacy_inv rows \<Longrightarrow> distinct (map lm_canonical_ref (in_scope k rows))"
proof -
  assume "legacy_inv rows"
  then have "inj_on identity_key (set rows)" "distinct rows"
    by (auto simp: legacy_inv_def unique_on_def distinct_map)
  then show ?thesis
    by (auto simp: distinct_map in_scope_def inj_on_def identity_key_def)
qed

lemma resolve_single:
  assumes "legacy_inv rows"
  shows "resolve_canonical_ref k rows =
    (case in_scope k rows of [r] \<Rightarrow> Some (lm_canonical_ref r) | _ \<Rightarrow> None)"
proof (cases "in_scope k rows")
  case Nil
  then show ?thesis by (simp add: resolve_canonical_ref_def canonical_refs_def)
next
  case (Cons r rs)
  show ?thesis
  proof (cases rs)
    case Nil
    then show ?thesis by (simp add: resolve_canonical_ref_def canonical_refs_def Cons)
  next
    case (Cons r' rs')
    have "\<forall>x \<in> set (in_scope k rows). lm_status x = conflicted"
      using legacy_invD [OF assms, of k] \<open>in_scope k rows = r # rs\<close> Cons by simp
    then have "filter (\<lambda>x. lm_status x = ''mapped'') (in_scope k rows) = []"
      by (simp add: filter_empty_conv conflicted_def)
    moreover have "canonical_refs (in_scope k rows) = map lm_canonical_ref (in_scope k rows)"
      using same_scope_refs [OF assms] by (simp add: canonical_refs_def distinct_remdups_id)
    ultimately show ?thesis
      using \<open>in_scope k rows = r # rs\<close> Cons by (simp add: resolve_canonical_ref_def canonical_refs_def)
  qed
qed

text \<open>A run of upserts; one that raises changes nothing.\<close>

definition legacy_step :: "legacy_row list \<Rightarrow> nat \<times> string \<times> dict \<Rightarrow> py_error + legacy_row list" where
  "legacy_step rows op = (case op of (now, tenant, payload) \<Rightarrow> upsert_legacy_mapping now tenant payload rows)"

lemma legacy_run_inv: "legacy_inv rows \<Longrightarrow> legacy_inv (run_ops legacy_step rows ops)"
  by (rule run_ops_invariant) (auto simp: legacy_step_def upsert_legacy_mapping_inv)

lemma legacy_inv_empty: "legacy_inv []"
  by (simp add: legacy_inv_def unique_on_def in_scope_def)

section \<open>The abstract mapping\<close>

text \<open>What the table is for: for each old object and kind of record, the set of records it was mapped
  to. An upsert adds to one set, and resolution reads off a singleton.\<close>

definition mapped_refs :: "legacy_row list \<Rightarrow> legacy_scope \<Rightarrow> string set" where
  "mapped_refs rows k = lm_canonical_ref ` set (in_scope k rows)"

lemma refs_mark: "lm_canonical_ref (mark_conflicted now k r) = lm_canonical_ref r"
  by (simp add: mark_conflicted_def)

lemma mapped_refs_put:
  "mapped_refs (put_mapping now m rows) = (mapped_refs rows)(scope_key m := insert (lm_canonical_ref m) (mapped_refs rows (scope_key m)))"
proof (rule ext)
  fix k
  show "mapped_refs (put_mapping now m rows) k =
    ((mapped_refs rows)(scope_key m := insert (lm_canonical_ref m) (mapped_refs rows (scope_key m)))) k"
  proof (cases "find (\<lambda>r. lm_canonical_ref r = lm_canonical_ref m) (in_scope (scope_key m) rows)")
    case None
    let ?new = "m\<lparr>lm_status := (if in_scope (scope_key m) rows \<noteq> [] then conflicted else lm_status m)\<rparr>"
    have "put_mapping now m rows = map (mark_conflicted now (scope_key m)) rows @ [?new]"
      by (simp add: put_mapping_def None Let_def)
    moreover have "scope_key ?new = scope_key m" by (simp add: scope_key_def)
    ultimately show ?thesis
      by (simp add: mapped_refs_def in_scope_append image_image refs_mark)
  next
    case (Some r)
    let ?new = "refresh_mapping now (length (in_scope (scope_key m) rows)) m r"
    have r: "r \<in> set (in_scope (scope_key m) rows)" "lm_canonical_ref r = lm_canonical_ref m"
      using Some by (auto simp: find_Some_iff dest!: nth_mem)
    have key: "scope_key ?new = scope_key m" "lm_canonical_ref ?new = lm_canonical_ref m"
      using r by (simp_all add: refresh_mapping_def scope_key_def in_scope_def)
    have "map lm_canonical_ref (put_row identity_key ?new xs) = map lm_canonical_ref xs" for xs
      by (simp add: put_row_def identity_key_def key(2))
    then have same: "lm_canonical_ref ` set (put_row identity_key ?new xs) = lm_canonical_ref ` set xs" for xs
      by (metis list.set_map)
    have "lm_canonical_ref m \<in> mapped_refs rows (scope_key m)"
      unfolding mapped_refs_def using r by (intro rev_image_eqI [OF r(1)]) simp
    then show ?thesis
      by (simp add: put_mapping_def Some Let_def mapped_refs_def scope_put_row [OF key(1)] same insert_absorb)
  qed
qed

lemma resolve_mapped_refs:
  assumes "legacy_inv rows"
  shows "resolve_canonical_ref k rows = Some r \<longleftrightarrow> mapped_refs rows k = {r}"
proof -
  have distinct: "distinct (map lm_canonical_ref (in_scope k rows))"
    by (rule same_scope_refs [OF assms])
  show ?thesis
  proof (cases "in_scope k rows")
    case (Cons x xs)
    then show ?thesis
      using distinct by (cases xs) (auto simp: resolve_single [OF assms] mapped_refs_def)
  qed (simp add: resolve_single [OF assms] mapped_refs_def)
qed

text \<open>Whatever was imported, in whatever order, an old object resolves to a record exactly when
  that is the only record of its kind it was ever mapped to; every other answer is none.\<close>

lemma resolve_never_guesses:
  "resolve_canonical_ref k (run_ops legacy_step [] ops) =
     (case in_scope k (run_ops legacy_step [] ops) of [r] \<Rightarrow> Some (lm_canonical_ref r) | _ \<Rightarrow> None) \<and>
   distinct (map lm_canonical_ref (in_scope k (run_ops legacy_step [] ops)))"
  using resolve_single same_scope_refs legacy_run_inv [OF legacy_inv_empty] by blast

definition sample_mapping :: dict where
  "sample_mapping =
     [(''source_ref'', JStr ''src1''), (''legacy_system'', JStr ''old''), (''legacy_object_type'', JStr ''apply''),
      (''legacy_object_ref'', JStr ''7''), (''canonical_type'', JStr ''application_record''),
      (''canonical_ref'', JStr ''r1''), (''evidence_json'', JObj [])]"

text \<open>C10: an import refines its specification, a set of records for each old object: it adds its
  record to the set of its object and touches no other, and afterwards an object resolves to a record
  exactly when its set is that singleton.\<close>

theorem upsert_refines_sets:
  assumes "legacy_inv rows" and "truthy (dget payload ''source_ref'')"
    and "legacy_mapping_payload payload tenant = Inr d"
  shows "\<exists>rows'. upsert_legacy_mapping now tenant payload rows = Inr rows' \<and> legacy_inv rows' \<and>
    mapped_refs rows' = (mapped_refs rows)(scope_key (mapping_of now d) :=
      insert (lm_canonical_ref (mapping_of now d)) (mapped_refs rows (scope_key (mapping_of now d)))) \<and>
    (\<forall>k r. resolve_canonical_ref k rows' = Some r \<longleftrightarrow> mapped_refs rows' k = {r})"
  using assms resolve_mapped_refs put_mapping_inv
  by (simp add: upsert_legacy_mapping_def mapped_refs_put)

theorem upsert_refines_sets_witness:
  "\<exists>rows'. upsert_legacy_mapping 0 ''t'' sample_mapping [] = Inr rows' \<and> legacy_inv rows'"
proof -
  obtain d where "legacy_mapping_payload sample_mapping ''t'' = Inr d"
    by (simp add: legacy_mapping_payload_def sample_mapping_def dict_item_def Let_def)
  moreover have "truthy (dget sample_mapping ''source_ref'')"
    by (simp add: sample_mapping_def dget_def)
  ultimately show ?thesis
    using upsert_refines_sets [OF legacy_inv_empty] by blast
qed

end
