(* ===== verification/CardSession.thy ===== *)
theory CardSession
  imports CaseRepo LegacyMap
begin

text \<open>
  \<^verbatim>\<open>domain/repositories/application.py\<close> and the request and approval cards of
  \<^verbatim>\<open>command/card_session.py\<close>: the identity map of one dispatch, which a handler changes in
  place and the write pipeline flushes. The digest of a card is the argument \<open>fp\<close>
  (SHA-256 of its canonical JSON text); a new card has the empty digest. The cards of
  delivery tasks, which the same map holds, are in \<open>DeliveryDesk\<close>. The value of a text column is text: the driver refuses any other.
\<close>

section \<open>Application records\<close>

record application_row =
  ap_tenant :: string
  ap_code :: string
  ap_status :: string
  ap_name :: json
  ap_org :: json
  ap_payload :: dict
  ap_created :: nat

record approval_store =
  st_apps :: "application_row list"
  st_cases :: case_db
  st_legacy :: "legacy_row list"

definition is_application :: "string \<Rightarrow> string \<Rightarrow> application_row \<Rightarrow> bool" where
  "is_application tenant code r \<longleftrightarrow> ap_tenant r = tenant \<and> ap_code r = code"

definition count_by_statuses :: "string \<Rightarrow> string list \<Rightarrow> approval_store \<Rightarrow> nat" where
  "count_by_statuses tenant statuses st =
     length (filter (\<lambda>r. ap_tenant r = tenant \<and> ap_status r \<in> set statuses) (st_apps st))"

definition count_records :: "string \<Rightarrow> approval_store \<Rightarrow> nat" where
  "count_records tenant st = length (filter (\<lambda>r. ap_tenant r = tenant) (st_apps st))"

definition list_records :: "string \<Rightarrow> approval_store \<Rightarrow> application_row list" where
  "list_records tenant st = sort_key ap_code (filter (\<lambda>r. ap_tenant r = tenant) (st_apps st))"

definition get_record :: "string \<Rightarrow> string \<Rightarrow> approval_store \<Rightarrow> case_error + application_row option" where
  "get_record tenant code st = one_or_none (filter (is_application tenant code) (st_apps st))"

definition update_status :: "string \<Rightarrow> string \<Rightarrow> string \<Rightarrow> approval_store \<Rightarrow> approval_store" where
  "update_status tenant code status st =
     st\<lparr>st_apps := map (\<lambda>r. if is_application tenant code r then r\<lparr>ap_status := status\<rparr> else r) (st_apps st)\<rparr>"

definition text_item :: "dict \<Rightarrow> string \<Rightarrow> py_error + string" where
  "text_item d k = bindE (dict_item d k) (\<lambda>v. case v of JStr s \<Rightarrow> Inr s | _ \<Rightarrow> Inl TypeError)"

definition safe_dict :: "dict \<Rightarrow> dict" where
  "safe_dict d = (case safe_json (JObj d) of JObj e \<Rightarrow> e | _ \<Rightarrow> [])"

definition request_mapping :: "dict \<Rightarrow> string \<Rightarrow> string \<Rightarrow> dict" where
  "request_mapping request code status =
     [(''source_ref'', dget request ''source_ref''),
      (''legacy_object_ref'', py_or (dget request ''legacy_object_ref'') (JStr code)),
      (''canonical_type'', JStr ''application_record''), (''canonical_ref'', JStr code),
      (''evidence_json'', JObj [(''status'', JStr status), (''resource_id'', dget request ''resourceId'')])]"

definition put_application :: "application_row list \<Rightarrow> application_row option \<Rightarrow> application_row \<Rightarrow> application_row list" where
  "put_application rows found r =
     (case found of None \<Rightarrow> rows @ [r]
      | Some _ \<Rightarrow> map (\<lambda>x. if is_application (ap_tenant r) (ap_code r) x
                            then r\<lparr>ap_created := ap_created x\<rparr> else x) rows)"

definition upsert_from_request ::
    "nat \<Rightarrow> string \<Rightarrow> dict \<Rightarrow> approval_store \<Rightarrow> case_error + approval_store" where
  "upsert_from_request now tenant request st =
     bindE (raiseE CasePy (text_item request ''id'')) (\<lambda>code.
     bindE (get_record tenant code st) (\<lambda>found.
     bindE (raiseE CasePy (text_item request ''status'')) (\<lambda>status.
     bindE (raiseE CasePy (dict_item request ''applicant'')) (\<lambda>name.
     bindE (raiseE CasePy (dict_item request ''applicantDept'')) (\<lambda>org.
       let r = \<lparr>ap_tenant = tenant, ap_code = code, ap_status = status, ap_name = name, ap_org = org,
                ap_payload = safe_dict request, ap_created = now\<rparr>;
           st1 = st\<lparr>st_apps := put_application (st_apps st) found r\<rparr>
       in if truthy (dget request ''source_ref'')
          then bindE (raiseE CasePy (upsert_legacy_mapping now tenant
                        (request_mapping request code status) (st_legacy st1))) (\<lambda>ms.
                 Inr (st1\<lparr>st_legacy := ms\<rparr>))
          else Inr st1)))))"

section \<open>The session\<close>

text \<open>A tracked card with the digest it was loaded with.\<close>

type_synonym tracked = "(string \<times> (dict \<times> string)) list"

record card_session =
  cs_requests :: tracked
  cs_approvals :: tracked

definition empty_session :: card_session where
  "empty_session = \<lparr>cs_requests = [], cs_approvals = []\<rparr>"

definition is_runtime_request_payload :: "dict \<Rightarrow> bool" where
  "is_runtime_request_payload payload \<longleftrightarrow> payload \<noteq> [] \<and> map_of payload ''kind'' = None"

definition default_card_tenant :: string where "default_card_tenant = ''sd-default''"

definition card_of_record :: "application_row \<Rightarrow> dict" where
  "card_of_record r = dset (ap_payload r) ''status'' (JStr (ap_status r))"

definition get_request ::
    "(dict \<Rightarrow> string) \<Rightarrow> approval_store \<Rightarrow> string \<Rightarrow> card_session \<Rightarrow> case_error + (dict option \<times> card_session)" where
  "get_request fp st i cs =
     (case map_of (cs_requests cs) i of
        Some (crd, _) \<Rightarrow> Inr (Some crd, cs)
      | None \<Rightarrow>
          bindE (get_record default_card_tenant i st) (\<lambda>found.
            case found of
              None \<Rightarrow> Inr (None, cs)
            | Some r \<Rightarrow>
                if \<not> is_runtime_request_payload (ap_payload r) then Inr (None, cs)
                else let crd = card_of_record r
                     in Inr (Some crd, cs\<lparr>cs_requests := dset (cs_requests cs) i (crd, fp crd)\<rparr>)))"

text \<open>A change of the card a handler holds.\<close>

definition change_request :: "string \<Rightarrow> (dict \<Rightarrow> dict) \<Rightarrow> card_session \<Rightarrow> card_session" where
  "change_request i f cs =
     (case map_of (cs_requests cs) i of
        None \<Rightarrow> cs
      | Some (crd, loaded) \<Rightarrow> cs\<lparr>cs_requests := dset (cs_requests cs) i (f crd, loaded)\<rparr>)"

definition approval_card :: "case_row \<Rightarrow> dict option" where
  "approval_card c =
     (case (ac_legacy c, ac_decision c) of
        (None, JObj (x # d)) \<Rightarrow> Some (x # d)
      | (Some [], JObj (x # d)) \<Rightarrow> Some (x # d)
      | _ \<Rightarrow> None)"

definition get_approval ::
    "(dict \<Rightarrow> string) \<Rightarrow> approval_store \<Rightarrow> string \<Rightarrow> card_session \<Rightarrow> case_error + (dict option \<times> card_session)" where
  "get_approval fp st i cs =
     (case map_of (cs_approvals cs) i of
        Some (crd, _) \<Rightarrow> Inr (Some crd, cs)
      | None \<Rightarrow>
          bindE (get_case_row (st_cases st) default_card_tenant i) (\<lambda>found.
            case Option.bind found (\<lambda>c. map_option (\<lambda>d. dsetdefault d ''id'' (JStr (ac_application c))) (approval_card c)) of
              None \<Rightarrow> Inr (None, cs)
            | Some crd \<Rightarrow> Inr (Some crd, cs\<lparr>cs_approvals := dset (cs_approvals cs) i (crd, fp crd)\<rparr>)))"

definition add_request :: "dict \<Rightarrow> card_session \<Rightarrow> py_error + card_session" where
  "add_request crd cs =
     bindE (dict_item crd ''id'') (\<lambda>i. Inr (cs\<lparr>cs_requests := dset (cs_requests cs) (py_str i) (crd, [])\<rparr>))"

definition add_approval :: "dict \<Rightarrow> card_session \<Rightarrow> py_error + card_session" where
  "add_approval crd cs =
     bindE (dict_item crd ''id'') (\<lambda>i. Inr (cs\<lparr>cs_approvals := dset (cs_approvals cs) (py_str i) (crd, [])\<rparr>))"

definition list_runtime_requests :: "approval_store \<Rightarrow> dict list" where
  "list_runtime_requests st =
     map card_of_record (rev (sort_key ap_created
       (rev (filter (\<lambda>r. is_runtime_request_payload (ap_payload r)) (list_records default_card_tenant st)))))"

section \<open>Flush\<close>

definition paired_approval :: "approval_store \<Rightarrow> card_session \<Rightarrow> string \<Rightarrow> case_error + dict" where
  "paired_approval st cs i =
     (case map_of (cs_approvals cs) i of
        Some (crd, _) \<Rightarrow> Inr crd
      | None \<Rightarrow> bindE (get_case_row (st_cases st) default_card_tenant i) (\<lambda>found.
                  Inr (case Option.bind found approval_card of Some d \<Rightarrow> d | None \<Rightarrow> [])))"

definition paired_request :: "approval_store \<Rightarrow> card_session \<Rightarrow> string \<Rightarrow> case_error + dict" where
  "paired_request st cs i =
     (case map_of (cs_requests cs) i of
        Some (crd, _) \<Rightarrow> Inr crd
      | None \<Rightarrow> bindE (get_record default_card_tenant i st) (\<lambda>found.
          Inr (case found of
                 Some r \<Rightarrow> [(''id'', JStr i), (''status'', JStr (ap_status r)), (''applicant'', ap_name r),
                           (''applicantDept'', ap_org r)]
               | None \<Rightarrow> [(''id'', JStr i), (''status'', JStr ''pending''), (''applicant'', JStr []),
                         (''applicantDept'', JStr [])])))"

definition mirror_case ::
    "(nat \<Rightarrow> string) \<Rightarrow> nat \<Rightarrow> dict \<Rightarrow> dict \<Rightarrow> approval_store \<Rightarrow> case_error + approval_store" where
  "mirror_case uuid now request approval st =
     bindE (raiseE CasePy (text_item request ''id'')) (\<lambda>code.
     bindE (raiseE CasePy (text_item request ''status'')) (\<lambda>status.
       Inr (st\<lparr>st_cases := upsert_from_request_and_approval uuid now default_card_tenant code status
                            approval (st_cases st)\<rparr>)))"

text \<open>Each write commits on its own, so an error carries what was stored before it.\<close>

definition failing :: "approval_store \<Rightarrow> case_error + 'a \<Rightarrow> (case_error \<times> approval_store) + 'a" where
  "failing st m = raiseE (\<lambda>e. (e, st)) m"

definition flush_request ::
    "(nat \<Rightarrow> string) \<Rightarrow> (dict \<Rightarrow> string) \<Rightarrow> nat \<Rightarrow> card_session \<Rightarrow> approval_store \<times> string list \<Rightarrow>
     string \<times> (dict \<times> string) \<Rightarrow> (case_error \<times> approval_store) + approval_store \<times> string list" where
  "flush_request uuid fp now cs s e =
     (case (s, e) of ((st, flushed), (i, (crd, loaded))) \<Rightarrow>
        if fp crd = loaded then Inr (st, flushed)
        else bindE (failing st (upsert_from_request now default_card_tenant crd st)) (\<lambda>st1.
             bindE (failing st1 (paired_approval st1 cs i)) (\<lambda>approval.
             bindE (failing st1 (mirror_case uuid now crd approval st1)) (\<lambda>st2.
               Inr (st2, i # flushed)))))"

definition flush_approval ::
    "(nat \<Rightarrow> string) \<Rightarrow> (dict \<Rightarrow> string) \<Rightarrow> nat \<Rightarrow> card_session \<Rightarrow> string list \<Rightarrow> approval_store \<Rightarrow>
     string \<times> (dict \<times> string) \<Rightarrow> (case_error \<times> approval_store) + approval_store" where
  "flush_approval uuid fp now cs flushed st e =
     (case e of (i, (crd, loaded)) \<Rightarrow>
        if i \<in> set flushed \<or> fp crd = loaded then Inr st
        else failing st (bindE (paired_request st cs i) (\<lambda>request. mirror_case uuid now request crd st)))"

definition flush_cards ::
    "(nat \<Rightarrow> string) \<Rightarrow> (dict \<Rightarrow> string) \<Rightarrow> nat \<Rightarrow> card_session \<Rightarrow> approval_store \<Rightarrow>
     (case_error \<times> approval_store) + approval_store \<times> card_session" where
  "flush_cards uuid fp now cs st =
     bindE (forE (flush_request uuid fp now cs) (st, []) (cs_requests cs)) (\<lambda>(st1, flushed).
     bindE (forE (flush_approval uuid fp now cs flushed) st1 (cs_approvals cs)) (\<lambda>st2.
       Inr (st2, empty_session)))"

end
