(* ===== verification/CaseSafe.thy ===== *)
theory CaseSafe
  imports CaseRepo
begin

text \<open>
  What the writers of approval cases keep: identifiers stay unique, an audited step and its
  decisions are never removed or rewritten, and what a conditional step adds.
\<close>

section \<open>Operations\<close>

datatype case_op =
    CaseLifecycle nat string string lifecycle_args
  | CaseReview nat string string review_args
  | CaseConditional nat string string conditional_args
  | CaseMirror nat string string string dict

fun case_step :: "(nat \<Rightarrow> string) \<Rightarrow> case_db \<Rightarrow> case_op \<Rightarrow> case_error + case_db" where
  "case_step uuid db (CaseLifecycle now tenant code a) = upsert_lifecycle uuid now tenant code a db"
| "case_step uuid db (CaseReview now tenant code a) = append_application_review_decision uuid now tenant code a db"
| "case_step uuid db (CaseConditional now tenant code a) = append_conditional_step uuid now tenant code a db"
| "case_step uuid db (CaseMirror now tenant code status approval) =
     Inr (upsert_from_request_and_approval uuid now tenant code status approval db)"

section \<open>Unique identifiers\<close>

definition drawn :: "(nat \<Rightarrow> string) \<Rightarrow> nat \<Rightarrow> string \<Rightarrow> bool" where
  "drawn uuid n i \<longleftrightarrow> (\<exists>k < n. i = uuid k)"

definition case_inv :: "(nat \<Rightarrow> string) \<Rightarrow> case_db \<Rightarrow> bool" where
  "case_inv uuid db \<longleftrightarrow> inj uuid \<and> unique_on as_id (cdb_steps db) \<and>
     (\<forall>s \<in> set (cdb_steps db). drawn uuid (cdb_next db) (as_id s) \<and> drawn uuid (cdb_next db) (as_case s)) \<and>
     (\<forall>c \<in> set (cdb_cases db). drawn uuid (cdb_next db) (ac_id c))"

lemma drawn_mono: "drawn uuid n i \<Longrightarrow> n \<le> m \<Longrightarrow> drawn uuid m i"
  unfolding drawn_def by (elim exE conjE, rule exI, rule conjI, erule (1) less_le_trans)

lemma drawn_Suc: "drawn uuid n i \<Longrightarrow> drawn uuid (Suc n) i"
  by (rule drawn_mono) auto

lemma drawn_new: "drawn uuid (Suc n) (uuid n)"
  unfolding drawn_def by blast

lemma not_drawn: "inj uuid \<Longrightarrow> n \<le> k \<Longrightarrow> \<not> drawn uuid n (uuid k)"
  by (auto simp: drawn_def inj_eq)

text \<open>The row a writer works on.\<close>

definition row_ready :: "(nat \<Rightarrow> string) \<Rightarrow> case_db \<Rightarrow> case_row option \<Rightarrow> case_row \<Rightarrow> case_db \<Rightarrow> bool" where
  "row_ready uuid db found c db1 \<longleftrightarrow>
     case_inv uuid db1 \<and> drawn uuid (cdb_next db1) (ac_id c) \<and> cdb_steps db1 = cdb_steps db \<and>
     cdb_decisions db1 = cdb_decisions db \<and> c \<in> set (cdb_cases db1) \<and>
     (case found of None \<Rightarrow> steps_of db1 (ac_id c) = [] | Some c0 \<Rightarrow> ac_id c = ac_id c0)"

lemma put_case_ready:
  assumes "case_inv uuid db" and "put_case uuid found fresh changed db = (c, db1)"
    and "\<And>i. ac_id (fresh i) = i" and "\<And>x. ac_id (changed x) = ac_id x"
    and "\<And>c0. found = Some c0 \<Longrightarrow> c0 \<in> set (cdb_cases db)"
  shows "row_ready uuid db found c db1"
proof (cases found)
  case None
  have "steps_of db (uuid (cdb_next db)) = []"
    using assms(1) not_drawn [of uuid "cdb_next db" "cdb_next db"]
    by (auto simp: case_inv_def steps_of_def filter_empty_conv)
  then show ?thesis
    using assms None by (auto simp: row_ready_def put_case_def Let_def case_inv_def steps_of_def
        drawn_new drawn_Suc)
next
  case (Some c0)
  then have c0: "c0 \<in> set (cdb_cases db)" using assms(5) by simp
  have mem: "changed c0 \<in> set (put_row ac_id (changed c0) (cdb_cases db))"
    unfolding put_row_def set_map by (rule image_eqI [OF _ c0]) (simp add: assms(4))
  have "\<forall>x \<in> set (put_row ac_id (changed c0) (cdb_cases db)). drawn uuid (cdb_next db) (ac_id x)"
    using assms(1,4) c0 by (auto simp: case_inv_def dest!: in_put_row)
  then show ?thesis
    using assms Some mem by (auto simp: row_ready_def put_case_def Let_def case_inv_def)
qed

lemma add_step_inv:
  assumes "case_inv uuid db" and "drawn uuid (cdb_next db) (as_case step)"
  shows "case_inv uuid (db\<lparr>cdb_steps := cdb_steps db @ [step\<lparr>as_id := uuid (cdb_next db)\<rparr>],
                          cdb_next := Suc (cdb_next db)\<rparr>)"
proof -
  have fresh: "uuid (cdb_next db) \<notin> as_id ` set (cdb_steps db)"
    using assms not_drawn [of uuid "cdb_next db" "cdb_next db"] by (force simp: case_inv_def)
  then show ?thesis
    using assms drawn_new by (auto simp: case_inv_def unique_on_def drawn_Suc)
qed

lemma case_inv_later: "case_inv uuid db \<Longrightarrow> case_inv uuid (db\<lparr>cdb_next := Suc (cdb_next db)\<rparr>)"
  by (auto simp: case_inv_def drawn_Suc)

lemma case_inv_decisions: "case_inv uuid (db\<lparr>cdb_decisions := ds\<rparr>) = case_inv uuid db"
  by (simp add: case_inv_def)

lemma add_step_decision_inv:
  assumes "case_inv uuid db" and "drawn uuid (cdb_next db) (as_case step)"
  shows "case_inv uuid (add_step_decision uuid step decision db)"
  using case_inv_later [OF add_step_inv [OF assms]]
  by (simp add: add_step_decision_def Let_def case_inv_def)

lemma clear_steps_inv: "case_inv uuid db \<Longrightarrow> case_inv uuid (clear_steps cid db)"
  by (auto simp: case_inv_def clear_steps_def Let_def unique_on_def distinct_map inj_on_def)

section \<open>Audited steps stay\<close>

definition keeps_audited :: "case_db \<Rightarrow> case_db \<Rightarrow> bool" where
  "keeps_audited db db' \<longleftrightarrow>
     (\<forall>s \<in> set (cdb_steps db). audited_step s \<longrightarrow> s \<in> set (cdb_steps db') \<and>
        (\<forall>d \<in> set (cdb_decisions db). ad_step d = as_id s \<longrightarrow> d \<in> set (cdb_decisions db')))"

lemma keeps_more:
  "set (cdb_steps db) \<subseteq> set (cdb_steps db') \<Longrightarrow> set (cdb_decisions db) \<subseteq> set (cdb_decisions db') \<Longrightarrow>
   keeps_audited db db'"
  by (auto simp: keeps_audited_def)

lemma keeps_trans: "keeps_audited a b \<Longrightarrow> keeps_audited b c \<Longrightarrow> keeps_audited a c"
  unfolding keeps_audited_def by meson

lemma keeps_ready: "row_ready uuid db found c db1 \<Longrightarrow> keeps_audited db db1"
  by (rule keeps_more) (simp_all add: row_ready_def)

lemma keeps_add_step_decision: "keeps_audited db (add_step_decision uuid step decision db)"
  by (rule keeps_more) (auto simp: add_step_decision_def Let_def)

lemma keeps_clear_steps:
  assumes "case_inv uuid db" and "\<not> list_ex audited_step (steps_of db cid)"
  shows "keeps_audited db (clear_steps cid db)"
  unfolding keeps_audited_def
proof (intro ballI impI conjI)
  fix s
  assume s: "s \<in> set (cdb_steps db)" "audited_step s"
  then have other: "as_case s \<noteq> cid"
    using assms(2) by (auto simp: list_ex_iff steps_of_def)
  then show "s \<in> set (cdb_steps (clear_steps cid db))"
    using s(1) by (simp add: clear_steps_def Let_def)
  fix d
  assume d: "d \<in> set (cdb_decisions db)" "ad_step d = as_id s"
  have "as_id s \<noteq> as_id t" if "t \<in> set (steps_of db cid)" for t
    using that other s(1) assms(1)
    by (auto simp: steps_of_def case_inv_def unique_on_def distinct_map inj_on_def)
  then show "d \<in> set (cdb_decisions (clear_steps cid db))"
    using d by (auto simp: clear_steps_def Let_def)
qed

text \<open>Rebuilding the projection of a case none of whose steps is audited.\<close>

lemma rebuild_ok:
  assumes "row_ready uuid db found c db1"
    and "\<And>c0. found = Some c0 \<Longrightarrow> \<not> list_ex audited_step (steps_of db (ac_id c0))"
    and "db3 = (let db2 = clear_steps (ac_id c) db1; step = projected_step (ac_id c) code status
            in if approval = []
               then db2\<lparr>cdb_steps := cdb_steps db2 @ [step\<lparr>as_id := uuid (cdb_next db2)\<rparr>],
                        cdb_next := Suc (cdb_next db2)\<rparr>
               else add_step_decision uuid step (projected_decision now status approval) db2)"
  shows "case_inv uuid db3 \<and> keeps_audited db db3"
proof -
  let ?db2 = "clear_steps (ac_id c) db1"
  have inv1: "case_inv uuid db1" and drawn: "drawn uuid (cdb_next ?db2) (as_case (projected_step (ac_id c) code status))"
    using assms(1) by (simp_all add: row_ready_def projected_step_def bare_step_def clear_steps_def Let_def)
  have "\<not> list_ex audited_step (steps_of db1 (ac_id c))"
    using assms(1,2) by (cases found) (auto simp: row_ready_def steps_of_def)
  then have "keeps_audited db ?db2"
    using keeps_trans [OF keeps_ready [OF assms(1)] keeps_clear_steps [OF inv1]] by blast
  moreover have "keeps_audited ?db2 db3"
    using keeps_add_step_decision
    by (auto simp: assms(3) Let_def intro: keeps_more)
  moreover have "case_inv uuid db3"
    using add_step_inv [OF clear_steps_inv [OF inv1] drawn]
      add_step_decision_inv [OF clear_steps_inv [OF inv1] drawn]
    by (simp add: assms(3) Let_def)
  ultimately show ?thesis using keeps_trans by blast
qed

lemma cases_of_mem: "c \<in> set (cases_of db tenant code) \<Longrightarrow> c \<in> set (cdb_cases db)"
  by (simp add: cases_of_def)

lemma mirror_step:
  assumes "case_inv uuid db"
  shows "case_inv uuid (upsert_from_request_and_approval uuid now tenant code status approval db) \<and>
         keeps_audited db (upsert_from_request_and_approval uuid now tenant code status approval db)"
proof (cases "cases_of db tenant code")
  case Nil
  obtain c db1 where put: "put_case uuid None (\<lambda>i. new_case i tenant code status 1 (JObj approval))
      (\<lambda>c. c) db = (c, db1)"
    by fastforce
  have "row_ready uuid db None c db1"
    by (rule put_case_ready [OF assms put]) (simp_all add: new_case_def)
  from rebuild_ok [OF this _ refl] show ?thesis
    by (simp add: upsert_from_request_and_approval_def Nil put)
next
  case (Cons c0 cs)
  have mem: "c0 \<in> set (cdb_cases db)" using Cons cases_of_mem [of c0 db tenant code] by simp
  show ?thesis
  proof (cases "list_ex audited_step (steps_of db (ac_id c0))")
    case True
    obtain c db1 where put: "put_case uuid (Some c0) (\<lambda>i. c0)
        (\<lambda>c. c\<lparr>ac_status := status, ac_decision := JObj approval\<rparr>) db = (c, db1)"
      by fastforce
    have ready: "row_ready uuid db (Some c0) c db1"
      using put_case_ready [OF assms, of "Some c0" "\<lambda>i. c0\<lparr>ac_id := i\<rparr>"] put mem
      by (simp add: put_case_def)
    show ?thesis
      using True put ready keeps_ready [OF ready]
      by (simp add: upsert_from_request_and_approval_def Cons row_ready_def)
  next
    case False
    obtain c db1 where put: "put_case uuid (Some c0) (\<lambda>i. c0)
        (\<lambda>c. c\<lparr>ac_status := status, ac_step := current_step_no status, ac_decision := JObj approval\<rparr>) db
        = (c, db1)"
      by fastforce
    have "row_ready uuid db (Some c0) c db1"
      using put_case_ready [OF assms, of "Some c0" "\<lambda>i. c0\<lparr>ac_id := i\<rparr>"] put mem
      by (simp add: put_case_def)
    from rebuild_ok [OF this _ refl] False show ?thesis
      by (simp add: upsert_from_request_and_approval_def Cons put)
  qed
qed

lemma get_case_row_SomeD: "get_case_row db tenant code = Inr (Some c) \<Longrightarrow> c \<in> set (cdb_cases db)"
  by (auto simp: get_case_row_def one_or_none_def split: list.splits
      intro: cases_of_mem [of c db tenant code])

lemma keeps_refl: "keeps_audited db db"
  by (simp add: keeps_audited_def)

lemma write_case_step_ok:
  assumes "case_inv uuid db" and "get_case_row db tenant code = Inr found"
    and "\<And>i. ac_id (fresh i) = i" and "\<And>x. ac_id (changed x) = ac_id x"
    and "\<And>c. as_case (step c) = ac_id c"
  shows "case_inv uuid (write_case_step uuid found fresh changed step decision db) \<and>
         keeps_audited db (write_case_step uuid found fresh changed step decision db)"
proof -
  obtain c db1 where put: "put_case uuid found fresh changed db = (c, db1)"
    by fastforce
  have ready: "row_ready uuid db found c db1"
    by (rule put_case_ready [OF assms(1) put])
      (use assms get_case_row_SomeD in auto)
  then have "case_inv uuid (add_step_decision uuid (step c) decision db1)"
    by (intro add_step_decision_inv) (simp_all add: row_ready_def assms(5))
  then show ?thesis
    using keeps_trans [OF keeps_ready [OF ready] keeps_add_step_decision]
    by (simp add: write_case_step_def put)
qed

lemma lifecycle_op:
  "case_inv uuid db \<Longrightarrow> upsert_lifecycle uuid now tenant code a db = Inr db' \<Longrightarrow>
   case_inv uuid db' \<and> keeps_audited db db'"
  unfolding upsert_lifecycle_def bindE_Inr_iff
  by (elim exE conjE) (auto simp: write_case_step_ok new_case_def lifecycle_step_def bare_step_def
      keeps_refl split: if_splits)

lemma review_op:
  "case_inv uuid db \<Longrightarrow> append_application_review_decision uuid now tenant code a db = Inr db' \<Longrightarrow>
   case_inv uuid db' \<and> keeps_audited db db'"
  unfolding append_application_review_decision_def bindE_Inr_iff
  by (elim exE conjE) (auto simp: write_case_step_ok new_case_def review_step_def bare_step_def)

lemma conditional_op:
  "case_inv uuid db \<Longrightarrow> append_conditional_step uuid now tenant code a db = Inr db' \<Longrightarrow>
   case_inv uuid db' \<and> keeps_audited db db'"
  unfolding append_conditional_step_def bindE_Inr_iff
  by (elim exE conjE) (auto simp: write_case_step_ok new_case_def conditional_step_def bare_step_def)

lemma case_step_ok:
  "case_inv uuid db \<Longrightarrow> case_step uuid db op = Inr db' \<Longrightarrow> case_inv uuid db' \<and> keeps_audited db db'"
  by (cases op) (auto simp: mirror_step dest: lifecycle_op review_op conditional_op)

text \<open>The audited steps, and the decisions on them, as records that are never lost.\<close>

definition audited_log :: "case_db \<Rightarrow> (step_row + decision_row) set" where
  "audited_log db =
     Inl ` {s \<in> set (cdb_steps db). audited_step s} \<union>
     Inr ` {d \<in> set (cdb_decisions db). \<exists>s \<in> set (cdb_steps db). audited_step s \<and> ad_step d = as_id s}"

lemma in_audited_log:
  "Inl s \<in> audited_log db \<longleftrightarrow> s \<in> set (cdb_steps db) \<and> audited_step s"
  "Inr d \<in> audited_log db \<longleftrightarrow> d \<in> set (cdb_decisions db) \<and>
     (\<exists>s \<in> set (cdb_steps db). audited_step s \<and> ad_step d = as_id s)"
  by (auto simp: audited_log_def)

lemma keeps_audited_log: "keeps_audited db db' \<Longrightarrow> audited_log db \<subseteq> audited_log db'"
proof
  fix x
  assume "keeps_audited db db'" "x \<in> audited_log db"
  then show "x \<in> audited_log db'"
    by (cases x) (force simp: keeps_audited_def in_audited_log)+
qed

interpretation case_log: append_only "case_step uuid" "case_inv uuid" audited_log
  by unfold_locales (use case_step_ok keeps_audited_log in blast)+

section \<open>Properties\<close>

definition sample_conditional :: conditional_args where
  "sample_conditional =
     \<lparr>cn_mode = ''single'', cn_name = ''a'', cn_step_status = ''completed'', cn_decision = ''approved'',
      cn_reason = [], cn_actor = ''u'', cn_role = ''ROLE_BUSIAUDIT'', cn_scope = [], cn_skill = ''s'',
      cn_audit = ''x1'', cn_status = ''dept_approved''\<rparr>"

definition sample_review :: review_args where
  "sample_review =
     \<lparr>rv_decision = ''approve'', rv_reason = [], rv_evidence = [], rv_actor = ''u'', rv_skill = ''s'',
      rv_audit = ''x0'', rv_status = ''pending''\<rparr>"

lemma empty_case_inv: "inj uuid \<Longrightarrow> case_inv uuid empty_case_db"
  by (simp add: case_inv_def empty_case_db_def unique_on_def)

text \<open>C9: a step that carries an audit id, and the decisions on it, survive every later write of
  the repository, the projection of request cards included.\<close>

theorem audited_steps_survive:
  assumes "case_inv uuid db" and "s \<in> set (cdb_steps db)" and "audited_step s"
  shows "s \<in> set (cdb_steps (run_ops (case_step uuid) db ops)) \<and>
    (\<forall>d \<in> set (cdb_decisions db). ad_step d = as_id s \<longrightarrow>
       d \<in> set (cdb_decisions (run_ops (case_step uuid) db ops)))"
proof -
  have "Inl s \<in> audited_log db"
    using assms(2,3) by (simp add: in_audited_log)
  from case_log.log_kept [OF assms(1) this] have "s \<in> set (cdb_steps (run_ops (case_step uuid) db ops))"
    by (simp add: in_audited_log)
  moreover have "d \<in> set (cdb_decisions (run_ops (case_step uuid) db ops))"
    if "d \<in> set (cdb_decisions db)" "ad_step d = as_id s" for d
  proof -
    have "Inr d \<in> audited_log db"
      using assms(2,3) that by (auto simp: in_audited_log)
    from case_log.log_kept [OF assms(1) this] show ?thesis
      by (simp add: in_audited_log)
  qed
  ultimately show ?thesis by blast
qed

definition audited_db :: case_db where
  "audited_db =
     \<lparr>cdb_cases = [], cdb_steps = [(conditional_step 0 ''c'' sample_conditional
          (new_case [] ''t'' ''c'' ''dept_approved'' 1 (JObj [])))],
      cdb_decisions = [conditional_decision 0 sample_conditional []], cdb_next = 1\<rparr>"

lemma audited_db_inv: "case_inv (\<lambda>n. replicate n CHR ''x'') audited_db"
  by (simp add: case_inv_def audited_db_def unique_on_def drawn_def conditional_step_def bare_step_def
      new_case_def inj_def)

lemma audited_sample: "audited_step (conditional_step 0 ''c'' sample_conditional
          (new_case [] ''t'' ''c'' ''dept_approved'' 1 (JObj [])))"
  by (simp add: audited_step_def conditional_step_def bare_step_def conditional_scope_def
      sample_conditional_def dmerge_def dget_def)

theorem audited_steps_survive_witness:
  "conditional_step 0 ''c'' sample_conditional (new_case [] ''t'' ''c'' ''dept_approved'' 1 (JObj []))
     \<in> set (cdb_steps (run_ops (case_step (\<lambda>n. replicate n CHR ''x'')) audited_db
          [CaseMirror 1 ''t'' ''c'' ''granted'' [], CaseReview 2 ''t'' ''c'' sample_review]))"
  by (rule audited_steps_survive [OF audited_db_inv _ audited_sample, THEN conjunct1])
    (simp add: audited_db_def)

text \<open>A conditional step is numbered after the steps the case has; the case takes its status
  and number, everything stored before stays, and exactly one step and one decision are added.\<close>

lemma append_conditional_step_adds_one:
  assumes "get_case_row db tenant code = Inr (Some c)"
  shows "\<exists>db' s d. append_conditional_step uuid now tenant code a db = Inr db' \<and>
    cdb_steps db' = cdb_steps db @ [s] \<and> cdb_decisions db' = cdb_decisions db @ [d] \<and>
    as_case s = ac_id c \<and> as_no s = int (length (steps_of db (ac_id c))) + 1 \<and> ad_step d = as_id s \<and>
    cdb_cases db' = put_row ac_id (c\<lparr>ac_status := cn_status a, ac_step := as_no s\<rparr>) (cdb_cases db)"
  by (simp add: append_conditional_step_def assms write_case_step_def put_case_def add_step_decision_def
      Let_def conditional_step_def bare_step_def next_step_no_def)

text \<open>the two appending writers number steps differently: a review starts at 2, a conditional
  step counts the steps there are. A case reviewed first and then approved conditionally holds two
  steps with the number 2 and none with the number 1.\<close>

lemma step_numbers_collide:
  assumes "get_case_row db tenant code = Inr None" and "case_inv uuid db"
  shows "\<exists>db1 db2 c. append_application_review_decision uuid now tenant code r db = Inr db1 \<and>
    append_conditional_step uuid now tenant code a db1 = Inr db2 \<and>
    get_case_row db1 tenant code = Inr (Some c) \<and> map as_no (steps_of db2 (ac_id c)) = [2, 2]"
proof -
  let ?n = "cdb_next db"
  let ?c = "new_case (uuid ?n) tenant code (rv_status r) 2 (review_payload r)"
  have none: "cases_of db tenant code = []"
    using assms(1) by (auto simp: get_case_row_def one_or_none_def split: list.splits)
  have fresh: "steps_of db (uuid ?n) = []"
    using assms(2) not_drawn [of uuid ?n ?n] by (auto simp: case_inv_def steps_of_def filter_empty_conv)
  obtain db1 where db1: "append_application_review_decision uuid now tenant code r db = Inr db1"
      "cdb_cases db1 = cdb_cases db @ [?c]"
      "\<exists>s. cdb_steps db1 = cdb_steps db @ [s] \<and> as_case s = uuid ?n \<and> as_no s = 2"
    using assms(1)
    by (simp add: append_application_review_decision_def write_case_step_def put_case_def Let_def
        add_step_decision_def review_step_def bare_step_def new_case_def)
  have found: "get_case_row db1 tenant code = Inr (Some ?c)"
    using none by (simp add: get_case_row_def cases_of_def db1(2) one_or_none_def new_case_def)
  have steps1: "map as_no (steps_of db1 (uuid ?n)) = [2]"
    using db1(3) fresh by (auto simp: steps_of_def)
  obtain db2 s where db2: "append_conditional_step uuid now tenant code a db1 = Inr db2"
      "cdb_steps db2 = cdb_steps db1 @ [s]" "as_case s = uuid ?n"
      "as_no s = int (length (steps_of db1 (uuid ?n))) + 1"
    by (simp add: append_conditional_step_def found write_case_step_def put_case_def Let_def
        add_step_decision_def conditional_step_def bare_step_def next_step_no_def new_case_def)
  have "length (steps_of db1 (uuid ?n)) = 1"
    using steps1 by (metis length_map length_Cons list.size(3) One_nat_def)
  then have "map as_no (steps_of db2 (uuid ?n)) = [2, 2]"
    using db2 steps1 by (simp add: steps_of_def)
  then show ?thesis
    using db1(1) db2(1) found by (intro exI [of _ db1] exI [of _ db2] exI [of _ ?c]) (simp add: new_case_def)
qed

end
