(* ===== verification/Permissions.thy ===== *)
theory Permissions
  imports Labels
begin

text \<open>
  The role codes (\<^verbatim>\<open>domain/role_codes.py\<close>) and the permission table of
  \<^verbatim>\<open>domain/policy.py\<close>, in the order of the source. A set of roles is a list without
  repetitions.
\<close>

section \<open>Role codes\<close>

definition role_operater :: string where "role_operater = ''ROLE_ORGAN_OPERATER''"

definition role_manager :: string where "role_manager = ''ROLE_ORGAN_MANAGER''"

definition role_busiaudit :: string where "role_busiaudit = ''ROLE_BUSIAUDIT''"

definition role_security_audit :: string where "role_security_audit = ''ROLE_SECURITY_AUDIT''"

definition role_system :: string where "role_system = ''ROLE_SYSTEM''"

definition role_admin :: string where "role_admin = ''admin''"

definition role_internal :: string where "role_internal = ''system''"

lemmas role_codes =
  role_operater_def role_manager_def role_busiaudit_def role_security_audit_def role_system_def
  role_admin_def role_internal_def

lemma role_codes_distinct:
  "distinct [role_operater, role_manager, role_busiaudit, role_security_audit, role_system,
     role_admin, role_internal]"
  by (simp add: role_codes)

lemmas role_neq [simp] = role_codes_distinct [simplified]

definition business_role_codes :: "string list" where
  "business_role_codes =
     [role_operater, role_manager, role_busiaudit, role_security_audit, role_system]"

definition system_role_codes :: "string list" where
  "system_role_codes = [role_admin, role_internal]"

definition all_role_codes :: "string list" where
  "all_role_codes = business_role_codes @ system_role_codes"

definition role_display_names :: "(string \<times> string) list" where
  "role_display_names =
     [(role_operater, lbl_r_operater), (role_manager, lbl_r_manager),
      (role_busiaudit, lbl_r_busiaudit), (role_security_audit, lbl_r_security_audit),
      (role_system, lbl_r_system), (role_admin, lbl_r_admin), (role_internal, lbl_r_internal)]"

definition role_hierarchy :: "(string \<times> string list) list" where
  "role_hierarchy = [(role_manager, [role_operater])]"

definition legacy_role_codes :: "string list" where
  "legacy_role_codes = [''r1'', ''r2'', ''r3'', ''r4'', ''r5'', ''r6'', ''r7'', ''r8'']"

section \<open>The permission table\<close>

definition permission_roles_1 :: "(string \<times> string list) list" where
  "permission_roles_1 =
     [(''workbench.view.execute'', [role_operater, role_manager, role_busiaudit, role_security_audit, role_system, role_admin]),
      (''system.snapshot.execute'', [role_operater, role_manager, role_busiaudit, role_security_audit, role_system, role_admin]),
      (''system.schema_info.execute'', [role_operater, role_manager, role_busiaudit, role_security_audit, role_system, role_admin]),
      (''data.search.execute'', [role_operater, role_manager, role_busiaudit]),
      (''search.intent.parse.execute'', [role_operater, role_manager, role_busiaudit]),
      (''platform.docs.search.execute'', [role_operater, role_manager, role_busiaudit, role_security_audit, role_system]),
      (''platform.docs.read.execute'', [role_operater, role_manager, role_busiaudit, role_security_audit, role_system]),
      (''application.draft.suggest.execute'', [role_operater, role_manager]),
      (''approval.evidence.summarize.execute'', [role_manager, role_busiaudit, role_security_audit]),
      (''delivery.status.explain.execute'', [role_operater, role_manager]),
      (''catalog.resource_view.execute'', [role_operater, role_manager, role_busiaudit]),
      (''catalog.resource.list.execute'', [role_operater, role_manager, role_busiaudit]),
      (''request.list.execute'', [role_operater, role_manager]),
      (''request.view.execute'', [role_operater, role_manager]),
      (''approval.view.execute'', [role_manager, role_busiaudit]),
      (''delivery.list.execute'', [role_operater, role_manager]),
      (''delivery.view.execute'', [role_operater, role_manager]),
      (''provider.view.execute'', [role_manager, role_busiaudit]),
      (''governance.dispute_list.execute'', [role_manager, role_busiaudit, role_security_audit]),
      (''governance.dispute_view.execute'', [role_manager, role_busiaudit, role_security_audit]),
      (''governance.iam_overview.execute'', [role_system]),
      (''governance.policy_candidate.list.execute'', [role_system]),
      (''governance.policy_candidate.review.execute'', [role_system]),
      (''governance.actor.list.execute'', [role_system]),
      (''governance.access_matrix.execute'', [role_system]),
      (''governance.actor.role.assign.execute'', [role_system]),
      (''governance.actor.role.revoke.execute'', [role_system]),
      (''governance.actor.status.set.execute'', [role_system]),
      (''audit.replay_evidence_chain.execute'', [role_busiaudit, role_security_audit]),
      (''audit.list.execute'', [role_busiaudit, role_security_audit]),
      (''projection.status.query.execute'', [role_manager, role_busiaudit, role_security_audit]),
      (''audit.event.query.execute'', [role_security_audit, role_busiaudit]),
      (''audit.event.replay.execute'', [role_security_audit, role_busiaudit]),
      (''audit.event.statistics.execute'', [role_security_audit, role_busiaudit]),
      (''audit.event.anomaly.execute'', [role_security_audit, role_busiaudit]),
      (''audit.event.accountability.execute'', [role_security_audit, role_busiaudit]),
      (''assistant.investigation_summary.execute'', [role_security_audit, role_busiaudit]),
      (''zone.list.execute'', [role_operater, role_manager, role_busiaudit, role_security_audit]),
      (''zone.view.execute'', [role_operater, role_manager, role_busiaudit, role_security_audit]),
      (''package.list.execute'', [role_system]),
      (''package.view.execute'', [role_system]),
      (''package.rollback.execute'', [role_system]),
      (''package.exposure.matrix.query.execute'', [role_security_audit, role_system]),
      (''package.trust_level.update.execute'', [role_system]),
      (''request.create.execute'', [role_operater, role_manager]),
      (''request.submit.execute'', [role_operater, role_manager]),
      (''request.field.update.execute'', [role_operater]),
      (''request.draft.ai_suggest.execute'', [role_operater]),
      (''reference.organ.options.execute'', [role_operater, role_manager, role_busiaudit, role_security_audit]),
      (''reference.region.options.execute'', [role_operater, role_manager, role_busiaudit, role_security_audit]),
      (''reference.dict.options.execute'', [role_operater, role_manager, role_busiaudit, role_security_audit]),
      (''approval.case.decide.execute'', [role_busiaudit]),
      (''approval.review_decide.execute'', [role_busiaudit]),
      (''supplement.submit.execute'', [role_operater]),
      (''summary.confirm.execute'', [role_manager]),
      (''backflow.confirm.execute'', [role_manager]),
      (''delivery.reconcile_receipt.execute'', [role_operater, role_manager]),
      (''delivery.file.download.execute'', [role_operater, role_manager]),
      (''delivery.trigger_recovery.execute'', [role_manager]),
      (''service.publish_or_suspend.execute'', [role_manager]),
      (''ops.gateway.heartbeat.ingest.execute'', [role_system]),
      (''ops.gateway.log.anchor.execute'', [role_system])]"

definition permission_roles_2 :: "(string \<times> string list) list" where
  "permission_roles_2 =
     [(''ops.service.invocation.query.execute'', [role_manager, role_busiaudit, role_system]),
      (''ops.service.report.query.execute'', [role_busiaudit, role_system]),
      (''resource.api.register.execute'', [role_operater, role_manager]),
      (''resource.api.change.execute'', [role_operater, role_manager]),
      (''resource.api.submit_review.execute'', [role_operater, role_manager]),
      (''resource.api.review.execute'', [role_manager]),
      (''resource.api.publish.execute'', [role_manager]),
      (''resource.api.withdraw.execute'', [role_manager]),
      (''resource.api.revoke.execute'', [role_manager]),
      (''resource.api.test.execute'', [role_operater, role_manager]),
      (''resource.api.policy.update.execute'', [role_manager]),
      (''catalog.group.query.execute'', [role_operater, role_manager, role_busiaudit, role_security_audit]),
      (''catalog.share_zone.query.execute'', [role_operater, role_manager, role_busiaudit, role_security_audit]),
      (''catalog.model.query.execute'', [role_operater, role_manager, role_busiaudit, role_security_audit]),
      (''catalog.model.field.query.execute'', [role_operater, role_manager, role_busiaudit, role_security_audit]),
      (''catalog.entry.query.execute'', [role_operater, role_manager, role_busiaudit, role_security_audit]),
      (''catalog.browse.execute'', [role_operater, role_manager, role_busiaudit, role_security_audit]),
      (''catalog.entry.create.execute'', [role_operater]),
      (''catalog.entry.update.execute'', [role_operater]),
      (''catalog.entry.create_draft.execute'', [role_operater]),
      (''catalog.entry.submit_review.execute'', [role_operater]),
      (''catalog.entry.review.execute'', [role_manager, role_busiaudit]),
      (''catalog.entry.publish.execute'', [role_busiaudit]),
      (''catalog.entry.withdraw.execute'', [role_manager, role_busiaudit]),
      (''catalog.resource.bind.execute'', [role_operater]),
      (''catalog.duplicate.check.execute'', [role_operater, role_manager, role_busiaudit]),
      (''resource.asset.query.execute'', [role_operater, role_manager, role_busiaudit, role_security_audit]),
      (''resource.asset.submit_review.execute'', [role_operater]),
      (''resource.mount.table.prepare.execute'', [role_operater]),
      (''resource.mount.file.prepare.execute'', [role_operater]),
      (''resource.asset.review.execute'', [role_manager]),
      (''resource.asset.publish.execute'', [role_busiaudit]),
      (''application.resource.submit.execute'', [role_operater]),
      (''application.resource.review.execute'', [role_busiaudit]),
      (''application.dept_approve.execute'', [role_manager, role_operater]),
      (''application.platform_approve.execute'', [role_busiaudit]),
      (''delivery.access.grant.execute'', [role_manager]),
      (''credential.issue.execute'', [role_manager, role_busiaudit]),
      (''credential.query.execute'', [role_operater, role_manager, role_busiaudit]),
      (''credential.sample.render.execute'', [role_operater]),
      (''metadata.schema.query.execute'', [role_manager, role_busiaudit, role_security_audit]),
      (''metadata.catalog_item.query.execute'', [role_manager, role_busiaudit, role_security_audit]),
      (''metadata.lineage.query.execute'', [role_manager, role_busiaudit, role_security_audit]),
      (''metadata.gather.evidence.query.execute'', [role_manager, role_busiaudit, role_security_audit]),
      (''ops.catalog.statistics.query.execute'', [role_manager, role_busiaudit, role_security_audit]),
      (''ops.catalog.quality.query.execute'', [role_manager, role_busiaudit, role_security_audit]),
      (''catalog.manage_entry.execute'', [role_operater]),
      (''catalog.model.upsert.execute'', [role_operater]),
      (''catalog.schema.mapping.upsert.execute'', [role_operater]),
      (''metadata.schema.snapshot.upsert.execute'', [role_operater]),
      (''metadata.gather.evidence.upsert.execute'', [role_operater]),
      (''metadata.lineage.upsert.execute'', [role_operater]),
      (''ops.catalog.quality.upsert.execute'', [role_operater]),
      (''resource.manage_asset.execute'', [role_operater])]"

definition permission_roles_3 :: "(string \<times> string list) list" where
  "permission_roles_3 =
     [(''package.review_decide.execute'', [role_system]),
      (''capability.package.register.execute'', [role_system]),
      (''capability.version.submit.execute'', [role_system]),
      (''capability.version.review.execute'', [role_system]),
      (''capability.exposure.configure.execute'', [role_system]),
      (''tenant.capability.enable.execute'', [role_system]),
      (''tenant.capability.disable.execute'', [role_system]),
      (''registry.artifact.export.execute'', [role_system, role_security_audit]),
      (''package.register_version.execute'', [role_system]),
      (''package.apply_tenant_policy.execute'', [role_system]),
      (''package.configure_exposure.execute'', [role_system]),
      (''approval_flow.schema.commit.execute'', [role_system]),
      (''approval_flow.nl_draft.execute'', [role_system]),
      (''approval_flow.schema.promote_to_preview.execute'', [role_system]),
      (''approval_flow.schema.revert_to_draft.execute'', [role_system]),
      (''form_schema.commit.execute'', [role_system]),
      (''form_schema.nl_draft.execute'', [role_system]),
      (''form_schema.promote_to_preview.execute'', [role_system]),
      (''form_schema.revert_to_draft.execute'', [role_system]),
      (''recommendation.rule.commit.execute'', [role_system]),
      (''recommendation.similar_catalog.suggest.execute'', [role_operater, role_manager, role_busiaudit]),
      (''compliance.case.query.execute'', [role_manager, role_busiaudit, role_security_audit]),
      (''compliance.metric.query.execute'', [role_manager, role_busiaudit, role_security_audit]),
      (''standard.asset.recommend.execute'', [role_manager, role_busiaudit, role_security_audit]),
      (''adapter.health.probe.execute'', [role_manager, role_busiaudit, role_security_audit]),
      (''objection.case.create.execute'', [role_operater, role_manager]),
      (''objection.case.submit.execute'', [role_operater, role_manager]),
      (''objection.case.accept.execute'', [role_manager, role_busiaudit]),
      (''objection.case.reject.execute'', [role_manager, role_busiaudit]),
      (''objection.case.assign.execute'', [role_manager, role_busiaudit]),
      (''objection.case.reply.execute'', [role_manager, role_busiaudit]),
      (''objection.case.review.execute'', [role_manager, role_busiaudit]),
      (''objection.case.evaluate.execute'', [role_operater, role_manager, role_busiaudit]),
      (''objection.case.escalate.execute'', [role_manager, role_busiaudit]),
      (''objection.case.close.execute'', [role_manager, role_busiaudit]),
      (''objection.case.query.execute'', [role_operater, role_manager, role_busiaudit, role_security_audit]),
      (''demand.register.execute'', [role_operater, role_manager]),
      (''demand.phase.advance.execute'', [role_operater, role_manager, role_busiaudit]),
      (''demand.list.execute'', [role_operater, role_manager, role_busiaudit]),
      (''objection.process.query.execute'', [role_operater, role_manager, role_busiaudit, role_security_audit]),
      (''objection.metric.query.execute'', [role_manager, role_busiaudit, role_security_audit]),
      (''adapter.national.catalog.pull.execute'', [role_manager, role_busiaudit]),
      (''adapter.national.resource.pull.execute'', [role_manager, role_busiaudit]),
      (''adapter.national.catalog.report.execute'', [role_manager, role_busiaudit]),
      (''adapter.national.resource.report.execute'', [role_manager, role_busiaudit]),
      (''adapter.national.application.submit.execute'', [role_manager, role_busiaudit]),
      (''adapter.national.application.receive.execute'', [role_manager, role_busiaudit]),
      (''adapter.national.application.reconcile.execute'', [role_manager, role_busiaudit]),
      (''adapter.national.delivery.receipt.sync.execute'', [role_manager, role_busiaudit]),
      (''adapter.national.objection.sync.execute'', [role_manager, role_busiaudit]),
      (''adapter.national.topic.report.execute'', [role_manager, role_busiaudit]),
      (''catalog.national_ext_elem.compile.execute'', [role_manager, role_busiaudit]),
      (''application.escalate_national.execute'', [role_busiaudit]),
      (''adapter.cascade.consume.execute'', [role_system]),
      (''adapter.cascade.replay.execute'', [role_system])]"

definition permission_roles_4 :: "(string \<times> string list) list" where
  "permission_roles_4 =
     [(''adapter.cascade.health.query.execute'', [role_system]),
      (''adapter.external.mapping.query.execute'', [role_system]),
      (''tenant.policy.evaluate.execute'', [role_manager, role_security_audit, role_system]),
      (''org.projection.sync.execute'', [role_busiaudit]),
      (''actor.projection.sync.execute'', [role_busiaudit, role_internal]),
      (''legacy.bsp.mapping.import.execute'', [role_busiaudit]),
      (''legacy.sharezone.mapping.import.execute'', [role_busiaudit]),
      (''legacy.migration.status.query.execute'', [role_admin, role_busiaudit, role_security_audit]),
      (''catalog.entry.reverse_draft.suggest.execute'', [role_operater, role_manager]),
      (''catalog.entry.reverse_draft.create.execute'', [role_operater, role_manager]),
      (''catalog.entry.reverse_draft.confirm.execute'', [role_manager]),
      (''catalog.entry.reverse_draft.reject.execute'', [role_manager]),
      (''metadata.schema.discover.execute'', [role_operater, role_manager, role_busiaudit]),
      (''datasource.endpoint.list.execute'', [role_operater, role_manager, role_busiaudit]),
      (''datasource.endpoint.upsert.execute'', [role_operater, role_manager]),
      (''datasource.endpoint.delete.execute'', [role_operater, role_manager]),
      (''datasource.connectivity.test.execute'', [role_operater, role_manager]),
      (''datasource.table.list.execute'', [role_operater, role_manager, role_busiaudit]),
      (''datasource.table.columns.execute'', [role_operater, role_manager, role_busiaudit]),
      (''direct_access.catalog.query.execute'', [role_manager, role_busiaudit, role_security_audit]),
      (''direct_access.delivery.list.execute'', [role_manager, role_security_audit]),
      (''require.resource.dispatch.execute'', [role_busiaudit]),
      (''require.task.handoff.execute'', [role_busiaudit]),
      (''delivery.replace_or_cancel.execute'', [role_manager]),
      (''subscription.terminate.execute'', [role_operater, role_manager]),
      (''delivery.receipt.ingest.execute'', [role_manager, role_busiaudit]),
      (''ops.exchange.statistics.query.execute'', [role_manager, role_busiaudit, role_security_audit]),
      (''ops.exchange.diagnose.execute'', [role_manager, role_busiaudit, role_security_audit]),
      (''delivery.exchange.plan.execute'', [role_manager, role_busiaudit]),
      (''delivery.exchange.start.execute'', [role_manager, role_busiaudit]),
      (''delivery.exchange.publish.execute'', [role_manager, role_busiaudit]),
      (''delivery.exchange.stop.execute'', [role_manager, role_busiaudit]),
      (''application.grant.approve.execute'', [role_manager]),
      (''application.grant.renew.execute'', [role_operater, role_manager]),
      (''application.grant.suspend.execute'', [role_busiaudit]),
      (''application.grant.revoke.execute'', [role_busiaudit, role_operater]),
      (''service.rating.submit.execute'', [role_operater]),
      (''ops.ticket.create.execute'', [role_system]),
      (''ops.ticket.close.execute'', [role_system]),
      (''ops.shift_handover.submit.execute'', [role_system]),
      (''require.intent.submit.execute'', [role_operater]),
      (''require.intent.refine.execute'', [role_operater]),
      (''require.intent.review.execute'', [role_manager]),
      (''require.resource.match.execute'', [role_manager, role_busiaudit, role_security_audit]),
      (''delivery.subscription.manage.execute'', [role_operater, role_manager]),
      (''system.toggle_outage.execute'', [role_system])]"

definition permission_roles :: "(string \<times> string list) list" where
  "permission_roles =
     permission_roles_1 @ permission_roles_2 @ permission_roles_3 @ permission_roles_4"

lemmas permission_table =
  permission_roles_def permission_roles_1_def permission_roles_2_def permission_roles_3_def
  permission_roles_4_def

end
