(* ===== verification/Policy.thy ===== *)
theory Policy
  imports Permissions ShareType "HOL-Library.List_Lexorder" "HOL-Library.Char_ord"
begin

text \<open>
  \<^verbatim>\<open>domain/policy.py\<close>: resolution of roles, the permissions a role has through the role
  hierarchy, the check of a capability's manifest, and the two guards of the conditional
  approval. The tenant of the runtime, an environment setting, is an argument.
\<close>

section \<open>Roles\<close>

datatype policy_error =
    UnknownRole string
  | TenantViolation string json
  | LacksPermissions string string "string list"
  | SelfApprovalNotAllowed
  | ApprovalDirection string string
  | PolicyPy py_error

definition actor_names :: "(string \<times> string) list" where
  "actor_names = role_display_names"

definition known_role :: "string \<Rightarrow> bool" where
  "known_role role \<longleftrightarrow> map_of actor_names role \<noteq> None"

definition resolve_role :: "json \<Rightarrow> string \<Rightarrow> policy_error + string" where
  "resolve_role payload_role fallback_role =
     (let role = py_str (py_or payload_role (JStr fallback_role))
      in if known_role role then Inr role else Inl (UnknownRole role))"

definition filter_product_role_codes :: "json list \<Rightarrow> string list" where
  "filter_product_role_codes codes = filter known_role (map py_str codes)"

definition actor_for_role :: "string \<Rightarrow> policy_error + string" where
  "actor_for_role role =
     (case map_of actor_names role of
        None \<Rightarrow> Inl (UnknownRole role)
      | Some name \<Rightarrow> Inr (''user:gov:'' @ role @ '':'' @ name))"

definition tenant_for_role :: "string \<Rightarrow> string \<Rightarrow> policy_error + string" where
  "tenant_for_role tenant role =
     (if known_role role then Inr tenant else Inl (UnknownRole role))"

definition inherited_roles :: "string \<Rightarrow> string list" where
  "inherited_roles role = (case map_of role_hierarchy role of None \<Rightarrow> [] | Some rs \<Rightarrow> rs)"

text \<open>The hierarchy has one level, which bounds the recursion.\<close>

function expand_with_hierarchy :: "string \<Rightarrow> string list" where
  "expand_with_hierarchy role =
     role # concat (map (\<lambda>r. r # expand_with_hierarchy r) (inherited_roles role))"
  by auto

termination expand_with_hierarchy
  by (relation "measure (\<lambda>role. if role = role_manager then 1 else 0)")
    (auto simp: inherited_roles_def role_hierarchy_def split: if_splits)

declare expand_with_hierarchy.simps [simp del]

definition role_permissions :: "string \<Rightarrow> string list" where
  "role_permissions role =
     map fst (filter (\<lambda>(p, roles). \<exists>r \<in> set roles. r \<in> set (expand_with_hierarchy role)) permission_roles)"

definition permissions_for_role :: "string \<Rightarrow> policy_error + string list" where
  "permissions_for_role role =
     (if known_role role then Inr (role_permissions role) else Inl (UnknownRole role))"

text \<open>\<^verbatim>\<open>assert_no_legacy_role_codes\<close>, as the list of offenders it would report.\<close>

definition legacy_offenders :: "string list" where
  "legacy_offenders =
     filter (\<lambda>r. lower r \<in> set legacy_role_codes) (map fst actor_names) @
     concat (map (\<lambda>(p, roles). filter (\<lambda>r. lower r \<in> set legacy_role_codes) roles) permission_roles)"

section \<open>The check of a manifest\<close>

text \<open>\<^verbatim>\<open>set(manifest.get("permissions", []))\<close> raises on an unhashable entry. An entry that is
  no string is never granted, and naming it in the message raises \<^verbatim>\<open>TypeError\<close>.\<close>

definition required_permissions :: "dict \<Rightarrow> py_error + json list" where
  "required_permissions manifest =
     bindE (py_iter (dget_or manifest ''permissions'' (JList []))) (\<lambda>xs.
       if list_all hashable xs then Inr (remdups (map dict_key xs)) else Inl TypeError)"

definition missing_permissions :: "json list \<Rightarrow> string list \<Rightarrow> json list" where
  "missing_permissions required granted = filter (\<lambda>p. p \<notin> JStr ` set granted) required"

definition lack_error :: "string \<Rightarrow> string \<Rightarrow> json list \<Rightarrow> policy_error" where
  "lack_error role skill missing =
     (if list_all (\<lambda>x. case x of JStr _ \<Rightarrow> True | _ \<Rightarrow> False) missing
      then LacksPermissions role skill (sort (map py_str missing)) else PolicyPy TypeError)"

definition check_tenant :: "string \<Rightarrow> string \<Rightarrow> dict \<Rightarrow> string \<Rightarrow> dict \<Rightarrow> policy_error + unit" where
  "check_tenant tenant skill manifest role payload =
     (if dget manifest ''tenant_scope'' \<noteq> JStr ''tenant'' then Inr ()
      else bindE (case map_of payload ''tenant_id'' of
                    Some v \<Rightarrow> Inr v
                  | None \<Rightarrow> bindE (tenant_for_role tenant role) (\<lambda>t. Inr (JStr t))) (\<lambda>requested.
           bindE (tenant_for_role tenant role) (\<lambda>t.
             guardE (requested = JStr t) (TenantViolation skill requested))))"

definition enforce_manifest_policy ::
    "string \<Rightarrow> string \<Rightarrow> dict \<Rightarrow> string \<Rightarrow> dict \<Rightarrow> policy_error + unit" where
  "enforce_manifest_policy tenant skill manifest role payload =
     bindE (check_tenant tenant skill manifest role payload) (\<lambda>_.
     bindE (raiseE PolicyPy (required_permissions manifest)) (\<lambda>required.
       if required = [] then Inr ()
       else bindE (permissions_for_role role) (\<lambda>granted.
         let missing = missing_permissions required granted
         in guardE (missing = []) (lack_error role skill missing))))"

section \<open>Guards of the conditional approval\<close>

definition enforce_self_approval_guard :: "string \<Rightarrow> string \<Rightarrow> policy_error + unit" where
  "enforce_self_approval_guard applicant approver =
     guardE (\<not> (applicant \<noteq> [] \<and> approver \<noteq> [] \<and> applicant = approver)) SelfApprovalNotAllowed"

definition enforce_dept_approval_direction :: "string \<Rightarrow> string \<Rightarrow> policy_error + unit" where
  "enforce_dept_approval_direction owner actor =
     guardE (owner \<noteq> [] \<and> owner = actor) (ApprovalDirection owner actor)"

section \<open>Who may do what\<close>

lemma known_role_iff: "known_role r \<longleftrightarrow> r \<in> set all_role_codes"
  by (auto simp: known_role_def actor_names_def role_display_names_def all_role_codes_def
      business_role_codes_def system_role_codes_def)

lemma expand_manager: "set (expand_with_hierarchy role_manager) = {role_manager, role_operater}"
  by (subst expand_with_hierarchy.simps, simp add: inherited_roles_def role_hierarchy_def)
    (subst expand_with_hierarchy.simps, simp add: inherited_roles_def role_hierarchy_def)

lemma expand_other: "r \<noteq> role_manager \<Longrightarrow> set (expand_with_hierarchy r) = {r}"
  by (subst expand_with_hierarchy.simps) (simp add: inherited_roles_def role_hierarchy_def)

lemma in_role_permissions:
  "p \<in> set (role_permissions role) \<longleftrightarrow>
     (\<exists>roles r. (p, roles) \<in> set permission_roles \<and> r \<in> set roles \<and> r \<in> set (expand_with_hierarchy role))"
  by (force simp: role_permissions_def)

text \<open>C5: a capability call passes the policy check exactly when its tenant is the runtime's,
  in case the manifest asks for one, and every permission the manifest requires is granted,
  through the role hierarchy, to a known role; a manifest without permissions is open.\<close>

theorem enforce_manifest_policy_iff:
  assumes "required_permissions manifest = Inr required"
  shows "enforce_manifest_policy tenant skill manifest role payload = Inr () \<longleftrightarrow>
    (dget manifest ''tenant_scope'' = JStr ''tenant'' \<longrightarrow>
       known_role role \<and> (\<forall>v. map_of payload ''tenant_id'' = Some v \<longrightarrow> v = JStr tenant)) \<and>
    (required \<noteq> [] \<longrightarrow> known_role role) \<and>
    (\<forall>x \<in> set required. \<exists>p roles r. x = JStr p \<and> (p, roles) \<in> set permission_roles \<and> r \<in> set roles \<and>
       r \<in> set (expand_with_hierarchy role))"
proof -
  have tenant: "check_tenant tenant skill manifest role payload = Inr () \<longleftrightarrow>
      (dget manifest ''tenant_scope'' = JStr ''tenant'' \<longrightarrow>
       known_role role \<and> (\<forall>v. map_of payload ''tenant_id'' = Some v \<longrightarrow> v = JStr tenant))"
    by (auto simp: check_tenant_def tenant_for_role_def bindE_Inr_iff split: option.splits)
  have perms: "missing_permissions required (role_permissions role) = [] \<longleftrightarrow>
      (\<forall>x \<in> set required. \<exists>p roles r. x = JStr p \<and> (p, roles) \<in> set permission_roles \<and> r \<in> set roles \<and>
         r \<in> set (expand_with_hierarchy role))"
    unfolding missing_permissions_def filter_empty_conv image_iff Bex_def in_role_permissions by blast
  have "enforce_manifest_policy tenant skill manifest role payload = Inr () \<longleftrightarrow>
      check_tenant tenant skill manifest role payload = Inr () \<and>
      (required = [] \<or> known_role role \<and> missing_permissions required (role_permissions role) = [])"
    by (simp add: enforce_manifest_policy_def assms bindE_Inr_iff permissions_for_role_def Let_def)
  moreover have "required = [] \<Longrightarrow> missing_permissions required (role_permissions role) = []"
    by (simp add: missing_permissions_def)
  ultimately show ?thesis
    unfolding tenant perms by blast
qed

theorem enforce_manifest_policy_iff_witness:
  "enforce_manifest_policy ''sd-default'' ''x'' [(''tenant_scope'', JStr ''tenant'')] role_system [] = Inr ()"
proof -
  have "required_permissions [(''tenant_scope'', JStr ''tenant'')] = Inr []"
    by (simp add: required_permissions_def dget_or_def py_iter_def)
  then show ?thesis
    using enforce_manifest_policy_iff [of "[(''tenant_scope'', JStr ''tenant'')]" "[]" "''sd-default''" "''x''" role_system "[]"]
    by (simp add: known_role_iff all_role_codes_def business_role_codes_def)
qed

text \<open>The department manager has every permission of the department operator.\<close>

lemma manager_inherits_operater:
  "set (role_permissions role_operater) \<subseteq> set (role_permissions role_manager)"
proof
  fix p assume "p \<in> set (role_permissions role_operater)"
  then obtain roles where "(p, roles) \<in> set permission_roles" "role_operater \<in> set roles"
    using expand_other [of role_operater] by (auto simp: in_role_permissions)
  then show "p \<in> set (role_permissions role_manager)"
    unfolding in_role_permissions expand_manager by blast
qed

text \<open>Pairs of duties: the first prepares what the second decides or watches.\<close>

definition duty_pairs :: "(string \<times> string) list" where
  "duty_pairs =
     [(''catalog.entry.create.execute'', ''catalog.entry.publish.execute''),
      (''catalog.entry.submit_review.execute'', ''catalog.entry.publish.execute''),
      (''resource.asset.submit_review.execute'', ''resource.asset.publish.execute''),
      (''application.platform_approve.execute'', ''application.dept_approve.execute''),
      (''request.submit.execute'', ''approval.case.decide.execute''),
      (''application.resource.submit.execute'', ''application.resource.review.execute''),
      (''governance.actor.role.assign.execute'', ''audit.event.query.execute'')]"

lemma duty_roles:
  "(''catalog.entry.create.execute'', rs) \<in> set permission_roles \<Longrightarrow> rs = [role_operater]"
  "(''catalog.entry.publish.execute'', rs) \<in> set permission_roles \<Longrightarrow> rs = [role_busiaudit]"
  "(''catalog.entry.submit_review.execute'', rs) \<in> set permission_roles \<Longrightarrow> rs = [role_operater]"
  "(''resource.asset.submit_review.execute'', rs) \<in> set permission_roles \<Longrightarrow> rs = [role_operater]"
  "(''resource.asset.publish.execute'', rs) \<in> set permission_roles \<Longrightarrow> rs = [role_busiaudit]"
  "(''application.platform_approve.execute'', rs) \<in> set permission_roles \<Longrightarrow> rs = [role_busiaudit]"
  "(''application.dept_approve.execute'', rs) \<in> set permission_roles \<Longrightarrow> rs = [role_manager, role_operater]"
  "(''request.submit.execute'', rs) \<in> set permission_roles \<Longrightarrow> rs = [role_operater, role_manager]"
  "(''approval.case.decide.execute'', rs) \<in> set permission_roles \<Longrightarrow> rs = [role_busiaudit]"
  "(''application.resource.submit.execute'', rs) \<in> set permission_roles \<Longrightarrow> rs = [role_operater]"
  "(''application.resource.review.execute'', rs) \<in> set permission_roles \<Longrightarrow> rs = [role_busiaudit]"
  "(''governance.actor.role.assign.execute'', rs) \<in> set permission_roles \<Longrightarrow> rs = [role_system]"
  "(''audit.event.query.execute'', rs) \<in> set permission_roles \<Longrightarrow> rs = [role_security_audit, role_busiaudit]"
  by (simp_all add: permission_table)

lemma expand_set:
  "set (expand_with_hierarchy r) = (if r = role_manager then {role_manager, role_operater} else {r})"
  using expand_manager expand_other by auto

text \<open>Duties are separated: no role, inherited permissions included, can both prepare and
  publish a catalog entry or a resource, both accept and finally approve a conditional
  application, both submit a request and decide it, or both assign roles and read the audit
  trail.\<close>

lemma duties_separated:
  "list_all (\<lambda>(a, b). \<not> (a \<in> set (role_permissions role) \<and> b \<in> set (role_permissions role))) duty_pairs"
  unfolding duty_pairs_def
  by (auto simp: in_role_permissions expand_set dest!: duty_roles split: if_splits) (simp_all add: role_codes)

lemma lower_roles:
  "lower role_operater \<notin> set legacy_role_codes" "lower role_manager \<notin> set legacy_role_codes"
  "lower role_busiaudit \<notin> set legacy_role_codes" "lower role_security_audit \<notin> set legacy_role_codes"
  "lower role_system \<notin> set legacy_role_codes" "lower role_admin \<notin> set legacy_role_codes"
  "lower role_internal \<notin> set legacy_role_codes"
  by (simp_all add: role_codes lower_def lower_char_def legacy_role_codes_def)

text \<open>The module loads: no retired role code occurs in the tables, and every role the
  permission table names is a known role.\<close>

lemma policy_tables_sound:
  "legacy_offenders = [] \<and> list_all (\<lambda>(p, roles). roles \<noteq> [] \<and> set roles \<subseteq> set all_role_codes) permission_roles"
proof
  show "legacy_offenders = []"
    by (simp add: legacy_offenders_def actor_names_def role_display_names_def lower_roles permission_table)
  show "list_all (\<lambda>(p, roles). roles \<noteq> [] \<and> set roles \<subseteq> set all_role_codes) permission_roles"
    by (simp add: permission_table all_role_codes_def business_role_codes_def system_role_codes_def)
qed

end
