(* ===== verification/ConditionalApproval.thy ===== *)
theory ConditionalApproval
  imports CardSession CaseSafe Policy
begin

text \<open>
  \<^verbatim>\<open>domain/services/conditional_approval.py\<close> and its two handlers in
  \<^verbatim>\<open>command/handlers/j1/approval.py\<close>: the two-level approval of conditionally shared
  resources. The platform accepts (\<^verbatim>\<open>submitted\<close> to \<^verbatim>\<open>dept_approved\<close>), the providing
  department decides (\<^verbatim>\<open>dept_approved\<close> to \<^verbatim>\<open>granted\<close>), either may reject, and the
  applicant may resubmit. The pipeline's part is the actor of the mutation, the audit id and
  the flush of the cards at the end; the credential issued after a grant is not modelled.
\<close>

section \<open>Statuses\<close>

definition status_submitted :: string where "status_submitted = ''submitted''"
definition status_rejected :: string where "status_rejected = ''rejected''"
definition status_dept_approved :: string where "status_dept_approved = ''dept_approved''"
definition status_granted :: string where "status_granted = ''granted''"

lemmas status_names =
  status_submitted_def status_rejected_def status_dept_approved_def status_granted_def

definition legacy_status :: "(string \<times> int) list" where
  "legacy_status =
     [(status_submitted, 1), (status_rejected, 3), (status_dept_approved, 4), (status_granted, 6)]"

definition conditional_transitions :: "(string \<times> string list) list" where
  "conditional_transitions =
     [(status_submitted, [status_dept_approved, status_rejected, status_granted]),
      (status_dept_approved, [status_granted, status_rejected]),
      (status_rejected, [status_submitted]),
      (status_granted, [])]"

datatype conditional_error =
    RequestNotFound string
  | WrongStatus string string
  | IllegalTransition string string
  | GuardRefused policy_error
  | NotTheApplicant string string
  | NotDepartmentManager string
  | StoreFailed case_error
  | ConditionalPy py_error
  | RoundNotANumber

definition assert_legal_transition :: "string \<Rightarrow> string \<Rightarrow> conditional_error + unit" where
  "assert_legal_transition a b =
     (case map_of conditional_transitions a of
        None \<Rightarrow> Inl (IllegalTransition a b)
      | Some allowed \<Rightarrow> guardE (b \<in> set allowed) (IllegalTransition a b))"

section \<open>What the payload says\<close>

text \<open>\<^verbatim>\<open>(payload.get("reuseCandidate") or {}).get("owner_org_code")\<close> raises when the candidate
  is no dictionary, but it is looked at only when the first two are absent.\<close>

definition owner_org_code :: "dict \<Rightarrow> py_error + string" where
  "owner_org_code payload =
     (let own = py_or (dget payload ''owner_org_code'') (dget payload ''resource_owner_org_code'')
      in if truthy own then Inr (py_str own)
         else bindE (json_get (py_or (dget payload ''reuseCandidate'') (JObj [])) ''owner_org_code'') (\<lambda>v.
                Inr (py_str (py_or v (JStr [])))))"

definition conditional_shared_type :: "dict \<Rightarrow> int" where
  "conditional_shared_type payload =
     (case share_type_int (share_type_from_mapping (JObj payload)) of None \<Rightarrow> 0 | Some i \<Rightarrow> i)"

definition applicant_org_code :: "dict \<Rightarrow> application_row \<Rightarrow> string" where
  "applicant_org_code payload r =
     py_str (first_of [dget payload ''applicant_org_code'', ap_org r, JStr []])"

section \<open>A dispatch\<close>

text \<open>What a call carries: the role the handler passes on, the user the session authenticated,
  the actor the pipeline derives from the role, and the organisation of the caller.\<close>

record approval_call =
  ca_now :: nat
  ca_role :: string
  ca_ctx_role :: string
  ca_user :: string
  ca_pipe_actor :: string
  ca_org :: string
  ca_note :: string
  ca_skill :: string
  ca_audit :: string

record approval_world =
  aw_store :: approval_store
  aw_feed :: "(string \<times> string \<times> string \<times> string) list"

text \<open>The state after a call, and its error if it failed. Every repository call commits on its
  own, so a failing call may have changed the state.\<close>

type_synonym outcome = "approval_world \<times> conditional_error option"

definition with_store :: "approval_store \<Rightarrow> approval_world \<Rightarrow> approval_world" where
  "with_store st w = w\<lparr>aw_store := st\<rparr>"

definition add_feed :: "string \<Rightarrow> string \<Rightarrow> string \<Rightarrow> approval_call \<Rightarrow> approval_world \<Rightarrow> approval_world" where
  "add_feed target result actor c w =
     w\<lparr>aw_feed := aw_feed w @ [(ca_skill c, target, result, actor)]\<rparr>"

text \<open>\<^verbatim>\<open>_persist_payload\<close>: into the card of a runtime request, straight into the record of an
  imported one.\<close>

definition merge_card :: "dict \<Rightarrow> string \<Rightarrow> dict \<Rightarrow> dict" where
  "merge_card payload status crd =
     dset (dmerge crd (filter (\<lambda>(k, v). k \<notin> {''id'', ''status''}) payload)) ''status'' (JStr status)"

definition request_shaped :: "string \<Rightarrow> application_row \<Rightarrow> dict \<Rightarrow> string \<Rightarrow> dict" where
  "request_shaped i r payload status =
     dmerge [(''id'', JStr i), (''status'', JStr status), (''applicant'', ap_name r), (''applicantDept'', ap_org r)]
       (filter (\<lambda>(k, v). k \<notin> {''id'', ''status'', ''applicant'', ''applicantDept''}) payload)"

definition persist_payload ::
    "(dict \<Rightarrow> string) \<Rightarrow> nat \<Rightarrow> string \<Rightarrow> dict \<Rightarrow> string \<Rightarrow> card_session \<Rightarrow> approval_store \<Rightarrow>
     case_error + approval_store \<times> card_session" where
  "persist_payload fp now i payload status cs st =
     bindE (get_request fp st i cs) (\<lambda>(found, cs1).
       case found of
         Some crd \<Rightarrow> Inr (st, change_request i (merge_card payload status) cs1)
       | None \<Rightarrow>
           bindE (get_record default_card_tenant i st) (\<lambda>r.
             case r of
               None \<Rightarrow> Inl (CasePy AttributeError)
             | Some r \<Rightarrow>
                 bindE (upsert_from_request now default_card_tenant (request_shaped i r payload status) st)
                   (\<lambda>st1. Inr (st1, cs1))))"

text \<open>The end of a mutation: persist, record in the feed, flush.\<close>

definition finish ::
    "(nat \<Rightarrow> string) \<Rightarrow> (dict \<Rightarrow> string) \<Rightarrow> string \<Rightarrow> dict \<Rightarrow> string \<Rightarrow> string \<Rightarrow> string \<Rightarrow> approval_call \<Rightarrow>
     approval_world \<Rightarrow> outcome" where
  "finish uuid fp i payload status target result c w =
     (case persist_payload fp (ca_now c) i payload status empty_session (aw_store w) of
        Inl e \<Rightarrow> (w, Some (StoreFailed e))
      | Inr (st, cs) \<Rightarrow>
          let w1 = add_feed target result (ca_pipe_actor c) c (with_store st w)
          in case flush_cards uuid fp (ca_now c) cs st of
               Inl (e, st1) \<Rightarrow> (with_store st1 w1, Some (StoreFailed e))
             | Inr (st1, _) \<Rightarrow> (with_store st1 w1, None))"

text \<open>Append the audited step, then finish.\<close>

definition decide ::
    "(nat \<Rightarrow> string) \<Rightarrow> (dict \<Rightarrow> string) \<Rightarrow> string \<Rightarrow> conditional_args \<Rightarrow> dict \<Rightarrow> string \<Rightarrow> string \<Rightarrow>
     approval_call \<Rightarrow> approval_world \<Rightarrow> outcome" where
  "decide uuid fp i step payload status decision c w =
     (case append_conditional_step uuid (ca_now c) default_card_tenant i step (st_cases (aw_store w)) of
        Inl e \<Rightarrow> (w, Some (StoreFailed e))
      | Inr db \<Rightarrow>
          finish uuid fp i payload status (i @ '':'' @ decision)
            (if decision = ''approve'' then ''ok'' else ''warning'') c
            (with_store ((aw_store w)\<lparr>st_cases := db\<rparr>) w))"

definition noted :: "approval_call \<Rightarrow> string \<Rightarrow> dict \<Rightarrow> dict" where
  "noted c decision payload =
     (if decision = ''reject'' \<and> ca_note c \<noteq> [] then dset payload ''reject_reason'' (JStr (ca_note c))
      else payload)"

definition decision_word :: "string \<Rightarrow> string" where
  "decision_word decision = (if decision = ''approve'' then ''approved'' else ''rejected'')"

section \<open>The first level: acceptance by the platform\<close>

definition platform_step :: "string \<Rightarrow> approval_call \<Rightarrow> string \<Rightarrow> string \<Rightarrow> conditional_args" where
  "platform_step owner c decision target =
     \<lparr>cn_mode = ''single'', cn_name = lbl_accept_step, cn_step_status = ''completed'',
      cn_decision = decision_word decision, cn_reason = ca_note c, cn_actor = ca_pipe_actor c,
      cn_role = ca_role c,
      cn_scope = [(''owner_org_code'', JStr owner), (''approve_org_code'', JStr (ca_org c)),
                  (''platform_review'', JBool True), (''stage'', JStr ''accept'')],
      cn_skill = ca_skill c, cn_audit = ca_audit c, cn_status = target\<rparr>"

definition platform_payload :: "approval_call \<Rightarrow> string \<Rightarrow> dict \<Rightarrow> dict" where
  "platform_payload c decision payload =
     noted c decision (dmerge payload
       [(''platform_reviewer_id'', JStr (ca_pipe_actor c)), (''platform_decision'', JStr decision),
        (''platform_decision_note'', JStr (ca_note c))])"

definition load_record :: "string \<Rightarrow> approval_world \<Rightarrow> conditional_error + application_row" where
  "load_record i w =
     bindE (raiseE StoreFailed (get_record default_card_tenant i (aw_store w))) (\<lambda>found.
       case found of None \<Rightarrow> Inl (RequestNotFound i) | Some r \<Rightarrow> Inr r)"

text \<open>A check that fails leaves the state as it is.\<close>

definition after :: "approval_world \<Rightarrow> conditional_error + 'a \<Rightarrow> ('a \<Rightarrow> outcome) \<Rightarrow> outcome" where
  "after w m f = (case m of Inl e \<Rightarrow> (w, Some e) | Inr x \<Rightarrow> f x)"

definition platform_check :: "string \<Rightarrow> string \<Rightarrow> approval_world \<Rightarrow> conditional_error + application_row \<times> string" where
  "platform_check i decision w =
     bindE (load_record i w) (\<lambda>r.
     bindE (guardE (ap_status r = status_submitted) (WrongStatus status_submitted (ap_status r))) (\<lambda>_.
     let target = (if decision = ''approve'' then status_dept_approved else status_rejected)
     in bindE (assert_legal_transition (ap_status r) target) (\<lambda>_. Inr (r, target))))"

definition platform_decide ::
    "(nat \<Rightarrow> string) \<Rightarrow> (dict \<Rightarrow> string) \<Rightarrow> string \<Rightarrow> string \<Rightarrow> approval_call \<Rightarrow> approval_world \<Rightarrow> outcome" where
  "platform_decide uuid fp i decision c w =
     after w (platform_check i decision w) (\<lambda>(r, target).
     after w (raiseE ConditionalPy (owner_org_code (ap_payload r))) (\<lambda>owner.
       decide uuid fp i (platform_step owner c decision target)
         (platform_payload c decision (ap_payload r)) target decision c w))"

section \<open>The second level: review by the providing department\<close>

definition dept_step :: "string \<Rightarrow> string \<Rightarrow> approval_call \<Rightarrow> string \<Rightarrow> string \<Rightarrow> conditional_args" where
  "dept_step owner org_name c decision target =
     \<lparr>cn_mode = ''department'',
      cn_name = (if org_name \<noteq> [] then lbl_dept_prefix @ org_name else lbl_dept_step),
      cn_step_status = ''completed'', cn_decision = decision_word decision, cn_reason = ca_note c,
      cn_actor = ca_pipe_actor c, cn_role = ca_role c,
      cn_scope = [(''owner_org_code'', JStr owner), (''approve_org_code'', JStr (ca_org c)),
                  (''approve_org_name'', JStr org_name)],
      cn_skill = ca_skill c, cn_audit = ca_audit c, cn_status = target\<rparr>"

definition dept_payload :: "approval_call \<Rightarrow> string \<Rightarrow> dict \<Rightarrow> dict" where
  "dept_payload c decision payload =
     noted c decision (dmerge payload
       [(''dept_approver_id'', JStr (ca_pipe_actor c)), (''dept_approver_org_code'', JStr (ca_org c)),
        (''dept_decided_at'', JStr (ca_audit c)), (''dept_decision'', JStr decision),
        (''dept_decision_note'', JStr (ca_note c))])"

definition dept_check ::
    "string \<Rightarrow> string \<Rightarrow> approval_call \<Rightarrow> approval_world \<Rightarrow> conditional_error + application_row \<times> string \<times> string" where
  "dept_check i decision c w =
     bindE (load_record i w) (\<lambda>r.
     bindE (guardE (ap_status r = status_dept_approved) (WrongStatus status_dept_approved (ap_status r))) (\<lambda>_.
     bindE (raiseE ConditionalPy (owner_org_code (ap_payload r))) (\<lambda>owner.
     bindE (raiseE GuardRefused (enforce_self_approval_guard
              (py_str (first_of [dget (ap_payload r) ''applicant'', ap_name r, JStr []])) (ca_user c))) (\<lambda>_.
     bindE (raiseE GuardRefused (enforce_dept_approval_direction owner (ca_org c))) (\<lambda>_.
     let target = (if decision = ''approve'' then status_granted else status_rejected)
     in bindE (assert_legal_transition (ap_status r) target) (\<lambda>_. Inr (r, owner, target)))))))"

definition dept_approve ::
    "(nat \<Rightarrow> string) \<Rightarrow> (dict \<Rightarrow> string) \<Rightarrow> string \<Rightarrow> string \<Rightarrow> approval_call \<Rightarrow> approval_world \<Rightarrow> outcome" where
  "dept_approve uuid fp i decision c w =
     after w (dept_check i decision c w) (\<lambda>(r, owner, target).
       decide uuid fp i
         (dept_step owner (py_str (py_or (dget (ap_payload r) ''owner_org_name'') (JStr owner))) c decision target)
         (dept_payload c decision (ap_payload r)) target decision c w)"

section \<open>Resubmission by the applicant\<close>

definition next_round :: "dict \<Rightarrow> conditional_error + int" where
  "next_round payload =
     (case py_int (py_or (dget payload ''round'') (JInt 1)) of None \<Rightarrow> Inl RoundNotANumber | Some n \<Rightarrow> Inr (n + 1))"

definition resubmit_check :: "string \<Rightarrow> approval_call \<Rightarrow> approval_world \<Rightarrow> conditional_error + application_row" where
  "resubmit_check i c w =
     bindE (load_record i w) (\<lambda>r.
     bindE (guardE (ap_status r = status_rejected) (WrongStatus status_rejected (ap_status r))) (\<lambda>_.
     bindE (assert_legal_transition (ap_status r) status_submitted) (\<lambda>_.
     let org = applicant_org_code (ap_payload r) r
     in bindE (guardE (\<not> (org \<noteq> [] \<and> ca_org c \<noteq> [] \<and> org \<noteq> ca_org c)) (NotTheApplicant org (ca_org c))) (\<lambda>_.
          Inr r))))"

definition applicant_resubmit ::
    "(nat \<Rightarrow> string) \<Rightarrow> (dict \<Rightarrow> string) \<Rightarrow> string \<Rightarrow> approval_call \<Rightarrow> approval_world \<Rightarrow> outcome" where
  "applicant_resubmit uuid fp i c w =
     after w (resubmit_check i c w) (\<lambda>r.
     after w (next_round (ap_payload r)) (\<lambda>n.
       finish uuid fp i (dset (ap_payload r) ''round'' (JInt n)) status_submitted (i @ '':resubmit'') ''ok'' c w))"

section \<open>The handlers\<close>

definition handle_dept_approve ::
    "(nat \<Rightarrow> string) \<Rightarrow> (dict \<Rightarrow> string) \<Rightarrow> string \<Rightarrow> string \<Rightarrow> approval_call \<Rightarrow> approval_world \<Rightarrow> outcome" where
  "handle_dept_approve uuid fp i decision c w =
     (if decision = ''resubmit'' then applicant_resubmit uuid fp i c w
      else if ca_ctx_role c \<noteq> role_manager then (w, Some (NotDepartmentManager (ca_ctx_role c)))
      else dept_approve uuid fp i decision c w)"

datatype approval_op =
    DeptApprove string string approval_call
  | PlatformApprove string string approval_call

definition approval_outcome ::
    "(nat \<Rightarrow> string) \<Rightarrow> (dict \<Rightarrow> string) \<Rightarrow> approval_world \<Rightarrow> approval_op \<Rightarrow> outcome" where
  "approval_outcome uuid fp w op =
     (case op of
        DeptApprove i decision c \<Rightarrow> handle_dept_approve uuid fp i decision c w
      | PlatformApprove i decision c \<Rightarrow> platform_decide uuid fp i decision c w)"

end
