(* ===== verification/ApplicationStore.thy ===== *)
theory ApplicationStore
  imports CardSession CaseSafe
begin

text \<open>
  The table of application records, which requests, demands and business requirements share: one
  record per code and tenant, and what an upsert changes.
\<close>

section \<open>The table\<close>

definition app_of :: "approval_store \<Rightarrow> string \<Rightarrow> application_row option" where
  "app_of st i = find (is_application default_card_tenant i) (st_apps st)"

definition app_status :: "approval_store \<Rightarrow> string \<Rightarrow> string option" where
  "app_status st i = map_option ap_status (app_of st i)"

text \<open>One record per code and tenant, and a runtime card carries the code of its record.\<close>

definition app_key :: "application_row \<Rightarrow> string \<times> string" where
  "app_key r = (ap_tenant r, ap_code r)"

definition card_ids_ok :: "application_row \<Rightarrow> bool" where
  "card_ids_ok r \<longleftrightarrow> (is_runtime_request_payload (ap_payload r) \<longrightarrow>
     map_of (ap_payload r) ''id'' = Some (JStr (ap_code r)))"

definition store_inv :: "(nat \<Rightarrow> string) \<Rightarrow> approval_store \<Rightarrow> bool" where
  "store_inv uuid st \<longleftrightarrow> unique_on app_key (st_apps st) \<and> list_all card_ids_ok (st_apps st) \<and>
     case_inv uuid (st_cases st)"

lemma is_application_key: "is_application tenant code r \<longleftrightarrow> app_key r = (tenant, code)"
  by (simp add: is_application_def app_key_def)

lemma filter_application:
  "unique_on app_key rows \<Longrightarrow> filter (is_application tenant code) rows =
   (case find (is_application tenant code) rows of None \<Rightarrow> [] | Some r \<Rightarrow> [r])"
proof (induction rows)
  case (Cons a rows)
  show ?case
  proof (cases "is_application tenant code a")
    case True
    have "\<not> is_application tenant code x" if "x \<in> set rows" for x
      using that True Cons.prems by (auto simp: unique_on_def is_application_key image_iff)
    then have "filter (is_application tenant code) rows = []"
      by (simp add: filter_empty_conv)
    then show ?thesis using True by simp
  next
    case False
    then show ?thesis using Cons by (simp add: unique_on_def)
  qed
qed simp

lemma get_record_find:
  "store_inv uuid st \<Longrightarrow> get_record default_card_tenant i st = Inr (app_of st i)"
  by (simp add: get_record_def store_inv_def filter_application one_or_none_def app_of_def split: option.splits)

lemma app_of_SomeD: "app_of st i = Some r \<Longrightarrow> r \<in> set (st_apps st) \<and> app_key r = (default_card_tenant, i)"
  by (auto simp: app_of_def find_Some_iff is_application_key)

section \<open>Writing an application record\<close>

lemma put_application_new:
  "find (is_application tenant code) rows = None \<Longrightarrow> app_key r = (tenant, code) \<Longrightarrow>
   unique_on app_key rows \<Longrightarrow> unique_on app_key (put_application rows None r)"
  by (auto simp: put_application_def unique_on_def find_None_iff is_application_key)

lemma put_application_keys:
  "map app_key (put_application rows (Some x) r) = map app_key rows"
  by (auto simp: put_application_def is_application_key app_key_def)

lemma find_snoc: "find P (xs @ [x]) = (case find P xs of None \<Rightarrow> if P x then Some x else None | Some y \<Rightarrow> Some y)"
  by (induction xs) simp_all

lemma find_put_other:
  "(tenant', code') \<noteq> (ap_tenant r, ap_code r) \<Longrightarrow>
   find (is_application tenant' code') (put_application rows (Some x) r) = find (is_application tenant' code') rows"
  unfolding put_application_def option.case by (induction rows) (auto simp: is_application_def)

lemma find_put_same:
  "find (is_application (ap_tenant r) (ap_code r)) rows = Some y \<Longrightarrow>
   map_option ap_status (find (is_application (ap_tenant r) (ap_code r)) (put_application rows (Some x) r)) =
     Some (ap_status r)"
  unfolding put_application_def option.case by (induction rows) (auto simp: is_application_def)

lemma find_put_application:
  assumes "find (is_application tenant code) rows = found" and "app_key r = (tenant, code)"
  shows "map_option ap_status (find (is_application tenant' code') (put_application rows found r)) =
    (if (tenant', code') = (tenant, code) then Some (ap_status r)
     else map_option ap_status (find (is_application tenant' code') rows))"
proof (cases found)
  case None
  then show ?thesis
    using assms by (auto simp: put_application_def find_snoc is_application_key split: option.splits)
next
  case (Some x)
  then show ?thesis
    using assms find_put_other [of tenant' code' r rows x] find_put_same [of r rows x x]
    by (auto simp: app_key_def)
qed

lemma safe_dict_item: "\<not> is_sensitive_json_key k \<Longrightarrow> map_of (safe_dict d) k = map_option safe_json (map_of d k)"
  unfolding safe_dict_def safe_json.simps json.case by (induction d) auto

lemma plain_id: "\<not> is_sensitive_json_key ''id''"
  by (simp add: is_sensitive_json_key_def sensitive_json_keys_def lower_def lower_char_def ends_with_def)

lemma text_item_iff: "text_item d k = Inr s \<longleftrightarrow> map_of d k = Some (JStr s)"
  by (auto simp: text_item_def dict_item_def split: json.splits option.splits)

definition application_of :: "nat \<Rightarrow> dict \<Rightarrow> string \<Rightarrow> string \<Rightarrow> json \<Rightarrow> json \<Rightarrow> application_row" where
  "application_of now request i status name org =
     \<lparr>ap_tenant = default_card_tenant, ap_code = i, ap_status = status, ap_name = name, ap_org = org,
      ap_payload = safe_dict request, ap_created = now\<rparr>"

text \<open>The rows after an upsert, without the fields no property speaks of.\<close>

definition upserted :: "nat \<Rightarrow> string \<Rightarrow> string \<Rightarrow> dict \<Rightarrow> approval_store \<Rightarrow> approval_store \<Rightarrow> bool" where
  "upserted now i status request st st' \<longleftrightarrow> st_cases st' = st_cases st \<and>
     (\<exists>r. st_apps st' = put_application (st_apps st) (app_of st i) r \<and> app_key r = (default_card_tenant, i) \<and>
        ap_status r = status \<and> ap_payload r = safe_dict request)"

lemma upserted_row:
  "st_cases st' = st_cases st \<Longrightarrow>
   st_apps st' = put_application (st_apps st) (app_of st i)
     \<lparr>ap_tenant = default_card_tenant, ap_code = i, ap_status = status, ap_name = name, ap_org = org,
      ap_payload = safe_dict request, ap_created = now\<rparr> \<Longrightarrow> upserted now i status request st st'"
  unfolding upserted_def by (intro conjI exI, assumption+) (simp_all add: app_key_def)

lemma upsert_request_shape:
  assumes "store_inv uuid st" and "upsert_from_request now default_card_tenant request st = Inr st'"
    and "map_of request ''id'' = Some (JStr i)" and "map_of request ''status'' = Some (JStr status)"
  shows "upserted now i status request st st'"
proof -
  have "text_item request ''id'' = Inr i" "text_item request ''status'' = Inr status"
    using assms(3,4) by (simp_all add: text_item_iff)
  with assms(2) show ?thesis
    by (auto simp: upsert_from_request_def get_record_find [OF assms(1)] result_simps Let_def
        intro!: upserted_row split: if_splits)
qed

lemma upserted_effect:
  assumes "store_inv uuid st" and "upserted now i status request st st'"
    and "map_of request ''id'' = Some (JStr i)"
  shows "store_inv uuid st'"
    and "app_status st' j = (if j = i then Some status else app_status st j)"
proof -
  obtain r where r: "st_apps st' = put_application (st_apps st) (app_of st i) r"
      "app_key r = (default_card_tenant, i)" "ap_status r = status" "ap_payload r = safe_dict request"
    using assms(2) by (auto simp: upserted_def)
  have ok: "card_ids_ok (r\<lparr>ap_created := t\<rparr>)" for t
    using assms(3) r(2,4) by (simp add: card_ids_ok_def app_key_def safe_dict_item plain_id)
  have "card_ids_ok r"
    using assms(3) r(2,4) by (simp add: card_ids_ok_def app_key_def safe_dict_item plain_id)
  then have "list_all card_ids_ok (st_apps st')"
    using assms(1) ok by (auto simp: r(1) put_application_def store_inv_def list_all_iff split: option.splits)
  moreover have "unique_on app_key (st_apps st')"
  proof (cases "app_of st i")
    case None
    then show ?thesis
      using put_application_new [OF _ r(2)] assms(1) by (simp add: r(1) app_of_def store_inv_def)
  next
    case (Some x)
    then show ?thesis
      using assms(1) by (simp add: r(1) unique_on_def put_application_keys store_inv_def)
  qed
  ultimately show "store_inv uuid st'"
    using assms(1,2) by (simp add: store_inv_def upserted_def)
  show "app_status st' j = (if j = i then Some status else app_status st j)"
    using find_put_application [OF refl r(2), where rows = "st_apps st" and tenant' = default_card_tenant and code' = j] r
    by (auto simp: app_status_def app_of_def)
qed

text \<open>Where an upsert succeeds, the card names its record and its status.\<close>

lemma upsert_parts:
  assumes "store_inv uuid st" and "upsert_from_request now default_card_tenant request st = Inr st'"
  obtains i status where "map_of request ''id'' = Some (JStr i)" "map_of request ''status'' = Some (JStr status)"
    "upserted now i status request st st'"
proof -
  obtain i status where "text_item request ''id'' = Inr i" "text_item request ''status'' = Inr status"
    using assms(2) by (auto simp: upsert_from_request_def result_simps)
  then have "map_of request ''id'' = Some (JStr i)" "map_of request ''status'' = Some (JStr status)"
    by (simp_all add: text_item_iff)
  then show thesis using that upsert_request_shape [OF assms] by blast
qed

lemma find_put_row:
  assumes "find (is_application tenant code) rows = found" and "app_key r = (tenant, code)"
  shows "\<exists>t. find (is_application tenant code) (put_application rows found r) = Some (r\<lparr>ap_created := t\<rparr>)"
proof (cases found)
  case None
  then have "find (is_application tenant code) (put_application rows found r) = Some (r\<lparr>ap_created := ap_created r\<rparr>)"
    using assms by (simp add: put_application_def find_snoc is_application_key)
  then show ?thesis ..
next
  case (Some x)
  then have "find (is_application tenant code) (map (\<lambda>y. if is_application (ap_tenant r) (ap_code r) y
      then r\<lparr>ap_created := ap_created y\<rparr> else y) rows) = Some (r\<lparr>ap_created := ap_created x\<rparr>)"
    using assms by (induction rows) (auto simp: is_application_def app_key_def split: if_splits)
  then show ?thesis unfolding Some put_application_def by auto
qed

lemma find_put_elsewhere:
  assumes "find (is_application tenant code) rows = found" and "app_key r = (tenant, code)" and "(tenant', code') \<noteq> (tenant, code)"
  shows "find (is_application tenant' code') (put_application rows found r) = find (is_application tenant' code') rows"
proof (cases found)
  case None
  then show ?thesis
    using assms by (auto simp: put_application_def find_snoc is_application_key split: option.splits)
next
  case (Some x)
  then show ?thesis using find_put_other [of tenant' code' r rows x] assms(2,3) by (simp add: app_key_def)
qed

lemma upserted_rows:
  assumes "upserted now i status request st st'"
  shows "\<exists>r. app_of st' i = Some r \<and> ap_status r = status \<and> ap_payload r = safe_dict request"
    and "j \<noteq> i \<Longrightarrow> app_of st' j = app_of st j"
proof -
  obtain r where r: "st_apps st' = put_application (st_apps st) (app_of st i) r"
      "app_key r = (default_card_tenant, i)" "ap_status r = status" "ap_payload r = safe_dict request"
    using assms by (auto simp: upserted_def)
  obtain t where t: "app_of st' i = Some (r\<lparr>ap_created := t\<rparr>)"
    using find_put_row [of default_card_tenant i "st_apps st" "app_of st i" r] r(1,2) by (auto simp: app_of_def)
  show "\<exists>r. app_of st' i = Some r \<and> ap_status r = status \<and> ap_payload r = safe_dict request"
    by (rule exI [of _ "r\<lparr>ap_created := t\<rparr>"]) (simp add: t r(3,4))
  show "j \<noteq> i \<Longrightarrow> app_of st' j = app_of st j"
    using find_put_elsewhere [of default_card_tenant i "st_apps st" "app_of st i" r default_card_tenant j] r(1,2)
    by (simp add: app_of_def)
qed

end
