(* ===== verification/ConditionalSafe.thy ===== *)
theory ConditionalSafe
  imports ConditionalApproval ApplicationStore
begin

text \<open>
  What the two-level approval guarantees: the status of a request moves only along the
  transition table, a grant went through both levels, and the audited steps of both survive.
\<close>

section \<open>What a call may change\<close>

text \<open>The invariant holds, audited steps stay, and at most request \<open>i\<close> changes its status, to
  the given one.\<close>

definition moves_to :: "(nat \<Rightarrow> string) \<Rightarrow> string \<Rightarrow> string \<Rightarrow> approval_store \<Rightarrow> approval_store \<Rightarrow> bool" where
  "moves_to uuid i status st st' \<longleftrightarrow>
     store_inv uuid st' \<and> keeps_audited (st_cases st) (st_cases st') \<and>
     (\<forall>j. app_status st' j = app_status st j \<or> j = i \<and> app_status st' j = Some status)"

lemma moves_refl: "store_inv uuid st \<Longrightarrow> moves_to uuid i status st st"
  by (simp add: moves_to_def keeps_refl)

lemma moves_trans:
  "moves_to uuid i status a b \<Longrightarrow> moves_to uuid i status b c \<Longrightarrow> moves_to uuid i status a c"
  unfolding moves_to_def by (metis keeps_trans)

lemma moves_inv: "moves_to uuid i status a b \<Longrightarrow> store_inv uuid b"
  by (simp add: moves_to_def)

lemma app_status_cases [simp]: "app_status (st\<lparr>st_cases := db\<rparr>) = app_status st"
  by (simp add: app_status_def app_of_def fun_eq_iff)

lemma moves_cases:
  "store_inv uuid st \<Longrightarrow> case_inv uuid db \<Longrightarrow> keeps_audited (st_cases st) db \<Longrightarrow>
   moves_to uuid i status st (st\<lparr>st_cases := db\<rparr>)"
  by (simp add: moves_to_def store_inv_def)

lemma moves_upsert:
  assumes "store_inv uuid st" and "upsert_from_request now default_card_tenant request st = Inr st'"
    and "map_of request ''id'' = Some (JStr i)" and "map_of request ''status'' = Some (JStr status)"
  shows "moves_to uuid i status st st'" and "app_status st' i = Some status"
  using upserted_effect [OF assms(1) upsert_request_shape [OF assms] assms(3)] upsert_request_shape [OF assms]
  by (simp_all add: moves_to_def upserted_def keeps_refl)

lemma moves_mirror:
  "store_inv uuid st \<Longrightarrow> mirror_case uuid now request approval st = Inr st' \<Longrightarrow> moves_to uuid i status st st'"
  using mirror_step by (auto simp: mirror_case_def result_simps store_inv_def intro!: moves_cases)

lemma mirror_keeps_status: "mirror_case uuid now request approval st = Inr st' \<Longrightarrow> app_status st' = app_status st"
  by (auto simp: mirror_case_def result_simps)

section \<open>Flushing the card of one request\<close>

definition holds_card :: "string \<Rightarrow> string \<Rightarrow> card_session \<Rightarrow> bool" where
  "holds_card i status cs \<longleftrightarrow> cs_approvals cs = [] \<and>
     (cs_requests cs = [] \<or> (\<exists>crd loaded. cs_requests cs = [(i, (crd, loaded))] \<and>
        map_of crd ''id'' = Some (JStr i) \<and> map_of crd ''status'' = Some (JStr status)))"

lemma flush_request_moves:
  assumes "store_inv uuid st" and "map_of crd ''id'' = Some (JStr i)" and "map_of crd ''status'' = Some (JStr status)"
  shows "flush_request uuid fp now cs (st, []) (i, (crd, loaded)) = Inl (e, st') \<Longrightarrow> moves_to uuid i status st st'"
    and "flush_request uuid fp now cs (st, []) (i, (crd, loaded)) = Inr (st', f) \<Longrightarrow>
      moves_to uuid i status st st' \<and> (fp crd \<noteq> loaded \<longrightarrow> app_status st' i = Some status)"
proof -
  note upsert = moves_upsert [OF assms(1) _ assms(2,3)]
  assume "flush_request uuid fp now cs (st, []) (i, (crd, loaded)) = Inl (e, st')"
  then show "moves_to uuid i status st st'"
    using moves_refl [OF assms(1)]
    by (auto simp: flush_request_def failing_def result_simps dest: upsert(1) split: if_splits)
next
  note upsert = moves_upsert [OF assms(1) _ assms(2,3)]
  assume run: "flush_request uuid fp now cs (st, []) (i, (crd, loaded)) = Inr (st', f)"
  show "moves_to uuid i status st st' \<and> (fp crd \<noteq> loaded \<longrightarrow> app_status st' i = Some status)"
  proof (cases "fp crd = loaded")
    case True
    then show ?thesis using run moves_refl [OF assms(1)] by (simp add: flush_request_def)
  next
    case False
    then obtain st1 approval where "upsert_from_request now default_card_tenant crd st = Inr st1"
        "mirror_case uuid now crd approval st1 = Inr st'"
      using run by (auto simp: flush_request_def failing_def result_simps)
    then show ?thesis
      using upsert [of now st1] moves_mirror [of uuid st1 now crd approval st' i status]
        mirror_keeps_status moves_trans moves_inv by metis
  qed
qed

lemma flush_cards_moves:
  assumes "store_inv uuid st" and "holds_card i status cs"
  shows "flush_cards uuid fp now cs st = Inl (e, st') \<Longrightarrow> moves_to uuid i status st st'"
    and "flush_cards uuid fp now cs st = Inr (st', cs') \<Longrightarrow> moves_to uuid i status st st' \<and>
      (\<forall>crd loaded. cs_requests cs = [(i, (crd, loaded))] \<longrightarrow> fp crd \<noteq> loaded \<longrightarrow> app_status st' i = Some status)"
  using assms moves_refl [OF assms(1)] flush_request_moves [OF assms(1)]
  by (auto simp: holds_card_def flush_cards_def result_simps)

section \<open>The mutations\<close>

lemma merge_card_items:
  "map_of crd ''id'' = Some (JStr i) \<Longrightarrow> map_of (merge_card payload status crd) ''id'' = Some (JStr i)"
  "map_of (merge_card payload status crd) ''status'' = Some (JStr status)"
  by (auto simp: merge_card_def map_of_dmerge_other image_iff)

lemma request_shaped_items:
  "map_of (request_shaped i r payload status) ''id'' = Some (JStr i)"
  "map_of (request_shaped i r payload status) ''status'' = Some (JStr status)"
  by (auto simp: request_shaped_def map_of_dmerge_other image_iff)

text \<open>What a later flush writes: either the record is written already, or its changed card waits.\<close>

definition waits :: "(dict \<Rightarrow> string) \<Rightarrow> string \<Rightarrow> string \<Rightarrow> application_row \<Rightarrow> dict \<Rightarrow> card_session \<Rightarrow> bool" where
  "waits fp i status r payload cs \<longleftrightarrow>
     cs_requests cs = [(i, (merge_card payload status (card_of_record r), fp (card_of_record r)))]"

lemma persist_moves:
  assumes "store_inv uuid st" and "persist_payload fp now i payload status empty_session st = Inr (st', cs)"
  shows "moves_to uuid i status st st' \<and> holds_card i status cs \<and>
    (\<exists>r. app_of st i = Some r \<and> (app_status st' i = Some status \<and> cs = empty_session \<or>
       st' = st \<and> waits fp i status r payload cs))"
proof (cases "app_of st i")
  case None
  then show ?thesis
    using assms(2) by (simp add: persist_payload_def get_request_def empty_session_def get_record_find [OF assms(1)])
next
  case (Some r)
  show ?thesis
  proof (cases "is_runtime_request_payload (ap_payload r)")
    case True
    then have "map_of (ap_payload r) ''id'' = Some (JStr i)"
      using app_of_SomeD [OF Some] assms(1)
      by (auto simp: store_inv_def list_all_iff card_ids_ok_def app_key_def)
    then have "map_of (card_of_record r) ''id'' = Some (JStr i)"
      by (simp add: card_of_record_def)
    moreover have "st' = st" "cs = \<lparr>cs_requests = [(i, (merge_card payload status (card_of_record r),
        fp (card_of_record r)))], cs_approvals = []\<rparr>"
      using assms(2) Some True
      by (simp_all add: persist_payload_def get_request_def empty_session_def get_record_find [OF assms(1)]
          change_request_def Let_def)
    ultimately show ?thesis
      using Some moves_refl [OF assms(1)] by (simp add: waits_def holds_card_def merge_card_items)
  next
    case False
    then have up: "upsert_from_request now default_card_tenant (request_shaped i r payload status) st = Inr st'"
        "cs = empty_session"
      using assms(2) Some
      by (auto simp: persist_payload_def get_request_def empty_session_def get_record_find [OF assms(1)] result_simps)
    then show ?thesis
      using moves_upsert [OF assms(1) up(1) request_shaped_items] Some
      by (simp add: holds_card_def empty_session_def)
  qed
qed

text \<open>No hash collision between a card and its loaded text hides a change of status.\<close>

definition digest_tells_status :: "(dict \<Rightarrow> string) \<Rightarrow> bool" where
  "digest_tells_status fp \<longleftrightarrow> (\<forall>a b s t. map_of a ''status'' = Some (JStr s) \<longrightarrow>
     map_of b ''status'' = Some (JStr t) \<longrightarrow> s \<noteq> t \<longrightarrow> fp a \<noteq> fp b)"

lemma waits_differs:
  "digest_tells_status fp \<Longrightarrow> ap_status r \<noteq> status \<Longrightarrow>
   fp (merge_card payload status (card_of_record r)) \<noteq> fp (card_of_record r)"
  unfolding digest_tells_status_def
  by (elim allE [where x = "merge_card payload status (card_of_record r)"] allE [where x = "card_of_record r"]
      allE [where x = status] allE [where x = "ap_status r"])
    (simp add: merge_card_items card_of_record_def)

lemma world_store [simp]:
  "aw_store (with_store st w) = st" "aw_store (add_feed t res a c w) = aw_store w"
  "aw_feed (with_store st w) = aw_feed w" "aw_feed (add_feed t res a c w) = aw_feed w @ [(ca_skill c, t, res, a)]"
  by (simp_all add: with_store_def add_feed_def)

lemma finish_moves:
  assumes "store_inv uuid (aw_store w)" and "finish uuid fp i payload status target result c w = (w', err)"
  shows "moves_to uuid i status (aw_store w) (aw_store w')"
    and "err = None \<Longrightarrow> digest_tells_status fp \<Longrightarrow> app_status (aw_store w) i \<noteq> Some status \<Longrightarrow>
      app_status (aw_store w') i = Some status \<and> aw_feed w' = aw_feed w @ [(ca_skill c, target, result, ca_pipe_actor c)]"
proof -
  let ?w = "aw_store w"
  consider (failed) "w' = w"
    | (flushed) st cs where "persist_payload fp (ca_now c) i payload status empty_session ?w = Inr (st, cs)"
        "(case flush_cards uuid fp (ca_now c) cs st of
            Inl (e, st1) \<Rightarrow> aw_store w' = st1 \<and> err \<noteq> None | Inr (st1, _) \<Rightarrow> aw_store w' = st1)"
    using assms(2) by (cases "persist_payload fp (ca_now c) i payload status empty_session ?w")
      (auto simp: finish_def Let_def split: sum.splits)
  note by_case = this
  from by_case show moves: "moves_to uuid i status ?w (aw_store w')"
  proof cases
    case failed
    then show ?thesis using moves_refl [OF assms(1)] by simp
  next
    case flushed
    have kept: "moves_to uuid i status ?w st" "holds_card i status cs"
      using persist_moves [OF assms(1) flushed(1)] by simp_all
    have "moves_to uuid i status st (aw_store w')"
      using flushed(2) flush_cards_moves [OF moves_inv [OF kept(1)] kept(2), of fp "ca_now c"]
      by (auto split: sum.splits)
    then show ?thesis using moves_trans [OF kept(1)] by simp
  qed
  assume ok: "err = None" "digest_tells_status fp" "app_status ?w i \<noteq> Some status"
  obtain st cs st1 cs1 where run: "persist_payload fp (ca_now c) i payload status empty_session ?w = Inr (st, cs)"
      "flush_cards uuid fp (ca_now c) cs st = Inr (st1, cs1)" "aw_store w' = st1"
      "aw_feed w' = aw_feed w @ [(ca_skill c, target, result, ca_pipe_actor c)]"
    using assms(2) ok(1) by (auto simp: finish_def Let_def split: sum.splits prod.splits)
  have kept: "moves_to uuid i status ?w st" "holds_card i status cs"
    using persist_moves [OF assms(1) run(1)] by simp_all
  note flush = flush_cards_moves(2) [OF moves_inv [OF kept(1)] kept(2) run(2)]
  obtain r where r: "app_of ?w i = Some r" "app_status st i = Some status \<or> waits fp i status r payload cs"
    using persist_moves [OF assms(1) run(1)] by blast
  from r(2) have "app_status st1 i = Some status"
  proof
    assume "app_status st i = Some status"
    then show ?thesis using flush unfolding moves_to_def by metis
  next
    assume wait: "waits fp i status r payload cs"
    have "ap_status r \<noteq> status" using ok(3) r(1) by (simp add: app_status_def)
    then show ?thesis
      using waits_differs [OF ok(2)] flush wait by (simp add: waits_def)
  qed
  then show "app_status (aw_store w') i = Some status \<and>
      aw_feed w' = aw_feed w @ [(ca_skill c, target, result, ca_pipe_actor c)]"
    using run by simp
qed

lemma decide_moves:
  assumes "store_inv uuid (aw_store w)" and "decide uuid fp i step payload status decision c w = (w', err)"
  shows "moves_to uuid i status (aw_store w) (aw_store w')"
    and "err = None \<Longrightarrow> \<exists>db. append_conditional_step uuid (ca_now c) default_card_tenant i step
        (st_cases (aw_store w)) = Inr db \<and> keeps_audited db (st_cases (aw_store w'))"
    and "err = None \<Longrightarrow> digest_tells_status fp \<Longrightarrow> app_status (aw_store w) i \<noteq> Some status \<Longrightarrow>
      app_status (aw_store w') i = Some status \<and>
      aw_feed w' = aw_feed w @ [(ca_skill c, i @ '':'' @ decision,
        if decision = ''approve'' then ''ok'' else ''warning'', ca_pipe_actor c)]"
proof -
  let ?append = "append_conditional_step uuid (ca_now c) default_card_tenant i step (st_cases (aw_store w))"
  let ?w = "\<lambda>db. with_store ((aw_store w)\<lparr>st_cases := db\<rparr>) w"
  have appended: "case_inv uuid db \<and> keeps_audited (st_cases (aw_store w)) db" if "?append = Inr db" for db
    using assms(1) that conditional_op by (auto simp: store_inv_def)
  have moves: "moves_to uuid i status (aw_store w) (aw_store (?w db))" if "?append = Inr db" for db
    using moves_cases [OF assms(1)] appended [OF that] by simp
  have run: "(\<exists>e. ?append = Inl e \<and> w' = w \<and> err \<noteq> None) \<or> (\<exists>db. ?append = Inr db \<and>
      finish uuid fp i payload status (i @ '':'' @ decision)
        (if decision = ''approve'' then ''ok'' else ''warning'') c (?w db) = (w', err))"
    using assms(2) by (auto simp: decide_def split: sum.splits)
  show "moves_to uuid i status (aw_store w) (aw_store w')"
    using run
  proof (elim disjE exE conjE)
    fix db
    assume db: "?append = Inr db" "finish uuid fp i payload status (i @ '':'' @ decision)
        (if decision = ''approve'' then ''ok'' else ''warning'') c (?w db) = (w', err)"
    show ?thesis
      using moves_trans [OF moves [OF db(1)] finish_moves(1) [OF moves_inv [OF moves [OF db(1)]] db(2)]] .
  qed (simp add: moves_refl assms(1))
  assume ok: "err = None"
  then obtain db where db: "?append = Inr db" "finish uuid fp i payload status (i @ '':'' @ decision)
        (if decision = ''approve'' then ''ok'' else ''warning'') c (?w db) = (w', err)"
    using run by blast
  note fin = finish_moves [OF moves_inv [OF moves [OF db(1)]] db(2)]
  show "\<exists>db. ?append = Inr db \<and> keeps_audited db (st_cases (aw_store w'))"
    using db(1) fin(1) by (simp add: moves_to_def)
  show "app_status (aw_store w') i = Some status \<and>
      aw_feed w' = aw_feed w @ [(ca_skill c, i @ '':'' @ decision,
        if decision = ''approve'' then ''ok'' else ''warning'', ca_pipe_actor c)]"
    if "digest_tells_status fp" "app_status (aw_store w) i \<noteq> Some status"
    using fin(2) [OF ok] that by simp
qed

section \<open>The calls\<close>

text \<open>What each check established before the status of request \<open>j\<close> changed.\<close>

definition enters :: "approval_world \<Rightarrow> approval_op \<Rightarrow> string \<Rightarrow> string \<Rightarrow> string \<Rightarrow> bool" where
  "enters w op j a b \<longleftrightarrow>
     (case op of
        PlatformApprove i d c \<Rightarrow> j = i \<and> a = status_submitted \<and>
          b = (if d = ''approve'' then status_dept_approved else status_rejected)
      | DeptApprove i d c \<Rightarrow> j = i \<and>
          (if d = ''resubmit'' then a = status_rejected \<and> b = status_submitted
           else ca_ctx_role c = role_manager \<and> a = status_dept_approved \<and>
             b = (if d = ''approve'' then status_granted else status_rejected) \<and>
             (\<exists>r owner. dept_check i d c w = Inr (r, owner, b))))"

lemma load_record_Inr:
  "store_inv uuid (aw_store w) \<Longrightarrow> load_record i w = Inr r \<Longrightarrow> app_of (aw_store w) i = Some r"
  by (auto simp: load_record_def get_record_find result_simps split: option.splits)

lemma platform_check_Inr:
  assumes "store_inv uuid (aw_store w)" and "platform_check i d w = Inr (r, target)"
  shows "app_of (aw_store w) i = Some r \<and> ap_status r = status_submitted \<and>
    target = (if d = ''approve'' then status_dept_approved else status_rejected)"
  using assms(2) load_record_Inr [OF assms(1)] by (auto simp: platform_check_def result_simps Let_def)

definition not_applicant :: "application_row \<Rightarrow> approval_call \<Rightarrow> bool" where
  "not_applicant r c \<longleftrightarrow>
     (let applicant = py_str (first_of [dget (ap_payload r) ''applicant'', ap_name r, JStr []])
      in applicant = [] \<or> ca_user c = [] \<or> applicant \<noteq> ca_user c)"

lemma dept_check_Inr:
  assumes "store_inv uuid (aw_store w)" and "dept_check i d c w = Inr (r, owner, target)"
  shows "app_of (aw_store w) i = Some r \<and> ap_status r = status_dept_approved \<and>
    target = (if d = ''approve'' then status_granted else status_rejected) \<and>
    owner_org_code (ap_payload r) = Inr owner \<and> owner \<noteq> [] \<and> owner = ca_org c \<and>
    not_applicant r c"
  using assms(2) load_record_Inr [OF assms(1)]
  by (auto simp: dept_check_def result_simps Let_def enforce_self_approval_guard_def
      enforce_dept_approval_direction_def not_applicant_def)

lemma resubmit_check_Inr:
  assumes "store_inv uuid (aw_store w)" and "resubmit_check i c w = Inr r"
  shows "app_of (aw_store w) i = Some r \<and> ap_status r = status_rejected"
  using assms(2) load_record_Inr [OF assms(1)] by (auto simp: resubmit_check_def result_simps Let_def)

lemma platform_runs:
  assumes "platform_decide uuid fp i d c w = (w', err)"
  shows "w' = w \<and> err \<noteq> None \<or> (\<exists>r target owner. platform_check i d w = Inr (r, target) \<and>
    decide uuid fp i (platform_step owner c d target) (platform_payload c d (ap_payload r)) target d c w = (w', err))"
proof (cases "platform_check i d w")
  case (Inr x)
  then show ?thesis
    using assms by (cases x; cases "owner_org_code (ap_payload (fst x))")
      (auto simp: platform_decide_def after_def)
qed (use assms in \<open>auto simp: platform_decide_def after_def\<close>)

lemma dept_runs:
  assumes "dept_approve uuid fp i d c w = (w', err)"
  shows "w' = w \<and> err \<noteq> None \<or> (\<exists>r owner target name. dept_check i d c w = Inr (r, owner, target) \<and>
    decide uuid fp i (dept_step owner name c d target) (dept_payload c d (ap_payload r)) target d c w = (w', err))"
proof (cases "dept_check i d c w")
  case (Inr x)
  then show ?thesis
    using assms by (cases x) (auto simp: dept_approve_def after_def)
qed (use assms in \<open>auto simp: dept_approve_def after_def\<close>)

lemma resubmit_runs:
  assumes "applicant_resubmit uuid fp i c w = (w', err)"
  shows "w' = w \<and> err \<noteq> None \<or> (\<exists>r n. resubmit_check i c w = Inr r \<and> next_round (ap_payload r) = Inr n \<and>
    finish uuid fp i (dset (ap_payload r) ''round'' (JInt n)) status_submitted (i @ '':resubmit'') ''ok'' c w = (w', err))"
proof (cases "resubmit_check i c w")
  case (Inr r)
  then show ?thesis
    using assms by (cases "next_round (ap_payload r)") (auto simp: applicant_resubmit_def after_def)
qed (use assms in \<open>auto simp: applicant_resubmit_def after_def\<close>)

text \<open>A call either leaves the store as it is or moves its request the way \<open>enters\<close> says.\<close>

lemma call_moves:
  assumes "store_inv uuid (aw_store w)" and "approval_outcome uuid fp w op = (w', err)"
  shows "aw_store w' = aw_store w \<or> (\<exists>i a b. app_status (aw_store w) i = Some a \<and> enters w op i a b \<and>
           moves_to uuid i b (aw_store w) (aw_store w'))"
proof (cases op)
  case (PlatformApprove i d c)
  then have "platform_decide uuid fp i d c w = (w', err)"
    using assms(2) by (simp add: approval_outcome_def)
  from platform_runs [OF this] show ?thesis
  proof (elim disjE exE conjE)
    fix r target owner
    assume "platform_check i d w = Inr (r, target)"
      "decide uuid fp i (platform_step owner c d target) (platform_payload c d (ap_payload r)) target d c w = (w', err)"
    from platform_check_Inr [OF assms(1) this(1)] decide_moves(1) [OF assms(1) this(2)] PlatformApprove
    show ?thesis
      by (intro disjI2 exI [of _ i] exI [of _ status_submitted] exI [of _ target])
        (simp add: app_status_def enters_def)
  qed simp
next
  case (DeptApprove i d c)
  show ?thesis
  proof (cases "d = ''resubmit''")
    case True
    then have "applicant_resubmit uuid fp i c w = (w', err)"
      using assms(2) DeptApprove by (simp add: approval_outcome_def handle_dept_approve_def)
    from resubmit_runs [OF this] show ?thesis
    proof (elim disjE exE conjE)
      fix r n
      assume "resubmit_check i c w = Inr r"
        "finish uuid fp i (dset (ap_payload r) ''round'' (JInt n)) status_submitted (i @ '':resubmit'') ''ok'' c w = (w', err)"
      from resubmit_check_Inr [OF assms(1) this(1)] finish_moves(1) [OF assms(1) this(2)] DeptApprove True
      show ?thesis
        by (intro disjI2 exI [of _ i] exI [of _ status_rejected] exI [of _ status_submitted])
          (simp add: app_status_def enters_def)
    qed simp
  next
    case False
    show ?thesis
    proof (cases "ca_ctx_role c = role_manager")
      case manager: True
      have "dept_approve uuid fp i d c w = (w', err)"
        using assms(2) DeptApprove False manager by (simp add: approval_outcome_def handle_dept_approve_def)
      from dept_runs [OF this] show ?thesis
      proof (elim disjE exE conjE)
        fix r owner target name
        assume check: "dept_check i d c w = Inr (r, owner, target)"
          and "decide uuid fp i (dept_step owner name c d target) (dept_payload c d (ap_payload r)) target d c w = (w', err)"
        from dept_check_Inr [OF assms(1) check] decide_moves(1) [OF assms(1) this(2)] DeptApprove False manager check
        show ?thesis
          by (intro disjI2 exI [of _ i] exI [of _ status_dept_approved] exI [of _ target])
            (simp add: app_status_def enters_def)
      qed simp
    qed (use assms(2) DeptApprove False in \<open>simp add: approval_outcome_def handle_dept_approve_def\<close>)
  qed
qed

text \<open>The machine of the two skills. A call that raises may have changed the state as well.\<close>

definition approval_step ::
    "(nat \<Rightarrow> string) \<Rightarrow> (dict \<Rightarrow> string) \<Rightarrow> approval_world \<Rightarrow> approval_op \<Rightarrow> unit + approval_world" where
  "approval_step uuid fp w op = Inr (fst (approval_outcome uuid fp w op))"

definition conditional_edges :: "(string \<times> string) set" where
  "conditional_edges = {(a, b). assert_legal_transition a b = Inr ()}"

definition world_status :: "approval_world \<Rightarrow> string \<Rightarrow> string option" where
  "world_status w = app_status (aw_store w)"

definition world_inv :: "(nat \<Rightarrow> string) \<Rightarrow> approval_world \<Rightarrow> bool" where
  "world_inv uuid w = store_inv uuid (aw_store w)"

lemma step_moves:
  assumes "world_inv uuid w" and "approval_step uuid fp w op = Inr w'"
  shows "world_inv uuid w'" and "keeps_audited (st_cases (aw_store w)) (st_cases (aw_store w'))"
    and "world_status w' j = world_status w j \<or> (\<exists>a b. world_status w j = Some a \<and>
      world_status w' j = Some b \<and> enters w op j a b)"
proof -
  obtain err where run: "approval_outcome uuid fp w op = (w', err)"
    using assms(2) by (cases "approval_outcome uuid fp w op") (simp add: approval_step_def)
  note moved = call_moves [OF _ run]
  from moved assms(1) show "world_inv uuid w'" "keeps_audited (st_cases (aw_store w)) (st_cases (aw_store w'))"
    by (auto simp: world_inv_def moves_to_def keeps_refl)
  from moved assms(1) show "world_status w' j = world_status w j \<or> (\<exists>a b. world_status w j = Some a \<and>
      world_status w' j = Some b \<and> enters w op j a b)"
    unfolding world_inv_def world_status_def moves_to_def by metis
qed

lemma enters_legal: "enters w op j a b \<Longrightarrow> (a, b) \<in> conditional_edges"
  by (auto simp: enters_def conditional_edges_def assert_legal_transition_def conditional_transitions_def
      status_names split: approval_op.splits if_splits)

interpretation conditional_flow: guarded_machine "approval_step uuid fp" world_status "world_inv uuid" conditional_edges
proof unfold_locales
  fix s op s' i a
  assume run: "world_inv uuid s" "approval_step uuid fp s op = Inr s'"
  then show "world_inv uuid s'" by (rule step_moves(1))
  assume "world_status s i = Some a"
  then show "\<exists>b. world_status s' i = Some b \<and> (a = b \<or> (a, b) \<in> conditional_edges)"
    using step_moves(3) [OF run, of i] enters_legal by fastforce
qed

interpretation conditional_log: append_only "approval_step uuid fp" "world_inv uuid"
  "\<lambda>w. audited_log (st_cases (aw_store w))"
proof unfold_locales
  fix s op s'
  assume run: "world_inv uuid s" "approval_step uuid fp s op = Inr s'"
  then show "world_inv uuid s'" by (rule step_moves(1))
  show "audited_log (st_cases (aw_store s)) \<subseteq> audited_log (st_cases (aw_store s'))"
    by (rule keeps_audited_log [OF step_moves(2) [OF run]])
qed

section \<open>Properties\<close>

lemma settle_approval [simp]: "settle (approval_step uuid fp) w op = fst (approval_outcome uuid fp w op)"
  by (simp add: settle_def approval_step_def)

lemma granted_is_final: "(status_granted, b) \<notin> conditional_edges"
  by (simp add: conditional_edges_def assert_legal_transition_def conditional_transitions_def status_names)

text \<open>The call of a run by which a request came into a status.\<close>

lemma entered_by:
  assumes "world_inv uuid w" and "world_status w i \<noteq> Some b"
    and "world_status (run_ops (approval_step uuid fp) w ops) i = Some b"
  obtains pre op post a where "ops = pre @ op # post"
    "world_inv uuid (run_ops (approval_step uuid fp) w pre)"
    "world_status (run_ops (approval_step uuid fp) w pre) i = Some a"
    "enters (run_ops (approval_step uuid fp) w pre) op i a b"
proof -
  obtain pre op post where split: "ops = pre @ op # post"
      "world_status (run_ops (approval_step uuid fp) w pre) i \<noteq> Some b"
      "world_status (fst (approval_outcome uuid fp (run_ops (approval_step uuid fp) w pre) op)) i = Some b"
    using run_ops_change [of "\<lambda>w. world_status w i = Some b" w "approval_step uuid fp" ops] assms(2,3) by auto
  have inv: "world_inv uuid (run_ops (approval_step uuid fp) w pre)"
    by (rule conditional_flow.inv_run [OF assms(1)])
  obtain a where "world_status (run_ops (approval_step uuid fp) w pre) i = Some a"
      "enters (run_ops (approval_step uuid fp) w pre) op i a b"
    using step_moves(3) [OF inv, of fp op _ i] split(2,3) by (auto simp: approval_step_def)
  then show thesis by (rule that [OF split(1) inv])
qed

lemma statuses_differ:
  "status_granted \<noteq> status_dept_approved" "status_granted \<noteq> status_rejected" "status_granted \<noteq> status_submitted"
  "status_dept_approved \<noteq> status_granted" "status_dept_approved \<noteq> status_rejected"
  "status_dept_approved \<noteq> status_submitted"
  by (simp_all add: status_names)

lemma enters_granted:
  "enters w op i a status_granted \<Longrightarrow> a = status_dept_approved \<and>
   (\<exists>c r owner. op = DeptApprove i ''approve'' c \<and> ca_ctx_role c = role_manager \<and>
      dept_check i ''approve'' c w = Inr (r, owner, status_granted))"
  by (cases op) (auto simp: enters_def statuses_differ split: if_splits)

lemma enters_dept_approved:
  "enters w op i a status_dept_approved \<Longrightarrow> \<exists>c. op = PlatformApprove i ''approve'' c"
  by (cases op) (auto simp: enters_def statuses_differ split: if_splits)

text \<open>whatever sequence of platform and department calls is made, successful or not, the status of
  a request moves only along the transition table, and a granted request stays granted.\<close>

lemma conditional_lifecycle:
  assumes "world_inv uuid w" and "world_status w i = Some a"
  shows "\<exists>b. world_status (run_ops (approval_step uuid fp) w ops) i = Some b \<and>
    (a, b) \<in> {(a, b). assert_legal_transition a b = Inr ()}\<^sup>* \<and> (a = status_granted \<longrightarrow> b = status_granted)"
proof -
  obtain b where b: "world_status (run_ops (approval_step uuid fp) w ops) i = Some b" "(a, b) \<in> conditional_edges\<^sup>*"
    using conditional_flow.run_moves [OF assms] by blast
  moreover have "b = status_granted" if "a = status_granted"
    using conditional_flow.final_status [OF granted_is_final assms(1), of i fp ops] assms(2) b(1) that by simp
  ultimately show ?thesis unfolding conditional_edges_def by blast
qed

definition sample_application :: application_row where
  "sample_application =
     \<lparr>ap_tenant = default_card_tenant, ap_code = ''r1'', ap_status = status_submitted, ap_name = JStr ''u1'',
      ap_org = JStr ''o1'',
      ap_payload = [(''kind'', JStr ''legacy''), (''owner_org_code'', JStr ''p1''), (''applicant'', JStr ''u1'')],
      ap_created = 0\<rparr>"

definition sample_world :: approval_world where
  "sample_world = \<lparr>aw_store = \<lparr>st_apps = [sample_application], st_cases = empty_case_db, st_legacy = []\<rparr>, aw_feed = []\<rparr>"

definition sample_call :: approval_call where
  "sample_call = \<lparr>ca_now = 1, ca_role = role_manager, ca_ctx_role = role_manager, ca_user = ''u2'', ca_pipe_actor = ''m'',
     ca_org = ''p1'', ca_note = [], ca_skill = ''s'', ca_audit = ''x1''\<rparr>"

definition status_digest :: "dict \<Rightarrow> string" where
  "status_digest d = py_str (dget d ''status'')"

lemma world_sample_inv: "world_inv (\<lambda>n. replicate n CHR ''x'') sample_world"
  by (simp add: world_inv_def store_inv_def sample_world_def sample_application_def unique_on_def
      card_ids_ok_def is_runtime_request_payload_def empty_case_inv inj_def)

lemma world_sample_status: "world_status sample_world ''r1'' = Some status_submitted"
  by (simp add: world_status_def app_status_def app_of_def sample_world_def sample_application_def
      is_application_def default_card_tenant_def)

text \<open>C11: a request that was neither accepted nor granted and is granted at the end of a run went
  through both levels in this order: the platform accepted it, and later a manager of the providing
  department, who is not its applicant, approved it.\<close>

theorem grant_needs_both_levels:
  assumes "world_inv uuid w" and "world_status w i \<notin> {Some status_dept_approved, Some status_granted}"
    and "world_status (run_ops (approval_step uuid fp) w ops) i = Some status_granted"
  shows "\<exists>pre c1 mid c2 post r. ops = pre @ PlatformApprove i ''approve'' c1 # mid @ DeptApprove i ''approve'' c2 # post \<and>
    app_of (aw_store (run_ops (approval_step uuid fp) w (pre @ PlatformApprove i ''approve'' c1 # mid))) i = Some r \<and>
    ca_ctx_role c2 = role_manager \<and> owner_org_code (ap_payload r) = Inr (ca_org c2) \<and> ca_org c2 \<noteq> [] \<and>
    not_applicant r c2"
proof -
  let ?run = "run_ops (approval_step uuid fp) w"
  obtain pre2 op2 post a2 where grant: "ops = pre2 @ op2 # post" "world_inv uuid (?run pre2)"
      "world_status (?run pre2) i = Some a2" "enters (?run pre2) op2 i a2 status_granted"
    using entered_by [OF assms(1) _ assms(3)] assms(2) by blast
  obtain c2 r owner where dept: "a2 = status_dept_approved" "op2 = DeptApprove i ''approve'' c2"
      "ca_ctx_role c2 = role_manager" "dept_check i ''approve'' c2 (?run pre2) = Inr (r, owner, status_granted)"
    using enters_granted [OF grant(4)] by blast
  obtain pre op1 mid a1 where accept: "pre2 = pre @ op1 # mid" "enters (?run pre) op1 i a1 status_dept_approved"
  proof -
    have "world_status w i \<noteq> Some status_dept_approved" "world_status (?run pre2) i = Some status_dept_approved"
      using assms(2) grant(3) dept(1) by simp_all
    then show thesis by (rule entered_by [OF assms(1)]) (rule that)
  qed
  obtain c1 where "op1 = PlatformApprove i ''approve'' c1"
    using enters_dept_approved [OF accept(2)] by blast
  then have "ops = pre @ PlatformApprove i ''approve'' c1 # mid @ DeptApprove i ''approve'' c2 # post"
      "pre2 = pre @ PlatformApprove i ''approve'' c1 # mid"
    using grant(1) dept(2) accept(1) by simp_all
  moreover have "store_inv uuid (aw_store (?run pre2))"
    using grant(2) by (simp add: world_inv_def)
  ultimately show ?thesis
    using dept(3) dept_check_Inr [OF _ dept(4)] by blast
qed

theorem grant_needs_both_levels_witness:
  "\<exists>pre c1 mid c2 post.
     [PlatformApprove ''r1'' ''approve'' sample_call, DeptApprove ''r1'' ''approve'' sample_call] =
       pre @ PlatformApprove ''r1'' ''approve'' c1 # mid @ DeptApprove ''r1'' ''approve'' c2 # post \<and>
     ca_org c2 \<noteq> []"
proof -
  have "world_status sample_world ''r1'' \<notin> {Some status_dept_approved, Some status_granted}"
    by (simp add: world_sample_status status_names)
  moreover have "world_status (run_ops (approval_step (\<lambda>n. replicate n CHR ''x'') status_digest) sample_world
      [PlatformApprove ''r1'' ''approve'' sample_call, DeptApprove ''r1'' ''approve'' sample_call]) ''r1'' =
      Some status_granted"
    by code_simp
  ultimately show ?thesis
    using grant_needs_both_levels [OF world_sample_inv] by blast
qed

text \<open>The record of a decision: an audited step of the level, with the decision on it.\<close>

definition recorded :: "conditional_args \<Rightarrow> case_db \<Rightarrow> bool" where
  "recorded a db \<longleftrightarrow> (\<exists>s \<in> set (cdb_steps db). \<exists>d \<in> set (cdb_decisions db).
     audited_step s \<and> ad_step d = as_id s \<and> as_mode s = cn_mode a \<and> ad_decision d = cn_decision a \<and>
     ad_reason d = JStr (cn_reason a))"

lemma appended_recorded:
  assumes "append_conditional_step uuid now tenant code a db = Inr db'" and "cn_audit a \<noteq> []"
  shows "recorded a db'"
proof -
  obtain found where "get_case_row db tenant code = Inr found"
      "db' = write_case_step uuid found
         (\<lambda>i. new_case i tenant code (cn_status a) (next_step_no db found) (JObj []))
         (\<lambda>c. c\<lparr>ac_status := cn_status a, ac_step := next_step_no db found\<rparr>)
         (conditional_step now code a) (conditional_decision now a) db"
    using assms(1) by (auto simp: append_conditional_step_def result_simps)
  moreover have "truthy (dget (conditional_scope code a) ''audit_id'')"
    using assms(2) by (simp add: conditional_scope_def dmerge_def)
  ultimately show ?thesis
    unfolding recorded_def write_case_step_def
    by (auto simp: add_step_decision_def Let_def conditional_step_def bare_step_def
        audited_step_def conditional_decision_def bare_decision_def split: prod.split)
qed

lemma recorded_kept:
  assumes "recorded a db" and "keeps_audited db db'"
  shows "recorded a db'"
proof -
  obtain s d where s: "s \<in> set (cdb_steps db)" "d \<in> set (cdb_decisions db)" "audited_step s" "ad_step d = as_id s"
      "as_mode s = cn_mode a" "ad_decision d = cn_decision a" "ad_reason d = JStr (cn_reason a)"
    using assms(1) by (auto simp: recorded_def)
  then have "s \<in> set (cdb_steps db')" "d \<in> set (cdb_decisions db')"
    using assms(2) by (auto simp: keeps_audited_def)
  then show ?thesis
    using s unfolding recorded_def by blast
qed

lemma decide_recorded:
  assumes "world_inv uuid w" and "digest_tells_status fp" and "cn_audit step \<noteq> []"
    and "decide uuid fp i step payload status decision c w = (w', None)"
    and "world_status w i = Some a" and "a \<noteq> status"
  shows "world_status w' i = Some status \<and> recorded step (st_cases (aw_store w')) \<and>
    aw_feed w' = aw_feed w @ [(ca_skill c, i @ '':'' @ decision,
      if decision = ''approve'' then ''ok'' else ''warning'', ca_pipe_actor c)]"
proof -
  have inv: "store_inv uuid (aw_store w)" using assms(1) by (simp add: world_inv_def)
  obtain db where "append_conditional_step uuid (ca_now c) default_card_tenant i step (st_cases (aw_store w)) = Inr db"
      "keeps_audited db (st_cases (aw_store w'))"
    using decide_moves(2) [OF inv assms(4) refl] by blast
  then have "recorded step (st_cases (aw_store w'))"
    using appended_recorded assms(3) recorded_kept by blast
  then show ?thesis
    using decide_moves(3) [OF inv assms(4) refl assms(2)] assms(5,6) by (simp add: world_status_def)
qed

text \<open>a decision that reports success is complete: the status of the request is the target of the
  decision, an audited step with the decision on it is stored (the flush of the card does not undo
  it), and the feed has the entry.\<close>

lemma decision_is_complete:
  assumes "world_inv uuid w" and "digest_tells_status fp" and "ca_audit c \<noteq> []" and "d \<noteq> ''resubmit''"
    and "approval_outcome uuid fp w (DeptApprove i d c) = (w', None)"
  shows "world_status w' i = Some (if d = ''approve'' then status_granted else status_rejected) \<and>
    (\<exists>s \<in> set (cdb_steps (st_cases (aw_store w'))). \<exists>x \<in> set (cdb_decisions (st_cases (aw_store w'))).
       audited_step s \<and> ad_step x = as_id s \<and> as_mode s = ''department'' \<and>
       ad_decision x = decision_word d \<and> ad_reason x = JStr (ca_note c)) \<and>
    aw_feed w' = aw_feed w @ [(ca_skill c, i @ '':'' @ d, if d = ''approve'' then ''ok'' else ''warning'', ca_pipe_actor c)]"
proof -
  have "dept_approve uuid fp i d c w = (w', None)"
    using assms(4,5) by (simp add: approval_outcome_def handle_dept_approve_def split: if_splits)
  from dept_runs [OF this] obtain r owner target name where
    run: "dept_check i d c w = Inr (r, owner, target)"
      "decide uuid fp i (dept_step owner name c d target) (dept_payload c d (ap_payload r)) target d c w = (w', None)"
    by blast
  have check: "app_of (aw_store w) i = Some r" "ap_status r = status_dept_approved"
      "target = (if d = ''approve'' then status_granted else status_rejected)"
    using dept_check_Inr [OF _ run(1), of uuid] assms(1) by (simp_all add: world_inv_def)
  have "world_status w i = Some status_dept_approved" "status_dept_approved \<noteq> target"
    using check by (simp_all add: world_status_def app_status_def statuses_differ)
  from decide_recorded [OF assms(1,2) _ run(2) this] assms(3)
  have "world_status w' i = Some target" "recorded (dept_step owner name c d target) (st_cases (aw_store w'))"
    "aw_feed w' = aw_feed w @ [(ca_skill c, i @ '':'' @ d, if d = ''approve'' then ''ok'' else ''warning'', ca_pipe_actor c)]"
    by (simp_all add: dept_step_def)
  then show ?thesis
    unfolding check(3) recorded_def by (simp add: dept_step_def)
qed

lemma status_digest_tells: "digest_tells_status status_digest"
  by (simp add: digest_tells_status_def status_digest_def dget_def)

lemma sample_accepted:
  "\<exists>w. fst (approval_outcome (\<lambda>n. replicate n CHR ''x'') status_digest sample_world
     (PlatformApprove ''r1'' ''approve'' sample_call)) = w \<and> world_inv (\<lambda>n. replicate n CHR ''x'') w"
  using step_moves(1) [OF world_sample_inv] by (simp add: approval_step_def)

end
