(* ===== verification/Actions.thy ===== *)
theory Actions
  imports Prelude
begin

text \<open>
  Computations that change a state and may raise. A raised exception keeps the state it left
  behind: nothing is rolled back, as in the Python code, where every transaction commits on its own.
\<close>

named_theorems act_simps \<open>evaluation of computations that change a state and may raise\<close>

text \<open>A Python exception: its class name and its text.\<close>

record exn =
  ex_class :: string
  ex_text :: string

definition mk_exn :: "string \<Rightarrow> string \<Rightarrow> exn" where
  "mk_exn c t = \<lparr>ex_class = c, ex_text = t\<rparr>"

lemma ex_class_mk [simp]: "ex_class (mk_exn c t) = c" "ex_text (mk_exn c t) = t"
  by (simp_all add: mk_exn_def)

type_synonym ('a, 's) act = "'s \<Rightarrow> (exn + 'a) \<times> 's"

definition retA :: "'a \<Rightarrow> ('a, 's) act" where "retA x s = (Inr x, s)"

definition throwA :: "exn \<Rightarrow> ('a, 's) act" where "throwA e s = (Inl e, s)"

definition bindA :: "('a, 's) act \<Rightarrow> ('a \<Rightarrow> ('b, 's) act) \<Rightarrow> ('b, 's) act" where
  "bindA m f s = (case m s of (Inl e, s') \<Rightarrow> (Inl e, s') | (Inr x, s') \<Rightarrow> f x s')"

text \<open>\<^verbatim>\<open>try: x = m() except Exception as e: h(e)\<close> and then \<^verbatim>\<open>f(x)\<close>, outside the try.\<close>

definition tryA :: "('a, 's) act \<Rightarrow> (exn \<Rightarrow> ('b, 's) act) \<Rightarrow> ('a \<Rightarrow> ('b, 's) act) \<Rightarrow> ('b, 's) act" where
  "tryA m h f s = (case m s of (Inl e, s') \<Rightarrow> h e s' | (Inr x, s') \<Rightarrow> f x s')"

definition modifyA :: "('s \<Rightarrow> 's) \<Rightarrow> (unit, 's) act" where "modifyA f s = (Inr (), f s)"

definition getA :: "('s \<Rightarrow> 'a) \<Rightarrow> ('a, 's) act" where "getA f s = (Inr (f s), s)"

definition liftE :: "('e \<Rightarrow> exn) \<Rightarrow> 'e + 'a \<Rightarrow> ('a, 's) act" where
  "liftE h m s = (case m of Inl e \<Rightarrow> (Inl (h e), s) | Inr x \<Rightarrow> (Inr x, s))"

lemma act_ret [act_simps]: "bindA (retA x) f = f x" "tryA (retA x) h f = f x"
  by (simp_all add: fun_eq_iff bindA_def tryA_def retA_def)

lemma act_throw [act_simps]: "bindA (throwA e) f = throwA e" "tryA (throwA e) h f = h e"
  by (simp_all add: fun_eq_iff bindA_def tryA_def throwA_def)

lemma bindA_assoc: "bindA (bindA m f) g = bindA m (\<lambda>x. bindA (f x) g)"
  by (auto simp: fun_eq_iff bindA_def split: prod.splits sum.splits)

lemma act_apply [act_simps]:
  "retA x s = (Inr x, s)" "throwA e s = (Inl e, s)" "modifyA f s = (Inr (), f s)" "getA g s = (Inr (g s), s)"
  by (simp_all add: retA_def throwA_def modifyA_def getA_def)

lemma bindA_Inr [act_simps]: "m s = (Inr x, s') \<Longrightarrow> bindA m f s = f x s'"
  and bindA_Inl [act_simps]: "m s = (Inl e, s') \<Longrightarrow> bindA m f s = (Inl e, s')"
  and tryA_Inr [act_simps]: "m s = (Inr x, s') \<Longrightarrow> tryA m h g s = g x s'"
  and tryA_Inl [act_simps]: "m s = (Inl e, s') \<Longrightarrow> tryA m h g s = h e s'"
  by (simp_all add: bindA_def tryA_def)

lemma bindA_cases:
  assumes "bindA m f s = (r, t)"
  obtains (raised) e where "m s = (Inl e, t)" "r = Inl e"
    | (returned) x s' where "m s = (Inr x, s')" "f x s' = (r, t)"
  using assms by (cases "m s") (auto simp: bindA_def split: sum.splits)

lemma bindA_Inr_iff: "bindA m f s = (Inr y, t) \<longleftrightarrow> (\<exists>x u. m s = (Inr x, u) \<and> f x u = (Inr y, t))"
  by (cases "m s") (auto simp: bindA_def split: sum.splits)

lemma tryA_cases:
  assumes "tryA m h f s = (r, t)"
  obtains (raised) e s' where "m s = (Inl e, s')" "h e s' = (r, t)"
    | (returned) x s' where "m s = (Inr x, s')" "f x s' = (r, t)"
  using assms by (cases "m s") (auto simp: tryA_def split: sum.splits)

text \<open>A relation between the states before and after that every step of a computation keeps.\<close>

definition relA :: "('s \<Rightarrow> 's \<Rightarrow> bool) \<Rightarrow> ('a, 's) act \<Rightarrow> bool" where
  "relA R m \<longleftrightarrow> (\<forall>s. R s (snd (m s)))"

lemma relA_bind:
  assumes "relA R m" and "\<And>x. relA R (f x)" and "\<And>a b c. R a b \<Longrightarrow> R b c \<Longrightarrow> R a c"
  shows "relA R (bindA m f)"
  unfolding relA_def
proof
  fix s
  obtain r s' where m: "m s = (r, s')" by fastforce
  have "R s s'" using assms(1) m by (metis relA_def snd_conv)
  then show "R s (snd (bindA m f s))"
    using assms(2) m by (cases r) (auto simp: bindA_def relA_def intro: assms(3))
qed

lemma relA_try:
  assumes "relA R m" and "\<And>e. relA R (h e)" and "\<And>x. relA R (f x)"
    and "\<And>a b c. R a b \<Longrightarrow> R b c \<Longrightarrow> R a c"
  shows "relA R (tryA m h f)"
  unfolding relA_def
proof
  fix s
  obtain r s' where m: "m s = (r, s')" by fastforce
  have "R s s'" using assms(1) m by (metis relA_def snd_conv)
  then show "R s (snd (tryA m h f s))"
    using assms(2,3) m by (cases r) (auto simp: tryA_def relA_def intro: assms(4))
qed

lemma relA_throw: "(\<And>s. R s s) \<Longrightarrow> relA R (throwA e)"
  and relA_ret: "(\<And>s. R s s) \<Longrightarrow> relA R (retA x)"
  and relA_modify: "(\<And>s. R s (f s)) \<Longrightarrow> relA R (modifyA f)"
  by (simp_all add: relA_def act_simps)

text \<open>The same at one state, where the rest may use what the first part returned there.\<close>

lemma rel_bind_at:
  assumes "R s (snd (m s))" and "\<And>x s'. m s = (Inr x, s') \<Longrightarrow> R s' (snd (f x s'))"
    and "\<And>a b c. R a b \<Longrightarrow> R b c \<Longrightarrow> R a c"
  shows "R s (snd (bindA m f s))"
proof -
  obtain r s' where m: "m s = (r, s')" by fastforce
  then show ?thesis
    using assms(1) assms(2) by (cases r) (auto simp: bindA_def intro: assms(3))
qed

end
