(* ===== verification/AuditTrail.thy ===== *)
theory AuditTrail
  imports Actions Policy SafeJson
begin

text \<open>
  \<^verbatim>\<open>command/pipeline_ops.py\<close>, the audit bus \<^verbatim>\<open>shared/audit/__init__.py\<close> and the tables of
  \<^verbatim>\<open>shared/database_store.py\<close> they write: audit events, capability calls and the outbox of
  blockchain anchors. Every write is one transaction, and any transaction may fail: the argument
  \<open>pe_fault\<close> decides which ones do. The clock, the audit ids, the manifests, the digest and the
  authenticated identity are arguments too.
\<close>

section \<open>Audit classes\<close>

definition canonical_audit_classes :: "string list" where
  "canonical_audit_classes = [''write-critical'', ''write-normal'', ''read-sensitive'']"

definition audit_class_map :: "(string \<times> string) list" where
  "audit_class_map =
     [(''write-critical'', ''write-critical''), (''write-normal'', ''write-normal''),
      (''write-default'', ''write-normal''), (''adapter-write'', ''write-critical''),
      (''external-execution'', ''write-critical''), (''read-sensitive'', ''read-sensitive''),
      (''read-default'', ''read-sensitive''), (''read-normal'', ''read-sensitive''),
      (''read-trace'', ''read-sensitive''), (''read'', ''read-sensitive'')]"

text \<open>A value that cannot be a dictionary key makes the lookup raise.\<close>

definition normalize_audit_class :: "json \<Rightarrow> py_error + string" where
  "normalize_audit_class raw =
     (if \<not> truthy raw then Inr ''read-sensitive''
      else if \<not> hashable raw then Inl TypeError
      else Inr (case raw of
                  JStr s \<Rightarrow> (case map_of audit_class_map s of Some c \<Rightarrow> c | None \<Rightarrow> ''read-sensitive'')
                | _ \<Rightarrow> ''read-sensitive''))"

section \<open>Tables\<close>

record audit_event =
  ae_request :: string
  ae_actor :: string
  ae_skill :: string
  ae_phase :: string
  ae_payload :: dict
  ae_at :: nat

record call_row =
  cc_ref :: string
  cc_tenant :: string
  cc_skill :: string
  cc_actor :: string
  cc_role :: string
  cc_status :: string
  cc_request :: string
  cc_input :: json
  cc_output :: json
  cc_started :: nat
  cc_completed :: nat

record outbox_row =
  ob_request :: string
  ob_skill :: string
  ob_hash :: string
  ob_chain :: string
  ob_delivered :: bool
  ob_claimed :: "nat option"
  ob_created :: nat

record auth_context =
  au_username :: string
  au_bypass :: bool

text \<open>What a call works on: the business state, the tables, the buffer of the bus and the log.\<close>

record 'st pipe_world =
  pw_state :: 'st
  pw_events :: "audit_event list"
  pw_buffer :: "audit_event list"
  pw_calls :: "call_row list"
  pw_outbox :: "outbox_row list"
  pw_log :: "(string \<times> string \<times> string \<times> string) list"
  pw_next :: nat
  pw_ticks :: nat
  pw_now :: nat

record 'st pipe_env =
  pe_fault :: "nat \<Rightarrow> exn option"
  pe_sink :: bool
  pe_database :: bool
  pe_audit_id :: "nat \<Rightarrow> string"
  pe_auth :: "auth_context option"
  pe_manifest :: "string \<Rightarrow> dict option"
  pe_digest :: "json \<Rightarrow> string"
  pe_tenant :: string
  pe_persist :: "'st \<Rightarrow> exn option \<times> 'st"
  pe_aggregates :: "'st \<Rightarrow> exn option \<times> 'st"

text \<open>One transaction: it fails as a whole or takes effect.\<close>

definition transaction :: "'st pipe_env \<Rightarrow> ('a, 'st pipe_world) act \<Rightarrow> ('a, 'st pipe_world) act" where
  "transaction env m w =
     (let w1 = w\<lparr>pw_ticks := Suc (pw_ticks w)\<rparr>
      in case pe_fault env (pw_ticks w) of
           Some e \<Rightarrow> (Inl e, w1)
         | None \<Rightarrow> (case m w1 of (Inl e, w2) \<Rightarrow> (Inl e, w1) | (Inr x, w2) \<Rightarrow> (Inr x, w2)))"

definition py_exn :: "py_error \<Rightarrow> exn" where
  "py_exn e = (case e of
       KeyError k \<Rightarrow> mk_exn ''KeyError'' k
     | TypeError \<Rightarrow> mk_exn ''TypeError'' []
     | AttributeError \<Rightarrow> mk_exn ''AttributeError'' []
     | StopIteration \<Rightarrow> mk_exn ''StopIteration'' []
     | OverflowError \<Rightarrow> mk_exn ''OverflowError'' []
     | ValueError \<Rightarrow> mk_exn ''ValueError'' [])"

definition unique_violation :: exn where "unique_violation = mk_exn ''IntegrityError'' []"

section \<open>The bus\<close>

definition append_audit_event ::
    "'st pipe_env \<Rightarrow> string \<Rightarrow> string \<Rightarrow> string \<Rightarrow> string \<Rightarrow> dict \<Rightarrow> (unit, 'st pipe_world) act" where
  "append_audit_event env request actor skill phase payload =
     transaction env (modifyA (\<lambda>w. w\<lparr>pw_events := pw_events w @
       [\<lparr>ae_request = request, ae_actor = actor, ae_skill = skill, ae_phase = phase,
         ae_payload = (case safe_json (JObj payload) of JObj d \<Rightarrow> d | _ \<Rightarrow> []), ae_at = pw_now w\<rparr>]\<rparr>))"

definition audit_write_error :: "string \<Rightarrow> exn" where "audit_write_error t = mk_exn ''AuditWriteError'' t"

definition emit_event ::
    "'st pipe_env \<Rightarrow> string \<Rightarrow> string \<Rightarrow> string \<Rightarrow> string \<Rightarrow> dict \<Rightarrow> (unit, 'st pipe_world) act" where
  "emit_event env request actor skill phase payload =
     (if request = [] \<or> actor = [] \<or> skill = []
      then throwA (audit_write_error ''audit_event missing required fields (request_id/actor/skill_id)'')
      else if \<not> pe_sink env then throwA (audit_write_error ''durable audit sink is not configured'')
      else
        let raw = dget payload ''audit_class''
        in bindA (liftE py_exn (normalize_audit_class raw)) (\<lambda>normalized.
           let enriched1 = dset payload ''audit_class'' (JStr normalized);
               enriched = (if truthy raw \<and> raw \<noteq> JStr normalized
                           then dsetdefault enriched1 ''original_audit_class'' raw else enriched1)
           in tryA (append_audit_event env request actor skill phase enriched)
                (\<lambda>e. throwA (audit_write_error (ex_text e)))
                (\<lambda>_. modifyA (\<lambda>w. w\<lparr>pw_buffer := pw_buffer w @
                   [\<lparr>ae_request = request, ae_actor = actor, ae_skill = skill, ae_phase = phase,
                     ae_payload = enriched, ae_at = pw_now w\<rparr>]\<rparr>))))"

definition drain :: "('st pipe_world \<Rightarrow> audit_event list \<times> 'st pipe_world)" where
  "drain w = (pw_buffer w, w\<lparr>pw_buffer := []\<rparr>)"

section \<open>Payloads of events\<close>

definition default_decision_reason :: "string \<Rightarrow> dict \<Rightarrow> string" where
  "default_decision_reason phase payload =
     py_str (first_of [dget payload ''decision_reason'', dget payload ''decision'', dget payload ''error'', JStr phase])"

definition target_ref_keys :: "string list" where
  "target_ref_keys =
     [''dispute_id'', ''request_id'', ''task_id'', ''package_id'', ''resource_id'', ''catalog_id'',
      ''catalog_code'', ''resource_code'', ''service_id'', ''zone_id'', ''target_ref'', ''id'']"

definition default_target_ref :: "string \<Rightarrow> dict \<Rightarrow> string" where
  "default_target_ref request payload =
     (case filter truthy (map (dget payload) target_ref_keys) of [] \<Rightarrow> request | v # _ \<Rightarrow> py_str v)"

definition snapshot_of_actor :: "string \<Rightarrow> dict" where
  "snapshot_of_actor actor =
     (let parts = split_on CHR '':'' actor
      in (''actor'', JStr actor) #
         (if length parts \<ge> 3 \<and> take 2 parts = [''user'', ''gov''] then [(''role_code'', JStr (parts ! 2))] else []))"

definition bypassed :: "'st pipe_env \<Rightarrow> bool" where
  "bypassed env \<longleftrightarrow> (case pe_auth env of None \<Rightarrow> False | Some a \<Rightarrow> au_bypass a)"

definition audit_payload ::
    "'st pipe_env \<Rightarrow> dict \<Rightarrow> string \<Rightarrow> string \<Rightarrow> string \<Rightarrow> string \<Rightarrow> dict \<Rightarrow> dict" where
  "audit_payload env manifest request actor skill phase payload =
     (let p0 = (case safe_json (JObj payload) of JObj d \<Rightarrow> d | _ \<Rightarrow> []);
          snapshot0 = (case dget p0 ''actor_snapshot'' of
                         JObj (x # d) \<Rightarrow> x # d
                       | _ \<Rightarrow> snapshot_of_actor actor);
          snapshot = (if bypassed env then dset snapshot0 ''development_iam_bypass'' (JBool True) else snapshot0);
          p1 = (if bypassed env then dset p0 ''development_iam_bypass'' (JBool True) else p0);
          p2 = dset p1 ''skill_id'' (JStr skill);
          p3 = dset p2 ''source'' (first_of [dget payload ''source'', dget p2 ''source'', JStr ''in_process'']);
          p4 = dset p3 ''audit_class'' (py_or (dget p3 ''audit_class'') (dget manifest ''audit_class''));
          p5 = dset p4 ''actor_snapshot'' (JObj snapshot);
          p6 = dset p5 ''policy_version'' (py_or (dget p5 ''policy_version'') (dget manifest ''version''));
          p7 = dset p6 ''decision_reason'' (py_or (dget p6 ''decision_reason'') (JStr (default_decision_reason phase payload)))
      in dset p7 ''target_ref'' (py_or (dget p7 ''target_ref'') (JStr (default_target_ref request payload))))"

definition emit_audit ::
    "'st pipe_env \<Rightarrow> string \<Rightarrow> string \<Rightarrow> string \<Rightarrow> string \<Rightarrow> dict \<Rightarrow> (unit, 'st pipe_world) act" where
  "emit_audit env request actor skill phase payload =
     (case pe_manifest env skill of
        None \<Rightarrow> throwA (mk_exn ''KeyError'' skill)
      | Some manifest \<Rightarrow>
          emit_event env request actor skill phase (audit_payload env manifest request actor skill phase payload))"

section \<open>Capability calls and anchors\<close>

definition append_capability_call :: "'st pipe_env \<Rightarrow> call_row \<Rightarrow> (unit, 'st pipe_world) act" where
  "append_capability_call env row =
     transaction env (bindA (getA (\<lambda>w. cc_ref row \<in> set (map cc_ref (pw_calls w)))) (\<lambda>taken.
       if taken then throwA unique_violation else modifyA (\<lambda>w. w\<lparr>pw_calls := pw_calls w @ [row]\<rparr>)))"

definition record_capability_call ::
    "'st pipe_env \<Rightarrow> string \<Rightarrow> string \<Rightarrow> string \<Rightarrow> string \<Rightarrow> dict \<Rightarrow> dict \<Rightarrow> nat \<Rightarrow> string \<Rightarrow> (unit, 'st pipe_world) act" where
  "record_capability_call env audit actor role skill payload result started status =
     (if \<not> pe_database env then retA ()
      else bindA (getA pw_now) (\<lambda>now. append_capability_call env
        \<lparr>cc_ref = audit, cc_tenant = py_str (dget_or payload ''tenant_id'' (JStr ''sd-default'')), cc_skill = skill,
         cc_actor = actor, cc_role = role, cc_status = status, cc_request = default_target_ref audit payload,
         cc_input = safe_json (JObj payload), cc_output = safe_json (JObj result), cc_started = started,
         cc_completed = now\<rparr>))"

definition append_anchor_outbox ::
    "'st pipe_env \<Rightarrow> string \<Rightarrow> string \<Rightarrow> string \<Rightarrow> string \<Rightarrow> (unit, 'st pipe_world) act" where
  "append_anchor_outbox env request skill hash chain =
     transaction env (bindA (getA (\<lambda>w. hash \<in> set (map ob_hash (pw_outbox w)))) (\<lambda>taken.
       if taken then throwA unique_violation
       else modifyA (\<lambda>w. w\<lparr>pw_outbox := pw_outbox w @
              [\<lparr>ob_request = request, ob_skill = skill, ob_hash = hash, ob_chain = chain, ob_delivered = False,
                ob_claimed = None, ob_created = pw_now w\<rparr>]\<rparr>)))"

definition anchor_content :: "string \<Rightarrow> string \<Rightarrow> string \<Rightarrow> dict \<Rightarrow> json" where
  "anchor_content request actor skill payload =
     JObj [(''request_id'', JStr request), (''actor'', JStr actor), (''skill_id'', JStr skill),
           (''payload'', safe_json (JObj payload))]"

definition enqueue_anchor ::
    "'st pipe_env \<Rightarrow> string \<Rightarrow> string \<Rightarrow> string \<Rightarrow> dict \<Rightarrow> (unit, 'st pipe_world) act" where
  "enqueue_anchor env request actor skill payload =
     (if \<not> pe_database env then retA ()
      else append_anchor_outbox env request skill (pe_digest env (anchor_content request actor skill payload)) ''mock-chain'')"

section \<open>The feed\<close>

definition derive_audit_result :: "string \<Rightarrow> dict \<Rightarrow> string" where
  "derive_audit_result phase payload =
     (if phase = ''error'' then ''failed''
      else if dget payload ''error'' \<noteq> JNull then ''failed''
      else if dget payload ''outcome'' = JStr ''denied'' then ''failed''
      else if dget payload ''decision'' \<in> JStr ` {''reject'', ''rejected'', ''deny'', ''denied''} then ''failed''
      else ''ok'')"

definition derive_audit_chain :: "string \<Rightarrow> string" where
  "derive_audit_chain result = (if result \<noteq> ''failed'' then ''pending'' else ''n/a'')"

definition feed_row :: "string \<Rightarrow> string \<Rightarrow> string \<Rightarrow> string \<Rightarrow> string \<Rightarrow> string \<Rightarrow> dict" where
  "feed_row i time event target result actor =
     [(''id'', JStr i), (''time'', JStr time), (''actor'', JStr actor), (''type'', JStr event),
      (''target'', JStr target), (''result'', JStr result), (''chain'', JStr (derive_audit_chain result))]"

end
