(* ===== verification/Pipeline.thy ===== *)
theory Pipeline
  imports AuditTrail
begin

text \<open>
  \<^verbatim>\<open>command/pipeline.py\<close>: the chain of middlewares every skill runs through. A middleware takes
  the rest of the chain; the context it passes on is mutable, so it is part of the state. The
  innermost function is the handler's. The write lock serialises writes: a run is one call after
  another. What the handler does, and what the flush of the cards and the synchronisation of the
  snapshot do to the business state, are arguments.
\<close>

section \<open>Contexts\<close>

record skill_context =
  sk_skill :: string
  sk_role :: string
  sk_confirmed :: bool
  sk_manifest :: dict
  sk_source :: string

record pipe_context =
  pc_skill :: skill_context
  pc_payload :: dict
  pc_write :: bool
  pc_audit :: string
  pc_actor :: string
  pc_started :: nat

type_synonym 'st pipe_state = "pipe_context \<times> 'st pipe_world"
type_synonym 'st continuation = "(json, 'st pipe_state) act"
type_synonym 'st middleware = "'st continuation \<Rightarrow> 'st continuation"
type_synonym 'st handler = "string \<Rightarrow> string \<Rightarrow> (json, 'st pipe_world) act"

text \<open>A computation on the world, run in the chain.\<close>

definition worldA :: "('a, 'st pipe_world) act \<Rightarrow> ('a, 'st pipe_state) act" where
  "worldA m s = (case s of (p, w) \<Rightarrow> (case m w of (r, w') \<Rightarrow> (r, (p, w'))))"

definition contextA :: "(pipe_context \<Rightarrow> 'a) \<Rightarrow> ('a, 'st pipe_state) act" where
  "contextA f s = (Inr (f (fst s)), s)"

lemma worldA_eq [act_simps]: "m w = (r, w') \<Longrightarrow> worldA m (p, w) = (r, (p, w'))"
  by (simp add: worldA_def)

section \<open>Identity and policy\<close>

definition policy_message :: "policy_error \<Rightarrow> string" where
  "policy_message e =
     (case e of
        UnknownRole r \<Rightarrow> ''unknown role: '' @ r
      | TenantViolation skill t \<Rightarrow> ''tenant scope violation for '' @ skill @ '': '' @ py_str t
      | LacksPermissions role skill ps \<Rightarrow>
          ''role '' @ role @ '' lacks permissions for '' @ skill @ '': '' @ join_sep '', '' ps
      | _ \<Rightarrow> [])"

definition access_denied :: "policy_error \<Rightarrow> exn" where
  "access_denied e = (case e of PolicyPy p \<Rightarrow> py_exn p | _ \<Rightarrow> mk_exn ''AccessDeniedError'' (policy_message e))"

definition pipe_actor :: "'st pipe_env \<Rightarrow> string \<Rightarrow> policy_error + string" where
  "pipe_actor env role =
     bindE (actor_for_role role) (\<lambda>actor. Inr (if bypassed env then actor @ ''[bypass]'' else actor))"

definition new_audit_id :: "'st pipe_env \<Rightarrow> (string, 'st pipe_world) act" where
  "new_audit_id env w = (Inr (pe_audit_id env (pw_next w)), w\<lparr>pw_next := Suc (pw_next w)\<rparr>)"

definition deny_payload :: "string \<Rightarrow> string \<Rightarrow> dict \<Rightarrow> dict" where
  "deny_payload skill reason payload =
     dmerge payload [(''decision'', JStr ''deny''), (''decision_reason'', JStr reason),
       (''outcome'', JStr ''denied''), (''attempted_skill_id'', JStr skill)]"

definition emit_deny_audit ::
    "'st pipe_env \<Rightarrow> string \<Rightarrow> string \<Rightarrow> dict \<Rightarrow> string \<Rightarrow> (unit, 'st pipe_world) act" where
  "emit_deny_audit env skill role payload reason =
     bindA (liftE access_denied (pipe_actor env role)) (\<lambda>actor.
     bindA (new_audit_id env) (\<lambda>audit.
       emit_audit env audit actor skill ''error'' (deny_payload skill reason payload)))"

text \<open>A refusal is audited; a failure to audit it does not turn the refusal into another error.\<close>

definition enforce_policy ::
    "'st pipe_env \<Rightarrow> string \<Rightarrow> dict \<Rightarrow> string \<Rightarrow> dict \<Rightarrow> (unit, 'st pipe_world) act" where
  "enforce_policy env skill manifest role payload =
     (case enforce_manifest_policy (pe_tenant env) skill manifest role payload of
        Inr u \<Rightarrow> retA ()
      | Inl (PolicyPy e) \<Rightarrow> throwA (py_exn e)
      | Inl e \<Rightarrow> tryA (emit_deny_audit env skill role payload (policy_message e))
                  (\<lambda>_. throwA (access_denied e)) (\<lambda>_. throwA (access_denied e)))"

section \<open>The middlewares\<close>

definition call_log_line :: "'st pipe_env \<Rightarrow> string \<Rightarrow> (unit, 'st pipe_state) act" where
  "call_log_line env outcome s =
     (case s of (p, w) \<Rightarrow>
        let actor = (if pc_actor p \<noteq> [] then pc_actor p
                     else case pe_auth env of Some a \<Rightarrow> au_username a | None \<Rightarrow> [])
        in (Inr (), (p, w\<lparr>pw_log := pw_log w @ [(sk_skill (pc_skill p), outcome, pc_audit p, actor)]\<rparr>)))"

definition capability_log_mw :: "'st pipe_env \<Rightarrow> 'st middleware" where
  "capability_log_mw env rest =
     tryA rest (\<lambda>e. bindA (call_log_line env (''error:'' @ ex_class e)) (\<lambda>_. throwA e))
       (\<lambda>r. bindA (call_log_line env ''ok'') (\<lambda>_. retA r))"

definition policy_mw :: "'st pipe_env \<Rightarrow> 'st middleware" where
  "policy_mw env rest =
     bindA (contextA id) (\<lambda>p. let sk = pc_skill p in
       if pc_write p
       then bindA (worldA (enforce_policy env (sk_skill sk) (sk_manifest sk) (sk_role sk)
                     (dmerge (pc_payload p) [(''confirmed'', JBool (sk_confirmed sk))]))) (\<lambda>_.
            if truthy (dget (sk_manifest sk) ''human_confirmation_required'') \<and> \<not> sk_confirmed sk
            then throwA (mk_exn ''ConfirmationRequiredError'' (sk_skill sk)) else rest)
       else rest)"

definition identity_mw :: "'st pipe_env \<Rightarrow> 'st middleware" where
  "identity_mw env rest =
     bindA (contextA (\<lambda>p. sk_role (pc_skill p))) (\<lambda>role.
     bindA (liftE access_denied (pipe_actor env role)) (\<lambda>actor.
     bindA (modifyA (\<lambda>(p, w). (p\<lparr>pc_actor := actor\<rparr>, w))) (\<lambda>_.
     bindA (worldA (new_audit_id env)) (\<lambda>audit.
     bindA (modifyA (\<lambda>(p, w). (p\<lparr>pc_audit := audit, pc_started := pw_now w\<rparr>, w))) (\<lambda>_. rest)))))"

text \<open>An exception as the dictionary that is recorded for it.\<close>

definition error_payload :: "exn \<Rightarrow> dict" where
  "error_payload e = [(''error'', JStr (ex_class e)), (''message'', JStr (ex_text e))]"

definition result_payload :: "json \<Rightarrow> dict" where
  "result_payload r = (case r of JObj d \<Rightarrow> d | _ \<Rightarrow> [(''result'', r)])"

text \<open>The calling surface is stamped on every phase whose payload does not name one.\<close>

definition with_source :: "skill_context \<Rightarrow> dict \<Rightarrow> dict" where
  "with_source sk payload =
     (if sk_source sk \<noteq> [] \<and> map_of payload ''source'' = None
      then dset payload ''source'' (JStr (sk_source sk)) else payload)"

definition emit_phase :: "'st pipe_env \<Rightarrow> string \<Rightarrow> dict \<Rightarrow> (unit, 'st pipe_state) act" where
  "emit_phase env phase payload =
     bindA (contextA id) (\<lambda>p. let sk = pc_skill p in
       worldA (emit_audit env (pc_audit p) (pc_actor p) (sk_skill sk) phase (with_source sk payload)))"

definition audit_emit_mw :: "'st pipe_env \<Rightarrow> 'st middleware" where
  "audit_emit_mw env rest =
     bindA (contextA pc_payload) (\<lambda>payload.
     bindA (emit_phase env ''before'' payload) (\<lambda>_.
       tryA rest
         (\<lambda>e. bindA (emit_phase env ''error'' (error_payload e)) (\<lambda>_. throwA e))
         (\<lambda>r. bindA (emit_phase env ''after'' (result_payload r)) (\<lambda>_. retA r))))"

definition record_call :: "'st pipe_env \<Rightarrow> dict \<Rightarrow> string \<Rightarrow> (unit, 'st pipe_state) act" where
  "record_call env result status =
     bindA (contextA id) (\<lambda>p.
       worldA (record_capability_call env (pc_audit p) (pc_actor p) (sk_role (pc_skill p))
         (sk_skill (pc_skill p)) (pc_payload p) result (pc_started p) status))"

definition capability_call_mw :: "'st pipe_env \<Rightarrow> 'st middleware" where
  "capability_call_mw env rest =
     tryA rest
       (\<lambda>e. bindA (record_call env (error_payload e) ''failed'') (\<lambda>_. throwA e))
       (\<lambda>r. bindA (record_call env (result_payload r) ''succeeded'') (\<lambda>_. retA r))"

text \<open>A change of the business state that may raise, and then has changed it in part.\<close>

definition stateA :: "('st \<Rightarrow> exn option \<times> 'st) \<Rightarrow> (unit, 'st pipe_world) act" where
  "stateA f w = (case f (pw_state w) of
      (None, st) \<Rightarrow> (Inr (), w\<lparr>pw_state := st\<rparr>) | (Some e, st) \<Rightarrow> (Inl e, w\<lparr>pw_state := st\<rparr>))"

definition persist_mw :: "'st pipe_env \<Rightarrow> 'st middleware" where
  "persist_mw env rest =
     bindA rest (\<lambda>r. bindA (contextA pc_write) (\<lambda>write.
       if write then bindA (worldA (stateA (pe_persist env))) (\<lambda>_. retA r) else retA r))"

definition anchor_mw :: "'st pipe_env \<Rightarrow> 'st middleware" where
  "anchor_mw env rest =
     bindA rest (\<lambda>r. bindA (contextA id) (\<lambda>p.
       if pc_write p \<and> truthy (dget (sk_manifest (pc_skill p)) ''side_effects'')
       then tryA (bindA (worldA (stateA (pe_aggregates env))) (\<lambda>_.
                    worldA (enqueue_anchor env (pc_audit p) (pc_actor p) (sk_skill (pc_skill p))
                      (dmerge (pc_payload p) (result_payload r)))))
              (\<lambda>_. retA r) (\<lambda>_. retA r)
       else retA r))"

section \<open>The chain\<close>

definition default_middlewares :: "'st pipe_env \<Rightarrow> 'st middleware list" where
  "default_middlewares env =
     [capability_log_mw env, policy_mw env, identity_mw env, audit_emit_mw env, capability_call_mw env,
      persist_mw env, anchor_mw env]"

definition innermost :: "'st handler \<Rightarrow> 'st continuation" where
  "innermost fn = bindA (contextA id) (\<lambda>p. worldA (fn (pc_audit p) (pc_actor p)))"

definition pipe_chain :: "'st middleware list \<Rightarrow> 'st handler \<Rightarrow> 'st continuation" where
  "pipe_chain mws fn = foldr (\<lambda>mw rest. mw rest) mws (innermost fn)"

definition fresh_context :: "skill_context \<Rightarrow> dict \<Rightarrow> bool \<Rightarrow> pipe_context" where
  "fresh_context sk payload write =
     \<lparr>pc_skill = sk, pc_payload = payload, pc_write = write, pc_audit = [], pc_actor = [], pc_started = 0\<rparr>"

definition envelope :: "pipe_context \<Rightarrow> json \<Rightarrow> json" where
  "envelope p r = JObj [(''ok'', JBool True), (''skill_id'', JStr (sk_skill (pc_skill p))),
     (''audit_id'', JStr (pc_audit p)), (''result'', r)]"

definition run_write ::
    "'st pipe_env \<Rightarrow> skill_context \<Rightarrow> dict \<Rightarrow> 'st handler \<Rightarrow> (json, 'st pipe_world) act" where
  "run_write env sk payload fn w =
     (case pipe_chain (default_middlewares env) fn (fresh_context sk payload True, w) of
        (Inl e, (p, w')) \<Rightarrow> (Inl e, w')
      | (Inr r, (p, w')) \<Rightarrow> (Inr (envelope p r), w'))"

definition run_read ::
    "'st pipe_env \<Rightarrow> skill_context \<Rightarrow> dict \<Rightarrow> 'st handler \<Rightarrow> (json, 'st pipe_world) act" where
  "run_read env sk payload fn w =
     (case pipe_chain (default_middlewares env) fn (fresh_context sk payload False, w) of
        (r, (p, w')) \<Rightarrow> (r, w'))"

definition run_traced_read ::
    "'st pipe_env \<Rightarrow> skill_context \<Rightarrow> dict \<Rightarrow> (json, 'st pipe_world) act \<Rightarrow> (json, 'st pipe_world) act" where
  "run_traced_read env sk payload operation =
     (if \<not> pe_database env then operation else run_read env sk payload (\<lambda>_ _. operation))"

end
