(* ===== verification/PipelineSafe.thy ===== *)
theory PipelineSafe
  imports Pipeline
begin

text \<open>
  What the chain guarantees: no handler runs before its event is stored, and a refused call changes
  nothing.
\<close>

section \<open>No handler without its event\<close>

definition announced :: "string \<Rightarrow> string \<Rightarrow> string \<Rightarrow> 'st pipe_world \<Rightarrow> bool" where
  "announced skill audit actor w \<longleftrightarrow>
     (\<exists>ev \<in> set (pw_events w). ae_request ev = audit \<and> ae_actor ev = actor \<and> ae_skill ev = skill \<and>
        ae_phase ev = ''before'')"

text \<open>A handler that refuses to run when its event is not stored.\<close>

definition insisting :: "string \<Rightarrow> 'st handler \<Rightarrow> 'st handler" where
  "insisting skill fn audit actor w =
     (if announced skill audit actor w then fn audit actor w else (Inl (mk_exn ''Unannounced'' []), w))"

lemma transaction_Inr:
  "transaction env m w = (Inr x, w') \<Longrightarrow> m (w\<lparr>pw_ticks := Suc (pw_ticks w)\<rparr>) = (Inr x, w')"
  by (auto simp: transaction_def Let_def split: option.splits prod.splits sum.splits)

lemma emit_event_announces:
  assumes "emit_event env request actor skill ''before'' payload w = (Inr u, w')"
  shows "announced skill request actor w'"
  using assms
  by (auto simp: emit_event_def act_simps Let_def announced_def append_audit_event_def
      elim!: bindA_cases tryA_cases dest!: transaction_Inr split: if_splits)

lemma emit_phase_announces:
  assumes "emit_phase env ''before'' payload (p, w) = (Inr u, s)"
  shows "fst s = p \<and> announced (sk_skill (pc_skill p)) (pc_audit p) (pc_actor p) (snd s)"
proof -
  obtain payload' w' where "emit_audit env (pc_audit p) (pc_actor p) (sk_skill (pc_skill p)) ''before'' payload' w = (Inr u, w')"
      "s = (p, w')"
    using assms by (auto simp: emit_phase_def bindA_def contextA_def worldA_def Let_def split: prod.splits if_splits)
  then show ?thesis
    by (auto simp: emit_audit_def act_simps intro: emit_event_announces split: option.splits)
qed

text \<open>The three inner middlewares run the handler in the state they are given.\<close>

definition inner_chain :: "'st pipe_env \<Rightarrow> 'st handler \<Rightarrow> 'st continuation" where
  "inner_chain env fn = capability_call_mw env (persist_mw env (anchor_mw env (innermost fn)))"

lemma pipe_chain_default:
  "pipe_chain (default_middlewares env) fn =
   capability_log_mw env (policy_mw env (identity_mw env (audit_emit_mw env (inner_chain env fn))))"
  by (simp add: pipe_chain_def default_middlewares_def inner_chain_def)

lemma inner_chain_insisting:
  "announced (sk_skill (pc_skill (fst s))) (pc_audit (fst s)) (pc_actor (fst s)) (snd s) \<Longrightarrow>
   inner_chain env (insisting (sk_skill (pc_skill (fst s))) fn) s = inner_chain env fn s"
  by (cases s) (simp add: inner_chain_def capability_call_mw_def persist_mw_def anchor_mw_def innermost_def
      tryA_def bindA_def contextA_def worldA_def insisting_def)

lemma emit_mw_insisting:
  assumes "sk_skill (pc_skill (fst s)) = skill"
  shows "audit_emit_mw env (inner_chain env (insisting skill fn)) s = audit_emit_mw env (inner_chain env fn) s"
proof -
  obtain p w where s: "s = (p, w)" by (cases s)
  obtain r s1 where emitted: "emit_phase env ''before'' (pc_payload p) (p, w) = (r, s1)" by (meson surj_pair)
  have "inner_chain env (insisting skill fn) s1 = inner_chain env fn s1" if "r = Inr u" for u
    using inner_chain_insisting [of s1 env fn] emit_phase_announces [of env "pc_payload p" p w u s1]
      emitted s assms that by simp
  then show ?thesis
    using emitted s by (simp add: audit_emit_mw_def contextA_def bindA_def tryA_def split: sum.splits)
qed

text \<open>The outer middlewares leave the skill of the context alone.\<close>

lemma policy_cong:
  "(\<And>w. rest (p, w) = rest' (p, w)) \<Longrightarrow> policy_mw env rest (p, w) = policy_mw env rest' (p, w)"
  by (auto simp: policy_mw_def bindA_def contextA_def worldA_def Let_def throwA_def split: prod.splits sum.splits)

lemma identity_cong:
  "(\<And>p' w. pc_skill p' = pc_skill p \<Longrightarrow> rest (p', w) = rest' (p', w)) \<Longrightarrow>
   identity_mw env rest (p, w) = identity_mw env rest' (p, w)"
  by (auto simp: identity_mw_def bindA_def contextA_def worldA_def liftE_def modifyA_def new_audit_id_def
      split: prod.splits sum.splits)

lemma log_cong: "rest s = rest' s \<Longrightarrow> capability_log_mw env rest s = capability_log_mw env rest' s"
  by (simp add: capability_log_mw_def tryA_def)

lemma chain_insisting:
  "pipe_chain (default_middlewares env) (insisting (sk_skill (pc_skill p)) fn) (p, w) =
   pipe_chain (default_middlewares env) fn (p, w)"
  unfolding pipe_chain_default
  by (intro log_cong policy_cong identity_cong emit_mw_insisting) simp

text \<open>C12: a handler only ever runs when the event that announces the call, with its audit id, actor and
  skill, is stored: a handler that checks for it behaves exactly as it did, on the write path and
  on the read path, whichever transactions fail.\<close>

theorem handler_needs_its_event:
  "run_write env sk payload (insisting (sk_skill sk) fn) = run_write env sk payload fn \<and>
   run_read env sk payload (insisting (sk_skill sk) fn) = run_read env sk payload fn"
  using chain_insisting [of env "fresh_context sk payload True" fn]
    chain_insisting [of env "fresh_context sk payload False" fn]
  by (simp add: fun_eq_iff run_write_def run_read_def fresh_context_def)

section \<open>A sample call\<close>

definition sample_manifest :: dict where
  "sample_manifest = [(''side_effects'', JBool True), (''audit_class'', JStr ''write-normal'')]"

definition sample_skill :: skill_context where
  "sample_skill = \<lparr>sk_skill = ''x'', sk_role = role_system, sk_confirmed = False, sk_manifest = sample_manifest, sk_source = ''cli''\<rparr>"

definition sample_env :: "exn option \<Rightarrow> nat pipe_env" where
  "sample_env persist =
     \<lparr>pe_fault = (\<lambda>_. None), pe_sink = True, pe_database = True, pe_audit_id = (\<lambda>n. CHR ''a'' # replicate n CHR ''x''),
      pe_auth = None, pe_manifest = (\<lambda>_. Some sample_manifest), pe_digest = (\<lambda>_. ''h''), pe_tenant = ''t'',
      pe_persist = (\<lambda>st. (persist, st)), pe_aggregates = (\<lambda>st. (None, st))\<rparr>"

definition sample_world :: "nat pipe_world" where
  "sample_world = \<lparr>pw_state = 0, pw_events = [], pw_buffer = [], pw_calls = [], pw_outbox = [], pw_log = [],
     pw_next = 0, pw_ticks = 0, pw_now = 0\<rparr>"

abbreviation (input) sample_actor :: string where "sample_actor \<equiv> projr (actor_for_role role_system)"

lemma sample_parts:
  "sk_skill sample_skill = ''x''" "pw_outbox sample_world = []" "pw_state sample_world = 0"
  "pe_aggregates (sample_env persist) st = (None, st)" "pe_persist (sample_env persist) st = (persist, st)"
  "pe_audit_id (sample_env persist) (pw_next sample_world) = ''a''" "pe_digest (sample_env persist) j = ''h''"
  "pw_calls sample_world = []" "pw_events sample_world = []"
  by (simp_all add: sample_skill_def sample_world_def sample_env_def)

section \<open>Refused calls\<close>

lemma call_log_line_result: "call_log_line env outcome (p, w) =
    (Inr (), (p, w\<lparr>pw_log := pw_log w @ [(sk_skill (pc_skill p), outcome, pc_audit p,
       if pc_actor p \<noteq> [] then pc_actor p else case pe_auth env of Some a \<Rightarrow> au_username a | None \<Rightarrow> [])]\<rparr>))"
  by (simp add: call_log_line_def)

text \<open>The part of the world a refusal may not touch.\<close>

definition business :: "'st pipe_world \<Rightarrow> 'st \<times> call_row list \<times> outbox_row list" where
  "business w = (pw_state w, pw_calls w, pw_outbox w)"

definition same_business :: "'st pipe_world \<Rightarrow> 'st pipe_world \<Rightarrow> bool" where
  "same_business w w' \<longleftrightarrow> business w' = business w"

lemma same_business_rel [simp]: "same_business w w" "same_business a b \<Longrightarrow> same_business b c \<Longrightarrow> same_business a c"
  by (simp_all add: same_business_def)

lemma relA_transaction:
  assumes "relA same_business m"
  shows "relA same_business (transaction env m)"
  unfolding relA_def
proof
  fix w :: "'a pipe_world"
  let ?w1 = "w\<lparr>pw_ticks := Suc (pw_ticks w)\<rparr>"
  have "same_business w ?w1" by (simp add: same_business_def business_def)
  moreover have "same_business ?w1 (snd (m ?w1))" using assms by (simp add: relA_def)
  ultimately show "same_business w (snd (transaction env m w))"
    using same_business_rel(2) [of w ?w1 "snd (m ?w1)"]
    by (auto simp: transaction_def Let_def split: option.splits prod.splits sum.splits)
qed

lemma relA_liftE: "relA same_business (liftE h m)"
  by (simp add: relA_def liftE_def split: sum.splits)

lemma relA_emit_audit: "relA same_business (emit_audit env request actor skill phase payload)"
proof -
  have "relA same_business (emit_event env request actor skill phase p)" for p
    unfolding emit_event_def append_audit_event_def Let_def
    by (auto intro!: relA_bind relA_try relA_throw relA_liftE relA_transaction relA_modify
        intro: same_business_rel(2) simp: same_business_def business_def)
  then show ?thesis
    by (auto simp: emit_audit_def intro!: relA_throw split: option.splits)
qed

lemma relA_deny: "relA same_business (emit_deny_audit env skill role payload reason)"
proof -
  have "relA same_business (new_audit_id env)"
    by (simp add: relA_def new_audit_id_def same_business_def business_def)
  then show ?thesis
    unfolding emit_deny_audit_def
    by (intro relA_bind relA_liftE relA_emit_audit) (auto intro: same_business_rel(2))
qed

lemma enforce_policy_refuses:
  assumes "enforce_manifest_policy (pe_tenant env) skill manifest role payload = Inl e"
  shows "\<exists>x w'. enforce_policy env skill manifest role payload w = (Inl x, w') \<and> same_business w w'"
proof (cases "\<exists>p. e = PolicyPy p")
  case True
  then show ?thesis using assms by (auto simp: enforce_policy_def act_simps)
next
  case False
  then have eq: "enforce_policy env skill manifest role payload =
      tryA (emit_deny_audit env skill role payload (policy_message e))
        (\<lambda>_. throwA (access_denied e)) (\<lambda>_. throwA (access_denied e))"
    using assms by (cases e) (simp_all add: enforce_policy_def)
  obtain r w' where "emit_deny_audit env skill role payload (policy_message e) w = (r, w')" by (meson surj_pair)
  moreover from this have "same_business w w'"
    using relA_deny [of env skill role payload "policy_message e"] by (metis relA_def snd_conv)
  ultimately show ?thesis
    by (cases r) (simp_all add: eq tryA_def act_simps)
qed

lemma emit_event_no_sink: "\<not> pe_sink env \<Longrightarrow> \<exists>x. emit_event env request actor skill phase payload w = (Inl x, w)"
  by (simp add: emit_event_def act_simps)

definition run_refused :: "'st pipe_env \<Rightarrow> skill_context \<Rightarrow> dict \<Rightarrow> bool" where
  "run_refused env sk payload \<longleftrightarrow>
     (\<exists>e. enforce_manifest_policy (pe_tenant env) (sk_skill sk) (sk_manifest sk) (sk_role sk)
            (dmerge payload [(''confirmed'', JBool (sk_confirmed sk))]) = Inl e) \<or>
     truthy (dget (sk_manifest sk) ''human_confirmation_required'') \<and> \<not> sk_confirmed sk \<or>
     \<not> pe_sink env"

text \<open>A continuation that raises without touching the business.\<close>

definition inert :: "'st continuation \<Rightarrow> bool" where
  "inert m \<longleftrightarrow> (\<forall>p w. \<exists>x p' w'. m (p, w) = (Inl x, (p', w')) \<and> same_business w w')"

lemma inertD: "inert m \<Longrightarrow> \<exists>x p' w'. m (p, w) = (Inl x, (p', w')) \<and> same_business w w'"
  unfolding inert_def by blast

lemma inert_log: "inert rest \<Longrightarrow> inert (capability_log_mw env rest)"
  unfolding inert_def
proof (intro allI)
  fix p w
  assume "\<forall>p w. \<exists>x p' w'. rest (p, w) = (Inl x, (p', w')) \<and> same_business w w'"
  then obtain x p' w' where rest: "rest (p, w) = (Inl x, (p', w'))" "same_business w w'" by blast
  show "\<exists>x p' w'. capability_log_mw env rest (p, w) = (Inl x, (p', w')) \<and> same_business w w'"
    using rest by (simp add: capability_log_mw_def tryA_def bindA_def call_log_line_result throwA_def
        same_business_def business_def)
qed

lemma inert_identity: "inert rest \<Longrightarrow> inert (identity_mw env rest)"
  unfolding inert_def
proof (intro allI)
  fix p w
  assume inert: "\<forall>p w. \<exists>x p' w'. rest (p, w) = (Inl x, (p', w')) \<and> same_business w w'"
  show "\<exists>x p' w'. identity_mw env rest (p, w) = (Inl x, (p', w')) \<and> same_business w w'"
  proof (cases "pipe_actor env (sk_role (pc_skill p))")
    case (Inl e)
    then show ?thesis by (simp add: identity_mw_def bindA_def contextA_def liftE_def)
  next
    case (Inr actor)
    let ?w = "w\<lparr>pw_next := Suc (pw_next w)\<rparr>"
    let ?p = "p\<lparr>pc_actor := actor, pc_audit := pe_audit_id env (pw_next w), pc_started := pw_now w\<rparr>"
    obtain x p' w' where "rest (?p, ?w) = (Inl x, (p', w'))" "same_business ?w w'" using inert by blast
    then show ?thesis
      using Inr by (simp add: identity_mw_def bindA_def contextA_def liftE_def modifyA_def worldA_def
          new_audit_id_def same_business_def business_def)
  qed
qed

lemma emit_phase_eq:
  "emit_phase env phase q (p, w) =
     (case emit_audit env (pc_audit p) (pc_actor p) (sk_skill (pc_skill p)) phase (with_source (pc_skill p) q) w of
        (r, w') \<Rightarrow> (r, (p, w')))"
  by (simp add: emit_phase_def bindA_def contextA_def worldA_def Let_def)

lemma inert_emit:
  assumes "\<not> pe_sink env"
  shows "inert (audit_emit_mw env rest)"
  unfolding inert_def
proof (intro allI)
  fix p :: pipe_context and w :: "'a pipe_world"
  have "\<exists>x. emit_audit env request actor skill phase payload w = (Inl x, w)" for request actor skill phase payload
    using emit_event_no_sink [OF assms] by (auto simp: emit_audit_def act_simps split: option.splits)
  then obtain x where "emit_audit env (pc_audit p) (pc_actor p) (sk_skill (pc_skill p)) ''before''
      (with_source (pc_skill p) (pc_payload p)) w = (Inl x, w)"
    by blast
  then have "emit_phase env ''before'' (pc_payload p) (p, w) = (Inl x, (p, w))"
    by (simp add: emit_phase_eq)
  then show "\<exists>x p' w'. audit_emit_mw env rest (p, w) = (Inl x, (p', w')) \<and> same_business w w'"
    by (simp add: audit_emit_mw_def bindA_def contextA_def)
qed

lemma policy_refuses:
  assumes "run_refused env (pc_skill p) (pc_payload p)" and "pc_write p" and "\<not> pe_sink env \<Longrightarrow> inert rest"
  shows "\<exists>x p' w'. policy_mw env rest (p, w) = (Inl x, (p', w')) \<and> same_business w w'"
proof -
  let ?sk = "pc_skill p"
  let ?check = "enforce_policy env (sk_skill ?sk) (sk_manifest ?sk) (sk_role ?sk)
      (dmerge (pc_payload p) [(''confirmed'', JBool (sk_confirmed ?sk))])"
  show ?thesis
  proof (cases "enforce_manifest_policy (pe_tenant env) (sk_skill ?sk) (sk_manifest ?sk) (sk_role ?sk)
      (dmerge (pc_payload p) [(''confirmed'', JBool (sk_confirmed ?sk))])")
    case (Inl e)
    from enforce_policy_refuses [OF this, of w] show ?thesis
      using assms(2) by (auto simp: policy_mw_def bindA_def contextA_def worldA_def Let_def)
  next
    case (Inr u)
    then have ok: "?check w = (Inr (), w)" by (simp add: enforce_policy_def act_simps)
    show ?thesis
    proof (cases "truthy (dget (sk_manifest ?sk) ''human_confirmation_required'') \<and> \<not> sk_confirmed ?sk")
      case True
      then show ?thesis
        using assms(2) ok by (simp add: policy_mw_def bindA_def contextA_def worldA_def Let_def throwA_def)
    next
      case False
      then have "inert rest" using assms(1,3) Inr by (auto simp: run_refused_def)
      from inertD [OF this, of p w] show ?thesis
        using assms(2) ok False by (auto simp: policy_mw_def bindA_def contextA_def worldA_def Let_def)
    qed
  qed
qed

text \<open>C13: a write that the policy refuses, that lacks the confirmation its manifest asks for, or that cannot
  be audited because no sink is configured, raises and leaves the business state, the calls and the outbox as they
  were, whatever its handler would do and whichever transactions fail.\<close>

theorem refused_write_changes_nothing:
  assumes "run_refused env sk payload"
  shows "\<exists>x w'. run_write env sk payload fn w = (Inl x, w') \<and> pw_state w' = pw_state w \<and>
    pw_calls w' = pw_calls w \<and> pw_outbox w' = pw_outbox w"
proof -
  let ?rest = "identity_mw env (audit_emit_mw env (inner_chain env fn))"
  let ?p = "fresh_context sk payload True"
  have "\<exists>x p' w'. policy_mw env ?rest (?p, w) = (Inl x, (p', w')) \<and> same_business w w'"
    by (rule policy_refuses) (simp_all add: fresh_context_def assms inert_identity inert_emit)
  then obtain x p' w' where refused: "policy_mw env ?rest (?p, w) = (Inl x, (p', w'))" "same_business w w'"
    by blast
  then have "\<exists>w''. capability_log_mw env (policy_mw env ?rest) (?p, w) = (Inl x, (p', w'')) \<and> same_business w w''"
    by (simp add: capability_log_mw_def tryA_def bindA_def call_log_line_result throwA_def same_business_def business_def)
  then show ?thesis
    by (auto simp: run_write_def pipe_chain_default same_business_def business_def)
qed

theorem refused_write_changes_nothing_witness:
  "\<exists>x w'. run_write ((sample_env None)\<lparr>pe_sink := False\<rparr>) sample_skill [] (\<lambda>_ _ w. (Inr JNull, w\<lparr>pw_state := 1\<rparr>)) sample_world =
      (Inl x, w') \<and> pw_state w' = 0 \<and> pw_calls w' = [] \<and> pw_outbox w' = []"
  using refused_write_changes_nothing [of "(sample_env None)\<lparr>pe_sink := False\<rparr>" sample_skill "[]"
      "\<lambda>_ _ w. (Inr JNull, w\<lparr>pw_state := 1\<rparr>)" sample_world]
  by (simp add: run_refused_def sample_parts)

end
