(* ===== verification/PipelineTrace.thy ===== *)
theory PipelineTrace
  imports PipelineSafe
begin

text \<open>
  The exact trail of a write: the events, the call row, the anchor and the state it leaves when it
  succeeds, when its handler raises and when its result cannot be persisted.
\<close>

section \<open>The trail of a call\<close>

lemma dget_safe:
  "\<not> is_sensitive_json_key k \<Longrightarrow>
   dget (case safe_json (JObj d) of JObj e \<Rightarrow> e | _ \<Rightarrow> []) k = safe_json (dget d k)"
  unfolding safe_json.simps json.case by (induction d) (auto simp: dget_def)

lemma hashable_safe: "hashable (safe_json v) = hashable v"
  by (cases v) simp_all

lemma audit_class_plain: "\<not> is_sensitive_json_key ''audit_class''"
  by (simp add: is_sensitive_json_key_def sensitive_json_keys_def lower_def lower_char_def ends_with_def)

definition plain_class :: "dict \<Rightarrow> bool" where
  "plain_class d \<longleftrightarrow> hashable (dget d ''audit_class'')"

lemma plain_audit_payload:
  "plain_class payload \<Longrightarrow> plain_class manifest \<Longrightarrow>
   plain_class (audit_payload env manifest request actor skill phase payload)"
  unfolding plain_class_def audit_payload_def Let_def
  by (simp add: dget_safe audit_class_plain py_or_def hashable_safe del: safe_json.simps)

lemma normalize_total: "plain_class d \<Longrightarrow> \<exists>c. normalize_audit_class (dget d ''audit_class'') = Inr c"
  by (simp add: plain_class_def normalize_audit_class_def)

text \<open>An emission that went well: one event more, and nothing but the bus touched.\<close>

definition trail :: "'st pipe_world \<Rightarrow> (string \<times> string \<times> string \<times> string) list" where
  "trail w = map (\<lambda>e. (ae_request e, ae_skill e, ae_actor e, ae_phase e)) (pw_events w)"

definition emitted :: "string \<Rightarrow> string \<Rightarrow> string \<Rightarrow> string \<Rightarrow> 'st pipe_world \<Rightarrow> 'st pipe_world \<Rightarrow> bool" where
  "emitted request skill actor phase w w' \<longleftrightarrow>
     trail w' = trail w @ [(request, skill, actor, phase)] \<and> same_business w w' \<and>
     pw_next w' = pw_next w \<and> pw_now w' = pw_now w \<and> pw_log w' = pw_log w"

definition no_faults :: "'st pipe_env \<Rightarrow> bool" where
  "no_faults env \<longleftrightarrow> pe_fault env = (\<lambda>_. None) \<and> pe_sink env \<and> pe_database env"

lemma transaction_ok: "no_faults env \<Longrightarrow> m (w\<lparr>pw_ticks := Suc (pw_ticks w)\<rparr>) = (Inr x, w') \<Longrightarrow>
    transaction env m w = (Inr x, w')"
  by (simp add: transaction_def no_faults_def Let_def)

lemma append_event_ok:
  assumes "no_faults env"
  shows "\<exists>w'. append_audit_event env request actor skill phase q w = (Inr (), w') \<and>
    emitted request skill actor phase w w'"
  unfolding append_audit_event_def
  by (intro exI conjI, rule transaction_ok [OF assms], rule act_apply(3))
    (simp add: emitted_def trail_def same_business_def business_def)

lemma emit_audit_ok:
  assumes "no_faults env" and "pe_manifest env skill = Some manifest" and "plain_class payload" "plain_class manifest"
    and "request \<noteq> []" "actor \<noteq> []" "skill \<noteq> []"
  shows "\<exists>w'. emit_audit env request actor skill phase payload w = (Inr (), w') \<and>
    emitted request skill actor phase w w'"
proof -
  let ?q = "audit_payload env manifest request actor skill phase payload"
  obtain c where c: "normalize_audit_class (dget ?q ''audit_class'') = Inr c"
    using normalize_total [OF plain_audit_payload [OF assms(3,4)]] by blast
  let ?raw = "dget ?q ''audit_class''"
  let ?e = "if truthy ?raw \<and> ?raw \<noteq> JStr c
      then dsetdefault (dset ?q ''audit_class'' (JStr c)) ''original_audit_class'' ?raw
      else dset ?q ''audit_class'' (JStr c)"
  obtain w1 where w1: "append_audit_event env request actor skill phase ?e w = (Inr (), w1)"
      "emitted request skill actor phase w w1"
    using append_event_ok [OF assms(1)] by blast
  have "emit_audit env request actor skill phase payload w =
      (Inr (), w1\<lparr>pw_buffer := pw_buffer w1 @ [\<lparr>ae_request = request, ae_actor = actor, ae_skill = skill,
         ae_phase = phase, ae_payload = ?e, ae_at = pw_now w1\<rparr>]\<rparr>)"
    using assms(1,2,5-7) c w1(1)
    by (simp add: emit_audit_def emit_event_def no_faults_def bindA_def liftE_def tryA_def modifyA_def Let_def)
  then show ?thesis
    using w1(2) by (simp add: emitted_def trail_def same_business_def business_def)
qed

text \<open>A handler that works on the business state alone.\<close>

definition on_state :: "(string \<Rightarrow> string \<Rightarrow> 'st \<Rightarrow> (exn + json) \<times> 'st) \<Rightarrow> 'st handler" where
  "on_state g audit actor w = (case g audit actor (pw_state w) of (r, st) \<Rightarrow> (r, w\<lparr>pw_state := st\<rparr>))"

definition side_effects :: "skill_context \<Rightarrow> bool" where
  "side_effects sk \<longleftrightarrow> truthy (dget (sk_manifest sk) ''side_effects'')"

text \<open>The world after the anchor middleware.\<close>

definition anchored :: "'st pipe_env \<Rightarrow> pipe_context \<Rightarrow> json \<Rightarrow> 'st pipe_world \<Rightarrow> 'st pipe_world" where
  "anchored env p r w =
     (if side_effects (pc_skill p)
      then case pe_aggregates env (pw_state w) of
             (Some e, st) \<Rightarrow> w\<lparr>pw_state := st\<rparr>
           | (None, st) \<Rightarrow> snd (enqueue_anchor env (pc_audit p) (pc_actor p) (sk_skill (pc_skill p))
                             (dmerge (pc_payload p) (result_payload r)) (w\<lparr>pw_state := st\<rparr>))
      else w)"

lemma anchor_mw_eq:
  assumes "pc_write p"
  shows "anchor_mw env (innermost (on_state g)) (p, w) =
    (case g (pc_audit p) (pc_actor p) (pw_state w) of
       (Inl e, st) \<Rightarrow> (Inl e, (p, w\<lparr>pw_state := st\<rparr>))
     | (Inr r, st) \<Rightarrow> (Inr r, (p, anchored env p r (w\<lparr>pw_state := st\<rparr>))))"
  using assms
  by (auto simp: anchor_mw_def innermost_def bindA_def tryA_def contextA_def worldA_def on_state_def retA_def
      anchored_def side_effects_def stateA_def split: prod.splits sum.splits option.splits)

lemma anchored_frame:
  "trail (anchored env p r w) = trail w" "pw_calls (anchored env p r w) = pw_calls w"
  "pw_next (anchored env p r w) = pw_next w"
  "pw_state (anchored env p r w) =
     (if side_effects (pc_skill p) then snd (pe_aggregates env (pw_state w)) else pw_state w)"
  by (auto simp: anchored_def enqueue_anchor_def append_anchor_outbox_def transaction_def Let_def act_simps
      bindA_def getA_def trail_def split: prod.splits option.splits sum.splits if_splits)

definition anchor_row :: "'st pipe_env \<Rightarrow> pipe_context \<Rightarrow> json \<Rightarrow> nat \<Rightarrow> outbox_row" where
  "anchor_row env p r now =
     \<lparr>ob_request = pc_audit p, ob_skill = sk_skill (pc_skill p),
      ob_hash = pe_digest env (anchor_content (pc_audit p) (pc_actor p) (sk_skill (pc_skill p))
                  (dmerge (pc_payload p) (result_payload r))),
      ob_chain = ''mock-chain'', ob_delivered = False, ob_claimed = None, ob_created = now\<rparr>"

lemma anchored_outbox:
  assumes "no_faults env" and "side_effects (pc_skill p)" and "fst (pe_aggregates env (pw_state w)) = None"
    and "ob_hash (anchor_row env p r (pw_now w)) \<notin> ob_hash ` set (pw_outbox w)"
  shows "pw_outbox (anchored env p r w) = pw_outbox w @ [anchor_row env p r (pw_now w)]"
proof -
  obtain st where st: "pe_aggregates env (pw_state w) = (None, st)"
    using assms(3) by (metis prod.collapse)
  show ?thesis
    using assms(1,2,4) st
    by (simp add: anchored_def enqueue_anchor_def append_anchor_outbox_def transaction_def no_faults_def Let_def
        bindA_def getA_def modifyA_def anchor_row_def)
qed

lemma anchored_without:
  "\<not> side_effects (pc_skill p) \<Longrightarrow> pw_outbox (anchored env p r w) = pw_outbox w"
  by (simp add: anchored_def)

lemma persist_mw_eq:
  assumes "pc_write p"
  shows "persist_mw env rest s =
    (case rest s of (Inl e, s') \<Rightarrow> (Inl e, s')
     | (Inr r, (p', w')) \<Rightarrow> if pc_write p' then
         (case pe_persist env (pw_state w') of
            (None, st) \<Rightarrow> (Inr r, (p', w'\<lparr>pw_state := st\<rparr>)) | (Some e, st) \<Rightarrow> (Inl e, (p', w'\<lparr>pw_state := st\<rparr>)))
         else (Inr r, (p', w')))"
  by (auto simp: persist_mw_def bindA_def contextA_def worldA_def stateA_def retA_def
      split: prod.splits sum.splits option.splits)

text \<open>The call row of a call.\<close>

definition recorded_call :: "pipe_context \<Rightarrow> string \<Rightarrow> 'st pipe_world \<Rightarrow> 'st pipe_world \<Rightarrow> bool" where
  "recorded_call p status w w' \<longleftrightarrow>
     (\<exists>row. pw_calls w' = pw_calls w @ [row] \<and> cc_ref row = pc_audit p \<and> cc_actor row = pc_actor p \<and>
        cc_skill row = sk_skill (pc_skill p) \<and> cc_status row = status) \<and>
     pw_state w' = pw_state w \<and> trail w' = trail w \<and> pw_outbox w' = pw_outbox w"

lemma record_call_ok:
  fixes p :: pipe_context
  assumes "no_faults env" and "pc_audit p \<notin> cc_ref ` set (pw_calls w)"
  shows "\<exists>w'. record_call env result status (p, w) = (Inr (), (p, w')) \<and> recorded_call p status w w'"
  using assms
  by (simp add: record_call_def record_capability_call_def append_capability_call_def transaction_def
      no_faults_def Let_def bindA_def contextA_def worldA_def getA_def modifyA_def recorded_call_def trail_def)

lemma inner_chain_eq:
  "inner_chain env fn s =
    (case persist_mw env (anchor_mw env (innermost fn)) s of
       (Inl e, s') \<Rightarrow> bindA (record_call env (error_payload e) ''failed'') (\<lambda>_. throwA e) s'
     | (Inr r, s') \<Rightarrow> bindA (record_call env (result_payload r) ''succeeded'') (\<lambda>_. retA r) s')"
  by (simp add: inner_chain_def capability_call_mw_def tryA_def)

lemma inner_chain_run:
  fixes p :: pipe_context
  assumes "no_faults env" and "pc_write p" and "pc_audit p \<notin> cc_ref ` set (pw_calls w)"
    and "g (pc_audit p) (pc_actor p) (pw_state w) = (res, st)"
  shows "res = Inl e \<Longrightarrow> \<exists>w'. inner_chain env (on_state g) (p, w) = (Inl e, (p, w')) \<and>
      recorded_call p ''failed'' (w\<lparr>pw_state := st\<rparr>) w'"
    and "res = Inr r \<Longrightarrow> wa = anchored env p r (w\<lparr>pw_state := st\<rparr>) \<Longrightarrow> pe_persist env (pw_state wa) = (None, st2) \<Longrightarrow>
      \<exists>w'. inner_chain env (on_state g) (p, w) = (Inr r, (p, w')) \<and> recorded_call p ''succeeded'' (wa\<lparr>pw_state := st2\<rparr>) w'"
    and "res = Inr r \<Longrightarrow> wa = anchored env p r (w\<lparr>pw_state := st\<rparr>) \<Longrightarrow> pe_persist env (pw_state wa) = (Some e, st2) \<Longrightarrow>
      \<exists>w'. inner_chain env (on_state g) (p, w) = (Inl e, (p, w')) \<and> recorded_call p ''failed'' (wa\<lparr>pw_state := st2\<rparr>) w'"
proof -
  assume "res = Inl e"
  moreover obtain w' where "record_call env (error_payload e) ''failed'' (p, w\<lparr>pw_state := st\<rparr>) = (Inr (), (p, w'))"
      "recorded_call p ''failed'' (w\<lparr>pw_state := st\<rparr>) w'"
    using record_call_ok [OF assms(1), of p "w\<lparr>pw_state := st\<rparr>" "error_payload e" "''failed''"] assms(3) by auto
  ultimately show "\<exists>w'. inner_chain env (on_state g) (p, w) = (Inl e, (p, w')) \<and>
      recorded_call p ''failed'' (w\<lparr>pw_state := st\<rparr>) w'"
    using assms(2,4) by (simp add: inner_chain_eq persist_mw_eq anchor_mw_eq bindA_def throwA_def)
next
  assume run: "res = Inr r" "wa = anchored env p r (w\<lparr>pw_state := st\<rparr>)" "pe_persist env (pw_state wa) = (None, st2)"
  obtain w' where "record_call env (result_payload r) ''succeeded'' (p, wa\<lparr>pw_state := st2\<rparr>) = (Inr (), (p, w'))"
      "recorded_call p ''succeeded'' (wa\<lparr>pw_state := st2\<rparr>) w'"
    using record_call_ok [OF assms(1), of p "wa\<lparr>pw_state := st2\<rparr>" "result_payload r" "''succeeded''"] assms(3) run(2)
    by (auto simp: anchored_frame)
  then show "\<exists>w'. inner_chain env (on_state g) (p, w) = (Inr r, (p, w')) \<and>
      recorded_call p ''succeeded'' (wa\<lparr>pw_state := st2\<rparr>) w'"
    using run assms(2,4) by (simp add: inner_chain_eq persist_mw_eq anchor_mw_eq bindA_def retA_def)
next
  assume run: "res = Inr r" "wa = anchored env p r (w\<lparr>pw_state := st\<rparr>)" "pe_persist env (pw_state wa) = (Some e, st2)"
  obtain w' where "record_call env (error_payload e) ''failed'' (p, wa\<lparr>pw_state := st2\<rparr>) = (Inr (), (p, w'))"
      "recorded_call p ''failed'' (wa\<lparr>pw_state := st2\<rparr>) w'"
    using record_call_ok [OF assms(1), of p "wa\<lparr>pw_state := st2\<rparr>" "error_payload e" "''failed''"] assms(3) run(2)
    by (auto simp: anchored_frame)
  then show "\<exists>w'. inner_chain env (on_state g) (p, w) = (Inl e, (p, w')) \<and>
      recorded_call p ''failed'' (wa\<lparr>pw_state := st2\<rparr>) w'"
    using run assms(2,4) by (simp add: inner_chain_eq persist_mw_eq anchor_mw_eq bindA_def throwA_def)
qed

text \<open>A write nothing stands in the way of: allowed, confirmed, with a bus and a database that work.\<close>

definition healthy :: "'st pipe_env \<Rightarrow> skill_context \<Rightarrow> dict \<Rightarrow> 'st pipe_world \<Rightarrow> string \<Rightarrow> bool" where
  "healthy env sk payload w actor \<longleftrightarrow>
     no_faults env \<and> pe_manifest env (sk_skill sk) = Some (sk_manifest sk) \<and> sk_skill sk \<noteq> [] \<and> actor \<noteq> [] \<and>
     pipe_actor env (sk_role sk) = Inr actor \<and>
     enforce_manifest_policy (pe_tenant env) (sk_skill sk) (sk_manifest sk) (sk_role sk)
       (dmerge payload [(''confirmed'', JBool (sk_confirmed sk))]) = Inr () \<and>
     (truthy (dget (sk_manifest sk) ''human_confirmation_required'') \<longrightarrow> sk_confirmed sk) \<and>
     pe_audit_id env (pw_next w) \<noteq> [] \<and> pe_audit_id env (pw_next w) \<notin> cc_ref ` set (pw_calls w) \<and>
     plain_class payload \<and> plain_class (sk_manifest sk)"

definition call_context :: "'st pipe_env \<Rightarrow> skill_context \<Rightarrow> dict \<Rightarrow> string \<Rightarrow> 'st pipe_world \<Rightarrow> pipe_context" where
  "call_context env sk payload actor w =
     (fresh_context sk payload True)\<lparr>pc_actor := actor, pc_audit := pe_audit_id env (pw_next w), pc_started := pw_now w\<rparr>"

lemma plain_with_source: "plain_class (with_source sk d) = plain_class d"
  by (simp add: plain_class_def with_source_def)

lemma emit_phase_ok:
  assumes "no_faults env" and "pe_manifest env (sk_skill (pc_skill p)) = Some manifest" and "plain_class q" "plain_class manifest"
    and "pc_audit p \<noteq> []" "pc_actor p \<noteq> []" "sk_skill (pc_skill p) \<noteq> []"
  shows "\<exists>w'. emit_phase env phase q (p, w) = (Inr (), (p, w')) \<and>
    emitted (pc_audit p) (sk_skill (pc_skill p)) (pc_actor p) phase w w'"
proof -
  obtain w' where "emit_audit env (pc_audit p) (pc_actor p) (sk_skill (pc_skill p)) phase (with_source (pc_skill p) q) w = (Inr (), w')"
      "emitted (pc_audit p) (sk_skill (pc_skill p)) (pc_actor p) phase w w'"
    using emit_audit_ok [OF assms(1,2) _ assms(4-7)] assms(3) by (metis plain_with_source)
  then show ?thesis by (simp add: emit_phase_eq)
qed


text \<open>What is left of a healthy call once its \<open>before\<close> event is stored.\<close>

definition call_tail :: "'st pipe_env \<Rightarrow> 'st handler \<Rightarrow> 'st continuation" where
  "call_tail env fn = tryA (inner_chain env fn)
     (\<lambda>e. bindA (emit_phase env ''error'' (error_payload e)) (\<lambda>_. throwA e))
     (\<lambda>r. bindA (emit_phase env ''after'' (result_payload r)) (\<lambda>_. retA r))"

definition logged :: "'st pipe_world \<Rightarrow> 'st pipe_world \<Rightarrow> bool" where
  "logged w w' \<longleftrightarrow> trail w' = trail w \<and> same_business w w'"

lemma call_log_line_ok: "\<exists>w'. call_log_line env outcome (p, w) = (Inr (), (p, w')) \<and> logged w w'"
  by (simp add: call_log_line_result logged_def trail_def same_business_def business_def)

lemma healthy_start:
  fixes fn :: "'st handler"
  assumes "healthy env sk payload w actor"
  shows "\<exists>w2. emitted (pe_audit_id env (pw_next w)) (sk_skill sk) actor ''before'' (w\<lparr>pw_next := Suc (pw_next w)\<rparr>) w2 \<and>
    (\<forall>(fn :: 'st handler) r w3. call_tail env fn (call_context env sk payload actor w, w2) =
        (r, (call_context env sk payload actor w, w3)) \<longrightarrow>
      (\<exists>w4. logged w3 w4 \<and> run_write env sk payload fn w =
        (case r of Inl e \<Rightarrow> Inl e | Inr x \<Rightarrow> Inr (envelope (call_context env sk payload actor w) x), w4)))"
proof -
  let ?c = "call_context env sk payload actor w" and ?w1 = "w\<lparr>pw_next := Suc (pw_next w)\<rparr>"
  have "\<exists>w2. emit_phase env ''before'' (pc_payload ?c) (?c, ?w1) = (Inr (), (?c, w2)) \<and>
      emitted (pc_audit ?c) (sk_skill (pc_skill ?c)) (pc_actor ?c) ''before'' ?w1 w2"
    by (rule emit_phase_ok [where manifest = "sk_manifest sk"])
      (use assms in \<open>simp_all add: healthy_def call_context_def fresh_context_def\<close>)
  then obtain w2 where w2: "emit_phase env ''before'' payload (?c, ?w1) = (Inr (), (?c, w2))"
      "emitted (pe_audit_id env (pw_next w)) (sk_skill sk) actor ''before'' ?w1 w2"
    by (auto simp: call_context_def fresh_context_def)
  have policy: "policy_mw env rest (fresh_context sk payload True, w) = rest (fresh_context sk payload True, w)"
    for rest :: "'st continuation"
    using assms by (auto simp: policy_mw_def healthy_def bindA_def contextA_def worldA_def Let_def fresh_context_def
        enforce_policy_def retA_def)
  have identity: "identity_mw env rest (fresh_context sk payload True, w) = rest (?c, ?w1)" for rest :: "'st continuation"
    using assms by (simp add: identity_mw_def healthy_def bindA_def contextA_def worldA_def liftE_def modifyA_def
        new_audit_id_def fresh_context_def call_context_def)
  have emit: "audit_emit_mw env (inner_chain env fn) (?c, ?w1) = call_tail env fn (?c, w2)" for fn :: "'st handler"
    using w2(1) by (simp add: audit_emit_mw_def call_tail_def bindA_def contextA_def call_context_def fresh_context_def)
  have "\<exists>w4. logged w3 w4 \<and> run_write env sk payload fn w =
        (case r of Inl e \<Rightarrow> Inl e | Inr x \<Rightarrow> Inr (envelope ?c x), w4)"
    if "call_tail env fn (?c, w2) = (r, (?c, w3))" for fn :: "'st handler" and r w3
  proof -
    have chain: "pipe_chain (default_middlewares env) fn (fresh_context sk payload True, w) =
        capability_log_mw env (\<lambda>_. (r, (?c, w3))) (?c, w3)"
      using that by (simp add: pipe_chain_default capability_log_mw_def tryA_def policy identity emit)
    show ?thesis
    proof (cases r)
      case (Inl e)
      obtain w4 where "call_log_line env (''error:'' @ ex_class e) (?c, w3) = (Inr (), (?c, w4))" "logged w3 w4"
        using call_log_line_ok by blast
      then show ?thesis
        using Inl by (auto simp: run_write_def chain capability_log_mw_def tryA_def bindA_def throwA_def)
    next
      case (Inr x)
      obtain w4 where "call_log_line env ''ok'' (?c, w3) = (Inr (), (?c, w4))" "logged w3 w4"
        using call_log_line_ok by blast
      then show ?thesis
        using Inr by (auto simp: run_write_def chain capability_log_mw_def tryA_def bindA_def retA_def)
    qed
  qed
  then show ?thesis using w2(2) by blast
qed


text \<open>The tail of a call, from what its inner chain did.\<close>

definition call_outcome :: "'st pipe_env \<Rightarrow> skill_context \<Rightarrow> dict \<Rightarrow> string \<Rightarrow> string \<Rightarrow> string \<Rightarrow> 'st \<Rightarrow>
    outbox_row list \<Rightarrow> 'st pipe_world \<Rightarrow> 'st pipe_world \<Rightarrow> bool" where
  "call_outcome env sk payload actor phase status st anchors w w' \<longleftrightarrow>
     (let audit = pe_audit_id env (pw_next w) in
      trail w' = trail w @ [(audit, sk_skill sk, actor, ''before''), (audit, sk_skill sk, actor, phase)] \<and>
      (\<exists>row. pw_calls w' = pw_calls w @ [row] \<and> cc_ref row = audit \<and> cc_actor row = actor \<and>
         cc_skill row = sk_skill sk \<and> cc_status row = status) \<and>
      pw_state w' = st \<and> pw_outbox w' = pw_outbox w @ anchors)"

lemma call_tail_ok:
  fixes w :: "'st pipe_world" and env :: "'st pipe_env" and sk payload actor
  defines "c \<equiv> call_context env sk payload actor"
  assumes healthy: "healthy env sk payload w actor"
    and before: "emitted (pe_audit_id env (pw_next w)) (sk_skill sk) actor ''before'' (w\<lparr>pw_next := Suc (pw_next w)\<rparr>) w2"
    and inner: "inner_chain env fn (c w, w2) = (res, (c w, w3))"
    and recorded: "recorded_call (c w) status v w3" "pw_calls v = pw_calls w2" "trail v = trail w2"
      "pw_outbox v = pw_outbox w2 @ anchors"
    and plain: "\<And>r. res = Inr r \<Longrightarrow> plain_class (result_payload r)"
    and phase: "phase = (case res of Inl _ \<Rightarrow> ''error'' | Inr _ \<Rightarrow> ''after'')"
  shows "\<exists>w4. call_tail env fn (c w, w2) = (res, (c w, w4)) \<and>
    (\<forall>w5. logged w4 w5 \<longrightarrow> call_outcome env sk payload actor phase status (pw_state v) anchors w w5)"
proof -
  define q where "q = (case res of Inl e \<Rightarrow> error_payload e | Inr r \<Rightarrow> result_payload r)"
  have "plain_class q"
    using plain by (auto simp: q_def error_payload_def plain_class_def dget_def split: sum.splits)
  then have "\<exists>w4. emit_phase env phase q (c w, w3) = (Inr (), (c w, w4)) \<and>
      emitted (pc_audit (c w)) (sk_skill (pc_skill (c w))) (pc_actor (c w)) phase w3 w4"
    using healthy by (intro emit_phase_ok [where manifest = "sk_manifest sk"])
      (simp_all add: healthy_def c_def call_context_def fresh_context_def)
  then obtain w4 where w4: "emit_phase env phase q (c w, w3) = (Inr (), (c w, w4))"
      "emitted (pe_audit_id env (pw_next w)) (sk_skill sk) actor phase w3 w4"
    by (auto simp: c_def call_context_def fresh_context_def)
  have "call_tail env fn (c w, w2) = (res, (c w, w4))"
    using w4(1) inner phase by (cases res) (simp_all add: call_tail_def tryA_def bindA_def q_def throwA_def retA_def)
  moreover have "call_outcome env sk payload actor phase status (pw_state v) anchors w w5" if "logged w4 w5" for w5
    using that w4(2) recorded before
    by (auto simp: call_outcome_def logged_def emitted_def recorded_call_def same_business_def business_def trail_def
        c_def call_context_def fresh_context_def Let_def)
  ultimately show ?thesis by blast
qed

lemma healthy_run:
  fixes w :: "'st pipe_world" and env :: "'st pipe_env" and fn :: "'st handler"
  assumes "healthy env sk payload w actor"
    and "\<And>w2. emitted (pe_audit_id env (pw_next w)) (sk_skill sk) actor ''before'' (w\<lparr>pw_next := Suc (pw_next w)\<rparr>) w2 \<Longrightarrow>
      \<exists>w3 v. inner_chain env fn (call_context env sk payload actor w, w2) =
          (res, (call_context env sk payload actor w, w3)) \<and>
        recorded_call (call_context env sk payload actor w) status v w3 \<and> pw_calls v = pw_calls w2 \<and>
        trail v = trail w2 \<and> pw_outbox v = pw_outbox w2 @ anchors \<and> pw_state v = st"
    and "\<And>r. res = Inr r \<Longrightarrow> plain_class (result_payload r)"
    and "phase = (case res of Inl _ \<Rightarrow> ''error'' | Inr _ \<Rightarrow> ''after'')"
  shows "\<exists>w'. run_write env sk payload fn w =
      (case res of Inl e \<Rightarrow> Inl e | Inr x \<Rightarrow> Inr (envelope (call_context env sk payload actor w) x), w') \<and>
    call_outcome env sk payload actor phase status st anchors w w'"
proof -
  let ?c = "call_context env sk payload actor w"
  obtain w2 where w2: "emitted (pe_audit_id env (pw_next w)) (sk_skill sk) actor ''before'' (w\<lparr>pw_next := Suc (pw_next w)\<rparr>) w2"
    and run: "\<And>(fn :: 'st handler) r w3. call_tail env fn (?c, w2) = (r, (?c, w3)) \<Longrightarrow>
      \<exists>w4. logged w3 w4 \<and> run_write env sk payload fn w =
        (case r of Inl e \<Rightarrow> Inl e | Inr x \<Rightarrow> Inr (envelope ?c x), w4)"
    using healthy_start [OF assms(1)] by blast
  obtain w3 v where inner: "inner_chain env fn (?c, w2) = (res, (?c, w3))" "recorded_call ?c status v w3"
      "pw_calls v = pw_calls w2" "trail v = trail w2" "pw_outbox v = pw_outbox w2 @ anchors" "pw_state v = st"
    using assms(2) [OF w2] by blast
  obtain w4 where tail: "call_tail env fn (?c, w2) = (res, (?c, w4))"
    and outcome: "\<And>w5. logged w4 w5 \<Longrightarrow> call_outcome env sk payload actor phase status (pw_state v) anchors w w5"
    using call_tail_ok [OF assms(1) w2 inner(1-5) assms(3,4)] by blast
  show ?thesis using run [OF tail] outcome inner(6) by blast
qed


lemma call_context_parts:
  "pc_write (call_context env sk payload actor w)" "pc_actor (call_context env sk payload actor w) = actor"
  "pc_audit (call_context env sk payload actor w) = pe_audit_id env (pw_next w)"
  "pc_skill (call_context env sk payload actor w) = sk"
  by (simp_all add: call_context_def fresh_context_def)

lemma before_frame:
  assumes "emitted request skill actor phase (w\<lparr>pw_next := n\<rparr>) w2"
  shows "pw_state w2 = pw_state w" "pw_calls w2 = pw_calls w" "pw_outbox w2 = pw_outbox w" "pw_now w2 = pw_now w"
  using assms by (simp_all add: emitted_def same_business_def business_def)

lemma healthy_fresh:
  assumes "healthy env sk payload w actor" and "pw_calls w2 = pw_calls w"
  shows "no_faults env" "pc_audit (call_context env sk payload actor w) \<notin> cc_ref ` set (pw_calls w2)"
  using assms by (simp_all add: healthy_def call_context_parts)

definition aggregates_of :: "'st pipe_env \<Rightarrow> skill_context \<Rightarrow> 'st \<Rightarrow> 'st" where
  "aggregates_of env sk st = (if side_effects sk then snd (pe_aggregates env st) else st)"

text \<open>The anchors a call adds: one, if the skill has side effects and its content is new.\<close>

definition anchors_of :: "'st pipe_env \<Rightarrow> skill_context \<Rightarrow> dict \<Rightarrow> string \<Rightarrow> json \<Rightarrow> 'st pipe_world \<Rightarrow> outbox_row list" where
  "anchors_of env sk payload actor r w =
     (if side_effects sk then [anchor_row env (call_context env sk payload actor w) r (pw_now w)] else [])"

definition anchorable :: "'st pipe_env \<Rightarrow> skill_context \<Rightarrow> dict \<Rightarrow> string \<Rightarrow> json \<Rightarrow> 'st \<Rightarrow> 'st pipe_world \<Rightarrow> bool" where
  "anchorable env sk payload actor r st w \<longleftrightarrow>
     (side_effects sk \<longrightarrow> fst (pe_aggregates env st) = None \<and>
        ob_hash (anchor_row env (call_context env sk payload actor w) r (pw_now w)) \<notin> ob_hash ` set (pw_outbox w))"

lemma anchored_call:
  assumes "no_faults env" and "anchorable env sk payload actor r st w" and "pw_outbox w2 = pw_outbox w" "pw_now w2 = pw_now w"
  shows "pw_outbox (anchored env (call_context env sk payload actor w) r (w2\<lparr>pw_state := st\<rparr>)) =
    pw_outbox w @ anchors_of env sk payload actor r w"
proof (cases "side_effects sk")
  case True
  then show ?thesis
    using anchored_outbox [OF assms(1), of "call_context env sk payload actor w" "w2\<lparr>pw_state := st\<rparr>" r] assms(2-4)
    by (simp add: anchorable_def anchors_of_def call_context_parts)
next
  case False
  then show ?thesis
    using assms(3) by (simp add: anchors_of_def anchored_without call_context_parts)
qed

lemma sample_healthy: "healthy (sample_env persist) sample_skill [] sample_world sample_actor"
proof -
  have "enforce_manifest_policy ''t'' ''x'' sample_manifest role_system [(''confirmed'', JBool False)] = Inr ()"
    by code_simp
  moreover have "actor_for_role role_system = Inr sample_actor" by code_simp
  moreover from this have "pipe_actor (sample_env persist) role_system = Inr sample_actor"
    by (simp add: pipe_actor_def bypassed_def sample_env_def bindE_def split: sum.split)
  moreover have "sample_actor \<noteq> []" by code_simp
  moreover have "\<not> truthy (dget sample_manifest ''human_confirmation_required'')" "plain_class []" "plain_class sample_manifest"
    by code_simp+
  ultimately show ?thesis
    by (simp add: healthy_def no_faults_def sample_env_def sample_skill_def sample_world_def dmerge_def)
qed

lemma sample_side_effects: "side_effects sample_skill" "aggregates_of (sample_env persist) sample_skill st = st"
proof -
  show "side_effects sample_skill" by code_simp
  then show "aggregates_of (sample_env persist) sample_skill st = st"
    by (simp add: aggregates_of_def sample_env_def)
qed

section \<open>The trail of a write\<close>

text \<open>C14: a write that is allowed, confirmed and can be stored, and whose handler returns, returns the
  handler's result in the envelope with the audit id; the trail gains exactly its \<open>before\<close> and its \<open>after\<close> event, in
  this order, the calls gain one row marked succeeded, and the outbox gains the call's anchor exactly when the skill
  has side effects.\<close>

theorem successful_write_trace:
  assumes "healthy env sk payload w actor"
    and "g (pe_audit_id env (pw_next w)) actor (pw_state w) = (Inr r, st)"
    and "plain_class (result_payload r)" and "anchorable env sk payload actor r st w"
    and "pe_persist env (aggregates_of env sk st) = (None, st2)"
  shows "\<exists>w'. run_write env sk payload (on_state g) w =
      (Inr (JObj [(''ok'', JBool True), (''skill_id'', JStr (sk_skill sk)),
         (''audit_id'', JStr (pe_audit_id env (pw_next w))), (''result'', r)]), w') \<and>
    call_outcome env sk payload actor ''after'' ''succeeded'' st2 (anchors_of env sk payload actor r w) w w'"
proof -
  let ?c = "call_context env sk payload actor w"
  have "\<exists>w3 v. inner_chain env (on_state g) (?c, w2) = (Inr r, (?c, w3)) \<and> recorded_call ?c ''succeeded'' v w3 \<and>
      pw_calls v = pw_calls w2 \<and> trail v = trail w2 \<and> pw_outbox v = pw_outbox w2 @ anchors_of env sk payload actor r w \<and>
      pw_state v = st2"
    if "emitted (pe_audit_id env (pw_next w)) (sk_skill sk) actor ''before'' (w\<lparr>pw_next := Suc (pw_next w)\<rparr>) w2" for w2
  proof -
    note frame = before_frame [OF that]
    note fresh = healthy_fresh [OF assms(1) frame(2)]
    let ?wa = "anchored env ?c r (w2\<lparr>pw_state := st\<rparr>)"
    have "pw_state ?wa = aggregates_of env sk st"
      by (simp add: anchored_frame aggregates_of_def call_context_parts)
    then obtain w3 where "inner_chain env (on_state g) (?c, w2) = (Inr r, (?c, w3))"
        "recorded_call ?c ''succeeded'' (?wa\<lparr>pw_state := st2\<rparr>) w3"
      using inner_chain_run(2) [OF fresh(1) call_context_parts(1) fresh(2), of g "Inr r" st r ?wa st2] assms(2,5) frame(1)
      by (auto simp: call_context_parts)
    moreover have "pw_outbox ?wa = pw_outbox w2 @ anchors_of env sk payload actor r w"
      using anchored_call [OF fresh(1) assms(4) frame(3,4)] frame(3) by simp
    ultimately show ?thesis
      using anchored_frame(1,2) [of env ?c r "w2\<lparr>pw_state := st\<rparr>"]
      by (intro exI [of _ w3] exI [of _ "?wa\<lparr>pw_state := st2\<rparr>"]) (simp add: trail_def)
  qed
  from healthy_run [OF assms(1) this, of "''after''"] assms(3) show ?thesis
    by (auto simp: envelope_def call_context_parts)
qed

theorem successful_write_trace_witness:
  "\<exists>w'. run_write (sample_env None) sample_skill [] (on_state (\<lambda>_ _ st. (Inr JNull, Suc st))) sample_world =
      (Inr (JObj [(''ok'', JBool True), (''skill_id'', JStr ''x''), (''audit_id'', JStr ''a''), (''result'', JNull)]), w') \<and>
    map (\<lambda>(_, _, _, phase). phase) (trail w') = [''before'', ''after''] \<and> pw_state w' = 1 \<and> length (pw_outbox w') = 1"
proof -
  have "\<exists>w'. run_write (sample_env None) sample_skill [] (on_state (\<lambda>_ _ st. (Inr JNull, Suc st))) sample_world =
      (Inr (JObj [(''ok'', JBool True), (''skill_id'', JStr (sk_skill sample_skill)),
         (''audit_id'', JStr (pe_audit_id (sample_env None) (pw_next sample_world))), (''result'', JNull)]), w') \<and>
    call_outcome (sample_env None) sample_skill [] sample_actor ''after'' ''succeeded'' 1
      (anchors_of (sample_env None) sample_skill [] sample_actor JNull sample_world) sample_world w'"
    by (rule successful_write_trace [OF sample_healthy])
      (simp_all add: sample_parts sample_side_effects anchorable_def plain_class_def result_payload_def dget_def)
  then show ?thesis
    by (auto simp: call_outcome_def anchors_of_def sample_parts sample_side_effects trail_def Let_def)
qed

text \<open>a write whose handler raises raises the same exception; the state keeps whatever the handler had changed
  before it raised, the trail gains its \<open>before\<close> and its \<open>error\<close> event, the calls gain one row marked failed, and
  nothing is anchored.\<close>

lemma failed_write_trace:
  assumes "healthy env sk payload w actor"
    and "g (pe_audit_id env (pw_next w)) actor (pw_state w) = (Inl e, st)"
  shows "\<exists>w'. run_write env sk payload (on_state g) w = (Inl e, w') \<and>
    call_outcome env sk payload actor ''error'' ''failed'' st [] w w'"
proof -
  let ?c = "call_context env sk payload actor w"
  have "\<exists>w3 v. inner_chain env (on_state g) (?c, w2) = (Inl e, (?c, w3)) \<and> recorded_call ?c ''failed'' v w3 \<and>
      pw_calls v = pw_calls w2 \<and> trail v = trail w2 \<and> pw_outbox v = pw_outbox w2 @ [] \<and> pw_state v = st"
    if "emitted (pe_audit_id env (pw_next w)) (sk_skill sk) actor ''before'' (w\<lparr>pw_next := Suc (pw_next w)\<rparr>) w2" for w2
  proof -
    note frame = before_frame [OF that]
    note fresh = healthy_fresh [OF assms(1) frame(2)]
    obtain w3 where "inner_chain env (on_state g) (?c, w2) = (Inl e, (?c, w3))"
        "recorded_call ?c ''failed'' (w2\<lparr>pw_state := st\<rparr>) w3"
      using inner_chain_run(1) [OF fresh(1) call_context_parts(1) fresh(2), of g "Inl e" st e] assms(2) frame(1)
      by (auto simp: call_context_parts)
    then show ?thesis by (intro exI [of _ w3] exI [of _ "w2\<lparr>pw_state := st\<rparr>"]) (simp add: trail_def)
  qed
  from healthy_run [OF assms(1) this, of "''error''"] show ?thesis by auto
qed

text \<open>the anchor is put in the outbox before the cards and the snapshot are persisted: when persisting raises, the
  call is reported and recorded as failed, and the outbox keeps the anchor of its result all the same.\<close>

lemma failed_persist_keeps_anchor:
  assumes "healthy env sk payload w actor" and "side_effects sk"
    and "g (pe_audit_id env (pw_next w)) actor (pw_state w) = (Inr r, st)"
    and "anchorable env sk payload actor r st w"
    and "pe_persist env (aggregates_of env sk st) = (Some e, st2)"
  shows "\<exists>w'. run_write env sk payload (on_state g) w = (Inl e, w') \<and>
    call_outcome env sk payload actor ''error'' ''failed'' st2
      [anchor_row env (call_context env sk payload actor w) r (pw_now w)] w w'"
proof -
  let ?c = "call_context env sk payload actor w"
  have "\<exists>w3 v. inner_chain env (on_state g) (?c, w2) = (Inl e, (?c, w3)) \<and> recorded_call ?c ''failed'' v w3 \<and>
      pw_calls v = pw_calls w2 \<and> trail v = trail w2 \<and> pw_outbox v = pw_outbox w2 @ anchors_of env sk payload actor r w \<and>
      pw_state v = st2"
    if "emitted (pe_audit_id env (pw_next w)) (sk_skill sk) actor ''before'' (w\<lparr>pw_next := Suc (pw_next w)\<rparr>) w2" for w2
  proof -
    note frame = before_frame [OF that]
    note fresh = healthy_fresh [OF assms(1) frame(2)]
    let ?wa = "anchored env ?c r (w2\<lparr>pw_state := st\<rparr>)"
    have "pw_state ?wa = aggregates_of env sk st"
      by (simp add: anchored_frame aggregates_of_def call_context_parts)
    then obtain w3 where "inner_chain env (on_state g) (?c, w2) = (Inl e, (?c, w3))"
        "recorded_call ?c ''failed'' (?wa\<lparr>pw_state := st2\<rparr>) w3"
      using inner_chain_run(3) [OF fresh(1) call_context_parts(1) fresh(2), of g "Inr r" st r ?wa e st2] assms(3,5) frame(1)
      by (auto simp: call_context_parts)
    moreover have "pw_outbox ?wa = pw_outbox w2 @ anchors_of env sk payload actor r w"
      using anchored_call [OF fresh(1) assms(4) frame(3,4)] frame(3) by simp
    ultimately show ?thesis
      using anchored_frame(1,2) [of env ?c r "w2\<lparr>pw_state := st\<rparr>"]
      by (intro exI [of _ w3] exI [of _ "?wa\<lparr>pw_state := st2\<rparr>"]) (simp add: trail_def)
  qed
  from healthy_run [OF assms(1) this, of "''error''"] assms(2) show ?thesis
    by (auto simp: anchors_of_def)
qed

end
