(* ===== verification/Masking.thy ===== *)
theory Masking
  imports SafeJson
begin

text \<open>
  \<^verbatim>\<open>shared/sensitive_mask.py\<close>: what a reader sees of telephone numbers, names, e-mail
  and postal addresses and identity cards. Texts are lists of Unicode code points, because the masks count
  characters; keys are ASCII strings. The table of digits is that of \<^verbatim>\<open>str.isdigit\<close>
  in CPython 3.11.
\<close>

type_synonym codes = "nat list"

datatype mval =
    MText codes
  | MDict "(string \<times> mval) list"
  | MList "mval list"
  | MTuple "mval list"
  | MOther json

section \<open>Characters\<close>

definition digit_ranges :: "(nat \<times> nat) list" where
  "digit_ranges =
     [(48, 57), (178, 179), (185, 185), (1632, 1641), (1776, 1785), (1984, 1993), (2406, 2415), (2534, 2543),
      (2662, 2671), (2790, 2799), (2918, 2927), (3046, 3055), (3174, 3183), (3302, 3311), (3430, 3439),
      (3558, 3567), (3664, 3673), (3792, 3801), (3872, 3881), (4160, 4169), (4240, 4249), (4969, 4977),
      (6112, 6121), (6160, 6169), (6470, 6479), (6608, 6618), (6784, 6793), (6800, 6809), (6992, 7001),
      (7088, 7097), (7232, 7241), (7248, 7257), (8304, 8304), (8308, 8313), (8320, 8329), (9312, 9320),
      (9332, 9340), (9352, 9360), (9450, 9450), (9461, 9469), (9471, 9471), (10102, 10110), (10112, 10120),
      (10122, 10130), (42528, 42537), (43216, 43225), (43264, 43273), (43472, 43481), (43504, 43513),
      (43600, 43609), (44016, 44025), (65296, 65305), (66720, 66729), (68160, 68163), (68912, 68921),
      (69216, 69224), (69714, 69722), (69734, 69743), (69872, 69881), (69942, 69951), (70096, 70105),
      (70384, 70393), (70736, 70745), (70864, 70873), (71248, 71257), (71360, 71369), (71472, 71481),
      (71904, 71913), (72016, 72025), (72784, 72793), (73040, 73049), (73120, 73129), (92768, 92777),
      (92864, 92873), (93008, 93017), (120782, 120831), (123200, 123209), (123632, 123641), (125264, 125273),
      (127232, 127242), (130032, 130041)]"

definition digit_code :: "nat \<Rightarrow> bool" where
  "digit_code c \<longleftrightarrow> (\<exists>(a, b) \<in> set digit_ranges. a \<le> c \<and> c \<le> b)"

definition is_space :: "nat \<Rightarrow> bool" where
  "is_space c \<longleftrightarrow> 9 \<le> c \<and> c \<le> 13 \<or> 28 \<le> c \<and> c \<le> 32 \<or> c \<in> {133, 160, 5760} \<or>
     8192 \<le> c \<and> c \<le> 8202 \<or> c \<in> {8232, 8233, 8239, 8287, 12288}"

definition strip_codes :: "codes \<Rightarrow> codes" where
  "strip_codes s = rev (dropWhile is_space (rev (dropWhile is_space s)))"

definition is_cjk :: "nat \<Rightarrow> bool" where "is_cjk c \<longleftrightarrow> 19968 \<le> c \<and> c \<le> 40959"

definition star :: nat where "star = 42"
definition at_sign :: nat where "at_sign = 64"

definition stars :: "nat \<Rightarrow> codes" where "stars n = replicate n star"

section \<open>Tables\<close>

definition exact_mask_hints :: "(string \<times> string) list" where
  "exact_mask_hints =
    [(''phone'', ''phone''), (''mobile'', ''phone''), (''tel'', ''phone''), (''telephone'', ''phone''),
     (''contact_phone'', ''phone''), (''contact_mobile'', ''phone''), (''contact_tel'', ''phone''),
     (''name'', ''name''), (''contact_name'', ''name''), (''creator_name'', ''name''),
     (''display_name'', ''name''), (''applicant_name'', ''name''), (''handler_name'', ''name''),
     (''real_name'', ''name''), (''person_name'', ''name''), (''email'', ''email''),
     (''contact_email'', ''email''), (''mail'', ''email''), (''id_card'', ''id_card''),
     (''idcard'', ''id_card''), (''identity_num'', ''id_card''), (''identity_id'', ''id_card''),
     (''id_number'', ''id_card''), (''address'', ''address''), (''addr'', ''address''),
     (''contact_address'', ''address''), (''home_address'', ''address'')]"

definition suffix_mask_hints :: "(string \<times> string) list" where
  "suffix_mask_hints =
    [(''_phone'', ''phone''), (''_mobile'', ''phone''), (''_tel'', ''phone''), (''_email'', ''email''),
     (''_mail'', ''email''), (''_id_card'', ''id_card''), (''_idcard'', ''id_card''),
     (''_identity_num'', ''id_card''), (''_address'', ''address'')]"

definition external_profile :: "(string \<times> nat) list" where
  "external_profile =
     [(''phone'', 1), (''name'', 1), (''email'', 2), (''id_card'', 2), (''address'', 2)]"

definition mask_profiles :: "(string \<times> (string \<times> nat) list) list" where
  "mask_profiles =
     [(''internal_admin'', [(''phone'', 0), (''name'', 0), (''email'', 0), (''id_card'', 0), (''address'', 0)]),
      (''internal_viewer'', [(''phone'', 1), (''name'', 1), (''email'', 1), (''id_card'', 1), (''address'', 2)]),
      (''external'', external_profile)]"

definition level_for :: "string \<Rightarrow> string \<Rightarrow> nat" where
  "level_for role kind =
     (let profile = (case map_of mask_profiles role of Some p \<Rightarrow> p | None \<Rightarrow> external_profile)
      in case map_of profile kind of
           Some n \<Rightarrow> n
         | None \<Rightarrow> (case map_of external_profile kind of Some n \<Rightarrow> n | None \<Rightarrow> 2))"

section \<open>Masks of one value\<close>

definition last_n :: "nat \<Rightarrow> codes \<Rightarrow> codes" where "last_n n s = drop (length s - n) s"

definition mask_phone :: "string \<Rightarrow> mval \<Rightarrow> mval" where
  "mask_phone role v =
     (case v of
        MText s \<Rightarrow>
          if s = [] \<or> level_for role ''phone'' = 0 then v
          else let digits = filter digit_code s
               in MText (if length digits \<ge> 7 then take 3 digits @ stars 4 @ last_n 4 digits
                         else if length digits \<ge> 3 then take 2 digits @ stars 3 else stars 3)
      | _ \<Rightarrow> v)"

definition mask_name :: "string \<Rightarrow> mval \<Rightarrow> mval" where
  "mask_name role v =
     (case v of
        MText s \<Rightarrow>
          if s = [] \<or> level_for role ''name'' = 0 then v
          else let t = strip_codes s
               in if t = [] then MText t
                  else if list_ex is_cjk t
                  then MText (if length t > 1 then hd t # stars (length t - 1) else t @ stars 1)
                  else if length t \<le> 1 then MText (t @ stars 1)
                  else MText (hd t # stars (length t - 1))
      | _ \<Rightarrow> v)"

definition local_part :: "codes \<Rightarrow> codes" where "local_part s = takeWhile (\<lambda>c. c \<noteq> at_sign) s"

definition host_part :: "codes \<Rightarrow> codes" where "host_part s = tl (dropWhile (\<lambda>c. c \<noteq> at_sign) s)"

definition mask_email :: "string \<Rightarrow> mval \<Rightarrow> mval" where
  "mask_email role v =
     (case v of
        MText s \<Rightarrow>
          if at_sign \<notin> set s \<or> level_for role ''email'' = 0 then v
          else let masked = (if local_part s = [] then stars 1 else hd (local_part s) # stars 3)
               in MText (masked @ at_sign # (if level_for role ''email'' \<ge> 2 then stars 3 else host_part s))
      | _ \<Rightarrow> v)"

definition mask_id_card :: "string \<Rightarrow> mval \<Rightarrow> mval" where
  "mask_id_card role v =
     (case v of
        MText s \<Rightarrow>
          if s = [] \<or> level_for role ''id_card'' = 0 then v
          else if level_for role ''id_card'' \<ge> 2 then MText (stars (length s))
          else if length s \<le> 6 then MText (stars (length s))
          else MText (take 3 s @ stars (length s - 7) @ last_n 4 s)
      | _ \<Rightarrow> v)"

definition mask_address :: "string \<Rightarrow> mval \<Rightarrow> mval" where
  "mask_address role v =
     (case v of
        MText s \<Rightarrow>
          if s = [] \<or> level_for role ''address'' = 0 then v
          else if level_for role ''address'' \<ge> 2 then MText (stars 3)
          else if length s \<le> 6 then MText (stars 3)
          else MText (take 6 s @ stars 3)
      | _ \<Rightarrow> v)"

definition mask_dispatch :: "(string \<times> (string \<Rightarrow> mval \<Rightarrow> mval)) list" where
  "mask_dispatch =
     [(''phone'', mask_phone), (''name'', mask_name), (''email'', mask_email), (''id_card'', mask_id_card),
      (''address'', mask_address)]"

definition mask_value :: "string \<Rightarrow> string \<Rightarrow> mval \<Rightarrow> mval" where
  "mask_value role kind v = (case map_of mask_dispatch kind of None \<Rightarrow> v | Some fn \<Rightarrow> fn role v)"

section \<open>Payloads\<close>

type_synonym field_policy = "(string \<times> string) list"

definition resolve_kind :: "string \<Rightarrow> field_policy option \<Rightarrow> string option" where
  "resolve_kind key policy =
     (if key = [] then None
      else let lk = lower key
           in case (case policy of None \<Rightarrow> None | Some p \<Rightarrow> map_of p lk) of
                Some kind \<Rightarrow> (if kind = [] then None else Some kind)
              | None \<Rightarrow>
                  (case map_of exact_mask_hints lk of
                     Some kind \<Rightarrow> Some kind
                   | None \<Rightarrow> map_option snd (find (\<lambda>(suffix, kind). ends_with suffix lk) suffix_mask_hints)))"

fun apply_field_masks :: "field_policy option \<Rightarrow> string \<Rightarrow> string option \<Rightarrow> mval \<Rightarrow> mval" where
  "apply_field_masks policy role parent (MDict d) =
     MDict (map (\<lambda>(k, v). (k, apply_field_masks policy role (Some k) v)) d)"
| "apply_field_masks policy role parent (MList vs) = MList (map (apply_field_masks policy role parent) vs)"
| "apply_field_masks policy role parent (MTuple vs) = MTuple (map (apply_field_masks policy role parent) vs)"
| "apply_field_masks policy role parent (MText s) =
     (case parent of
        None \<Rightarrow> MText s
      | Some k \<Rightarrow> (case resolve_kind k policy of None \<Rightarrow> MText s | Some kind \<Rightarrow> mask_value role kind (MText s)))"
| "apply_field_masks policy role parent (MOther j) = MOther j"

text \<open>The role the process is configured with, an argument.\<close>

definition mask_default :: "string \<Rightarrow> mval \<Rightarrow> mval" where
  "mask_default env_role v = apply_field_masks None env_role None v"

definition mask_actor_payload :: "string \<Rightarrow> mval \<Rightarrow> mval" where
  "mask_actor_payload env_role v =
     apply_field_masks (Some [(''user_name'', ''name''), (''approve_person'', ''name''), (''handler_name'', ''name'')])
       env_role None v"

end
