(* ===== verification/MaskingSafe.thy ===== *)
theory MaskingSafe
  imports Masking "HOL-Library.Sublist"
begin

text \<open>
  What the masks guarantee: two payloads that agree on what a reader may see are masked alike, few
  characters of a masked text are the original's, and masking twice is masking once, but for two
  exceptions.
\<close>

section \<open>Characters and levels\<close>

lemma star_facts [simp]: "\<not> digit_code star" "\<not> is_space star" "star \<noteq> at_sign" "at_sign \<noteq> star" "\<not> is_cjk star"
  by (simp_all add: digit_code_def digit_ranges_def is_space_def star_def at_sign_def is_cjk_def)

lemma stars_simps [simp]: "length (stars n) = n" "set (stars n) \<subseteq> {star}" "stars n = [] \<longleftrightarrow> n = 0" "filter digit_code (stars n) = []"
  by (auto simp: stars_def)

lemma level_other:
  "role \<noteq> ''internal_admin'' \<Longrightarrow> role \<noteq> ''internal_viewer'' \<Longrightarrow> level_for role kind = level_for ''external'' kind"
  by (simp add: level_for_def mask_profiles_def)

lemma known_levels:
  "level_for ''internal_viewer'' ''phone'' = 1" "level_for ''internal_viewer'' ''name'' = 1"
  "level_for ''internal_viewer'' ''email'' = 1" "level_for ''internal_viewer'' ''id_card'' = 1"
  "level_for ''internal_viewer'' ''address'' = 2"
  "level_for ''external'' ''phone'' = 1" "level_for ''external'' ''name'' = 1"
  "level_for ''external'' ''email'' = 2" "level_for ''external'' ''id_card'' = 2"
  "level_for ''external'' ''address'' = 2"
  by code_simp+

lemma levels:
  assumes "role \<noteq> ''internal_admin''"
  shows "level_for role ''phone'' = 1" "level_for role ''name'' = 1" "level_for role ''email'' \<in> {1, 2}"
    "level_for role ''id_card'' \<in> {1, 2}" "level_for role ''address'' = 2"
    "role \<noteq> ''internal_viewer'' \<Longrightarrow> level_for role ''email'' = 2 \<and> level_for role ''id_card'' = 2"
  using assms level_other [of role] by (cases "role = ''internal_viewer''"; simp add: known_levels)+

lemma dispatch:
  "mask_value role ''phone'' = mask_phone role" "mask_value role ''name'' = mask_name role"
  "mask_value role ''email'' = mask_email role" "mask_value role ''id_card'' = mask_id_card role"
  "mask_value role ''address'' = mask_address role"
  by (simp_all add: fun_eq_iff mask_value_def mask_dispatch_def)

definition mask_kinds :: "string list" where
  "mask_kinds = [''phone'', ''name'', ''email'', ''id_card'', ''address'']"

lemma mask_value_other: "kind \<notin> set mask_kinds \<Longrightarrow> mask_value role kind v = v"
  by (simp add: mask_value_def mask_dispatch_def mask_kinds_def)

section \<open>What a reader may see\<close>

text \<open>Two texts of one kind that a reader of the role may not tell apart.\<close>

definition same_phone :: "codes \<Rightarrow> codes \<Rightarrow> bool" where
  "same_phone s t \<longleftrightarrow> s \<noteq> [] \<and> t \<noteq> [] \<and>
     (let a = filter digit_code s; b = filter digit_code t
      in length a \<ge> 7 \<and> length b \<ge> 7 \<and> take 3 a = take 3 b \<and> last_n 4 a = last_n 4 b \<or>
         length a \<in> {3..6} \<and> length b \<in> {3..6} \<and> take 2 a = take 2 b \<or>
         length a < 3 \<and> length b < 3)"

definition same_public :: "string \<Rightarrow> string \<Rightarrow> codes \<Rightarrow> codes \<Rightarrow> bool" where
  "same_public role kind s t \<longleftrightarrow>
     s = t \<or> role \<noteq> ''internal_admin'' \<and>
       (kind = ''phone'' \<and> same_phone s t \<or>
        kind = ''name'' \<and> strip_codes s \<noteq> [] \<and> strip_codes t \<noteq> [] \<and>
          hd (strip_codes s) = hd (strip_codes t) \<and> length (strip_codes s) = length (strip_codes t) \<or>
        kind = ''email'' \<and> at_sign \<in> set s \<and> at_sign \<in> set t \<and> hd s = hd t \<and>
          (role = ''internal_viewer'' \<longrightarrow> host_part s = host_part t) \<or>
        kind = ''id_card'' \<and> length s = length t \<and>
          (role = ''internal_viewer'' \<and> length s > 6 \<longrightarrow> take 3 s = take 3 t \<and> last_n 4 s = last_n 4 t) \<or>
        kind = ''address'' \<and> s \<noteq> [] \<and> t \<noteq> [])"

inductive looks_alike :: "field_policy option \<Rightarrow> string \<Rightarrow> string option \<Rightarrow> mval \<Rightarrow> mval \<Rightarrow> bool"
  for policy role where
  same: "looks_alike policy role parent v v"
| chain: "looks_alike policy role parent u v \<Longrightarrow> looks_alike policy role parent v w \<Longrightarrow>
    looks_alike policy role parent u w"
| masked: "resolve_kind k policy = Some kind \<Longrightarrow> same_public role kind s t \<Longrightarrow>
    looks_alike policy role (Some k) (MText s) (MText t)"
| in_dict: "looks_alike policy role (Some k) v w \<Longrightarrow>
    looks_alike policy role parent (MDict (d @ (k, v) # e)) (MDict (d @ (k, w) # e))"
| in_list: "looks_alike policy role parent v w \<Longrightarrow>
    looks_alike policy role parent (MList (vs @ v # ws)) (MList (vs @ w # ws))"
| in_tuple: "looks_alike policy role parent v w \<Longrightarrow>
    looks_alike policy role parent (MTuple (vs @ v # ws)) (MTuple (vs @ w # ws))"

lemma local_part_hd: "local_part s = [] \<longleftrightarrow> s = [] \<or> hd s = at_sign"
  by (cases s) (simp_all add: local_part_def)

lemma hd_local_part: "local_part s \<noteq> [] \<Longrightarrow> hd (local_part s) = hd s"
  by (cases s) (simp_all add: local_part_def split: if_splits)

lemma strip_length_one: "length t = length s \<Longrightarrow> hd s = hd t \<Longrightarrow> length s \<le> 1 \<Longrightarrow> s \<noteq> [] \<Longrightarrow> s = t"
  by (cases s; cases t) auto

lemma same_name_masked:
  assumes "strip_codes s \<noteq> []" "strip_codes t \<noteq> []" "hd (strip_codes s) = hd (strip_codes t)"
    "length (strip_codes s) = length (strip_codes t)" "role \<noteq> ''internal_admin''"
  shows "mask_name role (MText s) = mask_name role (MText t)"
proof -
  have nonempty: "s \<noteq> []" "t \<noteq> []" using assms(1,2) by (auto simp: strip_codes_def)
  have "length (strip_codes s) \<le> 1 \<Longrightarrow> strip_codes s = strip_codes t"
    using strip_length_one [of "strip_codes t" "strip_codes s"] assms by simp
  then show ?thesis
    using assms nonempty by (simp add: mask_name_def levels Let_def)
qed

lemma same_phone_masked:
  assumes "same_phone s t" and "level_for role ''phone'' = 1"
  shows "mask_phone role (MText s) = mask_phone role (MText t)"
proof -
  have nonempty: "s \<noteq> []" "t \<noteq> []" using assms(1) by (simp_all add: same_phone_def)
  have masked: "mask_phone role (MText u) =
      MText (if length (filter digit_code u) \<ge> 7 then take 3 (filter digit_code u) @ stars 4 @ last_n 4 (filter digit_code u)
             else if length (filter digit_code u) \<ge> 3 then take 2 (filter digit_code u) @ stars 3 else stars 3)"
    if "u \<noteq> []" for u
    using that assms(2) by (simp add: mask_phone_def Let_def)
  show ?thesis
    using assms(1) unfolding masked [OF nonempty(1)] masked [OF nonempty(2)] same_phone_def Let_def by auto
qed

lemma same_public_masked:
  assumes "same_public role kind s t"
  shows "mask_value role kind (MText s) = mask_value role kind (MText t)"
proof (cases "s = t")
  case False
  then have admin: "role \<noteq> ''internal_admin''" using assms by (simp add: same_public_def)
  note lv = levels [OF admin]
  consider "kind = ''phone''" "same_phone s t" | "kind = ''name''" "strip_codes s \<noteq> []" "strip_codes t \<noteq> []"
      "hd (strip_codes s) = hd (strip_codes t)" "length (strip_codes s) = length (strip_codes t)"
    | "kind = ''email''" "at_sign \<in> set s" "at_sign \<in> set t" "hd s = hd t" "role = ''internal_viewer'' \<longrightarrow> host_part s = host_part t"
    | "kind = ''id_card''" "length s = length t"
      "role = ''internal_viewer'' \<and> length s > 6 \<longrightarrow> take 3 s = take 3 t \<and> last_n 4 s = last_n 4 t"
    | "kind = ''address''" "s \<noteq> []" "t \<noteq> []"
    using assms False unfolding same_public_def by argo
  then show ?thesis
  proof cases
    case 1
    then show ?thesis using same_phone_masked [OF 1(2) lv(1)] by (simp add: dispatch)
  next
    case 2
    then show ?thesis using same_name_masked [OF 2(2-5) admin] by (simp add: dispatch)
  next
    case 3
    then have "s \<noteq> []" "t \<noteq> []" by auto
    then show ?thesis using 3 lv(3,6) by (auto simp: dispatch mask_email_def local_part_hd hd_local_part)
  next
    case 4
    then have "s = [] \<longleftrightarrow> t = []" by auto
    then show ?thesis using 4 lv(4,6) by (auto simp: dispatch mask_id_card_def)
  next
    case 5
    then show ?thesis using lv(5) by (simp add: dispatch mask_address_def)
  qed
qed simp

text \<open>C15: two payloads that agree on everything a role may see are masked alike: of a telephone number at most the first
  three and last four digits, of a name its first character and length, of an e-mail address its first
  character (and the host, for the internal viewer), of an identity card its length (and the same seven characters, for
  the internal viewer), of an address nothing; whatever the nesting, and whatever the policy of the caller.\<close>

theorem masking_reveals_no_more:
  assumes "looks_alike policy role parent v w"
  shows "apply_field_masks policy role parent v = apply_field_masks policy role parent w"
  using assms by (induction rule: looks_alike.induct) (simp_all add: same_public_masked)

theorem masking_reveals_no_more_witness:
  "apply_field_masks None ''external'' None (MDict [(''id_card'', MList [MText [51, 55, 48]])]) =
   apply_field_masks None ''external'' None (MDict [(''id_card'', MList [MText [49, 50, 88]])])"
proof (rule masking_reveals_no_more)
  have "resolve_kind ''id_card'' None = Some ''id_card''" by code_simp
  then have "looks_alike None ''external'' (Some ''id_card'') (MText [51, 55, 48]) (MText [49, 50, 88])"
    by (rule looks_alike.masked) (simp add: same_public_def)
  then have "looks_alike None ''external'' (Some ''id_card'') (MList [MText [51, 55, 48]]) (MList [MText [49, 50, 88]])"
    using looks_alike.in_list [of _ _ _ _ _ "[]" "[]"] by simp
  then show "looks_alike None ''external'' None (MDict [(''id_card'', MList [MText [51, 55, 48]])])
      (MDict [(''id_card'', MList [MText [49, 50, 88]])])"
    using looks_alike.in_dict [of _ _ _ _ _ _ "[]" "[]"] by simp
qed

section \<open>How much of a text is left\<close>

text \<open>The characters a mask chooses from, and how many of them it may keep.\<close>

definition mask_source :: "string \<Rightarrow> codes \<Rightarrow> codes" where
  "mask_source kind s = (if kind = ''phone'' then filter digit_code s else if kind = ''name'' then strip_codes s else s)"

definition mask_allowance :: "string \<Rightarrow> string \<Rightarrow> nat" where
  "mask_allowance role kind =
     (if kind = ''phone'' then 7 else if kind = ''name'' then 1
      else if kind = ''id_card'' \<and> role = ''internal_viewer'' then 7 else 0)"

lemma last_n_suffix: "suffix (last_n n s) s" "length (last_n n s) \<le> n"
  by (simp_all add: last_n_def suffix_drop)

definition masked_within :: "nat \<Rightarrow> codes \<Rightarrow> codes \<Rightarrow> bool" where
  "masked_within n src out \<longleftrightarrow>
     (\<exists>p k q. out = p @ stars k @ q \<and> prefix p src \<and> suffix q src \<and> length p + length q \<le> n)"

lemma masked_withinI: "out = p @ stars k @ q \<Longrightarrow> prefix p src \<Longrightarrow> suffix q src \<Longrightarrow> length p + length q \<le> n \<Longrightarrow>
    masked_within n src out"
  unfolding masked_within_def by blast

text \<open>for every role but the internal administrator, what is left of a telephone number, a name, an identity card or
  an address is a beginning and an end of it around a run of stars, and no more characters of it than the role is
  allowed: seven digits, one character, none (seven for the internal viewer) and none.\<close>

lemma masked_text_bounds:
  assumes "role \<noteq> ''internal_admin''" and "kind \<in> set mask_kinds" and "kind \<noteq> ''email''" and "s \<noteq> []"
  shows "\<exists>out. mask_value role kind (MText s) = MText out \<and>
    masked_within (mask_allowance role kind) (mask_source kind s) out"
proof -
  note lv = levels [OF assms(1)]
  let ?src = "mask_source kind s"
  have none: "masked_within n src (stars k)" for n src k
    by (rule masked_withinI [of _ "[]" k "[]"]) auto
  have blank: "masked_within (Suc 0) [] []"
    using none [of 1 "[]" 0] by (simp add: stars_def)
  have both: "masked_within 7 src (take 3 src @ stars k @ last_n 4 src)" for src k
    by (rule masked_withinI [of _ "take 3 src" k "last_n 4 src"])
      (use last_n_suffix [of 4 src] in \<open>auto simp: take_is_prefix intro: order_trans [of _ "3 + 4"] add_mono\<close>)
  have first: "masked_within n src (take m src @ stars k)" if "m \<le> n" for n m src k
    by (rule masked_withinI [of _ "take m src" k "[]"]) (use that in \<open>auto simp: take_is_prefix\<close>)
  consider "kind = ''phone''" | "kind = ''name''" | "kind = ''id_card''" | "kind = ''address''"
    using assms(2,3) by (auto simp: mask_kinds_def)
  then show ?thesis
  proof cases
    case 1
    then show ?thesis
      using lv(1) assms(4) none both first
      by (simp add: dispatch mask_phone_def mask_source_def mask_allowance_def Let_def)
  next
    case 2
    have one: "t \<noteq> [] \<Longrightarrow> take 1 t = [hd t]" for t :: codes by (cases t) auto
    have "t \<noteq> [] \<Longrightarrow> masked_within 1 t (hd t # stars k)" for t :: codes and k
      using first [of 1 1 t k] one [of t] by simp
    moreover have "length t = 1 \<Longrightarrow> masked_within 1 t (t @ stars k)" for t :: codes and k
      using first [of 1 1 t k] by simp
    moreover have "length t \<le> 1 \<Longrightarrow> t \<noteq> [] \<Longrightarrow> length t = 1" for t :: codes by (cases t) auto
    ultimately have "strip_codes s \<noteq> [] \<Longrightarrow> ?thesis"
      using 2 lv(2) assms(4) by (auto simp: dispatch mask_name_def mask_source_def mask_allowance_def Let_def not_less)
    moreover have "strip_codes s = [] \<Longrightarrow> ?thesis"
      using 2 lv(2) assms(4) by (simp add: dispatch mask_name_def mask_source_def mask_allowance_def) (rule blank)
    ultimately show ?thesis by blast
  next
    case 3
    then show ?thesis
      using lv(4,6) assms(4) none both
      by (auto simp: dispatch mask_id_card_def mask_source_def mask_allowance_def)
  next
    case 4
    then show ?thesis
      using lv(5) assms(4) none by (simp add: dispatch mask_address_def)
  qed
qed

text \<open>The bound is all there is: a seven-character identity card is shown whole to the internal viewer.\<close>

lemma short_id_card_unmasked: "length s = 7 \<Longrightarrow> mask_id_card ''internal_viewer'' (MText s) = MText s"
proof -
  assume "length s = 7"
  moreover have "level_for ''internal_viewer'' ''id_card'' = 1" by code_simp
  moreover have "take 3 s @ drop 3 s = s" by simp
  ultimately show ?thesis by (simp add: mask_id_card_def last_n_def stars_def)
qed

section \<open>Masking twice\<close>

text \<open>The texts a second mask changes again.\<close>

definition unsettled_text :: "string \<Rightarrow> codes \<Rightarrow> bool" where
  "unsettled_text kind s \<longleftrightarrow>
     kind = ''phone'' \<and> 3 \<le> length (filter digit_code s) \<and> length (filter digit_code s) \<le> 6 \<or> kind = ''email'' \<and> s \<noteq> [] \<and> hd s = at_sign"

fun unsettled :: "field_policy option \<Rightarrow> string option \<Rightarrow> mval \<Rightarrow> bool" where
  "unsettled policy parent (MDict d) = list_ex (\<lambda>(k, v). unsettled policy (Some k) v) d"
| "unsettled policy parent (MList vs) = list_ex (unsettled policy parent) vs"
| "unsettled policy parent (MTuple vs) = list_ex (unsettled policy parent) vs"
| "unsettled policy parent (MText s) =
     (case parent of None \<Rightarrow> False
      | Some k \<Rightarrow> (case resolve_kind k policy of None \<Rightarrow> False | Some kind \<Rightarrow> unsettled_text kind s))"
| "unsettled policy parent (MOther j) = False"

lemma filter_all: "set d \<subseteq> Collect digit_code \<Longrightarrow> filter digit_code d = d"
  by (simp add: filter_id_conv subset_eq)

lemma mask_phone_text:
  "level_for role ''phone'' = 1 \<Longrightarrow> s \<noteq> [] \<Longrightarrow> d = filter digit_code s \<Longrightarrow>
   mask_phone role (MText s) = MText (if length d \<ge> 7 then take 3 d @ stars 4 @ last_n 4 d
     else if length d \<ge> 3 then take 2 d @ stars 3 else stars 3)"
  by (simp add: mask_phone_def Let_def)

lemma phone_twice:
  assumes "level_for role ''phone'' = 1"
  shows "mask_phone role (mask_phone role (MText s)) = mask_phone role (MText s) \<longleftrightarrow>
    \<not> length (filter digit_code s) \<in> {3..6}"
proof (cases "s = []")
  case False
  let ?d = "filter digit_code s"
  have digits: "filter digit_code (take n ?d) = take n ?d" "filter digit_code (last_n n ?d) = last_n n ?d" for n
    by (rule filter_all, use set_take_subset [of n ?d] set_drop_subset [of "length ?d - n" ?d] in \<open>auto simp: last_n_def\<close>)+
  consider "length ?d \<ge> 7" | "length ?d \<in> {3..6}" | "length ?d < 3" by fastforce
  then show ?thesis
  proof cases
    case 1
    let ?out = "take 3 ?d @ stars 4 @ last_n 4 ?d"
    have out: "mask_phone role (MText s) = MText ?out" using 1 mask_phone_text [OF assms False refl] by simp
    have d: "filter digit_code ?out = take 3 ?d @ last_n 4 ?d" by (simp add: digits del: filter_filter)
    have "length (take 3 ?d @ last_n 4 ?d) = 7" "take 3 (take 3 ?d @ last_n 4 ?d) = take 3 ?d"
      "last_n 4 (take 3 ?d @ last_n 4 ?d) = last_n 4 ?d"
      using 1 by (simp_all add: last_n_def)
    then have "mask_phone role (MText ?out) = MText ?out"
      using mask_phone_text [OF assms, of ?out, OF _ d [symmetric]] by simp
    then show ?thesis using 1 out by simp
  next
    case 2
    let ?out = "take 2 ?d @ stars 3"
    have out: "mask_phone role (MText s) = MText ?out" using 2 mask_phone_text [OF assms False refl] by simp
    have d: "filter digit_code ?out = take 2 ?d" by (simp add: digits del: filter_filter)
    have "mask_phone role (MText ?out) = MText (stars 3)"
      using mask_phone_text [OF assms, of ?out, OF _ d [symmetric]] 2 by simp
    moreover have "stars 3 \<noteq> ?out" by (rule notI, drule arg_cong [of _ _ length]) (use 2 in simp)
    ultimately show ?thesis using 2 out by simp
  next
    case 3
    have out: "mask_phone role (MText s) = MText (stars 3)" using 3 mask_phone_text [OF assms False refl] by simp
    have "mask_phone role (MText (stars 3)) = MText (stars 3)"
      using mask_phone_text [OF assms, of "stars 3" "[]"] by simp
    then show ?thesis using 3 out by simp
  qed
qed (simp add: mask_phone_def)

lemma strip_marked: "\<not> is_space x \<Longrightarrow> strip_codes (x # stars k) = x # stars k"
proof -
  assume x: "\<not> is_space x"
  have "dropWhile is_space (stars k @ [x]) = stars k @ [x]"
    using x by (cases k) (simp_all add: stars_def)
  moreover have "rev (x # stars k) = stars k @ [x]" by (simp add: stars_def)
  ultimately show ?thesis
    using x by (simp add: strip_codes_def)
qed

lemma strip_head:
  assumes "strip_codes s \<noteq> []"
  shows "\<not> is_space (hd (strip_codes s))"
proof -
  let ?t = "dropWhile is_space s"
  have "?t \<noteq> []" using assms by (auto simp: strip_codes_def dest: set_dropWhileD)
  then have head: "\<not> is_space (hd ?t)" using hd_dropWhile [of is_space s] set_dropWhileD [of _ is_space s]
    by (metis dropWhile_eq_Nil_conv)
  obtain x xs where t: "?t = x # xs" using \<open>?t \<noteq> []\<close> by (meson neq_Nil_conv)
  have "rev (dropWhile is_space (rev xs @ [x])) \<noteq> [] \<and> hd (rev (dropWhile is_space (rev xs @ [x]))) = x"
    using head t by (simp add: dropWhile_append)
  then show ?thesis using head t by (simp add: strip_codes_def)
qed

lemma name_twice:
  assumes "level_for role ''name'' = 1"
  shows "mask_name role (mask_name role (MText s)) = mask_name role (MText s)"
proof (cases "s = [] \<or> strip_codes s = []")
  case True
  then show ?thesis using assms by (auto simp: mask_name_def strip_codes_def)
next
  case False
  define t where "t = strip_codes s"
  let ?k = "max 1 (length t - 1)"
  have ne: "t \<noteq> []" and head: "\<not> is_space (hd t)" using False strip_head by (auto simp: t_def)
  have single: "length t \<le> 1 \<Longrightarrow> t @ stars 1 = hd t # stars ?k" using ne by (cases t) auto
  have "mask_name role (MText s) = MText (hd t # stars ?k)"
    using False assms single ne by (auto simp: mask_name_def t_def Let_def max_def)
  moreover have "mask_name role (MText (hd t # stars ?k)) = MText (hd t # stars ?k)"
    using assms strip_marked [OF head, of ?k] by (simp add: mask_name_def Let_def)
  ultimately show ?thesis by simp
qed

lemma email_once:
  "at_sign \<in> set s \<Longrightarrow> level_for role ''email'' \<noteq> 0 \<Longrightarrow>
   mask_email role (MText s) = MText ((if hd s = at_sign then stars 1 else hd s # stars 3) @
     at_sign # (if level_for role ''email'' \<ge> 2 then stars 3 else host_part s))"
  by (auto simp: mask_email_def Let_def local_part_hd hd_local_part)

lemma host_part_append: "at_sign \<notin> set p \<Longrightarrow> host_part (p @ at_sign # h) = h"
  by (induction p) (auto simp: host_part_def)

lemma email_twice:
  assumes "level_for role ''email'' \<noteq> 0"
  shows "mask_email role (mask_email role (MText s)) = mask_email role (MText s) \<longleftrightarrow> \<not> (s \<noteq> [] \<and> hd s = at_sign)"
proof (cases "at_sign \<in> set s")
  case True
  define p where "p = (if hd s = at_sign then stars 1 else hd s # stars 3)"
  define h where "h = (if level_for role ''email'' \<ge> 2 then stars 3 else host_part s)"
  have p: "at_sign \<notin> set p" "hd (p @ at_sign # h) = (if hd s = at_sign then star else hd s)"
    by (auto simp: stars_def p_def)
  have once: "mask_email role (MText s) = MText (p @ at_sign # h)"
    using email_once [OF True assms] by (simp add: p_def h_def)
  have tail: "(if level_for role ''email'' \<ge> 2 then stars 3 else host_part (p @ at_sign # h)) = h"
    unfolding host_part_append [OF p(1)] by (simp add: h_def)
  have head: "hd (p @ at_sign # h) \<noteq> at_sign" using p(2) by simp
  have "mask_email role (MText (p @ at_sign # h)) = MText ((hd (p @ at_sign # h) # stars 3) @ at_sign # h)"
    using email_once [of "p @ at_sign # h" role, OF _ assms] head tail by simp
  moreover have "s \<noteq> []" using True by auto
  ultimately show ?thesis
    using once p(2) by (simp add: p_def stars_def split: if_splits)
next
  case False
  then have "\<not> (s \<noteq> [] \<and> hd s = at_sign)" by (metis list.set_sel(1))
  then show ?thesis using False by (simp add: mask_email_def)
qed

lemma id_card_twice:
  assumes "level_for role ''id_card'' \<in> {1, 2}"
  shows "mask_id_card role (mask_id_card role (MText s)) = mask_id_card role (MText s)"
proof (cases "level_for role ''id_card'' = 1 \<and> length s > 6")
  case True
  let ?out = "take 3 s @ stars (length s - 7) @ last_n 4 s"
  have "mask_id_card role (MText s) = MText ?out" using True by (auto simp: mask_id_card_def)
  moreover have "length ?out = length s" "take 3 ?out = take 3 s" "last_n 4 ?out = last_n 4 s"
    using True by (auto simp: last_n_def)
  moreover have "mask_id_card role (MText u) = MText (take 3 u @ stars (length u - 7) @ last_n 4 u)" if "length u > 6" for u
    using that True by (auto simp: mask_id_card_def)
  ultimately show ?thesis using True by metis
next
  case False
  then have "s = [] \<or> mask_id_card role (MText s) = MText (stars (length s))"
    using assms by (auto simp: mask_id_card_def)
  moreover have "s \<noteq> [] \<Longrightarrow> mask_id_card role (MText (stars (length s))) = MText (stars (length s))"
    using False assms by (auto simp: mask_id_card_def)
  moreover have "mask_id_card role (MText []) = MText []" by (simp add: mask_id_card_def)
  ultimately show ?thesis by metis
qed

lemma address_twice: "level_for role ''address'' = 2 \<Longrightarrow> mask_address role (mask_address role (MText s)) = mask_address role (MText s)"
  by (simp add: mask_address_def)

lemma mask_value_text: "\<exists>t. mask_value role kind (MText s) = MText t"
  by (cases "kind \<in> set mask_kinds")
    (auto simp: mask_kinds_def dispatch mask_value_other mask_phone_def mask_name_def mask_email_def mask_id_card_def
      mask_address_def Let_def)

lemma value_twice:
  assumes "role \<noteq> ''internal_admin''"
  shows "mask_value role kind (mask_value role kind (MText s)) = mask_value role kind (MText s) \<longleftrightarrow> \<not> unsettled_text kind s"
proof (cases "kind \<in> set mask_kinds")
  case True
  note lv = levels [OF assms]
  have email: "level_for role ''email'' \<noteq> 0" using lv(3) by auto
  from True consider "kind = ''phone''" | "kind = ''name''" | "kind = ''email''" | "kind = ''id_card''" | "kind = ''address''"
    by (auto simp: mask_kinds_def)
  then show ?thesis
    using phone_twice [OF lv(1), of s] name_twice [OF lv(2), of s] email_twice [OF email, of s]
      id_card_twice [OF lv(4), of s] address_twice [OF lv(5), of s]
    by cases (simp_all add: dispatch unsettled_text_def)
next
  case False
  then show ?thesis by (auto simp: mask_value_other unsettled_text_def mask_kinds_def)
qed

text \<open>masking a payload a second time changes nothing exactly when it holds no telephone number of three to six
  digits and no e-mail address that begins with the at sign, at any depth under a key that is masked as such.\<close>

lemma masking_twice_iff:
  assumes "role \<noteq> ''internal_admin''"
  shows "apply_field_masks policy role parent (apply_field_masks policy role parent v) =
    apply_field_masks policy role parent v \<longleftrightarrow> \<not> unsettled policy parent v"
proof (induction v arbitrary: parent)
  case (MText s)
  show ?case
  proof (cases "parent = None \<or> resolve_kind (the parent) policy = None")
    case False
    then obtain k kind where k: "parent = Some k" "resolve_kind k policy = Some kind" by auto
    obtain t where "mask_value role kind (MText s) = MText t" using mask_value_text by blast
    then show ?thesis using value_twice [OF assms, of kind s] k by simp
  qed (auto split: option.splits)
next
  case (MDict d)
  have "apply_field_masks policy role parent (apply_field_masks policy role parent (MDict d)) =
      apply_field_masks policy role parent (MDict d) \<longleftrightarrow>
      (\<forall>(k, w) \<in> set d. apply_field_masks policy role (Some k) (apply_field_masks policy role (Some k) w) =
        apply_field_masks policy role (Some k) w)"
    by (auto simp: split_beta)
  then show ?case using MDict by (fastforce simp: list_ex_iff split_beta)
next
  case (MList vs)
  then show ?case by (auto simp: list_ex_iff)
next
  case (MTuple vs)
  then show ?case by (auto simp: list_ex_iff)
qed simp

end
