(* ===== verification/AnchorOutbox.thy ===== *)
theory AnchorOutbox
  imports AuditTrail Tables
begin

text \<open>
  The asynchronous half of anchoring: \<^verbatim>\<open>background_tasks/__init__.py\<close> drains the outbox of
  \<^verbatim>\<open>shared/database_store.py\<close> into receipts. A drain pass is a function; several workers that
  drain at once, and may crash anywhere, are a step relation whose steps are the single
  transactions and the single calls of the chain. The chain itself is an argument; the adapter that is shipped
  (\<^verbatim>\<open>adapters/blockchain_adapter\<close>) is one instance.
\<close>

section \<open>Receipts and the outbox\<close>

record receipt =
  re_tx :: string
  re_height :: "int option"
  re_chain :: string
  re_at :: nat

record receipt_row =
  rr_request :: string
  rr_skill :: string
  rr_hash :: string
  rr_receipt :: receipt

record anchor_db =
  ad_outbox :: "outbox_row list"
  ad_receipts :: "receipt_row list"

text \<open>The shipped adapter: a deterministic receipt.\<close>

type_synonym chain = "string \<Rightarrow> string \<Rightarrow> nat \<Rightarrow> exn + receipt"

definition anchor :: chain where
  "anchor hash chain now = Inr \<lparr>re_tx = ''mock:'' @ take 16 hash, re_height = None, re_chain = chain, re_at = now\<rparr>"

definition list_pending_anchor_outbox :: "anchor_db \<Rightarrow> outbox_row list" where
  "list_pending_anchor_outbox db = sort_key ob_created (filter (\<lambda>r. \<not> ob_delivered r) (ad_outbox db))"

definition anchor_claim_lease :: nat where "anchor_claim_lease = 300"

text \<open>A row is free when it is not delivered and nobody holds a fresh lease on it.\<close>

definition claimable :: "nat \<Rightarrow> nat \<Rightarrow> outbox_row \<Rightarrow> bool" where
  "claimable lease now r \<longleftrightarrow>
     \<not> ob_delivered r \<and> (case ob_claimed r of None \<Rightarrow> True | Some t \<Rightarrow> t + lease \<le> now)"

text \<open>The conditional update; the caller owns the row if it changed exactly one.\<close>

definition claim_anchor_outbox :: "nat \<Rightarrow> nat \<Rightarrow> string \<Rightarrow> anchor_db \<Rightarrow> bool \<times> anchor_db" where
  "claim_anchor_outbox lease now hash db =
     (let hit = (\<lambda>r. ob_hash r = hash \<and> claimable lease now r)
      in (length (filter hit (ad_outbox db)) = 1,
          db\<lparr>ad_outbox := map (\<lambda>r. if hit r then r\<lparr>ob_claimed := Some now\<rparr> else r) (ad_outbox db)\<rparr>))"

definition append_anchor_receipt :: "outbox_row \<Rightarrow> receipt \<Rightarrow> anchor_db \<Rightarrow> anchor_db" where
  "append_anchor_receipt r receipt db =
     (let new = \<lparr>rr_request = ob_request r, rr_skill = ob_skill r, rr_hash = ob_hash r, rr_receipt = receipt\<rparr>
      in db\<lparr>ad_receipts := (if row_by rr_hash (ob_hash r) (ad_receipts db) = None then ad_receipts db @ [new]
                            else put_row rr_hash new (ad_receipts db))\<rparr>)"

definition mark_anchor_delivered :: "string \<Rightarrow> anchor_db \<Rightarrow> anchor_db" where
  "mark_anchor_delivered hash db =
     (case row_by ob_hash hash (ad_outbox db) of
        None \<Rightarrow> db
      | Some r \<Rightarrow> db\<lparr>ad_outbox := put_row ob_hash (r\<lparr>ob_delivered := True\<rparr>) (ad_outbox db)\<rparr>)"

section \<open>A drain pass\<close>

text \<open>The rows listed at the start of the pass, the readings of the clock, and the number of the row.\<close>

fun drain_rows :: "chain \<Rightarrow> nat \<Rightarrow> (nat \<Rightarrow> nat) \<Rightarrow> nat \<Rightarrow> outbox_row list \<Rightarrow> anchor_db \<Rightarrow> (exn + nat) \<times> anchor_db" where
  "drain_rows chain lease clock n [] db = (Inr 0, db)"
| "drain_rows chain lease clock n (r # rs) db =
     (case claim_anchor_outbox lease (clock n) (ob_hash r) db of
        (False, db1) \<Rightarrow> drain_rows chain lease clock (Suc n) rs db1
      | (True, db1) \<Rightarrow>
          (case chain (ob_hash r) (ob_chain r) (clock n) of
             Inl e \<Rightarrow> (Inl e, db1)
           | Inr receipt \<Rightarrow>
               (case drain_rows chain lease clock (Suc n) rs
                       (mark_anchor_delivered (ob_hash r) (append_anchor_receipt r receipt db1)) of
                  (Inl e, db2) \<Rightarrow> (Inl e, db2)
                | (Inr k, db2) \<Rightarrow> (Inr (Suc k), db2))))"

definition drain_outbox :: "chain \<Rightarrow> (nat \<Rightarrow> nat) \<Rightarrow> anchor_db \<Rightarrow> (exn + nat) \<times> anchor_db" where
  "drain_outbox chain clock db =
     drain_rows chain anchor_claim_lease clock 0 (list_pending_anchor_outbox db) db"

definition run_outbox_once :: "(nat \<Rightarrow> nat) \<Rightarrow> anchor_db \<Rightarrow> (exn + nat) \<times> anchor_db" where
  "run_outbox_once = drain_outbox anchor"

text \<open>The worker thread: it drains, swallows what a pass raises, and waits.\<close>

fun anchor_worker_run :: "chain \<Rightarrow> (nat \<Rightarrow> nat) list \<Rightarrow> anchor_db \<Rightarrow> anchor_db" where
  "anchor_worker_run chain [] db = db"
| "anchor_worker_run chain (clock # passes) db =
     anchor_worker_run chain passes (snd (drain_outbox chain clock db))"

section \<open>Workers that drain at once\<close>

text \<open>Where a worker stands in its pass; a row it has claimed is held with the time of the claim.\<close>

datatype worker =
    Idle
  | Claiming "outbox_row list"
  | Anchoring outbox_row nat "outbox_row list"
  | Recording outbox_row nat receipt "outbox_row list"
  | Marking outbox_row nat "outbox_row list"

record anchor_world =
  aw_db :: anchor_db
  aw_clock :: nat
  aw_workers :: "nat \<Rightarrow> worker"
  aw_fired :: "(nat \<times> string \<times> nat) list"

definition set_worker :: "nat \<Rightarrow> worker \<Rightarrow> anchor_world \<Rightarrow> anchor_world" where
  "set_worker i s w = w\<lparr>aw_workers := (aw_workers w)(i := s)\<rparr>"

inductive anchor_step :: "chain \<Rightarrow> anchor_world \<Rightarrow> anchor_world \<Rightarrow> bool" for chain where
  tick: "anchor_step chain w (w\<lparr>aw_clock := aw_clock w + d\<rparr>)"
| enqueue: "ob_hash r \<notin> ob_hash ` set (ad_outbox (aw_db w)) \<Longrightarrow> \<not> ob_delivered r \<Longrightarrow> ob_claimed r = None \<Longrightarrow>
    anchor_step chain w (w\<lparr>aw_db := (aw_db w)\<lparr>ad_outbox := ad_outbox (aw_db w) @ [r]\<rparr>\<rparr>)"
| start: "aw_workers w i = Idle \<Longrightarrow>
    anchor_step chain w (set_worker i (Claiming (list_pending_anchor_outbox (aw_db w))) w)"
| finish: "aw_workers w i = Claiming [] \<Longrightarrow> anchor_step chain w (set_worker i Idle w)"
| skip: "aw_workers w i = Claiming (r # rs) \<Longrightarrow>
    claim_anchor_outbox anchor_claim_lease (aw_clock w) (ob_hash r) (aw_db w) = (False, db) \<Longrightarrow>
    anchor_step chain w (set_worker i (Claiming rs) (w\<lparr>aw_db := db\<rparr>))"
| claim: "aw_workers w i = Claiming (r # rs) \<Longrightarrow>
    claim_anchor_outbox anchor_claim_lease (aw_clock w) (ob_hash r) (aw_db w) = (True, db) \<Longrightarrow>
    anchor_step chain w (set_worker i (Anchoring r (aw_clock w) rs) (w\<lparr>aw_db := db\<rparr>))"
| fire: "aw_workers w i = Anchoring r t rs \<Longrightarrow> chain (ob_hash r) (ob_chain r) (aw_clock w) = Inr receipt \<Longrightarrow>
    anchor_step chain w (set_worker i (Recording r t receipt rs) (w\<lparr>aw_fired := aw_fired w @ [(i, ob_hash r, t)]\<rparr>))"
| fail: "aw_workers w i = Anchoring r t rs \<Longrightarrow> chain (ob_hash r) (ob_chain r) (aw_clock w) = Inl e \<Longrightarrow>
    anchor_step chain w (set_worker i Idle w)"
| put: "aw_workers w i = Recording r t receipt rs \<Longrightarrow>
    anchor_step chain w (set_worker i (Marking r t rs) (w\<lparr>aw_db := append_anchor_receipt r receipt (aw_db w)\<rparr>))"
| mark: "aw_workers w i = Marking r t rs \<Longrightarrow>
    anchor_step chain w (set_worker i (Claiming rs) (w\<lparr>aw_db := mark_anchor_delivered (ob_hash r) (aw_db w)\<rparr>))"
| crash: "anchor_step chain w (set_worker i Idle w)"

text \<open>A database whose rows nobody has claimed yet, and idle workers.\<close>

definition fresh_world :: "anchor_world \<Rightarrow> bool" where
  "fresh_world w \<longleftrightarrow> unique_on ob_hash (ad_outbox (aw_db w)) \<and> ad_receipts (aw_db w) = [] \<and>
     (\<forall>r \<in> set (ad_outbox (aw_db w)). \<not> ob_delivered r \<and> ob_claimed r = None) \<and>
     aw_workers w = (\<lambda>_. Idle) \<and> aw_fired w = []"

definition anchor_reachable :: "chain \<Rightarrow> anchor_world \<Rightarrow> anchor_world \<Rightarrow> bool" where
  "anchor_reachable chain = (anchor_step chain)\<^sup>*\<^sup>*"

end
