(* ===== verification/AnchorSafe.thy ===== *)
theory AnchorSafe
  imports AnchorOutbox
begin

text \<open>
  What the outbox guarantees when several workers drain it: claims of one row are a lease apart, and a
  delivered row has its receipt.
\<close>

section \<open>Leases\<close>

text \<open>
  A store that lends keys for a time. Each borrower (\<open>play\<close>) holds a key since some time; the store
  remembers the last loan of a key (\<open>held\<close>). A step may move loans between borrowers and grant one new
  loan, of a key that was free or whose last loan has run out.
\<close>

definition apart :: "nat \<Rightarrow> nat \<Rightarrow> nat \<Rightarrow> bool" where
  "apart lease s t \<longleftrightarrow> s + lease \<le> t \<or> t + lease \<le> s"

locale leases =
  fixes step :: "'w \<Rightarrow> 'w \<Rightarrow> bool"
    and inv :: "'w \<Rightarrow> bool"
    and play :: "'w \<Rightarrow> 'id \<Rightarrow> ('key \<times> nat) option"
    and held :: "'w \<Rightarrow> 'key \<Rightarrow> nat option"
    and lease :: nat
  assumes inv_step: "inv w \<Longrightarrow> step w w' \<Longrightarrow> inv w'"
    and held_grows: "inv w \<Longrightarrow> step w w' \<Longrightarrow> held w k = Some t \<Longrightarrow> \<exists>t'. held w' k = Some t' \<and> t \<le> t'"
    and play_moves: "inv w \<Longrightarrow> step w w' \<Longrightarrow> \<exists>f new. inj_on f (dom (play w')) \<and>
      (\<forall>x c. play w' x = Some c \<longrightarrow> new \<noteq> Some x \<longrightarrow> play w (f x) = Some c) \<and>
      (\<forall>x k t. play w' x = Some (k, t) \<longrightarrow> new = Some x \<longrightarrow>
         held w' k = Some t \<and> (\<forall>s. held w k = Some s \<longrightarrow> s + lease \<le> t))"
begin

definition covered :: "'w \<Rightarrow> bool" where
  "covered w \<longleftrightarrow> (\<forall>x k t. play w x = Some (k, t) \<longrightarrow> (\<exists>s. held w k = Some s \<and> t \<le> s))"

definition spaced :: "'w \<Rightarrow> bool" where
  "spaced w \<longleftrightarrow> (\<forall>x y k s t. x \<noteq> y \<longrightarrow> play w x = Some (k, s) \<longrightarrow> play w y = Some (k, t) \<longrightarrow> apart lease s t)"

lemma covered_step:
  assumes "inv w" "covered w" "step w w'"
  shows "covered w'"
proof -
  obtain f new where old: "\<forall>x c. play w' x = Some c \<longrightarrow> new \<noteq> Some x \<longrightarrow> play w (f x) = Some c"
    and fresh: "\<forall>x k t. play w' x = Some (k, t) \<longrightarrow> new = Some x \<longrightarrow>
         held w' k = Some t \<and> (\<forall>s. held w k = Some s \<longrightarrow> s + lease \<le> t)"
    using play_moves [OF assms(1,3)] by (elim exE conjE) (rule that)
  show ?thesis
    unfolding covered_def
  proof (intro allI impI)
    fix x k t
    assume x: "play w' x = Some (k, t)"
    show "\<exists>s. held w' k = Some s \<and> t \<le> s"
    proof (cases "new = Some x")
      case True
      then show ?thesis using fresh x by blast
    next
      case False
      then obtain s where "held w k = Some s" "t \<le> s" using old x assms(2) unfolding covered_def by blast
      then show ?thesis using held_grows [OF assms(1,3)] by (meson order_trans)
    qed
  qed
qed

lemma spaced_step:
  assumes "inv w" "covered w" "spaced w" "step w w'"
  shows "spaced w'"
proof -
  obtain f new where inj: "inj_on f (dom (play w'))"
    and old: "\<forall>x c. play w' x = Some c \<longrightarrow> new \<noteq> Some x \<longrightarrow> play w (f x) = Some c"
    and fresh: "\<forall>x k t. play w' x = Some (k, t) \<longrightarrow> new = Some x \<longrightarrow>
         held w' k = Some t \<and> (\<forall>s. held w k = Some s \<longrightarrow> s + lease \<le> t)"
    using play_moves [OF assms(1,4)] by (elim exE conjE) (rule that)
  have late: "apart lease s t" if "play w' x = Some (k, s)" "play w' y = Some (k, t)" "new = Some x" "x \<noteq> y" for x y k s t
  proof -
    have "play w (f y) = Some (k, t)" using old that(2-4) by simp
    then obtain u where u: "held w k = Some u" "t \<le> u" using assms(2) unfolding covered_def by blast
    then have "u + lease \<le> s" using fresh that(1,3) by blast
    then show ?thesis using u(2) by (simp add: apart_def)
  qed
  show ?thesis
    unfolding spaced_def
  proof (intro allI impI)
    fix x y k s t
    assume xy: "x \<noteq> y" "play w' x = Some (k, s)" "play w' y = Some (k, t)"
    consider "new = Some x" | "new = Some y" | "new \<noteq> Some x" "new \<noteq> Some y" by blast
    then show "apart lease s t"
    proof cases
      case 1
      then show ?thesis using late xy by blast
    next
      case 2
      then have "apart lease t s" using late [OF xy(3,2)] xy(1) by simp
      then show ?thesis by (auto simp: apart_def)
    next
      case 3
      have "f x \<noteq> f y" using inj xy by (auto simp: inj_on_def dom_def)
      then show ?thesis using old xy 3 assms(3) unfolding spaced_def by blast
    qed
  qed
qed

lemma spaced_reachable:
  assumes "step\<^sup>*\<^sup>* w w'" and "inv w" and "play w = Map.empty"
  shows "inv w' \<and> covered w' \<and> spaced w'"
  using assms(1)
proof (induction rule: rtranclp_induct)
  case base
  then show ?case using assms(2,3) by (simp add: covered_def spaced_def)
next
  case (step v w')
  then show ?case using inv_step covered_step spaced_step by blast
qed

end

section \<open>The outbox lends its rows\<close>

definition claim_of :: "anchor_world \<Rightarrow> string \<Rightarrow> nat option" where
  "claim_of w hash = Option.bind (row_by ob_hash hash (ad_outbox (aw_db w))) ob_claimed"

text \<open>The claims in play: those whose anchor was fired, and those about to fire.\<close>

definition in_play :: "anchor_world \<Rightarrow> nat + nat \<Rightarrow> (string \<times> nat) option" where
  "in_play w x =
     (case x of
        Inl k \<Rightarrow> if k < length (aw_fired w) then Some (snd (aw_fired w ! k)) else None
      | Inr i \<Rightarrow> (case aw_workers w i of Anchoring r t rs \<Rightarrow> Some (ob_hash r, t) | _ \<Rightarrow> None))"

definition outbox_unique :: "anchor_world \<Rightarrow> bool" where
  "outbox_unique w \<longleftrightarrow> unique_on ob_hash (ad_outbox (aw_db w))"

lemma claim_outbox:
  "ad_outbox (snd (claim_anchor_outbox lease now h db)) =
   map (\<lambda>r. if ob_hash r = h \<and> claimable lease now r then r\<lparr>ob_claimed := Some now\<rparr> else r) (ad_outbox db)"
  by (simp add: claim_anchor_outbox_def Let_def)

lemma claim_hashes: "map ob_hash (ad_outbox (snd (claim_anchor_outbox lease now h db))) = map ob_hash (ad_outbox db)"
  by (simp add: claim_outbox)

lemma mark_outbox_hashes: "map ob_hash (ad_outbox (mark_anchor_delivered h db)) = map ob_hash (ad_outbox db)"
  by (simp add: mark_anchor_delivered_def split: option.split)

lemma row_by_map:
  "(\<And>r. keyf (f r) = keyf r) \<Longrightarrow> row_by keyf k (map f rows) = map_option f (row_by keyf k rows)"
  by (induction rows) (auto simp: row_by_def)

lemma row_by_claim:
  "row_by ob_hash k (ad_outbox (snd (claim_anchor_outbox lease now h db))) =
   map_option (\<lambda>r. if ob_hash r = h \<and> claimable lease now r then r\<lparr>ob_claimed := Some now\<rparr> else r)
     (row_by ob_hash k (ad_outbox db))"
  unfolding claim_outbox by (rule row_by_map) simp

text \<open>With unique hashes a claim succeeds exactly when the row is free.\<close>

lemma free_rows:
  "unique_on ob_hash rows \<Longrightarrow>
   length (filter (\<lambda>r. ob_hash r = h \<and> claimable lease now r) rows) = 1 \<longleftrightarrow>
     (\<exists>r. row_by ob_hash h rows = Some r \<and> claimable lease now r)"
proof (induction rows)
  case (Cons x rows)
  show ?case
  proof (cases "ob_hash x = h")
    case True
    then have "filter (\<lambda>r. ob_hash r = h \<and> claimable lease now r) rows = []"
      using Cons.prems by (auto simp: unique_on_def filter_empty_conv image_iff)
    then show ?thesis using True by (simp add: row_by_Cons)
  next
    case False
    then show ?thesis using Cons by (simp add: row_by_Cons unique_on_def)
  qed
qed simp

lemma claim_iff:
  assumes "unique_on ob_hash (ad_outbox db)"
  shows "fst (claim_anchor_outbox lease now h db) \<longleftrightarrow>
    (\<exists>r. row_by ob_hash h (ad_outbox db) = Some r \<and> claimable lease now r)"
  using free_rows [OF assms] by (simp add: claim_anchor_outbox_def Let_def)

lemma mark_claim: "map_option ob_claimed (row_by ob_hash k (ad_outbox (mark_anchor_delivered h db))) =
    map_option ob_claimed (row_by ob_hash k (ad_outbox db))"
proof (cases "row_by ob_hash h (ad_outbox db)")
  case (Some r)
  then have r: "r \<in> set (ad_outbox db)" "ob_hash r = h" by (auto dest: row_by_SomeD)
  then show ?thesis
    using Some row_by_put_row [of r "ad_outbox db" ob_hash "r\<lparr>ob_delivered := True\<rparr>" k]
    by (auto simp: mark_anchor_delivered_def)
qed (simp add: mark_anchor_delivered_def)

lemma claim_of_eq: "claim_of w h = Option.bind (map_option ob_claimed (row_by ob_hash h (ad_outbox (aw_db w)))) id"
  by (cases "row_by ob_hash h (ad_outbox (aw_db w))") (simp_all add: claim_of_def)

lemma claim_of_mark: "claim_of (w\<lparr>aw_db := mark_anchor_delivered h (aw_db w)\<rparr>) k = claim_of w k"
  by (simp add: claim_of_eq mark_claim)

lemma claim_of_claim:
  "claim_anchor_outbox lease (aw_clock w) h (aw_db w) = (b, db) \<Longrightarrow>
   claim_of (w\<lparr>aw_db := db\<rparr>) k =
     (case row_by ob_hash k (ad_outbox (aw_db w)) of
        None \<Rightarrow> None
      | Some r \<Rightarrow> if ob_hash r = h \<and> claimable lease (aw_clock w) r then Some (aw_clock w) else ob_claimed r)"
  using row_by_claim [of k lease "aw_clock w" h "aw_db w"]
  by (auto simp: claim_of_def split: option.splits)

lemma claim_of_simps [simp]:
  "claim_of (set_worker i s w) k = claim_of w k" "claim_of (w\<lparr>aw_clock := c\<rparr>) k = claim_of w k"
  "claim_of (w\<lparr>aw_fired := l\<rparr>) k = claim_of w k"
  "claim_of (w\<lparr>aw_db := append_anchor_receipt r receipt (aw_db w)\<rparr>) k = claim_of w k"
  by (simp_all add: claim_of_def set_worker_def append_anchor_receipt_def Let_def)

text \<open>Unique hashes, and no claim from the future.\<close>

definition anchor_inv :: "anchor_world \<Rightarrow> bool" where
  "anchor_inv w \<longleftrightarrow> outbox_unique w \<and>
     (\<forall>r \<in> set (ad_outbox (aw_db w)). \<forall>u. ob_claimed r = Some u \<longrightarrow> u \<le> aw_clock w)"

lemma claim_inv:
  assumes "claim_anchor_outbox lease (aw_clock w) h (aw_db w) = (b, db)" and "anchor_inv w"
  shows "anchor_inv (w\<lparr>aw_db := db\<rparr>)"
proof -
  have db: "db = snd (claim_anchor_outbox lease (aw_clock w) h (aw_db w))" using assms(1) by simp
  have "map ob_hash (ad_outbox db) = map ob_hash (ad_outbox (aw_db w))"
    unfolding db by (rule claim_hashes)
  moreover have "\<forall>r \<in> set (ad_outbox db). \<forall>u. ob_claimed r = Some u \<longrightarrow> u \<le> aw_clock w"
    using assms(2) unfolding db claim_outbox by (auto simp: anchor_inv_def)
  ultimately show ?thesis
    using assms(2) by (simp add: anchor_inv_def outbox_unique_def unique_on_def)
qed

lemma claim_grows:
  assumes "claim_anchor_outbox lease (aw_clock w) h (aw_db w) = (b, db)" and "anchor_inv w" and "claim_of w k = Some t"
  shows "\<exists>t'. claim_of (w\<lparr>aw_db := db\<rparr>) k = Some t' \<and> t \<le> t'"
proof -
  obtain r where r: "row_by ob_hash k (ad_outbox (aw_db w)) = Some r" "ob_claimed r = Some t"
    using assms(3) by (auto simp: claim_of_def Option.bind_eq_Some_conv)
  then have "t \<le> aw_clock w" using assms(2) by (auto simp: anchor_inv_def dest!: row_by_SomeD)
  then show ?thesis using r by (simp add: claim_of_claim [OF assms(1)])
qed

lemma anchor_inv_set_worker [simp]: "anchor_inv (set_worker i s w) = anchor_inv w"
  "anchor_inv (w\<lparr>aw_fired := l\<rparr>) = anchor_inv w"
  "anchor_inv (w\<lparr>aw_db := append_anchor_receipt r receipt (aw_db w)\<rparr>) = anchor_inv w"
  by (simp_all add: anchor_inv_def outbox_unique_def set_worker_def append_anchor_receipt_def Let_def)

lemma mark_inv: "anchor_inv w \<Longrightarrow> anchor_inv (w\<lparr>aw_db := mark_anchor_delivered h (aw_db w)\<rparr>)"
  unfolding anchor_inv_def outbox_unique_def unique_on_def
  by (auto simp: mark_outbox_hashes) 
    (auto simp: mark_anchor_delivered_def dest!: in_put_row row_by_SomeD split: option.splits)

lemma anchor_inv_step:
  assumes "anchor_step chain w w'" and "anchor_inv w"
  shows "anchor_inv w'"
  using assms
proof cases
  case (tick d)
  then show ?thesis using assms(2) by (fastforce simp: anchor_inv_def outbox_unique_def)
next
  case (enqueue r)
  then show ?thesis using assms(2) by (auto simp: anchor_inv_def outbox_unique_def unique_on_def)
qed (use assms(2) in \<open>simp_all add: claim_inv mark_inv\<close>)

lemma claim_of_step:
  assumes "anchor_step chain w w'" and "anchor_inv w" and "claim_of w k = Some t"
  shows "\<exists>t'. claim_of w' k = Some t' \<and> t \<le> t'"
  using assms(1)
proof cases
  case (enqueue r)
  then show ?thesis using assms(3) by (auto simp: claim_of_def row_by_append split: option.splits)
next
  case (skip i r rs db)
  then show ?thesis using claim_grows [OF skip(3) assms(2,3)] by simp
next
  case (claim i r rs db)
  then show ?thesis using claim_grows [OF claim(3) assms(2,3)] by simp
qed (use assms(3) in \<open>auto simp: claim_of_mark\<close>)

text \<open>How a step moves the claims in play.\<close>

lemma in_play_simps [simp]:
  "in_play (w\<lparr>aw_clock := c\<rparr>) = in_play w" "in_play (w\<lparr>aw_db := db\<rparr>) = in_play w"
  by (auto simp: fun_eq_iff in_play_def split: sum.split)

lemma in_play_set_worker: "in_play (set_worker i s w) x =
   (if x = Inr i then (case s of Anchoring r t rs \<Rightarrow> Some (ob_hash r, t) | _ \<Rightarrow> None) else in_play w x)"
  by (auto simp: in_play_def set_worker_def split: sum.split)

lemma anchor_play_moves:
  assumes "anchor_inv w" and "anchor_step chain w w'"
  shows "\<exists>f new. inj_on f (dom (in_play w')) \<and>
      (\<forall>x c. in_play w' x = Some c \<longrightarrow> new \<noteq> Some x \<longrightarrow> in_play w (f x) = Some c) \<and>
      (\<forall>x k t. in_play w' x = Some (k, t) \<longrightarrow> new = Some x \<longrightarrow>
         claim_of w' k = Some t \<and> (\<forall>s. claim_of w k = Some s \<longrightarrow> s + anchor_claim_lease \<le> t))"
proof -
  have stays: ?thesis if "\<And>x c. in_play w' x = Some c \<Longrightarrow> in_play w x = Some c"
    by (rule exI [of _ id], rule exI [of _ None]) (use that in simp)
  show ?thesis
    using assms(2)
  proof cases
    case (claim i r rs db)
    let ?h = "ob_hash r"
    obtain r' where r': "row_by ob_hash ?h (ad_outbox (aw_db w)) = Some r'" "claimable anchor_claim_lease (aw_clock w) r'"
      using claim_iff [of "aw_db w" anchor_claim_lease "aw_clock w" ?h] claim(3) assms(1)
      by (auto simp: anchor_inv_def outbox_unique_def)
    have "ob_hash r' = ?h" using r'(1) by (auto dest: row_by_SomeD)
    then have "claim_of w' ?h = Some (aw_clock w)"
      using claim(1) claim_of_claim [OF claim(3), of ?h] r' by simp
    moreover have "\<And>s. claim_of w ?h = Some s \<Longrightarrow> s + anchor_claim_lease \<le> aw_clock w"
      using r' by (auto simp: claim_of_def claimable_def)
    ultimately show ?thesis
      using claim(1) by (intro exI [of _ id] exI [of _ "Some (Inr i)"]) (auto simp: in_play_set_worker split: if_splits)
  next
    case (fire i r t rs receipt)
    let ?n = "length (aw_fired w)" and ?f = "id(Inl (length (aw_fired w)) := Inr i)"
    have play: "in_play w' x = (if x = Inl ?n then Some (ob_hash r, t) else if x = Inr i then None else in_play w x)" for x
      using fire(1) by (auto simp: in_play_def set_worker_def nth_append split: sum.split)
    have "in_play w (Inr i) = Some (ob_hash r, t)" using fire(2) by (simp add: in_play_def)
    then show ?thesis
      by (intro exI [of _ ?f] exI [of _ None]) (auto simp: play inj_on_def dom_def split: if_splits)
  qed (rule stays, simp add: in_play_set_worker split: if_splits)+
qed

interpretation outbox: leases "anchor_step chain" anchor_inv in_play claim_of anchor_claim_lease for chain
proof
  fix w w' k t
  assume step: "anchor_inv w" "anchor_step chain w w'"
  show "anchor_inv w'" using anchor_inv_step step by blast
  show "\<exists>f new. inj_on f (dom (in_play w')) \<and>
      (\<forall>x c. in_play w' x = Some c \<longrightarrow> new \<noteq> Some x \<longrightarrow> in_play w (f x) = Some c) \<and>
      (\<forall>x k t. in_play w' x = Some (k, t) \<longrightarrow> new = Some x \<longrightarrow>
         claim_of w' k = Some t \<and> (\<forall>s. claim_of w k = Some s \<longrightarrow> s + anchor_claim_lease \<le> t))"
    using step by (rule anchor_play_moves)
  assume "claim_of w k = Some t"
  then show "\<exists>t'. claim_of w' k = Some t' \<and> t \<le> t'" using claim_of_step step by blast
qed

section \<open>Claims of one row are a lease apart\<close>

lemma fresh_inv: "fresh_world w \<Longrightarrow> anchor_inv w \<and> in_play w = Map.empty"
  by (auto simp: fresh_world_def anchor_inv_def outbox_unique_def in_play_def fun_eq_iff split: sum.split)

lemma fired_claims:
  assumes "fresh_world w" and "anchor_reachable chain w w'"
  shows "outbox.spaced w'"
  using outbox.spaced_reachable [of chain w w'] fresh_inv [OF assms(1)] assms(2) by (simp add: anchor_reachable_def)

text \<open>C16: however many workers drain the outbox at once, in whatever order, and crash wherever they may: whenever the
  anchor of one row has been fired twice, the claims the two were fired under are at least a lease (300 seconds)
  apart.\<close>

theorem anchors_a_lease_apart:
  assumes "fresh_world w" and "anchor_reachable chain w w'"
    and "j < k" and "k < length (aw_fired w')" and "aw_fired w' ! j = (a, h, s)" and "aw_fired w' ! k = (b, h, t)"
  shows "s + 300 \<le> t \<or> t + 300 \<le> s"
proof -
  have "in_play w' (Inl j) = Some (h, s)" "in_play w' (Inl k) = Some (h, t)" "(Inl j :: nat + nat) \<noteq> Inl k"
    using assms(3-6) by (simp_all add: in_play_def)
  then have "apart anchor_claim_lease s t"
    using fired_claims [OF assms(1,2)] unfolding outbox.spaced_def by blast
  then show ?thesis by (simp add: apart_def anchor_claim_lease_def)
qed

text \<open>A worker that is slower than the lease: the row is claimed again and its anchor is fired twice.\<close>

definition slow_row :: outbox_row where
  "slow_row = \<lparr>ob_request = ''a'', ob_skill = ''x'', ob_hash = ''h'', ob_chain = ''mock-chain'', ob_delivered = False,
     ob_claimed = None, ob_created = 0\<rparr>"

definition slow_world :: "nat \<Rightarrow> nat option \<Rightarrow> (nat \<Rightarrow> worker) \<Rightarrow> (nat \<times> string \<times> nat) list \<Rightarrow> anchor_world" where
  "slow_world clock claim workers fired =
     \<lparr>aw_db = \<lparr>ad_outbox = [slow_row\<lparr>ob_claimed := claim\<rparr>], ad_receipts = []\<rparr>, aw_clock = clock,
      aw_workers = workers, aw_fired = fired\<rparr>"

lemma slow_row_simps: "ob_hash slow_row = ''h''" "ob_chain slow_row = ''mock-chain''" "\<not> ob_delivered slow_row"
  "ob_claimed slow_row = None" "slow_row\<lparr>ob_claimed := None\<rparr> = slow_row"
  by (simp_all add: slow_row_def)

lemma slow_pending: "list_pending_anchor_outbox (aw_db (slow_world clock claim workers fired)) = [slow_row\<lparr>ob_claimed := claim\<rparr>]"
  by (simp add: list_pending_anchor_outbox_def slow_world_def slow_row_def)

lemma slow_start: "workers i = Idle \<Longrightarrow> anchor_step anchor (slow_world clock claim workers fired)
    (slow_world clock claim (workers(i := Claiming [slow_row\<lparr>ob_claimed := claim\<rparr>])) fired)"
  using anchor_step.start [of "slow_world clock claim workers fired" i anchor]
  by (simp add: slow_pending) (simp add: slow_world_def set_worker_def)

lemma slow_claim:
  assumes "workers i = Claiming [slow_row\<lparr>ob_claimed := claim\<rparr>]" and "claim = None \<or> the claim + 300 \<le> clock"
  shows "anchor_step anchor (slow_world clock claim workers fired)
    (slow_world clock (Some clock) (workers(i := Anchoring (slow_row\<lparr>ob_claimed := claim\<rparr>) clock [])) fired)"
proof -
  have "claim_anchor_outbox anchor_claim_lease clock ''h'' \<lparr>ad_outbox = [slow_row\<lparr>ob_claimed := claim\<rparr>], ad_receipts = []\<rparr> =
      (True, \<lparr>ad_outbox = [slow_row\<lparr>ob_claimed := Some clock\<rparr>], ad_receipts = []\<rparr>)"
    using assms(2) by (auto simp: claim_anchor_outbox_def claimable_def anchor_claim_lease_def slow_row_simps split: option.split)
  then show ?thesis
    using anchor_step.claim [of "slow_world clock claim workers fired" i "slow_row\<lparr>ob_claimed := claim\<rparr>" "[]"] assms(1)
    by (simp add: slow_world_def set_worker_def slow_row_simps)
qed

lemma slow_fire:
  assumes "workers i = Anchoring r t []" and "ob_hash r = ''h''"
  shows "anchor_step anchor (slow_world clock claim workers fired)
    (slow_world clock claim (workers(i := Recording r t (projr (anchor ''h'' (ob_chain r) clock)) [])) (fired @ [(i, ''h'', t)]))"
  using anchor_step.fire [of "slow_world clock claim workers fired" i r t "[]" anchor] assms
  by (simp add: slow_world_def set_worker_def anchor_def)

lemma slow_tick: "anchor_step anchor (slow_world clock claim workers fired) (slow_world (clock + d) claim workers fired)"
  using anchor_step.tick [of anchor "slow_world clock claim workers fired" d] by (simp add: slow_world_def)

lemma row_anchored_twice:
  "\<exists>w'. anchor_reachable anchor (slow_world 0 None (\<lambda>_. Idle) []) w' \<and> aw_fired w' = [(0, ''h'', 0), (1, ''h'', 300)]"
proof -
  let ?r = "slow_row" and ?r' = "slow_row\<lparr>ob_claimed := Some 0\<rparr>"
  let ?s = "anchor_step anchor"
  define w1 where "w1 = (\<lambda>_. Idle)(0 :: nat := Claiming [?r])"
  define w2 where "w2 = w1(0 := Anchoring ?r 0 [])"
  define w3 where "w3 = w2(1 := Claiming [?r'])"
  define w4 where "w4 = w3(1 := Anchoring ?r' 300 [])"
  define w5 where "w5 = w4(0 := Recording ?r 0 (projr (anchor ''h'' (ob_chain ?r) 300)) [])"
  define w6 where "w6 = w5(1 := Recording ?r' 300 (projr (anchor ''h'' (ob_chain ?r') 300)) [])"
  have "?s (slow_world 0 None (\<lambda>_. Idle) []) (slow_world 0 None w1 [])"
    using slow_start [of "\<lambda>_. Idle" 0 0 None "[]"] by (simp add: w1_def slow_row_simps)
  moreover have "?s (slow_world 0 None w1 []) (slow_world 0 (Some 0) w2 [])"
    using slow_claim [of w1 0 None 0 "[]"] by (simp add: w1_def w2_def slow_row_simps)
  moreover have "?s (slow_world 0 (Some 0) w2 []) (slow_world 300 (Some 0) w2 [])"
    using slow_tick [of 0 "Some 0" w2 "[]" 300] by simp
  moreover have "?s (slow_world 300 (Some 0) w2 []) (slow_world 300 (Some 0) w3 [])"
    using slow_start [of w2 1 300 "Some 0" "[]"] by (simp add: w1_def w2_def w3_def)
  moreover have "?s (slow_world 300 (Some 0) w3 []) (slow_world 300 (Some 300) w4 [])"
    using slow_claim [of w3 1 "Some 0" 300 "[]"] by (simp add: w3_def w4_def)
  moreover have "?s (slow_world 300 (Some 300) w4 []) (slow_world 300 (Some 300) w5 [(0, ''h'', 0)])"
    using slow_fire [of w4 0 ?r 0 300 "Some 300" "[]"] by (simp add: w2_def w3_def w4_def w5_def slow_row_simps)
  moreover have "?s (slow_world 300 (Some 300) w5 [(0, ''h'', 0)]) (slow_world 300 (Some 300) w6 [(0, ''h'', 0), (1, ''h'', 300)])"
    using slow_fire [of w5 1 ?r' 300 300 "Some 300" "[(0, ''h'', 0)]"] by (simp add: w4_def w5_def w6_def slow_row_simps)
  ultimately have "anchor_reachable anchor (slow_world 0 None (\<lambda>_. Idle) [])
      (slow_world 300 (Some 300) w6 [(0, ''h'', 0), (1, ''h'', 300)])"
    unfolding anchor_reachable_def by (meson converse_rtranclp_into_rtranclp rtranclp.rtrancl_refl)
  moreover have "aw_fired (slow_world 300 (Some 300) w6 [(0, ''h'', 0), (1, ''h'', 300)]) = [(0, ''h'', 0), (1, ''h'', 300)]"
    by (simp add: slow_world_def)
  ultimately show ?thesis by blast
qed

theorem anchors_a_lease_apart_witness:
  "\<exists>w'. anchor_reachable anchor (slow_world 0 None (\<lambda>_. Idle) []) w' \<and>
     aw_fired w' = [(0, ''h'', 0), (1, ''h'', 300)] \<and> ((0 :: nat) + 300 \<le> 300 \<or> (300 :: nat) + 300 \<le> 0)"
proof -
  obtain w' where w': "anchor_reachable anchor (slow_world 0 None (\<lambda>_. Idle) []) w'"
      "aw_fired w' = [(0, ''h'', 0), (1, ''h'', 300)]"
    using row_anchored_twice by blast
  have "fresh_world (slow_world 0 None (\<lambda>_. Idle) [])"
    by (simp add: fresh_world_def slow_world_def unique_on_def slow_row_simps)
  from anchors_a_lease_apart [OF this w'(1), of 0 1 0 "''h''" 0 1 300] w' show ?thesis by auto
qed

section \<open>A delivered row has its receipt\<close>

definition receipted :: "anchor_world \<Rightarrow> bool" where
  "receipted w \<longleftrightarrow>
     unique_on rr_hash (ad_receipts (aw_db w)) \<and>
     rr_hash ` set (ad_receipts (aw_db w)) \<subseteq> (\<lambda>(i, h, t). h) ` set (aw_fired w) \<and>
     (\<forall>r \<in> set (ad_outbox (aw_db w)). ob_delivered r \<longrightarrow> ob_hash r \<in> rr_hash ` set (ad_receipts (aw_db w))) \<and>
     (\<forall>i r t rs. aw_workers w i = Marking r t rs \<longrightarrow> ob_hash r \<in> rr_hash ` set (ad_receipts (aw_db w))) \<and>
     (\<forall>i r t x rs. aw_workers w i = Recording r t x rs \<longrightarrow> ob_hash r \<in> (\<lambda>(i, h, t). h) ` set (aw_fired w))"

lemma receiptedD:
  "receipted w \<Longrightarrow> aw_workers w i = Marking r t rs \<Longrightarrow> ob_hash r \<in> rr_hash ` set (ad_receipts (aw_db w))"
  "receipted w \<Longrightarrow> aw_workers w i = Recording r t x rs \<Longrightarrow> ob_hash r \<in> (\<lambda>(i, h, t). h) ` set (aw_fired w)"
  unfolding receipted_def by blast+

lemma receipt_hashes:
  "map rr_hash (ad_receipts (append_anchor_receipt r x db)) =
     (if ob_hash r \<in> rr_hash ` set (ad_receipts db) then map rr_hash (ad_receipts db)
      else map rr_hash (ad_receipts db) @ [ob_hash r])"
  by (simp add: append_anchor_receipt_def Let_def row_by_None_iff)

lemma receipt_hash_set: "rr_hash ` set (ad_receipts (append_anchor_receipt r x db)) =
    insert (ob_hash r) (rr_hash ` set (ad_receipts db))"
proof -
  have "set (map rr_hash (ad_receipts (append_anchor_receipt r x db))) = insert (ob_hash r) (set (map rr_hash (ad_receipts db)))"
    unfolding receipt_hashes by auto
  then show ?thesis by simp
qed

lemma receipt_outbox [simp]: "ad_outbox (append_anchor_receipt r x db) = ad_outbox db"
  and claim_receipts: "claim_anchor_outbox lease now h db = (b, db') \<Longrightarrow> ad_receipts db' = ad_receipts db"
  and mark_receipts [simp]: "ad_receipts (mark_anchor_delivered h db) = ad_receipts db"
  by (auto simp: append_anchor_receipt_def claim_anchor_outbox_def mark_anchor_delivered_def Let_def split: option.split)

lemma claim_delivered:
  assumes "claim_anchor_outbox lease now h db = (b, db')" and "r \<in> set (ad_outbox db')"
  shows "\<exists>r' \<in> set (ad_outbox db). ob_hash r' = ob_hash r \<and> ob_delivered r' = ob_delivered r"
proof -
  have "db' = snd (claim_anchor_outbox lease now h db)" using assms(1) by simp
  then obtain x where "x \<in> set (ad_outbox db)"
      "r = (if ob_hash x = h \<and> claimable lease now x then x\<lparr>ob_claimed := Some now\<rparr> else x)"
    using assms(2) by (auto simp: claim_outbox)
  then show ?thesis by (intro bexI [of _ x]) auto
qed

lemma mark_delivered: "r \<in> set (ad_outbox (mark_anchor_delivered h db)) \<Longrightarrow> ob_delivered r \<Longrightarrow>
    ob_hash r = h \<or> r \<in> set (ad_outbox db)"
  by (auto simp: mark_anchor_delivered_def dest!: in_put_row row_by_SomeD split: option.splits)

lemma receipted_set_worker:
  assumes "receipted w"
    and "\<And>r t rs. s = Marking r t rs \<Longrightarrow> ob_hash r \<in> rr_hash ` set (ad_receipts (aw_db w))"
    and "\<And>r t x rs. s = Recording r t x rs \<Longrightarrow> ob_hash r \<in> (\<lambda>(i, h, t). h) ` set (aw_fired w)"
  shows "receipted (set_worker i s w)"
proof -
  have "ob_hash r \<in> rr_hash ` set (ad_receipts (aw_db w))" if "((aw_workers w)(i := s)) j = Marking r t rs" for j r t rs
    using that assms(2) receiptedD(1) [OF assms(1), of j] by (cases "j = i") auto
  moreover have "ob_hash r \<in> (\<lambda>(i, h, t). h) ` set (aw_fired w)" if "((aw_workers w)(i := s)) j = Recording r t x rs" for j r t x rs
    using that assms(3) receiptedD(2) [OF assms(1), of j] by (cases "j = i") auto
  ultimately show ?thesis using assms(1) unfolding receipted_def set_worker_def by simp
qed

lemma receipted_claim:
  assumes "claim_anchor_outbox lease now h (aw_db w) = (b, db)" and "receipted w"
  shows "receipted (w\<lparr>aw_db := db\<rparr>)"
proof -
  have "ob_hash r \<in> rr_hash ` set (ad_receipts (aw_db w))" if "r \<in> set (ad_outbox db)" "ob_delivered r" for r
    using claim_delivered [OF assms(1) that(1)] that(2) assms(2) unfolding receipted_def by metis
  then show ?thesis using assms(2) by (simp add: receipted_def claim_receipts [OF assms(1)])
qed

lemma receipted_step:
  assumes "anchor_step chain w w'" and "receipted w"
  shows "receipted w'"
  using assms(1)
proof cases
  case (skip i r rs db)
  then show ?thesis using receipted_claim [OF skip(3) assms(2)] by (auto intro!: receipted_set_worker)
next
  case (claim i r rs db)
  then show ?thesis using receipted_claim [OF claim(3) assms(2)] by (auto intro!: receipted_set_worker)
next
  case (fire i r t rs receipt)
  have "receipted (w\<lparr>aw_fired := aw_fired w @ [(i, ob_hash r, t)]\<rparr>)"
    using assms(2) by (auto simp: receipted_def)
  then show ?thesis using fire(1) by (auto intro!: receipted_set_worker)
next
  case (put i r t receipt rs)
  have "ob_hash r \<in> (\<lambda>(i, h, t). h) ` set (aw_fired w)"
    by (rule receiptedD(2) [OF assms(2) put(2)])
  then have "receipted (w\<lparr>aw_db := append_anchor_receipt r receipt (aw_db w)\<rparr>)"
    using assms(2) by (simp add: receipted_def receipt_hash_set unique_on_def receipt_hashes)
  then show ?thesis using put(1) by (auto intro!: receipted_set_worker simp: receipt_hash_set)
next
  case (mark i r t rs)
  have "ob_hash r \<in> rr_hash ` set (ad_receipts (aw_db w))"
    by (rule receiptedD(1) [OF assms(2) mark(2)])
  then have "receipted (w\<lparr>aw_db := mark_anchor_delivered (ob_hash r) (aw_db w)\<rparr>)"
    using assms(2) mark_delivered [of _ "ob_hash r" "aw_db w"] unfolding receipted_def by simp metis
  then show ?thesis using mark(1) by (auto intro!: receipted_set_worker)
qed (use assms(2) in \<open>auto simp: receipted_def set_worker_def\<close>)

text \<open>in every state the workers can reach, a row that is marked delivered has exactly one receipt, and its anchor
  was fired.\<close>

lemma delivered_row_has_its_receipt:
  assumes "fresh_world w" and "anchor_reachable chain w w'"
    and "r \<in> set (ad_outbox (aw_db w'))" and "ob_delivered r"
  shows "length (filter (\<lambda>x. rr_hash x = ob_hash r) (ad_receipts (aw_db w'))) = 1 \<and>
    (\<exists>i t. (i, ob_hash r, t) \<in> set (aw_fired w'))"
proof -
  have "(anchor_step chain)\<^sup>*\<^sup>* w w'" using assms(2) by (simp add: anchor_reachable_def)
  then have "receipted w'"
  proof (induction rule: rtranclp_induct)
    case base
    then show ?case using assms(1) by (auto simp: fresh_world_def receipted_def unique_on_def)
  next
    case (step v w')
    then show ?case using receipted_step by blast
  qed
  then have "ob_hash r \<in> rr_hash ` set (ad_receipts (aw_db w'))" "distinct (map rr_hash (ad_receipts (aw_db w')))"
      "ob_hash r \<in> (\<lambda>(i, h, t). h) ` set (aw_fired w')"
    using assms(3,4) by (auto simp: receipted_def unique_on_def)
  moreover have "distinct (map rr_hash xs) \<Longrightarrow> h \<in> rr_hash ` set xs \<Longrightarrow> length (filter (\<lambda>x. rr_hash x = h) xs) = 1" for h xs
    by (induction xs) (auto simp: image_iff filter_empty_conv)
  ultimately show ?thesis by (auto simp: image_iff)
qed

text \<open>A run that delivers its only row.\<close>

lemma delivering_run:
  "\<exists>w'. anchor_reachable anchor (slow_world 0 None (\<lambda>_. Idle) []) w' \<and>
     slow_row\<lparr>ob_claimed := Some 0, ob_delivered := True\<rparr> \<in> set (ad_outbox (aw_db w'))"
proof -
  let ?r = "slow_row" and ?s = "anchor_step anchor" and ?x = "projr (anchor ''h'' ''mock-chain'' 0)"
  define w1 where "w1 = (\<lambda>_. Idle)(0 :: nat := Claiming [?r])"
  define w2 where "w2 = w1(0 := Anchoring ?r 0 [])"
  define w3 where "w3 = w2(0 := Recording ?r 0 ?x [])"
  let ?w3 = "slow_world 0 (Some 0) w3 [(0, ''h'', 0)]"
  let ?w4 = "set_worker 0 (Marking ?r 0 []) (?w3\<lparr>aw_db := append_anchor_receipt ?r ?x (aw_db ?w3)\<rparr>)"
  let ?w5 = "set_worker 0 (Claiming []) (?w4\<lparr>aw_db := mark_anchor_delivered (ob_hash ?r) (aw_db ?w4)\<rparr>)"
  have "?s (slow_world 0 None (\<lambda>_. Idle) []) (slow_world 0 None w1 [])"
    using slow_start [of "\<lambda>_. Idle" 0 0 None "[]"] by (simp add: w1_def slow_row_simps)
  moreover have "?s (slow_world 0 None w1 []) (slow_world 0 (Some 0) w2 [])"
    using slow_claim [of w1 0 None 0 "[]"] by (simp add: w1_def w2_def slow_row_simps)
  moreover have "?s (slow_world 0 (Some 0) w2 []) ?w3"
    using slow_fire [of w2 0 ?r 0 0 "Some 0" "[]"] by (simp add: w2_def w3_def slow_row_simps)
  moreover have "?s ?w3 ?w4" by (rule anchor_step.put) (simp add: slow_world_def w3_def)
  moreover have "?s ?w4 ?w5" by (rule anchor_step.mark) (simp add: set_worker_def)
  ultimately have "anchor_reachable anchor (slow_world 0 None (\<lambda>_. Idle) []) ?w5"
    unfolding anchor_reachable_def by (meson converse_rtranclp_into_rtranclp rtranclp.rtrancl_refl)
  moreover have "slow_row\<lparr>ob_claimed := Some 0, ob_delivered := True\<rparr> \<in> set (ad_outbox (aw_db ?w5))"
    by (simp add: set_worker_def slow_world_def mark_anchor_delivered_def slow_row_simps row_by_Cons put_row_def)
  ultimately show ?thesis by blast
qed

end
