(* ===== verification/AnchorDrain.thy ===== *)
theory AnchorDrain
  imports AnchorSafe
begin

text \<open>
  The drain pass as the worker runs it: a row the chain keeps refusing aborts a pass, and two passes
  deliver everything else.
\<close>

section \<open>A row the chain refuses does not hold up the others\<close>

lemma claim_outbox_rows:
  "claim_anchor_outbox lease now h db = (b, db1) \<Longrightarrow> row_by ob_hash k (ad_outbox db1) =
   map_option (\<lambda>r. if ob_hash r = h \<and> claimable lease now r then r\<lparr>ob_claimed := Some now\<rparr> else r)
     (row_by ob_hash k (ad_outbox db))"
  using row_by_claim [of k lease now h db] by simp

lemma claim_unique: "claim_anchor_outbox lease now h db = (b, db1) \<Longrightarrow> unique_on ob_hash (ad_outbox db) \<Longrightarrow>
    unique_on ob_hash (ad_outbox db1)"
  using claim_hashes [of lease now h db] by (simp add: unique_on_def)

lemma skipped_rows:
  assumes "unique_on ob_hash (ad_outbox db)" and "claim_anchor_outbox lease now h db = (False, db1)"
  shows "row_by ob_hash k (ad_outbox db1) = row_by ob_hash k (ad_outbox db)"
proof -
  have "row_by ob_hash h (ad_outbox db) = Some r \<Longrightarrow> \<not> claimable lease now r" for r
    using claim_iff [OF assms(1), of lease now h] assms(2) by auto
  then show ?thesis
    unfolding claim_outbox_rows [OF assms(2)]
    by (cases "row_by ob_hash k (ad_outbox db)") (auto dest: row_by_SomeD)
qed

lemma settled_rows:
  fixes r :: outbox_row and x :: receipt
  assumes "unique_on ob_hash (ad_outbox db)" and "claim_anchor_outbox lease now h db = (True, db1)"
  defines "db2 \<equiv> mark_anchor_delivered h (append_anchor_receipt r x db1)"
  shows "unique_on ob_hash (ad_outbox db2)" "k \<noteq> h \<Longrightarrow> row_by ob_hash k (ad_outbox db2) = row_by ob_hash k (ad_outbox db)"
    "\<exists>y. row_by ob_hash h (ad_outbox db2) = Some y \<and> ob_delivered y"
proof -
  show "unique_on ob_hash (ad_outbox db2)"
    using claim_unique [OF assms(2,1)] by (simp add: db2_def unique_on_def mark_outbox_hashes)
  obtain y where y: "row_by ob_hash h (ad_outbox db1) = Some y"
    using claim_iff [OF assms(1), of lease now h] assms(2) by (auto simp: claim_outbox_rows [OF assms(2)])
  then have mem: "y \<in> set (ad_outbox db1)" "ob_hash y = h" by (auto dest: row_by_SomeD)
  have rows: "row_by ob_hash j (ad_outbox db2) =
      (if j = h then Some (y\<lparr>ob_delivered := True\<rparr>) else row_by ob_hash j (ad_outbox db1))" for j
    using y mem row_by_put_row [of y "ad_outbox db1" ob_hash "y\<lparr>ob_delivered := True\<rparr>" j]
    by (simp add: db2_def mark_anchor_delivered_def)
  then show "\<exists>y. row_by ob_hash h (ad_outbox db2) = Some y \<and> ob_delivered y" by simp
  assume "k \<noteq> h"
  then show "row_by ob_hash k (ad_outbox db2) = row_by ob_hash k (ad_outbox db)"
    unfolding rows claim_outbox_rows [OF assms(2)]
    by (cases "row_by ob_hash k (ad_outbox db)") (auto dest: row_by_SomeD)
qed

text \<open>What a pass leaves, when the chain refuses the rows of one hash only.\<close>

definition refuses_only :: "chain \<Rightarrow> string \<Rightarrow> bool" where
  "refuses_only chain h \<longleftrightarrow>
     (\<forall>k c now. if k = h then \<exists>e. chain k c now = Inl e else \<exists>x. chain k c now = Inr x)"

lemma refuses_onlyD:
  assumes "refuses_only chain h"
  shows "\<exists>e. chain h c now = Inl e" "k \<noteq> h \<Longrightarrow> \<exists>x. chain k c now = Inr x"
proof -
  have all: "if k = h then \<exists>e. chain k c now = Inl e else \<exists>x. chain k c now = Inr x" for k
    using assms by (simp add: refuses_only_def)
  show "\<exists>e. chain h c now = Inl e" using all [of h] by simp
  show "k \<noteq> h \<Longrightarrow> \<exists>x. chain k c now = Inr x" using all [of k] by simp
qed

definition settled :: "anchor_db \<Rightarrow> string \<Rightarrow> bool" where
  "settled db k \<longleftrightarrow> (\<exists>y. row_by ob_hash k (ad_outbox db) = Some y \<and> ob_delivered y)"

definition free_at :: "(nat \<Rightarrow> nat) \<Rightarrow> anchor_db \<Rightarrow> string \<Rightarrow> bool" where
  "free_at clock db k \<longleftrightarrow>
     (\<exists>y. row_by ob_hash k (ad_outbox db) = Some y \<and> (\<forall>n. claimable anchor_claim_lease (clock n) y))"

definition held_since :: "nat \<Rightarrow> anchor_db \<Rightarrow> string \<Rightarrow> bool" where
  "held_since t db k \<longleftrightarrow> (\<exists>y. row_by ob_hash k (ad_outbox db) = Some y \<and> ob_claimed y = Some t)"

definition same_row :: "anchor_db \<Rightarrow> anchor_db \<Rightarrow> string \<Rightarrow> bool" where
  "same_row db db' k \<longleftrightarrow> row_by ob_hash k (ad_outbox db') = row_by ob_hash k (ad_outbox db)"

lemma same_row_trans: "same_row a b k \<Longrightarrow> same_row b c k \<Longrightarrow> same_row a c k"
  by (simp add: same_row_def)

lemma free_same: "same_row db db' k \<Longrightarrow> free_at clock db' k = free_at clock db k"
  "same_row db db' k \<Longrightarrow> settled db' k = settled db k"
  by (simp_all add: free_at_def same_row_def settled_def)

lemma drain_pass:
  assumes "refuses_only chain h" and "unique_on ob_hash (ad_outbox db)" and "distinct (map ob_hash rs)"
    and "\<And>r. r \<in> set rs \<Longrightarrow> ob_hash r \<noteq> h \<Longrightarrow> free_at clock db (ob_hash r)"
    and "drain_rows chain anchor_claim_lease clock n rs db = (res, db')"
  shows "unique_on ob_hash (ad_outbox db') \<and>
    (\<forall>k. k \<noteq> h \<longrightarrow> same_row db db' k \<or> settled db' k) \<and>
    (\<forall>m. res = Inr m \<longrightarrow> (\<forall>r \<in> set rs. ob_hash r \<noteq> h \<longrightarrow> settled db' (ob_hash r)) \<and> same_row db db' h) \<and>
    (\<forall>e. res = Inl e \<longrightarrow> (\<exists>m y. row_by ob_hash h (ad_outbox db) = Some y \<and>
       claimable anchor_claim_lease (clock m) y \<and> held_since (clock m) db' h))"
  using assms(2-)
proof (induction rs arbitrary: n db res)
  case Nil
  then show ?case by (auto simp: same_row_def)
next
  case (Cons r rs)
  let ?k = "ob_hash r"
  obtain b db1 where claim: "claim_anchor_outbox anchor_claim_lease (clock n) ?k db = (b, db1)" by fastforce
  show ?case
  proof (cases "?k = h")
    case True
    show ?thesis
    proof (cases b)
      case refused: True
      obtain e where "chain ?k (ob_chain r) (clock n) = Inl e" using refuses_onlyD(1) [OF assms(1)] True by blast
      then have res: "res = Inl e" "db' = db1" using Cons.prems(4) claim refused by simp_all
      obtain y where y: "row_by ob_hash h (ad_outbox db) = Some y" "claimable anchor_claim_lease (clock n) y"
        using claim_iff [OF Cons.prems(1), of anchor_claim_lease "clock n" ?k] claim refused True by auto
      have "ob_hash y = h" using y(1) by (auto dest: row_by_SomeD)
      then have "held_since (clock n) db1 h"
        using y claim_outbox_rows [OF claim, of h] True by (simp add: held_since_def)
      moreover have "same_row db db1 k" if "k \<noteq> h" for k
        using claim_outbox_rows [OF claim, of k] that True
        by (cases "row_by ob_hash k (ad_outbox db)") (auto simp: same_row_def dest: row_by_SomeD)
      ultimately show ?thesis using res y claim_unique [OF claim Cons.prems(1)] by blast
    next
      case False
      then have claim': "claim_anchor_outbox anchor_claim_lease (clock n) ?k db = (False, db1)" using claim by simp
      have same: "same_row db db1 k" for k using skipped_rows [OF Cons.prems(1) claim'] by (simp add: same_row_def)
      have "drain_rows chain anchor_claim_lease clock (Suc n) rs db1 = (res, db')" using Cons.prems(4) claim' by simp
      from Cons.IH [OF claim_unique [OF claim' Cons.prems(1)] _ _ this] Cons.prems(2,3) same True
      show ?thesis by (auto simp: free_same(1) [OF same]) (auto simp: same_row_def)
    qed
  next
    case False
    obtain y where "row_by ob_hash ?k (ad_outbox db) = Some y" "claimable anchor_claim_lease (clock n) y"
      using Cons.prems(3) [of r] False by (auto simp: free_at_def)
    then have b: "b" using claim_iff [OF Cons.prems(1), of anchor_claim_lease "clock n" ?k] claim by auto
    obtain x where x: "chain ?k (ob_chain r) (clock n) = Inr x"
      using refuses_onlyD(2) [OF assms(1) False] by blast
    let ?db2 = "mark_anchor_delivered ?k (append_anchor_receipt r x db1)"
    have claim': "claim_anchor_outbox anchor_claim_lease (clock n) ?k db = (True, db1)" using claim b by simp
    note two = settled_rows [OF Cons.prems(1) claim', where r = r and x = x]
    have same: "same_row db ?db2 k" if "k \<noteq> ?k" for k using two(2) [OF that] by (simp add: same_row_def)
    have done_k: "settled ?db2 ?k" using two(3) by (simp add: settled_def)
    obtain res2 d2 where run: "drain_rows chain anchor_claim_lease clock (Suc n) rs ?db2 = (res2, d2)" by (meson surj_pair)
    then have same_end: "d2 = db' \<and> (case res2 of Inl e \<Rightarrow> res = Inl e | Inr m \<Rightarrow> res = Inr (Suc m))"
      using Cons.prems(4) claim' x by (cases res2) auto
    then have rest: "drain_rows chain anchor_claim_lease clock (Suc n) rs ?db2 = (res2, db')"
        "\<And>e. res = Inl e \<longleftrightarrow> res2 = Inl e" "(\<exists>m. res = Inr m) \<longleftrightarrow> (\<exists>m. res2 = Inr m)"
      using run by (auto split: sum.splits)
    have other: "ob_hash q \<noteq> ?k" if "q \<in> set rs" for q using Cons.prems(2) imageI [OF that, of ob_hash] by auto
    have free: "free_at clock ?db2 (ob_hash q)" if "q \<in> set rs" "ob_hash q \<noteq> h" for q
      using Cons.prems(3) [of q] free_same(1) [OF same [OF other [OF that(1)]], of clock] that by simp
    have distinct: "distinct (map ob_hash rs)" using Cons.prems(2) by simp
    note all = Cons.IH [OF two(1) distinct free rest(1)]
    note ih = all [THEN conjunct1] all [THEN conjunct2, THEN conjunct1]
      all [THEN conjunct2, THEN conjunct2, THEN conjunct1] all [THEN conjunct2, THEN conjunct2, THEN conjunct2]
    have "same_row ?db2 db' ?k \<or> settled db' ?k" using ih(2) False by blast
    then have k: "settled db' ?k" using done_k free_same(2) [of ?db2 db' ?k] by auto
    have h: "same_row db ?db2 h" by (rule same) (use False in simp)
    have "same_row db db' k' \<or> settled db' k'" if "k' \<noteq> h" for k'
    proof (cases "k' = ?k")
      case False
      then show ?thesis using ih(2) that same_row_trans [OF same [OF False], of db'] by blast
    qed (use k in simp)
    moreover have "(\<forall>q \<in> set (r # rs). ob_hash q \<noteq> h \<longrightarrow> settled db' (ob_hash q)) \<and> same_row db db' h" if ok: "res = Inr m" for m
    proof -
      obtain m2 where "res2 = Inr m2" using rest(3) ok by blast
      then have "(\<forall>q \<in> set rs. ob_hash q \<noteq> h \<longrightarrow> settled db' (ob_hash q)) \<and> same_row ?db2 db' h" using ih(3) by blast
      then show ?thesis using k same_row_trans [OF h, of db'] by simp
    qed
    moreover have "\<exists>m y. row_by ob_hash h (ad_outbox db) = Some y \<and>
         claimable anchor_claim_lease (clock m) y \<and> held_since (clock m) db' h" if "res = Inl e" for e
      using ih(4) that rest(2) h unfolding same_row_def by simp
    ultimately show ?thesis using ih(1) by blast
  qed
qed

lemma pending_distinct: "unique_on ob_hash (ad_outbox db) \<Longrightarrow> distinct (map ob_hash (list_pending_anchor_outbox db))"
  by (simp add: list_pending_anchor_outbox_def unique_on_def distinct_map inj_on_def)

lemma pending_iff: "r \<in> set (list_pending_anchor_outbox db) \<longleftrightarrow> r \<in> set (ad_outbox db) \<and> \<not> ob_delivered r"
  by (auto simp: list_pending_anchor_outbox_def)

lemma settledD: "settled db k \<Longrightarrow> unique_on ob_hash (ad_outbox db) \<Longrightarrow> r \<in> set (ad_outbox db) \<Longrightarrow> ob_hash r = k \<Longrightarrow> ob_delivered r"
  unfolding settled_def using row_by_Some_iff by (metis option.inject)

lemma free_later:
  assumes "\<And>m n. c1 m \<le> c2 n" and "free_at c1 db k"
  shows "free_at c2 db k"
proof -
  obtain y where y: "row_by ob_hash k (ad_outbox db) = Some y" "\<And>n. claimable anchor_claim_lease (c1 n) y"
    using assms(2) by (auto simp: free_at_def)
  have "claimable anchor_claim_lease (c2 n) y" for n
    using y(2) [of 0] assms(1) [of 0 n] by (auto simp: claimable_def split: option.splits)
  then show ?thesis using y(1) by (auto simp: free_at_def)
qed

text \<open>C17: a row the chain keeps refusing does not hold up the others: from a state in which every row that is not delivered
  may be claimed, two passes of the worker, the second less than a lease after the first, deliver every
  row but that one, although the first pass is aborted by it.\<close>

theorem refused_row_delays_nobody:
  assumes "refuses_only chain h" and "unique_on ob_hash (ad_outbox db)"
    and "\<And>r n. r \<in> set (ad_outbox db) \<Longrightarrow> \<not> ob_delivered r \<Longrightarrow> claimable anchor_claim_lease (c1 n) r"
    and "\<And>m n. c1 m \<le> c2 n" and "\<And>m n. c2 n < c1 m + anchor_claim_lease"
    and "r \<in> set (ad_outbox (anchor_worker_run chain [c1, c2] db))" and "ob_hash r \<noteq> h"
  shows "ob_delivered r"
proof -
  obtain res1 db1 where pass1: "drain_outbox chain c1 db = (res1, db1)" by fastforce
  obtain res2 db2 where pass2: "drain_outbox chain c2 db1 = (res2, db2)" by fastforce
  have free1: "free_at c1 db (ob_hash q)" if "q \<in> set (list_pending_anchor_outbox db)" for q
    using that assms(2,3) by (auto simp: pending_iff free_at_def row_by_Some_iff)
  note first = drain_pass [OF assms(1,2) pending_distinct [OF assms(2)] free1 pass1 [unfolded drain_outbox_def]]
  have uniq1: "unique_on ob_hash (ad_outbox db1)" using first by blast
  have settled1: "same_row db db1 k \<or> settled db1 k" if "k \<noteq> h" for k using first that by blast
  have free2: "free_at c2 db1 (ob_hash q)" if "q \<in> set (list_pending_anchor_outbox db1)" "ob_hash q \<noteq> h" for q
  proof -
    have q: "q \<in> set (ad_outbox db1)" "\<not> ob_delivered q" using that(1) by (simp_all add: pending_iff)
    then have "\<not> settled db1 (ob_hash q)" using settledD [OF _ uniq1] by blast
    then have same: "same_row db db1 (ob_hash q)" using settled1 that(2) by blast
    have "row_by ob_hash (ob_hash q) (ad_outbox db1) = Some q" using q uniq1 by (simp add: row_by_Some_iff)
    then have "row_by ob_hash (ob_hash q) (ad_outbox db) = Some q" using same by (simp add: same_row_def)
    then have "q \<in> set (ad_outbox db)" by (rule row_by_SomeD [THEN conjunct1])
    then have "free_at c1 db (ob_hash q)" using free1 q(2) by (simp add: pending_iff)
    then have "free_at c2 db (ob_hash q)" by (rule free_later [OF assms(4)])
    then show ?thesis using free_same(1) [OF same, of c2] by simp
  qed
  note second = drain_pass [OF assms(1) uniq1 pending_distinct [OF uniq1] free2 pass2 [unfolded drain_outbox_def]]
  have uniq2: "unique_on ob_hash (ad_outbox db2)" using second by blast
  have kept: "settled db2 k" if "settled db1 k" "k \<noteq> h" for k
    using second that free_same(2) by blast
  have r: "r \<in> set (ad_outbox db2)" using assms(6) pass1 pass2 by simp
  let ?k = "ob_hash r"
  have "settled db2 ?k"
  proof (cases res2)
    case (Inr m)
    show ?thesis
    proof (rule ccontr)
      assume no: "\<not> settled db2 ?k"
      then have "same_row db1 db2 ?k" "\<not> settled db1 ?k" using second assms(7) kept by blast+
      moreover have "row_by ob_hash ?k (ad_outbox db2) = Some r" using r uniq2 by (simp add: row_by_Some_iff)
      ultimately have "row_by ob_hash ?k (ad_outbox db1) = Some r" "\<not> ob_delivered r"
        by (simp_all add: same_row_def settled_def)
      then have "r \<in> set (list_pending_anchor_outbox db1)"
        using row_by_SomeD [of ob_hash ?k "ad_outbox db1" r] by (simp add: pending_iff)
      then show False using second Inr no assms(7) by blast
    qed
  next
    case (Inl e)
    then obtain m y where y: "row_by ob_hash h (ad_outbox db1) = Some y" "claimable anchor_claim_lease (c2 m) y"
      using second by blast
    have "\<not> held_since (c1 n) db1 h" for n
      using y assms(5) [of m n] by (auto simp: held_since_def claimable_def)
    then obtain m1 where "res1 = Inr m1" using first by (cases res1) blast+
    then have all: "\<And>q. q \<in> set (list_pending_anchor_outbox db) \<Longrightarrow> ob_hash q \<noteq> h \<Longrightarrow> settled db1 (ob_hash q)"
      using first by blast
    have "settled db1 ?k \<or> same_row db db1 ?k \<and> \<not> settled db1 ?k" using settled1 assms(7) by blast
    then show ?thesis
    proof
      assume "same_row db db1 ?k \<and> \<not> settled db1 ?k"
      then have "\<not> settled db ?k" "same_row db db1 ?k" using free_same(2) by blast+
      show ?thesis
      proof (rule ccontr)
        assume no: "\<not> settled db2 ?k"
        then have "same_row db1 db2 ?k" using second assms(7) by blast
        then have "row_by ob_hash ?k (ad_outbox db) = Some r"
          using row_by_Some_iff [OF uniq2, of ?k r] r \<open>same_row db db1 ?k\<close> by (simp add: same_row_def)
        then have "r \<in> set (list_pending_anchor_outbox db)"
          using \<open>\<not> settled db ?k\<close> row_by_SomeD [of ob_hash ?k "ad_outbox db" r] by (simp add: settled_def pending_iff)
        then show False using all assms(7) kept no by blast
      qed
    qed (use kept assms(7) in blast)
  qed
  then show ?thesis using settledD uniq2 r by blast
qed

lemma drain_hashes:
  "map ob_hash (ad_outbox (snd (drain_rows chain lease clock n rs db))) = map ob_hash (ad_outbox db)"
proof (induction rs arbitrary: n db)
  case (Cons r rs)
  have "map ob_hash (ad_outbox db1) = map ob_hash (ad_outbox db)"
    if "claim_anchor_outbox lease (clock n) (ob_hash r) db = (b, db1)" for b db1
    using claim_hashes [of lease "clock n" "ob_hash r" db] that by simp
  moreover have "map ob_hash (ad_outbox (mark_anchor_delivered h (append_anchor_receipt q x db1))) = map ob_hash (ad_outbox db1)"
    for h q x db1 by (simp add: mark_outbox_hashes)
  ultimately show ?case
    using Cons.IH by (auto split: prod.split sum.split bool.split) (metis snd_conv)+
qed simp

definition choosy_chain :: chain where
  "choosy_chain k c now = (if k = ''p'' then Inl (mk_exn ''ChainError'' []) else anchor k c now)"

definition two_rows :: anchor_db where
  "two_rows = \<lparr>ad_outbox = [slow_row\<lparr>ob_hash := ''p''\<rparr>, slow_row], ad_receipts = []\<rparr>"

theorem refused_row_delays_nobody_witness:
  "\<exists>r \<in> set (ad_outbox (anchor_worker_run choosy_chain [\<lambda>_. 0, \<lambda>_. 5] two_rows)). ob_hash r = ''h'' \<and> ob_delivered r"
proof -
  let ?out = "ad_outbox (anchor_worker_run choosy_chain [\<lambda>_. 0, \<lambda>_. 5] two_rows)"
  have chain: "refuses_only choosy_chain ''p''" by (simp add: refuses_only_def choosy_chain_def anchor_def)
  have "unique_on ob_hash (ad_outbox two_rows)" by (simp add: two_rows_def unique_on_def slow_row_simps)
  from refused_row_delays_nobody [OF chain this, of "\<lambda>_. 0" "\<lambda>_. 5"]
  have all: "r \<in> set ?out \<Longrightarrow> ob_hash r \<noteq> ''p'' \<Longrightarrow> ob_delivered r" for r
    by (force simp: two_rows_def claimable_def anchor_claim_lease_def slow_row_simps)
  have "map ob_hash ?out = [''p'', ''h'']"
    by (simp add: drain_outbox_def drain_hashes) (simp add: two_rows_def slow_row_simps)
  then have "''h'' \<in> ob_hash ` set ?out" by (metis list.set_intros set_map)
  then obtain r where "r \<in> set ?out" "ob_hash r = ''h''" by auto
  then show ?thesis using all by (intro bexI [of _ r]) auto
qed

end
