(* ===== verification/SessionRole.thy ===== *)
theory SessionRole
  imports Policy SafeJson Tables
begin

text \<open>
  Which role a call acts in: the contexts of a session and the trusted payload built from it
  (\<^verbatim>\<open>shared/session_context.py\<close>), the role of a verified identity
  (\<^verbatim>\<open>shared/auth_context.py\<close>), and their composition at the entry of every skill
  (\<^verbatim>\<open>BrainService._resolve_role\<close>). The order in which Python walks a set is an argument.
\<close>

section \<open>Payloads with process-local markers\<close>

text \<open>A value that came as JSON, or one of the two objects only this process can put in a payload.\<close>

datatype pval = Plain json | TrustedMarker | SystemMarker

type_synonym call_payload = "(string \<times> pval) list"

text \<open>The JSON value under a key. A marker is only ever stored under its own key.\<close>

definition pget :: "call_payload \<Rightarrow> string \<Rightarrow> json" where
  "pget p k = (case map_of p k of Some (Plain v) \<Rightarrow> v | Some _ \<Rightarrow> JStr ''<object>'' | None \<Rightarrow> JNull)"

definition trusted_key :: string where "trusted_key = ''_trusted_session_context''"
definition system_key :: string where "system_key = ''_system_origin_call''"

definition is_trusted_session_payload :: "call_payload \<Rightarrow> bool" where
  "is_trusted_session_payload p \<longleftrightarrow> map_of p trusted_key = Some TrustedMarker"

definition is_system_origin_payload :: "call_payload \<Rightarrow> bool" where
  "is_system_origin_payload p \<longleftrightarrow> map_of p system_key = Some SystemMarker"

definition mark_system_origin :: "call_payload \<Rightarrow> call_payload" where
  "mark_system_origin p = dset p system_key SystemMarker"

definition ppop :: "string \<Rightarrow> call_payload \<Rightarrow> call_payload" where
  "ppop k p = filter (\<lambda>(k', v). k' \<noteq> k) p"

definition client_payload :: "dict \<Rightarrow> call_payload" where
  "client_payload d = map (\<lambda>(k, v). (k, Plain v)) d"

section \<open>The contexts of a session\<close>

datatype session_error = SessionPy py_error | Denied string

type_synonym context_pairs = "(string \<times> string) list"

definition text_or_empty :: "json \<Rightarrow> string" where
  "text_or_empty v = py_str (py_or v (JStr []))"

definition pick_default_role :: "string list \<Rightarrow> session_error + string" where
  "pick_default_role allowed =
     (case filter (\<lambda>r. r \<in> set allowed) business_role_codes @ filter known_role (sort (remdups allowed)) of
        r # _ \<Rightarrow> Inr r | [] \<Rightarrow> Inl (Denied ''no product role available for session context''))"

text \<open>\<^verbatim>\<open>contexts_from_bindings\<close>: bindings to roles the product does not know are dropped.\<close>

definition binding_context :: "string \<Rightarrow> json \<Rightarrow> py_error + json list" where
  "binding_context fallback item =
     bindE (json_get item ''role_code'') (\<lambda>role.
     bindE (json_get item ''org_code'') (\<lambda>org.
     bindE (json_get item ''actor_tags'') (\<lambda>tags.
       let r = text_or_empty role
       in if \<not> known_role r then Inr []
          else Inr [JObj [(''org_code'', JStr (py_str (first_of [org, JStr fallback, JStr []]))),
                          (''role_code'', JStr r),
                          (''actor_tags'', case tags of JObj d \<Rightarrow> JObj d | _ \<Rightarrow> JObj [])]])))"

definition contexts_from_bindings :: "json list \<Rightarrow> string \<Rightarrow> py_error + json list" where
  "contexts_from_bindings bindings fallback =
     forE (\<lambda>acc item. bindE (binding_context fallback item) (\<lambda>cs. Inr (acc @ cs))) [] bindings"

definition contexts_from_role_codes :: "json list \<Rightarrow> string \<Rightarrow> json list" where
  "contexts_from_role_codes codes org =
     map (\<lambda>r. JObj [(''org_code'', JStr org), (''role_code'', JStr r), (''actor_tags'', JObj [])])
       (filter_product_role_codes codes)"

text \<open>The pairs of organisation and role a list of contexts allows; an entry that is not a dictionary raises.\<close>

definition context_pair :: "context_pairs \<Rightarrow> json \<Rightarrow> py_error + context_pairs" where
  "context_pair acc item =
     bindE (json_get item ''role_code'') (\<lambda>role.
     if \<not> truthy role then Inr acc
     else bindE (json_get item ''org_code'') (\<lambda>org. Inr (acc @ [(text_or_empty org, py_str role)])))"

definition context_pairs_of :: "json list \<Rightarrow> py_error + context_pairs" where
  "context_pairs_of contexts = forE context_pair [] contexts"

definition session_pairs :: "dict \<Rightarrow> py_error + context_pairs" where
  "session_pairs snapshot =
     (case dget snapshot ''available_contexts'' of
        JList (c # cs) \<Rightarrow> context_pairs_of (c # cs)
      | _ \<Rightarrow>
          bindE (py_iter (py_or (dget snapshot ''role_codes'') (JList []))) (\<lambda>codes.
            Inr (map (\<lambda>r. (text_or_empty (dget snapshot ''org_code''), r)) (filter_product_role_codes codes))))"

text \<open>\<^verbatim>\<open>apply_runtime_context\<close>: the current context of a session. Where the code takes the first element
  of a set, \<open>pick\<close> does.\<close>

definition tag_lead_dept :: string where "tag_lead_dept = ''tag_lead_dept''"

definition chosen_pair ::
    "(context_pairs \<Rightarrow> string \<times> string) \<Rightarrow> json list \<Rightarrow> context_pairs \<Rightarrow> string \<Rightarrow> string \<times> string \<Rightarrow> py_error + string \<times> string" where
  "chosen_pair pick available allowed preferred_org cur =
     (if cur \<in> set allowed \<or> allowed = [] then Inr cur
      else if preferred_org = [] then Inr (pick allowed)
      else
        bindE (forE (\<lambda>acc item. bindE (json_get item ''org_code'') (\<lambda>org.
                 Inr (if text_or_empty org = preferred_org then acc @ [item] else acc))) [] available) (\<lambda>matches.
          case matches of
            [] \<Rightarrow> Inr (pick allowed)
          | m # _ \<Rightarrow>
              bindE (json_get m ''org_code'') (\<lambda>org. bindE (json_item m ''role_code'') (\<lambda>role.
                Inr (if truthy org then py_str org else fst cur, py_str role)))))"

fun context_at :: "string \<Rightarrow> string \<Rightarrow> json list \<Rightarrow> py_error + json option" where
  "context_at org role [] = Inr None"
| "context_at org role (item # items) =
     bindE (json_get item ''org_code'') (\<lambda>o'.
       if text_or_empty o' \<noteq> org then context_at org role items
       else bindE (json_item item ''role_code'') (\<lambda>r.
         if r = JStr role then Inr (Some item) else context_at org role items))"

fun org_of_role :: "string \<Rightarrow> string \<Rightarrow> json list \<Rightarrow> py_error + string" where
  "org_of_role org role [] = Inr org"
| "org_of_role org role (item # items) =
     bindE (json_item item ''role_code'') (\<lambda>r.
       if r = JStr role then bindE (json_get item ''org_code'') (\<lambda>o'. Inr (text_or_empty o'))
       else org_of_role org role items)"

definition default_pair :: "json list \<Rightarrow> context_pairs \<Rightarrow> string \<times> string \<Rightarrow> session_error + string \<times> string" where
  "default_pair available allowed cur =
     (if snd cur \<noteq> [] \<or> allowed = [] then Inr cur
      else bindE (pick_default_role (map snd allowed)) (\<lambda>role.
        if fst cur \<noteq> [] then Inr (fst cur, role)
        else bindE (raiseE SessionPy (org_of_role (fst cur) role available)) (\<lambda>org. Inr (org, role))))"

definition lead_tags :: "dict \<Rightarrow> json \<Rightarrow> py_error + json" where
  "lead_tags snapshot tags =
     bindE (json_has (py_or (dget snapshot ''role_codes'') (JList [])) tag_lead_dept) (\<lambda>lead.
       if \<not> lead then Inr tags
       else bindE (json_get tags tag_lead_dept) (\<lambda>v.
         if truthy v then Inr tags
         else Inr (case tags of JObj d \<Rightarrow> JObj (dset d tag_lead_dept (JBool True)) | _ \<Rightarrow> tags)))"

definition asked_pair :: "dict \<Rightarrow> string \<Rightarrow> string \<Rightarrow> string \<times> string" where
  "asked_pair snapshot preferred_org preferred_role =
     (py_str (first_of [JStr preferred_org, dget snapshot ''current_org_code'', dget snapshot ''org_code'', JStr []]),
      py_str (first_of [JStr preferred_role, dget snapshot ''current_role'', JStr []]))"

definition runtime_contexts :: "dict \<Rightarrow> json list \<Rightarrow> string \<Rightarrow> session_error + json list" where
  "runtime_contexts snapshot contexts preferred_org =
     (if contexts \<noteq> [] then Inr contexts
      else bindE (raiseE SessionPy (py_iter (py_or (dget snapshot ''role_codes'') (JList [])))) (\<lambda>codes.
        Inr (contexts_from_role_codes (map (\<lambda>c. JStr (py_str c)) codes)
               (py_str (first_of [dget snapshot ''org_code'', JStr preferred_org, JStr []])))))"

definition apply_runtime_context ::
    "(context_pairs \<Rightarrow> string \<times> string) \<Rightarrow> dict \<Rightarrow> json list \<Rightarrow> string \<Rightarrow> string \<Rightarrow> session_error + dict" where
  "apply_runtime_context pick snapshot contexts preferred_org preferred_role =
     bindE (runtime_contexts snapshot contexts preferred_org) (\<lambda>available.
     bindE (raiseE SessionPy (context_pairs_of available)) (\<lambda>allowed.
     bindE (raiseE SessionPy (chosen_pair pick available allowed preferred_org
              (asked_pair snapshot preferred_org preferred_role))) (\<lambda>p1.
     bindE (default_pair available allowed p1) (\<lambda>(org, role).
     bindE (raiseE SessionPy (context_at org role available)) (\<lambda>ctx.
     bindE (raiseE SessionPy (case ctx of None \<Rightarrow> Inr (JObj []) | Some c \<Rightarrow> json_get c ''actor_tags'')) (\<lambda>tags0.
     bindE (raiseE SessionPy (lead_tags snapshot tags0)) (\<lambda>tags.
       Inr (dset (dset (dset (dset (dset snapshot ''available_contexts'' (JList available))
              ''current_org_code'' (JStr org)) ''current_role'' (JStr role)) ''actor_tags'' tags)
              ''org_code'' (if org \<noteq> [] then JStr org else dget snapshot ''org_code'')))))))))"

section \<open>The role of a trusted session\<close>

definition session_org :: "dict \<Rightarrow> string" where
  "session_org snapshot =
     py_str (first_of [dget snapshot ''current_org_code'', dget snapshot ''org_code'', JStr []])"

definition requested_org :: "call_payload \<Rightarrow> string" where
  "requested_org p = strip_blanks (py_str (first_of [pget p ''org_code'', pget p ''current_org_code'', JStr []]))"

definition requested_role :: "call_payload \<Rightarrow> string" where
  "requested_role p = strip_blanks (text_or_empty (pget p ''role''))"

definition resolve_trusted_role :: "call_payload \<Rightarrow> dict \<Rightarrow> session_error + string" where
  "resolve_trusted_role p snapshot =
     (if text_or_empty (dget snapshot ''status'') = ''disabled'' then Inl (Denied ''actor disabled'')
      else bindE (raiseE SessionPy (session_pairs snapshot)) (\<lambda>pairs.
        let roles = map snd pairs;
            current_role = text_or_empty (dget snapshot ''current_role'');
            current_org = session_org snapshot; role = requested_role p; org = requested_org p
        in if roles = [] then Inl (Denied ''session has no allowed product roles'')
           else if role \<noteq> [] then
             bindE (guardE (known_role role) (Denied (''unknown role: '' @ role))) (\<lambda>_.
             bindE (guardE (role \<in> set roles) (Denied (''role '' @ role @ '' not in available session contexts''))) (\<lambda>_.
             bindE (guardE ((if org \<noteq> [] then org else current_org, role) \<in> set pairs)
                      (Denied (''context not allowed for this session''))) (\<lambda>_. Inr role)))
           else if current_role \<in> set roles \<and> (current_org, current_role) \<in> set pairs then Inr current_role
           else pick_default_role roles))"

definition build_trusted_skill_payload :: "call_payload \<Rightarrow> dict \<Rightarrow> session_error + call_payload" where
  "build_trusted_skill_payload client snapshot =
     (let p = ppop trusted_key client
      in bindE (resolve_trusted_role p snapshot) (\<lambda>role.
         let m1 = dset p trusted_key TrustedMarker;
             m2 = dset m1 ''role'' (Plain (JStr role));
             m3 = dset m2 ''actor_snapshot'' (Plain (JObj snapshot));
             m4 = dset m3 ''actor_tags'' (Plain (case dget snapshot ''actor_tags'' of JObj d \<Rightarrow> JObj d | _ \<Rightarrow> JObj []));
             m5 = dset m4 ''tenant_id'' (Plain (JStr (py_str (first_of [dget snapshot ''tenant_id'', pget m4 ''tenant_id'',
                    JStr ''sd-default'']))))
         in Inr (if truthy (dget snapshot ''current_org_code'')
                 then dset m5 ''org_code'' (Plain (dget snapshot ''current_org_code'')) else m5)))"

definition trusted_caller_org :: "call_payload \<Rightarrow> string" where
  "trusted_caller_org p =
     (let snapshot = (case pget p ''actor_snapshot'' of JObj d \<Rightarrow> d | _ \<Rightarrow> [])
      in py_str (first_of [pget p ''org_code'', pget p ''current_org_code'', dget snapshot ''current_org_code'',
           dget snapshot ''org_code'', JStr []]))"

section \<open>The role of a verified identity\<close>

text \<open>The roles of the authenticated identity, if there is one.\<close>

definition resolve_role_from_identity :: "string list option \<Rightarrow> string \<Rightarrow> string \<Rightarrow> bool \<Rightarrow> string + string" where
  "resolve_role_from_identity identity requested fallback is_write =
     (case identity of
        None \<Rightarrow> Inr (if requested \<noteq> [] then requested else fallback)
      | Some codes \<Rightarrow>
          let allowed = filter_product_role_codes (map JStr codes); role = strip_blanks requested
          in if role \<noteq> [] \<and> role \<in> set allowed then Inr role
             else if role \<noteq> [] \<and> is_write then Inl (''identity does not hold role '' @ repr_str role @ '' required to perform this write'')
             else case allowed of r # _ \<Rightarrow> Inr r | [] \<Rightarrow> Inl ''identity holds no product role'')"

section \<open>The role of a call\<close>

definition denied_policy :: "policy_error \<Rightarrow> session_error" where
  "denied_policy e = (case e of UnknownRole r \<Rightarrow> Denied (''unknown role: '' @ r) | PolicyPy p \<Rightarrow> SessionPy p | _ \<Rightarrow> Denied [])"

text \<open>The role, and the payload without the keys a client may have put the markers' names in.\<close>

definition brain_resolve_role :: "string list option \<Rightarrow> string \<Rightarrow> dict \<Rightarrow> call_payload \<Rightarrow> session_error + string \<times> call_payload" where
  "brain_resolve_role identity ui_role manifest p =
     (if is_trusted_session_payload p
      then (case map_of p ''actor_snapshot'' of
              Some (Plain (JObj snapshot)) \<Rightarrow> bindE (resolve_trusted_role p snapshot) (\<lambda>r. Inr (r, p))
            | _ \<Rightarrow> Inl (Denied ''trusted session requires actor_snapshot''))
      else
        let q = ppop system_key (ppop trusted_key p)
        in if is_system_origin_payload p
           then bindE (raiseE denied_policy (resolve_role (pget q ''role'') ui_role)) (\<lambda>r. Inr (r, q))
           else bindE (raiseE Denied (resolve_role_from_identity identity (text_or_empty (pget q ''role'')) ui_role
                         (truthy (dget manifest ''side_effects'')))) (\<lambda>candidate.
                bindE (raiseE denied_policy (resolve_role (JStr candidate) ui_role)) (\<lambda>r. Inr (r, q))))"

end
