(* ===== verification/SessionSafe.thy ===== *)
theory SessionSafe
  imports SessionRole
begin

text \<open>
  What the resolution of roles guarantees: a call of a session acts in one of the session's own contexts, no
  payload a client can send reaches the trusted paths or a role the identity does not hold, and the current context
  of a session is one of its contexts, whose choice may be left to the order of a set.
\<close>

section \<open>Keys of payloads\<close>

lemma pget_dset: "pget (dset p k v) k' = (if k' = k then (case v of Plain j \<Rightarrow> j | _ \<Rightarrow> JStr ''<object>'') else pget p k')"
  by (simp add: pget_def map_of_dset split: pval.split)

lemma map_of_ppop: "map_of (ppop k p) k' = (if k' = k then None else map_of p k')"
  by (induction p) (auto simp: ppop_def)

lemma pget_ppop: "pget (ppop k p) k' = (if k' = k then JNull else pget p k')"
  by (simp add: pget_def map_of_ppop)

lemma key_facts [simp]:
  "trusted_key \<noteq> system_key" "trusted_key \<noteq> ''role''" "trusted_key \<noteq> ''org_code''" "trusted_key \<noteq> ''current_org_code''"
  "trusted_key \<noteq> ''actor_snapshot''" "trusted_key \<noteq> ''actor_tags''" "trusted_key \<noteq> ''tenant_id''"
  "system_key \<noteq> ''role''" "system_key \<noteq> trusted_key"
  "''role'' \<noteq> trusted_key" "''org_code'' \<noteq> trusted_key" "''current_org_code'' \<noteq> trusted_key"
  "''actor_snapshot'' \<noteq> trusted_key" "''role'' \<noteq> system_key" "''tenant_id'' \<noteq> trusted_key" "''actor_tags'' \<noteq> trusted_key"
  by (simp_all add: trusted_key_def system_key_def)

lemma client_plain: "map_of (client_payload d) k \<noteq> Some TrustedMarker \<and> map_of (client_payload d) k \<noteq> Some SystemMarker"
  by (induction d) (auto simp: client_payload_def)

section \<open>Known roles\<close>

lemma strip_known: "known_role r \<Longrightarrow> strip_blanks r = r \<and> r \<noteq> []"
proof -
  have "\<forall>r \<in> set all_role_codes. strip_blanks r = r \<and> r \<noteq> []" by code_simp
  then show "known_role r \<Longrightarrow> strip_blanks r = r \<and> r \<noteq> []" by (simp add: known_role_iff)
qed

lemma pick_default_in:
  assumes "pick_default_role rs = Inr r"
  shows "r \<in> set rs"
proof -
  obtain xs where "filter (\<lambda>r. r \<in> set rs) business_role_codes @ filter known_role (sort (remdups rs)) = r # xs"
    using assms by (auto simp: pick_default_role_def split: list.splits)
  then have "r \<in> set (filter (\<lambda>r. r \<in> set rs) business_role_codes @ filter known_role (sort (remdups rs)))" by simp
  then show ?thesis by auto
qed

lemma resolve_trusted_Inr:
  assumes "resolve_trusted_role p snapshot = Inr r" and "session_pairs snapshot = Inr pairs"
  shows "r \<in> set (map snd pairs)"
    and "requested_role p \<noteq> [] \<Longrightarrow> r = requested_role p \<and>
      (if requested_org p \<noteq> [] then requested_org p else session_org snapshot, r) \<in> set pairs"
  using assms
  by (auto simp: resolve_trusted_role_def Let_def result_simps split: if_splits dest: pick_default_in)

text \<open>What the trusted payload says about the caller.\<close>

lemma trusted_payload:
  assumes "build_trusted_skill_payload client snapshot = Inr p"
  shows "is_trusted_session_payload p" "map_of p ''actor_snapshot'' = Some (Plain (JObj snapshot))"
    "resolve_trusted_role (ppop trusted_key client) snapshot = Inr r \<Longrightarrow> pget p ''role'' = JStr r"
    "\<exists>r. resolve_trusted_role (ppop trusted_key client) snapshot = Inr r"
    "truthy (dget snapshot ''current_org_code'') \<Longrightarrow> pget p ''org_code'' = dget snapshot ''current_org_code''"
  using assms
  by (auto simp: build_trusted_skill_payload_def Let_def result_simps is_trusted_session_payload_def pget_dset
      split: if_splits)

lemma nat_str_ne: "nat_str n \<noteq> []"
  by (cases n rule: nat_str.cases) (subst nat_str.simps, simp)

lemma truthy_text: "truthy v \<Longrightarrow> py_str v \<noteq> []"
  by (cases v) (auto simp: int_str_def nat_str_ne)

lemma acting_org:
  assumes "pget p ''actor_snapshot'' = JObj snapshot" and "strip_blanks (trusted_caller_org p) = trusted_caller_org p"
  shows "(if requested_org p \<noteq> [] then requested_org p else session_org snapshot) = trusted_caller_org p"
proof -
  have empty: "strip_blanks [] = []" by (simp add: strip_blanks_def)
  show ?thesis
    using assms empty
    by (auto simp: truthy_text truthy_text [THEN not_sym] requested_org_def trusted_caller_org_def session_org_def)
qed

text \<open>A session with two contexts.\<close>

definition sample_session :: dict where
  "sample_session =
     [(''available_contexts'', JList [JObj [(''org_code'', JStr ''o1''), (''role_code'', JStr role_operater)],
                                      JObj [(''org_code'', JStr ''o2''), (''role_code'', JStr role_manager)]]),
      (''current_org_code'', JStr ''o1''), (''current_role'', JStr role_operater)]"

lemma sample_session_runs:
  "\<exists>p. build_trusted_skill_payload (client_payload [(''org_code'', JStr ''other'')]) sample_session = Inr p \<and>
     brain_resolve_role None [] [] p = Inr (role_operater, p) \<and> strip_blanks (trusted_caller_org p) = trusted_caller_org p"
proof -
  have "case build_trusted_skill_payload (client_payload [(''org_code'', JStr ''other'')]) sample_session of
      Inl e \<Rightarrow> False
    | Inr p \<Rightarrow> brain_resolve_role None [] [] p = Inr (role_operater, p) \<and> strip_blanks (trusted_caller_org p) = trusted_caller_org p"
    by code_simp
  then show ?thesis by (auto split: sum.splits)
qed

text \<open>C18: a call made from a browser session acts in a context of that session: when the trusted payload built from the
  client's payload and the session is resolved at the entry of the skill, the organisation the skills see as the
  caller's and the role the call runs in are one of the pairs the session holds, whatever organisation and role the
  client asked for.\<close>

theorem trusted_call_acts_in_its_context:
  assumes "build_trusted_skill_payload client snapshot = Inr p"
    and "brain_resolve_role identity ui_role manifest p = Inr (r, q)"
    and "session_pairs snapshot = Inr pairs" and "\<And>o' r'. (o', r') \<in> set pairs \<Longrightarrow> known_role r'"
    and "strip_blanks (trusted_caller_org q) = trusted_caller_org q"
  shows "(trusted_caller_org q, r) \<in> set pairs \<and> q = p"
proof -
  note trusted = trusted_payload [OF assms(1)]
  have q: "q = p" "resolve_trusted_role p snapshot = Inr r"
    using assms(2) trusted(1,2) by (auto simp: brain_resolve_role_def result_simps)
  obtain r1 where r1: "resolve_trusted_role (ppop trusted_key client) snapshot = Inr r1" using trusted(4) by blast
  have "r1 \<in> set (map snd pairs)" using resolve_trusted_Inr(1) [OF r1 assms(3)] .
  then have "strip_blanks r1 = r1" "r1 \<noteq> []" using assms(4) strip_known by auto
  then have "requested_role p \<noteq> []"
    using trusted(3) [OF r1] by (simp add: requested_role_def text_or_empty_def py_or_def)
  then have "(if requested_org p \<noteq> [] then requested_org p else session_org snapshot, r) \<in> set pairs"
    using resolve_trusted_Inr(2) [OF q(2) assms(3)] by blast
  moreover have "pget p ''actor_snapshot'' = JObj snapshot" using trusted(2) by (simp add: pget_def)
  ultimately show ?thesis using acting_org assms(5) q(1) by simp
qed

theorem trusted_call_acts_in_its_context_witness:
  "\<exists>p. build_trusted_skill_payload (client_payload [(''org_code'', JStr ''other'')]) sample_session = Inr p \<and>
     (trusted_caller_org p, role_operater) \<in> set [(''o1'', role_operater), (''o2'', role_manager)]"
proof -
  obtain p where p: "build_trusted_skill_payload (client_payload [(''org_code'', JStr ''other'')]) sample_session = Inr p"
      "brain_resolve_role None [] [] p = Inr (role_operater, p)" "strip_blanks (trusted_caller_org p) = trusted_caller_org p"
    using sample_session_runs by blast
  have "session_pairs sample_session = Inr [(''o1'', role_operater), (''o2'', role_manager)]" by code_simp
  from trusted_call_acts_in_its_context [OF p(1,2) this _ p(3)] p(1) show ?thesis
    by (auto simp: known_role_iff all_role_codes_def business_role_codes_def)
qed

text \<open>whatever a client writes into the JSON payload of a call, the marker keys included: with a verified identity
  the call runs in a known role the identity holds, and a call with side effects that names a role runs in
  that role or not at all; the markers' keys are gone from the payload the handler sees.\<close>

lemma client_cannot_take_a_role:
  assumes "brain_resolve_role (Some codes) ui_role manifest (client_payload d) = Inr (r, q)"
  shows "r \<in> set codes \<and> known_role r \<and> map_of q trusted_key = None \<and> map_of q system_key = None \<and>
    (truthy (dget manifest ''side_effects'') \<longrightarrow> requested_role (client_payload d) \<noteq> [] \<longrightarrow>
       r = requested_role (client_payload d))"
proof -
  let ?p = "client_payload d" and ?q = "ppop system_key (ppop trusted_key (client_payload d))"
  have unmarked: "\<not> is_trusted_session_payload ?p" "\<not> is_system_origin_payload ?p"
    using client_plain by (auto simp: is_trusted_session_payload_def is_system_origin_payload_def)
  have role: "pget ?q ''role'' = pget ?p ''role''" by (simp add: pget_ppop)
  obtain candidate where c: "resolve_role_from_identity (Some codes) (text_or_empty (pget ?p ''role'')) ui_role
      (truthy (dget manifest ''side_effects'')) = Inr candidate" "resolve_role (JStr candidate) ui_role = Inr r" "q = ?q"
    using assms unmarked role by (auto simp: brain_resolve_role_def Let_def result_simps)
  let ?allowed = "filter_product_role_codes (map JStr codes)"
  have allowed: "x \<in> set ?allowed \<longleftrightarrow> x \<in> set codes \<and> known_role x" for x
    by (auto simp: filter_product_role_codes_def)
  have cand: "candidate \<in> set ?allowed \<and> (truthy (dget manifest ''side_effects'') \<longrightarrow> requested_role ?p \<noteq> [] \<longrightarrow>
      candidate = requested_role ?p)"
    using c(1) by (auto simp: resolve_role_from_identity_def requested_role_def Let_def split: if_splits list.splits)
  then have "candidate \<noteq> []" using allowed strip_known by blast
  then have "r = candidate" using c(2) by (auto simp: resolve_role_def py_or_def Let_def split: if_splits)
  then show ?thesis using cand allowed c(3) by (simp add: map_of_ppop)
qed

section \<open>The current context of a session\<close>

definition good_context :: "json \<Rightarrow> bool" where
  "good_context c \<longleftrightarrow> (case c of JObj d \<Rightarrow> truthy (dget d ''role_code'') | _ \<Rightarrow> False)"

definition pair_of :: "json \<Rightarrow> string \<times> string" where
  "pair_of c = (case c of JObj d \<Rightarrow> (text_or_empty (dget d ''org_code''), py_str (dget d ''role_code'')) | _ \<Rightarrow> ([], []))"

lemma context_pair_good: "good_context c \<Longrightarrow> context_pair acc c = Inr (acc @ [pair_of c])"
  by (auto simp: good_context_def pair_of_def context_pair_def bindE_def split: json.splits)

lemma context_pairs_good: "list_all good_context cs \<Longrightarrow> context_pairs_of cs = Inr (map pair_of cs)"
proof -
  have "list_all good_context cs \<Longrightarrow> forE context_pair acc cs = Inr (acc @ map pair_of cs)" for acc
    by (induction cs arbitrary: acc) (simp_all add: context_pair_good bindE_def)
  from this [of "[]"] show "list_all good_context cs \<Longrightarrow> ?thesis" by (simp add: context_pairs_of_def)
qed

lemma role_contexts_good: "list_all good_context (contexts_from_role_codes codes org)"
  using strip_known by (auto simp: contexts_from_role_codes_def list_all_iff good_context_def filter_product_role_codes_def dget_def)

lemma good_role: "good_context c \<Longrightarrow> snd (pair_of c) \<noteq> []"
  by (auto simp: good_context_def pair_of_def truthy_text split: json.splits)

lemma matching_contexts:
  assumes "list_all good_context cs"
  shows "forE (\<lambda>acc item. bindE (json_get item ''org_code'') (\<lambda>org.
      Inr (if text_or_empty org = preferred then acc @ [item] else acc))) acc cs =
    Inr (acc @ filter (\<lambda>c. fst (pair_of c) = preferred) cs)"
  using assms
proof (induction cs arbitrary: acc)
  case (Cons c cs)
  then show ?case by (cases c) (auto simp: good_context_def pair_of_def bindE_def)
qed simp

lemma chosen_pair_in:
  assumes "list_all good_context cs" and "cs \<noteq> []" and "pick (map pair_of cs) \<in> set (map pair_of cs)"
    and "chosen_pair pick cs (map pair_of cs) preferred cur = Inr p"
  shows "p \<in> set (map pair_of cs)"
    and "preferred = [] \<Longrightarrow> cur \<notin> set (map pair_of cs) \<Longrightarrow> p = pick (map pair_of cs)"
proof -
  have eq: "cur \<notin> set (map pair_of cs) \<Longrightarrow> preferred \<noteq> [] \<Longrightarrow> p \<in> set (map pair_of cs)"
  proof -
    assume cur: "cur \<notin> set (map pair_of cs)" "preferred \<noteq> []"
    show ?thesis
    proof (cases "filter (\<lambda>c. fst (pair_of c) = preferred) cs")
      case Nil
      then show ?thesis
        using assms cur matching_contexts [OF assms(1), of preferred "[]"] by (auto simp: chosen_pair_def bindE_def)
    next
      case (Cons m ms)
      then have "m \<in> set (filter (\<lambda>c. fst (pair_of c) = preferred) cs)" by simp
      then have m: "m \<in> set cs" "fst (pair_of m) = preferred" "good_context m"
        using assms(1) by (auto simp: list_all_iff)
      obtain d where d: "m = JObj d" "truthy (dget d ''role_code'')"
        using m(3) by (auto simp: good_context_def split: json.splits)
      then obtain v where v: "map_of d ''role_code'' = Some v"
        by (auto simp: dget_def split: option.splits)
      have "truthy (dget d ''org_code'')"
        using m(2) cur(2) d(1) by (auto simp: pair_of_def text_or_empty_def py_or_def split: if_splits)
      then have "p = pair_of m"
        using assms(2,4) cur matching_contexts [OF assms(1), of preferred "[]"] Cons d v
        by (auto simp: chosen_pair_def bindE_def dict_item_def pair_of_def text_or_empty_def py_or_def dget_def)
      then show ?thesis using m(1) by auto
    qed
  qed
  show "p \<in> set (map pair_of cs)"
    using eq assms(2-4) by (cases "cur \<in> set (map pair_of cs)"; cases "preferred = []") (auto simp: chosen_pair_def)
  show "preferred = [] \<Longrightarrow> cur \<notin> set (map pair_of cs) \<Longrightarrow> p = pick (map pair_of cs)"
    using assms(2,4) by (auto simp: chosen_pair_def)
qed

lemma dget_dset_keys:
  "dget (dset d k v) k' = (if k' = k then v else dget d k')"
  by (simp add: dget_def)

text \<open>C19: the current organisation and role of a session are one of its contexts whenever it has any. When no organisation
  is preferred and the session was in none of its contexts, the context it gets is whichever the set of
  contexts yields first: the priority of the default roles is never consulted.\<close>

theorem session_context_is_its_own:
  assumes "apply_runtime_context pick snapshot contexts preferred_org preferred_role = Inr s'"
    and "list_all good_context contexts" and "dget s' ''available_contexts'' = JList (c # cs)"
    and "pick (map pair_of (c # cs)) \<in> set (map pair_of (c # cs))"
  shows "(py_str (dget s' ''current_org_code''), py_str (dget s' ''current_role'')) \<in> set (map pair_of (c # cs)) \<and>
    (preferred_org = [] \<and> asked_pair snapshot preferred_org preferred_role \<notin> set (map pair_of (c # cs)) \<longrightarrow>
       (py_str (dget s' ''current_org_code''), py_str (dget s' ''current_role'')) = pick (map pair_of (c # cs)))"
proof -
  obtain available allowed p1 p2 tags where run:
      "runtime_contexts snapshot contexts preferred_org = Inr available"
      "context_pairs_of available = Inr allowed"
      "chosen_pair pick available allowed preferred_org (asked_pair snapshot preferred_org preferred_role) = Inr p1"
      "default_pair available allowed p1 = Inr p2"
      "s' = dset (dset (dset (dset (dset snapshot ''available_contexts'' (JList available))
              ''current_org_code'' (JStr (fst p2))) ''current_role'' (JStr (snd p2))) ''actor_tags'' tags)
              ''org_code'' (if fst p2 \<noteq> [] then JStr (fst p2) else dget snapshot ''org_code'')"
    using assms(1) unfolding apply_runtime_context_def bindE_Inr_iff raiseE_Inr_iff case_prod_beta
    by (elim exE conjE) (rule that, assumption+, drule sym, simp)
  have available: "available = c # cs" using assms(3) run(5) by (simp add: dget_dset_keys)
  have good: "list_all good_context available"
    using run(1) assms(2) role_contexts_good by (auto simp: runtime_contexts_def result_simps split: if_splits)
  then have allowed: "allowed = map pair_of available" using run(2) context_pairs_good by simp
  have p1: "p1 \<in> set (map pair_of available)"
    using chosen_pair_in(1) [OF good _ _ run(3) [unfolded allowed]] assms(4) available by simp
  then have "snd p1 \<noteq> []" using good good_role by (auto simp: list_all_iff)
  then have "p2 = p1" using run(4) by (simp add: default_pair_def)
  moreover have "dget s' ''current_org_code'' = JStr (fst p2)" "dget s' ''current_role'' = JStr (snd p2)"
    using run(5) by (simp_all add: dget_dset_keys)
  ultimately show ?thesis
    using p1 chosen_pair_in(2) [OF good _ _ run(3) [unfolded allowed]] assms(4) available by auto
qed

theorem session_context_is_its_own_witness:
  "\<exists>s'. apply_runtime_context last [] [JObj [(''org_code'', JStr ''o1''), (''role_code'', JStr role_operater)],
      JObj [(''org_code'', JStr ''o2''), (''role_code'', JStr role_security_audit)]] [] [] = Inr s' \<and>
    (py_str (dget s' ''current_org_code''), py_str (dget s' ''current_role'')) = (''o2'', role_security_audit)"
proof -
  let ?c = "JObj [(''org_code'', JStr ''o1''), (''role_code'', JStr role_operater)]"
  let ?d = "JObj [(''org_code'', JStr ''o2''), (''role_code'', JStr role_security_audit)]"
  have "case apply_runtime_context last [] [?c, ?d] [] [] of Inl e \<Rightarrow> False
      | Inr s' \<Rightarrow> dget s' ''available_contexts'' = JList [?c, ?d]" by code_simp
  then obtain s' where s': "apply_runtime_context last [] [?c, ?d] [] [] = Inr s'"
      "dget s' ''available_contexts'' = JList [?c, ?d]"
    by (auto split: sum.splits)
  have pairs: "map pair_of [?c, ?d] = [(''o1'', role_operater), (''o2'', role_security_audit)]"
    and good: "list_all good_context [?c, ?d]"
    and asked: "asked_pair [] [] [] \<notin> set [(''o1'', role_operater), (''o2'', role_security_audit)]"
    by code_simp+
  have "last (map pair_of [?c, ?d]) \<in> set (map pair_of [?c, ?d])" by simp
  from session_context_is_its_own [OF s'(1) good s'(2) this] pairs asked s'(1) show ?thesis by simp
qed

end
