(* ===== verification/AuthSession.thy ===== *)
theory AuthSession
  imports Complex_Main SafeJson Tables
begin

text \<open>
  \<^verbatim>\<open>shared/auth_session.py\<close>: the browser sessions, and the two stores that keep them, one in the
  memory of the process and one in a Redis server. Times are rational numbers of seconds; the clock, the random
  session ids and the two conversions between numbers and texts are arguments. The Redis client is a parameter: three functions of
  which the stores rely on what \<open>redis_like\<close> states. Writing a session as JSON text and reading it back is the
  identity on its JSON value.
\<close>

section \<open>Sessions\<close>

record auth_session =
  se_id :: string
  se_csrf :: string
  se_tokens :: dict
  se_claims :: dict
  se_snapshot :: dict
  se_audit :: string
  se_created :: rat
  se_updated :: rat
  se_expires :: rat
  se_refresh :: rat
  se_bypass :: bool

definition safe_entries :: "dict \<Rightarrow> dict" where
  "safe_entries d = (case safe_json (JObj d) of JObj e \<Rightarrow> e | _ \<Rightarrow> [])"

definition token_text :: "auth_session \<Rightarrow> string \<Rightarrow> string" where
  "token_text s k = py_str (py_or (dget (se_tokens s) k) (JStr []))"

definition public_claims :: "dict \<Rightarrow> dict" where
  "public_claims claims =
     (let scalars = map (\<lambda>k. (k, dget claims k))
            (filter (\<lambda>k. dget claims k \<noteq> JNull) [''sub'', ''preferred_username'', ''email'', ''org_code'', ''exp'']);
          access = map (\<lambda>k. (k, safe_json (dget claims k)))
            (filter (\<lambda>k. case dget claims k of JObj _ \<Rightarrow> True | JList _ \<Rightarrow> True | _ \<Rightarrow> False) [''realm_access'', ''resource_access''])
      in scalars @ access)"

text \<open>\<^verbatim>\<open>int\<close> of a float truncates.\<close>

definition truncated :: "rat \<Rightarrow> int" where "truncated x = (if x \<ge> 0 then \<lfloor>x\<rfloor> else \<lceil>x\<rceil>)"

definition public_payload :: "auth_session \<Rightarrow> dict" where
  "public_payload s =
     [(''authenticated'', JBool True), (''actor_snapshot'', safe_json (JObj (se_snapshot s))),
      (''audit_id'', JStr (se_audit s)),
      (''expires_at'', JInt (truncated (se_expires s))),
      (''csrf_token'', JStr (se_csrf s)), (''development_iam_bypass'', JBool (se_bypass s)),
      (''claims'', JObj (public_claims (se_claims s)))]"

section \<open>Stored form\<close>

datatype stored = SJson json | SNum rat

type_synonym storage = "(string \<times> stored) list"

definition to_storage_dict :: "auth_session \<Rightarrow> storage" where
  "to_storage_dict s =
     [(''session_id'', SJson (JStr (se_id s))), (''csrf_token'', SJson (JStr (se_csrf s))),
      (''token_payload'', SJson (JObj (se_tokens s))), (''claims'', SJson (JObj (se_claims s))),
      (''actor_snapshot'', SJson (JObj (se_snapshot s))), (''audit_id'', SJson (JStr (se_audit s))),
      (''created_at'', SNum (se_created s)), (''updated_at'', SNum (se_updated s)),
      (''expires_at'', SNum (se_expires s)), (''refresh_expires_at'', SNum (se_refresh s)),
      (''development_iam_bypass'', SJson (JBool (se_bypass s)))]"

definition stored_item :: "storage \<Rightarrow> string \<Rightarrow> py_error + stored" where
  "stored_item p k = (case map_of p k of None \<Rightarrow> Inl (KeyError k) | Some v \<Rightarrow> Inr v)"

text \<open>
  \<^verbatim>\<open>str\<close> of a floating-point number, and \<^verbatim>\<open>float\<close> of a text (no value: it raises).
\<close>

record float_texts =
  float_repr :: "rat \<Rightarrow> string"
  float_of_text :: "string \<Rightarrow> rat option"

definition stored_text :: "float_texts \<Rightarrow> stored \<Rightarrow> string" where
  "stored_text ft v = (case v of SJson j \<Rightarrow> py_str j | SNum x \<Rightarrow> float_repr ft x)"

definition float_json :: "float_texts \<Rightarrow> json \<Rightarrow> py_error + rat" where
  "float_json ft v =
     (case v of
        JInt i \<Rightarrow> Inr (of_int i)
      | JBool b \<Rightarrow> Inr (if b then 1 else 0)
      | JStr s \<Rightarrow> (case float_of_text ft s of Some x \<Rightarrow> Inr x | None \<Rightarrow> Inl ValueError)
      | _ \<Rightarrow> Inl TypeError)"

definition stored_time :: "float_texts \<Rightarrow> stored \<Rightarrow> py_error + rat" where
  "stored_time ft v = (case v of SNum t \<Rightarrow> Inr t | SJson j \<Rightarrow> float_json ft j)"

text \<open>
  \<^verbatim>\<open>dict(payload.get(k) or {})\<close>. A list of pairs, which \<^verbatim>\<open>dict\<close> would also read, is
  no field of a stored session.
\<close>

definition stored_dict :: "storage \<Rightarrow> string \<Rightarrow> py_error + dict" where
  "stored_dict p k =
     (case map_of p k of
        Some (SJson (JObj d)) \<Rightarrow> Inr d
      | Some (SJson (JStr s)) \<Rightarrow> if s = [] then Inr [] else Inl ValueError
      | Some (SJson v) \<Rightarrow> if truthy v then Inl TypeError else Inr []
      | Some (SNum t) \<Rightarrow> if t = 0 then Inr [] else Inl TypeError
      | None \<Rightarrow> Inr [])"

definition from_storage_dict :: "float_texts \<Rightarrow> storage \<Rightarrow> py_error + auth_session" where
  "from_storage_dict ft p =
     bindE (stored_item p ''session_id'') (\<lambda>i.
     bindE (stored_item p ''csrf_token'') (\<lambda>csrf.
     bindE (stored_dict p ''token_payload'') (\<lambda>tokens.
     bindE (stored_dict p ''claims'') (\<lambda>claims.
     bindE (stored_dict p ''actor_snapshot'') (\<lambda>snapshot.
     bindE (bindE (stored_item p ''created_at'') (stored_time ft)) (\<lambda>created.
     bindE (bindE (stored_item p ''updated_at'') (stored_time ft)) (\<lambda>updated.
     bindE (bindE (stored_item p ''expires_at'') (stored_time ft)) (\<lambda>expires.
     bindE (bindE (stored_item p ''refresh_expires_at'') (stored_time ft)) (\<lambda>refresh.
       Inr \<lparr>se_id = stored_text ft i, se_csrf = stored_text ft csrf, se_tokens = tokens, se_claims = claims, se_snapshot = snapshot,
            se_audit = (case map_of p ''audit_id'' of None \<Rightarrow> [] | Some (SJson v) \<Rightarrow> py_str (py_or v (JStr []))
              | Some (SNum x) \<Rightarrow> if x = 0 then [] else float_repr ft x),
            se_created = created, se_updated = updated, se_expires = expires, se_refresh = refresh,
            se_bypass = (case map_of p ''development_iam_bypass'' of Some (SJson v) \<Rightarrow> truthy v
              | Some (SNum t) \<Rightarrow> t \<noteq> 0 | None \<Rightarrow> False)\<rparr>)))))))))"

section \<open>Lifetimes\<close>

text \<open>\<^verbatim>\<open>int(float(value))\<close>, where it does not raise.\<close>

definition seconds_of :: "float_texts \<Rightarrow> json \<Rightarrow> int option" where
  "seconds_of ft v = (case float_json ft v of Inr x \<Rightarrow> Some (truncated x) | Inl _ \<Rightarrow> None)"

definition session_expiry :: "float_texts \<Rightarrow> rat \<Rightarrow> json \<Rightarrow> int \<Rightarrow> rat" where
  "session_expiry ft now v default_seconds =
     now + of_int (max (case seconds_of ft v of Some n \<Rightarrow> n | None \<Rightarrow> default_seconds) 1)"

definition whole_seconds :: "rat \<Rightarrow> int" where "whole_seconds x = max (truncated x) 1"

definition build_auth_session ::
    "float_texts \<Rightarrow> string \<Rightarrow> string \<Rightarrow> rat \<Rightarrow> dict \<Rightarrow> dict \<Rightarrow> dict \<Rightarrow> string \<Rightarrow> bool \<Rightarrow> auth_session" where
  "build_auth_session ft sid csrf now tokens claims snapshot audit bypass =
     \<lparr>se_id = sid, se_csrf = csrf, se_tokens = tokens, se_claims = safe_entries claims,
      se_snapshot = safe_entries snapshot, se_audit = audit, se_created = now, se_updated = now,
      se_expires = session_expiry ft now (dget tokens ''expires_in'') 300,
      se_refresh = session_expiry ft now (dget tokens ''refresh_expires_in'') (24 * 60 * 60), se_bypass = bypass\<rparr>"

text \<open>The two updates, on the session itself.\<close>

datatype session_change = NewSnapshot dict | NewTokens dict "dict option"

definition changed_session :: "float_texts \<Rightarrow> rat \<Rightarrow> session_change \<Rightarrow> auth_session \<Rightarrow> auth_session" where
  "changed_session ft now c s =
     (case c of
        NewSnapshot snapshot \<Rightarrow> s\<lparr>se_snapshot := safe_entries snapshot, se_updated := now\<rparr>
      | NewTokens tokens claims \<Rightarrow>
          s\<lparr>se_tokens := dmerge (se_tokens s) tokens,
            se_claims := (case claims of Some d \<Rightarrow> safe_entries d | None \<Rightarrow> se_claims s), se_updated := now,
            se_expires := session_expiry ft now (dget tokens ''expires_in'') (whole_seconds (se_expires s - now)),
            se_refresh := session_expiry ft now (dget tokens ''refresh_expires_in'') (whole_seconds (se_refresh s - now))\<rparr>)"

definition should_refresh :: "rat \<Rightarrow> auth_session \<Rightarrow> bool" where
  "should_refresh now s \<longleftrightarrow> se_expires s - now < 60 \<and> token_text s ''refresh_token'' \<noteq> []"

section \<open>The store in memory\<close>

type_synonym session_table = "(string \<times> auth_session) list"

definition dpop :: "string \<Rightarrow> session_table \<Rightarrow> session_table" where
  "dpop i st = filter (\<lambda>(k, s). k \<noteq> i) st"

definition purge_expired :: "rat \<Rightarrow> session_table \<Rightarrow> session_table" where
  "purge_expired now st = filter (\<lambda>(k, s). \<not> se_refresh s \<le> now) st"

definition memory_create :: "rat \<Rightarrow> auth_session \<Rightarrow> session_table \<Rightarrow> session_table" where
  "memory_create now s st = dset (purge_expired now st) (se_id s) s"

definition memory_get :: "rat \<Rightarrow> string \<Rightarrow> session_table \<Rightarrow> auth_session option \<times> session_table" where
  "memory_get now i st =
     (let st1 = purge_expired now st
      in case map_of st1 i of
           None \<Rightarrow> (None, st1)
         | Some s \<Rightarrow> if se_refresh s \<le> now then (None, dpop (se_id s) st1) else (Some s, st1))"

definition memory_change ::
    "float_texts \<Rightarrow> rat \<Rightarrow> string \<Rightarrow> session_change \<Rightarrow> session_table \<Rightarrow> auth_session option \<times> session_table" where
  "memory_change ft now i c st =
     (case map_of st i of
        None \<Rightarrow> (None, st)
      | Some s \<Rightarrow>
          if se_refresh s \<le> now then (None, dpop (se_id s) st)
          else let t = changed_session ft now c s in (Some t, dset st (se_id t) t))"

section \<open>The store in Redis\<close>

text \<open>Three commands of a client: GET, SETEX and DEL, at a time.\<close>

record 'r redis_client =
  rc_get :: "'r \<Rightarrow> rat \<Rightarrow> string \<Rightarrow> storage option"
  rc_setex :: "'r \<Rightarrow> rat \<Rightarrow> string \<Rightarrow> int \<Rightarrow> storage \<Rightarrow> 'r"
  rc_del :: "'r \<Rightarrow> string \<Rightarrow> 'r"

text \<open>A key that was set with a lifetime is there until it has passed, or the key is set again or deleted.\<close>

definition redis_like :: "'r redis_client \<Rightarrow> bool" where
  "redis_like c \<longleftrightarrow>
     (\<forall>r now k ttl v t j. 0 < ttl \<longrightarrow> now \<le> t \<longrightarrow>
        rc_get c (rc_setex c r now k ttl v) t j =
          (if j = k then (if t < now + of_int ttl then Some v else None) else rc_get c r t j)) \<and>
     (\<forall>r k t j. rc_get c (rc_del c r k) t j = (if j = k then None else rc_get c r t j))"

definition session_key :: "string \<Rightarrow> string \<Rightarrow> string" where "session_key pre i = pre @ i"

definition ttl_seconds :: "rat \<Rightarrow> auth_session \<Rightarrow> int" where "ttl_seconds now s = whole_seconds (se_refresh s - now)"

definition redis_save :: "'r redis_client \<Rightarrow> string \<Rightarrow> rat \<Rightarrow> auth_session \<Rightarrow> 'r \<Rightarrow> 'r" where
  "redis_save c pre now s r =
     (if ttl_seconds now s \<le> 0 then rc_del c r (session_key pre (se_id s))
      else rc_setex c r now (session_key pre (se_id s)) (ttl_seconds now s) (to_storage_dict s))"

definition redis_get :: "'r redis_client \<Rightarrow> string \<Rightarrow> float_texts \<Rightarrow> rat \<Rightarrow> string \<Rightarrow> 'r \<Rightarrow> py_error + auth_session option \<times> 'r" where
  "redis_get c pre ft now i r =
     (case rc_get c r now (session_key pre i) of
        None \<Rightarrow> Inr (None, r)
      | Some p \<Rightarrow>
          if p = [] then Inr (None, r)
          else bindE (from_storage_dict ft p) (\<lambda>s.
            if se_refresh s \<le> now then Inr (None, rc_del c r (session_key pre (se_id s))) else Inr (Some s, r)))"

definition redis_change ::
    "'r redis_client \<Rightarrow> string \<Rightarrow> float_texts \<Rightarrow> rat \<Rightarrow> string \<Rightarrow> session_change \<Rightarrow> 'r \<Rightarrow>
     py_error + auth_session option \<times> 'r" where
  "redis_change c pre ft now i ch r =
     bindE (redis_get c pre ft now i r) (\<lambda>(found, r1).
       case found of
         None \<Rightarrow> Inr (None, r1)
       | Some s \<Rightarrow> let t = changed_session ft now ch s in Inr (Some t, redis_save c pre now t r1))"

section \<open>Runs\<close>

datatype session_op =
    CreateSession auth_session
  | GetSession string
  | ChangeSession string session_change
  | DeleteSession string

definition memory_op ::
    "float_texts \<Rightarrow> rat \<Rightarrow> session_op \<Rightarrow> session_table \<Rightarrow> auth_session option \<times> session_table" where
  "memory_op ft now op st =
     (case op of
        CreateSession s \<Rightarrow> (Some s, memory_create now s st)
      | GetSession i \<Rightarrow> memory_get now i st
      | ChangeSession i c \<Rightarrow> memory_change ft now i c st
      | DeleteSession i \<Rightarrow> (None, dpop i st))"

definition redis_op ::
    "'r redis_client \<Rightarrow> string \<Rightarrow> float_texts \<Rightarrow> rat \<Rightarrow> session_op \<Rightarrow> 'r \<Rightarrow> py_error + auth_session option \<times> 'r" where
  "redis_op c pre ft now op r =
     (case op of
        CreateSession s \<Rightarrow> Inr (Some s, redis_save c pre now s r)
      | GetSession i \<Rightarrow> redis_get c pre ft now i r
      | ChangeSession i ch \<Rightarrow> redis_change c pre ft now i ch r
      | DeleteSession i \<Rightarrow> Inr (None, rc_del c r (session_key pre i)))"

text \<open>The answers of a run, each operation with the time it happens at.\<close>

fun memory_run :: "float_texts \<Rightarrow> (rat \<times> session_op) list \<Rightarrow> session_table \<Rightarrow> auth_session option list" where
  "memory_run ft [] st = []"
| "memory_run ft ((now, op) # ops) st =
     (case memory_op ft now op st of (a, st') \<Rightarrow> a # memory_run ft ops st')"

fun redis_run ::
    "'r redis_client \<Rightarrow> string \<Rightarrow> float_texts \<Rightarrow> (rat \<times> session_op) list \<Rightarrow> 'r \<Rightarrow> py_error + auth_session option list" where
  "redis_run c pre ft [] r = Inr []"
| "redis_run c pre ft ((now, op) # ops) r =
     bindE (redis_op c pre ft now op r) (\<lambda>(a, r').
     bindE (redis_run c pre ft ops r') (\<lambda>as. Inr (a # as)))"

end
