(* ===== verification/AuthSessionSafe.thy ===== *)
theory AuthSessionSafe
  imports AuthSession
begin

text \<open>
  The stored form of a session loses nothing, and the two session stores are interchangeable: in a run whose
  operations come in the order of their times, the store in Redis gives the answers of the store in memory, as
  long as no session is asked for in the last second before it expires (Redis counts whole seconds, and may drop
  it up to a second early).
\<close>

section \<open>Stored form\<close>

lemma stored_session [simp]: "from_storage_dict ft (to_storage_dict s) = Inr s"
  by (cases s) (auto simp: to_storage_dict_def from_storage_dict_def stored_item_def stored_text_def stored_time_def
      stored_dict_def bindE_def py_or_def)

lemma stored_not_empty [simp]: "to_storage_dict s \<noteq> []"
  by (simp add: to_storage_dict_def)

lemma to_storage_dict_inj [simp]: "to_storage_dict s = to_storage_dict t \<longleftrightarrow> s = t"
  by (metis stored_session sum.inject(2))

section \<open>Lifetimes\<close>

lemma whole_seconds_pos [simp]: "0 < whole_seconds x" "1 \<le> whole_seconds x"
  by (auto simp: whole_seconds_def)

lemma whole_seconds_above: "x - 1 < of_int (whole_seconds x)"
proof -
  have "x - 1 < of_int (truncated x)" unfolding truncated_def by (auto, linarith+)
  then show ?thesis unfolding whole_seconds_def by (auto simp: max_def)
qed

lemma session_expiry_later: "now + 1 \<le> session_expiry ft now v n"
  unfolding session_expiry_def by simp

lemma changed_id [simp]: "se_id (changed_session ft now c s) = se_id s"
  by (cases c) (auto simp: changed_session_def)

section \<open>The table in memory\<close>

lemma map_of_dpop [simp]: "map_of (dpop i st) = (map_of st)(i := None)"
  by (induction st) (auto simp: dpop_def fun_eq_iff)

lemma distinct_dpop [simp]: "distinct (map fst st) \<Longrightarrow> distinct (map fst (dpop i st))"
  unfolding dpop_def by (induction st) auto

lemma distinct_purge [simp]: "distinct (map fst st) \<Longrightarrow> distinct (map fst (purge_expired now st))"
  unfolding purge_expired_def by (induction st) auto

lemma map_of_purge:
  assumes "distinct (map fst st)"
  shows "map_of (purge_expired now st) i =
    (case map_of st i of Some s \<Rightarrow> if se_refresh s \<le> now then None else Some s | None \<Rightarrow> None)"
  using assms unfolding purge_expired_def
proof (induction st)
  case (Cons p st)
  obtain k s where p: "p = (k, s)" by (cases p)
  have "map_of st k = None" using Cons.prems p by (simp add: map_of_eq_None_iff image_iff)
  then show ?case using Cons p by auto
qed simp

section \<open>Simulation\<close>

text \<open>
  The table and the server describe the same sessions from a time on: what the server still holds is the table's
  session or one that has expired, and the server holds every session of the table until a second before it expires.
\<close>

definition same_sessions :: "'r redis_client \<Rightarrow> string \<Rightarrow> rat \<Rightarrow> session_table \<Rightarrow> 'r \<Rightarrow> bool" where
  "same_sessions c pre now st r \<longleftrightarrow>
     distinct (map fst st) \<and>
     (\<forall>i s. map_of st i = Some s \<longrightarrow> se_id s = i) \<and>
     (\<forall>i t p. now \<le> t \<longrightarrow> rc_get c r t (pre @ i) = Some p \<longrightarrow>
        (\<exists>s. p = to_storage_dict s \<and> se_id s = i \<and> (se_refresh s \<le> t \<or> map_of st i = Some s))) \<and>
     (\<forall>i t s. now \<le> t \<longrightarrow> map_of st i = Some s \<longrightarrow> t \<le> se_refresh s - 1 \<longrightarrow>
        rc_get c r t (pre @ i) = Some (to_storage_dict s))"

lemma same_sessionsI:
  assumes "distinct (map fst st)" "\<And>i s. map_of st i = Some s \<Longrightarrow> se_id s = i"
    "\<And>i t p. now \<le> t \<Longrightarrow> rc_get c r t (pre @ i) = Some p \<Longrightarrow>
        \<exists>s. p = to_storage_dict s \<and> se_id s = i \<and> (se_refresh s \<le> t \<or> map_of st i = Some s)"
    "\<And>i t s. now \<le> t \<Longrightarrow> map_of st i = Some s \<Longrightarrow> t \<le> se_refresh s - 1 \<Longrightarrow>
        rc_get c r t (pre @ i) = Some (to_storage_dict s)"
  shows "same_sessions c pre now st r"
  using assms unfolding same_sessions_def by blast

lemma same_sessionsD:
  assumes "same_sessions c pre now st r"
  shows "distinct (map fst st)" "map_of st i = Some s \<Longrightarrow> se_id s = i"
    "now \<le> t \<Longrightarrow> rc_get c r t (pre @ i) = Some p \<Longrightarrow>
        \<exists>s. p = to_storage_dict s \<and> se_id s = i \<and> (se_refresh s \<le> t \<or> map_of st i = Some s)"
    "now \<le> t \<Longrightarrow> map_of st i = Some s \<Longrightarrow> t \<le> se_refresh s - 1 \<Longrightarrow>
        rc_get c r t (pre @ i) = Some (to_storage_dict s)"
  using assms unfolding same_sessions_def by blast+

lemma same_sessions_later: "same_sessions c pre now st r \<Longrightarrow> now \<le> t \<Longrightarrow> same_sessions c pre t st r"
  unfolding same_sessions_def by (meson order_trans)

lemma same_sessions_purge:
  assumes "same_sessions c pre now st r"
  shows "same_sessions c pre now (purge_expired now st) r"
proof (rule same_sessionsI)
  show "distinct (map fst (purge_expired now st))" using same_sessionsD(1) [OF assms] by simp
next
  fix i s assume "map_of (purge_expired now st) i = Some s"
  then have "map_of st i = Some s"
    by (simp add: map_of_purge [OF same_sessionsD(1) [OF assms]] split: option.splits if_splits)
  then show "se_id s = i" by (rule same_sessionsD(2) [OF assms])
next
  fix i t p assume t: "now \<le> t" and "rc_get c r t (pre @ i) = Some p"
  then obtain s where s: "p = to_storage_dict s" "se_id s = i" "se_refresh s \<le> t \<or> map_of st i = Some s"
    using same_sessionsD(3) [OF assms] by blast
  have "se_refresh s \<le> t \<or> map_of (purge_expired now st) i = Some s"
    using s(3) t by (auto simp: map_of_purge [OF same_sessionsD(1) [OF assms]] split: if_splits)
  then show "\<exists>s. p = to_storage_dict s \<and> se_id s = i \<and> (se_refresh s \<le> t \<or> map_of (purge_expired now st) i = Some s)"
    using s by blast
next
  fix i t s assume t: "now \<le> t" "t \<le> se_refresh s - 1" and "map_of (purge_expired now st) i = Some s"
  then have "map_of st i = Some s"
    by (simp add: map_of_purge [OF same_sessionsD(1) [OF assms]] split: option.splits if_splits)
  then show "rc_get c r t (pre @ i) = Some (to_storage_dict s)" using same_sessionsD(4) [OF assms] t by blast
qed

lemma redis_like_setex:
  "redis_like c \<Longrightarrow> 0 < ttl \<Longrightarrow> now \<le> t \<Longrightarrow>
     rc_get c (rc_setex c r now k ttl v) t j = (if j = k then (if t < now + of_int ttl then Some v else None) else rc_get c r t j)"
  unfolding redis_like_def by blast

lemma redis_like_del: "redis_like c \<Longrightarrow> rc_get c (rc_del c r k) t j = (if j = k then None else rc_get c r t j)"
  unfolding redis_like_def by blast

lemma redis_after_save:
  assumes "redis_like c" "now \<le> t"
  shows "rc_get c (redis_save c pre now s r) t (pre @ j) =
    (if j = se_id s then (if t < now + of_int (ttl_seconds now s) then Some (to_storage_dict s) else None)
     else rc_get c r t (pre @ j))"
proof -
  have "\<not> ttl_seconds now s \<le> 0" by (simp add: ttl_seconds_def not_le)
  then show ?thesis using assms
    by (simp add: redis_save_def session_key_def redis_like_setex not_le)
qed

lemma same_sessions_save:
  assumes c: "redis_like c" and same: "same_sessions c pre now st r"
  shows "same_sessions c pre now (dset st (se_id s) s) (redis_save c pre now s r)"
proof (rule same_sessionsI)
  show "distinct (map fst (dset st (se_id s) s))" using same_sessionsD(1) [OF same] by (rule distinct_dset)
next
  fix i u assume "map_of (dset st (se_id s) s) i = Some u"
  then show "se_id u = i" using same_sessionsD(2) [OF same] by (auto split: if_splits)
next
  fix i t p assume t: "now \<le> t" and p: "rc_get c (redis_save c pre now s r) t (pre @ i) = Some p"
  show "\<exists>u. p = to_storage_dict u \<and> se_id u = i \<and> (se_refresh u \<le> t \<or> map_of (dset st (se_id s) s) i = Some u)"
  proof (cases "i = se_id s")
    case True
    then show ?thesis using p by (auto simp: redis_after_save [OF c t] split: if_splits)
  next
    case False
    then have "rc_get c r t (pre @ i) = Some p" using p by (simp add: redis_after_save [OF c t])
    then show ?thesis using same_sessionsD(3) [OF same t] False by auto
  qed
next
  fix i t u assume t: "now \<le> t" and u: "map_of (dset st (se_id s) s) i = Some u" and e: "t \<le> se_refresh u - 1"
  show "rc_get c (redis_save c pre now s r) t (pre @ i) = Some (to_storage_dict u)"
  proof (cases "i = se_id s")
    case True
    have "t < now + of_int (ttl_seconds now s)"
      using u e True whole_seconds_above [of "se_refresh s - now"] by (simp add: ttl_seconds_def)
    then show ?thesis using u True by (simp add: redis_after_save [OF c t])
  next
    case False
    then show ?thesis using same_sessionsD(4) [OF same t _ e] u by (simp add: redis_after_save [OF c t])
  qed
qed

lemma same_sessions_drop:
  assumes c: "redis_like c" and same: "same_sessions c pre now st r"
  shows "same_sessions c pre now (dpop i st) (rc_del c r (session_key pre i))"
  using same_sessionsD [OF same]
  by (intro same_sessionsI) (auto simp: redis_like_del [OF c] session_key_def split: if_splits)

text \<open>Dropping an expired session from either side alone changes nothing.\<close>

lemma same_sessions_drop_expired:
  assumes same: "same_sessions c pre now st r" and s: "map_of st i = Some s" "se_refresh s \<le> now"
  shows "same_sessions c pre now (dpop i st) r"
proof (rule same_sessionsI)
  fix k t p assume t: "now \<le> t" and p: "rc_get c r t (pre @ k) = Some p"
  then obtain u where u: "p = to_storage_dict u" "se_id u = k" "se_refresh u \<le> t \<or> map_of st k = Some u"
    using same_sessionsD(3) [OF same] by blast
  then have "se_refresh u \<le> t \<or> map_of (dpop i st) k = Some u" using s t by auto
  then show "\<exists>u. p = to_storage_dict u \<and> se_id u = k \<and> (se_refresh u \<le> t \<or> map_of (dpop i st) k = Some u)"
    using u by blast
qed (use same_sessionsD [OF same] in \<open>auto split: if_splits\<close>)

lemma same_sessions_del_expired:
  assumes c: "redis_like c" and same: "same_sessions c pre now st r"
    and gone: "\<And>u. map_of st i = Some u \<Longrightarrow> se_refresh u \<le> now"
  shows "same_sessions c pre now st (rc_del c r (session_key pre i))"
proof (rule same_sessionsI)
  fix k t u assume t: "now \<le> t" and u: "map_of st k = Some u" and e: "t \<le> se_refresh u - 1"
  have "k \<noteq> i" using gone u t e by force
  then show "rc_get c (rc_del c r (session_key pre i)) t (pre @ k) = Some (to_storage_dict u)"
    using same_sessionsD(4) [OF same t u e] by (simp add: redis_like_del [OF c] session_key_def)
qed (use same_sessionsD [OF same] in \<open>auto simp: redis_like_del [OF c] session_key_def split: if_splits\<close>)

section \<open>The stores agree\<close>

lemma redis_get_saved:
  assumes "rc_get c r now (session_key pre i) = Some (to_storage_dict s)" "se_id s = i"
  shows "redis_get c pre ft now i r =
    (if se_refresh s \<le> now then Inr (None, rc_del c r (session_key pre i)) else Inr (Some s, r))"
  using assms by (simp add: redis_get_def bindE_def)

text \<open>No session is asked for in the last second before it expires.\<close>

definition off_the_edge :: "rat \<Rightarrow> session_op \<Rightarrow> session_table \<Rightarrow> bool" where
  "off_the_edge now op st =
     (let clear = (\<lambda>i. case map_of st i of Some s \<Rightarrow> now \<le> se_refresh s - 1 \<or> se_refresh s \<le> now | None \<Rightarrow> True)
      in case op of GetSession i \<Rightarrow> clear i | ChangeSession i c \<Rightarrow> clear i | _ \<Rightarrow> True)"

fun run_off_the_edge :: "float_texts \<Rightarrow> (rat \<times> session_op) list \<Rightarrow> session_table \<Rightarrow> bool" where
  "run_off_the_edge ft [] st = True"
| "run_off_the_edge ft ((now, op) # ops) st \<longleftrightarrow>
     off_the_edge now op st \<and> run_off_the_edge ft ops (snd (memory_op ft now op st))"

lemma get_agrees:
  assumes c: "redis_like c" and same: "same_sessions c pre now st r" and edge: "off_the_edge now (GetSession i) st"
  obtains r' where "redis_get c pre ft now i r = Inr (fst (memory_get now i st), r')"
    and "same_sessions c pre now st r'"
    and "fst (memory_get now i st) \<noteq> None \<longrightarrow> r' = r"
proof -
  have get: "fst (memory_get now i st) =
      (case map_of st i of Some s \<Rightarrow> if se_refresh s \<le> now then None else Some s | None \<Rightarrow> None)"
    by (auto simp: memory_get_def map_of_purge [OF same_sessionsD(1) [OF same]] split: option.splits)
  show thesis
  proof (cases "rc_get c r now (session_key pre i)")
    case None
    have "fst (memory_get now i st) = None"
      using None edge same_sessionsD(4) [OF same order_refl, of i]
      by (auto simp: get off_the_edge_def session_key_def split: option.splits)
    moreover have "redis_get c pre ft now i r = Inr (None, r)" using None by (simp add: redis_get_def)
    ultimately show thesis using that [of r] same by simp
  next
    case (Some p)
    then obtain s where s: "p = to_storage_dict s" "se_id s = i" "se_refresh s \<le> now \<or> map_of st i = Some s"
      using same_sessionsD(3) [OF same order_refl, of i p] by (auto simp: session_key_def)
    note read = redis_get_saved [OF Some [unfolded s(1)] s(2), of ft]
    show thesis
    proof (cases "se_refresh s \<le> now")
      case True
      have gone: "se_refresh u \<le> now" if u: "map_of st i = Some u" for u
      proof (rule ccontr)
        assume "\<not> se_refresh u \<le> now"
        then have "rc_get c r now (pre @ i) = Some (to_storage_dict u)"
          using u edge same_sessionsD(4) [OF same order_refl u] by (simp add: off_the_edge_def)
        then have "u = s" using Some s(1) by (simp add: session_key_def)
        then show False using True \<open>\<not> se_refresh u \<le> now\<close> by simp
      qed
      have "fst (memory_get now i st) = None" using gone by (auto simp: get split: option.splits)
      then show thesis
        using that [of "rc_del c r (session_key pre i)"] read True same_sessions_del_expired [OF c same gone] by simp
    next
      case False
      then show thesis using that [of r] read s(3) same by (simp add: get)
    qed
  qed
qed

lemma change_agrees:
  assumes c: "redis_like c" and same: "same_sessions c pre now st r" and edge: "off_the_edge now (ChangeSession i ch) st"
  obtains r' where "redis_change c pre ft now i ch r = Inr (fst (memory_change ft now i ch st), r')"
    and "same_sessions c pre now (snd (memory_change ft now i ch st)) r'"
proof -
  have "off_the_edge now (GetSession i) st" using edge by (simp add: off_the_edge_def)
  then obtain r1 where r1: "redis_get c pre ft now i r = Inr (fst (memory_get now i st), r1)"
      "same_sessions c pre now st r1" and kept: "fst (memory_get now i st) \<noteq> None \<longrightarrow> r1 = r"
    by (rule get_agrees [OF c same, where ft = ft])
  have get: "fst (memory_get now i st) =
      (case map_of st i of Some s \<Rightarrow> if se_refresh s \<le> now then None else Some s | None \<Rightarrow> None)"
    by (auto simp: memory_get_def map_of_purge [OF same_sessionsD(1) [OF same]] split: option.splits)
  show thesis
  proof (cases "map_of st i")
    case None
    then show thesis using that [of r1] r1 get by (simp add: redis_change_def memory_change_def bindE_def)
  next
    case (Some s)
    have id: "se_id s = i" by (rule same_sessionsD(2) [OF same Some])
    show thesis
    proof (cases "se_refresh s \<le> now")
      case True
      then show thesis
        using that [of r1] r1 get Some id same_sessions_drop_expired [OF r1(2) Some]
        by (simp add: redis_change_def memory_change_def bindE_def)
    next
      case False
      define u where "u = changed_session ft now ch s"
      have "same_sessions c pre now (dset st (se_id u) u) (redis_save c pre now u r1)"
        by (rule same_sessions_save [OF c r1(2)])
      then show thesis
        using that [of "redis_save c pre now u r1"] r1 get Some False
        by (simp add: redis_change_def memory_change_def bindE_def u_def Let_def)
    qed
  qed
qed

lemma op_agrees:
  assumes c: "redis_like c" and same: "same_sessions c pre now st r" and edge: "off_the_edge now op st"
  obtains r' where "redis_op c pre ft now op r = Inr (fst (memory_op ft now op st), r')"
    and "same_sessions c pre now (snd (memory_op ft now op st)) r'"
proof (cases op)
  case (CreateSession s)
  have "same_sessions c pre now (memory_create now s st) (redis_save c pre now s r)"
    unfolding memory_create_def by (rule same_sessions_save [OF c same_sessions_purge [OF same]])
  then show thesis using that CreateSession by (simp add: redis_op_def memory_op_def)
next
  case (GetSession i)
  obtain r' where r': "redis_get c pre ft now i r = Inr (fst (memory_get now i st), r')" "same_sessions c pre now st r'"
    by (rule get_agrees [OF c same edge [unfolded GetSession], where ft = ft])
  have "snd (memory_get now i st) = purge_expired now st"
    by (auto simp: memory_get_def map_of_purge [OF same_sessionsD(1) [OF same]] split: option.splits)
  then show thesis
    using that [of r'] r' GetSession same_sessions_purge [OF r'(2)] by (simp add: redis_op_def memory_op_def)
next
  case (ChangeSession i ch)
  obtain r' where "redis_change c pre ft now i ch r = Inr (fst (memory_change ft now i ch st), r')"
      "same_sessions c pre now (snd (memory_change ft now i ch st)) r'"
    by (rule change_agrees [OF c same edge [unfolded ChangeSession], where ft = ft])
  then show thesis using that ChangeSession by (simp add: redis_op_def memory_op_def)
next
  case (DeleteSession i)
  then show thesis
    using that same_sessions_drop [OF c same] by (simp add: redis_op_def memory_op_def)
qed

lemma run_agrees:
  assumes c: "redis_like c" and same: "same_sessions c pre start st r"
    and ordered: "sorted (map fst ops)" "\<And>t. t \<in> set (map fst ops) \<Longrightarrow> start \<le> t" and edge: "run_off_the_edge ft ops st"
  shows "redis_run c pre ft ops r = Inr (memory_run ft ops st)"
  using same ordered edge
proof (induction ops arbitrary: start st r)
  case (Cons x ops)
  obtain now op where x: "x = (now, op)" by (cases x)
  have same: "same_sessions c pre now st r" using Cons.prems(1,3) x by (auto intro: same_sessions_later)
  have edge: "off_the_edge now op st" using Cons.prems(4) x by simp
  obtain r' where r': "redis_op c pre ft now op r = Inr (fst (memory_op ft now op st), r')"
      "same_sessions c pre now (snd (memory_op ft now op st)) r'"
    by (rule op_agrees [OF c same edge, where ft = ft])
  have "redis_run c pre ft ops r' = Inr (memory_run ft ops (snd (memory_op ft now op st)))"
    using Cons.prems(2,4) x by (intro Cons.IH [OF r'(2)]) auto
  then show ?case using r'(1) x by (simp add: bindE_def case_prod_beta)
qed simp

section \<open>Properties\<close>

text \<open>C20: a session saved in Redis is read back as it was, whatever its fields hold, at any time until a second before
  its refresh token expires; from that expiry on it is not found; and saving it touches no other session. This holds
  for every client that keeps keys as Redis does.
\<close>

theorem saved_session_read_back:
  assumes "redis_like c" "now \<le> t"
  shows "(t \<le> se_refresh s - 1 \<longrightarrow>
        redis_get c pre ft t (se_id s) (redis_save c pre now s r) = Inr (Some s, redis_save c pre now s r)) \<and>
      (se_refresh s \<le> t \<longrightarrow>
        (\<exists>r'. redis_get c pre ft t (se_id s) (redis_save c pre now s r) = Inr (None, r'))) \<and>
      (i \<noteq> se_id s \<longrightarrow>
        rc_get c (redis_save c pre now s r) t (session_key pre i) = rc_get c r t (session_key pre i))"
proof (intro conjI impI)
  note saved = redis_after_save [OF assms, of pre s r, folded session_key_def]
  {
    assume "t \<le> se_refresh s - 1"
    moreover from this have "t < now + of_int (ttl_seconds now s)"
      using whole_seconds_above [of "se_refresh s - now"] by (simp add: ttl_seconds_def)
    ultimately show "redis_get c pre ft t (se_id s) (redis_save c pre now s r) = Inr (Some s, redis_save c pre now s r)"
      using saved [of "se_id s"] by (simp add: redis_get_saved)
  next
    assume "se_refresh s \<le> t"
    then show "\<exists>r'. redis_get c pre ft t (se_id s) (redis_save c pre now s r) = Inr (None, r')"
      using saved [of "se_id s"]
      by (cases "t < now + of_int (ttl_seconds now s)") (simp_all add: redis_get_saved, simp add: redis_get_def)
  next
    assume "i \<noteq> se_id s"
    then show "rc_get c (redis_save c pre now s r) t (session_key pre i) = rc_get c r t (session_key pre i)"
      using saved [of i] by simp
  }
qed

text \<open>A client that keeps a list of keys with the times they lapse at.\<close>

definition listed_client :: "(string \<times> rat \<times> storage) list redis_client" where
  "listed_client =
     \<lparr>rc_get = (\<lambda>r t k. case map_of r k of Some (e, v) \<Rightarrow> if t < e then Some v else None | None \<Rightarrow> None),
      rc_setex = (\<lambda>r now k ttl v. dset r k (now + of_int ttl, v)),
      rc_del = (\<lambda>r k. filter (\<lambda>(j, x). j \<noteq> k) r)\<rparr>"

lemma listed_client_like: "redis_like listed_client"
proof -
  have del: "map_of (filter (\<lambda>(j, x). j \<noteq> k) r) j = (if j = k then None else map_of r j)"
    for r :: "(string \<times> rat \<times> storage) list" and j k by (induction r) auto
  show ?thesis unfolding redis_like_def listed_client_def by (auto simp: del)
qed

definition plain_floats :: float_texts where
  "plain_floats = \<lparr>float_repr = (\<lambda>x. ''0.0''), float_of_text = (\<lambda>s. None)\<rparr>"

definition sample_login :: auth_session where
  "sample_login = build_auth_session plain_floats ''s1'' ''c1'' 100
     [(''access_token'', JStr ''at''), (''expires_in'', JInt 300), (''refresh_expires_in'', JInt 1800)]
     [(''sub'', JStr ''u1'')] [(''user_id'', JStr ''u1'')] ''au1'' False"

lemma sample_login_fields: "se_refresh sample_login = 1900" "se_id sample_login = ''s1''"
  by (simp_all add: sample_login_def build_auth_session_def session_expiry_def seconds_of_def float_json_def
      truncated_def dget_def)

lemma saved_session_read_back_witness:
  "redis_get listed_client ''p:'' plain_floats 1899 ''s1'' (redis_save listed_client ''p:'' 100 sample_login []) =
     Inr (Some sample_login, redis_save listed_client ''p:'' 100 sample_login [])"
  using saved_session_read_back [OF listed_client_like, of 100 1899 sample_login "''p:''" plain_floats "[]" "''s2''"]
  by (simp add: sample_login_fields)

text \<open>C21: the two stores are interchangeable. From a server that holds nothing under the prefix and an empty table, a
  run of operations in the order of their times gets the same answers from both, when no session is asked for in the
  last second before it expires: sessions created, found, changed, deleted or expired, on both sides alike.
\<close>

theorem session_stores_agree:
  assumes "redis_like c" "\<And>t i. rc_get c r t (pre @ i) = None" "sorted (map fst ops)" "run_off_the_edge ft ops []"
  shows "redis_run c pre ft ops r = Inr (memory_run ft ops [])"
proof (cases ops)
  case (Cons x ops')
  have "same_sessions c pre (fst x) [] r" using assms(2) by (auto intro: same_sessionsI)
  then show ?thesis using run_agrees [OF assms(1) _ assms(3) _ assms(4), of pre "fst x" r] assms(3) Cons by auto
qed simp

definition sample_ops :: "(rat \<times> session_op) list" where
  "sample_ops = [(100, CreateSession sample_login), (160, GetSession ''s1''),
     (200, ChangeSession ''s1'' (NewTokens [(''refresh_expires_in'', JInt 60)] None)), (230, GetSession ''s1''),
     (260, GetSession ''s1''), (300, DeleteSession ''s1'')]"

lemma session_stores_agree_witness:
  "redis_run listed_client ''p:'' plain_floats sample_ops [] = Inr (memory_run plain_floats sample_ops []) \<and>
   map (\<lambda>a. a = None) (memory_run plain_floats sample_ops []) = [False, False, False, False, True, True]"
proof
  have edge: "run_off_the_edge plain_floats sample_ops []"
    by (simp add: sample_ops_def off_the_edge_def memory_op_def memory_create_def memory_get_def memory_change_def
        purge_expired_def sample_login_fields changed_session_def session_expiry_def seconds_of_def float_json_def
        truncated_def dget_def Let_def)
  show "redis_run listed_client ''p:'' plain_floats sample_ops [] = Inr (memory_run plain_floats sample_ops [])"
    by (rule session_stores_agree [OF listed_client_like _ _ edge]) (simp_all add: listed_client_def sample_ops_def)
  show "map (\<lambda>a. a = None) (memory_run plain_floats sample_ops []) = [False, False, False, False, True, True]"
    by (simp add: sample_ops_def memory_op_def memory_create_def memory_get_def memory_change_def
        purge_expired_def sample_login_fields changed_session_def session_expiry_def seconds_of_def float_json_def
        truncated_def dget_def Let_def)
qed

end
