(* ===== verification/AuditStore.thy ===== *)
theory AuditStore
  imports AuditTrail Labels
begin

text \<open>
  The audit store \<^verbatim>\<open>shared/audit/store.py\<close>, its read side \<^verbatim>\<open>shared/audit/index.py\<close>, the bus
  \<^verbatim>\<open>shared/audit/__init__.py\<close> with all fields of an event, and the sink of the runtime
  (\<^verbatim>\<open>command/runtime.py\<close>), which writes every event to the store and then to the table
  of the main database. Rows are kept in the order of their identities. Times are the texts the table keeps, in ISO
  format, and are compared as texts, as the queries do. Every access to a database may fail: the argument
  \<open>av_fault\<close> decides which ones do. An emission is one step here; \<open>AuditFlight\<close> has those of concurrent
  requests, move by move.
\<close>

section \<open>Events and rows\<close>

record stored_event =
  sv_request :: string
  sv_actor :: string
  sv_skill :: string
  sv_tenant :: string
  sv_class :: string
  sv_type :: string
  sv_phase :: string
  sv_at :: string
  sv_payload :: dict

text \<open>An event as a caller hands it over; a field that is \<^verbatim>\<open>None\<close> has no value.\<close>

record new_event =
  nv_request :: string
  nv_actor :: string
  nv_skill :: string
  nv_phase :: string
  nv_payload :: json
  nv_at :: "string option"
  nv_tenant :: "string option"
  nv_class :: "string option"
  nv_type :: "string option"

record store_row =
  sr_event :: stored_event
  sr_outcome :: "string option"
  sr_error :: bool

record audit_world =
  aw_store :: "store_row list"
  aw_main :: "audit_event list"
  aw_buffer :: "new_event list"
  aw_ticks :: nat

record audit_env =
  av_fault :: "nat \<Rightarrow> exn option"
  av_clock :: "nat \<Rightarrow> string"
  av_stamp :: "nat \<Rightarrow> string"
  av_sink :: bool
  av_tenant :: string
  av_iso :: "string \<Rightarrow> string option"
  av_week :: "string \<Rightarrow> string"
  av_digest :: "json \<Rightarrow> string"

definition opt_json :: "string option \<Rightarrow> json" where
  "opt_json x = (case x of None \<Rightarrow> JNull | Some s \<Rightarrow> JStr s)"

text \<open>One access to a database: it fails, or it runs on the tables.\<close>

definition access_db :: "audit_env \<Rightarrow> string \<Rightarrow> ('a, audit_world) act \<Rightarrow> ('a, audit_world) act" where
  "access_db env what m w =
     (let w1 = w\<lparr>aw_ticks := Suc (aw_ticks w)\<rparr>
      in case av_fault env (aw_ticks w) of
           Some e \<Rightarrow> (Inl (audit_write_error (what @ ex_text e)), w1)
         | None \<Rightarrow> m w1)"

section \<open>Appending to the store\<close>

text \<open>A value for a text column: the database refuses anything but a text.\<close>

definition text_column :: "json \<Rightarrow> exn + string" where
  "text_column v = (case v of JStr s \<Rightarrow> Inr s | _ \<Rightarrow> Inl (audit_write_error ''audit store write failed: ''))"

definition stored_of :: "string \<Rightarrow> new_event \<Rightarrow> exn + stored_event" where
  "stored_of now ev =
     bindE (guardE (nv_request ev \<noteq> [] \<and> nv_actor ev \<noteq> [] \<and> nv_skill ev \<noteq> [])
       (audit_write_error ''audit_event missing required fields (request_id/actor/skill_id)'')) (\<lambda>_.
     bindE (case py_or (nv_payload ev) (JObj []) of
              JObj d \<Rightarrow> Inr d | _ \<Rightarrow> Inl (audit_write_error ''audit_event payload must be a dict'')) (\<lambda>p0.
     let raw = py_or (opt_json (nv_class ev)) (dget p0 ''audit_class'')
     in bindE (raiseE py_exn (normalize_audit_class raw)) (\<lambda>normalized.
     let p = (if truthy raw \<and> raw \<noteq> JStr normalized then dsetdefault p0 ''original_audit_class'' raw else p0)
     in bindE (text_column (first_of [opt_json (nv_tenant ev), dget p ''tenant_id'', JStr ''sd-default''])) (\<lambda>tenant.
        bindE (text_column (first_of [opt_json (nv_type ev), dget p ''event_type'', JStr ''capability_call''])) (\<lambda>type.
          Inr \<lparr>sv_request = nv_request ev, sv_actor = nv_actor ev, sv_skill = nv_skill ev, sv_tenant = tenant,
               sv_class = normalized, sv_type = type, sv_phase = nv_phase ev,
               sv_at = (case nv_at ev of None \<Rightarrow> now | Some t \<Rightarrow> t), sv_payload = p\<rparr>)))))"

definition store_row_of :: "stored_event \<Rightarrow> store_row" where
  "store_row_of e =
     \<lparr>sr_event = e, sr_outcome = (case dget (sv_payload e) ''outcome'' of JStr s \<Rightarrow> Some s | _ \<Rightarrow> None),
      sr_error = (dget (sv_payload e) ''error'' \<noteq> JNull)\<rparr>"

definition audit_append :: "audit_env \<Rightarrow> new_event \<Rightarrow> (stored_event, audit_world) act" where
  "audit_append env ev =
     bindA (getA (\<lambda>w. av_clock env (aw_ticks w))) (\<lambda>now.
     bindA (liftE id (stored_of now ev)) (\<lambda>e.
       access_db env ''audit store write failed: ''
         (bindA (modifyA (\<lambda>w. w\<lparr>aw_store := aw_store w @ [store_row_of e]\<rparr>)) (\<lambda>_. retA e))))"

section \<open>The sink of the runtime and the bus\<close>

definition main_append ::
    "audit_env \<Rightarrow> string \<Rightarrow> string \<Rightarrow> string \<Rightarrow> string \<Rightarrow> dict \<Rightarrow> (unit, audit_world) act" where
  "main_append env request actor skill phase payload =
     access_db env [] (modifyA (\<lambda>w. w\<lparr>aw_main := aw_main w @
       [\<lparr>ae_request = request, ae_actor = actor, ae_skill = skill, ae_phase = phase,
         ae_payload = (case safe_json (JObj payload) of JObj d \<Rightarrow> d | _ \<Rightarrow> []), ae_at = aw_ticks w\<rparr>]\<rparr>))"

definition multiplex_sink ::
    "audit_env \<Rightarrow> string \<Rightarrow> string \<Rightarrow> string \<Rightarrow> string \<Rightarrow> dict \<Rightarrow> (unit, audit_world) act" where
  "multiplex_sink env request actor skill phase payload =
     bindA (getA (\<lambda>w. av_clock env (aw_ticks w))) (\<lambda>now.
     bindA (audit_append env
         \<lparr>nv_request = request, nv_actor = actor, nv_skill = skill, nv_phase = phase, nv_payload = JObj payload,
          nv_at = Some now,
          nv_tenant = Some (py_str (py_or (dget payload ''tenant_id'') (JStr ''sd-default''))),
          nv_class = Some (py_str (py_or (dget payload ''audit_class'') (JStr ''read-sensitive''))),
          nv_type = Some (py_str (py_or (dget payload ''event_type'') (JStr ''capability_call'')))\<rparr>) (\<lambda>_.
       main_append env request actor skill phase payload))"

definition event_dict :: "new_event \<Rightarrow> dict" where
  "event_dict ev = (case nv_payload ev of JObj d \<Rightarrow> d | _ \<Rightarrow> [])"

definition enriched_payload :: "new_event \<Rightarrow> json \<Rightarrow> string \<Rightarrow> dict" where
  "enriched_payload ev raw normalized =
     (let p1 = dset (event_dict ev) ''audit_class'' (JStr normalized);
          p2 = (if truthy raw \<and> raw \<noteq> JStr normalized then dsetdefault p1 ''original_audit_class'' raw else p1);
          p3 = (if truthy (opt_json (nv_tenant ev)) then dsetdefault p2 ''tenant_id'' (opt_json (nv_tenant ev)) else p2)
      in if truthy (opt_json (nv_type ev)) then dsetdefault p3 ''event_type'' (opt_json (nv_type ev)) else p3)"

definition bus_emit :: "audit_env \<Rightarrow> new_event \<Rightarrow> (unit, audit_world) act" where
  "bus_emit env ev =
     (if nv_request ev = [] \<or> nv_actor ev = [] \<or> nv_skill ev = []
      then throwA (audit_write_error ''audit_event missing required fields (request_id/actor/skill_id)'')
      else if \<not> av_sink env then throwA (audit_write_error ''durable audit sink is not configured'')
      else
        let raw = py_or (opt_json (nv_class ev)) (dget (event_dict ev) ''audit_class'')
        in bindA (liftE py_exn (normalize_audit_class raw)) (\<lambda>normalized.
           let p = enriched_payload ev raw normalized
           in tryA (multiplex_sink env (nv_request ev) (nv_actor ev) (nv_skill ev) (nv_phase ev) p)
                (\<lambda>e. throwA (audit_write_error (ex_text e)))
                (\<lambda>_. modifyA (\<lambda>w. w\<lparr>aw_buffer := aw_buffer w @
                   [ev\<lparr>nv_payload := JObj p, nv_class := Some normalized\<rparr>]\<rparr>))))"

section \<open>Queries\<close>

record audit_filter =
  af_actor :: "string option"
  af_skill :: "string option"
  af_tenant :: "string option"
  af_class :: "string option"
  af_request :: "string option"
  af_since :: "string option"
  af_until :: "string option"

definition any_event :: audit_filter where
  "any_event = \<lparr>af_actor = None, af_skill = None, af_tenant = None, af_class = None, af_request = None,
     af_since = None, af_until = None\<rparr>"

definition class_text :: "string \<Rightarrow> string" where
  "class_text c = (case normalize_audit_class (JStr c) of Inr n \<Rightarrow> n | Inl _ \<Rightarrow> c)"

definition wanted :: "'a option \<Rightarrow> ('a \<Rightarrow> bool) \<Rightarrow> bool" where
  "wanted x p = (case x of None \<Rightarrow> True | Some a \<Rightarrow> p a)"

definition event_matches :: "audit_filter \<Rightarrow> stored_event \<Rightarrow> bool" where
  "event_matches f e \<longleftrightarrow>
     wanted (af_actor f) (\<lambda>a. sv_actor e = a) \<and> wanted (af_skill f) (\<lambda>s. sv_skill e = s) \<and>
     wanted (af_tenant f) (\<lambda>t. sv_tenant e = t) \<and> wanted (af_class f) (\<lambda>c. sv_class e = class_text c) \<and>
     wanted (af_request f) (\<lambda>r. sv_request e = r) \<and> wanted (af_since f) (\<lambda>t. t \<le> sv_at e) \<and>
     wanted (af_until f) (\<lambda>t. sv_at e \<le> t)"

definition limited :: "int \<Rightarrow> 'a list \<Rightarrow> 'a list" where
  "limited n xs = (if 0 < n then take (nat n) xs else xs)"

text \<open>\<^verbatim>\<open>WHERE ... ORDER BY occurred_at ASC, id ASC LIMIT n\<close>.\<close>

definition select_rows :: "audit_filter \<Rightarrow> int \<Rightarrow> store_row list \<Rightarrow> store_row list" where
  "select_rows f n rows =
     limited n (sort_key (\<lambda>r. sv_at (sr_event r)) (filter (\<lambda>r. event_matches f (sr_event r)) rows))"

definition audit_query :: "audit_env \<Rightarrow> audit_filter \<Rightarrow> int \<Rightarrow> (stored_event list, audit_world) act" where
  "audit_query env f n =
     access_db env ''audit store query failed: '' (getA (\<lambda>w. map sr_event (select_rows f n (aw_store w))))"

text \<open>The rows without their payloads; this query cannot ask for an actor, a skill or a request.\<close>

definition query_outcome_rows :: "audit_env \<Rightarrow> audit_filter \<Rightarrow> int \<Rightarrow> (store_row list, audit_world) act" where
  "query_outcome_rows env f n =
     access_db env ''audit store query_outcome_rows failed: ''
       (getA (\<lambda>w. select_rows (f\<lparr>af_actor := None, af_skill := None, af_request := None\<rparr>) n (aw_store w)))"

definition audit_count :: "audit_env \<Rightarrow> (nat, audit_world) act" where
  "audit_count env = access_db env ''audit store count failed: '' (getA (\<lambda>w. length (aw_store w)))"

definition list_by_request_id :: "audit_env \<Rightarrow> string \<Rightarrow> int \<Rightarrow> (stored_event list, audit_world) act" where
  "list_by_request_id env request n = audit_query env (any_event\<lparr>af_request := Some request\<rparr>) n"

section \<open>Aggregation\<close>

definition count_up :: "(string \<times> int) list \<Rightarrow> string \<Rightarrow> (string \<times> int) list" where
  "count_up d k = dset d k ((case map_of d k of None \<Rightarrow> 0 | Some n \<Rightarrow> n) + 1)"

definition counts :: "string list \<Rightarrow> (string \<times> int) list" where
  "counts ks = foldl count_up [] ks"

definition counts_json :: "(string \<times> int) list \<Rightarrow> json" where
  "counts_json d = JObj (map (\<lambda>(k, n). (k, JInt n)) d)"

definition first_at :: "stored_event list \<Rightarrow> string option" where
  "first_at es = foldl (\<lambda>a e. case a of None \<Rightarrow> Some (sv_at e) | Some t \<Rightarrow> if sv_at e < t then Some (sv_at e) else a) None es"

definition last_at :: "stored_event list \<Rightarrow> string option" where
  "last_at es = foldl (\<lambda>a e. case a of None \<Rightarrow> Some (sv_at e) | Some t \<Rightarrow> if t < sv_at e then Some (sv_at e) else a) None es"

definition summarize :: "stored_event list \<Rightarrow> json" where
  "summarize es =
     JObj [(''total'', JInt (int (length es))), (''by_audit_class'', counts_json (counts (map sv_class es))),
           (''by_skill'', counts_json (counts (map sv_skill es))), (''by_actor'', counts_json (counts (map sv_actor es))),
           (''first_occurred_at'', opt_json (first_at es)), (''last_occurred_at'', opt_json (last_at es))]"

end
