(* ===== verification/AuditQuery.thy ===== *)
theory AuditQuery
  imports AuditStore "HOL-Library.Product_Lexorder"
begin

text \<open>
  The skills over the audit store (\<^verbatim>\<open>command/handlers/b1/audit.py\<close>, with the tenant check and
  the parameter fingerprint of \<^verbatim>\<open>command/handlers/b1/_meta.py\<close>): query, replay, statistics,
  anomalies and accountability. Each reads the store, and emits one event about itself before it answers. The
  digest, the reading of dates and the ISO week of a time are arguments.
\<close>

section \<open>Arguments of the skills\<close>

definition denied_exn :: "string \<Rightarrow> exn" where "denied_exn t = mk_exn ''DomainAccessDeniedError'' t"

definition policy_exn :: "policy_error \<Rightarrow> exn" where
  "policy_exn e = (case e of UnknownRole r \<Rightarrow> denied_exn (''unknown role: '' @ r) | PolicyPy p \<Rightarrow> py_exn p | _ \<Rightarrow> denied_exn [])"

definition enforce_tenant_scope :: "audit_env \<Rightarrow> string \<Rightarrow> dict \<Rightarrow> exn + string" where
  "enforce_tenant_scope env capability payload =
     (let role = dget payload ''role''; requested = dget payload ''tenant_id''
      in bindE (if truthy role then raiseE policy_exn (tenant_for_role (av_tenant env) (py_str role))
                else Inr (av_tenant env)) (\<lambda>runtime.
         if requested = JNull \<or> requested = JStr [] then Inr runtime
         else if py_str requested \<noteq> runtime
           then Inl (denied_exn (''tenant scope violation for '' @ capability @ '': requested='' @ py_str requested @
                  '', runtime='' @ runtime))
         else Inr (py_str requested)))"

definition parse_iso :: "audit_env \<Rightarrow> json \<Rightarrow> exn + string option" where
  "parse_iso env v =
     (if v = JNull \<or> v = JStr [] then Inr None
      else case av_iso env (py_str v) of
             None \<Rightarrow> Inl (mk_exn ''ValueError'' (py_str v)) | Some t \<Rightarrow> Inr (Some t))"

text \<open>\<^verbatim>\<open>int(v)\<close>.\<close>

definition int_arg :: "json \<Rightarrow> exn + int" where
  "int_arg v = (case py_int v of Some i \<Rightarrow> Inr i
     | None \<Rightarrow> Inl (mk_exn (case v of JStr s \<Rightarrow> ''ValueError'' | _ \<Rightarrow> ''TypeError'') (py_repr v)))"

definition limit_arg :: "int \<Rightarrow> dict \<Rightarrow> exn + int" where
  "limit_arg default_limit payload =
     (if dget payload ''limit'' = JNull then Inr default_limit else int_arg (dget payload ''limit''))"

text \<open>An argument that filters: a falsy one does not.\<close>

definition filter_arg :: "json \<Rightarrow> string option" where
  "filter_arg v = (if truthy v then Some (py_str v) else None)"

definition param_fingerprint :: "audit_env \<Rightarrow> dict \<Rightarrow> string" where
  "param_fingerprint env params =
     av_digest env (JObj (filter (\<lambda>(k, v). v \<noteq> JNull \<and> v \<noteq> JStr []) (sort_key fst params)))"

section \<open>The event a skill emits about itself\<close>

definition meta_event :: "audit_env \<Rightarrow> string \<Rightarrow> dict \<Rightarrow> string \<Rightarrow> string \<Rightarrow> nat \<Rightarrow> nat \<Rightarrow> new_event" where
  "meta_event env skill payload tenant hash n tick =
     \<lparr>nv_request = ''AUDIT-META-'' @ av_stamp env tick @ ''-'' @ take 8 hash,
      nv_actor = ''user:gov:'' @ py_str (py_or (dget payload ''role'') (JStr ''ROLE_SECURITY_AUDIT'')) @ '':meta-audit'',
      nv_skill = skill, nv_phase = ''commit'',
      nv_payload = JObj [(''param_hash'', JStr hash), (''result_count'', JInt (int n)), (''skill_id'', JStr skill)],
      nv_at = Some (av_clock env tick), nv_tenant = Some tenant, nv_class = Some ''read-sensitive'',
      nv_type = Some ''audit_query''\<rparr>"

definition emit_meta_audit ::
    "audit_env \<Rightarrow> string \<Rightarrow> dict \<Rightarrow> string \<Rightarrow> string \<Rightarrow> nat \<Rightarrow> (unit, audit_world) act" where
  "emit_meta_audit env skill payload tenant hash n =
     bindA (getA aw_ticks) (\<lambda>tick. bus_emit env (meta_event env skill payload tenant hash n tick))"

definition event_to_dict :: "bool \<Rightarrow> stored_event \<Rightarrow> json" where
  "event_to_dict include_payload e =
     JObj ([(''request_id'', JStr (sv_request e)), (''actor'', JStr (sv_actor e)), (''skill_id'', JStr (sv_skill e)),
            (''tenant_id'', JStr (sv_tenant e)), (''audit_class'', JStr (sv_class e)),
            (''event_type'', JStr (sv_type e)), (''phase'', JStr (sv_phase e)), (''occurred_at'', JStr (sv_at e))] @
           (if include_payload then [(''payload'', JObj (sv_payload e))] else []))"

section \<open>Query and replay\<close>

definition handler_audit_event_query :: "audit_env \<Rightarrow> string \<Rightarrow> dict \<Rightarrow> (json, audit_world) act" where
  "handler_audit_event_query env skill payload =
     bindA (liftE id (enforce_tenant_scope env ''audit.event.*'' payload)) (\<lambda>tenant.
     bindA (liftE id (parse_iso env (dget payload ''since''))) (\<lambda>since.
     bindA (liftE id (parse_iso env (dget payload ''until''))) (\<lambda>until.
     bindA (liftE id (limit_arg 200 payload)) (\<lambda>limit.
     bindA (audit_query env
         \<lparr>af_actor = filter_arg (dget payload ''actor''), af_skill = filter_arg (dget payload ''skill_id''),
          af_tenant = Some tenant, af_class = filter_arg (dget payload ''audit_class''), af_request = None,
          af_since = since, af_until = until\<rparr> limit) (\<lambda>events.
     bindA (emit_meta_audit env skill payload tenant
         (param_fingerprint env
            [(''actor'', dget payload ''actor''), (''skill_id'', dget payload ''skill_id''), (''tenant_id'', JStr tenant),
             (''audit_class'', dget payload ''audit_class''), (''since'', opt_json since), (''until'', opt_json until),
             (''limit'', JInt limit)]) (length events)) (\<lambda>_.
       retA (JObj [(''items'', JList (map (event_to_dict False) events)), (''summary'', summarize events)])))))))"

definition required_text :: "dict \<Rightarrow> string \<Rightarrow> string \<Rightarrow> exn + string" where
  "required_text payload k what =
     bindE (raiseE py_exn (dict_item payload k)) (\<lambda>v.
       let s = strip_blanks (py_str v)
       in if s = [] then Inl (mk_exn ''ValueError'' (what @ '' requires non-empty '' @ k)) else Inr s)"

definition handler_audit_event_replay :: "audit_env \<Rightarrow> string \<Rightarrow> dict \<Rightarrow> (json, audit_world) act" where
  "handler_audit_event_replay env skill payload =
     bindA (liftE id (enforce_tenant_scope env ''audit.event.*'' payload)) (\<lambda>tenant.
     bindA (liftE id (required_text payload ''request_id'' ''audit.event.replay'')) (\<lambda>request.
     bindA (liftE id (limit_arg 1000 payload)) (\<lambda>limit.
     bindA (list_by_request_id env request limit) (\<lambda>found.
     let chain = filter (\<lambda>e. sv_tenant e = tenant) found
     in bindA (emit_meta_audit env skill payload tenant
         (param_fingerprint env [(''request_id'', JStr request), (''tenant_id'', JStr tenant), (''limit'', JInt limit)])
         (length chain)) (\<lambda>_.
       retA (JObj [(''request_id'', JStr request), (''items'', JList (map (event_to_dict True) chain)),
                   (''summary'', summarize chain)]))))))"

section \<open>Statistics\<close>

definition bucket_key :: "audit_env \<Rightarrow> string \<Rightarrow> string \<Rightarrow> exn + string" where
  "bucket_key env bucket at =
     (if bucket = ''hour'' then Inr (take 13 at @ '':00'')
      else if bucket = ''day'' then Inr (take 10 at)
      else if bucket = ''week'' then Inr (av_week env at)
      else if bucket = ''month'' then Inr (take 7 at)
      else Inl (mk_exn ''ValueError'' (''unknown bucket: '' @ repr_str bucket)))"

definition dimension_value :: "string \<Rightarrow> stored_event \<Rightarrow> exn + string" where
  "dimension_value dimension e =
     (if dimension = ''actor'' then Inr (sv_actor e)
      else if dimension = ''skill_id'' then Inr (sv_skill e)
      else if dimension = ''audit_class'' then Inr (sv_class e)
      else if dimension = ''tenant_id'' then Inr (sv_tenant e)
      else Inl (mk_exn ''ValueError'' (''unknown dimension: '' @ repr_str dimension)))"

type_synonym bucket_counts = "(string \<times> (string \<times> int) list) list"

definition count_event ::
    "audit_env \<Rightarrow> string \<Rightarrow> string \<Rightarrow> bucket_counts \<times> (string \<times> int) list \<Rightarrow> stored_event \<Rightarrow>
     exn + bucket_counts \<times> (string \<times> int) list" where
  "count_event env bucket dimension acc e =
     bindE (bucket_key env bucket (sv_at e)) (\<lambda>k.
     bindE (dimension_value dimension e) (\<lambda>d.
       let inner = (case map_of (fst acc) k of None \<Rightarrow> [] | Some c \<Rightarrow> c)
       in Inr (dset (fst acc) k (count_up inner d), count_up (snd acc) d)))"

definition count_events ::
    "audit_env \<Rightarrow> string \<Rightarrow> string \<Rightarrow> stored_event list \<Rightarrow> exn + bucket_counts \<times> (string \<times> int) list" where
  "count_events env bucket dimension es = forE (count_event env bucket dimension) ([], []) es"

definition bucket_total :: "(string \<times> int) list \<Rightarrow> int" where "bucket_total c = sum_list (map snd c)"

definition bucket_json :: "string \<times> (string \<times> int) list \<Rightarrow> json" where
  "bucket_json b =
     JObj [(''bucket_key'', JStr (fst b)), (''by_dimension'', counts_json (snd b)), (''total'', JInt (bucket_total (snd b)))]"

definition handler_audit_event_statistics :: "audit_env \<Rightarrow> string \<Rightarrow> dict \<Rightarrow> (json, audit_world) act" where
  "handler_audit_event_statistics env skill payload =
     (let bucket = py_str (py_or (dget payload ''bucket'') (JStr ''day''));
          dimension = py_str (py_or (dget payload ''dimension'') (JStr ''audit_class''))
      in bindA (liftE id (enforce_tenant_scope env ''audit.event.*'' payload)) (\<lambda>tenant.
         bindA (liftE id (parse_iso env (dget payload ''since''))) (\<lambda>since.
         bindA (liftE id (parse_iso env (dget payload ''until''))) (\<lambda>until.
         bindA (liftE id (limit_arg 1000 payload)) (\<lambda>limit.
         bindA (audit_query env (any_event\<lparr>af_tenant := Some tenant, af_since := since, af_until := until\<rparr>) limit) (\<lambda>events.
         bindA (liftE id (count_events env bucket dimension events)) (\<lambda>(buckets, totals).
         bindA (emit_meta_audit env skill payload tenant
             (param_fingerprint env
                [(''tenant_id'', JStr tenant), (''bucket'', JStr bucket), (''dimension'', JStr dimension),
                 (''since'', opt_json since), (''until'', opt_json until), (''limit'', JInt limit)]) (length events)) (\<lambda>_.
           retA (JObj [(''bucket'', JStr bucket), (''dimension'', JStr dimension),
                       (''buckets'', JList (map bucket_json (sort_key fst buckets))),
                       (''totals'', counts_json totals), (''scanned'', JInt (int (length events)))])))))))))"

section \<open>Anomalies\<close>

record anomaly =
  an_rule :: string
  an_severity :: string
  an_actor :: string
  an_skill :: "string option"
  an_tenant :: string
  an_evidence :: "string list"
  an_count :: nat
  an_summary :: string

text \<open>Grouping by a key, in the order in which the keys first occur.\<close>

definition group_rows :: "('r \<Rightarrow> string) \<Rightarrow> 'r list \<Rightarrow> (string \<times> 'r list) list" where
  "group_rows f rows =
     foldl (\<lambda>acc r. dset acc (f r) ((case map_of acc (f r) of None \<Rightarrow> [] | Some xs \<Rightarrow> xs) @ [r])) [] rows"

text \<open>\<^verbatim>\<open>list(dict.fromkeys(xs))\<close> keeps the first of equal elements.\<close>

definition first_occurrences :: "'a list \<Rightarrow> 'a list" where
  "first_occurrences xs = rev (remdups (rev xs))"

abbreviation row_request :: "store_row \<Rightarrow> string" where "row_request r \<equiv> sv_request (sr_event r)"
abbreviation row_actor :: "store_row \<Rightarrow> string" where "row_actor r \<equiv> sv_actor (sr_event r)"
abbreviation row_tenant :: "store_row \<Rightarrow> string" where "row_tenant r \<equiv> sv_tenant (sr_event r)"
abbreviation row_skill :: "store_row \<Rightarrow> string" where "row_skill r \<equiv> sv_skill (sr_event r)"

definition evidence :: "store_row list \<Rightarrow> string list" where
  "evidence rows = take 5 (first_occurrences (map row_request rows))"

definition cross_tenant_anomaly :: "string \<times> store_row list \<Rightarrow> anomaly list" where
  "cross_tenant_anomaly g =
     (let tenants = sort (remdups (map row_tenant (snd g)))
      in if length tenants > 1
         then [\<lparr>an_rule = ''cross-tenant-read'', an_severity = ''high'', an_actor = fst g, an_skill = None,
                an_tenant = join_sep '','' tenants, an_evidence = evidence (snd g), an_count = length (snd g),
                an_summary = ''actor '' @ fst g @ lbl_tenants_pre @ nat_str (length tenants) @ lbl_tenants_post\<rparr>]
         else [])"

definition detect_cross_tenant_read :: "audit_env \<Rightarrow> (anomaly list, audit_world) act" where
  "detect_cross_tenant_read env =
     bindA (query_outcome_rows env (any_event\<lparr>af_class := Some ''read-sensitive''\<rparr>) 10000) (\<lambda>rows.
       retA (concat (map cross_tenant_anomaly (group_rows row_actor rows))))"

definition row_failed :: "store_row \<Rightarrow> bool" where
  "row_failed r \<longleftrightarrow> sv_phase (sr_event r) = ''error'' \<or> sr_outcome r = Some ''denied'' \<or> sr_error r"

definition failure_anomaly :: "int \<Rightarrow> string \<times> store_row list \<Rightarrow> anomaly list" where
  "failure_anomaly threshold g =
     (if int (length (snd g)) \<ge> threshold
      then [\<lparr>an_rule = ''high-failure-rate'',
             an_severity = (if int (length (snd g)) < threshold * 2 then ''medium'' else ''high''),
             an_actor = fst g,
             an_skill = Some (join_sep '','' (take 3 (sort (remdups (map row_skill (snd g)))))),
             an_tenant = row_tenant (hd (snd g)), an_evidence = evidence (snd g), an_count = length (snd g),
             an_summary = ''actor '' @ fst g @ lbl_failed_pre @ nat_str (length (snd g)) @ lbl_failed_mid @
               int_str threshold @ lbl_close_paren\<rparr>]
      else [])"

definition detect_high_failure_rate :: "int \<Rightarrow> store_row list \<Rightarrow> anomaly list" where
  "detect_high_failure_rate threshold rows =
     concat (map (failure_anomaly threshold) (group_rows row_actor (filter row_failed rows)))"

definition denied_anomaly :: "string \<times> store_row list \<Rightarrow> anomaly list" where
  "denied_anomaly g =
     (if length (snd g) \<ge> 2
      then [\<lparr>an_rule = ''repeated-denied'', an_severity = ''high'', an_actor = row_actor (hd (snd g)),
             an_skill = Some (row_skill (hd (snd g))), an_tenant = row_tenant (hd (snd g)), an_evidence = [fst g],
             an_count = length (snd g),
             an_summary = ''request_id '' @ fst g @ lbl_denied_pre @ nat_str (length (snd g)) @ lbl_times\<rparr>]
      else [])"

definition detect_repeated_denied :: "store_row list \<Rightarrow> anomaly list" where
  "detect_repeated_denied rows =
     concat (map denied_anomaly (group_rows row_request (filter (\<lambda>r. sr_outcome r = Some ''denied'') rows)))"

definition severity_rank :: "string \<Rightarrow> nat" where
  "severity_rank s = (if s = ''high'' then 0 else if s = ''medium'' then 1 else if s = ''low'' then 2 else 9)"

text \<open>\<^verbatim>\<open>xs[:n]\<close>.\<close>

definition py_prefix :: "int \<Rightarrow> 'a list \<Rightarrow> 'a list" where
  "py_prefix n xs = (if n < 0 then take (length xs - nat (- n)) xs else take (nat n) xs)"

definition top_anomalies :: "int \<Rightarrow> anomaly list \<Rightarrow> anomaly list" where
  "top_anomalies n xs = py_prefix n (sort_key (\<lambda>a. (severity_rank (an_severity a), - int (an_count a))) xs)"

definition anomaly_json :: "anomaly \<Rightarrow> json" where
  "anomaly_json a =
     JObj ([(''rule'', JStr (an_rule a)), (''severity'', JStr (an_severity a)), (''actor'', JStr (an_actor a))] @
           (case an_skill a of None \<Rightarrow> [] | Some s \<Rightarrow> [(''skill_id'', JStr s)]) @
           [(''tenant_id'', JStr (an_tenant a)), (''evidence_request_ids'', JList (map JStr (an_evidence a))),
            (''occurrence_count'', JInt (int (an_count a))), (''summary'', JStr (an_summary a))])"

definition handler_audit_event_anomaly :: "audit_env \<Rightarrow> string \<Rightarrow> dict \<Rightarrow> (json, audit_world) act" where
  "handler_audit_event_anomaly env skill payload =
     bindA (liftE id (enforce_tenant_scope env ''audit.event.*'' payload)) (\<lambda>tenant.
     bindA (liftE id (parse_iso env (dget payload ''since''))) (\<lambda>since.
     bindA (liftE id (parse_iso env (dget payload ''until''))) (\<lambda>until.
     bindA (liftE id (int_arg (py_or (dget payload ''top_n'') (JInt 20)))) (\<lambda>top_n.
     bindA (liftE id (int_arg (py_or (dget payload ''min_failure_count'') (JInt 3)))) (\<lambda>threshold.
     bindA (query_outcome_rows env (any_event\<lparr>af_tenant := Some tenant, af_since := since, af_until := until\<rparr>) 10000) (\<lambda>rows.
     bindA (detect_cross_tenant_read env) (\<lambda>cross.
     let found = top_anomalies top_n (cross @ detect_high_failure_rate threshold rows @ detect_repeated_denied rows)
     in bindA (emit_meta_audit env skill payload tenant
         (param_fingerprint env
            [(''tenant_id'', JStr tenant), (''since'', opt_json since), (''until'', opt_json until),
             (''top_n'', JInt top_n), (''min_failure_count'', JInt threshold)]) (length found)) (\<lambda>_.
       retA (JObj [(''anomalies'', JList (map anomaly_json found)), (''scanned'', JInt (int (length rows)))])))))))))"

section \<open>Accountability\<close>

definition accountability_sensitive_keys :: "string list" where
  "accountability_sensitive_keys = [''actor_snapshot'', ''credential'', ''secret'', ''token'', ''password'', ''api_key'']"

definition sanitize_payload :: "audit_env \<Rightarrow> dict \<Rightarrow> dict" where
  "sanitize_payload env p =
     map (\<lambda>(k, v). (k, if list_ex (\<lambda>needle. contains needle (lower k)) accountability_sensitive_keys
                       then JStr (''sha1:'' @ av_digest env v) else v)) p"

definition event_denied :: "stored_event \<Rightarrow> bool" where
  "event_denied e \<longleftrightarrow> dget (sv_payload e) ''outcome'' = JStr ''denied''"

definition denied_requests :: "stored_event list \<Rightarrow> string list" where
  "denied_requests es = first_occurrences (map sv_request (filter event_denied es))"

record denied_chain =
  dc_request :: string
  dc_skill :: string
  dc_at :: string
  dc_events :: "stored_event list"

definition chain_of :: "string \<Rightarrow> stored_event list \<Rightarrow> denied_chain" where
  "chain_of request chain =
     (let e = (case find event_denied chain of Some e \<Rightarrow> e | None \<Rightarrow> last chain)
      in \<lparr>dc_request = request, dc_skill = sv_skill e, dc_at = sv_at e, dc_events = chain\<rparr>)"

fun denied_chains :: "audit_env \<Rightarrow> string \<Rightarrow> string list \<Rightarrow> (denied_chain list, audit_world) act" where
  "denied_chains env tenant [] = retA []"
| "denied_chains env tenant (r # rs) =
     bindA (list_by_request_id env r 200) (\<lambda>found.
     let chain = filter (\<lambda>e. sv_tenant e = tenant) found
     in bindA (denied_chains env tenant rs) (\<lambda>chains.
          retA (if chain = [] then chains else chain_of r chain # chains)))"

text \<open>\<^verbatim>\<open>sort(key=..., reverse=True)\<close> keeps the order of equal elements.\<close>

definition latest_first :: "denied_chain list \<Rightarrow> denied_chain list" where
  "latest_first cs = rev (sort_key dc_at (rev cs))"

definition chain_json :: "audit_env \<Rightarrow> denied_chain \<Rightarrow> json" where
  "chain_json env c =
     JObj [(''request_id'', JStr (dc_request c)), (''skill_id'', JStr (dc_skill c)), (''denied_at'', JStr (dc_at c)),
           (''events'', JList (map (\<lambda>e. JObj [(''phase'', JStr (sv_phase e)), (''occurred_at'', JStr (sv_at e)),
              (''sanitized_payload'', JObj (sanitize_payload env (sv_payload e)))]) (dc_events c)))]"

definition handler_audit_event_accountability :: "audit_env \<Rightarrow> string \<Rightarrow> dict \<Rightarrow> (json, audit_world) act" where
  "handler_audit_event_accountability env skill payload =
     bindA (liftE id (enforce_tenant_scope env ''audit.event.*'' payload)) (\<lambda>tenant.
     bindA (liftE id (required_text payload ''actor'' ''audit.event.accountability'')) (\<lambda>actor.
     bindA (liftE id (parse_iso env (dget payload ''since''))) (\<lambda>since.
     bindA (liftE id (parse_iso env (dget payload ''until''))) (\<lambda>until.
     bindA (liftE id (limit_arg 100 payload)) (\<lambda>limit.
     bindA (audit_query env
         (any_event\<lparr>af_actor := Some actor, af_tenant := Some tenant, af_since := since, af_until := until\<rparr>) 10000) (\<lambda>events.
     bindA (denied_chains env tenant (py_prefix limit (denied_requests events))) (\<lambda>chains0.
     let chains = latest_first chains0
     in bindA (emit_meta_audit env skill payload tenant
         (param_fingerprint env
            [(''actor'', JStr actor), (''tenant_id'', JStr tenant), (''since'', opt_json since),
             (''until'', opt_json until), (''limit'', JInt limit)]) (length chains)) (\<lambda>_.
       retA (JObj [(''actor'', JStr actor), (''denied_chains'', JList (map (chain_json env) chains)),
                   (''total'', JInt (int (length chains)))])))))))))"

end
