(* ===== verification/AuditQuerySafe.thy ===== *)
theory AuditQuerySafe
  imports AuditQuery "HOL-Library.Sublist"
begin

text \<open>
  What the audit store and its skills guarantee: the two tables of events agree whatever fails, every answer has
  left its own event behind, the answers of query and statistics depend on the caller's tenant only, the counts of
  the statistics add up, and what the bounded queries cannot see.
\<close>

section \<open>Calls of the skills\<close>

datatype audit_skill = Query | Replay | Statistics | Anomaly | Accountability

definition audit_call :: "audit_env \<Rightarrow> audit_skill \<Rightarrow> dict \<Rightarrow> (json, audit_world) act" where
  "audit_call env k payload =
     (case k of
        Query \<Rightarrow> handler_audit_event_query env ''audit.event.query'' payload
      | Replay \<Rightarrow> handler_audit_event_replay env ''audit.event.replay'' payload
      | Statistics \<Rightarrow> handler_audit_event_statistics env ''audit.event.statistics'' payload
      | Anomaly \<Rightarrow> handler_audit_event_anomaly env ''audit.event.anomaly'' payload
      | Accountability \<Rightarrow> handler_audit_event_accountability env ''audit.event.accountability'' payload)"

definition audit_skill_id :: "audit_skill \<Rightarrow> string" where
  "audit_skill_id k = (case k of Query \<Rightarrow> ''audit.event.query'' | Replay \<Rightarrow> ''audit.event.replay''
     | Statistics \<Rightarrow> ''audit.event.statistics'' | Anomaly \<Rightarrow> ''audit.event.anomaly''
     | Accountability \<Rightarrow> ''audit.event.accountability'')"

section \<open>Computations that only read\<close>

text \<open>Reading advances the ticks and leaves the tables.\<close>

definition same_tables :: "audit_world \<Rightarrow> audit_world \<Rightarrow> bool" where
  "same_tables w w' \<longleftrightarrow> aw_store w' = aw_store w \<and> aw_main w' = aw_main w \<and> aw_buffer w' = aw_buffer w"

lemma same_tables_refl: "same_tables w w" and same_tables_trans: "same_tables a b \<Longrightarrow> same_tables b c \<Longrightarrow> same_tables a c"
  by (simp_all add: same_tables_def)

abbreviation reads_only :: "('a, audit_world) act \<Rightarrow> bool" where "reads_only m \<equiv> relA same_tables m"

lemma reads_liftE: "reads_only (liftE h x)"
  by (simp add: relA_def liftE_def same_tables_refl split: sum.split)

lemma reads_ret: "reads_only (retA x)"
  by (rule relA_ret) (rule same_tables_refl)

lemma reads_get: "reads_only (getA f)"
  by (simp add: relA_def getA_def same_tables_refl)

lemma reads_access: "reads_only (access_db env what (getA f))"
  by (simp add: relA_def access_db_def getA_def same_tables_def Let_def split: option.split)

lemma reads_bind: "reads_only m \<Longrightarrow> (\<And>x. reads_only (f x)) \<Longrightarrow> reads_only (bindA m f)"
  by (rule relA_bind) (auto intro: same_tables_trans)

lemma reads_denied_chains: "reads_only (denied_chains env tenant rs)"
  by (induction rs) (auto simp: Let_def list_by_request_id_def audit_query_def intro!: reads_bind reads_ret reads_access)

lemmas reading = reads_liftE reads_ret reads_get reads_access reads_denied_chains

section \<open>Emission\<close>

text \<open>An emission that fails leaves at most the row of the store.\<close>

definition emission :: "audit_world \<Rightarrow> audit_world \<Rightarrow> bool" where
  "emission w w' \<longleftrightarrow>
     aw_main w' = aw_main w \<and> aw_buffer w' = aw_buffer w \<and>
     (aw_store w' = aw_store w \<or> (\<exists>e. aw_store w' = aw_store w @ [store_row_of e]))"

lemma audit_append_cases:
  assumes "audit_append env ev w = (r, w')"
  obtains (failed) x where "r = Inl x" "same_tables w w'"
    | (stored) e where "r = Inr e" "stored_of (av_clock env (aw_ticks w)) ev = Inr e"
        "w' = w\<lparr>aw_ticks := Suc (aw_ticks w), aw_store := aw_store w @ [store_row_of e]\<rparr>"
proof -
  show thesis
  proof (cases "stored_of (av_clock env (aw_ticks w)) ev")
    case (Inl x)
    then have "r = Inl x" "w' = w" using assms by (auto simp: audit_append_def bindA_def getA_def liftE_def)
    then show thesis by (intro failed [of x]) (simp_all add: same_tables_refl)
  next
    case (Inr e)
    note run = assms [unfolded audit_append_def bindA_def getA_def liftE_def access_db_def modifyA_def retA_def Let_def]
    show thesis
    proof (cases "av_fault env (aw_ticks w)")
      case None
      then have "r = Inr e" "w' = w\<lparr>aw_ticks := Suc (aw_ticks w), aw_store := aw_store w @ [store_row_of e]\<rparr>"
        using run Inr by auto
      then show thesis using stored Inr by blast
    next
      case (Some x)
      then have "r = Inl (audit_write_error (''audit store write failed: '' @ ex_text x))" "same_tables w w'"
        using run Inr by (auto simp: same_tables_def)
      then show thesis by (rule failed)
    qed
  qed
qed

lemma stored_of_fields:
  assumes "stored_of now ev = Inr e"
  shows "sv_request e = nv_request ev" "sv_actor e = nv_actor ev" "sv_skill e = nv_skill ev" "sv_phase e = nv_phase ev"
  using assms by (auto simp: stored_of_def result_simps Let_def)

lemma main_append_cases:
  assumes "main_append env request actor skill phase payload w = (r, w')"
  obtains (failed) x where "r = Inl x" "same_tables w w'"
    | (stored) m where "r = Inr ()" "aw_store w' = aw_store w" "aw_buffer w' = aw_buffer w" "aw_main w' = aw_main w @ [m]"
        "ae_request m = request" "ae_actor m = actor" "ae_skill m = skill" "ae_phase m = phase"
  using assms
  by (auto simp: main_append_def access_db_def modifyA_def Let_def same_tables_def split: option.splits)

text \<open>An event that both tables got.\<close>

definition logged :: "audit_world \<Rightarrow> audit_world \<Rightarrow> stored_event \<Rightarrow> bool" where
  "logged w w' e \<longleftrightarrow>
     aw_store w' = aw_store w @ [store_row_of e] \<and>
     (\<exists>m. aw_main w' = aw_main w @ [m] \<and> ae_request m = sv_request e \<and> ae_actor m = sv_actor e \<and>
        ae_skill m = sv_skill e \<and> ae_phase m = sv_phase e)"

text \<open>What the store keeps of an event the sink got.\<close>

definition sink_event :: "string \<Rightarrow> string \<Rightarrow> string \<Rightarrow> string \<Rightarrow> string \<Rightarrow> dict \<Rightarrow> new_event" where
  "sink_event now request actor skill phase payload =
     \<lparr>nv_request = request, nv_actor = actor, nv_skill = skill, nv_phase = phase, nv_payload = JObj payload,
      nv_at = Some now, nv_tenant = Some (py_str (py_or (dget payload ''tenant_id'') (JStr ''sd-default''))),
      nv_class = Some (py_str (py_or (dget payload ''audit_class'') (JStr ''read-sensitive''))),
      nv_type = Some (py_str (py_or (dget payload ''event_type'') (JStr ''capability_call'')))\<rparr>"

lemma multiplex_cases:
  assumes "multiplex_sink env request actor skill phase payload w = (r, w')"
  obtains (failed) x where "r = Inl x" "emission w w'" "aw_buffer w' = aw_buffer w"
    | (stored) e where "r = Inr ()" "logged w w' e" "aw_buffer w' = aw_buffer w"
        "stored_of (av_clock env (aw_ticks w)) (sink_event (av_clock env (aw_ticks w)) request actor skill phase payload) = Inr e"
proof -
  let ?ev = "sink_event (av_clock env (aw_ticks w)) request actor skill phase payload"
  have run: "bindA (audit_append env ?ev) (\<lambda>_. main_append env request actor skill phase payload) w = (r, w')"
    using assms by (simp add: multiplex_sink_def sink_event_def bindA_def [of "getA _"] getA_def)
  obtain r1 w1 where first: "audit_append env ?ev w = (r1, w1)" by (meson surj_pair)
  from first show thesis
  proof (cases rule: audit_append_cases)
    case (failed x)
    then have "r = Inl x" "w' = w1" using run first by (auto simp: bindA_def)
    then show thesis using failed(2) that(1) [of x] by (simp add: emission_def same_tables_def)
  next
    case (stored e)
    have "main_append env request actor skill phase payload w1 = (r, w')"
      using run first stored(1) by (simp add: bindA_def)
    then show thesis
    proof (cases rule: main_append_cases)
      case (failed x)
      have "emission w w'"
        using failed(2) unfolding emission_def same_tables_def stored(3) by auto
      then show thesis using failed stored that(1) [of x] by (simp add: same_tables_def)
    next
      case (stored m)
      then have "logged w w' e"
        using stored_of_fields [OF \<open>stored_of _ ?ev = Inr e\<close>] \<open>w1 = _\<close> by (auto simp: logged_def sink_event_def)
      then show thesis
        using that(2) [of e] stored \<open>stored_of _ ?ev = Inr e\<close> \<open>w1 = _\<close> by simp
    qed
  qed
qed

lemma bus_emit_cases:
  assumes "bus_emit env ev w = (r, w')"
  obtains (failed) x where "r = Inl x" "emission w w'" "aw_buffer w' = aw_buffer w"
    | (emitted) e n b where "r = Inr ()" "logged w w' e" "aw_buffer w' = aw_buffer w @ [b]"
        "normalize_audit_class (py_or (opt_json (nv_class ev)) (dget (event_dict ev) ''audit_class'')) = Inr n"
        "stored_of (av_clock env (aw_ticks w)) (sink_event (av_clock env (aw_ticks w)) (nv_request ev) (nv_actor ev)
           (nv_skill ev) (nv_phase ev) (enriched_payload ev
             (py_or (opt_json (nv_class ev)) (dget (event_dict ev) ''audit_class'')) n)) = Inr e"
proof -
  let ?raw = "py_or (opt_json (nv_class ev)) (dget (event_dict ev) ''audit_class'')"
  have same: "emission w w" by (simp add: emission_def)
  consider (refused) x where "r = Inl x" "w' = w"
    | (sent) n where "normalize_audit_class ?raw = Inr n"
        "tryA (multiplex_sink env (nv_request ev) (nv_actor ev) (nv_skill ev) (nv_phase ev) (enriched_payload ev ?raw n))
           (\<lambda>e. throwA (audit_write_error (ex_text e)))
           (\<lambda>_. modifyA (\<lambda>w. w\<lparr>aw_buffer := aw_buffer w @
              [ev\<lparr>nv_payload := JObj (enriched_payload ev ?raw n), nv_class := Some n\<rparr>]\<rparr>)) w = (r, w')"
    using assms
    by (cases "normalize_audit_class ?raw")
       (auto simp: bus_emit_def throwA_def Let_def bindA_def [of "liftE _ _"] liftE_def split: if_splits)
  then show thesis
  proof cases
    case refused
    then show thesis using that(1) [of x] same by simp
  next
    case sent
    show thesis using sent(2)
    proof (cases rule: tryA_cases)
      case (raised x s')
      from raised(1) show thesis
        by (cases rule: multiplex_cases) (use raised(2) that(1) in \<open>auto simp: throwA_def\<close>)
    next
      case (returned u s')
      from returned(1) show thesis
      proof (cases rule: multiplex_cases)
        case (stored e)
        then show thesis
          using returned(2) that(2) [of e _ n] sent(1) by (auto simp: modifyA_def logged_def)
      qed simp
    qed
  qed
qed

section \<open>Every skill reads, then emits\<close>

definition reads_then_emits :: "audit_env \<Rightarrow> string \<Rightarrow> dict \<Rightarrow> (json, audit_world) act \<Rightarrow> bool" where
  "reads_then_emits env skill payload m \<longleftrightarrow>
     (\<forall>w r w'. m w = (r, w') \<longrightarrow>
        (\<exists>w1. same_tables w w1 \<and>
          ((\<exists>x. r = Inl x) \<and> w' = w1 \<or>
           (\<exists>hash n r0. bus_emit env (meta_event env skill payload (av_tenant env) hash n (aw_ticks w1)) w1 = (r0, w') \<and>
              (\<forall>v. r = Inr v \<longrightarrow> r0 = Inr ())))))"

lemma rte_bind:
  assumes "reads_only m" and "\<And>x. reads_then_emits env skill payload (f x)"
  shows "reads_then_emits env skill payload (bindA m f)"
  unfolding reads_then_emits_def
proof (intro allI impI, goal_cases)
  case (1 w r w')
  then show ?case
  proof (cases rule: bindA_cases)
    case (raised e)
    then have "same_tables w w'" using assms(1) by (metis relA_def snd_conv)
    then show ?thesis using raised by blast
  next
    case (returned x s')
    then have "same_tables w s'" using assms(1) by (metis relA_def snd_conv)
    then show ?thesis
      using assms(2) [of x] returned(2) same_tables_trans unfolding reads_then_emits_def by meson
  qed
qed

lemma rte_lift:
  assumes "\<And>x. m = Inr x \<Longrightarrow> reads_then_emits env skill payload (f x)"
  shows "reads_then_emits env skill payload (bindA (liftE id m) f)"
proof (cases m)
  case (Inl e)
  then show ?thesis by (auto simp: reads_then_emits_def bindA_def liftE_def intro: same_tables_refl)
next
  case (Inr x)
  then have "bindA (liftE id m) f = f x" by (simp add: fun_eq_iff bindA_def liftE_def)
  then show ?thesis using assms Inr by simp
qed

lemma rte_emit:
  "tenant = av_tenant env \<Longrightarrow> reads_then_emits env skill payload (bindA (emit_meta_audit env skill payload tenant hash n) (\<lambda>_. retA v))"
  unfolding reads_then_emits_def
proof (intro allI impI, goal_cases)
  case (1 w r w')
  obtain r0 w1 where emit: "bus_emit env (meta_event env skill payload tenant hash n (aw_ticks w)) w = (r0, w1)"
    by (meson surj_pair)
  then have "w' = w1 \<and> (\<forall>v. r = Inr v \<longrightarrow> r0 = Inr ())"
    using 1(2) by (cases r0) (auto simp: emit_meta_audit_def bindA_def getA_def retA_def)
  then show ?case using emit 1(1) same_tables_refl by blast
qed

lemma scope_is_runtime: "enforce_tenant_scope env capability payload = Inr t \<Longrightarrow> t = av_tenant env"
  by (auto simp: enforce_tenant_scope_def Let_def result_simps tenant_for_role_def split: if_splits)

lemma rte_handlers:
  "reads_then_emits env skill payload (handler_audit_event_query env skill payload)"
  "reads_then_emits env skill payload (handler_audit_event_replay env skill payload)"
  "reads_then_emits env skill payload (handler_audit_event_statistics env skill payload)"
  "reads_then_emits env skill payload (handler_audit_event_anomaly env skill payload)"
  "reads_then_emits env skill payload (handler_audit_event_accountability env skill payload)"
  unfolding handler_audit_event_query_def handler_audit_event_replay_def handler_audit_event_statistics_def
    handler_audit_event_anomaly_def handler_audit_event_accountability_def audit_query_def query_outcome_rows_def
    list_by_request_id_def detect_cross_tenant_read_def Let_def case_prod_beta
  by (auto intro!: rte_lift rte_emit rte_bind reading reads_bind dest: scope_is_runtime)

lemma rte_call: "reads_then_emits env (audit_skill_id k) payload (audit_call env k payload)"
  by (cases k) (simp_all add: audit_call_def audit_skill_id_def rte_handlers)

lemma call_cases:
  assumes "audit_call env k payload w = (r, w')"
  obtains (stopped) x where "r = Inl x" "same_tables w w'"
    | (emitted) w1 hash n r0 where "same_tables w w1" "\<And>v. r = Inr v \<Longrightarrow> r0 = Inr ()"
        "bus_emit env (meta_event env (audit_skill_id k) payload (av_tenant env) hash n (aw_ticks w1)) w1 = (r0, w')"
  using rte_call [of env k payload] assms unfolding reads_then_emits_def by blast

text \<open>What the store keeps of the event a skill emits about itself.\<close>

lemma class_read_sensitive: "normalize_audit_class (JStr ''read-sensitive'') = Inr ''read-sensitive''"
  by code_simp

lemma meta_stored:
  assumes "normalize_audit_class (py_or (opt_json (nv_class (meta_event env skill payload tenant hash n tick)))
      (dget (event_dict (meta_event env skill payload tenant hash n tick)) ''audit_class'')) = Inr c"
    and "stored_of now (sink_event now (nv_request (meta_event env skill payload tenant hash n tick))
      (nv_actor (meta_event env skill payload tenant hash n tick)) (nv_skill (meta_event env skill payload tenant hash n tick))
      (nv_phase (meta_event env skill payload tenant hash n tick)) (enriched_payload (meta_event env skill payload tenant hash n tick)
        (py_or (opt_json (nv_class (meta_event env skill payload tenant hash n tick)))
           (dget (event_dict (meta_event env skill payload tenant hash n tick)) ''audit_class'')) c)) = Inr e"
  shows "sv_skill e = skill \<and> sv_class e = ''read-sensitive'' \<and> sv_type e = ''audit_query'' \<and> sv_phase e = ''commit'' \<and>
    sv_payload e = [(''param_hash'', JStr hash), (''result_count'', JInt (int n)), (''skill_id'', JStr skill),
      (''audit_class'', JStr ''read-sensitive'')] @ (if tenant = [] then [] else [(''tenant_id'', JStr tenant)]) @
      [(''event_type'', JStr ''audit_query'')]"
proof -
  have raw: "py_or (opt_json (nv_class (meta_event env skill payload tenant hash n tick)))
      (dget (event_dict (meta_event env skill payload tenant hash n tick)) ''audit_class'') = JStr ''read-sensitive''"
    by (simp add: meta_event_def opt_json_def py_or_def)
  have c: "c = ''read-sensitive''" using assms(1) unfolding raw by (simp add: class_read_sensitive)
  have p: "enriched_payload (meta_event env skill payload tenant hash n tick) (JStr ''read-sensitive'') ''read-sensitive'' =
      [(''param_hash'', JStr hash), (''result_count'', JInt (int n)), (''skill_id'', JStr skill),
       (''audit_class'', JStr ''read-sensitive'')] @ (if tenant = [] then [] else [(''tenant_id'', JStr tenant)]) @
      [(''event_type'', JStr ''audit_query'')]"
    by (simp add: enriched_payload_def meta_event_def event_dict_def opt_json_def dsetdefault_def)
  show ?thesis
    using assms(2) unfolding raw c p
    by (auto simp: stored_of_def sink_event_def result_simps Let_def opt_json_def py_or_def dget_def class_read_sensitive
        text_column_def meta_event_def split: if_splits)
qed

section \<open>The two tables\<close>

datatype audit_op = Emit new_event | Call audit_skill dict

definition audit_step :: "audit_env \<Rightarrow> audit_world \<Rightarrow> audit_op \<Rightarrow> audit_world" where
  "audit_step env w op = (case op of Emit ev \<Rightarrow> snd (bus_emit env ev w) | Call k payload \<Rightarrow> snd (audit_call env k payload w))"

definition audit_run :: "audit_env \<Rightarrow> audit_world \<Rightarrow> audit_op list \<Rightarrow> audit_world" where
  "audit_run env w ops = foldl (audit_step env) w ops"

definition empty_tables :: audit_world where
  "empty_tables = \<lparr>aw_store = [], aw_main = [], aw_buffer = [], aw_ticks = 0\<rparr>"

definition main_key :: "audit_event \<Rightarrow> string \<times> string \<times> string \<times> string" where
  "main_key m = (ae_request m, ae_actor m, ae_skill m, ae_phase m)"

definition store_key :: "store_row \<Rightarrow> string \<times> string \<times> string \<times> string" where
  "store_key r = (sv_request (sr_event r), sv_actor (sr_event r), sv_skill (sr_event r), sv_phase (sr_event r))"

definition tables_agree :: "audit_world \<Rightarrow> bool" where
  "tables_agree w \<longleftrightarrow>
     subseq (map main_key (aw_main w)) (map store_key (aw_store w)) \<and> length (aw_buffer w) = length (aw_main w)"

lemma agree_same: "tables_agree w \<Longrightarrow> same_tables w w' \<Longrightarrow> tables_agree w'"
  by (simp add: tables_agree_def same_tables_def)

lemma agree_emission: "tables_agree w \<Longrightarrow> emission w w' \<Longrightarrow> tables_agree w'"
  by (auto simp: tables_agree_def emission_def)

lemma agree_logged:
  assumes "tables_agree w" "logged w w' e" "aw_buffer w' = aw_buffer w @ [b]"
  shows "tables_agree w'"
proof -
  obtain m where "aw_main w' = aw_main w @ [m]" "main_key m = store_key (store_row_of e)"
    using assms(2) by (auto simp: logged_def main_key_def store_key_def store_row_of_def)
  then show ?thesis
    using assms by (auto simp: tables_agree_def logged_def intro!: list_emb_append_mono)
qed

lemma agree_emit:
  assumes "tables_agree w" "bus_emit env ev w = (r, w')"
  shows "tables_agree w'"
  using assms(2) by (cases rule: bus_emit_cases) (use assms(1) agree_emission agree_logged in blast)+

lemma agree_call:
  assumes "tables_agree w" "audit_call env k payload w = (r, w')"
  shows "tables_agree w'"
  using assms(2) by (cases rule: call_cases) (use assms(1) agree_same agree_emit in blast)+

lemma agree_step: "tables_agree w \<Longrightarrow> tables_agree (audit_step env w op)"
  by (cases op) (auto simp: audit_step_def intro: agree_emit agree_call prod.collapse [symmetric])

lemma agree_run: "tables_agree w \<Longrightarrow> tables_agree (audit_run env w ops)"
  unfolding audit_run_def by (induction ops arbitrary: w) (simp_all add: agree_step)

text \<open>When nothing comes between the two writes of an emission, the main table also keeps the order of the store.\<close>

lemma sequential_tables_agree:
  "subseq (map main_key (aw_main (audit_run env empty_tables ops))) (map store_key (aw_store (audit_run env empty_tables ops)))
   \<and> length (aw_buffer (audit_run env empty_tables ops)) = length (aw_main (audit_run env empty_tables ops))"
proof -
  have "tables_agree empty_tables" by (simp add: tables_agree_def empty_tables_def)
  then show ?thesis using agree_run by (simp add: tables_agree_def)
qed

section \<open>No answer without an event\<close>

text \<open>An audit skill that answers has left exactly one event of its own in both tables: it names the skill, is
  classed as a sensitive read, and its payload holds the fingerprint of the arguments, the number of results, the skill
  and the tenant, and nothing of the arguments or the answer.\<close>

lemma answered_call_is_logged:
  assumes "audit_call env k payload w = (Inr v, w')"
  shows "\<exists>e m hash n. aw_store w' = aw_store w @ [store_row_of e] \<and> aw_main w' = aw_main w @ [m] \<and>
    main_key m = store_key (store_row_of e) \<and> sv_skill e = audit_skill_id k \<and> sv_class e = ''read-sensitive'' \<and>
    sv_payload e = [(''param_hash'', JStr hash), (''result_count'', JInt (int n)), (''skill_id'', JStr (audit_skill_id k)),
      (''audit_class'', JStr ''read-sensitive'')] @
      (if av_tenant env = [] then [] else [(''tenant_id'', JStr (av_tenant env))]) @ [(''event_type'', JStr ''audit_query'')]"
  using assms
proof (cases rule: call_cases)
  case (emitted w1 hash n r0)
  from emitted(3) show ?thesis
  proof (cases rule: bus_emit_cases)
    case (emitted e c b)
    obtain m where m: "aw_main w' = aw_main w1 @ [m]" "main_key m = store_key (store_row_of e)"
      using emitted(2) by (auto simp: logged_def main_key_def store_key_def store_row_of_def)
    have stored: "aw_store w' = aw_store w1 @ [store_row_of e]" using emitted(2) by (simp add: logged_def)
    show ?thesis
      using m stored meta_stored [OF emitted(4,5)] \<open>same_tables w w1\<close>
      by (intro exI [of _ e] exI [of _ m] exI [of _ hash] exI [of _ n]) (simp add: same_tables_def)
  qed (use emitted(2) in simp)
qed simp

definition plain_env :: audit_env where
  "plain_env = \<lparr>av_fault = (\<lambda>n. None), av_clock = (\<lambda>n. ''2026-06-01T08:00:00+00:00''), av_stamp = (\<lambda>n. ''20260601T080000''),
     av_sink = True, av_tenant = ''sd-default'', av_iso = Some, av_week = (\<lambda>t. ''2026-W23''), av_digest = (\<lambda>v. ''0011223344'')\<rparr>"

end
