(* ===== verification/AuditScope.thy ===== *)
theory AuditScope
  imports AuditQuerySafe
begin

text \<open>
  What a call of the audit skills can see: the answers of query and statistics are a function of the events of the
  caller's tenant, a query that is full does not see newer events, and what the counts and the rules report.
\<close>

section \<open>Worlds one tenant cannot tell apart\<close>

definition tenant_rows :: "string \<Rightarrow> store_row list \<Rightarrow> store_row list" where
  "tenant_rows t rows = filter (\<lambda>r. row_tenant r = t) rows"

definition alike :: "string \<Rightarrow> audit_world \<Rightarrow> audit_world \<Rightarrow> bool" where
  "alike t w1 w2 \<longleftrightarrow> aw_ticks w1 = aw_ticks w2 \<and> tenant_rows t (aw_store w1) = tenant_rows t (aw_store w2)"

text \<open>A computation with the same result in two such worlds, which it leaves alike.\<close>

definition blind :: "string \<Rightarrow> ('a, audit_world) act \<Rightarrow> bool" where
  "blind t m \<longleftrightarrow> (\<forall>w1 w2. alike t w1 w2 \<longrightarrow> fst (m w1) = fst (m w2) \<and> alike t (snd (m w1)) (snd (m w2)))"

lemma blindI: "(\<And>w1 w2. alike t w1 w2 \<Longrightarrow> fst (m w1) = fst (m w2) \<and> alike t (snd (m w1)) (snd (m w2))) \<Longrightarrow> blind t m"
  by (simp add: blind_def)

lemma blindD:
  assumes "blind t m" "alike t w1 w2" "m w1 = (r1, s1)" "m w2 = (r2, s2)"
  shows "r1 = r2" "alike t s1 s2"
  using assms by (metis blind_def fst_conv, metis blind_def snd_conv)

lemma blind_bind:
  assumes "blind t m" and "\<And>x. blind t (f x)"
  shows "blind t (bindA m f)"
proof (rule blindI)
  fix w1 w2 assume w: "alike t w1 w2"
  obtain r1 s1 r2 s2 where m: "m w1 = (r1, s1)" "m w2 = (r2, s2)" by fastforce
  note same = blindD [OF assms(1) w m]
  then show "fst (bindA m f w1) = fst (bindA m f w2) \<and> alike t (snd (bindA m f w1)) (snd (bindA m f w2))"
    using assms(2) m same by (cases r1) (auto simp: bindA_def blind_def)
qed

lemma blind_try:
  assumes "blind t m" and "\<And>e. blind t (h e)" and "\<And>x. blind t (f x)"
  shows "blind t (tryA m h f)"
proof (rule blindI)
  fix w1 w2 assume w: "alike t w1 w2"
  obtain r1 s1 r2 s2 where m: "m w1 = (r1, s1)" "m w2 = (r2, s2)" by fastforce
  note same = blindD [OF assms(1) w m]
  then show "fst (tryA m h f w1) = fst (tryA m h f w2) \<and> alike t (snd (tryA m h f w1)) (snd (tryA m h f w2))"
    using assms(2,3) m same by (cases r1) (auto simp: tryA_def blind_def)
qed

lemma blind_ret: "blind t (retA x)" and blind_throw: "blind t (throwA e)" and blind_lift: "blind t (liftE h y)"
  by (auto simp: blind_def retA_def throwA_def liftE_def split: sum.split)

lemma blind_get_ticks: "blind t (getA (\<lambda>w. f (aw_ticks w)))"
  by (simp add: blind_def getA_def alike_def)

lemma blind_ticks: "blind t (getA aw_ticks)"
  by (simp add: blind_def getA_def alike_def)

lemma blind_access:
  assumes "blind t m"
  shows "blind t (access_db env what m)"
proof (rule blindI)
  fix w1 w2 assume w: "alike t w1 w2"
  then have "alike t (w1\<lparr>aw_ticks := Suc (aw_ticks w1)\<rparr>) (w2\<lparr>aw_ticks := Suc (aw_ticks w2)\<rparr>)" by (simp add: alike_def)
  then show "fst (access_db env what m w1) = fst (access_db env what m w2) \<and>
      alike t (snd (access_db env what m w1)) (snd (access_db env what m w2))"
    using assms w by (auto simp: access_db_def blind_def alike_def Let_def split: option.split)
qed

lemma blind_store: "blind t (modifyA (\<lambda>w. w\<lparr>aw_store := aw_store w @ [r]\<rparr>))"
  by (simp add: blind_def modifyA_def alike_def tenant_rows_def)

lemma blind_main: "blind t (modifyA (\<lambda>w. w\<lparr>aw_main := aw_main w @ [f (aw_ticks w)]\<rparr>))"
  by (simp add: blind_def modifyA_def alike_def)

lemma blind_buffer: "blind t (modifyA (\<lambda>w. w\<lparr>aw_buffer := aw_buffer w @ [b]\<rparr>))"
  by (simp add: blind_def modifyA_def alike_def)

lemma blind_append: "blind t (audit_append env ev)"
  unfolding audit_append_def by (intro blind_bind blind_get_ticks blind_lift blind_access blind_store blind_ret)

lemma blind_main_append: "blind t (main_append env request actor skill phase payload)"
  unfolding main_append_def
  by (intro blind_access blind_main [where f = "\<lambda>n. \<lparr>ae_request = request, ae_actor = actor, ae_skill = skill,
      ae_phase = phase, ae_payload = (case safe_json (JObj payload) of JObj d \<Rightarrow> d | _ \<Rightarrow> []), ae_at = n\<rparr>"])

lemma blind_emit: "blind t (bus_emit env ev)"
  unfolding bus_emit_def multiplex_sink_def Let_def
  by (auto intro!: blind_bind blind_get_ticks blind_lift blind_append blind_main_append blind_try blind_throw blind_buffer)

lemma blind_meta: "blind t (emit_meta_audit env skill payload tenant hash n)"
  unfolding emit_meta_audit_def by (intro blind_bind blind_ticks blind_emit)

text \<open>A query for one tenant reads nothing but its rows.\<close>

lemma select_tenant_rows:
  assumes "af_tenant f = Some t"
  shows "select_rows f n rows = select_rows f n (tenant_rows t rows)"
proof -
  have "filter (\<lambda>r. event_matches f (sr_event r)) rows = filter (\<lambda>r. event_matches f (sr_event r)) (tenant_rows t rows)"
    using assms unfolding tenant_rows_def filter_filter by (intro filter_cong) (auto simp: event_matches_def wanted_def)
  then show ?thesis by (simp add: select_rows_def)
qed

lemma blind_query:
  assumes "af_tenant f = Some t"
  shows "blind t (audit_query env f n)"
  unfolding audit_query_def
proof (rule blind_access)
  show "blind t (getA (\<lambda>w. map sr_event (select_rows f n (aw_store w))))"
    unfolding select_tenant_rows [OF assms, of n "aw_store _"] by (simp add: blind_def getA_def alike_def)
qed

lemma blind_scoped:
  assumes "\<And>x. m = Inr x \<Longrightarrow> blind t (f x)"
  shows "blind t (bindA (liftE id m) f)"
proof (cases m)
  case (Inl e)
  then have "bindA (liftE id m) f = throwA e" by (simp add: fun_eq_iff bindA_def liftE_def throwA_def)
  then show ?thesis by (simp add: blind_throw)
next
  case (Inr x)
  then have "bindA (liftE id m) f = f x" by (simp add: fun_eq_iff bindA_def liftE_def)
  then show ?thesis using assms Inr by simp
qed

text \<open>C23: the answer of a query or of the statistics, or the exception, depends on the events of the caller's tenant only:
  on two stores that hold the same events of that tenant, whatever they hold of others, a call returns the same.\<close>

theorem query_sees_its_tenant_only:
  assumes "k = Query \<or> k = Statistics" and "aw_ticks w1 = aw_ticks w2"
    and "tenant_rows (av_tenant env) (aw_store w1) = tenant_rows (av_tenant env) (aw_store w2)"
  shows "fst (audit_call env k payload w1) = fst (audit_call env k payload w2)"
proof -
  have "blind (av_tenant env) (handler_audit_event_query env skill payload)" for skill
    unfolding handler_audit_event_query_def
    by (rule blind_scoped, rule blind_scoped, rule blind_scoped, rule blind_scoped, rule blind_bind [OF blind_query],
        drule scope_is_runtime, simp only:, simp,
        rule blind_bind [OF blind_meta blind_ret])
  moreover have "blind (av_tenant env) (handler_audit_event_statistics env skill payload)" for skill
    unfolding handler_audit_event_statistics_def Let_def case_prod_beta
    by (rule blind_scoped, rule blind_scoped, rule blind_scoped, rule blind_scoped, rule blind_bind [OF blind_query],
        drule scope_is_runtime, simp only:, simp,
        rule blind_scoped, rule blind_bind [OF blind_meta blind_ret])
  ultimately have "blind (av_tenant env) (audit_call env k payload)"
    using assms(1) by (auto simp: audit_call_def)
  moreover have "alike (av_tenant env) w1 w2" using assms(2,3) by (simp add: alike_def)
  ultimately show ?thesis unfolding blind_def by blast
qed

definition sample_row :: "string \<Rightarrow> string \<Rightarrow> string \<Rightarrow> store_row" where
  "sample_row request tenant at = store_row_of
     \<lparr>sv_request = request, sv_actor = ''u1'', sv_skill = ''s1'', sv_tenant = tenant, sv_class = ''read-sensitive'',
      sv_type = ''capability_call'', sv_phase = ''error'', sv_at = at, sv_payload = []\<rparr>"

lemma query_sees_its_tenant_only_witness:
  "fst (audit_call plain_env Query [] (empty_tables\<lparr>aw_store := [sample_row ''r1'' ''sd-default'' ''2026-06-01'']\<rparr>)) =
   fst (audit_call plain_env Query [] (empty_tables\<lparr>aw_store :=
     [sample_row ''r2'' ''other'' ''2026-05-01'', sample_row ''r1'' ''sd-default'' ''2026-06-01'']\<rparr>))"
  by (rule query_sees_its_tenant_only)
     (simp_all add: plain_env_def empty_tables_def tenant_rows_def sample_row_def store_row_of_def)

section \<open>What a full query does not see\<close>

lemma insort_snoc: "f y \<le> f x \<Longrightarrow> insort_key f y (xs @ [x]) = insort_key f y xs @ [x]"
  by (induction xs) auto

lemma sort_snoc:
  assumes "\<And>y. y \<in> set xs \<Longrightarrow> f y \<le> f x"
  shows "sort_key f (xs @ [x]) = sort_key f xs @ [x]"
  using assms by (induction xs) (simp_all add: insort_snoc)

lemma select_full:
  assumes "0 < n" "nat n \<le> length (filter (\<lambda>r. event_matches f (sr_event r)) rows)"
    and "\<And>r. r \<in> set rows \<Longrightarrow> sv_at (sr_event r) \<le> sv_at (sr_event new)"
  shows "select_rows f n (rows @ [new]) = select_rows f n rows"
proof (cases "event_matches f (sr_event new)")
  case True
  let ?m = "filter (\<lambda>r. event_matches f (sr_event r)) rows"
  have "sort_key (\<lambda>r. sv_at (sr_event r)) (?m @ [new]) = sort_key (\<lambda>r. sv_at (sr_event r)) ?m @ [new]"
    by (rule sort_snoc) (use assms(3) in auto)
  then show ?thesis using assms(1,2) True by (simp add: select_rows_def limited_def)
qed (simp add: select_rows_def)

text \<open>C24: the queries of the store answer with the oldest matching events: once as many events match as the limit allows,
  an event that is no older than any in the store changes no answer. So a bounded query never shows what has just
  happened, and the anomaly scan, which reads 10000 rows, is blind to everything after the first 10000 events of a
  tenant.\<close>

theorem full_query_misses_new_events:
  assumes "0 < n" "nat n \<le> length (filter (\<lambda>r. event_matches f (sr_event r)) (aw_store w))"
    and "list_all (\<lambda>r. sv_at (sr_event r) \<le> sv_at (sr_event new)) (aw_store w)"
  shows "fst (audit_query env f n (w\<lparr>aw_store := aw_store w @ [new]\<rparr>)) = fst (audit_query env f n w)
    \<and> (f = f\<lparr>af_actor := None, af_skill := None, af_request := None\<rparr> \<longrightarrow>
       fst (query_outcome_rows env f n (w\<lparr>aw_store := aw_store w @ [new]\<rparr>)) = fst (query_outcome_rows env f n w))"
proof -
  have "select_rows f n (aw_store w @ [new]) = select_rows f n (aw_store w)"
    by (rule select_full) (use assms in \<open>auto simp: list_all_iff\<close>)
  moreover have "f\<lparr>af_actor := None, af_skill := None, af_request := None\<rparr> = f"
    if "f = f\<lparr>af_actor := None, af_skill := None, af_request := None\<rparr>" using that by (rule sym)
  ultimately show ?thesis
    by (auto simp: audit_query_def query_outcome_rows_def access_db_def getA_def Let_def split: option.split)
qed

lemma full_query_misses_new_events_witness:
  "fst (query_outcome_rows plain_env any_event 1 (empty_tables\<lparr>aw_store :=
     [sample_row ''r1'' ''sd-default'' ''2026-06-01'', sample_row ''r2'' ''sd-default'' ''2026-06-02'']\<rparr>)) =
   fst (query_outcome_rows plain_env any_event 1 (empty_tables\<lparr>aw_store := [sample_row ''r1'' ''sd-default'' ''2026-06-01'']\<rparr>))"
proof -
  let ?w = "empty_tables\<lparr>aw_store := [sample_row ''r1'' ''sd-default'' ''2026-06-01'']\<rparr>"
  let ?new = "sample_row ''r2'' ''sd-default'' ''2026-06-02''"
  have older: "list_all (\<lambda>r. sv_at (sr_event r) \<le> sv_at (sr_event ?new)) (aw_store ?w)" by code_simp
  have "fst (query_outcome_rows plain_env any_event 1 (?w\<lparr>aw_store := aw_store ?w @ [?new]\<rparr>)) =
      fst (query_outcome_rows plain_env any_event 1 ?w)"
    using full_query_misses_new_events [of 1 any_event ?w ?new plain_env] older
    by (simp add: any_event_def event_matches_def wanted_def)
  then show ?thesis by simp
qed

section \<open>The statistics add up\<close>

definition count_in :: "(string \<times> int) list \<Rightarrow> string \<Rightarrow> int" where
  "count_in d k = (case map_of d k of None \<Rightarrow> 0 | Some n \<Rightarrow> n)"

definition bucket_in :: "bucket_counts \<Rightarrow> string \<Rightarrow> (string \<times> int) list" where
  "bucket_in b k = (case map_of b k of None \<Rightarrow> [] | Some c \<Rightarrow> c)"

lemma count_in_up: "count_in (count_up d k) j = count_in d j + (if j = k then 1 else 0)"
  by (simp add: count_in_def count_up_def)

lemma sum_dset: "distinct (map fst d) \<Longrightarrow>
    sum_list (map g (dset d k v)) = sum_list (map g d) + g (k, v) - (case map_of d k of None \<Rightarrow> 0 | Some w \<Rightarrow> g (k, w))"
  for g :: "_ \<Rightarrow> int"
proof (induction d k v rule: dset.induct)
  case (2 k' w d k v)
  then show ?case by (auto simp: map_of_eq_None_iff [symmetric] split: option.split)
qed simp

lemma total_up: "distinct (map fst d) \<Longrightarrow> bucket_total (count_up d k) = bucket_total d + 1"
  by (simp add: bucket_total_def count_up_def sum_dset split: option.split)

text \<open>What the loop keeps.\<close>

definition counted :: "audit_env \<Rightarrow> string \<Rightarrow> string \<Rightarrow> stored_event list \<Rightarrow> bucket_counts \<times> (string \<times> int) list \<Rightarrow> bool" where
  "counted env bucket dimension es acc \<longleftrightarrow>
     distinct (map fst (fst acc)) \<and> distinct (map fst (snd acc)) \<and>
     (\<forall>k c. map_of (fst acc) k = Some c \<longrightarrow> distinct (map fst c)) \<and>
     (\<forall>k v. count_in (bucket_in (fst acc) k) v =
        int (length (filter (\<lambda>e. bucket_key env bucket (sv_at e) = Inr k \<and> dimension_value dimension e = Inr v) es))) \<and>
     (\<forall>v. count_in (snd acc) v = int (length (filter (\<lambda>e. dimension_value dimension e = Inr v) es))) \<and>
     sum_list (map (\<lambda>b. bucket_total (snd b)) (fst acc)) = int (length es) \<and> bucket_total (snd acc) = int (length es)"

lemma counted_step:
  assumes "counted env bucket dimension es acc" and "count_event env bucket dimension acc e = Inr acc'"
  shows "counted env bucket dimension (es @ [e]) acc'"
proof -
  obtain b t where acc: "acc = (b, t)" by (cases acc)
  obtain k v where kv: "bucket_key env bucket (sv_at e) = Inr k" "dimension_value dimension e = Inr v"
      and acc': "acc' = (dset b k (count_up (bucket_in b k) v), count_up t v)"
    using assms(2) by (auto simp: count_event_def acc result_simps Let_def bucket_in_def)
  have old: "distinct (map fst b)" "distinct (map fst t)" "\<And>k c. map_of b k = Some c \<Longrightarrow> distinct (map fst c)"
      "sum_list (map (\<lambda>b. bucket_total (snd b)) b) = int (length es)" "bucket_total t = int (length es)"
    using assms(1) by (auto simp: counted_def acc)
  have inner: "distinct (map fst (bucket_in b k))" using old(3) by (auto simp: bucket_in_def split: option.split)
  have up: "bucket_in (dset b k c) j = (if j = k then c else bucket_in b j)" for c j by (simp add: bucket_in_def)
  have "sum_list (map (\<lambda>b. bucket_total (snd b)) (dset b k (count_up (bucket_in b k) v))) = int (length es) + 1"
    using old(1,4) total_up [OF inner]
    by (simp add: sum_dset bucket_in_def split: option.splits) (simp add: bucket_total_def)
  moreover have "distinct (map fst (count_up (bucket_in b k) v))" "distinct (map fst (count_up t v))"
    unfolding count_up_def using inner old(2) by (simp_all add: distinct_dset)
  moreover have "count_in (bucket_in (dset b k (count_up (bucket_in b k) v)) j) u =
      int (length (filter (\<lambda>e. bucket_key env bucket (sv_at e) = Inr j \<and> dimension_value dimension e = Inr u) (es @ [e])))" for j u
    using assms(1) kv by (simp add: counted_def acc up count_in_up)
  moreover have "count_in (count_up t v) u = int (length (filter (\<lambda>e. dimension_value dimension e = Inr u) (es @ [e])))" for u
    using assms(1) kv by (simp add: counted_def acc count_in_up)
  ultimately show ?thesis
    using old(1-3,5) by (simp add: counted_def acc' distinct_dset total_up)
qed

lemma counted_events:
  assumes "count_events env bucket dimension es = Inr acc"
  shows "counted env bucket dimension es acc"
  using assms
proof (induction es arbitrary: acc rule: rev_induct)
  case Nil
  then show ?case by (auto simp: count_events_def counted_def bucket_in_def count_in_def bucket_total_def)
next
  case (snoc e es)
  then obtain mid where "count_events env bucket dimension es = Inr mid" "count_event env bucket dimension mid e = Inr acc"
    by (auto simp: count_events_def result_simps)
  then show ?case using snoc.IH counted_step by blast
qed

text \<open>the counts of the statistics are exact and add up: the cell of a bucket and a dimension value is the number of
  scanned events of that bucket and value, the total of a value is the number of events that have it, and both the
  totals of the buckets and the totals of the values sum to the number of events scanned.\<close>

lemma statistics_add_up:
  assumes "count_events env bucket dimension es = Inr (buckets, totals)"
  shows "count_in (bucket_in buckets k) v =
      int (length (filter (\<lambda>e. bucket_key env bucket (sv_at e) = Inr k \<and> dimension_value dimension e = Inr v) es)) \<and>
    count_in totals v = int (length (filter (\<lambda>e. dimension_value dimension e = Inr v) es)) \<and>
    sum_list (map (\<lambda>b. bucket_total (snd b)) buckets) = int (length es) \<and> bucket_total totals = int (length es)"
  using counted_events [OF assms] by (simp add: counted_def)

section \<open>What the rules report\<close>

lemma group_rows_snoc:
  "group_rows f (rows @ [r]) =
     dset (group_rows f rows) (f r) ((case map_of (group_rows f rows) (f r) of None \<Rightarrow> [] | Some xs \<Rightarrow> xs) @ [r])"
  by (simp add: group_rows_def)

lemma map_of_group_rows:
  "map_of (group_rows f rows) k = (let g = filter (\<lambda>r. f r = k) rows in if g = [] then None else Some g)"
proof (induction rows rule: rev_induct)
  case Nil
  show ?case by (simp add: group_rows_def)
next
  case (snoc r rows)
  then show ?case
    by (cases "k = f r"; cases "filter (\<lambda>x. f x = k) rows = []") (simp_all add: group_rows_snoc Let_def)
qed

lemma distinct_group_rows: "distinct (map fst (group_rows f rows))"
proof (induction rows rule: rev_induct)
  case Nil
  show ?case by (simp add: group_rows_def)
next
  case (snoc r rows)
  then show ?case unfolding group_rows_snoc by (rule distinct_dset)
qed

text \<open>A rule that reports each group under its key reports for a key what it reports for that group.\<close>

lemma reports_of_key:
  assumes "distinct (map fst gs)" and "\<And>g a. a \<in> set (rule g) \<Longrightarrow> key a = fst g"
  shows "filter (\<lambda>a. key a = k) (concat (map rule gs)) = (case map_of gs k of None \<Rightarrow> [] | Some rs \<Rightarrow> rule (k, rs))"
  using assms(1)
proof (induction gs)
  case (Cons g gs)
  have one: "filter (\<lambda>a. key a = k) (rule g) = (if fst g = k then rule g else [])"
  proof (cases "fst g = k")
    case True
    then show ?thesis using assms(2) by (auto intro!: filter_True)
  next
    case False
    then show ?thesis using assms(2) by (auto intro!: filter_False)
  qed
  have rest: "fst g \<notin> fst ` set gs" using Cons.prems by simp
  then have "map_of gs (fst g) = None" by (simp add: map_of_eq_None_iff)
  then show ?case using Cons one by (cases g) auto
qed simp

definition failures_of :: "store_row list \<Rightarrow> string \<Rightarrow> store_row list" where
  "failures_of rows actor = filter (\<lambda>r. row_failed r \<and> row_actor r = actor) rows"

lemma failures_reported:
  "filter (\<lambda>a. an_actor a = x) (detect_high_failure_rate th rows) =
     (if failures_of rows x = [] then [] else failure_anomaly th (x, failures_of rows x))"
proof -
  have key: "an_actor a = fst g" if "a \<in> set (failure_anomaly th g)" for g a
    using that by (auto simp: failure_anomaly_def split: if_splits)
  show ?thesis
    unfolding detect_high_failure_rate_def
    by (subst reports_of_key [OF distinct_group_rows key]) (auto simp: map_of_group_rows failures_of_def Let_def)
qed

lemma cross_reported:
  "filter (\<lambda>a. an_actor a = x) (concat (map cross_tenant_anomaly (group_rows row_actor rows))) =
     (let g = filter (\<lambda>r. row_actor r = x) rows in if g = [] then [] else cross_tenant_anomaly (x, g))"
proof -
  have key: "an_actor a = fst g" if "a \<in> set (cross_tenant_anomaly g)" for g a
    using that by (auto simp: cross_tenant_anomaly_def Let_def split: if_splits)
  show ?thesis
    by (subst reports_of_key [OF distinct_group_rows key]) (auto simp: map_of_group_rows Let_def)
qed

lemma two_tenants:
  "length (sort (remdups (map row_tenant g))) > 1 \<longleftrightarrow> (\<exists>r \<in> set g. \<exists>q \<in> set g. row_tenant r \<noteq> row_tenant q)"
proof -
  have len: "length (sort (remdups (map row_tenant g))) = card (row_tenant ` set g)"
    by (simp add: length_remdups_card_conv)
  show ?thesis unfolding len
    using card_le_Suc0_iff_eq [of "row_tenant ` set g"] by (auto simp: not_le [symmetric])
qed

text \<open>the scan reports exactly what its rules say. For every actor: the failure rule gives one report when the
  actor failed at least the threshold number of times (and at least once), with that number as its count, medium below
  twice the threshold and high from there, and none otherwise; the tenant rule gives a report exactly when two of the
  actor's rows are of different tenants. A report cites at most five requests, all of the actor.\<close>

lemma anomaly_rules_exact:
  "(case filter (\<lambda>a. an_actor a = x) (detect_high_failure_rate th rows) of
      [] \<Rightarrow> failures_of rows x = [] \<or> int (length (failures_of rows x)) < th
    | [a] \<Rightarrow> an_count a = length (failures_of rows x) \<and> th \<le> int (an_count a) \<and>
        (an_severity a = ''high'') = (2 * th \<le> int (an_count a)) \<and> length (an_evidence a) \<le> 5 \<and>
        set (an_evidence a) \<subseteq> row_request ` set (failures_of rows x)
    | _ \<Rightarrow> False) \<and>
   (filter (\<lambda>a. an_actor a = x) (concat (map cross_tenant_anomaly (group_rows row_actor rows))) \<noteq> []) =
     (\<exists>r q. r \<in> set rows \<and> q \<in> set rows \<and> row_actor r = x \<and> row_actor q = x \<and> row_tenant r \<noteq> row_tenant q)"
proof
  have cited: "set (evidence g) \<subseteq> row_request ` set g" "length (evidence g) \<le> 5" for g
    using set_take_subset [of 5 "first_occurrences (map row_request g)"]
    by (auto simp: evidence_def first_occurrences_def)
  show "case filter (\<lambda>a. an_actor a = x) (detect_high_failure_rate th rows) of
      [] \<Rightarrow> failures_of rows x = [] \<or> int (length (failures_of rows x)) < th
    | [a] \<Rightarrow> an_count a = length (failures_of rows x) \<and> th \<le> int (an_count a) \<and>
        (an_severity a = ''high'') = (2 * th \<le> int (an_count a)) \<and> length (an_evidence a) \<le> 5 \<and>
        set (an_evidence a) \<subseteq> row_request ` set (failures_of rows x)
    | _ \<Rightarrow> False"
    unfolding failures_reported using cited [of "failures_of rows x"]
    by (cases "failures_of rows x = []"; cases "th \<le> int (length (failures_of rows x))")
       (simp_all add: failure_anomaly_def)
  show "(filter (\<lambda>a. an_actor a = x) (concat (map cross_tenant_anomaly (group_rows row_actor rows))) \<noteq> []) =
     (\<exists>r q. r \<in> set rows \<and> q \<in> set rows \<and> row_actor r = x \<and> row_actor q = x \<and> row_tenant r \<noteq> row_tenant q)"
  proof -
    let ?g = "filter (\<lambda>r. row_actor r = x) rows"
    have "(filter (\<lambda>a. an_actor a = x) (concat (map cross_tenant_anomaly (group_rows row_actor rows))) \<noteq> []) =
        (length (sort (remdups (map row_tenant ?g))) > 1)"
      unfolding cross_reported by (cases "?g = []") (simp_all add: cross_tenant_anomaly_def Let_def)
    also have "\<dots> = (\<exists>r \<in> set ?g. \<exists>q \<in> set ?g. row_tenant r \<noteq> row_tenant q)" by (rule two_tenants)
    also have "\<dots> = (\<exists>r q. r \<in> set rows \<and> q \<in> set rows \<and> row_actor r = x \<and> row_actor q = x \<and> row_tenant r \<noteq> row_tenant q)"
      unfolding set_filter by blast
    finally show ?thesis .
  qed
qed

end
