(* ===== verification/AuditFlight.thy ===== *)
theory AuditFlight
  imports AuditQuerySafe "HOL-Library.Multiset"
begin

text \<open>
  Emissions of concurrent requests. The sink of \<^verbatim>\<open>command/runtime.py\<close> commits to the audit store and to the main
  database one after the other, with no lock around both, and the bus appends to its buffer afterwards: an emission
  is three moves, and those of other requests can come between any two of them. The model of \<^theory_text>\<open>AuditStore\<close> is
  the one where nothing comes between.
\<close>

section \<open>The three moves\<close>

definition store_part ::
    "audit_env \<Rightarrow> string \<Rightarrow> string \<Rightarrow> string \<Rightarrow> string \<Rightarrow> dict \<Rightarrow> (unit, audit_world) act" where
  "store_part env request actor skill phase payload =
     bindA (getA (\<lambda>w. av_clock env (aw_ticks w))) (\<lambda>now.
     bindA (audit_append env (sink_event now request actor skill phase payload)) (\<lambda>_. retA ()))"

definition write_failed :: "exn \<Rightarrow> ('a, audit_world) act" where
  "write_failed e = throwA (audit_write_error (ex_text e))"

definition begin_emission :: "audit_env \<Rightarrow> new_event \<Rightarrow> (new_event, audit_world) act" where
  "begin_emission env ev =
     (if nv_request ev = [] \<or> nv_actor ev = [] \<or> nv_skill ev = []
      then throwA (audit_write_error ''audit_event missing required fields (request_id/actor/skill_id)'')
      else if \<not> av_sink env then throwA (audit_write_error ''durable audit sink is not configured'')
      else
        let raw = py_or (opt_json (nv_class ev)) (dget (event_dict ev) ''audit_class'')
        in bindA (liftE py_exn (normalize_audit_class raw)) (\<lambda>normalized.
           let p = enriched_payload ev raw normalized
           in tryA (store_part env (nv_request ev) (nv_actor ev) (nv_skill ev) (nv_phase ev) p) write_failed
                (\<lambda>_. retA (ev\<lparr>nv_payload := JObj p, nv_class := Some normalized\<rparr>))))"

definition main_part :: "audit_env \<Rightarrow> new_event \<Rightarrow> (unit, audit_world) act" where
  "main_part env b =
     tryA (main_append env (nv_request b) (nv_actor b) (nv_skill b) (nv_phase b) (event_dict b)) write_failed (\<lambda>_. retA ())"

definition buffer_part :: "new_event \<Rightarrow> (unit, audit_world) act" where
  "buffer_part b = modifyA (\<lambda>w. w\<lparr>aw_buffer := aw_buffer w @ [b]\<rparr>)"

lemma multiplex_parts:
  "multiplex_sink env request actor skill phase payload w =
     bindA (store_part env request actor skill phase payload) (\<lambda>_. main_append env request actor skill phase payload) w"
  by (simp add: multiplex_sink_def store_part_def sink_event_def bindA_def getA_def retA_def split: sum.split prod.split)

text \<open>Without moves of others in between the three are the emission of the bus.\<close>

lemma bus_emit_parts:
  "bus_emit env ev w = bindA (begin_emission env ev) (\<lambda>b. bindA (main_part env b) (\<lambda>_. buffer_part b)) w"
proof (cases "normalize_audit_class (py_or (opt_json (nv_class ev)) (dget (event_dict ev) ''audit_class''))")
  case (Inr n)
  show ?thesis
    by (simp add: bus_emit_def begin_emission_def Let_def Inr liftE_def bindA_def tryA_def multiplex_parts main_part_def
        buffer_part_def write_failed_def throwA_def retA_def modifyA_def event_dict_def split: sum.split prod.split)
qed (simp add: bus_emit_def begin_emission_def Let_def liftE_def bindA_def throwA_def)

section \<open>Emissions in flight\<close>

text \<open>The emissions that have their row in the store, with whether they have the one in the main table.\<close>

record audit_flight =
  af_world :: audit_world
  af_flying :: "(new_event \<times> bool) list"

datatype flight_move = Begin new_event | Main nat | Buffer nat

definition without :: "nat \<Rightarrow> 'a list \<Rightarrow> 'a list" where
  "without i xs = take i xs @ drop (Suc i) xs"

fun flight_step :: "audit_env \<Rightarrow> audit_flight \<Rightarrow> flight_move \<Rightarrow> audit_flight" where
  "flight_step env s (Begin ev) =
     (case begin_emission env ev (af_world s) of
        (Inl _, w) \<Rightarrow> s\<lparr>af_world := w\<rparr>
      | (Inr b, w) \<Rightarrow> s\<lparr>af_world := w, af_flying := af_flying s @ [(b, False)]\<rparr>)"
| "flight_step env s (Main i) =
     (if length (af_flying s) \<le> i \<or> snd (af_flying s ! i) then s
      else case main_part env (fst (af_flying s ! i)) (af_world s) of
             (Inl _, w) \<Rightarrow> s\<lparr>af_world := w, af_flying := without i (af_flying s)\<rparr>
           | (Inr _, w) \<Rightarrow> s\<lparr>af_world := w, af_flying := (af_flying s)[i := (fst (af_flying s ! i), True)]\<rparr>)"
| "flight_step env s (Buffer i) =
     (if length (af_flying s) \<le> i \<or> \<not> snd (af_flying s ! i) then s
      else s\<lparr>af_world := snd (buffer_part (fst (af_flying s ! i)) (af_world s)), af_flying := without i (af_flying s)\<rparr>)"

definition flight_run :: "audit_env \<Rightarrow> flight_move list \<Rightarrow> audit_flight" where
  "flight_run env moves = foldl (flight_step env) \<lparr>af_world = empty_tables, af_flying = []\<rparr> moves"

section \<open>What holds at every moment\<close>

definition event_key :: "new_event \<Rightarrow> string \<times> string \<times> string \<times> string" where
  "event_key b = (nv_request b, nv_actor b, nv_skill b, nv_phase b)"

definition waiting :: "(new_event \<times> bool) list \<Rightarrow> (string \<times> string \<times> string \<times> string) multiset" where
  "waiting xs = mset (map (\<lambda>x. event_key (fst x)) (filter (\<lambda>x. \<not> snd x) xs))"

definition arrived :: "(new_event \<times> bool) list \<Rightarrow> nat" where
  "arrived xs = length (filter snd xs)"

definition flight_ok :: "audit_flight \<Rightarrow> bool" where
  "flight_ok s \<longleftrightarrow>
     mset (map main_key (aw_main (af_world s))) + waiting (af_flying s) \<subseteq># mset (map store_key (aw_store (af_world s))) \<and>
     length (aw_buffer (af_world s)) + arrived (af_flying s) = length (aw_main (af_world s))"

lemma begin_cases:
  assumes "begin_emission env ev w = (r, w')"
  obtains (failed) x where "r = Inl x" "emission w w'"
    | (stored) b e where "r = Inr b" "aw_main w' = aw_main w" "aw_buffer w' = aw_buffer w"
        "aw_store w' = aw_store w @ [store_row_of e]" "event_key b = store_key (store_row_of e)"
proof (cases "nv_request ev = [] \<or> nv_actor ev = [] \<or> nv_skill ev = [] \<or> \<not> av_sink env \<or>
    (\<exists>x. normalize_audit_class (py_or (opt_json (nv_class ev)) (dget (event_dict ev) ''audit_class'')) = Inl x)")
  case True
  then have "\<exists>x. r = Inl x" "w' = w"
    using assms by (auto simp: begin_emission_def throwA_def Let_def bindA_def liftE_def split: if_splits)
  then show thesis using failed by (auto simp: emission_def)
next
  case False
  then obtain n where n: "normalize_audit_class (py_or (opt_json (nv_class ev)) (dget (event_dict ev) ''audit_class'')) = Inr n"
    by (metis sum.exhaust)
  let ?p = "enriched_payload ev (py_or (opt_json (nv_class ev)) (dget (event_dict ev) ''audit_class'')) n"
  let ?now = "av_clock env (aw_ticks w)"
  let ?ev = "sink_event ?now (nv_request ev) (nv_actor ev) (nv_skill ev) (nv_phase ev) ?p"
  obtain r1 w1 where first: "audit_append env ?ev w = (r1, w1)" by (meson surj_pair)
  have run: "(r, w') = (case r1 of Inl e \<Rightarrow> (Inl (audit_write_error (ex_text e)), w1)
      | Inr _ \<Rightarrow> (Inr (ev\<lparr>nv_payload := JObj ?p, nv_class := Some n\<rparr>), w1))"
    using assms False n first
    by (simp add: begin_emission_def Let_def bindA_def liftE_def tryA_def store_part_def getA_def retA_def write_failed_def
        throwA_def split: sum.splits)
  from first show thesis
  proof (cases rule: audit_append_cases)
    case (failed x)
    then show thesis using run that(1) by (simp add: emission_def same_tables_def)
  next
    case (stored e)
    then show thesis
      using run stored_of_fields [OF stored(2)] that(2) [of "ev\<lparr>nv_payload := JObj ?p, nv_class := Some n\<rparr>" e]
      by (simp add: event_key_def store_key_def store_row_of_def sink_event_def)
  qed
qed

lemma main_cases:
  assumes "main_part env b w = (r, w')"
  obtains (failed) x where "r = Inl x" "same_tables w w'"
    | (stored) m where "r = Inr ()" "aw_store w' = aw_store w" "aw_buffer w' = aw_buffer w" "aw_main w' = aw_main w @ [m]"
        "main_key m = event_key b"
proof -
  obtain r1 w1 where first: "main_append env (nv_request b) (nv_actor b) (nv_skill b) (nv_phase b) (event_dict b) w = (r1, w1)"
    by (meson surj_pair)
  have run: "(r, w') = (case r1 of Inl e \<Rightarrow> (Inl (audit_write_error (ex_text e)), w1) | Inr _ \<Rightarrow> (Inr (), w1))"
    using assms first by (auto simp: main_part_def tryA_def write_failed_def throwA_def retA_def split: sum.splits)
  from first show thesis
  proof (cases rule: main_append_cases)
    case (failed x)
    then show thesis using run that(1) by simp
  next
    case (stored m)
    then show thesis using run that(2) [of m] by (simp add: main_key_def event_key_def)
  qed
qed

lemma split_at: "i < length xs \<Longrightarrow> xs = take i xs @ xs ! i # drop (Suc i) xs"
  by (rule id_take_nth_drop)

lemma counts_without:
  assumes "i < length xs"
  shows "waiting xs = (if snd (xs ! i) then {#} else {#event_key (fst (xs ! i))#}) + waiting (without i xs)"
    "arrived xs = (if snd (xs ! i) then 1 else 0) + arrived (without i xs)"
proof -
  have "waiting xs = waiting (take i xs @ xs ! i # drop (Suc i) xs)" "arrived xs = arrived (take i xs @ xs ! i # drop (Suc i) xs)"
    using split_at [OF assms] by simp_all
  then show "waiting xs = (if snd (xs ! i) then {#} else {#event_key (fst (xs ! i))#}) + waiting (without i xs)"
    "arrived xs = (if snd (xs ! i) then 1 else 0) + arrived (without i xs)"
    by (simp_all add: waiting_def arrived_def without_def)
qed

lemma counts_update:
  assumes "i < length xs"
  shows "waiting (xs[i := y]) = (if snd y then {#} else {#event_key (fst y)#}) + waiting (without i xs)"
    "arrived (xs[i := y]) = (if snd y then 1 else 0) + arrived (without i xs)"
  using assms by (simp_all add: waiting_def arrived_def without_def upd_conv_take_nth_drop)

lemma counts_new [simp]: "waiting (xs @ [(b, False)]) = waiting xs + {#event_key b#}" "arrived (xs @ [(b, False)]) = arrived xs"
  by (simp_all add: waiting_def arrived_def)

lemma flight_ok_step:
  assumes "flight_ok s"
  shows "flight_ok (flight_step env s mv)"
proof (cases mv)
  case (Begin ev)
  obtain r w where run: "begin_emission env ev (af_world s) = (r, w)" by (meson surj_pair)
  then show ?thesis
    by (cases rule: begin_cases)
       (use assms Begin run in \<open>auto simp: flight_ok_def emission_def intro: subset_mset.order_trans\<close>)
next
  case (Main i)
  show ?thesis
  proof (cases "length (af_flying s) \<le> i \<or> snd (af_flying s ! i)")
    case False
    then have i: "i < length (af_flying s)" "\<not> snd (af_flying s ! i)" by simp_all
    obtain r w where run: "main_part env (fst (af_flying s ! i)) (af_world s) = (r, w)" by (meson surj_pair)
    then show ?thesis
    proof (cases rule: main_cases)
      case (failed x)
      then show ?thesis
        using assms Main i run counts_without [OF i(1)]
        by (auto simp: flight_ok_def same_tables_def dest: subset_mset.order_trans [rotated] mset_subset_eq_insertD)
    next
      case (stored m)
      then show ?thesis
        using assms Main i run counts_without [OF i(1)] counts_update [OF i(1)] by (simp add: flight_ok_def)
    qed
  qed (use assms Main in auto)
next
  case (Buffer i)
  show ?thesis
  proof (cases "length (af_flying s) \<le> i \<or> \<not> snd (af_flying s ! i)")
    case False
    then have i: "i < length (af_flying s)" "snd (af_flying s ! i)" by simp_all
    then show ?thesis
      using assms Buffer counts_without [OF i(1)] by (simp add: flight_ok_def buffer_part_def modifyA_def)
  qed (use assms Buffer in auto)
qed

lemma flight_ok_run: "flight_ok (flight_run env moves)"
proof -
  have "flight_ok s \<Longrightarrow> flight_ok (foldl (flight_step env) s moves)" for s
    by (induction moves arbitrary: s) (simp_all add: flight_ok_step)
  then show ?thesis unfolding flight_run_def by (simp add: flight_ok_def waiting_def arrived_def empty_tables_def)
qed

text \<open>C22: whichever accesses to the databases fail and however the emissions of concurrent requests are interleaved,
  at every moment each event of the main table has a row of its own in the audit store with the same request, actor,
  skill and phase, beside those of the emissions that still wait for the main table; and the buffer of the bus holds
  one event for each event of the main table, but for those of the emissions that are about to append to it. An event
  can be in the store alone, never in the main table alone.\<close>

theorem main_table_within_store:
  "mset (map main_key (aw_main (af_world (flight_run env moves)))) +
     mset (map (\<lambda>x. event_key (fst x)) (filter (\<lambda>x. \<not> snd x) (af_flying (flight_run env moves))))
   \<subseteq># mset (map store_key (aw_store (af_world (flight_run env moves)))) \<and>
   length (aw_buffer (af_world (flight_run env moves))) + length (filter snd (af_flying (flight_run env moves))) =
     length (aw_main (af_world (flight_run env moves)))"
  using flight_ok_run [of env moves] by (simp add: flight_ok_def waiting_def arrived_def)

text \<open>The order of the two tables can differ: the second event to reach the store is the first in the main table.\<close>

definition plain_event :: "string \<Rightarrow> new_event" where
  "plain_event request = \<lparr>nv_request = request, nv_actor = ''u'', nv_skill = ''audit.list'', nv_phase = ''commit'',
     nv_payload = JObj [], nv_at = None, nv_tenant = None, nv_class = Some ''read-sensitive'', nv_type = None\<rparr>"

lemma orders_can_differ:
  "map main_key (aw_main (af_world (flight_run plain_env [Begin (plain_event ''a''), Begin (plain_event ''b''), Main 1, Main 0]))) =
     rev (map store_key (aw_store (af_world (flight_run plain_env
       [Begin (plain_event ''a''), Begin (plain_event ''b''), Main 1, Main 0])))) \<and>
   length (aw_main (af_world (flight_run plain_env [Begin (plain_event ''a''), Begin (plain_event ''b''), Main 1, Main 0]))) = 2"
  by code_simp

end
