(* ===== verification/CatalogRepo.thy ===== *)
theory CatalogRepo
  imports LegacyMap AuditTrail "HOL-Library.Product_Lexorder"
begin

text \<open>
  \<^verbatim>\<open>domain/repositories/catalog.py\<close>: catalogue entries, their published versions, their items, and the
  models a catalogue follows. Every writer is one transaction: it either commits, or leaves the tables as
  they were. A writer whose row names its origin also records the mapping of the old object. The
  clock is \<open>now\<close>, new identifiers come from \<open>uuid\<close>.
\<close>

section \<open>Columns\<close>

text \<open>What the database refuses: no value in a column that needs one, a list or an object in a
  text column, a second row with a unique key.\<close>

definition statement_error :: exn where "statement_error = mk_exn ''StatementError'' []"

definition case_exn :: "case_error \<Rightarrow> exn" where
  "case_exn e = (case e of MultipleResultsFound \<Rightarrow> mk_exn ''MultipleResultsFound'' [] | CasePy p \<Rightarrow> py_exn p)"

definition column_text :: "json \<Rightarrow> exn + string option" where
  "column_text v =
     (case v of
        JNull \<Rightarrow> Inr None
      | JStr s \<Rightarrow> Inr (Some s)
      | JInt i \<Rightarrow> Inr (Some (int_str i))
      | JBool b \<Rightarrow> Inr (Some (if b then ''true'' else ''false''))
      | _ \<Rightarrow> Inl statement_error)"

definition column_needed :: "json \<Rightarrow> exn + string" where
  "column_needed v = bindE (column_text v) (\<lambda>t. case t of None \<Rightarrow> Inl statement_error | Some s \<Rightarrow> Inr s)"

definition text_json :: "string option \<Rightarrow> json" where
  "text_json t = (case t of None \<Rightarrow> JNull | Some s \<Rightarrow> JStr s)"

text \<open>\<^verbatim>\<open>int(v)\<close>.\<close>

definition int_cast :: "json \<Rightarrow> exn + int" where
  "int_cast v = (case py_int v of Some i \<Rightarrow> Inr i
     | None \<Rightarrow> Inl (py_exn (case v of JStr s \<Rightarrow> ValueError | _ \<Rightarrow> TypeError)))"

section \<open>Tables\<close>

record centry_row =
  ce_id :: string
  ce_tenant :: string
  ce_code :: string
  ce_title :: string
  ce_status :: string
  ce_owner :: "string option"
  ce_region :: "string option"
  ce_summary :: json
  ce_updated :: nat

record cversion_row =
  cv_tenant :: string
  cv_code :: string
  cv_no :: string
  cv_status :: string
  cv_snapshot :: json
  cv_audit :: "string option"
  cv_by :: "string option"
  cv_created :: nat

record citem_row =
  ci_tenant :: string
  ci_item :: string
  ci_catalog :: string
  ci_resource :: "string option"
  ci_title :: string
  ci_kind :: string
  ci_order :: int
  ci_summary :: json
  ci_source :: "string option"

record cmodel_row =
  cm_tenant :: string
  cm_code :: string
  cm_title :: string
  cm_status :: string
  cm_owner :: "string option"
  cm_schema :: json
  cm_source :: "string option"

record cfield_row =
  cf_tenant :: string
  cf_model :: string
  cf_code :: string
  cf_title :: string
  cf_type :: string
  cf_sensitive :: "string option"
  cf_policy :: json
  cf_order :: int
  cf_source :: "string option"

record catalog_db =
  kd_entries :: "centry_row list"
  kd_versions :: "cversion_row list"
  kd_items :: "citem_row list"
  kd_models :: "cmodel_row list"
  kd_fields :: "cfield_row list"
  kd_legacy :: "legacy_row list"
  kd_next :: nat

definition empty_catalog_db :: catalog_db where
  "empty_catalog_db = \<lparr>kd_entries = [], kd_versions = [], kd_items = [], kd_models = [], kd_fields = [],
     kd_legacy = [], kd_next = 0\<rparr>"

definition entry_key :: "centry_row \<Rightarrow> string \<times> string" where "entry_key e = (ce_tenant e, ce_code e)"
definition version_key :: "cversion_row \<Rightarrow> string \<times> string \<times> string" where
  "version_key v = (cv_tenant v, cv_code v, cv_no v)"
definition item_key :: "citem_row \<Rightarrow> string \<times> string" where "item_key i = (ci_tenant i, ci_item i)"
definition model_key :: "cmodel_row \<Rightarrow> string \<times> string" where "model_key m = (cm_tenant m, cm_code m)"
definition field_key :: "cfield_row \<Rightarrow> string \<times> string \<times> string" where
  "field_key f = (cf_tenant f, cf_model f, cf_code f)"

section \<open>Entries\<close>

definition record_origin ::
    "nat \<Rightarrow> string \<Rightarrow> json \<Rightarrow> json \<Rightarrow> string \<Rightarrow> json \<Rightarrow> dict \<Rightarrow> legacy_row list \<Rightarrow> exn + legacy_row list" where
  "record_origin now tenant source old_ref canonical_type canonical_ref evidence rows =
     (if truthy source
      then raiseE py_exn (upsert_legacy_mapping now tenant
             [(''source_ref'', source), (''legacy_object_ref'', old_ref), (''canonical_type'', JStr canonical_type),
              (''canonical_ref'', canonical_ref), (''evidence_json'', JObj evidence)] rows)
      else Inr rows)"

text \<open>The table has no unique constraint on the code: a query for one row can find several.\<close>

definition entries_at :: "catalog_db \<Rightarrow> string \<Rightarrow> string \<Rightarrow> centry_row list" where
  "entries_at db tenant code = filter (\<lambda>e. entry_key e = (tenant, code)) (kd_entries db)"

definition get_entry :: "catalog_db \<Rightarrow> string \<Rightarrow> string \<Rightarrow> exn + centry_row option" where
  "get_entry db tenant code = raiseE case_exn (one_or_none (entries_at db tenant code))"

definition stamp_entry :: "nat \<Rightarrow> centry_row \<Rightarrow> centry_row \<Rightarrow> centry_row" where
  "stamp_entry now e e' = (if e' = e then e else e'\<lparr>ce_updated := now\<rparr>)"

definition entry_of ::
    "(nat \<Rightarrow> string) \<Rightarrow> nat \<Rightarrow> string \<Rightarrow> string \<Rightarrow> dict \<Rightarrow> json \<Rightarrow> centry_row option \<Rightarrow> catalog_db \<Rightarrow> exn + centry_row" where
  "entry_of uuid now tenant code resource name found db =
     bindE (column_needed name) (\<lambda>title.
     bindE (column_needed (dget_or resource ''status'' (JStr ''published''))) (\<lambda>status.
     bindE (column_text (dget_or resource ''provider'' (JStr []))) (\<lambda>owner.
     bindE (column_text (dget_or resource ''region_code''
              (case found of None \<Rightarrow> JNull | Some e \<Rightarrow> text_json (ce_region e)))) (\<lambda>region.
       Inr (case found of
              None \<Rightarrow> \<lparr>ce_id = uuid (kd_next db), ce_tenant = tenant, ce_code = code, ce_title = title,
                       ce_status = status, ce_owner = owner, ce_region = region,
                       ce_summary = safe_json (JObj resource), ce_updated = now\<rparr>
            | Some e \<Rightarrow> stamp_entry now e
                (e\<lparr>ce_title := title, ce_status := status, ce_owner := owner, ce_region := region,
                   ce_summary := safe_json (JObj resource)\<rparr>))))))"

definition upsert_from_resource ::
    "(nat \<Rightarrow> string) \<Rightarrow> nat \<Rightarrow> string \<Rightarrow> dict \<Rightarrow> catalog_db \<Rightarrow> exn + catalog_db" where
  "upsert_from_resource uuid now tenant resource db =
     bindE (raiseE py_exn (dict_item resource ''id'')) (\<lambda>i.
     bindE (column_needed i) (\<lambda>code.
     bindE (get_entry db tenant code) (\<lambda>found.
     bindE (raiseE py_exn (dict_item resource ''name'')) (\<lambda>name.
     bindE (entry_of uuid now tenant code resource name found db) (\<lambda>e.
     bindE (record_origin now tenant (dget resource ''source_ref'') (py_or (dget resource ''legacy_object_ref'') i)
              ''catalog_entry'' i
              [(''title'', name), (''lifecycle_status'', dget_or resource ''status'' (JStr ''published''))]
              (kd_legacy db)) (\<lambda>legacy.
       Inr (db\<lparr>kd_entries := save_row ce_id found e (kd_entries db), kd_legacy := legacy,
               kd_next := (if found = None then Suc (kd_next db) else kd_next db)\<rparr>)))))))"

section \<open>Versions\<close>

definition create_entry_version :: "nat \<Rightarrow> string \<Rightarrow> dict \<Rightarrow> catalog_db \<Rightarrow> exn + catalog_db" where
  "create_entry_version now tenant payload db =
     bindE (raiseE py_exn (dict_item payload ''catalog_code'')) (\<lambda>code.
     bindE (raiseE py_exn (dict_item payload ''version_no'')) (\<lambda>no.
     bindE (column_text (dget payload ''audit_ref'')) (\<lambda>audit.
     bindE (column_text (dget payload ''created_by'')) (\<lambda>by.
       let v = \<lparr>cv_tenant = tenant, cv_code = py_str code, cv_no = py_str no,
                cv_status = py_str (dget_or payload ''version_status'' (JStr ''draft'')),
                cv_snapshot = safe_json (py_or (dget payload ''snapshot_json'') (JObj [])),
                cv_audit = audit, cv_by = by, cv_created = now\<rparr>
       in if version_key v \<in> version_key ` set (kd_versions db) then Inl statement_error
          else Inr (db\<lparr>kd_versions := kd_versions db @ [v]\<rparr>)))))"

definition list_entry_versions :: "catalog_db \<Rightarrow> string \<Rightarrow> string \<Rightarrow> cversion_row list" where
  "list_entry_versions db tenant code =
     sort_key cv_created (filter (\<lambda>v. cv_tenant v = tenant \<and> cv_code v = code) (kd_versions db))"

section \<open>Items\<close>

definition item_summary :: "citem_row option \<Rightarrow> dict \<Rightarrow> exn + json" where
  "item_summary found item =
     (if truthy (dget item ''summary_json'') then Inr (safe_json (dget item ''summary_json''))
      else case found of
             None \<Rightarrow> Inr (safe_json (JObj item))
           | Some r \<Rightarrow> (case ci_summary r of JObj d \<Rightarrow> Inr (safe_json (JObj (dmerge d item)))
                        | _ \<Rightarrow> Inl (py_exn TypeError)))"

text \<open>The value an attribute had before, or the one a new row starts with.\<close>

definition old_or :: "'r option \<Rightarrow> ('r \<Rightarrow> 'a) \<Rightarrow> 'a \<Rightarrow> 'a" where
  "old_or found f fresh = (case found of None \<Rightarrow> fresh | Some r \<Rightarrow> f r)"

definition item_source :: "dict \<Rightarrow> citem_row option \<Rightarrow> json" where
  "item_source item found = dget_or item ''source_ref'' (old_or found (\<lambda>r. text_json (ci_source r)) JNull)"

definition item_of :: "string \<Rightarrow> string \<Rightarrow> dict \<Rightarrow> citem_row option \<Rightarrow> exn + citem_row" where
  "item_of tenant code item found =
     bindE (case found of None \<Rightarrow> raiseE py_exn (dict_item item ''catalog_code'')
            | Some r \<Rightarrow> Inr (dget_or item ''catalog_code'' (JStr (ci_catalog r)))) (\<lambda>catalog.
     bindE (int_cast (dget_or item ''display_order'' (JInt (old_or found ci_order 0)))) (\<lambda>order.
     bindE (item_summary found item) (\<lambda>summary.
     bindE (column_text (dget_or item ''resource_code'' (old_or found (\<lambda>r. text_json (ci_resource r)) JNull))) (\<lambda>resource.
     bindE (column_text (item_source item found)) (\<lambda>source.
       Inr \<lparr>ci_tenant = tenant, ci_item = code, ci_catalog = py_str catalog, ci_resource = resource,
            ci_title = py_str (dget_or item ''title'' (JStr (old_or found ci_title code))),
            ci_kind = py_str (dget_or item ''item_kind'' (JStr (old_or found ci_kind ''group''))),
            ci_order = order, ci_summary = summary, ci_source = source\<rparr>)))))"

definition upsert_item :: "nat \<Rightarrow> string \<Rightarrow> dict \<Rightarrow> catalog_db \<Rightarrow> exn + catalog_db" where
  "upsert_item now tenant item db =
     bindE (raiseE py_exn (dict_item item ''item_code'')) (\<lambda>c.
     let code = py_str c; found = row_by item_key (tenant, code) (kd_items db)
     in bindE (item_of tenant code item found) (\<lambda>r.
        bindE (record_origin now tenant (item_source item found) (py_or (dget item ''legacy_object_ref'') (JStr code))
                 ''catalog_item'' (JStr code)
                 [(''catalog_code'', JStr (ci_catalog r)), (''item_kind'', JStr (ci_kind r))] (kd_legacy db)) (\<lambda>legacy.
          Inr (db\<lparr>kd_items := save_row item_key found r (kd_items db), kd_legacy := legacy\<rparr>))))"

definition list_items :: "catalog_db \<Rightarrow> string \<Rightarrow> string option \<Rightarrow> citem_row list" where
  "list_items db tenant code =
     sort_key (\<lambda>i. (ci_catalog i, ci_order i, ci_item i))
       (filter (\<lambda>i. ci_tenant i = tenant \<and> (code = None \<or> code = Some [] \<or> code = Some (ci_catalog i)))
          (kd_items db))"

definition rebind_catalog_code :: "string \<Rightarrow> string \<Rightarrow> string \<Rightarrow> catalog_db \<Rightarrow> nat \<times> catalog_db" where
  "rebind_catalog_code tenant old new db =
     (if old = new then (0, db)
      else let hit = (\<lambda>i. ci_tenant i = tenant \<and> ci_catalog i = old)
           in (length (filter hit (kd_items db)),
               db\<lparr>kd_items := map (\<lambda>i. if hit i then i\<lparr>ci_catalog := new\<rparr> else i) (kd_items db)\<rparr>))"

section \<open>Models and their fields\<close>

definition model_source :: "dict \<Rightarrow> cmodel_row option \<Rightarrow> json" where
  "model_source payload found = dget_or payload ''source_ref'' (old_or found (\<lambda>r. text_json (cm_source r)) JNull)"

definition model_of :: "string \<Rightarrow> string \<Rightarrow> dict \<Rightarrow> cmodel_row option \<Rightarrow> exn + cmodel_row" where
  "model_of tenant code payload found =
     bindE (column_text (dget_or payload ''owner_org_id'' (old_or found (\<lambda>r. text_json (cm_owner r)) JNull))) (\<lambda>owner.
     bindE (column_text (model_source payload found)) (\<lambda>source.
       Inr \<lparr>cm_tenant = tenant, cm_code = code,
            cm_title = py_str (dget_or payload ''title'' (JStr (old_or found cm_title code))),
            cm_status = py_str (dget_or payload ''status'' (JStr (old_or found cm_status ''draft''))),
            cm_owner = owner,
            cm_schema = safe_json (py_or (dget payload ''model_schema_json'') (old_or found cm_schema (JObj []))),
            cm_source = source\<rparr>))"

definition upsert_model :: "nat \<Rightarrow> string \<Rightarrow> dict \<Rightarrow> catalog_db \<Rightarrow> exn + cmodel_row \<times> catalog_db" where
  "upsert_model now tenant payload db =
     bindE (raiseE py_exn (dict_item payload ''model_code'')) (\<lambda>c.
     let code = py_str c; found = row_by model_key (tenant, code) (kd_models db)
     in bindE (model_of tenant code payload found) (\<lambda>m.
        bindE (record_origin now tenant (model_source payload found)
                 (py_or (dget payload ''legacy_object_ref'') (JStr code)) ''catalog_model'' (JStr code)
                 [(''title'', JStr (cm_title m)), (''status'', JStr (cm_status m))] (kd_legacy db)) (\<lambda>legacy.
          Inr (m, db\<lparr>kd_models := save_row model_key found m (kd_models db), kd_legacy := legacy\<rparr>))))"

definition field_source :: "dict \<Rightarrow> cfield_row option \<Rightarrow> json" where
  "field_source payload found = dget_or payload ''source_ref'' (old_or found (\<lambda>r. text_json (cf_source r)) JNull)"

definition field_of :: "string \<Rightarrow> string \<Rightarrow> string \<Rightarrow> dict \<Rightarrow> cfield_row option \<Rightarrow> exn + cfield_row" where
  "field_of tenant model code payload found =
     bindE (int_cast (dget_or payload ''display_order'' (JInt (old_or found cf_order 0)))) (\<lambda>order.
     bindE (column_text (dget_or payload ''sensitive_level'' (old_or found (\<lambda>r. text_json (cf_sensitive r)) JNull))) (\<lambda>level.
     bindE (column_text (field_source payload found)) (\<lambda>source.
       Inr \<lparr>cf_tenant = tenant, cf_model = model, cf_code = code,
            cf_title = py_str (dget_or payload ''title'' (JStr (old_or found cf_title code))),
            cf_type = py_str (dget_or payload ''data_type'' (JStr (old_or found cf_type ''string''))),
            cf_sensitive = level,
            cf_policy = safe_json (py_or (dget payload ''field_policy_json'') (old_or found cf_policy (JObj []))),
            cf_order = order, cf_source = source\<rparr>)))"

definition upsert_model_field :: "nat \<Rightarrow> string \<Rightarrow> dict \<Rightarrow> catalog_db \<Rightarrow> exn + catalog_db" where
  "upsert_model_field now tenant payload db =
     bindE (raiseE py_exn (dict_item payload ''model_code'')) (\<lambda>mc.
     bindE (raiseE py_exn (dict_item payload ''field_code'')) (\<lambda>fc.
     let model = py_str mc; code = py_str fc; ref = JStr (model @ '':'' @ code);
         found = row_by field_key (tenant, model, code) (kd_fields db)
     in bindE (field_of tenant model code payload found) (\<lambda>f.
        bindE (record_origin now tenant (field_source payload found) (py_or (dget payload ''legacy_object_ref'') ref)
                 ''catalog_model_field'' ref
                 [(''model_code'', JStr model), (''field_code'', JStr code)] (kd_legacy db)) (\<lambda>legacy.
          Inr (db\<lparr>kd_fields := save_row field_key found f (kd_fields db), kd_legacy := legacy\<rparr>)))))"

definition list_models :: "catalog_db \<Rightarrow> string \<Rightarrow> cmodel_row list" where
  "list_models db tenant = sort_key cm_code (filter (\<lambda>m. cm_tenant m = tenant) (kd_models db))"

definition list_model_fields :: "catalog_db \<Rightarrow> string \<Rightarrow> string \<Rightarrow> cfield_row list" where
  "list_model_fields db tenant model =
     sort_key (\<lambda>f. (cf_order f, cf_code f))
       (filter (\<lambda>f. cf_tenant f = tenant \<and> cf_model f = model) (kd_fields db))"

definition list_model_fields_all :: "catalog_db \<Rightarrow> string \<Rightarrow> cfield_row list" where
  "list_model_fields_all db tenant =
     sort_key (\<lambda>f. (cf_model f, cf_order f, cf_code f)) (filter (\<lambda>f. cf_tenant f = tenant) (kd_fields db))"

section \<open>Searching entries\<close>

text \<open>The filters of \<^verbatim>\<open>_entry_list_statement\<close>: an absent or empty one does not filter. A prefix
  stands for itself: the two callers pass none or \<^verbatim>\<open>api-group:\<close>, which holds no wildcard.\<close>

record entry_query =
  eq_status :: "string option"
  eq_statuses :: "string list"
  eq_owner :: "string option"
  eq_prefix :: "string option"
  eq_not_prefix :: "string option"
  eq_not_code :: "string option"
  eq_recency :: bool

definition any_entry :: entry_query where
  "any_entry = \<lparr>eq_status = None, eq_statuses = [], eq_owner = None, eq_prefix = None, eq_not_prefix = None,
     eq_not_code = None, eq_recency = False\<rparr>"

definition asked :: "string option \<Rightarrow> (string \<Rightarrow> bool) \<Rightarrow> bool" where
  "asked f p = (case f of None \<Rightarrow> True | Some s \<Rightarrow> s = [] \<or> p s)"

definition entry_matches :: "string \<Rightarrow> entry_query \<Rightarrow> centry_row \<Rightarrow> bool" where
  "entry_matches tenant q e \<longleftrightarrow> ce_tenant e = tenant \<and>
     asked (eq_status q) (\<lambda>s. ce_status e = s) \<and>
     (eq_statuses q = [] \<or> ce_status e \<in> set (eq_statuses q)) \<and>
     asked (eq_owner q) (\<lambda>s. ce_owner e = Some s) \<and>
     asked (eq_prefix q) (\<lambda>s. starts_with s (ce_code e)) \<and>
     asked (eq_not_prefix q) (\<lambda>s. \<not> starts_with s (ce_code e)) \<and>
     asked (eq_not_code q) (\<lambda>s. ce_code e \<noteq> s)"

definition entry_list_statement :: "catalog_db \<Rightarrow> string \<Rightarrow> entry_query \<Rightarrow> centry_row list" where
  "entry_list_statement db tenant q =
     (let found = filter (entry_matches tenant q) (kd_entries db)
      in if eq_recency q then sort_key (\<lambda>e. (- int (ce_updated e), ce_code e)) found else sort_key ce_code found)"

definition list_entries :: "catalog_db \<Rightarrow> string \<Rightarrow> entry_query \<Rightarrow> nat option \<Rightarrow> nat \<Rightarrow> centry_row list" where
  "list_entries db tenant q limit offset =
     (let rows = drop offset (entry_list_statement db tenant q)
      in case limit of None \<Rightarrow> rows | Some n \<Rightarrow> take n rows)"

definition count_entries :: "catalog_db \<Rightarrow> string \<Rightarrow> entry_query \<Rightarrow> nat" where
  "count_entries db tenant q = length (filter (entry_matches tenant (q\<lparr>eq_not_code := None\<rparr>)) (kd_entries db))"

definition present_catalog_codes :: "catalog_db \<Rightarrow> string \<Rightarrow> string set" where
  "present_catalog_codes db tenant =
     set (filter (\<lambda>c. c \<noteq> []) (map ce_code (filter (\<lambda>e. ce_tenant e = tenant) (kd_entries db))))"

definition list_entries_by_codes :: "catalog_db \<Rightarrow> string \<Rightarrow> string list \<Rightarrow> centry_row list" where
  "list_entries_by_codes db tenant codes =
     (let wanted = filter (\<lambda>c. c \<noteq> []) codes
      in if wanted = [] then []
         else sort_key ce_code (filter (\<lambda>e. ce_tenant e = tenant \<and> ce_code e \<in> set wanted) (kd_entries db)))"

definition list_duplicate_candidates ::
    "catalog_db \<Rightarrow> string \<Rightarrow> string \<Rightarrow> string \<Rightarrow> string \<Rightarrow> string \<Rightarrow> string list \<Rightarrow> centry_row list" where
  "list_duplicate_candidates db tenant code title region owner statuses =
     (let same_title = (\<lambda>e. title \<noteq> [] \<and> ce_title e = title);
          same_place = (\<lambda>e. region \<noteq> [] \<and> owner \<noteq> [] \<and> ce_region e = Some region \<and> ce_owner e = Some owner)
      in if title = [] \<and> (region = [] \<or> owner = []) then []
         else sort_key ce_code
           (filter (\<lambda>e. ce_tenant e = tenant \<and> ce_code e \<noteq> code \<and> ce_status e \<in> set statuses \<and>
                        (same_title e \<or> same_place e)) (kd_entries db)))"

text \<open>\<^verbatim>\<open>search_entries\<close>: a text of the entry holds the words asked for, or one of four fixed words
  the question holds too. Lower-casing is that of ASCII.\<close>

definition joinable :: "json \<Rightarrow> exn + string" where
  "joinable v = (case v of JStr s \<Rightarrow> Inr s | _ \<Rightarrow> Inl (py_exn TypeError))"

definition joined_texts :: "dict \<Rightarrow> string \<Rightarrow> exn + string" where
  "joined_texts d k =
     bindE (raiseE py_exn (py_iter (dget_or d k (JList [])))) (\<lambda>vs.
     bindE (forE (\<lambda>acc v. bindE (joinable v) (\<lambda>s. Inr (acc @ [s]))) [] vs) (\<lambda>ts. Inr (join_sep '' '' ts)))"

definition entry_text :: "centry_row \<Rightarrow> exn + string" where
  "entry_text e =
     (case ce_summary e of
        JObj d \<Rightarrow>
          bindE (joined_texts d ''fields'') (\<lambda>fields.
          bindE (joined_texts d ''explain'') (\<lambda>explain.
            Inr (lower (join_sep '' '' [ce_code e, ce_title e, case ce_owner e of None \<Rightarrow> [] | Some s \<Rightarrow> s,
              py_str (dget_or d ''desc'' (JStr [])), py_str (dget_or d ''provider'' (JStr [])),
              py_str (dget_or d ''zone'' (JStr [])), fields, explain]))))
      | _ \<Rightarrow> Inl (py_exn AttributeError))"

definition search_words :: "string list" where
  "search_words = [lbl_se_legal, lbl_se_company, lbl_se_template, lbl_se_reuse]"

definition text_matches :: "string \<Rightarrow> string \<Rightarrow> bool" where
  "text_matches question text \<longleftrightarrow>
     contains (lower question) text \<or>
     list_ex (\<lambda>w. contains w question \<and> contains w text) search_words"

definition search_entries :: "catalog_db \<Rightarrow> string \<Rightarrow> string \<Rightarrow> entry_query \<Rightarrow> exn + centry_row list" where
  "search_entries db tenant question q =
     (let rows = entry_list_statement db tenant (q\<lparr>eq_recency := False, eq_not_code := None\<rparr>);
          question = strip_blanks question
      in if question = [] then Inr rows
         else forE (\<lambda>acc e. bindE (entry_text e) (\<lambda>t.
                      Inr (if text_matches question t then acc @ [e] else acc))) [] rows)"

end
