(* ===== verification/CatalogFlow.thy ===== *)
theory CatalogFlow
  imports CatalogRepo CaseRepo CallContext
begin

text \<open>
  The skills on catalogue entries: \<^verbatim>\<open>command/handlers/j1/catalog_entry.py\<close>,
  \<^verbatim>\<open>command/handlers/j2/duplicate_check.py\<close> and the model skill of
  \<^verbatim>\<open>command/handlers/j1/catalog_meta.py\<close>. A skill is what it checks before it enters the write
  pipeline, followed by the function it hands to it. Each call of a repository commits on its own, so a
  skill that raises half-way keeps what it has written.
\<close>

section \<open>State and calls\<close>

record catalog_sys =
  ks_db :: catalog_db
  ks_cases :: case_db
  ks_feed :: "(string \<times> string \<times> string \<times> string) list"

text \<open>The tenant of the process is read from its environment; the repositories that are not told
  another one use \<^verbatim>\<open>sd-default\<close>.\<close>

record catalog_call =
  kc_uuid :: "nat \<Rightarrow> string"
  kc_tenant :: string
  kc_now :: nat
  kc_audit :: string
  kc_actor :: string
  kc_role :: string

definition repo_tenant :: string where "repo_tenant = ''sd-default''"

type_synonym 'a catalog_act = "('a, catalog_sys) act"

definition commitA :: "(catalog_db \<Rightarrow> exn + catalog_db) \<Rightarrow> unit catalog_act" where
  "commitA f s = (case f (ks_db s) of Inl e \<Rightarrow> (Inl e, s) | Inr db \<Rightarrow> (Inr (), s\<lparr>ks_db := db\<rparr>))"

definition casesA :: "(case_db \<Rightarrow> case_error + case_db) \<Rightarrow> unit catalog_act" where
  "casesA f s = (case f (ks_cases s) of Inl e \<Rightarrow> (Inl (case_exn e), s) | Inr db \<Rightarrow> (Inr (), s\<lparr>ks_cases := db\<rparr>))"

definition queryA :: "(catalog_db \<Rightarrow> exn + 'a) \<Rightarrow> 'a catalog_act" where
  "queryA f s = (f (ks_db s), s)"

definition feedA :: "catalog_call \<Rightarrow> string \<Rightarrow> string \<Rightarrow> unit catalog_act" where
  "feedA c skill code = modifyA (\<lambda>s. s\<lparr>ks_feed := ks_feed s @ [(skill, code, ''ok'', kc_actor c)]\<rparr>)"

definition raiseA :: "'e + 'a \<Rightarrow> ('e \<Rightarrow> exn) \<Rightarrow> 'a catalog_act" where
  "raiseA m h = liftE h m"

definition not_found :: "string \<Rightarrow> exn" where "not_found code = mk_exn ''NotFoundError'' code"
definition invalid_state :: "string \<Rightarrow> exn" where "invalid_state t = mk_exn ''InvalidStateError'' t"

definition existing_entry :: "catalog_call \<Rightarrow> string \<Rightarrow> centry_row catalog_act" where
  "existing_entry c code =
     bindA (queryA (\<lambda>db. get_entry db (kc_tenant c) code)) (\<lambda>found.
       case found of None \<Rightarrow> throwA (not_found code) | Some e \<Rightarrow> retA e)"

definition save_entry :: "catalog_call \<Rightarrow> dict \<Rightarrow> unit catalog_act" where
  "save_entry c resource = commitA (upsert_from_resource (kc_uuid c) (kc_now c) (kc_tenant c) resource)"

definition summary_dict :: "centry_row \<Rightarrow> exn + dict" where
  "summary_dict e = (case ce_summary e of JObj d \<Rightarrow> Inr d | _ \<Rightarrow> Inl (py_exn TypeError))"

section \<open>Lifecycle labels\<close>

definition lifecycle_labels :: "(string \<times> string) list" where
  "lifecycle_labels =
     [(''draft'', lbl_lc_draft), (''pending_review'', lbl_lc_pending_review),
      (''pending_platform_review'', lbl_lc_platform_review), (''approved_pending_publish'', lbl_lc_approved),
      (''active'', lbl_lc_active), (''retired'', lbl_lc_retired), (''suspended'', lbl_lc_suspended),
      (''expired'', lbl_lc_expired), (''revoked'', lbl_lc_revoked), (''rejected'', lbl_lc_rejected)]"

definition lifecycle_label :: "json \<Rightarrow> string" where
  "lifecycle_label v =
     (let status = py_str (py_or v (JStr [])) in case map_of lifecycle_labels status of Some l \<Rightarrow> l | None \<Rightarrow> status)"

definition with_lifecycle_label :: "dict \<Rightarrow> dict" where
  "with_lifecycle_label d =
     (if map_of d ''lifecycle_status'' \<noteq> None
      then dset d ''lifecycle_label'' (JStr (lifecycle_label (dget d ''lifecycle_status''))) else d)"

section \<open>Required fields of an entry compiled online\<close>

definition inline_basic_required_fields :: "(string \<times> string) list" where
  "inline_basic_required_fields =
     [(''catalog_type'', lbl_cf_type), (''source_system'', lbl_cf_source), (''domain'', lbl_cf_domain),
      (''application_scenario'', lbl_cf_scenario), (''resource_format'', lbl_cf_format),
      (''business_update_cycle'', lbl_cf_business_cycle), (''data_update_cycle'', lbl_cf_data_cycle),
      (''shared_way'', lbl_cf_way), (''shared_type'', lbl_cf_shared_type), (''open_type'', lbl_cf_open_type),
      (''description'', lbl_cf_abstract)]"

definition conditional_share_type :: string where "conditional_share_type = ''2''"

definition blank_value :: "json \<Rightarrow> bool" where
  "blank_value v = (case v of JNull \<Rightarrow> True | JStr s \<Rightarrow> strip_blanks s = [] | _ \<Rightarrow> False)"

definition merged_basics :: "dict \<Rightarrow> dict" where
  "merged_basics summary =
     (case dget summary ''summary_json'' of JObj nested \<Rightarrow> dmerge nested summary | _ \<Rightarrow> summary)"

definition missing_inline_required_basic_fields :: "centry_row \<Rightarrow> string list" where
  "missing_inline_required_basic_fields e =
     (let summary = (case ce_summary e of JObj d \<Rightarrow> d | _ \<Rightarrow> [])
      in if map_of summary ''data_catalog_code'' = None then []
         else
           let merged = merged_basics summary
           in (if strip_blanks (ce_title e) = [] then [lbl_cf_title] else []) @
              map snd (filter (\<lambda>(k, l). blank_value (dget merged k)) inline_basic_required_fields) @
              (if py_str (py_or (dget merged ''shared_type'') (JStr [])) = conditional_share_type \<and>
                  blank_value (dget merged ''shared_condition'') then [lbl_cf_condition] else []))"

section \<open>Drafts and changes\<close>

definition derive_data_catalog_code :: "(string \<Rightarrow> string) \<Rightarrow> string \<Rightarrow> json \<Rightarrow> string" where
  "derive_data_catalog_code digest code region_code =
     (let region = strip_blanks (py_str (py_or region_code (JStr ''000000'')));
          region = (if region = [] then ''000000'' else region)
      in ''DRC-'' @ region @ ''-'' @ take 8 (digest code))"

definition save_item :: "catalog_call \<Rightarrow> string \<Rightarrow> json \<Rightarrow> unit catalog_act" where
  "save_item c code item =
     (case item of
        JObj d \<Rightarrow> commitA (upsert_item (kc_now c) (kc_tenant c) (dmerge d [(''catalog_code'', JStr code)]))
      | _ \<Rightarrow> throwA (py_exn TypeError))"

fun eachA :: "('a \<Rightarrow> (unit, 's) act) \<Rightarrow> 'a list \<Rightarrow> (unit, 's) act" where
  "eachA f [] = retA ()"
| "eachA f (x # xs) = bindA (f x) (\<lambda>_. eachA f xs)"

definition save_items :: "catalog_call \<Rightarrow> string \<Rightarrow> dict \<Rightarrow> unit catalog_act" where
  "save_items c code payload =
     bindA (raiseA (py_iter (py_or (dget payload ''items'') (JList []))) py_exn) (eachA (save_item c code))"

definition answer :: "catalog_call \<Rightarrow> string \<Rightarrow> string \<Rightarrow> dict \<Rightarrow> dict catalog_act" where
  "answer c code status extra =
     retA (with_lifecycle_label ([(''catalog_code'', JStr code), (''lifecycle_status'', JStr status),
       (''audit_id'', JStr (kc_audit c))] @ extra))"

definition given_dict :: "json \<Rightarrow> exn + dict" where
  "given_dict v = (case safe_json (py_or v (JObj [])) of JObj d \<Rightarrow> Inr d | _ \<Rightarrow> Inl (py_exn TypeError))"

definition draft_resource :: "(string \<Rightarrow> string) \<Rightarrow> string \<Rightarrow> dict \<Rightarrow> dict" where
  "draft_resource digest code payload =
     [(''id'', JStr code), (''name'', JStr (py_str (dget_or payload ''title'' (JStr code)))),
      (''status'', JStr ''draft''),
      (''provider'', first_of [dget payload ''owner_org_id'', JStr (caller_org_code payload), JStr []]),
      (''region_code'', dget payload ''region_code''), (''source_ref'', dget payload ''source_ref''),
      (''legacy_object_ref'', py_or (dget payload ''legacy_object_ref'') (JStr code)),
      (''data_catalog_code'', JStr (derive_data_catalog_code digest code (dget payload ''region_code''))),
      (''summary_json'', safe_json (py_or (dget payload ''summary_json'') (JObj [])))]"

definition code_argument :: "dict \<Rightarrow> string catalog_act" where
  "code_argument payload = bindA (raiseA (dict_item payload ''catalog_code'') py_exn) (\<lambda>v. retA (py_str v))"

definition create_catalog_entry_draft ::
    "(string \<Rightarrow> string) \<Rightarrow> catalog_call \<Rightarrow> dict \<Rightarrow> dict catalog_act" where
  "create_catalog_entry_draft digest c payload =
     bindA (code_argument payload) (\<lambda>code.
     bindA (save_entry c (draft_resource digest code payload)) (\<lambda>_.
     bindA (save_items c code payload) (\<lambda>_.
     bindA (feedA c ''catalog.entry.create_draft'' code) (\<lambda>_.
       answer c code ''draft''
         [(''data_catalog_code'', JStr (derive_data_catalog_code digest code (dget payload ''region_code'')))]))))"

text \<open>The keys a change writes over the stored summary.\<close>

definition update_overrides :: "string \<Rightarrow> centry_row \<Rightarrow> dict \<Rightarrow> dict \<Rightarrow> dict" where
  "update_overrides code e old payload =
     [(''id'', JStr code), (''name'', JStr (py_str (dget_or payload ''title'' (JStr (ce_title e))))),
      (''status'', JStr (ce_status e)),
      (''provider'', dget_or payload ''owner_org_id'' (JStr (case ce_owner e of None \<Rightarrow> [] | Some w \<Rightarrow> w))),
      (''region_code'', dget_or payload ''region_code'' (text_json (ce_region e))),
      (''source_ref'', py_or (dget payload ''source_ref'') (dget old ''source_ref'')),
      (''legacy_object_ref'', py_or (dget payload ''legacy_object_ref'') (JStr code))]"

definition update_catalog_entry :: "catalog_call \<Rightarrow> dict \<Rightarrow> dict catalog_act" where
  "update_catalog_entry c payload =
     bindA (code_argument payload) (\<lambda>code.
     bindA (existing_entry c code) (\<lambda>e.
     bindA (raiseA (summary_dict e) id) (\<lambda>old.
     bindA (raiseA (given_dict (dget payload ''summary_json'')) id) (\<lambda>given.
     bindA (save_entry c (dmerge (dmerge old given) (update_overrides code e old payload))) (\<lambda>_.
     bindA (save_items c code payload) (\<lambda>_.
     bindA (feedA c ''catalog.entry.update'' code) (\<lambda>_.
       answer c code (ce_status e) [])))))))"

section \<open>Transitions\<close>

definition ddel :: "string \<Rightarrow> dict \<Rightarrow> dict" where
  "ddel k d = filter (\<lambda>(j, _). j \<noteq> k) d"

text \<open>A note that is given is stored when it has text, and clears an older one when it has none.\<close>

definition note_summary :: "string option \<Rightarrow> dict \<Rightarrow> dict" where
  "note_summary note summary =
     (case note of
        None \<Rightarrow> summary
      | Some n \<Rightarrow>
          (let n = strip_blanks n
           in if n \<noteq> [] then dset summary ''review_return_reason'' (JStr n)
              else ddel ''review_return_reason'' summary))"

definition transition_resource :: "centry_row \<Rightarrow> string \<Rightarrow> dict \<Rightarrow> dict \<Rightarrow> dict" where
  "transition_resource e status old summary =
     dmerge summary
       [(''id'', JStr (ce_code e)), (''name'', JStr (ce_title e)), (''status'', JStr status),
        (''provider'', JStr (case ce_owner e of None \<Rightarrow> [] | Some w \<Rightarrow> w)),
        (''region_code'', text_json (ce_region e)), (''source_ref'', dget old ''source_ref''),
        (''legacy_object_ref'', JStr (ce_code e))]"

definition version_payload :: "catalog_call \<Rightarrow> centry_row \<Rightarrow> string \<Rightarrow> dict" where
  "version_payload c e status =
     [(''catalog_code'', JStr (ce_code e)), (''version_no'', JStr (status @ '':'' @ kc_audit c)),
      (''version_status'', JStr status),
      (''snapshot_json'', JObj [(''catalog_code'', JStr (ce_code e)), (''title'', JStr (ce_title e)),
         (''lifecycle_status'', JStr status), (''summary_json'', ce_summary e)]),
      (''audit_ref'', JStr (kc_audit c)), (''created_by'', JStr (kc_actor c))]"

definition transition_catalog_entry ::
    "catalog_call \<Rightarrow> string \<Rightarrow> string \<Rightarrow> string \<Rightarrow> string option \<Rightarrow> dict catalog_act" where
  "transition_catalog_entry c code status skill note =
     bindA (existing_entry c code) (\<lambda>e.
     bindA (raiseA (summary_dict e) id) (\<lambda>old.
     bindA (save_entry c (transition_resource e status old (note_summary note old))) (\<lambda>_.
     bindA (if status \<in> {''active'', ''retired''}
            then commitA (create_entry_version (kc_now c) repo_tenant (version_payload c e status))
            else retA ()) (\<lambda>_.
     bindA (casesA (upsert_lifecycle (kc_uuid c) (kc_now c) (kc_tenant c) code
              (catalog_lifecycle status (kc_actor c) skill (kc_audit c)
                 (if status \<in> {''draft'', ''rejected''} then Some ''return'' else None)))) (\<lambda>_.
     bindA (feedA c skill code) (\<lambda>_.
       answer c code status []))))))"

section \<open>Review, submission, publication, withdrawal\<close>

definition approval_target :: "string \<Rightarrow> string \<Rightarrow> string option" where
  "approval_target state role =
     (if state = ''pending_review'' \<and> role = ''ROLE_ORGAN_MANAGER'' then Some ''pending_platform_review''
      else if state = ''pending_platform_review'' \<and> role = ''ROLE_BUSIAUDIT'' then Some ''approved_pending_publish''
      else if state = ''pending_review'' \<and> role = ''ROLE_BUSIAUDIT'' then Some ''approved_pending_publish''
      else None)"

text \<open>\<^verbatim>\<open>(reason or "").strip()\<close>.\<close>

definition reason_text :: "json \<Rightarrow> exn + string" where
  "reason_text v = (case py_or v (JStr []) of JStr s \<Rightarrow> Inr (strip_blanks s) | _ \<Rightarrow> Inl (py_exn AttributeError))"

definition approval_refused :: "string \<Rightarrow> string \<Rightarrow> string \<Rightarrow> exn" where
  "approval_refused code state role =
     invalid_state (''catalog_entry '' @ code @ '' cannot be approved from state='' @ state @ '' by role='' @ role @
       ''; expected pending_review+MANAGER, pending_platform_review+BUSIAUDIT, or pending_review+BUSIAUDIT (legacy single-step)'')"

definition approve_catalog_entry :: "catalog_call \<Rightarrow> string \<Rightarrow> dict catalog_act" where
  "approve_catalog_entry c code =
     bindA (existing_entry c code) (\<lambda>e.
       case approval_target (ce_status e) (kc_role c) of
         None \<Rightarrow> throwA (approval_refused code (ce_status e) (kc_role c))
       | Some target \<Rightarrow> transition_catalog_entry c code target ''catalog.entry.review'' (Some []))"

definition review_catalog_entry :: "catalog_call \<Rightarrow> string \<Rightarrow> string \<Rightarrow> json \<Rightarrow> dict catalog_act" where
  "review_catalog_entry c code decision reason =
     (if decision = ''approve'' then approve_catalog_entry c code
      else if decision \<in> {''return_for_fix'', ''reject''} then
        bindA (raiseA (reason_text reason) id) (\<lambda>r.
          if r = [] then throwA (invalid_state lbl_cat_needs_reason)
          else transition_catalog_entry c code (if decision = ''return_for_fix'' then ''draft'' else ''rejected'')
                 ''catalog.entry.review'' (Some (py_str reason)))
      else throwA (mk_exn ''BrainServiceError'' (''unsupported catalog entry review decision: '' @ decision)))"

definition handler_catalog_entry_review :: "catalog_call \<Rightarrow> dict \<Rightarrow> dict catalog_act" where
  "handler_catalog_entry_review c payload =
     (let reason = (if dget payload ''reason'' = JNull then dget payload ''review_note'' else dget payload ''reason'')
      in bindA (code_argument payload) (\<lambda>code.
         bindA (raiseA (dict_item payload ''decision'') py_exn) (\<lambda>d.
           review_catalog_entry c code (py_str d) reason)))"

definition submit_catalog_entry_review :: "catalog_call \<Rightarrow> dict \<Rightarrow> dict catalog_act" where
  "submit_catalog_entry_review c payload =
     bindA (code_argument payload) (\<lambda>code.
     bindA (queryA (\<lambda>db. get_entry db (kc_tenant c) code)) (\<lambda>found.
       let missing = (case found of None \<Rightarrow> [] | Some e \<Rightarrow> missing_inline_required_basic_fields e)
       in if missing \<noteq> []
          then throwA (invalid_state (lbl_cf_missing_pre @ join_sep lbl_cf_separator missing @ lbl_cf_full_stop))
          else transition_catalog_entry c code ''pending_review'' ''catalog.entry.submit_review'' None))"

definition duplicate_lifecycles :: "string list" where
  "duplicate_lifecycles = [''active'', ''approved_pending_publish'', ''pending_platform_review'', ''pending_review'']"

definition stripped_text :: "string option \<Rightarrow> string" where
  "stripped_text t = strip_blanks (case t of None \<Rightarrow> [] | Some s \<Rightarrow> s)"

definition match_dimensions :: "string \<Rightarrow> string \<Rightarrow> string \<Rightarrow> centry_row \<Rightarrow> string list" where
  "match_dimensions title region owner r =
     (if title \<noteq> [] \<and> strip_blanks (ce_title r) = title then [''title''] else []) @
     (if region \<noteq> [] \<and> owner \<noteq> [] \<and> stripped_text (ce_region r) = region \<and> stripped_text (ce_owner r) = owner
      then [''region+org''] else [])"

definition duplicate_warnings :: "catalog_db \<Rightarrow> string \<Rightarrow> centry_row \<Rightarrow> (string \<times> string list) list" where
  "duplicate_warnings db tenant e =
     (let title = strip_blanks (ce_title e); region = stripped_text (ce_region e); owner = stripped_text (ce_owner e)
      in filter (\<lambda>(_, dims). dims \<noteq> [])
           (map (\<lambda>r. (ce_code r, match_dimensions title region owner r))
              (list_duplicate_candidates db tenant (ce_code e) title region owner duplicate_lifecycles)))"

definition check_catalog_duplicate :: "catalog_call \<Rightarrow> string \<Rightarrow> (string \<times> string list) list catalog_act" where
  "check_catalog_duplicate c code =
     bindA (existing_entry c code) (\<lambda>e. queryA (\<lambda>db. Inr (duplicate_warnings db (kc_tenant c) e)))"

text \<open>The check for duplicates before a publication warns only; an entry that is missing is left to the
  transition to report.\<close>

definition publish_catalog_entry :: "catalog_call \<Rightarrow> dict \<Rightarrow> (dict \<times> (string \<times> string list) list) catalog_act" where
  "publish_catalog_entry c payload =
     bindA (code_argument payload) (\<lambda>code.
       tryA (check_catalog_duplicate c code)
         (\<lambda>ex. if ex_class ex = ''NotFoundError''
               then bindA (transition_catalog_entry c code ''active'' ''catalog.entry.publish'' None) (\<lambda>r. retA (r, []))
               else throwA ex)
         (\<lambda>warnings. bindA (transition_catalog_entry c code ''active'' ''catalog.entry.publish'' None)
                         (\<lambda>r. retA (r, warnings))))"

definition withdraw_catalog_entry :: "catalog_call \<Rightarrow> dict \<Rightarrow> dict catalog_act" where
  "withdraw_catalog_entry c payload =
     bindA (code_argument payload) (\<lambda>code.
       transition_catalog_entry c code ''retired'' ''catalog.entry.withdraw'' None)"

section \<open>Drafts compiled from a table\<close>

definition reverse_resource :: "catalog_call \<Rightarrow> string \<Rightarrow> dict \<Rightarrow> dict" where
  "reverse_resource c code payload =
     (let schema_ref = JStr (py_str (dget_or payload ''schema_ref'' (JStr [])))
      in [(''id'', JStr code), (''name'', JStr (py_str (dget_or payload ''title'' (JStr code)))),
          (''status'', JStr ''draft''), (''provider'', dget_or payload ''owner_org_id'' (JStr [])),
          (''region_code'', dget payload ''region_code''), (''source_ref'', schema_ref),
          (''legacy_object_ref'', JStr code), (''source'', JStr ''reverse''), (''schema_ref'', schema_ref),
          (''draft_field_suggestions'', py_or (dget payload ''draft_field_suggestions'') (JList [])),
          (''created_by_audit'', JStr (kc_audit c))])"

definition create_catalog_entry_reverse_draft :: "catalog_call \<Rightarrow> dict \<Rightarrow> dict catalog_act" where
  "create_catalog_entry_reverse_draft c payload =
     bindA (code_argument payload) (\<lambda>code.
     bindA (save_entry c (reverse_resource c code payload)) (\<lambda>_.
     bindA (feedA c ''catalog.entry.reverse_draft.create'' code) (\<lambda>_.
       answer c code ''draft'' [(''schema_ref'', JStr (py_str (dget_or payload ''schema_ref'' (JStr []))))])))"

definition reverse_summary :: "catalog_call \<Rightarrow> string \<Rightarrow> (centry_row \<times> dict) catalog_act" where
  "reverse_summary c code =
     bindA (existing_entry c code) (\<lambda>e.
     bindA (raiseA (summary_dict e) id) (\<lambda>summary.
       if dget summary ''source'' \<noteq> JStr ''reverse''
       then throwA (invalid_state (''catalog_entry '' @ code @ '' is not a reverse draft (source='' @
              py_repr (dget summary ''source'') @ '')''))
       else retA (e, summary)))"

definition confirm_catalog_entry_reverse_draft :: "catalog_call \<Rightarrow> dict \<Rightarrow> dict catalog_act" where
  "confirm_catalog_entry_reverse_draft c payload =
     bindA (code_argument payload) (\<lambda>code.
     bindA (reverse_summary c code) (\<lambda>(e, summary).
       if ce_status e \<noteq> ''draft''
       then throwA (invalid_state (''catalog_entry '' @ code @ '' is not in draft (current='' @ ce_status e @ '')''))
       else
         bindA (save_entry c (dmerge summary [(''status'', JStr ''pending_platform_review''),
                  (''field_decisions'', py_or (dget payload ''field_decisions'') (JList [])),
                  (''confirmation_comment'', dget payload ''comment''),
                  (''confirmed_by_audit'', JStr (kc_audit c))])) (\<lambda>_.
         bindA (feedA c ''catalog.entry.reverse_draft.confirm'' code) (\<lambda>_.
           answer c code ''pending_platform_review'' []))))"

definition reject_catalog_entry_reverse_draft :: "catalog_call \<Rightarrow> dict \<Rightarrow> dict catalog_act" where
  "reject_catalog_entry_reverse_draft c payload =
     bindA (code_argument payload) (\<lambda>code.
     bindA (raiseA (dict_item payload ''reject_reason'') py_exn) (\<lambda>reason.
     bindA (reverse_summary c code) (\<lambda>(e, summary).
     bindA (save_entry c (dmerge summary [(''status'', JStr ''rejected''),
              (''rejected_reason'', JStr (py_str reason)), (''rejected_by_audit'', JStr (kc_audit c))])) (\<lambda>_.
     bindA (feedA c ''catalog.entry.reverse_draft.reject'' code) (\<lambda>_.
       answer c code ''rejected'' [(''reason'', JStr (py_str reason))])))))"

section \<open>Models\<close>

definition save_model_field :: "catalog_call \<Rightarrow> string \<Rightarrow> json \<Rightarrow> unit catalog_act" where
  "save_model_field c model fld =
     (case fld of
        JObj d \<Rightarrow> commitA (upsert_model_field (kc_now c) repo_tenant (dmerge d [(''model_code'', JStr model)]))
      | _ \<Rightarrow> throwA (py_exn TypeError))"

definition save_model :: "catalog_call \<Rightarrow> dict \<Rightarrow> cmodel_row catalog_act" where
  "save_model c payload s =
     (case upsert_model (kc_now c) repo_tenant payload (ks_db s) of
        Inl e \<Rightarrow> (Inl e, s) | Inr (m, db) \<Rightarrow> (Inr m, s\<lparr>ks_db := db\<rparr>))"

definition upsert_catalog_model :: "catalog_call \<Rightarrow> dict \<Rightarrow> dict catalog_act" where
  "upsert_catalog_model c payload =
     bindA (save_model c payload) (\<lambda>m.
     bindA (bindA (raiseA (py_iter (py_or (dget payload ''fields'') (JList []))) py_exn)
              (eachA (save_model_field c (cm_code m)))) (\<lambda>_.
     bindA (feedA c ''catalog.model.upsert'' (cm_code m)) (\<lambda>_.
       retA [(''model_code'', JStr (cm_code m)), (''status'', JStr (cm_status m)), (''audit_id'', JStr (kc_audit c))])))"

section \<open>Queries\<close>

definition parse_query_limit :: "json \<Rightarrow> exn + nat option" where
  "parse_query_limit v =
     (if v = JNull \<or> v = JStr [] then Inr None
      else bindE (int_cast v) (\<lambda>n. if n < 1 then Inl (mk_exn ''ValueError'' ''limit must be >= 1'') else Inr (Some (nat n))))"

definition parse_query_offset :: "json \<Rightarrow> exn + nat" where
  "parse_query_offset v =
     (if v = JNull \<or> v = JStr [] then Inr 0
      else bindE (int_cast v) (\<lambda>n. if n < 0 then Inl (mk_exn ''ValueError'' ''offset must be >= 0'') else Inr (nat n)))"

definition has_source :: "string \<Rightarrow> centry_row \<Rightarrow> bool" where
  "has_source wanted e = (case ce_summary e of JObj d \<Rightarrow> dget d ''source'' = JStr wanted | _ \<Rightarrow> False)"

definition filter_entries_by_source :: "json \<Rightarrow> centry_row list \<Rightarrow> centry_row list" where
  "filter_entries_by_source source rows = (if truthy source then filter (has_source (py_str source)) rows else rows)"

definition cut_page :: "nat option \<Rightarrow> nat \<Rightarrow> 'a list \<Rightarrow> 'a list" where
  "cut_page limit offset rows = (case limit of None \<Rightarrow> rows | Some n \<Rightarrow> take n (drop offset rows))"

definition optional_text :: "json \<Rightarrow> string option" where
  "optional_text v = (if truthy v then Some (py_str v) else None)"

text \<open>The entries found and the total reported; their texts for the answer, with names of organisations
  and regions and masked summaries, are not part of the model.\<close>

definition query_catalog_entries :: "catalog_call \<Rightarrow> dict \<Rightarrow> (centry_row list \<times> nat) catalog_act" where
  "query_catalog_entries c payload =
     (let query = dget payload ''query''; source = dget payload ''source'';
          status = optional_text (dget payload ''lifecycle_status'');
          recency = py_str (py_or (dget payload ''order'') (JStr [])) = ''updated_desc''
      in bindA (raiseA (parse_query_limit (dget payload ''limit'')) id) (\<lambda>limit.
         bindA (raiseA (parse_query_offset (dget payload ''offset'')) id) (\<lambda>offset.
         bindA (if truthy query
                then bindA (queryA (\<lambda>db. search_entries db (kc_tenant c) (py_str query) any_entry)) (\<lambda>rows.
                       let rows = filter_entries_by_source source
                                    (case status of None \<Rightarrow> rows | Some s \<Rightarrow> filter (\<lambda>e. ce_status e = s) rows)
                       in retA (cut_page limit offset rows, length rows))
                else queryA (\<lambda>db.
                       let q = any_entry\<lparr>eq_status := status, eq_recency := recency\<rparr>;
                           rows = filter_entries_by_source source (list_entries db (kc_tenant c) q limit offset)
                       in Inr (rows, if truthy source then length rows
                                     else if limit \<noteq> None then count_entries db (kc_tenant c) q
                                     else length rows))) (\<lambda>(rows, total).
           retA (let code = dget payload ''catalog_code''
                 in if truthy code
                    then let hit = filter (\<lambda>e. ce_code e = py_str code) rows in (hit, length hit)
                    else (rows, total))))))"

section \<open>The other writers of entries\<close>

text \<open>
  The other two ways a skill writes an entry of the catalogue: \<^verbatim>\<open>_manage_catalog_entry\<close> of
  \<^verbatim>\<open>command/handlers/j1/catalog_meta.py\<close>, which works on the provider part of the snapshot in memory, and the skills
  that move a resource (\<^verbatim>\<open>command/handlers/j1/resource_api.py\<close>), whose publication writes the entry the resource
  belongs to. The snapshot and the table of resources stand beside the state of the catalogue.
\<close>

text \<open>Both write as the repository does when it is told no tenant.\<close>

definition as_default_tenant :: "catalog_call \<Rightarrow> catalog_call" where
  "as_default_tenant c = c\<lparr>kc_tenant := repo_tenant\<rparr>"

definition on_catalog :: "'a catalog_act \<Rightarrow> ('a, catalog_sys \<times> 'b) act" where
  "on_catalog m s = (case m (fst s) of (r, k) \<Rightarrow> (r, (k, snd s)))"

definition beside :: "('b \<Rightarrow> exn + 'a \<times> 'b) \<Rightarrow> ('a, catalog_sys \<times> 'b) act" where
  "beside f s = (case f (snd s) of Inl e \<Rightarrow> (Inl e, s) | Inr (x, b) \<Rightarrow> (Inr x, (fst s, b)))"

section \<open>Entries managed by the provider\<close>

fun find_catalog :: "string \<Rightarrow> json list \<Rightarrow> py_error + dict option" where
  "find_catalog i [] = Inr None"
| "find_catalog i (x # xs) =
     bindE (json_item x ''id'') (\<lambda>v.
       if v = JStr i then Inr (case x of JObj d \<Rightarrow> Some d | _ \<Rightarrow> None) else find_catalog i xs)"

definition provider_catalogs :: "dict \<Rightarrow> py_error + json list" where
  "provider_catalogs provider = bindE (dict_item provider ''catalogs'') py_iter"

text \<open>The first entry of that identity, changed in place.\<close>

fun change_catalog :: "string \<Rightarrow> (dict \<Rightarrow> dict) \<Rightarrow> json list \<Rightarrow> json list" where
  "change_catalog i f [] = []"
| "change_catalog i f (x # xs) =
     (case x of
        JObj d \<Rightarrow> if dget d ''id'' = JStr i then JObj (f d) # xs else x # change_catalog i f xs
      | _ \<Rightarrow> x # change_catalog i f xs)"

definition catalog_changed :: "string \<Rightarrow> (dict \<Rightarrow> dict) \<Rightarrow> dict \<Rightarrow> dict" where
  "catalog_changed i f provider =
     (case dget provider ''catalogs'' of
        JList cs \<Rightarrow> dset provider ''catalogs'' (JList (change_catalog i f cs)) | _ \<Rightarrow> provider)"

definition managed_resource :: "string \<Rightarrow> dict \<Rightarrow> dict" where
  "managed_resource i entry =
     [(''id'', JStr i), (''name'', dget_or entry ''name'' (JStr i)), (''status'', JStr ''approved_pending_publish''),
      (''provider'', dget_or entry ''owner'' (JStr [])),
      (''source_ref'', py_or (dget entry ''source_ref'') (JStr (''provider:catalog:'' @ i))),
      (''legacy_object_ref'', py_or (dget entry ''legacy_object_ref'') (JStr i)), (''summary_json'', JObj entry)]"

definition managed_entry :: "string \<Rightarrow> string \<Rightarrow> dict \<Rightarrow> dict" where
  "managed_entry actor action entry =
     (let e1 = (if action = ''publish'' then dset entry ''status'' (JStr lbl_lc_active) else entry);
          e2 = dset e1 ''issue'' (JStr (lbl_mg_issue_by @ actor @
                 (if action = ''publish'' then lbl_mg_published else lbl_mg_revised)))
      in dset e2 ''governanceLocked'' (JBool True))"

definition manage_mutation :: "catalog_call \<Rightarrow> string \<Rightarrow> string \<Rightarrow> dict \<Rightarrow> (dict, catalog_sys \<times> dict) act" where
  "manage_mutation c i action entry =
     bindA (if action = ''publish'' then on_catalog (save_entry (as_default_tenant c) (managed_resource i entry)) else retA ()) (\<lambda>_.
     bindA (beside (\<lambda>provider. Inr ((), catalog_changed i (managed_entry (kc_actor c) action) provider))) (\<lambda>_.
     bindA (beside (\<lambda>provider. bindE (raiseE py_exn (set_in ''aiGovernance'' ''summary'' (JStr lbl_mg_governance) provider))
                                  (\<lambda>p. Inr ((), p)))) (\<lambda>_.
     bindA (on_catalog (feedA c (if action = ''publish'' then ''catalog.publish'' else ''catalog.revise'') i)) (\<lambda>_.
     bindA (liftE py_exn (dict_item (managed_entry (kc_actor c) action entry) ''status'')) (\<lambda>status.
       retA [(''catalog_id'', JStr i), (''status'', status),
             (''result'', JStr (if action = ''publish'' then ''published'' else ''revised''))])))))"

definition manage_catalog_entry :: "catalog_call \<Rightarrow> dict \<Rightarrow> (dict, catalog_sys \<times> dict) act" where
  "manage_catalog_entry c payload =
     bindA (liftE py_exn (dict_item payload ''catalog_id'')) (\<lambda>i.
     bindA (liftE py_exn (dict_item payload ''action'')) (\<lambda>action.
     bindA (beside (\<lambda>provider. bindE (raiseE py_exn (bindE (provider_catalogs provider) (find_catalog (py_str i))))
                                  (\<lambda>found. Inr (found, provider)))) (\<lambda>found.
       case found of
         None \<Rightarrow> throwA (not_found (py_str i))
       | Some entry \<Rightarrow>
           if py_str action \<notin> {''publish'', ''revise''}
           then throwA (invalid_state (''unsupported catalog action: '' @ py_str action))
           else manage_mutation c (py_str i) (py_str action) entry)))"

section \<open>Resources\<close>

record resource_row =
  rz_tenant :: string
  rz_code :: string
  rz_kind :: string
  rz_title :: string
  rz_status :: string
  rz_owner :: "string option"
  rz_region :: "string option"
  rz_catalog :: "string option"
  rz_source :: "string option"
  rz_summary :: json

definition is_resource :: "string \<Rightarrow> string \<Rightarrow> resource_row \<Rightarrow> bool" where
  "is_resource tenant code r \<longleftrightarrow> rz_tenant r = tenant \<and> rz_code r = code"

definition get_asset :: "string \<Rightarrow> string \<Rightarrow> resource_row list \<Rightarrow> exn + resource_row option" where
  "get_asset tenant code rows = raiseE case_exn (one_or_none (filter (is_resource tenant code) rows))"

definition noted_summary :: "string option \<Rightarrow> json \<Rightarrow> exn + json" where
  "noted_summary note summary =
     (if note = None then Inr summary
      else case py_or summary (JObj []) of JObj d \<Rightarrow> Inr (JObj (note_summary note d)) | _ \<Rightarrow> Inl (py_exn TypeError))"

definition transition_asset ::
    "string \<Rightarrow> string \<Rightarrow> string \<Rightarrow> string option \<Rightarrow> resource_row list \<Rightarrow> exn + resource_row option \<times> resource_row list" where
  "transition_asset tenant code status note rows =
     bindE (get_asset tenant code rows) (\<lambda>found.
       case found of
         None \<Rightarrow> Inr (None, rows)
       | Some r \<Rightarrow> bindE (noted_summary note (rz_summary r)) (\<lambda>summary.
           let r' = r\<lparr>rz_status := status, rz_summary := summary\<rparr>
           in Inr (Some r', map (\<lambda>x. if is_resource tenant code x then r' else x) rows)))"

text \<open>What the publication of a resource writes as the entry it belongs to.\<close>

definition published_resource :: "string \<Rightarrow> resource_row \<Rightarrow> exn + dict" where
  "published_resource entry r =
     (case rz_summary r of
        JObj d \<Rightarrow> Inr [(''id'', JStr entry), (''name'', JStr (rz_title r)), (''status'', JStr ''active''),
          (''provider'', JStr (case rz_owner r of None \<Rightarrow> [] | Some o' \<Rightarrow> o')), (''resource_code'', JStr (rz_code r)),
          (''source_ref'', text_json (rz_source r)), (''legacy_object_ref'', JStr (rz_code r)),
          (''desc'', first_of [dget d ''desc'', dget d ''title'', JStr (rz_title r)]), (''region_code'', text_json (rz_region r)),
          (''fields'', dget_or d ''fields'' (JList [])), (''explain'', dget_or d ''explain'' (JList []))]
      | _ \<Rightarrow> Inl (py_exn AttributeError))"

definition publish_its_entry :: "catalog_call \<Rightarrow> string \<Rightarrow> resource_row \<Rightarrow> unit catalog_act" where
  "publish_its_entry c status r =
     (case rz_catalog r of
        Some entry \<Rightarrow>
          if status = ''active'' \<and> entry \<noteq> []
          then bindA (liftE (\<lambda>e. e) (published_resource entry r)) (save_entry (as_default_tenant c)) else retA ()
      | None \<Rightarrow> retA ())"

definition transition_api_resource ::
    "catalog_call \<Rightarrow> string \<Rightarrow> string \<Rightarrow> string \<Rightarrow> string option \<Rightarrow> (resource_row, catalog_sys \<times> resource_row list) act" where
  "transition_api_resource c skill code status note =
     bindA (beside (transition_asset repo_tenant code status note)) (\<lambda>found.
       case found of
         None \<Rightarrow> throwA (not_found code)
       | Some r \<Rightarrow>
           bindA (on_catalog (publish_its_entry c status r)) (\<lambda>_.
           bindA (on_catalog (casesA (upsert_lifecycle (kc_uuid c) (kc_now c) repo_tenant code
                    (api_lifecycle status (kc_actor c) skill (kc_audit c)
                       (if status \<in> {''draft'', ''test_failed''} then Some ''return'' else None))))) (\<lambda>_.
           bindA (on_catalog (feedA c skill code)) (\<lambda>_. retA r))))"

definition mapping_missing :: "resource_row \<Rightarrow> exn + bool" where
  "mapping_missing r =
     (if rz_kind r \<noteq> ''table'' then Inr False
      else case py_or (rz_summary r) (JObj []) of
             JObj d \<Rightarrow> Inr (\<not> truthy (dget d ''mapping_ready'')) | _ \<Rightarrow> Inl (py_exn AttributeError))"

definition submit_api_resource_review ::
    "catalog_call \<Rightarrow> string \<Rightarrow> string \<Rightarrow> (resource_row, catalog_sys \<times> resource_row list) act" where
  "submit_api_resource_review c skill code =
     bindA (beside (\<lambda>rows. bindE (get_asset repo_tenant code rows) (\<lambda>found.
              bindE (case found of None \<Rightarrow> Inr False | Some r \<Rightarrow> mapping_missing r) (\<lambda>missing. Inr (missing, rows))))) (\<lambda>missing.
       if missing then throwA (invalid_state (lbl_table_resource @ code @ lbl_table_not_ready))
       else transition_api_resource c skill code ''pending_review'' None)"

definition review_api_resource ::
    "catalog_call \<Rightarrow> string \<Rightarrow> string \<Rightarrow> string \<Rightarrow> string option \<Rightarrow> (resource_row, catalog_sys \<times> resource_row list) act" where
  "review_api_resource c skill code decision reason =
     (if decision = ''approve'' then transition_api_resource c skill code ''approved_pending_publish'' (Some [])
      else if decision = ''return_for_fix'' then
        if skill = ''resource.asset.review'' \<and> strip_blanks (case reason of None \<Rightarrow> [] | Some t \<Rightarrow> t) = []
        then throwA (invalid_state lbl_asset_needs_reason)
        else transition_api_resource c skill code ''draft'' reason
      else throwA (mk_exn ''BrainServiceError'' (''unsupported api resource review decision: '' @ decision)))"

datatype resource_skill = SubmitResource | ReviewResource | PublishResource | RevokeResource | WithdrawResource

definition resource_code_of :: "dict \<Rightarrow> (string, catalog_sys \<times> 'b) act" where
  "resource_code_of payload = bindA (liftE py_exn (dict_item payload ''resource_code'')) (\<lambda>v. retA (py_str v))"

fun handle_resource ::
    "catalog_call \<Rightarrow> string \<Rightarrow> resource_skill \<Rightarrow> dict \<Rightarrow> (resource_row, catalog_sys \<times> resource_row list) act" where
  "handle_resource c skill SubmitResource payload =
     bindA (resource_code_of payload) (submit_api_resource_review c skill)"
| "handle_resource c skill ReviewResource payload =
     bindA (resource_code_of payload) (\<lambda>code.
     bindA (liftE py_exn (dict_item payload ''decision'')) (\<lambda>decision.
       review_api_resource c skill code (py_str decision)
         (if dget payload ''reason'' = JNull then None else Some (py_str (dget payload ''reason'')))))"
| "handle_resource c skill PublishResource payload =
     bindA (resource_code_of payload) (\<lambda>code. transition_api_resource c skill code ''active'' None)"
| "handle_resource c skill RevokeResource payload =
     bindA (resource_code_of payload) (\<lambda>code. transition_api_resource c skill code ''revoked'' None)"
| "handle_resource c skill WithdrawResource payload =
     bindA (resource_code_of payload) (\<lambda>code. transition_api_resource c skill code ''retired'' None)"

end
