(* ===== verification/CatalogInv.thy ===== *)
theory CatalogInv
  imports CatalogFlow
begin

text \<open>
  What every skill on catalogue entries keeps: one entry for each code of a tenant, whose stored
  summary repeats the columns; unique items, models and versions; mappings of old objects that never
  guess. From the effect of one save of an entry, the effect of every skill on the status of every entry.
\<close>

section \<open>The effect of saving an entry\<close>

definition entry_status :: "catalog_sys \<Rightarrow> string \<times> string \<Rightarrow> string option" where
  "entry_status s k = map_option ce_status (row_by entry_key k (kd_entries (ks_db s)))"

text \<open>The summary is the resource the entry was last saved from.\<close>

definition mirrors :: "centry_row \<Rightarrow> bool" where
  "mirrors e \<longleftrightarrow> (\<exists>d. ce_summary e = JObj d \<and>
     column_needed (dget d ''id'') = Inr (ce_code e) \<and> column_needed (dget d ''name'') = Inr (ce_title e) \<and>
     column_needed (dget_or d ''status'' (JStr ''published'')) = Inr (ce_status e) \<and>
     column_text (dget_or d ''provider'' (JStr [])) = Inr (ce_owner e))"

definition entries_ok :: "(nat \<Rightarrow> string) \<Rightarrow> catalog_db \<Rightarrow> bool" where
  "entries_ok uuid db \<longleftrightarrow> unique_on ce_id (kd_entries db) \<and> unique_on entry_key (kd_entries db) \<and>
     (\<forall>e \<in> set (kd_entries db). (\<exists>n < kd_next db. ce_id e = uuid n) \<and> mirrors e)"

definition catalog_ok :: "(nat \<Rightarrow> string) \<Rightarrow> catalog_db \<Rightarrow> bool" where
  "catalog_ok uuid db \<longleftrightarrow> entries_ok uuid db \<and> unique_on version_key (kd_versions db) \<and>
     unique_on item_key (kd_items db) \<and> unique_on model_key (kd_models db) \<and>
     unique_on field_key (kd_fields db) \<and> legacy_inv (kd_legacy db)"

lemma get_entry_ok: "entries_ok uuid db \<Longrightarrow> get_entry db tenant code = Inr (row_by entry_key (tenant, code) (kd_entries db))"
  by (simp add: get_entry_def entries_at_def entries_ok_def one_or_none_unique)

lemma stamp_fields [simp]:
  "ce_id (stamp_entry now e e') = ce_id e'" "entry_key (stamp_entry now e e') = entry_key e'"
  "ce_title (stamp_entry now e e') = ce_title e'" "ce_status (stamp_entry now e e') = ce_status e'"
  "ce_owner (stamp_entry now e e') = ce_owner e'" "ce_summary (stamp_entry now e e') = ce_summary e'"
  "ce_code (stamp_entry now e e') = ce_code e'" "ce_tenant (stamp_entry now e e') = ce_tenant e'"
  "ce_region (stamp_entry now e e') = ce_region e'"
  by (auto simp: stamp_entry_def entry_key_def)

lemma entry_ofD:
  assumes "entry_of uuid now tenant code r name found db = Inr e"
  shows "ce_summary e = safe_json (JObj r)" "column_needed name = Inr (ce_title e)"
    "column_needed (dget_or r ''status'' (JStr ''published'')) = Inr (ce_status e)"
    "column_text (dget_or r ''provider'' (JStr [])) = Inr (ce_owner e)"
    "found = None \<Longrightarrow> ce_id e = uuid (kd_next db) \<and> entry_key e = (tenant, code)"
    "found = Some e0 \<Longrightarrow> ce_id e = ce_id e0 \<and> entry_key e = entry_key e0"
  using assms by (auto simp: entry_of_def result_simps entry_key_def split: option.splits)

lemma plain_keys [simp]:
  "\<not> is_sensitive_json_key ''id''" "\<not> is_sensitive_json_key ''name''" "\<not> is_sensitive_json_key ''status''"
  "\<not> is_sensitive_json_key ''provider''" "\<not> is_sensitive_json_key ''source''"
  "\<not> is_sensitive_json_key ''review_return_reason''" "\<not> is_sensitive_json_key ''data_catalog_code''"
  "\<not> is_sensitive_json_key ''summary_json''"
  by code_simp+

lemma map_of_safe:
  "\<not> is_sensitive_json_key k \<Longrightarrow>
   map_of (map (\<lambda>(k, v). (k, safe_json v)) (filter (\<lambda>(k, v). \<not> is_sensitive_json_key k) d)) k =
     map_option safe_json (map_of d k)"
  by (induction d) auto

lemma column_safe [simp]: "column_text (safe_json v) = column_text v" "column_needed (safe_json v) = column_needed v"
  by (cases v; simp add: column_text_def column_needed_def)+

lemma safe_summary:
  assumes "safe_json (JObj r) = JObj d" and "\<not> is_sensitive_json_key k"
  shows "map_of d k = map_option safe_json (map_of r k)"
  using assms map_of_safe by auto

lemma safe_get:
  assumes "safe_json (JObj r) = JObj d" and "\<not> is_sensitive_json_key k"
  shows "dget d k = safe_json (dget r k)" "dget_or d k (safe_json v) = safe_json (dget_or r k v)"
  using safe_summary [OF assms] by (auto simp: dget_def dget_or_def split: option.splits)

definition saved_db :: "centry_row option \<Rightarrow> centry_row \<Rightarrow> legacy_row list \<Rightarrow> catalog_db \<Rightarrow> catalog_db" where
  "saved_db found e legacy db =
     db\<lparr>kd_entries := save_row ce_id found e (kd_entries db), kd_legacy := legacy,
        kd_next := (if found = None then Suc (kd_next db) else kd_next db)\<rparr>"

lemma record_origin_ok:
  "record_origin now tenant source old_ref t ref ev rows = Inr rows' \<Longrightarrow> legacy_inv rows \<Longrightarrow> legacy_inv rows'"
  by (auto simp: record_origin_def result_simps upsert_legacy_mapping_inv split: if_splits)

lemma upsert_from_resourceD:
  assumes "upsert_from_resource uuid now tenant r db = Inr db'" and "catalog_ok uuid db"
  obtains i code name e legacy where "map_of r ''id'' = Some i" "column_needed i = Inr code"
    "map_of r ''name'' = Some name"
    "entry_of uuid now tenant code r name (row_by entry_key (tenant, code) (kd_entries db)) db = Inr e"
    "legacy_inv legacy" "db' = saved_db (row_by entry_key (tenant, code) (kd_entries db)) e legacy db"
proof -
  have ok: "entries_ok uuid db" "legacy_inv (kd_legacy db)" using assms(2) by (auto simp: catalog_ok_def)
  obtain i code name e legacy where "map_of r ''id'' = Some i" "column_needed i = Inr code"
    "map_of r ''name'' = Some name"
    "entry_of uuid now tenant code r name (row_by entry_key (tenant, code) (kd_entries db)) db = Inr e"
    "record_origin now tenant (dget r ''source_ref'') (py_or (dget r ''legacy_object_ref'') i) ''catalog_entry'' i
       [(''title'', name), (''lifecycle_status'', dget_or r ''status'' (JStr ''published''))] (kd_legacy db) = Inr legacy"
    "db' = saved_db (row_by entry_key (tenant, code) (kd_entries db)) e legacy db"
    using assms(1)
    by (auto simp: upsert_from_resource_def result_simps get_entry_ok [OF ok(1)] saved_db_def)
  then show ?thesis
    using record_origin_ok [OF _ ok(2)] by (intro that) assumption+
qed

lemma saved_mirrors:
  assumes "map_of r ''id'' = Some i" "column_needed i = Inr code" "map_of r ''name'' = Some name"
    "entry_of uuid now tenant code r name found db = Inr e"
    "\<And>e0. found = Some e0 \<Longrightarrow> entry_key e0 = (tenant, code)"
  shows "mirrors e" "entry_key e = (tenant, code)"
proof -
  note f = entry_ofD [OF assms(4)]
  show key: "entry_key e = (tenant, code)"
    using f(5,6) assms(5) by (cases found) auto
  obtain d where d: "safe_json (JObj r) = JObj d" by simp
  have "column_needed (dget d ''id'') = Inr code" "column_needed (dget d ''name'') = Inr (ce_title e)"
    using safe_get(1) [OF d] f(2) assms(1-3) by (auto simp: dget_def)
  moreover have "column_needed (dget_or d ''status'' (JStr ''published'')) = Inr (ce_status e)"
    using safe_get(2) [OF d, of "''status''" "JStr ''published''"] f(3) by simp
  moreover have "column_text (dget_or d ''provider'' (JStr [])) = Inr (ce_owner e)"
    using safe_get(2) [OF d, of "''provider''" "JStr []"] f(4) by simp
  ultimately show "mirrors e"
    using key f(1) d by (simp add: mirrors_def entry_key_def)
qed

lemma ids_agree_keys:
  assumes "unique_on ce_id rows" "unique_on entry_key rows" "e0 \<in> set rows" "ce_id e = ce_id e0" "entry_key e = entry_key e0"
  shows "put_row ce_id e rows = put_row entry_key e rows"
proof -
  have "ce_id x = ce_id e \<longleftrightarrow> entry_key x = entry_key e" if "x \<in> set rows" for x
    using assms that by (metis distinct_map inj_onD unique_on_def)
  then show ?thesis by (auto simp: put_row_def)
qed

lemma saved_rows:
  assumes "entries_ok uuid db"
    and "entry_of uuid now tenant code r name (row_by entry_key (tenant, code) (kd_entries db)) db = Inr e"
  shows "save_row ce_id (row_by entry_key (tenant, code) (kd_entries db)) e (kd_entries db) =
    save_row entry_key (row_by entry_key (tenant, code) (kd_entries db)) e (kd_entries db)"
proof (cases "row_by entry_key (tenant, code) (kd_entries db)")
  case (Some e0)
  then have "e0 \<in> set (kd_entries db)" by (auto dest: row_by_SomeD)
  then show ?thesis
    using assms(1) entry_ofD(6) [OF assms(2) Some] ids_agree_keys
    by (auto simp: Some save_row_def entries_ok_def)
qed (simp add: save_row_def)

lemma saved_ok:
  assumes "inj uuid" and "catalog_ok uuid db" and "upsert_from_resource uuid now tenant r db = Inr db'"
  shows "catalog_ok uuid db'"
proof -
  obtain i code name e legacy where r: "map_of r ''id'' = Some i" "column_needed i = Inr code"
    "map_of r ''name'' = Some name"
    "entry_of uuid now tenant code r name (row_by entry_key (tenant, code) (kd_entries db)) db = Inr e"
    "legacy_inv legacy" and db': "db' = saved_db (row_by entry_key (tenant, code) (kd_entries db)) e legacy db"
    using upsert_from_resourceD [OF assms(3,2)] by metis
  let ?found = "row_by entry_key (tenant, code) (kd_entries db)"
  have ok: "entries_ok uuid db" using assms(2) by (simp add: catalog_ok_def)
  have e: "mirrors e" "entry_key e = (tenant, code)"
    using saved_mirrors [OF r(1-4)] by (auto dest: row_by_SomeD)
  have rows: "kd_entries db' = save_row entry_key ?found e (kd_entries db)"
    by (simp add: db' saved_db_def saved_rows [OF ok r(4)])
  have keys: "unique_on entry_key (kd_entries db')"
    using ok e(2) by (simp add: rows save_row_unique entries_ok_def)
  have ids: "unique_on ce_id (kd_entries db')" and drawn: "\<exists>n < kd_next db'. ce_id e = uuid n"
  proof (atomize (full), cases ?found)
    case None
    have "ce_id x \<noteq> uuid (kd_next db)" if x: "x \<in> set (kd_entries db)" for x
    proof -
      obtain n where "n < kd_next db" "ce_id x = uuid n" using ok x by (auto simp: entries_ok_def)
      then show ?thesis using assms(1) by (auto dest: injD)
    qed
    then have "uuid (kd_next db) \<notin> ce_id ` set (kd_entries db)" by (metis imageE)
    then show "unique_on ce_id (kd_entries db') \<and> (\<exists>n < kd_next db'. ce_id e = uuid n)"
      using ok entry_ofD(5) [OF r(4) None] by (auto simp: rows None save_row_def unique_on_def entries_ok_def db' saved_db_def)
  next
    case (Some e0)
    then have "e0 \<in> set (kd_entries db)" by (auto dest: row_by_SomeD)
    then show "unique_on ce_id (kd_entries db') \<and> (\<exists>n < kd_next db'. ce_id e = uuid n)"
      using ok entry_ofD(6) [OF r(4) Some]
      by (auto simp: Some save_row_def unique_on_def entries_ok_def db' saved_db_def)
  qed
  have "(\<exists>n < kd_next db'. ce_id x = uuid n) \<and> mirrors x" if "x \<in> set (kd_entries db')" for x
  proof -
    have "kd_next db \<le> kd_next db'" by (simp add: db' saved_db_def)
    then show ?thesis
      using in_save_row [OF that [unfolded rows]] ok e(1) drawn
      unfolding entries_ok_def by (meson order_less_le_trans)
  qed
  then have "entries_ok uuid db'" using keys ids by (simp add: entries_ok_def)
  then show ?thesis using assms(2) r(5) by (simp add: catalog_ok_def db' saved_db_def)
qed

text \<open>Saving changes the entry of one code, to one made from the resource.\<close>

lemma saved_entry:
  assumes "catalog_ok uuid db" and "upsert_from_resource uuid now tenant r db = Inr db'"
    and "column_needed (dget r ''id'') = Inr code"
  obtains name e where "map_of r ''name'' = Some name"
    "entry_of uuid now tenant code r name (row_by entry_key (tenant, code) (kd_entries db)) db = Inr e"
    "\<forall>k. row_by entry_key k (kd_entries db') = (if k = (tenant, code) then Some e else row_by entry_key k (kd_entries db))"
proof -
  obtain i code' name e legacy where r: "map_of r ''id'' = Some i" "column_needed i = Inr code'"
    "map_of r ''name'' = Some name"
    "entry_of uuid now tenant code' r name (row_by entry_key (tenant, code') (kd_entries db)) db = Inr e"
    "legacy_inv legacy" and db': "db' = saved_db (row_by entry_key (tenant, code') (kd_entries db)) e legacy db"
    using upsert_from_resourceD [OF assms(2,1)] by metis
  have code: "code' = code" using r(1,2) assms(3) by (simp add: dget_def)
  have ok: "entries_ok uuid db" using assms(1) by (simp add: catalog_ok_def)
  have "entry_key e = (tenant, code)"
    using saved_mirrors(2) [OF r(1-4)] by (auto dest: row_by_SomeD simp: code)
  then have "\<forall>k. row_by entry_key k (kd_entries db') = (if k = (tenant, code) then Some e else row_by entry_key k (kd_entries db))"
    using saved_rows [OF ok r(4)] row_by_save_row [of entry_key e "(tenant, code)" _ "kd_entries db"]
    by (simp add: db' saved_db_def code)
  then show ?thesis using that r(3,4) by (simp add: code)
qed

lemma saved_status:
  assumes "catalog_ok uuid db" and "upsert_from_resource uuid now tenant r db = Inr db'"
    and "column_needed (dget r ''id'') = Inr code" and "map_of r ''status'' = Some (JStr b)"
  shows "map_option ce_status (row_by entry_key k (kd_entries db')) =
    (if k = (tenant, code) then Some b else map_option ce_status (row_by entry_key k (kd_entries db)))"
proof -
  obtain name e where e: "entry_of uuid now tenant code r name (row_by entry_key (tenant, code) (kd_entries db)) db = Inr e"
    and rows: "\<forall>k. row_by entry_key k (kd_entries db') =
      (if k = (tenant, code) then Some e else row_by entry_key k (kd_entries db))"
    using saved_entry [OF assms(1-3)] by metis
  have "ce_status e = b"
    using entry_ofD(3) [OF e] assms(4) by (simp add: dget_or_def column_needed_def column_text_def)
  then show ?thesis using spec [OF rows, of k] by simp
qed

end
