(* ===== verification/CatalogSafe.thy ===== *)
theory CatalogSafe
  imports CatalogInv
begin

text \<open>
  All skills that write catalogue entries as a machine over the status of every entry: which skill moves which
  entry where, and that published versions are never lost.
\<close>

section \<open>The effect of a skill\<close>

definition catalog_inv :: "(nat \<Rightarrow> string) \<Rightarrow> catalog_sys \<Rightarrow> bool" where
  "catalog_inv uuid s \<longleftrightarrow> inj uuid \<and> catalog_ok uuid (ks_db s)"

text \<open>A skill called on one code keeps the invariant and the versions, changes the status of no other entry,
  and the status of this one to one of its targets at most.\<close>

definition moves :: "catalog_call \<Rightarrow> string \<Rightarrow> string set \<Rightarrow> catalog_sys \<Rightarrow> catalog_sys \<Rightarrow> bool" where
  "moves c code T s s' \<longleftrightarrow> (catalog_inv (kc_uuid c) s \<longrightarrow>
     catalog_inv (kc_uuid c) s' \<and> set (kd_versions (ks_db s)) \<subseteq> set (kd_versions (ks_db s')) \<and>
     (\<forall>k. k \<noteq> (kc_tenant c, code) \<longrightarrow> entry_status s' k = entry_status s k) \<and>
     (entry_status s' (kc_tenant c, code) = entry_status s (kc_tenant c, code) \<or>
      entry_status s' (kc_tenant c, code) \<in> Some ` T))"

lemma entry_moves_refl [simp]: "moves c code T s s"
  by (simp add: moves_def)

lemma entry_moves_trans: "moves c code T a b \<Longrightarrow> moves c code T b d \<Longrightarrow> moves c code T a d"
  unfolding moves_def by (metis subset_trans)

lemma moves_mono: "moves c code T s s' \<Longrightarrow> T \<subseteq> U \<Longrightarrow> moves c code U s s'"
  unfolding moves_def by blast

lemma moves_bind:
  "moves c code T s (snd (m s)) \<Longrightarrow> (\<And>x s'. m s = (Inr x, s') \<Longrightarrow> moves c code T s' (snd (f x s'))) \<Longrightarrow>
   moves c code T s (snd (bindA m f s))"
  by (rule rel_bind_at) (auto intro: entry_moves_trans)

subsection \<open>Parts that only read\<close>

lemma reads [simp]:
  "snd (queryA g s) = s" "snd (raiseA r h s) = s" "snd (retA x s) = s" "snd (throwA ex s) = s"
  by (simp_all add: queryA_def raiseA_def liftE_def act_apply split: sum.splits)

lemma bind_reads: "snd (m s) = s \<Longrightarrow> (\<And>x. snd (f x s) = s) \<Longrightarrow> snd (bindA m f s) = s"
  by (cases "m s") (auto simp: bindA_def split: sum.splits)

lemma code_argument_reads [simp]: "snd (code_argument payload s) = s"
  unfolding code_argument_def by (rule bind_reads) simp_all

lemma existing_entry_reads [simp]: "snd (existing_entry c code s) = s"
  unfolding existing_entry_def by (rule bind_reads) (simp_all split: option.splits)

lemma reverse_summary_reads [simp]: "snd (reverse_summary c code s) = s"
  unfolding reverse_summary_def by (intro bind_reads) simp_all

lemma answer_reads [simp]: "snd (answer c code status extra s) = s"
  by (simp add: answer_def)

lemma readD: "m s = (Inr x, s') \<Longrightarrow> snd (m s) = s \<Longrightarrow> s' = s"
  by simp

lemma get_entry_SomeD: "get_entry db t code = Inr (Some e) \<Longrightarrow> e \<in> set (kd_entries db) \<and> entry_key e = (t, code)"
  by (auto simp: get_entry_def entries_at_def one_or_none_def result_simps filter_eq_Cons_iff split: list.splits)

lemma existing_entryD:
  assumes "existing_entry c code s = (Inr e, s')"
  shows "s' = s" "get_entry (ks_db s) (kc_tenant c) code = Inr (Some e)" "ce_code e = code"
proof -
  show "s' = s" using existing_entry_reads [of c code s] assms by simp
  show get: "get_entry (ks_db s) (kc_tenant c) code = Inr (Some e)"
    using assms by (auto simp: existing_entry_def queryA_def bindA_def act_apply split: sum.splits option.splits)
  show "ce_code e = code" using get_entry_SomeD [OF get] by (simp add: entry_key_def)
qed

lemma inv_get: "catalog_inv uuid s \<Longrightarrow> get_entry (ks_db s) t code = Inr (row_by entry_key (t, code) (kd_entries (ks_db s)))"
  unfolding catalog_inv_def catalog_ok_def by (intro get_entry_ok) blast

lemma existing_status:
  "catalog_inv uuid s \<Longrightarrow> get_entry (ks_db s) t code = Inr (Some e) \<Longrightarrow> entry_status s (t, code) = Some (ce_status e)"
  by (simp add: inv_get entry_status_def)

lemma summary_dictD: "raiseA (summary_dict e) id s = (Inr d, s') \<Longrightarrow> s' = s \<and> ce_summary e = JObj d"
  by (auto simp: raiseA_def liftE_def summary_dict_def split: sum.splits json.splits)

subsection \<open>Parts that write\<close>

lemma moves_save:
  assumes "column_needed (dget r ''id'') = Inr code" and "map_of r ''status'' = Some (JStr b)" and "b \<in> T"
  shows "moves c code T s (snd (save_entry c r s))"
proof (cases "upsert_from_resource (kc_uuid c) (kc_now c) (kc_tenant c) r (ks_db s)")
  case (Inr db)
  show ?thesis
    unfolding moves_def
  proof
    assume inv: "catalog_inv (kc_uuid c) s"
    then have ok: "inj (kc_uuid c)" "catalog_ok (kc_uuid c) (ks_db s)" by (simp_all add: catalog_inv_def)
    have "kd_versions db = kd_versions (ks_db s)"
      using Inr by (auto simp: upsert_from_resource_def result_simps)
    then show "catalog_inv (kc_uuid c) (snd (save_entry c r s)) \<and>
      set (kd_versions (ks_db s)) \<subseteq> set (kd_versions (ks_db (snd (save_entry c r s)))) \<and>
      (\<forall>k. k \<noteq> (kc_tenant c, code) \<longrightarrow> entry_status (snd (save_entry c r s)) k = entry_status s k) \<and>
      (entry_status (snd (save_entry c r s)) (kc_tenant c, code) = entry_status s (kc_tenant c, code) \<or>
       entry_status (snd (save_entry c r s)) (kc_tenant c, code) \<in> Some ` T)"
      using saved_ok [OF ok Inr] saved_status [OF ok(2) Inr assms(1,2)] assms(3) ok(1)
      by (simp add: save_entry_def commitA_def Inr entry_status_def catalog_inv_def)
  qed
qed (simp add: save_entry_def commitA_def)

definition beside_entries :: "(nat \<Rightarrow> string) \<Rightarrow> catalog_db \<Rightarrow> catalog_db \<Rightarrow> bool" where
  "beside_entries uuid db db' \<longleftrightarrow> kd_entries db' = kd_entries db \<and> set (kd_versions db) \<subseteq> set (kd_versions db') \<and>
     (catalog_ok uuid db \<longrightarrow> catalog_ok uuid db')"

lemma moves_beside: "beside_entries (kc_uuid c) (ks_db s) (ks_db s') \<Longrightarrow> moves c code T s s'"
  by (simp add: moves_def beside_entries_def catalog_inv_def entry_status_def)

lemma moves_commit:
  "(\<And>db'. f (ks_db s) = Inr db' \<Longrightarrow> beside_entries (kc_uuid c) (ks_db s) db') \<Longrightarrow> moves c code T s (snd (commitA f s))"
  by (auto simp: commitA_def intro: moves_beside split: sum.splits)

lemma item_of_key: "item_of tenant code item found = Inr r \<Longrightarrow> item_key r = (tenant, code)"
  by (auto simp: item_of_def result_simps item_key_def)

lemma field_of_key: "field_of tenant model code payload found = Inr f \<Longrightarrow> field_key f = (tenant, model, code)"
  by (auto simp: field_of_def result_simps field_key_def)

lemma model_of_key: "model_of tenant code payload found = Inr m \<Longrightarrow> model_key m = (tenant, code)"
  by (auto simp: model_of_def result_simps model_key_def)

lemma catalog_ok_beside:
  "kd_entries db' = kd_entries db \<Longrightarrow> kd_next db' = kd_next db \<Longrightarrow> kd_versions db' = kd_versions db \<Longrightarrow>
   (unique_on item_key (kd_items db) \<Longrightarrow> unique_on item_key (kd_items db')) \<Longrightarrow>
   (unique_on model_key (kd_models db) \<Longrightarrow> unique_on model_key (kd_models db')) \<Longrightarrow>
   (unique_on field_key (kd_fields db) \<Longrightarrow> unique_on field_key (kd_fields db')) \<Longrightarrow>
   (legacy_inv (kd_legacy db) \<Longrightarrow> legacy_inv (kd_legacy db')) \<Longrightarrow> beside_entries uuid db db'"
  by (simp add: beside_entries_def catalog_ok_def entries_ok_def)

lemma upsert_item_beside:
  assumes "upsert_item now tenant item db = Inr db'"
  shows "beside_entries uuid db db'"
proof -
  obtain code r old ref ev legacy where r: "item_of tenant code item (row_by item_key (tenant, code) (kd_items db)) = Inr r"
    and l: "record_origin now tenant old ref ''catalog_item'' (JStr code) ev (kd_legacy db) = Inr legacy"
    and db': "db' = db\<lparr>kd_items := save_row item_key (row_by item_key (tenant, code) (kd_items db)) r (kd_items db), kd_legacy := legacy\<rparr>"
    using assms unfolding upsert_item_def Let_def by (auto simp: result_simps)
  show ?thesis
    by (rule catalog_ok_beside) (use save_row_unique item_of_key [OF r] record_origin_ok [OF l] in \<open>simp_all add: db'\<close>)
qed

lemma version_beside: "create_entry_version now tenant payload db = Inr db' \<Longrightarrow> beside_entries uuid db db'"
  by (auto simp: create_entry_version_def beside_entries_def catalog_ok_def result_simps Let_def unique_on_def
      entries_ok_def split: if_splits)

lemma field_beside:
  assumes "upsert_model_field now tenant payload db = Inr db'"
  shows "beside_entries uuid db db'"
proof -
  obtain model code f old ref ref' ev legacy where
    f: "field_of tenant model code payload (row_by field_key (tenant, model, code) (kd_fields db)) = Inr f"
    and l: "record_origin now tenant old ref ''catalog_model_field'' ref' ev (kd_legacy db) = Inr legacy"
    and db': "db' = db\<lparr>kd_fields := save_row field_key (row_by field_key (tenant, model, code) (kd_fields db)) f (kd_fields db),
      kd_legacy := legacy\<rparr>"
    using assms unfolding upsert_model_field_def Let_def by (auto simp: result_simps)
  show ?thesis
    by (rule catalog_ok_beside) (use save_row_unique field_of_key [OF f] record_origin_ok [OF l] in \<open>simp_all add: db'\<close>)
qed

lemma model_beside:
  assumes "upsert_model now tenant payload db = Inr (m, db')"
  shows "beside_entries uuid db db'"
proof -
  obtain code old ref ref' ev legacy where
    m: "model_of tenant code payload (row_by model_key (tenant, code) (kd_models db)) = Inr m"
    and l: "record_origin now tenant old ref ''catalog_model'' ref' ev (kd_legacy db) = Inr legacy"
    and db': "db' = db\<lparr>kd_models := save_row model_key (row_by model_key (tenant, code) (kd_models db)) m (kd_models db),
      kd_legacy := legacy\<rparr>"
    using assms unfolding upsert_model_def Let_def by (auto simp: result_simps)
  show ?thesis
    by (rule catalog_ok_beside) (use save_row_unique model_of_key [OF m] record_origin_ok [OF l] in \<open>simp_all add: db'\<close>)
qed

lemma moves_feed [simp]: "moves c code T s (snd (feedA c' skill target s))"
  by (rule moves_beside) (simp add: feedA_def act_apply beside_entries_def)

lemma entry_cases_moves [simp]: "moves c code T s (snd (casesA f s))"
  by (rule moves_beside) (simp add: casesA_def beside_entries_def split: sum.splits)

lemma moves_each: "(\<And>x s. moves c code T s (snd (f x s))) \<Longrightarrow> moves c code T s (snd (eachA f xs s))"
  by (induction xs arbitrary: s) (auto intro: moves_bind)

lemma moves_items [simp]: "moves c code T s (snd (save_items c target payload s))"
  unfolding save_items_def
  by (intro moves_bind moves_each) (auto simp: save_item_def intro!: moves_commit upsert_item_beside split: json.splits)

section \<open>The machine\<close>

definition op_code :: "dict \<Rightarrow> string" where "op_code payload = py_str (dget payload ''catalog_code'')"

lemma code_argumentD: "code_argument payload s = (Inr x, s') \<Longrightarrow> s' = s \<and> x = op_code payload"
  by (auto simp: code_argument_def raiseA_def liftE_def bindA_def act_apply dict_item_def op_code_def dget_def
      split: option.splits)

lemma moves_on_code:
  "(moves c (op_code payload) T s (snd (f (op_code payload) s))) \<Longrightarrow>
   moves c (op_code payload) T s (snd (bindA (code_argument payload) f s))"
  by (rule moves_bind) (auto dest!: code_argumentD)

lemma moves_on_entry:
  "(\<And>e. get_entry (ks_db s) (kc_tenant c) code = Inr (Some e) \<Longrightarrow> ce_code e = code \<Longrightarrow> moves c code T s (snd (f e s))) \<Longrightarrow>
   moves c code T s (snd (bindA (existing_entry c code) f s))"
  by (rule moves_bind) (auto dest: existing_entryD)

lemma moves_then: "moves c code T s (snd (m s)) \<Longrightarrow> (\<And>x s'. moves c code T s' (snd (f x s'))) \<Longrightarrow> moves c code T s (snd (bindA m f s))"
  by (rule moves_bind)

lemma moves_reading: "snd (m s) = s \<Longrightarrow> (\<And>x. m s = (Inr x, s) \<Longrightarrow> moves c code T s (snd (f x s))) \<Longrightarrow> moves c code T s (snd (bindA m f s))"
  by (rule moves_bind) auto

lemma moves_given: "(catalog_inv (kc_uuid c) s \<Longrightarrow> moves c code T s s') \<Longrightarrow> moves c code T s s'"
  by (auto simp: moves_def)

lemma needed_text [simp]: "column_needed (JStr x) = Inr x"
  by (simp add: column_needed_def column_text_def)

lemma save_transition:
  "ce_code e = code \<Longrightarrow> moves c code {status} s (snd (save_entry c (transition_resource e status old summary) s))"
  by (rule moves_save) (simp_all add: transition_resource_def dmerge_def)

lemma transition_moves: "moves c code {status} s (snd (transition_catalog_entry c code status skill note s))"
  unfolding transition_catalog_entry_def
  by (intro moves_on_entry moves_then save_transition) (auto intro!: moves_commit version_beside)

lemma create_draft_moves:
  "moves c (op_code payload) {''draft''} s (snd (create_catalog_entry_draft digest c payload s))"
  unfolding create_catalog_entry_draft_def
  by (intro moves_on_code moves_then moves_save) (simp_all add: draft_resource_def dget_def)

lemma create_reverse_moves:
  "moves c (op_code payload) {''draft''} s (snd (create_catalog_entry_reverse_draft c payload s))"
  unfolding create_catalog_entry_reverse_draft_def
  by (intro moves_on_code moves_then moves_save) (simp_all add: reverse_resource_def dget_def Let_def)

lemma moves_still:
  assumes "get_entry (ks_db s) (kc_tenant c) code = Inr (Some e)" and "moves c code {ce_status e} s s'"
  shows "moves c code {} s s'"
proof (rule moves_given)
  assume "catalog_inv (kc_uuid c) s"
  then show "moves c code {} s s'"
    using assms(2) existing_status [OF _ assms(1)] by (auto simp: moves_def)
qed

lemma save_update:
  "moves c code {ce_status e} s (snd (save_entry c (dmerge d (update_overrides code e old payload)) s))"
  by (rule moves_save) (simp_all add: update_overrides_def dmerge_def)

lemma update_moves: "moves c (op_code payload) {} s (snd (update_catalog_entry c payload s))"
  unfolding update_catalog_entry_def
  by (rule moves_on_code, rule moves_on_entry, erule moves_still, intro moves_then save_update) simp_all

lemma reverse_summaryD:
  assumes "reverse_summary c code s = (Inr (e, d), s')"
  shows "get_entry (ks_db s) (kc_tenant c) code = Inr (Some e)" "ce_summary e = JObj d" "s' = s"
    "dget d ''source'' = JStr ''reverse''"
proof -
  obtain e' where e: "existing_entry c code s = (Inr e', s)"
    using assms existing_entry_reads [of c code s]
    by (cases "existing_entry c code s") (auto simp: reverse_summary_def bindA_def split: sum.splits)
  then have rest: "bindA (raiseA (summary_dict e') id) (\<lambda>summary.
       if dget summary ''source'' \<noteq> JStr ''reverse''
       then throwA (invalid_state (''catalog_entry '' @ code @ '' is not a reverse draft (source='' @
              py_repr (dget summary ''source'') @ '')''))
       else retA (e', summary)) s = (Inr (e, d), s')"
    using assms by (simp add: reverse_summary_def act_simps)
  then show "ce_summary e = JObj d" "s' = s" "dget d ''source'' = JStr ''reverse''"
    by (auto simp: bindA_def act_apply dest!: summary_dictD split: sum.splits prod.splits if_splits)
  have "e' = e" using rest by (auto simp: bindA_def act_apply split: sum.splits prod.splits if_splits)
  then show "get_entry (ks_db s) (kc_tenant c) code = Inr (Some e)" using existing_entryD(2) [OF e] by simp
qed

lemma moves_on_reverse:
  "(\<And>e d. catalog_inv (kc_uuid c) s \<Longrightarrow> get_entry (ks_db s) (kc_tenant c) code = Inr (Some e) \<Longrightarrow> ce_summary e = JObj d \<Longrightarrow>
      column_needed (dget d ''id'') = Inr code \<Longrightarrow> moves c code T s (snd (f (e, d) s))) \<Longrightarrow>
   moves c code T s (snd (bindA (reverse_summary c code) f s))"
proof (rule moves_given, rule moves_reading, simp)
  fix x
  assume step: "\<And>e d. catalog_inv (kc_uuid c) s \<Longrightarrow> get_entry (ks_db s) (kc_tenant c) code = Inr (Some e) \<Longrightarrow>
      ce_summary e = JObj d \<Longrightarrow> column_needed (dget d ''id'') = Inr code \<Longrightarrow> moves c code T s (snd (f (e, d) s))"
    and inv: "catalog_inv (kc_uuid c) s" and x: "reverse_summary c code s = (Inr x, s)"
  obtain e d where ed: "x = (e, d)" by fastforce
  note r = reverse_summaryD [OF x [unfolded ed]]
  have "mirrors e" "ce_code e = code"
    using inv get_entry_SomeD [OF r(1)] by (auto simp: catalog_inv_def catalog_ok_def entries_ok_def entry_key_def)
  then have "column_needed (dget d ''id'') = Inr code" using r(2) by (auto simp: mirrors_def)
  then show "moves c code T s (snd (f x s))" using step [OF inv r(1,2)] ed by simp
qed

lemma save_reverse:
  "column_needed (dget d ''id'') = Inr code \<Longrightarrow>
   moves c code {''pending_platform_review''} s (snd (save_entry c (dmerge d [(''status'', JStr ''pending_platform_review''),
     (''field_decisions'', fd), (''confirmation_comment'', cc), (''confirmed_by_audit'', ca)]) s))"
  "column_needed (dget d ''id'') = Inr code \<Longrightarrow>
   moves c code {''rejected''} s (snd (save_entry c (dmerge d [(''status'', JStr ''rejected''),
     (''rejected_reason'', rr), (''rejected_by_audit'', ra)]) s))"
  by (rule moves_save; simp add: dmerge_def)+

lemma reject_reverse_moves:
  "moves c (op_code payload) {''rejected''} s (snd (reject_catalog_entry_reverse_draft c payload s))"
  unfolding reject_catalog_entry_reverse_draft_def
proof (rule moves_on_code, rule moves_reading, simp, rule moves_on_reverse)
  fix reason e d assume "column_needed (dget d ''id'') = Inr (op_code payload)"
  then show "moves c (op_code payload) {''rejected''} s (snd ((\<lambda>(e, summary).
       bindA (save_entry c (dmerge summary [(''status'', JStr ''rejected''),
          (''rejected_reason'', JStr (py_str reason)), (''rejected_by_audit'', JStr (kc_audit c))])) (\<lambda>_.
       bindA (feedA c ''catalog.entry.reverse_draft.reject'' (op_code payload)) (\<lambda>_.
         answer c (op_code payload) ''rejected'' [(''reason'', JStr (py_str reason))]))) (e :: centry_row, d) s))"
    unfolding prod.case by (intro moves_then save_reverse) simp_all
qed

lemma confirm_reverse_moves:
  "moves c (op_code payload) (if entry_status s (kc_tenant c, op_code payload) = Some ''draft'' then {''pending_platform_review''} else {})
     s (snd (confirm_catalog_entry_reverse_draft c payload s))"
  unfolding confirm_catalog_entry_reverse_draft_def
proof (rule moves_on_code, rule moves_on_reverse)
  fix e d assume inv: "catalog_inv (kc_uuid c) s" and e: "get_entry (ks_db s) (kc_tenant c) (op_code payload) = Inr (Some e)"
    and d: "column_needed (dget d ''id'') = Inr (op_code payload)"
  show "moves c (op_code payload) (if entry_status s (kc_tenant c, op_code payload) = Some ''draft'' then {''pending_platform_review''} else {})
     s (snd ((\<lambda>(e, summary).
       if ce_status e \<noteq> ''draft''
       then throwA (invalid_state (''catalog_entry '' @ op_code payload @ '' is not in draft (current='' @ ce_status e @ '')''))
       else
         bindA (save_entry c (dmerge summary [(''status'', JStr ''pending_platform_review''),
                  (''field_decisions'', py_or (dget payload ''field_decisions'') (JList [])),
                  (''confirmation_comment'', dget payload ''comment''),
                  (''confirmed_by_audit'', JStr (kc_audit c))])) (\<lambda>_.
         bindA (feedA c ''catalog.entry.reverse_draft.confirm'' (op_code payload)) (\<lambda>_.
           answer c (op_code payload) ''pending_platform_review'' []))) (e, d) s))"
    using existing_status [OF inv e] unfolding prod.case
    by (cases "ce_status e = ''draft''") (simp_all, intro moves_then save_reverse d, simp_all)
qed

definition review_targets :: "string option \<Rightarrow> string \<Rightarrow> string \<Rightarrow> string set" where
  "review_targets state role decision =
     (if decision = ''approve'' then (case state of None \<Rightarrow> {} | Some a \<Rightarrow> set_option (approval_target a role))
      else if decision = ''return_for_fix'' then {''draft''}
      else if decision = ''reject'' then {''rejected''} else {})"

lemma approve_moves:
  "moves c code (review_targets (entry_status s (kc_tenant c, code)) (kc_role c) ''approve'') s
     (snd (approve_catalog_entry c code s))"
  unfolding approve_catalog_entry_def
proof (rule moves_given, rule moves_on_entry)
  fix e assume inv: "catalog_inv (kc_uuid c) s" and e: "get_entry (ks_db s) (kc_tenant c) code = Inr (Some e)"
  show "moves c code (review_targets (entry_status s (kc_tenant c, code)) (kc_role c) ''approve'') s
      (snd ((case approval_target (ce_status e) (kc_role c) of
         None \<Rightarrow> throwA (approval_refused code (ce_status e) (kc_role c))
       | Some target \<Rightarrow> transition_catalog_entry c code target ''catalog.entry.review'' (Some [])) s))"
    by (simp add: review_targets_def existing_status [OF inv e] transition_moves split: option.split)
qed

lemma review_moves:
  "moves c code (review_targets (entry_status s (kc_tenant c, code)) (kc_role c) decision) s
     (snd (review_catalog_entry c code decision reason s))"
proof (cases "decision = ''approve''")
  case True
  then show ?thesis using approve_moves by (simp add: review_catalog_entry_def)
next
  case False
  have rest: "moves c code {target} s (snd (bindA (raiseA (reason_text reason) id) (\<lambda>r.
      if r = [] then throwA (invalid_state lbl_cat_needs_reason)
      else transition_catalog_entry c code target ''catalog.entry.review'' (Some (py_str reason))) s))" for target
    by (rule moves_then) (simp, simp add: transition_moves)
  show ?thesis
  proof (cases "decision \<in> {''return_for_fix'', ''reject''}")
    case True
    then show ?thesis using rest [of "''draft''"] rest [of "''rejected''"]
      by (auto simp: review_catalog_entry_def review_targets_def)
  qed (simp add: False review_catalog_entry_def review_targets_def)
qed

lemma submit_moves: "moves c (op_code payload) {''pending_review''} s (snd (submit_catalog_entry_review c payload s))"
  unfolding submit_catalog_entry_review_def
  by (intro moves_on_code moves_then) (auto simp: Let_def transition_moves)

lemma check_duplicate_reads [simp]: "snd (check_catalog_duplicate c code s) = s"
  unfolding check_catalog_duplicate_def by (rule bind_reads) simp_all

lemma publish_moves: "moves c (op_code payload) {''active''} s (snd (publish_catalog_entry c payload s))"
  unfolding publish_catalog_entry_def
proof (rule moves_on_code)
  have tail: "moves c (op_code payload) {''active''} s (snd (bindA (transition_catalog_entry c (op_code payload) ''active''
      ''catalog.entry.publish'' None) (\<lambda>r. retA (r, w)) s))" for w :: "(string \<times> string list) list"
    by (intro moves_then transition_moves) simp
  show "moves c (op_code payload) {''active''} s (snd (tryA (check_catalog_duplicate c (op_code payload))
      (\<lambda>ex. if ex_class ex = ''NotFoundError''
            then bindA (transition_catalog_entry c (op_code payload) ''active'' ''catalog.entry.publish'' None) (\<lambda>r. retA (r, []))
            else throwA ex)
      (\<lambda>warnings. bindA (transition_catalog_entry c (op_code payload) ''active'' ''catalog.entry.publish'' None)
                      (\<lambda>r. retA (r, warnings))) s))"
  proof (cases "check_catalog_duplicate c (op_code payload) s")
    case (Pair r s')
    then have "s' = s" using check_duplicate_reads [of c "op_code payload" s] by simp
    then show ?thesis using Pair tail by (cases r) (auto simp: tryA_def)
  qed
qed

lemma withdraw_moves: "moves c (op_code payload) {''retired''} s (snd (withdraw_catalog_entry c payload s))"
  unfolding withdraw_catalog_entry_def by (intro moves_on_code transition_moves)

lemma save_model_moves: "moves c code T s (snd (save_model c payload s))"
  by (cases "upsert_model (kc_now c) repo_tenant payload (ks_db s)") (auto simp: save_model_def intro!: moves_beside model_beside)

lemma model_moves: "moves c code {} s (snd (upsert_catalog_model c payload s))"
  unfolding upsert_catalog_model_def
  by (intro moves_then save_model_moves moves_each)
     (auto simp: save_model_field_def intro!: moves_commit field_beside split: json.splits)

section \<open>Entries of the provider and of resources\<close>

lemma after_on_catalog [simp]: "fst (snd (on_catalog m s)) = snd (m (fst s))"
  by (simp add: on_catalog_def split: prod.split)

lemma after_beside [simp]: "fst (snd (beside f s)) = fst s"
  by (simp add: beside_def split: sum.split)

lemma after_pure [simp]: "snd (liftE h r s) = s" "snd (retA x s) = s" "snd (throwA ex s) = s"
  by (simp_all add: liftE_def retA_def throwA_def split: sum.split)

lemma moves_pair:
  "moves c code T (fst s) (fst (snd (m s))) \<Longrightarrow>
   (\<And>x s'. m s = (Inr x, s') \<Longrightarrow> moves c code T (fst s') (fst (snd (f x s')))) \<Longrightarrow>
   moves c code T (fst s) (fst (snd (bindA m f s)))"
  by (rule rel_bind_at [where R = "\<lambda>s s'. moves c code T (fst s) (fst s')"]) (auto intro: entry_moves_trans)

lemma managed_moves:
  "moves (as_default_tenant c) i (if action = ''publish'' then {''approved_pending_publish''} else {}) (fst s)
     (fst (snd (manage_mutation c i action entry s)))"
proof -
  have "moves (as_default_tenant c) i {''approved_pending_publish''} k (snd (save_entry (as_default_tenant c) (managed_resource i entry) k))" for k
    by (rule moves_save) (simp_all add: managed_resource_def dget_def)
  then show ?thesis unfolding manage_mutation_def by (intro moves_pair) simp_all
qed

lemma item_read: "liftE py_exn (dict_item p k) s = (Inr v, s') \<Longrightarrow> v = dget p k \<and> s' = s"
  by (auto simp: liftE_def dict_item_def dget_def split: option.splits)

lemma manage_moves:
  "moves (as_default_tenant c) (py_str (dget payload ''catalog_id''))
     (if py_str (dget payload ''action'') = ''publish'' then {''approved_pending_publish''} else {}) (fst s)
     (fst (snd (manage_catalog_entry c payload s)))"
  (is "moves ?c ?i ?T _ _")
proof -
  have found: "moves ?c ?i ?T (fst k) (fst (snd ((case found of None \<Rightarrow> throwA (not_found (py_str i))
      | Some entry \<Rightarrow>
          if py_str action \<notin> {''publish'', ''revise''}
          then throwA (invalid_state (''unsupported catalog action: '' @ py_str action))
          else manage_mutation c (py_str i) (py_str action) entry) k)))"
    if "i = dget payload ''catalog_id''" and "action = dget payload ''action''" for i action found k
    using that managed_moves [of c "py_str i" "py_str action" k] by (auto split: option.split)
  show ?thesis
    unfolding manage_catalog_entry_def
  proof (rule moves_pair)
    fix i s1 assume i: "liftE py_exn (dict_item payload ''catalog_id'') s = (Inr i, s1)"
    show "moves ?c ?i ?T (fst s1) (fst (snd (bindA (liftE py_exn (dict_item payload ''action'')) (\<lambda>action.
        bindA (beside (\<lambda>provider. bindE (raiseE py_exn (bindE (provider_catalogs provider) (find_catalog (py_str i))))
                                  (\<lambda>found. Inr (found, provider)))) (\<lambda>found.
          case found of None \<Rightarrow> throwA (not_found (py_str i))
          | Some entry \<Rightarrow>
              if py_str action \<notin> {''publish'', ''revise''}
              then throwA (invalid_state (''unsupported catalog action: '' @ py_str action))
              else manage_mutation c (py_str i) (py_str action) entry)) s1)))"
    proof (rule moves_pair)
      fix action s2 assume action: "liftE py_exn (dict_item payload ''action'') s1 = (Inr action, s2)"
      show "moves ?c ?i ?T (fst s2) (fst (snd (bindA (beside (\<lambda>provider.
            bindE (raiseE py_exn (bindE (provider_catalogs provider) (find_catalog (py_str i)))) (\<lambda>found. Inr (found, provider)))) (\<lambda>found.
          case found of None \<Rightarrow> throwA (not_found (py_str i))
          | Some entry \<Rightarrow>
              if py_str action \<notin> {''publish'', ''revise''}
              then throwA (invalid_state (''unsupported catalog action: '' @ py_str action))
              else manage_mutation c (py_str i) (py_str action) entry) s2)))"
        by (rule moves_pair) (simp, rule found [OF conjunct1 [OF item_read [OF i]] conjunct1 [OF item_read [OF action]]])
    qed simp
  qed simp
qed

text \<open>The entry a resource belongs to, when the table names one.\<close>

definition entry_of_resource :: "string \<Rightarrow> resource_row list \<Rightarrow> string" where
  "entry_of_resource code rows =
     (case get_asset repo_tenant code rows of
        Inr (Some r) \<Rightarrow> (case rz_catalog r of Some e \<Rightarrow> e | None \<Rightarrow> []) | _ \<Rightarrow> [])"

lemma publish_its_entry_moves:
  "moves (as_default_tenant c) (case rz_catalog r of Some e \<Rightarrow> e | None \<Rightarrow> []) (if status = ''active'' then {''active''} else {}) s
     (snd (publish_its_entry c status r s))"
proof (cases "rz_catalog r")
  case (Some e)
  have "moves (as_default_tenant c) e {''active''} k (snd (save_entry (as_default_tenant c) d k))"
    if "published_resource e r = Inr d" for k d
    by (rule moves_save) (use that in \<open>auto simp: published_resource_def dget_def split: json.splits\<close>)
  then have "moves (as_default_tenant c) e {''active''} s
      (snd (bindA (liftE (\<lambda>e. e) (published_resource e r)) (save_entry (as_default_tenant c)) s))"
    by (intro moves_bind) (auto simp: liftE_def split: sum.splits)
  then show ?thesis by (simp add: publish_its_entry_def Some)
qed (simp add: publish_its_entry_def)

lemma transition_resource_moves:
  "moves (as_default_tenant c) (entry_of_resource code (snd s)) (if status = ''active'' then {''active''} else {}) (fst s)
     (fst (snd (transition_api_resource c skill code status note s)))"
proof -
  have same: "entry_of_resource code (snd s) = (case rz_catalog r of Some e \<Rightarrow> e | None \<Rightarrow> [])"
    if "beside (transition_asset repo_tenant code status note) s = (Inr (Some r), s')" for r s'
    using that by (auto simp: beside_def transition_asset_def entry_of_resource_def result_simps Let_def split: sum.splits option.splits)
  show ?thesis
    unfolding transition_api_resource_def
  proof (rule moves_pair)
    fix found s' assume run: "beside (transition_asset repo_tenant code status note) s = (Inr found, s')"
    show "moves (as_default_tenant c) (entry_of_resource code (snd s)) (if status = ''active'' then {''active''} else {}) (fst s')
       (fst (snd ((case found of None \<Rightarrow> throwA (not_found code) | Some r \<Rightarrow>
           bindA (on_catalog (publish_its_entry c status r)) (\<lambda>_.
           bindA (on_catalog (casesA (upsert_lifecycle (kc_uuid c) (kc_now c) repo_tenant code
                    (api_lifecycle status (kc_actor c) skill (kc_audit c)
                       (if status \<in> {''draft'', ''test_failed''} then Some ''return'' else None))))) (\<lambda>_.
           bindA (on_catalog (feedA c skill code)) (\<lambda>_. retA r)))) s')))"
    proof (cases found)
      case (Some r)
      show ?thesis
        unfolding Some option.case same [OF run [unfolded Some]]
        by (intro moves_pair) (simp_all add: publish_its_entry_moves)
    qed simp
  qed simp
qed

lemma transition_resource_stays:
  "status \<noteq> ''active'' \<Longrightarrow> moves (as_default_tenant c) (entry_of_resource code (snd s)) {} (fst s)
     (fst (snd (transition_api_resource c skill code status note s)))"
  using transition_resource_moves [of c code s status skill "note"] by simp

lemma submit_resource_moves:
  "moves (as_default_tenant c) (entry_of_resource code (snd s)) {} (fst s)
     (fst (snd (submit_api_resource_review c skill code s)))"
  unfolding submit_api_resource_review_def
proof (rule moves_pair)
  fix missing s'
  assume "beside (\<lambda>rows. bindE (get_asset repo_tenant code rows) (\<lambda>found.
      bindE (case found of None \<Rightarrow> Inr False | Some r \<Rightarrow> mapping_missing r) (\<lambda>missing. Inr (missing, rows)))) s = (Inr missing, s')"
  then have "s' = s" by (auto simp: beside_def bindE_def split: sum.splits)
  then show "moves (as_default_tenant c) (entry_of_resource code (snd s)) {} (fst s') (fst (snd
      ((if missing then throwA (invalid_state (lbl_table_resource @ code @ lbl_table_not_ready))
        else transition_api_resource c skill code ''pending_review'' None) s')))"
    by (simp add: transition_resource_stays)
qed simp

lemma review_resource_moves:
  "moves (as_default_tenant c) (entry_of_resource code (snd s)) {} (fst s)
     (fst (snd (review_api_resource c skill code decision reason s)))"
  by (simp add: review_api_resource_def transition_resource_stays)

lemma resource_code_read:
  "resource_code_of p s = (Inr x, s') \<Longrightarrow> x = py_str (dget p ''resource_code'') \<and> s' = s"
  by (auto simp: resource_code_of_def liftE_def dict_item_def dget_def bindA_def retA_def split: option.splits)

lemma after_resource_code [simp]: "snd (resource_code_of p s) = s"
  by (simp add: resource_code_of_def bindA_def liftE_def retA_def split: sum.split)

lemma resource_moves:
  "moves (as_default_tenant c) (entry_of_resource (py_str (dget p ''resource_code'')) (snd s))
     (if k = PublishResource then {''active''} else {}) (fst s) (fst (snd (handle_resource c skill k p s)))"
proof -
  let ?e = "entry_of_resource (py_str (dget p ''resource_code'')) (snd s)"
  have coded: "moves (as_default_tenant c) ?e T (fst s) (fst (snd (bindA (resource_code_of p) f s)))"
    if "moves (as_default_tenant c) ?e T (fst s) (fst (snd (f (py_str (dget p ''resource_code'')) s)))"
    for T and f :: "string \<Rightarrow> (resource_row, catalog_sys \<times> resource_row list) act"
    by (rule moves_pair) (use that in \<open>auto dest!: resource_code_read\<close>)
  have decided: "moves (as_default_tenant c) ?e {} (fst s) (fst (snd (bindA (liftE py_exn (dict_item p ''decision'')) (\<lambda>d.
      review_api_resource c skill (py_str (dget p ''resource_code'')) (py_str d) reason) s)))" for reason
    by (rule moves_pair) (use review_resource_moves [of c _ s] in \<open>auto dest!: item_read\<close>)
  show ?thesis
    using transition_resource_moves [of c _ s "''active''" skill None]
    by (cases k) (simp_all add: coded submit_resource_moves decided transition_resource_stays)
qed

section \<open>All of them\<close>

text \<open>The last two carry what stands beside the catalogue when they are called: whatever it is.\<close>

datatype catalog_op =
    CreateDraft dict | UpdateEntry dict | SubmitReview dict | ReviewEntry dict | PublishEntry dict | WithdrawEntry dict
  | CreateReverse dict | ConfirmReverse dict | RejectReverse dict | UpsertModel dict
  | ManageEntry dict dict | MoveResource resource_skill string "resource_row list" dict

definition on_entries :: "('a, catalog_sys \<times> 'b) act \<Rightarrow> 'b \<Rightarrow> dict catalog_act" where
  "on_entries m x s = (case m (s, x) of (r, t) \<Rightarrow> (case r of Inl e \<Rightarrow> Inl e | Inr _ \<Rightarrow> Inr [], fst t))"

fun run_catalog_op :: "(string \<Rightarrow> string) \<Rightarrow> catalog_call \<Rightarrow> catalog_op \<Rightarrow> dict catalog_act" where
  "run_catalog_op digest c (CreateDraft p) = create_catalog_entry_draft digest c p"
| "run_catalog_op digest c (UpdateEntry p) = update_catalog_entry c p"
| "run_catalog_op digest c (SubmitReview p) = submit_catalog_entry_review c p"
| "run_catalog_op digest c (ReviewEntry p) = handler_catalog_entry_review c p"
| "run_catalog_op digest c (PublishEntry p) = bindA (publish_catalog_entry c p) (\<lambda>(r, _). retA r)"
| "run_catalog_op digest c (WithdrawEntry p) = withdraw_catalog_entry c p"
| "run_catalog_op digest c (CreateReverse p) = create_catalog_entry_reverse_draft c p"
| "run_catalog_op digest c (ConfirmReverse p) = confirm_catalog_entry_reverse_draft c p"
| "run_catalog_op digest c (RejectReverse p) = reject_catalog_entry_reverse_draft c p"
| "run_catalog_op digest c (UpsertModel p) = upsert_catalog_model c p"
| "run_catalog_op digest c (ManageEntry provider p) = on_entries (manage_catalog_entry c p) provider"
| "run_catalog_op digest c (MoveResource k skill rows p) = on_entries (handle_resource c skill k p) rows"

fun op_payload :: "catalog_op \<Rightarrow> dict" where
  "op_payload (CreateDraft p) = p" | "op_payload (UpdateEntry p) = p" | "op_payload (SubmitReview p) = p"
| "op_payload (ReviewEntry p) = p" | "op_payload (PublishEntry p) = p" | "op_payload (WithdrawEntry p) = p"
| "op_payload (CreateReverse p) = p" | "op_payload (ConfirmReverse p) = p" | "op_payload (RejectReverse p) = p"
| "op_payload (UpsertModel p) = p" | "op_payload (ManageEntry provider p) = p" | "op_payload (MoveResource k skill rows p) = p"

text \<open>The entry a skill is called on, by its tenant and code.\<close>

fun op_tenant :: "string \<Rightarrow> catalog_op \<Rightarrow> string" where
  "op_tenant tenant (ManageEntry provider p) = repo_tenant"
| "op_tenant tenant (MoveResource k skill rows p) = repo_tenant"
| "op_tenant tenant op = tenant"

fun op_entry :: "catalog_op \<Rightarrow> string" where
  "op_entry (ManageEntry provider p) = py_str (dget p ''catalog_id'')"
| "op_entry (MoveResource k skill rows p) = entry_of_resource (py_str (dget p ''resource_code'')) rows"
| "op_entry op = op_code (op_payload op)"

text \<open>Where a skill can take the entry it is called on, from the status it has.\<close>

fun op_targets :: "string option \<Rightarrow> string \<Rightarrow> catalog_op \<Rightarrow> string set" where
  "op_targets a role (CreateDraft p) = {''draft''}"
| "op_targets a role (UpdateEntry p) = {}"
| "op_targets a role (SubmitReview p) = {''pending_review''}"
| "op_targets a role (ReviewEntry p) = review_targets a role (py_str (dget p ''decision''))"
| "op_targets a role (PublishEntry p) = {''active''}"
| "op_targets a role (WithdrawEntry p) = {''retired''}"
| "op_targets a role (CreateReverse p) = {''draft''}"
| "op_targets a role (ConfirmReverse p) = (if a = Some ''draft'' then {''pending_platform_review''} else {})"
| "op_targets a role (RejectReverse p) = {''rejected''}"
| "op_targets a role (UpsertModel p) = {}"
| "op_targets a role (ManageEntry provider p) =
     (if py_str (dget p ''action'') = ''publish'' then {''approved_pending_publish''} else {})"
| "op_targets a role (MoveResource k skill rows p) = (if k = PublishResource then {''active''} else {})"

lemma review_handler_moves:
  "moves c (op_code p) (review_targets (entry_status s (kc_tenant c, op_code p)) (kc_role c) (py_str (dget p ''decision'')))
     s (snd (handler_catalog_entry_review c p s))"
  unfolding handler_catalog_entry_review_def Let_def
proof (rule moves_on_code, rule moves_reading, simp)
  fix d assume "raiseA (dict_item p ''decision'') py_exn s = (Inr d, s)"
  then have "d = dget p ''decision''"
    by (auto simp: raiseA_def liftE_def dict_item_def dget_def split: option.splits)
  then show "moves c (op_code p) (review_targets (entry_status s (kc_tenant c, op_code p)) (kc_role c) (py_str (dget p ''decision'')))
     s (snd (review_catalog_entry c (op_code p) (py_str d)
       (if dget p ''reason'' = JNull then dget p ''review_note'' else dget p ''reason'') s))"
    by (simp add: review_moves)
qed

lemma after_on_entries [simp]: "snd (on_entries m x s) = fst (snd (m (s, x)))"
  by (simp add: on_entries_def split: prod.split)

lemma op_moves:
  "moves (c\<lparr>kc_tenant := op_tenant (kc_tenant c) op\<rparr>) (op_entry op)
     (op_targets (entry_status s (op_tenant (kc_tenant c) op, op_entry op)) (kc_role c) op) s (snd (run_catalog_op digest c op s))"
proof (cases op)
  case (PublishEntry p)
  have "moves c (op_code p) {''active''} s (snd (bindA (publish_catalog_entry c p) (\<lambda>(r, _). retA r) s))"
    by (intro moves_then publish_moves) (simp split: prod.split)
  then show ?thesis using PublishEntry by simp
next
  case (ManageEntry provider p)
  show ?thesis using manage_moves [of c p "(s, provider)"] by (simp add: ManageEntry as_default_tenant_def)
next
  case (MoveResource k skill rows p)
  show ?thesis using resource_moves [of c p "(s, rows)" k skill] by (simp add: MoveResource as_default_tenant_def)
qed (simp_all add: create_draft_moves update_moves submit_moves review_handler_moves withdraw_moves
       create_reverse_moves confirm_reverse_moves reject_reverse_moves model_moves)

end
