(* ===== verification/CatalogLife.thy ===== *)
theory CatalogLife
  imports CatalogSafe
begin

text \<open>
  The life of catalogue entries in a run of skills: the machine over their status, who approves an entry,
  what a submission and a review leave behind, and what a publication needs.
\<close>

section \<open>Runs\<close>

definition fix_call :: "(nat \<Rightarrow> string) \<Rightarrow> string \<Rightarrow> catalog_call \<Rightarrow> catalog_call" where
  "fix_call uuid tenant c = c\<lparr>kc_uuid := uuid, kc_tenant := tenant\<rparr>"

text \<open>A skill that raises keeps what it has written.\<close>

definition catalog_step ::
    "(string \<Rightarrow> string) \<Rightarrow> (nat \<Rightarrow> string) \<Rightarrow> string \<Rightarrow> catalog_sys \<Rightarrow> catalog_call \<times> catalog_op \<Rightarrow> exn + catalog_sys" where
  "catalog_step digest uuid tenant s call =
     (case call of (c, op) \<Rightarrow> Inr (snd (run_catalog_op digest (fix_call uuid tenant c) op s)))"

definition catalog_edges :: "(string \<times> string) set" where
  "catalog_edges =
     {(a, b). b \<in> {''draft'', ''pending_review'', ''active'', ''retired'', ''rejected'', ''approved_pending_publish''}} \<union>
     {(''pending_review'', ''pending_platform_review''), (''draft'', ''pending_platform_review'')}"

lemma approval_target_Some_iff:
  "approval_target a role = Some b \<longleftrightarrow>
     a = ''pending_review'' \<and> role = ''ROLE_ORGAN_MANAGER'' \<and> b = ''pending_platform_review'' \<or>
     a \<in> {''pending_review'', ''pending_platform_review''} \<and> role = ''ROLE_BUSIAUDIT'' \<and> b = ''approved_pending_publish''"
  by (auto simp: approval_target_def)

lemma op_targets_edges: "b \<in> op_targets (Some a) role op \<Longrightarrow> (a, b) \<in> catalog_edges"
  by (cases op) (auto simp: catalog_edges_def review_targets_def approval_target_Some_iff split: if_splits)

lemma catalog_step_moves:
  assumes "catalog_inv uuid s" and "catalog_step digest uuid tenant s (c, op) = Inr s'"
  defines "i \<equiv> (op_tenant tenant op, op_entry op)"
  shows "catalog_inv uuid s'" "set (kd_versions (ks_db s)) \<subseteq> set (kd_versions (ks_db s'))"
    "k \<noteq> i \<Longrightarrow> entry_status s' k = entry_status s k"
    "entry_status s' i = entry_status s i \<or>
     (\<exists>b \<in> op_targets (entry_status s i) (kc_role c) op. entry_status s' i = Some b)"
proof -
  have "s' = snd (run_catalog_op digest (fix_call uuid tenant c) op s)"
    using assms(2) by (simp add: catalog_step_def)
  then have "moves (c\<lparr>kc_uuid := uuid, kc_tenant := op_tenant tenant op\<rparr>) (op_entry op)
      (op_targets (entry_status s i) (kc_role c) op) s s'"
    using op_moves [of "fix_call uuid tenant c" op s digest] by (simp add: fix_call_def i_def)
  then have m: "catalog_inv uuid s' \<and> set (kd_versions (ks_db s)) \<subseteq> set (kd_versions (ks_db s')) \<and>
      (\<forall>k. k \<noteq> i \<longrightarrow> entry_status s' k = entry_status s k) \<and>
      (entry_status s' i = entry_status s i \<or>
       entry_status s' i \<in> Some ` op_targets (entry_status s i) (kc_role c) op)"
    using assms(1) by (simp add: moves_def i_def)
  then show "catalog_inv uuid s'" "set (kd_versions (ks_db s)) \<subseteq> set (kd_versions (ks_db s'))" by blast+
  show "k \<noteq> i \<Longrightarrow> entry_status s' k = entry_status s k" using m by blast
  show "entry_status s' i = entry_status s i \<or>
     (\<exists>b \<in> op_targets (entry_status s i) (kc_role c) op. entry_status s' i = Some b)"
    using m by blast
qed

lemma step_edge:
  assumes "catalog_inv uuid s" and "catalog_step digest uuid tenant s op = Inr s'" and "entry_status s i = Some a"
  shows "\<exists>b. entry_status s' i = Some b \<and> (a = b \<or> (a, b) \<in> catalog_edges)"
proof -
  obtain c o' where op: "op = (c, o')" by fastforce
  note m = catalog_step_moves [OF assms(1) assms(2) [unfolded op]]
  show ?thesis
    using m(3) [of i] m(4) assms(3) op_targets_edges
    by (cases "i = (op_tenant tenant o', op_entry o')") auto
qed

interpretation catalog_flow: guarded_machine "catalog_step digest uuid tenant" entry_status "catalog_inv uuid" catalog_edges
  for digest uuid tenant
proof
  fix s op s'
  assume "catalog_inv uuid s" "catalog_step digest uuid tenant s op = Inr s'"
  then show "catalog_inv uuid s'"
    using catalog_step_moves(1) by (cases op) blast
qed (rule step_edge)

interpretation catalog_versions: append_only "catalog_step digest uuid tenant" "catalog_inv uuid" "\<lambda>s. set (kd_versions (ks_db s))"
  for digest uuid tenant
proof
  fix s op s'
  assume "catalog_inv uuid s" "catalog_step digest uuid tenant s op = Inr s'"
  then show "set (kd_versions (ks_db s)) \<subseteq> set (kd_versions (ks_db s'))"
    using catalog_step_moves(2) by (cases op) blast
qed (rule catalog_flow.inv_step)

lemma empty_catalog_inv: "inj uuid \<Longrightarrow> ks_db s = empty_catalog_db \<Longrightarrow> catalog_inv uuid s"
  by (simp add: catalog_inv_def catalog_ok_def entries_ok_def empty_catalog_db_def unique_on_def legacy_inv_empty)

definition empty_catalog :: catalog_sys where
  "empty_catalog = \<lparr>ks_db = empty_catalog_db, ks_cases = empty_case_db, ks_feed = []\<rparr>"

definition catalog_sample :: "string \<Rightarrow> string \<Rightarrow> catalog_call" where
  "catalog_sample role audit = \<lparr>kc_uuid = \<lambda>n. replicate n CHR ''x'', kc_tenant = ''t'', kc_now = 0, kc_audit = audit,
     kc_actor = ''a'', kc_role = role\<rparr>"

definition sample_code :: dict where "sample_code = [(''catalog_code'', JStr ''k1'')]"

lemma sample_ids: "inj (\<lambda>n. replicate n CHR ''x'')"
  by (rule injI) (metis length_replicate)

section \<open>Who approves an entry\<close>

text \<open>C25: in a run of the skills that write entries an entry that is not ready for publication becomes so by one of
  two calls only: the approval of the platform reviewer, given while the entry was under review by the department or
  by the platform; or, for an entry of the default tenant, the publish action of the management skill, which asks for
  no review. The seeding of a tenant that has neither entries nor resources, which \<^verbatim>\<open>shared/database_store.py\<close>
  does from the snapshot, and the import of the old platform are no skills and not part of a run.\<close>

theorem approved_by_platform_reviewer:
  assumes "catalog_inv uuid s" and "entry_status s (tenant, code) \<noteq> Some ''approved_pending_publish''"
    and "entry_status (run_ops (catalog_step digest uuid own) s ops) (tenant, code) = Some ''approved_pending_publish''"
  shows "\<exists>pre c op post. ops = pre @ (c, op) # post \<and>
    ((\<exists>p. op = ReviewEntry p \<and> tenant = own \<and> op_code p = code \<and> kc_role c = ''ROLE_BUSIAUDIT'' \<and>
        py_str (dget p ''decision'') = ''approve'' \<and>
        entry_status (run_ops (catalog_step digest uuid own) s pre) (tenant, code) \<in>
          {Some ''pending_review'', Some ''pending_platform_review''}) \<or>
     (\<exists>provider p. op = ManageEntry provider p \<and> tenant = repo_tenant \<and>
        py_str (dget p ''catalog_id'') = code \<and> py_str (dget p ''action'') = ''publish''))"
proof -
  let ?step = "catalog_step digest uuid own"
  obtain pre op post where ops: "ops = pre @ op # post"
    and before: "entry_status (run_ops ?step s pre) (tenant, code) \<noteq> Some ''approved_pending_publish''"
    and after: "entry_status (settle ?step (run_ops ?step s pre) op) (tenant, code) = Some ''approved_pending_publish''"
    using run_ops_change [of "\<lambda>s. entry_status s (tenant, code) = Some ''approved_pending_publish''" s ?step ops] assms(2,3)
    by blast
  obtain c o' where op: "op = (c, o')" by fastforce
  obtain s' where s': "?step (run_ops ?step s pre) (c, o') = Inr s'" by (simp add: catalog_step_def)
  then have "settle ?step (run_ops ?step s pre) op = s'" by (simp add: settle_def op)
  then have final: "entry_status s' (tenant, code) = Some ''approved_pending_publish''" using after by simp
  note m = catalog_step_moves [OF catalog_flow.inv_run [OF assms(1)] s']
  have code: "op_tenant own o' = tenant" "op_entry o' = code" using m(3) [of "(tenant, code)"] final before by auto
  then have "''approved_pending_publish'' \<in> op_targets (entry_status (run_ops ?step s pre) (tenant, code)) (kc_role c) o'"
    using m(4) final before by auto
  then have "(\<exists>p. o' = ReviewEntry p \<and> tenant = own \<and> op_code p = code \<and> kc_role c = ''ROLE_BUSIAUDIT'' \<and>
        py_str (dget p ''decision'') = ''approve'' \<and>
        entry_status (run_ops ?step s pre) (tenant, code) \<in> {Some ''pending_review'', Some ''pending_platform_review''}) \<or>
     (\<exists>provider p. o' = ManageEntry provider p \<and> tenant = repo_tenant \<and>
        py_str (dget p ''catalog_id'') = code \<and> py_str (dget p ''action'') = ''publish'')"
    using code
    by (cases o') (auto simp: review_targets_def approval_target_Some_iff split: if_splits option.splits)
  then show ?thesis using ops unfolding op by blast
qed

text \<open>The second call does it: an organ operator's publish action takes a draft of the default tenant there.\<close>

definition managed_sample :: "(catalog_call \<times> catalog_op) list" where
  "managed_sample =
     [(catalog_sample ''ROLE_ORGAN_OPERATER'' ''u1'', CreateReverse sample_code),
      (catalog_sample ''ROLE_ORGAN_OPERATER'' ''u2'',
       ManageEntry [(''catalogs'', JList [JObj [(''id'', JStr ''k1''), (''status'', JStr ''draft'')]]), (''aiGovernance'', JObj [])]
         [(''catalog_id'', JStr ''k1''), (''action'', JStr ''publish'')])]"

lemma management_skips_the_review:
  "entry_status (run_ops (catalog_step id (\<lambda>n. replicate n CHR ''x'') repo_tenant) empty_catalog (take 1 managed_sample))
     (repo_tenant, ''k1'') = Some ''draft''"
  "entry_status (run_ops (catalog_step id (\<lambda>n. replicate n CHR ''x'') repo_tenant) empty_catalog managed_sample)
     (repo_tenant, ''k1'') = Some ''approved_pending_publish''"
  by code_simp+

definition catalog_sample_ops :: "(catalog_call \<times> catalog_op) list" where
  "catalog_sample_ops =
     [(catalog_sample ''ROLE_ORGAN_OPERATER'' ''u1'', CreateReverse sample_code),
      (catalog_sample ''ROLE_ORGAN_OPERATER'' ''u2'', SubmitReview sample_code),
      (catalog_sample ''ROLE_BUSIAUDIT'' ''u3'', ReviewEntry (sample_code @ [(''decision'', JStr ''approve'')]))]"

theorem approved_by_platform_reviewer_witness:
  "\<exists>pre c p post. catalog_sample_ops = pre @ (c, ReviewEntry p) # post \<and> kc_role c = ''ROLE_BUSIAUDIT''"
proof -
  have before: "entry_status empty_catalog (''t'', ''k1'') \<noteq> Some ''approved_pending_publish''" by code_simp
  have after: "entry_status (run_ops (catalog_step id (\<lambda>n. replicate n CHR ''x'') ''t'') empty_catalog catalog_sample_ops) (''t'', ''k1'') =
      Some ''approved_pending_publish''"
    by code_simp
  have inv: "catalog_inv (\<lambda>n. replicate n CHR ''x'') empty_catalog"
    by (rule empty_catalog_inv [OF sample_ids]) (simp add: empty_catalog_def)
  have "''t'' \<noteq> repo_tenant" by code_simp
  then show ?thesis using approved_by_platform_reviewer [OF inv before after] by auto
qed

text \<open>C26: in every run of skills each code of a tenant names one entry, which repeats in its summary the code, title,
  status and owner of its columns; items, models, fields and versions are unique; no published version is lost
  or changed; and an old object never resolves to two records.\<close>

theorem catalogue_invariant:
  assumes "inj uuid"
  shows "catalog_ok uuid (ks_db (run_ops (catalog_step digest uuid tenant) empty_catalog (ops @ later))) \<and>
    set (kd_versions (ks_db (run_ops (catalog_step digest uuid tenant) empty_catalog ops))) \<subseteq>
      set (kd_versions (ks_db (run_ops (catalog_step digest uuid tenant) empty_catalog (ops @ later))))"
proof -
  let ?step = "catalog_step digest uuid tenant"
  have "catalog_inv uuid empty_catalog"
    using assms by (rule empty_catalog_inv) (simp add: empty_catalog_def)
  then have "catalog_inv uuid (run_ops ?step empty_catalog ops)" by (rule catalog_flow.inv_run)
  then show ?thesis
    using catalog_versions.log_run [of uuid "run_ops ?step empty_catalog ops" digest tenant later]
    by (auto simp: run_ops_append catalog_inv_def)
qed

theorem catalogue_invariant_witness:
  "catalog_ok (\<lambda>n. replicate n CHR ''x'') (ks_db (run_ops (catalog_step id (\<lambda>n. replicate n CHR ''x'') ''t'') empty_catalog
     (catalog_sample_ops @ [])))"
  using catalogue_invariant [OF sample_ids] by blast

section \<open>Submission\<close>

text \<open>The value of a field of the form: the one saved last, at the top of the summary, else the one
  given when the draft was made.\<close>

definition form_value :: "dict \<Rightarrow> string \<Rightarrow> json" where
  "form_value d k =
     (case map_of d k of Some v \<Rightarrow> v
      | None \<Rightarrow> (case dget d ''summary_json'' of JObj given \<Rightarrow> dget given k | _ \<Rightarrow> JNull))"

text \<open>What the form asks of an entry compiled online.\<close>

definition basics_complete :: "centry_row \<Rightarrow> dict \<Rightarrow> bool" where
  "basics_complete e d \<longleftrightarrow> strip_blanks (ce_title e) \<noteq> [] \<and>
     (\<forall>k \<in> fst ` set inline_basic_required_fields. \<not> blank_value (form_value d k)) \<and>
     (py_str (py_or (form_value d ''shared_type'') (JStr [])) = conditional_share_type \<longrightarrow>
        \<not> blank_value (form_value d ''shared_condition''))"

lemma merged_value: "distinct (map fst d) \<Longrightarrow> dget (merged_basics d) k = form_value d k"
  by (auto simp: merged_basics_def form_value_def dget_def map_of_dmerge split: json.splits option.splits)

lemma missing_nothing_iff:
  "ce_summary e = JObj d \<Longrightarrow> distinct (map fst d) \<Longrightarrow> map_of d ''data_catalog_code'' \<noteq> None \<Longrightarrow>
   missing_inline_required_basic_fields e = [] \<longleftrightarrow> basics_complete e d"
  by (auto simp: missing_inline_required_basic_fields_def basics_complete_def Let_def filter_empty_conv merged_value)

lemma code_argument_given: "map_of p ''catalog_code'' = Some (JStr code) \<Longrightarrow> code_argument p s = (Inr code, s)"
  by (simp add: code_argument_def raiseA_def liftE_def dict_item_def bindA_def act_apply)

lemma submit_incomplete:
  assumes "map_of p ''catalog_code'' = Some (JStr code)"
    and "get_entry (ks_db s) (kc_tenant c) code = Inr (Some e)"
    and "missing_inline_required_basic_fields e \<noteq> []"
  shows "submit_catalog_entry_review c p s = (Inl (invalid_state (lbl_cf_missing_pre @
    join_sep lbl_cf_separator (missing_inline_required_basic_fields e) @ lbl_cf_full_stop)), s)"
  using assms
  by (simp add: submit_catalog_entry_review_def code_argument_given bindA_def queryA_def Let_def act_apply)

lemma transition_parts:
  assumes "transition_catalog_entry c code status skill r s = (Inr a, s')"
  obtains e old s1 s2 s3 where "existing_entry c code s = (Inr e, s)" "ce_summary e = JObj old"
    "save_entry c (transition_resource e status old (note_summary r old)) s = (Inr (), s1)"
    "(if status \<in> {''active'', ''retired''}
      then commitA (create_entry_version (kc_now c) repo_tenant (version_payload c e status)) else retA ()) s1 = (Inr (), s2)"
    "casesA (upsert_lifecycle (kc_uuid c) (kc_now c) (kc_tenant c) code
              (catalog_lifecycle status (kc_actor c) skill (kc_audit c)
                 (if status \<in> {''draft'', ''rejected''} then Some ''return'' else None))) s2 = (Inr (), s3)"
    "s' = snd (feedA c skill code s3)"
proof -
  obtain e u old u' x1 s1 x2 s2 x3 s3 x4 s4 where parts: "existing_entry c code s = (Inr e, u)"
    "raiseA (summary_dict e) id u = (Inr old, u')"
    "save_entry c (transition_resource e status old (note_summary r old)) u' = (Inr x1, s1)"
    "(if status \<in> {''active'', ''retired''}
      then commitA (create_entry_version (kc_now c) repo_tenant (version_payload c e status)) else retA ()) s1 = (Inr x2, s2)"
    "casesA (upsert_lifecycle (kc_uuid c) (kc_now c) (kc_tenant c) code
              (catalog_lifecycle status (kc_actor c) skill (kc_audit c)
                 (if status \<in> {''draft'', ''rejected''} then Some ''return'' else None))) s2 = (Inr x3, s3)"
    "feedA c skill code s3 = (Inr x4, s4)" "answer c code status [] s4 = (Inr a, s')"
    using assms unfolding transition_catalog_entry_def bindA_Inr_iff by blast
  have "u = s" using existing_entryD(1) [OF parts(1)] .
  moreover have "u' = u" "ce_summary e = JObj old" using summary_dictD [OF parts(2)] by simp_all
  moreover have "s' = snd (feedA c skill code s3)" using parts(6,7) by (simp add: answer_def act_apply)
  ultimately show ?thesis using parts(1,3-5) by (intro that) simp_all
qed

lemma commit_entries:
  "(if b then commitA (create_entry_version now t pl) else retA ()) s1 = (r, s2) \<Longrightarrow> kd_entries (ks_db s2) = kd_entries (ks_db s1)"
  by (auto simp: commitA_def act_apply create_entry_version_def result_simps Let_def split: if_splits sum.splits)

lemma cases_feed_db: "casesA f s2 = (r, s3) \<Longrightarrow> ks_db s3 = ks_db s2" "ks_db (snd (feedA c skill code s)) = ks_db s"
  by (auto simp: casesA_def feedA_def act_apply split: sum.splits)

lemma save_entryD: "save_entry c r s = (Inr (), s1) \<Longrightarrow>
   upsert_from_resource (kc_uuid c) (kc_now c) (kc_tenant c) r (ks_db s) = Inr (ks_db s1) \<and> s1 = s\<lparr>ks_db := ks_db s1\<rparr>"
  by (auto simp: save_entry_def commitA_def split: sum.splits)

lemma transition_answers:
  assumes "transition_catalog_entry c code status skill r s = (Inr a, s')"
    and "catalog_inv (kc_uuid c) s"
  shows "entry_status s' (kc_tenant c, code) = Some status"
proof -
  from assms(1) obtain e old s1 s2 s3 where e: "existing_entry c code s = (Inr e, s)"
    and s1: "save_entry c (transition_resource e status old (note_summary r old)) s = (Inr (), s1)"
    and s2: "(if status \<in> {''active'', ''retired''}
      then commitA (create_entry_version (kc_now c) repo_tenant (version_payload c e status)) else retA ()) s1 = (Inr (), s2)"
    and s3: "casesA (upsert_lifecycle (kc_uuid c) (kc_now c) (kc_tenant c) code
              (catalog_lifecycle status (kc_actor c) skill (kc_audit c)
                 (if status \<in> {''draft'', ''rejected''} then Some ''return'' else None))) s2 = (Inr (), s3)"
    and s': "s' = snd (feedA c skill code s3)"
    by (rule transition_parts)
  have "entry_status s1 (kc_tenant c, code) = Some status"
    using saved_status [OF _ conjunct1 [OF save_entryD [OF s1]], of code status "(kc_tenant c, code)"] assms(2)
      existing_entryD(3) [OF e]
    by (simp add: catalog_inv_def transition_resource_def dmerge_def entry_status_def)
  moreover have "kd_entries (ks_db s') = kd_entries (ks_db s1)"
    using commit_entries [OF s2] cases_feed_db(1) [OF s3] cases_feed_db(2) [of c skill code s3] by (simp add: s')
  ultimately show ?thesis by (simp add: entry_status_def)
qed

text \<open>C27: a submission of an entry compiled online is answered only if its title and all required fields
  are filled in, the condition of sharing too when the sharing is conditional, and then the entry is under review;
  an incomplete one is refused and nothing changes.\<close>

theorem submission_is_complete:
  assumes "catalog_inv (kc_uuid c) s" and "map_of p ''catalog_code'' = Some (JStr code)"
    and "get_entry (ks_db s) (kc_tenant c) code = Inr (Some e)"
    and "ce_summary e = JObj d" and "distinct (map fst d)" and "map_of d ''data_catalog_code'' \<noteq> None"
  shows "(\<not> basics_complete e d \<longrightarrow> (\<exists>x. submit_catalog_entry_review c p s = (Inl x, s))) \<and>
    (\<forall>a s'. submit_catalog_entry_review c p s = (Inr a, s') \<longrightarrow>
       basics_complete e d \<and> entry_status s' (kc_tenant c, code) = Some ''pending_review'')"
proof (cases "basics_complete e d")
  case True
  then have "missing_inline_required_basic_fields e = []"
    using missing_nothing_iff [OF assms(4,5,6)] by blast
  then have eq: "submit_catalog_entry_review c p s =
      transition_catalog_entry c code ''pending_review'' ''catalog.entry.submit_review'' None s"
    using assms(2,3)
    by (simp add: submit_catalog_entry_review_def code_argument_given bindA_def queryA_def Let_def)
  show ?thesis unfolding eq using True by (auto dest: transition_answers [OF _ assms(1)])
next
  case False
  then show ?thesis
    using submit_incomplete [OF assms(2,3)] missing_nothing_iff [OF assms(4,5,6)] by simp
qed

definition draft_state :: catalog_sys where
  "draft_state = run_ops (catalog_step id (\<lambda>n. replicate n CHR ''x'') ''t'') empty_catalog
     [(catalog_sample ''ROLE_ORGAN_OPERATER'' ''u1'', CreateDraft sample_code)]"

definition draft_entry :: centry_row where
  "draft_entry = hd (kd_entries (ks_db draft_state))"

definition draft_summary :: dict where
  "draft_summary = (case ce_summary draft_entry of JObj d \<Rightarrow> d | _ \<Rightarrow> [])"

lemma draft_facts:
  "get_entry (ks_db draft_state) ''t'' ''k1'' = Inr (Some draft_entry)" "ce_summary draft_entry = JObj draft_summary"
  "map_of draft_summary ''data_catalog_code'' \<noteq> None" "distinct (map fst draft_summary)"
  by code_simp+

lemma draft_inv: "catalog_inv (\<lambda>n. replicate n CHR ''x'') draft_state"
  unfolding draft_state_def
  by (rule catalog_flow.inv_run, rule empty_catalog_inv [OF sample_ids]) (simp add: empty_catalog_def)

theorem submission_is_complete_witness:
  "\<exists>x. submit_catalog_entry_review (catalog_sample ''ROLE_ORGAN_OPERATER'' ''u2'') sample_code draft_state = (Inl x, draft_state)"
proof -
  have "\<not> basics_complete draft_entry draft_summary" by code_simp
  moreover have "kc_uuid (catalog_sample r a) = (\<lambda>n. replicate n CHR ''x'')" "kc_tenant (catalog_sample r a) = ''t''" for r a
    by (simp_all add: catalog_sample_def)
  moreover have "map_of sample_code ''catalog_code'' = Some (JStr ''k1'')" by (simp add: sample_code_def)
  ultimately show ?thesis
    using submission_is_complete [of "catalog_sample ''ROLE_ORGAN_OPERATER'' ''u2''" draft_state sample_code "''k1''" draft_entry draft_summary]
      draft_facts draft_inv by simp
qed

section \<open>Transitions succeed\<close>

lemma origin_recorded:
  "\<exists>rows'. record_origin now tenant source old_ref t ref ev rows = Inr rows'"
  by (simp add: record_origin_def upsert_legacy_mapping_def legacy_mapping_payload_def dict_item_def Let_def dget_def)

lemma column_of_text [simp]: "column_text (text_json t) = Inr t" "column_text (JStr x) = Inr (Some x)"
  by (simp_all add: column_text_def text_json_def split: option.splits)

lemma transition_saves:
  assumes "entries_ok uuid db" and "get_entry db tenant code = Inr (Some e)" and "ce_code e = code"
  shows "\<exists>db'. upsert_from_resource uuid now tenant (transition_resource e status old summary) db = Inr db'"
proof -
  have r: "map_of (transition_resource e status old summary) ''id'' = Some (JStr code)"
    "map_of (transition_resource e status old summary) ''name'' = Some (JStr (ce_title e))"
    "map_of (transition_resource e status old summary) ''status'' = Some (JStr status)"
    "map_of (transition_resource e status old summary) ''provider'' = Some (JStr (case ce_owner e of None \<Rightarrow> [] | Some w \<Rightarrow> w))"
    "map_of (transition_resource e status old summary) ''region_code'' = Some (text_json (ce_region e))"
    using assms(3) by (simp_all add: transition_resource_def dmerge_def)
  have "\<exists>e'. entry_of uuid now tenant code (transition_resource e status old summary) (JStr (ce_title e)) (Some e) db = Inr e'"
    by (simp add: entry_of_def dget_or_def r)
  then obtain e' where e': "entry_of uuid now tenant code (transition_resource e status old summary) (JStr (ce_title e)) (Some e) db = Inr e'"
    by blast
  obtain rows where "record_origin now tenant (dget (transition_resource e status old summary) ''source_ref'')
      (py_or (dget (transition_resource e status old summary) ''legacy_object_ref'') (JStr code)) ''catalog_entry'' (JStr code)
      [(''title'', JStr (ce_title e)), (''lifecycle_status'', dget_or (transition_resource e status old summary) ''status'' (JStr ''published''))]
      (kd_legacy db) = Inr rows"
    using origin_recorded by blast
  then show ?thesis
    using e' by (simp add: upsert_from_resource_def dict_item_def r assms(2))
qed

text \<open>The row a publication or a withdrawal adds.\<close>

definition version_row :: "catalog_call \<Rightarrow> centry_row \<Rightarrow> string \<Rightarrow> cversion_row" where
  "version_row c e status =
     \<lparr>cv_tenant = repo_tenant, cv_code = ce_code e, cv_no = status @ '':'' @ kc_audit c, cv_status = status,
      cv_snapshot = safe_json (JObj [(''catalog_code'', JStr (ce_code e)), (''title'', JStr (ce_title e)),
         (''lifecycle_status'', JStr status), (''summary_json'', ce_summary e)]),
      cv_audit = Some (kc_audit c), cv_by = Some (kc_actor c), cv_created = kc_now c\<rparr>"

lemma version_created:
  "version_key (version_row c e status) \<notin> version_key ` set (kd_versions db) \<Longrightarrow>
   create_entry_version (kc_now c) repo_tenant (version_payload c e status) db =
     Inr (db\<lparr>kd_versions := kd_versions db @ [version_row c e status]\<rparr>)"
  by (simp add: create_entry_version_def version_payload_def version_row_def dict_item_def dget_def dget_or_def py_or_def
      Let_def)

lemma saved_keeps: "upsert_from_resource uuid now tenant r db = Inr db' \<Longrightarrow> kd_versions db' = kd_versions db"
  by (auto simp: upsert_from_resource_def result_simps)

lemma existing_entry_given:
  "get_entry (ks_db s) (kc_tenant c) code = Inr (Some e) \<Longrightarrow> existing_entry c code s = (Inr e, s)"
  by (simp add: existing_entry_def bindA_def queryA_def act_apply)

lemma versioned_transition:
  assumes "catalog_inv (kc_uuid c) s" and "get_entry (ks_db s) (kc_tenant c) code = Inr (Some e)"
    and "status \<in> {''active'', ''retired''}"
    and "version_key (version_row c e status) \<notin> version_key ` set (kd_versions (ks_db s))"
    and "upsert_lifecycle (kc_uuid c) (kc_now c) (kc_tenant c) code
      (catalog_lifecycle status (kc_actor c) skill (kc_audit c) None) (ks_cases s) = Inr cases"
  shows "\<exists>r s'. transition_catalog_entry c code status skill note_text s = (Inr r, s') \<and>
    entry_status s' (kc_tenant c, code) = Some status \<and>
    kd_versions (ks_db s') = kd_versions (ks_db s) @ [version_row c e status] \<and> ks_cases s' = cases"
proof -
  have ok: "entries_ok (kc_uuid c) (ks_db s)" using assms(1) by (simp add: catalog_inv_def catalog_ok_def)
  note e = existing_entry_given [OF assms(2)]
  have code: "ce_code e = code" using existing_entryD(3) [OF e] .
  obtain old where old: "ce_summary e = JObj old"
    using ok get_entry_SomeD [OF assms(2)] by (auto simp: entries_ok_def mirrors_def)
  then have read: "raiseA (summary_dict e) id s = (Inr old, s)" by (simp add: raiseA_def liftE_def summary_dict_def)
  obtain db where db: "upsert_from_resource (kc_uuid c) (kc_now c) (kc_tenant c)
      (transition_resource e status old (note_summary note_text old)) (ks_db s) = Inr db"
    using transition_saves [OF ok assms(2) code] by blast
  have save: "save_entry c (transition_resource e status old (note_summary note_text old)) s = (Inr (), s\<lparr>ks_db := db\<rparr>)"
    by (simp add: save_entry_def commitA_def db)
  let ?db2 = "db\<lparr>kd_versions := kd_versions db @ [version_row c e status]\<rparr>"
  have version: "commitA (create_entry_version (kc_now c) repo_tenant (version_payload c e status)) (s\<lparr>ks_db := db\<rparr>) =
      (Inr (), s\<lparr>ks_db := ?db2\<rparr>)"
    using assms(4) by (simp add: commitA_def version_created saved_keeps [OF db])
  have decision: "(status \<in> {''draft'', ''rejected''}) = False" and versioned: "(status \<in> {''active'', ''retired''}) = True"
    using assms(3) by auto
  have run: "transition_catalog_entry c code status skill note_text s =
      answer c code status [] (snd (feedA c skill code (s\<lparr>ks_db := ?db2, ks_cases := cases\<rparr>)))"
    unfolding transition_catalog_entry_def decision versioned
    by (simp add: bindA_def e read save version casesA_def assms(5) feedA_def act_apply)
  then obtain r s' where r: "transition_catalog_entry c code status skill note_text s = (Inr r, s')"
    and s': "s' = snd (feedA c skill code (s\<lparr>ks_db := ?db2, ks_cases := cases\<rparr>))"
    by (simp add: answer_def act_apply)
  show ?thesis
    using r transition_answers [OF r assms(1)] saved_keeps [OF db] by (simp add: s' feedA_def act_apply)
qed

text \<open>a publication needs no review: whatever the status of an entry, a draft or a rejected one too, publishing it
  makes it active and adds one version, which is filed under the default tenant and holds the summary from before.\<close>

lemma publication_from_any_status:
  assumes "catalog_inv (kc_uuid c) s" and "map_of p ''catalog_code'' = Some (JStr code)"
    and "get_entry (ks_db s) (kc_tenant c) code = Inr (Some e)"
    and "version_key (version_row c e ''active'') \<notin> version_key ` set (kd_versions (ks_db s))"
    and "upsert_lifecycle (kc_uuid c) (kc_now c) (kc_tenant c) code
      (catalog_lifecycle ''active'' (kc_actor c) ''catalog.entry.publish'' (kc_audit c) None) (ks_cases s) = Inr cases"
  shows "\<exists>r w s'. publish_catalog_entry c p s = (Inr (r, w), s') \<and>
    entry_status s' (kc_tenant c, code) = Some ''active'' \<and>
    kd_versions (ks_db s') = kd_versions (ks_db s) @ [version_row c e ''active''] \<and> ks_cases s' = cases"
proof -
  obtain r s' where t: "transition_catalog_entry c code ''active'' ''catalog.entry.publish'' None s = (Inr r, s')"
    and rest: "entry_status s' (kc_tenant c, code) = Some ''active''"
    "kd_versions (ks_db s') = kd_versions (ks_db s) @ [version_row c e ''active'']" "ks_cases s' = cases"
    using versioned_transition [OF assms(1,3) _ assms(4,5), of None] by auto
  have "check_catalog_duplicate c code s = (Inr (duplicate_warnings (ks_db s) (kc_tenant c) e), s)"
    by (simp add: check_catalog_duplicate_def bindA_def existing_entry_given [OF assms(3)] queryA_def)
  then have "publish_catalog_entry c p s = (Inr (r, duplicate_warnings (ks_db s) (kc_tenant c) e), s')"
    by (simp add: publish_catalog_entry_def bindA_def code_argument_given [OF assms(2)] tryA_def t act_apply)
  then show ?thesis using rest by blast
qed

end
