(* ===== verification/CatalogAnswers.thy ===== *)
theory CatalogAnswers
  imports CatalogLife
begin

text \<open>
  What the skills on catalogue entries leave and answer: the reason of a review, the warnings before a
  publication, the pages of a query.
\<close>

section \<open>The reason of a review\<close>

lemma map_of_ddel [simp]: "map_of (ddel k d) j = (if j = k then None else map_of d j)"
  by (induction d) (auto simp: ddel_def)

lemma transition_summary:
  assumes "transition_catalog_entry c code status skill r s = (Inr a, s')" and "catalog_inv (kc_uuid c) s"
  shows "\<exists>e e' old d. get_entry (ks_db s) (kc_tenant c) code = Inr (Some e) \<and> ce_summary e = JObj old \<and>
    get_entry (ks_db s') (kc_tenant c) code = Inr (Some e') \<and> ce_summary e' = JObj d \<and> ce_title e' = ce_title e \<and>
    safe_json (JObj (transition_resource e status old (note_summary r old))) = JObj d"
proof -
  from assms(1) obtain e old s1 s2 s3 where e: "existing_entry c code s = (Inr e, s)" and old: "ce_summary e = JObj old"
    and s1: "save_entry c (transition_resource e status old (note_summary r old)) s = (Inr (), s1)"
    and s2: "(if status \<in> {''active'', ''retired''}
      then commitA (create_entry_version (kc_now c) repo_tenant (version_payload c e status)) else retA ()) s1 = (Inr (), s2)"
    and s3: "casesA (upsert_lifecycle (kc_uuid c) (kc_now c) (kc_tenant c) code
              (catalog_lifecycle status (kc_actor c) skill (kc_audit c)
                 (if status \<in> {''draft'', ''rejected''} then Some ''return'' else None))) s2 = (Inr (), s3)"
    and s': "s' = snd (feedA c skill code s3)"
    by (rule transition_parts)
  let ?r = "transition_resource e status old (note_summary r old)"
  have ok: "catalog_ok (kc_uuid c) (ks_db s)" using assms(2) by (simp add: catalog_inv_def)
  have id: "column_needed (dget ?r ''id'') = Inr code" "map_of ?r ''name'' = Some (JStr (ce_title e))"
    using existing_entryD(3) [OF e] by (simp_all add: transition_resource_def dmerge_def)
  obtain name e' where e': "map_of ?r ''name'' = Some name"
    "entry_of (kc_uuid c) (kc_now c) (kc_tenant c) code ?r name (row_by entry_key (kc_tenant c, code) (kd_entries (ks_db s))) (ks_db s) = Inr e'"
    "\<forall>k. row_by entry_key k (kd_entries (ks_db s1)) =
       (if k = (kc_tenant c, code) then Some e' else row_by entry_key k (kd_entries (ks_db s)))"
    using saved_entry [OF ok conjunct1 [OF save_entryD [OF s1]] id(1)] by metis
  have "kd_entries (ks_db s') = kd_entries (ks_db s1)"
    using commit_entries [OF s2] cases_feed_db(1) [OF s3] cases_feed_db(2) [of c skill code s3] by (simp add: s')
  moreover have "catalog_inv (kc_uuid c) s'"
    using transition_moves [of c code status s skill r] assms by (simp add: moves_def)
  ultimately have "get_entry (ks_db s') (kc_tenant c) code = Inr (Some e')"
    using e'(3) by (simp add: inv_get)
  moreover have "ce_title e' = ce_title e" "ce_summary e' = safe_json (JObj ?r)"
    using entry_ofD(1,2) [OF e'(2)] e'(1) id(2) by auto
  ultimately show ?thesis
    using existing_entryD(2) [OF e] old by (intro exI [of _ e] exI [of _ e'] exI [of _ old] exI) simp
qed

text \<open>The stored reason after a transition.\<close>

lemma transition_reason:
  assumes "transition_catalog_entry c code status skill r s = (Inr a, s')" and "catalog_inv (kc_uuid c) s"
  shows "\<exists>e' d. get_entry (ks_db s') (kc_tenant c) code = Inr (Some e') \<and> ce_summary e' = JObj d \<and>
    (\<forall>n. r = Some n \<longrightarrow> map_of d ''review_return_reason'' = (if strip_blanks n = [] then None else Some (JStr (strip_blanks n))))"
proof -
  obtain e e' old d where e': "get_entry (ks_db s') (kc_tenant c) code = Inr (Some e')" "ce_summary e' = JObj d"
    and d: "safe_json (JObj (transition_resource e status old (note_summary r old))) = JObj d"
    using transition_summary [OF assms] by blast
  have "map_of d ''review_return_reason'' = (if strip_blanks n = [] then None else Some (JStr (strip_blanks n)))"
    if "r = Some n" for n
    using safe_summary [OF d plain_keys(6)] that
    by (simp add: transition_resource_def dmerge_def note_summary_def Let_def)
  then show ?thesis using e' by blast
qed

lemma strip_nothing [simp]: "strip_blanks [] = []"
  by (simp add: strip_blanks_def)

lemma reason_textD: "raiseA (reason_text v) id s = (Inr t, s') \<Longrightarrow> t \<noteq> [] \<Longrightarrow> s' = s \<and> v = JStr (py_str v) \<and> strip_blanks (py_str v) = t"
  by (auto simp: raiseA_def liftE_def reason_text_def py_or_def split: sum.splits json.splits if_splits)

definition given_reason :: "dict \<Rightarrow> json" where
  "given_reason p = (if dget p ''reason'' = JNull then dget p ''review_note'' else dget p ''reason'')"

text \<open>an answered review that returns or rejects an entry stores its reason, which is not blank, where the provider
  finds it; an approval leaves no reason behind.\<close>

lemma review_reason_stored:
  assumes "catalog_inv (kc_uuid c) s" and "map_of p ''catalog_code'' = Some (JStr code)"
    and "map_of p ''decision'' = Some (JStr decision)" and "handler_catalog_entry_review c p s = (Inr a, s')"
  shows "\<exists>e d. get_entry (ks_db s') (kc_tenant c) code = Inr (Some e) \<and> ce_summary e = JObj d \<and>
    (if decision = ''approve'' then map_of d ''review_return_reason'' = None
     else decision \<in> {''return_for_fix'', ''reject''} \<and> strip_blanks (py_str (given_reason p)) \<noteq> [] \<and>
       map_of d ''review_return_reason'' = Some (JStr (strip_blanks (py_str (given_reason p)))))"
proof -
  have call: "review_catalog_entry c code decision (given_reason p) s = (Inr a, s')"
    using assms(2-4)
    by (simp add: handler_catalog_entry_review_def bindA_def code_argument_given raiseA_def liftE_def dict_item_def
        given_reason_def)
  show ?thesis
  proof (cases "decision = ''approve''")
    case True
    then obtain e u where e: "existing_entry c code s = (Inr e, u)"
      and rest: "(case approval_target (ce_status e) (kc_role c) of
           None \<Rightarrow> throwA (approval_refused code (ce_status e) (kc_role c))
         | Some target \<Rightarrow> transition_catalog_entry c code target ''catalog.entry.review'' (Some [])) u = (Inr a, s')"
      using call by (auto simp: review_catalog_entry_def approve_catalog_entry_def bindA_Inr_iff)
    then obtain target where "transition_catalog_entry c code target ''catalog.entry.review'' (Some []) s = (Inr a, s')"
      using existing_entryD(1) [OF e] by (auto simp: act_apply split: option.splits)
    then show ?thesis
      using transition_reason [OF _ assms(1)] True by (fastforce simp: strip_blanks_def)
  next
    case False
    then have d: "decision \<in> {''return_for_fix'', ''reject''}"
      using call by (auto simp: review_catalog_entry_def act_apply split: if_splits)
    then obtain t u where t: "raiseA (reason_text (given_reason p)) id s = (Inr t, u)"
      and rest: "(if t = [] then throwA (invalid_state lbl_cat_needs_reason)
          else transition_catalog_entry c code (if decision = ''return_for_fix'' then ''draft'' else ''rejected'')
                 ''catalog.entry.review'' (Some (py_str (given_reason p)))) u = (Inr a, s')"
      using call False by (auto simp: review_catalog_entry_def bindA_Inr_iff)
    have "t \<noteq> []" using rest by (auto simp: act_apply)
    note r = reason_textD [OF t this]
    have "transition_catalog_entry c code (if decision = ''return_for_fix'' then ''draft'' else ''rejected'')
        ''catalog.entry.review'' (Some (py_str (given_reason p))) s = (Inr a, s')"
      using rest \<open>t \<noteq> []\<close> r by simp
    from transition_reason [OF this assms(1)] show ?thesis
      using False d r \<open>t \<noteq> []\<close> by auto
  qed
qed

definition return_payload :: dict where
  "return_payload = sample_code @ [(''decision'', JStr ''return_for_fix''), (''reason'', JStr '' fix it '')]"

definition returned_run :: "(exn + dict) \<times> catalog_sys" where
  "returned_run = handler_catalog_entry_review (catalog_sample ''ROLE_BUSIAUDIT'' ''u3'') return_payload draft_state"

section \<open>Warnings before a publication\<close>

lemma in_match_dimensions:
  "''title'' \<in> set (match_dimensions title region owner r) \<longleftrightarrow> title \<noteq> [] \<and> strip_blanks (ce_title r) = title"
  "''region+org'' \<in> set (match_dimensions title region owner r) \<longleftrightarrow>
     region \<noteq> [] \<and> owner \<noteq> [] \<and> stripped_text (ce_region r) = region \<and> stripped_text (ce_owner r) = owner"
  by (auto simp: match_dimensions_def)

text \<open>Two entries agree when the columns of the one are the texts of the other without blanks around them.\<close>

definition same_columns :: "centry_row \<Rightarrow> centry_row \<Rightarrow> bool" where
  "same_columns e r \<longleftrightarrow>
     strip_blanks (ce_title e) \<noteq> [] \<and> ce_title r = strip_blanks (ce_title e) \<or>
     stripped_text (ce_region e) \<noteq> [] \<and> stripped_text (ce_owner e) \<noteq> [] \<and>
     ce_region r = Some (stripped_text (ce_region e)) \<and> ce_owner r = Some (stripped_text (ce_owner e))"

lemma in_duplicate_candidates:
  "r \<in> set (list_duplicate_candidates db t code title region owner statuses) \<longleftrightarrow>
     r \<in> set (kd_entries db) \<and> ce_tenant r = t \<and> ce_code r \<noteq> code \<and> ce_status r \<in> set statuses \<and>
     (title \<noteq> [] \<and> ce_title r = title \<or>
      region \<noteq> [] \<and> owner \<noteq> [] \<and> ce_region r = Some region \<and> ce_owner r = Some owner)"
  by (auto simp: list_duplicate_candidates_def Let_def)

text \<open>The warnings before a publication name exactly the other entries of the tenant that are under review,
  approved or active, whose columns equal the trimmed title of the entry, or its trimmed region and owner,
  and that agree with it once both are trimmed. So an entry with the very same title is missed when that
  title has blanks around it.\<close>

lemma duplicate_warnings_exact:
  "(code, dims) \<in> set (duplicate_warnings db t e) \<longleftrightarrow>
     (\<exists>r. r \<in> set (kd_entries db) \<and> ce_code r = code \<and> ce_tenant r = t \<and> code \<noteq> ce_code e \<and>
        ce_status r \<in> set duplicate_lifecycles \<and> same_columns e r \<and> dims \<noteq> [] \<and>
        dims = match_dimensions (strip_blanks (ce_title e)) (stripped_text (ce_region e)) (stripped_text (ce_owner e)) r)"
  by (auto simp: duplicate_warnings_def Let_def in_duplicate_candidates same_columns_def)

section \<open>Pages\<close>

definition page_query :: "dict \<Rightarrow> entry_query" where
  "page_query p = any_entry\<lparr>eq_status := optional_text (dget p ''lifecycle_status''),
     eq_recency := (py_str (py_or (dget p ''order'') (JStr [])) = ''updated_desc'')\<rparr>"

lemma length_statement:
  "length (entry_list_statement db t (page_query p)) = count_entries db t (page_query p)"
  by (simp add: entry_list_statement_def count_entries_def Let_def page_query_def any_entry_def)

lemma query_page:
  assumes "\<not> truthy (dget p ''query'')" and "\<not> truthy (dget p ''catalog_code'')"
    and "parse_query_limit (dget p ''limit'') = Inr (Some n)" and "parse_query_offset (dget p ''offset'') = Inr i"
  shows "query_catalog_entries c p s =
    (let page = filter_entries_by_source (dget p ''source'')
                  (take n (drop i (entry_list_statement (ks_db s) (kc_tenant c) (page_query p))))
     in (Inr (page, if truthy (dget p ''source'') then length page
                    else length (entry_list_statement (ks_db s) (kc_tenant c) (page_query p))), s))"
  using assms
  by (simp add: query_catalog_entries_def Let_def bindA_def raiseA_def liftE_def queryA_def act_apply page_query_def
      list_entries_def length_statement [unfolded page_query_def] filter_entries_by_source_def)

lemma offset_arg: "parse_query_offset (JInt (int m)) = Inr m"
  by (simp add: parse_query_offset_def int_cast_def)

lemma pages_concat: "0 < n \<Longrightarrow> length xs \<le> k * n \<Longrightarrow> concat (map (\<lambda>j. take n (drop (j * n) xs)) [0..<k]) = xs"
proof (induction k arbitrary: xs)
  case (Suc k)
  have "[0..<Suc k] = 0 # map Suc [0..<k]" by (simp add: upt_conv_Cons map_Suc_upt del: upt_Suc)
  moreover have "concat (map (\<lambda>j. take n (drop (j * n) (drop n xs))) [0..<k]) = drop n xs"
    by (rule Suc.IH) (use Suc.prems in auto)
  ultimately show ?case by (simp add: comp_def add.commute)
qed simp

text \<open>reading the entries page by page without a source shows every entry in order, once, and every page
  reports the number of all of them; with a source the total of a page is only the number of entries on it, and an
  entry is shown only on the page it has among all entries.\<close>

lemma pages_show_every_entry:
  assumes "0 < n" and "length (entry_list_statement (ks_db s) (kc_tenant c) (page_query p)) \<le> k * n"
    and "\<not> truthy (dget p ''query'')" and "\<not> truthy (dget p ''catalog_code'')"
    and "parse_query_limit (dget p ''limit'') = Inr (Some n)"
  shows "\<exists>page. (\<forall>j. query_catalog_entries c (dset p ''offset'' (JInt (int (j * n)))) s =
        (Inr (page j, if truthy (dget p ''source'') then length (page j)
                      else length (entry_list_statement (ks_db s) (kc_tenant c) (page_query p))), s)) \<and>
      concat (map page [0..<k]) =
        filter_entries_by_source (dget p ''source'') (entry_list_statement (ks_db s) (kc_tenant c) (page_query p))"
proof -
  let ?all = "entry_list_statement (ks_db s) (kc_tenant c) (page_query p)"
  let ?page = "\<lambda>j. filter_entries_by_source (dget p ''source'') (take n (drop (j * n) ?all))"
  have same: "page_query (dset p ''offset'' v) = page_query p" for v by (simp add: page_query_def)
  have "query_catalog_entries c (dset p ''offset'' (JInt (int (j * n)))) s =
        (Inr (?page j, if truthy (dget p ''source'') then length (?page j) else length ?all), s)" for j
    using query_page [of "dset p ''offset'' (JInt (int (j * n)))" n "j * n" c s] assms(3-5) offset_arg [of "j * n"] by (simp add: same Let_def)
  moreover have "concat (map ?page [0..<k]) = filter_entries_by_source (dget p ''source'') ?all"
  proof -
    have "concat (map ?page [0..<k]) =
        filter_entries_by_source (dget p ''source'') (concat (map (\<lambda>j. take n (drop (j * n) ?all)) [0..<k]))"
      by (simp add: filter_entries_by_source_def filter_concat comp_def)
    then show ?thesis by (simp add: pages_concat [OF assms(1,2)])
  qed
  ultimately show ?thesis by (intro exI [of _ ?page]) blast
qed

definition page_payload :: dict where "page_payload = [(''limit'', JInt 1)]"

end
