(* ===== verification/NationalElem.thy ===== *)
theory NationalElem
  imports FlowWalker CatalogRepo
begin

text \<open>
  Compilation of national extension elements: the state machine of
  \<^verbatim>\<open>domain/national_ext_elem_walker.py\<close>, the two tables of
  \<^verbatim>\<open>domain/repositories/national_ext_elem.py\<close> and the skill of
  \<^verbatim>\<open>command/handlers/j2/national_ext_elem.py\<close>. The two levels of review are declared as a flow for the
  walker of approval flows. Whether the national channel is ready is part of a call.
\<close>

section \<open>The state machine\<close>

definition compile_transitions :: "(string \<times> string list) list" where
  "compile_transitions =
     [(''draft'', [''pending_business_review'']),
      (''pending_business_review'', [''pending_supervisor_review'', ''draft'']),
      (''pending_supervisor_review'', [''pending_national_sync'', ''pending_business_review'']),
      (''pending_national_sync'', [''published'']),
      (''published'', [''revision_draft'', ''pending_revoke_review'']),
      (''revision_draft'', [''pending_business_review_revision'']),
      (''pending_business_review_revision'', [''pending_supervisor_review_revision'', ''revision_draft'']),
      (''pending_supervisor_review_revision'', [''pending_national_sync'', ''pending_business_review_revision'']),
      (''pending_revoke_review'', [''revoked'', ''published'']),
      (''revoked'', [])]"

datatype national_error =
    UnknownCompileStatus string
  | IllegalCompile string string
  | NotSubmittable string
  | NotReviewable string
  | NotSyncable string
  | TaskMissing string
  | ChannelNotReady
  | UnknownNationalAction string
  | NationalPy py_error
  | NationalDb exn

definition compile_is_terminal :: "string \<Rightarrow> bool" where
  "compile_is_terminal s = (case map_of compile_transitions s of None \<Rightarrow> True | Some ts \<Rightarrow> ts = [])"

definition validate_transition :: "string \<Rightarrow> string \<Rightarrow> national_error + unit" where
  "validate_transition a b =
     (if a = b then Inr ()
      else case map_of compile_transitions a of
             None \<Rightarrow> Inl (UnknownCompileStatus a)
           | Some ts \<Rightarrow> if b \<in> set ts then Inr () else Inl (IllegalCompile a b))"

definition checked_move :: "string \<Rightarrow> string \<Rightarrow> national_error + string" where
  "checked_move a b = bindE (validate_transition a b) (\<lambda>_. Inr b)"

definition submit_table :: "(string \<times> string) list" where
  "submit_table = [(''draft'', ''pending_business_review''), (''revision_draft'', ''pending_business_review_revision'')]"

definition submit_target :: "string \<Rightarrow> national_error + string" where
  "submit_target a = (case map_of submit_table a of None \<Rightarrow> Inl (NotSubmittable a) | Some b \<Rightarrow> checked_move a b)"

definition approve_table :: "(string \<times> string) list" where
  "approve_table =
     [(''pending_business_review'', ''pending_supervisor_review''),
      (''pending_supervisor_review'', ''pending_national_sync''),
      (''pending_business_review_revision'', ''pending_supervisor_review_revision''),
      (''pending_supervisor_review_revision'', ''pending_national_sync''),
      (''pending_revoke_review'', ''revoked'')]"

definition reject_table :: "(string \<times> string) list" where
  "reject_table =
     [(''pending_business_review'', ''draft''),
      (''pending_supervisor_review'', ''pending_business_review''),
      (''pending_business_review_revision'', ''revision_draft''),
      (''pending_supervisor_review_revision'', ''pending_business_review_revision''),
      (''pending_revoke_review'', ''published'')]"

definition next_review_status :: "string \<Rightarrow> bool \<Rightarrow> national_error + string" where
  "next_review_status a approve =
     (case map_of (if approve then approve_table else reject_table) a of
        None \<Rightarrow> Inl (NotReviewable a) | Some b \<Rightarrow> checked_move a b)"

definition sync_target :: "string \<Rightarrow> national_error + string" where
  "sync_target a = (if a \<noteq> ''pending_national_sync'' then Inl (NotSyncable a) else checked_move a ''published'')"

section \<open>The flow of the two reviews\<close>

definition national_node :: "string \<Rightarrow> string \<Rightarrow> (string \<times> json) list \<Rightarrow> json" where
  "national_node code kind name = JObj ([(''node_code'', JStr code), (''node_type'', JStr kind)] @ name)"

definition national_edge :: "string \<Rightarrow> string \<Rightarrow> json" where
  "national_edge a b = JObj [(''from_node_code'', JStr a), (''to_node_code'', JStr b), (''condition_kind'', JStr ''always'')]"

definition review_schema_payload :: dict where
  "review_schema_payload =
     [(''nodes'', JList [national_node ''start'' ''start'' [],
         national_node ''business_dept'' ''approval'' [(''node_name'', JStr lbl_nat_business)],
         national_node ''supervisor_dept'' ''approval'' [(''node_name'', JStr lbl_nat_supervisor)],
         national_node ''end'' ''end'' []]),
      (''branches'', JList [national_edge ''start'' ''business_dept'', national_edge ''business_dept'' ''supervisor_dept'',
         national_edge ''supervisor_dept'' ''end''])]"

definition review_step_specs :: "walk_error + step_spec list" where
  "review_step_specs = bindE (instantiate_steps_from_schema review_schema_payload) (\<lambda>(steps, _). Inr steps)"

section \<open>Tasks\<close>

record national_task =
  nt_id :: string
  nt_tenant :: string
  nt_code :: string
  nt_title :: string
  nt_basic :: "string option"
  nt_status :: string
  nt_creator_org :: "string option"
  nt_receiver :: "string option"
  nt_step :: "int option"
  nt_payload :: json
  nt_by :: "string option"

record basic_elem =
  be_id :: string
  be_tenant :: string
  be_cata :: string
  be_version :: int
  be_title :: string
  be_category :: "string option"
  be_domain :: "string option"
  be_level :: "string option"
  be_org :: "string option"

record national_db =
  nd_tasks :: "national_task list"
  nd_basics :: "basic_elem list"
  nd_next :: nat

definition empty_national_db :: national_db where
  "empty_national_db = \<lparr>nd_tasks = [], nd_basics = [], nd_next = 0\<rparr>"

definition task_key :: "national_task \<Rightarrow> string \<times> string" where "task_key t = (nt_tenant t, nt_code t)"

text \<open>The table has no unique constraint on the code.\<close>

definition find_task :: "national_db \<Rightarrow> string \<Rightarrow> string \<Rightarrow> national_error + national_task option" where
  "find_task db tenant code =
     raiseE (\<lambda>e. NationalDb (case_exn e)) (one_or_none (filter (\<lambda>t. task_key t = (tenant, code)) (nd_tasks db)))"

definition national_column :: "dict \<Rightarrow> string \<Rightarrow> national_error + string option" where
  "national_column payload k = raiseE NationalDb (column_text (dget payload k))"

definition new_task :: "string \<Rightarrow> string \<Rightarrow> string \<Rightarrow> dict \<Rightarrow> national_error + national_task" where
  "new_task i tenant code payload =
     bindE (raiseE NationalDb (column_needed (py_or (dget payload ''title'') (JStr code)))) (\<lambda>title.
     bindE (national_column payload ''basic_elem_catalog_id'') (\<lambda>basic.
     bindE (national_column payload ''task_create_organ_code'') (\<lambda>org.
     bindE (national_column payload ''task_receiver_code'') (\<lambda>receiver.
     bindE (national_column payload ''created_by'') (\<lambda>by.
       Inr \<lparr>nt_id = i, nt_tenant = tenant, nt_code = code, nt_title = title, nt_basic = basic,
            nt_status = ''draft'', nt_creator_org = org, nt_receiver = receiver, nt_step = None,
            nt_payload = py_or (dget payload ''payload_json'') (JObj []), nt_by = by\<rparr>)))))"

text \<open>A task refers to a basic catalogue that is there, if to any.\<close>

definition basic_present :: "national_db \<Rightarrow> string option \<Rightarrow> bool" where
  "basic_present db b = (case b of None \<Rightarrow> True | Some i \<Rightarrow> list_ex (\<lambda>e. be_id e = i) (nd_basics db))"

definition create_task ::
    "(nat \<Rightarrow> string) \<Rightarrow> string \<Rightarrow> dict \<Rightarrow> national_db \<Rightarrow> national_error + national_task \<times> national_db" where
  "create_task uuid tenant payload db =
     bindE (raiseE NationalPy (dict_item payload ''task_code'')) (\<lambda>c.
     bindE (raiseE NationalDb (column_needed c)) (\<lambda>code.
     bindE (find_task db tenant code) (\<lambda>found.
       case found of
         Some t \<Rightarrow> Inr (t, db)
       | None \<Rightarrow>
           bindE (new_task (uuid (nd_next db)) tenant code payload) (\<lambda>t.
             if \<not> basic_present db (nt_basic t) then Inl (NationalDb statement_error)
             else Inr (t, db\<lparr>nd_tasks := nd_tasks db @ [t], nd_next := Suc (nd_next db)\<rparr>)))))"

definition require_task :: "national_db \<Rightarrow> string \<Rightarrow> string \<Rightarrow> national_error + national_task" where
  "require_task db tenant code =
     bindE (find_task db tenant code) (\<lambda>found. case found of None \<Rightarrow> Inl (TaskMissing code) | Some t \<Rightarrow> Inr t)"

definition list_tasks :: "national_db \<Rightarrow> string \<Rightarrow> string option \<Rightarrow> national_task list" where
  "list_tasks db tenant status =
     sort_key nt_code (filter (\<lambda>t. nt_tenant t = tenant \<and> asked status (\<lambda>s. nt_status t = s)) (nd_tasks db))"

definition put_task :: "national_task \<Rightarrow> national_db \<Rightarrow> national_db" where
  "put_task t db = db\<lparr>nd_tasks := put_row nt_id t (nd_tasks db)\<rparr>"

definition set_status ::
    "string \<Rightarrow> string \<Rightarrow> string \<Rightarrow> int option \<Rightarrow> national_db \<Rightarrow> national_error + national_task \<times> national_db" where
  "set_status tenant code to step db =
     bindE (require_task db tenant code) (\<lambda>t.
     bindE (validate_transition (nt_status t) to) (\<lambda>_.
       let t' = t\<lparr>nt_status := to, nt_step := step\<rparr> in Inr (t', put_task t' db)))"

definition decide_task ::
    "string \<Rightarrow> string \<Rightarrow> bool \<Rightarrow> national_db \<Rightarrow> national_error + national_task \<times> national_db" where
  "decide_task tenant code approve db =
     bindE (require_task db tenant code) (\<lambda>t.
     bindE (next_review_status (nt_status t) approve) (\<lambda>to.
       let t' = t\<lparr>nt_status := to,
                   nt_step := (if to \<in> {''pending_supervisor_review'', ''pending_supervisor_review_revision''}
                               then Some 2 else None)\<rparr>
       in Inr (t', put_task t' db)))"

definition new_basic_elem :: "string \<Rightarrow> string \<Rightarrow> string \<Rightarrow> int \<Rightarrow> dict \<Rightarrow> national_error + basic_elem" where
  "new_basic_elem i tenant cata version payload =
     bindE (raiseE NationalDb (column_needed (py_or (dget payload ''cata_title'') (JStr cata)))) (\<lambda>title.
     bindE (national_column payload ''category_code'') (\<lambda>category.
     bindE (national_column payload ''domain_id'') (\<lambda>domain.
     bindE (national_column payload ''level'') (\<lambda>level.
     bindE (national_column payload ''imported_by_org_code'') (\<lambda>org.
       Inr \<lparr>be_id = i, be_tenant = tenant, be_cata = cata, be_version = version, be_title = title,
            be_category = category, be_domain = domain, be_level = level, be_org = org\<rparr>)))))"

text \<open>The version is a number: the driver refuses any other value in its column.\<close>

definition upsert_basic_elem_catalog ::
    "(nat \<Rightarrow> string) \<Rightarrow> string \<Rightarrow> dict \<Rightarrow> national_db \<Rightarrow> national_error + basic_elem \<times> national_db" where
  "upsert_basic_elem_catalog uuid tenant payload db =
     bindE (raiseE NationalPy (dict_item payload ''cata_id'')) (\<lambda>c.
     bindE (raiseE NationalDb (column_needed c)) (\<lambda>cata.
     bindE (case dget_or payload ''version'' (JInt 1) of JInt v \<Rightarrow> Inr v | _ \<Rightarrow> Inl (NationalDb statement_error)) (\<lambda>version.
     bindE (raiseE (\<lambda>e. NationalDb (case_exn e))
              (one_or_none (filter (\<lambda>b. be_tenant b = tenant \<and> be_cata b = cata \<and> be_version b = version) (nd_basics db)))) (\<lambda>found.
       case found of
         Some b \<Rightarrow> Inr (b, db)
       | None \<Rightarrow> bindE (new_basic_elem (uuid (nd_next db)) tenant cata version payload) (\<lambda>b.
           Inr (b, db\<lparr>nd_basics := nd_basics db @ [b], nd_next := Suc (nd_next db)\<rparr>))))))"

section \<open>The skill\<close>

definition submit_step :: "string \<Rightarrow> int option" where
  "submit_step target =
     (if target \<in> {''pending_business_review'', ''pending_business_review_revision''} then Some 1 else None)"

definition national_tenant :: "dict \<Rightarrow> string" where
  "national_tenant payload = py_str (dget_or payload ''tenant_id'' (JStr ''sd-default''))"

definition national_mutation ::
    "(nat \<Rightarrow> string) \<Rightarrow> bool \<Rightarrow> dict \<Rightarrow> national_db \<Rightarrow> national_error + national_task \<times> national_db" where
  "national_mutation uuid ready payload db =
     (let action = py_str (dget_or payload ''action'' (JStr ''create''));
          tenant = national_tenant payload;
          code = py_str (dget_or payload ''task_code'' (JStr []))
      in if action = ''create'' then create_task uuid tenant payload db
         else if action = ''submit'' then
           bindE (require_task db tenant code) (\<lambda>t.
           bindE (submit_target (nt_status t)) (\<lambda>target.
             set_status tenant code target (submit_step target) db))
         else if action = ''review'' then decide_task tenant code (truthy (dget payload ''approve'')) db
         else if action = ''sync'' then
           bindE (guardE ready ChannelNotReady) (\<lambda>_.
           bindE (require_task db tenant code) (\<lambda>t.
           bindE (sync_target (nt_status t)) (\<lambda>target.
             set_status tenant code target None db)))
         else if action = ''revise'' then set_status tenant code ''revision_draft'' None db
         else if action = ''revoke'' then set_status tenant code ''pending_revoke_review'' None db
         else Inl (UnknownNationalAction action))"

text \<open>The reading actions, and the choice between reading and writing. Only a write passes the pipeline.\<close>

datatype national_answer = TaskList "national_task list" | OneTask "national_task option" | TaskWritten national_task

definition handler_national_ext_elem_compile ::
    "(nat \<Rightarrow> string) \<Rightarrow> bool \<Rightarrow> dict \<Rightarrow> national_db \<Rightarrow> national_error + national_answer \<times> national_db" where
  "handler_national_ext_elem_compile uuid ready payload db =
     (let action = py_str (dget_or payload ''action'' (JStr ''create''));
          tenant = national_tenant payload
      in if action = ''list'' then
           bindE (if truthy (dget payload ''compile_status'')
                  then bindE (raiseE NationalDb (column_text (dget payload ''compile_status''))) (\<lambda>s. Inr s)
                  else Inr None)
             (\<lambda>status. Inr (TaskList (list_tasks db tenant status), db))
         else if action = ''get'' then
           bindE (find_task db tenant (py_str (dget_or payload ''task_code'' (JStr []))))
             (\<lambda>found. Inr (OneTask found, db))
         else bindE (national_mutation uuid ready payload db) (\<lambda>(t, db'). Inr (TaskWritten t, db')))"

end
