(* ===== verification/NationalSafe.thy ===== *)
theory NationalSafe
  imports NationalElem
begin

text \<open>
  What the compilation of national extension elements guarantees: the flow declared for the two reviews is walked
  to exactly those two, a task moves only along the table of the state machine, and a published task was
  approved at both levels and synchronised while the national channel was ready.
\<close>

section \<open>The invariant\<close>

definition national_inv :: "(nat \<Rightarrow> string) \<Rightarrow> national_db \<Rightarrow> bool" where
  "national_inv uuid db \<longleftrightarrow> inj uuid \<and> unique_on task_key (nd_tasks db) \<and> unique_on nt_id (nd_tasks db) \<and>
     (\<forall>t \<in> set (nd_tasks db). \<exists>k < nd_next db. nt_id t = uuid k)"

definition task_status :: "national_db \<Rightarrow> string \<times> string \<Rightarrow> string option" where
  "task_status db k = map_option nt_status (row_by task_key k (nd_tasks db))"

definition compile_edges :: "(string \<times> string) set" where
  "compile_edges = {(a, b). \<exists>ts. (a, ts) \<in> set compile_transitions \<and> b \<in> set ts}"

lemma find_task_unique:
  "national_inv uuid db \<Longrightarrow> find_task db tenant code = Inr (row_by task_key (tenant, code) (nd_tasks db))"
  by (simp add: find_task_def national_inv_def one_or_none_unique raiseE_def)

lemma require_task_Inr:
  "national_inv uuid db \<Longrightarrow> require_task db tenant code = Inr t \<longleftrightarrow>
     row_by task_key (tenant, code) (nd_tasks db) = Some t"
  by (simp add: require_task_def find_task_unique split: option.splits)

text \<open>Changing the status of a task.\<close>

lemma put_task_status:
  assumes "national_inv uuid db" and "row_by task_key k (nd_tasks db) = Some t"
    and "nt_id t' = nt_id t" "task_key t' = k"
  shows "national_inv uuid (put_task t' db)"
    and "task_status (put_task t' db) j = (if j = k then Some (nt_status t') else task_status db j)"
proof -
  have t: "t \<in> set (nd_tasks db)" "task_key t = k" using row_by_SomeD [OF assms(2)] by auto
  have same: "put_row nt_id t' (nd_tasks db) = put_row task_key t' (nd_tasks db)"
    using put_row_same_key [of nt_id "nd_tasks db" task_key t t'] assms t by (simp add: national_inv_def)
  obtain n where n: "n < nd_next db" "nt_id t = uuid n" using assms(1) t(1) by (auto simp: national_inv_def)
  have ids: "\<exists>k < nd_next db. nt_id y = uuid k" if "y \<in> set (put_row nt_id t' (nd_tasks db))" for y
    using in_put_row [OF that] assms(1,3) n by (auto simp: national_inv_def)
  have keys: "unique_on task_key (put_row nt_id t' (nd_tasks db))"
    using assms(1) unfolding same by (simp add: national_inv_def unique_on_def)
  show "national_inv uuid (put_task t' db)"
    using assms(1) ids keys by (simp add: national_inv_def put_task_def unique_on_def)
  show "task_status (put_task t' db) j = (if j = k then Some (nt_status t') else task_status db j)"
    using row_by_put_row [of t "nd_tasks db" task_key t' j] assms(4) t
    by (auto simp: task_status_def put_task_def same)
qed

lemma add_task:
  assumes "national_inv uuid db" and "row_by task_key (task_key t) (nd_tasks db) = None"
    and "nt_id t = uuid (nd_next db)"
    and "db' = db\<lparr>nd_tasks := nd_tasks db @ [t], nd_next := Suc (nd_next db)\<rparr>"
  shows "national_inv uuid db'"
    and "task_status db' j = (if j = task_key t then Some (nt_status t) else task_status db j)"
proof -
  have "nt_id t \<notin> nt_id ` set (nd_tasks db)"
  proof
    assume "nt_id t \<in> nt_id ` set (nd_tasks db)"
    then obtain k where "k < nd_next db" "uuid k = uuid (nd_next db)"
      using assms(1,3) by (auto simp: national_inv_def)
    then show False using assms(1) by (auto simp: national_inv_def dest: injD)
  qed
  moreover have "task_key t \<notin> task_key ` set (nd_tasks db)" using assms(2) by (simp add: row_by_None_iff)
  moreover have "\<exists>k < Suc (nd_next db). nt_id y = uuid k" if "y \<in> set (nd_tasks db) \<or> y = t" for y
    using that assms(1,3) by (auto simp: national_inv_def intro: less_SucI)
  ultimately show "national_inv uuid db'"
    using assms(1) by (auto simp: assms(4) national_inv_def unique_on_def)
  show "task_status db' j = (if j = task_key t then Some (nt_status t) else task_status db j)"
    using assms(2) by (auto simp: task_status_def assms(4) row_by_append row_by_Cons split: option.splits)
qed

section \<open>The moves of a task\<close>

lemma checked_move_Inr: "checked_move a b = Inr c \<longleftrightarrow> c = b \<and> validate_transition a b = Inr ()"
  by (auto simp: checked_move_def result_simps)

lemma validate_edge: "validate_transition a b = Inr () \<Longrightarrow> a = b \<or> (a, b) \<in> compile_edges"
  by (auto simp: validate_transition_def compile_edges_def dest: map_of_SomeD split: if_splits option.splits)

lemma submit_move: "submit_target a = Inr b \<Longrightarrow>
   (a, b) \<in> {(''draft'', ''pending_business_review''), (''revision_draft'', ''pending_business_review_revision'')}"
  by (auto simp: submit_target_def submit_table_def checked_move_Inr split: if_splits)

lemma review_move: "next_review_status a approve = Inr b \<Longrightarrow>
   (a, b) \<in> set (if approve then approve_table else reject_table) \<and> validate_transition a b = Inr ()"
  by (auto simp: next_review_status_def checked_move_Inr dest: map_of_SomeD split: option.splits if_splits)

lemma sync_move: "sync_target a = Inr b \<Longrightarrow> a = ''pending_national_sync'' \<and> b = ''published''"
  by (auto simp: sync_target_def checked_move_Inr split: if_splits)

text \<open>What a call asks for.\<close>

abbreviation asks :: "dict \<Rightarrow> string \<Rightarrow> bool" where
  "asks payload action \<equiv> py_str (dget_or payload ''action'' (JStr ''create'')) = action"

text \<open>The moves a call may make.\<close>

definition call_move :: "bool \<Rightarrow> dict \<Rightarrow> string \<Rightarrow> string \<Rightarrow> bool" where
  "call_move ready payload a b \<longleftrightarrow>
     (asks payload ''submit'' \<and>
        (a, b) \<in> {(''draft'', ''pending_business_review''), (''revision_draft'', ''pending_business_review_revision'')}) \<or>
     (asks payload ''review'' \<and>
        (a, b) \<in> set (if truthy (dget payload ''approve'') then approve_table else reject_table)) \<or>
     (asks payload ''sync'' \<and> ready \<and> a = ''pending_national_sync'' \<and> b = ''published'') \<or>
     (asks payload ''revise'' \<and> b = ''revision_draft'') \<or> (asks payload ''revoke'' \<and> b = ''pending_revoke_review'')"

definition named_task :: "dict \<Rightarrow> string \<times> string" where
  "named_task payload = (national_tenant payload, py_str (dget_or payload ''task_code'' (JStr [])))"

definition moved_task :: "bool \<Rightarrow> dict \<Rightarrow> national_db \<Rightarrow> national_task \<Rightarrow> national_db \<Rightarrow> bool" where
  "moved_task ready payload db t' db' \<longleftrightarrow> (\<exists>t. row_by task_key (named_task payload) (nd_tasks db) = Some t \<and>
     nt_id t' = nt_id t \<and> task_key t' = task_key t \<and> db' = put_task t' db \<and>
     validate_transition (nt_status t) (nt_status t') = Inr () \<and>
     call_move ready payload (nt_status t) (nt_status t'))"

lemma set_status_Inr:
  assumes "national_inv uuid db" and "set_status tenant code to step db = Inr (t', db')"
  obtains t where "row_by task_key (tenant, code) (nd_tasks db) = Some t" "t' = t\<lparr>nt_status := to, nt_step := step\<rparr>"
    "db' = put_task t' db" "validate_transition (nt_status t) to = Inr ()"
  using assms(2) unfolding set_status_def Let_def by (auto simp: result_simps require_task_Inr [OF assms(1)])

lemma moved_taskI:
  assumes "row_by task_key (named_task payload) (nd_tasks db) = Some t"
    and "t' = t\<lparr>nt_status := to, nt_step := step\<rparr>" and "db' = put_task t' db"
    and "validate_transition (nt_status t) to = Inr ()" and "call_move ready payload (nt_status t) to"
  shows "moved_task ready payload db t' db'"
proof -
  have "nt_id t' = nt_id t" "task_key t' = task_key t" "nt_status t' = to" by (simp_all add: assms(2) task_key_def)
  then show ?thesis unfolding moved_task_def using assms(1,3,4,5) by (intro exI [of _ t]) simp
qed

lemma set_status_moved:
  assumes "national_inv uuid db" and "set_status (fst (named_task payload)) (snd (named_task payload)) to step db = Inr (t', db')"
    and "\<And>t. row_by task_key (named_task payload) (nd_tasks db) = Some t \<Longrightarrow> call_move ready payload (nt_status t) to"
  shows "moved_task ready payload db t' db'"
proof -
  obtain t where t: "row_by task_key (named_task payload) (nd_tasks db) = Some t"
    "t' = t\<lparr>nt_status := to, nt_step := step\<rparr>" "db' = put_task t' db" "validate_transition (nt_status t) to = Inr ()"
    using set_status_Inr [OF assms(1,2)] by (metis prod.collapse)
  show ?thesis by (rule moved_taskI [OF t assms(3) [OF t(1)]])
qed

lemma decide_task_moved:
  assumes "national_inv uuid db" and "asks payload ''review''"
    and "decide_task (fst (named_task payload)) (snd (named_task payload)) (truthy (dget payload ''approve'')) db = Inr (t', db')"
  shows "moved_task ready payload db t' db'"
proof -
  obtain t to where t: "require_task db (fst (named_task payload)) (snd (named_task payload)) = Inr t"
      "next_review_status (nt_status t) (truthy (dget payload ''approve'')) = Inr to"
      "db' = put_task t' db"
      "t' = t\<lparr>nt_status := to, nt_step := (if to \<in> {''pending_supervisor_review'', ''pending_supervisor_review_revision''}
                               then Some 2 else None)\<rparr>"
    using assms(3) unfolding decide_task_def bindE_Inr_iff Let_def by blast
  have "row_by task_key (named_task payload) (nd_tasks db) = Some t"
    using t(1) by (simp add: require_task_Inr [OF assms(1)])
  then show ?thesis
    using moved_taskI [OF _ t(4,3)] review_move [OF t(2)] assms(2) by (simp add: call_move_def)
qed

lemma create_task_Inr:
  assumes "national_inv uuid db" and "create_task uuid tenant payload db = Inr (t, db')"
  shows "db' = db \<or> (nt_status t = ''draft'' \<and> nt_id t = uuid (nd_next db) \<and>
     row_by task_key (task_key t) (nd_tasks db) = None \<and>
     db' = db\<lparr>nd_tasks := nd_tasks db @ [t], nd_next := Suc (nd_next db)\<rparr>)"
  using assms(2) unfolding create_task_def new_task_def
  by (auto simp: result_simps find_task_unique [OF assms(1)] task_key_def split: option.splits if_splits)

lemma national_mutation_cases:
  assumes "national_inv uuid db" and "national_mutation uuid ready payload db = Inr (t, db')"
  shows "(asks payload ''create'' \<and> create_task uuid (national_tenant payload) payload db = Inr (t, db')) \<or>
     moved_task ready payload db t db'"
proof -
  have key: "national_tenant payload = fst (named_task payload)"
    "py_str (dget_or payload ''task_code'' (JStr [])) = snd (named_task payload)"
    by (simp_all add: named_task_def)
  note run = assms(2) [unfolded national_mutation_def Let_def key]
  consider "asks payload ''create''" | "asks payload ''submit''" | "asks payload ''review''"
    | "asks payload ''sync''" | "asks payload ''revise''" | "asks payload ''revoke''"
    using run by (auto split: if_splits)
  then show ?thesis
  proof cases
    case 1
    then show ?thesis using run by (simp add: key)
  next
    case 2
    obtain u target where u: "require_task db (fst (named_task payload)) (snd (named_task payload)) = Inr u"
      "submit_target (nt_status u) = Inr target"
      "set_status (fst (named_task payload)) (snd (named_task payload)) target (submit_step target) db = Inr (t, db')"
      using run 2 by (auto simp: result_simps)
    then show ?thesis
      using set_status_moved [OF assms(1) u(3)] submit_move [OF u(2)] 2
      by (simp add: require_task_Inr [OF assms(1)] call_move_def)
  next
    case 3
    then show ?thesis using decide_task_moved [OF assms(1) 3] run by simp
  next
    case 4
    obtain u target where u: "ready" "require_task db (fst (named_task payload)) (snd (named_task payload)) = Inr u"
      "sync_target (nt_status u) = Inr target"
      "set_status (fst (named_task payload)) (snd (named_task payload)) target None db = Inr (t, db')"
      using run 4 by (auto simp: result_simps)
    then show ?thesis
      using set_status_moved [OF assms(1) u(4)] sync_move [OF u(3)] 4
      by (simp add: require_task_Inr [OF assms(1)] call_move_def)
  next
    case 5
    then show ?thesis using set_status_moved [OF assms(1), where payload = payload] run by (auto simp: call_move_def)
  next
    case 6
    then show ?thesis using set_status_moved [OF assms(1), where payload = payload] run by (auto simp: call_move_def)
  qed
qed

text \<open>A call as a step of the machine.\<close>

definition national_step :: "(nat \<Rightarrow> string) \<Rightarrow> national_db \<Rightarrow> bool \<times> dict \<Rightarrow> national_error + national_db" where
  "national_step uuid db call = bindE (national_mutation uuid (fst call) (snd call) db) (\<lambda>(t, db'). Inr db')"

lemma national_step_moves:
  assumes "national_inv uuid db" and "national_step uuid db (ready, payload) = Inr db'"
  shows "national_inv uuid db'"
    and "task_status db' k = task_status db k \<or> (task_status db k = None \<and> task_status db' k = Some ''draft'') \<or>
      (\<exists>a b. k = named_task payload \<and> task_status db k = Some a \<and> task_status db' k = Some b \<and>
         validate_transition a b = Inr () \<and> call_move ready payload a b)"
proof -
  obtain t where t: "national_mutation uuid ready payload db = Inr (t, db')"
    using assms(2) by (auto simp: national_step_def result_simps)
  from national_mutation_cases [OF assms(1) t] show "national_inv uuid db'"
  proof
    assume "moved_task ready payload db t db'"
    then show ?thesis
      unfolding moved_task_def using put_task_status(1) [OF assms(1)] by (metis row_by_SomeD)
  qed (use create_task_Inr [OF assms(1)] add_task(1) [OF assms(1)] assms(1) in blast)
  from national_mutation_cases [OF assms(1) t] show
    "task_status db' k = task_status db k \<or> (task_status db k = None \<and> task_status db' k = Some ''draft'') \<or>
      (\<exists>a b. k = named_task payload \<and> task_status db k = Some a \<and> task_status db' k = Some b \<and>
         validate_transition a b = Inr () \<and> call_move ready payload a b)"
  proof
    assume "moved_task ready payload db t db'"
    then obtain u where u: "row_by task_key (named_task payload) (nd_tasks db) = Some u"
      "nt_id t = nt_id u" "task_key t = task_key u" "db' = put_task t db"
      "validate_transition (nt_status u) (nt_status t) = Inr ()" "call_move ready payload (nt_status u) (nt_status t)"
      unfolding moved_task_def by blast
    have "task_key t = named_task payload" using row_by_SomeD [OF u(1)] u(3) by simp
    then show ?thesis
      using put_task_status(2) [OF assms(1) u(1,2), of k] u(4-6) by (auto simp: task_status_def u(1))
  next
    assume created: "asks payload ''create'' \<and> create_task uuid (national_tenant payload) payload db = Inr (t, db')"
    from create_task_Inr [OF assms(1) conjunct2 [OF created]] show ?thesis
    proof (elim disjE conjE)
      assume new: "nt_id t = uuid (nd_next db)" "row_by task_key (task_key t) (nd_tasks db) = None"
        "db' = db\<lparr>nd_tasks := nd_tasks db @ [t], nd_next := Suc (nd_next db)\<rparr>"
      assume "nt_status t = ''draft''"
      then show ?thesis using add_task(2) [OF assms(1) new(2,1,3), of k] new(2) by (auto simp: task_status_def)
    qed simp
  qed
qed

interpretation national_flow: guarded_machine "national_step uuid" task_status "national_inv uuid" compile_edges for uuid
proof
  fix s op s'
  assume run: "national_inv uuid s" "national_step uuid s op = Inr s'"
  obtain ready payload where op: "op = (ready, payload)" by fastforce
  show "national_inv uuid s'" using national_step_moves(1) run unfolding op by blast
  fix i a assume "task_status s i = Some a"
  then show "\<exists>b. task_status s' i = Some b \<and> (a = b \<or> (a, b) \<in> compile_edges)"
    using national_step_moves(2) [OF run(1) run(2) [unfolded op], of i] by (auto dest: validate_edge)
qed


section \<open>Properties\<close>

text \<open>The walker of approval flows finds the two reviews of the declared flow, in order.\<close>

lemma review_steps_are_two:
  "\<exists>a b. review_step_specs = Inr [a, b] \<and> sp_no a = 1 \<and> sp_no b = 2 \<and>
     sp_name a = JStr lbl_nat_business \<and> sp_name b = JStr lbl_nat_supervisor"
proof -
  have "case review_step_specs of Inr [a, b] \<Rightarrow> sp_no a = 1 \<and> sp_no b = 2 \<and>
     sp_name a = JStr lbl_nat_business \<and> sp_name b = JStr lbl_nat_supervisor | _ \<Rightarrow> False"
    by code_simp
  then show ?thesis by (auto split: sum.splits list.splits)
qed

abbreviation national_run :: "(nat \<Rightarrow> string) \<Rightarrow> (bool \<times> dict) list \<Rightarrow> national_db" where
  "national_run uuid \<equiv> run_ops (national_step uuid) empty_national_db"

lemma empty_national_inv: "inj uuid \<Longrightarrow> national_inv uuid empty_national_db"
  by (simp add: national_inv_def empty_national_db_def unique_on_def)

text \<open>The three stages every task passes, each entered from one status by one kind of call.\<close>

definition past_platform :: "string set" where
  "past_platform = {''published'', ''revision_draft'', ''pending_business_review_revision'',
     ''pending_supervisor_review_revision'', ''pending_revoke_review'', ''revoked''}"

definition past_supervisor :: "string set" where
  "past_supervisor = insert ''pending_national_sync'' past_platform"

definition past_business :: "string set" where
  "past_business = insert ''pending_supervisor_review'' past_supervisor"

definition approves :: "dict \<Rightarrow> bool" where
  "approves payload \<longleftrightarrow> asks payload ''review'' \<and> truthy (dget payload ''approve'')"

lemma compile_edges_list: "compile_edges = set (concat (map (\<lambda>(a, ts). map (Pair a) ts) compile_transitions))"
  by (auto simp: compile_edges_def)

text \<open>One edge leads into a set of statuses.\<close>

definition only_edge :: "string \<Rightarrow> string \<Rightarrow> string set \<Rightarrow> bool" where
  "only_edge c d A \<longleftrightarrow> (\<forall>(a, b) \<in> set (concat (map (\<lambda>(a, ts). map (Pair a) ts) compile_transitions)).
     a \<notin> A \<and> b \<in> A \<longrightarrow> a = c \<and> b = d)"

lemma only_edgeD: "only_edge c d A \<Longrightarrow> (a, b) \<in> compile_edges \<Longrightarrow> a \<notin> A \<Longrightarrow> b \<in> A \<Longrightarrow> a = c \<and> b = d"
  unfolding only_edge_def compile_edges_list by (drule bspec, assumption) simp

lemma stage_edges:
  "only_edge ''pending_national_sync'' ''published'' past_platform"
  "only_edge ''pending_supervisor_review'' ''pending_national_sync'' past_supervisor"
  "only_edge ''pending_business_review'' ''pending_supervisor_review'' past_business"
  by code_simp+

lemma call_moves_by:
  "call_move ready payload ''pending_national_sync'' ''published'' \<Longrightarrow> ready \<and> asks payload ''sync''"
  "call_move ready payload ''pending_supervisor_review'' ''pending_national_sync'' \<Longrightarrow> approves payload"
  "call_move ready payload ''pending_business_review'' ''pending_supervisor_review'' \<Longrightarrow> approves payload"
  by (simp_all add: call_move_def approves_def approve_table_def reject_table_def split: if_splits)

text \<open>The call by which a task entered a set of statuses that only one edge leads into.\<close>

lemma entered:
  assumes "inj uuid" and "task_status (national_run uuid ops) k \<in> Some ` A" and "''draft'' \<notin> A"
    and "only_edge c d A" and only: "\<And>ready payload. call_move ready payload c d \<Longrightarrow> Q ready payload"
  shows "\<exists>pre ready payload post. ops = pre @ (ready, payload) # post \<and> named_task payload = k \<and>
    task_status (national_run uuid pre) k = Some c \<and> Q ready payload"
proof -
  let ?P = "\<lambda>s. task_status s k \<in> Some ` A"
  have "\<not> ?P empty_national_db" by (simp add: empty_national_db_def task_status_def image_iff)
  from run_ops_change [of ?P, OF this assms(2)] obtain pre op post where ops: "ops = pre @ op # post"
    "\<not> ?P (national_run uuid pre)" "?P (settle (national_step uuid) (national_run uuid pre) op)"
    by blast
  obtain ready payload where op: "op = (ready, payload)" by fastforce
  have inv: "national_inv uuid (national_run uuid pre)"
    by (rule national_flow.inv_run [OF empty_national_inv [OF assms(1)]])
  obtain s' where step: "national_step uuid (national_run uuid pre) (ready, payload) = Inr s'" "?P s'"
    using ops(2,3) by (auto simp: settle_def op split: sum.splits)
  from national_step_moves(2) [OF inv step(1), of k] step(2) ops(2) assms(3)
  obtain a b where ab: "k = named_task payload" "task_status (national_run uuid pre) k = Some a" "a \<notin> A" "b \<in> A"
    "validate_transition a b = Inr ()" "call_move ready payload a b"
    by (elim disjE exE conjE) (auto simp: image_iff)
  have "(a, b) \<in> compile_edges" using validate_edge [OF ab(5)] ab(3,4) by auto
  then have "a = c" "b = d" using only_edgeD [OF assms(4)] ab(3,4) by blast+
  then have "a = c \<and> Q ready payload" using only ab(6) by simp
  then show ?thesis using ops(1) op ab(1,2) by auto
qed

text \<open>C28: a task of national extension elements that was ever published, whether it is now under revision, under
  revocation or revoked, has this history: an approving review while it awaited the business department, later one
  while it awaited the supervisor, later a synchronisation while it awaited the national platform and the
  channel was ready. Whatever calls come between, in whatever order.\<close>

theorem published_after_both_reviews:
  assumes "inj uuid" and "task_status (national_run uuid ops) k = Some s" and "s \<in> past_platform"
  shows "\<exists>p1 r1 c1 p2 r2 c2 p3 c3 p4. ops = ((p1 @ (r1, c1) # p2) @ (r2, c2) # p3) @ (True, c3) # p4 \<and>
     named_task c1 = k \<and> named_task c2 = k \<and> named_task c3 = k \<and> approves c1 \<and> approves c2 \<and> asks c3 ''sync'' \<and>
     task_status (national_run uuid p1) k = Some ''pending_business_review'' \<and>
     task_status (national_run uuid (p1 @ (r1, c1) # p2)) k = Some ''pending_supervisor_review'' \<and>
     task_status (national_run uuid ((p1 @ (r1, c1) # p2) @ (r2, c2) # p3)) k = Some ''pending_national_sync''"
proof -
  have fresh: "''draft'' \<notin> past_platform" "''draft'' \<notin> past_supervisor" "''draft'' \<notin> past_business"
    by (simp_all add: past_platform_def past_supervisor_def past_business_def)
  have "task_status (national_run uuid ops) k \<in> Some ` past_platform" using assms(2,3) by simp
  from entered [where Q = "\<lambda>ready payload. ready \<and> asks payload ''sync''", OF assms(1) this fresh(1) stage_edges(1) call_moves_by(1)] obtain q3 r3 c3 p4 where q3:
    "ops = q3 @ (r3, c3) # p4" "named_task c3 = k"
    "task_status (national_run uuid q3) k = Some ''pending_national_sync''" "r3 \<and> asks c3 ''sync''"
    by blast
  then have "task_status (national_run uuid q3) k \<in> Some ` past_supervisor" by (simp add: past_supervisor_def)
  from entered [where Q = "\<lambda>_ payload. approves payload", OF assms(1) this fresh(2) stage_edges(2)] call_moves_by(2) obtain q2 r2 c2 p3 where q2:
    "q3 = q2 @ (r2, c2) # p3" "named_task c2 = k"
    "task_status (national_run uuid q2) k = Some ''pending_supervisor_review''" "approves c2"
    by blast
  then have "task_status (national_run uuid q2) k \<in> Some ` past_business" by (simp add: past_business_def)
  from entered [where Q = "\<lambda>_ payload. approves payload", OF assms(1) this fresh(3) stage_edges(3)] call_moves_by(3) obtain q1 r1 c1 p2 where q1:
    "q2 = q1 @ (r1, c1) # p2" "named_task c1 = k"
    "task_status (national_run uuid q1) k = Some ''pending_business_review''" "approves c1"
    by blast
  show ?thesis
    using q1 q2 q3 by (intro exI [of _ q1] exI [of _ r1] exI [of _ c1] exI [of _ p2] exI [of _ r2] exI [of _ c2]
        exI [of _ p3] exI [of _ c3] exI [of _ p4]) simp
qed

text \<open>A task from its draft to its publication.\<close>

definition sample_compile :: "(bool \<times> dict) list" where
  "sample_compile = map (\<lambda>(a, extra). (True, [(''action'', JStr a), (''task_code'', JStr ''t1'')] @ extra))
     [(''create'', []), (''submit'', []), (''review'', [(''approve'', JBool True)]), (''review'', [(''approve'', JBool True)]),
      (''sync'', [])]"

lemma sample_compile_published:
  "task_status (national_run (\<lambda>n. replicate n CHR ''x'') sample_compile) (''sd-default'', ''t1'') = Some ''published''"
  by code_simp

theorem published_after_both_reviews_witness:
  "\<exists>p1 r1 c1 rest. sample_compile = p1 @ (r1, c1) # rest \<and> approves c1 \<and> named_task c1 = (''sd-default'', ''t1'')"
proof -
  have "inj (\<lambda>n. replicate n CHR ''x'')" by (rule injI) (metis length_replicate)
  from published_after_both_reviews [OF this sample_compile_published] show ?thesis
    by (simp add: past_platform_def) blast
qed

end
