(* ===== verification/NationalChannel.thy ===== *)
theory NationalChannel
  imports ShareType Actions
begin

text \<open>
  The channel to the national platform: its settings and switch
  (\<^verbatim>\<open>shared/national/provisioning.py\<close>), the envelope, signature and return codes of a
  request (\<^verbatim>\<open>envelope.py\<close>, \<^verbatim>\<open>signing.py\<close>, \<^verbatim>\<open>return_codes.py\<close>), the client
  (\<^verbatim>\<open>client.py\<close>), the gate before it (\<^verbatim>\<open>command/handlers/infra/national_channel_gate.py\<close>) and
  the escalation of an application (\<^verbatim>\<open>command/handlers/j1/escalate.py\<close>). A call yields the requests it
  sent along with its result. The environment of the process, the network, the clock, the reader
  and printer of JSON text and the keyed hash are arguments.
\<close>

section \<open>Settings\<close>

type_synonym environment = "string \<Rightarrow> string option"

datatype channel_state = ChannelOff | ChannelUnprovisioned | ChannelProvisioned

record provisioning =
  pv_endpoint :: string
  pv_rid :: string
  pv_appkey :: string
  pv_appsecret :: string
  pv_sids :: "(string \<times> string) list"

definition sid_for :: "provisioning \<Rightarrow> string \<Rightarrow> string option" where
  "sid_for p name = map_of (pv_sids p) name"

definition env_text :: "environment \<Rightarrow> string \<Rightarrow> string" where
  "env_text env name = strip_blanks (case env name of None \<Rightarrow> [] | Some s \<Rightarrow> s)"

definition national_channel_enabled :: "environment \<Rightarrow> bool" where
  "national_channel_enabled env \<longleftrightarrow> env_text env ''ZW_BRAIN_NATIONAL_CHANNEL_ENABLED'' = ''1''"

definition truthy_env :: "environment \<Rightarrow> string \<Rightarrow> bool" where
  "truthy_env env name \<longleftrightarrow> env_text env name = ''1''"

text \<open>Only pairs of texts that are not blank are kept.\<close>

definition sid_pair :: "string \<times> json \<Rightarrow> (string \<times> string) option" where
  "sid_pair kv = (case kv of (k, JStr v) \<Rightarrow> if strip_blanks k \<noteq> [] \<and> strip_blanks v \<noteq> [] then Some (k, v) else None
                  | _ \<Rightarrow> None)"

definition parse_sid_map :: "(string \<Rightarrow> json option) \<Rightarrow> string option \<Rightarrow> (string \<times> string) list" where
  "parse_sid_map loads raw =
     (case raw of
        None \<Rightarrow> []
      | Some s \<Rightarrow> if s = [] \<or> strip_blanks s = [] then []
                  else case loads s of Some (JObj d) \<Rightarrow> List.map_filter sid_pair d | _ \<Rightarrow> [])"

text \<open>\<^verbatim>\<open>.rstrip("/")\<close>.\<close>

definition strip_slashes :: "string \<Rightarrow> string" where
  "strip_slashes s = rev (dropWhile (\<lambda>c. c = CHR ''/'') (rev s))"

definition load_provisioning :: "(string \<Rightarrow> json option) \<Rightarrow> environment \<Rightarrow> provisioning option" where
  "load_provisioning loads env =
     (let endpoint = strip_slashes (env_text env ''ZW_BRAIN_NATIONAL_ENDPOINT'');
          rid = env_text env ''ZW_BRAIN_NATIONAL_RID'';
          appkey = env_text env ''ZW_BRAIN_NATIONAL_APPKEY'';
          appsecret = env_text env ''ZW_BRAIN_NATIONAL_APPSECRET'';
          sids = parse_sid_map loads (env ''ZW_BRAIN_NATIONAL_SID_MAP'')
      in if endpoint = [] \<or> rid = [] \<or> appkey = [] \<or> appsecret = [] \<or> sids = [] then None
         else Some \<lparr>pv_endpoint = endpoint, pv_rid = rid, pv_appkey = appkey, pv_appsecret = appsecret, pv_sids = sids\<rparr>)"

definition is_provisioned :: "(string \<Rightarrow> json option) \<Rightarrow> environment \<Rightarrow> bool" where
  "is_provisioned loads env \<longleftrightarrow> load_provisioning loads env \<noteq> None"

definition config_presence :: "(string \<Rightarrow> json option) \<Rightarrow> environment \<Rightarrow> (string \<times> bool) list" where
  "config_presence loads env =
     [(''channel_enabled'', national_channel_enabled env),
      (''platform_address'', env_text env ''ZW_BRAIN_NATIONAL_ENDPOINT'' \<noteq> []),
      (''requester_identity'', env_text env ''ZW_BRAIN_NATIONAL_RID'' \<noteq> []),
      (''access_account'', env_text env ''ZW_BRAIN_NATIONAL_APPKEY'' \<noteq> []),
      (''access_secret'', env_text env ''ZW_BRAIN_NATIONAL_APPSECRET'' \<noteq> []),
      (''interface_service_map'', parse_sid_map loads (env ''ZW_BRAIN_NATIONAL_SID_MAP'') \<noteq> [])]"

definition external_readiness :: "environment \<Rightarrow> (string \<times> bool) list" where
  "external_readiness env =
     [(''basic_elem_template'', truthy_env env ''ZW_BRAIN_NATIONAL_BASIC_ELEM_TEMPLATE_READY''),
      (''receipt_reconciliation'', truthy_env env ''ZW_BRAIN_NATIONAL_RECEIPT_RECONCILIATION_READY''),
      (''credential_lifecycle'', truthy_env env ''ZW_BRAIN_NATIONAL_CREDENTIAL_LIFECYCLE_READY'')]"

definition is_sync_ready :: "(string \<Rightarrow> json option) \<Rightarrow> environment \<Rightarrow> bool" where
  "is_sync_ready loads env \<longleftrightarrow> is_provisioned loads env \<and> list_all snd (external_readiness env)"

definition resolve_channel_state :: "(string \<Rightarrow> json option) \<Rightarrow> environment \<Rightarrow> channel_state" where
  "resolve_channel_state loads env =
     (if \<not> national_channel_enabled env then ChannelOff
      else if \<not> is_provisioned loads env then ChannelUnprovisioned
      else ChannelProvisioned)"

section \<open>Signature and envelope\<close>

text \<open>\<^verbatim>\<open>base64.b64encode\<close>.\<close>

definition b64_char :: "nat \<Rightarrow> char" where
  "b64_char n = (if n < 26 then char_of (65 + n) else if n < 52 then char_of (71 + n)
                 else if n < 62 then char_of (n - 4) else if n = 62 then CHR ''+'' else CHR ''/'')"

definition byte :: "char \<Rightarrow> nat" where
  "byte c = of_char c"

fun b64encode :: "string \<Rightarrow> string" where
  "b64encode [] = []"
| "b64encode [a] = [b64_char (byte a div 4), b64_char (byte a mod 4 * 16), CHR ''='', CHR ''='']"
| "b64encode [a, b] =
     [b64_char (byte a div 4), b64_char (byte a mod 4 * 16 + byte b div 16), b64_char (byte b mod 16 * 4), CHR ''='']"
| "b64encode (a # b # c # cs) =
     b64_char (byte a div 4) # b64_char (byte a mod 4 * 16 + byte b div 16) #
     b64_char (byte b mod 16 * 4 + byte c div 64) # b64_char (byte c mod 64) # b64encode cs"

text \<open>The keyed hash takes the key and the text.\<close>

definition sign_request :: "(string \<Rightarrow> string \<Rightarrow> string) \<Rightarrow> string \<Rightarrow> string \<Rightarrow> string \<Rightarrow> string \<Rightarrow> string" where
  "sign_request hmac sid rid rtime appsecret = b64encode (hmac appsecret (sid @ rid @ rtime))"

datatype channel_error =
    MissingInterfaceSid string
  | NotProvisioned
  | TransportError exn

definition build_headers ::
    "(string \<Rightarrow> string \<Rightarrow> string) \<Rightarrow> provisioning \<Rightarrow> string \<Rightarrow> string \<Rightarrow> channel_error + (string \<times> string) list" where
  "build_headers hmac p name rtime =
     (case sid_for p name of
        None \<Rightarrow> Inl (MissingInterfaceSid name)
      | Some sid \<Rightarrow>
          if sid = [] then Inl (MissingInterfaceSid name)
          else Inr [(''gjzwfwpt_rid'', pv_rid p), (''gjzwfwpt_sid'', sid), (''gjzwfwpt_rtime'', rtime),
                    (''gjzwfwpt_sign'', sign_request hmac sid (pv_rid p) rtime (pv_appsecret p))])"

text \<open>Where two keys become one, the later value stays at the place of the first.\<close>

fun lower_keys :: "json \<Rightarrow> json" where
  "lower_keys (JObj d) = JObj (dmerge [] (map (\<lambda>(k, v). (lower k, lower_keys v)) d))"
| "lower_keys (JList xs) = JList (map lower_keys xs)"
| "lower_keys v = v"

definition build_body :: "dict \<Rightarrow> json" where
  "build_body payload = lower_keys (JObj payload)"

section \<open>Return codes\<close>

record national_response =
  nr_code :: string
  nr_message :: string
  nr_data :: json
  nr_raw :: dict

definition response_ok :: "national_response \<Rightarrow> bool" where
  "response_ok r \<longleftrightarrow> nr_code r = ''200''"

definition error_domain :: "national_response \<Rightarrow> string option" where
  "error_domain r =
     (if response_ok r then None
      else map_option butlast
        (find (\<lambda>prefix. contains prefix (lower (nr_code r @ '' '' @ nr_message r))) [''catalog-'', ''res-'', ''api-'', ''db-'']))"

definition failure_response :: "string \<Rightarrow> national_response" where
  "failure_response message = \<lparr>nr_code = ''300'', nr_message = message, nr_data = JNull, nr_raw = []\<rparr>"

definition parse_response :: "json \<Rightarrow> national_response" where
  "parse_response raw =
     (case raw of
        JObj d \<Rightarrow>
          let code = strip_blanks (py_str (dget_or d ''code'' (JStr ''300'')))
          in \<lparr>nr_code = (if code = [] then ''300'' else code),
              nr_message = strip_blanks (py_str (dget_or d ''message'' (JStr []))),
              nr_data = dget d ''data'', nr_raw = d\<rparr>
      | _ \<Rightarrow> failure_response lbl_nc_no_object)"

section \<open>The client\<close>

record http_request =
  hq_url :: string
  hq_headers :: "(string \<times> string) list"
  hq_body :: string

text \<open>What the process has around it. Reading the bytes of a response yields nothing when they are not
  the UTF-8 text of a JSON value.\<close>

record channel =
  ch_env :: environment
  ch_loads :: "string \<Rightarrow> json option"
  ch_dumps :: "json \<Rightarrow> string"
  ch_hmac :: "string \<Rightarrow> string \<Rightarrow> string"
  ch_clock :: int
  ch_transport :: "http_request \<Rightarrow> exn + int \<times> string"

type_synonym 'a sent = "http_request list \<times> (channel_error + 'a)"

definition request_of :: "channel \<Rightarrow> provisioning \<Rightarrow> string \<Rightarrow> string \<Rightarrow> dict \<Rightarrow> channel_error + http_request" where
  "request_of ch p name path payload =
     bindE (build_headers (ch_hmac ch) p name (int_str (ch_clock ch))) (\<lambda>headers.
       Inr \<lparr>hq_url = pv_endpoint p @ ''/sysapi/'' @ dropWhile (\<lambda>c. c = CHR ''/'') path,
            hq_headers = headers @ [(''Content-Type'', ''application/json;charset=utf-8''), (''Accept'', ''application/json'')],
            hq_body = ch_dumps ch (build_body payload)\<rparr>)"

definition read_response :: "(string \<Rightarrow> json option) \<Rightarrow> int \<Rightarrow> string \<Rightarrow> national_response" where
  "read_response loads status bytes =
     (case loads bytes of
        None \<Rightarrow> failure_response (lbl_nc_unparsable @ int_str status @ lbl_nc_close)
      | Some v \<Rightarrow> parse_response v)"

definition client_post :: "channel \<Rightarrow> provisioning \<Rightarrow> string \<Rightarrow> string \<Rightarrow> dict \<Rightarrow> national_response sent" where
  "client_post ch p name path payload =
     (case request_of ch p name path payload of
        Inl e \<Rightarrow> ([], Inl e)
      | Inr req \<Rightarrow> ([req],
          case ch_transport ch req of
            Inl e \<Rightarrow> Inl (TransportError e)
          | Inr (status, bytes) \<Rightarrow>
              Inr (read_response (ch_loads ch) status bytes)))"

section \<open>The gate\<close>

definition pending_reason :: "channel_state \<Rightarrow> string" where
  "pending_reason s = (case s of ChannelOff \<Rightarrow> lbl_nc_off | _ \<Rightarrow> lbl_nc_unprovisioned)"

definition evaluate_gate :: "(string \<Rightarrow> json option) \<Rightarrow> environment \<Rightarrow> channel_state \<times> json option" where
  "evaluate_gate loads env =
     (let s = resolve_channel_state loads env
      in (s, if s = ChannelProvisioned then None
             else Some (JObj [(''status'', JStr ''pending''), (''reason'', JStr (pending_reason s))])))"

text \<open>\<^verbatim>\<open>skill_id.removeprefix("adapter.national.").replace(".", "/")\<close>.\<close>

definition interface_path :: "string \<Rightarrow> string" where
  "interface_path skill =
     map (\<lambda>c. if c = CHR ''.'' then CHR ''/'' else c)
       (if take 17 skill = ''adapter.national.'' then drop 17 skill else skill)"

definition outbound :: "channel \<Rightarrow> string \<Rightarrow> dict \<Rightarrow> national_response sent" where
  "outbound ch skill payload =
     (case load_provisioning (ch_loads ch) (ch_env ch) of
        None \<Rightarrow> ([], Inl NotProvisioned)
      | Some p \<Rightarrow> client_post ch p skill (interface_path skill) payload)"

section \<open>Escalation of an application\<close>

definition national_channel_display :: "string option \<Rightarrow> string option" where
  "national_channel_display stage =
     map_of [(''escalating'', lbl_nc_escalating), (''revoking'', lbl_nc_revoking)] (case stage of None \<Rightarrow> [] | Some s \<Rightarrow> s)"

definition escalate_stage :: "dict \<Rightarrow> string" where
  "escalate_stage payload =
     (if py_str (dget_or payload ''action'' (JStr [])) = ''revoke'' then ''revoking'' else ''escalating'')"

definition escalate_request :: "dict \<Rightarrow> dict" where
  "escalate_request payload =
     [(''application_code'', JStr (py_str (dget_or payload ''application_code'' (JStr [])))),
      (''action'', dget_or payload ''action'' (JStr ''escalate'')),
      (''reason'', dget_or payload ''reason'' (JStr []))]"

definition escalate_result :: "string \<Rightarrow> dict \<Rightarrow> json \<Rightarrow> json" where
  "escalate_result audit payload outcome =
     (let stage = escalate_stage payload
      in JObj [(''application_code'', JStr (py_str (dget_or payload ''application_code'' (JStr [])))),
               (''national_channel_stage'', JStr stage),
               (''display_status'', case national_channel_display (Some stage) of None \<Rightarrow> JNull | Some s \<Rightarrow> JStr s),
               (''audit_id'', JStr audit), (''national_channel'', outcome)])"

definition escalate_receipt :: "national_response \<Rightarrow> json" where
  "escalate_receipt r = JObj [(''status'', JStr (if response_ok r then ''submitted'' else ''rejected'')),
                     (''reason'', JStr (if response_ok r then lbl_nc_submitted else nr_message r)),
                     (''code'', JStr (nr_code r))]"

definition escalate_national :: "channel \<Rightarrow> string \<Rightarrow> dict \<Rightarrow> json sent" where
  "escalate_national ch audit payload =
     (case snd (evaluate_gate (ch_loads ch) (ch_env ch)) of
        Some pending \<Rightarrow> ([], Inr (escalate_result audit payload pending))
      | None \<Rightarrow>
          (case outbound ch ''adapter.national.application.submit'' (escalate_request payload) of
             (reqs, Inl e) \<Rightarrow> (reqs, Inl e)
           | (reqs, Inr r) \<Rightarrow> (reqs, Inr (escalate_result audit payload (escalate_receipt r)))))"

section \<open>What the operators see\<close>

definition ready_item :: "(string \<times> bool) list \<Rightarrow> string \<times> string \<Rightarrow> json" where
  "ready_item presence kl =
     JObj [(''key'', JStr (fst kl)), (''label'', JStr (snd kl)), (''ready'', JBool (map_of presence (fst kl) = Some True))]"

definition config_labels :: "(string \<times> string) list" where
  "config_labels =
     [(''channel_enabled'', lbl_nc_c_enabled), (''platform_address'', lbl_nc_c_address),
      (''requester_identity'', lbl_nc_c_identity), (''access_account'', lbl_nc_c_account),
      (''access_secret'', lbl_nc_c_secret), (''interface_service_map'', lbl_nc_c_map)]"

definition external_labels :: "(string \<times> string) list" where
  "external_labels =
     [(''basic_elem_template'', lbl_nc_e_template), (''receipt_reconciliation'', lbl_nc_e_receipt),
      (''credential_lifecycle'', lbl_nc_e_lifecycle)]"

definition item_ready :: "json \<Rightarrow> bool" where
  "item_ready item = (case item of JObj d \<Rightarrow> truthy (dget d ''ready'') | _ \<Rightarrow> False)"

definition missing_items :: "json list \<Rightarrow> json list" where
  "missing_items = filter (\<lambda>item. \<not> item_ready item)"

definition checklist_entry :: "string \<Rightarrow> string \<Rightarrow> string \<Rightarrow> bool \<Rightarrow> json" where
  "checklist_entry key label detail blocked =
     JObj [(''key'', JStr key), (''label'', JStr label), (''detail'', JStr detail), (''blocked'', JBool blocked)]"

definition state_value :: "channel_state \<Rightarrow> string" where
  "state_value s = (case s of ChannelOff \<Rightarrow> ''off'' | ChannelUnprovisioned \<Rightarrow> ''unprovisioned''
                    | ChannelProvisioned \<Rightarrow> ''provisioned'')"

definition channel_notice :: "channel_state \<Rightarrow> bool \<Rightarrow> string" where
  "channel_notice s ready =
     (if ready then lbl_nc_ready
      else case s of ChannelOff \<Rightarrow> lbl_nc_switched_off | ChannelUnprovisioned \<Rightarrow> lbl_nc_unprovisioned
                   | ChannelProvisioned \<Rightarrow> lbl_nc_unconfirmed)"

definition operator_summary :: "channel_state \<Rightarrow> bool \<Rightarrow> string" where
  "operator_summary s ready =
     (if ready then lbl_nc_ready
      else if s = ChannelProvisioned then lbl_nc_sum_unconfirmed else lbl_nc_sum_unprovisioned)"

definition national_channel_webui_state :: "(string \<Rightarrow> json option) \<Rightarrow> environment \<Rightarrow> dict" where
  "national_channel_webui_state loads env =
     (let state = resolve_channel_state loads env;
          ready = is_sync_ready loads env;
          config_items = map (ready_item (config_presence loads env)) config_labels;
          external_items = map (ready_item (external_readiness env)) external_labels;
          missing_config = missing_items config_items;
          missing_external = missing_items external_items
      in [(''enabled'', JBool (state \<noteq> ChannelOff)), (''provisioned'', JBool (state = ChannelProvisioned)),
          (''syncReady'', JBool ready), (''status'', JStr (state_value state)),
          (''notice'', JStr (channel_notice state ready)), (''operatorSummary'', JStr (operator_summary state ready)),
          (''configItems'', JList config_items), (''externalReadinessItems'', JList external_items),
          (''missingConfigItems'', JList missing_config), (''missingExternalReadinessItems'', JList missing_external),
          (''opsRoute'', JStr ''#/integration-admin''), (''nationalQueueRoute'', JStr ''#/workbench''),
          (''opsChecklist'', JList
             [checklist_entry ''env_config'' lbl_nc_k_env lbl_nc_k_env_detail (missing_config \<noteq> []),
              checklist_entry ''external_material'' lbl_nc_k_mat lbl_nc_k_mat_detail (missing_external \<noteq> []),
              checklist_entry ''apply_effect'' lbl_nc_k_eff lbl_nc_k_eff_detail (\<not> ready)])])"

end
