(* ===== verification/ChannelSafe.thy ===== *)
theory ChannelSafe
  imports NationalChannel
begin

text \<open>
  What the channel to the national platform guarantees: nothing leaves the platform unless the channel is switched
  on, all its settings are there and the interface has its identifier; what leaves is one signed
  request; keys of a body are in lower case at any depth; and when a publication may be synchronised.
\<close>

section \<open>Keys of a body\<close>

text \<open>Every key at every depth is in lower case.\<close>

fun lowered :: "json \<Rightarrow> bool" where
  "lowered (JObj d) \<longleftrightarrow> list_all (\<lambda>(k, v). lower k = k \<and> lowered v) d"
| "lowered (JList xs) \<longleftrightarrow> list_all lowered xs"
| "lowered v \<longleftrightarrow> True"

lemma lower_char_idem [simp]: "lower_char (lower_char c) = lower_char c"
proof (cases "(65 :: nat) \<le> of_char c \<and> of_char c \<le> (90 :: nat)")
  case True
  then have "(of_char (lower_char c) :: nat) = of_char c + 32"
    by (simp add: lower_char_def of_char_of)
  then show ?thesis using True by (simp add: lower_char_def)
next
  case False
  then have "lower_char c = c" by (auto simp: lower_char_def)
  then show ?thesis by simp
qed

lemma lower_idem [simp]: "lower (lower s) = lower s"
  by (simp add: lower_def)

lemma dset_all: "list_all P d \<Longrightarrow> P (k, v) \<Longrightarrow> list_all P (dset d k v)"
  by (induction d k v rule: dset.induct) auto

lemma dmerge_all: "list_all P d \<Longrightarrow> list_all P e \<Longrightarrow> list_all P (dmerge d e)"
proof (induction e arbitrary: d)
  case (Cons kv e)
  then show ?case by (cases kv) (simp add: dmerge_def dset_all)
qed (simp add: dmerge_def)

lemma lower_keys_lowered: "lowered (lower_keys v)"
proof (induction v rule: lower_keys.induct)
  case (1 d)
  have "list_all (\<lambda>(k, v). lower k = k \<and> lowered v) (map (\<lambda>(k, v). (lower k, lower_keys v)) d)"
    using 1 by (auto simp: list_all_iff)
  then show ?case by (simp add: dmerge_all)
qed (simp_all add: list_all_iff)

text \<open>An object with distinct lower keys is its own merge.\<close>

lemma dmerge_distinct: "distinct (map fst (d @ e)) \<Longrightarrow> dmerge d e = d @ e"
proof (induction e arbitrary: d)
  case (Cons kv e)
  obtain k v where kv: "kv = (k, v)" by fastforce
  have "dmerge d (kv # e) = dmerge (dset d k v) e" by (simp add: dmerge_def kv)
  also have "dset d k v = d @ [(k, v)]" using Cons.prems by (intro dset_new) (auto simp: kv)
  also have "dmerge (d @ [(k, v)]) e = (d @ [(k, v)]) @ e" by (rule Cons.IH) (use Cons.prems in \<open>auto simp: kv\<close>)
  finally show ?case by (simp add: kv)
qed (simp add: dmerge_def)

lemma distinct_dmerge: "distinct (map fst d) \<Longrightarrow> distinct (map fst (dmerge d e))"
proof (induction e arbitrary: d)
  case (Cons kv e)
  then show ?case by (cases kv) (simp add: dmerge_def distinct_dset)
qed (simp add: dmerge_def)

text \<open>No object has a key twice, as in a Python dictionary.\<close>

fun keys_once :: "json \<Rightarrow> bool" where
  "keys_once (JObj d) \<longleftrightarrow> distinct (map fst d) \<and> list_all (\<lambda>(k, v). keys_once v) d"
| "keys_once (JList xs) \<longleftrightarrow> list_all keys_once xs"
| "keys_once v \<longleftrightarrow> True"

lemma lower_keys_once: "keys_once (lower_keys v)"
proof (induction v rule: lower_keys.induct)
  case (1 d)
  have "list_all (\<lambda>(k, v). keys_once v) (map (\<lambda>(k, v). (lower k, lower_keys v)) d)"
    using 1 by (auto simp: list_all_iff)
  then show ?case by (simp add: dmerge_all distinct_dmerge)
qed (simp_all add: list_all_iff)

lemma lower_keys_fixed: "lowered v \<and> keys_once v \<longrightarrow> lower_keys v = v"
proof (induction v rule: lower_keys.induct)
  case (1 d)
  show ?case
  proof
    assume d: "lowered (JObj d) \<and> keys_once (JObj d)"
    have "lower k = k \<and> lower_keys v = v" if "(k, v) \<in> set d" for k v
      using that d 1 [OF that refl] by (auto simp: list_all_iff)
    then have "map (\<lambda>(k, v). (lower k, lower_keys v)) d = d" by (intro map_idI) auto
    then show "lower_keys (JObj d) = JObj d" using d by (simp add: dmerge_distinct)
  qed
qed (auto simp: list_all_iff intro: map_idI)

section \<open>What leaves the platform\<close>

lemma load_provisioning_Some:
  "load_provisioning loads env = Some p \<Longrightarrow>
     pv_endpoint p \<noteq> [] \<and> pv_rid p = env_text env ''ZW_BRAIN_NATIONAL_RID'' \<and> pv_rid p \<noteq> [] \<and>
     pv_appsecret p = env_text env ''ZW_BRAIN_NATIONAL_APPSECRET'' \<and> pv_appsecret p \<noteq> [] \<and>
     pv_endpoint p = strip_slashes (env_text env ''ZW_BRAIN_NATIONAL_ENDPOINT'') \<and>
     env_text env ''ZW_BRAIN_NATIONAL_APPKEY'' \<noteq> [] \<and>
     pv_sids p = parse_sid_map loads (env ''ZW_BRAIN_NATIONAL_SID_MAP'')"
  by (auto simp: load_provisioning_def Let_def split: if_splits)

lemma gate_open: "snd (evaluate_gate loads env) = None \<longleftrightarrow> resolve_channel_state loads env = ChannelProvisioned"
  by (simp add: evaluate_gate_def Let_def)

lemma provisioned_state:
  "resolve_channel_state loads env = ChannelProvisioned \<longleftrightarrow> national_channel_enabled env \<and> load_provisioning loads env \<noteq> None"
  by (simp add: resolve_channel_state_def is_provisioned_def)

text \<open>The identifier of an interface is one of the texts of the settings.\<close>

lemma map_of_sid_pairs: "map_of (List.map_filter sid_pair d) k = Some s \<Longrightarrow> (k, JStr s) \<in> set d \<and> strip_blanks s \<noteq> []"
  by (drule map_of_SomeD) (auto simp: map_filter_def sid_pair_def split: json.splits if_splits)

lemma sid_configured:
  assumes "map_of (parse_sid_map loads raw) k = Some sid"
  obtains t d where "raw = Some t" "loads t = Some (JObj d)" "(k, JStr sid) \<in> set d" "strip_blanks sid \<noteq> []"
  using assms map_of_sid_pairs
  by (auto simp: parse_sid_map_def split: option.splits if_splits json.splits)

lemma outbound_request:
  assumes "outbound ch skill payload = (reqs, r)" and "reqs \<noteq> [] \<or> (\<exists>x. r = Inr x)"
  obtains p req where "load_provisioning (ch_loads ch) (ch_env ch) = Some p"
    "request_of ch p skill (interface_path skill) payload = Inr req" "reqs = [req]"
  using assms by (auto simp: outbound_def client_post_def split: option.splits sum.splits)

lemma escalate_sent:
  assumes "req \<in> set (fst (escalate_national ch audit payload))"
  obtains p where "resolve_channel_state (ch_loads ch) (ch_env ch) = ChannelProvisioned"
    "load_provisioning (ch_loads ch) (ch_env ch) = Some p" "fst (escalate_national ch audit payload) = [req]"
    "request_of ch p ''adapter.national.application.submit'' ''application/submit'' (escalate_request payload) = Inr req"
proof -
  have path: "interface_path ''adapter.national.application.submit'' = ''application/submit''" by code_simp
  obtain reqs r where out: "outbound ch ''adapter.national.application.submit'' (escalate_request payload) = (reqs, r)"
    by fastforce
  have gate: "snd (evaluate_gate (ch_loads ch) (ch_env ch)) = None" and sent: "fst (escalate_national ch audit payload) = reqs"
    using assms out by (auto simp: escalate_national_def split: option.splits sum.splits)
  then have "reqs \<noteq> [] \<or> (\<exists>x. r = Inr x)" using assms by auto
  from outbound_request [OF out this] obtain p req' where
    "load_provisioning (ch_loads ch) (ch_env ch) = Some p"
    "request_of ch p ''adapter.national.application.submit'' ''application/submit'' (escalate_request payload) = Inr req'"
    "reqs = [req']" by (metis path)
  then show thesis using that assms sent gate by (simp add: gate_open)
qed

text \<open>What is sent for a value of the payload: a text as it is, anything else with its keys in lower case.\<close>

definition sent_value :: "json \<Rightarrow> json \<Rightarrow> bool" where
  "sent_value v w \<longleftrightarrow> (case v of JStr t \<Rightarrow> w = JStr t | _ \<Rightarrow> w = lower_keys v \<and> lowered w)"

lemma sent_lower_keys: "sent_value v (lower_keys v)"
  by (cases v) (simp_all add: sent_value_def lower_keys_lowered del: lower_keys.simps(1,2) lowered.simps(1,2))

lemma lower_names: "lower ''application_code'' = ''application_code''" "lower ''action'' = ''action''" "lower ''reason'' = ''reason''"
  by code_simp+

lemma escalate_body:
  "build_body (escalate_request payload) =
     JObj [(''application_code'', JStr (py_str (dget_or payload ''application_code'' (JStr [])))),
           (''action'', lower_keys (dget_or payload ''action'' (JStr ''escalate''))),
           (''reason'', lower_keys (dget_or payload ''reason'' (JStr [])))]"
  by (simp add: build_body_def escalate_request_def lower_names dmerge_def)

text \<open>C29: an escalation sends nothing to the national platform unless the channel is switched on, address, identity,
  account and secret are set and the settings name an identifier for the interface; then it sends one request, to the
  interface's address, that carries the identifier and the signature of exactly identifier, identity and time under
  the configured secret, and whose body is the code of the application, the action and the reason of the call, no more,
  with all keys in lower case.\<close>

theorem escalation_sends_one_signed_request:
  assumes "req \<in> set (fst (escalate_national ch audit payload))"
  shows "fst (escalate_national ch audit payload) = [req] \<and> env_text (ch_env ch) ''ZW_BRAIN_NATIONAL_CHANNEL_ENABLED'' = ''1'' \<and>
    (\<exists>endpoint rid secret sid t d.
       endpoint = strip_slashes (env_text (ch_env ch) ''ZW_BRAIN_NATIONAL_ENDPOINT'') \<and> endpoint \<noteq> [] \<and>
       rid = env_text (ch_env ch) ''ZW_BRAIN_NATIONAL_RID'' \<and> rid \<noteq> [] \<and>
       secret = env_text (ch_env ch) ''ZW_BRAIN_NATIONAL_APPSECRET'' \<and> secret \<noteq> [] \<and>
       env_text (ch_env ch) ''ZW_BRAIN_NATIONAL_APPKEY'' \<noteq> [] \<and>
       ch_env ch ''ZW_BRAIN_NATIONAL_SID_MAP'' = Some t \<and> ch_loads ch t = Some (JObj d) \<and>
       (''adapter.national.application.submit'', JStr sid) \<in> set d \<and> sid \<noteq> [] \<and>
       hq_url req = endpoint @ ''/sysapi/application/submit'' \<and>
       map_of (hq_headers req) ''gjzwfwpt_rid'' = Some rid \<and> map_of (hq_headers req) ''gjzwfwpt_sid'' = Some sid \<and>
       map_of (hq_headers req) ''gjzwfwpt_sign'' = Some (b64encode (ch_hmac ch secret (sid @ rid @ int_str (ch_clock ch)))) \<and>
       map_of (hq_headers req) ''gjzwfwpt_rtime'' = Some (int_str (ch_clock ch))) \<and>
    (\<exists>action reason. hq_body req = ch_dumps ch (JObj
         [(''application_code'', JStr (py_str (dget_or payload ''application_code'' (JStr [])))),
          (''action'', action), (''reason'', reason)]) \<and>
       sent_value (dget_or payload ''action'' (JStr ''escalate'')) action \<and>
       sent_value (dget_or payload ''reason'' (JStr [])) reason)"
proof -
  from escalate_sent [OF assms] obtain p where p: "resolve_channel_state (ch_loads ch) (ch_env ch) = ChannelProvisioned"
    "load_provisioning (ch_loads ch) (ch_env ch) = Some p" "fst (escalate_national ch audit payload) = [req]"
    "request_of ch p ''adapter.national.application.submit'' ''application/submit'' (escalate_request payload) = Inr req" .
  obtain headers where headers:
    "build_headers (ch_hmac ch) p ''adapter.national.application.submit'' (int_str (ch_clock ch)) = Inr headers"
    using p(4) by (auto simp: request_of_def result_simps)
  then obtain sid where sid: "map_of (pv_sids p) ''adapter.national.application.submit'' = Some sid" "sid \<noteq> []"
    "headers = [(''gjzwfwpt_rid'', pv_rid p), (''gjzwfwpt_sid'', sid), (''gjzwfwpt_rtime'', int_str (ch_clock ch)),
       (''gjzwfwpt_sign'', sign_request (ch_hmac ch) sid (pv_rid p) (int_str (ch_clock ch)) (pv_appsecret p))]"
    by (auto simp: build_headers_def sid_for_def split: option.splits if_splits)
  note load = load_provisioning_Some [OF p(2)]
  obtain t d where d: "ch_env ch ''ZW_BRAIN_NATIONAL_SID_MAP'' = Some t" "ch_loads ch t = Some (JObj d)"
    "(''adapter.national.application.submit'', JStr sid) \<in> set d"
    using sid_configured sid(1) load by metis
  have req: "hq_url req = pv_endpoint p @ ''/sysapi/application/submit''" "hq_body req = ch_dumps ch (build_body (escalate_request payload))"
    "hq_headers req = headers @ [(''Content-Type'', ''application/json;charset=utf-8''), (''Accept'', ''application/json'')]"
    using p(4) headers by (auto simp: request_of_def result_simps)
  have "hq_body req = ch_dumps ch (JObj
       [(''application_code'', JStr (py_str (dget_or payload ''application_code'' (JStr [])))),
        (''action'', lower_keys (dget_or payload ''action'' (JStr ''escalate''))),
        (''reason'', lower_keys (dget_or payload ''reason'' (JStr [])))])"
    using req(2) by (simp add: escalate_body)
  moreover have "env_text (ch_env ch) ''ZW_BRAIN_NATIONAL_CHANNEL_ENABLED'' = ''1''"
    using p(1) by (simp add: provisioned_state national_channel_enabled_def)
  ultimately show ?thesis using p(3) load d sid(2,3) req(1,3) sent_lower_keys by (auto simp: sign_request_def)
qed

text \<open>A channel with all its settings and a platform that accepts everything.\<close>

definition sample_settings :: environment where
  "sample_settings = map_of
     [(''ZW_BRAIN_NATIONAL_CHANNEL_ENABLED'', '' 1''), (''ZW_BRAIN_NATIONAL_ENDPOINT'', ''https://np/''),
      (''ZW_BRAIN_NATIONAL_RID'', ''37''), (''ZW_BRAIN_NATIONAL_APPKEY'', ''k''), (''ZW_BRAIN_NATIONAL_APPSECRET'', ''s''),
      (''ZW_BRAIN_NATIONAL_SID_MAP'', ''map'')]"

definition sample_loads :: "string \<Rightarrow> json option" where
  "sample_loads = map_of
     [(''map'', JObj [(''adapter.national.application.submit'', JStr ''s-1'')]), (''ok'', JObj [(''code'', JInt 200)])]"

definition sample_channel :: channel where
  "sample_channel = \<lparr>ch_env = sample_settings, ch_loads = sample_loads, ch_dumps = py_repr, ch_hmac = (\<lambda>k t. t @ k),
     ch_clock = 7, ch_transport = (\<lambda>_. Inr (200, ''ok''))\<rparr>"

definition sample_request :: http_request where
  "sample_request = hd (fst (escalate_national sample_channel ''a1'' [(''application_code'', JStr ''c1'')]))"

lemma sample_sent: "sample_request \<in> set (fst (escalate_national sample_channel ''a1'' [(''application_code'', JStr ''c1'')]))"
  by code_simp

theorem escalation_sends_one_signed_request_witness:
  "fst (escalate_national sample_channel ''a1'' [(''application_code'', JStr ''c1'')]) = [sample_request]"
  using escalation_sends_one_signed_request [OF sample_sent] by blast

text \<open>The answer an escalation gives about the channel.\<close>

definition channel_answer :: "json \<Rightarrow> string \<Rightarrow> json" where
  "channel_answer result k =
     (case result of JObj d \<Rightarrow> (case dget d ''national_channel'' of JObj c \<Rightarrow> dget c k | _ \<Rightarrow> JNull) | _ \<Rightarrow> JNull)"

lemma channel_answer_result [simp]: "channel_answer (escalate_result audit payload (JObj c)) k = dget c k"
  by (simp add: channel_answer_def escalate_result_def Let_def dget_def)

lemma escalate_answered:
  assumes "escalate_national ch audit payload = (reqs, Inr result)"
  shows "(reqs = [] \<and> channel_answer result ''status'' = JStr ''pending'') \<or>
    (\<exists>req status bytes. reqs = [req] \<and> ch_transport ch req = Inr (status, bytes) \<and>
       result = escalate_result audit payload (escalate_receipt (read_response (ch_loads ch) status bytes)))"
  using assms
  by (auto simp: escalate_national_def evaluate_gate_def Let_def outbound_def client_post_def dget_def
      split: option.splits sum.splits if_splits prod.splits)

lemma accepted_code: "response_ok (read_response loads status bytes) \<longleftrightarrow>
  (\<exists>d. loads bytes = Some (JObj d) \<and> strip_blanks (py_str (dget_or d ''code'' (JStr ''300''))) = ''200'')"
  by (auto simp: response_ok_def read_response_def parse_response_def failure_response_def Let_def
      split: json.splits option.splits)

text \<open>No receipt is made up: an escalation answers that the application was submitted only when it sent a request and
  the response to that request was a JSON object with the code 200. Without a request the answer is pending, and
  the answer about the application is the requested stage in any case.\<close>

lemma submitted_only_on_receipt:
  assumes "escalate_national ch audit payload = (reqs, Inr result)"
  shows "(channel_answer result ''status'' = JStr ''submitted'' \<longleftrightarrow>
       (\<exists>req status bytes d. reqs = [req] \<and> ch_transport ch req = Inr (status, bytes) \<and> ch_loads ch bytes = Some (JObj d) \<and>
          strip_blanks (py_str (dget_or d ''code'' (JStr ''300''))) = ''200'')) \<and>
     (channel_answer result ''status'' = JStr ''pending'' \<longleftrightarrow> reqs = []) \<and>
     (\<exists>outcome. result = escalate_result audit payload outcome)"
proof -
  have receipt: "channel_answer (escalate_result audit payload (escalate_receipt r)) ''status'' =
      JStr (if response_ok r then ''submitted'' else ''rejected'')" for r
    by (simp add: escalate_receipt_def dget_def)
  have shape: "\<exists>outcome. result = escalate_result audit payload outcome"
    using assms by (auto simp: escalate_national_def split: option.splits sum.splits prod.splits)
  from escalate_answered [OF assms] show ?thesis
  proof (elim disjE exE conjE)
    fix req status bytes
    assume sent: "reqs = [req]" "ch_transport ch req = Inr (status, bytes)"
      "result = escalate_result audit payload (escalate_receipt (read_response (ch_loads ch) status bytes))"
    show ?thesis unfolding sent(3) receipt using sent(1,2) by (auto simp: accepted_code)
  qed (use shape in simp)
qed

section \<open>When publication may be synchronised\<close>

lemma strip_slashes_empty: "strip_slashes s = [] \<longleftrightarrow> set s \<subseteq> {CHR ''/''}"
  by (auto simp: strip_slashes_def dropWhile_eq_Nil_conv)

lemma provisioned_iff:
  "is_provisioned loads env \<longleftrightarrow>
     list_all snd (filter (\<lambda>(k, _). k \<noteq> ''channel_enabled'') (config_presence loads env)) \<and>
     strip_slashes (env_text env ''ZW_BRAIN_NATIONAL_ENDPOINT'') \<noteq> []"
  by (auto simp: is_provisioned_def load_provisioning_def Let_def config_presence_def strip_slashes_empty)

lemma missing_items_empty:
  "missing_items (map (ready_item presence) labels) = [] \<longleftrightarrow> list_all (\<lambda>(k, _). map_of presence k = Some True) labels"
  by (auto simp: missing_items_def ready_item_def item_ready_def dget_def filter_empty_conv list_all_iff)

lemma config_complete:
  "missing_items (map (ready_item (config_presence loads env)) config_labels) = [] \<longleftrightarrow> list_all snd (config_presence loads env)"
  unfolding missing_items_empty by (simp add: config_labels_def config_presence_def)

lemma external_complete:
  "missing_items (map (ready_item (external_readiness env)) external_labels) = [] \<longleftrightarrow> list_all snd (external_readiness env)"
  unfolding missing_items_empty by (simp add: external_labels_def external_readiness_def)

text \<open>publication may be synchronised when every item the operators see is ready and the address is more than
  slashes; but whether the channel is switched on makes no difference: with the switch off the operators see the
  channel disabled, one of its settings missing, and all the same ready for publication as before.\<close>

lemma sync_ready_ignores_the_switch:
  "(is_sync_ready loads env \<longleftrightarrow>
      list_all snd (filter (\<lambda>(k, _). k \<noteq> ''channel_enabled'') (config_presence loads env)) \<and> list_all snd (external_readiness env) \<and>
      strip_slashes (env_text env ''ZW_BRAIN_NATIONAL_ENDPOINT'') \<noteq> []) \<and>
   is_sync_ready loads (env(''ZW_BRAIN_NATIONAL_CHANNEL_ENABLED'' := x)) = is_sync_ready loads env \<and>
   (let off = national_channel_webui_state loads (env(''ZW_BRAIN_NATIONAL_CHANNEL_ENABLED'' := None))
    in dget off ''enabled'' = JBool False \<and> dget off ''missingConfigItems'' \<noteq> JList [] \<and>
       dget off ''syncReady'' = JBool (is_sync_ready loads env))"
proof -
  have ready: "is_sync_ready loads e \<longleftrightarrow>
      list_all snd (filter (\<lambda>(k, _). k \<noteq> ''channel_enabled'') (config_presence loads e)) \<and> list_all snd (external_readiness e) \<and>
      strip_slashes (env_text e ''ZW_BRAIN_NATIONAL_ENDPOINT'') \<noteq> []" for e
    by (auto simp: is_sync_ready_def provisioned_iff)
  have same: "is_sync_ready loads (env(''ZW_BRAIN_NATIONAL_CHANNEL_ENABLED'' := y)) = is_sync_ready loads env" for y
    by (simp add: ready config_presence_def external_readiness_def truthy_env_def env_text_def)
  have off: "\<not> national_channel_enabled (env(''ZW_BRAIN_NATIONAL_CHANNEL_ENABLED'' := None))"
    by (simp add: national_channel_enabled_def env_text_def strip_blanks_def)
  then have "missing_items (map (ready_item (config_presence loads (env(''ZW_BRAIN_NATIONAL_CHANNEL_ENABLED'' := None)))) config_labels) \<noteq> []"
    unfolding config_complete by (simp add: config_presence_def)
  then show ?thesis
    using ready [of env] same off by (simp add: national_channel_webui_state_def Let_def resolve_channel_state_def dget_def)
qed

end
