(* ===== verification/AdapterRepo.thy ===== *)
theory AdapterRepo
  imports CatalogRepo
begin

text \<open>
  Exchanges with other platforms: the runs of adapters and the objects they are mapped to
  (\<^verbatim>\<open>domain/repositories/external_adapter.py\<close>), the routing of a capability to an adapter
  (\<^verbatim>\<open>command/adapter_routing.py\<close>), the handler the seventeen adapter capabilities share
  (\<^verbatim>\<open>command/handlers/infra/adapter_passthrough.py\<close>) and the two queries. No caller passes the times of a
  run, which are then those of the clock.
\<close>

section \<open>Tables\<close>

record adapter_run =
  ar_id :: string
  ar_tenant :: string
  ar_slug :: string
  ar_operation :: string
  ar_direction :: string
  ar_source :: "string option"
  ar_key :: string
  ar_status :: string
  ar_target :: int
  ar_success :: int
  ar_failure :: int
  ar_receipt :: json
  ar_error :: "string option"
  ar_started :: nat
  ar_finished :: nat
  ar_updated :: nat

record object_mapping =
  om_id :: string
  om_tenant :: string
  om_system :: string
  om_direction :: string
  om_local_type :: string
  om_local_id :: string
  om_legacy_table :: "string option"
  om_legacy_id :: "string option"
  om_object_type :: string
  om_object_id :: string
  om_protocol :: "string option"
  om_batch :: "string option"
  om_status :: string
  om_receipt :: json
  om_extra :: json
  om_updated :: nat

record adapter_db =
  ad_runs :: "adapter_run list"
  ad_maps :: "object_mapping list"
  ad_next :: nat

definition empty_adapter_db :: adapter_db where
  "empty_adapter_db = \<lparr>ad_runs = [], ad_maps = [], ad_next = 0\<rparr>"

definition run_key :: "adapter_run \<Rightarrow> string \<times> string \<times> string \<times> string" where
  "run_key r = (ar_tenant r, ar_slug r, ar_operation r, ar_key r)"

definition map_key :: "object_mapping \<Rightarrow> string \<times> string \<times> string \<times> string \<times> string \<times> string \<times> string" where
  "map_key m = (om_tenant m, om_system m, om_direction m, om_local_type m, om_local_id m, om_object_type m, om_object_id m)"

text \<open>Numbers are stored in 32 bits; the driver refuses others.\<close>

definition column_int :: "int \<Rightarrow> exn + int" where
  "column_int i = (if - (2 ^ 31) \<le> i \<and> i < 2 ^ 31 then Inr i else Inl statement_error)"

section \<open>Runs\<close>

record run_fields =
  rf_status :: string
  rf_target :: int
  rf_success :: int
  rf_failure :: int
  rf_slug :: string
  rf_operation :: string
  rf_direction :: string
  rf_source :: json
  rf_key :: string
  rf_receipt :: json
  rf_error :: json

definition failure_default :: "string \<Rightarrow> json" where
  "failure_default status = JInt (if status \<in> {''succeeded'', ''replayed''} then 0 else 1)"

definition run_payload :: "dict \<Rightarrow> exn + run_fields" where
  "run_payload payload =
     (let status = py_str (dget_or payload ''status'' (JStr ''succeeded''))
      in bindE (int_cast (dget_or payload ''target_count'' (JInt 1))) (\<lambda>target.
         bindE (int_cast (dget_or payload ''failure_count'' (failure_default status))) (\<lambda>failure.
         bindE (case dget payload ''success_count'' of JNull \<Rightarrow> Inr (max (target - failure) 0) | v \<Rightarrow> int_cast v) (\<lambda>success.
         bindE (raiseE py_exn (dict_item payload ''adapter_slug'')) (\<lambda>slug.
         bindE (raiseE py_exn (dict_item payload ''operation'')) (\<lambda>operation.
         bindE (raiseE py_exn (dict_item payload ''idempotency_key'')) (\<lambda>key.
           Inr \<lparr>rf_status = status, rf_target = target, rf_success = success, rf_failure = failure,
                rf_slug = py_str slug, rf_operation = py_str operation,
                rf_direction = py_str (dget_or payload ''direction'' (JStr ''outbound'')),
                rf_source = dget payload ''source_ref'', rf_key = py_str key,
                rf_receipt = safe_json (py_or (dget payload ''receipt_json'') (JObj [])),
                rf_error = dget payload ''error_summary''\<rparr>)))))))"

definition fields_key :: "string \<Rightarrow> run_fields \<Rightarrow> string \<times> string \<times> string \<times> string" where
  "fields_key tenant f = (tenant, rf_slug f, rf_operation f, rf_key f)"

text \<open>The row a flush writes: a new one, or the old one with its key, identifier and start.\<close>

definition run_of :: "nat \<Rightarrow> string \<Rightarrow> string \<Rightarrow> run_fields \<Rightarrow> adapter_run option \<Rightarrow> exn + adapter_run" where
  "run_of now fresh tenant f found =
     bindE (column_text (rf_source f)) (\<lambda>source.
     bindE (column_text (rf_error f)) (\<lambda>error.
     bindE (column_int (rf_target f)) (\<lambda>target.
     bindE (column_int (rf_success f)) (\<lambda>success.
     bindE (column_int (rf_failure f)) (\<lambda>failure.
       Inr \<lparr>ar_id = (case found of None \<Rightarrow> fresh | Some r \<Rightarrow> ar_id r), ar_tenant = tenant, ar_slug = rf_slug f,
            ar_operation = rf_operation f, ar_direction = rf_direction f, ar_source = source, ar_key = rf_key f,
            ar_status = rf_status f, ar_target = target, ar_success = success, ar_failure = failure,
            ar_receipt = rf_receipt f, ar_error = error,
            ar_started = (case found of None \<Rightarrow> now | Some r \<Rightarrow> ar_started r), ar_finished = now, ar_updated = now\<rparr>)))))"

definition upsert_run_record ::
    "(nat \<Rightarrow> string) \<Rightarrow> nat \<Rightarrow> string \<Rightarrow> dict \<Rightarrow> adapter_db \<Rightarrow> exn + adapter_run \<times> adapter_db" where
  "upsert_run_record uuid now tenant payload db =
     bindE (run_payload payload) (\<lambda>f.
     bindE (raiseE case_exn (one_or_none (filter (\<lambda>r. run_key r = fields_key tenant f) (ad_runs db)))) (\<lambda>found.
     bindE (run_of now (uuid (ad_next db)) tenant f found) (\<lambda>r.
       Inr (r, db\<lparr>ad_runs := save_row run_key found r (ad_runs db),
                 ad_next := (case found of None \<Rightarrow> Suc (ad_next db) | Some _ \<Rightarrow> ad_next db)\<rparr>))))"

definition list_run_records ::
    "adapter_db \<Rightarrow> string \<Rightarrow> string option \<Rightarrow> string option \<Rightarrow> string option \<Rightarrow> adapter_run list" where
  "list_run_records db tenant slug operation status =
     sort_key ar_started (filter (\<lambda>r. ar_tenant r = tenant \<and> asked slug (\<lambda>s. ar_slug r = s) \<and>
       asked operation (\<lambda>s. ar_operation r = s) \<and> asked status (\<lambda>s. ar_status r = s)) (ad_runs db))"

section \<open>Mapped objects\<close>

record map_fields =
  mf_system :: string
  mf_direction :: string
  mf_local_type :: string
  mf_local_id :: string
  mf_legacy_table :: json
  mf_legacy_id :: json
  mf_object_type :: string
  mf_object_id :: string
  mf_protocol :: json
  mf_batch :: json
  mf_status :: string
  mf_receipt :: json
  mf_extra :: json

definition mapping_payload :: "dict \<Rightarrow> map_fields" where
  "mapping_payload payload =
     \<lparr>mf_system = py_str (dget_or payload ''external_system'' (JStr ''national_platform'')),
      mf_direction = py_str (dget_or payload ''direction'' (JStr ''outbound'')),
      mf_local_type = py_str (dget_or payload ''local_aggregate_type'' (dget_or payload ''aggregate_type'' (JStr ''unresolved''))),
      mf_local_id = py_str (py_or (dget_or payload ''local_aggregate_id'' (dget_or payload ''aggregate_id'' (JStr []))) (JStr [])),
      mf_legacy_table = dget payload ''legacy_table'', mf_legacy_id = dget payload ''legacy_id'',
      mf_object_type = py_str (dget_or payload ''external_object_type'' (dget_or payload ''object_type'' (JStr ''unknown''))),
      mf_object_id = py_str (dget_or payload ''external_object_id''
        (dget_or payload ''object_id'' (dget_or payload ''idempotency_key'' (JStr ''pending'')))),
      mf_protocol = dget payload ''protocol_version'', mf_batch = dget payload ''batch_no'',
      mf_status = py_str (dget_or payload ''status'' (JStr ''pending'')),
      mf_receipt = safe_json (py_or (dget payload ''last_receipt_json'') (py_or (dget payload ''receipt_json'') (JObj []))),
      mf_extra = safe_json (py_or (dget payload ''extra_json'') (JObj []))\<rparr>"

definition mapping_key :: "string \<Rightarrow> map_fields \<Rightarrow> string \<times> string \<times> string \<times> string \<times> string \<times> string \<times> string" where
  "mapping_key tenant f =
     (tenant, mf_system f, mf_direction f, mf_local_type f, mf_local_id f, mf_object_type f, mf_object_id f)"

definition object_mapping_of :: "nat \<Rightarrow> string \<Rightarrow> string \<Rightarrow> map_fields \<Rightarrow> object_mapping option \<Rightarrow> exn + object_mapping" where
  "object_mapping_of now fresh tenant f found =
     bindE (column_text (mf_legacy_table f)) (\<lambda>legacy_table.
     bindE (column_text (mf_legacy_id f)) (\<lambda>legacy_id.
     bindE (column_text (mf_protocol f)) (\<lambda>protocol.
     bindE (column_text (mf_batch f)) (\<lambda>batch.
       Inr \<lparr>om_id = (case found of None \<Rightarrow> fresh | Some m \<Rightarrow> om_id m), om_tenant = tenant, om_system = mf_system f,
            om_direction = mf_direction f, om_local_type = mf_local_type f, om_local_id = mf_local_id f,
            om_legacy_table = legacy_table, om_legacy_id = legacy_id, om_object_type = mf_object_type f,
            om_object_id = mf_object_id f, om_protocol = protocol, om_batch = batch, om_status = mf_status f,
            om_receipt = mf_receipt f, om_extra = mf_extra f, om_updated = now\<rparr>))))"

definition upsert_object_mapping ::
    "(nat \<Rightarrow> string) \<Rightarrow> nat \<Rightarrow> string \<Rightarrow> dict \<Rightarrow> adapter_db \<Rightarrow> exn + object_mapping \<times> adapter_db" where
  "upsert_object_mapping uuid now tenant payload db =
     (let f = mapping_payload payload
      in bindE (raiseE case_exn (one_or_none (filter (\<lambda>m. map_key m = mapping_key tenant f) (ad_maps db)))) (\<lambda>found.
         bindE (object_mapping_of now (uuid (ad_next db)) tenant f found) (\<lambda>m.
           Inr (m, db\<lparr>ad_maps := save_row map_key found m (ad_maps db),
                     ad_next := (case found of None \<Rightarrow> Suc (ad_next db) | Some _ \<Rightarrow> ad_next db)\<rparr>))))"

definition list_object_mappings ::
    "adapter_db \<Rightarrow> string \<Rightarrow> string option \<Rightarrow> string option \<Rightarrow> string option \<Rightarrow> string option \<Rightarrow> object_mapping list" where
  "list_object_mappings db tenant system local_type local_id status =
     sort_key om_updated (filter (\<lambda>m. om_tenant m = tenant \<and> asked system (\<lambda>s. om_system m = s) \<and>
       asked local_type (\<lambda>s. om_local_type m = s) \<and> asked local_id (\<lambda>s. om_local_id m = s) \<and>
       asked status (\<lambda>s. om_status m = s)) (ad_maps db))"

section \<open>Routing\<close>

text \<open>\<^verbatim>\<open>skill_id.rsplit(".", 1)\<close>: what is before the last dot, and what comes after it.\<close>

definition before_last_dot :: "string \<Rightarrow> string" where
  "before_last_dot s = (if CHR ''.'' \<in> set s then butlast (rev (dropWhile (\<lambda>c. c \<noteq> CHR ''.'') (rev s))) else s)"

definition after_last_dot :: "string \<Rightarrow> exn + string" where
  "after_last_dot s = (if CHR ''.'' \<in> set s then Inr (last (split_on CHR ''.'' s)) else Inl (mk_exn ''IndexError'' []))"

definition adapter_operation :: "string \<Rightarrow> dict \<Rightarrow> exn + string \<times> string \<times> string" where
  "adapter_operation skill payload =
     (let direction = (\<lambda>d. py_str (dget_or payload ''direction'' (JStr d)))
      in if truthy (dget payload ''adapter_slug'') \<or> truthy (dget payload ''operation'') then
           bindE (after_last_dot skill) (\<lambda>tail.
             Inr (py_str (dget_or payload ''adapter_slug'' (JStr (before_last_dot skill))),
                  py_str (dget_or payload ''operation'' (JStr tail)), direction ''inbound''))
         else if starts_with ''adapter.cascade'' skill then
           Inr (''cascade'', if ends_with ''replay'' skill then ''replay'' else ''consume'', direction ''inbound'')
         else if starts_with ''standard.asset'' skill then
           bindE (after_last_dot skill) (\<lambda>tail. Inr (''standard_asset'', tail, direction ''inbound''))
         else if starts_with ''security.scan'' skill then Inr (''security_scan'', ''result_sync'', direction ''inbound'')
         else if starts_with ''risk.event'' skill then Inr (''risk_event'', ''ingest'', direction ''inbound'')
         else if starts_with ''compliance.signal'' skill then Inr (''compliance_signal'', ''ingest'', direction ''inbound'')
         else let operation = last (split_on CHR ''.'' skill)
           in Inr (''national'', operation,
                   if operation \<in> {''pull'', ''receive''} then ''inbound''
                   else if operation \<in> {''reconcile'', ''sync''} then direction ''inbound''
                   else direction ''outbound''))"

definition aggregate_type :: "string \<Rightarrow> string" where
  "aggregate_type skill =
     (case find (\<lambda>v. contains (''.'' @ v @ ''.'') skill)
             [''catalog'', ''resource'', ''application'', ''delivery'', ''objection'', ''topic''] of
        None \<Rightarrow> ''external''
      | Some v \<Rightarrow> if v = ''topic'' then ''topic_package'' else v)"

definition adapter_idempotency_key :: "string \<Rightarrow> dict \<Rightarrow> string" where
  "adapter_idempotency_key skill payload =
     join_sep '':''
       [skill,
        py_str (py_or (dget payload ''local_aggregate_type'') (JStr (aggregate_type skill))),
        py_str (py_or (dget payload ''local_aggregate_id'') (py_or (dget payload ''external_object_id'')
          (py_or (dget payload ''source_ref'') (JStr ''pending'')))),
        py_str (py_or (dget payload ''external_system'') (JStr ''national_platform''))]"

section \<open>Answers\<close>

definition adapter_run_to_dict :: "adapter_run \<Rightarrow> dict" where
  "adapter_run_to_dict r =
     [(''id'', JStr (ar_id r)), (''adapter_slug'', JStr (ar_slug r)), (''operation'', JStr (ar_operation r)),
      (''direction'', JStr (ar_direction r)), (''source_ref'', text_json (ar_source r)),
      (''idempotency_key'', JStr (ar_key r)), (''status'', JStr (ar_status r)), (''target_count'', JInt (ar_target r)),
      (''success_count'', JInt (ar_success r)), (''failure_count'', JInt (ar_failure r)),
      (''receipt_json'', ar_receipt r), (''error_summary'', text_json (ar_error r))]"

definition external_mapping_to_dict :: "object_mapping \<Rightarrow> dict" where
  "external_mapping_to_dict m =
     [(''id'', JStr (om_id m)), (''external_system'', JStr (om_system m)), (''direction'', JStr (om_direction m)),
      (''local_aggregate_type'', JStr (om_local_type m)), (''local_aggregate_id'', JStr (om_local_id m)),
      (''external_object_type'', JStr (om_object_type m)), (''external_object_id'', JStr (om_object_id m)),
      (''protocol_version'', text_json (om_protocol m)), (''batch_no'', text_json (om_batch m)),
      (''status'', JStr (om_status m)), (''last_receipt_json'', om_receipt m)]"

section \<open>The handler\<close>

record adapter_sys =
  ax_db :: adapter_db
  ax_feed :: "(string \<times> string \<times> string \<times> string) list"

record adapter_call =
  ac_uuid :: "nat \<Rightarrow> string"
  ac_now :: nat
  ac_audit :: string
  ac_actor :: string

definition storeA :: "(adapter_db \<Rightarrow> exn + 'a \<times> adapter_db) \<Rightarrow> ('a, adapter_sys) act" where
  "storeA f s = (case f (ax_db s) of Inl e \<Rightarrow> (Inl e, s) | Inr (x, db) \<Rightarrow> (Inr x, s\<lparr>ax_db := db\<rparr>))"

definition run_request :: "adapter_call \<Rightarrow> string \<Rightarrow> dict \<Rightarrow> string \<times> string \<times> string \<Rightarrow> string \<Rightarrow> dict" where
  "run_request c skill payload route key =
     (case route of (slug, operation, direction) \<Rightarrow>
       [(''adapter_slug'', JStr slug), (''operation'', JStr operation), (''direction'', JStr direction),
        (''source_ref'', py_or (dget payload ''source_ref'')
           (py_or (dget payload ''external_object_id'') (dget payload ''local_aggregate_id''))),
        (''idempotency_key'', JStr key), (''status'', dget_or payload ''status'' (JStr ''succeeded'')),
        (''target_count'', dget_or payload ''target_count'' (JInt 1)), (''success_count'', dget payload ''success_count''),
        (''failure_count'', dget_or payload ''failure_count'' (JInt 0)),
        (''receipt_json'', py_or (dget payload ''receipt_json'') (py_or (dget payload ''last_receipt_json'')
           (JObj [(''skill_id'', JStr skill), (''actor'', JStr (ac_actor c))]))),
        (''error_summary'', dget payload ''error_summary'')])"

definition names_object :: "dict \<Rightarrow> bool" where
  "names_object payload \<longleftrightarrow> truthy (dget payload ''external_object_id'') \<or> truthy (dget payload ''local_aggregate_id'') \<or>
     truthy (dget payload ''legacy_id'')"

definition mapping_request :: "string \<Rightarrow> dict \<Rightarrow> string \<Rightarrow> string \<Rightarrow> dict" where
  "mapping_request skill payload direction key =
     [(''external_system'', py_or (dget payload ''external_system'')
         (JStr (if starts_with ''adapter.cascade'' skill then ''cascade_down'' else ''national_platform''))),
      (''direction'', JStr direction),
      (''local_aggregate_type'', py_or (dget payload ''local_aggregate_type'') (JStr (aggregate_type skill))),
      (''local_aggregate_id'', py_or (dget payload ''local_aggregate_id'') (JStr [])),
      (''legacy_table'', dget payload ''legacy_table''), (''legacy_id'', dget payload ''legacy_id''),
      (''external_object_type'', py_or (dget payload ''external_object_type'') (JStr (aggregate_type skill))),
      (''external_object_id'', py_or (dget payload ''external_object_id'') (py_or (dget payload ''legacy_id'') (JStr key))),
      (''protocol_version'', dget_or payload ''protocol_version'' (JStr ''v0.55'')), (''batch_no'', dget payload ''batch_no''),
      (''status'', dget_or payload ''mapping_status'' (JStr ''mapped'')),
      (''last_receipt_json'', py_or (dget payload ''receipt_json'') (JObj [])),
      (''extra_json'', py_or (dget payload ''extra_json'') (JObj []))]"

definition request_key :: "string \<Rightarrow> dict \<Rightarrow> string" where
  "request_key skill payload =
     py_str (py_or (dget payload ''idempotency_key'') (JStr (adapter_idempotency_key skill payload)))"

definition record_adapter_operation :: "adapter_call \<Rightarrow> string \<Rightarrow> dict \<Rightarrow> (json, adapter_sys) act" where
  "record_adapter_operation c skill payload =
     bindA (liftE id (adapter_operation skill payload)) (\<lambda>route.
     let key = request_key skill payload in
     bindA (storeA (upsert_run_record (ac_uuid c) (ac_now c) ''sd-default'' (run_request c skill payload route key))) (\<lambda>run.
     bindA (if names_object payload
            then bindA (storeA (upsert_object_mapping (ac_uuid c) (ac_now c) ''sd-default''
                          (mapping_request skill payload (snd (snd route)) key))) (\<lambda>m. retA (Some m))
            else retA None) (\<lambda>mapping.
     bindA (modifyA (\<lambda>s. s\<lparr>ax_feed := ax_feed s @ [(skill, key, ''ok'', ac_actor c)]\<rparr>)) (\<lambda>_.
       retA (JObj [(''run'', JObj (adapter_run_to_dict run)),
                   (''mapping'', case mapping of None \<Rightarrow> JNull | Some m \<Rightarrow> JObj (external_mapping_to_dict m)),
                   (''audit_id'', JStr (ac_audit c))])))))"

text \<open>The probe of an adapter's health gives the defaults its payload may override.\<close>

definition handler_health_probe :: "adapter_call \<Rightarrow> string \<Rightarrow> dict \<Rightarrow> (json, adapter_sys) act" where
  "handler_health_probe c skill payload =
     record_adapter_operation c skill
       (dmerge [(''adapter_slug'', dget_or payload ''adapter_slug'' (JStr ''adapter-health'')),
                (''operation'', JStr ''health_probe''), (''direction'', JStr ''inbound'')] payload)"

section \<open>Queries\<close>

definition wanted_text :: "json \<Rightarrow> string option" where
  "wanted_text v = (if truthy v then Some (py_str v) else None)"

definition adapter_health_query :: "adapter_db \<Rightarrow> dict \<Rightarrow> json" where
  "adapter_health_query db payload =
     (let runs = list_run_records db ''sd-default'' (wanted_text (dget payload ''adapter_slug'')) None None;
          failures = filter (\<lambda>r. ar_status r \<in> {''failed'', ''partial''}) runs
      in JObj [(''items'', JList (map (\<lambda>r. JObj (adapter_run_to_dict r)) runs)),
               (''summary'', JObj
                  [(''run_count'', JInt (int (length runs))), (''failure_count'', JInt (int (length failures))),
                   (''last_status'', JStr (if runs = [] then ''unknown'' else ar_status (last runs)))])])"

definition adapter_mapping_query :: "adapter_db \<Rightarrow> dict \<Rightarrow> json" where
  "adapter_mapping_query db payload =
     (let found = list_object_mappings db ''sd-default'' (wanted_text (dget payload ''external_system''))
            (wanted_text (dget payload ''local_aggregate_type'')) (wanted_text (dget payload ''local_aggregate_id''))
            (wanted_text (dget payload ''status''))
      in JObj [(''items'', JList (map (\<lambda>m. JObj (external_mapping_to_dict m)) found)),
               (''total'', JInt (int (length found)))])"

end
