(* ===== verification/AdapterSafe.thy ===== *)
theory AdapterSafe
  imports AdapterRepo
begin

text \<open>
  What the recording of exchanges guarantees: keys stay unique and nothing is lost, a repeated
  call changes nothing but times and gives the same answer, and what is counted for a run that failed.
\<close>

section \<open>The invariant\<close>

definition adapter_inv :: "adapter_db \<Rightarrow> bool" where
  "adapter_inv db \<longleftrightarrow> unique_on run_key (ad_runs db) \<and> unique_on map_key (ad_maps db)"

lemma run_of_key: "run_of now fresh tenant f found = Inr r \<Longrightarrow> run_key r = fields_key tenant f"
  by (auto simp: run_of_def run_key_def fields_key_def result_simps)

lemma mapping_of_key: "object_mapping_of now fresh tenant f found = Inr m \<Longrightarrow> map_key m = mapping_key tenant f"
  by (auto simp: object_mapping_of_def map_key_def mapping_key_def result_simps)

lemma raise_row: "unique_on keyf rows \<Longrightarrow>
   raiseE h (one_or_none (filter (\<lambda>r. keyf r = k) rows)) = Inr (row_by keyf k rows)"
  by (simp add: one_or_none_unique raiseE_def)

lemma upsert_run_parts:
  assumes "adapter_inv db" and "upsert_run_record uuid now tenant payload db = Inr (r, db')"
  obtains f where "run_payload payload = Inr f"
    "run_of now (uuid (ad_next db)) tenant f (row_by run_key (fields_key tenant f) (ad_runs db)) = Inr r"
    "ad_runs db' = save_row run_key (row_by run_key (fields_key tenant f) (ad_runs db)) r (ad_runs db)"
    "ad_maps db' = ad_maps db"
  using assms by (auto simp: upsert_run_record_def result_simps raise_row adapter_inv_def)

lemma upsert_mapping_parts:
  assumes "adapter_inv db" and "upsert_object_mapping uuid now tenant payload db = Inr (m, db')"
  defines "f \<equiv> mapping_payload payload"
  shows "object_mapping_of now (uuid (ad_next db)) tenant f (row_by map_key (mapping_key tenant f) (ad_maps db)) = Inr m"
    and "ad_maps db' = save_row map_key (row_by map_key (mapping_key tenant f) (ad_maps db)) m (ad_maps db)"
    and "ad_runs db' = ad_runs db"
  using assms by (auto simp: upsert_object_mapping_def Let_def result_simps raise_row adapter_inv_def)

lemma upsert_run_inv:
  assumes "adapter_inv db" and "upsert_run_record uuid now tenant payload db = Inr (r, db')"
  shows "adapter_inv db'"
  using upsert_run_parts [OF assms] assms(1) by (metis adapter_inv_def run_of_key save_row_unique)

lemma upsert_mapping_inv:
  "adapter_inv db \<Longrightarrow> upsert_object_mapping uuid now tenant payload db = Inr (m, db') \<Longrightarrow> adapter_inv db'"
  using upsert_mapping_parts [of db uuid now tenant payload m db']
  by (simp add: adapter_inv_def save_row_unique mapping_of_key)

section \<open>A repeated write\<close>

lemma run_of_again:
  "run_of now fresh tenant f found = Inr r \<Longrightarrow>
   run_of later fresh' tenant f (Some r) = Inr (r\<lparr>ar_finished := later, ar_updated := later\<rparr>)"
  by (auto simp: run_of_def result_simps)

lemma mapping_of_again:
  "object_mapping_of now fresh tenant f found = Inr m \<Longrightarrow>
   object_mapping_of later fresh' tenant f (Some m) = Inr (m\<lparr>om_updated := later\<rparr>)"
  by (auto simp: object_mapping_of_def result_simps)

lemma upsert_run_again:
  assumes "adapter_inv db" and "upsert_run_record uuid now tenant payload db = Inr (r, db1)"
    and "adapter_inv db2" and "ad_runs db2 = ad_runs db1"
  shows "upsert_run_record uuid later tenant payload db2 =
    (let r' = r\<lparr>ar_finished := later, ar_updated := later\<rparr>
     in Inr (r', db2\<lparr>ad_runs := put_row run_key r' (ad_runs db2)\<rparr>))"
    and "row_by run_key (run_key r) (ad_runs db1) = Some r"
proof -
  obtain f where f: "run_payload payload = Inr f"
    "run_of now (uuid (ad_next db)) tenant f (row_by run_key (fields_key tenant f) (ad_runs db)) = Inr r"
    "ad_runs db1 = save_row run_key (row_by run_key (fields_key tenant f) (ad_runs db)) r (ad_runs db)"
    using upsert_run_parts [OF assms(1,2)] by blast
  show found: "row_by run_key (run_key r) (ad_runs db1) = Some r"
    using row_by_save_row [of run_key r "fields_key tenant f" "run_key r" "ad_runs db"] run_of_key [OF f(2)] f(3) by simp
  show "upsert_run_record uuid later tenant payload db2 =
    (let r' = r\<lparr>ar_finished := later, ar_updated := later\<rparr>
     in Inr (r', db2\<lparr>ad_runs := put_row run_key r' (ad_runs db2)\<rparr>))"
    using assms(3) found run_of_key [OF f(2)] run_of_again [OF f(2)] f(1)
    by (simp add: upsert_run_record_def result_simps raise_row adapter_inv_def assms(4) Let_def save_row_def)
qed

lemma upsert_mapping_again:
  assumes "adapter_inv db" and "upsert_object_mapping uuid now tenant payload db = Inr (m, db1)"
    and "adapter_inv db2" and "ad_maps db2 = ad_maps db1"
  shows "upsert_object_mapping uuid later tenant payload db2 =
    (let m' = m\<lparr>om_updated := later\<rparr> in Inr (m', db2\<lparr>ad_maps := put_row map_key m' (ad_maps db2)\<rparr>))"
    and "row_by map_key (map_key m) (ad_maps db1) = Some m"
proof -
  let ?f = "mapping_payload payload"
  note m = upsert_mapping_parts [OF assms(1,2)]
  show found: "row_by map_key (map_key m) (ad_maps db1) = Some m"
    using row_by_save_row [of map_key m "mapping_key tenant ?f" "map_key m" "ad_maps db"] mapping_of_key [OF m(1)] m(2) by simp
  show "upsert_object_mapping uuid later tenant payload db2 =
    (let m' = m\<lparr>om_updated := later\<rparr> in Inr (m', db2\<lparr>ad_maps := put_row map_key m' (ad_maps db2)\<rparr>))"
    using assms(3) found mapping_of_key [OF m(1)] mapping_of_again [OF m(1)]
    by (simp add: upsert_object_mapping_def result_simps raise_row adapter_inv_def assms(4) Let_def save_row_def)
qed

text \<open>The rows apart from their times.\<close>

definition untimed_run :: "adapter_run \<Rightarrow> adapter_run" where
  "untimed_run r = r\<lparr>ar_finished := 0, ar_updated := 0\<rparr>"

definition untimed_mapping :: "object_mapping \<Rightarrow> object_mapping" where
  "untimed_mapping m = m\<lparr>om_updated := 0\<rparr>"

lemma put_row_like:
  assumes "unique_on keyf rows" and "row_by keyf (keyf r) rows = Some x" and "h r = h x"
  shows "map h (put_row keyf r rows) = map h rows"
proof -
  have "h (if keyf y = keyf r then r else y) = h y" if "y \<in> set rows" for y
    using assms that by (auto simp: row_by_Some_iff dest: unique_on_eq)
  then show ?thesis by (simp add: put_row_def)
qed

section \<open>The handler\<close>

lemma storeA_Inr: "storeA f s = (Inr x, t) \<longleftrightarrow> (\<exists>db. f (ax_db s) = Inr (x, db) \<and> t = s\<lparr>ax_db := db\<rparr>)"
  by (auto simp: storeA_def split: sum.splits prod.splits)

lemma record_parts:
  assumes "record_adapter_operation c skill payload s = (Inr ans, t)"
  obtains route run db1 where "adapter_operation skill payload = Inr route"
    "upsert_run_record (ac_uuid c) (ac_now c) ''sd-default'' (run_request c skill payload route (request_key skill payload)) (ax_db s) = Inr (run, db1)"
    "if names_object payload
     then \<exists>m. upsert_object_mapping (ac_uuid c) (ac_now c) ''sd-default''
            (mapping_request skill payload (snd (snd route)) (request_key skill payload)) db1 = Inr (m, ax_db t) \<and>
          ans = JObj [(''run'', JObj (adapter_run_to_dict run)), (''mapping'', JObj (external_mapping_to_dict m)), (''audit_id'', JStr (ac_audit c))]
     else ax_db t = db1 \<and> ans = JObj [(''run'', JObj (adapter_run_to_dict run)), (''mapping'', JNull), (''audit_id'', JStr (ac_audit c))]"
proof -
  obtain route where route: "adapter_operation skill payload = Inr route"
    using assms by (auto simp: record_adapter_operation_def bindA_def liftE_def split: sum.splits)
  show thesis
    using assms that [OF route]
    by (auto simp: record_adapter_operation_def bindA_Inr_iff Let_def liftE_def route storeA_Inr retA_def modifyA_def
        split: if_splits)
qed

text \<open>What a run of the handler leaves out of account: the times, and the line it adds to the feed.\<close>

definition same_exchange :: "adapter_db \<Rightarrow> adapter_db \<Rightarrow> bool" where
  "same_exchange a b \<longleftrightarrow> map untimed_run (ad_runs a) = map untimed_run (ad_runs b) \<and>
     map untimed_mapping (ad_maps a) = map untimed_mapping (ad_maps b) \<and> ad_next a = ad_next b"

lemma put_run_same:
  assumes "unique_on run_key (ad_runs db)" and "row_by run_key (run_key r) (ad_runs db) = Some r"
    and "r' = r\<lparr>ar_finished := later, ar_updated := later\<rparr>"
  shows "map untimed_run (put_row run_key r' (ad_runs db)) = map untimed_run (ad_runs db)"
    "unique_on run_key (put_row run_key r' (ad_runs db))"
proof -
  have "run_key r' = run_key r" by (simp add: assms(3) run_key_def)
  then show "map untimed_run (put_row run_key r' (ad_runs db)) = map untimed_run (ad_runs db)"
    using put_row_like [OF assms(1), of r' r untimed_run] assms(2) by (simp add: assms(3) untimed_run_def)
  show "unique_on run_key (put_row run_key r' (ad_runs db))" using assms(1) by (simp add: unique_on_def)
qed

lemma put_mapping_same:
  assumes "unique_on map_key (ad_maps db)" and "row_by map_key (map_key m) (ad_maps db) = Some m"
    and "m' = m\<lparr>om_updated := later\<rparr>"
  shows "map untimed_mapping (put_row map_key m' (ad_maps db)) = map untimed_mapping (ad_maps db)"
proof -
  have "map_key m' = map_key m" by (simp add: assms(3) map_key_def)
  then show ?thesis
    using put_row_like [OF assms(1), of m' m untimed_mapping] assms(2) by (simp add: assms(3) untimed_mapping_def)
qed

lemma record_inv:
  "adapter_inv (ax_db s) \<Longrightarrow> record_adapter_operation c skill payload s = (Inr ans, t) \<Longrightarrow> adapter_inv (ax_db t)"
  by (erule record_parts) (auto split: if_splits dest: upsert_run_inv upsert_mapping_inv)

lemma answers_untimed:
  "adapter_run_to_dict (r\<lparr>ar_finished := a, ar_updated := b\<rparr>) = adapter_run_to_dict r"
  "external_mapping_to_dict (m\<lparr>om_updated := a\<rparr>) = external_mapping_to_dict m"
  by (simp_all add: adapter_run_to_dict_def external_mapping_to_dict_def)

text \<open>Recording an exchange is idempotent: when a call of an adapter capability has succeeded, the same call at any
  later time succeeds too, gives the same answer, and leaves the runs and the mapped objects as they were but
  for the times of the rows it wrote.\<close>

lemma repeated_exchange_is_one:
  assumes "adapter_inv (ax_db s)" and "record_adapter_operation c skill payload s = (Inr ans, t)"
  shows "\<exists>u. record_adapter_operation (c\<lparr>ac_now := later\<rparr>) skill payload t = (Inr ans, u) \<and> same_exchange (ax_db u) (ax_db t)"
proof -
  let ?key = "request_key skill payload"
  from record_parts [OF assms(2)] obtain route run db1 where parts: "adapter_operation skill payload = Inr route"
    "upsert_run_record (ac_uuid c) (ac_now c) ''sd-default'' (run_request c skill payload route ?key) (ax_db s) = Inr (run, db1)"
    "if names_object payload
     then \<exists>m. upsert_object_mapping (ac_uuid c) (ac_now c) ''sd-default'' (mapping_request skill payload (snd (snd route)) ?key) db1 = Inr (m, ax_db t) \<and>
          ans = JObj [(''run'', JObj (adapter_run_to_dict run)), (''mapping'', JObj (external_mapping_to_dict m)), (''audit_id'', JStr (ac_audit c))]
     else ax_db t = db1 \<and> ans = JObj [(''run'', JObj (adapter_run_to_dict run)), (''mapping'', JNull), (''audit_id'', JStr (ac_audit c))]"
    by metis
  let ?run = "run\<lparr>ar_finished := later, ar_updated := later\<rparr>"
  let ?db2 = "(ax_db t)\<lparr>ad_runs := put_row run_key ?run (ad_runs (ax_db t))\<rparr>"
  have inv1: "adapter_inv db1" by (rule upsert_run_inv [OF assms(1) parts(2)])
  have inv: "adapter_inv (ax_db t)" by (rule record_inv [OF assms])
  have runs: "ad_runs (ax_db t) = ad_runs db1"
    using parts(3) upsert_mapping_parts(3) [OF inv1] by (auto split: if_splits)
  have req: "run_request (c\<lparr>ac_now := later\<rparr>) skill payload route ?key = run_request c skill payload route ?key"
    by (simp add: run_request_def)
  have again: "upsert_run_record (ac_uuid c) later ''sd-default'' (run_request c skill payload route ?key) (ax_db t) = Inr (?run, ?db2)"
    using upsert_run_again(1) [OF assms(1) parts(2) inv runs] by (simp add: Let_def)
  have here: "row_by run_key (run_key run) (ad_runs (ax_db t)) = Some run"
    using upsert_run_again(2) [OF assms(1) parts(2) inv runs] by (simp add: runs)
  note kept = put_run_same [OF _ here refl, of later]
  have inv2: "adapter_inv ?db2" using inv kept(2) by (simp add: adapter_inv_def)
  show ?thesis
  proof (cases "names_object payload")
    case False
    then show ?thesis
      using parts(1,3) again kept(1) inv
      by (simp add: record_adapter_operation_def Let_def act_simps storeA_def liftE_def bindA_def retA_def modifyA_def
          req answers_untimed same_exchange_def adapter_inv_def)
  next
    case True
    then obtain m where m: "upsert_object_mapping (ac_uuid c) (ac_now c) ''sd-default'' (mapping_request skill payload (snd (snd route)) ?key) db1 = Inr (m, ax_db t)"
      "ans = JObj [(''run'', JObj (adapter_run_to_dict run)), (''mapping'', JObj (external_mapping_to_dict m)), (''audit_id'', JStr (ac_audit c))]"
      using parts(3) by auto
    let ?m = "m\<lparr>om_updated := later\<rparr>"
    note mapped = upsert_mapping_again [OF inv1 m(1) inv2]
    have "map untimed_mapping (put_row map_key ?m (ad_maps (ax_db t))) = map untimed_mapping (ad_maps (ax_db t))"
      using put_mapping_same [OF _ mapped(2) refl] inv by (simp add: adapter_inv_def)
    then show ?thesis
      using parts(1) True again mapped(1) m(2) kept(1) inv
      by (simp add: record_adapter_operation_def Let_def act_simps storeA_def liftE_def bindA_def retA_def modifyA_def
          req answers_untimed same_exchange_def adapter_inv_def)
  qed
qed

text \<open>A catalogue reported to the national platform.\<close>

definition sample_exchange :: dict where
  "sample_exchange = [(''local_aggregate_id'', JStr ''c1''), (''status'', JStr ''failed''), (''target_count'', JInt 3)]"

definition sample_adapter_call :: adapter_call where
  "sample_adapter_call = \<lparr>ac_uuid = (\<lambda>n. replicate n CHR ''x''), ac_now = 1, ac_audit = ''a'', ac_actor = ''u''\<rparr>"

definition empty_adapter_sys :: adapter_sys where
  "empty_adapter_sys = \<lparr>ax_db = empty_adapter_db, ax_feed = []\<rparr>"

lemma empty_adapter_inv: "adapter_inv (ax_db empty_adapter_sys)"
  by (simp add: adapter_inv_def empty_adapter_sys_def empty_adapter_db_def unique_on_def)

lemma sample_exchange_runs:
  "\<exists>ans t. record_adapter_operation sample_adapter_call ''adapter.national.catalog.report'' sample_exchange empty_adapter_sys = (Inr ans, t)"
proof -
  have "case fst (record_adapter_operation sample_adapter_call ''adapter.national.catalog.report'' sample_exchange empty_adapter_sys) of
    Inl e \<Rightarrow> False | Inr ans \<Rightarrow> True" by code_simp
  then show ?thesis by (metis prod.collapse sum.case(1) sum.exhaust)
qed

section \<open>What is counted\<close>

lemma request_fields:
  "dget_or (run_request c skill payload route key) ''status'' v = dget_or payload ''status'' (JStr ''succeeded'')"
  "dget_or (run_request c skill payload route key) ''target_count'' v = dget_or payload ''target_count'' (JInt 1)"
  "dget_or (run_request c skill payload route key) ''failure_count'' v = dget_or payload ''failure_count'' (JInt 0)"
  "dget (run_request c skill payload route key) ''success_count'' = dget payload ''success_count''"
  by (cases route; simp add: run_request_def dget_or_def dget_def)+

lemma run_counts:
  assumes "run_of now fresh tenant f found = Inr r"
  shows "ar_status r = rf_status f" "ar_target r = rf_target f" "ar_success r = rf_success f" "ar_failure r = rf_failure f"
  using assms by (auto simp: run_of_def result_simps column_int_def split: if_splits)

text \<open>a run is stored with the status the call gives it, and when the call gives no counts, as one without a failure:
  whatever the status, a failed run included, no target counts as failed and all as reached. The default of the
  repository, one failure unless the run succeeded, is never used.\<close>

lemma failed_run_counts_as_reached:
  assumes "adapter_inv (ax_db s)" and "record_adapter_operation c skill payload s = (Inr ans, t)"
    and "map_of payload ''failure_count'' = None" and "dget payload ''success_count'' = JNull"
  shows "\<exists>run. run \<in> set (ad_runs (ax_db t)) \<and> ar_key run = request_key skill payload \<and>
     ar_status run = py_str (dget_or payload ''status'' (JStr ''succeeded'')) \<and>
     ar_failure run = 0 \<and> ar_success run = max (ar_target run) 0"
proof -
  let ?key = "request_key skill payload"
  from record_parts [OF assms(2)] obtain route run db1 where parts:
    "upsert_run_record (ac_uuid c) (ac_now c) ''sd-default'' (run_request c skill payload route ?key) (ax_db s) = Inr (run, db1)"
    "ad_runs (ax_db t) = ad_runs db1"
    by (metis upsert_mapping_parts(3) upsert_run_inv [OF assms(1)])
  obtain f where f: "run_payload (run_request c skill payload route ?key) = Inr f"
    "run_of (ac_now c) (ac_uuid c (ad_next (ax_db s))) ''sd-default'' f
       (row_by run_key (fields_key ''sd-default'' f) (ad_runs (ax_db s))) = Inr run"
    using upsert_run_parts [OF assms(1) parts(1)] by blast
  have zero: "dget_or payload ''failure_count'' (JInt 0) = JInt 0" using assms(3) by (simp add: dget_or_def)
  have "row_by run_key (run_key run) (ad_runs db1) = Some run"
    using upsert_run_again(2) [OF assms(1) parts(1) upsert_run_inv [OF assms(1) parts(1)] refl] .
  then have "run \<in> set (ad_runs (ax_db t))" using row_by_SomeD parts(2) by metis
  moreover have "ar_key run = ?key"
    using f run_of_key [OF f(2)] by (cases route) (auto simp: run_payload_def result_simps run_key_def fields_key_def
        run_request_def dict_item_def Let_def raiseE_def)
  moreover have "rf_failure f = 0" "rf_success f = max (rf_target f) 0" "rf_status f = py_str (dget_or payload ''status'' (JStr ''succeeded''))"
    using f(1) assms(3,4) zero unfolding run_payload_def Let_def request_fields
    by (auto simp: result_simps int_cast_def)
  ultimately show ?thesis using run_counts [OF f(2)] by auto
qed

end
