(* ===== verification/SupplyDemand.thy ===== *)
theory SupplyDemand
  imports CardSession AuditTrail
begin

text \<open>
  Matching demand with supply: the phases of \<^verbatim>\<open>domain/supply_demand_phase.py\<close>, the repository
  \<^verbatim>\<open>domain/repositories/supply_demand.py\<close>, which keeps demands and business requirements among the
  application records, and the skills of \<^verbatim>\<open>command/handlers/j1/supply_demand_handlers.py\<close>.
\<close>

section \<open>Phases\<close>

definition demand_phases :: "(string \<times> string list) list" where
  "demand_phases =
     [(''gap_discovered'', [''registered'']),
      (''registered'', [''recommend_failed'', ''provider_responded'']),
      (''recommend_failed'', [''manual_registered'']),
      (''manual_registered'', [''provider_responded'']),
      (''provider_responded'', [''subscribed'']),
      (''subscribed'', [])]"

datatype demand_error =
    BadPhase string string
  | NoRecord string
  | NotADemand string
  | NotARequirement string
  | MergeForbidden
  | TooFewApplications
  | BadRequirementStatus string string
  | DemandStore case_error

definition assert_phase_transition :: "string \<Rightarrow> string \<Rightarrow> demand_error + unit" where
  "assert_phase_transition a b =
     guardE (b \<in> set (case map_of demand_phases a of None \<Rightarrow> [] | Some bs \<Rightarrow> bs)) (BadPhase a b)"

section \<open>Demands\<close>

definition demand_payload :: "string \<Rightarrow> string \<Rightarrow> string \<Rightarrow> string \<Rightarrow> json \<Rightarrow> string \<Rightarrow> string \<Rightarrow> dict" where
  "demand_payload i title applicant dept hint channel phase =
     [(''id'', JStr i), (''status'', JStr ''submitted''), (''applicant'', JStr applicant),
      (''applicantDept'', JStr dept), (''kind'', JStr ''demand''), (''title'', JStr title),
      (''demand_phase'', JStr phase), (''target_resource_hint'', hint), (''channel_class'', JStr channel)]"

definition save_payload :: "nat \<Rightarrow> string \<Rightarrow> dict \<Rightarrow> approval_store \<Rightarrow> demand_error + dict \<times> approval_store" where
  "save_payload now tenant payload st =
     bindE (raiseE DemandStore (upsert_from_request now tenant payload st)) (\<lambda>st'. Inr (payload, st'))"

definition register_demand ::
    "nat \<Rightarrow> string \<Rightarrow> string \<Rightarrow> string \<Rightarrow> string \<Rightarrow> string \<Rightarrow> json \<Rightarrow> approval_store \<Rightarrow> demand_error + dict \<times> approval_store" where
  "register_demand now tenant i title applicant dept hint st =
     save_payload now tenant (demand_payload i title applicant dept hint ''internal'' ''gap_discovered'') st"

definition demand_record :: "string \<Rightarrow> string \<Rightarrow> approval_store \<Rightarrow> demand_error + application_row" where
  "demand_record tenant i st =
     bindE (raiseE DemandStore (get_record tenant i st)) (\<lambda>found.
       case found of None \<Rightarrow> Inl (NoRecord i) | Some r \<Rightarrow> Inr r)"

definition advance_status :: "string \<Rightarrow> dict \<Rightarrow> dict" where
  "advance_status phase payload =
     (if phase = ''provider_responded'' then dset payload ''status'' (JStr ''approved'')
      else if phase = ''subscribed'' then dset payload ''status'' (JStr ''effective'')
      else payload)"

definition current_phase :: "dict \<Rightarrow> string" where
  "current_phase payload = py_str (py_or (dget payload ''demand_phase'') (JStr ''gap_discovered''))"

definition advance_phase :: "nat \<Rightarrow> string \<Rightarrow> string \<Rightarrow> string \<Rightarrow> approval_store \<Rightarrow> demand_error + dict \<times> approval_store" where
  "advance_phase now tenant i phase st =
     bindE (demand_record tenant i st) (\<lambda>r.
     let payload = ap_payload r in
     bindE (guardE (dget payload ''kind'' = JStr ''demand'') (NotADemand i)) (\<lambda>_.
     bindE (assert_phase_transition (current_phase payload) phase) (\<lambda>_.
       save_payload now tenant (advance_status phase (dset payload ''demand_phase'' (JStr phase))) st)))"

definition get_demand :: "string \<Rightarrow> string \<Rightarrow> approval_store \<Rightarrow> demand_error + dict option" where
  "get_demand tenant i st = bindE (raiseE DemandStore (get_record tenant i st)) (\<lambda>found. Inr (map_option ap_payload found))"

text \<open>The query names no order; the rows come in the order of the table.\<close>

definition list_demands :: "string \<Rightarrow> string option \<Rightarrow> approval_store \<Rightarrow> dict list" where
  "list_demands tenant phase st =
     filter (\<lambda>d. dget d ''kind'' = JStr ''demand'' \<and>
               (case phase of None \<Rightarrow> True | Some p \<Rightarrow> dget d ''demand_phase'' = JStr p))
       (map ap_payload (filter (\<lambda>r. ap_tenant r = tenant) (st_apps st)))"

section \<open>Business requirements\<close>

definition create_business_requirement ::
    "nat \<Rightarrow> string \<Rightarrow> string \<Rightarrow> string list \<Rightarrow> string \<Rightarrow> string \<Rightarrow> string \<Rightarrow> approval_store \<Rightarrow>
     demand_error + dict \<times> approval_store" where
  "create_business_requirement now tenant i ids reason by role st =
     bindE (guardE (role = ''ROLE_BUSIAUDIT'') MergeForbidden) (\<lambda>_.
     bindE (guardE (2 \<le> length ids) TooFewApplications) (\<lambda>_.
       save_payload now tenant
         [(''id'', JStr i), (''status'', JStr ''submitted''), (''applicant'', JStr by), (''applicantDept'', JStr ''BUSIAUDIT''),
          (''kind'', JStr ''business_requirement''), (''application_ids'', JList (map JStr ids)),
          (''merge_reason'', JStr reason), (''br_status'', JStr ''dispatched'')] st))"

definition requirement_payload :: "string \<Rightarrow> string \<Rightarrow> approval_store \<Rightarrow> demand_error + dict" where
  "requirement_payload tenant i st =
     bindE (demand_record tenant i st) (\<lambda>r.
     bindE (guardE (dget (ap_payload r) ''kind'' = JStr ''business_requirement'') (NotARequirement i)) (\<lambda>_.
       Inr (ap_payload r)))"

definition requirement_next :: "(string \<times> string list) list" where
  "requirement_next = [(''dispatched'', [''responded'']), (''responded'', [''evaluated'']), (''evaluated'', [])]"

definition update_requirement_status ::
    "nat \<Rightarrow> string \<Rightarrow> string \<Rightarrow> string \<Rightarrow> approval_store \<Rightarrow> demand_error + dict \<times> approval_store" where
  "update_requirement_status now tenant i status st =
     bindE (requirement_payload tenant i st) (\<lambda>payload.
     let current = py_str (py_or (dget payload ''br_status'') (JStr ''dispatched'')) in
     bindE (guardE (status \<in> set (case map_of requirement_next current of None \<Rightarrow> [] | Some ss \<Rightarrow> ss))
              (BadRequirementStatus current status)) (\<lambda>_.
       let p = dset payload ''br_status'' (JStr status)
       in save_payload now tenant (if status = ''evaluated'' then dset p ''status'' (JStr ''effective'') else p) st))"

text \<open>\<^verbatim>\<open>list(payload.get(k, []))\<close>: a text gives its characters, an object its keys.\<close>

definition listed :: "dict \<Rightarrow> string \<Rightarrow> demand_error + json list" where
  "listed payload k =
     (case dget_or payload k (JList []) of
        JList xs \<Rightarrow> Inr xs
      | JStr s \<Rightarrow> Inr (map JStr (utf8_chars s))
      | JObj d \<Rightarrow> Inr (map (\<lambda>(k, v). JStr k) d)
      | _ \<Rightarrow> Inl (DemandStore (CasePy TypeError)))"

definition removal_event :: "string \<Rightarrow> string \<Rightarrow> json" where
  "removal_event application reason =
     JObj [(''event'', JStr ''application_removed''), (''application_id'', JStr application), (''reason'', JStr reason)]"

definition remove_application ::
    "nat \<Rightarrow> string \<Rightarrow> string \<Rightarrow> string \<Rightarrow> string \<Rightarrow> approval_store \<Rightarrow> demand_error + dict \<times> approval_store" where
  "remove_application now tenant i application reason st =
     bindE (requirement_payload tenant i st) (\<lambda>payload.
     bindE (listed payload ''application_ids'') (\<lambda>ids.
       if JStr application \<notin> set ids then Inr (payload, st)
       else bindE (listed payload ''events'') (\<lambda>events.
         save_payload now tenant
           (dset (dset payload ''application_ids'' (JList (remove1 (JStr application) ids)))
              ''events'' (JList (events @ [removal_event application reason]))) st)))"

section \<open>Rules\<close>

text \<open>The prefix of a title is counted in characters.\<close>

definition cluster_key :: "nat \<Rightarrow> dict \<Rightarrow> string \<times> string" where
  "cluster_key n d =
     (concat (take n (utf8_chars (py_str (py_or (dget d ''title'') (JStr []))))),
      py_str (py_or (dget d ''target_resource_hint'') (JStr [])))"

definition add_to_cluster :: "nat \<Rightarrow> ((string \<times> string) \<times> dict list) list \<Rightarrow> dict \<Rightarrow> ((string \<times> string) \<times> dict list) list" where
  "add_to_cluster n clusters d =
     (let k = cluster_key n d
      in dset clusters k (case map_of clusters k of None \<Rightarrow> [d] | Some ds \<Rightarrow> ds @ [d]))"

definition cluster_similar_demands :: "nat \<Rightarrow> dict list \<Rightarrow> dict list list" where
  "cluster_similar_demands n demands = filter (\<lambda>v. 1 \<le> length v) (map snd (foldl (add_to_cluster n) [] demands))"

definition title_matches :: "string \<Rightarrow> string option \<Rightarrow> string \<Rightarrow> bool" where
  "title_matches title hint cat \<longleftrightarrow>
     (title \<noteq> [] \<and> (contains title cat \<or> contains cat title)) \<or>
     (case hint of None \<Rightarrow> False | Some h \<Rightarrow> h \<noteq> [] \<and> contains h cat)"

definition find_resource_match :: "string \<Rightarrow> string option \<Rightarrow> string list \<Rightarrow> string option" where
  "find_resource_match title hint cats = find (title_matches title hint) cats"

section \<open>Skills\<close>

record demand_sys =
  dm_store :: approval_store
  dm_feed :: "(string \<times> string \<times> string \<times> string) list"

text \<open>The clock of a call, as a count and as the text \<^verbatim>\<open>YYYY-MM-DD HH:MM\<close> of \<^verbatim>\<open>now_datetime()\<close>.\<close>

record demand_call =
  dc_now :: nat
  dc_minute :: string
  dc_audit :: string
  dc_actor :: string

definition demand_exn :: "string \<Rightarrow> demand_error \<Rightarrow> exn" where
  "demand_exn i e =
     (case e of
        BadPhase a b \<Rightarrow> mk_exn ''InvalidStateError'' (''invalid supply-demand phase transition: '' @ a @ '' -> '' @ b)
      | NoRecord _ \<Rightarrow> mk_exn ''NotFoundError'' i
      | NotADemand _ \<Rightarrow> mk_exn ''NotFoundError'' i
      | DemandStore (CasePy (KeyError _)) \<Rightarrow> mk_exn ''NotFoundError'' i
      | DemandStore (CasePy p) \<Rightarrow> py_exn p
      | DemandStore MultipleResultsFound \<Rightarrow> mk_exn ''MultipleResultsFound'' []
      | _ \<Rightarrow> mk_exn ''ValueError'' [])"

definition register_exn :: "demand_error \<Rightarrow> exn" where
  "register_exn e =
     (case e of
        DemandStore (CasePy p) \<Rightarrow> py_exn p
      | DemandStore MultipleResultsFound \<Rightarrow> mk_exn ''MultipleResultsFound'' []
      | _ \<Rightarrow> mk_exn ''ValueError'' [])"

definition demandA :: "(demand_error \<Rightarrow> exn) \<Rightarrow> (approval_store \<Rightarrow> demand_error + dict \<times> approval_store) \<Rightarrow> (dict, demand_sys) act" where
  "demandA h f s = (case f (dm_store s) of Inl e \<Rightarrow> (Inl (h e), s) | Inr (p, st) \<Rightarrow> (Inr p, s\<lparr>dm_store := st\<rparr>))"

definition feed_demand :: "demand_call \<Rightarrow> string \<Rightarrow> string \<Rightarrow> (unit, demand_sys) act" where
  "feed_demand c skill i = modifyA (\<lambda>s. s\<lparr>dm_feed := dm_feed s @ [(skill, i, ''ok'', dc_actor c)]\<rparr>)"

text \<open>A demand without an identifier is given one made of the minute.\<close>

definition minute_id :: "demand_call \<Rightarrow> string" where
  "minute_id c = ''DM-'' @ filter (\<lambda>x. x \<noteq> CHR '':'') (map (\<lambda>x. if x = CHR '' '' then CHR ''-'' else x) (dc_minute c))"

definition demand_id_of :: "demand_call \<Rightarrow> dict \<Rightarrow> string" where
  "demand_id_of c payload = py_str (py_or (dget payload ''demand_id'') (JStr (minute_id c)))"

definition handler_demand_register :: "demand_call \<Rightarrow> dict \<Rightarrow> (dict, demand_sys) act" where
  "handler_demand_register c payload =
     (let i = demand_id_of c payload
      in bindA (liftE py_exn (dict_item payload ''title'')) (\<lambda>title.
         bindA (demandA register_exn (register_demand (dc_now c) default_card_tenant i (py_str title)
                  (py_str (py_or (dget payload ''applicant'') (JStr (dc_actor c))))
                  (py_str (py_or (dget payload ''applicant_dept'') (JStr lbl_applicant_dept)))
                  (dget payload ''target_resource_hint''))) (\<lambda>record.
         bindA (feed_demand c ''demand.register'' i) (\<lambda>_.
           retA (dset record ''audit_id'' (JStr (dc_audit c)))))))"

definition handler_demand_phase_advance :: "demand_call \<Rightarrow> dict \<Rightarrow> (dict, demand_sys) act" where
  "handler_demand_phase_advance c payload =
     bindA (liftE py_exn (dict_item payload ''demand_id'')) (\<lambda>i.
     bindA (liftE py_exn (dict_item payload ''next_phase'')) (\<lambda>phase.
     bindA (demandA (demand_exn (py_str i)) (advance_phase (dc_now c) default_card_tenant (py_str i) (py_str phase))) (\<lambda>record.
     bindA (feed_demand c ''demand.phase.advance'' (py_str i)) (\<lambda>_.
       retA (dset record ''audit_id'' (JStr (dc_audit c)))))))"

definition handler_demand_list :: "dict \<Rightarrow> approval_store \<Rightarrow> json" where
  "handler_demand_list payload st =
     (let items = list_demands default_card_tenant
            (if truthy (dget payload ''phase'') then Some (py_str (dget payload ''phase'')) else None) st
      in JObj [(''items'', JList (map JObj items)), (''total'', JInt (int (length items)))])"

end
