(* ===== verification/SupplyDemandSafe.thy ===== *)
theory SupplyDemandSafe
  imports SupplyDemand ApplicationStore
begin

text \<open>
  What the skills on demands guarantee: a demand moves through its phases in order, which of them only
  the call that names it can change, what a registration does to a record that is there already, and the
  clusters a list of demands falls into.
\<close>

section \<open>The invariant\<close>

definition is_demand :: "dict \<Rightarrow> bool" where
  "is_demand payload \<longleftrightarrow> dget payload ''kind'' = JStr ''demand''"

definition demand_ids_ok :: "approval_store \<Rightarrow> bool" where
  "demand_ids_ok st \<longleftrightarrow> (\<forall>i r. app_of st i = Some r \<longrightarrow> is_demand (ap_payload r) \<longrightarrow>
     map_of (ap_payload r) ''id'' = Some (JStr i))"

definition demand_inv :: "(nat \<Rightarrow> string) \<Rightarrow> demand_sys \<Rightarrow> bool" where
  "demand_inv uuid s \<longleftrightarrow> store_inv uuid (dm_store s) \<and> demand_ids_ok (dm_store s)"

definition phase_of :: "demand_sys \<Rightarrow> string \<Rightarrow> string option" where
  "phase_of s i = (case app_of (dm_store s) i of
     None \<Rightarrow> None | Some r \<Rightarrow> if is_demand (ap_payload r) then Some (current_phase (ap_payload r)) else None)"

lemma demand_plain_keys:
  "\<not> is_sensitive_json_key ''kind''" "\<not> is_sensitive_json_key ''demand_phase''" "\<not> is_sensitive_json_key ''status''"
  by code_simp+

lemma safe_json_text: "safe_json v = JStr s \<longleftrightarrow> v = JStr s"
  by (cases v) simp_all

lemma safe_dict_demand [simp]: "is_demand (safe_dict d) = is_demand d"
  by (auto simp: is_demand_def dget_def safe_dict_item demand_plain_keys safe_json_text split: option.splits)

lemma safe_dict_phase:
  "map_of d ''demand_phase'' = Some (JStr p) \<Longrightarrow> p \<noteq> [] \<Longrightarrow> current_phase (safe_dict d) = p"
  by (simp add: current_phase_def dget_def safe_dict_item demand_plain_keys py_or_def)

lemma get_app: "demand_inv uuid s \<Longrightarrow> get_record default_card_tenant i (dm_store s) = Inr (app_of (dm_store s) i)"
  unfolding demand_inv_def by (erule conjE) (rule get_record_find)

section \<open>One skill\<close>

text \<open>A payload of a demand is stored under its identifier.\<close>

lemma save_demand:
  assumes "demand_inv uuid s" and "save_payload now default_card_tenant payload (dm_store s) = Inr (p, st)"
    and "map_of payload ''id'' = Some (JStr i)" and "is_demand payload"
    and "map_of payload ''demand_phase'' = Some (JStr phase)" "phase \<noteq> []"
  shows "p = payload" and "demand_inv uuid (s\<lparr>dm_store := st, dm_feed := feed\<rparr>)"
    and "phase_of (s\<lparr>dm_store := st, dm_feed := feed\<rparr>) j = (if j = i then Some phase else phase_of s j)"
proof -
  have run: "upsert_from_request now default_card_tenant payload (dm_store s) = Inr st" and p: "p = payload"
    using assms(2) by (auto simp: save_payload_def result_simps)
  show "p = payload" by (rule p)
  have inv: "store_inv uuid (dm_store s)" using assms(1) by (simp add: demand_inv_def)
  from upsert_parts [OF inv run] obtain i' status where up: "map_of payload ''id'' = Some (JStr i')"
    "upserted now i' status payload (dm_store s) st" by blast
  have i: "i' = i" using up(1) assms(3) by simp
  note shape = up(2) [unfolded i]
  obtain r where r: "app_of st i = Some r" "ap_payload r = safe_dict payload"
    using upserted_rows(1) [OF shape] by blast
  have others: "k \<noteq> i \<Longrightarrow> app_of st k = app_of (dm_store s) k" for k by (rule upserted_rows(2) [OF shape])
  have "map_of (ap_payload r) ''id'' = Some (JStr i)" using assms(3) r(2) by (simp add: safe_dict_item plain_id)
  then have "demand_ids_ok st"
    using assms(1) r(1) others unfolding demand_ids_ok_def demand_inv_def by (metis option.inject)
  then show "demand_inv uuid (s\<lparr>dm_store := st, dm_feed := feed\<rparr>)"
    using upserted_effect(1) [OF inv shape assms(3)] by (simp add: demand_inv_def)
  show "phase_of (s\<lparr>dm_store := st, dm_feed := feed\<rparr>) j = (if j = i then Some phase else phase_of s j)"
    using r others assms(4) safe_dict_phase [OF assms(5,6)] by (simp add: phase_of_def)
qed

definition demand_step :: "demand_sys \<Rightarrow> bool \<times> demand_call \<times> dict \<Rightarrow> exn + demand_sys" where
  "demand_step s op =
     (case op of (register, c, payload) \<Rightarrow>
        (case (if register then handler_demand_register c payload s else handler_demand_phase_advance c payload s) of
           (Inl e, _) \<Rightarrow> Inl e | (Inr _, s') \<Rightarrow> Inr s'))"

text \<open>A skill that raises leaves everything as it was, so leaving it out of a run is right.\<close>

lemma refused_demand_call:
  "handler_demand_register c payload s = (Inl e, s') \<Longrightarrow> s' = s"
  "handler_demand_phase_advance c payload s = (Inl e, s') \<Longrightarrow> s' = s"
  by (auto simp: handler_demand_register_def handler_demand_phase_advance_def Let_def bindA_def liftE_def demandA_def
      feed_demand_def modifyA_def retA_def split: sum.splits)

lemma register_parts:
  assumes "handler_demand_register c payload s = (Inr ans, s')"
  obtains title p st where "dict_item payload ''title'' = Inr title"
    "register_demand (dc_now c) default_card_tenant (demand_id_of c payload) (py_str title)
       (py_str (py_or (dget payload ''applicant'') (JStr (dc_actor c))))
       (py_str (py_or (dget payload ''applicant_dept'') (JStr lbl_applicant_dept)))
       (dget payload ''target_resource_hint'') (dm_store s) = Inr (p, st)"
    "s' = s\<lparr>dm_store := st, dm_feed := dm_feed s @ [(''demand.register'', demand_id_of c payload, ''ok'', dc_actor c)]\<rparr>"
  using assms
  by (auto simp: handler_demand_register_def Let_def bindA_def liftE_def demandA_def feed_demand_def modifyA_def retA_def
      split: sum.splits)

lemma advance_parts:
  assumes "handler_demand_phase_advance c payload s = (Inr ans, s')"
  obtains i phase p st where "dict_item payload ''demand_id'' = Inr i" "dict_item payload ''next_phase'' = Inr phase"
    "advance_phase (dc_now c) default_card_tenant (py_str i) (py_str phase) (dm_store s) = Inr (p, st)"
    "s' = s\<lparr>dm_store := st, dm_feed := dm_feed s @ [(''demand.phase.advance'', py_str i, ''ok'', dc_actor c)]\<rparr>"
  using assms
  by (auto simp: handler_demand_phase_advance_def bindA_def liftE_def demandA_def feed_demand_def modifyA_def retA_def
      split: sum.splits)

lemma demand_payload_items:
  "map_of (demand_payload i title applicant dept hint channel phase) ''id'' = Some (JStr i)"
  "is_demand (demand_payload i title applicant dept hint channel phase)"
  "map_of (demand_payload i title applicant dept hint channel phase) ''demand_phase'' = Some (JStr phase)"
  by (simp_all add: demand_payload_def is_demand_def dget_def)

definition next_phases :: "string \<Rightarrow> string list" where
  "next_phases a = (case map_of demand_phases a of None \<Rightarrow> [] | Some bs \<Rightarrow> bs)"

lemma next_phases_named: "b \<in> set (next_phases a) \<Longrightarrow> b \<noteq> []"
  by (auto simp: next_phases_def demand_phases_def split: if_splits)

lemma register_moves:
  assumes "demand_inv uuid s" and "handler_demand_register c payload s = (Inr ans, s')"
  shows "demand_inv uuid s'"
    and "phase_of s' j = (if j = demand_id_of c payload then Some ''gap_discovered'' else phase_of s j)"
proof -
  obtain title p st where parts: "register_demand (dc_now c) default_card_tenant (demand_id_of c payload) (py_str title)
       (py_str (py_or (dget payload ''applicant'') (JStr (dc_actor c))))
       (py_str (py_or (dget payload ''applicant_dept'') (JStr lbl_applicant_dept)))
       (dget payload ''target_resource_hint'') (dm_store s) = Inr (p, st)"
    "s' = s\<lparr>dm_store := st, dm_feed := dm_feed s @ [(''demand.register'', demand_id_of c payload, ''ok'', dc_actor c)]\<rparr>"
    using register_parts [OF assms(2)] by metis
  note saved = save_demand [OF assms(1) parts(1) [unfolded register_demand_def] demand_payload_items, simplified]
  show "demand_inv uuid s'" unfolding parts(2) by (rule saved(2))
  show "phase_of s' j = (if j = demand_id_of c payload then Some ''gap_discovered'' else phase_of s j)"
    unfolding parts(2) by (rule saved(3))
qed

lemma advance_status_items:
  "map_of (advance_status phase d) k = (if k = ''status'' \<and> phase \<in> {''provider_responded'', ''subscribed''}
     then Some (JStr (if phase = ''subscribed'' then ''effective'' else ''approved'')) else map_of d k)"
  by (auto simp: advance_status_def)

lemma advance_moves:
  assumes "demand_inv uuid s" and "handler_demand_phase_advance c payload s = (Inr ans, s')"
  obtains i phase a where "map_of payload ''demand_id'' = Some i" "map_of payload ''next_phase'' = Some phase"
    "phase_of s (py_str i) = Some a" "py_str phase \<in> set (next_phases a)" "demand_inv uuid s'"
    "\<forall>j. phase_of s' j = (if j = py_str i then Some (py_str phase) else phase_of s j)"
proof -
  obtain i phase p st where parts: "dict_item payload ''demand_id'' = Inr i" "dict_item payload ''next_phase'' = Inr phase"
    "advance_phase (dc_now c) default_card_tenant (py_str i) (py_str phase) (dm_store s) = Inr (p, st)"
    "s' = s\<lparr>dm_store := st, dm_feed := dm_feed s @ [(''demand.phase.advance'', py_str i, ''ok'', dc_actor c)]\<rparr>"
    using advance_parts [OF assms(2)] by metis
  obtain r where r: "app_of (dm_store s) (py_str i) = Some r" "is_demand (ap_payload r)"
    "py_str phase \<in> set (next_phases (current_phase (ap_payload r)))"
    "save_payload (dc_now c) default_card_tenant
       (advance_status (py_str phase) (dset (ap_payload r) ''demand_phase'' (JStr (py_str phase)))) (dm_store s) = Inr (p, st)"
    using parts(3) unfolding advance_phase_def demand_record_def get_app [OF assms(1)]
    by (auto simp: result_simps Let_def is_demand_def assert_phase_transition_def next_phases_def split: option.splits)
  let ?p = "advance_status (py_str phase) (dset (ap_payload r) ''demand_phase'' (JStr (py_str phase)))"
  have id: "map_of ?p ''id'' = Some (JStr (py_str i))"
    using assms(1) r(1,2) by (simp add: advance_status_items demand_inv_def demand_ids_ok_def)
  have "is_demand ?p" using r(2) by (simp add: is_demand_def dget_def advance_status_items)
  moreover have "map_of ?p ''demand_phase'' = Some (JStr (py_str phase))" by (simp add: advance_status_items)
  ultimately have saved: "demand_inv uuid s'" "phase_of s' j = (if j = py_str i then Some (py_str phase) else phase_of s j)" for j
    unfolding parts(4) using save_demand [OF assms(1) r(4) id] next_phases_named [OF r(3)] by auto
  show thesis
  proof (rule that)
    show "map_of payload ''demand_id'' = Some i" "map_of payload ''next_phase'' = Some phase"
      using parts(1,2) by (auto simp: dict_item_def split: option.splits)
    show "phase_of s (py_str i) = Some (current_phase (ap_payload r))" using r(1,2) by (simp add: phase_of_def)
  qed (use r(3) saved in auto)
qed

section \<open>Runs\<close>

definition phase_moves :: "(string \<times> string) set" where
  "phase_moves = {(a, b). b \<in> set (next_phases a) \<or> b = ''gap_discovered''}"

lemma demand_step_moves:
  assumes "demand_inv uuid s" and "demand_step s (register, c, payload) = Inr s'"
  shows "demand_inv uuid s'"
    and "phase_of s' j = phase_of s j \<or> (register \<and> j = demand_id_of c payload \<and> phase_of s' j = Some ''gap_discovered'') \<or>
      (\<exists>a b. \<not> register \<and> phase_of s j = Some a \<and> phase_of s' j = Some b \<and> b \<in> set (next_phases a) \<and>
         py_str (dget payload ''demand_id'') = j \<and> py_str (dget payload ''next_phase'') = b)"
proof (atomize (full), cases register)
  case True
  then obtain ans where run: "handler_demand_register c payload s = (Inr ans, s')"
    using assms(2) by (auto simp: demand_step_def split: sum.splits prod.splits)
  show "demand_inv uuid s' \<and> (phase_of s' j = phase_of s j \<or>
      (register \<and> j = demand_id_of c payload \<and> phase_of s' j = Some ''gap_discovered'') \<or>
      (\<exists>a b. \<not> register \<and> phase_of s j = Some a \<and> phase_of s' j = Some b \<and> b \<in> set (next_phases a) \<and>
         py_str (dget payload ''demand_id'') = j \<and> py_str (dget payload ''next_phase'') = b))"
    using register_moves [OF assms(1) run] True by simp
next
  case False
  then obtain ans where run: "handler_demand_phase_advance c payload s = (Inr ans, s')"
    using assms(2) by (auto simp: demand_step_def split: sum.splits prod.splits)
  obtain i phase a where parts: "map_of payload ''demand_id'' = Some i" "map_of payload ''next_phase'' = Some phase"
    "phase_of s (py_str i) = Some a" "py_str phase \<in> set (next_phases a)" "demand_inv uuid s'"
    "\<forall>j. phase_of s' j = (if j = py_str i then Some (py_str phase) else phase_of s j)"
    using advance_moves [OF assms(1) run] by blast
  show "demand_inv uuid s' \<and> (phase_of s' j = phase_of s j \<or>
      (register \<and> j = demand_id_of c payload \<and> phase_of s' j = Some ''gap_discovered'') \<or>
      (\<exists>a b. \<not> register \<and> phase_of s j = Some a \<and> phase_of s' j = Some b \<and> b \<in> set (next_phases a) \<and>
         py_str (dget payload ''demand_id'') = j \<and> py_str (dget payload ''next_phase'') = b))"
    using parts(1-5) spec [OF parts(6), of j] False by (cases "j = py_str i") (simp_all add: dget_def)
qed

interpretation demand_flow: guarded_machine demand_step phase_of "demand_inv uuid" phase_moves for uuid
proof
  fix s op s'
  assume run: "demand_inv uuid s" "demand_step s op = Inr s'"
  obtain register c payload where op: "op = (register, c, payload)" by (cases op) auto
  show "demand_inv uuid s'" using demand_step_moves(1) run unfolding op by blast
  fix i a assume "phase_of s i = Some a"
  then show "\<exists>b. phase_of s' i = Some b \<and> (a = b \<or> (a, b) \<in> phase_moves)"
    using demand_step_moves(2) [OF run(1) run(2) [unfolded op], of i] by (auto simp: phase_moves_def)
qed

text \<open>An advance call for a demand and a phase.\<close>

definition advances :: "string \<Rightarrow> string \<Rightarrow> bool \<times> demand_call \<times> dict \<Rightarrow> bool" where
  "advances i phase op \<longleftrightarrow> (case op of (register, c, payload) \<Rightarrow>
     \<not> register \<and> py_str (dget payload ''demand_id'') = i \<and> py_str (dget payload ''next_phase'') = phase)"

lemma phase_entered:
  assumes "demand_inv uuid s" and "phase_of s i \<noteq> Some phase" and "phase_of (run_ops demand_step s ops) i = Some phase"
    and "phase \<noteq> ''gap_discovered''"
  shows "\<exists>pre op post a. ops = pre @ op # post \<and> advances i phase op \<and>
    phase_of (run_ops demand_step s pre) i = Some a \<and> phase \<in> set (next_phases a)"
proof -
  let ?P = "\<lambda>s. phase_of s i = Some phase"
  from run_ops_change [of ?P, OF assms(2,3)] obtain pre op post where ops: "ops = pre @ op # post"
    "\<not> ?P (run_ops demand_step s pre)" "?P (settle demand_step (run_ops demand_step s pre) op)" by blast
  obtain register c payload where op: "op = (register, c, payload)" by (cases op) auto
  have inv: "demand_inv uuid (run_ops demand_step s pre)" by (rule demand_flow.inv_run [OF assms(1)])
  obtain s' where step: "demand_step (run_ops demand_step s pre) (register, c, payload) = Inr s'" "?P s'"
    using ops(2,3) by (auto simp: settle_def op split: sum.splits)
  from demand_step_moves(2) [OF inv step(1), of i] step(2) ops(2) assms(4)
  have "\<not> register \<and> py_str (dget payload ''demand_id'') = i \<and> py_str (dget payload ''next_phase'') = phase \<and>
    (\<exists>a. phase_of (run_ops demand_step s pre) i = Some a \<and> phase \<in> set (next_phases a))" by auto
  then show ?thesis
    unfolding ops(1) op by (intro exI [of _ pre] exI [of _ "(register, c, payload)"] exI [of _ post]) (simp add: advances_def)
qed

lemma into_phase:
  "''subscribed'' \<in> set (next_phases a) \<Longrightarrow> a = ''provider_responded''"
  "''provider_responded'' \<in> set (next_phases a) \<Longrightarrow> a \<in> {''registered'', ''manual_registered''}"
  by (auto simp: next_phases_def demand_phases_def split: if_splits)

text \<open>C30: whatever calls are made and in whatever order, registrations that start a demand again included: a demand that
  is subscribed, and was not a demand at the start, had been answered by its provider when a call moved it
  on, and before that was registered, by rule or by hand, when another call recorded the answer.\<close>

theorem subscribed_after_answer:
  assumes "demand_inv uuid s" and "phase_of s i = None" and "phase_of (run_ops demand_step s ops) i = Some ''subscribed''"
  shows "\<exists>p1 answer p2 subscribe p3 a. ops = (p1 @ answer # p2) @ subscribe # p3 \<and>
     advances i ''provider_responded'' answer \<and> advances i ''subscribed'' subscribe \<and>
     phase_of (run_ops demand_step s p1) i = Some a \<and> a \<in> {''registered'', ''manual_registered''} \<and>
     phase_of (run_ops demand_step s (p1 @ answer # p2)) i = Some ''provider_responded''"
proof -
  from phase_entered [OF assms(1) _ assms(3)] assms(2) obtain q2 op2 p3 a where q2: "ops = q2 @ op2 # p3"
    "advances i ''subscribed'' op2" "phase_of (run_ops demand_step s q2) i = Some a" "''subscribed'' \<in> set (next_phases a)"
    by auto
  then have answered: "phase_of (run_ops demand_step s q2) i = Some ''provider_responded''" using into_phase(1) by blast
  from phase_entered [OF assms(1) _ this] assms(2) obtain p1 op1 p2 b where q1: "q2 = p1 @ op1 # p2"
    "advances i ''provider_responded'' op1" "phase_of (run_ops demand_step s p1) i = Some b"
    "''provider_responded'' \<in> set (next_phases b)" by auto
  show ?thesis
    using q1 q2 answered into_phase(2) [OF q1(4)]
    by (intro exI [of _ p1] exI [of _ op1] exI [of _ p2] exI [of _ op2] exI [of _ p3] exI [of _ b]) simp
qed

definition empty_demand_sys :: demand_sys where
  "empty_demand_sys = \<lparr>dm_store = \<lparr>st_apps = [], st_cases = empty_case_db, st_legacy = []\<rparr>, dm_feed = []\<rparr>"

definition sample_demand_call :: demand_call where
  "sample_demand_call = \<lparr>dc_now = 1, dc_minute = ''2026-07-01 09:30'', dc_audit = ''a'', dc_actor = ''u''\<rparr>"

definition sample_demand_run :: "(bool \<times> demand_call \<times> dict) list" where
  "sample_demand_run = (True, sample_demand_call, [(''title'', JStr ''t''), (''demand_id'', JStr ''d1'')]) #
     map (\<lambda>p. (False, sample_demand_call, [(''demand_id'', JStr ''d1''), (''next_phase'', JStr p)]))
       [''registered'', ''provider_responded'', ''subscribed'']"

lemma empty_demand_inv: "inj uuid \<Longrightarrow> demand_inv uuid empty_demand_sys"
  by (simp add: demand_inv_def empty_demand_sys_def store_inv_def demand_ids_ok_def app_of_def unique_on_def empty_case_inv)

theorem subscribed_after_answer_witness:
  "\<exists>p1 answer p2 subscribe p3. sample_demand_run = (p1 @ answer # p2) @ subscribe # p3 \<and>
     advances ''d1'' ''provider_responded'' answer \<and> advances ''d1'' ''subscribed'' subscribe"
proof -
  have "inj (\<lambda>n. replicate n CHR ''x'')" by (rule injI) (metis length_replicate)
  moreover have "phase_of empty_demand_sys ''d1'' = None" by code_simp
  moreover have "phase_of (run_ops demand_step empty_demand_sys sample_demand_run) ''d1'' = Some ''subscribed''" by code_simp
  ultimately show ?thesis using subscribed_after_answer [OF empty_demand_inv] by metis
qed

section \<open>Registration under a code that is taken\<close>

text \<open>A registration of a demand takes over any record that has its identifier, which a caller may choose: with a
  title it always succeeds, and whatever application was stored there, granted or not, of whatever applicant, the
  record is then a demand in its first phase with the status submitted, and no longer a request any skill finds.\<close>

lemma registration_takes_over:
  assumes "demand_inv uuid s" and "map_of payload ''title'' = Some title"
  shows "\<exists>ans s' r. handler_demand_register c payload s = (Inr ans, s') \<and>
     app_of (dm_store s') (demand_id_of c payload) = Some r \<and> ap_status r = ''submitted'' \<and>
     dget (ap_payload r) ''title'' = JStr (py_str title) \<and> phase_of s' (demand_id_of c payload) = Some ''gap_discovered'' \<and>
     get_request fp (dm_store s') (demand_id_of c payload) empty_session = Inr (None, empty_session)"
proof -
  let ?i = "demand_id_of c payload"
  let ?p = "demand_payload ?i (py_str title) (py_str (py_or (dget payload ''applicant'') (JStr (dc_actor c))))
       (py_str (py_or (dget payload ''applicant_dept'') (JStr lbl_applicant_dept)))
       (dget payload ''target_resource_hint'') ''internal'' ''gap_discovered''"
  have items: "text_item ?p ''id'' = Inr ?i" "text_item ?p ''status'' = Inr ''submitted''"
    "\<exists>n. dict_item ?p ''applicant'' = Inr n" "\<exists>n. dict_item ?p ''applicantDept'' = Inr n"
    by (simp_all add: text_item_iff demand_payload_def dict_item_def)
  have "\<exists>st. upsert_from_request (dc_now c) default_card_tenant ?p (dm_store s) = Inr st"
    using items get_app [OF assms(1), of ?i] by (auto simp: upsert_from_request_def Let_def dget_def demand_payload_def)
  then obtain st where up: "upsert_from_request (dc_now c) default_card_tenant ?p (dm_store s) = Inr st" by blast
  let ?s' = "s\<lparr>dm_store := st, dm_feed := dm_feed s @ [(''demand.register'', ?i, ''ok'', dc_actor c)]\<rparr>"
  obtain ans where run: "handler_demand_register c payload s = (Inr ans, ?s')"
    using up assms(2)
    by (simp add: handler_demand_register_def Let_def bindA_def liftE_def demandA_def feed_demand_def modifyA_def retA_def
        register_demand_def save_payload_def dict_item_def raiseE_def)
  have shape: "upserted (dc_now c) ?i ''submitted'' ?p (dm_store s) st"
    using upsert_request_shape [OF conjunct1 [OF assms(1) [unfolded demand_inv_def]] up] items(1,2) unfolding text_item_iff .
  obtain r where r: "app_of st ?i = Some r" "ap_status r = ''submitted''" "ap_payload r = safe_dict ?p"
    using upserted_rows(1) [OF shape] by blast
  have title: "dget (ap_payload r) ''title'' = JStr (py_str title)"
  proof -
    have "\<not> is_sensitive_json_key ''title''" by code_simp
    then show ?thesis by (simp add: r(3) dget_def safe_dict_item demand_payload_def)
  qed
  note moved = register_moves [OF assms(1) run]
  have "\<not> is_runtime_request_payload (ap_payload r)"
    by (simp add: is_runtime_request_payload_def r(3) safe_dict_item demand_plain_keys demand_payload_def)
  then have "get_request fp st ?i empty_session = Inr (None, empty_session)"
    using get_app [OF moved(1), of ?i] r(1) by (simp add: get_request_def empty_session_def)
  then show ?thesis using run r(1,2) title moved(2) [of ?i] by (intro exI [of _ ans] exI [of _ ?s'] exI [of _ r]) simp
qed

text \<open>A granted request, and a demand registered under its code.\<close>

definition taken_sys :: demand_sys where
  "taken_sys = empty_demand_sys\<lparr>dm_store := \<lparr>st_apps = [\<lparr>ap_tenant = default_card_tenant, ap_code = ''R1'', ap_status = ''granted'',
     ap_name = JStr ''n'', ap_org = JStr ''o'', ap_payload = [(''id'', JStr ''R1'')], ap_created = 0\<rparr>],
     st_cases = empty_case_db, st_legacy = []\<rparr>\<rparr>"

lemma taken_inv: "demand_inv (\<lambda>n. replicate n CHR ''x'') taken_sys"
proof -
  have "inj (\<lambda>n. replicate n CHR ''x'')" by (rule injI) (metis length_replicate)
  then show ?thesis
    by (simp add: demand_inv_def taken_sys_def store_inv_def demand_ids_ok_def app_of_def unique_on_def empty_case_inv
        card_ids_ok_def is_demand_def dget_def)
qed

section \<open>Clusters\<close>

text \<open>The first occurrences in a list, in their order.\<close>

definition firsts :: "'a list \<Rightarrow> 'a list" where
  "firsts xs = rev (remdups (rev xs))"

lemma firsts_snoc: "firsts (xs @ [x]) = (if x \<in> set xs then firsts xs else firsts xs @ [x])"
  by (simp add: firsts_def)

lemma set_firsts [simp]: "set (firsts xs) = set xs"
  by (simp add: firsts_def)

lemma distinct_firsts: "distinct (firsts xs)"
  by (simp add: firsts_def)

lemma dset_map:
  "distinct ks \<Longrightarrow> k \<in> set ks \<Longrightarrow> dset (map (\<lambda>x. (x, f x)) ks) k v = map (\<lambda>x. (x, if x = k then v else f x)) ks"
  by (induction ks) auto

lemma map_of_graph: "map_of (map (\<lambda>x. (x, f x)) ks) k = (if k \<in> set ks then Some (f k) else None)"
  by (induction ks) auto

lemma clusters_fold:
  "foldl (add_to_cluster n) [] ds =
     map (\<lambda>k. (k, filter (\<lambda>d. cluster_key n d = k) ds)) (firsts (map (cluster_key n) ds))"
proof (induction ds rule: rev_induct)
  case (snoc d ds)
  let ?ks = "firsts (map (cluster_key n) ds)" and ?k = "cluster_key n d"
  let ?f = "\<lambda>k. filter (\<lambda>d. cluster_key n d = k) ds"
  show ?case
  proof (cases "?k \<in> set ?ks")
    case True
    have ks: "firsts (map (cluster_key n) (ds @ [d])) = ?ks" using True by (simp add: firsts_snoc)
    have "foldl (add_to_cluster n) [] (ds @ [d]) = add_to_cluster n (map (\<lambda>k. (k, ?f k)) ?ks) d" by (simp add: snoc)
    also have "\<dots> = map (\<lambda>x. (x, if x = ?k then ?f ?k @ [d] else ?f x)) ?ks"
      unfolding add_to_cluster_def Let_def using True dset_map [OF distinct_firsts True, of ?f]
      by (simp add: map_of_graph)
    also have "\<dots> = map (\<lambda>k. (k, filter (\<lambda>x. cluster_key n x = k) (ds @ [d]))) ?ks" by auto
    finally show ?thesis unfolding ks .
  next
    case False
    have ks: "firsts (map (cluster_key n) (ds @ [d])) = ?ks @ [?k]" using False by (simp add: firsts_snoc)
    have none: "?f ?k = []" using False by (auto simp: filter_empty_conv image_iff)
    have "foldl (add_to_cluster n) [] (ds @ [d]) = add_to_cluster n (map (\<lambda>k. (k, ?f k)) ?ks) d" by (simp add: snoc)
    also have "\<dots> = map (\<lambda>k. (k, ?f k)) ?ks @ [(?k, [d])]"
      unfolding add_to_cluster_def Let_def using False by (simp add: map_of_graph dset_new image_image)
    also have "\<dots> = map (\<lambda>k. (k, filter (\<lambda>x. cluster_key n x = k) (ds @ [d]))) (?ks @ [?k])"
      using False none by auto
    finally show ?thesis unfolding ks .
  qed
qed (simp add: firsts_def)

text \<open>The clusters of a list of demands are its classes under equal title prefix and resource hint, in the order of
  their first members, each with its members in the order of the list: every demand is in exactly one.\<close>

lemma clusters_are_classes:
  "cluster_similar_demands n ds = map (\<lambda>k. filter (\<lambda>d. cluster_key n d = k) ds) (firsts (map (cluster_key n) ds))"
proof -
  have "filter (\<lambda>d. cluster_key n d = k) ds \<noteq> []" if "k \<in> set (firsts (map (cluster_key n) ds))" for k
    using that by (auto simp: filter_empty_conv)
  then show ?thesis
    unfolding cluster_similar_demands_def clusters_fold
    by (auto simp: Suc_le_eq intro!: filter_True)
qed

end
