(* ===== verification/RecoRule.thy ===== *)
theory RecoRule
  imports TemplateRepo AuditTrail Complex_Main
begin

text \<open>
  Recommendation rules: \<^verbatim>\<open>domain/recommendation_rule.py\<close>, the third copy of the template repository, and the
  skill that puts a rule live (\<^verbatim>\<open>command/handlers/b1/recommendation_rule.py\<close>). Weights are
  floats; \<open>fl\<close> is \<^verbatim>\<open>float(x)\<close>, which decides what a JSON value is as a number, if it is one: a text that
  spells an infinity, or the value that is no number, is.
\<close>

section \<open>Floats\<close>

text \<open>
  Python's floats as the program uses them: sums, products and comparisons, with the infinities and the value that
  is no number. What a finite result is rounded to is the argument \<open>r\<close> of the operations, so that it can be an
  infinity too. The two zeros are one value here: they compare alike, and nothing divides by a float.
\<close>

datatype py_float = NegInf | Fin rat | PosInf | NaN

definition fneg :: "py_float \<Rightarrow> py_float" where
  "fneg x = (case x of NegInf \<Rightarrow> PosInf | Fin a \<Rightarrow> Fin (- a) | PosInf \<Rightarrow> NegInf | NaN \<Rightarrow> NaN)"

definition fadd :: "(rat \<Rightarrow> py_float) \<Rightarrow> py_float \<Rightarrow> py_float \<Rightarrow> py_float" where
  "fadd r x y =
     (case (x, y) of
        (Fin a, Fin b) \<Rightarrow> r (a + b)
      | (NaN, _) \<Rightarrow> NaN
      | (_, NaN) \<Rightarrow> NaN
      | (PosInf, NegInf) \<Rightarrow> NaN
      | (NegInf, PosInf) \<Rightarrow> NaN
      | (Fin _, _) \<Rightarrow> y
      | _ \<Rightarrow> x)"

text \<open>An infinity of the sign of a number; there is none for zero.\<close>

definition finf :: "rat \<Rightarrow> py_float" where
  "finf a = (if a = 0 then NaN else if 0 < a then PosInf else NegInf)"

definition fmul :: "(rat \<Rightarrow> py_float) \<Rightarrow> py_float \<Rightarrow> py_float \<Rightarrow> py_float" where
  "fmul r x y =
     (case (x, y) of
        (Fin a, Fin b) \<Rightarrow> r (a * b)
      | (NaN, _) \<Rightarrow> NaN
      | (_, NaN) \<Rightarrow> NaN
      | (Fin a, PosInf) \<Rightarrow> finf a
      | (Fin a, NegInf) \<Rightarrow> finf (- a)
      | (PosInf, Fin b) \<Rightarrow> finf b
      | (NegInf, Fin b) \<Rightarrow> finf (- b)
      | _ \<Rightarrow> (if x = y then PosInf else NegInf))"

text \<open>The order used for sorting puts the value that is no number last.\<close>

instantiation py_float :: linorder
begin

definition less_eq_py_float :: "py_float \<Rightarrow> py_float \<Rightarrow> bool" where
  "less_eq_py_float x y =
     (case (x, y) of
        (NegInf, _) \<Rightarrow> True
      | (Fin a, Fin b) \<Rightarrow> a \<le> b
      | (Fin _, _) \<Rightarrow> y \<noteq> NegInf
      | (PosInf, _) \<Rightarrow> y = PosInf \<or> y = NaN
      | (NaN, _) \<Rightarrow> y = NaN)"

definition less_py_float :: "py_float \<Rightarrow> py_float \<Rightarrow> bool" where
  "less_py_float x y \<longleftrightarrow> x \<le> y \<and> x \<noteq> (y :: py_float)"

instance
proof
  fix x y z :: py_float
  show le: "x < y \<longleftrightarrow> x \<le> y \<and> \<not> y \<le> x"
    by (cases x; cases y) (auto simp: less_py_float_def less_eq_py_float_def)
  show "x \<le> x" by (cases x) (simp_all add: less_eq_py_float_def)
  show "x \<le> z" if "x \<le> y" "y \<le> z"
    using that by (cases x; cases y; cases z) (simp_all add: less_eq_py_float_def)
  show "x = y" if "x \<le> y" "y \<le> x"
    using that by (cases x; cases y) (simp_all add: less_eq_py_float_def)
  show "x \<le> y \<or> y \<le> x" by (cases x; cases y) (auto simp: less_eq_py_float_def)
qed

end

text \<open>Python's comparisons: false as soon as one side is no number.\<close>

definition fle :: "py_float \<Rightarrow> py_float \<Rightarrow> bool" where
  "fle x y \<longleftrightarrow> x \<noteq> NaN \<and> y \<noteq> NaN \<and> x \<le> y"

definition flt :: "py_float \<Rightarrow> py_float \<Rightarrow> bool" where
  "flt x y \<longleftrightarrow> x \<noteq> NaN \<and> y \<noteq> NaN \<and> x < y"

text \<open>\<^verbatim>\<open>max(x, y)\<close> keeps the first unless the second is greater.\<close>

definition fmax :: "py_float \<Rightarrow> py_float \<Rightarrow> py_float" where
  "fmax x y = (if flt x y then y else x)"

lemma fle_NaN [simp]: "\<not> fle NaN x" "\<not> fle x NaN" "\<not> flt NaN x" "\<not> flt x NaN"
  by (simp_all add: fle_def flt_def)

lemma fle_iff_not_flt: "x \<noteq> NaN \<Longrightarrow> y \<noteq> NaN \<Longrightarrow> fle x y \<longleftrightarrow> \<not> flt y x"
  by (auto simp: fle_def flt_def)

lemma fneg_falls: "x \<noteq> NaN \<Longrightarrow> y \<noteq> NaN \<Longrightarrow> fneg x \<le> fneg y \<longleftrightarrow> fle y x"
  by (cases x; cases y) (simp_all add: fneg_def fle_def less_eq_py_float_def)

section \<open>Validation\<close>

definition valid_clause_kinds :: "string list" where
  "valid_clause_kinds =
     [''keyword_match'', ''category_match'', ''org_affinity'', ''usage_frequency'', ''fuzzy_text'', ''negative_filter'']"

datatype rule_error =
    RuleNotDict
  | ClausesMissing
  | ClausesEmpty
  | ClauseNotDict
  | ClauseCodeRequired
  | ClauseCodeDuplicate string
  | ClauseKindInvalid json
  | ClauseWeight json
  | RulePy py_error

type_synonym to_float = "json \<Rightarrow> py_error + py_float"

definition weight_json :: "dict \<Rightarrow> json" where
  "weight_json d = dget_or d ''weight'' (JInt 1)"

text \<open>The error for a weight that is no positive number is raised inside the \<^verbatim>\<open>try\<close> that turns it
  into the one for a weight that is no number. A comparison with the value that is no number is false, so such a
  weight passes; and an integer too large for a float raises another error.\<close>

definition check_clause :: "to_float \<Rightarrow> string list \<Rightarrow> json \<Rightarrow> rule_error + string list" where
  "check_clause fl codes c =
     (case c of
        JObj d \<Rightarrow>
          (case dget d ''clause_code'' of
             JStr code \<Rightarrow>
               if code = [] then Inl ClauseCodeRequired
               else if code \<in> set codes then Inl (ClauseCodeDuplicate code)
               else bindE (raiseE RulePy (str_in (dget d ''clause_kind'') valid_clause_kinds)) (\<lambda>ok.
                 if \<not> ok then Inl (ClauseKindInvalid (dget d ''clause_kind''))
                 else (case fl (weight_json d) of
                         Inr w \<Rightarrow> if fle w (Fin 0) then Inl (ClauseWeight (weight_json d)) else Inr (codes @ [code])
                       | Inl e \<Rightarrow> Inl (if e \<in> {TypeError, ValueError} then ClauseWeight (weight_json d) else RulePy e)))
           | _ \<Rightarrow> Inl ClauseCodeRequired)
      | _ \<Rightarrow> Inl ClauseNotDict)"

definition validate_rule_payload :: "to_float \<Rightarrow> json \<Rightarrow> rule_error + unit" where
  "validate_rule_payload fl p =
     (case p of
        JObj d \<Rightarrow>
          (case map_of d ''clauses'' of
             None \<Rightarrow> Inl ClausesMissing
           | Some (JList (c # cs)) \<Rightarrow> bindE (forE (check_clause fl) [] (c # cs)) (\<lambda>_. Inr ())
           | Some _ \<Rightarrow> Inl ClausesEmpty)
      | _ \<Rightarrow> Inl RuleNotDict)"

section \<open>Projection\<close>

record clause_row =
  cl_rule :: string
  cl_code :: json
  cl_kind :: json
  cl_payload :: json
  cl_weight :: py_float
  cl_order :: json

definition clause_of :: "to_float \<Rightarrow> string \<Rightarrow> nat \<Rightarrow> json \<Rightarrow> py_error + clause_row" where
  "clause_of fl rid index c =
     (case c of
        JObj d \<Rightarrow>
          bindE (dict_item d ''clause_code'') (\<lambda>code.
          bindE (dict_item d ''clause_kind'') (\<lambda>kind.
          bindE (fl (weight_json d)) (\<lambda>w.
            Inr \<lparr>cl_rule = rid, cl_code = code, cl_kind = kind, cl_payload = dget_or d ''clause_payload_json'' (JObj []),
                 cl_weight = w, cl_order = dget_or d ''order_index'' (JInt (int index))\<rparr>)))
      | _ \<Rightarrow> Inl TypeError)"

definition add_clause :: "to_float \<Rightarrow> string \<Rightarrow> clause_row list \<times> nat \<Rightarrow> json \<Rightarrow> py_error + (clause_row list \<times> nat)" where
  "add_clause fl rid st c =
     (case st of (rows, index) \<Rightarrow> bindE (clause_of fl rid index c) (\<lambda>r. Inr (rows @ [r], Suc index)))"

definition project_rule_payload :: "to_float \<Rightarrow> clause_row list projection" where
  "project_rule_payload fl uuid rid d st =
     (case st of (rows, n) \<Rightarrow>
        bindE (forE (add_clause fl rid) (rows, 0) (json_list (dget d ''clauses''))) (\<lambda>(rows', _).
          Inr (rows', n + length (json_list (dget d ''clauses'')))))"

section \<open>The repository\<close>

type_synonym rule_db = "clause_row list template_db"

definition rule_create_draft ::
    "to_float \<Rightarrow> (nat \<Rightarrow> string) \<Rightarrow> nat \<Rightarrow> draft_args \<Rightarrow> rule_db \<Rightarrow> rule_error template_error + (flow_row \<times> rule_db)" where
  "rule_create_draft fl = tpl_create (validate_rule_payload fl) (project_rule_payload fl)"

definition rule_promote_to_preview ::
    "to_float \<Rightarrow> nat \<Rightarrow> string \<Rightarrow> rule_db \<Rightarrow> rule_error template_error + (flow_row \<times> rule_db)" where
  "rule_promote_to_preview fl = tpl_promote (validate_rule_payload fl)"

definition rule_revert_to_draft ::
    "nat \<Rightarrow> string \<Rightarrow> rule_db \<Rightarrow> rule_error template_error + (flow_row \<times> rule_db)" where
  "rule_revert_to_draft = tpl_revert"

definition rule_commit_to_live ::
    "to_float \<Rightarrow> nat \<Rightarrow> string \<Rightarrow> rule_db \<Rightarrow> rule_error template_error + (flow_row \<times> rule_db)" where
  "rule_commit_to_live fl = tpl_commit (validate_rule_payload fl)"

definition rule_get :: "rule_db \<Rightarrow> string \<Rightarrow> rule_error template_error + flow_row" where
  "rule_get = tpl_require"

definition rule_list_by_tenant :: "rule_db \<Rightarrow> string \<Rightarrow> flow_row list" where
  "rule_list_by_tenant = tpl_list"

text \<open>The versions of a code differ, so the order by version has one last element.\<close>

definition latest_by_code :: "rule_db \<Rightarrow> string \<Rightarrow> string \<Rightarrow> flow_row option" where
  "latest_by_code db tenant code =
     (case rev (sort_key fs_version (filter (same_code tenant code) (tdb_rows db))) of [] \<Rightarrow> None | r # _ \<Rightarrow> Some r)"

definition list_live :: "rule_db \<Rightarrow> string \<Rightarrow> flow_row list" where
  "list_live db tenant =
     sort_key fs_created_at (filter (\<lambda>r. fs_tenant r = tenant \<and> fs_status r = ''live'') (tdb_rows db))"

definition rule_step :: "to_float \<Rightarrow> (nat \<Rightarrow> string) \<Rightarrow> rule_db \<Rightarrow> template_op \<Rightarrow> rule_error template_error + rule_db" where
  "rule_step fl = tpl_step (validate_rule_payload fl) (project_rule_payload fl)"

interpretation rule_store: template_store "rule_step fl uuid" tpl_status "tpl_inv (validate_rule_payload fl) uuid" for fl uuid
proof
  show "tpl_inv (validate_rule_payload fl) uuid db'"
    if "tpl_inv (validate_rule_payload fl) uuid db" "rule_step fl uuid db op = Inr db'" for db op db'
    using that unfolding rule_step_def by (rule tpl_inv_step)
  show "\<exists>b. tpl_status db' i = Some b \<and> (a = b \<or> (a, b) \<in> {(a, b). template_move a b})"
    if "tpl_inv (validate_rule_payload fl) uuid db" "rule_step fl uuid db op = Inr db'" "tpl_status db i = Some a"
    for db op db' i a
    using tpl_status_moves [OF that(1) that(2) [unfolded rule_step_def] that(3)] by simp
  show "b = ''draft''"
    if "tpl_inv (validate_rule_payload fl) uuid db" "rule_step fl uuid db op = Inr db'" "tpl_status db i = None"
      "tpl_status db' i = Some b" for db op db' i b
    using that(2-4) unfolding rule_step_def by (rule tpl_status_births)
qed

section \<open>The skill\<close>

record rule_sys =
  ru_db :: rule_db
  ru_feed :: "(string \<times> string \<times> string \<times> string) list"

record rule_call =
  rc_float :: to_float
  rc_uuid :: "nat \<Rightarrow> string"
  rc_now :: nat
  rc_actor :: string

definition rule_exn :: "rule_error template_error \<Rightarrow> exn" where
  "rule_exn e =
     (case e of
        TplPayload (RulePy p) \<Rightarrow> py_exn p
      | TplPayload _ \<Rightarrow> mk_exn ''RecommendationRulePayloadError'' []
      | TplIntegrity \<Rightarrow> unique_violation
      | TplPy p \<Rightarrow> py_exn p
      | _ \<Rightarrow> mk_exn ''RecommendationRuleTransitionError'' [])"

definition ruleA :: "(rule_db \<Rightarrow> rule_error template_error + flow_row \<times> rule_db) \<Rightarrow> (flow_row, rule_sys) act" where
  "ruleA f s = (case f (ru_db s) of Inl e \<Rightarrow> (Inl (rule_exn e), s) | Inr (r, db) \<Rightarrow> (Inr r, s\<lparr>ru_db := db\<rparr>))"

definition text_arg :: "dict \<Rightarrow> string \<Rightarrow> string" where
  "text_arg payload k = py_str (py_or (dget payload k) (JStr []))"

text \<open>What a rule named by its code is created again from: the payload of its latest version.\<close>

definition reapply_args :: "dict \<Rightarrow> string \<Rightarrow> string \<Rightarrow> string \<Rightarrow> flow_row \<Rightarrow> draft_args" where
  "reapply_args payload tenant code actor latest =
     (let source = py_str (py_or (dget payload ''draft_source_text'')
                     (JStr (case fs_source_text latest of None \<Rightarrow> [] | Some t \<Rightarrow> t)))
      in \<lparr>da_tenant = tenant, da_code = code,
          da_title = py_str (py_or (dget payload ''title'') (JStr (fs_title latest))), da_payload = fs_payload latest,
          da_source_kind = ''reapply'', da_source_text = (if source = [] then None else Some source),
          da_created_by = actor\<rparr>)"

definition transition_exn :: exn where
  "transition_exn = mk_exn ''RecommendationRuleTransitionError'' []"

definition commit_target :: "rule_call \<Rightarrow> dict \<Rightarrow> (string, rule_sys) act" where
  "commit_target c payload =
     (let tenant = text_arg payload ''tenant_id''; rid = text_arg payload ''rule_id''; code = text_arg payload ''rule_code''
      in if rid = [] then
           bindA (getA (\<lambda>s. latest_by_code (ru_db s) tenant code)) (\<lambda>found.
             case found of
               None \<Rightarrow> throwA transition_exn
             | Some latest \<Rightarrow>
                 bindA (ruleA (rule_create_draft (rc_float c) (rc_uuid c) (rc_now c)
                          (reapply_args payload tenant code (rc_actor c) latest))) (\<lambda>draft.
                 bindA (ruleA (rule_promote_to_preview (rc_float c) (rc_now c) (fs_id draft))) (\<lambda>_.
                   retA (fs_id draft))))
         else
           bindA (ruleA (\<lambda>db. bindE (rule_get db rid) (\<lambda>r. Inr (r, db)))) (\<lambda>r.
             if fs_tenant r \<noteq> tenant then throwA transition_exn else retA rid))"

text \<open>The answer is read off the row: its identifier, code, version and time.\<close>

definition commit_rule :: "rule_call \<Rightarrow> string \<Rightarrow> dict \<Rightarrow> (flow_row, rule_sys) act" where
  "commit_rule c skill payload =
     (if text_arg payload ''tenant_id'' = [] then throwA (py_exn ValueError)
      else if text_arg payload ''rule_id'' = [] \<and> text_arg payload ''rule_code'' = [] then throwA (py_exn ValueError)
      else bindA (commit_target c payload) (\<lambda>target.
           bindA (ruleA (rule_commit_to_live (rc_float c) (rc_now c) target)) (\<lambda>committed.
           bindA (modifyA (\<lambda>s. s\<lparr>ru_feed := ru_feed s @ [(skill, target, ''ok'', rc_actor c)]\<rparr>)) (\<lambda>_.
             retA committed))))"

end
