(* ===== verification/RecoEngine.thy ===== *)
theory RecoEngine
  imports RecoRule ShareType "HOL-Library.Multiset"
begin

text \<open>
  \<^verbatim>\<open>domain/recommendation_engine.py\<close> and its skill \<^verbatim>\<open>command/handlers/j1/recommendation_suggest.py\<close>: catalogues
  are scored by the clauses of all live rules, and those that would lead to data not to be shared are left out
  beforehand. Scores are floats, rounded by an argument. A character is its bytes; \<open>letter\<close> decides which characters outside
  ASCII and the common Chinese ones are letters or digits; \<open>rq_order\<close> is the order Python's sort leaves the
  candidates in when the score of one is no number. Queries without an order give the order of the table.
\<close>

section \<open>Tokens\<close>

definition ascii_alnum :: "nat \<Rightarrow> bool" where
  "ascii_alnum n \<longleftrightarrow> 48 \<le> n \<and> n \<le> 57 \<or> 65 \<le> n \<and> n \<le> 90 \<or> 97 \<le> n \<and> n \<le> 122"

text \<open>From U+4E00 to U+9FFF.\<close>

definition common_chinese :: "string \<Rightarrow> bool" where
  "common_chinese c =
     (case map of_char c of
        [a, b, _] \<Rightarrow> (a = (228 :: nat) \<and> (184 :: nat) \<le> b) \<or> 228 < a \<and> a \<le> 233
      | _ \<Rightarrow> False)"

definition word_char :: "(string \<Rightarrow> bool) \<Rightarrow> string \<Rightarrow> bool" where
  "word_char letter c =
     (case c of [x] \<Rightarrow> ascii_alnum (of_char x) | _ \<Rightarrow> common_chinese c \<or> letter c)"

function words_of :: "(string \<Rightarrow> bool) \<Rightarrow> string list \<Rightarrow> string list list" where
  "words_of p [] = []"
| "words_of p (c # cs) = (if p c then (c # takeWhile p cs) # words_of p (dropWhile p cs) else words_of p cs)"
  by pat_completeness auto

termination words_of
  by (relation "measure (\<lambda>(p, cs). length cs)") (simp_all add: length_dropWhile_le le_imp_less_Suc)

fun bigrams :: "string list \<Rightarrow> string list" where
  "bigrams (a # b # cs) = (a @ b) # bigrams (b # cs)"
| "bigrams _ = []"

definition tokenize :: "(string \<Rightarrow> bool) \<Rightarrow> string \<Rightarrow> string list" where
  "tokenize letter text =
     remdups (concat (map (\<lambda>w. concat w # bigrams w)
       (words_of (word_char letter) (utf8_chars (strip_blanks (lower text))))))"

definition overlap :: "string list \<Rightarrow> string list \<Rightarrow> nat" where
  "overlap a b = length (filter (\<lambda>t. t \<in> set b) (remdups a))"

definition union_size :: "string list \<Rightarrow> string list \<Rightarrow> nat" where
  "union_size a b = length (remdups (a @ b))"

definition meets :: "string list \<Rightarrow> string list \<Rightarrow> bool" where
  "meets a b \<longleftrightarrow> list_ex (\<lambda>t. t \<in> set b) a"

definition similarity_of :: "(rat \<Rightarrow> py_float) \<Rightarrow> string list \<Rightarrow> string list \<Rightarrow> py_float" where
  "similarity_of r a b = (if union_size a b = 0 then Fin 0 else r (of_nat (overlap a b) / of_nat (union_size a b)))"

section \<open>What the engine reads\<close>

record reco_item =
  ri_id :: string
  ri_catalog :: string
  ri_resource :: "string option"
  ri_title :: string

record history_row =
  hr_id :: string
  hr_catalog :: "string option"
  hr_resource :: "string option"
  hr_name :: string

record reco_asset =
  rs_code :: string
  rs_access :: json

text \<open>The rows of one tenant.\<close>

record reco_data =
  rd_items :: "reco_item list"
  rd_assets :: "reco_asset list"
  rd_histories :: "history_row list"

definition text_of :: "string option \<Rightarrow> string" where
  "text_of t = (case t of None \<Rightarrow> [] | Some s \<Rightarrow> s)"

definition no_share_resource_codes :: "reco_data \<Rightarrow> string list" where
  "no_share_resource_codes d =
     remdups (map rs_code (filter (\<lambda>a. share_type_int (share_type_from_mapping (py_or (rs_access a) (JObj []))) = Some share_type_closed \<and>
       rs_code a \<noteq> []) (rd_assets d)))"

definition reco_item_key :: "reco_item \<Rightarrow> string" where
  "reco_item_key i = (if ri_catalog i = [] then ri_id i else ri_catalog i)"

definition item_closed :: "string list \<Rightarrow> reco_item \<Rightarrow> bool" where
  "item_closed secret i \<longleftrightarrow> text_of (ri_resource i) \<noteq> [] \<and> text_of (ri_resource i) \<in> set secret"

definition history_closed :: "string list \<Rightarrow> history_row \<Rightarrow> bool" where
  "history_closed secret h \<longleftrightarrow> text_of (hr_catalog h) \<noteq> [] \<and> text_of (hr_resource h) \<noteq> [] \<and>
     text_of (hr_resource h) \<in> set secret"

definition excluded_catalog_ids :: "reco_data \<Rightarrow> string list" where
  "excluded_catalog_ids d =
     (let secret = no_share_resource_codes d
      in if secret = [] then []
         else map reco_item_key (filter (item_closed secret) (rd_items d)) @
              map (\<lambda>h. text_of (hr_catalog h)) (filter (history_closed secret) (rd_histories d)))"

definition history_of :: "reco_data \<Rightarrow> string \<Rightarrow> history_row list" where
  "history_of d cid = filter (\<lambda>h. hr_catalog h = Some cid) (rd_histories d)"

definition history_catalogs :: "reco_data \<Rightarrow> string list" where
  "history_catalogs d = filter (\<lambda>c. c \<noteq> []) (map (\<lambda>h. text_of (hr_catalog h)) (rd_histories d))"

section \<open>Candidates\<close>

definition add_item :: "string list \<Rightarrow> (string \<times> string) list \<Rightarrow> reco_item \<Rightarrow> (string \<times> string) list" where
  "add_item excluded pool i =
     (if reco_item_key i \<in> set excluded then pool
      else dset pool (reco_item_key i) (if ri_title i = [] then ri_catalog i else ri_title i))"

definition add_history :: "reco_data \<Rightarrow> string list \<Rightarrow> (string \<times> string) list \<Rightarrow> string \<Rightarrow> (string \<times> string) list" where
  "add_history d excluded pool cid =
     (if cid \<in> set excluded \<or> cid \<in> fst ` set pool then pool
      else case history_of d cid of [] \<Rightarrow> pool | h # _ \<Rightarrow> pool @ [(cid, hr_name h)])"

definition candidate_pool :: "reco_data \<Rightarrow> (string \<times> string) list" where
  "candidate_pool d =
     (let excluded = excluded_catalog_ids d
      in foldl (add_history d excluded) (foldl (add_item excluded) [] (rd_items d)) (history_catalogs d))"

section \<open>Scores\<close>

record candidate =
  cd_catalog :: string
  cd_title :: string
  cd_score :: py_float
  cd_hits :: "json list"
  cd_histories :: "string list"

record reco_query =
  rq_float :: to_float
  rq_round :: "rat \<Rightarrow> py_float"
  rq_order :: "candidate list \<Rightarrow> candidate list"
  rq_letter :: "string \<Rightarrow> bool"
  rq_intent :: "string list"
  rq_org :: string

text \<open>\<^verbatim>\<open>for k in payload.get(name, [])\<close>, as texts.\<close>

definition text_list :: "dict \<Rightarrow> string \<Rightarrow> py_error + json list" where
  "text_list payload k =
     (case dget_or payload k (JList []) of
        JList xs \<Rightarrow> Inr xs
      | JStr s \<Rightarrow> Inr (map JStr (utf8_chars s))
      | JObj d \<Rightarrow> Inr (map (\<lambda>(k, _). JStr k) d)
      | _ \<Rightarrow> Inl TypeError)"

definition word_clause_hits :: "reco_query \<Rightarrow> string list \<Rightarrow> json list \<Rightarrow> bool" where
  "word_clause_hits q title words \<longleftrightarrow>
     list_ex (\<lambda>k. truthy k \<and> (let ts = tokenize (rq_letter q) (lower (py_str k)) in meets ts (rq_intent q) \<or> meets ts title)) words"

definition fuzzy_similarity :: "reco_query \<Rightarrow> string list \<Rightarrow> string list \<Rightarrow> py_float" where
  "fuzzy_similarity q title histories =
     (if rq_intent q = [] \<or> title = [] then Fin 0
      else foldl fmax (similarity_of (rq_round q) (rq_intent q) title)
        (map (similarity_of (rq_round q) (rq_intent q)) (filter (\<lambda>ts. ts \<noteq> []) (map (tokenize (rq_letter q)) histories))))"

definition clause_weight :: "clause_row \<Rightarrow> py_float" where
  "clause_weight c = (if cl_weight c = Fin 0 then Fin 1 else cl_weight c)"

text \<open>What a clause adds to the score, when it is hit. Without histories a count is 0.\<close>

definition clause_delta :: "reco_query \<Rightarrow> string \<Rightarrow> string list \<Rightarrow> clause_row \<Rightarrow> py_error + py_float option" where
  "clause_delta q title names c =
     (let w = clause_weight c; kind = cl_kind c; title_tokens = tokenize (rq_letter q) title
      in case py_or (cl_payload c) (JObj []) of
           JObj payload \<Rightarrow>
             if kind = JStr ''keyword_match'' then
               bindE (text_list payload ''keywords'') (\<lambda>ks.
                 Inr (if word_clause_hits q title_tokens ks then Some w else None))
             else if kind = JStr ''category_match'' then
               bindE (text_list payload ''categories'') (\<lambda>cs.
                 let category = py_str (dget_or payload ''catalog_category_hint'' (JStr title))
                 in Inr (if list_ex (\<lambda>k. contains (py_str k) category) cs then Some w else None))
             else if kind = JStr ''org_affinity'' then
               bindE (text_list payload ''orgs'') (\<lambda>os.
                 Inr (if rq_org q \<noteq> [] \<and> rq_org q \<in> py_str ` set os then Some w else None))
             else if kind = JStr ''usage_frequency'' then
               bindE (case map_of payload ''scale'' of None \<Rightarrow> Inr (rq_round q (1 / 5)) | Some v \<Rightarrow> rq_float q v) (\<lambda>scale.
               bindE (case py_int (dget_or payload ''min_count'' (JInt 1)) of
                        Some i \<Rightarrow> Inr i | None \<Rightarrow> Inl ValueError) (\<lambda>least.
                 Inr (if least \<le> int (length names) then Some (fmul (rq_round q) (fmul (rq_round q) w scale) (rq_round q (of_nat (length names)))) else None)))
             else if kind = JStr ''fuzzy_text'' then
               (let s = fuzzy_similarity q title_tokens names in Inr (if flt (Fin 0) s then Some (fmul (rq_round q) w s) else None))
             else if kind = JStr ''negative_filter'' then
               bindE (text_list payload ''blockers'') (\<lambda>bs.
                 Inr (if word_clause_hits q title_tokens bs then Some (fneg w) else None))
             else Inr None
         | _ \<Rightarrow> Inl AttributeError)"

definition add_delta :: "reco_query \<Rightarrow> string \<Rightarrow> string list \<Rightarrow> py_float \<times> json list \<Rightarrow> clause_row \<Rightarrow> py_error + py_float \<times> json list" where
  "add_delta q title names st c =
     bindE (clause_delta q title names c) (\<lambda>delta.
       Inr (case delta of None \<Rightarrow> st | Some d \<Rightarrow> (fadd (rq_round q) (fst st) d, snd st @ [cl_code c])))"

definition score_catalog :: "reco_query \<Rightarrow> string \<Rightarrow> string list \<Rightarrow> clause_row list \<Rightarrow> py_error + py_float \<times> json list" where
  "score_catalog q title names clauses = forE (add_delta q title names) (Fin 0, []) clauses"

definition add_candidate ::
    "reco_query \<Rightarrow> reco_data \<Rightarrow> clause_row list \<Rightarrow> candidate list \<Rightarrow> string \<times> string \<Rightarrow> py_error + candidate list" where
  "add_candidate q d clauses found e =
     (case e of (cid, title) \<Rightarrow>
        bindE (score_catalog q title (map hr_name (history_of d cid)) clauses) (\<lambda>(score, hits).
          Inr (if fle score (Fin 0) then found
               else found @ [\<lparr>cd_catalog = cid, cd_title = title, cd_score = score, cd_hits = hits,
                              cd_histories = map hr_id (history_of d cid)\<rparr>])))"

definition live_clauses :: "rule_db \<Rightarrow> string \<Rightarrow> clause_row list" where
  "live_clauses db tenant = filter (\<lambda>c. cl_rule c \<in> fs_id ` set (list_live db tenant)) (tdb_children db)"

text \<open>\<^verbatim>\<open>xs[:n]\<close>: a negative bound cuts at the end.\<close>

definition first_n :: "int \<Rightarrow> 'a list \<Rightarrow> 'a list" where
  "first_n n xs = (if n < 0 then take (length xs - nat (- n)) xs else take (nat n) xs)"

text \<open>By falling score. Where a score is no number no order is promised: only the same candidates come back.\<close>

definition ranked :: "(candidate list \<Rightarrow> candidate list) \<Rightarrow> candidate list \<Rightarrow> candidate list" where
  "ranked order cs =
     (if list_all (\<lambda>c. cd_score c \<noteq> NaN) cs then sort_key (\<lambda>c. fneg (cd_score c)) cs
      else if mset (order cs) = mset cs then order cs else cs)"

definition suggest ::
    "py_float \<Rightarrow> reco_query \<Rightarrow> rule_db \<Rightarrow> string \<Rightarrow> reco_data \<Rightarrow> int \<Rightarrow> py_error + candidate list" where
  "suggest threshold q db tenant d top_k =
     (if list_live db tenant = [] then Inr []
      else bindE (forE (add_candidate q d (live_clauses db tenant)) [] (candidate_pool d)) (\<lambda>found.
             Inr (case ranked (rq_order q) found of
                    [] \<Rightarrow> []
                  | best # _ \<Rightarrow> if flt (cd_score best) threshold then [] else first_n top_k (ranked (rq_order q) found))))"

section \<open>The skill\<close>

record submission_row =
  sb_id :: string
  sb_tenant :: string
  sb_by :: string
  sb_intent :: string
  sb_kind :: string
  sb_target :: "string option"
  sb_candidates :: "candidate list"

record reco_sys =
  rx_rules :: rule_db
  rx_data :: "string \<Rightarrow> reco_data"
  rx_submissions :: "submission_row list"
  rx_next :: nat

definition add_submission ::
    "(nat \<Rightarrow> string) \<Rightarrow> string \<Rightarrow> string \<Rightarrow> string \<Rightarrow> string \<Rightarrow> string option \<Rightarrow> candidate list \<Rightarrow> reco_sys \<Rightarrow> string \<times> reco_sys" where
  "add_submission uuid tenant by intent kind target cs s =
     (let i = uuid (rx_next s)
      in (i, s\<lparr>rx_submissions := rx_submissions s @
                [\<lparr>sb_id = i, sb_tenant = tenant, sb_by = by, sb_intent = intent, sb_kind = kind, sb_target = target, sb_candidates = cs\<rparr>],
              rx_next := Suc (rx_next s)\<rparr>))"

definition register_manual_requirement ::
    "(nat \<Rightarrow> string) \<Rightarrow> string \<Rightarrow> string \<Rightarrow> string \<Rightarrow> reco_sys \<Rightarrow> string \<times> reco_sys" where
  "register_manual_requirement uuid tenant by intent = add_submission uuid tenant by intent ''manual_requirement'' None []"

definition record_recommended_pick ::
    "(nat \<Rightarrow> string) \<Rightarrow> string \<Rightarrow> string \<Rightarrow> string \<Rightarrow> candidate list \<Rightarrow> string \<Rightarrow> reco_sys \<Rightarrow> string \<times> reco_sys" where
  "record_recommended_pick uuid tenant by intent cs picked =
     add_submission uuid tenant by intent ''recommended_pick'' (Some picked) cs"

record suggestion =
  sg_candidates :: "candidate list"
  sg_fallback :: bool
  sg_manual :: "string option"

definition suggest_query ::
    "to_float \<Rightarrow> (rat \<Rightarrow> py_float) \<Rightarrow> (candidate list \<Rightarrow> candidate list) \<Rightarrow> (string \<Rightarrow> bool) \<Rightarrow> dict \<Rightarrow> reco_query" where
  "suggest_query fl r order letter payload =
     \<lparr>rq_float = fl, rq_round = r, rq_order = order, rq_letter = letter, rq_intent = tokenize letter (text_arg payload ''intent_text''),
      rq_org = strip_blanks (case dget payload ''intent_org'' of JStr s \<Rightarrow> s | _ \<Rightarrow> [])\<rparr>"

definition top_k_of :: "dict \<Rightarrow> py_error + int" where
  "top_k_of payload =
     (case py_int (py_or (dget payload ''top_k'') (JInt 5)) of Some i \<Rightarrow> Inr i | None \<Rightarrow> Inl ValueError)"

definition suggest_skill ::
    "to_float \<Rightarrow> (rat \<Rightarrow> py_float) \<Rightarrow> (candidate list \<Rightarrow> candidate list) \<Rightarrow> (string \<Rightarrow> bool) \<Rightarrow> (nat \<Rightarrow> string) \<Rightarrow> dict \<Rightarrow> reco_sys \<Rightarrow> py_error + suggestion \<times> reco_sys" where
  "suggest_skill fl r order letter uuid payload s =
     (let tenant = text_arg payload ''tenant_id''; intent = text_arg payload ''intent_text''; by = text_arg payload ''submitted_by''
      in bindE (guardE (tenant \<noteq> [] \<and> intent \<noteq> [] \<and> by \<noteq> []) ValueError) (\<lambda>_.
         bindE (top_k_of payload) (\<lambda>top_k.
         bindE (suggest (r (1 / 10)) (suggest_query fl r order letter payload) (rx_rules s) tenant (rx_data s tenant) top_k) (\<lambda>cs.
           Inr (if cs = [] \<and> truthy (dget payload ''fallback_register'')
                then (case register_manual_requirement uuid tenant by intent s of
                        (i, s') \<Rightarrow> (\<lparr>sg_candidates = cs, sg_fallback = True, sg_manual = Some i\<rparr>, s'))
                else (\<lparr>sg_candidates = cs, sg_fallback = (cs = []), sg_manual = None\<rparr>, s))))))"

end
