(* ===== verification/RecoSafe.thy ===== *)
theory RecoSafe
  imports RecoEngine
begin

text \<open>
  What the recommendation engine promises: no catalogue that leads to data not to be shared is suggested, the
  suggestions are the best scores in order as long as the scores are numbers, and publishing a rule again leaves the old version counting.
\<close>

section \<open>The pool\<close>

definition closed_asset :: "reco_asset \<Rightarrow> bool" where
  "closed_asset a \<longleftrightarrow> share_type_int (share_type_from_mapping (py_or (rs_access a) (JObj []))) = Some share_type_closed \<and>
     rs_code a \<noteq> []"

definition leads_to_closed :: "reco_data \<Rightarrow> string \<Rightarrow> bool" where
  "leads_to_closed d cid \<longleftrightarrow>
     list_ex (\<lambda>a. closed_asset a \<and>
       (list_ex (\<lambda>i. reco_item_key i = cid \<and> ri_resource i = Some (rs_code a)) (rd_items d) \<or>
        cid \<noteq> [] \<and> list_ex (\<lambda>h. hr_catalog h = Some cid \<and> hr_resource h = Some (rs_code a)) (rd_histories d))) (rd_assets d)"

lemma closed_codes: "set (no_share_resource_codes d) = rs_code ` {a \<in> set (rd_assets d). closed_asset a}"
  by (auto simp: no_share_resource_codes_def closed_asset_def)

lemma closed_is_excluded:
  assumes "leads_to_closed d cid"
  shows "cid \<in> set (excluded_catalog_ids d)"
proof -
  obtain a where a: "a \<in> set (rd_assets d)" "closed_asset a" and link:
      "(\<exists>i \<in> set (rd_items d). reco_item_key i = cid \<and> ri_resource i = Some (rs_code a)) \<or>
       (cid \<noteq> [] \<and> (\<exists>h \<in> set (rd_histories d). hr_catalog h = Some cid \<and> hr_resource h = Some (rs_code a)))"
    using assms by (auto simp: leads_to_closed_def list_ex_iff)
  have code: "rs_code a \<in> set (no_share_resource_codes d)" "rs_code a \<noteq> []"
    using a by (auto simp: closed_codes closed_asset_def)
  then have "no_share_resource_codes d \<noteq> []" by auto
  then have out: "set (excluded_catalog_ids d) =
      reco_item_key ` {i \<in> set (rd_items d). item_closed (no_share_resource_codes d) i} \<union>
      (\<lambda>h. text_of (hr_catalog h)) ` {h \<in> set (rd_histories d). history_closed (no_share_resource_codes d) h}"
    by (simp add: excluded_catalog_ids_def Let_def)
  from link show ?thesis
  proof (elim disjE bexE conjE)
    fix i assume i: "i \<in> set (rd_items d)" "reco_item_key i = cid" "ri_resource i = Some (rs_code a)"
    then have "item_closed (no_share_resource_codes d) i" using code by (simp add: item_closed_def text_of_def)
    then show ?thesis unfolding out using i by blast
  next
    fix h assume h: "cid \<noteq> []" "h \<in> set (rd_histories d)" "hr_catalog h = Some cid" "hr_resource h = Some (rs_code a)"
    then have "history_closed (no_share_resource_codes d) h" "text_of (hr_catalog h) = cid"
      using code by (simp_all add: history_closed_def text_of_def)
    then show ?thesis unfolding out using h(2) by blast
  qed
qed

lemma items_pool:
  assumes "fst ` set pool \<inter> set excluded = {}" and "distinct (map fst pool)"
  shows "fst ` set (foldl (add_item excluded) pool items) \<inter> set excluded = {} \<and>
    distinct (map fst (foldl (add_item excluded) pool items))"
  using assms
proof (induction items arbitrary: pool)
  case (Cons i items)
  have "fst ` set (add_item excluded pool i) \<inter> set excluded = {} \<and> distinct (map fst (add_item excluded pool i))"
    using Cons.prems by (simp add: add_item_def distinct_dset)
  then show ?case using Cons.IH by simp
qed simp

lemma histories_pool:
  assumes "fst ` set pool \<inter> set excluded = {}" and "distinct (map fst pool)"
  shows "fst ` set (foldl (add_history d excluded) pool cids) \<inter> set excluded = {} \<and>
    distinct (map fst (foldl (add_history d excluded) pool cids))"
  using assms
proof (induction cids arbitrary: pool)
  case (Cons c cids)
  have "fst ` set (add_history d excluded pool c) \<inter> set excluded = {} \<and> distinct (map fst (add_history d excluded pool c))"
    using Cons.prems by (auto simp: add_history_def split: list.split)
  then show ?case using Cons.IH by simp
qed simp

lemma candidate_pool_ok:
  "fst ` set (candidate_pool d) \<inter> set (excluded_catalog_ids d) = {} \<and> distinct (map fst (candidate_pool d))"
proof -
  have "fst ` set (foldl (add_item (excluded_catalog_ids d)) [] (rd_items d)) \<inter> set (excluded_catalog_ids d) = {} \<and>
      distinct (map fst (foldl (add_item (excluded_catalog_ids d)) [] (rd_items d)))"
    by (rule items_pool) simp_all
  then show ?thesis
    unfolding candidate_pool_def Let_def by (intro histories_pool) blast+
qed

section \<open>The candidates\<close>

definition score_of :: "reco_query \<Rightarrow> reco_data \<Rightarrow> clause_row list \<Rightarrow> string \<times> string \<Rightarrow> py_float \<times> json list" where
  "score_of q d clauses e =
     (case score_catalog q (snd e) (map hr_name (history_of d (fst e))) clauses of Inl _ \<Rightarrow> (Fin 0, []) | Inr r \<Rightarrow> r)"

definition candidate_of :: "reco_query \<Rightarrow> reco_data \<Rightarrow> clause_row list \<Rightarrow> string \<times> string \<Rightarrow> candidate" where
  "candidate_of q d clauses e =
     \<lparr>cd_catalog = fst e, cd_title = snd e, cd_score = fst (score_of q d clauses e), cd_hits = snd (score_of q d clauses e),
      cd_histories = map hr_id (history_of d (fst e))\<rparr>"

lemma candidates_found:
  "forE (add_candidate q d clauses) found pool = Inr cs \<Longrightarrow>
   cs = found @ map (candidate_of q d clauses) (filter (\<lambda>e. \<not> fle (fst (score_of q d clauses e)) (Fin 0)) pool)"
proof (induction pool arbitrary: found)
  case (Cons e pool)
  obtain cid title where e: "e = (cid, title)" by force
  obtain found' where step: "add_candidate q d clauses found e = Inr found'"
      and rest: "forE (add_candidate q d clauses) found' pool = Inr cs"
    using Cons.prems by (auto simp: bindE_Inr_iff)
  have "found' = found @ (if \<not> fle (fst (score_of q d clauses e)) (Fin 0) then [candidate_of q d clauses e] else [])"
    using step by (auto simp: e add_candidate_def score_of_def candidate_of_def bindE_Inr_iff split: if_splits)
  then show ?case using Cons.IH [OF rest] by simp
qed simp

lemma suggest_cases:
  assumes "suggest threshold q db tenant d top_k = Inr cs" and "cs \<noteq> []"
  obtains found where
    "found = map (candidate_of q d (live_clauses db tenant))
       (filter (\<lambda>e. \<not> fle (fst (score_of q d (live_clauses db tenant) e)) (Fin 0)) (candidate_pool d))"
    "ranked (rq_order q) found \<noteq> []" "\<not> flt (cd_score (hd (ranked (rq_order q) found))) threshold"
    "cs = first_n top_k (ranked (rq_order q) found)"
proof -
  obtain found where f: "forE (add_candidate q d (live_clauses db tenant)) [] (candidate_pool d) = Inr found"
      "cs = (case ranked (rq_order q) found of [] \<Rightarrow> []
         | best # _ \<Rightarrow> if flt (cd_score best) threshold then [] else first_n top_k (ranked (rq_order q) found))"
    using assms by (auto simp: suggest_def bindE_Inr_iff split: if_splits)
  show thesis
    using f(2) assms(2) candidates_found [OF f(1)] by (intro that [of found]) (auto split: list.splits if_splits)
qed

lemma first_n_prefix: "\<exists>m. first_n k xs = take m xs \<and> (0 \<le> k \<longrightarrow> m = nat k)"
  by (auto simp: first_n_def)

lemma mset_ranked [simp]: "mset (ranked order cs) = mset cs"
  by (simp add: ranked_def)

lemma set_ranked [simp]: "set (ranked order cs) = set cs"
  by (rule mset_eq_setD) simp

lemma suggested_member:
  assumes "suggest threshold q db tenant d top_k = Inr cs" and "c \<in> set cs"
  shows "\<exists>e \<in> set (candidate_pool d). c = candidate_of q d (live_clauses db tenant) e \<and>
    \<not> fle (fst (score_of q d (live_clauses db tenant) e)) (Fin 0)"
proof -
  have "cs \<noteq> []" using assms(2) by auto
  from suggest_cases [OF assms(1) this] obtain found where found:
      "found = map (candidate_of q d (live_clauses db tenant))
         (filter (\<lambda>e. \<not> fle (fst (score_of q d (live_clauses db tenant) e)) (Fin 0)) (candidate_pool d))"
      "cs = first_n top_k (ranked (rq_order q) found)" by blast
  have "c \<in> set found" using assms(2) first_n_prefix [of top_k "ranked (rq_order q) found"] found(2) set_take_subset by fastforce
  then show ?thesis using found(1) by auto
qed

section \<open>What is suggested\<close>

text \<open>C31: a suggested catalogue never leads to data not to be shared: no resource of share type 3 is the one a
  catalogue row of that code, or a past requirement for it, names.\<close>

theorem closed_catalogues_never_suggested:
  assumes "suggest threshold q db tenant d top_k = Inr cs" and "c \<in> set cs"
  shows "\<not> leads_to_closed d (cd_catalog c)"
proof
  assume "leads_to_closed d (cd_catalog c)"
  then have "cd_catalog c \<in> set (excluded_catalog_ids d)" by (rule closed_is_excluded)
  moreover from suggested_member [OF assms] have "cd_catalog c \<in> fst ` set (candidate_pool d)"
    by (force simp: candidate_of_def)
  ultimately show False using candidate_pool_ok [of d] by blast
qed

lemma ranked_order:
  "list_all (\<lambda>c. cd_score c \<noteq> NaN) cs \<Longrightarrow> sorted (map (\<lambda>c. fneg (cd_score c)) (ranked order cs))"
  by (simp add: ranked_def)

lemma take_before:
  assumes "sorted (map f xs)" and "x \<in> set xs" and "x \<notin> set (take m xs)" and "y \<in> set (take m xs)"
  shows "f y \<le> f x"
proof -
  have "x \<in> set (drop m xs)" using assms(2,3) by (metis Un_iff append_take_drop_id set_append)
  moreover have "sorted (map f (take m xs @ drop m xs))" using assms(1) by simp
  ultimately show ?thesis using assms(4) unfolding map_append sorted_append by auto
qed

text \<open>C32: the suggestions are at most \<^verbatim>\<open>top_k\<close> different catalogues of the pool, none with a score of 0
  or below, the best of them not below the threshold; and as long as the scores of the pool are numbers (a rule can
  give one that is not), they come in falling order, and a catalogue of the pool that scores and is left out scores
  no better than any that is suggested.\<close>

theorem suggestions_are_the_best:
  assumes "suggest threshold q db tenant d top_k = Inr cs" and "0 \<le> top_k" and "cs \<noteq> []"
  defines "score \<equiv> \<lambda>e. fst (score_of q d (live_clauses db tenant) e)"
  shows "length cs \<le> nat top_k \<and> distinct (map cd_catalog cs) \<and> \<not> flt (cd_score (hd cs)) threshold \<and>
    (\<forall>c \<in> set cs. \<exists>e \<in> set (candidate_pool d). cd_catalog c = fst e \<and> cd_score c = score e \<and> \<not> fle (score e) (Fin 0)) \<and>
    ((\<forall>e \<in> set (candidate_pool d). score e \<noteq> NaN) \<longrightarrow>
      sorted_wrt (\<lambda>a b. fle (cd_score b) (cd_score a)) cs \<and>
      (\<forall>c \<in> set cs. \<forall>e \<in> set (candidate_pool d).
         flt (Fin 0) (score e) \<and> fst e \<notin> cd_catalog ` set cs \<longrightarrow> fle (score e) (cd_score c)))"
proof -
  from suggest_cases [OF assms(1,3)] obtain found where found:
      "found = map (candidate_of q d (live_clauses db tenant)) (filter (\<lambda>e. \<not> fle (score e) (Fin 0)) (candidate_pool d))"
      "\<not> flt (cd_score (hd (ranked (rq_order q) found))) threshold" "cs = first_n top_k (ranked (rq_order q) found)"
    unfolding score_def by blast
  let ?all = "ranked (rq_order q) found"
  have cs: "cs = take (nat top_k) ?all" using found(3) assms(2) by (simp add: first_n_def)
  have short: "length cs \<le> nat top_k" unfolding cs by simp
  have "map cd_catalog found = map fst (filter (\<lambda>e. \<not> fle (score e) (Fin 0)) (candidate_pool d))"
    by (simp add: found(1) candidate_of_def comp_def)
  then have "distinct (map cd_catalog found)"
    using candidate_pool_ok [of d] by (simp add: distinct_map_filter)
  moreover have "mset (map cd_catalog ?all) = mset (map cd_catalog found)" by simp
  ultimately have "distinct (map cd_catalog ?all)" by (metis mset_eq_imp_distinct_iff)
  then have different: "distinct (map cd_catalog cs)" unfolding cs take_map [symmetric] by (rule distinct_take)
  have "hd cs = hd ?all" using assms(3) unfolding cs by (cases ?all; cases "nat top_k") auto
  then have best: "\<not> flt (cd_score (hd cs)) threshold" using found(2) by simp
  have source: "\<exists>e \<in> set (candidate_pool d). cd_catalog c = fst e \<and> cd_score c = score e \<and> \<not> fle (score e) (Fin 0)"
    if "c \<in> set cs" for c
    using suggested_member [OF assms(1) that] unfolding score_def
    by (elim bexE, intro bexI) (simp_all add: candidate_of_def)
  have ordered: "sorted_wrt (\<lambda>a b. fle (cd_score b) (cd_score a)) cs \<and>
      (\<forall>c \<in> set cs. \<forall>e \<in> set (candidate_pool d).
         flt (Fin 0) (score e) \<and> fst e \<notin> cd_catalog ` set cs \<longrightarrow> fle (score e) (cd_score c))"
    if numbers: "\<forall>e \<in> set (candidate_pool d). score e \<noteq> NaN"
  proof -
    have nums: "cd_score c \<noteq> NaN" if "c \<in> set cs" for c using source [OF that] numbers by auto
    have "list_all (\<lambda>c. cd_score c \<noteq> NaN) found"
      using numbers by (auto simp: found(1) list_all_iff candidate_of_def score_def)
    then have order: "sorted (map (\<lambda>c. fneg (cd_score c)) ?all)" by (rule ranked_order)
    then have "sorted (map (\<lambda>c. fneg (cd_score c)) cs)"
      unfolding cs take_map [symmetric] by (intro sorted_wrt_take)
    then have falling: "sorted_wrt (\<lambda>a b. fle (cd_score b) (cd_score a)) cs"
      unfolding sorted_map by (rule sorted_wrt_mono_rel [rotated]) (simp add: nums fneg_falls)
    have "fle (score e) (cd_score c)"
      if e: "e \<in> set (candidate_pool d)" "fst e \<notin> cd_catalog ` set cs" "flt (Fin 0) (score e)" and c: "c \<in> set cs" for e c
    proof -
      let ?x = "candidate_of q d (live_clauses db tenant) e"
      have "\<not> fle (score e) (Fin 0)" using e(3) numbers e(1) by (simp add: fle_iff_not_flt)
      then have "?x \<in> set ?all" using e by (simp add: found(1))
      moreover have "?x \<notin> set cs" using e(2) by (force simp: candidate_of_def)
      ultimately have "fneg (cd_score c) \<le> fneg (cd_score ?x)"
        using take_before [OF order, of ?x "nat top_k" c] c unfolding cs by blast
      then show ?thesis
        using nums [OF c] numbers e(1) by (simp add: candidate_of_def score_def fneg_falls)
    qed
    then show ?thesis using falling by blast
  qed
  show ?thesis using short different best source ordered by blast
qed

definition sample_float :: to_float where
  "sample_float v = (case v of JInt i \<Rightarrow> Inr (Fin (of_int i)) | JStr t \<Rightarrow> if t = ''nan'' then Inr NaN else Inl ValueError | _ \<Rightarrow> Inl ValueError)"

definition sample_rule :: json where
  "sample_rule = JObj [(''clauses'', JList [JObj [(''clause_code'', JStr ''k''), (''clause_kind'', JStr ''keyword_match''),
     (''clause_payload_json'', JObj [(''keywords'', JList [JStr ''food''])]), (''weight'', JInt 1)]])]"

definition sample_rule_db :: rule_db where
  "sample_rule_db = \<lparr>tdb_rows = [\<lparr>fs_id = ''r0'', fs_tenant = ''t'', fs_code = ''rule'', fs_title = ''Rule'', fs_status = ''live'',
     fs_version = 2, fs_source_kind = ''manual'', fs_source_text = None, fs_payload = sample_rule, fs_created_by = ''u'',
     fs_created_at = 1, fs_updated_at = 2, fs_committed_at = Some 2\<rparr>],
     tdb_children = [\<lparr>cl_rule = ''r0'', cl_code = JStr ''k'', cl_kind = JStr ''keyword_match'',
       cl_payload = JObj [(''keywords'', JList [JStr ''food''])], cl_weight = Fin 1, cl_order = JInt 0\<rparr>],
     tdb_next = 1\<rparr>"

definition sample_query :: reco_query where
  "sample_query = \<lparr>rq_float = sample_float, rq_round = Fin, rq_order = id, rq_letter = (\<lambda>_. False), rq_intent = tokenize (\<lambda>_. False) ''Food'', rq_org = []\<rparr>"

definition sample_data :: reco_data where
  "sample_data = \<lparr>rd_items = [\<lparr>ri_id = ''i1'', ri_catalog = ''open'', ri_resource = None, ri_title = ''food shops''\<rparr>,
       \<lparr>ri_id = ''i2'', ri_catalog = ''shut'', ri_resource = Some ''res'', ri_title = ''food reports''\<rparr>],
     rd_assets = [\<lparr>rs_code = ''res'', rs_access = JObj [(''share_type'', JInt 3)]\<rparr>], rd_histories = []\<rparr>"

definition sample_candidate :: candidate where
  "sample_candidate = \<lparr>cd_catalog = ''open'', cd_title = ''food shops'', cd_score = Fin 1, cd_hits = [JStr ''k''], cd_histories = []\<rparr>"

lemma sample_suggestions: "suggest (Fin (1 / 10)) sample_query sample_rule_db ''t'' sample_data 5 = Inr [sample_candidate]"
  by code_simp

lemma closed_catalogues_never_suggested_witness:
  "leads_to_closed sample_data ''shut'' \<and> \<not> leads_to_closed sample_data (cd_catalog sample_candidate)"
proof
  show "leads_to_closed sample_data ''shut''" by code_simp
  show "\<not> leads_to_closed sample_data (cd_catalog sample_candidate)"
    by (rule closed_catalogues_never_suggested [OF sample_suggestions]) simp
qed

lemma suggestions_are_the_best_witness:
  "length [sample_candidate] \<le> nat 5 \<and> fle (Fin (1 / 10)) (cd_score (hd [sample_candidate]))"
proof -
  have "cd_score sample_candidate \<noteq> NaN" by (simp add: sample_candidate_def)
  then show ?thesis using suggestions_are_the_best [OF sample_suggestions] by (simp add: fle_iff_not_flt)
qed

text \<open>A weight of \<^verbatim>\<open>"nan"\<close> passes the validation of a rule, and the catalogue it gives its score is suggested
  whatever the threshold.\<close>

definition nan_rule :: json where
  "nan_rule = JObj [(''clauses'', JList [JObj [(''clause_code'', JStr ''k''), (''clause_kind'', JStr ''keyword_match''),
     (''clause_payload_json'', JObj [(''keywords'', JList [JStr ''food''])]), (''weight'', JStr ''nan'')]])]"

definition nan_rule_db :: rule_db where
  "nan_rule_db = sample_rule_db\<lparr>tdb_children := map (\<lambda>c. c\<lparr>cl_weight := NaN\<rparr>) (tdb_children sample_rule_db)\<rparr>"

lemma nan_weight_is_suggested:
  "validate_rule_payload sample_float nan_rule = Inr ()"
  "suggest (Fin 1000) sample_query nan_rule_db ''t'' sample_data 5 = Inr [sample_candidate\<lparr>cd_score := NaN\<rparr>]"
  by code_simp+

section \<open>Publishing again\<close>

lemma ruleA_Inr: "ruleA f s = (Inr r, t) \<longleftrightarrow> (\<exists>db. f (ru_db s) = Inr (r, db) \<and> t = s\<lparr>ru_db := db\<rparr>)"
  by (auto simp: ruleA_def split: sum.splits)

lemma fold_max_le: "v \<le> m \<Longrightarrow> (\<And>x. x \<in> set vs \<Longrightarrow> x \<le> m) \<Longrightarrow> fold max vs v \<le> (m :: int)"
  by (induction vs arbitrary: v) auto

lemma max_version_le:
  assumes "\<And>r. r \<in> set rows \<Longrightarrow> match r \<Longrightarrow> ver r \<le> m" and "x \<in> set rows" and "match x"
  shows "max_version ver match rows \<le> m"
proof (cases "filter match rows")
  case (Cons y ys)
  have "ver z \<le> m" if "z \<in> set (y # ys)" for z using that assms(1) unfolding Cons [symmetric] by simp
  then show ?thesis unfolding max_version_def Cons by (auto intro!: fold_max_le)
qed (use assms(2,3) in \<open>simp add: filter_empty_conv\<close>)

lemma latest_is_highest:
  assumes "latest_by_code db tenant code = Some old"
  shows "old \<in> set (tdb_rows db)" and "fs_tenant old = tenant" and "fs_code old = code"
    and "max_version fs_version (same_code tenant code) (tdb_rows db) = fs_version old"
proof -
  let ?rows = "filter (same_code tenant code) (tdb_rows db)"
  obtain zs where zs: "rev (sort_key fs_version ?rows) = old # zs"
    using assms by (auto simp: latest_by_code_def split: list.splits)
  then have split: "sort_key fs_version ?rows = rev zs @ [old]" by (metis rev.simps(2) rev_rev_ident)
  then have "old \<in> set ?rows" by (metis in_set_conv_decomp set_sort)
  then show old: "old \<in> set (tdb_rows db)" "fs_tenant old = tenant" "fs_code old = code"
    by (auto simp: same_code_def)
  have "sorted (map fs_version (rev zs @ [old]))" unfolding split [symmetric] by simp
  then have top: "fs_version x \<le> fs_version old" if "x \<in> set ?rows" for x
    using that arg_cong [OF split, of set] by (auto simp: sorted_append)
  show "max_version fs_version (same_code tenant code) (tdb_rows db) = fs_version old"
  proof (rule antisym)
    show "fs_version old \<le> max_version fs_version (same_code tenant code) (tdb_rows db)"
      using \<open>old \<in> set ?rows\<close> by (intro max_version_upper) auto
    show "max_version fs_version (same_code tenant code) (tdb_rows db) \<le> fs_version old"
      using top \<open>old \<in> set ?rows\<close> by (intro max_version_le [of _ _ _ _ old]) auto
  qed
qed

lemma put_row_last: "idf r \<notin> idf ` set rows \<Longrightarrow> idf x = idf r \<Longrightarrow> put_row idf r (rows @ [x]) = rows @ [r]"
  by (induction rows) (auto simp: put_row_def)

lemma row_by_last: "idf x \<notin> idf ` set rows \<Longrightarrow> row_by idf (idf x) (rows @ [x]) = Some x"
  by (induction rows) (auto simp: row_by_def)

lemma rule_promote_last:
  assumes "rule_promote_to_preview fl now (fs_id r) db = Inr (r', db')" and "tdb_rows db = rows @ [r]"
    and "fs_id r \<notin> fs_id ` set rows"
  shows "r' = r\<lparr>fs_status := ''preview'', fs_updated_at := now\<rparr> \<and> tdb_rows db' = rows @ [r']"
  using assms
  by (auto simp: rule_promote_to_preview_def tpl_promote_def tpl_require_def tpl_update_def Let_def result_simps
      row_by_last put_row_last split: if_splits option.splits)

lemma rule_commit_last:
  assumes "rule_commit_to_live fl now (fs_id r) db = Inr (r', db')" and "tdb_rows db = rows @ [r]"
    and "fs_id r \<notin> fs_id ` set rows"
  shows "r' = r\<lparr>fs_status := ''live'', fs_version := tpl_live_version db r, fs_committed_at := Some now, fs_updated_at := now\<rparr> \<and>
    tdb_rows db' = rows @ [r']"
  using assms
  by (auto simp: rule_commit_to_live_def tpl_commit_def tpl_require_def tpl_update_def Let_def result_simps
      row_by_last put_row_last split: if_splits option.splits)

lemma rule_create_row:
  assumes "rule_create_draft fl uuid now a db = Inr (r, db')"
  shows "tdb_rows db' = tdb_rows db @ [r] \<and> fs_id r \<notin> fs_id ` set (tdb_rows db) \<and> fs_tenant r = da_tenant a \<and>
    fs_code r = da_code a \<and> fs_payload r = da_payload a \<and>
    fs_version r = max_version fs_version (same_code (da_tenant a) (da_code a)) (tdb_rows db) + 1"
  using assms
  by (auto simp: rule_create_draft_def tpl_create_def tpl_insert_def Let_def result_simps split: if_splits)

text \<open>publishing a rule again by its code, when its last version is live, makes a new live version two higher with
  the same payload and leaves the old one live, so that both count in every later suggestion.\<close>

lemma recommit_keeps_the_old_version_live:
  assumes "commit_rule c skill payload s = (Inr r, s')" and "text_arg payload ''rule_id'' = []"
    and "latest_by_code (ru_db s) (text_arg payload ''tenant_id'') (text_arg payload ''rule_code'') = Some old"
    and "fs_status old = ''live''" and "1 \<le> fs_version old"
  shows "{old, r} \<subseteq> set (list_live (ru_db s') (text_arg payload ''tenant_id'')) \<and> fs_id r \<noteq> fs_id old \<and>
    fs_code r = fs_code old \<and> fs_payload r = fs_payload old \<and> fs_version r = fs_version old + 2"
proof -
  let ?t = "text_arg payload ''tenant_id''" and ?k = "text_arg payload ''rule_code''"
  note old = latest_is_highest [OF assms(3)]
  obtain draft db1 pre db2 db3 where
      draft: "rule_create_draft (rc_float c) (rc_uuid c) (rc_now c) (reapply_args payload ?t ?k (rc_actor c) old) (ru_db s) =
        Inr (draft, db1)"
      and pre: "rule_promote_to_preview (rc_float c) (rc_now c) (fs_id draft) db1 = Inr (pre, db2)"
      and live: "rule_commit_to_live (rc_float c) (rc_now c) (fs_id draft) db2 = Inr (r, db3)" and db: "ru_db s' = db3"
    using assms(1-3)
    by (auto simp: commit_rule_def commit_target_def Let_def bindA_Inr_iff ruleA_Inr getA_def retA_def throwA_def modifyA_def
        split: if_splits)
  note d = rule_create_row [OF draft]
  have rows1: "tdb_rows db1 = tdb_rows (ru_db s) @ [draft]" and new: "fs_id draft \<notin> fs_id ` set (tdb_rows (ru_db s))"
    using d by blast+
  note p = rule_promote_last [OF pre rows1 new]
  have same: "fs_id pre = fs_id draft" using p by simp
  have rows2: "tdb_rows db2 = tdb_rows (ru_db s) @ [pre]" using p by blast
  note l = rule_commit_last [OF live [folded same] rows2, unfolded same, OF new]
  have version: "fs_version draft = fs_version old + 1" using d old(4) by (simp add: reapply_args_def Let_def)
  have code: "fs_tenant draft = ?t" "fs_code draft = ?k" "fs_payload draft = fs_payload old"
    using d by (simp_all add: reapply_args_def Let_def)
  have "max_version fs_version (same_code ?t ?k) (tdb_rows db2) = fs_version old + 1"
  proof (rule antisym)
    have fits: "same_code ?t ?k pre" "fs_version pre = fs_version old + 1" using p code version by (simp_all add: same_code_def)
    then show "fs_version old + 1 \<le> max_version fs_version (same_code ?t ?k) (tdb_rows db2)"
      using max_version_upper [of pre "tdb_rows db2" "same_code ?t ?k" fs_version] rows2 by simp
    show "max_version fs_version (same_code ?t ?k) (tdb_rows db2) \<le> fs_version old + 1"
      using fits max_version_upper [of _ "tdb_rows (ru_db s)" "same_code ?t ?k" fs_version] old(4) rows2
      by (intro max_version_le [of _ _ _ _ pre]) force+
  qed
  then have "tpl_live_version db2 pre = fs_version old + 2"
    using p code version assms(5) by (simp add: tpl_live_version_def)
  then have "fs_version r = fs_version old + 2" using l by simp
  then show ?thesis
    using l p code old new assms(4) db by (auto simp: list_live_def)
qed

definition sample_rule_sys :: rule_sys where
  "sample_rule_sys = \<lparr>ru_db = sample_rule_db, ru_feed = []\<rparr>"

definition sample_rule_call :: rule_call where
  "sample_rule_call = \<lparr>rc_float = sample_float, rc_uuid = (\<lambda>n. replicate (Suc n) CHR ''r''), rc_now = 7, rc_actor = ''u''\<rparr>"

definition sample_commit_payload :: dict where
  "sample_commit_payload = [(''tenant_id'', JStr ''t''), (''rule_code'', JStr ''rule'')]"

definition sample_old_rule :: flow_row where
  "sample_old_rule = hd (tdb_rows sample_rule_db)"

definition sample_recommit :: "(exn + flow_row) \<times> rule_sys" where
  "sample_recommit = commit_rule sample_rule_call ''commit'' sample_commit_payload sample_rule_sys"

lemma sample_recommit_runs:
  "case fst sample_recommit of Inl _ \<Rightarrow> False | Inr r \<Rightarrow> fs_version r = 4"
  by code_simp

end
