(* ===== verification/DeliveryRepo.thy ===== *)
theory DeliveryRepo
  imports CatalogRepo CardSession
begin

text \<open>
  \<^verbatim>\<open>domain/repositories/delivery.py\<close>: delivery tasks and their receipts, subscriptions, attempts, evidence and
  exchange metrics. The rows of a table are found by their key, so the surrogate keys are left out, except that of
  a receipt, which has no other. No caller of the running system passes the times of an attempt or of a capture.
\<close>

section \<open>Tables\<close>

record delivery_task =
  dt_tenant :: string
  dt_code :: string
  dt_application :: string
  dt_state :: string
  dt_channel :: string
  dt_payload :: dict
  dt_created :: nat
  dt_updated :: nat

record delivery_receipt_row =
  rp_id :: string
  rp_delivery :: string
  rp_type :: string
  rp_no :: "string option"
  rp_status :: string
  rp_payload :: json
  rp_issued :: nat
  rp_acknowledged :: "nat option"

record subscription_row =
  su_tenant :: string
  su_code :: string
  su_delivery :: string
  su_resource :: "string option"
  su_status :: string
  su_schedule :: json
  su_policy :: json
  su_snapshot :: json
  su_updated :: nat

record attempt_row =
  at_tenant :: string
  at_code :: string
  at_delivery :: string
  at_subscription :: "string option"
  at_kind :: string
  at_state :: string
  at_executor :: "string option"
  at_evidence :: "string option"
  at_payload :: json
  at_updated :: nat

record evidence_row =
  ee_tenant :: string
  ee_ref :: string
  ee_delivery :: "string option"
  ee_attempt :: "string option"
  ee_executor_kind :: string
  ee_executor :: "string option"
  ee_kind :: string
  ee_result :: string
  ee_payload :: json
  ee_captured :: nat

record metric_row =
  em_tenant :: string
  em_scope :: string
  em_resource :: "string option"
  em_delivery :: "string option"
  em_subscription :: "string option"
  em_provider :: "string option"
  em_consumer :: "string option"
  em_granularity :: string
  em_bucket :: string
  em_counts :: "int list"
  em_error :: "string option"
  em_summary :: json
  em_generated :: nat

record delivery_db =
  dv_tasks :: "delivery_task list"
  dv_receipts :: "delivery_receipt_row list"
  dv_subscriptions :: "subscription_row list"
  dv_attempts :: "attempt_row list"
  dv_evidence :: "evidence_row list"
  dv_metrics :: "metric_row list"
  dv_next :: nat

definition task_title_key :: "delivery_task \<Rightarrow> string \<times> string" where "task_title_key t = (dt_tenant t, dt_code t)"
definition subscription_key :: "subscription_row \<Rightarrow> string \<times> string" where "subscription_key r = (su_tenant r, su_code r)"
definition attempt_key :: "attempt_row \<Rightarrow> string \<times> string" where "attempt_key r = (at_tenant r, at_code r)"
definition evidence_key :: "evidence_row \<Rightarrow> string \<times> string" where "evidence_key r = (ee_tenant r, ee_ref r)"
definition metric_key :: "metric_row \<Rightarrow> string option list" where
  "metric_key r = [Some (em_tenant r), Some (em_scope r), em_resource r, em_delivery r, em_subscription r, em_provider r,
     em_consumer r, Some (em_granularity r), Some (em_bucket r)]"

definition found_row :: "('r \<Rightarrow> bool) \<Rightarrow> 'r list \<Rightarrow> exn + 'r option" where
  "found_row p rows = raiseE case_exn (one_or_none (filter p rows))"

section \<open>Queries\<close>

definition list_delivery_tasks :: "delivery_db \<Rightarrow> string \<Rightarrow> delivery_task list" where
  "list_delivery_tasks db tenant = sort_key dt_code (filter (\<lambda>t. dt_tenant t = tenant) (dv_tasks db))"

definition get_delivery_task :: "delivery_db \<Rightarrow> string \<Rightarrow> string \<Rightarrow> exn + delivery_task option" where
  "get_delivery_task db tenant code = found_row (\<lambda>t. task_title_key t = (tenant, code)) (dv_tasks db)"

definition get_task_by_application :: "delivery_db \<Rightarrow> string \<Rightarrow> string \<Rightarrow> exn + delivery_task option" where
  "get_task_by_application db tenant code =
     found_row (\<lambda>t. dt_tenant t = tenant \<and> dt_application t = code) (dv_tasks db)"

definition list_receipts :: "delivery_db \<Rightarrow> string \<Rightarrow> delivery_receipt_row list" where
  "list_receipts db code = sort_key rp_issued (filter (\<lambda>r. rp_delivery r = code) (dv_receipts db))"

definition list_subscriptions :: "delivery_db \<Rightarrow> string \<Rightarrow> string option \<Rightarrow> subscription_row list" where
  "list_subscriptions db tenant code =
     sort_key su_updated (filter (\<lambda>r. su_tenant r = tenant \<and> asked code (\<lambda>c. su_delivery r = c)) (dv_subscriptions db))"

text \<open>A list of codes restricts the answer, and an empty one asks for nothing.\<close>

definition among :: "string list option \<Rightarrow> string option \<Rightarrow> bool" where
  "among codes c \<longleftrightarrow> (case codes of None \<Rightarrow> True | Some cs \<Rightarrow> (\<exists>x \<in> set cs. c = Some x))"

definition list_attempts ::
    "delivery_db \<Rightarrow> string \<Rightarrow> string option \<Rightarrow> string option \<Rightarrow> string list option \<Rightarrow> attempt_row list" where
  "list_attempts db tenant code attempt codes =
     sort_key at_updated (filter (\<lambda>r. at_tenant r = tenant \<and> asked code (\<lambda>c. at_delivery r = c) \<and>
       among codes (Some (at_delivery r)) \<and> asked attempt (\<lambda>c. at_code r = c)) (dv_attempts db))"

definition list_execution_evidence ::
    "delivery_db \<Rightarrow> string \<Rightarrow> string option \<Rightarrow> string option \<Rightarrow> string list option \<Rightarrow> evidence_row list" where
  "list_execution_evidence db tenant code attempt codes =
     sort_key ee_captured (filter (\<lambda>r. ee_tenant r = tenant \<and> asked code (\<lambda>c. ee_delivery r = Some c) \<and>
       among codes (ee_delivery r) \<and> asked attempt (\<lambda>c. ee_attempt r = Some c)) (dv_evidence db))"

definition list_exchange_metrics ::
    "delivery_db \<Rightarrow> string \<Rightarrow> string option \<Rightarrow> string option \<Rightarrow> string option \<Rightarrow> metric_row list" where
  "list_exchange_metrics db tenant scope resource code =
     sort_key em_generated (filter (\<lambda>r. em_tenant r = tenant \<and> asked scope (\<lambda>c. em_scope r = c) \<and>
       asked resource (\<lambda>c. em_resource r = Some c) \<and> asked code (\<lambda>c. em_delivery r = Some c)) (dv_metrics db))"

section \<open>Writers\<close>

definition update_task_payload ::
    "nat \<Rightarrow> string \<Rightarrow> string \<Rightarrow> string option \<Rightarrow> dict \<Rightarrow> delivery_db \<Rightarrow> exn + delivery_task option \<times> delivery_db" where
  "update_task_payload now tenant code state patch db =
     bindE (get_delivery_task db tenant code) (\<lambda>found.
       Inr (case found of
              None \<Rightarrow> (None, db)
            | Some t \<Rightarrow>
                let t' = t\<lparr>dt_state := (case state of None \<Rightarrow> dt_state t | Some s \<Rightarrow> s),
                           dt_payload := (if patch = [] then dt_payload t else safe_dict (dmerge (dt_payload t) patch)),
                           dt_updated := now\<rparr>
                in (Some t', db\<lparr>dv_tasks := put_row task_title_key t' (dv_tasks db)\<rparr>)))"

definition needed_text :: "dict \<Rightarrow> string \<Rightarrow> exn + string" where
  "needed_text payload k = bindE (raiseE py_exn (dict_item payload k)) (\<lambda>v. Inr (py_str v))"

definition subscription_code_of :: "dict \<Rightarrow> string \<Rightarrow> string" where
  "subscription_code_of payload delivery =
     py_str (first_of [dget payload ''subscription_code'', dget payload ''subscription_id'', JStr (''SUB-'' @ delivery)])"

definition subscription_of ::
    "nat \<Rightarrow> string \<Rightarrow> string \<Rightarrow> string \<Rightarrow> dict \<Rightarrow> subscription_row option \<Rightarrow> exn + subscription_row" where
  "subscription_of now tenant code delivery payload found =
     bindE (column_text (dget_or payload ''resource_code'' (text_json (old_or found su_resource None)))) (\<lambda>resource.
       Inr \<lparr>su_tenant = tenant, su_code = code, su_delivery = delivery, su_resource = resource,
            su_status = py_str (dget_or payload ''status'' (JStr (old_or found su_status ''active''))),
            su_schedule = safe_json (first_of [dget payload ''schedule_ref_json'', dget payload ''schedule_ref'',
              old_or found su_schedule (JObj [])]),
            su_policy = safe_json (first_of [dget payload ''policy_snapshot_json'', dget payload ''policy_snapshot'',
              old_or found su_policy (JObj [])]),
            su_snapshot = safe_json (first_of [dget payload ''legacy_status_snapshot_json'',
              dget payload ''legacy_status_snapshot'', old_or found su_snapshot (JObj [])]),
            su_updated = now\<rparr>)"

definition upsert_subscription :: "nat \<Rightarrow> string \<Rightarrow> dict \<Rightarrow> delivery_db \<Rightarrow> exn + subscription_row \<times> delivery_db" where
  "upsert_subscription now tenant payload db =
     bindE (needed_text payload ''delivery_code'') (\<lambda>delivery.
     let code = subscription_code_of payload delivery
     in bindE (found_row (\<lambda>r. subscription_key r = (tenant, code)) (dv_subscriptions db)) (\<lambda>found.
        bindE (subscription_of now tenant code delivery payload found) (\<lambda>r.
          Inr (r, db\<lparr>dv_subscriptions := save_row subscription_key found r (dv_subscriptions db)\<rparr>))))"

text \<open>The copy of the snapshot shares its list of terminations with the loaded value, so a termination added to a
  list that is there changes both, the assignment changes nothing that the session could see, and the column is not
  written; only a first termination is.\<close>

definition terminated_snapshot :: "json \<Rightarrow> dict \<Rightarrow> py_error + json" where
  "terminated_snapshot snapshot entry =
     (case py_or snapshot (JObj []) of
        JObj d \<Rightarrow>
          (case map_of d ''terminations'' of
             None \<Rightarrow> Inr (safe_json (JObj (dset d ''terminations'' (JList [JObj entry]))))
           | Some (JList _) \<Rightarrow> Inr snapshot
           | Some _ \<Rightarrow> Inl AttributeError)
      | _ \<Rightarrow> Inl TypeError)"

definition terminate_subscription ::
    "nat \<Rightarrow> string \<Rightarrow> string \<Rightarrow> string \<Rightarrow> string \<Rightarrow> string \<Rightarrow> delivery_db \<Rightarrow> exn + subscription_row \<times> delivery_db" where
  "terminate_subscription now tenant code reason actor audit db =
     bindE (found_row (\<lambda>r. subscription_key r = (tenant, code)) (dv_subscriptions db)) (\<lambda>found.
       case found of
         None \<Rightarrow> Inl (mk_exn ''NotFoundError'' code)
       | Some r \<Rightarrow>
           bindE (raiseE py_exn (terminated_snapshot (su_snapshot r)
                    [(''audit_id'', JStr audit), (''reason'', JStr reason), (''actor'', JStr actor)])) (\<lambda>snapshot.
           let r' = r\<lparr>su_status := ''terminated'', su_snapshot := snapshot, su_updated := now\<rparr>
           in Inr (r', db\<lparr>dv_subscriptions := put_row subscription_key r' (dv_subscriptions db)\<rparr>)))"

definition attempt_code_of :: "dict \<Rightarrow> string \<Rightarrow> string" where
  "attempt_code_of payload delivery =
     py_str (first_of [dget payload ''attempt_code'', dget payload ''attempt_id'',
       JStr (''ATT-'' @ delivery @ ''-'' @ py_str (dget_or payload ''attempt_kind'' (JStr ''exchange'')))])"

definition attempt_of :: "nat \<Rightarrow> string \<Rightarrow> string \<Rightarrow> string \<Rightarrow> dict \<Rightarrow> attempt_row option \<Rightarrow> exn + attempt_row" where
  "attempt_of now tenant code delivery payload found =
     bindE (column_text (first_of [dget payload ''subscription_code'', dget payload ''subscription_id'',
       text_json (old_or found at_subscription None)])) (\<lambda>subscription.
     bindE (column_text (dget_or payload ''executor_ref'' (text_json (old_or found at_executor None)))) (\<lambda>executor.
     bindE (column_text (dget_or payload ''evidence_ref'' (text_json (old_or found at_evidence None)))) (\<lambda>evidence.
       Inr \<lparr>at_tenant = tenant, at_code = code, at_delivery = delivery, at_subscription = subscription,
            at_kind = py_str (dget_or payload ''attempt_kind'' (JStr (old_or found at_kind ''exchange''))),
            at_state = py_str (dget_or payload ''state'' (JStr (old_or found at_state ''planned''))),
            at_executor = executor, at_evidence = evidence,
            at_payload = safe_json (py_or (dget payload ''payload_json'') (JObj payload)), at_updated = now\<rparr>)))"

definition upsert_attempt :: "nat \<Rightarrow> string \<Rightarrow> dict \<Rightarrow> delivery_db \<Rightarrow> exn + attempt_row \<times> delivery_db" where
  "upsert_attempt now tenant payload db =
     bindE (needed_text payload ''delivery_code'') (\<lambda>delivery.
     let code = attempt_code_of payload delivery
     in bindE (found_row (\<lambda>r. attempt_key r = (tenant, code)) (dv_attempts db)) (\<lambda>found.
        bindE (attempt_of now tenant code delivery payload found) (\<lambda>r.
          Inr (r, db\<lparr>dv_attempts := save_row attempt_key found r (dv_attempts db)\<rparr>))))"

definition evidence_ref_of :: "dict \<Rightarrow> string" where
  "evidence_ref_of payload =
     py_str (first_of [dget payload ''evidence_ref'', dget payload ''evidence_id'',
       JStr (''EVD-'' @ py_str (py_or (dget payload ''attempt_code'') (dget payload ''delivery_code'')))])"

definition evidence_of :: "nat \<Rightarrow> string \<Rightarrow> dict \<Rightarrow> exn + evidence_row" where
  "evidence_of now tenant payload =
     bindE (column_text (dget payload ''delivery_code'')) (\<lambda>delivery.
     bindE (column_text (py_or (dget payload ''attempt_code'') (dget payload ''attempt_id''))) (\<lambda>attempt.
     bindE (column_text (dget payload ''executor_ref'')) (\<lambda>executor.
       Inr \<lparr>ee_tenant = tenant, ee_ref = evidence_ref_of payload, ee_delivery = delivery, ee_attempt = attempt,
            ee_executor_kind = py_str (dget_or payload ''executor_kind'' (JStr ''builtin'')), ee_executor = executor,
            ee_kind = py_str (dget_or payload ''evidence_kind'' (JStr ''execution_receipt'')),
            ee_result = py_str (dget_or payload ''result_status'' (dget_or payload ''state'' (JStr ''succeeded''))),
            ee_payload = safe_json (first_of [dget payload ''sanitized_payload_json'', dget payload ''payload_json'', JObj payload]),
            ee_captured = now\<rparr>)))"

definition add_execution_evidence :: "nat \<Rightarrow> string \<Rightarrow> dict \<Rightarrow> delivery_db \<Rightarrow> exn + evidence_row \<times> delivery_db" where
  "add_execution_evidence now tenant payload db =
     bindE (found_row (\<lambda>r. evidence_key r = (tenant, evidence_ref_of payload)) (dv_evidence db)) (\<lambda>found.
     bindE (evidence_of now tenant payload) (\<lambda>r.
       Inr (r, db\<lparr>dv_evidence := save_row evidence_key found r (dv_evidence db)\<rparr>)))"

definition success_default :: "dict \<Rightarrow> py_error + int" where
  "success_default payload =
     bindE (str_in (dget_or payload ''status'' (JStr ''succeeded'')) [''succeeded'', ''published'', ''active'']) (\<lambda>ok.
       Inr (if ok then 1 else 0))"

definition metric_counts :: "dict \<Rightarrow> exn + int list" where
  "metric_counts payload =
     bindE (int_cast (dget_or payload ''exchange_count'' (JInt 1))) (\<lambda>exchanges.
     bindE (raiseE py_exn (success_default payload)) (\<lambda>default.
     bindE (int_cast (dget_or payload ''success_count'' (JInt default))) (\<lambda>successes.
     bindE (forE (\<lambda>cs k. bindE (int_cast (dget_or payload k (JInt 0))) (\<lambda>i. Inr (cs @ [i]))) [exchanges, successes]
              [''failed_count'', ''record_count'', ''file_count'', ''table_count'']) Inr)))"

definition metric_of :: "string \<Rightarrow> nat \<Rightarrow> string \<Rightarrow> dict \<Rightarrow> exn + metric_row" where
  "metric_of today now tenant payload =
     bindE (metric_counts payload) (\<lambda>counts.
     bindE (column_text (dget payload ''resource_code'')) (\<lambda>resource.
     bindE (column_text (dget payload ''delivery_code'')) (\<lambda>delivery.
     bindE (column_text (py_or (dget payload ''subscription_code'') (dget payload ''subscription_id''))) (\<lambda>subscription.
     bindE (column_text (dget payload ''provider_org_id'')) (\<lambda>provider.
     bindE (column_text (dget payload ''consumer_org_id'')) (\<lambda>consumer.
     bindE (column_text (dget payload ''last_error_code'')) (\<lambda>error.
       Inr \<lparr>em_tenant = tenant, em_scope = py_str (dget_or payload ''metric_scope'' (JStr ''delivery'')),
            em_resource = resource, em_delivery = delivery, em_subscription = subscription, em_provider = provider,
            em_consumer = consumer, em_granularity = py_str (dget_or payload ''bucket_granularity'' (JStr ''event'')),
            em_bucket = py_str (dget_or payload ''time_bucket'' (JStr today)), em_counts = counts, em_error = error,
            em_summary = safe_json (first_of [dget payload ''summary_json'', dget payload ''metrics'', JObj []]),
            em_generated = now\<rparr>)))))))"

definition upsert_exchange_metric :: "string \<Rightarrow> nat \<Rightarrow> string \<Rightarrow> dict \<Rightarrow> delivery_db \<Rightarrow> exn + metric_row \<times> delivery_db" where
  "upsert_exchange_metric today now tenant payload db =
     bindE (metric_of today now tenant payload) (\<lambda>r.
     bindE (found_row (\<lambda>x. metric_key x = metric_key r) (dv_metrics db)) (\<lambda>found.
       Inr (r, db\<lparr>dv_metrics := save_row metric_key found r (dv_metrics db)\<rparr>)))"

definition append_receipt :: "(nat \<Rightarrow> string) \<Rightarrow> nat \<Rightarrow> dict \<Rightarrow> delivery_db \<Rightarrow> exn + delivery_receipt_row \<times> delivery_db" where
  "append_receipt uuid now payload db =
     bindE (needed_text payload ''delivery_code'') (\<lambda>delivery.
     bindE (column_text (dget payload ''receipt_no'')) (\<lambda>no.
     let r = \<lparr>rp_id = uuid (dv_next db), rp_delivery = delivery,
              rp_type = py_str (dget_or payload ''receipt_type'' (JStr ''exchange'')), rp_no = no,
              rp_status = py_str (dget_or payload ''receipt_status'' (JStr ''issued'')),
              rp_payload = safe_json (first_of [dget payload ''payload_json'', dget payload ''receipt'', JObj []]),
              rp_issued = now,
              rp_acknowledged = (if truthy (dget_or payload ''acknowledged'' (JBool True)) then Some now else None)\<rparr>
     in Inr (r, db\<lparr>dv_receipts := dv_receipts db @ [r], dv_next := Suc (dv_next db)\<rparr>)))"

section \<open>The card of a task\<close>

definition grant_snapshot :: "dict \<Rightarrow> dict \<Rightarrow> dict" where
  "grant_snapshot delivery access =
     safe_dict [(''resource_code'', first_of [dget access ''resource_code'', dget delivery ''resourceId'', dget delivery ''resource_code'']),
       (''application_code'', dget delivery ''requestId''),
       (''grant_ref'', py_or (dget access ''grant_ref'') (dget access ''auth_ref'')),
       (''policy_ref'', dget access ''policy_ref''), (''status'', dget delivery ''status'')]"

definition delivery_payload :: "dict \<Rightarrow> dict" where
  "delivery_payload delivery =
     (case dget delivery ''access'' of
        JObj access \<Rightarrow> dset (safe_dict delivery) ''access_grant_snapshot'' (JObj (grant_snapshot delivery access))
      | _ \<Rightarrow> safe_dict delivery)"

definition backflow :: "dict \<Rightarrow> json" where
  "backflow delivery = dget_or delivery ''backflow'' (JObj [])"

definition card_receipt_no :: "dict \<Rightarrow> py_error + json" where
  "card_receipt_no delivery =
     (if truthy (dget delivery ''receiptNo'') then Inr (dget delivery ''receiptNo'')
      else json_get (backflow delivery) ''candidateObject'')"

definition card_receipt_type :: "dict \<Rightarrow> py_error + string" where
  "card_receipt_type delivery =
     bindE (json_get (backflow delivery) ''candidateObject'') (\<lambda>candidate.
     bindE (dict_item delivery ''channel'') (\<lambda>channel.
       Inr (if truthy candidate \<and> channel = JStr lbl_channel_prefill then ''subscription_ack''
            else if channel = JStr lbl_channel_block then ''exchange''
            else if channel = JStr lbl_channel_repair then ''national_ack''
            else ''provision'')))"

definition card_receipt_status :: "dict \<Rightarrow> py_error + string" where
  "card_receipt_status delivery =
     (if dget delivery ''receiptStatus'' = JStr ''reconciled'' then Inr ''reconciled''
      else bindE (json_get (backflow delivery) ''status'') (\<lambda>s.
           if s = JStr lbl_backflow_confirmed then Inr ''acknowledged''
           else bindE (dict_item delivery ''status'') (\<lambda>status.
             Inr (if status = JStr ''failed'' then ''rejected'' else ''issued''))))"

definition is_projection_receipt :: "delivery_receipt_row \<Rightarrow> bool" where
  "is_projection_receipt r \<longleftrightarrow>
     (case rp_payload r of JObj d \<Rightarrow> list_ex (\<lambda>k. map_of d k \<noteq> None) [''note'', ''backflow'', ''history''] | _ \<Rightarrow> False)"

definition card_receipt_payload :: "dict \<Rightarrow> json" where
  "card_receipt_payload delivery =
     safe_json (JObj [(''note'', dget delivery ''note''), (''backflow'', backflow delivery),
       (''history'', dget_or delivery ''history'' (JList []))])"

definition save_card_receipt :: "(nat \<Rightarrow> string) \<Rightarrow> nat \<Rightarrow> dict \<Rightarrow> string \<Rightarrow> delivery_db \<Rightarrow> exn + delivery_db" where
  "save_card_receipt uuid now delivery code db =
     bindE (raiseE py_exn (card_receipt_no delivery)) (\<lambda>no.
     bindE (column_text no) (\<lambda>number.
     bindE (found_row (\<lambda>r. rp_delivery r = code \<and> rp_no r = number) (dv_receipts db)) (\<lambda>found.
       case found of
         None \<Rightarrow>
           bindE (raiseE py_exn (card_receipt_type delivery)) (\<lambda>kind.
           bindE (raiseE py_exn (card_receipt_status delivery)) (\<lambda>status.
             Inr (db\<lparr>dv_receipts := dv_receipts db @
                       [\<lparr>rp_id = uuid (dv_next db), rp_delivery = code, rp_type = kind, rp_no = number, rp_status = status,
                         rp_payload = card_receipt_payload delivery, rp_issued = now, rp_acknowledged = None\<rparr>],
                     dv_next := Suc (dv_next db)\<rparr>)))
       | Some r \<Rightarrow>
           if is_projection_receipt r
           then bindE (raiseE py_exn (card_receipt_status delivery)) (\<lambda>status.
                bindE (raiseE py_exn (card_receipt_type delivery)) (\<lambda>kind.
                let r' = r\<lparr>rp_type := kind, rp_status := status, rp_payload := card_receipt_payload delivery,
                           rp_acknowledged := (if status \<in> {''acknowledged'', ''reconciled''} then Some now
                                               else rp_acknowledged r)\<rparr>
                in Inr (db\<lparr>dv_receipts := put_row rp_id r' (dv_receipts db)\<rparr>)))
           else Inr db)))"

text \<open>An update that changes nothing leaves the time of the last change.\<close>

definition stamp_task :: "nat \<Rightarrow> delivery_task \<Rightarrow> delivery_task \<Rightarrow> delivery_task" where
  "stamp_task now old t = (if t\<lparr>dt_updated := dt_updated old\<rparr> = old then old else t\<lparr>dt_updated := now\<rparr>)"

definition card_task :: "nat \<Rightarrow> string \<Rightarrow> dict \<Rightarrow> delivery_task option \<Rightarrow> exn + delivery_task" where
  "card_task now tenant delivery found =
     bindE (raiseE py_exn (dict_item delivery ''id'')) (\<lambda>i.
     bindE (raiseE py_exn (dict_item delivery ''requestId'')) (\<lambda>application.
     bindE (raiseE py_exn (dict_item delivery ''status'')) (\<lambda>status.
     bindE (raiseE py_exn (dict_item delivery ''channel'')) (\<lambda>channel.
     bindE (column_needed i) (\<lambda>code.
     bindE (column_needed application) (\<lambda>app.
     bindE (column_needed status) (\<lambda>state.
     bindE (column_needed channel) (\<lambda>chan.
       let t = \<lparr>dt_tenant = tenant, dt_code = code, dt_application = app, dt_state = state, dt_channel = chan,
                dt_payload = delivery_payload delivery, dt_created = old_or found dt_created now, dt_updated = now\<rparr>
       in Inr (case found of None \<Rightarrow> t | Some old \<Rightarrow> stamp_task now old t)))))))))"

text \<open>The task and its receipt are stored together or not at all.\<close>

definition upsert_from_delivery :: "(nat \<Rightarrow> string) \<Rightarrow> nat \<Rightarrow> string \<Rightarrow> dict \<Rightarrow> delivery_db \<Rightarrow> exn + delivery_db" where
  "upsert_from_delivery uuid now tenant delivery db =
     bindE (raiseE py_exn (dict_item delivery ''id'')) (\<lambda>i.
     bindE (column_needed i) (\<lambda>code.
     bindE (get_delivery_task db tenant code) (\<lambda>found.
     bindE (card_task now tenant delivery found) (\<lambda>t.
       save_card_receipt uuid now delivery code (db\<lparr>dv_tasks := save_row task_title_key found t (dv_tasks db)\<rparr>)))))"

end
