(* ===== verification/DeliveryDesk.thy ===== *)
theory DeliveryDesk
  imports DeliveryRepo CatalogFlow
begin

text \<open>
  The delivery cards of \<^verbatim>\<open>command/card_session.py\<close>, the look-ups of requests and deliveries in
  \<^verbatim>\<open>domain/services/request_service.py\<close> and \<^verbatim>\<open>delivery_service.py\<close>, and the flush of a dispatch over all
  its cards. Of the projection of an imported request the fields the skills read are there; its masking, the clock
  and the digests are arguments of a call.
\<close>

record desk =
  dk_store :: approval_store
  dk_db :: delivery_db
  dk_cards :: card_session
  dk_tasks :: tracked
  dk_feed :: "(string \<times> string \<times> string \<times> string) list"

record desk_call =
  dc_uuid :: "nat \<Rightarrow> string"
  dc_fp :: "dict \<Rightarrow> string"
  dc_hash :: "string \<Rightarrow> string"
  dc_mask :: "json \<Rightarrow> json"
  dc_iso :: "nat \<Rightarrow> string"
  dc_stamp :: "nat \<Rightarrow> string"
  dc_now :: nat
  dc_today :: string
  dc_datetime :: string
  dc_short_time :: string
  dc_date :: string
  dc_next_year :: string
  dc_audit :: string
  dc_actor :: string
  dc_role :: string

section \<open>Running parts of the state\<close>

definition tasksA :: "(delivery_db \<Rightarrow> exn + 'a \<times> delivery_db) \<Rightarrow> ('a, desk) act" where
  "tasksA f s = (case f (dk_db s) of Inl e \<Rightarrow> (Inl e, s) | Inr (x, db) \<Rightarrow> (Inr x, s\<lparr>dk_db := db\<rparr>))"

definition readA :: "(desk \<Rightarrow> exn + 'a) \<Rightarrow> ('a, desk) act" where
  "readA f s = (f s, s)"

definition feed_desk :: "desk_call \<Rightarrow> string \<Rightarrow> string \<Rightarrow> string \<Rightarrow> (unit, desk) act" where
  "feed_desk c skill target result = modifyA (\<lambda>s. s\<lparr>dk_feed := dk_feed s @ [(skill, target, result, dc_actor c)]\<rparr>)"

section \<open>Requests\<close>

text \<open>The imported request, for reading only.\<close>

definition imported_request :: "desk_call \<Rightarrow> application_row \<Rightarrow> dict" where
  "imported_request c r =
     [(''id'', JStr (ap_code r)), (''legacyImport'', JBool (truthy (dget (ap_payload r) ''kind''))),
      (''applicant'', (case dc_mask c (JObj [(''applicant_name'', ap_name r), (''applicant_org'', ap_org r)]) of
                         JObj d \<Rightarrow> dget d ''applicant_name'' | _ \<Rightarrow> JNull)),
      (''status'', JStr (ap_status r))]"

text \<open>A card held by a handler: the key it is tracked under, when it is, and its value.\<close>

type_synonym held = "string option \<times> dict"

definition lookup_request :: "desk_call \<Rightarrow> string \<Rightarrow> (dict option, desk) act" where
  "lookup_request c i s =
     (case get_request (dc_fp c) (dk_store s) i (dk_cards s) of
        Inl e \<Rightarrow> (Inl (case_exn e), s)
      | Inr (found, cs) \<Rightarrow> (Inr found, s\<lparr>dk_cards := cs\<rparr>))"

definition request_record :: "string \<Rightarrow> (application_row option, desk) act" where
  "request_record i = readA (\<lambda>s. raiseE case_exn (get_record default_card_tenant i (dk_store s)))"

definition request_by_id :: "desk_call \<Rightarrow> string \<Rightarrow> (held, desk) act" where
  "request_by_id c i =
     bindA (lookup_request c i) (\<lambda>found.
       case found of
         Some crd \<Rightarrow> retA (Some i, crd)
       | None \<Rightarrow> bindA (request_record i) (\<lambda>r.
           case r of None \<Rightarrow> throwA (not_found i) | Some r \<Rightarrow> retA (None, imported_request c r)))"

definition is_legacy_import :: "desk_call \<Rightarrow> string \<Rightarrow> (bool, desk) act" where
  "is_legacy_import c i =
     bindA (lookup_request c i) (\<lambda>found.
       if found \<noteq> None then retA False
       else bindA (request_record i) (\<lambda>r.
         retA (case r of None \<Rightarrow> False | Some r \<Rightarrow> map_of (ap_payload r) ''kind'' \<noteq> None)))"

definition edit_request :: "held \<Rightarrow> (dict \<Rightarrow> py_error + dict) \<Rightarrow> (held, desk) act" where
  "edit_request h f =
     (case h of (key, crd) \<Rightarrow> case f crd of
        Inl e \<Rightarrow> throwA (py_exn e)
      | Inr crd' \<Rightarrow>
          bindA (modifyA (\<lambda>s. case key of None \<Rightarrow> s
                                 | Some i \<Rightarrow> s\<lparr>dk_cards := change_request i (\<lambda>_. crd') (dk_cards s)\<rparr>)) (\<lambda>_.
            retA (key, crd')))"

section \<open>Deliveries\<close>

definition is_runtime_delivery_payload :: "dict \<Rightarrow> bool" where
  "is_runtime_delivery_payload payload \<longleftrightarrow> payload \<noteq> [] \<and> map_of payload ''kind'' = None \<and> map_of payload ''requestId'' \<noteq> None"

definition card_of_task :: "delivery_task \<Rightarrow> dict" where
  "card_of_task t = dset (dt_payload t) ''status'' (JStr (dt_state t))"

definition track_task :: "desk_call \<Rightarrow> delivery_task option \<Rightarrow> (held option, desk) act" where
  "track_task c found =
     (case found of
        None \<Rightarrow> retA None
      | Some t \<Rightarrow>
          if \<not> is_runtime_delivery_payload (dt_payload t) then retA None
          else bindA (modifyA (\<lambda>s. s\<lparr>dk_tasks := dset (dk_tasks s) (dt_code t) (card_of_task t, dc_fp c (card_of_task t))\<rparr>)) (\<lambda>_.
                 retA (Some (Some (dt_code t), card_of_task t))))"

definition get_delivery :: "desk_call \<Rightarrow> string \<Rightarrow> (held option, desk) act" where
  "get_delivery c i =
     bindA (getA (\<lambda>s. map_of (dk_tasks s) i)) (\<lambda>found.
       case found of
         Some (crd, _) \<Rightarrow> retA (Some (Some i, crd))
       | None \<Rightarrow> bindA (readA (\<lambda>s. get_delivery_task (dk_db s) default_card_tenant i)) (track_task c))"

definition get_delivery_by_request :: "desk_call \<Rightarrow> string \<Rightarrow> (held option, desk) act" where
  "get_delivery_by_request c i =
     bindA (getA (\<lambda>s. find (\<lambda>(_, (crd, _)). dget crd ''requestId'' = JStr i) (dk_tasks s))) (\<lambda>found.
       case found of
         Some (key, (crd, _)) \<Rightarrow> retA (Some (Some key, crd))
       | None \<Rightarrow> bindA (readA (\<lambda>s. get_task_by_application (dk_db s) default_card_tenant i)) (track_task c))"

definition add_delivery :: "dict \<Rightarrow> tracked \<Rightarrow> py_error + tracked" where
  "add_delivery crd ts = bindE (dict_item crd ''id'') (\<lambda>i. Inr (dset ts (py_str i) (crd, [])))"

definition edit_task :: "held \<Rightarrow> (dict \<Rightarrow> py_error + dict) \<Rightarrow> (held, desk) act" where
  "edit_task h f =
     (case h of (key, crd) \<Rightarrow> case f crd of
        Inl e \<Rightarrow> throwA (py_exn e)
      | Inr crd' \<Rightarrow>
          bindA (modifyA (\<lambda>s. case key of None \<Rightarrow> s
              | Some i \<Rightarrow> (case map_of (dk_tasks s) i of None \<Rightarrow> s
                  | Some (_, loaded) \<Rightarrow> s\<lparr>dk_tasks := dset (dk_tasks s) i (crd', loaded)\<rparr>))) (\<lambda>_.
            retA (key, crd')))"

section \<open>Imported deliveries\<close>

definition canonical_resource_kind :: "json \<Rightarrow> string option" where
  "canonical_resource_kind raw =
     (if raw = JNull then None
      else let t = lower (strip_blanks (py_str raw));
               folded = (case map_of [(''folder'', ''file''), (''url'', ''file''), (''link'', ''file''), (''service'', ''api'')] t of
                           None \<Rightarrow> t | Some k \<Rightarrow> k)
           in if folded \<in> {''table'', ''file'', ''api''} then Some folded else None)"

fun delivery_resource_kind :: "json list \<Rightarrow> string option" where
  "delivery_resource_kind [] = None"
| "delivery_resource_kind (raw # raws) =
     (if \<not> truthy raw then delivery_resource_kind raws
      else case canonical_resource_kind raw of
             Some k \<Rightarrow> Some k
           | None \<Rightarrow> if lower (strip_blanks (py_str raw)) \<in> {''db'', ''exchange'', ''recurring_exchange''} then Some ''table''
                     else delivery_resource_kind raws)"

definition retired_resource_kinds :: "string list" where
  "retired_resource_kinds = [''folder'', ''url'', ''link'']"

definition grant_of :: "dict \<Rightarrow> json" where
  "grant_of payload = py_or (dget payload ''access_grant'') (JObj [])"

definition delivery_is_retired_origin :: "string list \<Rightarrow> delivery_task \<Rightarrow> py_error + bool" where
  "delivery_is_retired_origin retired t =
     (if lower (strip_blanks (dt_channel t)) \<in> set retired_resource_kinds then Inr True
      else let code = py_or (dget (dt_payload t) ''resource_code'') (dget (dt_payload t) ''resource_id'')
           in bindE (if truthy code then str_in code retired else Inr False) (\<lambda>hit.
              if hit then Inr True
              else if truthy (dget (dt_payload t) ''resource_kind'')
              then Inr (lower (strip_blanks (py_str (dget (dt_payload t) ''resource_kind''))) \<in> set retired_resource_kinds)
              else bindE (json_get (grant_of (dt_payload t)) ''res_type'') (\<lambda>kind.
                Inr (lower (strip_blanks (py_str (py_or kind (JStr [])))) \<in> set retired_resource_kinds))))"

definition delivery_hidden_from_consumer :: "string list \<Rightarrow> delivery_task \<Rightarrow> py_error + bool" where
  "delivery_hidden_from_consumer retired t =
     bindE (delivery_is_retired_origin retired t) (\<lambda>hidden.
       Inr (hidden \<or> lower (strip_blanks (dt_state t)) = ''draft''))"

definition delivery_kind_labels :: "(string \<times> string) list" where
  "delivery_kind_labels = [(''table'', lbl_kind_table), (''file'', lbl_kind_file), (''api'', lbl_kind_api)]"

definition delivery_fallback_name :: "dict \<Rightarrow> py_error + string" where
  "delivery_fallback_name payload =
     bindE (json_get (grant_of payload) ''org_name'') (\<lambda>org_name.
     bindE (json_get (grant_of payload) ''res_type'') (\<lambda>res_type.
     let org = strip_blanks (py_str (py_or org_name (JStr [])));
         base = (case Option.bind (delivery_resource_kind [py_or (dget payload ''resource_kind'') res_type])
                        (map_of delivery_kind_labels) of
                   None \<Rightarrow> lbl_data_delivery_task | Some l \<Rightarrow> l @ lbl_delivery_task)
     in Inr (if org = [] then base else org @ lbl_middle_dot @ base)))"

definition authorization_boundary :: "dict \<Rightarrow> json" where
  "authorization_boundary grant =
     JObj [(''limitDays'', dget grant ''limit_day''), (''resourceType'', dget grant ''res_type''),
       (''applyStatus'', dget grant ''apply_status''), (''renewalSourceRows'', JInt 0), (''renewalPolicy'', JStr lbl_no_renewal)]"

definition receipts_for :: "delivery_db \<Rightarrow> string \<Rightarrow> json" where
  "receipts_for db code =
     JList (map (\<lambda>r. JObj [(''receiptType'', JStr (rp_type r)), (''receiptNo'', text_json (rp_no r)),
         (''receiptStatus'', JStr (rp_status r)), (''payload'', rp_payload r)])
       (list_receipts db code))"

text \<open>The projection of an imported delivery. Its backflow names the resource, or the delivery itself.\<close>

definition task_from_record :: "desk_call \<Rightarrow> json \<Rightarrow> delivery_task \<Rightarrow> py_error + dict" where
  "task_from_record c receipts t =
     (let payload = dt_payload t; boundary = (\<lambda>k. dc_mask c (py_or (dget payload k) (JObj [])))
      in bindE (if truthy (dget payload ''resource_name'') then Inr (dget payload ''resource_name'')
                else bindE (delivery_fallback_name payload) (\<lambda>n. Inr (JStr n))) (\<lambda>name.
         bindE (case dc_mask c (grant_of payload) of JObj d \<Rightarrow> Inr d | _ \<Rightarrow> Inl AttributeError) (\<lambda>grant.
           Inr [(''id'', JStr (dt_code t)), (''requestId'', JStr (dt_application t)), (''name'', name),
                (''channel'', JStr (dt_channel t)),
                (''resourceKind'', text_json (delivery_resource_kind
                   [py_or (dget payload ''resource_kind'') (dget grant ''res_type''), JStr (dt_channel t)])),
                (''status'', JStr (dt_state t)), (''owner'', JStr lbl_imported_owner),
                (''updatedAt'', JStr (dc_iso c (dt_updated t))), (''note'', JStr lbl_imported_note),
                (''history'', JList [JObj [(''time'', JStr (dc_stamp c (dt_created t))), (''state'', JStr (dt_state t)),
                   (''detail'', JStr lbl_imported_detail)]]),
                (''aiSummary'', JObj [(''summary'', JStr lbl_imported_summary), (''nextAction'', JStr lbl_imported_next),
                   (''cause'', JStr lbl_imported_cause), (''impact'', JStr lbl_imported_impact)]),
                (''backflow'', JObj [(''candidateObject'', py_or (dget payload ''resource_name'') (JStr (dt_code t))),
                   (''candidateFields'', JList []), (''status'', JStr lbl_backflow_none), (''note'', JStr lbl_imported_backflow)]),
                (''accessGrantSnapshot'', JObj grant), (''authorizationBoundary'', authorization_boundary grant),
                (''r2Review'', boundary ''r2_review''), (''grantBoundary'', boundary ''grant_boundary''),
                (''supplementBoundary'', boundary ''supplement_boundary''), (''nonGrantBoundary'', boundary ''non_grant_boundary''),
                (''renewalBoundary'', py_or (dget payload ''renewal_boundary'') (JStr lbl_no_renewal)),
                (''repository'', JObj [(''delivery_code'', JStr (dt_code t)), (''application_code'', JStr (dt_application t)),
                   (''channel'', JStr (dt_channel t))]),
                (''receipts'', receipts)])))"

definition imported_task :: "desk_call \<Rightarrow> string \<Rightarrow> (held option, desk) act" where
  "imported_task c i =
     bindA (readA (\<lambda>s. get_delivery_task (dk_db s) default_card_tenant i)) (\<lambda>direct.
     bindA (case direct of Some t \<Rightarrow> retA (Some t)
            | None \<Rightarrow> readA (\<lambda>s. get_task_by_application (dk_db s) default_card_tenant i)) (\<lambda>found.
       case found of
         None \<Rightarrow> retA None
       | Some t \<Rightarrow>
           bindA (readA (\<lambda>s. Inr (receipts_for (dk_db s) (dt_code t)))) (\<lambda>receipts.
           bindA (liftE py_exn (task_from_record c receipts t)) (\<lambda>crd. retA (Some (None, crd))))))"

definition maybe_delivery :: "desk_call \<Rightarrow> string \<Rightarrow> (held option, desk) act" where
  "maybe_delivery c i =
     bindA (get_delivery c i) (\<lambda>found. case found of Some h \<Rightarrow> retA (Some h) | None \<Rightarrow> imported_task c i)"

definition delivery_by_id :: "desk_call \<Rightarrow> string \<Rightarrow> (held, desk) act" where
  "delivery_by_id c i =
     bindA (maybe_delivery c i) (\<lambda>found. case found of Some h \<Rightarrow> retA h | None \<Rightarrow> throwA (not_found i))"

definition delivery_by_request :: "desk_call \<Rightarrow> string \<Rightarrow> (held option, desk) act" where
  "delivery_by_request c i =
     bindA (get_delivery_by_request c i) (\<lambda>found. case found of Some h \<Rightarrow> retA (Some h) | None \<Rightarrow> imported_task c i)"

section \<open>Changing a card\<close>

definition add_to :: "string \<Rightarrow> json \<Rightarrow> dict \<Rightarrow> py_error + dict" where
  "add_to k v d =
     bindE (dict_item d k) (\<lambda>inner. case inner of JList xs \<Rightarrow> Inr (dset d k (JList (xs @ [v]))) | _ \<Rightarrow> Inl AttributeError)"

definition add_default :: "string \<Rightarrow> json \<Rightarrow> dict \<Rightarrow> py_error + dict" where
  "add_default k v d = add_to k v (dsetdefault d k (JList []))"

definition history_entry :: "desk_call \<Rightarrow> string \<Rightarrow> string \<Rightarrow> json" where
  "history_entry c state detail =
     JObj [(''time'', JStr (dc_short_time c)), (''state'', JStr state), (''detail'', JStr detail)]"

fun edits :: "(dict \<Rightarrow> py_error + dict) list \<Rightarrow> dict \<Rightarrow> py_error + dict" where
  "edits [] d = Inr d"
| "edits (f # fs) d = bindE (f d) (edits fs)"

definition put :: "string \<Rightarrow> json \<Rightarrow> dict \<Rightarrow> py_error + dict" where
  "put k v d = Inr (dset d k v)"

section \<open>Flush and dispatch\<close>

definition store_task :: "desk_call \<Rightarrow> dict \<Rightarrow> (unit, desk) act" where
  "store_task c crd =
     tasksA (\<lambda>db. bindE (upsert_from_delivery (dc_uuid c) (dc_now c) default_card_tenant crd db) (\<lambda>db'. Inr ((), db')))"

fun flush_tasks :: "desk_call \<Rightarrow> tracked \<Rightarrow> (unit, desk) act" where
  "flush_tasks c [] = retA ()"
| "flush_tasks c ((i, (crd, loaded)) # ts) =
     (if dc_fp c crd = loaded then flush_tasks c ts
      else bindA (store_task c crd) (\<lambda>_. flush_tasks c ts))"

definition flush_requests :: "desk_call \<Rightarrow> (unit, desk) act" where
  "flush_requests c s =
     (case flush_cards (dc_uuid c) (dc_fp c) (dc_now c) (dk_cards s) (dk_store s) of
        Inl (e, st) \<Rightarrow> (Inl (case_exn e), s\<lparr>dk_store := st\<rparr>)
      | Inr (st, _) \<Rightarrow> (Inr (), s\<lparr>dk_store := st\<rparr>))"

definition fresh_desk :: "desk \<Rightarrow> desk" where
  "fresh_desk s = s\<lparr>dk_cards := empty_session, dk_tasks := []\<rparr>"

definition flush_desk :: "desk_call \<Rightarrow> (unit, desk) act" where
  "flush_desk c =
     bindA (flush_requests c) (\<lambda>_.
     bindA (getA dk_tasks) (\<lambda>ts.
     bindA (flush_tasks c ts) (\<lambda>_. modifyA fresh_desk)))"

text \<open>What the write pipeline makes of a mutation: its result, after the cards it changed are stored.\<close>

definition written :: "desk_call \<Rightarrow> ('a, desk) act \<Rightarrow> ('a, desk) act" where
  "written c m = bindA m (\<lambda>x. bindA (flush_desk c) (\<lambda>_. retA x))"

end
