(* ===== verification/DeliverySkills.thy ===== *)
theory DeliverySkills
  imports DeliveryDesk
begin

text \<open>
  The skills over deliveries, grants and credentials: \<^verbatim>\<open>command/handlers/j1/delivery.py\<close>,
  \<^verbatim>\<open>application_grant.py\<close>, \<^verbatim>\<open>credential.py\<close>, two of \<^verbatim>\<open>workbench.py\<close>, the two writers of
  \<^verbatim>\<open>domain/services/delivery_service.py\<close> and \<^verbatim>\<open>BrainService.grant_delivery_access\<close>. A skill that writes
  is its mutation followed by the flush; the pipeline around it gives the audit identifier and the actor.
\<close>

section \<open>Deliveries\<close>

definition payload_text :: "dict \<Rightarrow> string \<Rightarrow> (string, desk) act" where
  "payload_text payload k = liftE py_exn (bindE (dict_item payload k) (\<lambda>v. Inr (py_str v)))"

definition attempt_payload :: "desk_call \<Rightarrow> dict \<Rightarrow> string \<Rightarrow> string \<Rightarrow> string \<Rightarrow> dict" where
  "attempt_payload c payload i state kind =
     [(''attempt_code'', py_or (dget payload ''attempt_id'') (JStr (i @ '':'' @ kind @ '':'' @ dc_audit c))),
      (''delivery_code'', JStr i), (''subscription_code'', dget payload ''subscription_id''), (''attempt_kind'', JStr kind),
      (''state'', JStr state), (''executor_ref'', dget payload ''executor_ref''), (''evidence_ref'', JStr (dc_audit c)),
      (''payload_json'', py_or (dget payload ''plan'') (JObj payload))]"

definition attempt_metric :: "dict \<Rightarrow> string \<Rightarrow> string \<Rightarrow> string \<Rightarrow> dict \<Rightarrow> dict" where
  "attempt_metric payload skill i state task =
     [(''metric_scope'', JStr ''delivery''), (''delivery_code'', JStr i),
      (''resource_code'', py_or (dget payload ''resource_id'') (dget task ''resourceId'')),
      (''subscription_code'', dget payload ''subscription_id''), (''status'', JStr state),
      (''success_count'', JInt (if state \<in> {''published'', ''running'', ''planned''} then 1 else 0)),
      (''failed_count'', JInt (if state = ''stopped'' then 1 else 0)),
      (''summary_json'', JObj [(''skill_id'', JStr skill), (''state'', JStr state)])]"

definition attempt_evidence :: "desk_call \<Rightarrow> dict \<Rightarrow> string \<Rightarrow> string \<Rightarrow> string \<Rightarrow> string \<Rightarrow> dict" where
  "attempt_evidence c payload i code state kind =
     [(''evidence_ref'', JStr (dc_audit c)), (''delivery_code'', JStr i), (''attempt_code'', JStr code),
      (''executor_kind'', JStr ''builtin_exchange''), (''executor_ref'', dget payload ''executor_ref''),
      (''evidence_kind'', JStr kind), (''result_status'', JStr state), (''payload_json'', JObj payload)]"

definition record_attempt :: "desk_call \<Rightarrow> dict \<Rightarrow> string \<Rightarrow> string \<Rightarrow> string \<Rightarrow> (string \<times> string, desk) act" where
  "record_attempt c payload skill state kind =
     bindA (payload_text payload ''task_id'') (\<lambda>i.
     written c (
       bindA (delivery_by_id c i) (\<lambda>h.
       bindA (tasksA (upsert_attempt (dc_now c) default_card_tenant (attempt_payload c payload i state kind))) (\<lambda>attempt.
       bindA (edit_task h (edits [put ''updatedAt'' (JStr (dc_datetime c)),
                add_default ''history'' (history_entry c (lbl_attempt_state @ state)
                  (py_str (first_of [dget payload ''reason'', dget payload ''mode'', JStr kind])))])) (\<lambda>_.
       bindA (tasksA (add_execution_evidence (dc_now c) default_card_tenant
                (attempt_evidence c payload i (at_code attempt) state kind))) (\<lambda>_.
       bindA (tasksA (upsert_exchange_metric (dc_today c) (dc_now c) default_card_tenant
                (attempt_metric payload skill i state (snd h)))) (\<lambda>_.
       bindA (feed_desk c skill i ''ok'') (\<lambda>_.
         retA (at_code attempt, at_state attempt)))))))))"

definition plan_delivery_exchange :: "desk_call \<Rightarrow> dict \<Rightarrow> (string \<times> string, desk) act" where
  "plan_delivery_exchange c payload = record_attempt c payload ''delivery.exchange.plan'' ''planned'' ''plan''"

definition publish_delivery_exchange :: "desk_call \<Rightarrow> dict \<Rightarrow> (string \<times> string, desk) act" where
  "publish_delivery_exchange c payload = record_attempt c payload ''delivery.exchange.publish'' ''published'' ''publish''"

definition start_delivery_exchange :: "desk_call \<Rightarrow> dict \<Rightarrow> (string \<times> string, desk) act" where
  "start_delivery_exchange c payload = record_attempt c payload ''delivery.exchange.start'' ''running'' ''exchange''"

definition stop_delivery_exchange :: "desk_call \<Rightarrow> dict \<Rightarrow> (string \<times> string, desk) act" where
  "stop_delivery_exchange c payload = record_attempt c payload ''delivery.exchange.stop'' ''stopped'' ''stop''"

definition download_receipt :: "desk_call \<Rightarrow> dict \<Rightarrow> string \<Rightarrow> dict \<Rightarrow> dict" where
  "download_receipt c payload i task =
     [(''delivery_code'', JStr i), (''receipt_type'', JStr ''file_download''), (''receipt_no'', JStr (dc_audit c)),
      (''receipt_status'', JStr ''issued''),
      (''payload_json'', JObj
         [(''file_link'', JStr (''/api/delivery/'' @ i @ ''/file/'' @ dc_audit c @ ''/download'')),
          (''file_name'', first_of [dget payload ''file_name'', dget task ''name'', JStr (i @ ''.dat'')]),
          (''file_size'', dget payload ''file_size''), (''download_time'', JStr (dc_datetime c)),
          (''downloaded_by'', JStr (dc_actor c))])]"

definition record_file_download :: "desk_call \<Rightarrow> dict \<Rightarrow> string \<Rightarrow> (string, desk) act" where
  "record_file_download c payload skill =
     bindA (payload_text payload ''task_id'') (\<lambda>i.
     written c (
       bindA (delivery_by_id c i) (\<lambda>h.
       bindA (tasksA (append_receipt (dc_uuid c) (dc_now c) (download_receipt c payload i (snd h)))) (\<lambda>receipt.
       bindA (feed_desk c skill i ''ok'') (\<lambda>_. retA (rp_id receipt))))))"

text \<open>\<^verbatim>\<open>payload.get("receipt", {}).get("receipt_no") or payload.get("receipt_no")\<close>.\<close>

definition ingested_no :: "dict \<Rightarrow> py_error + json" where
  "ingested_no payload =
     bindE (json_get (dget_or payload ''receipt'' (JObj [])) ''receipt_no'') (\<lambda>v. Inr (py_or v (dget payload ''receipt_no'')))"

definition ingest_edit :: "desk_call \<Rightarrow> dict \<Rightarrow> dict \<Rightarrow> py_error + dict" where
  "ingest_edit c payload task =
     bindE (dict_item payload ''receipt_status'') (\<lambda>status.
     bindE (ingested_no payload) (\<lambda>no.
       edits [put ''receiptStatus'' (JStr (py_str status)), put ''receiptNo'' (py_or no (dget task ''receiptNo'')),
              put ''updatedAt'' (JStr (dc_datetime c)),
              add_default ''history'' (history_entry c lbl_receipt_taken (lbl_receipt_taken_pre @ py_str status @ lbl_full_stop))] task))"

definition ingested_receipt :: "string \<Rightarrow> json \<Rightarrow> json \<Rightarrow> dict \<Rightarrow> dict" where
  "ingested_receipt i no status payload =
     [(''delivery_code'', JStr i), (''receipt_type'', JStr ''exchange''), (''receipt_no'', no), (''receipt_status'', status),
      (''payload_json'', py_or (dget payload ''receipt'') (JObj []))]"

definition ingest_evidence :: "desk_call \<Rightarrow> string \<Rightarrow> json \<Rightarrow> dict \<Rightarrow> dict" where
  "ingest_evidence c i status payload =
     [(''evidence_ref'', JStr (dc_audit c)), (''delivery_code'', JStr i), (''attempt_code'', dget payload ''attempt_id''),
      (''executor_kind'', JStr ''exchange_receipt''), (''evidence_kind'', JStr ''delivery_receipt''), (''result_status'', status),
      (''payload_json'', py_or (dget payload ''receipt'') (JObj payload))]"

definition ingest_mutation :: "desk_call \<Rightarrow> string \<Rightarrow> dict \<Rightarrow> (delivery_receipt_row, desk) act" where
  "ingest_mutation c i payload =
     bindA (maybe_delivery c i) (\<lambda>found.
     bindA (case found of None \<Rightarrow> retA () | Some h \<Rightarrow> bindA (edit_task h (ingest_edit c payload)) (\<lambda>_. retA ())) (\<lambda>_.
     bindA (liftE py_exn (ingested_no payload)) (\<lambda>no.
     bindA (liftE py_exn (dict_item payload ''receipt_status'')) (\<lambda>status.
     bindA (tasksA (append_receipt (dc_uuid c) (dc_now c) (ingested_receipt i no status payload))) (\<lambda>receipt.
     bindA (if truthy (dget payload ''attempt_id'')
            then bindA (tasksA (add_execution_evidence (dc_now c) default_card_tenant (ingest_evidence c i status payload))) (\<lambda>_. retA ())
            else retA ()) (\<lambda>_.
     bindA (case dget payload ''metrics'' of
              JObj m \<Rightarrow> bindA (tasksA (upsert_exchange_metric (dc_today c) (dc_now c) default_card_tenant
                          (dmerge m [(''delivery_code'', JStr i), (''status'', status)]))) (\<lambda>_. retA ())
            | _ \<Rightarrow> retA ()) (\<lambda>_.
     bindA (feed_desk c ''delivery.receipt.ingest'' i ''ok'') (\<lambda>_. retA receipt))))))))"

definition ingest_delivery_receipt :: "desk_call \<Rightarrow> dict \<Rightarrow> (delivery_receipt_row, desk) act" where
  "ingest_delivery_receipt c payload =
     bindA (payload_text payload ''task_id'') (\<lambda>i. written c (ingest_mutation c i payload))"

definition after_dash :: "string \<Rightarrow> string" where
  "after_dash i = last (split_on CHR ''-'' i)"

definition status_item :: "held \<Rightarrow> (json, desk) act" where
  "status_item h = liftE py_exn (dict_item (snd h) ''status'')"

definition reconcile_delivery_receipt :: "desk_call \<Rightarrow> string \<Rightarrow> (unit, desk) act" where
  "reconcile_delivery_receipt c i =
     bindA (delivery_by_id c i) (\<lambda>h.
     bindA (status_item h) (\<lambda>status.
       if status = JStr ''failed'' then throwA (invalid_state ''failed delivery task cannot be reconciled without recovery'')
       else if dget (snd h) ''receiptStatus'' = JStr ''reconciled'' then throwA (invalid_state ''delivery receipt is already reconciled'')
       else written c (
         bindA (edit_task h (edits [put ''receiptStatus'' (JStr ''reconciled''), put ''receiptNo'' (JStr (''RCPT-'' @ after_dash i)),
                  put ''updatedAt'' (JStr (dc_datetime c)), put ''note'' (JStr lbl_reconciled_note),
                  add_to ''history'' (history_entry c lbl_reconciled lbl_reconciled_detail),
                  set_in ''aiSummary'' ''summary'' (JStr lbl_reconciled_summary),
                  set_in ''aiSummary'' ''nextAction'' (JStr lbl_reconciled_next)])) (\<lambda>_.
           feed_desk c ''delivery.reconcile-receipt'' i ''ok''))))"

definition replace_or_cancel_delivery :: "desk_call \<Rightarrow> dict \<Rightarrow> (string, desk) act" where
  "replace_or_cancel_delivery c payload =
     bindA (payload_text payload ''delivery_code'') (\<lambda>i.
     bindA (payload_text payload ''action'') (\<lambda>action.
       if action \<notin> {''replace'', ''cancel''}
       then throwA (mk_exn ''BrainServiceError'' (''unsupported delivery.replace_or_cancel action: '' @ action))
       else let state = (if action = ''replace'' then ''replaced'' else ''cancelled'');
                handling = JObj [(''action'', JStr action), (''replacement_resource_id'', dget payload ''replacement_resource_id''),
                             (''reason'', dget payload ''reason''), (''audit_id'', JStr (dc_audit c))]
            in written c (
                 bindA (delivery_by_id c i) (\<lambda>h.
                 bindA (edit_task h (edits [put ''withdrawal_handling'' handling, put ''status'' (JStr state)])) (\<lambda>_.
                 bindA (tasksA (update_task_payload (dc_now c) default_card_tenant i (Some state) [(''withdrawal_handling'', handling)])) (\<lambda>_.
                 bindA (feed_desk c ''delivery.replace_or_cancel'' i ''ok'') (\<lambda>_. retA state)))))))"

definition subscription_statuses :: "(string \<times> string) list" where
  "subscription_statuses =
     [(''create'', ''active''), (''activate'', ''active''), (''pause'', ''paused''), (''resume'', ''active''), (''cancel'', ''cancelled'')]"

definition managed_subscription :: "dict \<Rightarrow> string \<Rightarrow> string \<Rightarrow> dict \<Rightarrow> py_error + dict" where
  "managed_subscription payload action status task =
     bindE (dict_item task ''id'') (\<lambda>i.
     bindE (if truthy (dget task ''resourceId'') then Inr (dget task ''resourceId'')
            else json_get (dget_or task ''access'' (JObj [])) ''resource_code'') (\<lambda>resource.
       Inr [(''subscription_code'', dget payload ''subscription_id''), (''delivery_code'', i), (''resource_code'', resource),
            (''status'', JStr status), (''schedule_ref'', py_or (dget payload ''schedule_ref'') (JObj [])),
            (''policy_snapshot'', py_or (dget payload ''policy_snapshot'') (JObj [])),
            (''legacy_status_snapshot'', JObj [(''action'', JStr action), (''task_status'', dget task ''status'')])]))"

definition manage_delivery_subscription :: "desk_call \<Rightarrow> dict \<Rightarrow> (subscription_row, desk) act" where
  "manage_delivery_subscription c payload =
     bindA (payload_text payload ''action'') (\<lambda>action.
       case map_of subscription_statuses action of
         None \<Rightarrow> throwA (invalid_state (''unsupported subscription action: '' @ action))
       | Some status \<Rightarrow> written c (
           bindA (payload_text payload ''task_id'') (\<lambda>i.
           bindA (delivery_by_id c i) (\<lambda>h.
           bindA (liftE py_exn (managed_subscription payload action status (snd h))) (\<lambda>request.
           bindA (tasksA (upsert_subscription (dc_now c) default_card_tenant request)) (\<lambda>subscription.
           bindA (edit_task h (add_default ''history'' (history_entry c lbl_subscription_changed (lbl_subscription_status @ status)))) (\<lambda>_.
           bindA (feed_desk c ''delivery.subscription.manage'' (py_str (dget (snd h) ''id'')) ''ok'') (\<lambda>_.
             retA subscription))))))))"

definition trigger_delivery_recovery :: "desk_call \<Rightarrow> string \<Rightarrow> (unit, desk) act" where
  "trigger_delivery_recovery c i =
     bindA (delivery_by_id c i) (\<lambda>h.
     bindA (status_item h) (\<lambda>status.
       if status \<noteq> JStr ''failed'' then throwA (invalid_state ''delivery task is not in failed state'')
       else written c (
         bindA (edit_task h (edits [put ''status'' (JStr ''warning''), put ''updatedAt'' (JStr (dc_datetime c)),
                  put ''note'' (JStr lbl_recovery_note), add_to ''history'' (history_entry c lbl_recovery lbl_recovery_detail),
                  set_in ''aiSummary'' ''summary'' (JStr lbl_recovery_summary),
                  set_in ''aiSummary'' ''nextAction'' (JStr lbl_recovery_next)])) (\<lambda>_.
           feed_desk c ''delivery.trigger-recovery'' i ''ok''))))"

definition end_subscription :: "desk_call \<Rightarrow> dict \<Rightarrow> (unit, desk) act" where
  "end_subscription c payload =
     bindA (payload_text payload ''subscription_code'') (\<lambda>code.
     bindA (payload_text payload ''reason'') (\<lambda>reason.
     written c (
       bindA (tasksA (terminate_subscription (dc_now c) default_card_tenant code reason (dc_actor c) (dc_audit c))) (\<lambda>_.
         feed_desk c ''subscription.terminate'' code ''ok''))))"

definition rating_edit :: "desk_call \<Rightarrow> int \<Rightarrow> string \<Rightarrow> dict \<Rightarrow> py_error + dict" where
  "rating_edit c score comment task =
     edits [set_in ''rating'' ''score'' (JInt score), set_in ''rating'' ''comment'' (JStr comment),
            set_in ''rating'' ''ratedBy'' (JStr (dc_actor c)), set_in ''rating'' ''ratedAt'' (JStr (dc_datetime c)),
            add_default ''history'' (history_entry c (lbl_rating @ int_str score @ lbl_stars) (if comment = [] then lbl_dash else comment))]
       (dsetdefault task ''rating'' (JObj []))"

definition submit_service_rating :: "desk_call \<Rightarrow> dict \<Rightarrow> (unit, desk) act" where
  "submit_service_rating c payload =
     (let i = py_str (first_of [dget payload ''task_id'', dget payload ''delivery_task_id'', JStr []]);
          comment = strip_blanks (py_str (dget_or payload ''comment'' (JStr [])))
      in bindA (liftE (\<lambda>e. e) (int_cast (dget_or payload ''score'' (JInt 5)))) (\<lambda>score.
         written c (
           bindA (if i = [] then retA () else bindA (delivery_by_id c i) (\<lambda>h.
                    bindA (edit_task h (rating_edit c score comment)) (\<lambda>_. retA ()))) (\<lambda>_.
             feed_desk c ''service.rating.submit'' i ''ok''))))"

section \<open>Access\<close>

definition grantable_states :: "string list" where
  "grantable_states = [''pending'', ''warning'', ''reconciling'', ''supplementing'']"

definition terminal_negative_statuses :: "string list" where
  "terminal_negative_statuses = [''withdrawn'', ''rejected'', ''revoked'']"

definition bound_status :: "desk_call \<Rightarrow> held \<Rightarrow> (string option, desk) act" where
  "bound_status c h =
     (let code = dget (snd h) ''requestId''
      in if \<not> truthy code then retA None
         else bindA (liftE (\<lambda>e. e) (column_needed code)) (\<lambda>i.
              bindA (request_record i) (\<lambda>r. retA (map_option ap_status r))))"

definition grant_edit :: "desk_call \<Rightarrow> string \<Rightarrow> dict \<Rightarrow> py_error + dict" where
  "grant_edit c i task =
     edits [put ''status'' (JStr ''completed''), put ''receiptStatus'' (py_or (dget task ''receiptStatus'') (JStr ''granted'')),
            put ''updatedAt'' (JStr (dc_datetime c)), put ''note'' (JStr lbl_access_granted_note),
            (\<lambda>d. Inr (dsetdefault d ''access'' (JObj []))),
            (\<lambda>d. bindE (json_get (dget d ''access'') ''grant_ref'') (\<lambda>r.
                 set_in ''access'' ''grant_ref'' (py_or r (JStr (''grant-'' @ i))) d)),
            set_in ''access'' ''status'' (JStr ''effective''),
            add_to ''history'' (history_entry c lbl_access_granted lbl_access_granted_detail),
            set_in ''aiSummary'' ''summary'' (JStr lbl_access_granted_summary),
            set_in ''aiSummary'' ''nextAction'' (JStr lbl_access_granted_next)] task"

definition grant_delivery_access :: "desk_call \<Rightarrow> string \<Rightarrow> (unit, desk) act" where
  "grant_delivery_access c i =
     bindA (delivery_by_id c i) (\<lambda>h.
     bindA (status_item h) (\<lambda>status.
     bindA (liftE py_exn (str_in status grantable_states)) (\<lambda>ok.
       if \<not> ok then throwA (invalid_state ''delivery task cannot grant access in current state'')
       else bindA (bound_status c h) (\<lambda>bound.
         case Option.bind bound (\<lambda>s. if s \<in> set terminal_negative_statuses then Some s else None) of
           Some s \<Rightarrow> throwA (invalid_state (''cannot grant delivery access: bound application is in a terminal-negative state ('' @ s @ '')''))
         | None \<Rightarrow> written c (
             bindA (edit_task h (grant_edit c i)) (\<lambda>h'.
             bindA (store_task c (snd h')) (\<lambda>_.
               feed_desk c ''delivery.access.grant'' i ''ok'')))))))"

definition approve_application_grant :: "desk_call \<Rightarrow> dict \<Rightarrow> (unit, desk) act" where
  "approve_application_grant c payload =
     bindA (payload_text payload ''decision'') (\<lambda>decision.
       if decision = ''approve'' then bindA (payload_text payload ''task_id'') (grant_delivery_access c)
       else if decision \<in> {''reject'', ''return_for_fix''}
       then bindA (payload_text payload ''task_id'') (\<lambda>i.
            let note = py_str (dget_or payload ''reason'' (JStr lbl_grant_refused_default))
            in written c (
                 bindA (delivery_by_id c i) (\<lambda>h.
                 bindA (edit_task h (edits [put ''status'' (JStr ''warning''), put ''updatedAt'' (JStr (dc_datetime c)), put ''note'' (JStr note),
                          add_default ''history'' (history_entry c lbl_grant_refused note)])) (\<lambda>_.
                   feed_desk c ''application.grant.approve'' i ''warning''))))
       else throwA (mk_exn ''BrainServiceError'' (''unsupported grant decision: '' @ decision)))"

definition renewal_evidence :: "desk_call \<Rightarrow> string \<Rightarrow> dict \<Rightarrow> dict" where
  "renewal_evidence c i payload =
     [(''evidence_ref'', JStr (dc_audit c)), (''delivery_code'', JStr i), (''executor_kind'', JStr ''grant_policy''),
      (''evidence_kind'', JStr ''grant_renewal''), (''result_status'', JStr ''renewed''), (''payload_json'', JObj payload)]"

definition renew_application_grant :: "desk_call \<Rightarrow> dict \<Rightarrow> (unit, desk) act" where
  "renew_application_grant c payload =
     (let i = py_str (py_or (dget payload ''task_id'') (dget payload ''delivery_task_id''))
      in written c (
           bindA (delivery_by_id c i) (\<lambda>h.
           bindA (edit_task h (edits [(\<lambda>d. Inr (dsetdefault d ''access'' (JObj []))),
                    set_in ''access'' ''renew_until'' (dget payload ''renew_until''), put ''updatedAt'' (JStr (dc_datetime c)),
                    add_default ''history'' (history_entry c lbl_grant_renewed
                      (py_str (dget_or payload ''reason'' (JStr lbl_grant_renewed_default))))])) (\<lambda>_.
           bindA (tasksA (add_execution_evidence (dc_now c) default_card_tenant (renewal_evidence c i payload))) (\<lambda>_.
             feed_desk c ''application.grant.renew'' i ''ok'')))))"

definition grant_target :: "dict \<Rightarrow> (string, desk) act" where
  "grant_target payload =
     (let i = strip_blanks (py_str (first_of [dget payload ''request_id'', dget payload ''delivery_task_id'', JStr []]))
      in if i = [] then throwA (invalid_state []) else retA i)"

text \<open>\<^verbatim>\<open>request.get("grant", {}).get("revoked")\<close> or the status itself.\<close>

definition is_revoked :: "dict \<Rightarrow> py_error + bool" where
  "is_revoked request =
     bindE (json_get (dget_or request ''grant'' (JObj [])) ''revoked'') (\<lambda>v.
       Inr (truthy v \<or> py_str (dget request ''status'') = ''revoked''))"

definition timeline_entry :: "desk_call \<Rightarrow> string \<Rightarrow> string \<Rightarrow> json" where
  "timeline_entry c label note = JObj [(''label'', JStr label), (''time'', JStr (dc_datetime c)), (''note'', JStr note)]"

definition put_status :: "string \<Rightarrow> string \<Rightarrow> (unit, desk) act" where
  "put_status i status = modifyA (\<lambda>s. s\<lparr>dk_store := update_status default_card_tenant i status (dk_store s)\<rparr>)"

definition suspend_mutation :: "desk_call \<Rightarrow> string \<Rightarrow> dict \<Rightarrow> (unit, desk) act" where
  "suspend_mutation c i payload =
     bindA (request_by_id c i) (\<lambda>h.
     bindA (liftE py_exn (is_revoked (snd h))) (\<lambda>revoked.
       if revoked then throwA (invalid_state [])
       else
         bindA (edit_request h (edits [(\<lambda>d. Inr (dsetdefault d ''grant'' (JObj []))), set_in ''grant'' ''suspended'' (JBool True),
                  put ''status'' (JStr ''suspended'')])) (\<lambda>h1.
         bindA (put_status i ''suspended'') (\<lambda>_.
         bindA (edit_request h1 (add_default ''timeline'' (timeline_entry c lbl_grant_suspended
                  (py_str (dget_or payload ''reason'' (JStr lbl_grant_suspended_default)))))) (\<lambda>_.
           feed_desk c ''application.grant.suspend'' i ''ok'')))))"

definition suspend_application_grant :: "desk_call \<Rightarrow> dict \<Rightarrow> (unit, desk) act" where
  "suspend_application_grant c payload = bindA (grant_target payload) (\<lambda>i. written c (suspend_mutation c i payload))"

definition revocation_note :: "dict \<Rightarrow> bool \<Rightarrow> string" where
  "revocation_note payload applicant =
     (if truthy (dget payload ''reason'') then py_str (dget payload ''reason'')
      else if applicant then lbl_revoked_by_applicant else lbl_revoked_by_operator)"

definition revoke_mutation :: "desk_call \<Rightarrow> bool \<Rightarrow> string \<Rightarrow> dict \<Rightarrow> (string, desk) act" where
  "revoke_mutation c applicant i payload =
     bindA (request_by_id c i) (\<lambda>h.
     bindA (liftE py_exn (is_revoked (snd h))) (\<lambda>revoked.
       if revoked then throwA (invalid_state [])
       else if applicant \<and> py_str (dget_or (snd h) ''applicant'' (JStr [])) \<noteq> dc_actor c
       then throwA (mk_exn ''AccessDeniedError'' ''not_owner_of_application'')
       else let by = (if applicant then ''applicant'' else ''busiaudit'')
            in bindA (edit_request h (edits [(\<lambda>d. Inr (dsetdefault d ''grant'' (JObj []))), set_in ''grant'' ''revoked'' (JBool True),
                        set_in ''grant'' ''initiated_by'' (JStr by), put ''status'' (JStr ''revoked'')])) (\<lambda>h1.
               bindA (put_status i ''revoked'') (\<lambda>_.
               bindA (edit_request h1 (add_default ''timeline'' (timeline_entry c lbl_grant_revoked (revocation_note payload applicant)))) (\<lambda>_.
               bindA (feed_desk c ''application.grant.revoke'' i ''ok'') (\<lambda>_. retA by))))))"

definition revoke_application_grant :: "desk_call \<Rightarrow> dict \<Rightarrow> (string, desk) act" where
  "revoke_application_grant c payload =
     (let role = py_str (dget_or payload ''role'' (JStr (dc_role c)))
      in bindA (grant_target payload) (\<lambda>i.
           if role \<noteq> ''ROLE_ORGAN_OPERATER'' \<and> role \<noteq> ''ROLE_BUSIAUDIT'' then throwA (mk_exn ''AccessDeniedError'' [])
           else written c (revoke_mutation c (role = ''ROLE_ORGAN_OPERATER'') i payload)))"

end
