(* ===== verification/Credential.thy ===== *)
theory Credential
  imports DeliverySkills
begin

text \<open>
  Credentials of a delivery: \<^verbatim>\<open>derive_platform_credential\<close> of \<^verbatim>\<open>domain/services/request_service.py\<close>,
  \<^verbatim>\<open>command/handlers/j1/credential.py\<close> and the hook that issues one after an approval. The digest is an
  argument. Of an answer the credential and the facts of its issue are there; what it repeats of the resource, and
  its hint for a reader, are left out.
\<close>

definition upper_char :: "char \<Rightarrow> char" where
  "upper_char x = (if (97 :: nat) \<le> of_char x \<and> of_char x \<le> (122 :: nat) then char_of ((of_char x :: nat) - 32) else x)"

definition seed_material :: "string \<Rightarrow> json \<Rightarrow> string" where
  "seed_material i seed =
     ''d23-credential-'' @ i @ (if seed = JNull then [] else ''-reissue-'' @ py_str seed)"

definition derive_platform_credential :: "desk_call \<Rightarrow> string \<Rightarrow> json \<Rightarrow> dict" where
  "derive_platform_credential c i seed =
     (let digest = dc_hash c (seed_material i seed);
          app_key = ''AK-SELF-'' @ i @ ''-'' @ map upper_char (take 8 digest)
      in [(''app_key'', JStr app_key), (''app_secret'', JStr (''SK-SELF-'' @ take 24 (drop 8 digest))),
          (''valid_from'', JStr (dc_date c)), (''valid_to'', JStr (dc_next_year c)), (''quota_per_day'', JInt 1000),
          (''invoke_url_template'', JStr (''https://api.gov-data.local/v1/services/<resource_code>?app_key='' @ app_key))])"

definition snapshot_of :: "dict \<Rightarrow> json" where
  "snapshot_of task = py_or (dget task ''accessGrantSnapshot'') (JObj [])"

text \<open>The credential is derived again from what was stored of its issue.\<close>

definition issued_credential :: "desk_call \<Rightarrow> string \<Rightarrow> json \<Rightarrow> py_error + json option" where
  "issued_credential c i snapshot =
     bindE (json_get snapshot ''credential'') (\<lambda>held.
       if truthy held then Inr (Some held)
       else bindE (json_get snapshot ''issued_audit_id'') (\<lambda>audit.
              if \<not> truthy audit then Inr None
              else bindE (json_get snapshot ''credential_seed'') (\<lambda>seed.
                     Inr (Some (JObj (derive_platform_credential c i seed))))))"

definition approved_states :: "string list" where
  "approved_states = [''approved'', ''supplementing'', ''summary-pending'', ''completed'', ''in_delivery'', ''granted'']"

definition issue_snapshot :: "desk_call \<Rightarrow> json \<Rightarrow> dict \<Rightarrow> dict \<Rightarrow> dict" where
  "issue_snapshot c seed credential snapshot =
     foldl (\<lambda>d (k, v). dset d k v) snapshot
       [(''credential'', JObj credential), (''credential_seed'', seed), (''issued_audit_id'', JStr (dc_audit c)),
        (''issued_at'', JStr (dc_datetime c)), (''issued_by'', JStr (dc_actor c))]"

definition issue_edit :: "desk_call \<Rightarrow> bool \<Rightarrow> json \<Rightarrow> dict \<Rightarrow> dict \<Rightarrow> py_error + dict" where
  "issue_edit c again seed credential task =
     (case snapshot_of task of
        JObj snapshot \<Rightarrow>
          edits [put ''accessGrantSnapshot'' (JObj (issue_snapshot c seed credential snapshot)),
                 add_default ''history'' (history_entry c (if again then lbl_reissued else lbl_issued)
                   (''app_key='' @ py_str (dget credential ''app_key'') @ lbl_issued_detail))] task
      | _ \<Rightarrow> Inl TypeError)"

record issued =
  is_credential :: json
  is_audit :: json
  is_via :: string

definition issue_mutation :: "desk_call \<Rightarrow> string \<Rightarrow> held \<Rightarrow> bool \<Rightarrow> (issued, desk) act" where
  "issue_mutation c i h again =
     (let seed = (if again then JStr (dc_audit c) else JNull);
          credential = derive_platform_credential c i seed
      in bindA (edit_task h (issue_edit c again seed credential)) (\<lambda>_.
         bindA (feed_desk c ''credential.issue'' i ''ok'') (\<lambda>_.
           retA \<lparr>is_credential = JObj credential, is_audit = JStr (dc_audit c),
                 is_via = (if again then ''manual-reissue'' else ''auto-on-approval'')\<rparr>)))"

definition delivery_to_issue :: "desk_call \<Rightarrow> string \<Rightarrow> (held, desk) act" where
  "delivery_to_issue c i =
     bindA (delivery_by_request c i) (\<lambda>found.
       case found of
         Some h \<Rightarrow> retA h
       | None \<Rightarrow> bindA (is_legacy_import c i) (\<lambda>imported.
           if imported then throwA (invalid_state i) else throwA (not_found i)))"

definition issue_credential :: "desk_call \<Rightarrow> string \<Rightarrow> bool \<Rightarrow> (issued, desk) act" where
  "issue_credential c i reissue =
     bindA (request_by_id c i) (\<lambda>request.
     bindA (delivery_to_issue c i) (\<lambda>h.
     bindA (liftE py_exn (str_in (dget (snd request) ''status'') approved_states)) (\<lambda>approved.
       if \<not> approved then throwA (invalid_state (''request '' @ i @ '' not approved yet; current status='' @ py_str (dget (snd request) ''status'')))
       else bindA (liftE py_exn (issued_credential c i (snapshot_of (snd h)))) (\<lambda>existing.
              case (existing, reissue) of
                (Some credential, False) \<Rightarrow>
                  bindA (liftE py_exn (json_get (dget_or (snd h) ''accessGrantSnapshot'' (JObj [])) ''issued_audit_id'')) (\<lambda>audit.
                    retA \<lparr>is_credential = credential, is_audit = audit, is_via = ''cached''\<rparr>)
              | _ \<Rightarrow> written c (issue_mutation c i h (existing \<noteq> None))))))"

record credential_view =
  vw_credential :: "json option"
  vw_status :: string
  vw_imported :: bool
  vw_audit :: json
  vw_at :: json
  vw_by :: json

definition not_issued :: "bool \<Rightarrow> credential_view" where
  "not_issued imported = \<lparr>vw_credential = None, vw_status = ''not_issued'', vw_imported = imported, vw_audit = JNull, vw_at = JNull, vw_by = JNull\<rparr>"

definition get_credential :: "desk_call \<Rightarrow> string \<Rightarrow> (credential_view, desk) act" where
  "get_credential c i =
     bindA (delivery_by_request c i) (\<lambda>found.
       case found of
         None \<Rightarrow> bindA (request_by_id c i) (\<lambda>_. bindA (is_legacy_import c i) (\<lambda>imported. retA (not_issued imported)))
       | Some h \<Rightarrow>
           bindA (liftE py_exn (issued_credential c i (snapshot_of (snd h)))) (\<lambda>credential.
             case credential of
               None \<Rightarrow> retA (not_issued False)
             | Some v \<Rightarrow>
                 bindA (if truthy (dget (snd h) ''resourceName'') \<and> truthy (dget (snd h) ''resourceId'') then retA ()
                        else bindA (request_by_id c i) (\<lambda>_. retA ())) (\<lambda>_.
                 bindA (liftE py_exn (json_get (snapshot_of (snd h)) ''issued_audit_id'')) (\<lambda>audit.
                 bindA (liftE py_exn (json_get (snapshot_of (snd h)) ''issued_at'')) (\<lambda>at.
                 bindA (liftE py_exn (json_get (snapshot_of (snd h)) ''issued_by'')) (\<lambda>by.
                   retA \<lparr>vw_credential = Some v, vw_status = ''issued'', vw_imported = False, vw_audit = audit, vw_at = at, vw_by = by\<rparr>))))))"

text \<open>After an approval: a delivery without credential gets one.\<close>

definition auto_issue_credential :: "desk_call \<Rightarrow> string \<Rightarrow> (unit, desk) act" where
  "auto_issue_credential c i =
     bindA (delivery_by_request c i) (\<lambda>found.
       case found of
         None \<Rightarrow> retA ()
       | Some h \<Rightarrow>
           bindA (liftE py_exn (json_get (snapshot_of (snd h)) ''credential'')) (\<lambda>credential.
           bindA (liftE py_exn (json_get (snapshot_of (snd h)) ''issued_audit_id'')) (\<lambda>audit.
             if truthy credential \<or> truthy audit then retA ()
             else bindA (issue_credential c i False) (\<lambda>_. retA ()))))"

section \<open>Calls\<close>

datatype desk_op =
    PlanExchange dict | PublishExchange dict | StartExchange dict | StopExchange dict
  | DownloadFile dict string
  | IngestReceipt dict
  | ReconcileReceipt string
  | ReplaceOrCancel dict
  | ManageSubscription dict
  | TriggerRecovery string
  | EndSubscription dict
  | RateService dict
  | ApproveGrant dict
  | RenewGrant dict
  | SuspendGrant dict
  | RevokeGrant dict
  | IssueCredential string bool

definition doneA :: "('a, 's) act \<Rightarrow> (unit, 's) act" where
  "doneA m = bindA m (\<lambda>_. retA ())"

definition desk_skill :: "desk_call \<Rightarrow> desk_op \<Rightarrow> (unit, desk) act" where
  "desk_skill c op =
     (case op of
        PlanExchange p \<Rightarrow> doneA (plan_delivery_exchange c p)
      | PublishExchange p \<Rightarrow> doneA (publish_delivery_exchange c p)
      | StartExchange p \<Rightarrow> doneA (start_delivery_exchange c p)
      | StopExchange p \<Rightarrow> doneA (stop_delivery_exchange c p)
      | DownloadFile p skill \<Rightarrow> doneA (record_file_download c p skill)
      | IngestReceipt p \<Rightarrow> doneA (ingest_delivery_receipt c p)
      | ReconcileReceipt i \<Rightarrow> reconcile_delivery_receipt c i
      | ReplaceOrCancel p \<Rightarrow> doneA (replace_or_cancel_delivery c p)
      | ManageSubscription p \<Rightarrow> doneA (manage_delivery_subscription c p)
      | TriggerRecovery i \<Rightarrow> trigger_delivery_recovery c i
      | EndSubscription p \<Rightarrow> end_subscription c p
      | RateService p \<Rightarrow> submit_service_rating c p
      | ApproveGrant p \<Rightarrow> approve_application_grant c p
      | RenewGrant p \<Rightarrow> renew_application_grant c p
      | SuspendGrant p \<Rightarrow> suspend_application_grant c p
      | RevokeGrant p \<Rightarrow> doneA (revoke_application_grant c p)
      | IssueCredential i again \<Rightarrow> doneA (issue_credential c i again))"

text \<open>A dispatch, and the state it leaves whether it fails or not.\<close>

definition desk_dispatch :: "desk_call \<Rightarrow> desk_op \<Rightarrow> desk \<Rightarrow> (exn + unit) \<times> desk" where
  "desk_dispatch c op s = (case desk_skill c op (fresh_desk s) of (r, s') \<Rightarrow> (r, fresh_desk s'))"

fun desk_run :: "desk \<Rightarrow> (desk_call \<times> desk_op) list \<Rightarrow> desk" where
  "desk_run s [] = s"
| "desk_run s ((c, op) # ops) = desk_run (snd (desk_dispatch c op s)) ops"

end
