(* ===== verification/DeliveryKeeps.thy ===== *)
theory DeliveryKeeps
  imports Credential
begin

text \<open>
  What every delivery skill keeps: a relation that the steps of the desk respect is respected by each skill, a failing
  one and its flush included. The steps are those of the interface below; the relations come as instances.
\<close>

section \<open>The writers of the repository\<close>

inductive desk_write :: "(nat \<Rightarrow> string) \<Rightarrow> delivery_db \<Rightarrow> delivery_db \<Rightarrow> bool" for uuid where
  write_patch: "update_task_payload now tenant i state patch db = Inr (x, db') \<Longrightarrow> desk_write uuid db db'"
| write_subscription: "upsert_subscription now tenant payload db = Inr (y, db') \<Longrightarrow> desk_write uuid db db'"
| write_end: "terminate_subscription now tenant i reason actor audit db = Inr (y, db') \<Longrightarrow> desk_write uuid db db'"
| write_attempt: "upsert_attempt now tenant payload db = Inr (z, db') \<Longrightarrow> desk_write uuid db db'"
| write_evidence: "add_execution_evidence now tenant payload db = Inr (v, db') \<Longrightarrow> desk_write uuid db db'"
| write_metric: "upsert_exchange_metric today now tenant payload db = Inr (w, db') \<Longrightarrow> desk_write uuid db db'"
| write_receipt: "append_receipt uuid now payload db = Inr (r, db') \<Longrightarrow> desk_write uuid db db'"
| write_card: "upsert_from_delivery uuid now tenant crd db = Inr db' \<Longrightarrow> desk_write uuid db db'"

section \<open>The steps of the desk\<close>

locale desk_relation =
  fixes R :: "desk \<Rightarrow> desk \<Rightarrow> bool" and c :: desk_call
  assumes R_refl: "R s s"
    and R_trans: "R a b \<Longrightarrow> R b d \<Longrightarrow> R a d"
    and R_tasks: "R s (s\<lparr>dk_tasks := ts\<rparr>)"
    and R_feed: "R s (s\<lparr>dk_feed := entries\<rparr>)"
    and R_lookup: "relA R (lookup_request c i)"
    and R_write: "desk_write (dc_uuid c) (dk_db s) db \<Longrightarrow> R s (s\<lparr>dk_db := db\<rparr>)"
    and R_flush: "relA R (flush_requests c)"
    and R_clear: "R s (fresh_desk s)"
begin

lemma keep_bind: "relA R m \<Longrightarrow> (\<And>x. relA R (f x)) \<Longrightarrow> relA R (bindA m f)"
  by (rule relA_bind) (auto intro: R_trans)

lemma keep_ret: "relA R (retA x)" and keep_throw: "relA R (throwA e)" and keep_lift: "relA R (liftE h m)"
  and keep_get: "relA R (getA g)" and keep_read: "relA R (readA g')"
  by (auto simp: relA_def act_simps liftE_def readA_def R_refl split: sum.splits)

lemma keep_feed: "relA R (feed_desk c skill target result)"
  by (simp add: relA_def feed_desk_def act_simps R_feed)

lemma keep_tasksA:
  assumes "\<And>db x db'. f db = Inr (x, db') \<Longrightarrow> desk_write (dc_uuid c) db db'"
  shows "relA R (tasksA f)"
  using assms by (auto simp: relA_def tasksA_def R_refl R_write split: sum.splits)

lemma keep_writers:
  "relA R (tasksA (update_task_payload now tenant i state patch))"
  "relA R (tasksA (upsert_subscription now tenant payload))"
  "relA R (tasksA (terminate_subscription now tenant i reason actor audit))"
  "relA R (tasksA (upsert_attempt now tenant payload))"
  "relA R (tasksA (add_execution_evidence now tenant payload))"
  "relA R (tasksA (upsert_exchange_metric today now tenant payload))"
  "relA R (tasksA (append_receipt (dc_uuid c) now payload))"
  by (rule keep_tasksA, erule desk_write.intros)+

lemma keep_store: "relA R (store_task c crd)"
  unfolding store_task_def by (rule keep_tasksA) (auto simp: result_simps intro: write_card)

lemma keep_edit_task: "relA R (edit_task h f)"
  by (auto simp: relA_def edit_task_def act_simps R_refl R_tasks bindA_def split: prod.splits sum.splits option.splits)

lemma keep_track: "relA R (track_task c found)"
  by (auto simp: relA_def track_task_def act_simps R_refl R_tasks bindA_def split: option.splits)

lemmas keep_parts =
  keep_bind keep_ret keep_throw keep_lift keep_get keep_read keep_feed keep_writers keep_store keep_edit_task keep_track R_lookup

lemma keep_request: "relA R (request_by_id c i)" "relA R (is_legacy_import c i)"
  unfolding request_by_id_def is_legacy_import_def request_record_def
  by (auto intro!: keep_parts split: option.splits)

lemma keep_delivery:
  "relA R (maybe_delivery c i)" "relA R (delivery_by_id c i)" "relA R (delivery_by_request c i)"
  unfolding maybe_delivery_def delivery_by_id_def delivery_by_request_def get_delivery_def get_delivery_by_request_def
    imported_task_def
  by (auto intro!: keep_parts split: option.splits)

lemma keep_flush_tasks: "relA R (flush_tasks c ts)"
proof (induction ts)
  case (Cons e ts)
  obtain i crd loaded where "e = (i, (crd, loaded))" by (metis prod_cases3)
  then show ?case using Cons by (auto intro!: keep_bind keep_store)
qed (simp add: keep_ret)

lemma keep_written: "relA R m \<Longrightarrow> relA R (written c m)"
  unfolding written_def flush_desk_def
  by (intro keep_bind keep_ret keep_get keep_flush_tasks R_flush relA_modify R_clear)

lemmas keep_rules = keep_parts keep_request keep_delivery keep_written

lemma keep_done: "relA R m \<Longrightarrow> relA R (doneA m)"
  unfolding doneA_def by (intro keep_bind keep_ret)

lemma keep_text: "relA R (payload_text p k)"
  unfolding payload_text_def by (rule keep_lift)

lemma keep_record_attempt: "relA R (record_attempt c p skill state kind)"
  unfolding record_attempt_def by (intro keep_text keep_rules)

lemma keep_exchanges:
  "relA R (plan_delivery_exchange c p)" "relA R (publish_delivery_exchange c p)"
  "relA R (start_delivery_exchange c p)" "relA R (stop_delivery_exchange c p)"
  unfolding plan_delivery_exchange_def publish_delivery_exchange_def start_delivery_exchange_def stop_delivery_exchange_def
  by (rule keep_record_attempt)+

lemma keep_download: "relA R (record_file_download c p skill)"
  unfolding record_file_download_def by (intro keep_text keep_rules)

lemma keep_ingest: "relA R (ingest_delivery_receipt c p)"
  unfolding ingest_delivery_receipt_def ingest_mutation_def
  by (auto intro!: keep_text keep_rules split: option.splits json.splits)

lemma keep_reconcile: "relA R (reconcile_delivery_receipt c i)" "relA R (trigger_delivery_recovery c i)"
  unfolding reconcile_delivery_receipt_def trigger_delivery_recovery_def status_item_def
  by (auto intro!: keep_text keep_rules)

lemma keep_replace: "relA R (replace_or_cancel_delivery c p)"
  unfolding replace_or_cancel_delivery_def Let_def by (auto intro!: keep_text keep_rules)

lemma keep_subscriptions: "relA R (manage_delivery_subscription c p)" "relA R (end_subscription c p)"
  unfolding manage_delivery_subscription_def end_subscription_def
  by (auto intro!: keep_text keep_rules split: option.splits)

lemma keep_rating: "relA R (submit_service_rating c p)"
  unfolding submit_service_rating_def Let_def by (auto intro!: keep_text keep_rules)

lemma keep_grants: "relA R (grant_delivery_access c i)" "relA R (approve_application_grant c p)" "relA R (renew_application_grant c p)"
proof -
  show grant: "relA R (grant_delivery_access c i)" for i
    unfolding grant_delivery_access_def status_item_def bound_status_def request_record_def Let_def
    by (auto intro!: keep_text keep_rules split: option.splits)
  show "relA R (approve_application_grant c p)"
    unfolding approve_application_grant_def Let_def by (auto intro!: keep_text keep_rules grant)
  show "relA R (renew_application_grant c p)"
    unfolding renew_application_grant_def Let_def by (auto intro!: keep_text keep_rules)
qed

lemma keep_issue: "relA R (issue_credential c i again)"
  unfolding issue_credential_def delivery_to_issue_def issue_mutation_def Let_def
  by (auto intro!: keep_text keep_rules split: option.splits bool.splits)

text \<open>Every skill that leaves the request alone.\<close>

lemma keep_skill:
  assumes "\<And>p. op \<noteq> SuspendGrant p" and "\<And>p. op \<noteq> RevokeGrant p"
  shows "relA R (desk_skill c op)"
  using assms
  by (cases op) (auto simp: desk_skill_def intro!: keep_done keep_exchanges keep_download keep_ingest keep_reconcile keep_replace
      keep_subscriptions keep_rating keep_grants keep_issue)

lemma keep_dispatch:
  assumes "relA R (desk_skill c op)"
  shows "R s (snd (desk_dispatch c op s))"
proof -
  have "R (fresh_desk s) (snd (desk_skill c op (fresh_desk s)))" using assms by (simp add: relA_def)
  then have "R s (fresh_desk (snd (desk_skill c op (fresh_desk s))))"
    using R_clear R_trans by blast
  then show ?thesis by (simp add: desk_dispatch_def split_beta)
qed

end

text \<open>And a relation that a change of a request respects too.\<close>

locale desk_relation_all = desk_relation +
  assumes R_card: "R s (s\<lparr>dk_cards := cs\<rparr>)"
    and R_status: "R s (s\<lparr>dk_store := st\<rparr>)"
begin

lemma keep_edit_request: "relA R (edit_request h f)"
  by (auto simp: relA_def edit_request_def act_simps R_refl R_card bindA_def split: prod.splits sum.splits option.splits)

lemma keep_set_status: "relA R (put_status i status)"
  by (simp add: relA_def put_status_def act_simps R_status)

lemma keep_suspend: "relA R (suspend_application_grant c p)"
  unfolding suspend_application_grant_def suspend_mutation_def grant_target_def Let_def
  by (auto intro!: keep_rules keep_edit_request keep_set_status)

lemma keep_revoke: "relA R (revoke_application_grant c p)"
  unfolding revoke_application_grant_def revoke_mutation_def grant_target_def Let_def
  by (auto intro!: keep_rules keep_edit_request keep_set_status)

lemma keep_every_skill: "R s (snd (desk_dispatch c op s))"
proof (cases "(\<exists>p. op = SuspendGrant p) \<or> (\<exists>p. op = RevokeGrant p)")
  case True
  then have "relA R (desk_skill c op)"
    by (auto simp: desk_skill_def intro!: keep_suspend keep_done keep_revoke)
  then show ?thesis by (rule keep_dispatch)
next
  case False
  then show ?thesis by (intro keep_dispatch keep_skill) auto
qed

end

end
