(* ===== verification/DeliverySafe.thy ===== *)
theory DeliverySafe
  imports DeliveryKeeps ConditionalSafe
begin

text \<open>
  What holds of deliveries, grants and credentials: nothing that names a secret is stored, a credential is always
  derived as it was first issued, the receipts of a delivery stay, and what may become of a granted request.
\<close>

section \<open>A desk to run\<close>

text \<open>The digest of the sample counts the entries of a history and a timeline, which every change extends.\<close>

definition entry_count :: "dict \<Rightarrow> string" where
  "entry_count d = concat (map (\<lambda>k. case dget d k of JList xs \<Rightarrow> map (\<lambda>_. CHR ''x'') xs | _ \<Rightarrow> ''y'') [''history'', ''timeline''])"

definition sample_desk_call :: "string \<Rightarrow> desk_call" where
  "sample_desk_call audit = \<lparr>dc_uuid = (\<lambda>n. replicate (Suc n) CHR ''k''), dc_fp = entry_count, dc_hash = (\<lambda>s. s),
     dc_mask = (\<lambda>v. v), dc_iso = (\<lambda>_. []), dc_stamp = (\<lambda>_. []), dc_now = 5, dc_today = ''day'', dc_datetime = ''now'',
     dc_short_time = ''t'', dc_date = ''d'', dc_next_year = ''y'', dc_audit = audit, dc_actor = ''ann'', dc_role = ''ROLE_BUSIAUDIT''\<rparr>"

definition sample_task :: delivery_task where
  "sample_task = \<lparr>dt_tenant = ''sd-default'', dt_code = ''d1'', dt_application = ''q1'', dt_state = ''pending'', dt_channel = ''api'',
     dt_payload = [(''id'', JStr ''d1''), (''requestId'', JStr ''q1''), (''status'', JStr ''pending''), (''channel'', JStr ''api''),
       (''resourceId'', JStr ''r''), (''resourceName'', JStr ''R''), (''history'', JList []), (''aiSummary'', JObj [])],
     dt_created = 1, dt_updated = 1\<rparr>"

definition sample_desk :: "string \<Rightarrow> desk" where
  "sample_desk status = \<lparr>dk_store = \<lparr>st_apps = [\<lparr>ap_tenant = ''sd-default'', ap_code = ''q1'', ap_status = status, ap_name = JStr ''ann'',
       ap_org = JStr ''o'', ap_payload = [(''id'', JStr ''q1''), (''applicant'', JStr ''ann''), (''applicantDept'', JStr ''o'')], ap_created = 1\<rparr>],
       st_cases = empty_case_db, st_legacy = []\<rparr>,
     dk_db = \<lparr>dv_tasks = [sample_task], dv_receipts = [], dv_subscriptions = [], dv_attempts = [], dv_evidence = [], dv_metrics = [], dv_next = 0\<rparr>,
     dk_cards = empty_session, dk_tasks = [], dk_feed = []\<rparr>"

definition sample_issues :: "(desk_call \<times> desk_op) list" where
  "sample_issues = [(sample_desk_call ''a1'', IssueCredential ''q1'' False), (sample_desk_call ''a2'', IssueCredential ''q1'' True)]"

definition sample_ingest :: desk_op where
  "sample_ingest = IngestReceipt [(''task_id'', JStr ''d1''), (''receipt_status'', JStr ''ok''), (''receipt_no'', JStr ''n1'')]"

definition sample_ingests :: desk where
  "sample_ingests = desk_run (sample_desk ''granted'') [(sample_desk_call ''a1'', sample_ingest), (sample_desk_call ''a2'', sample_ingest)]"

section \<open>No secret is stored\<close>

definition stored_values :: "delivery_db \<Rightarrow> json list" where
  "stored_values db =
     map (\<lambda>t. JObj (dt_payload t)) (dv_tasks db) @ map rp_payload (dv_receipts db) @
     concat (map (\<lambda>r. [su_schedule r, su_policy r, su_snapshot r]) (dv_subscriptions db)) @
     map at_payload (dv_attempts db) @ map ee_payload (dv_evidence db) @ map em_summary (dv_metrics db)"

definition secret_free :: "delivery_db \<Rightarrow> bool" where
  "secret_free db \<longleftrightarrow> (\<forall>v \<in> set (stored_values db). clean v)"

lemma safe_dict_clean: "clean (JObj (safe_dict d))"
  using safe_json_clean [of "JObj d"] by (simp add: safe_dict_def)

lemma clean_items: "clean (JObj d) \<longleftrightarrow> (\<forall>(k, v) \<in> set d. \<not> is_sensitive_json_key k \<and> clean v)"
  by (auto elim: clean_objE intro: clean_obj)

lemma set_dset_subset: "set (dset d k v) \<subseteq> insert (k, v) (set d)"
  by (induction d k v rule: dset.induct) auto

lemma dset_clean: "clean (JObj d) \<Longrightarrow> clean v \<Longrightarrow> \<not> is_sensitive_json_key k \<Longrightarrow> clean (JObj (dset d k v))"
  using set_dset_subset [of d k v] by (auto simp: clean_items)

lemma snapshot_key: "\<not> is_sensitive_json_key ''access_grant_snapshot''"
  by code_simp

lemma delivery_payload_clean: "clean (JObj (delivery_payload crd))"
  by (auto simp: delivery_payload_def grant_snapshot_def intro!: dset_clean safe_dict_clean snapshot_key split: json.splits)

lemma terminated_clean: "terminated_snapshot v e = Inr w \<Longrightarrow> clean v \<Longrightarrow> clean w"
  by (auto simp: terminated_snapshot_def safe_json_clean simp del: safe_json.simps split: json.splits option.splits)

lemma secret_free_parts:
  "secret_free db \<longleftrightarrow> (\<forall>t \<in> set (dv_tasks db). clean (JObj (dt_payload t))) \<and> (\<forall>r \<in> set (dv_receipts db). clean (rp_payload r)) \<and>
     (\<forall>r \<in> set (dv_subscriptions db). clean (su_schedule r) \<and> clean (su_policy r) \<and> clean (su_snapshot r)) \<and>
     (\<forall>r \<in> set (dv_attempts db). clean (at_payload r)) \<and> (\<forall>r \<in> set (dv_evidence db). clean (ee_payload r)) \<and>
     (\<forall>r \<in> set (dv_metrics db). clean (em_summary r))"
  by (auto simp: secret_free_def stored_values_def)

lemma found_row_in: "found_row p rows = Inr (Some r) \<Longrightarrow> r \<in> set rows \<and> p r"
  by (auto simp: found_row_def one_or_none_def result_simps filter_eq_Cons_iff split: list.splits)

lemma receipt_clean: "clean (card_receipt_payload crd)"
  by (simp add: card_receipt_payload_def safe_json_clean del: safe_json.simps)

lemma save_card_receipt_cases:
  assumes "save_card_receipt uuid now crd code db = Inr db'"
  obtains (new) r where "db' = db\<lparr>dv_receipts := dv_receipts db @ [r], dv_next := Suc (dv_next db)\<rparr>"
      "rp_id r = uuid (dv_next db)" "rp_payload r = card_receipt_payload crd"
  | (changed) r r' where "db' = db\<lparr>dv_receipts := put_row rp_id r' (dv_receipts db)\<rparr>" "r \<in> set (dv_receipts db)"
      "rp_id r' = rp_id r" "rp_delivery r' = rp_delivery r" "rp_no r' = rp_no r" "rp_payload r' = card_receipt_payload crd"
  | (same) "db' = db"
proof -
  obtain number found where found: "found_row (\<lambda>r. rp_delivery r = code \<and> rp_no r = number) (dv_receipts db) = Inr found"
      and step: "(case found of
         None \<Rightarrow>
           bindE (raiseE py_exn (card_receipt_type crd)) (\<lambda>kind.
           bindE (raiseE py_exn (card_receipt_status crd)) (\<lambda>status.
             Inr (db\<lparr>dv_receipts := dv_receipts db @
                       [\<lparr>rp_id = uuid (dv_next db), rp_delivery = code, rp_type = kind, rp_no = number, rp_status = status,
                         rp_payload = card_receipt_payload crd, rp_issued = now, rp_acknowledged = None\<rparr>],
                     dv_next := Suc (dv_next db)\<rparr>)))
       | Some r \<Rightarrow>
           if is_projection_receipt r
           then bindE (raiseE py_exn (card_receipt_status crd)) (\<lambda>status.
                bindE (raiseE py_exn (card_receipt_type crd)) (\<lambda>kind.
                let r' = r\<lparr>rp_type := kind, rp_status := status, rp_payload := card_receipt_payload crd,
                           rp_acknowledged := (if status \<in> {''acknowledged'', ''reconciled''} then Some now
                                               else rp_acknowledged r)\<rparr>
                in Inr (db\<lparr>dv_receipts := put_row rp_id r' (dv_receipts db)\<rparr>)))
           else Inr db) = Inr db'"
    using assms by (auto simp: save_card_receipt_def bindE_Inr_iff)
  show thesis
  proof (cases found)
    case None
    then show thesis using step by (auto simp: result_simps intro: new)
  next
    case (Some r)
    then have r: "r \<in> set (dv_receipts db)" using found_row_in [of _ _ r] found by blast
    show thesis
    proof (cases "is_projection_receipt r")
      case True
      then show thesis using step Some r by (auto simp: result_simps Let_def intro!: changed [of _ r])
    qed (use step Some same in simp)
  qed
qed

lemma save_card_receipt_free:
  assumes "save_card_receipt uuid now crd code db = Inr db'" and "secret_free db"
  shows "secret_free db'"
  using assms(1)
  by (cases rule: save_card_receipt_cases) (use assms(2) in \<open>auto simp: secret_free_parts receipt_clean dest!: in_put_row\<close>)

lemma card_task_clean: "card_task now tenant crd found = Inr t \<Longrightarrow> (\<And>old. found = Some old \<Longrightarrow> clean (JObj (dt_payload old))) \<Longrightarrow>
    clean (JObj (dt_payload t))"
  by (auto simp: card_task_def stamp_task_def result_simps Let_def delivery_payload_clean split: option.splits if_splits)

lemma upsert_delivery_free:
  assumes "upsert_from_delivery uuid now tenant crd db = Inr db'" and "secret_free db"
  shows "secret_free db'"
proof -
  obtain code found t where parts: "get_delivery_task db tenant code = Inr found" "card_task now tenant crd found = Inr t"
      "save_card_receipt uuid now crd code (db\<lparr>dv_tasks := save_row task_title_key found t (dv_tasks db)\<rparr>) = Inr db'"
    using assms(1) by (auto simp: upsert_from_delivery_def result_simps)
  have "clean (JObj (dt_payload old))" if "found = Some old" for old
    using that parts(1) assms(2) by (auto simp: get_delivery_task_def secret_free_parts dest!: found_row_in)
  then have "clean (JObj (dt_payload t))" by (rule card_task_clean [OF parts(2)])
  then have "secret_free (db\<lparr>dv_tasks := save_row task_title_key found t (dv_tasks db)\<rparr>)"
    using assms(2) by (auto simp: secret_free_parts dest!: in_save_row)
  then show ?thesis by (rule save_card_receipt_free [OF parts(3)])
qed

lemma write_secret_free: "desk_write uuid db db' \<Longrightarrow> secret_free db \<Longrightarrow> secret_free db'"
proof (induction rule: desk_write.induct)
  case (write_patch now tenant i state patch db x db')
  then obtain found where found: "get_delivery_task db tenant i = Inr found"
      "(case found of None \<Rightarrow> (None, db) | Some t \<Rightarrow>
          let t' = t\<lparr>dt_state := (case state of None \<Rightarrow> dt_state t | Some s \<Rightarrow> s),
            dt_payload := (if patch = [] then dt_payload t else safe_dict (dmerge (dt_payload t) patch)), dt_updated := now\<rparr>
          in (Some t', db\<lparr>dv_tasks := put_row task_title_key t' (dv_tasks db)\<rparr>)) = (x, db')"
    by (auto simp: update_task_payload_def result_simps)
  show ?case
  proof (cases found)
    case (Some t)
    then have "clean (JObj (dt_payload t))"
      using found(1) write_patch(2) by (auto simp: get_delivery_task_def secret_free_parts dest!: found_row_in)
    then show ?thesis
      using found(2) Some write_patch(2)
      by (auto simp: Let_def secret_free_parts safe_dict_clean dest!: in_put_row split: if_splits)
  qed (use found(2) write_patch(2) in simp)
next
  case (write_subscription now tenant payload db y db')
  then show ?case
    by (auto simp: upsert_subscription_def subscription_of_def Let_def result_simps secret_free_parts safe_json_clean dest!: in_save_row)
next
  case (write_end now tenant i reason actor audit db y db')
  then obtain r w where r: "r \<in> set (dv_subscriptions db)"
      "terminated_snapshot (su_snapshot r)
         [(''audit_id'', JStr audit), (''reason'', JStr reason), (''actor'', JStr actor)] = Inr w"
      "db' = db\<lparr>dv_subscriptions := put_row subscription_key
         (r\<lparr>su_status := ''terminated'', su_snapshot := w, su_updated := now\<rparr>) (dv_subscriptions db)\<rparr>"
    by (auto simp: terminate_subscription_def Let_def result_simps dest!: found_row_in split: option.splits)
  have "clean w" using terminated_clean [OF r(2)] r(1) write_end(2) by (simp add: secret_free_parts)
  then show ?case using r(1,3) write_end(2) by (auto simp: secret_free_parts dest!: in_put_row)
next
  case (write_attempt now tenant payload db z db')
  then show ?case
    by (auto simp: upsert_attempt_def attempt_of_def Let_def result_simps secret_free_parts safe_json_clean
        simp del: safe_json.simps dest!: in_save_row)
next
  case (write_evidence now tenant payload db v db')
  then show ?case
    by (auto simp: add_execution_evidence_def evidence_of_def Let_def result_simps secret_free_parts safe_json_clean
        simp del: safe_json.simps dest!: in_save_row)
next
  case (write_metric today now tenant payload db w db')
  then show ?case
    by (auto simp: upsert_exchange_metric_def metric_of_def Let_def result_simps secret_free_parts safe_json_clean
        simp del: safe_json.simps dest!: in_save_row)
next
  case (write_receipt now payload db r db')
  then show ?case
    by (auto simp: append_receipt_def Let_def result_simps secret_free_parts safe_json_clean simp del: safe_json.simps)
next
  case (write_card now tenant crd db db')
  then show ?case by (rule upsert_delivery_free)
qed

definition keeps_secret_free :: "desk \<Rightarrow> desk \<Rightarrow> bool" where
  "keeps_secret_free s s' \<longleftrightarrow> (secret_free (dk_db s) \<longrightarrow> secret_free (dk_db s'))"

interpretation secrets: desk_relation_all keeps_secret_free c for c
proof
  show "keeps_secret_free s (s\<lparr>dk_db := db\<rparr>)" if "desk_write (dc_uuid c) (dk_db s) db" for s db
    using write_secret_free [OF that] by (simp add: keeps_secret_free_def)
qed (auto simp: keeps_secret_free_def relA_def lookup_request_def flush_requests_def fresh_desk_def split: sum.splits)


lemma run_secret_free: "secret_free (dk_db s) \<Longrightarrow> secret_free (dk_db (desk_run s ops))"
proof (induction ops arbitrary: s)
  case (Cons e ops)
  obtain c op where e: "e = (c, op)" by force
  have "secret_free (dk_db (snd (desk_dispatch c op s)))"
    using secrets.keep_every_skill [of s c op] Cons.prems by (simp add: keeps_secret_free_def)
  then show ?case using Cons.IH by (simp add: e)
qed simp

text \<open>C35: whatever calls are made, nothing is stored of a delivery under a key that names a secret: not in a task, a
  receipt, a subscription, an attempt, a piece of evidence or a metric, at any depth.\<close>

theorem no_secret_is_stored:
  assumes "secret_free (dk_db s)"
  shows "secret_free (dk_db (desk_run s ops))"
  using assms by (rule run_secret_free)

lemma clean_fixed: "safe_json v = v \<Longrightarrow> clean v"
  using safe_json_clean [of v] by simp

lemma sample_secret_free: "secret_free (dk_db (sample_desk status))"
  by (simp add: secret_free_parts sample_desk_def sample_task_def) (rule clean_fixed, code_simp)

lemma no_secret_is_stored_witness: "secret_free (dk_db (desk_run (sample_desk ''granted'') sample_issues))"
  by (rule no_secret_is_stored [OF sample_secret_free])

section \<open>The credential\<close>

lemma credential_keys: "is_sensitive_json_key ''credential''" "is_sensitive_json_key ''credential_seed''"
  by code_simp+

lemma clean_dget:
  assumes "clean (JObj d)"
  shows "clean (dget d k)" and "is_sensitive_json_key k \<Longrightarrow> dget d k = JNull"
proof -
  show "clean (dget d k)"
    using assms map_of_SomeD [of d k] by (cases "map_of d k") (auto simp: dget_def clean_items intro: clean_atom)
  show "dget d k = JNull" if "is_sensitive_json_key k"
    using assms that map_of_SomeD [of d k] by (cases "map_of d k") (auto simp: dget_def clean_items)
qed

lemma clean_snapshot:
  assumes "clean (JObj payload)" and "snapshot_of (dset payload ''status'' v) = JObj d"
  shows "dget d ''credential'' = JNull \<and> dget d ''credential_seed'' = JNull"
proof -
  have "snapshot_of (dset payload ''status'' v) = py_or (dget payload ''accessGrantSnapshot'') (JObj [])"
    by (simp add: snapshot_of_def dget_def)
  then have "JObj d = dget payload ''accessGrantSnapshot'' \<or> d = []"
    using assms(2) by (auto simp: py_or_def split: if_splits)
  then have "clean (JObj d)" using clean_dget(1) [OF assms(1)] by (metis clean_items empty_iff empty_set)
  then show ?thesis using clean_dget(2) credential_keys by blast
qed

lemma issued_from_clean:
  assumes "clean (JObj payload)" and "issued_credential c i (snapshot_of (dset payload ''status'' v)) = Inr found"
  shows "found = None \<or> found = Some (JObj (derive_platform_credential c i JNull))"
proof (cases "snapshot_of (dset payload ''status'' v)")
  case (JObj d)
  then show ?thesis
    using assms(2) clean_snapshot [OF assms(1) JObj] by (auto simp: issued_credential_def result_simps split: if_splits)
qed (use assms(2) in \<open>auto simp: issued_credential_def json_get_def result_simps\<close>)

lemma liftE_Inr: "liftE h m s = (Inr x, t) \<longleftrightarrow> m = Inr x \<and> t = s"
  by (auto simp: liftE_def split: sum.splits)

lemma fresh_desk_simps [simp]:
  "dk_db (fresh_desk s) = dk_db s" "dk_store (fresh_desk s) = dk_store s" "dk_feed (fresh_desk s) = dk_feed s"
  "dk_tasks (fresh_desk s) = []" "dk_cards (fresh_desk s) = empty_session"
  by (simp_all add: fresh_desk_def)

lemma fresh_delivery:
  assumes "get_task_by_application (dk_db s) default_card_tenant i = Inr (Some d)"
    and "is_runtime_delivery_payload (dt_payload d)"
  shows "\<exists>s'. delivery_by_request c i (fresh_desk s) = (Inr (Some (Some (dt_code d), card_of_task d)), s')"
  using assms by (simp add: delivery_by_request_def get_delivery_by_request_def bindA_def act_simps readA_def track_task_def)

text \<open>C36: once its dispatch is over, a credential issued again is gone: whatever was issued before, the query for a
  delivery of the running system answers the credential derived without a seed, the one issued first.\<close>

theorem reissued_credential_is_lost:
  assumes "secret_free (dk_db s)"
    and "get_task_by_application (dk_db (desk_run s ops)) default_card_tenant i = Inr (Some d)"
    and "is_runtime_delivery_payload (dt_payload d)"
    and "get_credential c i (fresh_desk (desk_run s ops)) = (Inr v, s')" and "vw_credential v = Some k"
  shows "k = JObj (derive_platform_credential c i JNull)"
proof -
  have "secret_free (dk_db (desk_run s ops))" using assms(1) by (rule run_secret_free)
  then have clean: "clean (JObj (dt_payload d))"
    using assms(2) by (auto simp: get_task_by_application_def secret_free_parts dest!: found_row_in)
  obtain s1 where "delivery_by_request c i (fresh_desk (desk_run s ops)) = (Inr (Some (Some (dt_code d), card_of_task d)), s1)"
    using fresh_delivery [OF assms(2,3)] by blast
  note step = assms(4) [unfolded get_credential_def bindA_Inr_iff, simplified this, simplified]
  have "\<exists>found. issued_credential c i (snapshot_of (card_of_task d)) = Inr found \<and> (v = not_issued False \<or> vw_credential v = found)"
  proof (cases "issued_credential c i (snapshot_of (card_of_task d))")
    case (Inr found)
    then show ?thesis
      using step by (cases found) (auto simp: bindA_Inr_iff liftE_Inr act_simps)
  qed (use step in \<open>simp add: bindA_Inr_iff liftE_Inr\<close>)
  then obtain found where found: "issued_credential c i (snapshot_of (card_of_task d)) = Inr found"
      and answer: "v = not_issued False \<or> vw_credential v = found" by blast
  have "found = None \<or> found = Some (JObj (derive_platform_credential c i JNull))"
    using issued_from_clean [OF clean] found unfolding card_of_task_def by blast
  then show ?thesis using answer assms(5) by (auto simp: not_issued_def)
qed

definition sample_stored :: "delivery_task option" where
  "sample_stored = (case get_task_by_application (dk_db (desk_run (sample_desk ''granted'') sample_issues)) default_card_tenant ''q1'' of
     Inr found \<Rightarrow> found | Inl _ \<Rightarrow> None)"

definition sample_answer :: "exn + credential_view" where
  "sample_answer = fst (get_credential (sample_desk_call ''z'') ''q1'' (fresh_desk (desk_run (sample_desk ''granted'') sample_issues)))"

definition sample_reissue :: "exn + issued" where
  "sample_reissue = fst (issue_credential (sample_desk_call ''a2'') ''q1'' True
     (fresh_desk (desk_run (sample_desk ''granted'') [(sample_desk_call ''a1'', IssueCredential ''q1'' False)])))"

lemma sample_stored_runs: "case sample_stored of None \<Rightarrow> False | Some d \<Rightarrow> is_runtime_delivery_payload (dt_payload d)"
  by code_simp

lemma sample_stored_found:
  "get_task_by_application (dk_db (desk_run (sample_desk ''granted'') sample_issues)) default_card_tenant ''q1'' = Inr sample_stored"
  using sample_stored_runs unfolding sample_stored_def by (simp split: sum.splits)

lemma sample_answer_runs: "case sample_answer of Inl _ \<Rightarrow> False | Inr v \<Rightarrow> vw_credential v \<noteq> None \<and> vw_audit v = JStr ''a2''"
  by code_simp

text \<open>The second issue answered another credential than the query that follows it.\<close>

lemma reissued_credential_is_lost_witness:
  "(case sample_answer of Inl _ \<Rightarrow> False | Inr v \<Rightarrow> vw_credential v = Some (JObj (derive_platform_credential (sample_desk_call ''z'') ''q1'' JNull))) \<and>
   (case sample_reissue of Inl _ \<Rightarrow> False | Inr a \<Rightarrow> is_via a = ''manual-reissue'' \<and>
      is_credential a \<noteq> JObj (derive_platform_credential (sample_desk_call ''z'') ''q1'' JNull))"
proof
  obtain d where d: "sample_stored = Some d" "is_runtime_delivery_payload (dt_payload d)"
    using sample_stored_runs by (auto split: option.splits)
  obtain v k where v: "sample_answer = Inr v" "vw_credential v = Some k"
    using sample_answer_runs by (auto split: sum.splits)
  obtain s' where "get_credential (sample_desk_call ''z'') ''q1'' (fresh_desk (desk_run (sample_desk ''granted'') sample_issues)) = (Inr v, s')"
    using v(1) unfolding sample_answer_def by (metis prod.collapse)
  note lost = reissued_credential_is_lost [OF sample_secret_free sample_stored_found [unfolded d(1)] d(2) this v(2)]
  show "case sample_answer of Inl _ \<Rightarrow> False | Inr v \<Rightarrow> vw_credential v = Some (JObj (derive_platform_credential (sample_desk_call ''z'') ''q1'' JNull))"
    unfolding v(1) sum.case v(2) lost ..
  show "case sample_reissue of Inl _ \<Rightarrow> False | Inr a \<Rightarrow> is_via a = ''manual-reissue'' \<and>
      is_credential a \<noteq> JObj (derive_platform_credential (sample_desk_call ''z'') ''q1'' JNull)"
    by code_simp
qed

section \<open>Receipts stay\<close>

definition numbered :: "delivery_db \<Rightarrow> string \<Rightarrow> string option \<Rightarrow> nat" where
  "numbered db code no = length (filter (\<lambda>r. rp_delivery r = code \<and> rp_no r = no) (dv_receipts db))"

definition receipts_ok :: "(nat \<Rightarrow> string) \<Rightarrow> delivery_db \<Rightarrow> bool" where
  "receipts_ok uuid db \<longleftrightarrow> inj uuid \<and> unique_on rp_id (dv_receipts db) \<and>
     (\<forall>r \<in> set (dv_receipts db). \<exists>n < dv_next db. rp_id r = uuid n)"

definition receipts_grow :: "(nat \<Rightarrow> string) \<Rightarrow> delivery_db \<Rightarrow> delivery_db \<Rightarrow> bool" where
  "receipts_grow uuid db db' \<longleftrightarrow>
     (receipts_ok uuid db \<longrightarrow> receipts_ok uuid db' \<and> (\<forall>code no. numbered db code no \<le> numbered db' code no))"

lemma receipts_grow_same: "dv_receipts db' = dv_receipts db \<Longrightarrow> dv_next db' = dv_next db \<Longrightarrow> receipts_grow uuid db db'"
  by (simp add: receipts_grow_def receipts_ok_def numbered_def)

lemma receipts_grow_new:
  assumes "dv_receipts db' = dv_receipts db @ [r]" and "rp_id r = uuid (dv_next db)" and "dv_next db' = Suc (dv_next db)"
  shows "receipts_grow uuid db db'"
proof -
  have "receipts_ok uuid db'" if ok: "receipts_ok uuid db"
  proof -
    have "rp_id r \<notin> rp_id ` set (dv_receipts db)"
    proof
      assume "rp_id r \<in> rp_id ` set (dv_receipts db)"
      then obtain n where "n < dv_next db" "uuid (dv_next db) = uuid n"
        using ok assms(2) by (auto simp: receipts_ok_def)
      then show False using ok by (auto simp: receipts_ok_def dest: injD)
    qed
    then show ?thesis using ok assms by (auto simp: receipts_ok_def unique_on_def less_Suc_eq)
  qed
  then show ?thesis using assms(1) by (simp add: receipts_grow_def numbered_def)
qed

lemma numbered_put:
  assumes "unique_on rp_id rows" and "r \<in> set rows" and "rp_id r' = rp_id r" and "p r' = p r"
  shows "length (filter p (put_row rp_id r' rows)) = length (filter p rows)"
proof -
  have "p (if rp_id x = rp_id r' then r' else x) = p x" if "x \<in> set rows" for x
    using assms that by (auto simp: unique_on_def distinct_map dest: inj_onD)
  then have "filter (p \<circ> (\<lambda>x. if rp_id x = rp_id r' then r' else x)) rows = filter p rows"
    by (intro filter_cong) auto
  then show ?thesis by (simp add: put_row_def filter_map)
qed

lemma receipts_grow_put:
  assumes "db' = db\<lparr>dv_receipts := put_row rp_id r' (dv_receipts db)\<rparr>" and "r \<in> set (dv_receipts db)" and "rp_id r' = rp_id r"
    and "rp_delivery r' = rp_delivery r" and "rp_no r' = rp_no r"
  shows "receipts_grow uuid db db'"
proof -
  have "receipts_ok uuid db'" if "receipts_ok uuid db"
    using that assms by (auto simp: receipts_ok_def unique_on_def dest!: in_put_row)
  moreover have "numbered db' code no = numbered db code no" if "receipts_ok uuid db" for code no
    using numbered_put [of "dv_receipts db" r r'] that assms by (simp add: numbered_def receipts_ok_def)
  ultimately show ?thesis by (simp add: receipts_grow_def)
qed

lemma upsert_delivery_grow:
  assumes "upsert_from_delivery uuid now tenant crd db = Inr db'"
  shows "receipts_grow uuid db db'"
proof -
  obtain code found t where "save_card_receipt uuid now crd code (db\<lparr>dv_tasks := save_row task_title_key found t (dv_tasks db)\<rparr>) = Inr db'"
    using assms by (auto simp: upsert_from_delivery_def result_simps)
  then have "receipts_grow uuid (db\<lparr>dv_tasks := save_row task_title_key found t (dv_tasks db)\<rparr>) db'"
  proof (cases rule: save_card_receipt_cases)
    case (new r)
    then show ?thesis by (intro receipts_grow_new [of _ _ r]) simp_all
  next
    case (changed r r')
    then show ?thesis by (intro receipts_grow_put [where r' = r' and r = r]) simp_all
  qed (simp add: receipts_grow_same)
  then show ?thesis by (simp add: receipts_grow_def receipts_ok_def numbered_def)
qed

lemma write_receipts_grow: "desk_write uuid db db' \<Longrightarrow> receipts_grow uuid db db'"
proof (induction rule: desk_write.induct)
  case (write_patch now tenant i state patch db x db')
  then obtain found where "(case found of None \<Rightarrow> (None, db) | Some t \<Rightarrow>
          let t' = t\<lparr>dt_state := (case state of None \<Rightarrow> dt_state t | Some s \<Rightarrow> s),
            dt_payload := (if patch = [] then dt_payload t else safe_dict (dmerge (dt_payload t) patch)), dt_updated := now\<rparr>
          in (Some t', db\<lparr>dv_tasks := put_row task_title_key t' (dv_tasks db)\<rparr>)) = (x, db')"
    by (auto simp: update_task_payload_def result_simps)
  then show ?case by (cases found) (auto simp: Let_def intro!: receipts_grow_same)
next
  case (write_subscription now tenant payload db y db')
  then show ?case by (auto simp: upsert_subscription_def Let_def result_simps intro!: receipts_grow_same)
next
  case (write_end now tenant i reason actor audit db y db')
  then show ?case
    by (auto simp: terminate_subscription_def Let_def result_simps intro!: receipts_grow_same split: option.splits)
next
  case (write_attempt now tenant payload db z db')
  then show ?case by (auto simp: upsert_attempt_def Let_def result_simps intro!: receipts_grow_same)
next
  case (write_evidence now tenant payload db v db')
  then show ?case by (auto simp: add_execution_evidence_def result_simps intro!: receipts_grow_same)
next
  case (write_metric today now tenant payload db w db')
  then show ?case by (auto simp: upsert_exchange_metric_def result_simps intro!: receipts_grow_same)
next
  case (write_receipt now payload db r db')
  then show ?case
    by (intro receipts_grow_new [of _ _ r]) (auto simp: append_receipt_def Let_def result_simps)
next
  case (write_card now tenant crd db db')
  then show ?case by (rule upsert_delivery_grow)
qed

definition keeps_receipts :: "desk_call \<Rightarrow> desk \<Rightarrow> desk \<Rightarrow> bool" where
  "keeps_receipts c s s' \<longleftrightarrow> receipts_grow (dc_uuid c) (dk_db s) (dk_db s')"

lemma receipts_grow_refl: "receipts_grow uuid db db"
  by (simp add: receipts_grow_same)

lemma receipts_grow_trans: "receipts_grow uuid a b \<Longrightarrow> receipts_grow uuid b d \<Longrightarrow> receipts_grow uuid a d"
  unfolding receipts_grow_def by (meson le_trans)

interpretation receipts: desk_relation_all "keeps_receipts c" c for c
proof
  show "keeps_receipts c a d" if "keeps_receipts c a b" "keeps_receipts c b d" for a b d
    using that receipts_grow_trans unfolding keeps_receipts_def by blast
  show "keeps_receipts c s (s\<lparr>dk_db := db\<rparr>)" if "desk_write (dc_uuid c) (dk_db s) db" for s db
    using write_receipts_grow [OF that] by (simp add: keeps_receipts_def)
qed (auto simp: keeps_receipts_def receipts_grow_refl relA_def lookup_request_def flush_requests_def fresh_desk_def split: sum.splits)

lemma run_receipts_grow:
  "list_all (\<lambda>(c, op). dc_uuid c = uuid) ops \<Longrightarrow> receipts_grow uuid (dk_db s) (dk_db (desk_run s ops))"
proof (induction ops arbitrary: s)
  case (Cons e ops)
  obtain c op where e: "e = (c, op)" by force
  have "receipts_grow uuid (dk_db s) (dk_db (snd (desk_dispatch c op s)))"
    using receipts.keep_every_skill [of c s op] Cons.prems by (simp add: keeps_receipts_def e)
  then show ?case
    using Cons.IH [of "snd (desk_dispatch c op s)"] Cons.prems receipts_grow_trans by (auto simp: e)
qed (simp add: receipts_grow_refl)

lemma two_found: "2 \<le> length (filter p rows) \<Longrightarrow> found_row p rows = Inl (case_exn MultipleResultsFound)"
  by (cases "filter p rows"; cases "tl (filter p rows)") (auto simp: found_row_def one_or_none_def result_simps)

definition card_number :: "dict \<Rightarrow> exn + string option" where
  "card_number crd = bindE (raiseE py_exn (card_receipt_no crd)) column_text"

text \<open>C37: once a delivery has two receipts of one number, which two deliveries of the same receipt make, the card of
  the delivery with that number can never be stored again, whatever calls come in between.\<close>

theorem repeated_receipt_blocks_the_card:
  assumes "receipts_ok uuid (dk_db s)" and "2 \<le> numbered (dk_db s) code no"
    and "list_all (\<lambda>(c, op). dc_uuid c = uuid) ops"
    and "map_of crd ''id'' = Some (JStr code)" and "card_number crd = Inr no"
  shows "\<exists>e. upsert_from_delivery uuid now tenant crd (dk_db (desk_run s ops)) = Inl e"
proof (rule ccontr)
  let ?db = "dk_db (desk_run s ops)"
  assume "\<nexists>e. upsert_from_delivery uuid now tenant crd ?db = Inl e"
  then obtain db' where "upsert_from_delivery uuid now tenant crd ?db = Inr db'"
    by (cases "upsert_from_delivery uuid now tenant crd ?db") auto
  then obtain db1 where db1: "save_card_receipt uuid now crd code db1 = Inr db'" "dv_receipts db1 = dv_receipts ?db"
    using assms(4) by (auto simp: upsert_from_delivery_def column_needed_def column_text_def dict_item_def result_simps)
  have "2 \<le> numbered ?db code no"
    using run_receipts_grow [OF assms(3), of s] assms(1,2) unfolding receipts_grow_def by (meson le_trans)
  then have "found_row (\<lambda>r. rp_delivery r = code \<and> rp_no r = no) (dv_receipts db1) = Inl (case_exn MultipleResultsFound)"
    unfolding db1(2) numbered_def by (rule two_found)
  then show False
    using db1(1) assms(5) by (auto simp: save_card_receipt_def card_number_def result_simps)
qed

definition numbered_card :: dict where
  "numbered_card = [(''id'', JStr ''d1''), (''requestId'', JStr ''r1''), (''status'', JStr ''granted''),
     (''channel'', JStr ''api''), (''receiptNo'', JStr ''n1'')]"

text \<open>While there is one receipt of the number the card is stored.\<close>

lemma numbered_card_is_stored:
  "case upsert_from_delivery (dc_uuid (sample_desk_call ''a'')) 9 ''t'' numbered_card
     (dk_db (desk_run (sample_desk ''granted'') [(sample_desk_call ''a1'', sample_ingest)])) of Inl _ \<Rightarrow> False | Inr _ \<Rightarrow> True"
  by code_simp

lemma sample_ingests_facts:
  "2 \<le> numbered (dk_db sample_ingests) ''d1'' (Some ''n1'')"
  "card_number numbered_card = Inr (Some ''n1'')" "map_of numbered_card ''id'' = Some (JStr ''d1'')"
  by code_simp+

lemma sample_ingests_ok: "receipts_ok (dc_uuid (sample_desk_call ''a'')) (dk_db sample_ingests)"
proof -
  have uuid: "inj (dc_uuid (sample_desk_call ''a''))"
    by (auto simp: sample_desk_call_def inj_on_def dest: arg_cong [where f = length])
  have start: "receipts_ok (dc_uuid (sample_desk_call ''a'')) (dk_db (sample_desk ''granted''))"
    using uuid by (simp add: receipts_ok_def sample_desk_def unique_on_def)
  have "receipts_grow (dc_uuid (sample_desk_call ''a'')) (dk_db (sample_desk ''granted'')) (dk_db sample_ingests)"
    unfolding sample_ingests_def by (rule run_receipts_grow) (simp add: sample_desk_call_def)
  then show ?thesis using start by (simp add: receipts_grow_def)
qed

lemma repeated_receipt_blocks_the_card_witness:
  "\<exists>e. upsert_from_delivery (dc_uuid (sample_desk_call ''a'')) 9 ''t'' numbered_card
     (dk_db (desk_run sample_ingests [(sample_desk_call ''a3'', sample_ingest)])) = Inl e"
  by (rule repeated_receipt_blocks_the_card [OF sample_ingests_ok sample_ingests_facts(1) _ sample_ingests_facts(3,2)])
    (simp_all add: sample_desk_call_def)

end
