(* ===== verification/GrantSafe.thy ===== *)
theory GrantSafe
  imports DeliverySafe
begin

text \<open>
  What may become of a granted request: the skills over deliveries leave requests alone, a suspension and a revocation
  change only the request they name, and a revoked request stays revoked.
\<close>

section \<open>Skills that leave requests alone\<close>

definition clean_cards :: "(dict \<Rightarrow> string) \<Rightarrow> card_session \<Rightarrow> bool" where
  "clean_cards fp cs \<longleftrightarrow> cs_approvals cs = [] \<and> list_all (\<lambda>(i, (crd, loaded)). fp crd = loaded) (cs_requests cs)"

definition leaves_requests :: "desk_call \<Rightarrow> desk \<Rightarrow> desk \<Rightarrow> bool" where
  "leaves_requests c s s' \<longleftrightarrow>
     (clean_cards (dc_fp c) (dk_cards s) \<longrightarrow> dk_store s' = dk_store s \<and> clean_cards (dc_fp c) (dk_cards s'))"

lemma flush_clean:
  assumes "clean_cards fp cs"
  shows "flush_cards uuid fp now cs st = Inr (st, empty_session)"
proof -
  have "forE (flush_request uuid fp now cs) (st, f) es = Inr (st, f)"
    if "list_all (\<lambda>(i, (crd, loaded)). fp crd = loaded) es" for f es
    using that by (induction es) (auto simp: flush_request_def)
  then show ?thesis using assms by (simp add: clean_cards_def flush_cards_def)
qed

lemma lookup_clean:
  assumes "clean_cards fp cs" and "get_request fp st i cs = Inr (found, cs')"
  shows "clean_cards fp cs'"
proof -
  have "list_all (\<lambda>(i, (crd, loaded)). fp crd = loaded) (dset (cs_requests cs) i (crd, fp crd))" for crd
    using assms(1) set_dset_subset [of "cs_requests cs" i "(crd, fp crd)"] by (auto simp: clean_cards_def list_all_iff)
  then show ?thesis
    using assms by (auto simp: get_request_def clean_cards_def Let_def result_simps split: option.splits if_splits)
qed

interpretation requests: desk_relation "leaves_requests c" c for c
proof
  show "leaves_requests c a d" if "leaves_requests c a b" "leaves_requests c b d" for a b d
    using that by (simp add: leaves_requests_def)
  show "relA (leaves_requests c) (lookup_request c i)" for i
    by (auto simp: relA_def leaves_requests_def lookup_request_def dest: lookup_clean split: sum.splits)
  show "relA (leaves_requests c) (flush_requests c)"
    by (auto simp: relA_def leaves_requests_def flush_requests_def flush_clean)
qed (auto simp: leaves_requests_def fresh_desk_def clean_cards_def empty_session_def)

lemma quiet_dispatch:
  assumes "\<And>p. op \<noteq> SuspendGrant p" and "\<And>p. op \<noteq> RevokeGrant p"
  shows "dk_store (snd (desk_dispatch c op s)) = dk_store s"
proof -
  have "leaves_requests c (fresh_desk s) (snd (desk_skill c op (fresh_desk s)))"
    using requests.keep_skill [OF assms] by (simp add: relA_def)
  then show ?thesis
    by (simp add: leaves_requests_def desk_dispatch_def split_beta clean_cards_def empty_session_def)
qed

section \<open>Holding a request\<close>

lemma find_status:
  "map_option ap_status (find (is_application tenant j) (map (\<lambda>r. if is_application tenant i r then r\<lparr>ap_status := status\<rparr> else r) rows)) =
   (if j = i then map_option (\<lambda>_. status) (find (is_application tenant j) rows)
    else map_option ap_status (find (is_application tenant j) rows))"
  unfolding is_application_def [abs_def] by (induction rows) auto

lemma set_status_moves:
  assumes "store_inv uuid st"
  shows "moves_to uuid i status st (update_status default_card_tenant i status st)"
proof -
  let ?st = "update_status default_card_tenant i status st"
  have find: "map_option ap_status (find (is_application default_card_tenant j) (st_apps ?st)) =
      (if j = i then map_option (\<lambda>_. status) (find (is_application default_card_tenant j) (st_apps st))
       else map_option ap_status (find (is_application default_card_tenant j) (st_apps st)))" for j
    by (simp add: update_status_def find_status)
  have keys: "map app_key (st_apps ?st) = map app_key (st_apps st)"
    by (simp add: update_status_def app_key_def)
  have "list_all card_ids_ok (st_apps ?st)"
    using assms by (auto simp: update_status_def store_inv_def list_all_iff card_ids_ok_def)
  moreover have "unique_on app_key (st_apps ?st)"
    using assms unfolding unique_on_def keys by (simp add: store_inv_def unique_on_def)
  moreover have cases_same: "st_cases ?st = st_cases st" by (simp add: update_status_def)
  ultimately have "store_inv uuid ?st" using assms by (simp add: store_inv_def)
  moreover have "app_status ?st j = app_status st j \<or> j = i \<and> app_status ?st j = Some status" for j
    using find [of j] by (cases "find (is_application default_card_tenant j) (st_apps st)") (auto simp: app_status_def app_of_def)
  ultimately show ?thesis using cases_same by (simp add: moves_to_def keeps_refl)
qed

text \<open>The card a handler of a grant holds, with the state it came from.\<close>

definition holds_request :: "desk_call \<Rightarrow> string \<Rightarrow> string \<Rightarrow> held \<Rightarrow> desk \<Rightarrow> bool" where
  "holds_request c i status h s \<longleftrightarrow> cs_approvals (dk_cards s) = [] \<and> map_of (snd h) ''status'' = Some (JStr status) \<and>
     (h = (None, snd h) \<and> cs_requests (dk_cards s) = [] \<or>
      fst h = Some i \<and> map_of (snd h) ''id'' = Some (JStr i) \<and>
      (\<exists>loaded. cs_requests (dk_cards s) = [(i, (snd h, loaded))]))"

lemma request_held:
  assumes "store_inv uuid (dk_store s)" and "request_by_id c i (fresh_desk s) = (Inr h, s1)"
  shows "dk_store s1 = dk_store s \<and> (\<exists>status. app_status (dk_store s) i = Some status \<and> holds_request c i status h s1)"
proof (cases "app_of (dk_store s) i")
  case None
  then show ?thesis
    using assms by (simp add: request_by_id_def lookup_request_def get_request_def empty_session_def request_record_def readA_def
        get_record_find bindA_def act_simps)
next
  case (Some r)
  show ?thesis
  proof (cases "is_runtime_request_payload (ap_payload r)")
    case True
    then have "map_of (ap_payload r) ''id'' = Some (JStr i)"
      using app_of_SomeD [OF Some] assms(1) by (auto simp: store_inv_def list_all_iff card_ids_ok_def app_key_def)
    then show ?thesis
      using assms Some True
      by (auto simp: request_by_id_def lookup_request_def get_request_def empty_session_def bindA_def act_simps Let_def
          get_record_find [OF assms(1)] holds_request_def card_of_record_def app_status_def)
  next
    case False
    then show ?thesis
      using assms Some
      by (auto simp: request_by_id_def lookup_request_def get_request_def empty_session_def bindA_def act_simps request_record_def
          readA_def get_record_find [OF assms(1)] holds_request_def imported_request_def app_status_def result_simps)
  qed
qed

section \<open>Editing and storing a held request\<close>

definition keeps_item :: "string \<Rightarrow> (dict \<Rightarrow> py_error + dict) \<Rightarrow> bool" where
  "keeps_item k f \<longleftrightarrow> (\<forall>d d'. f d = Inr d' \<longrightarrow> map_of d' k = map_of d k)"

lemma set_in_shape: "set_in j j2 v d = Inr d' \<Longrightarrow> \<exists>w. d' = dset d j w"
  by (cases "map_of d j") (auto simp: set_in_def dict_item_def bindE_def split: json.splits)

lemma add_to_shape: "add_to j v d = Inr d' \<Longrightarrow> \<exists>w. d' = dset d j w"
  by (cases "map_of d j") (auto simp: add_to_def dict_item_def bindE_def split: json.splits)

lemma map_of_dsetdefault_key: "j \<noteq> k \<Longrightarrow> map_of (dsetdefault d j v) k = map_of d k"
  by (auto simp: dsetdefault_def map_add_def split: option.splits)

lemma keeps_parts:
  "j \<noteq> k \<Longrightarrow> keeps_item k (put j v)"
  "j \<noteq> k \<Longrightarrow> keeps_item k (set_in j j2 v)"
  "j \<noteq> k \<Longrightarrow> keeps_item k (\<lambda>d. Inr (dsetdefault d j v))"
  "j \<noteq> k \<Longrightarrow> keeps_item k (add_default j v)"
  by (auto simp: keeps_item_def put_def add_default_def map_of_dsetdefault_key dest!: set_in_shape add_to_shape split: option.splits)

lemma edits_item: "list_all (keeps_item k) fs \<Longrightarrow> edits fs d = Inr d' \<Longrightarrow> map_of d' k = map_of d k"
  by (induction fs arbitrary: d) (auto simp: keeps_item_def bindE_Inr_iff)

lemma edits_last: "edits (fs @ [put k v]) d = Inr d' \<Longrightarrow> map_of d' k = Some v"
  by (induction fs arbitrary: d) (auto simp: put_def bindE_Inr_iff)

lemma edit_held:
  assumes "edit_request h f s = (Inr h', s')" and "holds_request c i status h s"
    and "keeps_item ''id'' f" and "\<And>d d'. f d = Inr d' \<Longrightarrow> map_of d ''status'' = Some (JStr status) \<Longrightarrow> map_of d' ''status'' = Some (JStr status')"
  shows "dk_store s' = dk_store s \<and> holds_request c i status' h' s'"
proof -
  obtain crd' where crd: "f (snd h) = Inr crd'" "h' = (fst h, crd')"
    using assms(1) by (auto simp: edit_request_def act_simps bindA_def split: prod.splits sum.splits)
  have items: "map_of crd' ''status'' = Some (JStr status')" "map_of crd' ''id'' = map_of (snd h) ''id''"
    using crd(1) assms(2,3,4) by (auto simp: holds_request_def keeps_item_def)
  show ?thesis
  proof (cases "fst h")
    case None
    then show ?thesis
      using assms(1,2) crd items by (auto simp: edit_request_def act_simps bindA_def holds_request_def split: prod.splits)
  next
    case (Some j)
    then show ?thesis
      using assms(1,2) crd items
      by (auto simp: edit_request_def act_simps bindA_def holds_request_def change_request_def split: prod.splits)
  qed
qed

lemma edit_failed: "edit_request h f s = (Inl e, s') \<Longrightarrow> s' = s"
  by (auto simp: edit_request_def act_simps bindA_def split: prod.splits sum.splits)

lemma held_flush:
  assumes "store_inv (dc_uuid c) (dk_store s)" and "holds_request c i status h s" and "flush_requests c s = (r, s')"
  shows "moves_to (dc_uuid c) i status (dk_store s) (dk_store s')"
proof -
  have "holds_card i status (dk_cards s)"
    using assms(2) by (auto simp: holds_request_def holds_card_def)
  from flush_cards_moves [OF assms(1) this, of "dc_fp c" "dc_now c"] show ?thesis
    using assms(3) by (auto simp: flush_requests_def split: sum.splits)
qed

lemma tasks_keep_store: "dk_store (snd (flush_tasks c ts s)) = dk_store s"
proof (induction ts arbitrary: s)
  case (Cons e ts)
  obtain i crd loaded where e: "e = (i, (crd, loaded))" by (metis prod_cases3)
  show ?case
    using Cons by (auto simp: e bindA_def store_task_def tasksA_def split: sum.splits prod.splits)
qed (simp add: act_simps)

lemma flush_store: "dk_store (snd (flush_desk c s)) = dk_store (snd (flush_requests c s))"
proof (cases "flush_requests c s")
  case (Pair r s1)
  then show ?thesis
  proof (cases r)
    case (Inr x)
    obtain q s2 where "flush_tasks c (dk_tasks s1) s1 = (q, s2)" by fastforce
    then show ?thesis
      using Pair Inr tasks_keep_store [of c "dk_tasks s1" s1]
      by (cases q) (simp_all add: flush_desk_def bindA_def act_simps)
  qed (simp add: flush_desk_def bindA_def)
qed

section \<open>Suspending and revoking\<close>

text \<open>The invariant holds and at most request \<open>i\<close> changes its status, to the given one, unless it was revoked.\<close>

definition moves_unless_revoked :: "(nat \<Rightarrow> string) \<Rightarrow> string \<Rightarrow> string \<Rightarrow> approval_store \<Rightarrow> approval_store \<Rightarrow> bool" where
  "moves_unless_revoked uuid i status st st' \<longleftrightarrow> moves_to uuid i status st st' \<and>
     (app_status st' i \<noteq> app_status st i \<longrightarrow> app_status st i \<noteq> Some ''revoked'')"

lemma stays: "store_inv uuid st \<Longrightarrow> moves_unless_revoked uuid i status st st"
  by (simp add: moves_unless_revoked_def moves_refl)

lemma status_not_revoked:
  "is_revoked d = Inr False \<Longrightarrow> map_of d ''status'' = Some (JStr t) \<Longrightarrow> t \<noteq> ''revoked''"
  by (auto simp: is_revoked_def dget_def result_simps)

text \<open>The common course: hold the request, which is not revoked, edit it, set the column, edit again, flush.\<close>

lemma held_course:
  assumes "store_inv (dc_uuid c) (dk_store s)"
    and "holds_request c i old h s1" and "dk_store s1 = dk_store s" and "app_status (dk_store s) i = Some old" and "old \<noteq> ''revoked''"
    and "keeps_item ''id'' f" and "\<And>d d'. f d = Inr d' \<Longrightarrow> map_of d' ''status'' = Some (JStr status)"
    and "keeps_item ''id'' g" and "keeps_item ''status'' g"
    and "\<And>s. dk_store (snd (k s)) = dk_store s \<and> dk_cards (snd (k s)) = dk_cards s"
    and "written c (\<lambda>_. bindA (edit_request h f) (\<lambda>h1. bindA (put_status i status) (\<lambda>_. bindA (edit_request h1 g) (\<lambda>_. k))) s1) s0 = (r, s')"
  shows "moves_unless_revoked (dc_uuid c) i status (dk_store s) (dk_store s')"
proof -
  have pre: "moves_unless_revoked (dc_uuid c) i status (dk_store s) st" if "moves_to (dc_uuid c) i status (dk_store s) st" for st
    using that assms(4,5) by (simp add: moves_unless_revoked_def)
  obtain q s2 where body: "bindA (edit_request h f) (\<lambda>h1. bindA (put_status i status) (\<lambda>_. bindA (edit_request h1 g) (\<lambda>_. k))) s1 = (q, s2)"
    by fastforce
  have moved: "moves_to (dc_uuid c) i status (dk_store s) (dk_store s2) \<and>
      (case q of Inl _ \<Rightarrow> True | Inr _ \<Rightarrow> \<exists>h2. holds_request c i status h2 s2)"
    using body
  proof (cases rule: bindA_cases)
    case (raised e)
    then show ?thesis using edit_failed assms(3) moves_refl [OF assms(1)] by fastforce
  next
    case (returned h1 s3)
    have s3: "dk_store s3 = dk_store s1 \<and> holds_request c i status h1 s3"
      by (rule edit_held [OF returned(1) assms(2,6)]) (use assms(7) in blast)
    let ?st = "update_status default_card_tenant i status (dk_store s)"
    have step: "put_status i status s3 = (Inr (), s3\<lparr>dk_store := ?st\<rparr>)"
      using s3 assms(3) by (simp add: put_status_def act_simps)
    have set: "moves_to (dc_uuid c) i status (dk_store s) ?st" by (rule set_status_moves [OF assms(1)])
    have held: "holds_request c i status h1 (s3\<lparr>dk_store := ?st\<rparr>)" using s3 by (simp add: holds_request_def)
    have "bindA (edit_request h1 g) (\<lambda>_. k) (s3\<lparr>dk_store := ?st\<rparr>) = (q, s2)"
      using returned(2) by (simp add: bindA_Inr [where m = "put_status i status" and s = s3, OF step])
    then show ?thesis
    proof (cases rule: bindA_cases)
      case (raised e)
      then show ?thesis using edit_failed set by fastforce
    next
      case (returned h2 s4)
      have "dk_store s4 = ?st \<and> holds_request c i status h2 s4"
        using edit_held [OF returned(1) held assms(8), of status] assms(9) by (auto simp: keeps_item_def)
      moreover have "dk_store s2 = dk_store s4" "dk_cards s2 = dk_cards s4"
        using assms(10) [of s4] returned(2) by simp_all
      ultimately show ?thesis using set by (auto simp: holds_request_def split: sum.splits)
    qed
  qed
  have "moves_to (dc_uuid c) i status (dk_store s) (dk_store s')"
  proof (cases q)
    case (Inl e)
    then show ?thesis using assms(11) body moved by (simp add: written_def bindA_def)
  next
    case (Inr x)
    obtain t s5 where t: "flush_desk c s2 = (t, s5)" by fastforce
    have "s' = s5" using assms(11) body t Inr by (cases t) (simp_all add: written_def bindA_def act_simps)
    moreover obtain u s6 where u: "flush_requests c s2 = (u, s6)" by fastforce
    ultimately have end_store: "dk_store s' = dk_store s6" using flush_store [of c s2] t by simp
    obtain h2 where h2: "holds_request c i status h2 s2" using moved Inr by auto
    have first: "moves_to (dc_uuid c) i status (dk_store s) (dk_store s2)" using moved by blast
    have "moves_to (dc_uuid c) i status (dk_store s2) (dk_store s6)" by (rule held_flush [OF moves_inv [OF first] h2 u])
    then show ?thesis using first end_store moves_trans by metis
  qed
  then show ?thesis by (rule pre)
qed

definition grant_id :: "dict \<Rightarrow> string" where
  "grant_id p = strip_blanks (py_str (first_of [dget p ''request_id'', dget p ''delivery_task_id'', JStr []]))"

lemma grant_target_cases:
  obtains (raised) e where "\<And>s. grant_target p s = (Inl e, s)"
    | (named) "\<And>s. grant_target p s = (Inr (grant_id p), s)"
  by (cases "grant_id p = []") (auto simp: grant_target_def grant_id_def Let_def act_simps)

lemma written_at: "m s0 = m' s0 \<Longrightarrow> written c m s0 = written c m' s0"
  by (simp add: written_def bindA_def)

lemma written_raised: "m s0 = (Inl e, s1) \<Longrightarrow> written c m s0 = (Inl e, s1)"
  by (simp add: written_def bindA_def)

lemma request_read: "dk_store (snd (request_by_id c i (fresh_desk s))) = dk_store s"
proof -
  have "leaves_requests c (fresh_desk s) (snd (request_by_id c i (fresh_desk s)))"
    using requests.keep_request(1) [of c i] by (simp add: relA_def)
  then show ?thesis by (simp add: leaves_requests_def clean_cards_def empty_session_def)
qed

text \<open>A mutation that starts from a request which is not revoked.\<close>

lemma unrevoked_cases:
  assumes "store_inv (dc_uuid c) (dk_store s)"
    and "bindA (request_by_id c i) (\<lambda>h. bindA (liftE py_exn (is_revoked (snd h))) (\<lambda>revoked. if revoked then throwA e else m h))
           (fresh_desk s) = (q, s1)"
  obtains (failed) e' where "q = Inl e'" "dk_store s1 = dk_store s"
    | (held) h s2 old where "request_by_id c i (fresh_desk s) = (Inr h, s2)" "m h s2 = (q, s1)" "dk_store s2 = dk_store s"
        "app_status (dk_store s) i = Some old" "holds_request c i old h s2" "old \<noteq> ''revoked''"
  using assms(2)
proof (cases rule: bindA_cases)
  case (raised e')
  then show ?thesis using failed request_read [of c i s] by simp
next
  case (returned h s2)
  note held_at = request_held [OF assms(1) returned(1)]
  then obtain old where old: "app_status (dk_store s) i = Some old" "holds_request c i old h s2" by blast
  show ?thesis
  proof (cases "is_revoked (snd h)")
    case (Inl p)
    then have "q = Inl (py_exn p)" "s1 = s2" using returned(2) by (simp_all add: bindA_def liftE_def)
    then show ?thesis using held_at by (intro failed) simp_all
  next
    case (Inr b)
    show ?thesis
    proof (cases b)
      case True
      then have "q = Inl e" "s1 = s2" using returned(2) Inr by (simp_all add: bindA_def liftE_def act_simps)
      then show ?thesis using held_at by (intro failed) simp_all
    next
      case False
      then have "m h s2 = (q, s1)" using returned(2) Inr by (simp add: bindA_def liftE_def)
      moreover have "old \<noteq> ''revoked''"
        using status_not_revoked Inr False old(2) by (auto simp: holds_request_def)
      ultimately show ?thesis using held [OF returned(1)] held_at old by blast
    qed
  qed
qed

lemma suspend_edits:
  "keeps_item ''id'' (edits [(\<lambda>d. Inr (dsetdefault d ''grant'' (JObj []))), set_in ''grant'' ''suspended'' v, put ''status'' w])"
  "edits [(\<lambda>d. Inr (dsetdefault d ''grant'' (JObj []))), set_in ''grant'' ''suspended'' v, put ''status'' w] d = Inr d' \<Longrightarrow>
   map_of d' ''status'' = Some w"
  using edits_item [of "''id''" "[(\<lambda>d. Inr (dsetdefault d ''grant'' (JObj []))), set_in ''grant'' ''suspended'' v, put ''status'' w]"]
    edits_last [of "[(\<lambda>d. Inr (dsetdefault d ''grant'' (JObj []))), set_in ''grant'' ''suspended'' v]" "''status''" w d d']
  by (auto simp: keeps_item_def [of _ "edits _"] keeps_parts)

lemma revoke_edits:
  "keeps_item ''id'' (edits [(\<lambda>d. Inr (dsetdefault d ''grant'' (JObj []))), set_in ''grant'' ''revoked'' v,
     set_in ''grant'' ''initiated_by'' u, put ''status'' w])"
  "edits [(\<lambda>d. Inr (dsetdefault d ''grant'' (JObj []))), set_in ''grant'' ''revoked'' v,
     set_in ''grant'' ''initiated_by'' u, put ''status'' w] d = Inr d' \<Longrightarrow> map_of d' ''status'' = Some w"
  using edits_item [of "''id''" "[(\<lambda>d. Inr (dsetdefault d ''grant'' (JObj []))), set_in ''grant'' ''revoked'' v,
     set_in ''grant'' ''initiated_by'' u, put ''status'' w]"]
    edits_last [of "[(\<lambda>d. Inr (dsetdefault d ''grant'' (JObj []))), set_in ''grant'' ''revoked'' v,
     set_in ''grant'' ''initiated_by'' u]" "''status''" w d d']
  by (auto simp: keeps_item_def [of _ "edits _"] keeps_parts)

lemma feed_keeps: "dk_store (snd (feed_desk c skill target result s)) = dk_store s \<and> dk_cards (snd (feed_desk c skill target result s)) = dk_cards s"
  by (simp add: feed_desk_def act_simps)

lemma suspend_effect:
  assumes "store_inv (dc_uuid c) (dk_store s)"
  shows "moves_unless_revoked (dc_uuid c) (grant_id p) ''suspended'' (dk_store s) (dk_store (snd (desk_dispatch c (SuspendGrant p) s)))"
proof (cases rule: grant_target_cases [of p])
  case (raised e)
  then show ?thesis
    using stays [OF assms] by (simp add: desk_dispatch_def desk_skill_def suspend_application_grant_def bindA_def)
next
  case named
  let ?m = "suspend_mutation c (grant_id p) p"
  have run: "desk_skill c (SuspendGrant p) (fresh_desk s) = written c ?m (fresh_desk s)"
    using named by (simp add: desk_skill_def suspend_application_grant_def bindA_def)
  obtain q s1 where m: "?m (fresh_desk s) = (q, s1)" by fastforce
  obtain r s' where w: "written c ?m (fresh_desk s) = (r, s')" by fastforce
  have "moves_unless_revoked (dc_uuid c) (grant_id p) ''suspended'' (dk_store s) (dk_store s')"
  proof (rule unrevoked_cases [OF assms m [unfolded suspend_mutation_def]])
    fix e' assume "q = Inl e'" "dk_store s1 = dk_store s"
    then show "moves_unless_revoked (dc_uuid c) (grant_id p) ''suspended'' (dk_store s) (dk_store s')" using w written_raised [of ?m "fresh_desk s" e' s1 c] m stays [OF assms] by simp
  next
    fix h s2 old
    assume held: "request_by_id c (grant_id p) (fresh_desk s) = (Inr h, s2)"
      "bindA (edit_request h (edits [(\<lambda>d. Inr (dsetdefault d ''grant'' (JObj []))), set_in ''grant'' ''suspended'' (JBool True),
                  put ''status'' (JStr ''suspended'')])) (\<lambda>h1.
         bindA (put_status (grant_id p) ''suspended'') (\<lambda>_.
         bindA (edit_request h1 (add_default ''timeline'' (timeline_entry c lbl_grant_suspended
                  (py_str (dget_or p ''reason'' (JStr lbl_grant_suspended_default)))))) (\<lambda>_.
           feed_desk c ''application.grant.suspend'' (grant_id p) ''ok''))) s2 = (q, s1)"
      "dk_store s2 = dk_store s" "app_status (dk_store s) (grant_id p) = Some old"
      "holds_request c (grant_id p) old h s2" "old \<noteq> ''revoked''"
    have course: "written c (\<lambda>_. bindA (edit_request h (edits [(\<lambda>d. Inr (dsetdefault d ''grant'' (JObj []))), set_in ''grant'' ''suspended'' (JBool True),
                  put ''status'' (JStr ''suspended'')])) (\<lambda>h1.
         bindA (put_status (grant_id p) ''suspended'') (\<lambda>_.
         bindA (edit_request h1 (add_default ''timeline'' (timeline_entry c lbl_grant_suspended
                  (py_str (dget_or p ''reason'' (JStr lbl_grant_suspended_default)))))) (\<lambda>_.
           feed_desk c ''application.grant.suspend'' (grant_id p) ''ok''))) s2) (fresh_desk s) = (r, s')"
      unfolding w [symmetric] by (rule written_at) (use held(2) m in simp)
    show "moves_unless_revoked (dc_uuid c) (grant_id p) ''suspended'' (dk_store s) (dk_store s')"
      by (rule held_course [OF assms held(5,3,4,6) suspend_edits(1) _ keeps_parts(4) keeps_parts(4) feed_keeps course])
        (simp_all add: suspend_edits(2))
  qed
  then show ?thesis by (simp add: desk_dispatch_def run w)
qed

text \<open>Who may revoke: the operator of the platform, or the applicant the request names.\<close>

definition request_applicant :: "desk_call \<Rightarrow> approval_store \<Rightarrow> string \<Rightarrow> string" where
  "request_applicant c st i =
     (case app_of st i of
        None \<Rightarrow> []
      | Some r \<Rightarrow> py_str (dget_or (if is_runtime_request_payload (ap_payload r) then card_of_record r else imported_request c r)
          ''applicant'' (JStr [])))"

definition may_revoke :: "desk_call \<Rightarrow> dict \<Rightarrow> approval_store \<Rightarrow> string \<Rightarrow> bool" where
  "may_revoke c p st i \<longleftrightarrow>
     (let role = py_str (dget_or p ''role'' (JStr (dc_role c)))
      in role = ''ROLE_BUSIAUDIT'' \<or> role = ''ROLE_ORGAN_OPERATER'' \<and> request_applicant c st i = dc_actor c)"

lemma held_applicant:
  assumes "store_inv uuid (dk_store s)" and "request_by_id c i (fresh_desk s) = (Inr h, s1)"
  shows "py_str (dget_or (snd h) ''applicant'' (JStr [])) = request_applicant c (dk_store s) i"
  using assms
  by (cases "app_of (dk_store s) i")
    (auto simp: request_by_id_def lookup_request_def get_request_def empty_session_def bindA_def act_simps request_record_def
      readA_def get_record_find Let_def request_applicant_def result_simps split: if_splits)

lemma revoke_effect:
  assumes "store_inv (dc_uuid c) (dk_store s)" and "desk_dispatch c (RevokeGrant p) s = (r, t)"
  shows "moves_unless_revoked (dc_uuid c) (grant_id p) ''revoked'' (dk_store s) (dk_store t) \<and>
    (dk_store t \<noteq> dk_store s \<longrightarrow> may_revoke c p (dk_store s) (grant_id p))"
proof -
  let ?role = "py_str (dget_or p ''role'' (JStr (dc_role c)))"
  let ?own = "?role = ''ROLE_ORGAN_OPERATER''"
  let ?m = "revoke_mutation c ?own (grant_id p) p"
  have idle: ?thesis if "dk_store t = dk_store s" using that stays [OF assms(1)] by simp
  have end_store: "dk_store t = dk_store (snd (desk_skill c (RevokeGrant p) (fresh_desk s)))"
    using assms(2) by (auto simp: desk_dispatch_def split: prod.splits)
  show ?thesis
  proof (cases rule: grant_target_cases [of p])
    case (raised e)
    then show ?thesis
      using end_store by (intro idle) (simp add: desk_skill_def doneA_def revoke_application_grant_def Let_def bindA_def)
  next
    case named
    show ?thesis
    proof (cases "?role \<noteq> ''ROLE_ORGAN_OPERATER'' \<and> ?role \<noteq> ''ROLE_BUSIAUDIT''")
      case True
      then show ?thesis
        using end_store named
        by (intro idle) (simp add: desk_skill_def doneA_def revoke_application_grant_def Let_def bindA_def act_simps)
    next
      case allowed: False
      obtain q s1 where m: "?m (fresh_desk s) = (q, s1)" by fastforce
      obtain r' s' where w: "written c ?m (fresh_desk s) = (r', s')" by fastforce
      have "revoke_application_grant c p (fresh_desk s) = (r', s')"
        using named allowed w by (auto simp: revoke_application_grant_def Let_def bindA_def)
      then have t: "dk_store t = dk_store s'"
        using end_store by (cases r') (simp_all add: desk_skill_def doneA_def bindA_def act_simps)
      show ?thesis
      proof (rule unrevoked_cases [OF assms(1) m [unfolded revoke_mutation_def]])
        fix e' assume "q = Inl e'" "dk_store s1 = dk_store s"
        then show ?thesis using w t written_raised [of ?m "fresh_desk s" e' s1 c] m idle by simp
      next
        fix h s2 old
        assume held: "request_by_id c (grant_id p) (fresh_desk s) = (Inr h, s2)"
          and step: "(if ?own \<and> py_str (dget_or (snd h) ''applicant'' (JStr [])) \<noteq> dc_actor c
             then throwA (mk_exn ''AccessDeniedError'' ''not_owner_of_application'')
             else let by = (if ?own then ''applicant'' else ''busiaudit'')
                  in bindA (edit_request h (edits [(\<lambda>d. Inr (dsetdefault d ''grant'' (JObj []))), set_in ''grant'' ''revoked'' (JBool True),
                        set_in ''grant'' ''initiated_by'' (JStr by), put ''status'' (JStr ''revoked'')])) (\<lambda>h1.
               bindA (put_status (grant_id p) ''revoked'') (\<lambda>_.
               bindA (edit_request h1 (add_default ''timeline'' (timeline_entry c lbl_grant_revoked (revocation_note p ?own)))) (\<lambda>_.
               bindA (feed_desk c ''application.grant.revoke'' (grant_id p) ''ok'') (\<lambda>_. retA by))))) s2 = (q, s1)"
          and at: "dk_store s2 = dk_store s" "app_status (dk_store s) (grant_id p) = Some old"
            "holds_request c (grant_id p) old h s2" "old \<noteq> ''revoked''"
        show ?thesis
        proof (cases "?own \<and> py_str (dget_or (snd h) ''applicant'' (JStr [])) \<noteq> dc_actor c")
          case True
          then have "q = Inl (mk_exn ''AccessDeniedError'' ''not_owner_of_application'')" "s1 = s2"
            using step by (simp_all add: act_simps)
          then show ?thesis using w t written_raised [of ?m "fresh_desk s" _ s1 c] m idle at(1) by simp
        next
          case False
          let ?by = "if ?own then ''applicant'' else ''busiaudit''"
          have course: "written c (\<lambda>_. bindA (edit_request h (edits [(\<lambda>d. Inr (dsetdefault d ''grant'' (JObj []))),
                set_in ''grant'' ''revoked'' (JBool True), set_in ''grant'' ''initiated_by'' (JStr ?by), put ''status'' (JStr ''revoked'')])) (\<lambda>h1.
               bindA (put_status (grant_id p) ''revoked'') (\<lambda>_.
               bindA (edit_request h1 (add_default ''timeline'' (timeline_entry c lbl_grant_revoked (revocation_note p ?own)))) (\<lambda>_.
               bindA (feed_desk c ''application.grant.revoke'' (grant_id p) ''ok'') (\<lambda>_. retA ?by)))) s2) (fresh_desk s) = (r', s')"
            unfolding w [symmetric] by (rule written_at) (use step m False in \<open>simp add: Let_def\<close>)
          have keep: "dk_store (snd (bindA (feed_desk c ''application.grant.revoke'' (grant_id p) ''ok'') (\<lambda>_. retA ?by) x)) = dk_store x \<and>
              dk_cards (snd (bindA (feed_desk c ''application.grant.revoke'' (grant_id p) ''ok'') (\<lambda>_. retA ?by) x)) = dk_cards x" for x
            by (simp add: feed_desk_def bindA_def act_simps)
          have "moves_unless_revoked (dc_uuid c) (grant_id p) ''revoked'' (dk_store s) (dk_store s')"
            by (rule held_course [OF assms(1) at(3,1,2,4) revoke_edits(1) _ keeps_parts(4) keeps_parts(4) keep course])
              (simp_all add: revoke_edits(2))
          moreover have "may_revoke c p (dk_store s) (grant_id p)"
            using False allowed held_applicant [OF assms(1) held] by (auto simp: may_revoke_def Let_def)
          ultimately show ?thesis using t by simp
        qed
      qed
    qed
  qed
qed

section \<open>The lifecycle\<close>

lemma dispatch_lifecycle:
  assumes "store_inv (dc_uuid c) (dk_store s)" and "desk_dispatch c op s = (r, t)"
  shows "store_inv (dc_uuid c) (dk_store t) \<and>
    (app_status (dk_store t) i \<noteq> app_status (dk_store s) i \<longrightarrow>
       app_status (dk_store s) i \<noteq> Some ''revoked'' \<and>
       (app_status (dk_store t) i = Some ''suspended'' \<and> (\<exists>p. op = SuspendGrant p \<and> grant_id p = i) \<or>
        app_status (dk_store t) i = Some ''revoked'' \<and> (\<exists>p. op = RevokeGrant p \<and> grant_id p = i \<and> may_revoke c p (dk_store s) i)))"
proof -
  have t: "t = snd (desk_dispatch c op s)" using assms(2) by simp
  consider (suspend) p where "op = SuspendGrant p" | (revoke) p where "op = RevokeGrant p"
    | (other) "\<And>p. op \<noteq> SuspendGrant p" "\<And>p. op \<noteq> RevokeGrant p" by blast
  then show ?thesis
  proof cases
    case (suspend p)
    then have "moves_unless_revoked (dc_uuid c) (grant_id p) ''suspended'' (dk_store s) (dk_store t)"
      using suspend_effect [OF assms(1), of p] t by simp
    then show ?thesis using suspend by (auto simp: moves_unless_revoked_def moves_to_def)
  next
    case (revoke p)
    note effect = revoke_effect [OF assms(1) assms(2) [unfolded revoke]]
    then have "may_revoke c p (dk_store s) (grant_id p)" if "app_status (dk_store t) i \<noteq> app_status (dk_store s) i"
      using that by metis
    then show ?thesis using revoke effect by (auto simp: moves_unless_revoked_def moves_to_def)
  next
    case other
    then show ?thesis using quiet_dispatch [OF other, of c s] assms(1) t by simp
  qed
qed

lemma desk_run_append: "desk_run s (ops @ more_ops) = desk_run (desk_run s ops) more_ops"
  by (induction s ops rule: desk_run.induct) auto

lemma run_store_inv:
  "store_inv uuid (dk_store s) \<Longrightarrow> list_all (\<lambda>(c, op). dc_uuid c = uuid) ops \<Longrightarrow> store_inv uuid (dk_store (desk_run s ops))"
proof (induction ops arbitrary: s)
  case (Cons e ops)
  obtain c op where e: "e = (c, op)" by force
  have "store_inv uuid (dk_store (snd (desk_dispatch c op s)))"
    using dispatch_lifecycle [of c s op] Cons.prems e by (cases "desk_dispatch c op s") auto
  then show ?case using Cons.IH Cons.prems(2) by (simp add: e)
qed simp

text \<open>The call of a run that gave a request its last status.\<close>

definition ended_by :: "desk \<Rightarrow> (desk_call \<times> desk_op) list \<Rightarrow> string \<Rightarrow> bool" where
  "ended_by s ops i \<longleftrightarrow> (\<exists>pre c op post p. ops = pre @ (c, op) # post \<and> grant_id p = i \<and>
     (op = SuspendGrant p \<and> app_status (dk_store (desk_run s ops)) i = Some ''suspended'' \<or>
      op = RevokeGrant p \<and> may_revoke c p (dk_store (desk_run s pre)) i \<and> app_status (dk_store (desk_run s ops)) i = Some ''revoked''))"

lemma ended_here:
  "grant_id p = i \<Longrightarrow> op = SuspendGrant p \<and> app_status (dk_store (desk_run s (ops @ [(c, op)]))) i = Some ''suspended'' \<or>
      op = RevokeGrant p \<and> may_revoke c p (dk_store (desk_run s ops)) i \<and>
      app_status (dk_store (desk_run s (ops @ [(c, op)]))) i = Some ''revoked'' \<Longrightarrow> ended_by s (ops @ [(c, op)]) i"
  unfolding ended_by_def by blast

lemma ended_before:
  assumes "ended_by s ops i" and "app_status (dk_store (desk_run s (ops @ [e]))) i = app_status (dk_store (desk_run s ops)) i"
  shows "ended_by s (ops @ [e]) i"
proof -
  obtain pre c op post p where "ops = pre @ (c, op) # post" and parts: "grant_id p = i"
      "op = SuspendGrant p \<and> app_status (dk_store (desk_run s ops)) i = Some ''suspended'' \<or>
       op = RevokeGrant p \<and> may_revoke c p (dk_store (desk_run s pre)) i \<and> app_status (dk_store (desk_run s ops)) i = Some ''revoked''"
    using assms(1) unfolding ended_by_def by blast
  then have "ops @ [e] = pre @ (c, op) # (post @ [e])" by simp
  then show ?thesis unfolding ended_by_def using parts assms(2) by fastforce
qed

text \<open>C33: over any calls of the skills for deliveries, grants and credentials, the status of a request changes only to
  suspended or revoked, by a call that names it; it is revoked only by the operator of the platform or by the applicant
  the request then names; and a revoked request keeps its status.\<close>

theorem grants_end_revoked:
  assumes "store_inv uuid (dk_store s)" and "list_all (\<lambda>(c, op). dc_uuid c = uuid) ops"
    and "app_status (dk_store (desk_run s ops)) i \<noteq> app_status (dk_store s) i"
  shows "app_status (dk_store s) i \<noteq> Some ''revoked'' \<and> ended_by s ops i"
  using assms(2,3)
proof (induction ops rule: rev_induct)
  case (snoc e ops)
  obtain c op where e: "e = (c, op)" by force
  let ?st = "dk_store (desk_run s ops)"
  obtain r t where d: "desk_dispatch c op (desk_run s ops) = (r, t)" by fastforce
  have uuid: "dc_uuid c = uuid" and all: "list_all (\<lambda>(c, op). dc_uuid c = uuid) ops"
    using snoc.prems(1) by (simp_all add: e)
  have t: "desk_run s (ops @ [e]) = t" using d by (simp add: e desk_run_append)
  show ?case
  proof (cases "app_status (dk_store t) i = app_status ?st i")
    case True
    then have "app_status (dk_store s) i \<noteq> Some ''revoked'' \<and> ended_by s ops i"
      using snoc.IH [OF all] snoc.prems(2) t by simp
    then show ?thesis using ended_before [of s ops i e] True t by simp
  next
    case False
    from dispatch_lifecycle [OF _ d, of i] False have "app_status ?st i \<noteq> Some ''revoked''"
      and changed: "app_status (dk_store t) i = Some ''suspended'' \<and> (\<exists>p. op = SuspendGrant p \<and> grant_id p = i) \<or>
        app_status (dk_store t) i = Some ''revoked'' \<and> (\<exists>p. op = RevokeGrant p \<and> grant_id p = i \<and> may_revoke c p ?st i)"
      using run_store_inv [OF assms(1) all] uuid by auto
    obtain p where p: "grant_id p = i" "op = SuspendGrant p \<and> app_status (dk_store t) i = Some ''suspended'' \<or>
        op = RevokeGrant p \<and> may_revoke c p ?st i \<and> app_status (dk_store t) i = Some ''revoked''"
      using changed by blast
    have "ended_by s (ops @ [e]) i"
      unfolding e by (rule ended_here [OF p(1)]) (use p(2) t in \<open>simp add: e\<close>)
    then show ?thesis using snoc.IH [OF all] \<open>app_status ?st i \<noteq> Some ''revoked''\<close> by metis
  qed
qed simp

definition sample_end :: "(desk_call \<times> desk_op) list" where
  "sample_end = [(sample_desk_call ''a1'', SuspendGrant [(''request_id'', JStr ''q1'')]),
     (sample_desk_call ''a2'', RevokeGrant [(''request_id'', JStr ''q1'')])]"

lemma sample_desk_inv: "store_inv (dc_uuid (sample_desk_call ''a'')) (dk_store (sample_desk status))"
proof -
  have "inj (dc_uuid (sample_desk_call ''a''))"
    by (auto simp: sample_desk_call_def inj_on_def dest: arg_cong [where f = length])
  then show ?thesis by (simp add: store_inv_def sample_desk_def unique_on_def card_ids_ok_def empty_case_inv)
qed

lemma sample_ended:
  "app_status (dk_store (desk_run (sample_desk ''granted'') sample_end)) ''q1'' = Some ''revoked''"
  "app_status (dk_store (sample_desk ''granted'')) ''q1'' = Some ''granted''"
  by code_simp+

lemma grants_end_revoked_witness: "ended_by (sample_desk ''granted'') sample_end ''q1''"
  using grants_end_revoked [OF sample_desk_inv [of "''granted''"], of sample_end "''q1''"] sample_ended
  by (simp add: sample_end_def sample_desk_call_def)

section \<open>Access\<close>

lemma status_item_Inr: "status_item h s = (Inr v, t) \<longleftrightarrow> map_of (snd h) ''status'' = Some v \<and> t = s"
  by (simp add: status_item_def liftE_Inr result_simps)

text \<open>C34: access is granted by an approval only when the delivery is waiting for it and the request it names, as
  stored, is none that was withdrawn, rejected or revoked.\<close>

theorem access_needs_a_live_request:
  assumes "store_inv uuid (dk_store s)"
    and "approve_application_grant c p (fresh_desk s) = (Inr (), t)" and "map_of p ''decision'' = Some (JStr ''approve'')"
    and "map_of p ''task_id'' = Some (JStr i)" and "delivery_by_id c i (fresh_desk s) = (Inr h, s1)"
  shows "(\<exists>state \<in> set grantable_states. map_of (snd h) ''status'' = Some (JStr state)) \<and>
    (\<forall>q. dget (snd h) ''requestId'' = JStr q \<longrightarrow> q \<noteq> [] \<longrightarrow>
       app_status (dk_store s) q \<notin> Some ` set terminal_negative_statuses)"
proof -
  have grant: "grant_delivery_access c i (fresh_desk s) = (Inr (), t)"
    using assms(2-4) by (simp add: approve_application_grant_def payload_text_def bindA_def liftE_def dict_item_def result_simps)
  have kept: "dk_store s1 = dk_store s"
    using requests.keep_delivery(2) [of c i] assms(5)
    by (auto simp: relA_def leaves_requests_def clean_cards_def empty_session_def dest!: spec [of _ "fresh_desk s"])
  obtain v where v: "map_of (snd h) ''status'' = Some v" "str_in v grantable_states = Inr True"
    using grant assms(5) unfolding grant_delivery_access_def
    by (auto simp: bindA_Inr_iff status_item_Inr liftE_Inr act_simps split: if_splits)
  then have first: "\<exists>state \<in> set grantable_states. v = JStr state"
    by (auto simp: str_in_def split: json.splits)
  have "app_status (dk_store s) q \<notin> Some ` set terminal_negative_statuses"
    if q: "dget (snd h) ''requestId'' = JStr q" "q \<noteq> []" for q
  proof
    assume bad: "app_status (dk_store s) q \<in> Some ` set terminal_negative_statuses"
    have "bound_status c h s1 = (Inr (app_status (dk_store s) q), s1)"
      using q kept get_record_find [OF assms(1), of q]
      by (simp add: bound_status_def column_needed_def column_text_def bindA_def liftE_def request_record_def readA_def act_simps
          app_status_def result_simps)
    then show False
      using grant assms(5) v bad unfolding grant_delivery_access_def
      by (auto simp: bindA_Inr_iff status_item_Inr liftE_Inr act_simps)
  qed
  then show ?thesis using first v(1) by blast
qed

definition sample_approval :: dict where
  "sample_approval = [(''decision'', JStr ''approve''), (''task_id'', JStr ''d1'')]"

definition sample_held :: "exn + held" where
  "sample_held = fst (delivery_by_id (sample_desk_call ''a1'') ''d1'' (fresh_desk (sample_desk ''suspended'')))"

lemma sample_approval_runs:
  "case sample_held of Inl _ \<Rightarrow> False | Inr h \<Rightarrow> dget (snd h) ''requestId'' = JStr ''q1''"
  "fst (approve_application_grant (sample_desk_call ''a1'') sample_approval (fresh_desk (sample_desk ''suspended''))) = Inr ()"
  "map_of sample_approval ''decision'' = Some (JStr ''approve'')" "map_of sample_approval ''task_id'' = Some (JStr ''d1'')"
  by code_simp+

text \<open>A suspended grant does not keep the access from being granted.\<close>

lemma access_needs_a_live_request_witness:
  "app_status (dk_store (sample_desk ''suspended'')) ''q1'' \<notin> Some ` set terminal_negative_statuses \<and>
   fst (approve_application_grant (sample_desk_call ''a1'') sample_approval (fresh_desk (sample_desk ''suspended''))) = Inr ()"
proof
  obtain h where h: "sample_held = Inr h" "dget (snd h) ''requestId'' = JStr ''q1''"
    using sample_approval_runs(1) by (auto split: sum.splits)
  obtain s1 where found: "delivery_by_id (sample_desk_call ''a1'') ''d1'' (fresh_desk (sample_desk ''suspended'')) = (Inr h, s1)"
    using h(1) unfolding sample_held_def by (metis prod.collapse)
  obtain t where done_at: "approve_application_grant (sample_desk_call ''a1'') sample_approval (fresh_desk (sample_desk ''suspended'')) = (Inr (), t)"
    using sample_approval_runs(2) by (metis prod.collapse)
  from access_needs_a_live_request [OF sample_desk_inv done_at sample_approval_runs(3,4) found] h(2)
  show "app_status (dk_store (sample_desk ''suspended'')) ''q1'' \<notin> Some ` set terminal_negative_statuses" by blast
qed (rule sample_approval_runs(2))

end
