(* ===== verification/Review.thy ===== *)
theory Review
  imports Credential ShareType
begin

text \<open>
  The review of a request in one step: \<^verbatim>\<open>_review_request\<close> of \<^verbatim>\<open>command/handlers/j1/approval.py\<close> and the
  approval flow of \<^verbatim>\<open>domain/services/request_service.py\<close>, over the cards and tables of a desk. The stored
  resources give the share type. What the projection of a stored request shows beside its status, names and
  evidence for the record of a decision, is an argument, and so is the call of the nested dispatch that issues a
  credential.
\<close>

record review_call =
  vc_call :: desk_call
  vc_nested :: desk_call
  vc_assets :: "asset_row list"
  vc_view :: "application_row \<Rightarrow> exn + dict"

section \<open>Approval cards\<close>

definition lookup_approval :: "desk_call \<Rightarrow> string \<Rightarrow> (dict option, desk) act" where
  "lookup_approval c i s =
     (case get_approval (dc_fp c) (dk_store s) i (dk_cards s) of
        Inl e \<Rightarrow> (Inl (case_exn e), s)
      | Inr (found, cs) \<Rightarrow> (Inr found, s\<lparr>dk_cards := cs\<rparr>))"

definition imported_approval :: "case_row \<Rightarrow> dict" where
  "imported_approval r =
     [(''id'', JStr (ac_application r)), (''status'', JStr (ac_status r)), (''suggestion'', JStr lbl_awaiting_review),
      (''legacyImport'', JBool (case ac_legacy r of None \<Rightarrow> False | Some l \<Rightarrow> l \<noteq> []))]"

definition approval_by_id :: "desk_call \<Rightarrow> string \<Rightarrow> (held, desk) act" where
  "approval_by_id c i =
     bindA (lookup_approval c i) (\<lambda>found.
       case found of
         Some crd \<Rightarrow> retA (Some i, crd)
       | None \<Rightarrow>
           bindA (readA (\<lambda>s. raiseE case_exn (get_case_row (st_cases (dk_store s)) default_card_tenant i))) (\<lambda>r.
             case r of None \<Rightarrow> throwA (not_found i) | Some r \<Rightarrow> retA (None, imported_approval r)))"

definition edit_approval :: "held \<Rightarrow> (dict \<Rightarrow> py_error + dict) \<Rightarrow> (unit, desk) act" where
  "edit_approval h f =
     (case h of (key, crd) \<Rightarrow> case f crd of
        Inl e \<Rightarrow> throwA (py_exn e)
      | Inr crd' \<Rightarrow> modifyA (\<lambda>s. case key of None \<Rightarrow> s
          | Some i \<Rightarrow> (case map_of (cs_approvals (dk_cards s)) i of None \<Rightarrow> s
              | Some (_, loaded) \<Rightarrow>
                  s\<lparr>dk_cards := (dk_cards s)\<lparr>cs_approvals := dset (cs_approvals (dk_cards s)) i (crd', loaded)\<rparr>\<rparr>)))"

text \<open>\<^verbatim>\<open>if delivery:\<close>\<close>

definition edit_present :: "held option \<Rightarrow> (dict \<Rightarrow> py_error + dict) list \<Rightarrow> (unit, desk) act" where
  "edit_present found fs =
     (case found of
        None \<Rightarrow> retA ()
      | Some h \<Rightarrow> if snd h = [] then retA () else bindA (edit_task h (edits fs)) (\<lambda>_. retA ()))"

section \<open>Requests without a record\<close>

text \<open>The three cards of a request, whose status must be among the given ones.\<close>

definition status_among :: "held \<Rightarrow> string list \<Rightarrow> string \<Rightarrow> (unit, desk) act" where
  "status_among h statuses message =
     bindA (status_item h) (\<lambda>status.
     bindA (liftE py_exn (str_in status statuses)) (\<lambda>ok.
       if ok then retA () else throwA (invalid_state message)))"

definition ai_status :: "string \<Rightarrow> string \<Rightarrow> (dict \<Rightarrow> py_error + dict) list" where
  "ai_status summary next_action =
     [set_in ''aiStatus'' ''summary'' (JStr summary), set_in ''aiStatus'' ''nextAction'' (JStr next_action)]"

definition task_moved :: "desk_call \<Rightarrow> string \<Rightarrow> string \<Rightarrow> string \<Rightarrow> string \<Rightarrow> (dict \<Rightarrow> py_error + dict) list" where
  "task_moved c status note state detail =
     [put ''status'' (JStr status), put ''updatedAt'' (JStr (dc_datetime c)), put ''note'' (JStr note),
      add_to ''history'' (history_entry c state detail)]"

definition backflow_set :: "string \<Rightarrow> string \<Rightarrow> (dict \<Rightarrow> py_error + dict) list" where
  "backflow_set status note = [set_in ''backflow'' ''status'' (JStr status), set_in ''backflow'' ''note'' (JStr note)]"

definition approve_request :: "desk_call \<Rightarrow> desk_call \<Rightarrow> string \<Rightarrow> (string, desk) act" where
  "approve_request c nested i =
     bindA (request_by_id c i) (\<lambda>h.
     bindA (approval_by_id c i) (\<lambda>ap.
     bindA (delivery_by_request c i) (\<lambda>dl.
     bindA (status_item h) (\<lambda>status.
     bindA (if status = JStr ''pending'' then retA () else throwA (invalid_state ''current request cannot be approved'')) (\<lambda>_.
     bindA (written c (
       bindA (edit_request h (edits
         ([put ''status'' (JStr ''supplementing''), put ''chainAnchor'' (JStr ''pending''),
           add_to ''timeline'' (timeline_entry c lbl_approved_step lbl_approved_step_note)] @
          ai_status lbl_approved_summary lbl_approved_next))) (\<lambda>_.
       bindA (edit_approval ap (edits [put ''suggestion'' (JStr lbl_suggest_pass), put ''impact'' (JStr lbl_approved_impact)])) (\<lambda>_.
       bindA (edit_present dl
         (task_moved c ''supplementing'' lbl_approved_task_note lbl_approved_task_state lbl_approved_task_detail @
          [set_in ''aiSummary'' ''summary'' (JStr lbl_approved_task_summary), set_in ''aiSummary'' ''nextAction'' (JStr lbl_approved_task_next),
           set_in ''aiSummary'' ''cause'' (JStr lbl_approved_task_cause), set_in ''aiSummary'' ''impact'' (JStr lbl_approved_task_impact)] @
          backflow_set lbl_backflow_after_supplement lbl_backflow_after_supplement_note)) (\<lambda>_.
       bindA (feed_desk c ''request.approve'' i ''ok'') (\<lambda>_. retA ''supplementing'')))))) (\<lambda>status.
     bindA (auto_issue_credential nested i) (\<lambda>_. retA status)))))))"

definition return_for_fix :: "desk_call \<Rightarrow> string \<Rightarrow> string \<Rightarrow> (string, desk) act" where
  "return_for_fix c i note =
     bindA (request_by_id c i) (\<lambda>h.
     bindA (approval_by_id c i) (\<lambda>ap.
     bindA (delivery_by_request c i) (\<lambda>dl.
     bindA (status_among h [''pending'', ''summary-pending''] ''current request cannot be returned for fix'') (\<lambda>_.
     let reason = strip_blanks note; remark = (if reason = [] then lbl_returned_default else reason)
     in written c (
       bindA (edit_request h (edits
         ([put ''status'' (JStr ''need-fix''), put ''rejectReason'' (JStr reason),
           add_to ''timeline'' (timeline_entry c lbl_returned_step remark)] @
          ai_status lbl_returned_summary lbl_returned_next))) (\<lambda>_.
       bindA (edit_approval ap (edits [put ''suggestion'' (JStr lbl_suggest_fix), put ''impact'' (JStr lbl_returned_impact)])) (\<lambda>_.
       bindA (edit_present dl
         (task_moved c ''warning'' lbl_returned_task_note lbl_returned_task_state remark @
          [set_in ''aiSummary'' ''summary'' (JStr lbl_returned_task_summary), set_in ''aiSummary'' ''nextAction'' (JStr lbl_returned_task_next)] @
          backflow_set lbl_backflow_none lbl_backflow_none_note)) (\<lambda>_.
       bindA (feed_desk c ''request.return-for-fix'' i ''warning'') (\<lambda>_. retA ''need-fix'')))))))))"

definition reject_request :: "desk_call \<Rightarrow> string \<Rightarrow> string \<Rightarrow> (string, desk) act" where
  "reject_request c i note =
     bindA (request_by_id c i) (\<lambda>h.
     bindA (delivery_by_request c i) (\<lambda>dl.
     bindA (status_among h [''pending'', ''summary-pending''] ''current request cannot be rejected'') (\<lambda>_.
     let reason = strip_blanks note
     in written c (
       bindA (edit_request h (edits
         ([put ''status'' (JStr ''rejected''), put ''rejectReason'' (JStr reason),
           add_to ''timeline'' (timeline_entry c lbl_rejected_step reason)] @
          ai_status lbl_rejected_summary lbl_rejected_next))) (\<lambda>_.
       bindA (edit_present dl
         (task_moved c ''warning'' lbl_rejected_task_note lbl_rejected_task_state reason @
          [set_in ''aiSummary'' ''summary'' (JStr lbl_rejected_task_summary), set_in ''aiSummary'' ''nextAction'' (JStr lbl_rejected_task_next)] @
          backflow_set lbl_backflow_none lbl_backflow_rejected_note)) (\<lambda>_.
       bindA (feed_desk c ''request.reject'' i ''warning'') (\<lambda>_. retA ''rejected'')))))))"

definition route_for_catalog_confirmation :: "desk_call \<Rightarrow> string \<Rightarrow> (string, desk) act" where
  "route_for_catalog_confirmation c i =
     bindA (request_by_id c i) (\<lambda>h.
     bindA (approval_by_id c i) (\<lambda>ap.
     bindA (delivery_by_request c i) (\<lambda>dl.
     bindA (status_among h [''pending'', ''summary-pending''] ''current request cannot be routed for catalog confirmation'') (\<lambda>_.
     written c (
       bindA (edit_request h (edits
         ([put ''status'' (JStr ''pending-provider-confirmation''),
           add_to ''timeline'' (timeline_entry c lbl_routed_step lbl_routed_step_note)] @
          ai_status lbl_routed_summary lbl_routed_next))) (\<lambda>_.
       bindA (edit_approval ap (edits [put ''suggestion'' (JStr lbl_suggest_route), put ''impact'' (JStr lbl_routed_impact)])) (\<lambda>_.
       bindA (edit_present dl
         (task_moved c ''warning'' lbl_routed_task_note lbl_routed_task_state lbl_routed_task_detail @
          backflow_set lbl_backflow_none lbl_backflow_routed_note)) (\<lambda>_.
       bindA (feed_desk c ''request.route-to-provider-or-catalog-admin'' i ''warning'') (\<lambda>_.
         retA ''pending-provider-confirmation'')))))))))"

section \<open>Reading what a review shows\<close>

definition request_view :: "review_call \<Rightarrow> application_row \<Rightarrow> exn + dict" where
  "request_view v r = bindE (vc_view v r) (\<lambda>d. Inr (d @ [(''id'', JStr (ap_code r)), (''status'', JStr (ap_status r))]))"

definition viewed_request :: "review_call \<Rightarrow> string \<Rightarrow> (dict, desk) act" where
  "viewed_request v i =
     bindA (request_by_id (vc_call v) i) (\<lambda>h.
     bindA (request_record i) (\<lambda>r.
     bindA (case r of None \<Rightarrow> retA (snd h) | Some r \<Rightarrow> bindA (liftE (\<lambda>e. e) (request_view v r)) (\<lambda>d. retA (dmerge (snd h) d))) (\<lambda>request.
     bindA (delivery_by_request (vc_call v) i) (\<lambda>_. retA request))))"

definition item_titles :: "dict \<Rightarrow> py_error + json list" where
  "item_titles request =
     bindE (py_iter (dget_or request ''requestedItems'' (JList []))) (\<lambda>items.
       forE (\<lambda>out item. bindE (json_get item ''title'') (\<lambda>t. Inr (out @ [t]))) [] items)"

definition sub_item :: "dict \<Rightarrow> string \<Rightarrow> string \<Rightarrow> py_error + json" where
  "sub_item d k k2 = json_get (dget_or d k (JObj [])) k2"

definition json_size :: "json \<Rightarrow> py_error + int" where
  "json_size v =
     (case v of JList xs \<Rightarrow> Inr (int (length xs)) | JObj d \<Rightarrow> Inr (int (length d))
      | JStr s \<Rightarrow> Inr (int (length (utf8_chars s))) | _ \<Rightarrow> Inl TypeError)"

definition review_labels :: "(string \<times> string) list" where
  "review_labels =
     [(''approve_reuse'', lbl_reason_reuse), (''approve_with_supplement'', lbl_reason_supplement),
      (''return_for_fix'', lbl_reason_fix), (''reject_duplicate'', lbl_reason_duplicate),
      (''route_to_provider_or_catalog_admin'', lbl_reason_route)]"

definition label_of :: "(string \<times> string) list \<Rightarrow> string \<Rightarrow> string" where
  "label_of labels k = (case map_of labels k of Some t \<Rightarrow> t | None \<Rightarrow> [])"

definition r2_review_reason :: "string \<Rightarrow> dict \<Rightarrow> string" where
  "r2_review_reason decision request =
     label_of review_labels decision @ lbl_reason_request @
     py_str (py_or (dget request ''resourceName'') (dget request ''id'')) @ lbl_full_stop"

definition r2_review_evidence :: "string \<Rightarrow> dict \<Rightarrow> dict \<Rightarrow> py_error + dict" where
  "r2_review_evidence decision request delivery =
     bindE (sub_item request ''applicationMaterials'' ''catalogCode'') (\<lambda>catalog.
     bindE (item_titles request) (\<lambda>titles.
     bindE (sub_item request ''fieldBindingSummary'' ''diagnosis'') (\<lambda>diagnosis.
     bindE (json_get (dget_or request ''sensitivePolicy'' (JObj [])) ''fieldSensitiveLevels'') (\<lambda>_.
     let levels = (case dget_or request ''sensitivePolicy'' (JObj []) of JObj d \<Rightarrow> dget_or d ''fieldSensitiveLevels'' (JList []) | _ \<Rightarrow> JNull)
     in bindE (sub_item request ''historicalContext'' ''duplicateConclusion'') (\<lambda>duplicate.
        bindE (sub_item request ''qualityEvidence'' ''status'') (\<lambda>quality.
        bindE (json_size (py_or (dget request ''legacyMappings'') (JList []))) (\<lambda>mappings.
          Inr [(''decision'', JStr decision), (''catalog_code'', catalog), (''resource_id'', dget request ''resourceId''),
               (''field_scope'', JList titles), (''field_binding_diagnosis'', diagnosis), (''sensitive_levels'', levels),
               (''duplicate_conclusion'', duplicate), (''quality_status'', quality), (''legacy_mapping_count'', JInt mappings),
               (''access_grant_source'', if truthy (dget delivery ''accessGrantSnapshot'') then JStr ''data_apply_authrization'' else JNull),
               (''renewal_source_rows'', JInt 0)])))))))"

section \<open>The review of a stored request\<close>

definition review_outcomes :: "(string \<times> (string \<times> string)) list" where
  "review_outcomes =
     [(''approve_reuse'', (''granted'', ''granted'')), (''approve_with_supplement'', (''supplementing'', ''supplementing'')),
      (''return_for_fix'', (''need-fix'', ''blocked'')), (''reject_duplicate'', (''rejected'', ''blocked'')),
      (''route_to_provider_or_catalog_admin'', (''pending-provider-confirmation'', ''blocked''))]"

definition is_negative :: "string \<Rightarrow> bool" where
  "is_negative decision \<longleftrightarrow> decision \<in> {''reject_duplicate'', ''return_for_fix''}"

definition approves_reuse :: "string \<Rightarrow> bool" where
  "approves_reuse decision \<longleftrightarrow> decision \<in> {''approve_reuse'', ''approve_with_supplement''}"

definition common_boundary :: "dict \<Rightarrow> dict \<Rightarrow> py_error + dict" where
  "common_boundary request delivery =
     (let snapshot = py_or (dget delivery ''accessGrantSnapshot'') (JObj [])
      in bindE (item_titles request) (\<lambda>titles.
         bindE (sub_item request ''sensitivePolicy'' ''fieldSensitiveLevels'') (\<lambda>levels.
         bindE (sub_item request ''applicationMaterials'' ''frequency'') (\<lambda>frequency.
         bindE (json_get snapshot ''limit_day'') (\<lambda>days.
           Inr [(''field_scope'', JList titles), (''sensitive_levels'', py_or levels (JList [])),
                (''frequency'', py_or frequency (JObj [])), (''limit_day'', days), (''access_grant_snapshot'', snapshot)])))))"

definition boundary_patch :: "string \<Rightarrow> dict \<Rightarrow> dict \<Rightarrow> string \<times> json" where
  "boundary_patch decision request boundary =
     (if decision = ''approve_reuse''
      then (''grant_boundary'', JObj (dmerge boundary [(''mode'', JStr ''reuse_existing_authorization''), (''source'', JStr ''data_apply_authrization'')]))
      else if decision = ''approve_with_supplement''
      then (''supplement_boundary'', JObj (dmerge boundary [(''mode'', JStr ''local_supplement_before_delivery''),
             (''gap_fields'', py_or (dget request ''gapFields'') (JList [])), (''source'', JStr ''application.resource.review'')]))
      else (''non_grant_boundary'', JObj [(''mode'', JStr decision), (''no_new_grant'', JBool True)]))"

definition camel_boundary :: "(string \<times> string) list" where
  "camel_boundary = [(''grant_boundary'', ''grantBoundary''), (''supplement_boundary'', ''supplementBoundary''), (''non_grant_boundary'', ''nonGrantBoundary'')]"

definition review_patch :: "desk_call \<Rightarrow> string \<Rightarrow> string \<Rightarrow> dict \<Rightarrow> dict \<Rightarrow> dict \<Rightarrow> py_error + dict" where
  "review_patch c decision reason evidence request delivery =
     bindE (common_boundary request delivery) (\<lambda>boundary.
       Inr [(''r2_review'', JObj [(''decision'', JStr decision), (''reason'', JStr reason), (''evidence'', JObj evidence),
              (''actor'', JStr (dc_actor c)), (''audit_id'', JStr (dc_audit c))]),
            (''renewal_boundary'', JStr lbl_no_renewal), boundary_patch decision request boundary])"

definition patched_task :: "string \<Rightarrow> dict \<Rightarrow> (dict \<Rightarrow> py_error + dict) list" where
  "patched_task state patch =
     [put ''status'' (JStr state), put ''r2_review'' (dget patch ''r2_review''), put ''r2Review'' (dget patch ''r2_review''),
      put ''renewal_boundary'' (dget patch ''renewal_boundary''), put ''renewalBoundary'' (dget patch ''renewal_boundary'')] @
     concat (map (\<lambda>(k, camel). case map_of patch k of None \<Rightarrow> [] | Some b \<Rightarrow> [put k b, put camel b]) camel_boundary)"

record review_work =
  rw_decision :: string
  rw_reason :: string
  rw_negative :: bool
  rw_evidence :: dict
  rw_request :: dict
  rw_delivery :: dict
  rw_status :: string
  rw_state :: string
  rw_skill :: string

definition review_args_of :: "desk_call \<Rightarrow> review_work \<Rightarrow> review_args" where
  "review_args_of c w =
     \<lparr>rv_decision = rw_decision w, rv_reason = rw_reason w, rv_evidence = rw_evidence w, rv_actor = dc_actor c,
      rv_skill = rw_skill w, rv_audit = dc_audit c, rv_status = rw_status w\<rparr>"

definition record_review :: "desk_call \<Rightarrow> string \<Rightarrow> review_work \<Rightarrow> (unit, desk) act" where
  "record_review c i w s =
     (case append_application_review_decision (dc_uuid c) (dc_now c) default_card_tenant i (review_args_of c w) (st_cases (dk_store s)) of
        Inl e \<Rightarrow> (Inl (case_exn e), s)
      | Inr db \<Rightarrow> (Inr (), s\<lparr>dk_store := (dk_store s)\<lparr>st_cases := db\<rparr>\<rparr>))"

definition maybe_request :: "desk_call \<Rightarrow> string \<Rightarrow> (held option, desk) act" where
  "maybe_request c i =
     bindA (lookup_request c i) (\<lambda>found.
       case found of
         Some crd \<Rightarrow> retA (Some (Some i, crd))
       | None \<Rightarrow> bindA (request_record i) (\<lambda>r. retA (map_option (\<lambda>r. (None, imported_request c r)) r)))"

definition edit_if :: "held option \<Rightarrow> (dict \<Rightarrow> py_error + dict) list \<Rightarrow> (unit, desk) act" where
  "edit_if found fs = (case found of None \<Rightarrow> retA () | Some h \<Rightarrow> bindA (edit_request h (edits fs)) (\<lambda>_. retA ()))"

definition review_mutation :: "desk_call \<Rightarrow> string \<Rightarrow> review_work \<Rightarrow> (string \<times> string, desk) act" where
  "review_mutation c i w =
     bindA (record_review c i w) (\<lambda>_.
     bindA (liftE py_exn (review_patch c (rw_decision w) (rw_reason w) (rw_evidence w) (rw_request w) (rw_delivery w))) (\<lambda>patch.
     bindA (maybe_request c i) (\<lambda>request.
     bindA (edit_if request (put ''status'' (JStr (rw_status w)) #
              (if rw_negative w \<and> rw_reason w \<noteq> [] then [put ''rejectReason'' (JStr (rw_reason w))] else []))) (\<lambda>_.
     bindA (delivery_by_request c i) (\<lambda>dl.
     bindA (case dl of None \<Rightarrow> retA () | Some h \<Rightarrow> bindA (edit_task h (edits (patched_task (rw_state w) patch))) (\<lambda>_. retA ())) (\<lambda>_.
     bindA (put_status i (rw_status w)) (\<lambda>_.
     bindA (if rw_negative w \<and> rw_reason w \<noteq> []
            then bindA (lookup_request c i) (\<lambda>found.
                   edit_if (map_option (\<lambda>crd. (Some i, crd)) found) [put ''reject_reason'' (JStr (rw_reason w))])
            else retA ()) (\<lambda>_.
     bindA (liftE (\<lambda>e. e) (needed_text (rw_delivery w) ''id'')) (\<lambda>code.
     bindA (tasksA (update_task_payload (dc_now c) default_card_tenant code (Some (rw_state w)) patch)) (\<lambda>_.
     bindA (feed_desk c ''application.resource.review'' (i @ '':'' @ rw_decision w)
              (if take 7 (rw_decision w) = ''approve'' then ''ok'' else ''warning'')) (\<lambda>_.
       retA (rw_status w, rw_state w))))))))))))"

definition earlier_decision :: "dict \<Rightarrow> json" where
  "earlier_decision delivery = (case dget delivery ''r2Review'' of JObj d \<Rightarrow> dget d ''decision'' | _ \<Rightarrow> JNull)"

definition one_step_allowed :: "review_call \<Rightarrow> application_row option \<Rightarrow> dict \<Rightarrow> dict \<Rightarrow> (unit, desk) act" where
  "one_step_allowed v r request delivery =
     (if shared_type_for (case r of None \<Rightarrow> [] | Some x \<Rightarrow> ap_payload x) (share_type_by_resource (vc_assets v)) = Some 2
      then throwA (invalid_state [])
      else if dget request ''status'' \<noteq> JStr ''pending'' \<and> truthy (earlier_decision delivery)
      then throwA (invalid_state ''request is not pending approval'')
      else retA ())"

definition work_of :: "string \<Rightarrow> string \<Rightarrow> string \<Rightarrow> dict \<Rightarrow> dict \<Rightarrow> py_error + review_work" where
  "work_of skill decision note request delivery =
     bindE (r2_review_evidence decision request delivery) (\<lambda>evidence.
       case map_of review_outcomes decision of
         None \<Rightarrow> Inl (KeyError decision)
       | Some (status, state) \<Rightarrow>
           let given = strip_blanks note
           in Inr \<lparr>rw_decision = decision,
                   rw_reason = (if is_negative decision \<and> given \<noteq> [] then given else r2_review_reason decision request),
                   rw_negative = is_negative decision, rw_evidence = evidence, rw_request = request, rw_delivery = delivery,
                   rw_status = status, rw_state = state, rw_skill = skill\<rparr>)"

definition review_application_record :: "review_call \<Rightarrow> string \<Rightarrow> string \<Rightarrow> string \<Rightarrow> string \<Rightarrow> (string \<times> string, desk) act" where
  "review_application_record v skill i decision note =
     bindA (viewed_request v i) (\<lambda>request.
     bindA (imported_task (vc_call v) i) (\<lambda>found.
       case found of
         None \<Rightarrow> throwA (not_found i)
       | Some h \<Rightarrow>
           bindA (request_record i) (\<lambda>r.
           bindA (one_step_allowed v r request (snd h)) (\<lambda>_.
           bindA (liftE py_exn (work_of skill decision note request (snd h))) (\<lambda>w.
           bindA (written (vc_call v) (review_mutation (vc_call v) i w)) (\<lambda>result.
           bindA (if approves_reuse decision then auto_issue_credential (vc_nested v) i else retA ()) (\<lambda>_.
             retA result)))))))"

section \<open>The skills\<close>

definition decision_names :: "(string \<times> string) list" where
  "decision_names = [(''approve'', ''approve_reuse''), (''reject'', ''reject_duplicate'')]"

definition normalized_decision :: "string \<Rightarrow> string" where
  "normalized_decision decision = (case map_of decision_names decision of Some d \<Rightarrow> d | None \<Rightarrow> decision)"

definition review_without_record :: "review_call \<Rightarrow> string \<Rightarrow> string \<Rightarrow> string \<Rightarrow> (string, desk) act" where
  "review_without_record v i decision note =
     (let c = vc_call v
      in if approves_reuse decision then approve_request c (vc_nested v) i
         else if decision = ''return_for_fix'' then return_for_fix c i note
         else if decision = ''reject_duplicate'' then reject_request c i note
         else route_for_catalog_confirmation c i)"

definition review_request :: "review_call \<Rightarrow> string \<Rightarrow> string \<Rightarrow> string \<Rightarrow> string \<Rightarrow> (string, desk) act" where
  "review_request v skill i given note =
     (let decision = normalized_decision given
      in if map_of review_outcomes decision = None then throwA (mk_exn ''BrainServiceError'' (''unsupported review decision: '' @ given))
         else bindA (request_record i) (\<lambda>r.
           case r of
             Some x \<Rightarrow> bindA (liftE (\<lambda>e. e) (request_view v x)) (\<lambda>_.
               bindA (review_application_record v skill i decision note) (\<lambda>result. retA (fst result)))
           | None \<Rightarrow> review_without_record v i decision note))"

definition review_note :: "dict \<Rightarrow> string" where
  "review_note payload = py_str (first_of [dget payload ''note'', dget payload ''reason'', JStr []])"

definition handle_resource_review :: "review_call \<Rightarrow> string \<Rightarrow> dict \<Rightarrow> (string, desk) act" where
  "handle_resource_review v skill payload =
     bindA (payload_text payload ''request_id'') (\<lambda>i.
     bindA (payload_text payload ''decision'') (\<lambda>decision.
       review_request v skill i decision (review_note payload)))"

end
