(* ===== verification/ReviewSafe.thy ===== *)
theory ReviewSafe
  imports Review GrantSafe
begin

text \<open>
  What a review in one step does to the requests: it stores the status of its decision for the request it names and
  for no other, whatever that status was, and it never touches a request whose share type asks for two levels.
\<close>

section \<open>Reading\<close>

definition reads :: "desk \<Rightarrow> desk \<Rightarrow> bool" where
  "reads s s' \<longleftrightarrow> dk_store s' = dk_store s \<and> dk_db s' = dk_db s \<and> dk_feed s' = dk_feed s"

definition same_requests :: "desk \<Rightarrow> desk \<Rightarrow> bool" where
  "same_requests s s' \<longleftrightarrow> dk_store s' = dk_store s \<and> dk_cards s' = dk_cards s"

lemma reads_then: "relA reads m \<Longrightarrow> (\<And>x. relA reads (f x)) \<Longrightarrow> relA reads (bindA m f)"
  and same_bind: "relA same_requests m \<Longrightarrow> (\<And>x. relA same_requests (f x)) \<Longrightarrow> relA same_requests (bindA m f)"
  by (rule relA_bind, auto simp: reads_def same_requests_def)+

lemma reads_steps:
  "relA reads (retA x)" "relA reads (throwA e)" "relA reads (liftE h m)" "relA reads (getA g)" "relA reads (readA g')"
  "relA reads (lookup_request c i)"
  by (auto simp: relA_def reads_def act_simps liftE_def readA_def lookup_request_def split: sum.splits)

lemma same_steps:
  "relA same_requests (retA x)" "relA same_requests (throwA e)" "relA same_requests (liftE h m)" "relA same_requests (getA g)"
  "relA same_requests (readA g')" "relA same_requests (feed_desk c skill target result)" "relA same_requests (tasksA w)"
  by (auto simp: relA_def same_requests_def act_simps liftE_def readA_def feed_desk_def tasksA_def split: sum.splits)

lemma track_steps: "relA reads (track_task c found)" "relA same_requests (track_task c found)"
  by (auto simp: relA_def reads_def same_requests_def track_task_def act_simps bindA_def split: option.splits)

lemma task_lookups:
  "relA reads (delivery_by_request c i)" "relA same_requests (delivery_by_request c i)"
  "relA reads (imported_task c i)" "relA same_requests (imported_task c i)"
  unfolding delivery_by_request_def get_delivery_by_request_def imported_task_def
  by (auto intro!: reads_then reads_steps same_bind same_steps track_steps split: option.splits)

lemma request_lookups: "relA reads (request_by_id c i)" "relA reads (request_record i)" "relA same_requests (request_record i)"
  unfolding request_by_id_def request_record_def
  by (auto intro!: reads_then reads_steps same_steps split: option.splits)

lemma viewed_reads: "relA reads (viewed_request v i)"
  unfolding viewed_request_def
  by (auto intro!: reads_then reads_steps request_lookups task_lookups split: option.splits)

section \<open>Two levels\<close>

lemma record_found: "store_inv uuid (dk_store s) \<Longrightarrow> request_record i s = (Inr (app_of (dk_store s) i), s)"
  by (simp add: request_record_def readA_def get_record_find)

text \<open>C38: a request whose share type is the conditional one is never reviewed in one step: whatever the decision, the call
  fails and stores nothing, neither about the request nor about its delivery, and no event is written.\<close>

theorem conditional_needs_two_levels:
  assumes "store_inv uuid (dk_store s)" and "app_of (dk_store s) i = Some x"
    and "shared_type_for (ap_payload x) (share_type_by_resource (vc_assets v)) = Some 2"
    and "review_request v skill i decision note (fresh_desk s) = (r, t)"
  shows "(\<exists>e. r = Inl e) \<and> dk_store t = dk_store s \<and> dk_db t = dk_db s \<and> dk_feed t = dk_feed s"
proof -
  have s0: "dk_store (fresh_desk s) = dk_store s" "dk_db (fresh_desk s) = dk_db s" "dk_feed (fresh_desk s) = dk_feed s"
    by (simp_all add: fresh_desk_def)
  have guarded: "(\<exists>e. q = Inl e) \<and> reads (fresh_desk s) u"
    if run: "review_application_record v skill i d note (fresh_desk s) = (q, u)" for d q u
    using run unfolding review_application_record_def
  proof (cases rule: bindA_cases)
    case (raised e)
    then show ?thesis using viewed_reads [of v i] by (auto simp: relA_def dest!: spec [of _ "fresh_desk s"])
  next
    case (returned request s1)
    have s1: "reads (fresh_desk s) s1"
      using viewed_reads [of v i] returned(1) by (auto simp: relA_def dest!: spec [of _ "fresh_desk s"])
    show ?thesis using returned(2)
    proof (cases rule: bindA_cases)
      case (raised e)
      then show ?thesis using s1 task_lookups(3) [of "vc_call v" i] by (auto simp: relA_def reads_def dest!: spec [of _ s1])
    next
      case (returned found s2)
      have s2: "reads (fresh_desk s) s2"
        using s1 task_lookups(3) [of "vc_call v" i] returned(1) by (auto simp: relA_def reads_def dest!: spec [of _ s1])
      have rec: "request_record i s2 = (Inr (Some x), s2)"
        using record_found [of uuid s2 i] assms(1,2) s2 s0 by (simp add: reads_def)
      have "one_step_allowed v (Some x) request d' s2 = (Inl (invalid_state []), s2)" for d'
        using assms(3) by (simp add: one_step_allowed_def act_simps)
      then show ?thesis
        using returned(2) s2 rec by (cases found) (auto simp: act_simps bindA_def [of "request_record i"] bindA_def [of "one_step_allowed _ _ _ _"])
    qed
  qed
  have rec: "request_record i (fresh_desk s) = (Inr (Some x), fresh_desk s)"
    using record_found [of uuid "fresh_desk s" i] assms(1,2) s0 by simp
  let ?d = "normalized_decision decision"
  consider (unknown) "map_of review_outcomes ?d = None" | (shown) e where "map_of review_outcomes ?d \<noteq> None" "request_view v x = Inl e"
    | (run) w where "map_of review_outcomes ?d \<noteq> None" "request_view v x = Inr w"
    by (cases "request_view v x") blast+
  then show ?thesis
  proof cases
    case unknown
    then show ?thesis using assms(4) s0 by (auto simp: review_request_def Let_def act_simps)
  next
    case shown
    then show ?thesis using assms(4) s0 rec
      by (auto simp: review_request_def Let_def act_simps bindA_def [of "request_record i"] bindA_def [of "liftE _ _"] liftE_def)
  next
    case run
    obtain q u where q: "review_application_record v skill i ?d note (fresh_desk s) = (q, u)" by fastforce
    have "bindA (review_application_record v skill i ?d note) (\<lambda>result. retA (fst result)) (fresh_desk s) = (r, t)"
      using assms(4) run rec
      by (auto simp: review_request_def Let_def bindA_def [of "request_record i"] bindA_def [of "liftE _ _"] liftE_def)
    then show ?thesis using guarded [OF q] q s0 by (auto simp: bindA_def reads_def)
  qed
qed

section \<open>What a successful review stores\<close>

text \<open>What holds after a computation that returned.\<close>

definition returns :: "('s \<Rightarrow> bool) \<Rightarrow> ('a, 's) act \<Rightarrow> ('a \<Rightarrow> 's \<Rightarrow> bool) \<Rightarrow> bool" where
  "returns P m Q \<longleftrightarrow> (\<forall>s x t. P s \<longrightarrow> m s = (Inr x, t) \<longrightarrow> Q x t)"

lemma returns_bind: "returns P m Q \<Longrightarrow> (\<And>x. returns (Q x) (f x) R) \<Longrightarrow> returns P (bindA m f) R"
  unfolding returns_def bindA_Inr_iff by blast

lemma returns_ret: "returns (P x) (retA x) P"
  by (simp add: returns_def act_simps)

lemma returns_same:
  assumes "relA same_requests m" and "\<And>s s'. P s \<Longrightarrow> same_requests s s' \<Longrightarrow> P s'"
  shows "returns P m (\<lambda>_. P)"
  using assms unfolding returns_def relA_def by (metis snd_conv)

text \<open>The one request card that is held, and the moves made since the store \<open>st0\<close>.\<close>

definition id_card :: "string \<Rightarrow> card_session \<Rightarrow> bool" where
  "id_card i cs \<longleftrightarrow> cs_approvals cs = [] \<and>
     (cs_requests cs = [] \<or> (\<exists>crd loaded. cs_requests cs = [(i, (crd, loaded))] \<and> map_of crd ''id'' = Some (JStr i)))"

definition on_the_way :: "(nat \<Rightarrow> string) \<Rightarrow> string \<Rightarrow> string \<Rightarrow> approval_store \<Rightarrow> desk \<Rightarrow> bool" where
  "on_the_way uuid i status st0 s \<longleftrightarrow> moves_to uuid i status st0 (dk_store s) \<and> id_card i (dk_cards s)"

definition settling :: "(nat \<Rightarrow> string) \<Rightarrow> string \<Rightarrow> string \<Rightarrow> approval_store \<Rightarrow> desk \<Rightarrow> bool" where
  "settling uuid i status st0 s \<longleftrightarrow> moves_to uuid i status st0 (dk_store s) \<and> holds_card i status (dk_cards s)"

lemma same_keeps:
  "on_the_way uuid i status st0 s \<Longrightarrow> same_requests s s' \<Longrightarrow> on_the_way uuid i status st0 s'"
  "settling uuid i status st0 s \<Longrightarrow> same_requests s s' \<Longrightarrow> settling uuid i status st0 s'"
  by (simp_all add: on_the_way_def settling_def same_requests_def)

lemma recorded_review:
  "returns (on_the_way (dc_uuid c) i status st0) (record_review c i w) (\<lambda>_. on_the_way (dc_uuid c) i status st0)"
  unfolding returns_def
proof (intro allI impI)
  fix s x t
  assume at: "on_the_way (dc_uuid c) i status st0 s" and run: "record_review c i w s = (Inr x, t)"
  have inv: "store_inv (dc_uuid c) (dk_store s)" using at by (auto simp: on_the_way_def dest: moves_inv)
  obtain db where db: "append_application_review_decision (dc_uuid c) (dc_now c) default_card_tenant i (review_args_of c w) (st_cases (dk_store s)) = Inr db"
      "t = s\<lparr>dk_store := (dk_store s)\<lparr>st_cases := db\<rparr>\<rparr>"
    using run by (auto simp: record_review_def split: sum.splits)
  have "case_inv (dc_uuid c) (st_cases (dk_store s))" using inv by (simp add: store_inv_def)
  then have "moves_to (dc_uuid c) i status (dk_store s) ((dk_store s)\<lparr>st_cases := db\<rparr>)"
    using moves_cases [OF inv] review_op [OF _ db(1)] by blast
  then show "on_the_way (dc_uuid c) i status st0 t"
    using at db(2) moves_trans by (auto simp: on_the_way_def)
qed

text \<open>The card that a look-up gives to its caller.\<close>

definition held_card :: "string \<Rightarrow> held option \<Rightarrow> card_session \<Rightarrow> bool" where
  "held_card i found cs \<longleftrightarrow>
     (case found of
        None \<Rightarrow> cs_requests cs = []
      | Some (key, crd) \<Rightarrow> key = None \<and> cs_requests cs = [] \<or> key = Some i \<and> (\<exists>loaded. cs_requests cs = [(i, (crd, loaded))]))"

lemma looked_up:
  assumes "store_inv uuid (dk_store s)" and "id_card i (dk_cards s)" and "lookup_request c i s = (Inr found, t)"
  shows "dk_store t = dk_store s \<and> id_card i (dk_cards t) \<and> held_card i (map_option (Pair (Some i)) found) (dk_cards t) \<and>
    (\<forall>status. app_status (dk_store s) i = Some status \<longrightarrow> holds_card i status (dk_cards s) \<longrightarrow> holds_card i status (dk_cards t))"
proof (cases "cs_requests (dk_cards s)")
  case (Cons e es)
  then show ?thesis
    using assms(2,3) by (auto simp: id_card_def lookup_request_def get_request_def held_card_def split: sum.splits)
next
  case Nil
  show ?thesis
  proof (cases "app_of (dk_store s) i")
    case None
    then show ?thesis
      using assms Nil by (auto simp: lookup_request_def get_request_def get_record_find [OF assms(1)] held_card_def id_card_def)
  next
    case (Some r)
    show ?thesis
    proof (cases "is_runtime_request_payload (ap_payload r)")
      case True
      then have "map_of (ap_payload r) ''id'' = Some (JStr i)"
        using app_of_SomeD [OF Some] assms(1) by (auto simp: store_inv_def list_all_iff card_ids_ok_def app_key_def)
      then show ?thesis
        using assms Nil Some True
        by (auto simp: lookup_request_def get_request_def get_record_find [OF assms(1)] held_card_def id_card_def Let_def
            card_of_record_def holds_card_def app_status_def)
    next
      case False
      then show ?thesis
        using assms Nil Some
        by (auto simp: lookup_request_def get_request_def get_record_find [OF assms(1)] held_card_def id_card_def)
    qed
  qed
qed

lemma edited_card:
  assumes "edit_if found fs s = (Inr x, t)" and "held_card i found (dk_cards s)"
  shows "dk_store t = dk_store s \<and> cs_approvals (dk_cards t) = cs_approvals (dk_cards s) \<and>
    (cs_requests (dk_cards s) = [] \<and> cs_requests (dk_cards t) = [] \<or>
     (\<exists>crd crd' loaded. cs_requests (dk_cards s) = [(i, (crd, loaded))] \<and> edits fs crd = Inr crd' \<and>
        cs_requests (dk_cards t) = [(i, (crd', loaded))]))"
proof (cases found)
  case None
  then show ?thesis using assms by (auto simp: edit_if_def act_simps held_card_def)
next
  case (Some h)
  obtain key crd where h: "h = (key, crd)" by fastforce
  obtain crd' where crd': "edits fs crd = Inr crd'"
    using assms(1) Some h by (cases "edits fs crd") (auto simp: edit_if_def edit_request_def bindA_def act_simps)
  then have "t = (case key of None \<Rightarrow> s | Some i \<Rightarrow> s\<lparr>dk_cards := change_request i (\<lambda>_. crd') (dk_cards s)\<rparr>)"
    using assms(1) Some h by (auto simp: edit_if_def edit_request_def bindA_def act_simps)
  then show ?thesis
    using assms(2) Some h crd' by (cases key) (auto simp: held_card_def change_request_def)
qed

section \<open>The course of the mutation\<close>

definition held_at :: "(nat \<Rightarrow> string) \<Rightarrow> string \<Rightarrow> string \<Rightarrow> approval_store \<Rightarrow> desk \<Rightarrow> bool" where
  "held_at uuid i status st0 s \<longleftrightarrow> settling uuid i status st0 s \<and> app_status (dk_store s) i = Some status"

lemma settled_same: "held_at uuid i status st0 s \<Longrightarrow> same_requests s s' \<Longrightarrow> held_at uuid i status st0 s'"
  using same_keeps(2) by (auto simp: held_at_def same_requests_def)

lemma maybe_held:
  "returns (on_the_way uuid i status st0) (maybe_request c i)
     (\<lambda>found s. on_the_way uuid i status st0 s \<and> held_card i found (dk_cards s))"
  unfolding returns_def
proof (intro allI impI)
  fix s x t
  assume at: "on_the_way uuid i status st0 s" and run: "maybe_request c i s = (Inr x, t)"
  have inv: "store_inv uuid (dk_store s)" using at by (auto simp: on_the_way_def dest: moves_inv)
  obtain found u where first: "lookup_request c i s = (Inr found, u)"
    "(case found of Some crd \<Rightarrow> retA (Some (Some i, crd)) | None \<Rightarrow> bindA (request_record i) (\<lambda>r. retA (map_option (\<lambda>r. (None, imported_request c r)) r))) u = (Inr x, t)"
    using run by (auto simp: maybe_request_def bindA_Inr_iff)
  have u: "dk_store u = dk_store s" "id_card i (dk_cards u)" "held_card i (map_option (Pair (Some i)) found) (dk_cards u)"
    using looked_up [OF inv _ first(1)] at by (simp_all add: on_the_way_def)
  have "t = u \<and> held_card i x (dk_cards u)"
  proof (cases found)
    case None
    then show ?thesis
      using first(2) u(3) record_found [of uuid u i] inv u(1)
      by (cases "app_of (dk_store u) i") (auto simp: bindA_def act_simps held_card_def)
  next
    case (Some crd)
    then show ?thesis using first(2) u(3) by (auto simp: act_simps held_card_def)
  qed
  then show "on_the_way uuid i status st0 t \<and> held_card i x (dk_cards t)"
    using at u by (auto simp: on_the_way_def)
qed

lemma status_edited:
  assumes "list_all (keeps_item ''id'') fs" and "list_all (keeps_item ''status'') fs"
  shows "returns (\<lambda>s. on_the_way uuid i status st0 s \<and> held_card i found (dk_cards s))
     (edit_if found (put ''status'' (JStr status) # fs)) (\<lambda>_. settling uuid i status st0)"
  unfolding returns_def
proof (intro allI impI)
  fix s x t
  assume at: "on_the_way uuid i status st0 s \<and> held_card i found (dk_cards s)"
    and run: "edit_if found (put ''status'' (JStr status) # fs) s = (Inr x, t)"
  have items: "map_of crd' ''status'' = Some (JStr status) \<and> map_of crd' ''id'' = map_of crd ''id''"
    if "edits (put ''status'' (JStr status) # fs) crd = Inr crd'" for crd crd'
    using that edits_item [OF assms(1), of "dset crd ''status'' (JStr status)"] edits_item [OF assms(2), of "dset crd ''status'' (JStr status)"]
    by (auto simp: put_def bindE_Inr_iff)
  show "settling uuid i status st0 t"
  proof (cases "cs_requests (dk_cards s) = []")
    case True
    then show ?thesis
      using edited_card [OF run, of i] at by (auto simp: on_the_way_def settling_def id_card_def holds_card_def)
  next
    case False
    then obtain crd crd' loaded where e: "cs_requests (dk_cards s) = [(i, (crd, loaded))]"
        "edits (put ''status'' (JStr status) # fs) crd = Inr crd'" "cs_requests (dk_cards t) = [(i, (crd', loaded))]"
        "dk_store t = dk_store s" "cs_approvals (dk_cards t) = cs_approvals (dk_cards s)"
      using edited_card [OF run, of i] at by blast
    then have "map_of crd ''id'' = Some (JStr i)" using at by (auto simp: on_the_way_def id_card_def)
    then show ?thesis
      using items [OF e(2)] e at by (simp add: on_the_way_def settling_def id_card_def holds_card_def)
  qed
qed

lemma status_put:
  assumes "app_status st0 i \<noteq> None"
  shows "returns (settling uuid i status st0) (put_status i status) (\<lambda>_. held_at uuid i status st0)"
  unfolding returns_def
proof (intro allI impI)
  fix s x t
  assume at: "settling uuid i status st0 s" and run: "put_status i status s = (Inr x, t)"
  have inv: "store_inv uuid (dk_store s)" using at by (auto simp: settling_def dest: moves_inv)
  have t: "t = s\<lparr>dk_store := update_status default_card_tenant i status (dk_store s)\<rparr>"
    using run by (simp add: put_status_def act_simps)
  have "app_status (dk_store s) i \<noteq> None"
    using at assms unfolding settling_def moves_to_def by (metis option.distinct(1))
  then have "app_status (dk_store t) i = Some status"
    using find_status [of default_card_tenant i i status "st_apps (dk_store s)"]
    by (cases "find (is_application default_card_tenant i) (st_apps (dk_store s))")
      (auto simp: t app_status_def app_of_def update_status_def)
  then show "held_at uuid i status st0 t"
    using at set_status_moves [OF inv, of i status] moves_trans t by (auto simp: held_at_def settling_def)
qed

lemma reason_put:
  "returns (held_at uuid i status st0)
     (if b then bindA (lookup_request c i) (\<lambda>found. edit_if (map_option (\<lambda>crd. (Some i, crd)) found) [put ''reject_reason'' v])
      else retA ()) (\<lambda>_. held_at uuid i status st0)"
proof (cases b)
  case True
  show ?thesis
    unfolding returns_def if_P [OF True]
  proof (intro allI impI)
    fix s x t
    assume at: "held_at uuid i status st0 s"
      and run: "bindA (lookup_request c i) (\<lambda>found. edit_if (map_option (\<lambda>crd. (Some i, crd)) found) [put ''reject_reason'' v]) s = (Inr x, t)"
    obtain found u where parts: "lookup_request c i s = (Inr found, u)"
        "edit_if (map_option (Pair (Some i)) found) [put ''reject_reason'' v] u = (Inr x, t)"
      using run by (auto simp: bindA_Inr_iff)
    have inv: "store_inv uuid (dk_store s)" using at by (auto simp: held_at_def settling_def dest: moves_inv)
    have "id_card i (dk_cards s)" using at by (auto simp: held_at_def settling_def holds_card_def id_card_def)
    note u = looked_up [OF inv this parts(1)]
    then have kept: "holds_card i status (dk_cards u)" using at by (simp add: held_at_def settling_def)
    have edited: "holds_card i status (dk_cards t) \<and> dk_store t = dk_store u"
      using edited_card [OF parts(2)] u kept by (auto simp: holds_card_def put_def)
    then show "held_at uuid i status st0 t" using u at by (simp add: held_at_def settling_def)
  qed
qed (simp add: returns_ret [where P = "\<lambda>_. held_at uuid i status st0"])

lemma edit_task_same: "relA same_requests (edit_task h f)"
  by (auto simp: relA_def same_requests_def edit_task_def act_simps bindA_def split: prod.splits sum.splits option.splits)

lemma task_part_same:
  "relA same_requests (case dl of None \<Rightarrow> retA () | Some h \<Rightarrow> bindA (edit_task h f) (\<lambda>_. retA ()))"
  by (auto intro!: same_steps same_bind edit_task_same split: option.splits)

lemma pass:
  assumes "relA same_requests m"
  shows "(\<And>x. returns (on_the_way uuid i status st0) (f x) R) \<Longrightarrow> returns (on_the_way uuid i status st0) (bindA m f) R"
    and "(\<And>x. returns (settling uuid i status st0) (f x) R) \<Longrightarrow> returns (settling uuid i status st0) (bindA m f) R"
    and "(\<And>x. returns (held_at uuid i status st0) (f x) R) \<Longrightarrow> returns (held_at uuid i status st0) (bindA m f) R"
  by (rule returns_bind, rule returns_same [OF assms], erule (1) same_keeps settled_same, blast)+

lemma mutation_settles:
  assumes "app_status st0 i \<noteq> None"
  shows "returns (on_the_way (dc_uuid c) i (rw_status w) st0) (review_mutation c i w) (\<lambda>_. held_at (dc_uuid c) i (rw_status w) st0)"
proof -
  have fs: "list_all (keeps_item k) (if b then [put ''rejectReason'' r] else [])" if "k \<noteq> ''rejectReason''" for k b r
    using that by (simp add: keeps_parts)
  have kept: "list_all (keeps_item ''id'') (if b then [put ''rejectReason'' r] else [])"
    "list_all (keeps_item ''status'') (if b then [put ''rejectReason'' r] else [])" for b r
    by (rule fs, simp)+
  show ?thesis
    unfolding review_mutation_def
    by (rule returns_bind [OF recorded_review], rule pass(1) [OF same_steps(3)], rule returns_bind [OF maybe_held],
        rule returns_bind [OF status_edited [OF kept]], rule pass(2) [OF task_lookups(2)], rule pass(2) [OF task_part_same],
        rule returns_bind [OF status_put [OF assms]], rule returns_bind [OF reason_put], rule pass(3) [OF same_steps(3)],
        rule pass(3) [OF same_steps(7)], rule pass(3) [OF same_steps(6)], rule returns_ret)
qed

lemma flush_settles:
  "returns (held_at (dc_uuid c) i status st0) (flush_desk c)
     (\<lambda>_ t. moves_to (dc_uuid c) i status st0 (dk_store t) \<and> app_status (dk_store t) i = Some status \<and> t = fresh_desk t)"
  unfolding returns_def
proof (intro allI impI)
  fix s x t
  assume at: "held_at (dc_uuid c) i status st0 s" and run: "flush_desk c s = (Inr x, t)"
  have inv: "store_inv (dc_uuid c) (dk_store s)" using at by (auto simp: held_at_def settling_def dest: moves_inv)
  obtain y u where u: "flush_requests c s = (Inr y, u)"
    using run by (auto simp: flush_desk_def bindA_Inr_iff)
  have "moves_to (dc_uuid c) i status (dk_store s) (dk_store u)"
    using u at flush_cards_moves(2) [OF inv, of i status "dk_cards s" "dc_fp c" "dc_now c"]
    by (auto simp: flush_requests_def held_at_def settling_def split: sum.splits)
  moreover have "dk_store t = dk_store u" using flush_store [of c s] run u by simp
  moreover have "t = fresh_desk t"
    using run by (auto simp: flush_desk_def bindA_Inr_iff act_simps fresh_desk_def)
  ultimately show "moves_to (dc_uuid c) i status st0 (dk_store t) \<and> app_status (dk_store t) i = Some status \<and> t = fresh_desk t"
    using at moves_trans unfolding held_at_def settling_def by (metis moves_to_def)
qed

lemma auto_issue_leaves: "dk_store (snd (auto_issue_credential c i (fresh_desk s))) = dk_store s"
proof -
  have "relA (leaves_requests c) (auto_issue_credential c i)"
    unfolding auto_issue_credential_def
    by (auto intro!: requests.keep_rules requests.keep_issue split: option.splits)
  then have "leaves_requests c (fresh_desk s) (snd (auto_issue_credential c i (fresh_desk s)))" by (simp add: relA_def)
  then show ?thesis by (simp add: leaves_requests_def clean_cards_def empty_session_def)
qed

lemma viewed_on_the_way:
  assumes "store_inv uuid (dk_store s)" and "viewed_request v i (fresh_desk s) = (Inr request, t)"
  shows "on_the_way uuid i status (dk_store s) t \<and> dget request ''status'' = JStr (the (app_status (dk_store s) i)) \<and>
    app_status (dk_store s) i \<noteq> None"
proof -
  obtain h s1 where first: "request_by_id (vc_call v) i (fresh_desk s) = (Inr h, s1)"
    and rest: "bindA (request_record i) (\<lambda>r.
       bindA (case r of None \<Rightarrow> retA (snd h) | Some r \<Rightarrow> bindA (liftE (\<lambda>e. e) (request_view v r)) (\<lambda>d. retA (dmerge (snd h) d))) (\<lambda>request.
       bindA (delivery_by_request (vc_call v) i) (\<lambda>_. retA request))) s1 = (Inr request, t)"
    using assms(2) by (auto simp: viewed_request_def bindA_Inr_iff)
  note held = request_held [OF assms(1) first]
  then obtain old where old: "app_status (dk_store s) i = Some old" "holds_request (vc_call v) i old h s1" by blast
  then obtain r where r: "app_of (dk_store s) i = Some r" "ap_status r = old" by (auto simp: app_status_def)
  have "request_record i s1 = (Inr (Some r), s1)"
    using record_found [of uuid s1 i] assms(1) held r(1) by simp
  then obtain d where d: "request_view v r = Inr d" "request = dmerge (snd h) d" "same_requests s1 t"
    using rest task_lookups(2) [of "vc_call v" i]
    by (auto simp: bindA_def [of "request_record i"] bindA_Inr_iff liftE_Inr act_simps relA_def dest!: spec [of _ s1])
  have "dget request ''status'' = JStr old"
    using d(1) r(2) unfolding d(2) by (auto simp: request_view_def bindE_Inr_iff dget_def dmerge_def)
  then show ?thesis
    using held old d(3) moves_refl [OF assms(1), of i status]
    by (auto simp: on_the_way_def same_requests_def holds_request_def id_card_def)
qed

lemma reviewed_record:
  assumes "store_inv (dc_uuid (vc_call v)) (dk_store s)"
    and "review_application_record v skill i decision note (fresh_desk s) = (Inr (status, state), t)"
  shows "moves_to (dc_uuid (vc_call v)) i status (dk_store s) (dk_store t) \<and> app_status (dk_store t) i = Some status \<and>
    map_of review_outcomes decision = Some (status, state)"
proof -
  let ?c = "vc_call v" and ?st = "dk_store s"
  obtain request s1 found s2 where reading: "viewed_request v i (fresh_desk s) = (Inr request, s1)" "imported_task ?c i s1 = (Inr (Some found), s2)"
    and rest: "bindA (request_record i) (\<lambda>r.
         bindA (one_step_allowed v r request (snd found)) (\<lambda>_.
         bindA (liftE py_exn (work_of skill decision note request (snd found))) (\<lambda>w.
         bindA (written ?c (review_mutation ?c i w)) (\<lambda>result.
         bindA (if approves_reuse decision then auto_issue_credential (vc_nested v) i else retA ()) (\<lambda>_. retA result))))) s2 = (Inr (status, state), t)"
    using assms(2) by (auto simp: review_application_record_def bindA_Inr_iff act_simps split: option.splits)
  from rest [THEN bindA_Inr_iff [THEN iffD1]] obtain r u1 where r: "request_record i s2 = (Inr r, u1)"
    and rest1: "bindA (one_step_allowed v r request (snd found)) (\<lambda>_.
         bindA (liftE py_exn (work_of skill decision note request (snd found))) (\<lambda>w.
         bindA (written ?c (review_mutation ?c i w)) (\<lambda>result.
         bindA (if approves_reuse decision then auto_issue_credential (vc_nested v) i else retA ()) (\<lambda>_. retA result)))) u1 = (Inr (status, state), t)"
    by blast
  from rest1 [THEN bindA_Inr_iff [THEN iffD1]] obtain x u2 where allowed: "one_step_allowed v r request (snd found) u1 = (Inr x, u2)"
    and rest2: "bindA (liftE py_exn (work_of skill decision note request (snd found))) (\<lambda>w.
         bindA (written ?c (review_mutation ?c i w)) (\<lambda>result.
         bindA (if approves_reuse decision then auto_issue_credential (vc_nested v) i else retA ()) (\<lambda>_. retA result))) u2 = (Inr (status, state), t)"
    by blast
  have u2: "u2 = s2"
    using r allowed by (auto simp: request_record_def readA_def one_step_allowed_def act_simps split: if_splits)
  from rest2 [THEN bindA_Inr_iff [THEN iffD1]] u2 obtain w where w: "work_of skill decision note request (snd found) = Inr w"
    and rest3: "bindA (written ?c (review_mutation ?c i w)) (\<lambda>result.
         bindA (if approves_reuse decision then auto_issue_credential (vc_nested v) i else retA ()) (\<lambda>_. retA result)) s2 = (Inr (status, state), t)"
    by (auto simp: liftE_Inr)
  from rest3 [THEN bindA_Inr_iff [THEN iffD1]] obtain result s3 where run: "written ?c (review_mutation ?c i w) s2 = (Inr result, s3)"
    and last: "bindA (if approves_reuse decision then auto_issue_credential (vc_nested v) i else retA ()) (\<lambda>_. retA result) s3 = (Inr (status, state), t)"
    by blast
  from run [unfolded written_def, THEN bindA_Inr_iff [THEN iffD1]] obtain s4 where body: "review_mutation ?c i w s2 = (Inr result, s4)"
    and flush: "flush_desk ?c s4 = (Inr (), s3)"
    by (auto simp: bindA_Inr_iff act_simps)
  have work: "map_of review_outcomes decision = Some (rw_status w, rw_state w)"
    using w by (auto simp: work_of_def bindE_Inr_iff Let_def split: option.splits)
  note way = viewed_on_the_way [OF assms(1) reading(1), of "rw_status w"]
  then have "on_the_way (dc_uuid ?c) i (rw_status w) ?st s2"
    using same_keeps(1) task_lookups(4) [of ?c i] reading(2) by (fastforce simp: relA_def)
  then have "held_at (dc_uuid ?c) i (rw_status w) ?st s4"
    using mutation_settles [of ?st i ?c w] way body unfolding returns_def by blast
  then have stored: "moves_to (dc_uuid ?c) i (rw_status w) ?st (dk_store s3)" "app_status (dk_store s3) i = Some (rw_status w)" "s3 = fresh_desk s3"
    using flush_settles [of ?c i "rw_status w" ?st] flush unfolding returns_def by blast+
  have answer: "result = (rw_status w, rw_state w)"
    using body by (auto simp: review_mutation_def bindA_Inr_iff act_simps)
  have "dk_store t = dk_store s3 \<and> result = (status, state)"
  proof (cases "approves_reuse decision")
    case True
    then obtain y where "auto_issue_credential (vc_nested v) i s3 = (Inr y, t)" "result = (status, state)"
      using last by (auto simp: bindA_Inr_iff act_simps)
    then show ?thesis using auto_issue_leaves [of "vc_nested v" i s3] stored(3) by simp
  next
    case False
    then show ?thesis using last by (simp add: act_simps)
  qed
  then show ?thesis using stored answer work by simp
qed

text \<open>C39: a review that succeeds gives the request it names the status of its decision, whatever status it had before, a
  revoked or rejected one included; no other request changes its status, and no audited step of an approval is lost.\<close>

theorem review_overrides_any_status:
  assumes "store_inv uuid (dk_store s)" and "dc_uuid (vc_call v) = uuid" and "app_status (dk_store s) i = Some old"
    and "review_request v skill i given note (fresh_desk s) = (Inr status, t)"
  shows "app_status (dk_store t) i = Some status \<and> map_option fst (map_of review_outcomes (normalized_decision given)) = Some status \<and>
    (\<forall>j. j \<noteq> i \<longrightarrow> app_status (dk_store t) j = app_status (dk_store s) j) \<and>
    keeps_audited (st_cases (dk_store s)) (st_cases (dk_store t))"
proof -
  obtain x where x: "app_of (dk_store s) i = Some x" using assms(3) by (auto simp: app_status_def)
  have rec: "request_record i (fresh_desk s) = (Inr (Some x), fresh_desk s)"
    using record_found [of uuid "fresh_desk s" i] assms(1) x by (simp add: fresh_desk_def)
  have known: "map_of review_outcomes (normalized_decision given) \<noteq> None"
    using assms(4) by (cases "map_of review_outcomes (normalized_decision given) = None") (simp_all add: review_request_def Let_def act_simps)
  have "\<exists>result. review_application_record v skill i (normalized_decision given) note (fresh_desk s) = (Inr result, t) \<and> status = fst result"
    using assms(4) known rec
    by (auto simp: review_request_def Let_def bindA_def [of "request_record i"] bindA_Inr_iff liftE_Inr act_simps)
  then obtain state where "review_application_record v skill i (normalized_decision given) note (fresh_desk s) = (Inr (status, state), t)"
    by (metis prod.collapse)
  from reviewed_record [OF _ this] assms(1,2) show ?thesis by (auto simp: moves_to_def)
qed

definition sample_step_review :: review_call where
  "sample_step_review = \<lparr>vc_call = sample_desk_call ''a1'', vc_nested = sample_desk_call ''a2'', vc_assets = [], vc_view = (\<lambda>_. Inr [])\<rparr>"

text \<open>A revoked grant is granted again.\<close>

lemma sample_revoked_review:
  "fst (review_request sample_step_review ''application.resource.review'' ''q1'' ''approve'' [] (fresh_desk (sample_desk ''revoked''))) = Inr ''granted''"
  by code_simp

lemma review_overrides_any_status_witness:
  "app_status (dk_store (sample_desk ''revoked'')) ''q1'' = Some ''revoked'' \<and>
   (case review_request sample_step_review ''application.resource.review'' ''q1'' ''approve'' [] (fresh_desk (sample_desk ''revoked'')) of
      (r, t) \<Rightarrow> app_status (dk_store t) ''q1'' = Some ''granted'')"
proof -
  have old: "app_status (dk_store (sample_desk ''revoked'')) ''q1'' = Some ''revoked''" by code_simp
  obtain t where run: "review_request sample_step_review ''application.resource.review'' ''q1'' ''approve'' [] (fresh_desk (sample_desk ''revoked'')) = (Inr ''granted'', t)"
    using sample_revoked_review by (metis prod.collapse)
  have "dc_uuid (vc_call sample_step_review) = dc_uuid (sample_desk_call ''a'')" by (simp add: sample_step_review_def sample_desk_call_def)
  from review_overrides_any_status [OF sample_desk_inv this old run] old run show ?thesis by simp
qed

text \<open>The share type of the stored resource asks for two levels.\<close>

definition sample_two_levels :: review_call where
  "sample_two_levels = sample_step_review\<lparr>vc_assets := [\<lparr>ra_id = ''r1'', ra_code = None, ra_access = JObj [(''share_type'', JInt 2)]\<rparr>]\<rparr>"

definition conditional_desk :: desk where
  "conditional_desk = (sample_desk ''pending'')\<lparr>dk_store := (dk_store (sample_desk ''pending''))\<lparr>st_apps :=
     map (\<lambda>r. r\<lparr>ap_payload := ap_payload r @ [(''resourceId'', JStr ''r1'')]\<rparr>) (st_apps (dk_store (sample_desk ''pending'')))\<rparr>\<rparr>"

lemma conditional_needs_two_levels_witness:
  "dk_store (snd (review_request sample_two_levels ''application.resource.review'' ''q1'' ''approve'' [] (fresh_desk conditional_desk))) =
   dk_store conditional_desk"
proof -
  have inv: "store_inv (dc_uuid (sample_desk_call ''a'')) (dk_store conditional_desk)"
    using sample_desk_inv [of "''pending''"]
    by (simp add: conditional_desk_def sample_desk_def store_inv_def unique_on_def card_ids_ok_def app_key_def)
  have found: "app_of (dk_store conditional_desk) ''q1'' = Some (hd (st_apps (dk_store conditional_desk)))" by code_simp
  have share: "shared_type_for (ap_payload (hd (st_apps (dk_store conditional_desk)))) (share_type_by_resource (vc_assets sample_two_levels)) = Some 2"
    by code_simp
  show ?thesis using conditional_needs_two_levels [OF inv found share prod.collapse [symmetric]] by blast
qed

section \<open>Credentials of imported deliveries\<close>

definition imported_only :: "delivery_db \<Rightarrow> string \<Rightarrow> bool" where
  "imported_only db i \<longleftrightarrow> list_all (\<lambda>t. dt_application t = i \<longrightarrow> \<not> is_runtime_delivery_payload (dt_payload t)) (dv_tasks db)"

lemma imported_lookup:
  assumes "imported_only (dk_db s) i" and "dk_tasks s = []" and "delivery_by_request c i s = (Inr found, t)"
  shows "t = s \<and> (\<forall>h. found = Some h \<longrightarrow> fst h = None)"
proof -
  have none: "found = None \<and> u = s" if run: "get_delivery_by_request c i s = (Inr found, u)" for found u
  proof -
    obtain d where d: "get_task_by_application (dk_db s) default_card_tenant i = Inr d" "track_task c d s = (Inr found, u)"
      using run assms(2) by (auto simp: get_delivery_by_request_def bindA_Inr_iff act_simps readA_def)
    have "\<not> is_runtime_delivery_payload (dt_payload x)" if "d = Some x" for x
      using d(1) that assms(1) by (auto simp: get_task_by_application_def imported_only_def list_all_iff dest!: found_row_in)
    then show ?thesis using d(2) by (cases d) (auto simp: track_task_def act_simps)
  qed
  obtain g u where g: "get_delivery_by_request c i s = (Inr g, u)"
    and rest: "(case g of Some h \<Rightarrow> retA (Some h) | None \<Rightarrow> imported_task c i) u = (Inr found, t)"
    using assms(3) by (auto simp: delivery_by_request_def bindA_Inr_iff)
  then have "imported_task c i s = (Inr found, t)" using none [OF g] by simp
  then show ?thesis
    by (auto simp: imported_task_def bindA_Inr_iff readA_def act_simps liftE_Inr split: option.splits)
qed

lemma request_by_id_tasks: "dk_tasks (snd (request_by_id c i s)) = dk_tasks s"
proof -
  have "relA (\<lambda>a b. dk_tasks b = dk_tasks a) (request_by_id c i)"
    unfolding request_by_id_def request_record_def
    by (rule relA_bind)
      (auto simp: relA_def lookup_request_def readA_def act_simps bindA_def split: sum.splits option.splits)
  then show ?thesis by (simp add: relA_def)
qed

text \<open>What is issued through a card that is not tracked leaves only its event.\<close>

lemma untracked_issue:
  assumes "clean_cards (dc_fp c) (dk_cards s)" and "dk_tasks s = []" and "fst h = None"
    and "written c (issue_mutation c i h again) s = (Inr k, t)"
  shows "dk_db t = dk_db s \<and> dk_store t = dk_store s \<and> dk_feed t = dk_feed s @ [(''credential.issue'', i, ''ok'', dc_actor c)]"
proof -
  obtain u where body: "issue_mutation c i h again s = (Inr k, u)" and flush: "flush_desk c u = (Inr (), t)"
    using assms(4) by (auto simp: written_def bindA_Inr_iff act_simps)
  have same: "w = s" if "edit_task h f s = (Inr x, w)" for f x w
    using that assms(3) by (auto simp: edit_task_def act_simps bindA_def split: prod.splits sum.splits)
  have u: "u = s\<lparr>dk_feed := dk_feed s @ [(''credential.issue'', i, ''ok'', dc_actor c)]\<rparr>"
    using body by (auto simp: issue_mutation_def Let_def bindA_Inr_iff act_simps feed_desk_def dest!: same)
  have "flush_requests c u = (Inr (), u)"
    using flush_clean [of "dc_fp c" "dk_cards u"] assms(1) u by (simp add: flush_requests_def)
  then have "t = fresh_desk u"
    using flush u assms(2) by (simp add: flush_desk_def bindA_def act_simps)
  then show ?thesis by (simp add: u fresh_desk_def)
qed

text \<open>C40: a credential that is issued for a request whose delivery was imported is answered to the caller and announced
  in the audit feed, but nothing of it is stored.\<close>

theorem issue_for_import_is_not_stored:
  assumes "imported_only (dk_db s) i" and "issue_credential c i again (fresh_desk s) = (Inr k, t)" and "is_via k \<noteq> ''cached''"
  shows "dk_db t = dk_db s \<and> dk_store t = dk_store s \<and> dk_feed t = dk_feed s @ [(''credential.issue'', i, ''ok'', dc_actor c)]"
proof -
  obtain request s1 where request: "request_by_id c i (fresh_desk s) = (Inr request, s1)"
    and rest: "bindA (delivery_to_issue c i) (\<lambda>h.
       bindA (liftE py_exn (str_in (dget (snd request) ''status'') approved_states)) (\<lambda>approved.
         if \<not> approved then throwA (invalid_state (''request '' @ i @ '' not approved yet; current status='' @ py_str (dget (snd request) ''status'')))
         else bindA (liftE py_exn (issued_credential c i (snapshot_of (snd h)))) (\<lambda>existing.
              case (existing, again) of
                (Some credential, False) \<Rightarrow>
                  bindA (liftE py_exn (json_get (dget_or (snd h) ''accessGrantSnapshot'' (JObj [])) ''issued_audit_id'')) (\<lambda>audit.
                    retA \<lparr>is_credential = credential, is_audit = audit, is_via = ''cached''\<rparr>)
              | _ \<Rightarrow> written c (issue_mutation c i h (existing \<noteq> None))))) s1 = (Inr k, t)"
    using assms(2) [unfolded issue_credential_def, THEN bindA_Inr_iff [THEN iffD1]] by blast
  have "leaves_requests c (fresh_desk s) s1" "reads (fresh_desk s) s1"
    using requests.keep_request(1) [of c i] request_lookups(1) [of c i] request by (auto simp: relA_def dest!: spec [of _ "fresh_desk s"])
  then have s1: "clean_cards (dc_fp c) (dk_cards s1)" "dk_store s1 = dk_store s" "dk_db s1 = dk_db s" "dk_feed s1 = dk_feed s"
    by (simp_all add: leaves_requests_def reads_def clean_cards_def empty_session_def fresh_desk_def)
  have tasks: "dk_tasks s1 = []" using request_by_id_tasks [of c i "fresh_desk s"] request by (simp add: fresh_desk_def)
  from rest [THEN bindA_Inr_iff [THEN iffD1]] obtain h s2 where h: "delivery_to_issue c i s1 = (Inr h, s2)"
    and tail: "bindA (liftE py_exn (str_in (dget (snd request) ''status'') approved_states)) (\<lambda>approved.
         if \<not> approved then throwA (invalid_state (''request '' @ i @ '' not approved yet; current status='' @ py_str (dget (snd request) ''status'')))
         else bindA (liftE py_exn (issued_credential c i (snapshot_of (snd h)))) (\<lambda>existing.
              case (existing, again) of
                (Some credential, False) \<Rightarrow>
                  bindA (liftE py_exn (json_get (dget_or (snd h) ''accessGrantSnapshot'' (JObj [])) ''issued_audit_id'')) (\<lambda>audit.
                    retA \<lparr>is_credential = credential, is_audit = audit, is_via = ''cached''\<rparr>)
              | _ \<Rightarrow> written c (issue_mutation c i h (existing \<noteq> None)))) s2 = (Inr k, t)"
    by blast
  have held: "s2 = s1 \<and> fst h = None"
    using h imported_lookup [of s1 i c] assms(1) s1(3) tasks
    by (auto simp: delivery_to_issue_def bindA_Inr_iff act_simps split: option.splits if_splits)
  obtain existing where e: "(case (existing, again) of
                (Some credential, False) \<Rightarrow>
                  bindA (liftE py_exn (json_get (dget_or (snd h) ''accessGrantSnapshot'' (JObj [])) ''issued_audit_id'')) (\<lambda>audit.
                    retA \<lparr>is_credential = credential, is_audit = audit, is_via = ''cached''\<rparr>)
              | _ \<Rightarrow> written c (issue_mutation c i h (existing \<noteq> None))) s2 = (Inr k, t)"
    using tail by (auto simp: bindA_Inr_iff liftE_Inr act_simps split: if_splits)
  have "written c (issue_mutation c i h (existing \<noteq> None)) s1 = (Inr k, t)"
    using e assms(3) held by (cases existing; cases again) (auto simp: bindA_Inr_iff act_simps)
  from untracked_issue [OF s1(1) tasks _ this] held s1 show ?thesis by simp
qed

definition imported_desk :: desk where
  "imported_desk = (sample_desk ''granted'')\<lparr>dk_db := (dk_db (sample_desk ''granted''))\<lparr>dv_tasks :=
     [sample_task\<lparr>dt_payload := [(''kind'', JStr ''apply_grant'')]\<rparr>]\<rparr>\<rparr>"

lemma issue_for_import_is_not_stored_witness:
  "\<exists>k t. issue_credential (sample_desk_call ''a1'') ''q1'' False (fresh_desk imported_desk) = (Inr k, t) \<and> dk_db t = dk_db imported_desk"
proof -
  have "case issue_credential (sample_desk_call ''a1'') ''q1'' False (fresh_desk imported_desk) of
      (Inl e, t) \<Rightarrow> False | (Inr k, t) \<Rightarrow> is_via k = ''auto-on-approval''" by code_simp
  then obtain k t where run: "issue_credential (sample_desk_call ''a1'') ''q1'' False (fresh_desk imported_desk) = (Inr k, t)"
      "is_via k = ''auto-on-approval''"
    by (auto split: prod.splits sum.splits)
  have only: "imported_only (dk_db imported_desk) ''q1''"
    by (simp add: imported_only_def imported_desk_def sample_desk_def sample_task_def is_runtime_delivery_payload_def)
  show ?thesis using issue_for_import_is_not_stored [OF only run(1)] run by auto
qed

end
