(* ===== verification/Spec2Isabelle.thy ===== *)
theory Spec2Isabelle
  imports RequestFlow FormFill FormJson FlowSeed FlowScope TemplateRepo ObjectionSafe ConditionalSafe PipelineTrace MaskingSafe AnchorDrain
    SessionSafe AuthSessionSafe AuditScope AuditFlight CatalogAnswers NationalSafe ChannelSafe AdapterSafe SupplyDemandSafe RecoSafe GrantSafe ReviewSafe
begin

text \<open>
  A verification development of the core of the platform: a Python service through which government
  departments catalogue data, ask each other for it, approve, deliver and dispute it. A skill is a named
  capability. Its call goes through the resolution of the caller's role, the policy check and the write
  pipeline, which writes audit events before and after the handler; the handler works on repositories,
  each a few tables, and on templates that say which approval flow and which form apply.

  \<^bold>\<open>Conventions.\<close> \<^theory_text>\<open>Prelude\<close> has JSON values, Python's dictionaries, truth values and texts (the bytes
  of UTF-8), and errors as values of a sum; \<^theory_text>\<open>Actions\<close> has computations that change a state and may
  raise, where what was committed before an exception stays. \<^theory_text>\<open>Tables\<close> has tables as lists of rows and
  the contracts components share, as locales: \<^theory_text>\<open>guarded_machine\<close> (rows move along a table of statuses),
  \<^theory_text>\<open>template_store\<close> (draft, preview, live) and \<^theory_text>\<open>append_only\<close>. Each is interpreted on the model's own
  definitions, in the theory that proves its laws. A repository method is one transaction. Fresh
  identifiers come from an injective numbering \<open>uuid\<close>, times from \<open>now\<close>; digests, the network, the
  keyed hash and the printed form of JSON are arguments. \<^theory_text>\<open>Labels\<close> has the Chinese texts of the code.
  All paths below are under \<^verbatim>\<open>src/zw_brain\<close>.

  \<^bold>\<open>Templates.\<close> \<^theory_text>\<open>FlowSchema\<close>, \<^theory_text>\<open>FlowReach\<close>, \<^theory_text>\<open>FlowRepo\<close>, \<^theory_text>\<open>FlowLife\<close>, \<^theory_text>\<open>FlowScope\<close>:
  \<^verbatim>\<open>domain/approval_flow_schema.py\<close>, from the validation of a payload and the search for an end node
  to the repository, its invariant and the lookup by scope. \<^theory_text>\<open>FlowWalker\<close>:
  \<^verbatim>\<open>domain/approval_flow_walker.py\<close>, the walk that turns a live template into approval steps, sound and
  terminating. \<^theory_text>\<open>FlowBaseline\<close>, \<^theory_text>\<open>FlowSeed\<close>: \<^verbatim>\<open>domain/approval_flow_baseline.py\<close>. \<^theory_text>\<open>TemplateRepo\<close>,
  \<^theory_text>\<open>FormSchema\<close>, \<^theory_text>\<open>FormJson\<close>: the template repository with the validation as argument, and
  \<^verbatim>\<open>domain/form_schema.py\<close> as its instance and \<^verbatim>\<open>domain/recommendation_rule.py\<close> as another
  (\<^theory_text>\<open>RecoRule\<close>). \<^theory_text>\<open>FieldDerivation\<close>, \<^theory_text>\<open>FormFill\<close>:
  \<^verbatim>\<open>domain/services/field_derivation.py\<close> and \<^verbatim>\<open>form_fill_service.py\<close>, whose fixpoint is reached in
  one pass.

  \<^bold>\<open>Requests and their approval.\<close> \<^theory_text>\<open>ShareType\<close>, \<^theory_text>\<open>RequestFlow\<close>: \<^verbatim>\<open>domain/resource_labels.py\<close> and the
  approval hook of \<^verbatim>\<open>command/handlers/j1/request.py\<close>, which mixes up the two code spaces of share types.
  \<^theory_text>\<open>CardSession\<close>, \<^theory_text>\<open>ApplicationStore\<close>: application records and the identity map of a dispatch
  (\<^verbatim>\<open>domain/repositories/application.py\<close>, \<^verbatim>\<open>command/card_session.py\<close>). \<^theory_text>\<open>CaseTables\<close>, \<^theory_text>\<open>CaseRepo\<close>,
  \<^theory_text>\<open>CaseSafe\<close>: \<^verbatim>\<open>domain/repositories/approval.py\<close>. \<^theory_text>\<open>ConditionalApproval\<close>, \<^theory_text>\<open>ConditionalSafe\<close>: the
  two-level approval (\<^verbatim>\<open>domain/services/conditional_approval.py\<close>, \<^verbatim>\<open>command/handlers/j1/approval.py\<close>),
  where a grant needs both levels. \<^theory_text>\<open>SupplyDemand\<close>, \<^theory_text>\<open>SupplyDemandSafe\<close>:
  \<^verbatim>\<open>domain/repositories/supply_demand.py\<close> and its skills, which share the table of applications.

  \<^bold>\<open>Objections.\<close> \<^theory_text>\<open>ObjectionState\<close>, \<^theory_text>\<open>ObjectionRepo\<close>, \<^theory_text>\<open>ObjectionFlow\<close>, \<^theory_text>\<open>ObjectionSafe\<close>:
  \<^verbatim>\<open>domain/objection_state.py\<close>, \<^verbatim>\<open>domain/repositories/objection.py\<close> and
  \<^verbatim>\<open>command/handlers/j1/objection.py\<close>; a case moves along the table of its dimension, and the two places
  where the code leaves a case stranded.

  \<^bold>\<open>Catalogue.\<close> \<^theory_text>\<open>CatalogRepo\<close>, \<^theory_text>\<open>CatalogFlow\<close>: \<^verbatim>\<open>domain/repositories/catalog.py\<close>,
  \<^verbatim>\<open>command/handlers/j1/catalog_entry.py\<close>, \<^verbatim>\<open>catalog_meta.py\<close> and \<^verbatim>\<open>j2/duplicate_check.py\<close>.
  Besides the skills on entries two others write one, the management skill of the provider and the
  publication of a resource (\<^verbatim>\<open>catalog_meta.py\<close>, \<^verbatim>\<open>resource_api.py\<close>). \<^theory_text>\<open>CatalogInv\<close>, \<^theory_text>\<open>CatalogSafe\<close>,
  \<^theory_text>\<open>CatalogLife\<close>, \<^theory_text>\<open>CatalogAnswers\<close>: what every skill keeps, who approves an entry and which skill does
  without an approval, and what a publication needs. The seeding of the database is not among the skills. \<^theory_text>\<open>LegacyMap\<close>: \<^verbatim>\<open>domain/repositories/legacy_mapping.py\<close>,
  a refinement of sets of candidates.

  \<^bold>\<open>National platform and other systems.\<close> \<^theory_text>\<open>NationalElem\<close>, \<^theory_text>\<open>NationalSafe\<close>: extension elements, their two
  reviews (walked by \<^theory_text>\<open>FlowWalker\<close>) and their publication. \<^theory_text>\<open>NationalChannel\<close>, \<^theory_text>\<open>ChannelSafe\<close>:
  \<^verbatim>\<open>shared/national\<close>, the gate and the escalation of an application; nothing is sent unless everything is
  configured. \<^theory_text>\<open>AdapterRepo\<close>, \<^theory_text>\<open>AdapterSafe\<close>: runs of adapters and mapped objects; recording is
  idempotent.

  \<^bold>\<open>Recommendation.\<close> \<^theory_text>\<open>RecoRule\<close>, \<^theory_text>\<open>RecoEngine\<close>, \<^theory_text>\<open>RecoSafe\<close>:
  \<^verbatim>\<open>domain/recommendation_engine.py\<close>, its rules and its skills. What must not be shared is never suggested, and
  the suggestions are the best candidates as long as the scores are numbers (a weight may be none); a rule
  published again counts once more.

  \<^bold>\<open>Deliveries, grants and credentials.\<close> \<^theory_text>\<open>DeliveryRepo\<close>, \<^theory_text>\<open>DeliveryDesk\<close>, \<^theory_text>\<open>DeliverySkills\<close>,
  \<^theory_text>\<open>Credential\<close>, \<^theory_text>\<open>DeliveryKeeps\<close>, \<^theory_text>\<open>DeliverySafe\<close>, \<^theory_text>\<open>GrantSafe\<close>:
  \<^verbatim>\<open>domain/repositories/delivery.py\<close>, the delivery cards of \<^verbatim>\<open>command/card_session.py\<close> and the skills of
  \<^verbatim>\<open>command/handlers/j1\<close> over deliveries, grants and credentials. No secret is stored, none of these
  skills lifts a revocation and access needs a request that was not refused; a credential issued again is not found again, and a
  receipt delivered twice blocks its card. \<^theory_text>\<open>DeliveryKeeps\<close> carries every relation that the single writes respect
  through all skills.

  \<^bold>\<open>Review in one step.\<close> \<^theory_text>\<open>Review\<close>, \<^theory_text>\<open>ReviewSafe\<close>: \<^verbatim>\<open>_review_request\<close> of
  \<^verbatim>\<open>command/handlers/j1/approval.py\<close> and the approval flow of \<^verbatim>\<open>domain/services/request_service.py\<close>. A request
  that needs two levels is never reviewed in one step; any other is, whatever its status, so that a review lifts
  a revocation; what it issues for an imported request is not stored.

  \<^bold>\<open>Calls.\<close> \<^theory_text>\<open>Permissions\<close>, \<^theory_text>\<open>Policy\<close>: \<^verbatim>\<open>domain/role_codes.py\<close> and \<^verbatim>\<open>domain/policy.py\<close>.
  \<^theory_text>\<open>CallContext\<close>, \<^theory_text>\<open>SessionRole\<close>, \<^theory_text>\<open>SessionSafe\<close>: the role a call acts in
  (\<^verbatim>\<open>shared/session_context.py\<close>, \<^verbatim>\<open>auth_context.py\<close>). \<^theory_text>\<open>AuthSession\<close>, \<^theory_text>\<open>AuthSessionSafe\<close>:
  \<^verbatim>\<open>shared/auth_session.py\<close>, the equivalence of its two stores and the round trip of a stored session.
  \<^theory_text>\<open>Pipeline\<close>, \<^theory_text>\<open>PipelineSafe\<close>, \<^theory_text>\<open>PipelineTrace\<close>: \<^verbatim>\<open>command/pipeline.py\<close>; no handler runs before its
  event is stored, and the exact trail of a write. \<^theory_text>\<open>AuditTrail\<close>, \<^theory_text>\<open>AuditStore\<close>, \<^theory_text>\<open>AuditQuery\<close>,
  \<^theory_text>\<open>AuditQuerySafe\<close>, \<^theory_text>\<open>AuditScope\<close>: events, the audit store and the skills over it, where an emission is one
  step. \<^theory_text>\<open>AuditFlight\<close> splits it: it commits to the store, then to the main table, then fills the buffer, with
  no lock around them, so the moves of other requests come in between. The main table never has an event that the
  store lacks, but the orders of the two can differ.
  \<^theory_text>\<open>AnchorOutbox\<close>, \<^theory_text>\<open>AnchorSafe\<close>, \<^theory_text>\<open>AnchorDrain\<close>: the outbox of anchors under workers that interleave and
  crash. \<^theory_text>\<open>SafeJson\<close>, \<^theory_text>\<open>Masking\<close>, \<^theory_text>\<open>MaskingSafe\<close>: what is dropped before a value is stored, and what
  a reader sees of personal data.

  \<^bold>\<open>Bounds and fuel.\<close> No definition runs on fuel. Loops of the code are structural recursion or come
  with a measure: the searches over nodes with the number of nodes not visited, the derivation with the
  bound the code has. Integers are Python's; where a column or a protocol limits them (versions, counts of
  adapter runs) the limit is written out.

  \<^bold>\<open>Interaction.\<close> The pipeline takes the handler as an argument, so its theorems hold of every skill above;
  the conditional approval is proved through card session, flush and case tables; requests reach the walker
  and the baselines through \<^theory_text>\<open>RequestFlow\<close>; the readiness of the national channel is the argument
  of \<^theory_text>\<open>NationalElem\<close> that \<^theory_text>\<open>NationalChannel\<close> computes.

  \<^bold>\<open>Not modelled.\<close> The entry points (REST, MCP, CLI, A2A), the web front end, the import of the old platform
  and its mappers, assistants that call a language model, projections for the workbench and discovery pages,
  and the repositories whose records only mirror other systems: listed with their reasons in the manifest.
  Column lengths and the collation of the database are not modelled, nor numbers with a fraction in JSON
  payloads, nor concurrency of the handlers of writes, which the write lock serialises; the workers of the outbox
  and the emissions of audit events, which it does not cover, are modelled with all interleavings.
\<close>

end
